(* ===== verification/Prelude.thy ===== *)
theory Prelude
  imports Main "HOL-Library.Char_ord" "HOL-Library.List_Lexorder"
begin

text \<open>
  Shared vocabulary of the development: the error-and-state actions in which the request
  handlers are written, the collection operations the handlers perform on lists of documents,
  and the general lemmas about both. A handler maps a state to a result and the next state;
  a result is \<open>Inl\<close> of an error (a thrown exception) or \<open>Inr\<close> of the value returned.
\<close>

named_theorems action_simps \<open>decomposition of an action's outcome into the outcomes of its parts\<close>
named_theorems keeps_intros \<open>an action keeps an invariant\<close>
named_theorems collection_simps \<open>membership and counting after a collection operation\<close>

section \<open>Actions\<close>

type_synonym ('s, 'e, 'a) action = "'s \<Rightarrow> ('e + 'a) \<times> 's"

definition return :: "'a \<Rightarrow> ('s, 'e, 'a) action" where
  "return x s = (Inr x, s)"

definition throw :: "'e \<Rightarrow> ('s, 'e, 'a) action" where
  "throw e s = (Inl e, s)"

definition andthen :: "('s, 'e, 'a) action \<Rightarrow> ('a \<Rightarrow> ('s, 'e, 'b) action) \<Rightarrow> ('s, 'e, 'b) action" where
  "andthen m f s = (case m s of (Inl e, t) \<Rightarrow> (Inl e, t) | (Inr x, t) \<Rightarrow> f x t)"

definition gets :: "('s \<Rightarrow> 'a) \<Rightarrow> ('s, 'e, 'a) action" where
  "gets g s = (Inr (g s), s)"

definition modify :: "('s \<Rightarrow> 's) \<Rightarrow> ('s, 'e, unit) action" where
  "modify g s = (Inr (), g s)"

text \<open>A \<open>transaction\<close> commits when its body returns and leaves no trace when it throws.\<close>

definition transaction :: "('s, 'e, 'a) action \<Rightarrow> ('s, 'e, 'a) action" where
  "transaction m s = (case m s of (Inl e, t) \<Rightarrow> (Inl e, s) | (Inr x, t) \<Rightarrow> (Inr x, t))"

text \<open>A \<open>catching\<close> handler runs in the state the exception left behind.\<close>

definition catching :: "('s, 'e, 'a) action \<Rightarrow> ('e \<Rightarrow> ('s, 'e, 'a) action) \<Rightarrow> ('s, 'e, 'a) action" where
  "catching m h s = (case m s of (Inl e, t) \<Rightarrow> h e t | (Inr x, t) \<Rightarrow> (Inr x, t))"

text \<open>\<open>catch\<close> with an exception of another kind, and a last step that runs in any case.\<close>

definition handling :: "('s, 'd, 'a) action \<Rightarrow> ('d \<Rightarrow> ('s, 'e, 'a) action) \<Rightarrow> ('s, 'e, 'a) action" where
  "handling m h s = (case m s of (Inl e, t) \<Rightarrow> h e t | (Inr x, t) \<Rightarrow> (Inr x, t))"

definition at_last :: "('s, 'e, 'a) action \<Rightarrow> ('s \<Rightarrow> 's) \<Rightarrow> ('s, 'e, 'a) action" where
  "at_last m f s = (case m s of (r, t) \<Rightarrow> (r, f t))"

text \<open>A pure result of the sum type, as an action.\<close>

definition lift_result :: "'e + 'a \<Rightarrow> ('s, 'e, 'a) action" where
  "lift_result r s = (r, s)"

lemma return_iff [action_simps]: "return x s = (r, t) \<longleftrightarrow> r = Inr x \<and> t = s"
  by (auto simp: return_def)

lemma throw_iff [action_simps]: "throw e s = (r, t) \<longleftrightarrow> r = Inl e \<and> t = s"
  by (auto simp: throw_def)

lemma gets_iff [action_simps]: "gets g s = (r, t) \<longleftrightarrow> r = Inr (g s) \<and> t = s"
  by (auto simp: gets_def)

lemma modify_iff [action_simps]: "modify g s = (r, t) \<longleftrightarrow> r = Inr () \<and> t = g s"
  by (auto simp: modify_def)

lemma lift_result_iff [action_simps]: "lift_result q s = (r, t) \<longleftrightarrow> q = r \<and> t = s"
  by (auto simp: lift_result_def)

lemma andthen_Inr_iff [action_simps]:
  "andthen m f s = (Inr y, t) \<longleftrightarrow> (\<exists>x u. m s = (Inr x, u) \<and> f x u = (Inr y, t))"
  by (auto simp: andthen_def split: prod.splits sum.splits)

lemma andthen_Inl_iff [action_simps]:
  "andthen m f s = (Inl e, t) \<longleftrightarrow>
     m s = (Inl e, t) \<or> (\<exists>x u. m s = (Inr x, u) \<and> f x u = (Inl e, t))"
  by (auto simp: andthen_def split: prod.splits sum.splits)

lemma transaction_Inr_iff [action_simps]:
  "transaction m s = (Inr y, t) \<longleftrightarrow> m s = (Inr y, t)"
  by (auto simp: transaction_def split: prod.splits sum.splits)

lemma transaction_Inl_iff [action_simps]:
  "transaction m s = (Inl e, t) \<longleftrightarrow> t = s \<and> (\<exists>u. m s = (Inl e, u))"
  by (auto simp: transaction_def split: prod.splits sum.splits)

lemma catching_Inr_iff [action_simps]:
  "catching m h s = (Inr y, t) \<longleftrightarrow>
     m s = (Inr y, t) \<or> (\<exists>e u. m s = (Inl e, u) \<and> h e u = (Inr y, t))"
  by (auto simp: catching_def split: prod.splits sum.splits)

lemma catching_Inl_iff [action_simps]:
  "catching m h s = (Inl d, t) \<longleftrightarrow> (\<exists>e u. m s = (Inl e, u) \<and> h e u = (Inl d, t))"
  by (auto simp: catching_def split: prod.splits sum.splits)

lemma handling_Inr_iff [action_simps]:
  "handling m h s = (Inr y, t) \<longleftrightarrow>
     m s = (Inr y, t) \<or> (\<exists>e u. m s = (Inl e, u) \<and> h e u = (Inr y, t))"
  by (auto simp: handling_def split: prod.splits sum.splits)

lemma handling_Inl_iff [action_simps]:
  "handling m h s = (Inl d, t) \<longleftrightarrow> (\<exists>e u. m s = (Inl e, u) \<and> h e u = (Inl d, t))"
  by (auto simp: handling_def split: prod.splits sum.splits)

text \<open>The same combinators, computed forwards (for evaluating a handler at concrete input).\<close>

lemmas action_eval =
  return_def throw_def andthen_def gets_def modify_def transaction_def catching_def lift_result_def

text \<open>Sequencing of pure results: the first error wins.\<close>

definition result_bind :: "'e + 'a \<Rightarrow> ('a \<Rightarrow> 'e + 'b) \<Rightarrow> 'e + 'b" where
  "result_bind r f = (case r of Inl e \<Rightarrow> Inl e | Inr x \<Rightarrow> f x)"

definition require :: "bool \<Rightarrow> 'e \<Rightarrow> 'e + unit" where
  "require b e = (if b then Inr () else Inl e)"

lemma result_bind_simps [simp]: "result_bind (Inl e) f = Inl e" "result_bind (Inr x) f = f x"
  by (simp_all add: result_bind_def)

lemma result_bind_Inr_iff [action_simps]:
  "result_bind r f = Inr y \<longleftrightarrow> (\<exists>x. r = Inr x \<and> f x = Inr y)"
  by (auto simp: result_bind_def split: sum.splits)

lemma result_bind_Inl_iff [action_simps]:
  "result_bind r f = Inl e \<longleftrightarrow> r = Inl e \<or> (\<exists>x. r = Inr x \<and> f x = Inl e)"
  by (auto simp: result_bind_def split: sum.splits)

lemma require_iff [action_simps]:
  "require b e = Inr u \<longleftrightarrow> b" "require b e = Inl d \<longleftrightarrow> \<not> b \<and> d = e"
  by (auto simp: require_def)

lemma option_Inr_iff [action_simps]:
  "(case v of None \<Rightarrow> Inl e | Some x \<Rightarrow> f x) = Inr y \<longleftrightarrow> (\<exists>x. v = Some x \<and> f x = Inr y)"
  by (cases v) auto

lemma if_Inr_iff [action_simps]:
  "(if b then Inl e else r) = Inr y \<longleftrightarrow> \<not> b \<and> r = Inr y"
  by auto

text \<open>A read-only action returns the state it was given.\<close>

definition reads_only :: "('s, 'e, 'a) action \<Rightarrow> bool" where
  "reads_only m \<longleftrightarrow> (\<forall>s. snd (m s) = s)"

lemma reads_onlyD: "reads_only m \<Longrightarrow> m s = (r, t) \<Longrightarrow> t = s"
  by (metis reads_only_def snd_conv)

text \<open>Invariants.\<close>

definition keeps :: "('s \<Rightarrow> bool) \<Rightarrow> ('s, 'e, 'a) action \<Rightarrow> bool" where
  "keeps I m \<longleftrightarrow> (\<forall>s. I s \<longrightarrow> I (snd (m s)))"

lemma keepsI: "(\<And>s r t. I s \<Longrightarrow> m s = (r, t) \<Longrightarrow> I t) \<Longrightarrow> keeps I m"
  by (metis keeps_def prod.collapse)

lemma keepsD: "keeps I m \<Longrightarrow> m s = (r, t) \<Longrightarrow> I s \<Longrightarrow> I t"
  by (metis keeps_def snd_conv)

lemma keeps_return [keeps_intros]: "keeps I (return x)"
  by (simp add: keeps_def return_def)

lemma keeps_throw [keeps_intros]: "keeps I (throw e)"
  by (simp add: keeps_def throw_def)

lemma keeps_gets [keeps_intros]: "keeps I (gets g)"
  by (simp add: keeps_def gets_def)

lemma keeps_lift_result [keeps_intros]: "keeps I (lift_result r)"
  by (simp add: keeps_def lift_result_def)

lemma keeps_modify: "(\<And>s. I s \<Longrightarrow> I (g s)) \<Longrightarrow> keeps I (modify g)"
  by (simp add: keeps_def modify_def)

lemma keeps_andthen [keeps_intros]:
  "keeps I m \<Longrightarrow> (\<And>x. keeps I (f x)) \<Longrightarrow> keeps I (andthen m f)"
  by (auto simp: keeps_def andthen_def split: prod.splits sum.splits)

lemma keeps_transaction [keeps_intros]: "keeps I m \<Longrightarrow> keeps I (transaction m)"
  by (auto simp: keeps_def transaction_def split: prod.splits sum.splits)

lemma keeps_catching [keeps_intros]:
  "keeps I m \<Longrightarrow> (\<And>e. keeps I (h e)) \<Longrightarrow> keeps I (catching m h)"
  by (auto simp: keeps_def catching_def split: prod.splits sum.splits)

lemma keeps_handling [keeps_intros]:
  "keeps I m \<Longrightarrow> (\<And>e. keeps I (h e)) \<Longrightarrow> keeps I (handling m h)"
  by (auto simp: keeps_def handling_def split: prod.splits sum.splits)

lemma keeps_if [keeps_intros]:
  "(b \<Longrightarrow> keeps I m) \<Longrightarrow> (\<not> b \<Longrightarrow> keeps I n) \<Longrightarrow> keeps I (if b then m else n)"
  by simp

lemma keeps_option [keeps_intros]:
  "keeps I m \<Longrightarrow> (\<And>x. keeps I (f x)) \<Longrightarrow> keeps I (case v of None \<Rightarrow> m | Some x \<Rightarrow> f x)"
  by (cases v) auto

section \<open>Collections\<close>

text \<open>
  A MongoDB collection is a list of documents in insertion order. A query is a predicate;
  \<open>find\<close> of the list library is \<open>findOne\<close>. Only the first match is updated or deleted by
  the \<open>One\<close> operations.
\<close>

definition countDocuments :: "('a \<Rightarrow> bool) \<Rightarrow> 'a list \<Rightarrow> int" where
  "countDocuments q xs = int (length (filter q xs))"

fun updateOne :: "('a \<Rightarrow> bool) \<Rightarrow> ('a \<Rightarrow> 'a) \<Rightarrow> 'a list \<Rightarrow> 'a list" where
  "updateOne q g [] = []"
| "updateOne q g (x # xs) = (if q x then g x # xs else x # updateOne q g xs)"

definition updateMany :: "('a \<Rightarrow> bool) \<Rightarrow> ('a \<Rightarrow> 'a) \<Rightarrow> 'a list \<Rightarrow> 'a list" where
  "updateMany q g xs = map (\<lambda>x. if q x then g x else x) xs"

fun deleteOne :: "('a \<Rightarrow> bool) \<Rightarrow> 'a list \<Rightarrow> 'a list" where
  "deleteOne q [] = []"
| "deleteOne q (x # xs) = (if q x then xs else x # deleteOne q xs)"

definition deleteMany :: "('a \<Rightarrow> bool) \<Rightarrow> 'a list \<Rightarrow> 'a list" where
  "deleteMany q xs = filter (\<lambda>x. \<not> q x) xs"

lemma find_SomeD: "find q xs = Some x \<Longrightarrow> x \<in> set xs \<and> q x"
  by (auto simp: find_Some_iff)

lemma find_append: "find q (xs @ ys) = (case find q xs of None \<Rightarrow> find q ys | Some x \<Rightarrow> Some x)"
  by (induction xs) auto

lemma find_updateOne_frame:
  "(\<And>x. p x \<Longrightarrow> \<not> q x \<and> \<not> q (g x)) \<Longrightarrow> find q (updateOne p g xs) = find q xs"
  by (induction xs) auto

lemma find_None_iff_none: "find q xs = None \<longleftrightarrow> (\<forall>x \<in> set xs. \<not> q x)"
  by (auto simp: find_None_iff)

lemma set_updateOne: "find q xs = Some d \<Longrightarrow> set (updateOne q g xs) \<subseteq> insert (g d) (set xs)"
  by (induction xs) (auto split: if_splits)

lemma updateOne_no_match: "find q xs = None \<Longrightarrow> updateOne q g xs = xs"
  by (induction xs) (auto split: if_splits)

lemma set_updateOneD:
  "x \<in> set (updateOne q g xs) \<Longrightarrow> x \<in> set xs \<or> (\<exists>d \<in> set xs. q d \<and> x = g d)"
  by (induction xs) (auto split: if_splits)

lemma map_updateOne_same: "(\<And>x. h (g x) = h x) \<Longrightarrow> map h (updateOne q g xs) = map h xs"
  by (induction xs) auto

lemma set_deleteOne_subset: "set (deleteOne q xs) \<subseteq> set xs"
  by (induction xs) auto

lemma deleteOne_no_match: "find q xs = None \<Longrightarrow> deleteOne q xs = xs"
  by (induction xs) (auto split: if_splits)

lemma set_updateMany: "set (updateMany q g xs) = (\<lambda>x. if q x then g x else x) ` set xs"
  by (simp add: updateMany_def)

lemma count_nonneg [simp]: "0 \<le> countDocuments q xs"
  by (simp add: countDocuments_def)

lemma count_Nil [collection_simps]: "countDocuments q [] = 0"
  by (simp add: countDocuments_def)

lemma count_Cons [collection_simps]:
  "countDocuments q (x # xs) = (if q x then 1 else 0) + countDocuments q xs"
  by (simp add: countDocuments_def)

lemma count_append [collection_simps]:
  "countDocuments q (xs @ ys) = countDocuments q xs + countDocuments q ys"
  by (simp add: countDocuments_def)

lemma count_updateOne:
  "find p xs = Some d \<Longrightarrow>
     countDocuments q (updateOne p g xs) =
       countDocuments q xs - (if q d then 1 else 0) + (if q (g d) then 1 else 0)"
  by (induction xs) (auto simp: collection_simps split: if_splits)

lemma count_updateOne_frame:
  "(\<And>x. p x \<Longrightarrow> q (g x) = q x) \<Longrightarrow> countDocuments q (updateOne p g xs) = countDocuments q xs"
  by (induction xs) (auto simp: collection_simps)

lemma count_updateMany_le:
  "(\<And>x. p x \<Longrightarrow> q (g x) \<Longrightarrow> q x) \<Longrightarrow> countDocuments q (updateMany p g xs) \<le> countDocuments q xs"
  by (induction xs) (auto simp: collection_simps updateMany_def)

lemma count_updateMany_frame:
  "(\<And>x. p x \<Longrightarrow> q (g x) = q x) \<Longrightarrow> countDocuments q (updateMany p g xs) = countDocuments q xs"
  by (induction xs) (auto simp: collection_simps updateMany_def)

lemma count_deleteOne:
  "find p xs = Some d \<Longrightarrow>
     countDocuments q (deleteOne p xs) = countDocuments q xs - (if q d then 1 else 0)"
  by (induction xs) (auto simp: collection_simps split: if_splits)

lemma count_deleteOne_le: "countDocuments q (deleteOne p xs) \<le> countDocuments q xs"
  by (induction xs) (auto simp: collection_simps)

lemma count_deleteMany_le: "countDocuments q (deleteMany p xs) \<le> countDocuments q xs"
  by (induction xs) (auto simp: collection_simps deleteMany_def)

lemma count_mono:
  "(\<And>x. x \<in> set xs \<Longrightarrow> p x \<Longrightarrow> q x) \<Longrightarrow> countDocuments p xs \<le> countDocuments q xs"
  by (induction xs) (auto simp: collection_simps)

lemma count_pos: "x \<in> set xs \<Longrightarrow> q x \<Longrightarrow> 1 \<le> countDocuments q xs"
proof (induction xs)
  case (Cons a xs)
  have "0 \<le> countDocuments q xs" by (rule count_nonneg)
  with Cons show ?case by (auto simp: collection_simps)
qed simp

lemma count_zero_iff: "countDocuments q xs = 0 \<longleftrightarrow> (\<forall>x \<in> set xs. \<not> q x)"
  by (auto simp: countDocuments_def filter_empty_conv)

lemma filter_updateOne_frame:
  "(\<And>x. p x \<Longrightarrow> \<not> q x) \<Longrightarrow> (\<And>x. p x \<Longrightarrow> \<not> q (g x)) \<Longrightarrow>
     filter q (updateOne p g xs) = filter q xs"
  by (induction xs) auto

lemma filter_deleteOne_frame: "(\<And>x. p x \<Longrightarrow> \<not> q x) \<Longrightarrow> filter q (deleteOne p xs) = filter q xs"
  by (induction xs) auto

lemma distinct_updateOne:
  "distinct (map h xs) \<Longrightarrow> (\<And>x. h (g x) = h x) \<Longrightarrow> distinct (map h (updateOne q g xs))"
  by (simp add: map_updateOne_same)

lemma distinct_deleteOne: "distinct (map h xs) \<Longrightarrow> distinct (map h (deleteOne q xs))"
  by (induction xs) (use set_deleteOne_subset in fastforce)+

text \<open>
  Looking up a document by a key that no two documents share finds the document an update
  or a deletion has just touched.
\<close>

lemma find_updateOne_key:
  "find p xs = Some d \<Longrightarrow> (\<And>x. h (g x) = h x) \<Longrightarrow> distinct (map h xs) \<Longrightarrow>
     find (\<lambda>x. h x = h d) (updateOne p g xs) = Some (g d)"
proof (induction xs)
  case (Cons a xs)
  show ?case
  proof (cases "p a")
    case False
    with Cons.prems have f: "find p xs = Some d" by simp
    then have "d \<in> set xs" by (simp add: find_SomeD)
    with Cons.prems(3) have "h a \<noteq> h d" by auto
    with False Cons.IH [OF f Cons.prems(2)] Cons.prems(3) show ?thesis by simp
  qed (use Cons.prems in simp)
qed simp

lemma find_deleteOne_key:
  "find p xs = Some d \<Longrightarrow> distinct (map h xs) \<Longrightarrow> find (\<lambda>x. h x = h d) (deleteOne p xs) = None"
  by (induction xs) (auto simp: find_None_iff image_iff split: if_splits dest!: find_SomeD)

lemma set_updateOne_key:
  "find q xs = Some d \<Longrightarrow> distinct (map h xs) \<Longrightarrow> (\<And>x. h (g x) = h x) \<Longrightarrow>
     x \<in> set (updateOne q g xs) \<longleftrightarrow> (x \<in> set xs \<and> h x \<noteq> h d) \<or> x = g d"
proof (induction xs)
  case (Cons a xs)
  then show ?case using find_SomeD [of q xs d] by (cases "q a") (auto simp: rev_image_eqI)
qed simp

lemma set_deleteOne_key:
  "find q xs = Some d \<Longrightarrow> distinct (map h xs) \<Longrightarrow>
     x \<in> set (deleteOne q xs) \<longleftrightarrow> x \<in> set xs \<and> h x \<noteq> h d"
proof (induction xs)
  case (Cons a xs)
  then show ?case using find_SomeD [of q xs d] by (cases "q a") (auto simp: rev_image_eqI)
qed simp

lemma updateOne_member: "find q xs = Some d \<Longrightarrow> g d \<in> set (updateOne q g xs)"
  by (induction xs) (auto split: if_splits)

lemma key_unique: "distinct (map h xs) \<Longrightarrow> x \<in> set xs \<Longrightarrow> y \<in> set xs \<Longrightarrow> h x = h y \<Longrightarrow> x = y"
  by (metis distinct_map inj_onD)

lemma find_unique:
  assumes "distinct (map h xs)" "d \<in> set xs" "q d" "\<And>x. q x \<Longrightarrow> h x = h d"
  shows "find q xs = Some d"
proof (cases "find q xs")
  case None
  then show ?thesis using assms(2,3) by (auto simp: find_None_iff)
next
  case (Some x)
  then have "x \<in> set xs" "h x = h d" using assms(4) by (auto dest: find_SomeD)
  then have "x = d" using key_unique [OF assms(1)] assms(2) by blast
  with Some show ?thesis by simp
qed

section \<open>Options, numbers\<close>

definition option_default :: "'a \<Rightarrow> 'a option \<Rightarrow> 'a" where
  "option_default d v = (case v of None \<Rightarrow> d | Some x \<Rightarrow> x)"

lemma option_default_simps [simp]: "option_default d None = d" "option_default d (Some x) = x"
  by (simp_all add: option_default_def)

definition MAX_SAFE_INTEGER :: int where
  "MAX_SAFE_INTEGER = 9007199254740991"

definition isSafeInteger :: "int \<Rightarrow> bool" where
  "isSafeInteger n \<longleftrightarrow> - MAX_SAFE_INTEGER \<le> n \<and> n \<le> MAX_SAFE_INTEGER"

lemma div_mult_floor: "0 < (k::int) \<Longrightarrow> n div k * k \<le> n \<and> n < n div k * k + k"
  using div_mult_mod_eq [of n k] pos_mod_bound [of k n] pos_mod_sign [of k n] by linarith

text \<open>A run that does not throw is a result; used where a run is evaluated on a concrete state.\<close>

lemma InrI: "\<not> isl (fst r) \<Longrightarrow> r = (Inr (projr (fst r)), snd r)"
  by (metis prod.collapse sum.collapse(2))

end
