(* ===== verification/Domain.thy ===== *)
theory Domain
  imports Prelude
begin

text \<open>
  The data the back end keeps: enumerations, one record per Mongoose schema with the fields
  the modelled handlers read or write, the exceptions they throw, and the \<open>world\<close> record
  holding every collection, the object storage and the mail handed to the sender.
  An ObjectId is a natural number (its 96 bits), a \<open>Date\<close> is its number of milliseconds,
  an optional property is an \<open>option\<close>. Field names carry a prefix for their schema.
\<close>

type_synonym oid = nat
type_synonym date = int
type_synonym bytes = "nat list"

section \<open>Enumerations\<close>

datatype role = COMPANY_OWNER | COMPANY_MEMBER

datatype plan_code = FREE | BASIC | PREMIUM

datatype billing_currency = USD

datatype billing_interval = MONTH

datatype platform_status = PLATFORM_ACTIVE | PLATFORM_SUSPENDED

datatype platform_reason = SECURITY_REVIEW | POLICY_REVIEW | OPERATIONAL_HOLD | REVIEW_COMPLETED

datatype invitation_status = INV_PENDING | INV_ACCEPTED | INV_REVOKED | INV_EXPIRED

datatype file_type = CSV | XLS | XLSX

datatype file_visibility = COMPANY_WIDE | RESTRICTED

datatype payment_access = UNMANAGED | DEFERRED | ACTIVE | SUSPENDED

datatype payment_sync_issue =
  SYNC_NONE | RETRY_REQUIRED | RECONCILIATION_REQUIRED | PLAN_CONFLICT

datatype usage_state = USAGE_PENDING | USAGE_SUBMITTED | USAGE_RECONCILIATION_REQUIRED

datatype stripe_status =
  Incomplete | Incomplete_Expired | Trialing | Stripe_Active | Past_Due | Canceled | Unpaid | Paused

datatype category = Cat_Email | Cat_Iban | Cat_Ip | Cat_Payment_Card | Cat_Phone

datatype evidence = Format_Valid | Checksum_Valid

datatype coverage = Supported | Limited

datatype guard_kind = Scan | Sanitize

datatype guard_state = Queued | Processing | Completed | Failed | Cancelled

datatype guard_phase =
  Ph_Queued | Ph_Fetching | Ph_Scanning | Ph_Transforming | Ph_Publishing
  | Ph_Completed | Ph_Failed | Ph_Cancelled

datatype guard_error =
  Guard_Invalid_Workbook | Guard_Limit_Exceeded | Guard_Timeout | Guard_Access_Revoked
  | Guard_Storage_Unavailable | Guard_Worker_Unavailable | Guard_Internal_Error
  | Guard_Profile_Unsupported | Guard_Selection_Invalid | Guard_Source_Changed
  | Guard_Output_Verification_Failed | Guard_Quota_Exceeded

text \<open>The order \<open>free < basic < premium\<close> of the downgrade check's rank table.\<close>

fun plan_rank :: "plan_code \<Rightarrow> nat" where
  "plan_rank FREE = 0"
| "plan_rank BASIC = 1"
| "plan_rank PREMIUM = 2"

lemma plan_rank_inj: "plan_rank a = plan_rank b \<Longrightarrow> a = b"
  by (cases a; cases b) auto

instantiation plan_code :: linorder
begin

definition less_eq_plan_code :: "plan_code \<Rightarrow> plan_code \<Rightarrow> bool" where
  "less_eq_plan_code a b \<longleftrightarrow> plan_rank a \<le> plan_rank b"

definition less_plan_code :: "plan_code \<Rightarrow> plan_code \<Rightarrow> bool" where
  "less_plan_code a b \<longleftrightarrow> plan_rank a < plan_rank b"

instance
  by standard (auto simp: less_eq_plan_code_def less_plan_code_def plan_rank_inj)

end

section \<open>Exceptions\<close>

datatype error_body =
    Message string
  | Plan_Employee_Limit plan_code int int int
  | Plan_File_Limit plan_code int int
  | File_Limit_Reached int
  | Employee_Limit_Reached int int int
  | Code string
  | Coded string string
  | Coded_Request string string string

datatype exception_class =
    BadRequest | Unauthorized | Forbidden | NotFound | Conflict | PayloadTooLarge
  | TooManyRequests | InternalServerError | BadGateway | ServiceUnavailable | GatewayTimeout
  | LeaseBusy | CheckoutMappingPending | PaymentSyncValidation

text \<open>\<open>CompanyLeaseBusyException\<close> extends \<open>ConflictException\<close>; the two others extend
  \<open>ServiceUnavailableException\<close>.\<close>

fun superclass :: "exception_class \<Rightarrow> exception_class" where
  "superclass LeaseBusy = Conflict"
| "superclass CheckoutMappingPending = ServiceUnavailable"
| "superclass PaymentSyncValidation = ServiceUnavailable"
| "superclass c = c"

text \<open>Failures of the Stripe client, by class, and of the database connection.\<close>

datatype stripe_failure =
    StripeConnectionError | StripeRateLimitError | StripeAPIError "int option"
  | StripeInvalidRequestError | StripeAuthenticationError | StripePermissionError
  | StripeCardError | StripeIdempotencyError | StripeOtherError

datatype mongo_failure = MongoNetworkError | MongoLabelledError string | MongoServerError int

datatype error =
    HttpException exception_class error_body
  | StripeFailure stripe_failure
  | MongoFailure mongo_failure
  | DuplicateKey string
  | UnknownCommit
  | StorageFailure
  | PlainError string
  | ScanError guard_error

fun instanceof :: "error \<Rightarrow> exception_class \<Rightarrow> bool" where
  "instanceof (HttpException c _) d \<longleftrightarrow> c = d \<or> superclass c = d"
| "instanceof _ _ \<longleftrightarrow> False"

abbreviation http :: "exception_class \<Rightarrow> string \<Rightarrow> error" where
  "http c m \<equiv> HttpException c (Message m)"

fun isDuplicateKeyError :: "error \<Rightarrow> bool" where
  "isDuplicateKeyError (DuplicateKey _) = True"
| "isDuplicateKeyError _ = False"

section \<open>Documents\<close>

text \<open>An identifier as a client sends it: the text of an ObjectId, or another text.\<close>

datatype id_text = Valid_Id oid | Invalid_Id string

fun id_value :: "id_text \<Rightarrow> oid" where
  "id_value (Valid_Id i) = i" | "id_value (Invalid_Id _) = 0"

fun is_valid_id :: "id_text \<Rightarrow> bool" where
  "is_valid_id (Valid_Id _) = True" | "is_valid_id (Invalid_Id _) = False"

record actor =
  a_id :: oid
  a_companyId :: oid
  a_role :: role

record company =
  c_id :: oid
  c_name :: string
  c_country :: string
  c_industry :: string
  c_activatedAt :: "date option"
  c_platformStatus :: platform_status
  c_platformStatusReason :: "platform_reason option"
  c_platformStatusChangedAt :: "date option"
  c_platformStatusChangedBy :: "oid option"
  c_guardScanFence :: int

record user =
  u_id :: oid
  u_email :: string
  u_fullName :: "string option"
  u_password :: "string option"
  u_passwordResetTokenHash :: "string option"
  u_passwordResetExpiresAt :: "date option"
  u_passwordResetRequestedAt :: "date option"
  u_authVersion :: "int option"
  u_companyId :: oid
  u_role :: role
  u_avatar :: "string option"
  u_guardScanFence :: int
  u_createdAt :: date

record subscription =
  s_id :: oid
  s_companyId :: oid
  s_planCode :: plan_code
  s_activatedAt :: date
  s_planChangedAt :: date
  s_revision :: int
  s_stripeManaged :: bool
  s_stripeCustomerId :: "string option"
  s_stripeSubscriptionId :: "string option"
  s_stripeStatus :: "stripe_status option"
  s_paymentAccess :: payment_access
  s_paymentSyncIssue :: payment_sync_issue
  s_stripeCancelAtPeriodEnd :: bool
  s_pendingPlanCode :: "plan_code option"
  s_pendingPlanAt :: "date option"
  s_stripeScheduleId :: "string option"
  s_stripeChangeOperation :: "string option"
  s_stripeCheckoutAttemptAt :: "date option"
  s_stripeCustomerAttemptAt :: "date option"
  s_stripeSubscriptionAttemptAt :: "date option"
  s_stripePlanAttemptAt :: "date option"
  s_stripePlanConfirmed :: bool
  s_stripePlanEmployees :: "int option"
  s_stripeCheckoutEmployees :: "int option"
  s_stripeCheckoutOperation :: "string option"
  s_stripeCheckoutSessionId :: "string option"
  s_stripeCheckoutPlan :: "plan_code option"
  s_stripeSyncedAt :: "date option"
  s_stripeMeterStartedAt :: "date option"
  s_stripeNextSyncAt :: "date option"
  s_stripeLeaseToken :: "string option"
  s_stripeLeaseUntil :: "date option"

record subscription_period =
  p_companyId :: oid
  p_startsAt :: date
  p_endsAt :: date
  p_uploadedFiles :: int
  p_fileOverageCents :: int

record invitation =
  i_id :: oid
  i_companyId :: oid
  i_invitedBy :: oid
  i_email :: string
  i_status :: invitation_status
  i_tokenHash :: "string option"
  i_expiresAt :: date
  i_lastSentAt :: date
  i_acceptedAt :: "date option"
  i_revokedAt :: "date option"
  i_createdAt :: date

record derivation =
  d_sourceFileId :: oid
  d_jobId :: oid
  d_strategyVersion :: string
  d_createdAt :: date

record company_file =
  f_id :: oid
  f_derivation :: "derivation option"
  f_companyId :: oid
  f_uploaderId :: oid
  f_originalFilename :: "nat list"
  f_storageKey :: string
  f_fileType :: file_type
  f_mimeType :: string
  f_size :: int
  f_visibility :: "file_visibility option"
  f_restrictedUserIds :: "oid list"
  f_guardScanFence :: int
  f_createdAt :: date

record verification =
  v_companyId :: oid
  v_ownerId :: oid
  v_tokenHash :: string
  v_expiresAt :: date
  v_lastSentAt :: "date option"

record oauth_state =
  os_stateHash :: string
  os_browserHash :: string
  os_expiresAt :: date

datatype oauth_purpose = Google_Login_Exchange | Google_Registration_Exchange

record oauth_exchange =
  ox_codeHash :: string
  ox_userId :: "oid option"
  ox_purpose :: oauth_purpose
  ox_email :: "string option"
  ox_fullName :: "string option"
  ox_avatar :: "string option"
  ox_expiresAt :: date

record stripe_usage =
  g_identifier :: string
  g_companyId :: oid
  g_customerId :: string
  g_subscriptionId :: string
  g_quantity :: int
  g_timestamp :: int
  g_periodStartsAt :: date
  g_periodEndsAt :: date
  g_state :: usage_state
  g_firstAttemptAt :: "date option"
  g_submittedAt :: "date option"

record stripe_event =
  e_eventId :: string
  e_type :: string
  e_companyId :: "oid option"
  e_processedAt :: date

record guard_finding =
  n_companyId :: oid
  n_jobId :: oid
  n_ordinal :: int
  n_sheetIndex :: int
  n_row :: int
  n_column :: int
  n_category :: category
  n_evidence :: evidence
  n_hidden :: bool

record guard_event =
  ge_companyId :: oid
  ge_jobId :: oid
  ge_actorId :: oid
  ge_action :: string
  ge_createdAt :: date

record redaction_column =
  k_sheetIndex :: int
  k_column :: int
  k_includeHeader :: bool

record guard_job =
  j_id :: oid
  j_kind :: guard_kind
  j_scanId :: "oid option"
  j_columns :: "redaction_column list"
  j_resultFileId :: "oid option"
  j_outputStorageKey :: "string option"
  j_outputDigest :: "string option"
  j_cleanupPending :: bool
  j_cleanupAfter :: "date option"
  j_redactedCells :: int
  j_companyId :: oid
  j_requestedBy :: oid
  j_sourceFileId :: oid
  j_requestKey :: string
  j_fingerprint :: string
  j_categories :: "category list"
  j_phoneRegion :: "string option"
  j_status :: guard_state
  j_active :: bool
  j_phase :: guard_phase
  j_attempts :: int
  j_leaseToken :: "string option"
  j_leaseExpiresAt :: "date option"
  j_startedAt :: "date option"
  j_finishedAt :: "date option"
  j_errorCode :: "guard_error option"
  j_sourceDigest :: "string option"
  j_processedCells :: int
  j_findingCount :: int
  j_sheets :: int
  j_compatibilityFlags :: "string list"
  j_coverage :: "coverage option"
  j_engineVersion :: string
  j_createdAt :: date

datatype mail =
    EmployeeInvitationMail string string string
  | CompanyActivationMail string string string
  | PasswordResetMail string string

record world =
  companies :: "company list"
  users :: "user list"
  subscriptions :: "subscription list"
  periods :: "subscription_period list"
  invitations :: "invitation list"
  files :: "company_file list"
  verifications :: "verification list"
  oauthStates :: "oauth_state list"
  oauthExchanges :: "oauth_exchange list"
  stripeUsages :: "stripe_usage list"
  stripeEvents :: "stripe_event list"
  guardJobs :: "guard_job list"
  guardFindings :: "guard_finding list"
  guardEvents :: "guard_event list"
  objects :: "string \<rightharpoonup> bytes"
  outbox :: "mail list"

type_synonym 'a handler = "(world, error, 'a) action"

text \<open>
  A transaction whose commit is answered by the server: committed, aborted (an ordinary error),
  or an error labelled \<open>UnknownTransactionCommitResult\<close>, after which the writes may or may not
  be there.
\<close>

datatype commit_outcome = Committed | Aborted | Unknown_Applied | Unknown_Lost

definition committing :: "commit_outcome \<Rightarrow> ('s, error, 'a) action \<Rightarrow> ('s, error, 'a) action" where
  "committing outcome body w =
     (case body w of
        (Inl e, _) \<Rightarrow> (Inl e, w)
      | (Inr x, t) \<Rightarrow>
          (case outcome of
             Committed \<Rightarrow> (Inr x, t)
           | Aborted \<Rightarrow> (Inl (PlainError ''TransactionAborted''), w)
           | Unknown_Applied \<Rightarrow> (Inl UnknownCommit, t)
           | Unknown_Lost \<Rightarrow> (Inl UnknownCommit, w)))"

lemma committing_Inr [action_simps]:
  "committing outcome body w = (Inr x, t) \<longleftrightarrow> outcome = Committed \<and> body w = (Inr x, t)"
  by (auto simp: committing_def split: prod.splits sum.splits commit_outcome.splits)

lemma committing_Inl:
  "committing outcome body w = (Inl e, t) \<Longrightarrow>
     t = w \<or> (outcome = Unknown_Applied \<and> e = UnknownCommit \<and> (\<exists>x. body w = (Inr x, t)))"
  by (auto simp: committing_def split: prod.splits sum.splits commit_outcome.splits)

lemma committing_effect:
  "committing outcome m w = (r, w') \<Longrightarrow> w' = w \<or> (\<exists>x. m w = (Inr x, w'))"
  by (auto simp: committing_def split: prod.splits sum.splits commit_outcome.splits)

lemma keeps_committing [keeps_intros]: "keeps I m \<Longrightarrow> keeps I (committing c m)"
  by (auto simp: keeps_def committing_def split: prod.splits sum.splits commit_outcome.splits)

definition empty_world :: world where
  "empty_world = \<lparr>companies = [], users = [], subscriptions = [], periods = [],
     invitations = [], files = [], verifications = [], oauthStates = [], oauthExchanges = [],
     stripeUsages = [], stripeEvents = [], guardJobs = [], guardFindings = [],
     guardEvents = [], objects = (\<lambda>_. None), outbox = []\<rparr>"

text \<open>A new subscription document: the values given and the schema's defaults.\<close>

definition subscription_document ::
  "oid \<Rightarrow> oid \<Rightarrow> plan_code \<Rightarrow> date \<Rightarrow> date \<Rightarrow> subscription" where
  "subscription_document i companyId planCode activatedAt planChangedAt =
     \<lparr>s_id = i, s_companyId = companyId, s_planCode = planCode, s_activatedAt = activatedAt,
      s_planChangedAt = planChangedAt, s_revision = 0, s_stripeManaged = False,
      s_stripeCustomerId = None, s_stripeSubscriptionId = None, s_stripeStatus = None,
      s_paymentAccess = UNMANAGED, s_paymentSyncIssue = SYNC_NONE,
      s_stripeCancelAtPeriodEnd = False, s_pendingPlanCode = None, s_pendingPlanAt = None,
      s_stripeScheduleId = None, s_stripeChangeOperation = None,
      s_stripeCheckoutAttemptAt = None, s_stripeCustomerAttemptAt = None,
      s_stripeSubscriptionAttemptAt = None, s_stripePlanAttemptAt = None,
      s_stripePlanConfirmed = False, s_stripePlanEmployees = None,
      s_stripeCheckoutEmployees = None, s_stripeCheckoutOperation = None,
      s_stripeCheckoutSessionId = None, s_stripeCheckoutPlan = None, s_stripeSyncedAt = None,
      s_stripeMeterStartedAt = None, s_stripeNextSyncAt = None, s_stripeLeaseToken = None,
      s_stripeLeaseUntil = None\<rparr>"

section \<open>Identifiers as text\<close>

text \<open>
  \<open>ObjectId.toString()\<close> is 24 lowercase hexadecimal digits, most significant first.
\<close>

definition hex_digit :: "nat \<Rightarrow> char" where
  "hex_digit n = (if n < 10 then char_of (48 + n) else char_of (87 + n))"

fun hex_digits :: "nat \<Rightarrow> nat \<Rightarrow> string" where
  "hex_digits 0 n = []"
| "hex_digits (Suc k) n = hex_digits k (n div 16) @ [hex_digit (n mod 16)]"

definition oid_to_string :: "oid \<Rightarrow> string" where
  "oid_to_string n = hex_digits 24 n"

definition hex_value :: "char \<Rightarrow> nat" where
  "hex_value c = (let k = of_char c in if k < 58 then k - 48 else k - 87)"

definition parse_hex :: "string \<Rightarrow> nat" where
  "parse_hex cs = foldl (\<lambda>n c. 16 * n + hex_value c) 0 cs"

lemma hex_value_digit: "n < 16 \<Longrightarrow> hex_value (hex_digit n) = n"
  by (simp add: hex_value_def hex_digit_def Let_def)

lemma length_hex_digits [simp]: "length (hex_digits k n) = k"
  by (induction k arbitrary: n) auto

lemma parse_hex_digits: "parse_hex (hex_digits k n) = n mod 16 ^ k"
proof (induction k arbitrary: n)
  case 0
  show ?case by (simp add: parse_hex_def)
next
  case (Suc k)
  have "parse_hex (hex_digits (Suc k) n) = 16 * (n div 16 mod 16 ^ k) + n mod 16"
    using Suc [of "n div 16"] by (simp add: parse_hex_def hex_value_digit)
  also have "\<dots> = n mod 16 ^ Suc k"
    by (simp add: mod_mult2_eq)
  finally show ?case .
qed

lemma oid_to_string_inj:
  assumes "oid_to_string m = oid_to_string n" "m < 16 ^ 24" "n < 16 ^ 24"
  shows "m = n"
proof -
  have "m mod 16 ^ 24 = n mod 16 ^ 24"
    using arg_cong [where f = parse_hex, OF assms(1)]
    unfolding oid_to_string_def parse_hex_digits .
  then show ?thesis by (simp only: mod_less assms(2,3))
qed

text \<open>Decimal text of an integer, as a template literal prints it.\<close>

fun show_nat :: "nat \<Rightarrow> string" where
  "show_nat n = (if n < 10 then [char_of (48 + n)] else show_nat (n div 10) @ [char_of (48 + n mod 10)])"

declare show_nat.simps [simp del]

definition show_int :: "int \<Rightarrow> string" where
  "show_int n = (if n < 0 then CHR ''-'' # show_nat (nat (- n)) else show_nat (nat n))"

definition parse_dec :: "string \<Rightarrow> nat" where
  "parse_dec cs = foldl (\<lambda>n c. 10 * n + (of_char c - 48)) 0 cs"

lemma parse_dec_show: "parse_dec (show_nat n) = n"
proof (induction n rule: show_nat.induct)
  case (1 n)
  show ?case
  proof (cases "n < 10")
    case True
    then show ?thesis by (simp add: show_nat.simps [of n] parse_dec_def)
  next
    case False
    then show ?thesis using "1.IH" by (simp add: show_nat.simps [of n] parse_dec_def)
  qed
qed

lemma show_nat_inj: "show_nat m = show_nat n \<Longrightarrow> m = n"
  using parse_dec_show by metis

lemma show_nat_digits: "c \<in> set (show_nat n) \<Longrightarrow> c \<noteq> CHR ''-''"
proof (induction n rule: show_nat.induct)
  case (1 n)
  have d: "char_of (48 + k) \<noteq> CHR ''-''" if "k < 10" for k :: nat
  proof
    assume "char_of (48 + k) = CHR ''-''"
    then have "of_char (char_of (48 + k)) = (of_char CHR ''-'' :: nat)" by simp
    then show False using that by simp
  qed
  show ?case
  proof (cases "n < 10")
    case True
    then show ?thesis using "1.prems" d [of n] by (simp add: show_nat.simps [of n])
  next
    case False
    then show ?thesis using "1.prems" "1.IH" d [of "n mod 10"] by (auto simp: show_nat.simps [of n])
  qed
qed

text \<open>Pieces of \<open>JSON.stringify\<close>; no text built with them holds a character that it escapes.\<close>

definition json_id :: "oid \<Rightarrow> string" where
  "json_id i = [CHR 0x22] @ oid_to_string i @ [CHR 0x22]"

definition json_field :: "string \<Rightarrow> string" where
  "json_field name = [CHR 0x22] @ name @ [CHR 0x22, CHR '':'']"

definition json_string :: "string \<Rightarrow> string" where
  "json_string s = [CHR 0x22] @ s @ [CHR 0x22]"

end
