(* ===== verification/Plans.thy ===== *)
theory Plans
  imports Domain
begin

text \<open>
  The plan catalogue (\<open>plans/plan.constants.ts\<close>) and its service
  (\<open>plans/plans.service.ts\<close>): the three plans with their limits and prices in cents, the
  lookup, and the start-up upsert that makes the stored catalogue equal to the code's.
\<close>

record plan_definition =
  pl_code :: plan_code
  pl_name :: string
  includedFilesPerMonth :: int
  maxEmployees :: "int option"
  basePriceCents :: int
  employeePriceCents :: int
  extraFilePriceCents :: "int option"
  pl_currency :: billing_currency
  pl_interval :: billing_interval

fun PLAN_CATALOG :: "plan_code \<Rightarrow> plan_definition" where
  "PLAN_CATALOG FREE = \<lparr>pl_code = FREE, pl_name = ''Free'', includedFilesPerMonth = 10,
     maxEmployees = Some 0, basePriceCents = 0, employeePriceCents = 0,
     extraFilePriceCents = None, pl_currency = USD, pl_interval = MONTH\<rparr>"
| "PLAN_CATALOG BASIC = \<lparr>pl_code = BASIC, pl_name = ''Basic'', includedFilesPerMonth = 100,
     maxEmployees = Some 10, basePriceCents = 0, employeePriceCents = 500,
     extraFilePriceCents = None, pl_currency = USD, pl_interval = MONTH\<rparr>"
| "PLAN_CATALOG PREMIUM = \<lparr>pl_code = PREMIUM, pl_name = ''Premium'',
     includedFilesPerMonth = 1000, maxEmployees = None, basePriceCents = 30000,
     employeePriceCents = 0, extraFilePriceCents = Some 50, pl_currency = USD,
     pl_interval = MONTH\<rparr>"

text \<open>\<open>Object.values(PLAN_CATALOG)\<close>, in declaration order.\<close>

definition plans_findAll :: "plan_definition list" where
  "plans_findAll = map PLAN_CATALOG [FREE, BASIC, PREMIUM]"

text \<open>
  The lookup's \<open>Unknown plan\<close> exception is for values outside the enumeration; the type
  \<open>plan_code\<close> has none.
\<close>

definition plans_findOne :: "plan_code \<Rightarrow> plan_definition" where
  "plans_findOne code = PLAN_CATALOG code"

text \<open>
  One \<open>updateOne\<close> of the bulk write: \<open>$set\<close> replaces all metadata of the first document
  with the code, and the upsert inserts the plan when no document has it.
\<close>

definition upsert_plan :: "plan_definition \<Rightarrow> plan_definition list \<Rightarrow> plan_definition list" where
  "upsert_plan p stored =
     (case find (\<lambda>d. pl_code d = pl_code p) stored of
        None \<Rightarrow> stored @ [p]
      | Some _ \<Rightarrow> updateOne (\<lambda>d. pl_code d = pl_code p) (\<lambda>_. p) stored)"

definition plans_onModuleInit :: "plan_definition list \<Rightarrow> plan_definition list" where
  "plans_onModuleInit stored = fold upsert_plan plans_findAll stored"

lemma pl_code_catalog [simp]: "pl_code (PLAN_CATALOG c) = c"
  by (cases c) auto

lemma plans_findOne_code [simp]: "pl_code (plans_findOne c) = c"
  by (simp add: plans_findOne_def)

lemma catalog_price_nonneg [simp]:
  "0 \<le> basePriceCents (PLAN_CATALOG c)" "0 \<le> employeePriceCents (PLAN_CATALOG c)"
  "0 \<le> includedFilesPerMonth (PLAN_CATALOG c)"
  by (cases c; simp)+

lemma extra_price_iff:
  "extraFilePriceCents (PLAN_CATALOG c) = Some x \<longleftrightarrow> c = PREMIUM \<and> x = 50"
  by (cases c) auto

lemma extra_price_None_iff: "extraFilePriceCents (PLAN_CATALOG c) = None \<longleftrightarrow> c \<noteq> PREMIUM"
  by (cases c) auto

text \<open>Every plan sold is at least as generous as the plans below it.\<close>

lemma catalog_monotone:
  "a \<le> b \<Longrightarrow> includedFilesPerMonth (PLAN_CATALOG a) \<le> includedFilesPerMonth (PLAN_CATALOG b)"
  by (cases a; cases b) (auto simp: less_eq_plan_code_def)

lemma find_upsert_same:
  assumes "pl_code p = c"
  shows "find (\<lambda>d. pl_code d = c) (upsert_plan p stored) = Some p"
proof (cases "find (\<lambda>d. pl_code d = c) stored")
  case None
  with assms show ?thesis by (auto simp: upsert_plan_def find_append)
next
  case (Some d)
  then have "find (\<lambda>d. pl_code d = c) (updateOne (\<lambda>d. pl_code d = c) (\<lambda>_. p) stored) = Some p"
    using assms by (induction stored) (auto split: if_splits)
  with Some assms show ?thesis by (simp add: upsert_plan_def)
qed

lemma find_upsert_other:
  "pl_code p \<noteq> c \<Longrightarrow>
     find (\<lambda>d. pl_code d = c) (upsert_plan p stored) = find (\<lambda>d. pl_code d = c) stored"
  by (auto simp: upsert_plan_def find_append find_updateOne_frame split: option.splits)

text \<open>
  After start-up, looking any plan code up in the stored catalogue gives exactly the
  plan of the code's catalogue, whatever was stored before.
\<close>

theorem onModuleInit_stores_catalog:
  "find (\<lambda>d. pl_code d = c) (plans_onModuleInit stored) = Some (plans_findOne c)"
  by (cases c)
    (simp_all add: plans_onModuleInit_def plans_findAll_def plans_findOne_def
      find_upsert_same find_upsert_other del: PLAN_CATALOG.simps)

end
