(* ===== verification/Calendar.thy ===== *)
theory Calendar
  imports Prelude
begin

text \<open>
  The part of JavaScript's \<open>Date\<close> that the billing code uses, in UTC: the day, month and year
  of a time value (milliseconds since 1970-01-01), and \<open>Date.UTC\<close> with its month overflow,
  its two-digit-year rule and the clipping of times more than 8.64e15 ms from the epoch.
\<close>

definition msPerDay :: int where
  "msPerDay = 86400000"

definition max_time :: int where
  "max_time = 8640000000000000"

definition leap_year :: "int \<Rightarrow> bool" where
  "leap_year y \<longleftrightarrow> y mod 4 = 0 \<and> y mod 100 \<noteq> 0 \<or> y mod 400 = 0"

text \<open>Number of the first day of a year, counted from 1970-01-01.\<close>

definition day_from_year :: "int \<Rightarrow> int" where
  "day_from_year y =
     365 * (y - 1970) + (y - 1969) div 4 - (y - 1901) div 100 + (y - 1601) div 400"

definition year_from_day :: "int \<Rightarrow> int" where
  "year_from_day d =
     (let e = 1970 + 400 * d div 146097
      in if d < day_from_year e then e - 1
         else if day_from_year (e + 1) \<le> d then e + 1 else e)"

text \<open>Days of the year before month \<open>m\<close> (0 to 12).\<close>

definition days_before_month :: "bool \<Rightarrow> int \<Rightarrow> int" where
  "days_before_month leap m =
     (let l = (if leap then 1 else 0) in
      if m \<le> 0 then 0 else if m = 1 then 31 else if m = 2 then 59 + l
      else if m = 3 then 90 + l else if m = 4 then 120 + l else if m = 5 then 151 + l
      else if m = 6 then 181 + l else if m = 7 then 212 + l else if m = 8 then 243 + l
      else if m = 9 then 273 + l else if m = 10 then 304 + l else if m = 11 then 334 + l
      else 365 + l)"

definition month_in_year :: "bool \<Rightarrow> int \<Rightarrow> int" where
  "month_in_year leap n =
     (if n < days_before_month leap 1 then 0 else if n < days_before_month leap 2 then 1
      else if n < days_before_month leap 3 then 2 else if n < days_before_month leap 4 then 3
      else if n < days_before_month leap 5 then 4 else if n < days_before_month leap 6 then 5
      else if n < days_before_month leap 7 then 6 else if n < days_before_month leap 8 then 7
      else if n < days_before_month leap 9 then 8 else if n < days_before_month leap 10 then 9
      else if n < days_before_month leap 11 then 10 else 11)"

text \<open>First day of month \<open>k\<close>, months counted from January of year 0.\<close>

definition day_from_month :: "int \<Rightarrow> int" where
  "day_from_month k =
     day_from_year (k div 12) + days_before_month (leap_year (k div 12)) (k mod 12)"

definition day_of :: "int \<Rightarrow> int" where
  "day_of t = t div msPerDay"

definition getUTCFullYear :: "int \<Rightarrow> int" where
  "getUTCFullYear t = year_from_day (day_of t)"

definition getUTCMonth :: "int \<Rightarrow> int" where
  "getUTCMonth t = (let y = getUTCFullYear t
     in month_in_year (leap_year y) (day_of t - day_from_year y))"

definition getUTCDate :: "int \<Rightarrow> int" where
  "getUTCDate t = (let y = getUTCFullYear t
     in day_of t - day_from_year y - days_before_month (leap_year y) (getUTCMonth t) + 1)"

definition getUTCHours :: "int \<Rightarrow> int" where
  "getUTCHours t = t div 3600000 mod 24"

definition getUTCMinutes :: "int \<Rightarrow> int" where
  "getUTCMinutes t = t div 60000 mod 60"

definition getUTCSeconds :: "int \<Rightarrow> int" where
  "getUTCSeconds t = t div 1000 mod 60"

definition getUTCMilliseconds :: "int \<Rightarrow> int" where
  "getUTCMilliseconds t = t mod 1000"

definition date_UTC ::
  "int \<Rightarrow> int \<Rightarrow> int \<Rightarrow> int \<Rightarrow> int \<Rightarrow> int \<Rightarrow> int \<Rightarrow> int option" where
  "date_UTC y m dt h mi s ms =
     (let yr = (if 0 \<le> y \<and> y \<le> 99 then 1900 + y else y);
          t = (day_from_month (12 * yr + m) + dt - 1) * msPerDay
              + h * 3600000 + mi * 60000 + s * 1000 + ms
      in if \<bar>t\<bar> \<le> max_time then Some t else None)"

section \<open>Years\<close>

lemma div_bounds:
  "4 * ((n::int) div 4) \<le> n" "n \<le> 4 * (n div 4) + 3"
  "100 * (n div 100) \<le> n" "n \<le> 100 * (n div 100) + 99"
  "400 * (n div 400) \<le> n" "n \<le> 400 * (n div 400) + 399"
  by linarith+

lemma day_from_year_bounds:
  "146097 * (y - 1970) - 1200 \<le> 400 * day_from_year y"
  "400 * day_from_year y \<le> 146097 * (y - 1970) + 1200"
proof -
  obtain a b c where abc: "a = (y - 1969) div 4" "b = (y - 1901) div 100" "c = (y - 1601) div 400"
    by blast
  note ab = div_bounds [of "y - 1969"] div_bounds [of "y - 1901"] div_bounds [of "y - 1601"]
  have eq: "day_from_year y = 365 * (y - 1970) + a - b + c"
    by (simp add: day_from_year_def abc)
  have lo: "100 * y - 197200 \<le> 400 * a" "400 * b \<le> 4 * y - 7604" "y - 2000 \<le> 400 * c"
    using ab(2,9,18) unfolding abc [symmetric] by linarith+
  show "146097 * (y - 1970) - 1200 \<le> 400 * day_from_year y"
    unfolding eq using lo by (simp add: algebra_simps)
  have hi: "400 * a \<le> 100 * y - 196900" "4 * y - 8000 \<le> 400 * b" "400 * c \<le> y - 1601"
    using ab(1,10,17) unfolding abc [symmetric] by linarith+
  show "400 * day_from_year y \<le> 146097 * (y - 1970) + 1200"
    unfolding eq using hi by (simp add: algebra_simps)
qed

lemma year_from_day_bounds:
  "day_from_year (year_from_day d) \<le> d \<and> d < day_from_year (year_from_day d + 1)"
proof -
  define e where "e = 1970 + 400 * d div 146097"
  have e: "146097 * (e - 1970) \<le> 400 * d" "400 * d < 146097 * (e - 1970) + 146097"
    using div_mult_floor [of 146097 "400 * d"] by (simp_all add: e_def algebra_simps)
  have "400 * day_from_year (e - 1) \<le> 400 * d"
    using e day_from_year_bounds(2) [of "e - 1"] by (simp add: algebra_simps)
  moreover have "400 * d < 400 * day_from_year (e + 2)"
    using e day_from_year_bounds(1) [of "e + 2"] by (simp add: algebra_simps)
  ultimately show ?thesis
    unfolding year_from_day_def e_def [symmetric] Let_def by (auto simp: add.commute)
qed

lemma div_succ:
  assumes "0 < (k::int)"
  shows "(n + 1) div k = n div k + (if (n + 1) mod k = 0 then 1 else 0)"
proof (cases "n mod k + 1 < k")
  case True
  have r: "0 \<le> n mod k" using assms by simp
  have n: "n + 1 = (n mod k + 1) + n div k * k" by simp
  have "(n + 1) div k = n div k" "(n + 1) mod k = n mod k + 1"
    using True r assms
    by (simp_all only: n div_mult_self1 mod_mult_self1 div_pos_pos_trivial mod_pos_pos_trivial)
  with r show ?thesis by simp
next
  case False
  then have "n mod k = k - 1" using pos_mod_bound [OF assms, of n] by linarith
  then have n: "n + 1 = (n div k + 1) * k"
    using div_mult_mod_eq [of n k] by (simp add: distrib_right)
  then have "(n + 1) div k = n div k + 1" "(n + 1) mod k = 0"
    using assms by (simp_all only: n mod_mult_self2_is_0) simp
  then show ?thesis by simp
qed

lemma mod_shift:
  "(y - 1968) mod 4 = y mod (4::int)" "(y - 1900) mod 100 = y mod (100::int)"
  "(y - 1600) mod 400 = y mod (400::int)"
  using mod_mult_self2 [of y 4 "- 492"] mod_mult_self2 [of y 100 "- 19"]
    mod_mult_self2 [of y 400 "- 4"]
  by simp_all

lemma day_from_year_succ:
  "day_from_year (y + 1) = day_from_year y + 365 + (if leap_year y then 1 else 0)"
proof -
  obtain a b c where abc: "a = (y - 1969) div 4" "b = (y - 1901) div 100" "c = (y - 1601) div 400"
    by blast
  have a': "(y - 1968) div 4 = a + (if y mod 4 = 0 then 1 else 0)"
    using div_succ [of 4 "y - 1969"] by (simp add: mod_shift abc)
  have b': "(y - 1900) div 100 = b + (if y mod 100 = 0 then 1 else 0)"
    using div_succ [of 100 "y - 1901"] by (simp add: mod_shift abc)
  have c': "(y - 1600) div 400 = c + (if y mod 400 = 0 then 1 else 0)"
    using div_succ [of 400 "y - 1601"] by (simp add: mod_shift abc)
  have "y mod 400 mod 100 = y mod 100" "y mod 100 mod 4 = y mod 4"
    by (simp_all add: mod_mod_cancel)
  then have i: "y mod 400 = 0 \<Longrightarrow> y mod 100 = 0" "y mod 100 = 0 \<Longrightarrow> y mod 4 = 0"
    by auto
  have s: "y + 1 - 1969 = y - 1968" "y + 1 - 1901 = y - 1900" "y + 1 - 1601 = y - 1600"
    by simp_all
  have n: "day_from_year (y + 1) = 365 * (y + 1 - 1970) + (a + (if y mod 4 = 0 then 1 else 0))
      - (b + (if y mod 100 = 0 then 1 else 0)) + (c + (if y mod 400 = 0 then 1 else 0))"
    unfolding day_from_year_def s a' b' c' ..
  have o: "day_from_year y = 365 * (y - 1970) + a - b + c"
    unfolding day_from_year_def abc ..
  show ?thesis
    unfolding n o leap_year_def using i by (auto split: if_split)
qed

section \<open>Months\<close>

lemma month_cases:
  assumes "0 \<le> (m::int)" "m < 12"
  obtains "m = 0" | "m = 1" | "m = 2" | "m = 3" | "m = 4" | "m = 5"
    | "m = 6" | "m = 7" | "m = 8" | "m = 9" | "m = 10" | "m = 11"
proof -
  have "m = 0 \<or> m = 1 \<or> m = 2 \<or> m = 3 \<or> m = 4 \<or> m = 5 \<or> m = 6 \<or> m = 7 \<or> m = 8
      \<or> m = 9 \<or> m = 10 \<or> m = 11"
    using assms by presburger
  then show ?thesis using that by blast
qed

lemma days_before_month_step:
  "0 \<le> m \<Longrightarrow> m < 12 \<Longrightarrow>
     days_before_month l m + 28 \<le> days_before_month l (m + 1) \<and>
     days_before_month l (m + 1) \<le> days_before_month l m + 31"
  by (erule (1) month_cases) (simp_all add: days_before_month_def)

lemma days_before_month_ends:
  "days_before_month l 0 = 0" "days_before_month l 12 = (if l then 366 else 365)"
  by (simp_all add: days_before_month_def)

lemma days_before_month_table:
  "days_before_month l 1 = 31" "days_before_month l 2 = (if l then 60 else 59)"
  "days_before_month l 3 = (if l then 91 else 90)"
  "days_before_month l 4 = (if l then 121 else 120)"
  "days_before_month l 5 = (if l then 152 else 151)"
  "days_before_month l 6 = (if l then 182 else 181)"
  "days_before_month l 7 = (if l then 213 else 212)"
  "days_before_month l 8 = (if l then 244 else 243)"
  "days_before_month l 9 = (if l then 274 else 273)"
  "days_before_month l 10 = (if l then 305 else 304)"
  "days_before_month l 11 = (if l then 335 else 334)"
  by (simp_all add: days_before_month_def)

lemma month_in_year_bounds:
  assumes "0 \<le> n" "n < (if l then 366 else 365)"
  shows "0 \<le> month_in_year l n" "month_in_year l n < 12"
    "days_before_month l (month_in_year l n) \<le> n"
    "n < days_before_month l (month_in_year l n + 1)"
  using assms unfolding month_in_year_def
  by (cases l; simp add: days_before_month_table days_before_month_ends split: if_split)+

text \<open>The month index of a day, and the months' first days as a strictly increasing scale.\<close>

definition month_index :: "int \<Rightarrow> int" where
  "month_index t = getUTCFullYear t * 12 + getUTCMonth t"

lemma div_mod_12: "0 \<le> m \<Longrightarrow> m < 12 \<Longrightarrow> (12 * y + m) div 12 = y \<and> (12 * y + m) mod (12::int) = m"
  by simp

lemma day_from_month_succ:
  "day_from_month (k + 1) =
     day_from_year (k div 12) + days_before_month (leap_year (k div 12)) (k mod 12 + 1)"
proof (cases "k mod 12 = 11")
  case True
  have "(k + 1) mod 12 = (k mod 12 + 1) mod 12" by (simp add: mod_add_left_eq)
  with True have "(k + 1) mod 12 = 0" by simp
  moreover from this have "(k + 1) div 12 = k div 12 + 1" using div_succ [of 12 k] by simp
  moreover note True
  ultimately show ?thesis
    by (simp add: day_from_month_def days_before_month_ends day_from_year_succ)
next
  case False
  have "k mod 12 < 12" "0 \<le> k mod 12" by simp_all
  moreover have "(k + 1) mod 12 = (k mod 12 + 1) mod 12" by (simp add: mod_add_left_eq)
  ultimately have "(k + 1) mod 12 = k mod 12 + 1"
    using False by (simp add: mod_pos_pos_trivial)
  moreover from this have "(k + 1) div 12 = k div 12"
    using div_succ [of 12 k] \<open>0 \<le> k mod 12\<close> by simp
  ultimately show ?thesis by (simp add: day_from_month_def)
qed

lemma day_from_month_step:
  "day_from_month k + 28 \<le> day_from_month (k + 1) \<and>
   day_from_month (k + 1) \<le> day_from_month k + 31"
  using days_before_month_step [of "k mod 12" "leap_year (k div 12)"]
  by (simp add: day_from_month_succ) (simp add: day_from_month_def)

lemma day_in_year:
  "0 \<le> d - day_from_year (year_from_day d)"
  "d - day_from_year (year_from_day d) < (if leap_year (year_from_day d) then 366 else 365)"
  using year_from_day_bounds [of d] day_from_year_succ [of "year_from_day d"] by auto

lemma getUTCMonth_range: "0 \<le> getUTCMonth t \<and> getUTCMonth t < 12"
  unfolding getUTCMonth_def getUTCFullYear_def Let_def
  using month_in_year_bounds(1,2) [OF day_in_year] by blast

lemma month_index_div_mod [simp]:
  "month_index t div 12 = getUTCFullYear t" "month_index t mod 12 = getUTCMonth t"
  using getUTCMonth_range [of t] by (simp_all add: month_index_def)

lemma getUTCDate_eq: "getUTCDate t = day_of t - day_from_month (month_index t) + 1"
  by (simp add: getUTCDate_def day_from_month_def Let_def)

lemma month_index_bounds:
  "day_from_month (month_index t) \<le> day_of t" "day_of t < day_from_month (month_index t + 1)"
proof -
  let ?y = "getUTCFullYear t" and ?n = "day_of t - day_from_year (getUTCFullYear t)"
  have n: "0 \<le> ?n" "?n < (if leap_year ?y then 366 else 365)"
    unfolding getUTCFullYear_def by (rule day_in_year)+
  have m: "getUTCMonth t = month_in_year (leap_year ?y) ?n"
    by (simp add: getUTCMonth_def Let_def)
  show "day_from_month (month_index t) \<le> day_of t"
    using month_in_year_bounds(3) [OF n] by (simp add: day_from_month_def m)
  show "day_of t < day_from_month (month_index t + 1)"
    using month_in_year_bounds(4) [OF n] by (simp add: day_from_month_succ m)
qed

lemma day_from_month_mono: "j \<le> k \<Longrightarrow> day_from_month j \<le> day_from_month k"
proof (induction k rule: int_ge_induct)
  case (step k)
  then show ?case using day_from_month_step [of k] by linarith
qed simp

lemma month_index_unique:
  assumes "day_from_month k \<le> day_of t" "day_of t < day_from_month (k + 1)"
  shows "month_index t = k"
proof (rule antisym; rule ccontr)
  assume "\<not> month_index t \<le> k"
  then have "day_from_month (k + 1) \<le> day_from_month (month_index t)"
    by (intro day_from_month_mono) simp
  with month_index_bounds [of t] assms show False by linarith
next
  assume "\<not> k \<le> month_index t"
  then have "day_from_month (month_index t + 1) \<le> day_from_month k"
    by (intro day_from_month_mono) simp
  with month_index_bounds [of t] assms show False by linarith
qed

lemma month_index_mono: "s \<le> t \<Longrightarrow> month_index s \<le> month_index t"
proof (rule ccontr)
  assume "s \<le> t" "\<not> month_index s \<le> month_index t"
  then have "day_from_month (month_index t + 1) \<le> day_from_month (month_index s)"
    by (intro day_from_month_mono) simp
  moreover have "day_of s \<le> day_of t"
    using \<open>s \<le> t\<close> by (simp add: day_of_def msPerDay_def zdiv_mono1)
  ultimately show False using month_index_bounds [of s] month_index_bounds [of t] by linarith
qed

section \<open>Time of day\<close>

definition time_of_day :: "int \<Rightarrow> int" where
  "time_of_day t = t mod msPerDay"

lemma time_split: "t = day_of t * msPerDay + time_of_day t"
  by (simp add: day_of_def time_of_day_def)

lemma time_of_day_bounds: "0 \<le> time_of_day t" "time_of_day t < msPerDay"
  by (simp_all add: time_of_day_def msPerDay_def)

lemma day_of_combine:
  "0 \<le> r \<Longrightarrow> r < msPerDay \<Longrightarrow> day_of (d * msPerDay + r) = d \<and> time_of_day (d * msPerDay + r) = r"
  by (simp add: day_of_def time_of_day_def msPerDay_def)

lemma clock_fields:
  "getUTCHours t * 3600000 + getUTCMinutes t * 60000 + getUTCSeconds t * 1000
     + getUTCMilliseconds t = time_of_day t"
proof -
  define s where "s = t div 1000"
  define mi where "mi = s div 60"
  define h where "h = mi div 60"
  obtain q where q: "q = h div 24" by blast
  have a: "t = 1000 * s + t mod 1000" "s = 60 * mi + s mod 60" "mi = 60 * h + mi mod 60"
    "h = 24 * q + h mod 24"
    by (simp_all add: s_def mi_def h_def q)
  have b: "t div 60000 = mi" "t div 3600000 = h" "t div 86400000 = h div 24"
    by (simp_all add: s_def mi_def h_def div_mult2_eq [symmetric])
  have "time_of_day t = t - 86400000 * q"
    by (simp add: time_of_day_def msPerDay_def minus_div_mult_eq_mod [symmetric] b q)
  then show ?thesis
    unfolding getUTCHours_def getUTCMinutes_def getUTCSeconds_def getUTCMilliseconds_def
      b s_def [symmetric]
    using a by (simp add: algebra_simps)
qed

end
