(* ===== verification/BillingPeriod.thy ===== *)
theory BillingPeriod
  imports Domain Calendar
begin

text \<open>
  The monthly billing period (\<open>subscriptions/billing-period.ts\<close>): periods start on the
  activation's day of month and time of day, moved back to the last day of a shorter month.
  An \<open>Invalid Date\<close> is \<open>None\<close>; a period with an invalid boundary is an error value here.
\<close>

record period =
  startsAt :: date
  endsAt :: date

text \<open>JavaScript's remainder takes the sign of its left operand.\<close>

definition js_rem :: "int \<Rightarrow> int \<Rightarrow> int" where
  "js_rem a b = sgn a * (\<bar>a\<bar> mod \<bar>b\<bar>)"

definition boundary :: "date \<Rightarrow> int \<Rightarrow> date option" where
  "boundary activatedAt index =
     (let year = index div 12;
          monthOfYear = js_rem index 12
      in case date_UTC year (monthOfYear + 1) 0 0 0 0 0 of
           None \<Rightarrow> None
         | Some lastDate \<Rightarrow>
             date_UTC year monthOfYear (min (getUTCDate activatedAt) (getUTCDate lastDate))
               (getUTCHours activatedAt) (getUTCMinutes activatedAt)
               (getUTCSeconds activatedAt) (getUTCMilliseconds activatedAt))"

definition invalid_period_date :: error where
  "invalid_period_date = PlainError ''Invalid billing period date''"

definition billingPeriod :: "date option \<Rightarrow> date option \<Rightarrow> error + period" where
  "billingPeriod activatedAt at =
     (case (activatedAt, at) of
        (Some activated, Some now) \<Rightarrow>
          if now < activated then Inl invalid_period_date
          else let anchorMonth = getUTCFullYear activated * 12 + getUTCMonth activated;
                   month0 = getUTCFullYear now * 12 + getUTCMonth now;
                   month = (case boundary activated month0 of
                              Some b \<Rightarrow> if b > now then month0 - 1 else month0
                            | None \<Rightarrow> month0)
               in if month < anchorMonth then Inl invalid_period_date
                  else (case (boundary activated month, boundary activated (month + 1)) of
                          (Some b, Some e) \<Rightarrow> Inr \<lparr>startsAt = b, endsAt = e\<rparr>
                        | _ \<Rightarrow> Inl (PlainError ''Invalid Date''))
      | _ \<Rightarrow> Inl invalid_period_date)"

section \<open>Boundaries\<close>

text \<open>
  The specification of a boundary: the month's first day, plus the activation's day of month
  clamped to the length of the month, at the activation's time of day.
\<close>

definition month_length :: "int \<Rightarrow> int" where
  "month_length k = day_from_month (k + 1) - day_from_month k"

definition anniversary :: "date \<Rightarrow> int \<Rightarrow> date" where
  "anniversary activatedAt k =
     (day_from_month k + min (getUTCDate activatedAt) (month_length k) - 1) * msPerDay
       + time_of_day activatedAt"

lemma month_length_bounds: "28 \<le> month_length k" "month_length k \<le> 31"
  using day_from_month_step [of k] by (simp_all add: month_length_def)

lemma getUTCDate_bounds:
  "1 \<le> getUTCDate t" "getUTCDate t \<le> month_length (month_index t)"
  using month_index_bounds [of t] by (simp_all add: getUTCDate_eq month_length_def)

text \<open>An anniversary lies in its month, so anniversaries increase strictly.\<close>

lemma anniversary_day:
  "day_of (anniversary a k) = day_from_month k + min (getUTCDate a) (month_length k) - 1"
  "time_of_day (anniversary a k) = time_of_day a"
  using day_of_combine [OF time_of_day_bounds [of a]] by (simp_all add: anniversary_def)

lemma month_index_anniversary [simp]: "month_index (anniversary a k) = k"
  using getUTCDate_bounds(1) [of a] month_length_bounds(1) [of k]
  by (intro month_index_unique) (auto simp: anniversary_day month_length_def min_def)

lemma anniversary_less: "j < k \<Longrightarrow> anniversary a j < anniversary a k"
  using month_index_mono [of "anniversary a k" "anniversary a j"] by fastforce

lemma anniversary_mono: "j \<le> k \<Longrightarrow> anniversary a j \<le> anniversary a k"
  using anniversary_less [of j k a] by fastforce

lemma anniversary_self: "anniversary a (month_index a) = a"
proof -
  have "min (getUTCDate a) (month_length (month_index a)) = getUTCDate a"
    using getUTCDate_bounds(2) [of a] by simp
  then have "anniversary a (month_index a) = day_of a * msPerDay + time_of_day a"
    by (simp add: anniversary_def getUTCDate_eq)
  then show ?thesis using time_split [of a] by simp
qed

text \<open>The code computes the anniversary, from year 100 on and away from the ends of time.\<close>

lemma getUTCDate_month_end:
  "getUTCDate ((day_from_month (k + 1) - 1) * msPerDay) = month_length k"
proof -
  let ?t = "(day_from_month (k + 1) - 1) * msPerDay"
  have d: "day_of ?t = day_from_month (k + 1) - 1"
    by (simp add: day_of_def msPerDay_def)
  have "month_index ?t = k"
    using month_length_bounds(1) [of k]
    by (intro month_index_unique) (simp_all add: d month_length_def)
  then show ?thesis by (simp add: getUTCDate_eq d month_length_def)
qed

lemma boundary_eq:
  assumes k: "1200 \<le> k"
    and lo: "- max_time \<le> day_from_month k * msPerDay"
    and hi: "day_from_month (k + 1) * msPerDay \<le> max_time"
  shows "boundary a k = Some (anniversary a k)"
proof -
  have r: "js_rem k 12 = k mod 12" using k by (simp add: js_rem_def)
  have y: "100 \<le> k div 12" using k by presburger
  have m: "12 * (k div 12) + k mod 12 = k" by simp
  have step: "day_from_month k + 28 \<le> day_from_month (k + 1)" using day_from_month_step [of k] by simp
  let ?e = "(day_from_month (k + 1) - 1) * msPerDay"
  have e: "\<bar>?e\<bar> \<le> max_time" using lo hi step by (simp add: msPerDay_def)
  moreover have "12 * (k div 12) + (k mod 12 + 1) = k + 1" by simp
  ultimately have last: "date_UTC (k div 12) (k mod 12 + 1) 0 0 0 0 0 = Some ?e"
    using y by (simp add: date_UTC_def Let_def)
  have clock: "(x::int) + getUTCHours a * 3600000 + getUTCMinutes a * 60000
      + getUTCSeconds a * 1000 + getUTCMilliseconds a = x + time_of_day a" for x
    using clock_fields [of a] by simp
  have "day_from_month k \<le> day_of (anniversary a k)"
    "day_of (anniversary a k) < day_from_month (k + 1)"
    using month_index_bounds [of "anniversary a k"] by simp_all
  then have "\<bar>anniversary a k\<bar> \<le> max_time"
    using time_split [of "anniversary a k"] time_of_day_bounds [of "anniversary a k"] lo hi
    by (simp add: msPerDay_def)
  then show ?thesis
    using y e by (simp add: boundary_def Let_def r last getUTCDate_month_end date_UTC_def m
        clock anniversary_def)
qed

section \<open>Periods\<close>

text \<open>The index of the period containing a time, and the times the code handles.\<close>

definition period_month :: "date \<Rightarrow> date \<Rightarrow> int" where
  "period_month a t =
     (if anniversary a (month_index t) > t then month_index t - 1 else month_index t)"

definition billable_time :: "date \<Rightarrow> date \<Rightarrow> bool" where
  "billable_time a t \<longleftrightarrow> 0 \<le> a \<and> a \<le> t \<and> t \<le> max_time - 100 * msPerDay"

lemma period_month_contains:
  "anniversary a (period_month a t) \<le> t \<and> t < anniversary a (period_month a t + 1)"
proof -
  have "anniversary a (month_index t - 1) \<le> t"
    using month_index_mono [of t "anniversary a (month_index t - 1)"] by fastforce
  moreover have "t < anniversary a (month_index t + 1)"
    using month_index_mono [of "anniversary a (month_index t + 1)" t] by fastforce
  ultimately show ?thesis by (auto simp: period_month_def)
qed

lemma period_month_unique:
  assumes "anniversary a k \<le> t" "t < anniversary a (k + 1)"
  shows "period_month a t = k"
proof (rule antisym; rule ccontr)
  assume "\<not> period_month a t \<le> k"
  then have "anniversary a (k + 1) \<le> anniversary a (period_month a t)"
    by (intro anniversary_mono) simp
  with assms period_month_contains [of a t] show False by linarith
next
  assume "\<not> k \<le> period_month a t"
  then have "anniversary a (period_month a t + 1) \<le> anniversary a k"
    by (intro anniversary_mono) simp
  with assms period_month_contains [of a t] show False by linarith
qed

lemma period_month_ge_anchor: "a \<le> t \<Longrightarrow> month_index a \<le> period_month a t"
  using month_index_mono [of a t] anniversary_self [of a]
  by (auto simp: period_month_def) (metis anniversary_self linorder_not_less order.strict_iff_order)

lemma day_from_month_1970: "day_from_month 23640 = 0"
  by (simp add: day_from_month_def day_from_year_def days_before_month_def)

lemma month_index_epoch: "0 \<le> t \<Longrightarrow> 23640 \<le> month_index t"
proof -
  assume "0 \<le> t"
  then have "day_from_month 23640 \<le> day_of t"
    by (simp add: day_from_month_1970 day_of_def msPerDay_def pos_imp_zdiv_nonneg_iff)
  then show ?thesis
    using month_index_bounds(2) [of t] day_from_month_mono [of "month_index t + 1" 23640]
    by fastforce
qed

text \<open>Near a billable time the code's boundaries are the anniversaries.\<close>

lemma boundary_near:
  assumes b: "billable_time a t" and k: "month_index a \<le> k" "k \<le> month_index t + 1"
  shows "boundary a k = Some (anniversary a k)"
proof (rule boundary_eq)
  have t: "0 \<le> a" "a \<le> t" "t \<le> max_time - 100 * msPerDay" using b by (simp_all add: billable_time_def)
  have e: "23640 \<le> k" using month_index_epoch [OF t(1)] k(1) by simp
  then show "1200 \<le> k" by simp
  show "- max_time \<le> day_from_month k * msPerDay"
    using day_from_month_mono [OF e] by (simp add: day_from_month_1970 max_time_def msPerDay_def)
  have "day_from_month (k + 1) \<le> day_from_month (month_index t + 1 + 1)"
    using k(2) by (intro day_from_month_mono) simp
  also have "\<dots> \<le> day_of t + 62"
    using day_from_month_step [of "month_index t"] day_from_month_step [of "month_index t + 1"]
      month_index_bounds(1) [of t] by linarith
  finally have "day_from_month (k + 1) * msPerDay \<le> t + 62 * msPerDay"
    using time_split [of t] time_of_day_bounds(1) [of t] by (simp add: msPerDay_def)
  then show "day_from_month (k + 1) * msPerDay \<le> max_time"
    using t(3) by (simp add: msPerDay_def)
qed

text \<open>The code's period is the one between the anniversaries around the given time.\<close>

lemma billingPeriod_eq:
  assumes b: "billable_time a t"
  shows "billingPeriod (Some a) (Some t) =
    Inr \<lparr>startsAt = anniversary a (period_month a t),
         endsAt = anniversary a (period_month a t + 1)\<rparr>"
proof -
  have at: "a \<le> t" using b by (simp add: billable_time_def)
  have ge: "month_index a \<le> period_month a t" by (rule period_month_ge_anchor [OF at])
  have le: "period_month a t \<le> month_index t" by (simp add: period_month_def)
  have b0: "boundary a (month_index t) = Some (anniversary a (month_index t))"
    using month_index_mono [OF at] by (intro boundary_near [OF b]) simp_all
  have b1: "boundary a (period_month a t) = Some (anniversary a (period_month a t))"
    using ge le by (intro boundary_near [OF b]) simp_all
  have b2: "boundary a (period_month a t + 1) = Some (anniversary a (period_month a t + 1))"
    using ge le by (intro boundary_near [OF b]) simp_all
  have m: "(case boundary a (month_index t) of
              Some x \<Rightarrow> if x > t then month_index t - 1 else month_index t
            | None \<Rightarrow> month_index t) = period_month a t"
    by (simp add: b0 period_month_def)
  show ?thesis
    unfolding billingPeriod_def Let_def month_index_def [symmetric] prod.case option.case m b1 b2
    using at ge by simp
qed

section \<open>Properties\<close>

text \<open>
  For every activation from 1970 on and every later time, the period is found (the two
  exceptions are not thrown), the time lies in it (start included, end excluded), it does not
  start before the activation, and it keeps the activation's time of day.
\<close>

theorem billingPeriod_contains:
  assumes "billable_time a t"
  shows "\<exists>p. billingPeriod (Some a) (Some t) = Inr p \<and> startsAt p \<le> t \<and> t < endsAt p
    \<and> a \<le> startsAt p \<and> time_of_day (startsAt p) = time_of_day a"
  using period_month_contains [of a t] assms
    anniversary_mono [OF period_month_ge_anchor, of a t a] anniversary_self [of a]
  by (simp add: billingPeriod_eq anniversary_day billable_time_def)

theorem billingPeriod_contains_witness:
  "\<exists>p. billingPeriod (Some 1706659200000) (Some 1709164800000) = Inr p
     \<and> startsAt p \<le> 1709164800000 \<and> 1709164800000 < endsAt p
     \<and> 1706659200000 \<le> startsAt p \<and> time_of_day (startsAt p) = time_of_day 1706659200000"
  by (rule billingPeriod_contains) (simp add: billable_time_def max_time_def msPerDay_def)

text \<open>
  Billing periods tile time: the period computed at the instant a period ends starts
  exactly there, so no time is billed twice and none is skipped.
\<close>

theorem billingPeriod_consecutive:
  assumes "billable_time a t" "billingPeriod (Some a) (Some t) = Inr p"
    "endsAt p \<le> max_time - 100 * msPerDay"
  shows "\<exists>q. billingPeriod (Some a) (Some (endsAt p)) = Inr q \<and> startsAt q = endsAt p"
proof -
  have p: "endsAt p = anniversary a (period_month a t + 1)"
    using assms(1,2) by (auto simp: billingPeriod_eq)
  have "t < endsAt p" using period_month_contains [of a t] by (simp add: p)
  then have b: "billable_time a (endsAt p)" using assms(1,3) by (simp add: billable_time_def)
  have "period_month a (endsAt p) = period_month a t + 1"
    by (rule period_month_unique) (simp_all add: p anniversary_less)
  with billingPeriod_eq [OF b] show ?thesis by (simp add: p)
qed

lemma leap_day_period:
  "billingPeriod (Some 1706659200000) (Some 1709200000000) =
     Inr \<lparr>startsAt = 1709164800000, endsAt = 1711843200000\<rparr>"
  by code_simp

theorem billingPeriod_consecutive_witness:
  "\<exists>q. billingPeriod (Some 1706659200000) (Some 1711843200000) = Inr q \<and> startsAt q = 1711843200000"
  using billingPeriod_consecutive [OF _ leap_day_period]
  by (simp add: billable_time_def max_time_def msPerDay_def)

text \<open>
  Two times of the same subscription that lie in one period get the same period: the
  usage row found by its start is the same for every upload of the period.
\<close>

theorem billingPeriod_stable:
  assumes "billable_time a t" "billingPeriod (Some a) (Some t) = Inr p"
    "startsAt p \<le> u" "u < endsAt p" "u \<le> max_time - 100 * msPerDay"
  shows "billingPeriod (Some a) (Some u) = Inr p"
proof -
  have p: "p = \<lparr>startsAt = anniversary a (period_month a t),
      endsAt = anniversary a (period_month a t + 1)\<rparr>"
    using assms(1,2) by (simp add: billingPeriod_eq)
  have "a \<le> startsAt p"
    using anniversary_mono [OF period_month_ge_anchor, of a t a] anniversary_self [of a] assms(1)
    by (simp add: p billable_time_def)
  then have "billable_time a u" using assms(1,3,5) by (simp add: billable_time_def)
  moreover have "period_month a u = period_month a t"
    using assms(3,4) by (intro period_month_unique) (simp_all add: p)
  ultimately show ?thesis by (simp add: billingPeriod_eq p)
qed

theorem billingPeriod_stable_witness:
  "billingPeriod (Some 1706659200000) (Some 1710000000000) =
     Inr \<lparr>startsAt = 1709164800000, endsAt = 1711843200000\<rparr>"
  using billingPeriod_stable [OF _ leap_day_period, of 1710000000000]
  by (simp add: billable_time_def max_time_def msPerDay_def)

end
