(* ===== verification/Billing.thy ===== *)
theory Billing
  imports Plans BillingPeriod
begin

text \<open>
  The billing calculation (\<open>subscriptions/billing.service.ts\<close>): the estimate for the current
  period, and the overage charged for additional stored files. Amounts are integers; the
  code's checks for safe integers are written out.
\<close>

definition invalid_accounting :: error where
  "invalid_accounting = http InternalServerError ''Invalid billing accounting data''"

definition assertInteger :: "int \<Rightarrow> error + unit" where
  "assertInteger v = require (isSafeInteger v \<and> \<not> v < 0) invalid_accounting"

definition safeNumber :: "int \<Rightarrow> error + int" where
  "safeNumber v =
     (if v > MAX_SAFE_INTEGER
      then Inl (http InternalServerError ''Billing amount exceeds safe range'')
      else Inr v)"

datatype calculation_basis = CURRENT_PLAN_ESTIMATE_WITH_RECORDED_OVERAGE

record billing_summary =
  b_companyId :: oid
  b_calculationBasis :: calculation_basis
  b_currency :: billing_currency
  b_plan :: plan_definition
  b_activatedAt :: date
  b_planChangedAt :: date
  b_planChangedInCurrentPeriod :: bool
  b_billingPeriod :: period
  b_baseAmountCents :: int
  b_employeeCount :: int
  b_billableEmployeeCount :: int
  b_employeeUnitPriceCents :: int
  b_employeeChargeCents :: int
  b_includedUploadAllowance :: int
  b_successfulUploads :: int
  b_billableOverageUploads :: int
  b_overageUnitPriceCents :: int
  b_overageChargeCents :: int
  b_totalAmountCents :: int

text \<open>The non-null assertion on the premium unit price: a null price fails its integer check.\<close>

definition overage_unit :: "error + int" where
  "overage_unit = (case extraFilePriceCents (plans_findOne PREMIUM) of
     None \<Rightarrow> Inl invalid_accounting | Some c \<Rightarrow> Inr c)"

definition calculate ::
  "subscription \<Rightarrow> subscription_period option \<Rightarrow> int \<Rightarrow> date \<Rightarrow> error + billing_summary" where
  "calculate subscription usage employeeCount at =
     (let plan = plans_findOne (s_planCode subscription) in
      result_bind (billingPeriod (Some (s_activatedAt subscription)) (Some at)) (\<lambda>period.
      let successfulUploads = (case usage of None \<Rightarrow> 0 | Some u \<Rightarrow> p_uploadedFiles u);
          overageChargeCents = (case usage of None \<Rightarrow> 0 | Some u \<Rightarrow> p_fileOverageCents u) in
      result_bind overage_unit (\<lambda>overageUnitPriceCents.
      result_bind (assertInteger employeeCount) (\<lambda>_.
      result_bind (assertInteger successfulUploads) (\<lambda>_.
      result_bind (assertInteger overageChargeCents) (\<lambda>_.
      result_bind (assertInteger (basePriceCents plan)) (\<lambda>_.
      result_bind (assertInteger (employeePriceCents plan)) (\<lambda>_.
      result_bind (assertInteger overageUnitPriceCents) (\<lambda>_.
      if overageUnitPriceCents = 0 \<or> overageChargeCents mod overageUnitPriceCents \<noteq> 0
      then Inl invalid_accounting
      else
      let billableEmployeeCount = (if employeePriceCents plan > 0 then employeeCount else 0) in
      result_bind (safeNumber (billableEmployeeCount * employeePriceCents plan)) (\<lambda>employeeChargeCents.
      result_bind (safeNumber (overageChargeCents div overageUnitPriceCents)) (\<lambda>billableOverageUploads.
      if billableOverageUploads > successfulUploads then Inl invalid_accounting
      else
      result_bind (safeNumber (basePriceCents plan + employeeChargeCents + overageChargeCents))
        (\<lambda>totalAmountCents.
      Inr \<lparr>b_companyId = s_companyId subscription,
           b_calculationBasis = CURRENT_PLAN_ESTIMATE_WITH_RECORDED_OVERAGE,
           b_currency = pl_currency plan,
           b_plan = plan,
           b_activatedAt = s_activatedAt subscription,
           b_planChangedAt = s_planChangedAt subscription,
           b_planChangedInCurrentPeriod =
             (s_planChangedAt subscription \<ge> startsAt period \<and>
              s_planChangedAt subscription \<le> at \<and>
              s_planChangedAt subscription \<noteq> s_activatedAt subscription),
           b_billingPeriod = period,
           b_baseAmountCents = basePriceCents plan,
           b_employeeCount = employeeCount,
           b_billableEmployeeCount = billableEmployeeCount,
           b_employeeUnitPriceCents = employeePriceCents plan,
           b_employeeChargeCents = employeeChargeCents,
           b_includedUploadAllowance = includedFilesPerMonth plan,
           b_successfulUploads = successfulUploads,
           b_billableOverageUploads = billableOverageUploads,
           b_overageUnitPriceCents = overageUnitPriceCents,
           b_overageChargeCents = overageChargeCents,
           b_totalAmountCents = totalAmountCents\<rparr>))))))))))))"

definition calculateAdditionalOverageCents :: "plan_definition \<Rightarrow> int \<Rightarrow> int \<Rightarrow> error + int" where
  "calculateAdditionalOverageCents plan uploadedFiles resultingFiles =
     result_bind (assertInteger uploadedFiles) (\<lambda>_.
     result_bind (assertInteger resultingFiles) (\<lambda>_.
     if resultingFiles < uploadedFiles then Inl invalid_accounting
     else case extraFilePriceCents plan of
       None \<Rightarrow> Inr 0
     | Some price \<Rightarrow>
         result_bind (assertInteger (includedFilesPerMonth plan)) (\<lambda>_.
         result_bind (assertInteger price) (\<lambda>_.
         let includedFiles = includedFilesPerMonth plan;
             priorExcess =
               (if uploadedFiles > includedFiles then uploadedFiles - includedFiles else 0);
             resultingExcess =
               (if resultingFiles > includedFiles then resultingFiles - includedFiles else 0)
         in safeNumber ((resultingExcess - priorExcess) * price)))))"

section \<open>The ledger\<close>

text \<open>
  The accounting data of a period are consistent when the overage is a whole number of
  premium units, not more of them than uploads.
\<close>

definition consistent_usage :: "subscription_period \<Rightarrow> bool" where
  "consistent_usage u \<longleftrightarrow>
     0 \<le> p_fileOverageCents u \<and> p_fileOverageCents u mod 50 = 0 \<and>
     p_fileOverageCents u div 50 \<le> p_uploadedFiles u"

lemma safeNumber_iff [action_simps]:
  "safeNumber v = Inr w \<longleftrightarrow> w = v \<and> v \<le> MAX_SAFE_INTEGER"
  by (auto simp: safeNumber_def)

lemma assertInteger_iff [action_simps]:
  "assertInteger v = Inr u \<longleftrightarrow> 0 \<le> v \<and> v \<le> MAX_SAFE_INTEGER"
  by (auto simp: assertInteger_def isSafeInteger_def require_def MAX_SAFE_INTEGER_def)

lemma overage_unit_eq [simp]: "overage_unit = Inr 50"
  by (simp add: overage_unit_def plans_findOne_def)

text \<open>The overage of a plan as a function of the number of stored files.\<close>

definition overage :: "plan_definition \<Rightarrow> int \<Rightarrow> int" where
  "overage plan n =
     (case extraFilePriceCents plan of
        None \<Rightarrow> 0 | Some price \<Rightarrow> max 0 (n - includedFilesPerMonth plan) * price)"

lemma additional_overage_eq:
  "calculateAdditionalOverageCents plan a b = Inr c \<Longrightarrow>
     c = overage plan b - overage plan a \<and> 0 \<le> a \<and> a \<le> b"
  by (auto simp: calculateAdditionalOverageCents_def action_simps overage_def Let_def
      left_diff_distrib max_def split: option.splits if_splits)

lemma additional_overage_units:
  assumes "calculateAdditionalOverageCents (plans_findOne code) a b = Inr c"
  shows "0 \<le> c" "c mod 50 = 0" "c div 50 \<le> b - a"
  using additional_overage_eq [OF assms]
  by (cases code; auto simp: overage_def plans_findOne_def max_def)+

text \<open>
  C31. The overage charged is path-independent: charging a company for growing from
  \<open>a\<close> to \<open>b\<close> and then from \<open>b\<close> to \<open>c\<close> stored files charges exactly what one upload of
  \<open>c - a\<close> files charges. Splitting an upload neither saves nor costs a cent.
\<close>

theorem overage_path_independent:
  assumes "calculateAdditionalOverageCents plan a b = Inr x"
    "calculateAdditionalOverageCents plan b c = Inr y"
    "calculateAdditionalOverageCents plan a c = Inr z"
  shows "x + y = z"
  using assms [THEN additional_overage_eq] by simp

theorem overage_path_independent_witness:
  "calculateAdditionalOverageCents (plans_findOne PREMIUM) 999 1001 = Inr 50
   \<and> calculateAdditionalOverageCents (plans_findOne PREMIUM) 1001 1005 = Inr 200
   \<and> calculateAdditionalOverageCents (plans_findOne PREMIUM) 999 1005 = Inr (50 + 200)"
proof -
  have e: "calculateAdditionalOverageCents (plans_findOne PREMIUM) 999 1001 = Inr 50"
    "calculateAdditionalOverageCents (plans_findOne PREMIUM) 1001 1005 = Inr 200"
    "calculateAdditionalOverageCents (plans_findOne PREMIUM) 999 1005 = Inr 250"
    by code_simp+
  then show ?thesis using overage_path_independent [OF e] by simp
qed

text \<open>
  A billing summary adds up: the total is the base amount plus the employees' charge plus
  the overage, no amount is negative or outside the safe integers, only plans with an employee
  price bill employees, and the overage uploads are the overage in units of the premium price.
\<close>

theorem calculate_adds_up:
  assumes "calculate s usage n at = Inr b"
  shows "b_totalAmountCents b =
      b_baseAmountCents b + b_employeeChargeCents b + b_overageChargeCents b
    \<and> b_employeeChargeCents b = b_billableEmployeeCount b * b_employeeUnitPriceCents b
    \<and> b_billableEmployeeCount b = (if s_planCode s = BASIC then n else 0)
    \<and> b_overageChargeCents b = b_billableOverageUploads b * b_overageUnitPriceCents b
    \<and> b_billableOverageUploads b \<le> b_successfulUploads b
    \<and> 0 \<le> b_totalAmountCents b \<and> isSafeInteger (b_totalAmountCents b)"
proof -
  from assms have u: "0 \<le> n" "0 \<le> b_overageChargeCents b" "b_overageChargeCents b mod 50 = 0"
    "b_overageUnitPriceCents b = 50" "b_billableOverageUploads b = b_overageChargeCents b div 50"
    "b_billableOverageUploads b \<le> b_successfulUploads b"
    "b_billableEmployeeCount b = (if employeePriceCents (plans_findOne (s_planCode s)) > 0 then n else 0)"
    "b_employeeUnitPriceCents b = employeePriceCents (plans_findOne (s_planCode s))"
    "b_employeeChargeCents b = b_billableEmployeeCount b * b_employeeUnitPriceCents b"
    "b_baseAmountCents b = basePriceCents (plans_findOne (s_planCode s))"
    "b_totalAmountCents b = b_baseAmountCents b + b_employeeChargeCents b + b_overageChargeCents b"
    "b_totalAmountCents b \<le> MAX_SAFE_INTEGER"
    by (auto simp: calculate_def Let_def action_simps split: if_splits)
  have "b_overageChargeCents b = b_billableOverageUploads b * b_overageUnitPriceCents b"
    using u(3) by (simp add: u(4,5) div_mult_mod_eq mult.commute mod_eq_0_iff_dvd)
  moreover have "b_billableEmployeeCount b = (if s_planCode s = BASIC then n else 0)"
    by (cases "s_planCode s") (simp_all add: u(7) plans_findOne_def)
  moreover have "0 \<le> b_totalAmountCents b"
    using u(1,2) by (simp add: u(7-11) plans_findOne_def)
  ultimately show ?thesis using u by (simp add: isSafeInteger_def MAX_SAFE_INTEGER_def)
qed

theorem calculate_adds_up_witness:
  "\<exists>b. calculate (subscription_document 1 7 BASIC 1706659200000 1706659200000) None 3 1709200000000
       = Inr b
     \<and> b_totalAmountCents b =
         b_baseAmountCents b + b_employeeChargeCents b + b_overageChargeCents b
     \<and> b_billableEmployeeCount b = 3"
proof -
  let ?c = "calculate (subscription_document 1 7 BASIC 1706659200000 1706659200000) None 3 1709200000000"
  have e: "?c = Inr (projr ?c)" by code_simp
  show ?thesis using calculate_adds_up [OF e] e by (auto simp: subscription_document_def)
qed

end
