(* ===== verification/PaymentPolicy.thy ===== *)
theory PaymentPolicy
  imports Plans BillingPeriod
begin

text \<open>
  The payment rules the rest of the program asks for: whether a company may onboard or upload
  (\<open>payments/payment-policy.ts\<close>), the constants and the minute-aligned meter window
  (\<open>payments/payment.constants.ts\<close>), and the queueing of metered overage
  (\<open>PaymentsService.enqueueOverage\<close>). Divisions by 60000 are exact integer divisions.
\<close>

definition STRIPE_LEASE_MS :: int where "STRIPE_LEASE_MS = 5 * 60 * 1000"
definition STRIPE_RETRY_WINDOW_MS :: int where "STRIPE_RETRY_WINDOW_MS = 23 * 60 * 60 * 1000"

fun isTerminalStripeStatus :: "stripe_status option \<Rightarrow> bool" where
  "isTerminalStripeStatus (Some Canceled) = True"
| "isTerminalStripeStatus (Some Incomplete_Expired) = True"
| "isTerminalStripeStatus _ = False"

definition assertPaymentAccess :: "subscription \<Rightarrow> bool \<Rightarrow> date \<Rightarrow> error + unit" where
  "assertPaymentAccess s enabled now =
     (if s_planCode s = FREE \<and> \<not> s_stripeManaged s then Inr ()
      else if \<not> enabled \<and> \<not> s_stripeManaged s then Inr ()
      else if \<not> enabled \<or> \<not> s_stripeManaged s
           \<or> s_paymentSyncIssue s = RECONCILIATION_REQUIRED
           \<or> s_paymentAccess s \<notin> set [ACTIVE, DEFERRED]
           \<or> (case s_stripeSyncedAt s of
                None \<Rightarrow> True
              | Some synced \<Rightarrow> now - synced > 24 * 60 * 60 * 1000)
      then Inl (http Forbidden
        ''Company billing requires attention before new uploads or employee onboarding'')
      else Inr ())"

section \<open>Metered usage\<close>

definition ceil_div :: "int \<Rightarrow> int \<Rightarrow> int" where
  "ceil_div a b = - ((- a) div b)"

definition meterWindow_start :: "period \<Rightarrow> int" where
  "meterWindow_start p = ceil_div (startsAt p) 60000 * 60"

definition meterWindow_end :: "period \<Rightarrow> int" where
  "meterWindow_end p = ceil_div (endsAt p) 60000 * 60"

definition usage_identifier :: "oid \<Rightarrow> date \<Rightarrow> int \<Rightarrow> string" where
  "usage_identifier companyId start sequence =
     ''dv-'' @ oid_to_string companyId @ ''-'' @ show_int start @ ''-'' @ show_int sequence"

definition invalid_metered :: error where
  "invalid_metered = http ServiceUnavailable ''Invalid metered usage accounting''"

text \<open>\<open>usages.create\<close> refuses a second document with the same unique identifier.\<close>

definition create_usage :: "stripe_usage \<Rightarrow> unit handler" where
  "create_usage u =
     andthen (gets (\<lambda>w. find (\<lambda>v. g_identifier v = g_identifier u) (stripeUsages w))) (\<lambda>v.
     if v \<noteq> None then throw (DuplicateKey ''identifier'')
     else modify (\<lambda>w. w\<lparr>stripeUsages := stripeUsages w @ [u]\<rparr>))"

definition usage_timestamp :: "subscription \<Rightarrow> period \<Rightarrow> date \<Rightarrow> int" where
  "usage_timestamp s period now =
     max (meterWindow_start period)
       (max (ceil_div (case s_stripeMeterStartedAt s of
                         Some m \<Rightarrow> m | None \<Rightarrow> startsAt period) 60000 * 60)
            (min (now div 60000 * 60) (meterWindow_end period - 60)))"

text \<open>The checks and the document of \<open>enqueueOverage\<close>, for a charge that is to be metered.\<close>

definition overage_usage ::
  "subscription \<Rightarrow> period \<Rightarrow> int \<Rightarrow> int \<Rightarrow> date \<Rightarrow> error + stripe_usage" where
  "overage_usage s period sequence additionalChargeCents now =
     (case (s_stripeCustomerId s, s_stripeSubscriptionId s) of
        (Some customerId, Some subscriptionId) \<Rightarrow>
          if \<not> isSafeInteger additionalChargeCents \<or> additionalChargeCents < 0
             \<or> \<not> isSafeInteger sequence \<or> sequence < 1
          then Inl invalid_metered
          else (case extraFilePriceCents (plans_findOne PREMIUM) of
            None \<Rightarrow> Inl (PlainError ''TypeError'')
          | Some unit \<Rightarrow>
              let quantity = additionalChargeCents div unit in
              if \<not> isSafeInteger quantity \<or> quantity < 1 \<or> quantity * unit \<noteq> additionalChargeCents
              then Inl invalid_metered
              else if usage_timestamp s period now \<ge> meterWindow_end period
              then Inl (http Conflict ''Upload crossed a subscription billing boundary; retry'')
              else Inr
                \<lparr>g_identifier = usage_identifier (s_companyId s) (startsAt period) sequence,
                 g_companyId = s_companyId s, g_customerId = customerId,
                 g_subscriptionId = subscriptionId, g_quantity = quantity,
                 g_timestamp = usage_timestamp s period now, g_periodStartsAt = startsAt period,
                 g_periodEndsAt = endsAt period, g_state = USAGE_PENDING,
                 g_firstAttemptAt = None, g_submittedAt = None\<rparr>)
      | _ \<Rightarrow> Inl (http ServiceUnavailable ''Stripe usage mapping is unavailable''))"

definition enqueueOverage ::
  "bool \<Rightarrow> subscription \<Rightarrow> period \<Rightarrow> int \<Rightarrow> int \<Rightarrow> date \<Rightarrow> unit handler" where
  "enqueueOverage enabled s period sequence additionalChargeCents now =
     (if \<not> enabled \<or> \<not> s_stripeManaged s \<or> additionalChargeCents = 0 then return ()
      else andthen (lift_result (overage_usage s period sequence additionalChargeCents now))
             create_usage)"

lemma create_usage_Inr:
  "create_usage u w = (Inr x, w') \<longleftrightarrow>
     find (\<lambda>v. g_identifier v = g_identifier u) (stripeUsages w) = None
     \<and> w' = w\<lparr>stripeUsages := stripeUsages w @ [u]\<rparr>"
  by (auto simp: create_usage_def action_simps split: if_splits)

lemma create_usage_Inl:
  "create_usage u w = (Inl e, w') \<longleftrightarrow>
     find (\<lambda>v. g_identifier v = g_identifier u) (stripeUsages w) \<noteq> None
     \<and> e = DuplicateKey ''identifier'' \<and> w' = w"
  by (auto simp: create_usage_def action_simps split: if_splits)

text \<open>Queueing overage writes the usage collection and nothing else.\<close>

lemma enqueueOverage_frame:
  assumes "enqueueOverage en s p q c now w = (r, w')"
  shows "w' = w \<or> (\<exists>u. w' = w\<lparr>stripeUsages := stripeUsages w @ [u]\<rparr>)"
  using assms
  by (cases r; cases "overage_usage s p q c now")
    (auto simp: enqueueOverage_def action_simps create_usage_Inr create_usage_Inl split: if_splits)

lemma overage_usage_Inr:
  assumes "overage_usage s p q c now = Inr u"
  shows "g_state u = USAGE_PENDING" "g_quantity u = c div 50" "c div 50 * 50 = c" "1 \<le> c div 50"
    "g_companyId u = s_companyId s" "g_periodStartsAt u = startsAt p"
    "g_timestamp u < meterWindow_end p" "g_timestamp u = usage_timestamp s p now"
    "g_identifier u = usage_identifier (s_companyId s) (startsAt p) q"
proof -
  have pr: "extraFilePriceCents (plans_findOne PREMIUM) = Some 50" by (simp add: plans_findOne_def)
  show "g_state u = USAGE_PENDING" "g_quantity u = c div 50" "c div 50 * 50 = c" "1 \<le> c div 50"
    "g_companyId u = s_companyId s" "g_periodStartsAt u = startsAt p"
    "g_timestamp u < meterWindow_end p" "g_timestamp u = usage_timestamp s p now"
    "g_identifier u = usage_identifier (s_companyId s) (startsAt p) q"
    using assms unfolding overage_usage_def pr option.case Let_def
    by (auto simp: not_le not_less split: if_splits option.splits)
qed

lemma ceil_div_bounds: "0 < b \<Longrightarrow> a \<le> ceil_div a b * b \<and> ceil_div a b * b < a + b"
  using div_mult_floor [of b "- a"] by (simp add: ceil_div_def)

text \<open>
  C36. A queued usage record is exact and inside its billing period: its quantity times the
  unit price is the charge, its timestamp is a whole minute, not before the (rounded-up) start
  of the period and strictly before the (rounded-up) end, and it starts its life pending.
\<close>

theorem enqueued_usage_exact:
  assumes "enqueueOverage True s p q c now w = (Inr (), w')" "s_stripeManaged s" "c \<noteq> 0"
  shows "\<exists>u. stripeUsages w' = stripeUsages w @ [u] \<and> g_state u = USAGE_PENDING
    \<and> g_quantity u * 50 = c \<and> 1 \<le> g_quantity u
    \<and> g_timestamp u mod 60 = 0
    \<and> startsAt p \<le> g_timestamp u * 1000
    \<and> g_timestamp u < meterWindow_end p \<and> g_timestamp u * 1000 < endsAt p + 60000
    \<and> g_companyId u = s_companyId s \<and> g_periodStartsAt u = startsAt p"
proof -
  from assms obtain u where o: "overage_usage s p q c now = Inr u"
    and w: "stripeUsages w' = stripeUsages w @ [u]"
    by (auto simp: enqueueOverage_def action_simps create_usage_Inr)
  note u = overage_usage_Inr [OF o]
  have "60 dvd g_timestamp u"
    unfolding u(8) usage_timestamp_def meterWindow_start_def meterWindow_end_def
    by (simp only: max_def min_def split: if_split) (simp add: dvd_diff)
  moreover have "meterWindow_start p \<le> g_timestamp u"
    unfolding u(8) usage_timestamp_def by (rule max.cobounded1)
  then have "startsAt p \<le> g_timestamp u * 1000"
    using ceil_div_bounds [of 60000 "startsAt p"] by (simp add: meterWindow_start_def)
  moreover have "g_timestamp u * 1000 < endsAt p + 60000"
    using u(7) ceil_div_bounds [of 60000 "endsAt p"] by (simp add: meterWindow_end_def)
  ultimately show ?thesis using u(1-7) w by (auto simp: mod_eq_0_iff_dvd)
qed

theorem enqueued_usage_exact_witness:
  "\<exists>u. stripeUsages (snd (enqueueOverage True
        ((subscription_document 1 7 PREMIUM 0 0)
           \<lparr>s_stripeManaged := True, s_stripeCustomerId := Some ''cus'',
            s_stripeSubscriptionId := Some ''sub''\<rparr>)
        (\<lparr>startsAt = 0, endsAt = 2678400000\<rparr>) 3 100 30000 empty_world)) = [u]
     \<and> g_quantity u * 50 = 100"
proof -
  let ?s = "(subscription_document 1 7 PREMIUM 0 0)
     \<lparr>s_stripeManaged := True, s_stripeCustomerId := Some ''cus'', s_stripeSubscriptionId := Some ''sub''\<rparr>"
  let ?r = "enqueueOverage True ?s (\<lparr>startsAt = 0, endsAt = 2678400000\<rparr>) 3 100
     30000 empty_world"
  have f: "fst ?r = Inr ()" by code_simp
  have m: "s_stripeManaged ?s" by simp
  have e: "?r = (Inr (), snd ?r)" using f by (metis prod.collapse)
  show ?thesis using enqueued_usage_exact [OF e m] by (auto simp: empty_world_def)
qed

section \<open>Idempotency keys of usage records\<close>

lemma takeWhile_split: "(\<And>c. c \<in> set xs \<Longrightarrow> c \<noteq> d) \<Longrightarrow> takeWhile (\<lambda>c. c \<noteq> d) (xs @ d # ys) = xs"
  by (induction xs) auto

lemma split_at_eq:
  assumes "xs @ d # ys = us @ d # vs" "\<And>c. c \<in> set xs \<Longrightarrow> c \<noteq> d" "\<And>c. c \<in> set us \<Longrightarrow> c \<noteq> d"
  shows "xs = us \<and> ys = vs"
proof -
  have "xs = us"
    using takeWhile_split [of xs d ys] takeWhile_split [of us d vs] assms by simp
  with assms(1) show ?thesis by simp
qed

text \<open>
  Two uploads never share a Stripe idempotency key by accident: equal usage identifiers
  have the same company, period start and sequence number.
\<close>

theorem usage_identifier_inj:
  assumes "usage_identifier c1 t1 n1 = usage_identifier c2 t2 n2"
    "c1 < 16 ^ 24" "c2 < 16 ^ 24" "0 \<le> t1" "0 \<le> t2" "0 \<le> n1" "0 \<le> n2"
  shows "c1 = c2 \<and> t1 = t2 \<and> n1 = n2"
proof -
  have len: "length (oid_to_string c1) = length (oid_to_string c2)"
    by (simp add: oid_to_string_def)
  have eq: "oid_to_string c1 @ (''-'' @ show_int t1 @ ''-'' @ show_int n1)
      = oid_to_string c2 @ (''-'' @ show_int t2 @ ''-'' @ show_int n2)"
    using assms(1) by (simp add: usage_identifier_def)
  then have c: "oid_to_string c1 = oid_to_string c2"
    and r: "''-'' @ show_int t1 @ ''-'' @ show_int n1 = ''-'' @ show_int t2 @ ''-'' @ show_int n2"
    using len by (simp_all add: append_eq_append_conv)
  have t: "show_int t1 = show_nat (nat t1)" "show_int t2 = show_nat (nat t2)"
    "show_int n1 = show_nat (nat n1)" "show_int n2 = show_nat (nat n2)"
    using assms(4-7) by (simp_all add: show_int_def)
  have "show_nat (nat t1) = show_nat (nat t2) \<and> show_nat (nat n1) = show_nat (nat n2)"
    using r by (intro split_at_eq [of _ "CHR ''-''"]) (auto simp: t dest: show_nat_digits)
  then have "nat t1 = nat t2" "nat n1 = nat n2" by (auto dest: show_nat_inj)
  with assms show ?thesis using oid_to_string_inj [OF c] by auto
qed

theorem usage_identifier_inj_witness:
  "usage_identifier 10 1706659200000 101 = usage_identifier 10 1706659200000 101 \<and> (101::int) = 101"
  using usage_identifier_inj [of 10 1706659200000 101 10 1706659200000 101] by simp

end
