(* ===== verification/Subscriptions.thy ===== *)
theory Subscriptions
  imports Billing PaymentPolicy
begin

text \<open>
  Subscriptions of a company (\<open>subscriptions/subscriptions.service.ts\<close>): the free plan a
  company starts with, the view of the current period, the lock that every write of a quota
  takes first, and the plan change of companies not managed by Stripe.
\<close>

section \<open>Queries\<close>

definition subscription_of :: "world \<Rightarrow> oid \<Rightarrow> subscription option" where
  "subscription_of w companyId = find (\<lambda>s. s_companyId s = companyId) (subscriptions w)"

definition employee_count :: "world \<Rightarrow> oid \<Rightarrow> int" where
  "employee_count w companyId =
     countDocuments (\<lambda>u. u_companyId u = companyId \<and> u_role u = COMPANY_MEMBER) (users w)"

definition pending_invitations :: "world \<Rightarrow> oid \<Rightarrow> date \<Rightarrow> int" where
  "pending_invitations w companyId at =
     countDocuments (\<lambda>i. i_companyId i = companyId \<and> i_status i = INV_PENDING \<and> i_expiresAt i > at)
       (invitations w)"

definition stored_files :: "world \<Rightarrow> oid \<Rightarrow> int" where
  "stored_files w companyId = countDocuments (\<lambda>f. f_companyId f = companyId) (files w)"

definition usage_of :: "world \<Rightarrow> oid \<Rightarrow> date \<Rightarrow> subscription_period option" where
  "usage_of w companyId start =
     find (\<lambda>p. p_companyId p = companyId \<and> p_startsAt p = start) (periods w)"

section \<open>Operations\<close>

definition initializeFree :: "oid \<Rightarrow> oid \<Rightarrow> date \<Rightarrow> subscription handler" where
  "initializeFree newId companyId activatedAt =
     andthen (gets (\<lambda>w. subscription_of w companyId)) (\<lambda>existing.
     if existing \<noteq> None then throw (DuplicateKey ''companyId'')
     else
       let s = subscription_document newId companyId FREE activatedAt activatedAt in
       andthen (modify (\<lambda>w. w\<lparr>subscriptions := subscriptions w @ [s]\<rparr>)) (\<lambda>_. return s))"

definition no_subscription :: error where
  "no_subscription = http NotFound ''Company subscription not found''"

definition getSubscription :: "oid \<Rightarrow> subscription handler" where
  "getSubscription companyId =
     andthen (gets (\<lambda>w. subscription_of w companyId)) (\<lambda>s.
       case s of None \<Rightarrow> throw no_subscription | Some subscription \<Rightarrow> return subscription)"

definition bump_revision :: "subscription \<Rightarrow> subscription" where
  "bump_revision s = s\<lparr>s_revision := s_revision s + 1\<rparr>"

definition acquireLock :: "oid \<Rightarrow> subscription handler" where
  "acquireLock companyId =
     andthen (gets (\<lambda>w. subscription_of w companyId)) (\<lambda>s.
       case s of
         None \<Rightarrow> throw no_subscription
       | Some subscription \<Rightarrow>
           andthen (modify (\<lambda>w. w\<lparr>subscriptions :=
               updateOne (\<lambda>d. s_companyId d = companyId) bump_revision (subscriptions w)\<rparr>))
             (\<lambda>_. return (bump_revision subscription)))"

record current_view =
  cu_companyId :: oid
  cu_plan :: plan_definition
  cu_activatedAt :: date
  cu_planChangedAt :: date
  cu_billingPeriod :: period
  cu_uploadedFiles :: int
  cu_fileOverageCents :: int
  cu_employeeCount :: int
  cu_storedFiles :: int
  cu_monthlyPriceEstimateCents :: int
  cu_billingSummary :: billing_summary

definition getCurrent :: "oid \<Rightarrow> date \<Rightarrow> current_view handler" where
  "getCurrent companyId at = transaction
     (andthen (getSubscription companyId) (\<lambda>subscription.
      let plan = plans_findOne (s_planCode subscription) in
      andthen (lift_result (billingPeriod (Some (s_activatedAt subscription)) (Some at))) (\<lambda>period.
      andthen (gets (\<lambda>w. usage_of w companyId (startsAt period))) (\<lambda>usage.
      andthen (gets (\<lambda>w. employee_count w companyId)) (\<lambda>employeeCount.
      andthen (lift_result (calculate subscription usage employeeCount at)) (\<lambda>billingSummary.
      andthen (gets (\<lambda>w. stored_files w companyId)) (\<lambda>storedFiles.
      return
        \<lparr>cu_companyId = s_companyId subscription, cu_plan = plan,
         cu_activatedAt = s_activatedAt subscription,
         cu_planChangedAt = s_planChangedAt subscription, cu_billingPeriod = period,
         cu_uploadedFiles = option_default 0 (map_option p_uploadedFiles usage),
         cu_fileOverageCents = option_default 0 (map_option p_fileOverageCents usage),
         cu_employeeCount = employeeCount, cu_storedFiles = storedFiles,
         cu_monthlyPriceEstimateCents = b_totalAmountCents billingSummary,
         cu_billingSummary = billingSummary\<rparr>)))))))"

definition getCurrentBilling :: "oid \<Rightarrow> date \<Rightarrow> billing_summary handler" where
  "getCurrentBilling companyId at =
     andthen (getCurrent companyId at) (\<lambda>c. return (cu_billingSummary c))"

text \<open>The limits a change to a plan is checked against.\<close>

definition plan_employee_check :: "plan_definition \<Rightarrow> plan_code \<Rightarrow> int \<Rightarrow> int \<Rightarrow> error + unit" where
  "plan_employee_check plan planCode employees pending =
     (case maxEmployees plan of
        None \<Rightarrow> Inr ()
      | Some limit \<Rightarrow>
          if employees + pending > limit
          then Inl (HttpException Conflict (Plan_Employee_Limit planCode limit employees pending))
          else Inr ())"

definition plan_file_check :: "plan_definition \<Rightarrow> plan_code \<Rightarrow> int \<Rightarrow> error + unit" where
  "plan_file_check plan planCode storedFiles =
     (if extraFilePriceCents plan = None \<and> storedFiles > includedFilesPerMonth plan
      then Inl (HttpException Conflict
             (Plan_File_Limit planCode (includedFilesPerMonth plan) storedFiles))
      else Inr ())"

definition set_plan :: "plan_code \<Rightarrow> date \<Rightarrow> subscription \<Rightarrow> subscription" where
  "set_plan planCode changedAt s = s\<lparr>s_planCode := planCode, s_planChangedAt := changedAt\<rparr>"

definition changePlan_body :: "actor \<Rightarrow> plan_code \<Rightarrow> date \<Rightarrow> unit handler" where
  "changePlan_body actor planCode changedAt =
     (let plan = plans_findOne planCode; companyId = a_companyId actor in
      andthen (acquireLock companyId) (\<lambda>subscription.
      if s_stripeManaged subscription
      then throw (http Forbidden ''Stripe-managed plans require the payment integration'')
      else
      andthen (gets (\<lambda>w. employee_count w companyId)) (\<lambda>employeeCount.
      andthen (gets (\<lambda>w. pending_invitations w companyId changedAt)) (\<lambda>pendingInvitationCount.
      andthen (lift_result (plan_employee_check plan planCode employeeCount pendingInvitationCount)) (\<lambda>_.
      andthen (gets (\<lambda>w. stored_files w companyId)) (\<lambda>storedFiles.
      andthen (lift_result (plan_file_check plan planCode storedFiles)) (\<lambda>_.
      if s_planCode subscription = planCode then return ()
      else modify (\<lambda>w. w\<lparr>subscriptions :=
        updateOne (\<lambda>d. s_id d = s_id subscription \<and> s_companyId d = companyId)
          (set_plan planCode changedAt) (subscriptions w)\<rparr>))))))))"

text \<open>
  The whole handler. With the payment integration enabled the request is handed to it:
  \<open>delegate\<close> is \<open>PaymentsService.changePlan\<close>, whose result is returned as it is.
\<close>

datatype 'p change_result = Current current_view | Delegated 'p

definition changePlan ::
  "bool \<Rightarrow> (actor \<Rightarrow> plan_code \<Rightarrow> 'p handler) \<Rightarrow> actor \<Rightarrow> plan_code \<Rightarrow> date \<Rightarrow> 'p change_result handler"
where
  "changePlan paymentsEnabled delegate actor planCode now =
     (if a_role actor \<noteq> COMPANY_OWNER
      then throw (http Forbidden ''Company owner access is required'')
      else if paymentsEnabled
      then andthen (delegate actor planCode) (\<lambda>r. return (Delegated r))
      else andthen (transaction (changePlan_body actor planCode now)) (\<lambda>_.
           andthen (getCurrent (a_companyId actor) now) (\<lambda>v. return (Current v))))"

lemma set_plan_simps [simp]:
  "s_companyId (set_plan p t s) = s_companyId s" "s_planCode (set_plan p t s) = p"
  "s_planChangedAt (set_plan p t s) = t" "s_revision (set_plan p t s) = s_revision s"
  "s_id (set_plan p t s) = s_id s"
  by (simp_all add: set_plan_def)

section \<open>The unique index on companyId\<close>

definition unique_subscriptions :: "world \<Rightarrow> bool" where
  "unique_subscriptions w \<longleftrightarrow> distinct (map s_companyId (subscriptions w))"

lemma subscription_of_Some:
  "subscription_of w c = Some s \<Longrightarrow> s \<in> set (subscriptions w) \<and> s_companyId s = c"
  by (auto simp: subscription_of_def dest: find_SomeD)

lemma bump_revision_simps [simp]:
  "s_companyId (bump_revision s) = s_companyId s" "s_planCode (bump_revision s) = s_planCode s"
  "s_activatedAt (bump_revision s) = s_activatedAt s" "s_id (bump_revision s) = s_id s"
  "s_stripeManaged (bump_revision s) = s_stripeManaged s"
  "s_pendingPlanCode (bump_revision s) = s_pendingPlanCode s"
  "s_revision (bump_revision s) = s_revision s + 1"
  "s_planChangedAt (bump_revision s) = s_planChangedAt s"
  by (simp_all add: bump_revision_def)

lemma find_updateOne_self:
  "(\<And>x. q x \<Longrightarrow> q (g x)) \<Longrightarrow> find q (updateOne q g xs) = map_option g (find q xs)"
  by (induction xs) auto

lemma acquireLock_Inr:
  "acquireLock c w = (Inr s, w') \<longleftrightarrow>
     (\<exists>s0. subscription_of w c = Some s0 \<and> s = bump_revision s0 \<and>
        w' = w\<lparr>subscriptions := updateOne (\<lambda>d. s_companyId d = c) bump_revision (subscriptions w)\<rparr>)"
  by (cases "subscription_of w c") (auto simp: acquireLock_def action_simps)

lemma acquireLock_Inl:
  "acquireLock c w = (Inl e, w') \<longleftrightarrow> subscription_of w c = None \<and> e = no_subscription \<and> w' = w"
  by (cases "subscription_of w c") (auto simp: acquireLock_def action_simps)

lemma getSubscription_iff:
  "getSubscription c w = (Inr s, w') \<longleftrightarrow> subscription_of w c = Some s \<and> w' = w"
  "getSubscription c w = (Inl e, w') \<longleftrightarrow> subscription_of w c = None \<and> e = no_subscription \<and> w' = w"
  by (cases "subscription_of w c"; auto simp: getSubscription_def action_simps)+

lemmas lock_simps = acquireLock_Inr acquireLock_Inl getSubscription_iff

text \<open>Taking the lock changes the revision of one subscription and nothing else.\<close>

lemma subscription_of_lock:
  "subscription_of (w\<lparr>subscriptions :=
       updateOne (\<lambda>d. s_companyId d = c) bump_revision (subscriptions w)\<rparr>) b =
     (if b = c then map_option bump_revision (subscription_of w c) else subscription_of w b)"
  by (auto simp: subscription_of_def intro!: find_updateOne_frame find_updateOne_self)

lemma counts_of_subscriptions_update [simp]:
  "employee_count (w\<lparr>subscriptions := x\<rparr>) c = employee_count w c"
  "pending_invitations (w\<lparr>subscriptions := x\<rparr>) c t = pending_invitations w c t"
  "stored_files (w\<lparr>subscriptions := x\<rparr>) c = stored_files w c"
  "usage_of (w\<lparr>subscriptions := x\<rparr>) c t = usage_of w c t"
  by (simp_all add: employee_count_def pending_invitations_def stored_files_def usage_of_def)

lemma unique_subscriptions_update:
  "unique_subscriptions w \<Longrightarrow> (\<And>d. s_companyId (g d) = s_companyId d) \<Longrightarrow>
     unique_subscriptions (w\<lparr>subscriptions := updateOne q g (subscriptions w)\<rparr>)"
  by (simp add: unique_subscriptions_def distinct_updateOne)

text \<open>Reading the current period writes nothing.\<close>

lemma getCurrent_reads_only: "reads_only (getCurrent c at)"
proof -
  have "t = s" if "getCurrent c at s = (r, t)" for r s t
    using that by (cases r) (auto simp: getCurrent_def Let_def action_simps lock_simps)
  then show ?thesis by (metis reads_only_def prod.collapse)
qed

section \<open>Plan changes\<close>

definition within_plan :: "world \<Rightarrow> oid \<Rightarrow> plan_definition \<Rightarrow> date \<Rightarrow> bool" where
  "within_plan w companyId plan at \<longleftrightarrow>
     (case maxEmployees plan of None \<Rightarrow> True
      | Some limit \<Rightarrow> employee_count w companyId + pending_invitations w companyId at \<le> limit)
     \<and> (extraFilePriceCents plan = None \<longrightarrow> stored_files w companyId \<le> includedFilesPerMonth plan)"

lemma within_plan_subscriptions_update [simp]:
  "within_plan (w\<lparr>subscriptions := x\<rparr>) c p t = within_plan w c p t"
  by (simp add: within_plan_def split: option.split)

lemma plan_checks_Inr:
  "plan_employee_check plan code e p = Inr x \<longleftrightarrow>
     (case maxEmployees plan of None \<Rightarrow> True | Some limit \<Rightarrow> e + p \<le> limit)"
  "plan_file_check plan code n = Inr x \<longleftrightarrow>
     (extraFilePriceCents plan = None \<longrightarrow> n \<le> includedFilesPerMonth plan)"
  by (auto simp: plan_employee_check_def plan_file_check_def split: option.splits)

text \<open>A committed body: the limits held, and the subscription got the plan.\<close>

lemma subscription_of_set_plan:
  assumes u: "unique_subscriptions w" and s: "subscription_of w c = Some s"
  shows "subscription_of (w\<lparr>subscriptions :=
       updateOne (\<lambda>d. s_id d = s_id s \<and> s_companyId d = c) (set_plan p t) (subscriptions w)\<rparr>) b =
     (if b = c then Some (set_plan p t s) else subscription_of w b)"
proof (cases "b = c")
  case False
  then show ?thesis by (auto simp: subscription_of_def set_plan_def intro!: find_updateOne_frame)
next
  case True
  have ex: "find (\<lambda>d. s_id d = s_id s \<and> s_companyId d = c) xs = Some s"
    if "find (\<lambda>d. s_companyId d = c) xs = Some s" "distinct (map s_companyId xs)" for xs
    using that
  proof (induction xs)
    case (Cons x xs)
    show ?case
    proof (cases "s_companyId x = c")
      case False
      then show ?thesis using Cons by simp
    qed (use Cons in auto)
  qed simp
  have f: "find (\<lambda>d. s_id d = s_id s \<and> s_companyId d = c) (subscriptions w) = Some s"
    using ex u s by (simp add: unique_subscriptions_def subscription_of_def)
  then have sc: "s_companyId s = c" by (auto dest: find_SomeD)
  have "find (\<lambda>d. s_companyId d = s_companyId s)
     (updateOne (\<lambda>d. s_id d = s_id s \<and> s_companyId d = c) (set_plan p t) (subscriptions w))
     = Some (set_plan p t s)"
    using u by (intro find_updateOne_key [OF f]) (auto simp: set_plan_def unique_subscriptions_def)
  then show ?thesis using True sc by (simp add: subscription_of_def)
qed

lemma changePlan_body_Inr:
  assumes "changePlan_body actor p now w = (Inr x, w')" and u: "unique_subscriptions w"
  shows "within_plan w' (a_companyId actor) (plans_findOne p) now
    \<and> (\<exists>s0 s. subscription_of w (a_companyId actor) = Some s0 \<and> \<not> s_stripeManaged s0
        \<and> subscription_of w' (a_companyId actor) = Some s \<and> s_planCode s = p
        \<and> s_planChangedAt s = (if s_planCode s0 = p then s_planChangedAt s0 else now)
        \<and> s_revision s = s_revision s0 + 1)
    \<and> (\<forall>b. b \<noteq> a_companyId actor \<longrightarrow> subscription_of w' b = subscription_of w b)
    \<and> w' = w\<lparr>subscriptions := subscriptions w'\<rparr>"
proof -
  let ?c = "a_companyId actor"
  let ?w1 = "w\<lparr>subscriptions := updateOne (\<lambda>d. s_companyId d = ?c) bump_revision (subscriptions w)\<rparr>"
  obtain s0 where s0: "subscription_of w ?c = Some s0" "\<not> s_stripeManaged s0"
    and emp: "plan_employee_check (plans_findOne p) p (employee_count w ?c)
      (pending_invitations w ?c now) = Inr ()"
    and fil: "plan_file_check (plans_findOne p) p (stored_files w ?c) = Inr ()"
    and w': "w' = (if s_planCode s0 = p then ?w1
      else ?w1\<lparr>subscriptions := updateOne (\<lambda>d. s_id d = s_id (bump_revision s0) \<and> s_companyId d = ?c)
        (set_plan p now) (subscriptions ?w1)\<rparr>)"
    using assms(1)
    by (auto simp: changePlan_body_def Let_def action_simps lock_simps split: if_splits)
  have lim: "within_plan w ?c (plans_findOne p) now"
    using emp fil unfolding plan_checks_Inr within_plan_def by simp
  have u1: "unique_subscriptions ?w1" using u by (simp add: unique_subscriptions_update)
  have s1: "subscription_of ?w1 ?c = Some (bump_revision s0)"
    by (simp add: subscription_of_lock s0)
  show ?thesis
  proof (cases "s_planCode s0 = p")
    case True
    then show ?thesis using s0 lim w'
      by (simp add: subscription_of_lock)
  next
    case False
    then show ?thesis using s0 lim w' subscription_of_set_plan [OF u1 s1, of p now]
      by (simp add: subscription_of_lock)
  qed
qed

text \<open>
  A plan change of a company not managed by Stripe is all or nothing. Whatever the
  handler returns, either nothing was written, or the company is on the requested plan, its
  employees, pending invitations and stored files fit that plan, the lock's revision went up by
  one, the change date moved only if the plan did, and no other company's subscription changed.
\<close>

theorem changePlan_all_or_nothing:
  assumes "changePlan False delegate actor p now w = (r, w')" "unique_subscriptions w"
  shows "(w' = w \<and> (\<exists>e. r = Inl e))
    \<or> (a_role actor = COMPANY_OWNER
       \<and> within_plan w' (a_companyId actor) (plans_findOne p) now
       \<and> (\<exists>s0 s. subscription_of w (a_companyId actor) = Some s0
            \<and> subscription_of w' (a_companyId actor) = Some s \<and> s_planCode s = p
            \<and> s_planChangedAt s = (if s_planCode s0 = p then s_planChangedAt s0 else now)
            \<and> s_revision s = s_revision s0 + 1)
       \<and> (\<forall>b. b \<noteq> a_companyId actor \<longrightarrow> subscription_of w' b = subscription_of w b)
       \<and> w' = w\<lparr>subscriptions := subscriptions w'\<rparr>)"
proof -
  have "w' = w \<and> (\<exists>e. r = Inl e) \<or>
      (a_role actor = COMPANY_OWNER \<and> (\<exists>x. changePlan_body actor p now w = (Inr x, w')))"
    using assms(1)
    by (cases r) (auto simp: changePlan_def action_simps split: if_splits
        dest!: reads_onlyD [OF getCurrent_reads_only])
  then show ?thesis using changePlan_body_Inr [OF _ assms(2)] by blast
qed

theorem changePlan_all_or_nothing_witness:
  "\<exists>s. subscription_of (snd (changePlan False (\<lambda>_ _. throw (PlainError ''disabled'') :: unit handler)
      \<lparr>a_id = 1, a_companyId = 7, a_role = COMPANY_OWNER\<rparr> PREMIUM 1709200000000
      (empty_world\<lparr>subscriptions := [subscription_document 1 7 BASIC 1706659200000 1706659200000]\<rparr>))) 7
        = Some s
     \<and> s_planCode s = PREMIUM \<and> s_planChangedAt s = 1709200000000"
proof -
  let ?w = "empty_world\<lparr>subscriptions := [subscription_document 1 7 BASIC 1706659200000 1706659200000]\<rparr>"
  let ?r = "changePlan False (\<lambda>_ _. throw (PlainError ''disabled'') :: unit handler)
      \<lparr>a_id = 1, a_companyId = 7, a_role = COMPANY_OWNER\<rparr> PREMIUM 1709200000000 ?w"
  have f: "\<not> isl (fst ?r)" by code_simp
  have e: "?r = (fst ?r, snd ?r)" by simp
  have u: "unique_subscriptions ?w" by (simp add: unique_subscriptions_def)
  have c: "map_option s_planCode (subscription_of ?w 7) = Some BASIC" by code_simp
  show ?thesis using changePlan_all_or_nothing [OF e u] f c by (auto simp: isl_def)
qed

text \<open>
  A company starts on the free plan and owes nothing: right after its free subscription
  is created, the current view of a company without employees shows the free plan, a period
  that contains the activation, and an estimate of zero cents.
\<close>

theorem initializeFree_then_getCurrent:
  assumes "initializeFree i c t w = (Inr s, w')" "billable_time t t"
    "employee_count w c = 0" "\<forall>p \<in> set (periods w). p_companyId p \<noteq> c"
  shows "\<exists>v. getCurrent c t w' = (Inr v, w') \<and> pl_code (cu_plan v) = FREE
    \<and> cu_monthlyPriceEstimateCents v = 0
    \<and> startsAt (cu_billingPeriod v) \<le> t \<and> t < endsAt (cu_billingPeriod v)"
proof -
  from assms(1) have n: "subscription_of w c = None"
    and s: "s = subscription_document i c FREE t t"
    and w': "w' = w\<lparr>subscriptions := subscriptions w @ [s]\<rparr>"
    by (auto simp: initializeFree_def action_simps Let_def split: if_splits)
  have so: "subscription_of w' c = Some s"
    using n by (simp add: w' s subscription_of_def find_append subscription_document_def)
  obtain p where p: "billingPeriod (Some t) (Some t) = Inr p" "startsAt p \<le> t" "t < endsAt p"
    using billingPeriod_eq [OF assms(2)] period_month_contains [of t t] by fastforce
  have un: "usage_of w' c x = None" for x
    using assms(4) by (auto simp: w' usage_of_def find_None_iff)
  have em: "employee_count w' c = 0" using assms(3) by (simp add: w')
  obtain b where b: "calculate s None 0 t = Inr b" "b_totalAmountCents b = 0"
    using p(1) by (auto simp: calculate_def Let_def s subscription_document_def plans_findOne_def
        assertInteger_def isSafeInteger_def MAX_SAFE_INTEGER_def require_def safeNumber_def)
  show ?thesis
    using p b by (auto simp: getCurrent_def Let_def action_eval getSubscription_def so un em s
        subscription_document_def)
qed

theorem initializeFree_then_getCurrent_witness:
  "\<exists>v. getCurrent 7 1706659200000 (snd (initializeFree 1 7 1706659200000 empty_world))
       = (Inr v, snd (initializeFree 1 7 1706659200000 empty_world))
     \<and> cu_monthlyPriceEstimateCents v = 0"
proof -
  let ?r = "initializeFree 1 7 1706659200000 empty_world"
  have f: "\<not> isl (fst ?r)" by code_simp
  then have e: "?r = (Inr (projr (fst ?r)), snd ?r)" by (metis prod.collapse sum.collapse(2))
  have b: "billable_time 1706659200000 1706659200000"
    by (simp add: billable_time_def max_time_def msPerDay_def)
  show ?thesis using initializeFree_then_getCurrent [OF e b]
    by (auto simp: empty_world_def employee_count_def count_Nil)
qed

end
