(* ===== verification/Interfaces.thy ===== *)
theory Interfaces
  imports Prelude
begin

text \<open>
  The contracts several components share, as locales: a quota that admits work before it is
  done, and a token that can be spent once. Each is interpreted on the handlers of the
  components that provide it.
\<close>

section \<open>Quotas\<close>

text \<open>
  \<open>fits s k n\<close>: tenant \<open>k\<close> has room for \<open>n\<close> more units. Room is only about the units used and
  the limits in force, so it moves along with them.
\<close>

locale quota =
  fixes used :: "'s \<Rightarrow> 'k \<Rightarrow> int"
    and same_limits :: "'s \<Rightarrow> 's \<Rightarrow> 'k \<Rightarrow> bool"
    and fits :: "'s \<Rightarrow> 'k \<Rightarrow> int \<Rightarrow> bool"
  assumes fits_transfer:
      "fits s k n \<Longrightarrow> same_limits s t k \<Longrightarrow> used t k + m \<le> used s k + n \<Longrightarrow> fits t k m"
    and same_limits_refl: "same_limits s s k"
    and same_limits_trans: "same_limits s t k \<Longrightarrow> same_limits t u k \<Longrightarrow> same_limits s u k"
begin

lemma fits_less: "fits s k n \<Longrightarrow> m \<le> n \<Longrightarrow> fits s k m"
  using fits_transfer same_limits_refl by simp

text \<open>Units admitted and then used leave the tenant within its limits.\<close>

lemma admitted_use:
  "fits s k n \<Longrightarrow> same_limits s t k \<Longrightarrow> used t k \<le> used s k + n \<Longrightarrow> fits t k 0"
  using fits_transfer by simp

text \<open>Giving units back, or touching neither units nor limits, never hurts.\<close>

lemma release: "fits s k n \<Longrightarrow> same_limits s t k \<Longrightarrow> used t k \<le> used s k \<Longrightarrow> fits t k n"
  using fits_transfer by simp

end

section \<open>Tokens that are spent once\<close>

text \<open>
  \<open>live s k\<close>: a token with hash \<open>k\<close> could still be spent in state \<open>s\<close>. \<open>spend\<close> succeeds only on a
  live token and leaves it dead. \<open>other k\<close> are the steps of the system that do not issue \<open>k\<close>.
\<close>

locale one_time_token =
  fixes live :: "'s \<Rightarrow> 'k \<Rightarrow> bool"
    and good :: "'s \<Rightarrow> bool"
    and spend :: "'k \<Rightarrow> 'i \<Rightarrow> 's \<Rightarrow> ('e + 'a) \<times> 's"
    and other :: "'k \<Rightarrow> 's \<Rightarrow> 's \<Rightarrow> bool"
  assumes spend_live: "spend k i s = (Inr x, t) \<Longrightarrow> live s k"
    and spend_kills: "good s \<Longrightarrow> spend k i s = (Inr x, t) \<Longrightarrow> \<not> live t k"
    and other_dead: "other k s t \<Longrightarrow> \<not> live s k \<Longrightarrow> \<not> live t k"
begin

lemma dead_forever: "(other k)\<^sup>*\<^sup>* s t \<Longrightarrow> \<not> live s k \<Longrightarrow> \<not> live t k"
  by (induction rule: rtranclp_induct) (auto dest: other_dead)

text \<open>Whatever happens after a token was spent, it cannot be spent again.\<close>

lemma spent_once:
  assumes "good s" "spend k i s = (Inr x, t)" "(other k)\<^sup>*\<^sup>* t u"
  shows "\<exists>e v. spend k j u = (Inl e, v)"
proof -
  have "\<not> live u k" using dead_forever [OF assms(3)] spend_kills [OF assms(1,2)] .
  then show ?thesis using spend_live by (cases "spend k j u"; cases "fst (spend k j u)") auto
qed

end

section \<open>Leases\<close>

text \<open>
  \<open>holds s k t\<close>: the lease of resource \<open>k\<close> carries the token \<open>t\<close>. A guarded operation has no
  effect for anybody but the holder; \<open>step t\<close> are the steps of the system that do not hand out \<open>t\<close>.
\<close>

locale fenced_lease =
  fixes holds :: "'s \<Rightarrow> 'k \<Rightarrow> 't \<Rightarrow> bool"
    and guarded :: "'k \<Rightarrow> 't \<Rightarrow> 'i \<Rightarrow> 's \<Rightarrow> ('e + 'a) \<times> 's"
    and step :: "'t \<Rightarrow> 's \<Rightarrow> 's \<Rightarrow> bool"
  assumes refused: "\<not> holds s k t \<Longrightarrow> snd (guarded k t i s) = s"
    and step_lost: "step t s s' \<Longrightarrow> \<not> holds s k t \<Longrightarrow> \<not> holds s' k t"
begin

lemma lost_forever: "(step t)\<^sup>*\<^sup>* s s' \<Longrightarrow> \<not> holds s k t \<Longrightarrow> \<not> holds s' k t"
  by (induction rule: rtranclp_induct) (auto dest: step_lost)

text \<open>Once lost, a lease is of no use: no later operation with its token has an effect.\<close>

lemma stale_refused:
  "\<not> holds s k t \<Longrightarrow> (step t)\<^sup>*\<^sup>* s s' \<Longrightarrow> snd (guarded k t i s') = s'"
  using lost_forever refused by blast

end

end
