(* ===== verification/Entitlements.thy ===== *)
theory Entitlements
  imports Subscriptions Interfaces
begin

text \<open>
  The plan limits (\<open>subscriptions/entitlements.service.ts\<close>): employee seats, the quotation of
  an upload and its recording in the period's ledger. The limits compare against the current
  plan and, when a downgrade is pending, against its target as well.
\<close>

definition file_limit_reached :: "int \<Rightarrow> error" where
  "file_limit_reached limit = HttpException Forbidden (File_Limit_Reached limit)"

definition target_plan :: "subscription \<Rightarrow> plan_definition" where
  "target_plan s =
     (case s_pendingPlanCode s of
        Some c \<Rightarrow> plans_findOne c | None \<Rightarrow> plans_findOne (s_planCode s))"

definition seat_limit :: "subscription \<Rightarrow> int option" where
  "seat_limit s =
     (case maxEmployees (plans_findOne (s_planCode s)) of
        None \<Rightarrow> maxEmployees (target_plan s)
      | Some limit \<Rightarrow>
          (case maxEmployees (target_plan s) of
             None \<Rightarrow> Some limit | Some target \<Rightarrow> Some (min limit target)))"

definition assertEmployeeCapacity :: "bool \<Rightarrow> oid \<Rightarrow> int \<Rightarrow> date \<Rightarrow> unit handler" where
  "assertEmployeeCapacity paymentsEnabled companyId additionalSeats at =
     (if \<not> isSafeInteger additionalSeats \<or> additionalSeats < 0
      then throw (http BadRequest ''Additional employee seats must be a non-negative integer'')
      else
      andthen (acquireLock companyId) (\<lambda>subscription.
      andthen (lift_result (assertPaymentAccess subscription paymentsEnabled at)) (\<lambda>_.
      case seat_limit subscription of
        None \<Rightarrow> return ()
      | Some limit \<Rightarrow>
          andthen (gets (\<lambda>w. employee_count w companyId)) (\<lambda>employeeCount.
          andthen (gets (\<lambda>w. pending_invitations w companyId at)) (\<lambda>pendingInvitationCount.
          if employeeCount + pendingInvitationCount + additionalSeats > limit
          then throw (HttpException Forbidden
                 (Employee_Limit_Reached limit employeeCount pendingInvitationCount))
          else return ())))))"

definition validateQuantity :: "int \<Rightarrow> error + unit" where
  "validateQuantity quantity = require (isSafeInteger quantity \<and> \<not> quantity < 1)
     (http BadRequest ''File quantity must be a positive integer'')"

datatype denial_reason = FILE_LIMIT_REACHED | EMPLOYEE_LIMIT_REACHED

record upload_quote =
  q_allowed :: bool
  q_reason :: "denial_reason option"
  q_planCode :: plan_code
  q_uploadedFiles :: int
  q_quotaBasis :: string
  q_requestedFiles :: int
  q_includedFilesPerMonth :: int
  q_remainingIncludedFiles :: int
  q_additionalChargeCents :: int
  q_billingPeriod :: period

definition checkFileUpload :: "bool \<Rightarrow> oid \<Rightarrow> int \<Rightarrow> date \<Rightarrow> upload_quote handler" where
  "checkFileUpload paymentsEnabled companyId quantity at =
     andthen (lift_result (validateQuantity quantity)) (\<lambda>_.
     andthen (getSubscription companyId) (\<lambda>subscription.
     andthen (lift_result (assertPaymentAccess subscription paymentsEnabled at)) (\<lambda>_.
     let plan = plans_findOne (s_planCode subscription); target = target_plan subscription in
     andthen (lift_result (billingPeriod (Some (s_activatedAt subscription)) (Some at))) (\<lambda>period.
     andthen (gets (\<lambda>w. usage_of w companyId (startsAt period))) (\<lambda>usage.
     andthen (gets (\<lambda>w. stored_files w companyId)) (\<lambda>storedFiles.
     let resultingFiles = storedFiles + quantity;
         excessFiles = max 0 (resultingFiles - includedFilesPerMonth plan);
         allowed = (extraFilePriceCents plan \<noteq> None \<or> excessFiles = 0) \<and>
                   (extraFilePriceCents target \<noteq> None
                     \<or> resultingFiles \<le> includedFilesPerMonth target)
     in
     andthen (lift_result (calculateAdditionalOverageCents plan storedFiles resultingFiles))
       (\<lambda>additionalChargeCents.
     return
       \<lparr>q_allowed = allowed, q_reason = (if allowed then None else Some FILE_LIMIT_REACHED),
        q_planCode = pl_code plan,
        q_uploadedFiles = option_default 0 (map_option p_uploadedFiles usage),
        q_quotaBasis = ''stored_files'', q_requestedFiles = quantity, q_includedFilesPerMonth = includedFilesPerMonth plan,
        q_remainingIncludedFiles = max 0 (includedFilesPerMonth plan - storedFiles),
        q_additionalChargeCents = additionalChargeCents, q_billingPeriod = period\<rparr>)))))))"

text \<open>The upsert of the ledger: \<open>$setOnInsert\<close> and \<open>$inc\<close>.\<close>

definition add_usage :: "int \<Rightarrow> int \<Rightarrow> subscription_period \<Rightarrow> subscription_period" where
  "add_usage quantity cents p =
     p\<lparr>p_uploadedFiles := p_uploadedFiles p + quantity,
       p_fileOverageCents := p_fileOverageCents p + cents\<rparr>"

definition upsert_usage ::
  "oid \<Rightarrow> period \<Rightarrow> int \<Rightarrow> int \<Rightarrow> subscription_period list \<Rightarrow> subscription_period list" where
  "upsert_usage companyId period quantity cents ps =
     (let q = (\<lambda>p. p_companyId p = companyId \<and> p_startsAt p = startsAt period) in
      case find q ps of
        None \<Rightarrow> ps @ [\<lparr>p_companyId = companyId, p_startsAt = startsAt period,
                       p_endsAt = endsAt period, p_uploadedFiles = quantity,
                       p_fileOverageCents = cents\<rparr>]
      | Some _ \<Rightarrow> updateOne q (add_usage quantity cents) ps)"

definition stored_quota_check :: "plan_definition \<Rightarrow> plan_definition \<Rightarrow> int \<Rightarrow> error + unit" where
  "stored_quota_check plan target planFiles =
     (if (extraFilePriceCents plan = None \<and> planFiles > includedFilesPerMonth plan)
         \<or> (extraFilePriceCents target = None \<and> planFiles > includedFilesPerMonth target)
      then Inl (file_limit_reached (includedFilesPerMonth plan)) else Inr ())"

definition enqueue_if_managed ::
  "bool \<Rightarrow> subscription \<Rightarrow> period \<Rightarrow> int \<Rightarrow> int \<Rightarrow> date \<Rightarrow> unit handler" where
  "enqueue_if_managed paymentsEnabled subscription period sequence cents at =
     (if s_stripeManaged subscription
      then enqueueOverage paymentsEnabled subscription period sequence cents at
      else return ())"

definition recordFileUploadsInTransaction ::
  "bool \<Rightarrow> oid \<Rightarrow> int \<Rightarrow> date \<Rightarrow> subscription_period option handler" where
  "recordFileUploadsInTransaction paymentsEnabled companyId quantity at =
     andthen (acquireLock companyId) (\<lambda>subscription.
     andthen (lift_result (assertPaymentAccess subscription paymentsEnabled at)) (\<lambda>_.
     let plan = plans_findOne (s_planCode subscription); target = target_plan subscription in
     andthen (lift_result (billingPeriod (Some (s_activatedAt subscription)) (Some at))) (\<lambda>period.
     andthen (gets (\<lambda>w. usage_of w companyId (startsAt period))) (\<lambda>usage.
     let uploadedFiles = option_default 0 (map_option p_uploadedFiles usage);
         resultingFiles = uploadedFiles + quantity in
     andthen (gets (\<lambda>w. stored_files w companyId)) (\<lambda>storedFiles.
     let planFiles = storedFiles + quantity in
     andthen (lift_result (stored_quota_check plan target planFiles)) (\<lambda>_.
     andthen (lift_result (calculateAdditionalOverageCents plan storedFiles (storedFiles + quantity)))
       (\<lambda>additionalOverageCents.
     andthen (enqueue_if_managed paymentsEnabled subscription period resultingFiles
                additionalOverageCents at) (\<lambda>_.
     andthen (modify (\<lambda>w. w\<lparr>periods :=
         upsert_usage companyId period quantity additionalOverageCents (periods w)\<rparr>)) (\<lambda>_.
     gets (\<lambda>w. usage_of w companyId (startsAt period)))))))))))"

text \<open>Called with a session the work joins the caller's transaction.\<close>

definition recordFileUploads ::
  "bool \<Rightarrow> bool \<Rightarrow> oid \<Rightarrow> int \<Rightarrow> date \<Rightarrow> subscription_period option handler" where
  "recordFileUploads inSession paymentsEnabled companyId quantity at =
     andthen (lift_result (validateQuantity quantity)) (\<lambda>_.
     if inSession then recordFileUploadsInTransaction paymentsEnabled companyId quantity at
     else transaction (recordFileUploadsInTransaction paymentsEnabled companyId quantity at))"

section \<open>Seats\<close>

definition within_seats :: "world \<Rightarrow> oid \<Rightarrow> int \<Rightarrow> date \<Rightarrow> bool" where
  "within_seats w companyId additional at \<longleftrightarrow>
     (\<forall>s. subscription_of w companyId = Some s \<longrightarrow>
        (\<forall>limit. maxEmployees (plans_findOne (s_planCode s)) = Some limit \<or>
                 maxEmployees (target_plan s) = Some limit \<longrightarrow>
           employee_count w companyId + pending_invitations w companyId at + additional \<le> limit))"

text \<open>Fitting the computed limit is fitting every limit there is.\<close>

lemma seat_limit_fits:
  "(case seat_limit s of None \<Rightarrow> True | Some limit \<Rightarrow> x \<le> limit) \<longleftrightarrow>
     (\<forall>limit. maxEmployees (plans_findOne (s_planCode s)) = Some limit \<or>
              maxEmployees (target_plan s) = Some limit \<longrightarrow> x \<le> limit)"
  by (auto simp: seat_limit_def split: option.splits)

lemma target_plan_bump [simp]: "target_plan (bump_revision s) = target_plan s"
  by (simp add: target_plan_def split: option.split)

lemma seat_limit_bump [simp]: "seat_limit (bump_revision s) = seat_limit s"
  by (simp add: seat_limit_def split: option.split)

definition locked :: "world \<Rightarrow> oid \<Rightarrow> world" where
  "locked w c =
     w\<lparr>subscriptions := updateOne (\<lambda>d. s_companyId d = c) bump_revision (subscriptions w)\<rparr>"

lemma locked_simps [simp]:
  "employee_count (locked w c) b = employee_count w b"
  "pending_invitations (locked w c) b t = pending_invitations w b t"
  "stored_files (locked w c) b = stored_files w b"
  "usage_of (locked w c) b t = usage_of w b t"
  "subscription_of (locked w c) b =
     (if b = c then map_option bump_revision (subscription_of w c) else subscription_of w b)"
  "users (locked w c) = users w" "invitations (locked w c) = invitations w"
  "files (locked w c) = files w" "periods (locked w c) = periods w"
  "stripeUsages (locked w c) = stripeUsages w" "companies (locked w c) = companies w"
  "outbox (locked w c) = outbox w" "objects (locked w c) = objects w"
  by (simp_all add: locked_def subscription_of_lock)

lemma acquireLock_locked:
  "acquireLock c w = (Inr s, w') \<longleftrightarrow>
     (\<exists>s0. subscription_of w c = Some s0 \<and> s = bump_revision s0 \<and> w' = locked w c)"
  by (simp add: acquireLock_Inr locked_def)

lemma assertPaymentAccess_bump [simp]:
  "assertPaymentAccess (bump_revision s) e t = assertPaymentAccess s e t"
  by (simp add: assertPaymentAccess_def bump_revision_def)

lemma assertEmployeeCapacity_Inr:
  "assertEmployeeCapacity e c n at w = (Inr u, w') \<longleftrightarrow>
     isSafeInteger n \<and> 0 \<le> n \<and> w' = locked w c \<and>
     (\<exists>s. subscription_of w c = Some s \<and> assertPaymentAccess s e at = Inr () \<and>
        (case seat_limit s of None \<Rightarrow> True
         | Some limit \<Rightarrow> employee_count w c + pending_invitations w c at + n \<le> limit))"
  by (cases "subscription_of w c")
    (auto simp: assertEmployeeCapacity_def action_simps acquireLock_locked acquireLock_Inl
      split: if_splits option.splits)

text \<open>
  A granted employee seat is there: when the capacity check passes, the company's members,
  its pending invitations and the requested seats fit the current plan and, if a downgrade is
  pending, its target plan as well; the check wrote nothing but the lock's revision.
\<close>

theorem assertEmployeeCapacity_fits:
  assumes "assertEmployeeCapacity e c n at w = (Inr u, w')"
  shows "within_seats w' c n at \<and> 0 \<le> n \<and> w' = locked w c
    \<and> (\<exists>s. subscription_of w c = Some s \<and> assertPaymentAccess s e at = Inr ())"
  using assms unfolding assertEmployeeCapacity_Inr seat_limit_fits
  by (auto simp: within_seats_def)

theorem assertEmployeeCapacity_fits_witness:
  "within_seats (snd (assertEmployeeCapacity False 7 10 1709200000000
      (empty_world\<lparr>subscriptions := [subscription_document 1 7 BASIC 1706659200000 1706659200000]\<rparr>)))
     7 10 1709200000000"
proof -
  let ?r = "assertEmployeeCapacity False 7 10 1709200000000
      (empty_world\<lparr>subscriptions := [subscription_document 1 7 BASIC 1706659200000 1706659200000]\<rparr>)"
  have "\<not> isl (fst ?r)" by code_simp
  then have e: "?r = (Inr (projr (fst ?r)), snd ?r)" by (metis prod.collapse sum.collapse(2))
  show ?thesis using assertEmployeeCapacity_fits [OF e] by blast
qed

lemma max_zero_iff: "max 0 (a - b) = (0::int) \<longleftrightarrow> a \<le> b"
  by linarith

lemma usage_of_upsert:
  "find (\<lambda>p. p_companyId p = c \<and> p_startsAt p = startsAt period) (upsert_usage c period n x ps) =
     Some (case find (\<lambda>p. p_companyId p = c \<and> p_startsAt p = startsAt period) ps of
        None \<Rightarrow> \<lparr>p_companyId = c, p_startsAt = startsAt period, p_endsAt = endsAt period,
                 p_uploadedFiles = n, p_fileOverageCents = x\<rparr>
      | Some p \<Rightarrow> add_usage n x p)"
  by (auto simp: upsert_usage_def Let_def find_append find_updateOne_self add_usage_def
      split: option.splits)

section \<open>Stored files and the ledger\<close>

definition within_files :: "world \<Rightarrow> oid \<Rightarrow> int \<Rightarrow> bool" where
  "within_files w companyId additional \<longleftrightarrow>
     (\<forall>s. subscription_of w companyId = Some s \<longrightarrow>
        (\<forall>plan \<in> {plans_findOne (s_planCode s), target_plan s}.
           extraFilePriceCents plan = None \<longrightarrow>
             stored_files w companyId + additional \<le> includedFilesPerMonth plan))"

text \<open>The ledger of every period is consistent, and no company has two for one start.\<close>

definition ledger_ok :: "world \<Rightarrow> bool" where
  "ledger_ok w \<longleftrightarrow>
     (\<forall>p \<in> set (periods w). consistent_usage p) \<and>
     distinct (map (\<lambda>p. (p_companyId p, p_startsAt p)) (periods w))"

lemma enqueue_if_managed_fields:
  assumes "enqueue_if_managed en s p q c now w = (r, w')"
  shows "periods w' = periods w" "files w' = files w" "subscriptions w' = subscriptions w"
    "users w' = users w" "invitations w' = invitations w" "companies w' = companies w"
    "objects w' = objects w" "guardJobs w' = guardJobs w"
proof -
  have "w' = w \<or> (\<exists>u. w' = w\<lparr>stripeUsages := stripeUsages w @ [u]\<rparr>)"
    using assms enqueueOverage_frame
    by (auto simp: enqueue_if_managed_def action_simps split: if_splits)
  then show "periods w' = periods w" "files w' = files w" "subscriptions w' = subscriptions w"
    "users w' = users w" "invitations w' = invitations w" "companies w' = companies w"
    "objects w' = objects w" "guardJobs w' = guardJobs w"
    by auto
qed

lemma record_Inr:
  assumes "recordFileUploadsInTransaction e c n at w = (Inr r, w')"
  shows "\<exists>s period x w1.
    subscription_of w c = Some s \<and> assertPaymentAccess s e at = Inr () \<and>
    billingPeriod (Some (s_activatedAt s)) (Some at) = Inr period \<and>
    stored_quota_check (plans_findOne (s_planCode s)) (target_plan s) (stored_files w c + n)
      = Inr () \<and>
    calculateAdditionalOverageCents (plans_findOne (s_planCode s)) (stored_files w c)
       (stored_files w c + n) = Inr x \<and>
    enqueue_if_managed e (bump_revision s) period
        (option_default 0 (map_option p_uploadedFiles (usage_of w c (startsAt period))) + n) x at
        (locked w c) = (Inr (), w1) \<and>
    w' = w1\<lparr>periods := upsert_usage c period n x (periods w1)\<rparr> \<and>
    r = usage_of w' c (startsAt period)"
  using assms
  by (fastforce simp: recordFileUploadsInTransaction_def Let_def action_simps acquireLock_locked)

lemma stored_quota_check_iff:
  "stored_quota_check plan target n = Inr u \<longleftrightarrow>
     (\<forall>p \<in> {plan, target}. extraFilePriceCents p = None \<longrightarrow> n \<le> includedFilesPerMonth p)"
  by (auto simp: stored_quota_check_def)

lemma upsert_usage_ok:
  assumes "\<forall>p \<in> set ps. consistent_usage p"
    "distinct (map (\<lambda>p. (p_companyId p, p_startsAt p)) ps)"
    "0 \<le> x" "x mod 50 = 0" "x div 50 \<le> n"
  shows "(\<forall>p \<in> set (upsert_usage c period n x ps). consistent_usage p)
    \<and> distinct (map (\<lambda>p. (p_companyId p, p_startsAt p)) (upsert_usage c period n x ps))"
proof -
  have add: "consistent_usage (add_usage n x p)" if p: "consistent_usage p" for p
  proof -
    obtain k j where "p_fileOverageCents p = 50 * k" "x = 50 * j"
      using p assms(4) unfolding consistent_usage_def mod_eq_0_iff_dvd by (meson dvdE)
    moreover have "50 * k + 50 * j = 50 * (k + j)" by simp
    ultimately have e: "p_fileOverageCents p + x = 50 * (k + j)" "p_fileOverageCents p = 50 * k"
      "x = 50 * j" by simp_all
    show ?thesis using p assms(3,5)
      by (simp add: consistent_usage_def add_usage_def e del: distrib_left_numeral)
  qed
  show ?thesis
  proof (cases "find (\<lambda>p. p_companyId p = c \<and> p_startsAt p = startsAt period) ps")
    case None
    have u: "upsert_usage c period n x ps = ps @ [\<lparr>p_companyId = c, p_startsAt = startsAt period,
        p_endsAt = endsAt period, p_uploadedFiles = n, p_fileOverageCents = x\<rparr>]"
      by (simp add: upsert_usage_def Let_def None)
    show ?thesis using assms None by (auto simp: u consistent_usage_def find_None_iff)
  next
    case (Some p)
    then have u: "upsert_usage c period n x ps =
        updateOne (\<lambda>p. p_companyId p = c \<and> p_startsAt p = startsAt period) (add_usage n x) ps"
      by (simp add: upsert_usage_def Let_def)
    show ?thesis using assms(1,2) add unfolding u
      by (auto intro!: distinct_updateOne simp: add_usage_def dest!: set_updateOneD)
  qed
qed

text \<open>
  A recorded upload is within the quota: when \<open>recordFileUploads\<close> succeeds, the company's
  stored files and the new ones fit the current plan and, if a downgrade is pending, its
  target; the quantity was a positive integer, and no stored file, user, invitation or
  other company's subscription changed.
\<close>

theorem recordFileUploads_within_quota:
  assumes "recordFileUploads inSession e c n at w = (Inr r, w')"
  shows "within_files w' c n \<and> 1 \<le> n \<and> files w' = files w \<and> users w' = users w
    \<and> invitations w' = invitations w \<and> (\<forall>b. b \<noteq> c \<longrightarrow> subscription_of w' b = subscription_of w b)"
proof -
  have n: "1 \<le> n" and t: "recordFileUploadsInTransaction e c n at w = (Inr r, w')"
    using assms by (auto simp: recordFileUploads_def validateQuantity_def action_simps
        split: if_splits)
  from record_Inr [OF t] obtain s period x w1 where s: "subscription_of w c = Some s"
    and q: "stored_quota_check (plans_findOne (s_planCode s)) (target_plan s) (stored_files w c + n)
      = Inr ()"
    and u: "enqueue_if_managed e (bump_revision s) period
        (option_default 0 (map_option p_uploadedFiles (usage_of w c (startsAt period))) + n) x at
        (locked w c) = (Inr (), w1)"
    and w': "w' = w1\<lparr>periods := upsert_usage c period n x (periods w1)\<rparr>"
    by blast
  note f = enqueue_if_managed_fields [OF u]
  have "stored_files w' c = stored_files w c" by (simp add: w' f stored_files_def)
  moreover have "subscription_of w' b = subscription_of (locked w c) b" for b
    by (simp add: w' f subscription_of_def)
  ultimately show ?thesis
    using n s q by (simp add: w' f within_files_def stored_quota_check_iff)
qed

theorem recordFileUploads_within_quota_witness:
  "within_files (snd (recordFileUploads False False 7 10 1709200000000
      (empty_world\<lparr>subscriptions := [subscription_document 1 7 FREE 1706659200000 1706659200000]\<rparr>)))
     7 10"
proof -
  let ?r = "recordFileUploads False False 7 10 1709200000000
      (empty_world\<lparr>subscriptions := [subscription_document 1 7 FREE 1706659200000 1706659200000]\<rparr>)"
  have "\<not> isl (fst ?r)" by code_simp
  then have e: "?r = (Inr (projr (fst ?r)), snd ?r)" by (metis prod.collapse sum.collapse(2))
  show ?thesis using recordFileUploads_within_quota [OF e] by blast
qed

lemma record_Inl_periods:
  "recordFileUploadsInTransaction e c n at w = (Inl r, w') \<Longrightarrow> periods w' = periods w"
  by (auto simp: recordFileUploadsInTransaction_def Let_def action_simps acquireLock_locked
      acquireLock_Inl dest: enqueue_if_managed_fields(1))

lemma record_keeps_ledger: "keeps ledger_ok (recordFileUploadsInTransaction e c n at)"
proof (rule keepsI)
  fix w r w' assume l: "ledger_ok w" and t: "recordFileUploadsInTransaction e c n at w = (r, w')"
  show "ledger_ok w'"
  proof (cases r)
    case (Inl a)
    then show ?thesis using l t record_Inl_periods by (simp add: ledger_ok_def)
  next
    case (Inr a)
    from record_Inr [OF t [unfolded Inr]] obtain s period x w1 where
      x: "calculateAdditionalOverageCents (plans_findOne (s_planCode s)) (stored_files w c)
        (stored_files w c + n) = Inr x"
      and u: "enqueue_if_managed e (bump_revision s) period
        (option_default 0 (map_option p_uploadedFiles (usage_of w c (startsAt period))) + n) x at
        (locked w c) = (Inr (), w1)"
      and w': "w' = w1\<lparr>periods := upsert_usage c period n x (periods w1)\<rparr>"
      by blast
    have "periods w1 = periods w" using enqueue_if_managed_fields(1) [OF u] by simp
    then show ?thesis
      using upsert_usage_ok [of "periods w" x n c period] additional_overage_units [OF x] l
      by (simp add: ledger_ok_def w')
  qed
qed

text \<open>
  C30. The ledger stays consistent: whatever \<open>recordFileUploads\<close> returns, every period's
  overage is a whole number of premium units, at most one per recorded upload, and no company
  has two ledgers for one period.
\<close>

theorem recordFileUploads_keeps_ledger:
  "keeps ledger_ok (recordFileUploads inSession e c n at)"
  unfolding recordFileUploads_def by (intro keeps_intros record_keeps_ledger)

lemma assertInteger_Inl:
  "assertInteger v = Inl e \<longleftrightarrow> (v < 0 \<or> MAX_SAFE_INTEGER < v) \<and> e = invalid_accounting"
  by (auto simp: assertInteger_def isSafeInteger_def require_def MAX_SAFE_INTEGER_def)

lemma safeNumber_Inl:
  "safeNumber v = Inl e \<longleftrightarrow> MAX_SAFE_INTEGER < v \<and>
     e = http InternalServerError ''Billing amount exceeds safe range''"
  by (auto simp: safeNumber_def)

lemma not_invalid_accounting:
  "invalid_accounting \<noteq> http InternalServerError ''Billing amount exceeds safe range''"
  by (simp add: invalid_accounting_def)

lemma billingPeriod_Inl: "billingPeriod a t \<noteq> Inl invalid_accounting"
  by (auto simp: billingPeriod_def invalid_accounting_def invalid_period_date_def Let_def
      split: option.splits if_splits)

text \<open>
  A consistent ledger always bills: with safe counts, the summary is never refused as
  corrupt accounting data.
\<close>

theorem consistent_ledger_bills:
  assumes "case usage of None \<Rightarrow> True
      | Some u \<Rightarrow> consistent_usage u \<and> p_uploadedFiles u \<le> MAX_SAFE_INTEGER
          \<and> p_fileOverageCents u \<le> MAX_SAFE_INTEGER"
    "0 \<le> n" "n \<le> MAX_SAFE_INTEGER"
  shows "calculate s usage n at \<noteq> Inl invalid_accounting"
proof
  assume c: "calculate s usage n at = Inl invalid_accounting"
  define up where "up = (case usage of None \<Rightarrow> 0 | Some u \<Rightarrow> p_uploadedFiles u)"
  define ov where "ov = (case usage of None \<Rightarrow> 0 | Some u \<Rightarrow> p_fileOverageCents u)"
  have "0 \<le> ov" "ov mod 50 = 0" "ov div 50 \<le> up" "up \<le> MAX_SAFE_INTEGER" "ov \<le> MAX_SAFE_INTEGER"
    using assms(1) by (auto simp: up_def ov_def consistent_usage_def MAX_SAFE_INTEGER_def
        split: option.splits)
  moreover from this have "0 \<le> up" using pos_imp_zdiv_nonneg_iff [of 50 ov] by linarith
  ultimately show False
    using c assms(2,3) unfolding calculate_def up_def [symmetric] ov_def [symmetric]
    by (cases "s_planCode s")
      (auto simp: Let_def action_simps assertInteger_Inl safeNumber_Inl billingPeriod_Inl
        plans_findOne_def not_invalid_accounting MAX_SAFE_INTEGER_def split: if_splits)
qed

theorem consistent_ledger_bills_witness:
  "calculate (subscription_document 1 7 PREMIUM 1706659200000 1706659200000)
     (Some \<lparr>p_companyId = 7, p_startsAt = 1706659200000, p_endsAt = 1709164800000,
            p_uploadedFiles = 1002, p_fileOverageCents = 100\<rparr>) 3 1709000000000
   \<noteq> Inl invalid_accounting"
  by (rule consistent_ledger_bills) (simp_all add: consistent_usage_def MAX_SAFE_INTEGER_def)

text \<open>
  C8. The quotation keeps its word. For a company whose overage is not metered by Stripe,
  an upload that \<open>checkFileUpload\<close> allows is recorded, at exactly the quoted additional
  charge; one that it does not allow is refused with the file-limit error.
\<close>

theorem quote_agrees_with_record:
  assumes "checkFileUpload e c n at w = (Inr q, w')"
    "\<forall>s. subscription_of w c = Some s \<longrightarrow> \<not> s_stripeManaged s"
  shows "w' = w \<and>
    (if q_allowed q
     then \<exists>p w''. recordFileUploads inSession e c n at w = (Inr (Some p), w'')
        \<and> p_uploadedFiles p = q_uploadedFiles q + n
        \<and> p_fileOverageCents p = option_default 0
            (map_option p_fileOverageCents (usage_of w c (startsAt (q_billingPeriod q))))
            + q_additionalChargeCents q
     else fst (recordFileUploads inSession e c n at w)
        = Inl (file_limit_reached (q_includedFilesPerMonth q)))"
proof -
  from assms(1) obtain s period where n: "validateQuantity n = Inr ()" and w': "w' = w"
    and s: "subscription_of w c = Some s" and a: "assertPaymentAccess s e at = Inr ()"
    and p: "billingPeriod (Some (s_activatedAt s)) (Some at) = Inr period"
    and x: "calculateAdditionalOverageCents (plans_findOne (s_planCode s)) (stored_files w c)
      (stored_files w c + n) = Inr (q_additionalChargeCents q)"
    and q: "q_billingPeriod q = period"
      "q_uploadedFiles q = option_default 0 (map_option p_uploadedFiles (usage_of w c (startsAt period)))"
      "q_includedFilesPerMonth q = includedFilesPerMonth (plans_findOne (s_planCode s))"
      "q_allowed q \<longleftrightarrow> stored_quota_check (plans_findOne (s_planCode s)) (target_plan s)
         (stored_files w c + n) = Inr ()"
    by (auto simp: checkFileUpload_def Let_def action_simps getSubscription_iff
        stored_quota_check_iff max_zero_iff simp del: not_None_eq)
  have m: "\<not> s_stripeManaged s" using assms(2) s by simp
  let ?w2 = "(locked w c)\<lparr>periods := upsert_usage c period n (q_additionalChargeCents q) (periods w)\<rparr>"
  show ?thesis
  proof (cases "q_allowed q")
    case True
    then have "recordFileUploadsInTransaction e c n at w = (Inr (usage_of ?w2 c (startsAt period)), ?w2)"
      using s a p x q(4) m
      by (simp add: recordFileUploadsInTransaction_def acquireLock_def action_eval Let_def
          enqueue_if_managed_def locked_def [symmetric])
    moreover have "usage_of ?w2 c (startsAt period) =
        Some (case usage_of w c (startsAt period) of
        None \<Rightarrow> \<lparr>p_companyId = c, p_startsAt = startsAt period, p_endsAt = endsAt period,
                 p_uploadedFiles = n, p_fileOverageCents = q_additionalChargeCents q\<rparr>
      | Some p \<Rightarrow> add_usage n (q_additionalChargeCents q) p)"
      by (simp add: usage_of_def usage_of_upsert)
    ultimately show ?thesis using True n w'
      by (auto simp: recordFileUploads_def action_eval q add_usage_def split: option.split)
  next
    case False
    then have "fst (recordFileUploadsInTransaction e c n at w) =
        Inl (file_limit_reached (q_includedFilesPerMonth q))"
      using s a p q(4) unfolding q(3)
      by (auto simp: recordFileUploadsInTransaction_def acquireLock_def action_eval Let_def
          locked_def [symmetric] stored_quota_check_def split: if_splits)
    then show ?thesis using False n w'
      by (auto simp: recordFileUploads_def action_eval split: prod.splits sum.splits)
  qed
qed

theorem quote_agrees_with_record_witness:
  "\<exists>p. fst (recordFileUploads False False 7 5 1709000000000
      (empty_world\<lparr>subscriptions := [subscription_document 1 7 PREMIUM 1706659200000 1706659200000]\<rparr>))
     = Inr (Some p) \<and> p_uploadedFiles p = 5"
proof -
  let ?w = "empty_world\<lparr>subscriptions := [subscription_document 1 7 PREMIUM 1706659200000 1706659200000]\<rparr>"
  let ?r = "checkFileUpload False 7 5 1709000000000 ?w"
  have "\<not> isl (fst ?r)" by code_simp
  then have e: "?r = (Inr (projr (fst ?r)), snd ?r)" by (metis prod.collapse sum.collapse(2))
  have a: "q_allowed (projr (fst ?r))" "q_uploadedFiles (projr (fst ?r)) = 0" by code_simp+
  have m: "\<forall>s. subscription_of ?w 7 = Some s \<longrightarrow> \<not> s_stripeManaged s"
    by (simp add: subscription_of_def subscription_document_def)
  show ?thesis using quote_agrees_with_record [OF e m, of False] a by auto
qed

section \<open>Both limits are quotas\<close>

text \<open>The limits in force depend on the current plan and the pending one.\<close>

definition plans_of :: "world \<Rightarrow> oid \<Rightarrow> (plan_code \<times> plan_code option) option" where
  "plans_of w c = map_option (\<lambda>s. (s_planCode s, s_pendingPlanCode s)) (subscription_of w c)"

definition same_plans :: "world \<Rightarrow> world \<Rightarrow> oid \<Rightarrow> bool" where
  "same_plans w t c \<longleftrightarrow> plans_of w c = plans_of t c"

definition limit_plans :: "world \<Rightarrow> oid \<Rightarrow> plan_definition set" where
  "limit_plans w c = (case plans_of w c of
      None \<Rightarrow> {} | Some (p, q) \<Rightarrow> {plans_findOne p, plans_findOne (option_default p q)})"

lemma target_plan_default:
  "target_plan s = plans_findOne (option_default (s_planCode s) (s_pendingPlanCode s))"
  by (simp add: target_plan_def split: option.split)

lemma within_files_limits:
  "within_files w c n \<longleftrightarrow> (\<forall>p \<in> limit_plans w c. extraFilePriceCents p = None \<longrightarrow>
     stored_files w c + n \<le> includedFilesPerMonth p)"
  by (auto simp: within_files_def limit_plans_def plans_of_def target_plan_default
      split: option.splits)

lemma within_seats_limits:
  "within_seats w c n at \<longleftrightarrow> (\<forall>p \<in> limit_plans w c. \<forall>limit. maxEmployees p = Some limit \<longrightarrow>
     employee_count w c + pending_invitations w c at + n \<le> limit)"
  by (auto simp: within_seats_def limit_plans_def plans_of_def target_plan_default
      split: option.splits)

lemma same_plans_limits: "same_plans w t c \<Longrightarrow> limit_plans t c = limit_plans w c"
  by (simp add: same_plans_def limit_plans_def)

definition seats_used :: "world \<Rightarrow> oid \<times> date \<Rightarrow> int" where
  "seats_used w k = employee_count w (fst k) + pending_invitations w (fst k) (snd k)"

interpretation file_quota: quota stored_files same_plans within_files
  by unfold_locales (fastforce simp: within_files_limits same_plans_limits, simp_all add: same_plans_def)

interpretation seat_quota: quota seats_used "\<lambda>w t k. same_plans w t (fst k)"
    "\<lambda>w k n. within_seats w (fst k) n (snd k)"
  by unfold_locales (fastforce simp: within_seats_limits same_plans_limits seats_used_def,
    simp_all add: same_plans_def)

lemma plans_of_locked [simp]: "plans_of (locked w c) b = plans_of w b"
proof (cases "b = c")
  case True
  then show ?thesis by (cases "subscription_of w c") (simp_all add: plans_of_def)
qed (simp add: plans_of_def)

lemma same_plans_simps [simp]:
  "same_plans w (locked t c) b = same_plans w t b" "same_plans (locked w c) t b = same_plans w t b"
  "same_plans w w b"
  by (simp_all add: same_plans_def)

lemma plans_of_fields: "subscriptions t = subscriptions w \<Longrightarrow> plans_of t c = plans_of w c"
  by (simp add: plans_of_def subscription_of_def)

text \<open>Time frees seats: invitations only expire.\<close>

lemma pending_invitations_antimono:
  "t \<le> t' \<Longrightarrow> pending_invitations w c t' \<le> pending_invitations w c t"
  unfolding pending_invitations_def by (rule count_mono) auto

lemma within_seats_later: "within_seats w c n t \<Longrightarrow> t \<le> t' \<Longrightarrow> within_seats w c n t'"
  unfolding within_seats_limits using pending_invitations_antimono [of t t' w c] by fastforce

text \<open>Recording uploads moves neither plans nor stored files.\<close>

lemma record_same_plans:
  assumes "recordFileUploads True e c n at w = (Inr r, w')"
  shows "same_plans w w' b" "stored_files w' b = stored_files w b" "within_files w c n"
proof -
  have t: "recordFileUploadsInTransaction e c n at w = (Inr r, w')"
    using assms by (auto simp: recordFileUploads_def action_simps)
  from record_Inr [OF t] obtain s period x w1 where s: "subscription_of w c = Some s"
    and k: "stored_quota_check (plans_findOne (s_planCode s)) (target_plan s) (stored_files w c + n)
      = Inr ()"
    and u: "enqueue_if_managed e (bump_revision s) period
        (option_default 0 (map_option p_uploadedFiles (usage_of w c (startsAt period))) + n) x at
        (locked w c) = (Inr (), w1)"
    and w': "w' = w1\<lparr>periods := upsert_usage c period n x (periods w1)\<rparr>"
    by blast
  note f = enqueue_if_managed_fields [OF u]
  have "plans_of w' b = plans_of (locked w c) b" by (rule plans_of_fields) (simp add: w' f)
  then show "same_plans w w' b" by (simp add: same_plans_def)
  show "stored_files w' b = stored_files w b" by (simp add: w' f stored_files_def)
  show "within_files w c n" using k s by (simp add: within_files_def stored_quota_check_iff)
qed

end
