(* ===== verification/Storage.thy ===== *)
theory Storage
  imports Domain
begin

text \<open>
  The object storage (\<open>aws-s3/aws-s3.service.ts\<close>): a private bucket of objects by key. The
  remote service is outside the program, so every request takes its outcome as a parameter:
  it was performed and acknowledged, it was not performed, or it was performed although the
  client saw an error.
\<close>

datatype delivery = Acknowledged | Not_Performed | Unacknowledged

record storage_env =
  st_bucketName :: "string option"
  st_put :: "string \<Rightarrow> delivery"
  st_get :: "string \<Rightarrow> delivery"
  st_delete :: "string \<Rightarrow> delivery"

definition requireStorage :: "storage_env \<Rightarrow> error + unit" where
  "requireStorage env = require (st_bucketName env \<noteq> None)
     (http ServiceUnavailable ''S3 storage is not configured'')"

definition send :: "delivery \<Rightarrow> error \<Rightarrow> (world \<Rightarrow> world) \<Rightarrow> unit handler" where
  "send outcome failure effect =
     (case outcome of
        Acknowledged \<Rightarrow> modify effect
      | Not_Performed \<Rightarrow> throw failure
      | Unacknowledged \<Rightarrow> andthen (modify effect) (\<lambda>_. throw failure))"

definition putObject :: "storage_env \<Rightarrow> string \<Rightarrow> bytes \<Rightarrow> unit handler" where
  "putObject env key body =
     andthen (lift_result (requireStorage env)) (\<lambda>_.
     send (st_put env key) (http ServiceUnavailable ''Could not upload file'')
       (\<lambda>w. w\<lparr>objects := (objects w)(key \<mapsto> body)\<rparr>))"

definition getObject :: "storage_env \<Rightarrow> string \<Rightarrow> bytes handler" where
  "getObject env key =
     andthen (lift_result (requireStorage env)) (\<lambda>_.
     if st_get env key \<noteq> Acknowledged
     then throw (http ServiceUnavailable ''Could not download file'')
     else andthen (gets (\<lambda>w. objects w key)) (\<lambda>body.
       case body of
         None \<Rightarrow> throw (http ServiceUnavailable ''Could not download file'')
       | Some b \<Rightarrow> return b))"

definition deleteObject :: "storage_env \<Rightarrow> string \<Rightarrow> unit handler" where
  "deleteObject env key =
     andthen (lift_result (requireStorage env)) (\<lambda>_.
     send (st_delete env key) (http ServiceUnavailable ''Could not delete file'')
       (\<lambda>w. w\<lparr>objects := (objects w)(key := None)\<rparr>))"

text \<open>A client whose bucket is configured and always answers.\<close>

definition reliable_storage :: storage_env where
  "reliable_storage = \<lparr>st_bucketName = Some ''bucket'', st_put = (\<lambda>_. Acknowledged),
     st_get = (\<lambda>_. Acknowledged), st_delete = (\<lambda>_. Acknowledged)\<rparr>"

lemma send_Inr: "send d e f w = (Inr x, w') \<longleftrightarrow> d = Acknowledged \<and> w' = f w"
  by (cases d) (auto simp: send_def action_simps)

lemma send_Inl:
  "send d e f w = (Inl a, w') \<longleftrightarrow>
     a = e \<and> (d = Not_Performed \<and> w' = w \<or> d = Unacknowledged \<and> w' = f w)"
  by (cases d) (auto simp: send_def action_simps)

lemma putObject_Inr:
  "putObject env key body w = (Inr x, w') \<longleftrightarrow>
     st_bucketName env \<noteq> None \<and> st_put env key = Acknowledged
     \<and> w' = w\<lparr>objects := (objects w)(key \<mapsto> body)\<rparr>"
  by (auto simp: putObject_def requireStorage_def action_simps send_Inr)

lemma deleteObject_Inr:
  "deleteObject env key w = (Inr x, w') \<longleftrightarrow>
     st_bucketName env \<noteq> None \<and> st_delete env key = Acknowledged
     \<and> w' = w\<lparr>objects := (objects w)(key := None)\<rparr>"
  by (auto simp: deleteObject_def requireStorage_def action_simps send_Inr)

text \<open>A storage request writes at most the object of its key.\<close>

lemma putObject_frame:
  "putObject env key body w = (r, w') \<Longrightarrow>
     w' = w \<or> w' = w\<lparr>objects := (objects w)(key \<mapsto> body)\<rparr>"
  by (cases r) (auto simp: putObject_def action_simps send_Inr send_Inl)

lemma deleteObject_frame:
  "deleteObject env key w = (r, w') \<Longrightarrow>
     w' = w \<or> w' = w\<lparr>objects := (objects w)(key := None)\<rparr>"
  by (cases r) (auto simp: deleteObject_def action_simps send_Inr send_Inl)

lemma getObject_Inr:
  "getObject env key w = (Inr b, w') \<longleftrightarrow>
     st_bucketName env \<noteq> None \<and> st_get env key = Acknowledged \<and> objects w key = Some b \<and> w' = w"
  by (auto simp: getObject_def requireStorage_def action_simps split: if_splits option.splits)

lemma getObject_reads_only: "reads_only (getObject env key)"
proof -
  have "t = s" if "getObject env key s = (r, t)" for r s t
    using that by (cases r)
      (auto simp: getObject_def action_simps split: if_splits option.splits)
  then show ?thesis by (metis reads_only_def prod.collapse)
qed

end
