(* ===== verification/Downgrade.thy ===== *)
theory Downgrade
  imports Entitlements Storage "HOL-Library.Product_Lexorder"
begin

text \<open>
  Automatic clean-up before a downgrade (\<open>subscriptions/downgrade-cleanup.service.ts\<close>): the
  owner previews what would be removed, confirms with the preview's token, and the handler
  removes the oldest files, the newest members and invitations over the target plan's limits
  before it requests the plan change. \<open>sha256\<close> of the JSON text is a parameter. What other
  requests commit while the handler awaits is a parameter too (\<open>others\<close>).
\<close>

section \<open>Snapshot\<close>

definition newest_files :: "world \<Rightarrow> oid \<Rightarrow> oid list" where
  "newest_files w companyId =
     map f_id (sort_key (\<lambda>f. (- f_createdAt f, - int (f_id f)))
       (filter (\<lambda>f. f_companyId f = companyId) (files w)))"

definition oldest_employees :: "world \<Rightarrow> oid \<Rightarrow> oid list" where
  "oldest_employees w companyId =
     map u_id (sort_key (\<lambda>u. (u_createdAt u, u_id u))
       (filter (\<lambda>u. u_companyId u = companyId \<and> u_role u = COMPANY_MEMBER) (users w)))"

definition oldest_invitations :: "world \<Rightarrow> oid \<Rightarrow> date \<Rightarrow> oid list" where
  "oldest_invitations w companyId now =
     map i_id (sort_key (\<lambda>i. (i_createdAt i, i_id i))
       (filter (\<lambda>i. i_companyId i = companyId \<and> i_status i = INV_PENDING \<and> i_expiresAt i > now)
         (invitations w)))"

fun plan_text :: "plan_code \<Rightarrow> string" where
  "plan_text FREE = ''free''" | "plan_text BASIC = ''basic''" | "plan_text PREMIUM = ''premium''"

fun json_elements :: "oid list \<Rightarrow> string" where
  "json_elements [] = []"
| "json_elements [i] = json_id i"
| "json_elements (i # is) = json_id i @ '','' @ json_elements is"

definition snapshot_json ::
  "oid \<Rightarrow> plan_code \<Rightarrow> plan_code \<Rightarrow> oid list \<Rightarrow> oid list \<Rightarrow> oid list \<Rightarrow> string" where
  "snapshot_json companyId code currentPlan fs es is =
     ''{'' @ json_field ''companyId'' @ json_id companyId @ '','' @
     json_field ''code'' @ json_string (plan_text code) @ '','' @
     json_field ''currentPlan'' @ json_string (plan_text currentPlan) @ '','' @
     json_field ''files'' @ ''['' @ json_elements fs @ '']'' @ '','' @
     json_field ''employees'' @ ''['' @ json_elements es @ '']'' @ '','' @
     json_field ''invitations'' @ ''['' @ json_elements is @ '']'' @ ''}''"

record cleanup_preview =
  cp_planCode :: plan_code
  cp_previewToken :: string
  cp_fileLimit :: int
  cp_storedFiles :: int
  cp_filesToRemove :: int
  cp_filesToKeep :: int
  cp_employeeLimit :: "int option"
  cp_employees :: int
  cp_employeesToRemove :: int
  cp_pendingInvitations :: int
  cp_invitationsToRevoke :: int

record cleanup_snapshot =
  cs_fileIds :: "oid list"
  cs_employeeIds :: "oid list"
  cs_invitationIds :: "oid list"
  cs_preview :: cleanup_preview

definition keep_employees :: "plan_definition \<Rightarrow> int \<Rightarrow> int" where
  "keep_employees plan n = (case maxEmployees plan of None \<Rightarrow> n | Some m \<Rightarrow> min m n)"

definition keep_invitations :: "plan_definition \<Rightarrow> int \<Rightarrow> int \<Rightarrow> int" where
  "keep_invitations plan keepEmployees n =
     (case maxEmployees plan of None \<Rightarrow> n | Some m \<Rightarrow> max 0 (m - keepEmployees))"

definition build_snapshot ::
  "(string \<Rightarrow> string) \<Rightarrow> oid \<Rightarrow> plan_code \<Rightarrow> subscription \<Rightarrow> date \<Rightarrow> world \<Rightarrow> cleanup_snapshot" where
  "build_snapshot sha256 companyId code subscription now w =
     (let plan = plans_findOne code;
          fs = newest_files w companyId;
          employees = oldest_employees w companyId;
          invites = oldest_invitations w companyId now;
          keepEmployees = keep_employees plan (int (length employees));
          keepInvitations = keep_invitations plan keepEmployees (int (length invites));
          fileIds = drop (nat (includedFilesPerMonth plan)) fs;
          employeeIds = drop (nat keepEmployees) employees;
          invitationIds = drop (nat keepInvitations) invites
      in \<lparr>cs_fileIds = fileIds, cs_employeeIds = employeeIds, cs_invitationIds = invitationIds,
          cs_preview =
            \<lparr>cp_planCode = code,
             cp_previewToken = sha256
               (snapshot_json companyId code (s_planCode subscription) fs employees invites),
             cp_fileLimit = includedFilesPerMonth plan,
             cp_storedFiles = int (length fs),
             cp_filesToRemove = int (length fileIds),
             cp_filesToKeep = min (int (length fs)) (includedFilesPerMonth plan),
             cp_employeeLimit = maxEmployees plan,
             cp_employees = int (length employees),
             cp_employeesToRemove = int (length employeeIds),
             cp_pendingInvitations = int (length invites),
             cp_invitationsToRevoke = int (length invitationIds)\<rparr>\<rparr>)"

definition snapshot ::
  "(string \<Rightarrow> string) \<Rightarrow> bool \<Rightarrow> actor \<Rightarrow> plan_code \<Rightarrow> date \<Rightarrow> cleanup_snapshot handler" where
  "snapshot sha256 paymentsEnabled actor code now =
     (if a_role actor \<noteq> COMPANY_OWNER
      then throw (http Forbidden ''Company owner access is required'')
      else
      andthen (getSubscription (a_companyId actor)) (\<lambda>subscription.
      if s_stripeManaged subscription \<and> \<not> paymentsEnabled
      then throw (http Forbidden ''Enable billing before cleaning up a Stripe-managed plan'')
      else if plan_rank code \<ge> plan_rank (s_planCode subscription)
      then throw (http Conflict ''Cleanup is available only for a lower plan'')
      else gets (build_snapshot sha256 (a_companyId actor) code subscription now)))"

definition preview ::
  "(string \<Rightarrow> string) \<Rightarrow> bool \<Rightarrow> actor \<Rightarrow> plan_code \<Rightarrow> date \<Rightarrow> cleanup_preview handler" where
  "preview sha256 paymentsEnabled actor code now =
     andthen (snapshot sha256 paymentsEnabled actor code now) (\<lambda>s. return (cs_preview s))"

section \<open>Clean-up\<close>

primrec delete_files :: "storage_env \<Rightarrow> oid \<Rightarrow> oid list \<Rightarrow> unit handler" where
  "delete_files env companyId [] = return ()"
| "delete_files env companyId (i # ids) =
     andthen (gets (\<lambda>w. find (\<lambda>f. f_id f = i \<and> f_companyId f = companyId) (files w))) (\<lambda>file.
     case file of
       None \<Rightarrow> delete_files env companyId ids
     | Some f \<Rightarrow>
         andthen (deleteObject env (f_storageKey f)) (\<lambda>_.
         andthen (modify (\<lambda>w. w\<lparr>files := deleteOne
             (\<lambda>g. f_id g = i \<and> f_companyId g = companyId \<and> f_storageKey g = f_storageKey f)
             (files w)\<rparr>)) (\<lambda>_.
         delete_files env companyId ids)))"

definition cleanup_preview_changed :: error where
  "cleanup_preview_changed = HttpException Conflict (Code ''cleanup_preview_changed'')"

definition revoke_invitation :: "date \<Rightarrow> invitation \<Rightarrow> invitation" where
  "revoke_invitation now i =
     i\<lparr>i_status := INV_REVOKED, i_revokedAt := Some now, i_tokenHash := None\<rparr>"

definition remove_members :: "oid \<Rightarrow> cleanup_snapshot \<Rightarrow> date \<Rightarrow> world \<Rightarrow> world" where
  "remove_members companyId snap now w =
     w\<lparr>users := deleteMany (\<lambda>u. u_companyId u = companyId \<and> u_role u = COMPANY_MEMBER
           \<and> u_id u \<in> set (cs_employeeIds snap)) (users w),
       invitations := updateMany (\<lambda>i. i_companyId i = companyId \<and> i_status i = INV_PENDING
           \<and> i_id i \<in> set (cs_invitationIds snap)) (revoke_invitation now) (invitations w)\<rparr>"

definition members_transaction ::
  "(string \<Rightarrow> string) \<Rightarrow> bool \<Rightarrow> actor \<Rightarrow> plan_code \<Rightarrow> cleanup_snapshot \<Rightarrow> date \<Rightarrow> unit handler" where
  "members_transaction sha256 paymentsEnabled actor code snap now = transaction
     (andthen (acquireLock (a_companyId actor)) (\<lambda>_.
      andthen (snapshot sha256 paymentsEnabled actor code now) (\<lambda>current.
      if cs_employeeIds current \<noteq> cs_employeeIds snap
         \<or> cs_invitationIds current \<noteq> cs_invitationIds snap
      then throw cleanup_preview_changed
      else modify (remove_members (a_companyId actor) snap now))))"

definition cleanup ::
  "(string \<Rightarrow> string) \<Rightarrow> storage_env \<Rightarrow> (nat \<Rightarrow> world \<Rightarrow> world) \<Rightarrow> bool
     \<Rightarrow> (actor \<Rightarrow> plan_code \<Rightarrow> 'p handler) \<Rightarrow> actor \<Rightarrow> plan_code \<Rightarrow> string
     \<Rightarrow> (nat \<Rightarrow> date) \<Rightarrow> 'p change_result handler" where
  "cleanup sha256 env others paymentsEnabled delegate actor code token clock =
     andthen (snapshot sha256 paymentsEnabled actor code (clock 0)) (\<lambda>snap.
     if cp_previewToken (cs_preview snap) \<noteq> token then throw cleanup_preview_changed
     else
     andthen (getSubscription (a_companyId actor)) (\<lambda>subscription.
     if paymentsEnabled \<and> code \<noteq> FREE \<and>
        (s_stripeSubscriptionId subscription = None
          \<or> isTerminalStripeStatus (s_stripeStatus subscription))
     then throw (HttpException Conflict (Code ''cleanup_payment_setup''))
     else
     andthen (modify (others 0)) (\<lambda>_.
     andthen
       (catching
         (andthen (delete_files env (a_companyId actor) (rev (cs_fileIds snap))) (\<lambda>_.
          andthen (modify (others 1)) (\<lambda>_.
          members_transaction sha256 paymentsEnabled actor code snap (clock 1))))
         (\<lambda>error. if instanceof error Conflict then throw error
                  else throw (HttpException ServiceUnavailable (Code ''cleanup_incomplete''))))
       (\<lambda>_.
     andthen (modify (others 2)) (\<lambda>_.
     changePlan paymentsEnabled delegate actor code (clock 2))))))"

section \<open>What is removed\<close>

text \<open>Removing what lies beyond the first \<open>k\<close> leaves at most \<open>k\<close>.\<close>

lemma length_after_drop:
  assumes "distinct (map h xs)"
  shows "length (filter (\<lambda>x. q x \<and> h x \<notin> set (drop k (map h (sort_key key (filter q xs))))) xs) \<le> k"
    (is "length (filter ?p xs) \<le> k")
proof -
  let ?ys = "map h (sort_key key (filter q xs))"
  have d: "distinct ?ys" using assms by (simp add: distinct_map inj_on_def)
  have sub: "h ` set (filter ?p xs) \<subseteq> set (take k ?ys)"
  proof
    fix y assume "y \<in> h ` set (filter ?p xs)"
    then have "y \<in> set ?ys" "y \<notin> set (drop k ?ys)" by auto
    then show "y \<in> set (take k ?ys)" using set_append [of "take k ?ys" "drop k ?ys"] by auto
  qed
  have "length (filter ?p xs) = length (map h (filter ?p xs))" by simp
  also have "\<dots> = card (set (map h (filter ?p xs)))"
    using assms by (intro distinct_card [symmetric]) (simp add: distinct_map inj_on_def)
  also have "\<dots> \<le> card (set (take k ?ys))" using sub by (intro card_mono) auto
  also have "\<dots> \<le> k" by (rule order_trans [OF card_length]) simp
  finally show ?thesis .
qed

definition unique_ids :: "world \<Rightarrow> bool" where
  "unique_ids w \<longleftrightarrow> distinct (map f_id (files w)) \<and> distinct (map u_id (users w))
     \<and> distinct (map i_id (invitations w))"

lemma deleteOne_as_filter:
  assumes "distinct (map f_id xs)" "find (\<lambda>f. f_id f = i \<and> f_companyId f = c) xs = Some f"
  shows "deleteOne (\<lambda>g. f_id g = i \<and> f_companyId g = c \<and> f_storageKey g = f_storageKey f) xs
    = filter (\<lambda>g. \<not> (f_companyId g = c \<and> f_id g = i)) xs"
  using assms
proof (induction xs)
  case (Cons x xs)
  show ?case
  proof (cases "f_id x = i \<and> f_companyId x = c")
    case True
    with Cons.prems(1) have "filter (\<lambda>g. \<not> (f_companyId g = c \<and> f_id g = i)) xs = xs"
      by (auto simp: filter_id_conv image_iff)
    with True Cons.prems(2) show ?thesis by simp
  next
    case False
    then have "find (\<lambda>f. f_id f = i \<and> f_companyId f = c) xs = Some f" using Cons.prems(2) by auto
    with False Cons show ?thesis by auto
  qed
qed simp

definition always_available :: "storage_env \<Rightarrow> bool" where
  "always_available env \<longleftrightarrow> st_bucketName env \<noteq> None \<and> (\<forall>key. st_delete env key = Acknowledged)"

lemma delete_files_available:
  assumes "always_available env" "distinct (map f_id (files w))"
  shows "\<exists>ob. delete_files env c ids w = (Inr (), w\<lparr>objects := ob,
     files := filter (\<lambda>f. \<not> (f_companyId f = c \<and> f_id f \<in> set ids)) (files w)\<rparr>)"
  using assms(2)
proof (induction ids arbitrary: w)
  case Nil
  then show ?case by (auto simp: return_def intro!: exI [of _ "objects w"])
next
  case (Cons i ids)
  show ?case
  proof (cases "find (\<lambda>f. f_id f = i \<and> f_companyId f = c) (files w)")
    case None
    then have "filter (\<lambda>f. \<not> (f_companyId f = c \<and> f_id f \<in> set (i # ids))) (files w)
        = filter (\<lambda>f. \<not> (f_companyId f = c \<and> f_id f \<in> set ids)) (files w)"
      by (auto simp: find_None_iff intro!: filter_cong)
    then show ?thesis using Cons.IH [OF Cons.prems] None by (simp add: andthen_def gets_def)
  next
    case (Some f)
    let ?w = "w\<lparr>objects := (objects w)(f_storageKey f := None),
      files := filter (\<lambda>g. \<not> (f_companyId g = c \<and> f_id g = i)) (files w)\<rparr>"
    have "delete_files env c (i # ids) w = delete_files env c ids ?w"
      using Some assms(1) deleteOne_as_filter [OF Cons.prems Some]
      by (simp add: action_eval deleteObject_def requireStorage_def require_def send_def
          always_available_def)
    moreover have "distinct (map f_id (files ?w))" using Cons.prems by (simp add: distinct_map_filter)
    ultimately obtain ob where r: "delete_files env c (i # ids) w = (Inr (), ?w\<lparr>objects := ob,
        files := filter (\<lambda>f. \<not> (f_companyId f = c \<and> f_id f \<in> set ids)) (files ?w)\<rparr>)"
      using Cons.IH [of ?w] by auto
    have fs: "filter (\<lambda>f. \<not> (f_companyId f = c \<and> f_id f \<in> set ids)) (files ?w)
      = filter (\<lambda>f. \<not> (f_companyId f = c \<and> f_id f \<in> set (i # ids))) (files w)"
      by (auto intro!: filter_cong)
    show ?thesis unfolding r fs by (intro exI [of _ ob]) simp
  qed
qed

lemma build_snapshot_simps [simp]:
  "cs_fileIds (build_snapshot sha c code s now w) =
     drop (nat (includedFilesPerMonth (plans_findOne code))) (newest_files w c)"
  "cs_employeeIds (build_snapshot sha c code s now w) =
     drop (nat (keep_employees (plans_findOne code) (int (length (oldest_employees w c)))))
       (oldest_employees w c)"
  "cs_invitationIds (build_snapshot sha c code s now w) =
     drop (nat (keep_invitations (plans_findOne code)
         (keep_employees (plans_findOne code) (int (length (oldest_employees w c))))
         (int (length (oldest_invitations w c now)))))
       (oldest_invitations w c now)"
  by (simp_all add: build_snapshot_def Let_def)

lemma count_after_revocation:
  "countDocuments (\<lambda>i. i_companyId i = c \<and> i_status i = INV_PENDING \<and> i_expiresAt i > now)
     (updateMany (\<lambda>i. i_companyId i = c \<and> i_status i = INV_PENDING \<and> i_id i \<in> I)
       (revoke_invitation t) xs)
   = int (length (filter (\<lambda>i. (i_companyId i = c \<and> i_status i = INV_PENDING \<and> i_expiresAt i > now)
       \<and> i_id i \<notin> I) xs))"
  by (induction xs) (auto simp: updateMany_def collection_simps revoke_invitation_def)

text \<open>After the removals the company fits the target plan.\<close>

lemma removed_fits:
  assumes u: "unique_ids w" and snap: "snap = build_snapshot sha c code s now w"
    and us: "users w1 = users w" "invitations w1 = invitations w"
    and fs: "files w1 = filter (\<lambda>f. \<not> (f_companyId f = c \<and> f_id f \<in> set (cs_fileIds snap))) (files w)"
  shows "within_plan (remove_members c snap now w1) c (plans_findOne code) now"
proof -
  let ?p = "plans_findOne code" and ?w = "remove_members c snap now w1"
  let ?n = "int (length (oldest_employees w c))" and ?m = "int (length (oldest_invitations w c now))"
  have "stored_files ?w c = int (length (filter (\<lambda>f. f_companyId f = c
      \<and> f_id f \<notin> set (cs_fileIds snap)) (files w)))"
    by (simp add: stored_files_def remove_members_def fs countDocuments_def conj_commute
        cong: conj_cong)
  then have "stored_files ?w c \<le> int (nat (includedFilesPerMonth ?p))"
    using u length_after_drop [of f_id "files w" "\<lambda>f. f_companyId f = c"
        "nat (includedFilesPerMonth ?p)" "\<lambda>f. (- f_createdAt f, - int (f_id f))"]
    by (simp add: snap newest_files_def unique_ids_def del: int_nat_eq nat_0_le)
  then have f: "stored_files ?w c \<le> includedFilesPerMonth ?p" by (simp add: plans_findOne_def)
  have "employee_count ?w c = int (length (filter (\<lambda>x. (u_companyId x = c \<and> u_role x = COMPANY_MEMBER)
      \<and> u_id x \<notin> set (cs_employeeIds snap)) (users w)))"
    by (simp add: employee_count_def remove_members_def us countDocuments_def deleteMany_def
        conj_commute conj_left_commute cong: conj_cong)
  then have e: "employee_count ?w c \<le> int (nat (keep_employees ?p ?n))"
    using u length_after_drop [of u_id "users w" "\<lambda>x. u_companyId x = c \<and> u_role x = COMPANY_MEMBER"
        "nat (keep_employees ?p ?n)" "\<lambda>x. (u_createdAt x, u_id x)"]
    by (simp add: snap oldest_employees_def unique_ids_def del: int_nat_eq nat_0_le)
  have "pending_invitations ?w c now = int (length (filter (\<lambda>i. (i_companyId i = c
      \<and> i_status i = INV_PENDING \<and> i_expiresAt i > now) \<and> i_id i \<notin> set (cs_invitationIds snap))
      (invitations w)))"
    unfolding pending_invitations_def remove_members_def using count_after_revocation by (simp add: us)
  then have i: "pending_invitations ?w c now
      \<le> int (nat (keep_invitations ?p (keep_employees ?p ?n) ?m))"
    using u length_after_drop [of i_id "invitations w" "\<lambda>i. i_companyId i = c
        \<and> i_status i = INV_PENDING \<and> i_expiresAt i > now"
        "nat (keep_invitations ?p (keep_employees ?p ?n) ?m)" "\<lambda>i. (i_createdAt i, i_id i)"]
    by (simp add: snap oldest_invitations_def unique_ids_def del: int_nat_eq nat_0_le)
  have "employee_count ?w c + pending_invitations ?w c now \<le> limit"
    if "maxEmployees ?p = Some limit" for limit
    using that e i by (cases code)
      (auto simp: keep_employees_def keep_invitations_def plans_findOne_def max_def min_def
        split: if_splits)
  with f show ?thesis by (auto simp: within_plan_def split: option.split)
qed

lemma changePlan_body_succeeds:
  assumes "subscription_of w (a_companyId actor) = Some s" "\<not> s_stripeManaged s"
    "within_plan w (a_companyId actor) (plans_findOne code) now"
  shows "\<exists>w'. changePlan_body actor code now w = (Inr (), w')"
proof -
  let ?c = "a_companyId actor"
  have "plan_employee_check (plans_findOne code) code (employee_count w ?c)
      (pending_invitations w ?c now) = Inr ()"
    "plan_file_check (plans_findOne code) code (stored_files w ?c) = Inr ()"
    using assms(3) unfolding within_plan_def plan_checks_Inr by auto
  then show ?thesis using assms(1,2)
    by (simp add: changePlan_body_def Let_def acquireLock_def action_eval)
qed

lemma members_transaction_undisturbed:
  assumes "a_role actor = COMPANY_OWNER" "subscription_of w1 (a_companyId actor) = Some s"
    "\<not> s_stripeManaged s" "plan_rank code < plan_rank (s_planCode s)"
    "snap = build_snapshot sha (a_companyId actor) code s0 now w"
    "users w1 = users w" "invitations w1 = invitations w"
  shows "members_transaction sha False actor code snap now w1 =
    (Inr (), remove_members (a_companyId actor) snap now (locked w1 (a_companyId actor)))"
proof -
  let ?c = "a_companyId actor"
  have "oldest_employees (locked w1 ?c) ?c = oldest_employees w ?c"
    "oldest_invitations (locked w1 ?c) ?c now = oldest_invitations w ?c now"
    using assms(6,7) by (simp_all add: oldest_employees_def oldest_invitations_def)
  then show ?thesis using assms(1-5)
    by (simp add: members_transaction_def snapshot_def acquireLock_def getSubscription_def
        action_eval locked_def [symmetric] not_le)
qed


definition example_member :: user where
  "example_member = \<lparr>u_id = 2, u_email = ''m@x.io'', u_fullName = None, u_password = None,
     u_passwordResetTokenHash = None, u_passwordResetExpiresAt = None,
     u_passwordResetRequestedAt = None, u_authVersion = Some 0, u_companyId = 7,
     u_role = COMPANY_MEMBER, u_avatar = None, u_guardScanFence = 0, u_createdAt = 5\<rparr>"

definition example_company_world :: world where
  "example_company_world = empty_world\<lparr>users := [example_member],
     subscriptions := [subscription_document 1 7 BASIC 1706659200000 1706659200000]\<rparr>"


section \<open>Confirmation\<close>

text \<open>The JSON text determines the snapshot.\<close>

definition bounded_ids :: "oid list \<Rightarrow> bool" where
  "bounded_ids is \<longleftrightarrow> (\<forall>i \<in> set is. i < 16 ^ 24)"

lemma hex_digit_no_bracket: "n < 16 \<Longrightarrow> hex_digit n \<noteq> CHR '']''"
proof -
  assume "n < 16"
  then have "n \<in> set [0..<16]" by simp
  moreover have "list_all (\<lambda>k. hex_digit k \<noteq> CHR '']'') [0..<16]" by code_simp
  ultimately show ?thesis unfolding list_all_iff by blast
qed

lemma hex_digits_no_bracket: "CHR '']'' \<notin> set (hex_digits k n)"
proof (induction k arbitrary: n)
  case (Suc k)
  then show ?case using hex_digit_no_bracket [of "n mod 16"] by auto
qed simp

lemma json_elements_no_bracket: "x \<in> set (json_elements is) \<Longrightarrow> x \<noteq> CHR '']''"
proof -
  have "CHR '']'' \<notin> set (json_elements is)"
    using hex_digits_no_bracket
    by (induction "is" rule: json_elements.induct) (auto simp: json_id_def oid_to_string_def)
  then show "x \<in> set (json_elements is) \<Longrightarrow> x \<noteq> CHR '']''" by auto
qed

lemma json_id_inj:
  "json_id i @ xs = json_id j @ ys \<Longrightarrow> i < 16 ^ 24 \<Longrightarrow> j < 16 ^ 24 \<Longrightarrow> i = j \<and> xs = ys"
proof -
  assume e: "json_id i @ xs = json_id j @ ys" and b: "i < 16 ^ 24" "j < 16 ^ 24"
  have "length (json_id i) = length (json_id j)" by (simp add: json_id_def oid_to_string_def)
  with e have "json_id i = json_id j" "xs = ys" by (auto simp: append_eq_append_conv)
  then show "i = j \<and> xs = ys" using oid_to_string_inj [OF _ b] by (simp add: json_id_def)
qed

lemma json_elements_Cons:
  "json_elements (i # is) = json_id i @ (if is = [] then [] else CHR '','' # json_elements is)"
  by (cases "is") auto

lemma json_elements_inj:
  "json_elements is = json_elements js \<Longrightarrow> bounded_ids is \<Longrightarrow> bounded_ids js \<Longrightarrow> is = js"
proof (induction "is" arbitrary: js)
  case Nil
  then show ?case by (cases js) (auto simp: json_elements_Cons json_id_def)
next
  case (Cons i "is")
  then obtain j js' where js: "js = j # js'"
    by (cases js) (auto simp: json_elements_Cons json_id_def)
  have e: "i = j \<and> (if is = [] then [] else CHR '','' # json_elements is)
      = (if js' = [] then [] else CHR '','' # json_elements js')"
    using Cons.prems unfolding js json_elements_Cons
    by (intro json_id_inj) (auto simp: bounded_ids_def)
  then show ?case using Cons.IH [of js'] Cons.prems
    by (auto simp: js bounded_ids_def split: if_splits)
qed

lemma plan_text_inj:
  "plan_text a @ [CHR 0x22] @ xs = plan_text b @ [CHR 0x22] @ ys \<Longrightarrow> a = b \<and> xs = ys"
  by (cases a; cases b) auto

lemma json_list_inj:
  assumes "json_elements is @ '']'' @ xs = json_elements js @ '']'' @ ys" "bounded_ids is" "bounded_ids js"
  shows "is = js \<and> xs = ys"
proof -
  have "json_elements is = json_elements js \<and> xs = ys"
    using assms(1) by (intro split_at_eq [of _ "CHR '']''"]) (auto dest: json_elements_no_bracket)
  then show ?thesis using json_elements_inj [OF _ assms(2,3)] by simp
qed

lemma snapshot_json_inj:
  assumes e: "snapshot_json c code cur fs es is = snapshot_json c' code' cur' fs' es' is'"
    and b: "bounded_ids (c # c' # fs @ fs' @ es @ es' @ is @ is')"
  shows "c = c' \<and> code = code' \<and> cur = cur' \<and> fs = fs' \<and> es = es' \<and> is = is'"
proof -
  have bs: "c < 16 ^ 24" "c' < 16 ^ 24" "bounded_ids fs" "bounded_ids fs'" "bounded_ids es"
    "bounded_ids es'" "bounded_ids is" "bounded_ids is'"
    using b unfolding bounded_ids_def by auto
  note parts = e [unfolded snapshot_json_def json_field_def json_string_def append_assoc same_append_eq]
  note c = json_id_inj [OF parts bs(1,2)]
  note code = plan_text_inj [OF c [THEN conjunct2, unfolded append_assoc same_append_eq]]
  note cur = plan_text_inj [OF code [THEN conjunct2, unfolded append_assoc same_append_eq]]
  note fs = json_list_inj [OF cur [THEN conjunct2, unfolded append_assoc same_append_eq] bs(3,4)]
  note es = json_list_inj [OF fs [THEN conjunct2, unfolded append_assoc same_append_eq] bs(5,6)]
  note "is" = json_list_inj [OF es [THEN conjunct2, unfolded append_assoc same_append_eq] bs(7,8)]
  show ?thesis using c code cur fs es "is" by blast
qed

definition ids_bounded :: "world \<Rightarrow> oid \<Rightarrow> date \<Rightarrow> bool" where
  "ids_bounded w c now \<longleftrightarrow>
     bounded_ids (c # newest_files w c @ oldest_employees w c @ oldest_invitations w c now)"

lemma preview_Inr:
  assumes "preview sha e actor code now w = (Inr p, w')"
  shows "w' = w \<and> (\<exists>s. subscription_of w (a_companyId actor) = Some s \<and>
    cp_previewToken p = sha (snapshot_json (a_companyId actor) code (s_planCode s)
      (newest_files w (a_companyId actor)) (oldest_employees w (a_companyId actor))
      (oldest_invitations w (a_companyId actor) now)))"
  using assms
  by (auto simp: preview_def snapshot_def action_simps getSubscription_iff build_snapshot_def
      Let_def split: if_splits)

lemma cleanup_checks_token:
  assumes "cleanup sha env others e delegate actor code token clock w = (r, w')" "w' \<noteq> w"
  shows "\<exists>p. preview sha e actor code (clock 0) w = (Inr p, w) \<and> cp_previewToken p = token"
proof -
  obtain q where q: "snapshot sha e actor code (clock 0) w = (q, w)"
    by (cases "snapshot sha e actor code (clock 0) w"; cases "fst (snapshot sha e actor code (clock 0) w)")
      (auto simp: snapshot_def action_simps getSubscription_iff split: if_splits)
  then show ?thesis using assms
    by (cases q) (auto simp: cleanup_def preview_def andthen_def return_def throw_def split: if_splits)
qed

text \<open>
  A confirmation removes only what was previewed: if a clean-up started from one preview's
  token writes anything, then it acts on the same company and target plan, and the company's
  files, members and pending invitations are the previewed ones, in the same order. (The hash
  is assumed collision free; identifiers have 96 bits.)
\<close>

theorem cleanup_token_binds:
  assumes "inj sha256"
    and "preview sha256 e1 actor1 code1 t1 w1 = (Inr p, w1')"
    and "cleanup sha256 env others e2 delegate actor2 code2 (cp_previewToken p) clock w2 = (r, w2')"
    and "w2' \<noteq> w2"
    and "ids_bounded w1 (a_companyId actor1) t1" "ids_bounded w2 (a_companyId actor2) (clock 0)"
  shows "a_companyId actor2 = a_companyId actor1 \<and> code2 = code1
    \<and> newest_files w2 (a_companyId actor1) = newest_files w1 (a_companyId actor1)
    \<and> oldest_employees w2 (a_companyId actor1) = oldest_employees w1 (a_companyId actor1)
    \<and> oldest_invitations w2 (a_companyId actor1) (clock 0)
        = oldest_invitations w1 (a_companyId actor1) t1"
proof -
  obtain q where q: "preview sha256 e2 actor2 code2 (clock 0) w2 = (Inr q, w2)"
    and t: "cp_previewToken q = cp_previewToken p"
    using cleanup_checks_token [OF assms(3,4)] by blast
  obtain s1 :: subscription where 1: "cp_previewToken p = sha256 (snapshot_json (a_companyId actor1) code1
      (s_planCode s1) (newest_files w1 (a_companyId actor1))
      (oldest_employees w1 (a_companyId actor1)) (oldest_invitations w1 (a_companyId actor1) t1))"
    using preview_Inr [OF assms(2)] by blast
  obtain s2 :: subscription where 2: "cp_previewToken q = sha256 (snapshot_json (a_companyId actor2) code2
      (s_planCode s2) (newest_files w2 (a_companyId actor2))
      (oldest_employees w2 (a_companyId actor2)) (oldest_invitations w2 (a_companyId actor2) (clock 0)))"
    using preview_Inr [OF q] by blast
  note eq = injD [OF assms(1) t [unfolded 1 2]]
  have "bounded_ids (a_companyId actor2 # a_companyId actor1
      # newest_files w2 (a_companyId actor2) @ newest_files w1 (a_companyId actor1)
      @ oldest_employees w2 (a_companyId actor2) @ oldest_employees w1 (a_companyId actor1)
      @ oldest_invitations w2 (a_companyId actor2) (clock 0)
      @ oldest_invitations w1 (a_companyId actor1) t1)"
    using assms(5,6) unfolding ids_bounded_def bounded_ids_def by auto
  from snapshot_json_inj [OF eq this] show ?thesis by metis
qed

theorem cleanup_token_binds_witness:
  "oldest_employees (example_company_world\<lparr>users :=
      [example_member, example_member\<lparr>u_id := 3, u_companyId := 8\<rparr>]\<rparr>) 7
   = oldest_employees example_company_world 7"
proof -
  let ?a = "\<lparr>a_id = 1, a_companyId = 7, a_role = COMPANY_OWNER\<rparr>" and ?w1 = example_company_world
  let ?w2 = "?w1\<lparr>users := [example_member, example_member\<lparr>u_id := 3, u_companyId := 8\<rparr>]\<rparr>"
  let ?d = "\<lambda>_ _. throw (PlainError ''disabled'') :: unit handler"
  let ?p = "preview id False ?a FREE 1709200000000 ?w1"
  have "\<not> isl (fst ?p)" by code_simp
  then have p: "?p = (Inr (projr (fst ?p)), snd ?p)" by (metis prod.collapse sum.collapse(2))
  let ?r = "cleanup id reliable_storage (\<lambda>_. id) False ?d ?a FREE
    (cp_previewToken (projr (fst ?p))) (\<lambda>_. 1709200000000) ?w2"
  have "length (users (snd ?r)) = 1" by code_simp
  then have c: "snd ?r \<noteq> ?w2" by auto
  have l: "newest_files ?w1 7 = []" "oldest_employees ?w1 7 = [2]" "newest_files ?w2 7 = []"
    "oldest_employees ?w2 7 = [2]" "oldest_invitations ?w1 7 1709200000000 = []"
    "oldest_invitations ?w2 7 1709200000000 = []" by code_simp+
  have b: "ids_bounded ?w1 7 1709200000000" "ids_bounded ?w2 7 1709200000000"
    by (simp_all add: ids_bounded_def bounded_ids_def l)
  show ?thesis using cleanup_token_binds [OF inj_on_id p surjective_pairing c] b by simp
qed

end
