(* ===== verification/FileValidation.thy ===== *)
theory FileValidation
  imports Domain "HOL-Library.Code_Target_Nat"
begin

text \<open>
  Validation of an uploaded file (\<open>files/file-validation.ts\<close>): file name, extension and MIME
  type, and the structural checks of the content by format. JavaScript strings are lists of
  UTF-16 code units, buffers are lists of bytes. A buffer read outside the buffer throws, as in
  Node. Unicode normalisation (\<open>String.normalize\<close>) is the parameter \<open>nfc\<close>.
\<close>

section \<open>Strings and buffers\<close>

type_synonym js_string = "nat list"

definition units :: "string \<Rightarrow> js_string" where
  "units s = map of_char s"

text \<open>White space and line terminators removed by \<open>trim\<close>.\<close>

definition js_space :: "nat \<Rightarrow> bool" where
  "js_space c \<longleftrightarrow> (9 \<le> c \<and> c \<le> 13) \<or> c = 32 \<or> c = 160 \<or> c = 5760 \<or> (8192 \<le> c \<and> c \<le> 8202)
     \<or> c = 8232 \<or> c = 8233 \<or> c = 8239 \<or> c = 8287 \<or> c = 12288 \<or> c = 65279"

definition js_trim :: "js_string \<Rightarrow> js_string" where
  "js_trim s = rev (dropWhile js_space (rev (dropWhile js_space s)))"

text \<open>
  Lower case of ASCII letters. The comparisons below are with lower-case ASCII texts whose
  letters are the lower case of no other character.
\<close>

definition lower :: "nat \<Rightarrow> nat" where
  "lower c = (if 65 \<le> c \<and> c \<le> 90 then c + 32 else c)"

definition out_of_range :: error where
  "out_of_range = PlainError ''ERR_OUT_OF_RANGE''"

definition readUInt16LE :: "bytes \<Rightarrow> nat \<Rightarrow> error + nat" where
  "readUInt16LE buffer i =
     (if i + 2 \<le> length buffer then Inr (buffer ! i + 256 * buffer ! (i + 1)) else Inl out_of_range)"

definition readUInt32LE :: "bytes \<Rightarrow> nat \<Rightarrow> error + nat" where
  "readUInt32LE buffer i =
     (if i + 4 \<le> length buffer
      then Inr (buffer ! i + 256 * buffer ! (i + 1) + 65536 * buffer ! (i + 2)
                + 16777216 * buffer ! (i + 3))
      else Inl out_of_range)"

definition starts_with :: "bytes \<Rightarrow> bytes \<Rightarrow> bool" where
  "starts_with prefix buffer \<longleftrightarrow> take (length prefix) buffer = prefix"

fun buffer_includes :: "bytes \<Rightarrow> bytes \<Rightarrow> bool" where
  "buffer_includes pat [] \<longleftrightarrow> pat = []"
| "buffer_includes pat (b # bs) \<longleftrightarrow> starts_with pat (b # bs) \<or> buffer_includes pat bs"

text \<open>The last position at which a pattern occurs (\<open>-1\<close> is \<open>None\<close>).\<close>

definition lastIndexOf :: "bytes \<Rightarrow> bytes \<Rightarrow> nat option" where
  "lastIndexOf buffer pat =
     find (\<lambda>i. starts_with pat (drop i buffer)) (rev [0..<Suc (length buffer)])"

definition slice :: "bytes \<Rightarrow> nat \<Rightarrow> nat \<Rightarrow> bytes" where
  "slice buffer i j = take (j - i) (drop i buffer)"

section \<open>File names\<close>

fun last_segment :: "js_string \<Rightarrow> js_string \<Rightarrow> js_string" where
  "last_segment acc [] = acc"
| "last_segment acc (c # cs) = (if c = 47 then last_segment [] cs else last_segment (acc @ [c]) cs)"

fun utf8_byteLength :: "js_string \<Rightarrow> nat" where
  "utf8_byteLength [] = 0"
| "utf8_byteLength (c # cs) =
     (if c < 128 then 1 + utf8_byteLength cs
      else if c < 2048 then 2 + utf8_byteLength cs
      else if 55296 \<le> c \<and> c < 56320 then
        (case cs of
           d # ds \<Rightarrow> if 56320 \<le> d \<and> d < 57344 then 4 + utf8_byteLength ds
                     else 3 + utf8_byteLength cs
         | [] \<Rightarrow> 3)
      else 3 + utf8_byteLength cs)"

definition safeFilename :: "(js_string \<Rightarrow> js_string) \<Rightarrow> js_string \<Rightarrow> error + js_string" where
  "safeFilename nfc input =
     (let leaf = last_segment [] (map (\<lambda>c. if c = 92 then 47 else c) (nfc input));
          filename = js_trim (filter (\<lambda>c. c \<ge> 32 \<and> c \<noteq> 127) leaf)
      in if filename = [] \<or> filename = units ''.'' \<or> filename = units ''..''
         then Inl (http BadRequest ''Filename is invalid'')
         else if utf8_byteLength filename > 255
         then Inl (http BadRequest ''Filename is too long'')
         else Inr filename)"

text \<open>\<open>path.extname\<close> of a name without slashes, without the dot (\<open>slice(1)\<close>).\<close>

definition extension_of :: "js_string \<Rightarrow> js_string" where
  "extension_of name =
     (case find (\<lambda>i. name ! i = 46) (rev [0..<length name]) of
        None \<Rightarrow> [] | Some i \<Rightarrow> if i = 0 then [] else drop (Suc i) name)"

fun type_text :: "file_type \<Rightarrow> js_string" where
  "type_text CSV = units ''csv''" | "type_text XLS = units ''xls''" | "type_text XLSX = units ''xlsx''"

definition file_type_of :: "js_string \<Rightarrow> file_type option" where
  "file_type_of ext = find (\<lambda>t. type_text t = ext) [CSV, XLS, XLSX]"

fun MIME_TYPES :: "file_type \<Rightarrow> js_string list" where
  "MIME_TYPES CSV = [units ''text/csv'', units ''application/csv'', units ''text/plain'',
     units ''application/vnd.ms-excel'']"
| "MIME_TYPES XLS = [units ''application/vnd.ms-excel'']"
| "MIME_TYPES XLSX = [units ''application/vnd.openxmlformats-officedocument.spreadsheetml.sheet'']"

fun CANONICAL_MIME_TYPES :: "file_type \<Rightarrow> string" where
  "CANONICAL_MIME_TYPES CSV = ''text/csv''"
| "CANONICAL_MIME_TYPES XLS = ''application/vnd.ms-excel''"
| "CANONICAL_MIME_TYPES XLSX = ''application/vnd.openxmlformats-officedocument.spreadsheetml.sheet''"

section \<open>CSV\<close>

text \<open>The decoder of \<open>TextDecoder\<close> in its fatal mode: \<open>None\<close> is the thrown exception.\<close>

definition continuation :: "nat \<Rightarrow> bool" where
  "continuation b \<longleftrightarrow> 128 \<le> b \<and> b < 192"

fun utf8_decode :: "bytes \<Rightarrow> nat list option" where
  "utf8_decode [] = Some []"
| "utf8_decode (a # bs) =
     (if a < 128 then map_option (Cons a) (utf8_decode bs)
      else if 194 \<le> a \<and> a < 224 then
        (case bs of
           b # cs \<Rightarrow> if continuation b
             then map_option (Cons ((a - 192) * 64 + (b - 128))) (utf8_decode cs) else None
         | _ \<Rightarrow> None)
      else if 224 \<le> a \<and> a < 240 then
        (case bs of
           b # c # cs \<Rightarrow>
             if continuation b \<and> continuation c \<and> (a = 224 \<longrightarrow> 160 \<le> b) \<and> (a = 237 \<longrightarrow> b < 160)
             then map_option (Cons ((a - 224) * 4096 + (b - 128) * 64 + (c - 128))) (utf8_decode cs)
             else None
         | _ \<Rightarrow> None)
      else if 240 \<le> a \<and> a < 245 then
        (case bs of
           b # c # d # cs \<Rightarrow>
             if continuation b \<and> continuation c \<and> continuation d
                \<and> (a = 240 \<longrightarrow> 144 \<le> b) \<and> (a = 244 \<longrightarrow> b < 144)
             then map_option (Cons ((a - 240) * 262144 + (b - 128) * 4096 + (c - 128) * 64 + (d - 128)))
                    (utf8_decode cs)
             else None
         | _ \<Rightarrow> None)
      else None)"

text \<open>A leading byte order mark is not part of the text.\<close>

definition decode_text :: "bytes \<Rightarrow> nat list option" where
  "decode_text buffer =
     utf8_decode (if starts_with [239, 187, 191] buffer then drop 3 buffer else buffer)"

definition invalid_control :: "nat \<Rightarrow> bool" where
  "invalid_control code \<longleftrightarrow> (code < 32 \<and> code \<notin> set [9, 10, 13]) \<or> code = 127"

definition validateCsv :: "bytes \<Rightarrow> error + unit" where
  "validateCsv buffer =
     (case decode_text buffer of
        None \<Rightarrow> Inl (http BadRequest ''CSV file must be valid UTF-8 text'')
      | Some text \<Rightarrow>
          if js_trim text = [] \<or> list_ex invalid_control text
          then Inl (http BadRequest ''CSV file content is invalid'') else Inr ())"

section \<open>XLS and XLSX\<close>

definition utf16le :: "string \<Rightarrow> bytes" where
  "utf16le s = concat (map (\<lambda>c. [of_char c, 0]) s)"

definition validateXls :: "bytes \<Rightarrow> error + unit" where
  "validateXls buffer =
     (let invalid = Inl (http BadRequest ''XLS file structure is invalid'') in
      if length buffer < 512 \<or> \<not> starts_with [208, 207, 17, 224, 161, 177, 26, 225] buffer
      then invalid
      else
      result_bind (readUInt16LE buffer 28) (\<lambda>order.
      if order \<noteq> 65534 then invalid
      else
      result_bind (readUInt16LE buffer 30) (\<lambda>sector.
      if sector \<notin> set [9, 12]
         \<or> (\<not> buffer_includes (utf16le (''Workbook'' @ [CHR 0x00])) buffer
            \<and> \<not> buffer_includes (utf16le (''Book'' @ [CHR 0x00])) buffer)
      then invalid else Inr ())))"

definition invalid_xlsx :: error where
  "invalid_xlsx = http BadRequest ''XLSX file structure is invalid''"

text \<open>The loop over the central directory: the final offset and the names, as bytes.\<close>

fun read_entries :: "bytes \<Rightarrow> nat \<Rightarrow> nat \<Rightarrow> nat \<Rightarrow> bytes list \<Rightarrow> error + nat \<times> bytes list" where
  "read_entries buffer eocdOffset 0 offset names = Inr (offset, names)"
| "read_entries buffer eocdOffset (Suc n) offset names =
     (if offset + 46 > eocdOffset then Inl invalid_xlsx
      else
      result_bind (readUInt32LE buffer offset) (\<lambda>signature.
      if signature \<noteq> 0x02014b50 then Inl invalid_xlsx
      else
      result_bind (readUInt16LE buffer (offset + 28)) (\<lambda>nameLength.
      result_bind (readUInt16LE buffer (offset + 30)) (\<lambda>extraLength.
      result_bind (readUInt16LE buffer (offset + 32)) (\<lambda>commentLength.
      let nextOffset = offset + 46 + nameLength + extraLength + commentLength in
      if nextOffset > eocdOffset then Inl invalid_xlsx
      else read_entries buffer eocdOffset n nextOffset
             (slice buffer (offset + 46) (offset + 46 + nameLength) # names))))))"

definition content_types :: bytes where "content_types = units ''[Content_Types].xml''"
definition workbook_part :: bytes where "workbook_part = units ''xl/workbook.xml''"

definition validateXlsx :: "bytes \<Rightarrow> error + unit" where
  "validateXlsx buffer =
     (if length buffer < 22 \<or> \<not> starts_with [0x50, 0x4b, 0x03, 0x04] buffer then Inl invalid_xlsx
      else
      let minimumOffset = length buffer - 65557 in
      case lastIndexOf buffer [0x50, 0x4b, 0x05, 0x06] of
        None \<Rightarrow> Inl invalid_xlsx
      | Some eocdOffset \<Rightarrow>
      if eocdOffset < minimumOffset \<or> eocdOffset + 22 > length buffer then Inl invalid_xlsx
      else
      result_bind (readUInt16LE buffer (eocdOffset + 10)) (\<lambda>entryCount.
      result_bind (readUInt32LE buffer (eocdOffset + 12)) (\<lambda>centralSize.
      result_bind (readUInt32LE buffer (eocdOffset + 16)) (\<lambda>centralOffset.
      if entryCount < 2 \<or> centralOffset + centralSize > eocdOffset \<or> centralOffset \<ge> length buffer
      then Inl invalid_xlsx
      else
      result_bind (read_entries buffer eocdOffset entryCount centralOffset []) (\<lambda>(offset, names).
      if offset \<noteq> centralOffset + centralSize
         \<or> content_types \<notin> set names \<or> workbook_part \<notin> set names
      then Inl invalid_xlsx else Inr ())))))"

section \<open>The whole check\<close>

record uploaded_file =
  up_originalname :: js_string
  up_mimetype :: js_string
  up_size :: int
  up_buffer :: "bytes option"

record validated_file =
  vf_originalFilename :: js_string
  vf_fileType :: file_type
  vf_mimeType :: string
  vf_size :: int
  vf_buffer :: bytes

fun validate_content :: "file_type \<Rightarrow> bytes \<Rightarrow> error + unit" where
  "validate_content CSV buffer = validateCsv buffer"
| "validate_content XLS buffer = validateXls buffer"
| "validate_content XLSX buffer = validateXlsx buffer"

definition validateCompanyFile ::
  "(js_string \<Rightarrow> js_string) \<Rightarrow> uploaded_file option \<Rightarrow> int \<Rightarrow> error + validated_file" where
  "validateCompanyFile nfc file maxSizeBytes =
     (let required = Inl (http BadRequest ''A non-empty file is required'') in
      case file of
        None \<Rightarrow> required
      | Some f \<Rightarrow>
      (case up_buffer f of
        None \<Rightarrow> required
      | Some buffer \<Rightarrow>
      if up_size f < 1 \<or> length buffer < 1 then required
      else if up_size f \<noteq> int (length buffer) then Inl (http BadRequest ''File size is invalid'')
      else if up_size f > maxSizeBytes
      then Inl (http PayloadTooLarge ''File exceeds the configured size limit'')
      else
      result_bind (safeFilename nfc (up_originalname f)) (\<lambda>originalFilename.
      case file_type_of (map lower (extension_of originalFilename)) of
        None \<Rightarrow> Inl (http BadRequest ''Only CSV, XLS, and XLSX files are allowed'')
      | Some fileType \<Rightarrow>
      if map lower (js_trim (up_mimetype f)) \<notin> set (MIME_TYPES fileType)
      then Inl (http BadRequest ''File MIME type does not match its extension'')
      else
      result_bind (validate_content fileType buffer) (\<lambda>_.
      Inr \<lparr>vf_originalFilename = originalFilename, vf_fileType = fileType,
           vf_mimeType = CANONICAL_MIME_TYPES fileType, vf_size = up_size f,
           vf_buffer = buffer\<rparr>))))"

section \<open>The download header\<close>

text \<open>Code points of UTF-16 text; \<open>None\<close> for a lone surrogate (\<open>encodeURIComponent\<close> throws).\<close>

fun code_points :: "js_string \<Rightarrow> nat list option" where
  "code_points [] = Some []"
| "code_points (c # cs) =
     (if 55296 \<le> c \<and> c < 56320 then
        (case cs of
           d # ds \<Rightarrow> if 56320 \<le> d \<and> d < 57344
             then map_option (Cons (65536 + (c - 55296) * 1024 + (d - 56320))) (code_points ds)
             else None
         | [] \<Rightarrow> None)
      else if 56320 \<le> c \<and> c < 57344 then None
      else map_option (Cons c) (code_points cs))"

definition utf8_encode1 :: "nat \<Rightarrow> bytes" where
  "utf8_encode1 c =
     (if c < 128 then [c]
      else if c < 2048 then [192 + c div 64, 128 + c mod 64]
      else if c < 65536 then [224 + c div 4096, 128 + c div 64 mod 64, 128 + c mod 64]
      else [240 + c div 262144, 128 + c div 4096 mod 64, 128 + c div 64 mod 64, 128 + c mod 64])"

definition utf8_encode :: "nat list \<Rightarrow> bytes" where
  "utf8_encode cs = concat (map utf8_encode1 cs)"

text \<open>\<open>encodeURIComponent\<close> followed by the replacement of quote and parentheses.\<close>

definition unreserved :: "nat \<Rightarrow> bool" where
  "unreserved c \<longleftrightarrow> (65 \<le> c \<and> c \<le> 90) \<or> (97 \<le> c \<and> c \<le> 122) \<or> (48 \<le> c \<and> c \<le> 57)
     \<or> c \<in> set (units ''-_.!~*'')"

definition upper_hex :: "nat \<Rightarrow> nat" where
  "upper_hex n = (if n < 10 then 48 + n else 55 + n)"

definition percent_encode1 :: "nat \<Rightarrow> js_string" where
  "percent_encode1 b = (if unreserved b then [b] else [37, upper_hex (b div 16), upper_hex (b mod 16)])"

definition fallback_name :: "js_string \<Rightarrow> js_string" where
  "fallback_name filename =
     map (\<lambda>c. if c = 34 \<or> c = 92 then 95 else c)
       (map (\<lambda>c. if c < 32 \<or> 126 < c then 95 else c) filename)"

definition contentDisposition :: "js_string \<Rightarrow> js_string option" where
  "contentDisposition filename =
     map_option (\<lambda>cps. units ''attachment; filename='' @ [34] @ fallback_name filename @ [34]
         @ units ''; filename*=UTF-8'' @ [39, 39]
         @ concat (map percent_encode1 (utf8_encode cps)))
       (code_points filename)"

section \<open>UTF-8\<close>

definition scalar :: "nat \<Rightarrow> bool" where
  "scalar c \<longleftrightarrow> c < 1114112 \<and> \<not> (55296 \<le> c \<and> c < 57344)"

lemma digits_64:
  fixes c :: nat
  obtains x y z w where "c = 262144 * x + 4096 * y + 64 * z + w" "y < 64" "z < 64" "w < 64"
    "c div 262144 = x" "c div 4096 mod 64 = y" "c div 64 mod 64 = z" "c mod 64 = w"
    "c div 64 = 4096 * x + 64 * y + z" "c div 4096 = 64 * x + y"
proof -
  define c1 c2 c3 where "c1 = c div 64" and "c2 = c1 div 64" and "c3 = c2 div 64"
  have e: "c = 64 * c1 + c mod 64" "c1 = 64 * c2 + c1 mod 64" "c2 = 64 * c3 + c2 mod 64"
    unfolding c1_def c2_def c3_def by simp_all
  have d: "c div 64 = c1" "c div 4096 = c2" "c div 262144 = c3"
    unfolding c1_def c2_def c3_def by (simp_all add: div_mult2_eq [symmetric])
  show thesis
  proof (rule that [of c3 "c2 mod 64" "c1 mod 64" "c mod 64"])
    show "c = 262144 * c3 + 4096 * (c2 mod 64) + 64 * (c1 mod 64) + c mod 64"
      using e by linarith
    show "c div 64 = 4096 * c3 + 64 * (c2 mod 64) + c1 mod 64" using e d by linarith
    show "c div 4096 = 64 * c3 + c2 mod 64" using e d by linarith
  qed (simp_all add: d)
qed

lemma utf8_decode_encode1:
  assumes "scalar c"
  shows "utf8_decode (utf8_encode1 c @ bs) = map_option (Cons c) (utf8_decode bs)"
proof -
  obtain x y z w where d: "c = 262144 * x + 4096 * y + 64 * z + w" "y < 64" "z < 64" "w < 64"
    and e: "c div 262144 = x" "c div 4096 mod 64 = y" "c div 64 mod 64 = z" "c mod 64 = w"
    "c div 64 = 4096 * x + 64 * y + z" "c div 4096 = 64 * x + y"
    by (rule digits_64)
  consider "c < 128" | "128 \<le> c" "c < 2048" | "2048 \<le> c" "c < 65536" | "65536 \<le> c" by linarith
  then show ?thesis
  proof cases
    case 1
    then show ?thesis by (simp add: utf8_encode1_def)
  next
    case 2
    then have "x = 0" "y = 0" using d by linarith+
    with 2 d(2-) have "utf8_encode1 c = [192 + z, 128 + w]" "2 \<le> z" "z < 32" "c = 64 * z + w"
      using e d(1) by (simp_all add: utf8_encode1_def)
    then show ?thesis using d(4) by (simp add: continuation_def mult.commute)
  next
    case 3
    then have x: "x = 0" using d by linarith
    then have c: "c = 4096 * y + 64 * z + w" using d by simp
    have s: "\<not> (55296 \<le> c \<and> c < 57344)" using assms by (simp add: scalar_def)
    have "utf8_encode1 c = [224 + y, 128 + z, 128 + w]" "y < 16"
      using 3 e x c by (simp_all add: utf8_encode1_def)
    moreover have "y = 0 \<Longrightarrow> 32 \<le> z" using 3 c d(3,4) by linarith
    moreover have "y = 13 \<Longrightarrow> z < 32" using s c d(3,4) by linarith
    ultimately show ?thesis using d(3,4) c
      by (simp add: continuation_def mult.commute add.commute add.left_commute)
  next
    case 4
    have c: "c < 1114112" using assms by (simp add: scalar_def)
    have "utf8_encode1 c = [240 + x, 128 + y, 128 + z, 128 + w]" "x < 5"
      using 4 e d c by (simp_all add: utf8_encode1_def)
    moreover have "x = 0 \<Longrightarrow> 16 \<le> y" using 4 d by linarith
    moreover have "x = 4 \<Longrightarrow> y < 16" using c d by linarith
    ultimately show ?thesis using d
      by (simp add: continuation_def mult.commute add.commute add.left_commute)
  qed
qed

lemma utf8_decode_encode: "list_all scalar cs \<Longrightarrow> utf8_decode (utf8_encode cs) = Some cs"
  by (induction cs) (simp_all add: utf8_encode_def utf8_decode_encode1)

lemma utf8_encode_Cons [simp]: "utf8_encode (c # cs) = utf8_encode1 c @ utf8_encode cs"
  by (simp add: utf8_encode_def)

lemma encode1_two: "2 \<le> z \<Longrightarrow> z < 32 \<Longrightarrow> w < 64 \<Longrightarrow> c = z * 64 + w \<Longrightarrow>
    utf8_encode1 c = [192 + z, 128 + w] \<and> scalar c"
  by (simp add: utf8_encode1_def scalar_def)

lemma digit_64: "w < 64 \<Longrightarrow> (n * 64 + w) div 64 = n \<and> (n * 64 + w) mod 64 = (w::nat)"
  by simp

lemma encode1_three:
  assumes "y < 16" "z < 64" "w < 64" "c = y * 4096 + z * 64 + w" "y = 0 \<longrightarrow> 32 \<le> z" "y = 13 \<longrightarrow> z < 32"
  shows "utf8_encode1 c = [224 + y, 128 + z, 128 + w] \<and> scalar c"
proof -
  have c: "c = (y * 64 + z) * 64 + w" using assms(4) by simp
  have "c div 64 = y * 64 + z" "c mod 64 = w" unfolding c using digit_64 [OF assms(3)] by blast+
  moreover from this have "c div 4096 = y" using assms(2) by (simp add: div_mult2_eq [of c 64 64, simplified])
  moreover have "2048 \<le> c" using assms by (cases "y = 0") simp_all
  moreover have "\<not> (55296 \<le> c \<and> c < 57344)"
  proof
    assume "55296 \<le> c \<and> c < 57344"
    then have "y = 13" using assms(2-4) by linarith
    with \<open>55296 \<le> c \<and> c < 57344\<close> assms show False by simp
  qed
  moreover have "c < 65536" using assms(1-4) by linarith
  ultimately show ?thesis using assms(2) by (simp add: utf8_encode1_def scalar_def)
qed

lemma encode1_four:
  assumes "x < 5" "y < 64" "z < 64" "w < 64" "c = x * 262144 + y * 4096 + z * 64 + w"
    "x = 0 \<longrightarrow> 16 \<le> y" "x = 4 \<longrightarrow> y < 16"
  shows "utf8_encode1 c = [240 + x, 128 + y, 128 + z, 128 + w] \<and> scalar c"
proof -
  have c: "c = ((x * 64 + y) * 64 + z) * 64 + w" using assms(5) by simp
  have 1: "c div 64 = (x * 64 + y) * 64 + z" "c mod 64 = w"
    unfolding c using digit_64 [OF assms(4)] by blast+
  have 2: "c div 4096 = x * 64 + y" "c div 64 mod 64 = z"
    unfolding div_mult2_eq [of c 64 64, simplified] 1 using digit_64 [OF assms(3)] by blast+
  have "c div 262144 = x" "c div 4096 mod 64 = y"
    unfolding div_mult2_eq [of c 4096 64, simplified] 2 using digit_64 [OF assms(2)] by blast+
  moreover have "65536 \<le> c" using assms by (cases "x = 0") simp_all
  moreover have "c < 1114112"
  proof (cases "x = 4")
    case True
    then show ?thesis using assms by simp
  next
    case False
    then have "x \<le> 3" using assms(1) by simp
    then show ?thesis using assms(2-5) by linarith
  qed
  ultimately show ?thesis using 1 2 by (simp add: utf8_encode1_def scalar_def)
qed

lemma utf8_decode_sound:
  "utf8_decode bs = Some cs \<Longrightarrow> bs = utf8_encode cs \<and> list_all scalar cs"
proof (induction bs arbitrary: cs rule: utf8_decode.induct)
  case 1
  then show ?case by (simp add: utf8_encode_def)
next
  case (2 a bs)
  consider "a < 128" | "194 \<le> a" "a < 224" | "224 \<le> a" "a < 240" | "240 \<le> a" "a < 245"
    using 2(5) by (auto split: if_splits)
  then show ?case
  proof cases
    case 1
    then obtain ds where "cs = a # ds" "utf8_decode bs = Some ds" using 2(5) by auto
    with 2(1) [OF 1] 1 show ?thesis by (simp add: utf8_encode1_def scalar_def)
  next
    case case_two: 2
    then obtain b es ds where b: "bs = b # es" "continuation b" "utf8_decode es = Some ds"
      "cs = ((a - 192) * 64 + (b - 128)) # ds"
      using 2(5) by (auto split: list.splits if_splits)
    then show ?thesis
      using 2(2) [of b es] case_two encode1_two [of "a - 192" "b - 128" "(a - 192) * 64 + (b - 128)"]
      by (auto simp: continuation_def)
  next
    case case_three: 3
    then obtain b c es ds where b: "bs = b # c # es" "continuation b" "continuation c"
      "utf8_decode es = Some ds" "a = 224 \<longrightarrow> 160 \<le> b" "a = 237 \<longrightarrow> b < 160"
      "cs = ((a - 224) * 4096 + (b - 128) * 64 + (c - 128)) # ds"
      using 2(5) by (auto split: list.splits if_splits)
    obtain y z w where s: "a = 224 + y" "b = 128 + z" "c = 128 + w"
      using case_three b(2,3) by (auto simp: continuation_def le_iff_add)
    have "es = utf8_encode ds \<and> list_all scalar ds" using 2(3) [of b "c # es" c es] case_three b by auto
    then show ?thesis
      using encode1_three [OF _ _ _ refl, of y z w] case_three b unfolding s
      by (simp add: continuation_def)
  next
    case case_four: 4
    then obtain b c d es ds where b: "bs = b # c # d # es" "continuation b" "continuation c"
      "continuation d" "utf8_decode es = Some ds" "a = 240 \<longrightarrow> 144 \<le> b" "a = 244 \<longrightarrow> b < 144"
      "cs = ((a - 240) * 262144 + (b - 128) * 4096 + (c - 128) * 64 + (d - 128)) # ds"
      using 2(5) by (auto split: list.splits if_splits)
    obtain x y z w where s: "a = 240 + x" "b = 128 + y" "c = 128 + z" "d = 128 + w"
      using case_four b(2-4) by (auto simp: continuation_def le_iff_add)
    have "es = utf8_encode ds \<and> list_all scalar ds"
      using 2(4) [of b "c # d # es" c "d # es" d es] case_four b by auto
    then show ?thesis
      using encode1_four [OF _ _ _ _ refl, of x y z w] case_four b unfolding s
      by (simp add: continuation_def)
  qed
qed

lemma utf8_decode_iff:
  "utf8_decode bs = Some cs \<longleftrightarrow> bs = utf8_encode cs \<and> list_all scalar cs"
  using utf8_decode_sound utf8_decode_encode by blast

lemma js_trim_Nil_iff: "js_trim s = [] \<longleftrightarrow> list_all js_space s"
proof -
  have "dropWhile js_space (rev (dropWhile js_space s)) = [] \<longleftrightarrow> list_all js_space s"
    by (auto simp: dropWhile_eq_Nil_conv list_all_iff dest: set_dropWhileD)
       (metis dropWhile_eq_Nil_conv hd_dropWhile hd_in_set)
  then show ?thesis by (simp add: js_trim_def)
qed

text \<open>
  An accepted CSV is text: \<open>validateCsv\<close> accepts a buffer exactly when, after an optional
  byte order mark, it is the UTF-8 encoding of Unicode scalar values, at least one of them not
  white space and none of them a control character other than tab and line breaks. No
  overlong form, surrogate or truncated sequence passes.
\<close>

theorem validateCsv_iff:
  "validateCsv buffer = Inr u \<longleftrightarrow>
     (\<exists>cs. (if starts_with [239, 187, 191] buffer then drop 3 buffer else buffer) = utf8_encode cs
        \<and> list_all scalar cs \<and> \<not> list_all js_space cs \<and> \<not> list_ex invalid_control cs)"
  unfolding validateCsv_def decode_text_def
  by (auto simp: js_trim_Nil_iff utf8_decode_iff split: option.splits)
     (metis option.distinct(1) option.inject utf8_decode_iff)+

section \<open>ZIP directory\<close>

text \<open>
  The contract of the directory loop: records tile the buffer from \<open>start\<close> to \<open>stop\<close>, each
  carrying its signature, its name and its three lengths, none reaching past \<open>limit\<close>.
\<close>

definition field16 :: "bytes \<Rightarrow> nat \<Rightarrow> nat" where
  "field16 buffer i = buffer ! i + 256 * buffer ! (i + 1)"

inductive tiles :: "bytes \<Rightarrow> nat \<Rightarrow> nat \<Rightarrow> nat \<Rightarrow> bytes list \<Rightarrow> bool" for buffer limit where
  tiles_end: "tiles buffer limit stop stop []"
| tiles_record:
    "readUInt32LE buffer off = Inr 0x02014b50 \<Longrightarrow>
     next = off + 46 + field16 buffer (off + 28) + field16 buffer (off + 30)
              + field16 buffer (off + 32) \<Longrightarrow>
     next \<le> limit \<Longrightarrow> tiles buffer limit next stop names \<Longrightarrow>
     tiles buffer limit off stop
       (slice buffer (off + 46) (off + 46 + field16 buffer (off + 28)) # names)"

inductive_cases tiles_NilE: "tiles buffer limit start stop []"
inductive_cases tiles_ConsE: "tiles buffer limit start stop (n # names)"

lemma find_map_shift: "find p (map f xs) = map_option f (find (p \<circ> f) xs)"
  by (induction xs) auto
lemma lastIndexOf_append:
  assumes "lastIndexOf e pat = Some i"
  shows "lastIndexOf (a @ e) pat = Some (length a + i)"
proof -
  have "[0..<Suc (length (a @ e))] = [0..<length a] @ map (\<lambda>k. k + length a) [0..<Suc (length e)]"
    using upt_add_eq_append [of 0 "length a" "Suc (length e)"] map_add_upt [of "length a" "Suc (length e)"]
    by (simp add: add.commute del: upt_Suc)
  then show ?thesis
    using assms by (simp add: lastIndexOf_def find_append find_map_shift comp_def rev_map add.commute del: upt_Suc)
qed
lemma readUInt16LE_in_range: "i + 2 \<le> length b \<Longrightarrow> readUInt16LE b i = Inr (field16 b i)"
  by (simp add: readUInt16LE_def field16_def)

lemma readUInt32LE_in_range: "i + 4 \<le> length b \<Longrightarrow> \<exists>v. readUInt32LE b i = Inr v"
  by (simp add: readUInt32LE_def)

lemma read_entries_Inl:
  "read_entries b e n off names = Inl d \<Longrightarrow> e \<le> length b \<Longrightarrow> d = invalid_xlsx"
proof (induction n arbitrary: off names)
  case (Suc n)
  show ?case
  proof (cases "off + 46 > e")
    case False
    then obtain v where "readUInt32LE b off = Inr v"
      using readUInt32LE_in_range [of off b] Suc.prems(2) by auto
    then show ?thesis using Suc False
      by (auto simp: readUInt16LE_in_range Let_def split: if_splits)
  qed (use Suc.prems in simp)
qed simp

lemma read_entries_tiles:
  "read_entries b e n off names = Inr (stop, ns) \<Longrightarrow> e \<le> length b \<Longrightarrow>
     \<exists>ms. tiles b e off stop ms \<and> ns = rev ms @ names \<and> length ms = n"
proof (induction n arbitrary: off names)
  case 0
  then show ?case by (auto intro: tiles_end)
next
  case (Suc n)
  have r: "off + 46 \<le> e" "readUInt32LE b off = Inr 0x02014b50"
    using Suc.prems(1) by (auto simp: action_simps split: if_splits)
  define nxt where "nxt = off + 46 + field16 b (off + 28) + field16 b (off + 30) + field16 b (off + 32)"
  have s: "nxt \<le> e" "read_entries b e n nxt
      (slice b (off + 46) (off + 46 + field16 b (off + 28)) # names) = Inr (stop, ns)"
    using Suc.prems r by (auto simp: readUInt16LE_in_range nxt_def Let_def split: if_splits)
  from Suc.IH [OF s(2) Suc.prems(2)] obtain ms where
    "tiles b e nxt stop ms" "length ms = n"
    "ns = rev ms @ slice b (off + 46) (off + 46 + field16 b (off + 28)) # names" by auto
  then show ?case using tiles_record [OF r(2) nxt_def s(1)]
    by (intro exI [of _ "slice b (off + 46) (off + 46 + field16 b (off + 28)) # ms"]) simp
qed

lemma tiles_bounds: "tiles b e start stop names \<Longrightarrow> start \<le> stop \<and> (names \<noteq> [] \<longrightarrow> stop \<le> e)"
proof (induction rule: tiles.induct)
  case (tiles_record off nxt stop names)
  then show ?case by (cases "names = []") (auto elim: tiles_NilE)
qed simp

text \<open>
  An accepted XLSX has a well-formed central directory: its records tile exactly the
  region the end record announces, the region ends before that record, the record lies in the
  buffer, and the directory names both parts a workbook needs.
\<close>

theorem validateXlsx_directory:
  assumes "validateXlsx buffer = Inr u"
  shows "\<exists>eocd start stop names.
    starts_with [0x50, 0x4b, 0x05, 0x06] (drop eocd buffer) \<and> eocd + 22 \<le> length buffer
    \<and> tiles buffer eocd start stop names \<and> start \<le> stop \<and> stop \<le> eocd
    \<and> readUInt32LE buffer (eocd + 16) = Inr start
    \<and> readUInt32LE buffer (eocd + 12) = Inr (stop - start)
    \<and> length names = field16 buffer (eocd + 10)
    \<and> content_types \<in> set names \<and> workbook_part \<in> set names"
proof -
  from assms obtain eocd where e: "lastIndexOf buffer [0x50, 0x4b, 0x05, 0x06] = Some eocd"
    "eocd + 22 \<le> length buffer"
    by (auto simp: validateXlsx_def Let_def split: if_splits option.splits)
  from assms e obtain n size start stop names where
    r: "readUInt16LE buffer (eocd + 10) = Inr n" "readUInt32LE buffer (eocd + 12) = Inr size"
      "readUInt32LE buffer (eocd + 16) = Inr start"
    and b: "start + size \<le> eocd"
    and l: "read_entries buffer eocd n start [] = Inr (stop, names)" "stop = start + size"
    and m: "content_types \<in> set names" "workbook_part \<in> set names"
    by (auto simp: validateXlsx_def Let_def action_simps split: if_splits)
  have "starts_with [0x50, 0x4b, 0x05, 0x06] (drop eocd buffer)"
    using find_SomeD [OF e(1) [unfolded lastIndexOf_def]] by blast
  moreover obtain ms where ms: "tiles buffer eocd start stop ms" "names = rev ms" "length ms = n"
    using read_entries_tiles [OF l(1)] e(2) by auto
  moreover have "n = field16 buffer (eocd + 10)"
    using r(1) e(2) by (simp add: readUInt16LE_in_range)
  ultimately have "starts_with [0x50, 0x4b, 0x05, 0x06] (drop eocd buffer) \<and> eocd + 22 \<le> length buffer
    \<and> tiles buffer eocd start stop ms \<and> start \<le> stop \<and> stop \<le> eocd
    \<and> readUInt32LE buffer (eocd + 16) = Inr start
    \<and> readUInt32LE buffer (eocd + 12) = Inr (stop - start)
    \<and> length ms = field16 buffer (eocd + 10)
    \<and> content_types \<in> set ms \<and> workbook_part \<in> set ms"
    using e(2) r b l(2) m by simp
  then show ?thesis by blast
qed

text \<open>A small archive with the two required entries: directory records, then the end record.\<close>

definition example_central :: bytes where
  "example_central =
  [80, 75, 3, 4, 80, 75, 1, 2, 0, 0, 0, 0, 0, 0, 0, 0, 0, 0, 0, 0, 0, 0, 0, 0, 0, 0, 0, 0, 0, 0,
   0, 0, 19, 0, 0, 0, 0, 0, 0, 0, 0, 0, 0, 0, 0, 0, 0, 0, 0, 0, 91, 67, 111, 110, 116, 101, 110,
   116, 95, 84, 121, 112, 101, 115, 93, 46, 120, 109, 108, 80, 75, 1, 2, 0, 0, 0, 0, 0, 0, 0, 0,
   0, 0, 0, 0, 0, 0, 0, 0, 0, 0, 0, 0, 0, 0, 0, 0, 15, 0, 0, 0, 0, 0, 0, 0, 0, 0, 0, 0, 0, 0, 0,
   0, 0, 0, 120, 108, 47, 119, 111, 114, 107, 98, 111, 111, 107, 46, 120, 109, 108]"
definition example_end :: bytes where
  "example_end = [80, 75, 5, 6, 0, 0, 0, 0, 0, 0, 2, 0, 126, 0, 0, 0, 4, 0, 0, 0, 0, 0]"
lemma example_accepted: "validateXlsx (example_central @ example_end) = Inr ()"
proof -
  have e: "lastIndexOf example_end [80, 75, 5, 6] = Some 0" by code_simp
  have l: "length example_central = 130" by (simp add: example_central_def)
  show ?thesis
    by (simp add: validateXlsx_def lastIndexOf_append [OF e] l)
       (simp add: example_central_def example_end_def starts_with_def readUInt16LE_def
          readUInt32LE_def,
        simp add: numeral_2_eq_2 readUInt16LE_def readUInt32LE_def Let_def slice_def
          content_types_def workbook_part_def units_def)
qed

theorem validateXlsx_directory_witness:
  "\<exists>eocd start stop names. tiles (example_central @ example_end) eocd start stop names
     \<and> content_types \<in> set names"
  using validateXlsx_directory [OF example_accepted] by blast

text \<open>
  C37. Validation never reads outside the uploaded buffer and never fails in another way than
  refusing: every exception of \<open>validateCompanyFile\<close> is a bad request or, for a file over the
  limit, a payload that is too large.
\<close>

theorem validateCompanyFile_errors:
  assumes "validateCompanyFile nfc file maxSize = Inl e"
  shows "(\<exists>m. e = http BadRequest m) \<or> (\<exists>m. e = http PayloadTooLarge m)"
proof -
  have x: "validateXlsx b = Inl d \<Longrightarrow> d = invalid_xlsx" for b d
    by (auto simp: validateXlsx_def Let_def action_simps readUInt16LE_in_range readUInt32LE_def
        dest: read_entries_Inl split: if_splits option.splits)
  have "validate_content t b = Inl d \<Longrightarrow> \<exists>m. d = http BadRequest m" for t b d
  proof (cases t)
    case XLSX
    then show "validate_content t b = Inl d \<Longrightarrow> \<exists>m. d = http BadRequest m"
      by (auto dest!: x simp: invalid_xlsx_def)
  qed (auto simp: validateCsv_def validateXls_def Let_def action_simps readUInt16LE_in_range
      split: if_splits option.splits)
  then show ?thesis using assms
    by (fastforce simp: validateCompanyFile_def Let_def action_simps safeFilename_def
        split: option.splits if_splits)
qed

theorem validateCompanyFile_errors_witness:
  "validateCompanyFile id None 100 = Inl (http BadRequest ''A non-empty file is required'')
   \<and> (\<exists>m. http BadRequest ''A non-empty file is required'' = http BadRequest m)"
proof -
  have e: "validateCompanyFile id None 100 = Inl (http BadRequest ''A non-empty file is required'')"
    by (simp add: validateCompanyFile_def Let_def)
  show ?thesis using validateCompanyFile_errors [OF e] e by auto
qed

section \<open>Accepted files\<close>

lemma last_segment_no_slash: "47 \<notin> set acc \<Longrightarrow> 47 \<notin> set (last_segment acc cs)"
  by (induction cs arbitrary: acc) auto

lemma last_segment_set: "x \<in> set (last_segment acc cs) \<Longrightarrow> x \<in> set acc \<or> x \<in> set cs"
  by (induction cs arbitrary: acc) (fastforce split: if_splits)+

lemma js_trim_set: "set (js_trim s) \<subseteq> set s"
  by (metis js_trim_def set_dropWhileD set_rev subsetI)

lemma js_trim_last: "js_trim s \<noteq> [] \<Longrightarrow> \<not> js_space (last (js_trim s))"
  unfolding js_trim_def by (simp add: last_rev hd_dropWhile)

lemma js_trim_hd: "js_trim s \<noteq> [] \<Longrightarrow> \<not> js_space (hd (js_trim s))"
proof -
  define d where "d = dropWhile js_space s"
  assume n: "js_trim s \<noteq> []"
  then have "d \<noteq> []" unfolding js_trim_def d_def [symmetric] by auto
  then have h: "\<not> js_space (hd d)" by (simp add: d_def hd_dropWhile)
  obtain p where "rev d = p @ dropWhile js_space (rev d)" by (metis takeWhile_dropWhile_id)
  then have "d = js_trim s @ rev p" by (metis js_trim_def d_def rev_append rev_rev_ident)
  with n h show ?thesis by (metis hd_append2)
qed

lemma safeFilename_Inr:
  assumes "safeFilename nfc input = Inr name"
  shows "name \<noteq> []" "\<forall>c \<in> set name. 32 \<le> c \<and> c \<noteq> 127 \<and> c \<noteq> 47 \<and> c \<noteq> 92"
    "name \<noteq> units ''.''" "name \<noteq> units ''..''" "utf8_byteLength name \<le> 255"
    "\<not> js_space (hd name)" "\<not> js_space (last name)"
proof -
  let ?l = "last_segment [] (map (\<lambda>c. if c = 92 then 47 else c) (nfc input))"
  from assms have n: "name = js_trim (filter (\<lambda>c. c \<ge> 32 \<and> c \<noteq> 127) ?l)"
    and ne: "name \<noteq> []" and r: "name \<noteq> units ''.''" "name \<noteq> units ''..''" "utf8_byteLength name \<le> 255"
    by (auto simp: safeFilename_def Let_def split: if_splits)
  have "set name \<subseteq> set (filter (\<lambda>c. c \<ge> 32 \<and> c \<noteq> 127) ?l)" unfolding n by (rule js_trim_set)
  moreover have "47 \<notin> set ?l" by (rule last_segment_no_slash) simp
  moreover have "92 \<notin> set ?l" by (auto dest!: last_segment_set)
  ultimately show "\<forall>c \<in> set name. 32 \<le> c \<and> c \<noteq> 127 \<and> c \<noteq> 47 \<and> c \<noteq> 92" by auto
  show "name \<noteq> []" "name \<noteq> units ''.''" "name \<noteq> units ''..''" "utf8_byteLength name \<le> 255"
    using ne r by auto
  show "\<not> js_space (hd name)" "\<not> js_space (last name)"
    using ne js_trim_hd js_trim_last unfolding n by blast+
qed

text \<open>
  An accepted file has a safe name and its declared type: the name is not empty and not a
  path (no slash or backslash, not \<open>.\<close> or \<open>..\<close>), has no control characters, no white space at
  its ends and at most 255 bytes; the type is that of its extension and the stored MIME type
  is the type's canonical one; the size is the buffer's, within the limit; and the content
  passed the check of its format.
\<close>

theorem validateCompanyFile_accepted:
  assumes "validateCompanyFile nfc (Some f) maxSize = Inr v"
  shows "vf_originalFilename v \<noteq> []
    \<and> list_all (\<lambda>c. 32 \<le> c \<and> c \<noteq> 127 \<and> c \<noteq> 47 \<and> c \<noteq> 92) (vf_originalFilename v)
    \<and> vf_originalFilename v \<noteq> units ''.'' \<and> vf_originalFilename v \<noteq> units ''..''
    \<and> \<not> js_space (hd (vf_originalFilename v)) \<and> \<not> js_space (last (vf_originalFilename v))
    \<and> utf8_byteLength (vf_originalFilename v) \<le> 255
    \<and> file_type_of (map lower (extension_of (vf_originalFilename v))) = Some (vf_fileType v)
    \<and> vf_mimeType v = CANONICAL_MIME_TYPES (vf_fileType v)
    \<and> up_buffer f = Some (vf_buffer v) \<and> vf_size v = int (length (vf_buffer v))
    \<and> 1 \<le> vf_size v \<and> vf_size v \<le> maxSize
    \<and> validate_content (vf_fileType v) (vf_buffer v) = Inr ()"
proof -
  from assms obtain b where s: "safeFilename nfc (up_originalname f) = Inr (vf_originalFilename v)"
    and r: "file_type_of (map lower (extension_of (vf_originalFilename v))) = Some (vf_fileType v)"
      "vf_mimeType v = CANONICAL_MIME_TYPES (vf_fileType v)"
      "up_buffer f = Some (vf_buffer v)" "vf_size v = int (length (vf_buffer v))"
      "1 \<le> vf_size v" "vf_size v \<le> maxSize" "validate_content (vf_fileType v) (vf_buffer v) = Inr ()"
    by (auto simp: validateCompanyFile_def Let_def action_simps split: option.splits if_splits)
  show ?thesis using safeFilename_Inr [OF s] r by (auto simp: list_all_iff)
qed

theorem validateCompanyFile_accepted_witness:
  "\<exists>v. validateCompanyFile id (Some \<lparr>up_originalname = units ''C:/tmp/a.CSV '',
      up_mimetype = units ''text/csv'', up_size = 3, up_buffer = Some [97, 44, 98]\<rparr>) 100 = Inr v
    \<and> vf_fileType v = CSV \<and> vf_size v = 3"
proof -
  let ?r = "validateCompanyFile id (Some \<lparr>up_originalname = units ''C:/tmp/a.CSV '',
      up_mimetype = units ''text/csv'', up_size = 3, up_buffer = Some [97, 44, 98]\<rparr>) 100"
  have "\<not> isl ?r" by code_simp
  then have e: "?r = Inr (projr ?r)" by simp
  have t: "vf_fileType (projr ?r) = CSV" by code_simp
  show ?thesis using validateCompanyFile_accepted [OF e] e t by auto
qed

section \<open>The download header is one header\<close>

text \<open>The reader of the extended parameter (RFC 5987).\<close>

definition hex_val :: "nat \<Rightarrow> nat" where
  "hex_val c = (if c < 58 then c - 48 else c - 55)"

fun percent_decode :: "js_string \<Rightarrow> bytes" where
  "percent_decode [] = []"
| "percent_decode (c # cs) =
     (if c = 37 then
        (case cs of h # l # r \<Rightarrow> (16 * hex_val h + hex_val l) # percent_decode r | _ \<Rightarrow> [])
      else c # percent_decode cs)"

lemma percent_decode_encode:
  "list_all (\<lambda>b. b < 256) bs \<Longrightarrow> percent_decode (concat (map percent_encode1 bs)) = bs"
proof (induction bs)
  case (Cons b bs)
  have "hex_val (upper_hex n) = n" if "n < 16" for n
    using that by (simp add: hex_val_def upper_hex_def)
  moreover have "unreserved b \<Longrightarrow> b \<noteq> 37" by (auto simp: unreserved_def units_def)
  moreover have "b div 16 < 16" using Cons.prems by (simp add: less_mult_imp_div_less)
  ultimately show ?case using Cons by (simp add: percent_encode1_def)
qed simp

lemma utf8_encode_bytes: "list_all scalar cs \<Longrightarrow> list_all (\<lambda>b. b < 256) (utf8_encode cs)"
proof (induction cs)
  case (Cons c cs)
  obtain x y z w where d: "c = 262144 * x + 4096 * y + 64 * z + w" "y < 64" "z < 64" "w < 64"
    and e: "c div 262144 = x" "c div 4096 mod 64 = y" "c div 64 mod 64 = z" "c mod 64 = w"
    "c div 64 = 4096 * x + 64 * y + z" "c div 4096 = 64 * x + y"
    by (rule digits_64)
  have "c < 1114112" using Cons.prems by (simp add: scalar_def)
  then have "list_all (\<lambda>b. b < 256) (utf8_encode1 c)"
    using d unfolding utf8_encode1_def e by (auto simp: e)
  with Cons show ?case by simp
qed (simp add: utf8_encode_def)

lemma code_points_scalar:
  "code_points s = Some cs \<Longrightarrow> list_all (\<lambda>c. c < 65536) s \<Longrightarrow> list_all scalar cs"
proof (induction s arbitrary: cs rule: code_points.induct)
  case (2 c cs')
  then show ?case
    by (cases "55296 \<le> c \<and> c < 56320")
      (auto simp: scalar_def split: list.splits if_splits)
qed simp

lemma percent_encode1_plain: "b < 256 \<Longrightarrow> x \<in> set (percent_encode1 b) \<Longrightarrow> 33 \<le> x \<and> x \<le> 126 \<and> x \<noteq> 34 \<and> x \<noteq> 92"
proof -
  assume b: "b < 256" and x: "x \<in> set (percent_encode1 b)"
  have "b div 16 < 16" "b mod 16 < 16" using b by (simp_all add: less_mult_imp_div_less)
  then have h: "33 \<le> upper_hex k \<and> upper_hex k \<le> 126 \<and> upper_hex k \<noteq> 34 \<and> upper_hex k \<noteq> 92"
    if "k = b div 16 \<or> k = b mod 16" for k
    using that by (auto simp: upper_hex_def)
  have u: "unreserved b \<Longrightarrow> 33 \<le> b \<and> b \<le> 126 \<and> b \<noteq> 34 \<and> b \<noteq> 92"
    by (auto simp: unreserved_def units_def)
  show ?thesis
    using x u h [of "b div 16"] h [of "b mod 16"]
    by (cases "unreserved b") (auto simp: percent_encode1_def)
qed

text \<open>
  The download header cannot be broken out of, and it carries the name: every character
  is printable ASCII, so there is no line break; the only quotes are the two that delimit the
  fallback and there is no backslash; and the extended parameter, percent-decoded and read as
  UTF-8, is exactly the file name.
\<close>

theorem contentDisposition_safe:
  assumes "contentDisposition name = Some h" "list_all (\<lambda>c. c < 65536) name"
  shows "list_all (\<lambda>c. 32 \<le> c \<and> c \<le> 126 \<and> c \<noteq> 92) h \<and> count_list h 34 = 2
    \<and> (\<exists>prefix v. h = prefix @ [39, 39] @ v \<and> utf8_decode (percent_decode v) = code_points name)"
proof -
  obtain cps where c: "code_points name = Some cps"
    and h: "h = units ''attachment; filename='' @ [34] @ fallback_name name @ [34]
         @ units ''; filename*=UTF-8'' @ [39, 39] @ concat (map percent_encode1 (utf8_encode cps))"
    using assms(1) by (auto simp: contentDisposition_def)
  have s: "list_all scalar cps" by (rule code_points_scalar [OF c assms(2)])
  note bytes = utf8_encode_bytes [OF s]
  have v: "\<forall>x \<in> set (concat (map percent_encode1 (utf8_encode cps))).
      33 \<le> x \<and> x \<le> 126 \<and> x \<noteq> 34 \<and> x \<noteq> 92"
    using bytes percent_encode1_plain by (fastforce simp: list_all_iff)
  have f: "\<forall>x \<in> set (fallback_name name). 32 \<le> x \<and> x \<le> 126 \<and> x \<noteq> 34 \<and> x \<noteq> 92"
    by (auto simp: fallback_name_def)
  have a: "list_all (\<lambda>c. 32 \<le> c \<and> c \<le> 126 \<and> c \<noteq> 92) h"
    unfolding h list_all_append
  proof (intro conjI)
    show "list_all (\<lambda>c. 32 \<le> c \<and> c \<le> 126 \<and> c \<noteq> 92)
        (concat (map percent_encode1 (utf8_encode cps)))"
      using v unfolding list_all_iff by fastforce
  qed (use f in \<open>simp_all add: list_all_iff units_def\<close>)
  have n: "count_list (fallback_name name) 34 = 0"
    "count_list (concat (map percent_encode1 (utf8_encode cps))) 34 = 0"
    using f v by (auto simp: count_list_0_iff)
  have "count_list h 34 = 2" unfolding h count_list_append n by (simp add: units_def)
  moreover have "utf8_decode (percent_decode (concat (map percent_encode1 (utf8_encode cps))))
      = code_points name"
    using percent_decode_encode [OF bytes] utf8_decode_encode [OF s] c by simp
  moreover have "h = (units ''attachment; filename='' @ [34] @ fallback_name name @ [34]
         @ units ''; filename*=UTF-8'') @ [39, 39] @ concat (map percent_encode1 (utf8_encode cps))"
    unfolding h by simp
  ultimately show ?thesis using a by blast
qed

theorem contentDisposition_safe_witness:
  "\<exists>h. contentDisposition (units ''a(1).csv'') = Some h \<and> count_list h 34 = 2"
proof -
  have e: "contentDisposition (units ''a(1).csv'') =
      Some (the (contentDisposition (units ''a(1).csv'')))" by code_simp
  have "list_all (\<lambda>c. c < 65536) (units ''a(1).csv'')" by (simp add: units_def)
  then show ?thesis using contentDisposition_safe [OF e] e by blast
qed

end
