(* ===== verification/Files.thy ===== *)
theory Files
  imports Entitlements Storage FileValidation "HOL-Library.Product_Lexorder"
begin

text \<open>
  The company files (\<open>files/files.service.ts\<close>, \<open>files/entities/company-file.entity.ts\<close>):
  upload, listing, download, deletion, sharing, and the hooks the data guard uses. Objects are
  in the storage, metadata in the \<open>files\<close> collection. The outcome of storage requests and of
  commits, the clock and new identifiers are parameters. \<open>updatedAt\<close> is left out.
\<close>

section \<open>Access\<close>

text \<open>The query \<open>accessFilter\<close> as a predicate on documents.\<close>

definition accessFilter :: "actor \<Rightarrow> company_file \<Rightarrow> bool" where
  "accessFilter actor f \<longleftrightarrow>
     (if a_role actor = COMPANY_OWNER then f_companyId f = a_companyId actor
      else f_companyId f = a_companyId actor \<and>
        (f_visibility f = Some COMPANY_WIDE \<or> f_visibility f = None
         \<or> f_uploaderId f = a_id actor \<or> a_id actor \<in> set (f_restrictedUserIds f)))"

definition file_not_found :: error where
  "file_not_found = http NotFound ''File not found''"

definition bump_fence :: "company_file \<Rightarrow> company_file" where
  "bump_fence f = f\<lparr>f_guardScanFence := f_guardScanFence f + 1\<rparr>"

text \<open>A find, or inside a session a find-and-update that bumps the fence.\<close>

definition find_fenced :: "bool \<Rightarrow> (company_file \<Rightarrow> bool) \<Rightarrow> company_file option handler" where
  "find_fenced session query =
     andthen (gets (\<lambda>w. find query (files w))) (\<lambda>f.
     if session
     then andthen (modify (\<lambda>w. w\<lparr>files := updateOne query bump_fence (files w)\<rparr>))
            (\<lambda>_. return (map_option bump_fence f))
     else return f)"

definition assertLineage :: "actor \<Rightarrow> company_file \<Rightarrow> bool \<Rightarrow> unit handler" where
  "assertLineage actor file session =
     (case f_derivation file of
        None \<Rightarrow> return ()
      | Some d \<Rightarrow>
          andthen (find_fenced session (\<lambda>f. f_id f = d_sourceFileId d \<and> accessFilter actor f
                     \<and> f_derivation f = None)) (\<lambda>source.
          if source = None then throw file_not_found else return ()))"

definition findStoredFile :: "actor \<Rightarrow> oid \<Rightarrow> bool \<Rightarrow> company_file handler" where
  "findStoredFile actor fileId lineage =
     andthen (gets (\<lambda>w. find (\<lambda>f. f_id f = fileId \<and> accessFilter actor f) (files w))) (\<lambda>r.
     case r of
       None \<Rightarrow> throw file_not_found
     | Some file \<Rightarrow>
         andthen (if lineage then assertLineage actor file False else return ()) (\<lambda>_.
         return file))"

record public_file =
  pf_id :: oid
  pf_derivation :: "derivation option"
  pf_uploaderId :: oid
  pf_originalFilename :: js_string
  pf_fileType :: file_type
  pf_mimeType :: string
  pf_size :: int
  pf_visibility :: file_visibility
  pf_restrictedUserIds :: "oid list"
  pf_createdAt :: date

definition publicMetadata :: "company_file \<Rightarrow> public_file" where
  "publicMetadata f =
     \<lparr>pf_id = f_id f, pf_derivation = f_derivation f, pf_uploaderId = f_uploaderId f,
      pf_originalFilename = f_originalFilename f, pf_fileType = f_fileType f,
      pf_mimeType = f_mimeType f, pf_size = f_size f,
      pf_visibility = option_default COMPANY_WIDE (f_visibility f),
      pf_restrictedUserIds = f_restrictedUserIds f, pf_createdAt = f_createdAt f\<rparr>"

section \<open>Sharing\<close>

record permissions =
  pm_visibility :: file_visibility
  pm_restrictedUserIds :: "oid list"

text \<open>A visibility outside the enumeration is \<open>None\<close>.\<close>

definition validatePermissions ::
  "actor \<Rightarrow> file_visibility option \<Rightarrow> id_text list option \<Rightarrow> permissions handler" where
  "validatePermissions actor visibility suppliedUserIds =
     (let supplied = option_default [] suppliedUserIds; restrictedUserIds = remdups supplied in
      case visibility of
        None \<Rightarrow> throw (http BadRequest ''File visibility is invalid'')
      | Some v \<Rightarrow>
      if length restrictedUserIds \<noteq> length supplied
      then throw (http BadRequest ''Restricted employees must be unique'')
      else if v = COMPANY_WIDE \<and> length restrictedUserIds > 0
      then throw (http BadRequest ''Company-wide files cannot have restricted employees'')
      else if v = RESTRICTED \<and> length restrictedUserIds = 0
      then throw (http BadRequest ''Restricted files require at least one employee'')
      else if list_ex (\<lambda>i. \<not> is_valid_id i) restrictedUserIds
      then throw (http BadRequest ''Restricted employees are invalid'')
      else
      let ids = map id_value restrictedUserIds in
      andthen (gets (\<lambda>w. countDocuments (\<lambda>u. u_id u \<in> set ids \<and> u_companyId u = a_companyId actor
                 \<and> u_role u = COMPANY_MEMBER) (users w))) (\<lambda>matchingEmployees.
      if length restrictedUserIds > 0 \<and> matchingEmployees \<noteq> int (length restrictedUserIds)
      then throw (http BadRequest ''Restricted employees must be active members of the company'')
      else return \<lparr>pm_visibility = v, pm_restrictedUserIds = ids\<rparr>))"

text \<open>The schema's validation hook, and the insertion of a document under it.\<close>

definition valid_sharing :: "company_file \<Rightarrow> bool" where
  "valid_sharing f \<longleftrightarrow>
     \<not> (f_visibility f = Some COMPANY_WIDE \<and> length (f_restrictedUserIds f) > 0) \<and>
     \<not> (f_visibility f = Some RESTRICTED \<and> length (f_restrictedUserIds f) = 0) \<and>
     card (set (f_restrictedUserIds f)) = length (f_restrictedUserIds f)"

definition create_file :: "company_file \<Rightarrow> company_file handler" where
  "create_file f =
     (if \<not> valid_sharing f then throw (PlainError ''ValidationError'')
      else
      andthen (gets (\<lambda>w. find (\<lambda>g. f_id g = f_id f \<or> f_storageKey g = f_storageKey f) (files w))) (\<lambda>g.
      if g \<noteq> None then throw (DuplicateKey ''storageKey'')
      else andthen (modify (\<lambda>w. w\<lparr>files := files w @ [f]\<rparr>)) (\<lambda>_. return f)))"

section \<open>Upload\<close>

record upload_env =
  ue_storage :: storage_env
  ue_maxSize :: int
  ue_paymentsEnabled :: bool
  ue_nfc :: "js_string \<Rightarrow> js_string"
  ue_uuid :: string
  ue_newId :: oid
  ue_commit :: commit_outcome
  ue_confirm :: bool
  ue_checkedAt :: date
  ue_recordedAt :: date

definition type_name :: "file_type \<Rightarrow> string" where
  "type_name t = (case t of CSV \<Rightarrow> ''csv'' | XLS \<Rightarrow> ''xls'' | XLSX \<Rightarrow> ''xlsx'')"

definition storage_key :: "oid \<Rightarrow> string \<Rightarrow> file_type \<Rightarrow> string" where
  "storage_key companyId uuid t =
     ''companies/'' @ oid_to_string companyId @ ''/files/'' @ uuid @ ''.'' @ type_name t"

definition new_file :: "upload_env \<Rightarrow> actor \<Rightarrow> validated_file \<Rightarrow> permissions \<Rightarrow> company_file" where
  "new_file env actor v p =
     \<lparr>f_id = ue_newId env, f_derivation = None, f_companyId = a_companyId actor,
      f_uploaderId = a_id actor, f_originalFilename = vf_originalFilename v,
      f_storageKey = storage_key (a_companyId actor) (ue_uuid env) (vf_fileType v),
      f_fileType = vf_fileType v, f_mimeType = vf_mimeType v, f_size = vf_size v,
      f_visibility = Some (pm_visibility p), f_restrictedUserIds = pm_restrictedUserIds p,
      f_guardScanFence = 0, f_createdAt = ue_recordedAt env\<rparr>"

text \<open>
  \<open>hasUnknownCommitResult\<close>: the error carries the label. The confirmation read may fail
  (\<open>ue_confirm\<close>); then, as when it finds nothing, the object is kept and the error rethrown.
\<close>

fun hasUnknownCommitResult :: "error \<Rightarrow> bool" where
  "hasUnknownCommitResult UnknownCommit = True"
| "hasUnknownCommitResult _ = False"

definition upload_recovery :: "upload_env \<Rightarrow> oid \<Rightarrow> string \<Rightarrow> error \<Rightarrow> public_file handler" where
  "upload_recovery env companyId key error =
     (if hasUnknownCommitResult error
      then andthen (gets (\<lambda>w. find (\<lambda>f. f_companyId f = companyId \<and> f_storageKey f = key) (files w))) (\<lambda>c.
           case (if ue_confirm env then c else None) of
             Some committed \<Rightarrow> return (publicMetadata committed)
           | None \<Rightarrow> throw error)
      else andthen (catching (deleteObject (ue_storage env) key) (\<lambda>_. return ())) (\<lambda>_.
           throw error))"

definition upload_transaction ::
  "upload_env \<Rightarrow> actor \<Rightarrow> validated_file \<Rightarrow> permissions \<Rightarrow> company_file handler" where
  "upload_transaction env actor v p = committing (ue_commit env)
     (andthen (recordFileUploads True (ue_paymentsEnabled env) (a_companyId actor) 1
                 (ue_recordedAt env)) (\<lambda>_.
      create_file (new_file env actor v p)))"

text \<open>From the storage request on: the object, the transaction, the recovery.\<close>

definition store_upload ::
  "upload_env \<Rightarrow> actor \<Rightarrow> validated_file \<Rightarrow> permissions \<Rightarrow> public_file handler" where
  "store_upload env actor v p =
     (let key = storage_key (a_companyId actor) (ue_uuid env) (vf_fileType v) in
      andthen (putObject (ue_storage env) key (vf_buffer v)) (\<lambda>_.
      catching
        (andthen (upload_transaction env actor v p) (\<lambda>f. return (publicMetadata f)))
        (upload_recovery env (a_companyId actor) key)))"

definition upload ::
  "upload_env \<Rightarrow> actor \<Rightarrow> uploaded_file option \<Rightarrow> file_visibility option \<Rightarrow> id_text list option
     \<Rightarrow> public_file handler" where
  "upload env actor supplied visibility restricted =
     andthen (lift_result (validateCompanyFile (ue_nfc env) supplied (ue_maxSize env))) (\<lambda>v.
     andthen (validatePermissions actor visibility restricted) (\<lambda>p.
     andthen (checkFileUpload (ue_paymentsEnabled env) (a_companyId actor) 1 (ue_checkedAt env)) (\<lambda>q.
     if \<not> q_allowed q then throw (file_limit_reached (q_includedFilesPerMonth q))
     else store_upload env actor v p)))"

section \<open>Reading\<close>

text \<open>Lineage of the page's files: a file whose source is out of reach is left out.\<close>

primrec visible_page :: "actor \<Rightarrow> company_file list \<Rightarrow> public_file list handler" where
  "visible_page actor [] = return []"
| "visible_page actor (f # fs) =
     andthen
       (catching (andthen (assertLineage actor f False) (\<lambda>_. return [publicMetadata f]))
          (\<lambda>error. if instanceof error NotFound then return [] else throw error)) (\<lambda>one.
     andthen (visible_page actor fs) (\<lambda>rest. return (one @ rest)))"

record file_page =
  fp_files :: "public_file list"
  fp_total :: int
  fp_page :: int
  fp_take :: int

definition newest_first :: "company_file list \<Rightarrow> company_file list" where
  "newest_first fs = sort_key (\<lambda>f. (- f_createdAt f, - int (f_id f))) fs"

definition findAll :: "actor \<Rightarrow> int \<Rightarrow> int \<Rightarrow> file_page handler" where
  "findAll actor page requested =
     (let limit = min requested 30 in
      andthen (gets (\<lambda>w. take (nat limit) (drop (nat ((page - 1) * limit))
                 (newest_first (filter (accessFilter actor) (files w)))))) (\<lambda>found.
      andthen (gets (\<lambda>w. countDocuments (accessFilter actor) (files w))) (\<lambda>total.
      andthen (visible_page actor found) (\<lambda>fs.
      return \<lparr>fp_files = fs, fp_total = total, fp_page = page, fp_take = limit\<rparr>))))"

definition findOne :: "actor \<Rightarrow> oid \<Rightarrow> public_file handler" where
  "findOne actor fileId =
     andthen (gets (\<lambda>w. find (\<lambda>f. f_id f = fileId \<and> accessFilter actor f) (files w))) (\<lambda>r.
     case r of
       None \<Rightarrow> throw file_not_found
     | Some file \<Rightarrow>
         andthen (assertLineage actor file False) (\<lambda>_. return (publicMetadata file)))"

definition download :: "storage_env \<Rightarrow> actor \<Rightarrow> oid \<Rightarrow> (company_file \<times> bytes) handler" where
  "download env actor fileId =
     andthen (findStoredFile actor fileId True) (\<lambda>file.
     andthen (getObject env (f_storageKey file)) (\<lambda>stored.
     return (file, stored)))"

section \<open>Deletion and sharing\<close>

definition tombstone :: "company_file \<Rightarrow> date \<Rightarrow> world \<Rightarrow> world" where
  "tombstone file now w =
     (case f_derivation file of
        None \<Rightarrow> w
      | Some d \<Rightarrow> w\<lparr>guardJobs :=
          updateOne (\<lambda>j. j_id j = d_jobId d \<and> j_companyId j = f_companyId file
                       \<and> j_resultFileId j = Some (f_id file))
            (\<lambda>j. j\<lparr>j_cleanupPending := True, j_cleanupAfter := Some now\<rparr>) (guardJobs w)\<rparr>)"

definition delete_file :: "storage_env \<Rightarrow> actor \<Rightarrow> oid \<Rightarrow> date \<Rightarrow> string handler" where
  "delete_file env actor fileId now =
     andthen (findStoredFile actor fileId False) (\<lambda>file.
     if a_role actor \<noteq> COMPANY_OWNER \<and> f_uploaderId file \<noteq> a_id actor
     then throw (http Forbidden ''Only the uploader or company owner can delete this file'')
     else
     andthen (modify (tombstone file now)) (\<lambda>_.
     andthen (deleteObject env (f_storageKey file)) (\<lambda>_.
     let query = (\<lambda>f. f_id f = fileId \<and> f_companyId f = a_companyId actor
                    \<and> f_storageKey f = f_storageKey file) in
     andthen (gets (\<lambda>w. find query (files w))) (\<lambda>deleted.
     if deleted = None then throw file_not_found
     else
     andthen (modify (\<lambda>w. w\<lparr>files := deleteOne query (files w)\<rparr>)) (\<lambda>_.
     return ''File deleted.'')))))"

definition set_permissions :: "permissions \<Rightarrow> company_file \<Rightarrow> company_file" where
  "set_permissions p f = f\<lparr>f_visibility := Some (pm_visibility p),
     f_restrictedUserIds := pm_restrictedUserIds p\<rparr>"

definition updatePermissions ::
  "actor \<Rightarrow> oid \<Rightarrow> file_visibility option \<Rightarrow> id_text list option \<Rightarrow> public_file handler" where
  "updatePermissions actor fileId visibility restricted =
     (let query = (\<lambda>f. f_id f = fileId \<and> f_companyId f = a_companyId actor) in
      andthen (gets (\<lambda>w. find query (files w))) (\<lambda>r.
      case r of
        None \<Rightarrow> throw file_not_found
      | Some file \<Rightarrow>
      if a_role actor \<noteq> COMPANY_OWNER \<and> f_uploaderId file \<noteq> a_id actor
      then throw (http Forbidden
             ''Only the uploader or company owner can change file permissions'')
      else if f_derivation file \<noteq> None
      then throw (http Forbidden ''Derived-file sharing requires separate policy approval'')
      else
      andthen (validatePermissions actor visibility restricted) (\<lambda>p.
      andthen (gets (\<lambda>w. find query (files w))) (\<lambda>updated.
      case updated of
        None \<Rightarrow> throw file_not_found
      | Some f \<Rightarrow>
          andthen (modify (\<lambda>w. w\<lparr>files := updateOne query (set_permissions p) (files w)\<rparr>)) (\<lambda>_.
          return (publicMetadata (set_permissions p f)))))))"

section \<open>Hooks of the data guard\<close>

record processing_source =
  ps_fileType :: file_type
  ps_size :: int
  ps_derived :: bool

definition processingSource :: "actor \<Rightarrow> oid \<Rightarrow> bool \<Rightarrow> processing_source handler" where
  "processingSource actor fileId session =
     andthen (find_fenced session (\<lambda>f. f_id f = fileId \<and> accessFilter actor f)) (\<lambda>r.
     case r of
       None \<Rightarrow> throw file_not_found
     | Some file \<Rightarrow>
         andthen (assertLineage actor file session) (\<lambda>_.
         return \<lparr>ps_fileType = f_fileType file, ps_size = f_size file,
                 ps_derived = (f_derivation file \<noteq> None)\<rparr>))"

definition guardCopyExists :: "oid \<Rightarrow> oid \<Rightarrow> company_file option handler" where
  "guardCopyExists companyId fileId =
     gets (\<lambda>w. find (\<lambda>f. f_id f = fileId \<and> f_companyId f = companyId) (files w))"

record guard_output =
  go_fileId :: oid
  go_jobId :: oid
  go_storageKey :: string
  go_size :: int

definition SANITIZATION_VERSION :: string where
  "SANITIZATION_VERSION = ''plain_ooxml_redaction_v1''"

definition guard_copy :: "actor \<Rightarrow> oid \<Rightarrow> guard_output \<Rightarrow> date \<Rightarrow> company_file" where
  "guard_copy actor sourceFileId out now =
     \<lparr>f_id = go_fileId out,
      f_derivation = Some \<lparr>d_sourceFileId = sourceFileId, d_jobId = go_jobId out,
        d_strategyVersion = SANITIZATION_VERSION, d_createdAt = now\<rparr>,
      f_companyId = a_companyId actor, f_uploaderId = a_id actor,
      f_originalFilename = units (''sanitized-'' @ oid_to_string (go_jobId out) @ ''.xlsx''),
      f_storageKey = go_storageKey out, f_fileType = XLSX,
      f_mimeType = ''application/vnd.openxmlformats-officedocument.spreadsheetml.sheet'',
      f_size = go_size out, f_visibility = Some RESTRICTED, f_restrictedUserIds = [a_id actor],
      f_guardScanFence = 0, f_createdAt = now\<rparr>"

definition publishGuardCopy ::
  "int \<Rightarrow> bool \<Rightarrow> actor \<Rightarrow> oid \<Rightarrow> guard_output \<Rightarrow> date \<Rightarrow> oid handler" where
  "publishGuardCopy maxSize paymentsEnabled actor sourceFileId out now =
     andthen (gets (\<lambda>w. find (\<lambda>f. f_id f = sourceFileId \<and> accessFilter actor f
                \<and> f_derivation f = None) (files w))) (\<lambda>source.
     if source = None then throw file_not_found
     else if go_size out > maxSize then throw (http BadRequest ''guard_limit_exceeded'')
     else
     andthen (recordFileUploads True paymentsEnabled (a_companyId actor) 1 now) (\<lambda>_.
     andthen (create_file (guard_copy actor sourceFileId out now)) (\<lambda>created.
     return (f_id created))))"

section \<open>Who may read\<close>

definition lineage_ok :: "world \<Rightarrow> actor \<Rightarrow> company_file \<Rightarrow> bool" where
  "lineage_ok w actor f \<longleftrightarrow>
     (case f_derivation f of
        None \<Rightarrow> True
      | Some d \<Rightarrow> \<exists>s \<in> set (files w). f_id s = d_sourceFileId d \<and> accessFilter actor s
                    \<and> f_derivation s = None)"

definition may_read :: "world \<Rightarrow> actor \<Rightarrow> company_file \<Rightarrow> bool" where
  "may_read w actor f \<longleftrightarrow> accessFilter actor f \<and> lineage_ok w actor f"

lemma accessFilter_company: "accessFilter actor f \<Longrightarrow> f_companyId f = a_companyId actor"
  by (auto simp: accessFilter_def split: if_splits)

lemma find_fenced_False [simp]: "find_fenced False q = gets (\<lambda>w. find q (files w))"
  by (rule ext) (simp add: find_fenced_def action_eval)

lemma assertLineage_False:
  "assertLineage actor f False w = (Inr x, w') \<longleftrightarrow> w' = w \<and> lineage_ok w actor f"
  "assertLineage actor f False w = (Inl e, w') \<longleftrightarrow>
     w' = w \<and> e = file_not_found \<and> \<not> lineage_ok w actor f"
  by (cases "f_derivation f";
      auto simp: assertLineage_def lineage_ok_def action_simps find_None_iff split: if_splits)+

lemma findStoredFile_Inr:
  "findStoredFile actor i lin w = (Inr f, w') \<Longrightarrow>
     w' = w \<and> find (\<lambda>f. f_id f = i \<and> accessFilter actor f) (files w) = Some f
     \<and> (lin \<longrightarrow> lineage_ok w actor f)"
  by (auto simp: findStoredFile_def action_simps assertLineage_False split: option.splits if_splits)


lemma visible_page_Inr:
  "visible_page actor fs w = (r, w') \<Longrightarrow>
     w' = w \<and> r = Inr (map publicMetadata (filter (lineage_ok w actor) fs))"
proof (induction fs arbitrary: r w')
  case (Cons f fs)
  obtain r' where v: "visible_page actor fs w = (r', w)"
    and r': "r' = Inr (map publicMetadata (filter (lineage_ok w actor) fs))"
    using Cons.IH by (metis prod.collapse)
  show ?case
  proof (cases "lineage_ok w actor f")
    case True
    then have "assertLineage actor f False w = (Inr (), w)" by (simp add: assertLineage_False)
    then show ?thesis using Cons.prems v r' True
      by (auto simp: andthen_def catching_def return_def)
  next
    case False
    then have "assertLineage actor f False w = (Inl file_not_found, w)"
      by (simp add: assertLineage_False)
    then show ?thesis using Cons.prems v r' False
      by (auto simp: andthen_def catching_def return_def file_not_found_def)
  qed
qed (simp add: return_def)

text \<open>
  The listing shows only readable files, newest first, at most thirty of them: it is the
  requested page of the company files the actor may access, without those whose source is out
  of reach, and it always succeeds without writing.
\<close>

theorem findAll_lists_readable:
  "\<exists>p. findAll actor page n w = (Inr p, w)
    \<and> fp_files p = map publicMetadata (filter (may_read w actor)
        (take (nat (min n 30)) (drop (nat ((page - 1) * min n 30))
          (newest_first (filter (accessFilter actor) (files w))))))
    \<and> length (fp_files p) \<le> 30 \<and> fp_total p = countDocuments (accessFilter actor) (files w)"
proof -
  let ?fs = "take (nat (min n 30)) (drop (nat ((page - 1) * min n 30))
    (newest_first (filter (accessFilter actor) (files w))))"
  have v: "visible_page actor ?fs w = (Inr (map publicMetadata (filter (lineage_ok w actor) ?fs)), w)"
    using visible_page_Inr by (metis prod.collapse)
  have a: "x \<in> set ?fs \<Longrightarrow> accessFilter actor x" for x
    by (auto simp: newest_first_def dest!: in_set_takeD in_set_dropD)
  have e: "filter (lineage_ok w actor) ?fs = filter (may_read w actor) ?fs"
    by (rule filter_cong [OF refl]) (simp only: may_read_def a simp_thms)
  have "length (filter (may_read w actor) ?fs) \<le> 30"
    by (rule order_trans [OF length_filter_le]) simp
  then show ?thesis
    unfolding findAll_def Let_def andthen_def gets_def by (simp add: v e return_def)
qed

section \<open>Objects behind the metadata\<close>

definition metadata_backed :: "world \<Rightarrow> bool" where
  "metadata_backed w \<longleftrightarrow> (\<forall>f \<in> set (files w). objects w (f_storageKey f) \<noteq> None)"

lemma create_file_Inr:
  "create_file f w = (Inr g, w') \<longleftrightarrow>
     valid_sharing f \<and> g = f \<and> w' = w\<lparr>files := files w @ [f]\<rparr>
     \<and> find (\<lambda>g. f_id g = f_id f \<or> f_storageKey g = f_storageKey f) (files w) = None"
  by (auto simp: create_file_def action_simps split: if_splits)

lemma record_objects:
  assumes "recordFileUploads True e c n at w = (Inr r, w')"
  shows "objects w' = objects w" "files w' = files w" "users w' = users w"
    "invitations w' = invitations w"
proof -
  have t: "recordFileUploadsInTransaction e c n at w = (Inr r, w')"
    using assms by (auto simp: recordFileUploads_def action_simps)
  from record_Inr [OF t] show "objects w' = objects w" "files w' = files w" "users w' = users w"
    "invitations w' = invitations w"
    by (auto dest: enqueue_if_managed_fields)
qed

lemma upload_transaction_Inr:
  assumes "upload_transaction env actor v p w = (Inr f, w')"
  shows "f = new_file env actor v p" "files w' = files w @ [f]" "objects w' = objects w"
    "valid_sharing f" "ue_commit env = Committed"
    "\<exists>r w1. recordFileUploads True (ue_paymentsEnabled env) (a_companyId actor) 1
       (ue_recordedAt env) w = (Inr r, w1) \<and> w' = w1\<lparr>files := files w @ [f]\<rparr>"
  using assms
  by (auto simp: upload_transaction_def action_simps create_file_Inr record_objects
      dest: record_objects)

lemma upload_transaction_Inl:
  assumes "upload_transaction env actor v p w = (Inl e, w')"
  shows "w' = w \<or> (e = UnknownCommit \<and> files w' = files w @ [new_file env actor v p]
    \<and> objects w' = objects w)"
  using committing_Inl [OF assms [unfolded upload_transaction_def]]
  by (auto simp: action_simps create_file_Inr record_objects)

lemma metadata_backed_put:
  assumes "metadata_backed w" "\<forall>f \<in> set (files w). f_storageKey f \<noteq> key"
  shows "metadata_backed (w\<lparr>objects := (objects w)(key := x)\<rparr>)"
  using assms by (auto simp: metadata_backed_def)

lemma upload_recovery_state:
  assumes "upload_recovery env c key e w = (r, w')"
  shows "w' = w \<or> (\<not> hasUnknownCommitResult e \<and> w' = w\<lparr>objects := (objects w)(key := None)\<rparr>)"
proof (cases "hasUnknownCommitResult e")
  case True
  then show ?thesis using assms
    by (cases r) (auto simp: upload_recovery_def action_simps split: option.splits if_splits)
next
  case False
  then show ?thesis using assms
    by (cases r) (auto simp: upload_recovery_def action_simps dest: deleteObject_frame)
qed

lemma validatePermissions_reads: "validatePermissions actor v ids w = (r, w') \<Longrightarrow> w' = w"
  by (cases r) (auto simp: validatePermissions_def Let_def action_simps split: option.splits if_splits)

lemma checkFileUpload_reads: "checkFileUpload e c n at w = (r, w') \<Longrightarrow> w' = w"
  by (cases r) (auto simp: checkFileUpload_def Let_def action_simps getSubscription_iff)

text \<open>Everything before the storage request is a check that writes nothing.\<close>

lemma upload_cases:
  assumes "upload env actor supplied vis ids w = (r, w')"
  obtains (refused) e where "r = Inl e" "w' = w"
  | (stored) v p q where "validateCompanyFile (ue_nfc env) supplied (ue_maxSize env) = Inr v"
      "validatePermissions actor vis ids w = (Inr p, w)"
      "checkFileUpload (ue_paymentsEnabled env) (a_companyId actor) 1 (ue_checkedAt env) w = (Inr q, w)"
      "q_allowed q" "store_upload env actor v p w = (r, w')"
proof -
  have p: "validatePermissions actor vis ids w = (fst (validatePermissions actor vis ids w), w)"
    using validatePermissions_reads by (metis prod.collapse)
  let ?q = "checkFileUpload (ue_paymentsEnabled env) (a_companyId actor) 1 (ue_checkedAt env) w"
  have q: "?q = (fst ?q, w)" using checkFileUpload_reads by (metis prod.collapse)
  show thesis
  proof (cases "validateCompanyFile (ue_nfc env) supplied (ue_maxSize env)")
    case (Inl e)
    then show ?thesis using assms refused by (auto simp: upload_def andthen_def lift_result_def)
  next
    case v: (Inr v)
    show ?thesis
    proof (cases "fst (validatePermissions actor vis ids w)")
      case (Inl e)
      then show ?thesis using assms refused v p by (auto simp: upload_def andthen_def lift_result_def)
    next
      case pm: (Inr pm)
      show ?thesis
      proof (cases "fst ?q")
        case (Inl e)
        then show ?thesis using assms refused v p q pm
          by (auto simp: upload_def andthen_def lift_result_def)
      next
        case qt: (Inr qt)
        show ?thesis using assms refused stored [of v pm qt] v p q pm qt
          by (auto simp: upload_def andthen_def lift_result_def throw_def split: if_splits)
      qed
    qed
  qed
qed

definition fresh_key :: "world \<Rightarrow> string \<Rightarrow> bool" where
  "fresh_key w key \<longleftrightarrow> (\<forall>f \<in> set (files w). f_storageKey f \<noteq> key)"

lemma store_upload_outcome:
  assumes s: "store_upload env actor v p w = (r, w')"
    and key: "key = storage_key (a_companyId actor) (ue_uuid env) (vf_fileType v)"
    and fresh: "fresh_key w key"
  shows "(files w' = files w \<and> (\<exists>e. r = Inl e)
        \<and> (objects w' = objects w \<or> objects w' = (objects w)(key \<mapsto> vf_buffer v)
           \<or> objects w' = (objects w)(key := None)))
    \<or> (files w' = files w @ [new_file env actor v p] \<and> objects w' = (objects w)(key \<mapsto> vf_buffer v)
        \<and> (r = Inr (publicMetadata (new_file env actor v p)) \<or> r = Inl UnknownCommit))"
proof -
  obtain r2 w1 where put: "putObject (ue_storage env) key (vf_buffer v) w = (r2, w1)"
    by (metis prod.collapse)
  show ?thesis
  proof (cases r2)
    case (Inl e)
    then have "w' = w1" "r = Inl e"
      using s put by (simp_all add: store_upload_def Let_def andthen_def key)
    then show ?thesis using putObject_frame [OF put] by auto
  next
    case (Inr x)
    then have w1: "w1 = w\<lparr>objects := (objects w)(key \<mapsto> vf_buffer v)\<rparr>"
      using put by (simp add: putObject_Inr)
    have nf: "f_storageKey (new_file env actor v p) = key" "f_companyId (new_file env actor v p) = a_companyId actor"
      by (simp_all add: new_file_def key)
    obtain r3 t where tr: "upload_transaction env actor v p w1 = (r3, t)" by (metis prod.collapse)
    show ?thesis
    proof (cases r3)
      case (Inr f)
      then have "w' = t" "r = Inr (publicMetadata f)"
        using s put \<open>r2 = Inr x\<close> tr
        by (auto simp: store_upload_def Let_def andthen_def catching_def return_def key)
      then show ?thesis using upload_transaction_Inr(1-3) [OF tr [unfolded Inr]] w1 by simp
    next
      case (Inl e)
      have rec: "upload_recovery env (a_companyId actor) key e t = (r, w')"
        using s put \<open>r2 = Inr x\<close> tr Inl
        by (auto simp: store_upload_def Let_def andthen_def catching_def return_def key)
      have t: "t = w1 \<or> (e = UnknownCommit \<and> files t = files w1 @ [new_file env actor v p]
          \<and> objects t = objects w1)"
        using upload_transaction_Inl [OF tr [unfolded Inl]] .
      have none: "find (\<lambda>f. f_companyId f = a_companyId actor \<and> f_storageKey f = key) (files w1) = None"
        using fresh w1 by (auto simp: fresh_key_def find_None_iff)
      show ?thesis
      proof (cases "hasUnknownCommitResult e")
        case True
        then have "w' = t" using upload_recovery_state [OF rec] by simp
        moreover have "e = UnknownCommit" using True by (cases e) auto
        moreover have "find (\<lambda>f. f_companyId f = a_companyId actor \<and> f_storageKey f = key) (files t)
            = (if t = w1 then None else Some (new_file env actor v p))"
          using t none nf by (auto simp: find_append)
        moreover have "t = w1 \<or> files t = files w1 @ [new_file env actor v p] \<and> objects t = objects w1 \<and> t \<noteq> w1"
          using t by fastforce
        ultimately show ?thesis using rec w1 True
          by (auto simp: upload_recovery_def andthen_def gets_def return_def throw_def
              split: option.splits if_splits)
      next
        case False
        then have "t = w1" using t by auto
        moreover have "\<exists>d. r = Inl d" using rec False
          by (cases r) (auto simp: upload_recovery_def action_simps)
        moreover note upload_recovery_state [OF rec]
        ultimately show ?thesis using w1 False by auto
      qed
    qed
  qed
qed



section \<open>Quota\<close>

text \<open>
  A recorded upload followed by its document keeps every company's stored files within its
  plan, and no other company's count moves.
\<close>

lemma stored_files_append:
  "stored_files (w\<lparr>files := fs @ [f]\<rparr>) c
     = stored_files (w\<lparr>files := fs\<rparr>) c + (if f_companyId f = c then 1 else 0)"
  by (simp add: stored_files_def collection_simps)

lemma record_then_create_quota:
  assumes "recordFileUploads True e c 1 at w = (Inr r, w1)" "f_companyId f = c"
    and q: "within_files w b 0"
  shows "within_files (w1\<lparr>files := files w @ [f]\<rparr>) b 0"
proof -
  let ?t = "w1\<lparr>files := files w @ [f]\<rparr>"
  have p: "same_plans w ?t b" for b
    using record_same_plans(1) [OF assms(1), of b] plans_of_fields [of ?t w1 b]
    by (simp add: same_plans_def)
  have u: "stored_files ?t b = stored_files w b + (if b = c then 1 else 0)" for b
    using assms(2) by (simp add: stored_files_def collection_simps)
  show ?thesis
  proof (cases "b = c")
    case True
    then show ?thesis
      using file_quota.admitted_use [OF record_same_plans(3) [OF assms(1)] p] u by simp
  next
    case False
    then show ?thesis using file_quota.release [OF q p] u by simp
  qed
qed

lemma within_files_objects [simp]: "within_files (w\<lparr>objects := ob\<rparr>) b n = within_files w b n"
  by (simp add: within_files_def subscription_of_def stored_files_def)

lemma upload_transaction_quota:
  assumes "upload_transaction env actor v p w = (r, w')" "within_files w b 0"
  shows "within_files w' b 0"
proof -
  have body: "within_files t b 0" if "andthen (recordFileUploads True (ue_paymentsEnabled env)
      (a_companyId actor) 1 (ue_recordedAt env)) (\<lambda>_. create_file (new_file env actor v p)) w
      = (Inr x, t)" for x t
    using that record_then_create_quota [OF _ _ assms(2)]
    by (auto simp: action_simps create_file_Inr record_objects new_file_def)
  show ?thesis
    using assms body by (cases r) (auto simp: upload_transaction_def action_simps dest!: committing_Inl)
qed

lemma store_upload_quota:
  assumes s: "store_upload env actor v p w = (r, w')" and q: "within_files w b 0"
  shows "within_files w' b 0"
proof -
  let ?key = "storage_key (a_companyId actor) (ue_uuid env) (vf_fileType v)"
  obtain r2 w1 where put: "putObject (ue_storage env) ?key (vf_buffer v) w = (r2, w1)"
    by (metis prod.collapse)
  have q1: "within_files w1 b 0" using putObject_frame [OF put] q by auto
  obtain r3 t where tr: "upload_transaction env actor v p w1 = (r3, t)" by (metis prod.collapse)
  have qt: "within_files t b 0" by (rule upload_transaction_quota [OF tr q1])
  have rec: "within_files x b 0" if "upload_recovery env (a_companyId actor) ?key e t = (y, x)" for x y e
    using upload_recovery_state [OF that] qt by auto
  show ?thesis using s put q1 tr qt rec
    by (cases r2; cases r3)
      (auto simp: store_upload_def Let_def andthen_def catching_def return_def)
qed

text \<open>
  C35. Uploading never exceeds a plan: if every company's stored files fit its current plan and
  its pending one, they still do after an upload, whatever its outcome.
\<close>

theorem upload_keeps_quota: "keeps (\<lambda>w. within_files w b 0) (upload env actor supplied vis ids)"
proof (rule keepsI)
  fix w r w' assume q: "within_files w b 0" and u: "upload env actor supplied vis ids w = (r, w')"
  from u show "within_files w' b 0"
    by (cases rule: upload_cases) (use q store_upload_quota in \<open>auto\<close>)
qed

section \<open>Deletion and sharing\<close>

lemma files_tombstone [simp]: "files (tombstone f now w) = files w"
  "objects (tombstone f now w) = objects w" "subscriptions (tombstone f now w) = subscriptions w"
  by (simp_all add: tombstone_def split: option.split)

text \<open>
  Deletion is authorised and complete: a successful deletion was asked by the company's
  owner or by the uploader of a file they can see, and afterwards neither the document nor the
  object is there, every other document is, and the job of a sanitised copy is marked for
  reconciliation.
\<close>

theorem delete_file_complete:
  assumes "delete_file env actor i now w = (Inr m, w')" "distinct (map f_id (files w))"
  shows "\<exists>f. f \<in> set (files w) \<and> f_id f = i \<and> f_companyId f = a_companyId actor
    \<and> (a_role actor = COMPANY_OWNER \<or> f_uploaderId f = a_id actor)
    \<and> files w' = filter (\<lambda>g. f_id g \<noteq> i) (files w)
    \<and> objects w' = (objects w)(f_storageKey f := None)
    \<and> guardJobs w' = guardJobs (tombstone f now w)"
proof -
  from assms(1) obtain f where s: "findStoredFile actor i False w = (Inr f, w)"
    by (auto simp: delete_file_def andthen_Inr_iff dest: findStoredFile_Inr)
  have a: "a_role actor = COMPANY_OWNER \<or> f_uploaderId f = a_id actor"
    and w': "w' = (tombstone f now w)\<lparr>objects := (objects w)(f_storageKey f := None),
      files := deleteOne (\<lambda>g. f_id g = i \<and> f_companyId g = a_companyId actor
        \<and> f_storageKey g = f_storageKey f) (files w)\<rparr>"
    using assms(1) s
    by (auto simp: delete_file_def Let_def action_simps deleteObject_Inr split: if_splits)
  have f: "f \<in> set (files w)" "f_id f = i" "accessFilter actor f"
    using findStoredFile_Inr [OF s] by (auto dest: find_SomeD)
  then have c: "f_companyId f = a_companyId actor" by (simp add: accessFilter_company)
  have "deleteOne (\<lambda>g. f_id g = i \<and> f_companyId g = a_companyId actor \<and> f_storageKey g = f_storageKey f) fs
      = filter (\<lambda>g. f_id g \<noteq> i) fs" if "distinct (map f_id fs)" "f \<in> set fs" for fs
    using that f(2) c
  proof (induction fs)
    case (Cons x xs)
    show ?case
    proof (cases "x = f")
      case True
      with Cons.prems have "filter (\<lambda>g. f_id g \<noteq> i) xs = xs"
        by (auto simp: filter_id_conv image_iff)
      with True Cons.prems show ?thesis by simp
    next
      case False
      with Cons.prems have "f_id x \<noteq> i" by (auto simp: image_iff)
      with False Cons show ?thesis by simp
    qed
  qed simp
  then show ?thesis using f(1,2) c a w' assms(2) by (intro exI [of _ f]) auto
qed

definition example_file :: company_file where
  "example_file = \<lparr>f_id = 5, f_derivation = None, f_companyId = 7, f_uploaderId = 2,
     f_originalFilename = units ''a.csv'', f_storageKey = ''k'', f_fileType = CSV,
     f_mimeType = ''text/csv'', f_size = 1, f_visibility = Some COMPANY_WIDE,
     f_restrictedUserIds = [], f_guardScanFence = 0, f_createdAt = 10\<rparr>"

definition example_files_world :: world where
  "example_files_world = empty_world\<lparr>files := [example_file], objects := [''k'' \<mapsto> [97]]\<rparr>"


theorem delete_file_complete_witness:
  "files (snd (delete_file reliable_storage \<lparr>a_id = 2, a_companyId = 7, a_role = COMPANY_MEMBER\<rparr> 5 0
     example_files_world)) = []"
proof -
  let ?r = "delete_file reliable_storage \<lparr>a_id = 2, a_companyId = 7, a_role = COMPANY_MEMBER\<rparr> 5 0
     example_files_world"
  have "\<not> isl (fst ?r)"
    by (simp add: delete_file_def Let_def findStoredFile_def deleteObject_def requireStorage_def
        require_def action_eval example_files_world_def example_file_def accessFilter_def send_def
        reliable_storage_def tombstone_def)
  then have e: "?r = (Inr (projr (fst ?r)), snd ?r)" by (metis prod.collapse sum.collapse(2))
  show ?thesis using delete_file_complete [OF e]
    by (auto simp: example_files_world_def example_file_def)
qed

lemma validatePermissions_Inr:
  assumes "validatePermissions actor vis ids w = (Inr p, w')" "distinct (map u_id (users w))"
  shows "vis = Some (pm_visibility p) \<and> distinct (pm_restrictedUserIds p)
    \<and> (pm_visibility p = COMPANY_WIDE \<longleftrightarrow> pm_restrictedUserIds p = [])
    \<and> (\<forall>i \<in> set (pm_restrictedUserIds p). \<exists>u \<in> set (users w). u_id u = i
         \<and> u_companyId u = a_companyId actor \<and> u_role u = COMPANY_MEMBER)"
proof -
  let ?r = "remdups (option_default [] ids)"
  let ?q = "\<lambda>u. u_id u \<in> set (map id_value ?r) \<and> u_companyId u = a_companyId actor
      \<and> u_role u = COMPANY_MEMBER"
  from assms(1) obtain v where v: "vis = Some v" and p: "p = \<lparr>pm_visibility = v, pm_restrictedUserIds = map id_value ?r\<rparr>"
    and ok: "\<forall>i \<in> set ?r. is_valid_id i" "v = COMPANY_WIDE \<longrightarrow> ?r = []" "v = RESTRICTED \<longrightarrow> ?r \<noteq> []"
    and n: "?r \<noteq> [] \<longrightarrow> countDocuments ?q (users w) = int (length ?r)"
    by (auto simp: validatePermissions_def Let_def action_simps list_ex_iff split: option.splits if_splits)
  have inj: "inj_on id_value (set ?r)"
  proof (rule inj_onI)
    fix x y assume "x \<in> set ?r" "y \<in> set ?r" and e: "id_value x = id_value y"
    then have "is_valid_id x" "is_valid_id y" using ok(1) by blast+
    then show "x = y" using e by (cases x; cases y) auto
  qed
  then have d: "distinct (map id_value ?r)" by (simp add: distinct_map)
  have "\<exists>u \<in> set (users w). u_id u = i \<and> u_companyId u = a_companyId actor \<and> u_role u = COMPANY_MEMBER"
    if i: "i \<in> set (map id_value ?r)" for i
  proof -
    have "?r \<noteq> []" using i by auto
    then have len: "length (filter ?q (users w)) = length (map id_value ?r)"
      using n by (simp add: countDocuments_def)
    have "distinct (map u_id (filter ?q (users w)))"
      using assms(2) by (simp add: distinct_map_filter)
    from distinct_card [OF this] have "card (u_id ` set (filter ?q (users w)))
        = length (filter ?q (users w))" by simp
    also have "\<dots> = card (set (map id_value ?r))" unfolding len distinct_card [OF d] ..
    finally have "card (u_id ` set (filter ?q (users w))) = card (set (map id_value ?r))" .
    moreover have "u_id ` set (filter ?q (users w)) \<subseteq> set (map id_value ?r)" by auto
    ultimately have "u_id ` set (filter ?q (users w)) = set (map id_value ?r)"
      by (intro card_subset_eq) auto
    then have "i \<in> u_id ` set (filter ?q (users w))" using i by simp
    then show ?thesis by auto
  qed
  then show ?thesis using v p d ok(2,3) by (cases v) auto
qed

text \<open>
  Sharing changes are authorised and keep the sharing rules: a successful change was asked
  by the owner or the uploader of an original (not derived) file of the company; the file is
  then company-wide with no listed users, or restricted to at least one user, all of them
  members of the company and listed once; other documents, objects and sizes are untouched.
\<close>

theorem updatePermissions_keeps_rules:
  assumes "updatePermissions actor i vis ids w = (Inr r, w')"
    "distinct (map u_id (users w))" "distinct (map f_id (files w))"
  shows "\<exists>f g. find (\<lambda>f. f_id f = i \<and> f_companyId f = a_companyId actor) (files w) = Some f
    \<and> (a_role actor = COMPANY_OWNER \<or> f_uploaderId f = a_id actor) \<and> f_derivation f = None
    \<and> g \<in> set (files w') \<and> f_id g = i \<and> r = publicMetadata g \<and> valid_sharing g
    \<and> list_all (\<lambda>u. list_ex (\<lambda>x. u_id x = u \<and> u_companyId x = a_companyId actor
          \<and> u_role x = COMPANY_MEMBER) (users w)) (f_restrictedUserIds g)
    \<and> filter (\<lambda>x. f_id x \<noteq> i) (files w') = filter (\<lambda>x. f_id x \<noteq> i) (files w)
    \<and> w' = w\<lparr>files := files w'\<rparr>"
proof -
  let ?q = "\<lambda>f. f_id f = i \<and> f_companyId f = a_companyId actor"
  from assms(1) obtain f p w1 where f: "find ?q (files w) = Some f" "f_derivation f = None"
      "a_role actor = COMPANY_OWNER \<or> f_uploaderId f = a_id actor"
    and p1: "validatePermissions actor vis ids w = (Inr p, w1)"
    and rest: "\<exists>f1. find ?q (files w1) = Some f1
      \<and> w' = w1\<lparr>files := updateOne ?q (set_permissions p) (files w1)\<rparr>
      \<and> r = publicMetadata (set_permissions p f1)"
    by (auto simp: updatePermissions_def Let_def action_simps split: option.splits if_splits)
  have "w1 = w" by (rule validatePermissions_reads [OF p1])
  then have p: "validatePermissions actor vis ids w = (Inr p, w)"
    and w': "w' = w\<lparr>files := updateOne ?q (set_permissions p) (files w)\<rparr>"
    and r: "r = publicMetadata (set_permissions p f)"
    using p1 rest f(1) by auto
  note v = validatePermissions_Inr [OF p assms(2)]
  have fi: "f_id f = i" "f \<in> set (files w)" using f(1) by (auto dest: find_SomeD)
  have "find (\<lambda>x. f_id x = f_id f) (updateOne ?q (set_permissions p) (files w)) = Some (set_permissions p f)"
    using assms(3) by (intro find_updateOne_key [OF f(1)]) (auto simp: set_permissions_def)
  then have g: "set_permissions p f \<in> set (files w')" by (auto simp: w' dest: find_SomeD)
  have fr: "filter (\<lambda>x. f_id x \<noteq> i) (files w') = filter (\<lambda>x. f_id x \<noteq> i) (files w)"
    unfolding w' by (auto intro!: filter_updateOne_frame simp: set_permissions_def)
  have "valid_sharing (set_permissions p f)"
    using v by (cases "pm_visibility p") (auto simp: valid_sharing_def set_permissions_def distinct_card)
  then show ?thesis using f fi g fr r w' v
    by (intro exI [of _ f] exI [of _ "set_permissions p f"])
      (auto simp: set_permissions_def list_all_iff list_ex_iff)
qed

theorem updatePermissions_keeps_rules_witness:
  "\<exists>g. g \<in> set (files (snd (updatePermissions \<lparr>a_id = 2, a_companyId = 7, a_role = COMPANY_MEMBER\<rparr> 5
     (Some COMPANY_WIDE) None example_files_world))) \<and> f_id g = 5 \<and> valid_sharing g"
proof -
  let ?r = "updatePermissions \<lparr>a_id = 2, a_companyId = 7, a_role = COMPANY_MEMBER\<rparr> 5
     (Some COMPANY_WIDE) None example_files_world"
  have "\<not> isl (fst ?r)"
    by (simp add: updatePermissions_def validatePermissions_def Let_def action_eval
        example_files_world_def example_file_def)
  then have e: "?r = (Inr (projr (fst ?r)), snd ?r)" by (metis prod.collapse sum.collapse(2))
  have d: "distinct (map u_id (users example_files_world))"
    "distinct (map f_id (files example_files_world))"
    by (simp_all add: example_files_world_def empty_world_def)
  show ?thesis using updatePermissions_keeps_rules [OF e d] by blast
qed

section \<open>Sanitised copies\<close>

lemma publishGuardCopy_Inr:
  assumes "publishGuardCopy maxSize e actor src out now w = (Inr i, w')"
  shows "\<exists>r w1. recordFileUploads True e (a_companyId actor) 1 now w = (Inr r, w1)
    \<and> w' = w1\<lparr>files := files w @ [guard_copy actor src out now]\<rparr> \<and> i = go_fileId out
    \<and> go_size out \<le> maxSize
    \<and> find (\<lambda>f. f_id f = src \<and> accessFilter actor f \<and> f_derivation f = None) (files w) \<noteq> None"
  using assms
  by (auto simp: publishGuardCopy_def action_simps create_file_Inr record_objects guard_copy_def
      split: if_splits)

text \<open>
  A sanitised copy is never wider than its source: publishing adds one document, within
  the size limit and the quota, shared with its requester only; whoever may read it - then, by
  the sharing rules and the lineage check - may read its source, and among the members that is
  the requester alone.
\<close>

theorem guard_copy_no_wider:
  assumes "publishGuardCopy maxSize e actor src out now w = (Inr i, w')" "within_files w c 0"
  shows "\<exists>copy. files w' = files w @ [copy] \<and> f_id copy = i \<and> f_size copy \<le> maxSize
    \<and> valid_sharing copy \<and> within_files w' c 0
    \<and> (\<forall>reader. may_read w' reader copy \<longrightarrow>
         (\<exists>s \<in> set (files w). f_id s = src \<and> may_read w reader s)
         \<and> (a_role reader = COMPANY_OWNER \<or> a_id reader = a_id actor))"
proof -
  from publishGuardCopy_Inr [OF assms(1)] obtain r w1 where
    rec: "recordFileUploads True e (a_companyId actor) 1 now w = (Inr r, w1)"
    and w': "w' = w1\<lparr>files := files w @ [guard_copy actor src out now]\<rparr>"
    and i: "i = go_fileId out" "go_size out \<le> maxSize" by blast
  have q: "within_files w' c 0"
    unfolding w' by (rule record_then_create_quota [OF rec _ assms(2)]) (simp add: guard_copy_def)
  have m: "(\<exists>s \<in> set (files w). f_id s = src \<and> may_read w reader s)
      \<and> (a_role reader = COMPANY_OWNER \<or> a_id reader = a_id actor)"
    if "may_read w' reader (guard_copy actor src out now)" for reader
    using that
    by (auto simp: may_read_def lineage_ok_def guard_copy_def w' accessFilter_def split: if_splits)
  show ?thesis using w' i q m
    by (intro exI [of _ "guard_copy actor src out now"]) (auto simp: guard_copy_def valid_sharing_def)
qed

theorem guard_copy_no_wider_witness:
  "\<exists>copy. files (snd (publishGuardCopy 100 False \<lparr>a_id = 2, a_companyId = 7, a_role = COMPANY_MEMBER\<rparr> 5
      \<lparr>go_fileId = 6, go_jobId = 1, go_storageKey = ''g'', go_size = 50\<rparr> 1709200000000
      (example_files_world\<lparr>subscriptions := [subscription_document 1 7 FREE 1706659200000 1706659200000]\<rparr>)))
     = [example_file, copy] \<and> f_id copy = 6"
proof -
  let ?w = "example_files_world\<lparr>subscriptions := [subscription_document 1 7 FREE 1706659200000 1706659200000]\<rparr>"
  let ?r = "publishGuardCopy 100 False \<lparr>a_id = 2, a_companyId = 7, a_role = COMPANY_MEMBER\<rparr> 5
      \<lparr>go_fileId = 6, go_jobId = 1, go_storageKey = ''g'', go_size = 50\<rparr> 1709200000000 ?w"
  have v: "(case fst ?r of Inl _ \<Rightarrow> False | Inr i \<Rightarrow> i = 6)" by code_simp
  then have e: "?r = (Inr 6, snd ?r)" by (cases "fst ?r") (auto simp: prod_eq_iff)
  have q: "within_files ?w 7 0"
    by (simp add: within_files_def stored_files_def example_files_world_def subscription_of_def
        subscription_document_def plans_findOne_def target_plan_def countDocuments_def)
  show ?thesis using guard_copy_no_wider [OF e q] by (auto simp: example_files_world_def)
qed

end
