(* ===== verification/Invitations.thy ===== *)
theory Invitations
  imports Entitlements Interfaces
begin

text \<open>
  Employee invitations (\<open>invitations/invitations.service.ts\<close>): an owner invites by e-mail, the
  employee accepts with the mailed token. Random tokens, the SHA-256 and bcrypt hashes, new
  identifiers, the clock and the delivery of mail are parameters. The collection's partial
  unique indexes (one pending invitation per address, one document per token hash) are written
  out in \<open>create_invitation\<close>.
\<close>

definition INVITATION_TOKEN_TTL_MS :: int where
  "INVITATION_TOKEN_TTL_MS = 72 * 60 * 60 * 1000"

definition INVITATION_RESEND_COOLDOWN_MS :: int where
  "INVITATION_RESEND_COOLDOWN_MS = 60 * 1000"

definition RESEND_INVITATION_RESPONSE :: string where
  "RESEND_INVITATION_RESPONSE =
     ''If a pending invitation can be resent, a new invitation email will be sent.''"

record invite_env =
  ie_paymentsEnabled :: bool
  ie_token :: string
  ie_newId :: oid
  ie_mailed :: bool

definition requireOwner :: "actor \<Rightarrow> error + unit" where
  "requireOwner actor = require (a_role actor = COMPANY_OWNER)
     (http Forbidden ''Company owner access is required'')"

definition activated_company :: "world \<Rightarrow> oid \<Rightarrow> company option" where
  "activated_company w i = find (\<lambda>c. c_id c = i \<and> c_activatedAt c \<noteq> None) (companies w)"

definition user_exists :: "world \<Rightarrow> string \<Rightarrow> bool" where
  "user_exists w email = list_ex (\<lambda>u. u_email u = email) (users w)"

definition expire :: "invitation \<Rightarrow> invitation" where
  "expire i = i\<lparr>i_status := INV_EXPIRED, i_tokenHash := None\<rparr>"

definition expireStaleInvitation :: "string \<Rightarrow> date \<Rightarrow> unit handler" where
  "expireStaleInvitation email now = modify (\<lambda>w. w\<lparr>invitations :=
     updateMany (\<lambda>i. i_email i = email \<and> i_status i = INV_PENDING \<and> i_expiresAt i \<le> now) expire
       (invitations w)\<rparr>)"

text \<open>Insertion under the unique index of \<open>_id\<close> and the two partial unique indexes.\<close>

definition conflicts :: "invitation \<Rightarrow> invitation \<Rightarrow> bool" where
  "conflicts i j \<longleftrightarrow>
     i_id i = i_id j
     \<or> (i_status i = INV_PENDING \<and> i_status j = INV_PENDING \<and> i_email i = i_email j)
     \<or> (i_tokenHash i \<noteq> None \<and> i_tokenHash i = i_tokenHash j)"

definition create_invitation :: "invitation \<Rightarrow> invitation handler" where
  "create_invitation i =
     andthen (gets (\<lambda>w. find (conflicts i) (invitations w))) (\<lambda>j.
     if j \<noteq> None then throw (DuplicateKey ''email'')
     else andthen (modify (\<lambda>w. w\<lparr>invitations := invitations w @ [i]\<rparr>)) (\<lambda>_. return i))"

definition new_invitation ::
  "(string \<Rightarrow> string) \<Rightarrow> invite_env \<Rightarrow> actor \<Rightarrow> string \<Rightarrow> date \<Rightarrow> invitation" where
  "new_invitation sha256 env actor email now =
     \<lparr>i_id = ie_newId env, i_companyId = a_companyId actor, i_invitedBy = a_id actor,
      i_email = email, i_status = INV_PENDING, i_tokenHash = Some (sha256 (ie_token env)),
      i_expiresAt = now + INVITATION_TOKEN_TTL_MS, i_lastSentAt = now, i_acceptedAt = None,
      i_revokedAt = None, i_createdAt = now\<rparr>"

record public_invitation =
  pi_id :: oid
  pi_email :: string
  pi_status :: invitation_status
  pi_expiresAt :: date
  pi_lastSentAt :: date

definition publicInvitation :: "invitation \<Rightarrow> public_invitation" where
  "publicInvitation i = \<lparr>pi_id = i_id i, pi_email = i_email i, pi_status = i_status i,
     pi_expiresAt = i_expiresAt i, pi_lastSentAt = i_lastSentAt i\<rparr>"

definition sendEmployeeInvitation :: "bool \<Rightarrow> string \<Rightarrow> string \<Rightarrow> string \<Rightarrow> unit handler" where
  "sendEmployeeInvitation delivered email companyName token =
     (if delivered
      then modify (\<lambda>w. w\<lparr>outbox := outbox w @ [EmployeeInvitationMail email companyName token]\<rparr>)
      else throw (PlainError ''Email delivery failed''))"

section \<open>Inviting\<close>

definition invite_transaction ::
  "(string \<Rightarrow> string) \<Rightarrow> invite_env \<Rightarrow> actor \<Rightarrow> string \<Rightarrow> date \<Rightarrow> (invitation \<times> string) handler" where
  "invite_transaction sha256 env actor email now = transaction
     (andthen (assertEmployeeCapacity (ie_paymentsEnabled env) (a_companyId actor) 1 now) (\<lambda>_.
      andthen (gets (\<lambda>w. user_exists w email)) (\<lambda>taken.
      if taken then throw (http Conflict ''Email is unavailable'')
      else
      andthen (expireStaleInvitation email now) (\<lambda>_.
      andthen (gets (\<lambda>w. activated_company w (a_companyId actor))) (\<lambda>company.
      case company of
        None \<Rightarrow> throw (http Forbidden ''An activated company is required'')
      | Some c \<Rightarrow>
      if c_platformStatus c = PLATFORM_SUSPENDED
      then throw (http Forbidden ''An activated company is required'')
      else
      andthen (create_invitation (new_invitation sha256 env actor email now)) (\<lambda>invitation.
      return (invitation, c_name c)))))))"

definition invite ::
  "(string \<Rightarrow> string) \<Rightarrow> invite_env \<Rightarrow> actor \<Rightarrow> string \<Rightarrow> date \<Rightarrow> (string \<times> public_invitation) handler" where
  "invite sha256 env actor email now =
     andthen (lift_result (requireOwner actor)) (\<lambda>_.
     catching
       (andthen (invite_transaction sha256 env actor email now) (\<lambda>(invitation, companyName).
        andthen
          (catching (sendEmployeeInvitation (ie_mailed env) email companyName (ie_token env))
             (\<lambda>_. throw (http ServiceUnavailable
                ''The invitation was created but its email could not be sent. Resend it later.'')))
          (\<lambda>_. return (''Invitation created. The employee has been emailed.'',
                      publicInvitation invitation))))
       (\<lambda>error. if isDuplicateKeyError error
                then throw (http Conflict ''Email is unavailable'') else throw error))"

record invitation_page =
  ip_invitations :: "public_invitation list"
  ip_total :: int
  ip_page :: int
  ip_take :: int

definition findPending :: "actor \<Rightarrow> int \<Rightarrow> int \<Rightarrow> date \<Rightarrow> invitation_page handler" where
  "findPending actor page requested now =
     andthen (lift_result (requireOwner actor)) (\<lambda>_.
     let limit = min requested 30;
         q = (\<lambda>i. i_companyId i = a_companyId actor \<and> i_status i = INV_PENDING \<and> i_expiresAt i > now)
     in
     andthen (gets (\<lambda>w. take (nat limit) (drop (nat ((page - 1) * limit))
                (sort_key (\<lambda>i. - int (i_id i)) (filter q (invitations w)))))) (\<lambda>found.
     andthen (gets (\<lambda>w. countDocuments q (invitations w))) (\<lambda>total.
     return \<lparr>ip_invitations = map publicInvitation found, ip_total = total, ip_page = page,
             ip_take = limit\<rparr>)))"

section \<open>Revoking and resending\<close>

definition revoked :: "date \<Rightarrow> invitation \<Rightarrow> invitation" where
  "revoked now i = i\<lparr>i_status := INV_REVOKED, i_revokedAt := Some now, i_tokenHash := None\<rparr>"

definition revoke :: "actor \<Rightarrow> oid \<Rightarrow> date \<Rightarrow> string handler" where
  "revoke actor invitationId now =
     andthen (lift_result (requireOwner actor)) (\<lambda>_.
     let q = (\<lambda>i. i_id i = invitationId \<and> i_companyId i = a_companyId actor
                \<and> i_status i = INV_PENDING) in
     andthen (gets (\<lambda>w. find q (invitations w))) (\<lambda>i.
     if i = None then throw (http NotFound ''Invitation not found'')
     else andthen (modify (\<lambda>w. w\<lparr>invitations := updateOne q (revoked now) (invitations w)\<rparr>)) (\<lambda>_.
          return ''Invitation revoked.'')))"

definition renewed :: "string \<Rightarrow> date \<Rightarrow> invitation \<Rightarrow> invitation" where
  "renewed tokenHash now i = i\<lparr>i_tokenHash := Some tokenHash,
     i_expiresAt := now + INVITATION_TOKEN_TTL_MS, i_lastSentAt := now\<rparr>"

definition resendable :: "actor \<Rightarrow> oid \<Rightarrow> date \<Rightarrow> invitation \<Rightarrow> bool" where
  "resendable actor invitationId now i \<longleftrightarrow> i_id i = invitationId \<and> i_companyId i = a_companyId actor
     \<and> i_status i = INV_PENDING \<and> i_expiresAt i > now
     \<and> i_lastSentAt i \<le> now - INVITATION_RESEND_COOLDOWN_MS"

text \<open>The transaction: the new token under the unique index of the hashes, then the company.\<close>

definition resend_transaction ::
  "string \<Rightarrow> actor \<Rightarrow> oid \<Rightarrow> date \<Rightarrow> (string \<times> string) option handler" where
  "resend_transaction tokenHash actor invitationId now = transaction
     (andthen (gets (\<lambda>w. find (resendable actor invitationId now) (invitations w))) (\<lambda>found.
      case found of
        None \<Rightarrow> return None
      | Some i \<Rightarrow>
          andthen (gets (\<lambda>w. list_ex (\<lambda>j. i_id j \<noteq> i_id i \<and> i_tokenHash j = Some tokenHash)
                     (invitations w))) (\<lambda>duplicate.
          if duplicate then throw (DuplicateKey ''tokenHash'')
          else
          andthen (modify (\<lambda>w. w\<lparr>invitations := updateOne (resendable actor invitationId now)
                     (renewed tokenHash now) (invitations w)\<rparr>)) (\<lambda>_.
          andthen (gets (\<lambda>w. activated_company w (a_companyId actor))) (\<lambda>company.
          return (map_option (\<lambda>c. (i_email i, c_name c)) company))))))"

definition resend ::
  "(string \<Rightarrow> string) \<Rightarrow> invite_env \<Rightarrow> actor \<Rightarrow> oid \<Rightarrow> date \<Rightarrow> string handler" where
  "resend sha256 env actor invitationId now =
     andthen (lift_result (requireOwner actor)) (\<lambda>_.
     andthen (resend_transaction (sha256 (ie_token env)) actor invitationId now) (\<lambda>delivery.
     andthen (case delivery of
         None \<Rightarrow> return ()
       | Some (email, companyName) \<Rightarrow>
           catching (sendEmployeeInvitation (ie_mailed env) email companyName (ie_token env))
             (\<lambda>_. return ())) (\<lambda>_.
     return RESEND_INVITATION_RESPONSE)))"

section \<open>Accepting\<close>

record acceptance =
  ac_token :: string
  ac_fullName :: string
  ac_password :: string

definition accepted :: "date \<Rightarrow> invitation \<Rightarrow> invitation" where
  "accepted now i = i\<lparr>i_status := INV_ACCEPTED, i_acceptedAt := Some now, i_tokenHash := None\<rparr>"

definition new_member ::
  "oid \<Rightarrow> invitation \<Rightarrow> string \<Rightarrow> string \<Rightarrow> date \<Rightarrow> user" where
  "new_member newId i fullName password now =
     \<lparr>u_id = newId, u_email = i_email i, u_fullName = Some fullName, u_password = Some password,
      u_passwordResetTokenHash = None, u_passwordResetExpiresAt = None,
      u_passwordResetRequestedAt = None, u_authVersion = Some 0, u_companyId = i_companyId i,
      u_role = COMPANY_MEMBER, u_avatar = None, u_guardScanFence = 0, u_createdAt = now\<rparr>"

definition create_user :: "user \<Rightarrow> user handler" where
  "create_user u =
     andthen (gets (\<lambda>w. user_exists w (u_email u))) (\<lambda>taken.
     if taken then throw (DuplicateKey ''email'')
     else andthen (modify (\<lambda>w. w\<lparr>users := users w @ [u]\<rparr>)) (\<lambda>_. return u))"

definition accept_transaction ::
  "(string \<Rightarrow> string) \<Rightarrow> (string \<Rightarrow> string) \<Rightarrow> bool \<Rightarrow> oid \<Rightarrow> acceptance \<Rightarrow> date \<Rightarrow> user handler" where
  "accept_transaction sha256 bcrypt paymentsEnabled newId dto now =
     (let tokenHash = sha256 (ac_token dto);
          invalid = http BadRequest ''Invitation is invalid or expired'' in
      transaction
       (andthen (gets (\<lambda>w. find (\<lambda>i. i_tokenHash i = Some tokenHash \<and> i_status i = INV_PENDING
                  \<and> i_expiresAt i > now) (invitations w))) (\<lambda>found.
        case found of
          None \<Rightarrow> throw invalid
        | Some i \<Rightarrow>
        andthen (gets (\<lambda>w. activated_company w (i_companyId i))) (\<lambda>company.
        if (case company of None \<Rightarrow> True | Some c \<Rightarrow> c_platformStatus c = PLATFORM_SUSPENDED)
        then throw (http BadRequest ''Invitation is unavailable'')
        else
        andthen (assertEmployeeCapacity paymentsEnabled (i_companyId i) 0 now) (\<lambda>_.
        andthen (gets (\<lambda>w. user_exists w (i_email i))) (\<lambda>taken.
        if taken then throw (http Conflict ''Unable to accept invitation'')
        else
        let q = (\<lambda>j. i_id j = i_id i \<and> i_companyId j = i_companyId i
                   \<and> i_tokenHash j = Some tokenHash \<and> i_status j = INV_PENDING
                   \<and> i_expiresAt j > now) in
        andthen (gets (\<lambda>w. find q (invitations w))) (\<lambda>again.
        if again = None then throw invalid
        else
        andthen (modify (\<lambda>w. w\<lparr>invitations := updateOne q (accepted now) (invitations w)\<rparr>)) (\<lambda>_.
        create_user (new_member newId i (ac_fullName dto) (bcrypt (ac_password dto)) now)))))))))"

definition accept ::
  "(string \<Rightarrow> string) \<Rightarrow> (string \<Rightarrow> string) \<Rightarrow> bool \<Rightarrow> oid \<Rightarrow> acceptance \<Rightarrow> date \<Rightarrow> string handler" where
  "accept sha256 bcrypt paymentsEnabled newId dto now =
     catching
       (andthen (accept_transaction sha256 bcrypt paymentsEnabled newId dto now) (\<lambda>_.
        return ''Invitation accepted. You can now sign in.''))
       (\<lambda>error. if isDuplicateKeyError error
                then throw (http Conflict ''Unable to accept invitation'') else throw error)"

section \<open>The collection's invariant\<close>

text \<open>
  No two documents conflict on an index, and only pending invitations carry a token.
\<close>

definition invitations_ok :: "invitation list \<Rightarrow> bool" where
  "invitations_ok xs \<longleftrightarrow> sorted_wrt (\<lambda>i j. \<not> conflicts i j) xs
     \<and> (\<forall>i \<in> set xs. i_status i \<noteq> INV_PENDING \<longrightarrow> i_tokenHash i = None)"

lemma conflicts_sym: "conflicts i j \<Longrightarrow> conflicts j i"
  by (auto simp: conflicts_def)

lemma sorted_wrt_updateOne:
  assumes "sorted_wrt R xs" "find q xs = Some d" "\<And>y. R d y \<Longrightarrow> y \<in> set xs \<Longrightarrow> R (g d) y"
    "\<And>y. R y d \<Longrightarrow> y \<in> set xs \<Longrightarrow> R y (g d)"
  shows "sorted_wrt R (updateOne q g xs)"
  using assms
proof (induction xs)
  case (Cons x xs)
  show ?case
  proof (cases "q x")
    case False
    then have f: "find q xs = Some d" using Cons.prems(2) by simp
    have "R x y" if y: "y \<in> set (updateOne q g xs)" for y
    proof -
      have "y \<in> insert (g d) (set xs)" using y set_updateOne [OF f] by blast
      then show ?thesis using Cons.prems f by (auto dest: find_SomeD)
    qed
    then show ?thesis using False Cons f by simp
  qed (use Cons in auto)
qed simp

lemma invitations_ok_updateOne:
  assumes ok: "invitations_ok xs" and f: "find q xs = Some d"
    and c: "\<And>y. \<not> conflicts d y \<Longrightarrow> y \<in> set xs \<Longrightarrow> \<not> conflicts (g d) y"
    and t: "i_status (g d) \<noteq> INV_PENDING \<Longrightarrow> i_tokenHash (g d) = None"
  shows "invitations_ok (updateOne q g xs)"
proof -
  have "sorted_wrt (\<lambda>i j. \<not> conflicts i j) (updateOne q g xs)"
    using ok f c by (intro sorted_wrt_updateOne) (auto simp: invitations_ok_def dest: conflicts_sym)
  then show ?thesis
    using ok t f set_updateOne [OF f] by (auto simp: invitations_ok_def)
qed

lemma invitations_ok_expire:
  assumes "invitations_ok xs"
  shows "invitations_ok (updateMany q expire xs)"
proof -
  have "sorted_wrt (\<lambda>i j. \<not> conflicts (if q i then expire i else i) (if q j then expire j else j)) xs"
  proof (rule sorted_wrt_mono_rel)
    show "sorted_wrt (\<lambda>i j. \<not> conflicts i j) xs" using assms by (simp add: invitations_ok_def)
  qed (auto simp: conflicts_def expire_def split: if_splits)
  then show ?thesis using assms
    by (auto simp: invitations_ok_def updateMany_def sorted_wrt_map expire_def)
qed

lemma invitations_ok_append:
  "invitations_ok xs \<Longrightarrow> find (conflicts i) xs = None \<Longrightarrow> i_status i = INV_PENDING \<Longrightarrow>
     invitations_ok (xs @ [i])"
  by (auto simp: invitations_ok_def sorted_wrt_append find_None_iff dest: conflicts_sym)

text \<open>A key of the indexes finds its document.\<close>

lemma invitations_ok_distinct_ids: "invitations_ok xs \<Longrightarrow> distinct (map i_id xs)"
  by (induction xs) (auto simp: invitations_ok_def conflicts_def image_iff)

section \<open>Outcomes\<close>

definition expire_stale :: "string \<Rightarrow> date \<Rightarrow> invitation list \<Rightarrow> invitation list" where
  "expire_stale email now xs =
     updateMany (\<lambda>i. i_email i = email \<and> i_status i = INV_PENDING \<and> i_expiresAt i \<le> now) expire xs"

text \<open>The capacity check, as a condition: it grants and leaves the lock, or refuses.\<close>

definition capacity :: "bool \<Rightarrow> oid \<Rightarrow> int \<Rightarrow> date \<Rightarrow> world \<Rightarrow> bool" where
  "capacity e c n at w \<longleftrightarrow> \<not> isl (fst (assertEmployeeCapacity e c n at w))"

lemma assertEmployeeCapacity_capacity:
  "assertEmployeeCapacity e c n at w = (Inr u, w') \<longleftrightarrow> capacity e c n at w \<and> w' = locked w c"
proof
  assume r: "assertEmployeeCapacity e c n at w = (Inr u, w')"
  then show "capacity e c n at w \<and> w' = locked w c"
    using assertEmployeeCapacity_fits [OF r] by (simp add: capacity_def)
next
  assume r: "capacity e c n at w \<and> w' = locked w c"
  then obtain t where t: "assertEmployeeCapacity e c n at w = (Inr (), t)"
    by (metis capacity_def old.unit.exhaust prod.collapse sum.collapse(2))
  with r assertEmployeeCapacity_fits [OF t] show "assertEmployeeCapacity e c n at w = (Inr u, w')"
    by simp
qed

lemma capacity_fits: "capacity e c n at w \<Longrightarrow> within_seats w c n at \<and> 0 \<le> n"
  by (auto simp: within_seats_def target_plan_bump dest!: assertEmployeeCapacity_capacity [THEN iffD2, OF conjI, OF _ refl, THEN assertEmployeeCapacity_fits])

lemma invite_transaction_Inr:
  "invite_transaction sha env actor email now w = (Inr p, w') \<Longrightarrow>
    \<exists>c. activated_company w (a_companyId actor) = Some c \<and> c_platformStatus c \<noteq> PLATFORM_SUSPENDED
      \<and> capacity (ie_paymentsEnabled env) (a_companyId actor) 1 now w
      \<and> \<not> user_exists w email
      \<and> find (conflicts (new_invitation sha env actor email now)) (expire_stale email now (invitations w)) = None
      \<and> p = (new_invitation sha env actor email now, c_name c)
      \<and> w' = (locked w (a_companyId actor))\<lparr>invitations :=
            expire_stale email now (invitations w) @ [new_invitation sha env actor email now]\<rparr>"
  by (auto simp: invite_transaction_def action_simps create_invitation_def expireStaleInvitation_def
      expire_stale_def activated_company_def user_exists_def assertEmployeeCapacity_capacity
      split: if_splits option.splits)

lemma sendEmployeeInvitation_state:
  "sendEmployeeInvitation d e c k w = (r, w') \<Longrightarrow>
     w' = (if d then w\<lparr>outbox := outbox w @ [EmployeeInvitationMail e c k]\<rparr> else w)
     \<and> (\<exists>x. r = (if d then Inr () else Inl x))"
  by (cases r) (auto simp: sendEmployeeInvitation_def action_simps split: if_splits)

lemma invite_outcome:
  assumes "invite sha env actor email now w = (r, w')"
  shows "(w' = w \<and> (\<exists>e. r = Inl e)) \<or>
    (a_role actor = COMPANY_OWNER \<and> (\<exists>p w1. invite_transaction sha env actor email now w = (Inr p, w1)
      \<and> w' = (if ie_mailed env
              then w1\<lparr>outbox := outbox w1 @ [EmployeeInvitationMail email (snd p) (ie_token env)]\<rparr>
              else w1)
      \<and> (if ie_mailed env
         then r = Inr (''Invitation created. The employee has been emailed.'', publicInvitation (fst p))
         else \<exists>e. r = Inl e)))"
proof (cases "a_role actor = COMPANY_OWNER")
  case False
  then show ?thesis using assms
    by (auto simp: invite_def andthen_def lift_result_def requireOwner_def require_def)
next
  case True
  obtain q w1 where t: "invite_transaction sha env actor email now w = (q, w1)" by (metis prod.collapse)
  show ?thesis
  proof (cases q)
    case (Inl e)
    then have "w1 = w" using t by (simp add: invite_transaction_def action_simps)
    then show ?thesis using assms True t Inl
      by (auto simp: invite_def andthen_def lift_result_def requireOwner_def require_def catching_def
          throw_def split: if_splits)
  next
    case (Inr p)
    then show ?thesis using assms True t
      by (auto simp: invite_def andthen_def lift_result_def requireOwner_def require_def catching_def
          throw_def return_def sendEmployeeInvitation_def modify_def split: prod.splits if_splits)
  qed
qed

lemma revoke_state:
  assumes "revoke actor i now w = (r, w')"
  shows "w' = w \<or> (\<exists>d. find (\<lambda>j. i_id j = i \<and> i_companyId j = a_companyId actor
        \<and> i_status j = INV_PENDING) (invitations w) = Some d
    \<and> w' = w\<lparr>invitations := updateOne (\<lambda>j. i_id j = i \<and> i_companyId j = a_companyId actor
        \<and> i_status j = INV_PENDING) (revoked now) (invitations w)\<rparr>)"
  using assms by (cases r) (auto simp: revoke_def Let_def action_simps split: if_splits)

lemma resend_transaction_state:
  assumes "resend_transaction h actor i now w = (r, w')"
  shows "w' = w \<or> (\<exists>d. find (resendable actor i now) (invitations w) = Some d
    \<and> \<not> list_ex (\<lambda>j. i_id j \<noteq> i_id d \<and> i_tokenHash j = Some h) (invitations w)
    \<and> w' = w\<lparr>invitations := updateOne (resendable actor i now) (renewed h now) (invitations w)\<rparr>)"
  using assms
  by (cases r)
    (auto simp: resend_transaction_def action_simps split: option.splits if_splits)

lemma resend_state:
  assumes "resend sha env actor i now w = (r, w')"
  shows "w' = w \<or> (\<exists>d w1 ob. resend_transaction (sha (ie_token env)) actor i now w = (Inr d, w1)
    \<and> w' = w1\<lparr>outbox := ob\<rparr>)"
proof (cases "a_role actor = COMPANY_OWNER")
  case False
  then show ?thesis using assms
    by (auto simp: resend_def andthen_def lift_result_def requireOwner_def require_def)
next
  case True
  obtain q w1 where t: "resend_transaction (sha (ie_token env)) actor i now w = (q, w1)"
    by (metis prod.collapse)
  show ?thesis
  proof (cases q)
    case (Inl e)
    then have "w1 = w" using t by (simp add: resend_transaction_def action_simps)
    then show ?thesis using assms t Inl True
      by (auto simp: resend_def andthen_def lift_result_def requireOwner_def require_def)
  next
    case (Inr d)
    have "\<exists>ob. w' = w1\<lparr>outbox := ob\<rparr>"
    proof (cases d)
      case None
      then have "w' = w1\<lparr>outbox := outbox w1\<rparr>" using assms t Inr True
        by (auto simp: resend_def andthen_def lift_result_def requireOwner_def require_def return_def)
      then show ?thesis ..
    next
      case (Some p)
      then have "w' = w1\<lparr>outbox := outbox w1\<rparr> \<or>
          w' = w1\<lparr>outbox := outbox w1 @ [EmployeeInvitationMail (fst p) (snd p) (ie_token env)]\<rparr>"
        using assms t Inr True
        by (auto simp: resend_def andthen_def lift_result_def requireOwner_def require_def return_def
            catching_def sendEmployeeInvitation_def modify_def throw_def split: if_splits prod.splits)
      then show ?thesis by blast
    qed
    then show ?thesis using t Inr by blast
  qed
qed

lemma accept_transaction_Inr:
  assumes "accept_transaction sha bcrypt e newId dto now w = (Inr u, w')"
  shows "\<exists>i. find (\<lambda>i. i_tokenHash i = Some (sha (ac_token dto)) \<and> i_status i = INV_PENDING
        \<and> i_expiresAt i > now) (invitations w) = Some i
    \<and> capacity e (i_companyId i) 0 now w \<and> \<not> user_exists w (i_email i)
    \<and> (\<exists>c. activated_company w (i_companyId i) = Some c \<and> c_platformStatus c \<noteq> PLATFORM_SUSPENDED)
    \<and> u = new_member newId i (ac_fullName dto) (bcrypt (ac_password dto)) now
    \<and> w' = (locked w (i_companyId i))\<lparr>invitations := updateOne (\<lambda>j. i_id j = i_id i
          \<and> i_companyId j = i_companyId i \<and> i_tokenHash j = Some (sha (ac_token dto))
          \<and> i_status j = INV_PENDING \<and> i_expiresAt j > now) (accepted now) (invitations w),
        users := users w @ [u]\<rparr>"
  using assms
  by (auto simp: accept_transaction_def Let_def action_simps assertEmployeeCapacity_capacity
      create_user_def user_exists_def split: if_splits option.splits)

lemma accept_state:
  assumes "accept sha bcrypt e newId dto now w = (r, w')"
  shows "(w' = w \<and> (\<exists>d. r = Inl d)) \<or>
    (\<exists>u m. r = Inr m \<and> accept_transaction sha bcrypt e newId dto now w = (Inr u, w'))"
proof -
  obtain q w1 where t: "accept_transaction sha bcrypt e newId dto now w = (q, w1)"
    by (metis prod.collapse)
  show ?thesis
  proof (cases q)
    case (Inl d)
    then have "w1 = w" using t by (simp add: accept_transaction_def Let_def action_simps)
    then show ?thesis using assms t Inl
      by (auto simp: accept_def andthen_def catching_def throw_def split: if_splits)
  next
    case (Inr u)
    then show ?thesis using assms t
      by (auto simp: accept_def andthen_def catching_def return_def)
  qed
qed

section \<open>Steps\<close>

text \<open>
  Everything that writes the collection: the four handlers, by any actor with any outcome, and
  the TTL index that purges expired documents. \<open>invitation_step k\<close> are the steps in which no
  token with hash \<open>k\<close> is issued.
\<close>

inductive invitation_step ::
  "(string \<Rightarrow> string) \<Rightarrow> (string \<Rightarrow> string) \<Rightarrow> string \<Rightarrow> world \<Rightarrow> world \<Rightarrow> bool" for sha bcrypt k where
  step_invite: "invite sha env actor email now w = (r, w') \<Longrightarrow> sha (ie_token env) \<noteq> k \<Longrightarrow>
     invitation_step sha bcrypt k w w'"
| step_revoke: "revoke actor i now w = (r, w') \<Longrightarrow> invitation_step sha bcrypt k w w'"
| step_resend: "resend sha env actor i now w = (r, w') \<Longrightarrow> sha (ie_token env) \<noteq> k \<Longrightarrow>
     invitation_step sha bcrypt k w w'"
| step_accept: "accept sha bcrypt e newId dto now w = (r, w') \<Longrightarrow> invitation_step sha bcrypt k w w'"
| step_purge: "w' = w\<lparr>invitations := filter (\<lambda>i. i_expiresAt i > t) (invitations w)\<rparr> \<Longrightarrow>
     invitation_step sha bcrypt k w w'"

text \<open>What a handler does to the list of invitations, in one case distinction.\<close>

lemma invitation_step_cases:
  assumes "invitation_step sha bcrypt k w w'"
  obtains (same) "invitations w' = invitations w"
  | (added) env actor email now where "sha (ie_token env) \<noteq> k"
      "find (conflicts (new_invitation sha env actor email now)) (expire_stale email now (invitations w)) = None"
      "invitations w' = expire_stale email now (invitations w) @ [new_invitation sha env actor email now]"
  | (closed) q g d where "invitations w' = updateOne q g (invitations w)"
      "find q (invitations w) = Some d" "(\<exists>now. g = revoked now) \<or> (\<exists>now. g = accepted now)"
  | (renewed) q h now d where "invitations w' = updateOne q (renewed h now) (invitations w)"
      "find q (invitations w) = Some d" "h \<noteq> k" "i_status d = INV_PENDING"
      "\<not> list_ex (\<lambda>j. i_id j \<noteq> i_id d \<and> i_tokenHash j = Some h) (invitations w)"
  | (purged) t where "invitations w' = filter (\<lambda>i. i_expiresAt i > t) (invitations w)"
  using assms
proof (cases rule: invitation_step.cases)
  case (step_invite env actor email now r)
  then show ?thesis using invite_outcome [OF step_invite(1)] same added
    by (fastforce dest: invite_transaction_Inr split: if_splits)
next
  case (step_revoke actor i now r)
  then show ?thesis using revoke_state [OF step_revoke] same closed by fastforce
next
  case (step_resend env actor i now r)
  from resend_state [OF step_resend(1)] show ?thesis
  proof
    assume "w' = w"
    then show ?thesis using same by simp
  next
    assume "\<exists>d w1 ob. resend_transaction (sha (ie_token env)) actor i now w = (Inr d, w1)
      \<and> w' = w1\<lparr>outbox := ob\<rparr>"
    then obtain d w1 ob where t: "resend_transaction (sha (ie_token env)) actor i now w = (Inr d, w1)"
      and w': "w' = w1\<lparr>outbox := ob\<rparr>" by blast
    from resend_transaction_state [OF t] show ?thesis
    proof
      assume "w1 = w"
      then show ?thesis using same w' by simp
    next
      assume "\<exists>d. find (resendable actor i now) (invitations w) = Some d
        \<and> \<not> list_ex (\<lambda>j. i_id j \<noteq> i_id d \<and> i_tokenHash j = Some (sha (ie_token env))) (invitations w)
        \<and> w1 = w\<lparr>invitations := updateOne (resendable actor i now)
            (renewed (sha (ie_token env)) now) (invitations w)\<rparr>"
      then obtain d where d: "find (resendable actor i now) (invitations w) = Some d"
        "\<not> list_ex (\<lambda>j. i_id j \<noteq> i_id d \<and> i_tokenHash j = Some (sha (ie_token env))) (invitations w)"
        "w1 = w\<lparr>invitations := updateOne (resendable actor i now)
            (renewed (sha (ie_token env)) now) (invitations w)\<rparr>" by blast
      then have "i_status d = INV_PENDING" by (auto simp: resendable_def dest: find_SomeD)
      then show ?thesis
        using renewed [of "resendable actor i now" "sha (ie_token env)" now d] d w' step_resend(2)
        by simp
    qed
  qed
next
  case (step_accept e newId dto now r)
  from accept_state [OF step_accept] show ?thesis
  proof
    assume "w' = w \<and> (\<exists>d. r = Inl d)"
    then show ?thesis using same by simp
  next
    assume "\<exists>u m. r = Inr m \<and> accept_transaction sha bcrypt e newId dto now w = (Inr u, w')"
    then obtain u where u: "accept_transaction sha bcrypt e newId dto now w = (Inr u, w')" by blast
    from accept_transaction_Inr [OF u] obtain i where
      i: "find (\<lambda>i. i_tokenHash i = Some (sha (ac_token dto)) \<and> i_status i = INV_PENDING
        \<and> i_expiresAt i > now) (invitations w) = Some i"
      and w': "invitations w' = updateOne (\<lambda>j. i_id j = i_id i
          \<and> i_companyId j = i_companyId i \<and> i_tokenHash j = Some (sha (ac_token dto))
          \<and> i_status j = INV_PENDING \<and> i_expiresAt j > now) (accepted now) (invitations w)"
      by auto
    let ?q = "\<lambda>j. i_id j = i_id i \<and> i_companyId j = i_companyId i
        \<and> i_tokenHash j = Some (sha (ac_token dto)) \<and> i_status j = INV_PENDING \<and> i_expiresAt j > now"
    have "i \<in> set (invitations w)" "?q i" using find_SomeD [OF i] by auto
    then obtain d where "find ?q (invitations w) = Some d"
      by (cases "find ?q (invitations w)") (auto simp: find_None_iff)
    then show ?thesis using closed [OF w'] by blast
  qed
next
  case (step_purge t)
  then show ?thesis using purged by simp
qed

lemma closed_status:
  "(\<exists>now. g = revoked now) \<or> (\<exists>now. g = accepted now) \<Longrightarrow>
     i_status (g d) \<noteq> INV_PENDING \<and> i_tokenHash (g d) = None \<and> i_id (g d) = i_id d
     \<and> i_email (g d) = i_email d"
  by (auto simp: revoked_def accepted_def)

text \<open>
  The invitation collection stays consistent: through any step - inviting, revoking,
  resending, accepting, whatever its outcome, or the TTL purge - no two documents share an
  identifier, a token hash, or an address while both are pending, and an invitation that is no
  longer pending has no token left.
\<close>

theorem invitation_step_keeps_ok:
  assumes "invitation_step sha bcrypt k w w'" "invitations_ok (invitations w)"
  shows "invitations_ok (invitations w')"
  using assms(1)
proof (cases rule: invitation_step_cases)
  case same
  then show ?thesis using assms(2) by simp
next
  case (added env actor email now)
  have "invitations_ok (expire_stale email now (invitations w))"
    using invitations_ok_expire [OF assms(2)] by (simp add: expire_stale_def)
  then show ?thesis unfolding added(3)
    by (rule invitations_ok_append [OF _ added(2)]) (simp add: new_invitation_def)
next
  case (closed q g d)
  note s = closed_status [OF closed(3), of d]
  show ?thesis unfolding closed(1)
    by (rule invitations_ok_updateOne [OF assms(2) closed(2)]) (use s in \<open>auto simp: conflicts_def\<close>)
next
  case (renewed q h now d)
  show ?thesis unfolding renewed(1)
    by (rule invitations_ok_updateOne [OF assms(2) renewed(2)])
      (use renewed(4,5) in \<open>auto simp: conflicts_def renewed_def list_ex_iff\<close>)
next
  case (purged t)
  then show ?thesis using assms(2)
    by (auto simp: invitations_ok_def intro: sorted_wrt_filter)
qed

definition example_invitation :: invitation where
  "example_invitation = \<lparr>i_id = 9, i_companyId = 7, i_invitedBy = 1, i_email = ''e@x.io'',
     i_status = INV_PENDING, i_tokenHash = Some ''t'', i_expiresAt = 1709300000000,
     i_lastSentAt = 1709000000000, i_acceptedAt = None, i_revokedAt = None, i_createdAt = 0\<rparr>"

definition example_invited_world :: world where
  "example_invited_world = empty_world\<lparr>invitations := [example_invitation],
     companies := [\<lparr>c_id = 7, c_name = ''Acme'', c_country = ''DE'', c_industry = ''IT'', c_activatedAt = Some 0,
        c_platformStatus = PLATFORM_ACTIVE,
        c_platformStatusReason = None, c_platformStatusChangedAt = None, c_platformStatusChangedBy = None,
        c_guardScanFence = 0\<rparr>],
     subscriptions := [subscription_document 1 7 BASIC 1706659200000 1706659200000]\<rparr>"

theorem invitation_step_keeps_ok_witness:
  "invitations_ok (invitations (snd (revoke \<lparr>a_id = 1, a_companyId = 7, a_role = COMPANY_OWNER\<rparr> 9
     1709200000000 example_invited_world)))"
proof -
  let ?r = "revoke \<lparr>a_id = 1, a_companyId = 7, a_role = COMPANY_OWNER\<rparr> 9 1709200000000
     example_invited_world"
  have e: "?r = (fst ?r, snd ?r)" by simp
  have o: "invitations_ok (invitations example_invited_world)"
    by (simp add: invitations_ok_def example_invited_world_def example_invitation_def)
  show ?thesis
    by (rule invitation_step_keeps_ok [OF step_revoke [OF e, where sha = id and bcrypt = id and k = "[]"] o])
qed

section \<open>An invitation is accepted once\<close>

definition live_invitation :: "world \<Rightarrow> string \<Rightarrow> bool" where
  "live_invitation w k \<longleftrightarrow> list_ex (\<lambda>i. i_tokenHash i = Some k) (invitations w)"

text \<open>\<open>accept\<close>, as an attempt to spend the token with a given hash.\<close>

definition spend_invitation ::
  "(string \<Rightarrow> string) \<Rightarrow> (string \<Rightarrow> string) \<Rightarrow> string \<Rightarrow> bool \<times> oid \<times> acceptance \<times> date \<Rightarrow> string handler"
where
  "spend_invitation sha bcrypt k attempt =
     (case attempt of (e, newId, dto, now) \<Rightarrow>
        if sha (ac_token dto) = k then accept sha bcrypt e newId dto now
        else throw (PlainError ''another token''))"

lemma conflict_free_same_token:
  "invitations_ok xs \<Longrightarrow> i \<in> set xs \<Longrightarrow> j \<in> set xs \<Longrightarrow> i_tokenHash i = Some k \<Longrightarrow>
     i_tokenHash j = Some k \<Longrightarrow> i = j"
  by (induction xs) (auto simp: invitations_ok_def conflicts_def)

lemma accept_kills:
  assumes "invitations_ok (invitations w)" "accept sha bcrypt e newId dto now w = (Inr m, w')"
  shows "\<not> live_invitation w' (sha (ac_token dto))" "live_invitation w (sha (ac_token dto))"
proof -
  let ?k = "sha (ac_token dto)"
  from accept_state [OF assms(2)] obtain u where
    "accept_transaction sha bcrypt e newId dto now w = (Inr u, w')" by auto
  from accept_transaction_Inr [OF this] obtain i where
    i: "find (\<lambda>i. i_tokenHash i = Some ?k \<and> i_status i = INV_PENDING \<and> i_expiresAt i > now)
      (invitations w) = Some i"
    and w': "invitations w' = updateOne (\<lambda>j. i_id j = i_id i \<and> i_companyId j = i_companyId i
      \<and> i_tokenHash j = Some ?k \<and> i_status j = INV_PENDING \<and> i_expiresAt j > now) (accepted now)
      (invitations w)" by auto
  have ii: "i \<in> set (invitations w)" "i_tokenHash i = Some ?k" using find_SomeD [OF i] by auto
  then show "live_invitation w ?k" by (auto simp: live_invitation_def list_ex_iff)
  define q :: "invitation \<Rightarrow> bool" where "q = (\<lambda>j. i_id j = i_id i \<and> i_companyId j = i_companyId i
      \<and> i_tokenHash j = Some ?k \<and> i_status j = INV_PENDING \<and> i_expiresAt j > now)"
  have qi: "q i" using find_SomeD [OF i] by (simp add: q_def)
  have gone: "\<forall>j \<in> set (updateOne q (accepted now) xs). i_tokenHash j \<noteq> Some ?k"
    if "invitations_ok xs" "\<forall>j \<in> set xs. i_tokenHash j = Some ?k \<longrightarrow> j = i" for xs :: "invitation list"
    using that
  proof (induction xs)
    case (Cons x xs)
    have ok: "invitations_ok xs" "\<forall>j \<in> set xs. \<not> conflicts x j"
      using Cons.prems(1) by (auto simp: invitations_ok_def)
    show ?case
    proof (cases "x = i")
      case True
      have "i_tokenHash j \<noteq> Some ?k" if "j \<in> set xs" for j
      proof -
        have "j \<noteq> i" using ok(2) that True by (auto simp: conflicts_def)
        then show ?thesis using Cons.prems(2) that by auto
      qed
      then show ?thesis using True qi by (simp add: accepted_def)
    next
      case False
      then have "i_tokenHash x \<noteq> Some ?k" using Cons.prems(2) by auto
      moreover from this have "\<not> q x" by (simp add: q_def)
      ultimately show ?thesis using Cons.IH [OF ok(1)] Cons.prems(2) by simp
    qed
  qed simp
  have "\<forall>j \<in> set (invitations w). i_tokenHash j = Some ?k \<longrightarrow> j = i"
    using conflict_free_same_token [OF assms(1) _ ii(1) _ ii(2)] by blast
  then show "\<not> live_invitation w' ?k"
    using gone [OF assms(1)] by (simp add: live_invitation_def list_ex_iff w' q_def)
qed

lemma other_steps_issue_no_token:
  assumes "invitation_step sha bcrypt k w w'" "\<not> live_invitation w k"
  shows "\<not> live_invitation w' k"
  using assms(1)
proof (cases rule: invitation_step_cases)
  case (added env actor email now)
  then show ?thesis using assms(2)
    by (auto simp: live_invitation_def list_ex_iff expire_stale_def new_invitation_def
        set_updateMany expire_def split: if_splits)
next
  case (closed q g d)
  then show ?thesis using assms(2) closed_status [OF closed(3), of d] set_updateOne [OF closed(2), of g]
    by (fastforce simp: live_invitation_def list_ex_iff)
next
  case (renewed q h now d)
  then show ?thesis using assms(2) set_updateOne [OF renewed(2), of "renewed h now"]
    by (fastforce simp: live_invitation_def list_ex_iff renewed_def)
qed (use assms(2) in \<open>auto simp: live_invitation_def list_ex_iff\<close>)

interpretation invitation_token: one_time_token live_invitation
    "\<lambda>w. invitations_ok (invitations w)" "spend_invitation sha bcrypt" "invitation_step sha bcrypt"
  for sha bcrypt
proof
  fix k i s x t
  assume s: "spend_invitation sha bcrypt k i s = (Inr x, t)"
  obtain e n d now where i: "i = (e, n, d, now)" by (cases i)
  have a: "accept sha bcrypt e n d now s = (Inr x, t)" "sha (ac_token d) = k"
    using s by (auto simp: spend_invitation_def i action_simps split: if_splits)
  from accept_state [OF a(1)] obtain u where "accept_transaction sha bcrypt e n d now s = (Inr u, t)"
    by auto
  from accept_transaction_Inr [OF this] show "live_invitation s k"
    by (auto simp: live_invitation_def list_ex_iff a(2) dest!: find_SomeD)
next
  fix s k i x t
  assume o: "invitations_ok (invitations s)" and s: "spend_invitation sha bcrypt k i s = (Inr x, t)"
  obtain e n d now where i: "i = (e, n, d, now)" by (cases i)
  have a: "accept sha bcrypt e n d now s = (Inr x, t)" "sha (ac_token d) = k"
    using s by (auto simp: spend_invitation_def i action_simps split: if_splits)
  show "\<not> live_invitation t k" using accept_kills(1) [OF o a(1)] a(2) by simp
next
  fix k s t
  assume "invitation_step sha bcrypt k s t" "\<not> live_invitation s k"
  then show "\<not> live_invitation t k" by (rule other_steps_issue_no_token)
qed

text \<open>
  C6. An invitation is accepted once: after a successful acceptance, whatever steps follow -
  other invitations, resends with other tokens, revocations, acceptances, purges, in any
  order and number - every further acceptance with the same token fails.
\<close>

theorem invitation_accepted_once:
  assumes "invitations_ok (invitations w)"
    and "accept sha bcrypt e newId dto now w = (Inr m, w1)"
    and "(invitation_step sha bcrypt (sha (ac_token dto)))\<^sup>*\<^sup>* w1 w2"
    and "ac_token dto2 = ac_token dto"
  shows "\<exists>d w3. accept sha bcrypt e2 newId2 dto2 now2 w2 = (Inl d, w3)"
proof -
  have "spend_invitation sha bcrypt (sha (ac_token dto)) (e, newId, dto, now) w = (Inr m, w1)"
    using assms(2) by (simp add: spend_invitation_def)
  from invitation_token.spent_once [OF assms(1) this assms(3), of "(e2, newId2, dto2, now2)"]
  show ?thesis using assms(4) by (simp add: spend_invitation_def)
qed

theorem invitation_accepted_once_witness:
  "\<exists>d w3. accept id id False 4 \<lparr>ac_token = ''t'', ac_fullName = ''E'', ac_password = ''p''\<rparr> 1709200000001
     (snd (accept id id False 3 \<lparr>ac_token = ''t'', ac_fullName = ''E'', ac_password = ''p''\<rparr>
        1709200000000 example_invited_world)) = (Inl d, w3)"
proof -
  let ?d = "\<lparr>ac_token = ''t'', ac_fullName = ''E'', ac_password = ''p''\<rparr>"
  let ?r = "accept id id False 3 ?d 1709200000000 example_invited_world"
  have "\<not> isl (fst ?r)" by code_simp
  then have e: "?r = (Inr (projr (fst ?r)), snd ?r)" by (metis prod.collapse sum.collapse(2))
  have o: "invitations_ok (invitations example_invited_world)"
    by (simp add: invitations_ok_def example_invited_world_def example_invitation_def)
  show ?thesis by (rule invitation_accepted_once [OF o e rtranclp.rtrancl_refl refl])
qed

section \<open>Seats\<close>

lemma same_plans_fields [simp]:
  "same_plans w (t\<lparr>users := u, invitations := i\<rparr>) b = same_plans w t b"
  "same_plans w (t\<lparr>invitations := i\<rparr>) b = same_plans w t b"
  "same_plans w (t\<lparr>invitations := i, users := u\<rparr>) b = same_plans w t b"
  "same_plans w (t\<lparr>outbox := ob\<rparr>) b = same_plans w t b"
  by (simp_all add: same_plans_def plans_of_def subscription_of_def)

lemma within_seats_outbox [simp]: "within_seats (w\<lparr>outbox := ob\<rparr>) c n t = within_seats w c n t"
  by (simp add: within_seats_def subscription_of_def employee_count_def pending_invitations_def)

lemma pending_expire_stale:
  "countDocuments (\<lambda>i. i_companyId i = c \<and> i_status i = INV_PENDING \<and> i_expiresAt i > now)
     (expire_stale email now xs)
   = countDocuments (\<lambda>i. i_companyId i = c \<and> i_status i = INV_PENDING \<and> i_expiresAt i > now) xs"
  unfolding expire_stale_def by (rule count_updateMany_frame) (auto simp: expire_def)

lemma invite_transaction_seats:
  assumes t: "invite_transaction sha env actor email now w = (Inr p, w')" and s: "within_seats w c 0 now"
  shows "within_seats w' c 0 now"
proof -
  let ?a = "a_companyId actor"
  from invite_transaction_Inr [OF t] have cap: "capacity (ie_paymentsEnabled env) ?a 1 now w"
    and w': "w' = (locked w ?a)\<lparr>invitations :=
      expire_stale email now (invitations w) @ [new_invitation sha env actor email now]\<rparr>" by auto
  have p: "same_plans w w' b" for b by (simp add: w')
  have u: "seats_used w' (b, now) = seats_used w (b, now) + (if b = ?a then 1 else 0)" for b
    by (simp add: seats_used_def w' employee_count_def pending_invitations_def count_append
        pending_expire_stale collection_simps new_invitation_def INVITATION_TOKEN_TTL_MS_def)
  show ?thesis
  proof (cases "c = ?a")
    case True
    then show ?thesis
      using seat_quota.admitted_use [of w "(?a, now)" 1 w'] capacity_fits [OF cap] p u by simp
  next
    case False
    then show ?thesis using seat_quota.release [of w "(c, now)" 0 w'] s p u by simp
  qed
qed

text \<open>
  Inviting never exceeds the seats: if a company's members and pending invitations fit
  its current and its pending plan, they still do after any invitation, by any owner, whatever
  the delivery of the mail.
\<close>

theorem invite_keeps_seats: "keeps (\<lambda>w. within_seats w c 0 now) (invite sha env actor email now)"
proof (rule keepsI)
  fix w r w' assume s: "within_seats w c 0 now" and i: "invite sha env actor email now w = (r, w')"
  from invite_outcome [OF i] show "within_seats w' c 0 now"
  proof (elim disjE conjE exE)
    fix p w1 assume t: "invite_transaction sha env actor email now w = (Inr p, w1)"
      and w': "w' = (if ie_mailed env
        then w1\<lparr>outbox := outbox w1 @ [EmployeeInvitationMail email (snd p) (ie_token env)]\<rparr> else w1)"
    show ?thesis using invite_transaction_seats [OF t s] by (simp add: w')
  qed (use s in simp)
qed

text \<open>
  Accepting turns an invitation into a member: on success exactly one user is added, a
  member of the inviting company with the invited address and the hashed password, no user
  had that address, the company is active, and the company uses as many seats as before; a
  failure writes nothing.
\<close>

theorem accept_creates_member:
  assumes a: "accept sha bcrypt e newId dto now w = (r, w')"
    and ok: "invitations_ok (invitations w)"
  shows "(w' = w \<and> (\<exists>d. r = Inl d)) \<or>
    (\<exists>i u. i \<in> set (invitations w) \<and> i_tokenHash i = Some (sha (ac_token dto))
      \<and> i_status i = INV_PENDING \<and> now < i_expiresAt i
      \<and> users w' = users w @ [u] \<and> u_email u = i_email i \<and> u_companyId u = i_companyId i
      \<and> u_role u = COMPANY_MEMBER \<and> u_password u = Some (bcrypt (ac_password dto))
      \<and> \<not> user_exists w (i_email i) \<and> activated_company w (i_companyId i) \<noteq> None
      \<and> seats_used w' (i_companyId i, now) = seats_used w (i_companyId i, now)
      \<and> find (\<lambda>j. i_id j = i_id i) (invitations w') = Some (accepted now i))"
proof -
  from accept_state [OF a] show ?thesis
  proof
    assume "\<exists>u m. r = Inr m \<and> accept_transaction sha bcrypt e newId dto now w = (Inr u, w')"
    then obtain u where t: "accept_transaction sha bcrypt e newId dto now w = (Inr u, w')" by blast
    let ?k = "sha (ac_token dto)"
    from accept_transaction_Inr [OF t] obtain i where
      i: "find (\<lambda>i. i_tokenHash i = Some ?k \<and> i_status i = INV_PENDING \<and> i_expiresAt i > now)
        (invitations w) = Some i"
      and rest: "\<not> user_exists w (i_email i)" "activated_company w (i_companyId i) \<noteq> None"
        "u = new_member newId i (ac_fullName dto) (bcrypt (ac_password dto)) now"
      and w': "w' = (locked w (i_companyId i))\<lparr>invitations := updateOne (\<lambda>j. i_id j = i_id i
          \<and> i_companyId j = i_companyId i \<and> i_tokenHash j = Some ?k
          \<and> i_status j = INV_PENDING \<and> i_expiresAt j > now) (accepted now) (invitations w),
        users := users w @ [u]\<rparr>"
      by auto
    let ?q = "\<lambda>j. i_id j = i_id i \<and> i_companyId j = i_companyId i \<and> i_tokenHash j = Some ?k
        \<and> i_status j = INV_PENDING \<and> i_expiresAt j > now"
    have ii: "i \<in> set (invitations w)" "?q i" using find_SomeD [OF i] by auto
    obtain d where d: "find ?q (invitations w) = Some d"
      using ii by (cases "find ?q (invitations w)") (auto simp: find_None_iff)
    have "d = i"
      using conflict_free_same_token [OF ok _ ii(1), of d ?k] find_SomeD [OF d] ii(2) by simp
    then have d: "find ?q (invitations w) = Some i" using d by simp
    have f: "find (\<lambda>j. i_id j = i_id i) (invitations w') = Some (accepted now i)"
      unfolding w' using find_updateOne_key [OF d, of i_id "accepted now"]
        invitations_ok_distinct_ids [OF ok] by (simp add: accepted_def)
    have "pending_invitations w' (i_companyId i) now = pending_invitations w (i_companyId i) now - 1"
      unfolding pending_invitations_def w' using count_updateOne [OF d] ii(2)
      by (simp add: accepted_def)
    moreover have "employee_count w' (i_companyId i) = employee_count w (i_companyId i) + 1"
      unfolding employee_count_def w' by (simp add: collection_simps rest(3) new_member_def)
    ultimately have "seats_used w' (i_companyId i, now) = seats_used w (i_companyId i, now)"
      by (simp add: seats_used_def)
    moreover have "users w' = users w @ [u]" by (simp add: w')
    ultimately show ?thesis using ii rest f by (auto simp: new_member_def)
  qed simp
qed

theorem accept_creates_member_witness:
  "\<exists>u. users (snd (accept id id False 3 \<lparr>ac_token = ''t'', ac_fullName = ''E'', ac_password = ''p''\<rparr>
        1709200000000 example_invited_world)) = [u] \<and> u_companyId u = 7 \<and> u_role u = COMPANY_MEMBER"
proof -
  let ?d = "\<lparr>ac_token = ''t'', ac_fullName = ''E'', ac_password = ''p''\<rparr>"
  let ?r = "accept id id False 3 ?d 1709200000000 example_invited_world"
  have n: "\<not> isl (fst ?r)" by code_simp
  have o: "invitations_ok (invitations example_invited_world)"
    by (simp add: invitations_ok_def example_invited_world_def example_invitation_def)
  show ?thesis using accept_creates_member [OF surjective_pairing o, of id id False 3 ?d 1709200000000] n
    by (auto simp: example_invited_world_def example_invitation_def empty_world_def)
qed

end
