(* ===== verification/Tokens.thy ===== *)
theory Tokens
  imports Domain Interfaces
begin

text \<open>
  Tokens mailed or redirected to a person and spent once: the states and exchange codes of the
  Google sign-in (\<open>auth/google-oauth-flow.service.ts\<close>) and the activation tokens of a
  registered company (\<open>auth/company-verification.service.ts\<close>). Only the SHA-256 hash of a
  token is stored. The random tokens, the hash, the clock and the delivery of mail are
  parameters; the unique indexes of the three collections are written out where documents are
  inserted or their keys change.
\<close>

section \<open>Google sign-in\<close>

definition GOOGLE_STATE_TTL_MS :: int where
  "GOOGLE_STATE_TTL_MS = 5 * 60 * 1000"

definition GOOGLE_EXCHANGE_TTL_MS :: int where
  "GOOGLE_EXCHANGE_TTL_MS = 60 * 1000"

definition opaque_char :: "char \<Rightarrow> bool" where
  "opaque_char c \<longleftrightarrow> (CHR ''A'' \<le> c \<and> c \<le> CHR ''Z'') \<or> (CHR ''a'' \<le> c \<and> c \<le> CHR ''z'')
     \<or> (CHR ''0'' \<le> c \<and> c \<le> CHR ''9'') \<or> c = CHR ''_'' \<or> c = CHR ''-''"

definition isOpaque :: "string \<Rightarrow> bool" where
  "isOpaque value \<longleftrightarrow> length value = 43 \<and> list_all opaque_char value"

record google_user =
  gu_email :: string
  gu_fullName :: string
  gu_avatar :: "string option"

definition create_state :: "oauth_state \<Rightarrow> unit handler" where
  "create_state d =
     andthen (gets (\<lambda>w. find (\<lambda>e. os_stateHash e = os_stateHash d) (oauthStates w))) (\<lambda>e.
     if e \<noteq> None then throw (DuplicateKey ''stateHash'')
     else modify (\<lambda>w. w\<lparr>oauthStates := oauthStates w @ [d]\<rparr>))"

definition begin_flow ::
  "(string \<Rightarrow> string) \<Rightarrow> string \<Rightarrow> string \<Rightarrow> date \<Rightarrow> (string \<times> string) handler" where
  "begin_flow sha256 state browser now =
     andthen (create_state \<lparr>os_stateHash = sha256 state, os_browserHash = sha256 browser,
        os_expiresAt = now + GOOGLE_STATE_TTL_MS\<rparr>) (\<lambda>_.
     return (state, browser))"

text \<open>The two cookies and query values may be missing or not be strings (\<open>None\<close>).\<close>

definition consumeState ::
  "(string \<Rightarrow> string) \<Rightarrow> string option \<Rightarrow> string option \<Rightarrow> date \<Rightarrow> unit handler" where
  "consumeState sha256 state browser now =
     (let invalid = http Unauthorized ''Invalid Google sign-in state'' in
      case (state, browser) of
        (Some st, Some br) \<Rightarrow>
          if \<not> isOpaque st \<or> \<not> isOpaque br then throw invalid
          else
            let q = (\<lambda>d. os_stateHash d = sha256 st \<and> os_browserHash d = sha256 br
                       \<and> os_expiresAt d > now) in
            andthen (gets (\<lambda>w. find q (oauthStates w))) (\<lambda>consumed.
            if consumed = None then throw invalid
            else modify (\<lambda>w. w\<lparr>oauthStates := deleteOne q (oauthStates w)\<rparr>))
      | _ \<Rightarrow> throw invalid)"

definition create_exchange_document :: "oauth_exchange \<Rightarrow> unit handler" where
  "create_exchange_document d =
     andthen (gets (\<lambda>w. find (\<lambda>e. ox_codeHash e = ox_codeHash d) (oauthExchanges w))) (\<lambda>e.
     if e \<noteq> None then throw (DuplicateKey ''codeHash'')
     else modify (\<lambda>w. w\<lparr>oauthExchanges := oauthExchanges w @ [d]\<rparr>))"

definition createExchange :: "(string \<Rightarrow> string) \<Rightarrow> string \<Rightarrow> oid \<Rightarrow> date \<Rightarrow> string handler" where
  "createExchange sha256 code userId now =
     andthen (create_exchange_document \<lparr>ox_codeHash = sha256 code, ox_userId = Some userId,
        ox_purpose = Google_Login_Exchange, ox_email = None, ox_fullName = None,
        ox_avatar = None, ox_expiresAt = now + GOOGLE_EXCHANGE_TTL_MS\<rparr>) (\<lambda>_.
     return code)"

text \<open>\<open>findOneAndDelete\<close> of an exchange with a purpose.\<close>

definition take_exchange :: "oauth_purpose \<Rightarrow> string \<Rightarrow> date \<Rightarrow> oauth_exchange option handler" where
  "take_exchange purpose codeHash now =
     (let q = (\<lambda>d. ox_codeHash d = codeHash \<and> ox_purpose d = purpose \<and> ox_expiresAt d > now) in
      andthen (gets (\<lambda>w. find q (oauthExchanges w))) (\<lambda>found.
      andthen (modify (\<lambda>w. w\<lparr>oauthExchanges := deleteOne q (oauthExchanges w)\<rparr>)) (\<lambda>_.
      return found)))"

definition consumeExchange :: "(string \<Rightarrow> string) \<Rightarrow> string \<Rightarrow> date \<Rightarrow> oid handler" where
  "consumeExchange sha256 code now =
     (let invalid = http Unauthorized ''Invalid Google sign-in code'' in
      if \<not> isOpaque code then throw invalid
      else andthen (take_exchange Google_Login_Exchange (sha256 code) now) (\<lambda>exchange.
        case exchange of
          None \<Rightarrow> throw invalid
        | Some x \<Rightarrow> (case ox_userId x of None \<Rightarrow> throw invalid | Some u \<Rightarrow> return u)))"

definition createRegistrationExchange ::
  "(string \<Rightarrow> string) \<Rightarrow> string \<Rightarrow> google_user \<Rightarrow> date \<Rightarrow> string handler" where
  "createRegistrationExchange sha256 code profile now =
     andthen (create_exchange_document \<lparr>ox_codeHash = sha256 code, ox_userId = None,
        ox_purpose = Google_Registration_Exchange, ox_email = Some (gu_email profile),
        ox_fullName = Some (gu_fullName profile), ox_avatar = gu_avatar profile,
        ox_expiresAt = now + GOOGLE_STATE_TTL_MS\<rparr>) (\<lambda>_.
     return code)"

definition consumeRegistrationExchange ::
  "(string \<Rightarrow> string) \<Rightarrow> string \<Rightarrow> date \<Rightarrow> google_user handler" where
  "consumeRegistrationExchange sha256 code now =
     (let invalid = http Unauthorized ''Invalid Google registration code'' in
      if \<not> isOpaque code then throw invalid
      else andthen (take_exchange Google_Registration_Exchange (sha256 code) now) (\<lambda>exchange.
        case exchange of
          None \<Rightarrow> throw invalid
        | Some x \<Rightarrow>
            (case ox_email x of
               None \<Rightarrow> throw invalid
             | Some email \<Rightarrow>
                 if email = [] then throw invalid
                 else return \<lparr>gu_email = email, gu_fullName = option_default [] (ox_fullName x),
                              gu_avatar = ox_avatar x\<rparr>)))"

section \<open>Company activation\<close>

definition VERIFICATION_TOKEN_TTL_MS :: int where
  "VERIFICATION_TOKEN_TTL_MS = 24 * 60 * 60 * 1000"

definition VERIFICATION_RESEND_COOLDOWN_MS :: int where
  "VERIFICATION_RESEND_COOLDOWN_MS = 60 * 1000"

definition RESEND_VERIFICATION_RESPONSE :: string where
  "RESEND_VERIFICATION_RESPONSE =
     ''If an inactive company account exists for that email, a verification message will be sent.''"

record activation_delivery =
  ad_email :: string
  ad_companyName :: string
  ad_token :: string

definition invalidToken :: error where
  "invalidToken = http BadRequest ''Verification token is invalid or expired''"

text \<open>Both keys of a verification, the company and the token hash, are unique.\<close>

definition create_verification :: "verification \<Rightarrow> unit handler" where
  "create_verification v =
     andthen (gets (\<lambda>w. find (\<lambda>e. v_companyId e = v_companyId v) (verifications w))) (\<lambda>sameCompany.
     andthen (gets (\<lambda>w. find (\<lambda>e. v_tokenHash e = v_tokenHash v) (verifications w))) (\<lambda>sameHash.
     if sameCompany \<noteq> None then throw (DuplicateKey ''companyId'')
     else if sameHash \<noteq> None then throw (DuplicateKey ''tokenHash'')
     else modify (\<lambda>w. w\<lparr>verifications := verifications w @ [v]\<rparr>)))"

definition createForRegistration ::
  "(string \<Rightarrow> string) \<Rightarrow> string \<Rightarrow> oid \<Rightarrow> oid \<Rightarrow> string \<Rightarrow> string \<Rightarrow> date
     \<Rightarrow> activation_delivery handler" where
  "createForRegistration sha256 token companyId ownerId email companyName now =
     andthen (create_verification \<lparr>v_companyId = companyId, v_ownerId = ownerId,
        v_tokenHash = sha256 token, v_expiresAt = now + VERIFICATION_TOKEN_TTL_MS,
        v_lastSentAt = Some now\<rparr>) (\<lambda>_.
     return \<lparr>ad_email = email, ad_companyName = companyName, ad_token = token\<rparr>)"

definition sendActivationEmail :: "bool \<Rightarrow> activation_delivery \<Rightarrow> unit handler" where
  "sendActivationEmail delivered d =
     (if delivered
      then modify (\<lambda>w. w\<lparr>outbox := outbox w
             @ [CompanyActivationMail (ad_email d) (ad_companyName d) (ad_token d)]\<rparr>)
      else throw (PlainError ''Email delivery failed''))"

definition activate :: "date \<Rightarrow> company \<Rightarrow> company" where
  "activate now c = c\<lparr>c_activatedAt := Some now\<rparr>"

definition verify :: "(string \<Rightarrow> string) \<Rightarrow> string \<Rightarrow> date \<Rightarrow> string handler" where
  "verify sha256 token now =
     (let q = (\<lambda>v. v_tokenHash v = sha256 token \<and> v_expiresAt v > now) in
      andthen (transaction
        (andthen (gets (\<lambda>w. find q (verifications w))) (\<lambda>verification.
         case verification of
           None \<Rightarrow> throw invalidToken
         | Some v \<Rightarrow>
         andthen (modify (\<lambda>w. w\<lparr>verifications := deleteOne q (verifications w)\<rparr>)) (\<lambda>_.
         andthen (gets (\<lambda>w. find (\<lambda>u. u_id u = v_ownerId v \<and> u_companyId u = v_companyId v
                    \<and> u_role u = COMPANY_OWNER) (users w))) (\<lambda>owner.
         if owner = None then throw invalidToken
         else
         let p = (\<lambda>c. c_id c = v_companyId v \<and> c_activatedAt c = None) in
         andthen (gets (\<lambda>w. find p (companies w))) (\<lambda>company.
         if company = None then throw invalidToken
         else modify (\<lambda>w. w\<lparr>companies := updateOne p (activate now) (companies w)\<rparr>)))))))
        (\<lambda>_. return ''Account activated. You can now sign in.''))"

definition renew_verification :: "string \<Rightarrow> date \<Rightarrow> verification \<Rightarrow> verification" where
  "renew_verification tokenHash now v = v\<lparr>v_tokenHash := tokenHash,
     v_expiresAt := now + VERIFICATION_TOKEN_TTL_MS, v_lastSentAt := Some now\<rparr>"

text \<open>
  The upsert: the company's document outside the cooldown is renewed; when none matches, a new
  document is inserted, which the unique index refuses while the company still has one.
\<close>

definition upsert_verification :: "string \<Rightarrow> user \<Rightarrow> date \<Rightarrow> unit handler" where
  "upsert_verification tokenHash owner now =
     (let q = (\<lambda>v. v_companyId v = u_companyId owner
                 \<and> (case v_lastSentAt v of None \<Rightarrow> True
                    | Some sent \<Rightarrow> sent \<le> now - VERIFICATION_RESEND_COOLDOWN_MS)) in
      andthen (gets (\<lambda>w. find q (verifications w))) (\<lambda>found.
      case found of
        Some v \<Rightarrow>
          andthen (gets (\<lambda>w. list_ex (\<lambda>e. v_companyId e \<noteq> v_companyId v \<and> v_tokenHash e = tokenHash)
                     (verifications w))) (\<lambda>duplicate.
          if duplicate then throw (DuplicateKey ''tokenHash'')
          else modify (\<lambda>w. w\<lparr>verifications :=
                 updateOne q (renew_verification tokenHash now) (verifications w)\<rparr>))
      | None \<Rightarrow>
          create_verification \<lparr>v_companyId = u_companyId owner, v_ownerId = u_id owner,
            v_tokenHash = tokenHash, v_expiresAt = now + VERIFICATION_TOKEN_TTL_MS,
            v_lastSentAt = Some now\<rparr>))"

definition renew_activation ::
  "(string \<Rightarrow> string) \<Rightarrow> string \<Rightarrow> string \<Rightarrow> date \<Rightarrow> activation_delivery option handler" where
  "renew_activation sha256 token email now = transaction
     (andthen (gets (\<lambda>w. find (\<lambda>u. u_email u = email \<and> u_role u = COMPANY_OWNER) (users w))) (\<lambda>found.
      case found of
        None \<Rightarrow> return None
      | Some owner \<Rightarrow>
      andthen (gets (\<lambda>w. find (\<lambda>c. c_id c = u_companyId owner \<and> c_activatedAt c = None) (companies w)))
        (\<lambda>company.
      case company of
        None \<Rightarrow> return None
      | Some c \<Rightarrow>
      andthen (upsert_verification (sha256 token) owner now) (\<lambda>_.
      return (Some \<lparr>ad_email = u_email owner, ad_companyName = c_name c, ad_token = token\<rparr>)))))"

definition resend_verification ::
  "(string \<Rightarrow> string) \<Rightarrow> string \<Rightarrow> bool \<Rightarrow> string \<Rightarrow> date \<Rightarrow> string handler" where
  "resend_verification sha256 token mailed email now =
     andthen
       (catching (renew_activation sha256 token email now)
          (\<lambda>error. if isDuplicateKeyError error then return None else throw error)) (\<lambda>delivery.
     andthen
       (case delivery of
          None \<Rightarrow> return ()
        | Some d \<Rightarrow> catching (sendActivationEmail mailed d) (\<lambda>_. return ())) (\<lambda>_.
     return RESEND_VERIFICATION_RESPONSE))"

end
