(* ===== verification/Accounts.thy ===== *)
theory Accounts
  imports Tokens Invitations FileValidation
begin

text \<open>
  Accounts and sessions: registration and sign-in (\<open>auth/auth.service.ts\<close>), password recovery
  (\<open>auth/password-recovery.service.ts\<close>), the guards every request passes
  (\<open>guards/is-auth.guard.ts\<close>, \<open>common/guards/roles.guard.ts\<close>), the owner's operations on
  users and the company profile (\<open>users/users.service.ts\<close>, \<open>companies/companies.service.ts\<close>).
  Requests are taken as validated by their DTOs (trimmed text, lower-case addresses). The
  signing and verification of JWTs, bcrypt, SHA-256, the collation key of company names, new
  identifiers, random tokens, the clock and the delivery of mail are parameters.
\<close>

section \<open>Passwords\<close>

definition NEW_PASSWORD_MIN_LENGTH :: nat where "NEW_PASSWORD_MIN_LENGTH = 12"

definition NEW_PASSWORD_MAX_LENGTH :: nat where "NEW_PASSWORD_MAX_LENGTH = 72"

text \<open>A value is a string of UTF-16 code units; \<open>Buffer.byteLength\<close> counts its UTF-8 bytes.\<close>

fun utf8_length :: "nat list \<Rightarrow> nat" where
  "utf8_length [] = 0"
| "utf8_length [a] = (if a < 128 then 1 else if a < 2048 then 2 else 3)"
| "utf8_length (a # b # us) =
     (if 55296 \<le> a \<and> a < 56320 \<and> 56320 \<le> b \<and> b < 57344 then 4 + utf8_length us
      else (if a < 128 then 1 else if a < 2048 then 2 else 3) + utf8_length (b # us))"

definition lower_unit :: "nat \<Rightarrow> bool" where "lower_unit a \<longleftrightarrow> 97 \<le> a \<and> a \<le> 122"

definition upper_unit :: "nat \<Rightarrow> bool" where "upper_unit a \<longleftrightarrow> 65 \<le> a \<and> a \<le> 90"

definition digit_unit :: "nat \<Rightarrow> bool" where "digit_unit a \<longleftrightarrow> 48 \<le> a \<and> a \<le> 57"

definition validNewPassword :: "nat list option \<Rightarrow> bool" where
  "validNewPassword value = (case value of
     None \<Rightarrow> False
   | Some us \<Rightarrow> length us \<ge> NEW_PASSWORD_MIN_LENGTH \<and> length us \<le> NEW_PASSWORD_MAX_LENGTH
       \<and> utf8_length us \<le> NEW_PASSWORD_MAX_LENGTH
       \<and> list_ex lower_unit us \<and> list_ex upper_unit us \<and> list_ex digit_unit us
       \<and> list_ex (\<lambda>a. \<not> lower_unit a \<and> \<not> upper_unit a \<and> \<not> digit_unit a \<and> \<not> js_space a) us)"

section \<open>Access of a tenant's user, and signed tokens\<close>

record token_payload =
  tp_id :: id_text
  tp_type :: "string option"
  tp_version :: "int option"

definition version_of :: "user \<Rightarrow> int" where
  "version_of u = option_default 0 (u_authVersion u)"

definition assertTenantAccess :: "user \<Rightarrow> unit handler" where
  "assertTenantAccess user =
     andthen (gets (\<lambda>w. activated_company w (u_companyId user))) (\<lambda>company.
     case company of
       None \<Rightarrow> throw (http Unauthorized ''Account is not activated'')
     | Some c \<Rightarrow>
         if c_platformStatus c = PLATFORM_SUSPENDED
         then throw (http Unauthorized ''Account is unavailable'')
         else return ())"

definition payload_of :: "user \<Rightarrow> token_payload" where
  "payload_of user = \<lparr>tp_id = Valid_Id (u_id user), tp_type = None, tp_version = Some (version_of user)\<rparr>"

definition signToken :: "(token_payload \<Rightarrow> string) \<Rightarrow> user \<Rightarrow> string handler" where
  "signToken sign user =
     andthen (assertTenantAccess user) (\<lambda>_. return (sign (payload_of user)))"

definition signIn ::
  "(string \<Rightarrow> string \<Rightarrow> bool) \<Rightarrow> (token_payload \<Rightarrow> string) \<Rightarrow> string \<Rightarrow> string \<Rightarrow> string handler" where
  "signIn compare sign email password =
     (let invalid = http Unauthorized ''Invalid credentials'' in
      andthen (gets (\<lambda>w. find (\<lambda>u. u_email u = email) (users w))) (\<lambda>found.
      case found of
        None \<Rightarrow> throw invalid
      | Some user \<Rightarrow>
          (case u_password user of
             None \<Rightarrow> throw invalid
           | Some hash \<Rightarrow>
               if hash = [] \<or> \<not> compare password hash then throw invalid
               else signToken sign user)))"

definition findGoogleUser :: "google_user \<Rightarrow> user option handler" where
  "findGoogleUser profile =
     andthen (gets (\<lambda>w. find (\<lambda>u. u_email u = gu_email profile) (users w))) (\<lambda>found.
     case found of
       None \<Rightarrow> return None
     | Some user \<Rightarrow>
         andthen (assertTenantAccess user) (\<lambda>_.
         andthen (modify (\<lambda>w. w\<lparr>users := updateOne (\<lambda>u. u_id u = u_id user)
                    (\<lambda>u. u\<lparr>u_avatar := gu_avatar profile\<rparr>) (users w)\<rparr>)) (\<lambda>_.
         return (Some (user\<lparr>u_avatar := gu_avatar profile\<rparr>)))))"

definition resolveGoogleUser :: "google_user \<Rightarrow> user handler" where
  "resolveGoogleUser profile =
     andthen (findGoogleUser profile) (\<lambda>user.
     case user of
       None \<Rightarrow> throw (http Unauthorized ''No account is registered for this Google identity'')
     | Some u \<Rightarrow> return u)"

definition signInWithGoogle :: "(token_payload \<Rightarrow> string) \<Rightarrow> google_user \<Rightarrow> string handler" where
  "signInWithGoogle sign profile = andthen (resolveGoogleUser profile) (signToken sign)"

definition exchangeGoogleUser :: "(token_payload \<Rightarrow> string) \<Rightarrow> oid \<Rightarrow> string handler" where
  "exchangeGoogleUser sign userId =
     andthen (gets (\<lambda>w. find (\<lambda>u. u_id u = userId) (users w))) (\<lambda>user.
     case user of
       None \<Rightarrow> throw (http Unauthorized ''Account is unavailable'')
     | Some u \<Rightarrow> signToken sign u)"

definition getCurrentUser :: "oid \<Rightarrow> user handler" where
  "getCurrentUser userId =
     andthen (gets (\<lambda>w. find (\<lambda>u. u_id u = userId) (users w))) (\<lambda>user.
     case user of None \<Rightarrow> throw (http NotFound ''User not found'') | Some u \<Rightarrow> return u)"

section \<open>Registration\<close>

record registration_env =
  re_companyId :: oid
  re_ownerId :: oid
  re_subscriptionId :: oid
  re_token :: string
  re_mailed :: bool

record sign_up =
  su_email :: string
  su_fullName :: "string option"
  su_password :: string
  su_companyName :: string
  su_country :: string
  su_industry :: string

record google_registration =
  gr_code :: string
  gr_companyName :: string
  gr_country :: string
  gr_industry :: string

text \<open>Names are unique up to the collation \<open>key\<close>.\<close>

definition create_company :: "(string \<Rightarrow> string) \<Rightarrow> company \<Rightarrow> company handler" where
  "create_company key c =
     andthen (gets (\<lambda>w. find (\<lambda>d. key (c_name d) = key (c_name c)) (companies w))) (\<lambda>same.
     if same \<noteq> None then throw (DuplicateKey ''name'')
     else andthen (modify (\<lambda>w. w\<lparr>companies := companies w @ [c]\<rparr>)) (\<lambda>_. return c))"

definition new_company ::
  "oid \<Rightarrow> string \<Rightarrow> string \<Rightarrow> string \<Rightarrow> date option \<Rightarrow> company" where
  "new_company i name country industry activatedAt =
     \<lparr>c_id = i, c_name = name, c_country = country, c_industry = industry,
      c_activatedAt = activatedAt, c_platformStatus = PLATFORM_ACTIVE,
        c_platformStatusReason = None, c_platformStatusChangedAt = None, c_platformStatusChangedBy = None,
        c_guardScanFence = 0\<rparr>"

definition new_owner ::
  "oid \<Rightarrow> string \<Rightarrow> string option \<Rightarrow> string option \<Rightarrow> string option \<Rightarrow> oid \<Rightarrow> date \<Rightarrow> user" where
  "new_owner i email fullName password avatar companyId now =
     \<lparr>u_id = i, u_email = email, u_fullName = fullName, u_password = password,
      u_passwordResetTokenHash = None, u_passwordResetExpiresAt = None,
      u_passwordResetRequestedAt = None, u_authVersion = Some 0, u_companyId = companyId,
      u_role = COMPANY_OWNER, u_avatar = avatar, u_guardScanFence = 0, u_createdAt = now\<rparr>"

definition registration_error :: "error \<Rightarrow> error" where
  "registration_error e =
     (case e of
        DuplicateKey field \<Rightarrow>
          if field = ''email'' then http Conflict ''Email is already in use''
          else if field = ''name'' then http Conflict ''Company name is already in use''
          else http Conflict ''Company or user already exists''
      | _ \<Rightarrow> e)"

definition register_owner ::
  "(string \<Rightarrow> string) \<Rightarrow> registration_env \<Rightarrow> company \<Rightarrow> user \<Rightarrow> date \<Rightarrow> user handler" where
  "register_owner key env c u now =
     andthen (create_company key c) (\<lambda>_.
     andthen (create_user u) (\<lambda>_.
     andthen (initializeFree (re_subscriptionId env) (re_companyId env) now) (\<lambda>_.
     return u)))"

definition signUp_transaction ::
  "(string \<Rightarrow> string) \<Rightarrow> (string \<Rightarrow> string) \<Rightarrow> (string \<Rightarrow> string) \<Rightarrow> registration_env \<Rightarrow> sign_up
     \<Rightarrow> date \<Rightarrow> activation_delivery handler" where
  "signUp_transaction sha256 bcrypt key env dto now = transaction
     (andthen (register_owner key env
        (new_company (re_companyId env) (su_companyName dto) (su_country dto) (su_industry dto) None)
        (new_owner (re_ownerId env) (su_email dto) (su_fullName dto)
           (Some (bcrypt (su_password dto))) None (re_companyId env) now) now) (\<lambda>owner.
      createForRegistration sha256 (re_token env) (re_companyId env) (u_id owner) (u_email owner)
        (su_companyName dto) now))"

definition signUp ::
  "(string \<Rightarrow> string) \<Rightarrow> (string \<Rightarrow> string) \<Rightarrow> (string \<Rightarrow> string) \<Rightarrow> registration_env \<Rightarrow> sign_up
     \<Rightarrow> date \<Rightarrow> string handler" where
  "signUp sha256 bcrypt key env dto now =
     catching
       (andthen (signUp_transaction sha256 bcrypt key env dto now) (\<lambda>delivery.
        andthen
          (catching (sendActivationEmail (re_mailed env) delivery)
             (\<lambda>_. throw (http ServiceUnavailable ''Registration was saved, but the activation email could not be delivered. Please request another activation email.'')))
          (\<lambda>_. return ''Company registered. Check your email to activate the account.'')))
       (\<lambda>error. throw (registration_error error))"

definition signUpWithGoogle ::
  "(string \<Rightarrow> string) \<Rightarrow> (string \<Rightarrow> string) \<Rightarrow> (token_payload \<Rightarrow> string) \<Rightarrow> registration_env
     \<Rightarrow> google_registration \<Rightarrow> date \<Rightarrow> string handler" where
  "signUpWithGoogle sha256 key sign env dto now =
     catching
       (andthen
          (transaction
             (andthen (consumeRegistrationExchange sha256 (gr_code dto) now) (\<lambda>profile.
              register_owner key env
                (new_company (re_companyId env) (gr_companyName dto) (gr_country dto)
                   (gr_industry dto) (Some now))
                (new_owner (re_ownerId env) (gu_email profile) (Some (gu_fullName profile)) None
                   (gu_avatar profile) (re_companyId env) now) now)))
          (signToken sign))
       (\<lambda>error. throw (registration_error error))"

section \<open>Password recovery\<close>

definition RESET_TTL_MS :: int where "RESET_TTL_MS = 30 * 60000"

definition REQUEST_COOLDOWN_MS :: int where "REQUEST_COOLDOWN_MS = 60000"

definition RECOVERY_RESPONSE :: string where
  "RECOVERY_RESPONSE = ''If this email belongs to an active workspace, a reset link will arrive shortly.''"

definition usable_company :: "world \<Rightarrow> oid \<Rightarrow> company option" where
  "usable_company w i = find (\<lambda>c. c_id c = i \<and> c_activatedAt c \<noteq> None
     \<and> c_platformStatus c \<noteq> PLATFORM_SUSPENDED) (companies w)"

definition request_reset :: "string \<Rightarrow> date \<Rightarrow> user \<Rightarrow> user" where
  "request_reset tokenHash now u = u\<lparr>u_passwordResetTokenHash := Some tokenHash,
     u_passwordResetExpiresAt := Some (now + RESET_TTL_MS), u_passwordResetRequestedAt := Some now\<rparr>"

definition clear_reset :: "user \<Rightarrow> user" where
  "clear_reset u = u\<lparr>u_passwordResetTokenHash := None, u_passwordResetExpiresAt := None,
     u_passwordResetRequestedAt := None\<rparr>"

definition may_request :: "user \<Rightarrow> date \<Rightarrow> user \<Rightarrow> bool" where
  "may_request user now u \<longleftrightarrow> u_id u = u_id user \<and> u_companyId u = u_companyId user
     \<and> (case u_passwordResetRequestedAt u of None \<Rightarrow> True
        | Some at \<Rightarrow> at \<le> now - REQUEST_COOLDOWN_MS)"

text \<open>
  \<open>mailed\<close>: the sender accepts the message; \<open>cleaned\<close>: after a failed delivery, the update that
  takes the token back reaches the database.
\<close>

definition forgotPassword ::
  "(string \<Rightarrow> string) \<Rightarrow> string \<Rightarrow> bool \<Rightarrow> bool \<Rightarrow> string \<Rightarrow> date \<Rightarrow> string handler" where
  "forgotPassword sha256 token mailed cleaned email now =
     andthen (gets (\<lambda>w. find (\<lambda>u. u_email u = email) (users w))) (\<lambda>found.
     case found of
       None \<Rightarrow> return RECOVERY_RESPONSE
     | Some user \<Rightarrow>
     andthen (gets (\<lambda>w. usable_company w (u_companyId user))) (\<lambda>company.
     if company = None then return RECOVERY_RESPONSE
     else
     let tokenHash = sha256 token in
     andthen (gets (\<lambda>w. find (may_request user now) (users w))) (\<lambda>updated.
     case updated of
       None \<Rightarrow> return RECOVERY_RESPONSE
     | Some u \<Rightarrow>
     andthen (modify (\<lambda>w. w\<lparr>users :=
        updateOne (may_request user now) (request_reset tokenHash now) (users w)\<rparr>)) (\<lambda>_.
     andthen
       (if mailed
        then modify (\<lambda>w. w\<lparr>outbox := outbox w @ [PasswordResetMail (u_email u) token]\<rparr>)
        else if cleaned
        then modify (\<lambda>w. w\<lparr>users := updateOne
               (\<lambda>v. u_id v = u_id u \<and> u_passwordResetTokenHash v = Some tokenHash) clear_reset (users w)\<rparr>)
        else return ()) (\<lambda>_.
     return RECOVERY_RESPONSE)))))"

definition resettable :: "string \<Rightarrow> date \<Rightarrow> user \<Rightarrow> bool" where
  "resettable tokenHash now u \<longleftrightarrow> u_passwordResetTokenHash u = Some tokenHash
     \<and> (case u_passwordResetExpiresAt u of None \<Rightarrow> False | Some t \<Rightarrow> t > now)"

definition with_new_password :: "string \<Rightarrow> user \<Rightarrow> user" where
  "with_new_password password u =
     (clear_reset u)\<lparr>u_password := Some password, u_authVersion := Some (version_of u + 1)\<rparr>"

text \<open>The clock is read twice, before and after the new password is hashed.\<close>

definition resetPassword ::
  "(string \<Rightarrow> string) \<Rightarrow> (string \<Rightarrow> string) \<Rightarrow> string \<Rightarrow> string \<Rightarrow> date \<Rightarrow> date \<Rightarrow> bool handler" where
  "resetPassword sha256 bcrypt token newPassword now later =
     (let tokenHash = sha256 token; invalid = http Unauthorized ''Invalid or expired reset link'' in
      andthen (gets (\<lambda>w. find (resettable tokenHash now) (users w))) (\<lambda>found.
      case found of
        None \<Rightarrow> throw invalid
      | Some user \<Rightarrow>
      andthen (gets (\<lambda>w. usable_company w (u_companyId user))) (\<lambda>company.
      if company = None then throw invalid
      else
      let q = (\<lambda>u. u_id u = u_id user \<and> u_companyId u = u_companyId user
                 \<and> resettable tokenHash later u) in
      andthen (gets (\<lambda>w. find q (users w))) (\<lambda>changed.
      if changed = None then throw invalid
      else
      andthen (modify (\<lambda>w. w\<lparr>users :=
        updateOne q (with_new_password (bcrypt newPassword)) (users w)\<rparr>)) (\<lambda>_.
      return True)))))"

section \<open>The guards of a request\<close>

text \<open>The bearer token of an \<open>Authorization\<close> header: \<open>/^Bearer ([^\s]+)$/\<close>.\<close>

definition bearer_token :: "string option \<Rightarrow> string option" where
  "bearer_token authorization = (case authorization of
     None \<Rightarrow> None
   | Some h \<Rightarrow>
       if take 7 h = ''Bearer '' \<and> drop 7 h \<noteq> [] \<and> list_all (\<lambda>c. \<not> js_space (of_char c)) (drop 7 h)
       then Some (drop 7 h) else None)"

text \<open>\<open>verify_jwt\<close> is the verification of a signed token: its payload, or none when it throws.\<close>

definition isAuth_canActivate ::
  "(string \<Rightarrow> token_payload option) \<Rightarrow> string option \<Rightarrow> actor handler" where
  "isAuth_canActivate verify_jwt authorization =
     (let invalid = http Unauthorized ''Invalid or expired bearer token'' in
      case bearer_token authorization of
        None \<Rightarrow> throw (http Unauthorized ''Invalid or missing bearer token'')
      | Some t \<Rightarrow>
      (case verify_jwt t of
         None \<Rightarrow> throw invalid
       | Some payload \<Rightarrow>
       if \<not> is_valid_id (tp_id payload) \<or> tp_type payload \<noteq> None then throw invalid
       else
       andthen (gets (\<lambda>w. find (\<lambda>u. u_id u = id_value (tp_id payload)) (users w))) (\<lambda>found.
       case found of
         None \<Rightarrow> throw invalid
       | Some user \<Rightarrow>
       if option_default 0 (tp_version payload) \<noteq> version_of user then throw invalid
       else
       andthen (gets (\<lambda>w. activated_company w (u_companyId user))) (\<lambda>company.
       if (case company of None \<Rightarrow> True | Some c \<Rightarrow> c_platformStatus c = PLATFORM_SUSPENDED)
       then throw invalid
       else return \<lparr>a_id = u_id user, a_companyId = u_companyId user, a_role = u_role user\<rparr>))))"

text \<open>\<open>required\<close>: the roles a route declares (none when it declares no roles).\<close>

definition roles_canActivate :: "role list option \<Rightarrow> actor option \<Rightarrow> error + bool" where
  "roles_canActivate required auth =
     (case required of
        None \<Rightarrow> Inr True
      | Some rs \<Rightarrow>
          if rs = [] then Inr True
          else (case auth of
                  None \<Rightarrow> Inl (http Forbidden ''You do not have permission for this action'')
                | Some a \<Rightarrow>
                    if a_role a \<notin> set rs
                    then Inl (http Forbidden ''You do not have permission for this action'')
                    else Inr True))"

section \<open>Users and the company profile\<close>

definition requireSelfOrOwner :: "actor \<Rightarrow> oid \<Rightarrow> error + unit" where
  "requireSelfOrOwner actor target =
     require (\<not> (a_role actor \<noteq> COMPANY_OWNER \<and> a_id actor \<noteq> target))
       (http Forbidden ''You do not have access to this user'')"

record user_page =
  us_users :: "user list"
  us_total :: int
  us_page :: int
  us_take :: int

definition users_findAll :: "actor \<Rightarrow> int \<Rightarrow> int \<Rightarrow> user_page handler" where
  "users_findAll actor page requested =
     andthen (lift_result (requireOwner actor)) (\<lambda>_.
     let limit = min requested 30; q = (\<lambda>u. u_companyId u = a_companyId actor) in
     andthen (gets (\<lambda>w. take (nat limit) (drop (nat ((page - 1) * limit))
                (sort_key (\<lambda>u. - int (u_id u)) (filter q (users w)))))) (\<lambda>found.
     andthen (gets (\<lambda>w. countDocuments q (users w))) (\<lambda>total.
     return \<lparr>us_users = found, us_total = total, us_page = page, us_take = limit\<rparr>)))"

definition users_findOne :: "actor \<Rightarrow> oid \<Rightarrow> user handler" where
  "users_findOne actor target =
     andthen (lift_result (requireSelfOrOwner actor target)) (\<lambda>_.
     andthen (gets (\<lambda>w. find (\<lambda>u. u_id u = target \<and> u_companyId u = a_companyId actor) (users w)))
       (\<lambda>user.
     case user of None \<Rightarrow> throw (http NotFound ''User not found'') | Some u \<Rightarrow> return u))"

definition updateUser :: "actor \<Rightarrow> oid \<Rightarrow> string option \<Rightarrow> user handler" where
  "updateUser actor target fullName =
     andthen (users_findOne actor target) (\<lambda>_.
     let q = (\<lambda>u. u_id u = target \<and> u_companyId u = a_companyId actor);
         g = (\<lambda>u. case fullName of None \<Rightarrow> u | Some n \<Rightarrow> u\<lparr>u_fullName := Some n\<rparr>) in
     andthen (gets (\<lambda>w. find q (users w))) (\<lambda>user.
     case user of
       None \<Rightarrow> throw (http NotFound ''User not found'')
     | Some u \<Rightarrow>
         andthen (modify (\<lambda>w. w\<lparr>users := updateOne q g (users w)\<rparr>)) (\<lambda>_. return (g u))))"

definition changePassword ::
  "(string \<Rightarrow> string \<Rightarrow> bool) \<Rightarrow> (string \<Rightarrow> string) \<Rightarrow> actor \<Rightarrow> string \<Rightarrow> string \<Rightarrow> string handler" where
  "changePassword compare bcrypt actor currentPassword newPassword =
     (let incorrect = http Unauthorized ''Current password is incorrect'' in
      andthen (gets (\<lambda>w. find (\<lambda>u. u_id u = a_id actor \<and> u_companyId u = a_companyId actor) (users w)))
        (\<lambda>found.
      case Option.bind found u_password of
        None \<Rightarrow> throw incorrect
      | Some hash \<Rightarrow>
      if hash = [] \<or> \<not> compare currentPassword hash then throw incorrect
      else if compare newPassword hash
      then throw (http BadRequest ''The new password must be different from the current password'')
      else
      let q = (\<lambda>u. u_id u = a_id actor \<and> u_companyId u = a_companyId actor
                 \<and> u_password u = Some hash) in
      andthen (gets (\<lambda>w. find q (users w))) (\<lambda>changed.
      if changed = None
      then throw (http Unauthorized ''The password changed during this request; try again'')
      else
      andthen (modify (\<lambda>w. w\<lparr>users :=
        updateOne q (\<lambda>u. u\<lparr>u_password := Some (bcrypt newPassword)\<rparr>) (users w)\<rparr>)) (\<lambda>_.
      return ''Password changed successfully''))))"

text \<open>\<open>findOneAndDelete\<close> of a user.\<close>

definition take_user :: "(user \<Rightarrow> bool) \<Rightarrow> user option handler" where
  "take_user q =
     andthen (gets (\<lambda>w. find q (users w))) (\<lambda>found.
     andthen (modify (\<lambda>w. w\<lparr>users := deleteOne q (users w)\<rparr>)) (\<lambda>_. return found))"

definition deleteUser :: "bool \<Rightarrow> actor \<Rightarrow> oid \<Rightarrow> user handler" where
  "deleteUser paymentsEnabled actor target =
     andthen (lift_result (requireOwner actor)) (\<lambda>_.
     andthen (users_findOne actor target) (\<lambda>t.
     if u_role t = COMPANY_OWNER then throw (http BadRequest ''The company owner cannot be deleted'')
     else
     let q = (\<lambda>u. u_id u = target \<and> u_companyId u = a_companyId actor \<and> u_role u = COMPANY_MEMBER) in
     andthen
       (if paymentsEnabled
        then transaction (andthen (acquireLock (a_companyId actor)) (\<lambda>_. take_user q))
        else take_user q) (\<lambda>user.
     case user of None \<Rightarrow> throw (http NotFound ''User not found'') | Some u \<Rightarrow> return u)))"

definition findCurrent :: "oid \<Rightarrow> company handler" where
  "findCurrent companyId =
     andthen (gets (\<lambda>w. find (\<lambda>c. c_id c = companyId) (companies w))) (\<lambda>company.
     case company of None \<Rightarrow> throw (http NotFound ''Company not found'') | Some c \<Rightarrow> return c)"

record company_update =
  cp_name :: "string option"
  cp_country :: "string option"
  cp_industry :: "string option"

definition apply_profile :: "company_update \<Rightarrow> company \<Rightarrow> company" where
  "apply_profile dto c = c\<lparr>c_name := option_default (c_name c) (cp_name dto),
     c_country := option_default (c_country c) (cp_country dto),
     c_industry := option_default (c_industry c) (cp_industry dto)\<rparr>"

definition updateCurrent :: "(string \<Rightarrow> string) \<Rightarrow> oid \<Rightarrow> company_update \<Rightarrow> company handler" where
  "updateCurrent key companyId dto =
     catching
       (andthen (gets (\<lambda>w. find (\<lambda>c. c_id c = companyId) (companies w))) (\<lambda>company.
        case company of
          None \<Rightarrow> throw (http NotFound ''Company not found'')
        | Some c \<Rightarrow>
            andthen (gets (\<lambda>w. list_ex (\<lambda>d. c_id d \<noteq> companyId
                       \<and> key (c_name d) = key (c_name (apply_profile dto c))) (companies w))) (\<lambda>taken.
            if taken then throw (DuplicateKey ''name'')
            else andthen (modify (\<lambda>w. w\<lparr>companies :=
                     updateOne (\<lambda>d. c_id d = companyId) (apply_profile dto) (companies w)\<rparr>)) (\<lambda>_.
                   return (apply_profile dto c)))))
       (\<lambda>error. if isDuplicateKeyError error
                then throw (http Conflict ''Company name is already in use'') else throw error)"

end
