(* ===== verification/AccountSafety.thy ===== *)
theory AccountSafety
  imports Accounts
begin

text \<open>
  What the account handlers promise across any sequence of requests: a token is spent once, a
  reset ends the sessions that were open, registration is all or nothing, and the operations of
  an owner stay inside the company. The steps of the accounts are an inductive relation; each
  kind of token is an interpretation of the contract \<open>one_time_token\<close> on it.
\<close>

section \<open>Token hashes that a handler may add\<close>

definition reset_hashes :: "user list \<Rightarrow> string set" where
  "reset_hashes us = {h. \<exists>u \<in> set us. u_passwordResetTokenHash u = Some h}"

definition versions_grow :: "oid set \<Rightarrow> user list \<Rightarrow> user list \<Rightarrow> bool" where
  "versions_grow I us0 us \<longleftrightarrow> (\<forall>u \<in> set us.
     u_id u \<in> I \<or> (\<exists>u0 \<in> set us0. u_id u0 = u_id u \<and> version_of u0 \<le> version_of u))"

text \<open>
  \<open>issues K I w0 w\<close>: every token hash of \<open>w\<close> is in \<open>w0\<close> or in \<open>K\<close>, and every user of \<open>w\<close> has an
  identifier in \<open>I\<close> or was in \<open>w0\<close>, with a session version that has not decreased.
\<close>

definition issues :: "string set \<Rightarrow> oid set \<Rightarrow> world \<Rightarrow> world \<Rightarrow> bool" where
  "issues K I w0 w \<longleftrightarrow>
     os_stateHash ` set (oauthStates w) \<subseteq> os_stateHash ` set (oauthStates w0) \<union> K
   \<and> ox_codeHash ` set (oauthExchanges w) \<subseteq> ox_codeHash ` set (oauthExchanges w0) \<union> K
   \<and> v_tokenHash ` set (verifications w) \<subseteq> v_tokenHash ` set (verifications w0) \<union> K
   \<and> reset_hashes (users w) \<subseteq> reset_hashes (users w0) \<union> K
   \<and> versions_grow I (users w0) (users w)"

lemma updateOne_split:
  "find q xs = Some x \<Longrightarrow> \<exists>ys zs. xs = ys @ x # zs \<and> updateOne q g xs = ys @ g x # zs"
proof (induction xs)
  case (Cons a xs)
  show ?case
  proof (cases "q a")
    case True
    then show ?thesis using Cons.prems by (intro exI [of _ "[]"] exI [of _ xs]) simp
  next
    case False
    with Cons obtain ys zs where "xs = ys @ x # zs" "updateOne q g xs = ys @ g x # zs" by auto
    with False show ?thesis by (intro exI [of _ "a # ys"] exI [of _ zs]) simp
  qed
qed simp

lemma versions_grow_refl [simp]: "versions_grow I us us"
  by (auto simp: versions_grow_def)

lemma versions_grow_trans:
  "versions_grow I us vs \<Longrightarrow> versions_grow I vs ws \<Longrightarrow> versions_grow I us ws"
  by (fastforce simp: versions_grow_def intro: order_trans)

lemma versions_grow_updateOne:
  assumes "\<And>u. u_id (g u) = u_id u \<and> version_of u \<le> version_of (g u)"
  shows "versions_grow I us (updateOne q g us)"
  using assms by (fastforce simp: versions_grow_def dest!: set_updateOneD)

lemma versions_grow_deleteOne: "versions_grow I us (deleteOne q us)"
  using set_deleteOne_subset by (fastforce simp: versions_grow_def)

lemma versions_grow_snoc: "u_id u \<in> I \<Longrightarrow> versions_grow I us (us @ [u])"
  by (auto simp: versions_grow_def)

lemma issues_refl [simp]: "issues K I w w"
  by (simp add: issues_def)

lemma reset_hashes_updateOne:
  "(\<And>u. u_passwordResetTokenHash (g u) \<in> {None, u_passwordResetTokenHash u} \<union> Some ` K) \<Longrightarrow>
     reset_hashes (updateOne q g us) \<subseteq> reset_hashes us \<union> K"
proof
  fix h assume g: "\<And>u. u_passwordResetTokenHash (g u) \<in> {None, u_passwordResetTokenHash u} \<union> Some ` K"
    and "h \<in> reset_hashes (updateOne q g us)"
  then obtain u where u: "u \<in> set (updateOne q g us)" "u_passwordResetTokenHash u = Some h"
    by (auto simp: reset_hashes_def)
  from set_updateOneD [OF u(1)] show "h \<in> reset_hashes us \<union> K"
  proof
    assume "\<exists>d \<in> set us. q d \<and> u = g d"
    then obtain d where "d \<in> set us" "u = g d" by blast
    then show ?thesis using g [of d] u(2) by (auto simp: reset_hashes_def)
  qed (use u(2) in \<open>auto simp: reset_hashes_def\<close>)
qed

lemma reset_hashes_deleteOne: "reset_hashes (deleteOne q us) \<subseteq> reset_hashes us"
  using set_deleteOne_subset by (fastforce simp: reset_hashes_def)

lemma reset_hashes_snoc [simp]:
  "reset_hashes (us @ [u]) =
     (case u_passwordResetTokenHash u of None \<Rightarrow> reset_hashes us | Some h \<Rightarrow> insert h (reset_hashes us))"
  by (auto simp: reset_hashes_def split: option.splits)

lemma subset_un_trans: "A \<subseteq> B \<union> K \<Longrightarrow> B \<subseteq> C \<union> K \<Longrightarrow> A \<subseteq> C \<union> K"
  by blast

text \<open>Updates of each collection that issue at most the hashes in \<open>K\<close>.\<close>

lemma issues_states:
  "issues K I w0 w \<Longrightarrow> os_stateHash ` set xs \<subseteq> os_stateHash ` set (oauthStates w) \<union> K \<Longrightarrow>
     issues K I w0 (w\<lparr>oauthStates := xs\<rparr>)"
  by (simp add: issues_def) (metis subset_un_trans)

lemma issues_exchanges:
  "issues K I w0 w \<Longrightarrow> ox_codeHash ` set xs \<subseteq> ox_codeHash ` set (oauthExchanges w) \<union> K \<Longrightarrow>
     issues K I w0 (w\<lparr>oauthExchanges := xs\<rparr>)"
  by (simp add: issues_def) (metis subset_un_trans)

lemma issues_verifications:
  "issues K I w0 w \<Longrightarrow> v_tokenHash ` set xs \<subseteq> v_tokenHash ` set (verifications w) \<union> K \<Longrightarrow>
     issues K I w0 (w\<lparr>verifications := xs\<rparr>)"
  by (simp add: issues_def) (metis subset_un_trans)

lemma issues_users:
  "issues K I w0 w \<Longrightarrow> reset_hashes xs \<subseteq> reset_hashes (users w) \<union> K \<Longrightarrow>
     versions_grow I (users w) xs \<Longrightarrow> issues K I w0 (w\<lparr>users := xs\<rparr>)"
  by (simp add: issues_def) (metis subset_un_trans versions_grow_trans)

lemma issues_frame [simp]:
  "issues K I w0 (w\<lparr>companies := a\<rparr>) = issues K I w0 w"
  "issues K I w0 (w\<lparr>subscriptions := b\<rparr>) = issues K I w0 w"
  "issues K I w0 (w\<lparr>outbox := c\<rparr>) = issues K I w0 w"
  "issues K I w0 (w\<lparr>invitations := d\<rparr>) = issues K I w0 w"
  by (simp_all add: issues_def)

lemma image_deleteOne: "h ` set (deleteOne q xs) \<subseteq> h ` set xs \<union> K"
  using set_deleteOne_subset by fast

lemmas issues_deletes =
  issues_states [OF _ image_deleteOne] issues_exchanges [OF _ image_deleteOne]
  issues_verifications [OF _ image_deleteOne]

text \<open>Every handler, in the shape of \<open>keeps\<close>.\<close>

named_theorems issuing \<open>a handler issues no token but its own\<close>

lemma keeps_frame:
  "keeps (issues K I w0) (modify (\<lambda>w. w\<lparr>companies := a w\<rparr>))"
  "keeps (issues K I w0) (modify (\<lambda>w. w\<lparr>subscriptions := b w\<rparr>))"
  "keeps (issues K I w0) (modify (\<lambda>w. w\<lparr>outbox := c w\<rparr>))"
  "keeps (issues K I w0) (modify (\<lambda>w. w\<lparr>invitations := d w\<rparr>))"
  by (rule keeps_modify, simp)+

lemma keeps_deletes:
  "keeps (issues K I w0) (modify (\<lambda>w. w\<lparr>oauthStates := deleteOne q (oauthStates w)\<rparr>))"
  "keeps (issues K I w0) (modify (\<lambda>w. w\<lparr>oauthExchanges := deleteOne q' (oauthExchanges w)\<rparr>))"
  "keeps (issues K I w0) (modify (\<lambda>w. w\<lparr>verifications := deleteOne q'' (verifications w)\<rparr>))"
  by (rule keeps_modify, erule issues_deletes)+

lemma keeps_user_update:
  "(\<And>u. u_passwordResetTokenHash (g u) \<in> {None, u_passwordResetTokenHash u} \<union> Some ` K) \<Longrightarrow>
     (\<And>u. u_id (g u) = u_id u \<and> version_of u \<le> version_of (g u)) \<Longrightarrow>
     keeps (issues K I w0) (modify (\<lambda>w. w\<lparr>users := updateOne q g (users w)\<rparr>))"
  by (rule keeps_modify)
    (erule issues_users, rule reset_hashes_updateOne, assumption, rule versions_grow_updateOne)

lemma keeps_user_delete:
  "keeps (issues K I w0) (modify (\<lambda>w. w\<lparr>users := deleteOne q (users w)\<rparr>))"
  by (rule keeps_modify) (erule issues_users, rule le_supI1, rule reset_hashes_deleteOne, rule versions_grow_deleteOne)

lemmas issuing_basic = keeps_intros keeps_frame keeps_deletes keeps_user_delete

lemma create_state_issues [issuing]: "os_stateHash d \<in> K \<Longrightarrow> keeps (issues K I w0) (create_state d)"
  unfolding create_state_def
  by (intro issuing_basic keeps_modify issues_states) auto

lemma create_exchange_issues [issuing]:
  "ox_codeHash d \<in> K \<Longrightarrow> keeps (issues K I w0) (create_exchange_document d)"
  unfolding create_exchange_document_def
  by (intro issuing_basic keeps_modify issues_exchanges) auto

lemma create_verification_issues [issuing]:
  "v_tokenHash v \<in> K \<Longrightarrow> keeps (issues K I w0) (create_verification v)"
  unfolding create_verification_def
  by (intro issuing_basic keeps_modify issues_verifications) auto

lemma create_user_issues [issuing]:
  "u_passwordResetTokenHash u = None \<Longrightarrow> u_id u \<in> I \<Longrightarrow> keeps (issues K I w0) (create_user u)"
  unfolding create_user_def
  by (intro issuing_basic keeps_modify issues_users) (auto intro: versions_grow_snoc)

lemma initializeFree_issues [issuing]: "keeps (issues K I w0) (initializeFree i c now)"
  unfolding initializeFree_def Let_def by (intro issuing_basic)

lemma create_company_issues [issuing]: "keeps (issues K I w0) (create_company key c)"
  unfolding create_company_def by (intro issuing_basic)

lemma register_owner_issues [issuing]:
  "u_passwordResetTokenHash u = None \<Longrightarrow> u_id u \<in> I \<Longrightarrow>
     keeps (issues K I w0) (register_owner key env c u now)"
  unfolding register_owner_def by (intro issuing_basic issuing)

lemma assertTenantAccess_issues [issuing]: "keeps (issues K I w0) (assertTenantAccess u)"
  unfolding assertTenantAccess_def by (intro issuing_basic)

lemma signToken_issues [issuing]: "keeps (issues K I w0) (signToken sign u)"
  unfolding signToken_def by (intro issuing_basic issuing)

lemma sendActivationEmail_issues [issuing]: "keeps (issues K I w0) (sendActivationEmail b d)"
  unfolding sendActivationEmail_def by (intro issuing_basic)

lemma take_exchange_issues [issuing]: "keeps (issues K I w0) (take_exchange p h now)"
  unfolding take_exchange_def Let_def by (intro issuing_basic)

lemma begin_flow_issues: "keeps (issues {sha state} {} w0) (begin_flow sha state browser now)"
  unfolding begin_flow_def by (intro issuing_basic issuing) simp

lemma consumeState_issues: "keeps (issues {} {} w0) (consumeState sha state browser now)"
  unfolding consumeState_def Let_def prod.case by (intro issuing_basic issuing)

lemma createExchange_issues: "keeps (issues {sha code} {} w0) (createExchange sha code u now)"
  unfolding createExchange_def by (intro issuing_basic issuing) simp

lemma consumeExchange_issues: "keeps (issues {} {} w0) (consumeExchange sha code now)"
  unfolding consumeExchange_def Let_def by (intro issuing_basic issuing)

lemma createRegistrationExchange_issues:
  "keeps (issues {sha code} {} w0) (createRegistrationExchange sha code profile now)"
  unfolding createRegistrationExchange_def by (intro issuing_basic issuing) simp

lemma consumeRegistrationExchange_issues [issuing]:
  "keeps (issues K I w0) (consumeRegistrationExchange sha code now)"
  unfolding consumeRegistrationExchange_def Let_def by (intro issuing_basic issuing)

lemma createForRegistration_issues:
  "sha token \<in> K \<Longrightarrow> keeps (issues K I w0) (createForRegistration sha token c u email name now)"
  unfolding createForRegistration_def by (intro issuing_basic issuing) simp

lemma verify_issues: "keeps (issues {} {} w0) (verify sha token now)"
  unfolding verify_def Let_def by (intro issuing_basic issuing)

lemma keeps_verification_update:
  "h \<in> K \<Longrightarrow> keeps (issues K I w0) (modify (\<lambda>w. w\<lparr>verifications :=
     updateOne q (renew_verification h now) (verifications w)\<rparr>))"
  by (rule keeps_modify, erule issues_verifications)
    (auto simp: renew_verification_def dest!: set_updateOneD)

lemma upsert_verification_issues: "h \<in> K \<Longrightarrow> keeps (issues K I w0) (upsert_verification h owner now)"
  unfolding upsert_verification_def Let_def
  by (intro issuing_basic keeps_verification_update issuing) simp_all

lemma resend_verification_issues:
  "keeps (issues {sha token} {} w0) (resend_verification sha token mailed email now)"
  unfolding resend_verification_def renew_activation_def
  by (intro issuing_basic issuing upsert_verification_issues) simp

lemma signUp_issues: "keeps (issues {sha (re_token env)} {re_ownerId env} w0) (signUp sha bcrypt key env dto now)"
  unfolding signUp_def signUp_transaction_def
  by (intro issuing_basic issuing createForRegistration_issues) (simp_all add: new_owner_def)

lemma signUpWithGoogle_issues: "keeps (issues {} {re_ownerId env} w0) (signUpWithGoogle sha key sign env dto now)"
  unfolding signUpWithGoogle_def by (intro issuing_basic issuing) (simp_all add: new_owner_def)

lemma findGoogleUser_issues: "keeps (issues {} {} w0) (findGoogleUser profile)"
  unfolding findGoogleUser_def by (intro issuing_basic issuing keeps_user_update) (simp_all add: version_of_def)

lemma forgotPassword_issues:
  "keeps (issues {sha token} {} w0) (forgotPassword sha token mailed cleaned email now)"
  unfolding forgotPassword_def Let_def
  by (intro issuing_basic keeps_user_update) (simp_all add: request_reset_def clear_reset_def version_of_def)

lemma resetPassword_issues: "keeps (issues {} {} w0) (resetPassword sha bcrypt token p now later)"
  unfolding resetPassword_def Let_def
  by (intro issuing_basic keeps_user_update) (simp_all add: with_new_password_def clear_reset_def version_of_def)

lemma users_findOne_issues [issuing]: "keeps (issues K I w0) (users_findOne actor t)"
  unfolding users_findOne_def by (intro issuing_basic)

lemma updateUser_issues: "keeps (issues {} {} w0) (updateUser actor t n)"
  unfolding updateUser_def Let_def
  by (intro issuing_basic issuing keeps_user_update) (simp_all add: version_of_def split: option.split)

lemma changePassword_issues: "keeps (issues {} {} w0) (changePassword cmp bcrypt actor p q)"
  unfolding changePassword_def Let_def by (intro issuing_basic keeps_user_update) (simp_all add: version_of_def)

lemma acquireLock_issues [issuing]: "keeps (issues K I w0) (acquireLock c)"
  unfolding acquireLock_def by (intro issuing_basic)

lemma take_user_issues [issuing]: "keeps (issues K I w0) (take_user q)"
  unfolding take_user_def by (intro issuing_basic)

lemma deleteUser_issues: "keeps (issues {} {} w0) (deleteUser e actor t)"
  unfolding deleteUser_def Let_def by (intro issuing_basic issuing)

lemma updateCurrent_issues: "keeps (issues {} {} w0) (updateCurrent key c dto)"
  unfolding updateCurrent_def by (intro issuing_basic issuing)

lemma assertEmployeeCapacity_issues [issuing]: "keeps (issues K I w0) (assertEmployeeCapacity e c n at)"
  unfolding assertEmployeeCapacity_def by (intro issuing_basic issuing)

lemma accept_issues: "keeps (issues {} {newId} w0) (accept sha bcrypt e newId dto now)"
  unfolding accept_def accept_transaction_def Let_def
  by (intro issuing_basic issuing) (simp_all add: new_member_def)

section \<open>Steps of the accounts\<close>

text \<open>
  One step of the system that issues neither the token hash \<open>k\<close> nor a user with identifier \<open>i\<close>:
  any request of the components of this theory, with any outcome, or the removal of expired
  documents by a TTL index.
\<close>

definition expire_tokens :: "date \<Rightarrow> world \<Rightarrow> world" where
  "expire_tokens t w = w\<lparr>oauthStates := filter (\<lambda>d. os_expiresAt d > t) (oauthStates w),
     oauthExchanges := filter (\<lambda>d. ox_expiresAt d > t) (oauthExchanges w),
     verifications := filter (\<lambda>v. v_expiresAt v > t) (verifications w)\<rparr>"

inductive account_step :: "(string \<Rightarrow> string) \<Rightarrow> string \<Rightarrow> oid \<Rightarrow> world \<Rightarrow> world \<Rightarrow> bool"
  for sha k i where
  step_begin: "begin_flow sha state browser now w = (r, w') \<Longrightarrow> sha state \<noteq> k \<Longrightarrow> account_step sha k i w w'"
| step_consume_state: "consumeState sha state' browser' now w = (r1, w') \<Longrightarrow> account_step sha k i w w'"
| step_create_exchange: "createExchange sha code u now w = (r2, w') \<Longrightarrow> sha code \<noteq> k \<Longrightarrow> account_step sha k i w w'"
| step_consume_exchange: "consumeExchange sha code now w = (r3, w') \<Longrightarrow> account_step sha k i w w'"
| step_registration_exchange: "createRegistrationExchange sha code profile now w = (r4, w') \<Longrightarrow>
    sha code \<noteq> k \<Longrightarrow> account_step sha k i w w'"
| step_google_user: "findGoogleUser profile w = (r5, w') \<Longrightarrow> account_step sha k i w w'"
| step_google_sign_up: "signUpWithGoogle sha key sign env gdto now w = (r6, w') \<Longrightarrow> re_ownerId env \<noteq> i \<Longrightarrow>
    account_step sha k i w w'"
| step_sign_up: "signUp sha bcrypt key env dto now w = (r7, w') \<Longrightarrow> sha (re_token env) \<noteq> k \<Longrightarrow>
    re_ownerId env \<noteq> i \<Longrightarrow> account_step sha k i w w'"
| step_verify: "verify sha token now w = (r8, w') \<Longrightarrow> account_step sha k i w w'"
| step_resend: "resend_verification sha token mailed email now w = (r9, w') \<Longrightarrow> sha token \<noteq> k \<Longrightarrow>
    account_step sha k i w w'"
| step_forgot: "forgotPassword sha token mailed cleaned email now w = (r10, w') \<Longrightarrow> sha token \<noteq> k \<Longrightarrow>
    account_step sha k i w w'"
| step_reset: "resetPassword sha bcrypt token p now later w = (r11, w') \<Longrightarrow> account_step sha k i w w'"
| step_update_user: "updateUser actor target name w = (r12, w') \<Longrightarrow> account_step sha k i w w'"
| step_change_password: "changePassword cmp bcrypt actor p q w = (r13, w') \<Longrightarrow> account_step sha k i w w'"
| step_delete_user: "deleteUser e actor target w = (r14, w') \<Longrightarrow> account_step sha k i w w'"
| step_update_company: "updateCurrent key c cdto w = (r15, w') \<Longrightarrow> account_step sha k i w w'"
| step_accept: "accept sha bcrypt e newId adto now w = (r16, w') \<Longrightarrow> newId \<noteq> i \<Longrightarrow> account_step sha k i w w'"
| step_expire: "account_step sha k i w (expire_tokens t w)"

inductive_cases account_stepE: "account_step sha k i w w'"

lemma issuesI: "keeps (issues K I w) m \<Longrightarrow> m w = (r, w') \<Longrightarrow> issues K I w w'"
  by (rule keepsD) (assumption+, simp)

lemma versions_grow_mono: "I \<subseteq> I' \<Longrightarrow> versions_grow I us vs \<Longrightarrow> versions_grow I' us vs"
  by (auto simp: versions_grow_def)

lemma subset_un_mono: "A \<subseteq> B \<union> K \<Longrightarrow> K \<subseteq> K' \<Longrightarrow> A \<subseteq> B \<union> K'"
  by blast

lemma issues_mono: "issues K I w w' \<Longrightarrow> K \<subseteq> K' \<Longrightarrow> I \<subseteq> I' \<Longrightarrow> issues K' I' w w'"
  using versions_grow_mono [of I I'] subset_un_mono [of _ _ K K'] by (simp add: issues_def)

lemma expire_issues: "issues K I w (expire_tokens t w)"
  by (auto simp: issues_def expire_tokens_def)

text \<open>The summary of the relation: a step issues only hashes other than \<open>k\<close>, users other than \<open>i\<close>.\<close>

lemma account_step_issues: "account_step sha k i w w' \<Longrightarrow> issues (- {k}) (- {i}) w w'"
  by (erule account_stepE)
    (auto intro: expire_issues
      issues_mono [OF issuesI [OF begin_flow_issues]] issues_mono [OF issuesI [OF consumeState_issues]]
      issues_mono [OF issuesI [OF createExchange_issues]]
      issues_mono [OF issuesI [OF consumeExchange_issues]]
      issues_mono [OF issuesI [OF createRegistrationExchange_issues]]
      issues_mono [OF issuesI [OF findGoogleUser_issues]]
      issues_mono [OF issuesI [OF signUpWithGoogle_issues]]
      issues_mono [OF issuesI [OF signUp_issues]] issues_mono [OF issuesI [OF verify_issues]]
      issues_mono [OF issuesI [OF resend_verification_issues]]
      issues_mono [OF issuesI [OF forgotPassword_issues]]
      issues_mono [OF issuesI [OF resetPassword_issues]]
      issues_mono [OF issuesI [OF updateUser_issues]]
      issues_mono [OF issuesI [OF changePassword_issues]]
      issues_mono [OF issuesI [OF deleteUser_issues]]
      issues_mono [OF issuesI [OF updateCurrent_issues]]
      issues_mono [OF issuesI [OF accept_issues]])

section \<open>Every token is spent once\<close>

lemma deleteOne_gone:
  assumes "find q xs = Some d" "distinct (map h xs)" "h d = k"
  shows "k \<notin> h ` set (deleteOne q xs)"
  using find_deleteOne_key [OF assms(1,2)] assms(3) by (auto simp: find_None_iff)

subsection \<open>States and codes of the Google sign-in\<close>

definition live_state :: "world \<Rightarrow> string \<Rightarrow> bool" where
  "live_state w k \<longleftrightarrow> k \<in> os_stateHash ` set (oauthStates w)"

definition live_code :: "world \<Rightarrow> string \<Rightarrow> bool" where
  "live_code w k \<longleftrightarrow> k \<in> ox_codeHash ` set (oauthExchanges w)"

lemma consumeState_Inr:
  assumes "consumeState sha st br now w = (Inr x, w')"
  shows "\<exists>s d q. st = Some s \<and> find q (oauthStates w) = Some d \<and> os_stateHash d = sha s
    \<and> oauthStates w' = deleteOne q (oauthStates w)"
proof (cases st; cases br)
  fix s b assume e: "st = Some s" "br = Some b"
  let ?q = "\<lambda>d. os_stateHash d = sha s \<and> os_browserHash d = sha b \<and> os_expiresAt d > now"
  obtain d where d: "find ?q (oauthStates w) = Some d"
    and w': "w' = w\<lparr>oauthStates := deleteOne ?q (oauthStates w)\<rparr>"
    using assms e by (auto simp: consumeState_def Let_def action_simps split: if_splits)
  then show ?thesis using e find_SomeD [OF d] by auto
qed (use assms in \<open>simp_all add: consumeState_def Let_def throw_def\<close>)

lemma take_exchange_Inr:
  assumes "take_exchange p h now w = (Inr (Some x), w')"
  shows "\<exists>q. find q (oauthExchanges w) = Some x \<and> ox_codeHash x = h \<and> ox_purpose x = p
    \<and> now < ox_expiresAt x \<and> w' = w\<lparr>oauthExchanges := deleteOne q (oauthExchanges w)\<rparr>"
proof -
  let ?q = "\<lambda>d. ox_codeHash d = h \<and> ox_purpose d = p \<and> ox_expiresAt d > now"
  have f: "find ?q (oauthExchanges w) = Some x"
    and w': "w' = w\<lparr>oauthExchanges := deleteOne ?q (oauthExchanges w)\<rparr>"
    using assms by (simp_all add: take_exchange_def Let_def action_simps)
  show ?thesis using f w' find_SomeD [OF f] by blast
qed

lemma consumeExchange_Inr:
  assumes "consumeExchange sha code now w = (Inr u, w')"
  shows "\<exists>x q. find q (oauthExchanges w) = Some x \<and> ox_codeHash x = sha code
    \<and> ox_purpose x = Google_Login_Exchange \<and> now < ox_expiresAt x \<and> ox_userId x = Some u
    \<and> w' = w\<lparr>oauthExchanges := deleteOne q (oauthExchanges w)\<rparr>"
proof -
  from assms obtain x where x: "take_exchange Google_Login_Exchange (sha code) now w = (Inr (Some x), w')"
    and "ox_userId x = Some u"
    by (auto simp: consumeExchange_def Let_def action_simps split: if_splits option.splits)
  with take_exchange_Inr [OF x] show ?thesis by auto
qed

lemma consumeRegistrationExchange_Inr:
  assumes "consumeRegistrationExchange sha code now w = (Inr g, w')"
  shows "\<exists>x q. find q (oauthExchanges w) = Some x \<and> ox_codeHash x = sha code
    \<and> ox_purpose x = Google_Registration_Exchange \<and> now < ox_expiresAt x
    \<and> ox_email x = Some (gu_email g)
    \<and> w' = w\<lparr>oauthExchanges := deleteOne q (oauthExchanges w)\<rparr>"
proof -
  from assms obtain v w1 where
    v: "take_exchange Google_Registration_Exchange (sha code) now w = (Inr v, w1)"
    and g: "(case v of None \<Rightarrow> throw (http Unauthorized ''Invalid Google registration code'')
      | Some x \<Rightarrow> (case ox_email x of
          None \<Rightarrow> throw (http Unauthorized ''Invalid Google registration code'')
        | Some email \<Rightarrow> if email = [] then throw (http Unauthorized ''Invalid Google registration code'')
            else return \<lparr>gu_email = email, gu_fullName = option_default [] (ox_fullName x),
              gu_avatar = ox_avatar x\<rparr>)) w1 = (Inr g, w')"
    by (auto simp: consumeRegistrationExchange_def Let_def action_simps split: if_splits)
  from g obtain x where "v = Some x" "ox_email x = Some (gu_email g)" "w1 = w'"
    by (cases v) (auto simp: action_simps split: option.splits if_splits)
  with v have x: "take_exchange Google_Registration_Exchange (sha code) now w = (Inr (Some x), w')"
    and "ox_email x = Some (gu_email g)" by simp_all
  with take_exchange_Inr [OF x] show ?thesis by auto
qed

definition spend_state ::
  "(string \<Rightarrow> string) \<Rightarrow> string \<Rightarrow> string \<times> string option \<times> date \<Rightarrow> unit handler" where
  "spend_state sha k attempt = (case attempt of (st, br, now) \<Rightarrow>
     if sha st = k then consumeState sha (Some st) br now else throw (PlainError ''another token''))"

definition spend_code :: "(string \<Rightarrow> string) \<Rightarrow> string \<Rightarrow> string \<times> date \<Rightarrow> oid handler" where
  "spend_code sha k attempt = (case attempt of (code, now) \<Rightarrow>
     if sha code = k then consumeExchange sha code now else throw (PlainError ''another token''))"

interpretation google_state: one_time_token live_state
    "\<lambda>w. distinct (map os_stateHash (oauthStates w))" "spend_state sha" "\<lambda>k. account_step sha k i"
  for sha i
proof
  fix k a w x w' assume s: "spend_state sha k a w = (Inr x, w')"
  obtain st br now where a: "a = (st, br, now)" by (cases a)
  have c: "consumeState sha (Some st) br now w = (Inr x, w')" "sha st = k"
    using s by (auto simp: spend_state_def a action_simps split: if_splits)
  from consumeState_Inr [OF c(1)] c(2) obtain d q where
    d: "find q (oauthStates w) = Some d" "os_stateHash d = k"
      "oauthStates w' = deleteOne q (oauthStates w)" by auto
  show "live_state w k" using find_SomeD [OF d(1)] d(2) by (auto simp: live_state_def)
  assume "distinct (map os_stateHash (oauthStates w))"
  then show "\<not> live_state w' k" using deleteOne_gone [where h = os_stateHash, OF d(1) _ d(2)] d(3)
    by (simp add: live_state_def)
next
  fix k w w' assume "account_step sha k i w w'" "\<not> live_state w k"
  then show "\<not> live_state w' k" using account_step_issues [of sha k i w w']
    by (auto simp: issues_def live_state_def)
qed

interpretation google_code: one_time_token live_code
    "\<lambda>w. distinct (map ox_codeHash (oauthExchanges w))" "spend_code sha" "\<lambda>k. account_step sha k i"
  for sha i
proof
  fix k a w x w' assume s: "spend_code sha k a w = (Inr x, w')"
  obtain code now where a: "a = (code, now)" by (cases a)
  have c: "consumeExchange sha code now w = (Inr x, w')" "sha code = k"
    using s by (auto simp: spend_code_def a action_simps split: if_splits)
  from consumeExchange_Inr [OF c(1)] c(2) obtain d q where
    d: "find q (oauthExchanges w) = Some d" "ox_codeHash d = k"
      "w' = w\<lparr>oauthExchanges := deleteOne q (oauthExchanges w)\<rparr>" by auto
  show "live_code w k" using find_SomeD [OF d(1)] d(2) by (auto simp: live_code_def)
  assume "distinct (map ox_codeHash (oauthExchanges w))"
  then show "\<not> live_code w' k" using deleteOne_gone [where h = ox_codeHash, OF d(1) _ d(2)] d(3)
    by (simp add: live_code_def)
next
  fix k w w' assume "account_step sha k i w w'" "\<not> live_code w k"
  then show "\<not> live_code w' k" using account_step_issues [of sha k i w w']
    by (auto simp: issues_def live_code_def)
qed

subsection \<open>Activation of a company\<close>

definition live_verification :: "world \<Rightarrow> string \<Rightarrow> bool" where
  "live_verification w k \<longleftrightarrow> k \<in> v_tokenHash ` set (verifications w)"

lemma verify_Inr:
  assumes "verify sha token now w = (Inr m, w')"
  shows "\<exists>v q c. find q (verifications w) = Some v \<and> v_tokenHash v = sha token
    \<and> now < v_expiresAt v
    \<and> find (\<lambda>u. u_id u = v_ownerId v \<and> u_companyId u = v_companyId v \<and> u_role u = COMPANY_OWNER)
        (users w) \<noteq> None
    \<and> find (\<lambda>c. c_id c = v_companyId v \<and> c_activatedAt c = None) (companies w) = Some c
    \<and> w' = w\<lparr>verifications := deleteOne q (verifications w),
        companies := updateOne (\<lambda>c. c_id c = v_companyId v \<and> c_activatedAt c = None) (activate now)
          (companies w)\<rparr>"
proof -
  let ?q = "\<lambda>v. v_tokenHash v = sha token \<and> v_expiresAt v > now"
  obtain v where v: "find ?q (verifications w) = Some v"
    using assms by (cases "find ?q (verifications w)") (auto simp: verify_def Let_def action_simps)
  show ?thesis
    using assms v find_SomeD [OF v]
    by (intro exI [of _ v] exI [of _ ?q]) (auto simp: verify_def Let_def action_simps split: if_splits)
qed

lemma verify_Inl: "verify sha token now w = (Inl e, w') \<Longrightarrow> w' = w \<and> e = invalidToken"
  by (auto simp: verify_def Let_def action_simps split: if_splits option.splits)

definition spend_verification ::
  "(string \<Rightarrow> string) \<Rightarrow> string \<Rightarrow> string \<times> date \<Rightarrow> string handler" where
  "spend_verification sha k attempt = (case attempt of (token, now) \<Rightarrow>
     if sha token = k then verify sha token now else throw (PlainError ''another token''))"

interpretation activation_token: one_time_token live_verification
    "\<lambda>w. distinct (map v_tokenHash (verifications w))" "spend_verification sha" "\<lambda>k. account_step sha k i"
  for sha i
proof
  fix k a w x w' assume s: "spend_verification sha k a w = (Inr x, w')"
  obtain token now where a: "a = (token, now)" by (cases a)
  have c: "verify sha token now w = (Inr x, w')" "sha token = k"
    using s by (auto simp: spend_verification_def a action_simps split: if_splits)
  from verify_Inr [OF c(1)] c(2) obtain d q cs where
    d: "find q (verifications w) = Some d" "v_tokenHash d = k"
      "w' = w\<lparr>verifications := deleteOne q (verifications w), companies := cs\<rparr>" by blast
  show "live_verification w k" using find_SomeD [OF d(1)] d(2) by (auto simp: live_verification_def)
  assume "distinct (map v_tokenHash (verifications w))"
  then show "\<not> live_verification w' k"
    using deleteOne_gone [where h = v_tokenHash, OF d(1) _ d(2)] d(3)
    by (simp add: live_verification_def)
next
  fix k w w' assume "account_step sha k i w w'" "\<not> live_verification w k"
  then show "\<not> live_verification w' k" using account_step_issues [of sha k i w w']
    by (auto simp: issues_def live_verification_def)
qed

subsection \<open>Password resets\<close>

definition live_reset :: "world \<Rightarrow> string \<Rightarrow> bool" where
  "live_reset w k \<longleftrightarrow> k \<in> reset_hashes (users w)"

text \<open>No two users share an identifier or an open reset token.\<close>

definition users_ok :: "user list \<Rightarrow> bool" where
  "users_ok us \<longleftrightarrow> distinct (map u_id us)
     \<and> sorted_wrt (\<lambda>u v. u_passwordResetTokenHash u = None
          \<or> u_passwordResetTokenHash u \<noteq> u_passwordResetTokenHash v) us"

lemma users_ok_same_reset:
  "users_ok us \<Longrightarrow> u \<in> set us \<Longrightarrow> v \<in> set us \<Longrightarrow> u_passwordResetTokenHash u = Some k \<Longrightarrow>
     u_passwordResetTokenHash v = Some k \<Longrightarrow> u = v"
  by (induction us) (auto simp: users_ok_def)

lemma resetPassword_Inr:
  assumes "resetPassword sha bcrypt token p now later w = (Inr b, w')"
  shows "\<exists>u q. u \<in> set (users w) \<and> resettable (sha token) now u
    \<and> usable_company w (u_companyId u) \<noteq> None
    \<and> q = (\<lambda>v. u_id v = u_id u \<and> u_companyId v = u_companyId u \<and> resettable (sha token) later v)
    \<and> find q (users w) \<noteq> None
    \<and> w' = w\<lparr>users := updateOne q (with_new_password (bcrypt p)) (users w)\<rparr>"
proof -
  obtain u where u: "find (resettable (sha token) now) (users w) = Some u"
    using assms by (cases "find (resettable (sha token) now) (users w)")
      (auto simp: resetPassword_def Let_def action_simps)
  show ?thesis
    using assms u find_SomeD [OF u]
    by (intro exI [of _ u])
      (auto simp: resetPassword_def Let_def action_simps split: if_splits)
qed

lemma resetPassword_Inl: "resetPassword sha bcrypt token p now later w = (Inl e, w') \<Longrightarrow> w' = w"
  by (auto simp: resetPassword_def Let_def action_simps split: if_splits option.splits)

text \<open>With unique tokens, exactly the holder of the token gets the new password.\<close>

lemma resetPassword_holder:
  assumes ok: "users_ok (users w)"
    and r: "resetPassword sha bcrypt token p now later w = (Inr b, w')"
  shows "\<exists>us u vs. users w = us @ u # vs \<and> resettable (sha token) now u \<and> resettable (sha token) later u
    \<and> usable_company w (u_companyId u) \<noteq> None
    \<and> w' = w\<lparr>users := us @ with_new_password (bcrypt p) u # vs\<rparr>"
proof -
  from resetPassword_Inr [OF r] obtain u q where
    u: "u \<in> set (users w)" "resettable (sha token) now u" "usable_company w (u_companyId u) \<noteq> None"
    and q: "q = (\<lambda>v. u_id v = u_id u \<and> u_companyId v = u_companyId u \<and> resettable (sha token) later v)"
      "find q (users w) \<noteq> None"
    and w': "w' = w\<lparr>users := updateOne q (with_new_password (bcrypt p)) (users w)\<rparr>" by blast
  obtain v where v: "find q (users w) = Some v" using q(2) by blast
  then have v': "v \<in> set (users w)" "q v" using find_SomeD by fastforce+
  have "v = u" using users_ok_same_reset [OF ok v'(1) u(1)] v'(2) u(2) by (simp add: q(1) resettable_def)
  moreover obtain us vs where "users w = us @ v # vs" "updateOne q (with_new_password (bcrypt p)) (users w)
      = us @ with_new_password (bcrypt p) v # vs"
    using updateOne_split [OF v] by blast
  ultimately show ?thesis using u(2,3) v'(2) w' by (auto simp: q(1))
qed

section \<open>Sessions\<close>

definition newer :: "oid \<Rightarrow> int \<Rightarrow> user list \<Rightarrow> bool" where
  "newer i n us \<longleftrightarrow> (\<forall>u \<in> set us. u_id u = i \<longrightarrow> n < version_of u)"

lemma newer_steps:
  assumes "(\<lambda>w w'. \<exists>k. account_step sha k i w w')\<^sup>*\<^sup>* w w'" "newer i n (users w)"
  shows "newer i n (users w')"
  using assms
proof (induction rule: rtranclp_induct)
  case (step w1 w2)
  then obtain k where "account_step sha k i w1 w2" by blast
  from account_step_issues [OF this] have g: "versions_grow (- {i}) (users w1) (users w2)"
    by (simp add: issues_def)
  show ?case unfolding newer_def
  proof (intro ballI impI)
    fix u assume u: "u \<in> set (users w2)" "u_id u = i"
    then obtain u0 where "u0 \<in> set (users w1)" "u_id u0 = i" "version_of u0 \<le> version_of u"
      using g by (auto simp: versions_grow_def)
    then show "n < version_of u" using step.IH [OF step.prems] by (auto simp: newer_def)
  qed
qed

text \<open>The guard, seen from the outside.\<close>

lemma isAuth_Inr:
  "isAuth_canActivate vj h w = (Inr a, w') \<longleftrightarrow> w' = w \<and>
     (\<exists>t p u c. bearer_token h = Some t \<and> vj t = Some p \<and> is_valid_id (tp_id p) \<and> tp_type p = None
       \<and> find (\<lambda>u. u_id u = id_value (tp_id p)) (users w) = Some u
       \<and> option_default 0 (tp_version p) = version_of u
       \<and> activated_company w (u_companyId u) = Some c \<and> c_platformStatus c \<noteq> PLATFORM_SUSPENDED
       \<and> a = \<lparr>a_id = u_id u, a_companyId = u_companyId u, a_role = u_role u\<rparr>)"
  by (auto simp: isAuth_canActivate_def Let_def action_simps split: option.split)

lemma isAuth_state: "isAuth_canActivate vj h w = (r, w') \<Longrightarrow> w' = w"
  by (cases r) (auto simp: isAuth_canActivate_def Let_def action_simps split: option.splits if_splits)

lemma find_by_id:
  "distinct (map h xs) \<Longrightarrow> u \<in> set xs \<Longrightarrow> find (\<lambda>v. h v = h u) xs = Some u"
  by (induction xs) (auto simp: image_iff)

text \<open>
  C30. A password reset ends the open sessions: any bearer token the guard accepted for the user
  before the reset is refused after it, and after any further sequence of account requests by
  anybody.
\<close>

theorem reset_ends_sessions:
  assumes ok: "users_ok (users w)" and u: "u \<in> set (users w)" "resettable (sha token) now u"
    and before: "isAuth_canActivate verify_jwt h w = (Inr a, w)" "a_id a = u_id u"
    and reset: "resetPassword sha bcrypt token p now later w = (Inr b, w1)"
    and steps: "(\<lambda>w w'. \<exists>k. account_step sha k (u_id u) w w')\<^sup>*\<^sup>* w1 w2"
  shows "\<exists>e. isAuth_canActivate verify_jwt h w2 = (Inl e, w2)"
proof -
  from resetPassword_holder [OF ok reset] obtain us v vs where
    v: "users w = us @ v # vs" "resettable (sha token) now v"
    and w1: "w1 = w\<lparr>users := us @ with_new_password (bcrypt p) v # vs\<rparr>" by blast
  have "v = u" using users_ok_same_reset [OF ok _ u(1)] u(2) v by (simp add: resettable_def)
  with v w1 have s: "users w = us @ u # vs" "users w1 = us @ with_new_password (bcrypt p) u # vs" by auto
  from ok have d: "distinct (map u_id (users w))" by (simp add: users_ok_def)
  have "newer (u_id u) (version_of u) (users w1)"
    using d unfolding s by (auto simp: newer_def with_new_password_def version_of_def) (metis imageI)+
  from newer_steps [OF steps this] have n: "newer (u_id u) (version_of u) (users w2)" .
  from before(1) obtain t q u' where t: "bearer_token h = Some t" "verify_jwt t = Some q"
    and u': "find (\<lambda>u. u_id u = id_value (tp_id q)) (users w) = Some u'"
      "option_default 0 (tp_version q) = version_of u'" "a_id a = u_id u'"
    by (auto simp: isAuth_Inr)
  from u' have i: "u' \<in> set (users w)" "u_id u' = id_value (tp_id q)" using find_SomeD by fastforce+
  have "u' = u" using d i(1) u(1) u'(3) before(2) by (metis distinct_map inj_onD)
  with u' i have "option_default 0 (tp_version q) = version_of u" "id_value (tp_id q) = u_id u" by simp_all
  then have no: "isAuth_canActivate verify_jwt h w2 \<noteq> (Inr a', w3)" for a' w3
    using n t by (auto simp: isAuth_Inr newer_def dest!: find_SomeD)
  then show ?thesis using isAuth_state [of verify_jwt h w2]
    by (cases "isAuth_canActivate verify_jwt h w2"; cases "fst (isAuth_canActivate verify_jwt h w2)") auto
qed

lemma reset_kills:
  assumes ok: "users_ok (users w)" and r: "resetPassword sha bcrypt token p now later w = (Inr b, w')"
  shows "live_reset w (sha token) \<and> \<not> live_reset w' (sha token)"
proof -
  from resetPassword_holder [OF ok r] obtain us u vs where
    u: "users w = us @ u # vs" "resettable (sha token) now u"
    and w': "w' = w\<lparr>users := us @ with_new_password (bcrypt p) u # vs\<rparr>" by blast
  have "u_passwordResetTokenHash v \<noteq> Some (sha token)" if "v \<in> set us \<union> set vs" for v
  proof
    assume "u_passwordResetTokenHash v = Some (sha token)"
    then have "v = u" using users_ok_same_reset [OF ok, of v u "sha token"] that u
      by (auto simp: resettable_def)
    then show False using that ok u(1) by (auto simp: users_ok_def)
  qed
  then show ?thesis using u unfolding w'
    by (auto simp: live_reset_def reset_hashes_def resettable_def with_new_password_def clear_reset_def)
qed

definition spend_reset ::
  "(string \<Rightarrow> string) \<Rightarrow> (string \<Rightarrow> string) \<Rightarrow> string \<Rightarrow> string \<times> string \<times> date \<times> date \<Rightarrow> bool handler" where
  "spend_reset sha bcrypt k attempt = (case attempt of (token, p, now, later) \<Rightarrow>
     if sha token = k then resetPassword sha bcrypt token p now later
     else throw (PlainError ''another token''))"

interpretation reset_token: one_time_token live_reset "\<lambda>w. users_ok (users w)" "spend_reset sha bcrypt"
    "\<lambda>k. account_step sha k i"
  for sha bcrypt i
proof
  fix k a w x w' assume s: "spend_reset sha bcrypt k a w = (Inr x, w')"
  obtain token p now later where a: "a = (token, p, now, later)" by (cases a)
  have c: "resetPassword sha bcrypt token p now later w = (Inr x, w')" "sha token = k"
    using s by (auto simp: spend_reset_def a action_simps split: if_splits)
  from resetPassword_Inr [OF c(1)] c(2) show "live_reset w k"
    by (auto simp: live_reset_def reset_hashes_def resettable_def)
  assume "users_ok (users w)"
  then show "\<not> live_reset w' k" using reset_kills c by blast
next
  fix k w w' assume "account_step sha k i w w'" "\<not> live_reset w k"
  then show "\<not> live_reset w' k" using account_step_issues [of sha k i w w']
    by (auto simp: issues_def live_reset_def)
qed

text \<open>
  A reset token is spent once: after a successful reset, no sequence of account requests
  makes another reset with the same token succeed.
\<close>

theorem reset_once:
  assumes ok: "users_ok (users w)" and r: "resetPassword sha bcrypt token p now later w = (Inr b, w1)"
    and steps: "(account_step sha (sha token) i)\<^sup>*\<^sup>* w1 w2"
  shows "\<exists>e. resetPassword sha bcrypt token p' now' later' w2 = (Inl e, w2)"
proof -
  have "spend_reset sha bcrypt (sha token) (token, p, now, later) w = (Inr b, w1)"
    using r by (simp add: spend_reset_def)
  from reset_token.spent_once [OF ok this steps, of "(token, p', now', later')"]
  obtain e v where "resetPassword sha bcrypt token p' now' later' w2 = (Inl e, v)"
    by (auto simp: spend_reset_def)
  then show ?thesis using resetPassword_Inl by blast
qed

text \<open>
  A company is activated once, by its owner's token: a successful verification activates
  exactly one company that was not active, whose owner exists, and sets its time; a failure
  changes nothing; and no sequence of account requests makes the token work again.
\<close>

theorem activation_once:
  assumes v: "verify sha token now w = (r, w1)"
    and ok: "distinct (map v_tokenHash (verifications w))"
    and steps: "(account_step sha (sha token) i)\<^sup>*\<^sup>* w1 w2"
  shows "(r = Inl invalidToken \<and> w1 = w) \<or>
    ((\<exists>cs c ds u. companies w = cs @ c # ds \<and> c_activatedAt c = None
        \<and> companies w1 = cs @ activate now c # ds
        \<and> u \<in> set (users w) \<and> u_companyId u = c_id c \<and> u_role u = COMPANY_OWNER)
     \<and> (\<forall>now'. verify sha token now' w2 = (Inl invalidToken, w2)))"
proof (cases r)
  case (Inl e)
  then show ?thesis using verify_Inl v by blast
next
  case (Inr m)
  then have v: "verify sha token now w = (Inr m, w1)" using v by simp
  from verify_Inr [OF v] obtain d :: verification and q c where
    o: "find (\<lambda>u. u_id u = v_ownerId d \<and> u_companyId u = v_companyId d \<and> u_role u = COMPANY_OWNER)
        (users w) \<noteq> None"
    and c: "find (\<lambda>c. c_id c = v_companyId d \<and> c_activatedAt c = None) (companies w) = Some c"
    and w1: "w1 = w\<lparr>verifications := deleteOne q (verifications w),
        companies := updateOne (\<lambda>c. c_id c = v_companyId d \<and> c_activatedAt c = None) (activate now)
          (companies w)\<rparr>" by blast
  obtain u where "u \<in> set (users w)" "u_companyId u = v_companyId d" "u_role u = COMPANY_OWNER"
    using o by (auto simp: find_None_iff)
  moreover have "c_id c = v_companyId d" "c_activatedAt c = None" using find_SomeD [OF c] by auto
  moreover obtain cs ds where "companies w = cs @ c # ds" "companies w1 = cs @ activate now c # ds"
    using updateOne_split [OF c, of "activate now"] w1 by auto
  moreover have "verify sha token now' w2 = (Inl invalidToken, w2)" for now'
  proof -
    have "spend_verification sha (sha token) (token, now) w = (Inr m, w1)"
      using v by (simp add: spend_verification_def)
    from activation_token.spent_once [OF ok this steps, of "(token, now')"]
    obtain e t where "verify sha token now' w2 = (Inl e, t)" by (auto simp: spend_verification_def)
    then show ?thesis using verify_Inl by blast
  qed
  ultimately show ?thesis by metis
qed

section \<open>Registration\<close>

lemma create_company_Inr:
  "create_company key c w = (Inr d, w') \<longleftrightarrow> d = c \<and> w' = w\<lparr>companies := companies w @ [c]\<rparr>
     \<and> find (\<lambda>d. key (c_name d) = key (c_name c)) (companies w) = None"
  by (auto simp: create_company_def action_simps split: if_splits)

lemma create_user_Inr:
  "create_user u w = (Inr v, w') \<longleftrightarrow> v = u \<and> w' = w\<lparr>users := users w @ [u]\<rparr> \<and> \<not> user_exists w (u_email u)"
  by (auto simp: create_user_def action_simps split: if_splits)

lemma initializeFree_Inr:
  "initializeFree i c now w = (Inr s, w') \<longleftrightarrow> subscription_of w c = None
     \<and> s = subscription_document i c FREE now now \<and> w' = w\<lparr>subscriptions := subscriptions w @ [s]\<rparr>"
  by (auto simp: initializeFree_def action_simps Let_def split: if_splits)

lemma create_verification_Inr:
  "create_verification v w = (Inr x, w') \<longleftrightarrow> w' = w\<lparr>verifications := verifications w @ [v]\<rparr>
     \<and> find (\<lambda>e. v_companyId e = v_companyId v) (verifications w) = None
     \<and> find (\<lambda>e. v_tokenHash e = v_tokenHash v) (verifications w) = None"
  by (auto simp: create_verification_def action_simps split: if_splits)

lemmas registration_Inr =
  create_company_Inr create_user_Inr initializeFree_Inr create_verification_Inr

text \<open>What a registration writes.\<close>

definition registered_company :: "registration_env \<Rightarrow> sign_up \<Rightarrow> company" where
  "registered_company env dto = new_company (re_companyId env) (su_companyName dto) (su_country dto)
     (su_industry dto) None"

definition registered_owner :: "(string \<Rightarrow> string) \<Rightarrow> registration_env \<Rightarrow> sign_up \<Rightarrow> date \<Rightarrow> user" where
  "registered_owner bcrypt env dto now = new_owner (re_ownerId env) (su_email dto) (su_fullName dto)
     (Some (bcrypt (su_password dto))) None (re_companyId env) now"

definition registered_verification ::
  "(string \<Rightarrow> string) \<Rightarrow> registration_env \<Rightarrow> date \<Rightarrow> verification" where
  "registered_verification sha env now = \<lparr>v_companyId = re_companyId env, v_ownerId = re_ownerId env,
     v_tokenHash = sha (re_token env), v_expiresAt = now + VERIFICATION_TOKEN_TTL_MS,
     v_lastSentAt = Some now\<rparr>"

definition registered :: "(string \<Rightarrow> string) \<Rightarrow> (string \<Rightarrow> string) \<Rightarrow> registration_env \<Rightarrow> sign_up \<Rightarrow> date
    \<Rightarrow> world \<Rightarrow> world" where
  "registered sha bcrypt env dto now w = w\<lparr>companies := companies w @ [registered_company env dto],
     users := users w @ [registered_owner bcrypt env dto now],
     subscriptions := subscriptions w
       @ [subscription_document (re_subscriptionId env) (re_companyId env) FREE now now],
     verifications := verifications w @ [registered_verification sha env now]\<rparr>"

lemma signUp_transaction_Inr:
  "signUp_transaction sha bcrypt key env dto now w = (Inr d, w') \<longleftrightarrow>
     d = \<lparr>ad_email = su_email dto, ad_companyName = su_companyName dto, ad_token = re_token env\<rparr>
   \<and> w' = registered sha bcrypt env dto now w
   \<and> list_all (\<lambda>c. key (c_name c) \<noteq> key (su_companyName dto)) (companies w)
   \<and> \<not> user_exists w (su_email dto) \<and> subscription_of w (re_companyId env) = None
   \<and> list_all (\<lambda>v. v_companyId v \<noteq> re_companyId env \<and> v_tokenHash v \<noteq> sha (re_token env)) (verifications w)"
  by (auto simp: signUp_transaction_def register_owner_def createForRegistration_def action_simps
      registration_Inr new_company_def new_owner_def registered_def registered_company_def
      registered_owner_def registered_verification_def find_None_iff list_all_iff user_exists_def
      subscription_of_def)

lemma signUp_transaction_Inl:
  "signUp_transaction sha bcrypt key env dto now w = (Inl e, w') \<Longrightarrow> w' = w"
  by (simp add: signUp_transaction_def action_simps)

lemma signUp_outcome:
  assumes "signUp sha bcrypt key env dto now w = (r, w')"
  shows "(\<exists>e e'. r = Inl e \<and> w' = w \<and> signUp_transaction sha bcrypt key env dto now w = (Inl e', w))
    \<or> (\<exists>d. signUp_transaction sha bcrypt key env dto now w = (Inr d, registered sha bcrypt env dto now w)
        \<and> (if re_mailed env
           then (\<exists>m. r = Inr m) \<and> w' = (registered sha bcrypt env dto now w)\<lparr>outbox := outbox w
             @ [CompanyActivationMail (su_email dto) (su_companyName dto) (re_token env)]\<rparr>
           else (\<exists>m. r = Inl (http ServiceUnavailable m)) \<and> w' = registered sha bcrypt env dto now w))"
proof (cases "fst (signUp_transaction sha bcrypt key env dto now w)")
  case (Inl e')
  then have t: "signUp_transaction sha bcrypt key env dto now w = (Inl e', w)"
    by (metis prod.collapse signUp_transaction_Inl)
  then have "r = Inl (registration_error e')" "w' = w"
    using assms by (simp_all add: signUp_def catching_def andthen_def throw_def)
  then show ?thesis using t by blast
next
  case (Inr d)
  then have t: "signUp_transaction sha bcrypt key env dto now w = (Inr d, registered sha bcrypt env dto now w)"
    and d: "d = \<lparr>ad_email = su_email dto, ad_companyName = su_companyName dto, ad_token = re_token env\<rparr>"
    by (metis prod.collapse signUp_transaction_Inr)+
  then show ?thesis using assms
    by (auto simp: signUp_def catching_def andthen_def throw_def return_def modify_def
        sendActivationEmail_def registration_error_def registered_def)
qed

text \<open>
  Registration is all or nothing: a taken company name, then a taken address, then a
  leftover document of the new identifiers is refused with its message and nothing is written;
  otherwise the company (not active), its owner, the free subscription and the verification of
  the mailed token are all written, and a failed delivery is reported without undoing them.
\<close>

theorem signUp_all_or_nothing:
  "signUp sha bcrypt key env dto now w =
     (if list_ex (\<lambda>c. key (c_name c) = key (su_companyName dto)) (companies w)
      then (Inl (http Conflict ''Company name is already in use''), w)
      else if user_exists w (su_email dto)
      then (Inl (http Conflict ''Email is already in use''), w)
      else if subscription_of w (re_companyId env) \<noteq> None
        \<or> list_ex (\<lambda>v. v_companyId v = re_companyId env \<or> v_tokenHash v = sha (re_token env)) (verifications w)
      then (Inl (http Conflict ''Company or user already exists''), w)
      else if re_mailed env
      then (Inr ''Company registered. Check your email to activate the account.'',
            (registered sha bcrypt env dto now w)\<lparr>outbox := outbox w
              @ [CompanyActivationMail (su_email dto) (su_companyName dto) (re_token env)]\<rparr>)
      else (Inl (http ServiceUnavailable ''Registration was saved, but the activation email could not be delivered. Please request another activation email.''),
            registered sha bcrypt env dto now w))"
proof -
  consider (name) "find (\<lambda>c. key (c_name c) = key (su_companyName dto)) (companies w) \<noteq> None"
    | (email) "find (\<lambda>c. key (c_name c) = key (su_companyName dto)) (companies w) = None" "user_exists w (su_email dto)"
    | (left) "find (\<lambda>c. key (c_name c) = key (su_companyName dto)) (companies w) = None" "\<not> user_exists w (su_email dto)"
      "subscription_of w (re_companyId env) \<noteq> None
        \<or> list_ex (\<lambda>v. v_companyId v = re_companyId env \<or> v_tokenHash v = sha (re_token env)) (verifications w)"
    | (ok) "find (\<lambda>c. key (c_name c) = key (su_companyName dto)) (companies w) = None" "\<not> user_exists w (su_email dto)"
      "subscription_of w (re_companyId env) = None"
      "\<not> list_ex (\<lambda>v. v_companyId v = re_companyId env \<or> v_tokenHash v = sha (re_token env)) (verifications w)"
    by blast
  then show ?thesis
  proof cases
    case ok
    then have "signUp_transaction sha bcrypt key env dto now w =
        (Inr \<lparr>ad_email = su_email dto, ad_companyName = su_companyName dto, ad_token = re_token env\<rparr>,
         registered sha bcrypt env dto now w)"
      by (simp add: signUp_transaction_Inr find_None_iff list_ex_iff list_all_iff)
    then show ?thesis using ok
      by (auto simp: signUp_def catching_def andthen_def throw_def return_def modify_def find_None_iff
          sendActivationEmail_def registration_error_def registered_def list_ex_iff)
  qed (auto simp: signUp_def signUp_transaction_def register_owner_def create_company_def
      create_user_def initializeFree_def createForRegistration_def create_verification_def
      catching_def andthen_def transaction_def gets_def throw_def return_def modify_def Let_def
      new_company_def new_owner_def registration_error_def find_None_iff list_ex_iff
      user_exists_def subscription_of_def)
qed

text \<open>The header a client sends with a signed token.\<close>

abbreviation bearer :: "string \<Rightarrow> string option" where
  "bearer t \<equiv> Some (''Bearer '' @ t)"

definition plain_token :: "string \<Rightarrow> bool" where
  "plain_token t \<longleftrightarrow> t \<noteq> [] \<and> list_all (\<lambda>c. \<not> js_space (of_char c)) t"

lemma bearer_token_plain: "plain_token t \<Longrightarrow> bearer_token (bearer t) = Some t"
  by (simp add: bearer_token_def plain_token_def)

lemma signIn_Inr:
  assumes "find (\<lambda>u. u_email u = email) (users w) = Some u" "u_password u = Some h" "h \<noteq> []"
    "compare p h" "activated_company w (u_companyId u) = Some c" "c_platformStatus c \<noteq> PLATFORM_SUSPENDED"
  shows "signIn compare sign email p w = (Inr (sign (payload_of u)), w)"
  using assms by (simp add: signIn_def Let_def andthen_def gets_def signToken_def assertTenantAccess_def
      return_def)

lemma find_snoc_new: "(\<And>x. x \<in> set xs \<Longrightarrow> \<not> q x) \<Longrightarrow> q y \<Longrightarrow> find q (xs @ [y]) = Some y"
  by (induction xs) auto

lemma find_append_split:
  "\<forall>x \<in> set xs. \<not> q x \<Longrightarrow> find q (xs @ y # ys) = (if q y then Some y else find q ys)"
  by (induction xs) auto

lemma updateOne_append_split:
  "\<forall>x \<in> set xs. \<not> q x \<Longrightarrow>
     updateOne q g (xs @ y # ys) = (if q y then xs @ g y # ys else xs @ y # updateOne q g ys)"
  by (induction xs) auto

lemma updateOne_append_new:
  "find q xs = None \<Longrightarrow> q x \<Longrightarrow> updateOne q g (xs @ [x]) = xs @ [g x]"
  by (induction xs) (auto split: if_splits)

text \<open>
  C9. A registration leads to a working account: after a registration whose mail went out, the
  owner cannot sign in until the company is activated; the mailed token activates it at any
  time within a day; then the owner signs in with the password, and the guard admits the
  bearer token as the owner of that company.
\<close>

theorem registration_roundtrip:
  assumes r: "signUp sha bcrypt key env dto now w = (Inr m, w1)"
    and fresh: "\<forall>c \<in> set (companies w). c_id c \<noteq> re_companyId env"
      "\<forall>u \<in> set (users w). u_id u \<noteq> re_ownerId env"
    and t: "t < now + VERIFICATION_TOKEN_TTL_MS"
    and hash: "compare (su_password dto) (bcrypt (su_password dto))" "bcrypt (su_password dto) \<noteq> []"
    and jwt: "p = \<lparr>tp_id = Valid_Id (re_ownerId env), tp_type = None, tp_version = Some 0\<rparr>"
      "verify_jwt (sign p) = Some p" "plain_token (sign p)"
  shows "signIn compare sign (su_email dto) (su_password dto) w1
      = (Inl (http Unauthorized ''Account is not activated''), w1)
    \<and> (\<exists>w2. verify sha (re_token env) t w1 = (Inr ''Account activated. You can now sign in.'', w2)
      \<and> signIn compare sign (su_email dto) (su_password dto) w2 = (Inr (sign p), w2)
      \<and> isAuth_canActivate verify_jwt (bearer (sign p)) w2 =
          (Inr \<lparr>a_id = re_ownerId env, a_companyId = re_companyId env, a_role = COMPANY_OWNER\<rparr>, w2))"
proof -
  let ?u = "registered_owner bcrypt env dto now" and ?c = "registered_company env dto"
  let ?v = "registered_verification sha env now"
  from signUp_outcome [OF r] have
    s: "signUp_transaction sha bcrypt key env dto now w =
      (Inr \<lparr>ad_email = su_email dto, ad_companyName = su_companyName dto, ad_token = re_token env\<rparr>,
       registered sha bcrypt env dto now w)"
    and w1: "companies w1 = companies w @ [?c]" "users w1 = users w @ [?u]"
      "verifications w1 = verifications w @ [?v]"
    by (auto simp: signUp_transaction_Inr registered_def split: if_splits)
  have u: "u_id ?u = re_ownerId env" "u_companyId ?u = re_companyId env" "u_role ?u = COMPANY_OWNER"
    "u_email ?u = su_email dto" "u_password ?u = Some (bcrypt (su_password dto))" "version_of ?u = 0"
    by (simp_all add: registered_owner_def new_owner_def version_of_def)
  have c: "c_id ?c = re_companyId env" "c_activatedAt ?c = None" "c_platformStatus ?c = PLATFORM_ACTIVE"
    by (simp_all add: registered_company_def new_company_def)
  have v: "v_companyId ?v = re_companyId env" "v_ownerId ?v = re_ownerId env" "t < v_expiresAt ?v"
    "v_tokenHash ?v = sha (re_token env)"
    using t by (simp_all add: registered_verification_def)
  have owner: "find (\<lambda>u. u_email u = su_email dto) (users w1) = Some ?u"
    "find (\<lambda>u. u_id u = re_ownerId env) (users w1) = Some ?u"
    "find (\<lambda>u. u_id u = re_ownerId env \<and> u_companyId u = re_companyId env \<and> u_role u = COMPANY_OWNER)
       (users w1) = Some ?u"
    using s fresh(2) u unfolding w1
    by (auto simp: signUp_transaction_Inr user_exists_def list_ex_iff intro!: find_snoc_new)
  have inactive: "activated_company w1 (re_companyId env) = None"
    using fresh(1) c by (auto simp: activated_company_def w1 find_None_iff)
  have doc: "find (\<lambda>v. v_tokenHash v = sha (re_token env) \<and> v_expiresAt v > t) (verifications w1) = Some ?v"
    using s v unfolding w1 by (auto simp: signUp_transaction_Inr list_all_iff intro!: find_snoc_new)
  have co: "find (\<lambda>c. c_id c = re_companyId env \<and> c_activatedAt c = None) (companies w1) = Some ?c"
    using fresh(1) c unfolding w1 by (auto intro!: find_snoc_new)
  define w2 where "w2 = w1\<lparr>verifications := deleteOne
      (\<lambda>v. v_tokenHash v = sha (re_token env) \<and> v_expiresAt v > t) (verifications w1),
    companies := updateOne (\<lambda>c. c_id c = re_companyId env \<and> c_activatedAt c = None) (activate t) (companies w1)\<rparr>"
  have ver: "verify sha (re_token env) t w1 = (Inr ''Account activated. You can now sign in.'', w2)"
    by (simp add: verify_def Let_def andthen_def gets_def transaction_def doc v owner co modify_def
        return_def w2_def)
  have active: "activated_company w2 (re_companyId env) = Some (activate t ?c)"
  proof -
    have "updateOne (\<lambda>c. c_id c = re_companyId env \<and> c_activatedAt c = None) (activate t) (companies w1)
        = companies w @ [activate t ?c]"
      using fresh(1) c unfolding w1 by (auto simp: find_None_iff intro!: updateOne_append_new)
    then show ?thesis unfolding activated_company_def w2_def using fresh(1) c
      by (auto simp: activate_def intro!: find_snoc_new)
  qed
  have us: "users w2 = users w1" by (simp add: w2_def)
  have p: "payload_of ?u = p" using u jwt(1) by (simp add: payload_of_def)
  have "signIn compare sign (su_email dto) (su_password dto) w1
      = (Inl (http Unauthorized ''Account is not activated''), w1)"
    using owner(1) u hash inactive
    by (simp add: signIn_def Let_def andthen_def gets_def signToken_def assertTenantAccess_def throw_def)
  moreover have "signIn compare sign (su_email dto) (su_password dto) w2 = (Inr (sign p), w2)"
    using signIn_Inr [of "su_email dto" w2 ?u] owner(1) u hash active c us p by (simp add: activate_def)
  moreover have "isAuth_canActivate verify_jwt (bearer (sign p)) w2 =
      (Inr \<lparr>a_id = re_ownerId env, a_companyId = re_companyId env, a_role = COMPANY_OWNER\<rparr>, w2)"
    using owner(2) u active c us jwt bearer_token_plain [OF jwt(3)]
    by (simp add: isAuth_Inr activate_def)
  ultimately show ?thesis using ver by blast
qed

section \<open>Recovering a password\<close>

lemma forgotPassword_mailed:
  assumes "forgotPassword sha token True cl email now w = (r, w1)" "outbox w1 \<noteq> outbox w"
  shows "\<exists>u v c. find (\<lambda>u. u_email u = email) (users w) = Some u \<and> usable_company w (u_companyId u) = Some c
    \<and> find (may_request u now) (users w) = Some v
    \<and> w1 = w\<lparr>users := updateOne (may_request u now) (request_reset (sha token) now) (users w),
        outbox := outbox w @ [PasswordResetMail (u_email v) token]\<rparr>"
  using assms
  by (auto simp: forgotPassword_def Let_def andthen_def gets_def return_def modify_def
      split: option.splits if_splits)

lemma usable_active:
  "distinct (map c_id (companies w)) \<Longrightarrow> usable_company w i = Some c \<Longrightarrow>
     activated_company w i = Some c \<and> c_platformStatus c \<noteq> PLATFORM_SUSPENDED"
  unfolding usable_company_def activated_company_def
proof (induction "companies w" arbitrary: w)
  case (Cons x xs)
  show ?case
  proof (cases "c_id x = i")
    case True
    have "find (\<lambda>c. c_id c = i \<and> P c) xs = None" for P
      using Cons.hyps(2) Cons.prems(1) True
      by (auto simp: find_None_iff simp flip: Cons.hyps(2)) (metis imageI)
    then show ?thesis using Cons.prems(2) True by (auto simp flip: Cons.hyps(2) split: if_splits)
  next
    case False
    then show ?thesis using Cons.hyps(1) [of "w\<lparr>companies := xs\<rparr>"] Cons.prems
      by (simp flip: Cons.hyps(2))
  qed
qed simp

text \<open>
  Recovery works: whenever a reset mail goes out, the mailed token sets a new password
  within half an hour, and the user then signs in with it.
\<close>

theorem recovery_roundtrip:
  assumes ok: "distinct (map u_id (users w))" "distinct (map c_id (companies w))"
    and fresh: "sha token \<notin> reset_hashes (users w)"
    and f: "forgotPassword sha token True cl email t0 w = (r, w1)" and sent: "outbox w1 \<noteq> outbox w"
    and time: "now < t0 + RESET_TTL_MS" "later < t0 + RESET_TTL_MS"
    and hash: "compare p (bcrypt p)" "bcrypt p \<noteq> []"
  shows "\<exists>w2 jwt. resetPassword sha bcrypt token p now later w1 = (Inr True, w2)
    \<and> signIn compare sign email p w2 = (Inr jwt, w2)"
proof -
  from forgotPassword_mailed [OF f sent] obtain u v c where
    u: "find (\<lambda>u. u_email u = email) (users w) = Some u"
    and c: "usable_company w (u_companyId u) = Some c" and v: "find (may_request u t0) (users w) = Some v"
    and w1: "w1 = w\<lparr>users := updateOne (may_request u t0) (request_reset (sha token) t0) (users w),
        outbox := outbox w @ [PasswordResetMail (u_email v) token]\<rparr>" by blast
  have uu: "u \<in> set (users w)" "u_email u = email" using find_SomeD [OF u] by auto
  have vv: "v \<in> set (users w)" "u_id v = u_id u" using find_SomeD [OF v] by (auto simp: may_request_def)
  have vu: "v = u" using ok(1) uu(1) vv by (metis distinct_map inj_onD)
  let ?g = "request_reset (sha token) t0" and ?n = "with_new_password (bcrypt p)"
  obtain us vs where s: "users w = us @ u # vs" "users w1 = us @ ?g u # vs"
    using updateOne_split [OF v, of ?g] vu w1 by auto
  have no: "\<not> resettable (sha token) t x" if "x \<in> set us \<union> set vs" for x t
    using fresh that s(1) by (auto simp: reset_hashes_def resettable_def)
  have g: "resettable (sha token) now (?g u)" "resettable (sha token) later (?g u)"
    using time by (simp_all add: resettable_def request_reset_def)
  have f1: "find (resettable (sha token) now) (users w1) = Some (?g u)"
    using no g(1) by (simp add: s(2) find_append_split)
  let ?q = "\<lambda>x. u_id x = u_id (?g u) \<and> u_companyId x = u_companyId (?g u) \<and> resettable (sha token) later x"
  have f2: "find ?q (users w1) = Some (?g u)"
    using no g(2) by (simp add: s(2) find_append_split)
  have up: "updateOne ?q ?n (users w1) = us @ ?n (?g u) # vs"
    using no g(2) by (simp add: s(2) updateOne_append_split)
  define w2 where "w2 = w1\<lparr>users := us @ ?n (?g u) # vs\<rparr>"
  have company: "usable_company w1 = usable_company w" "activated_company w2 = activated_company w"
    by (auto simp: usable_company_def activated_company_def w1 w2_def)
  have "u_companyId (?g u) = u_companyId u" by (simp add: request_reset_def)
  then have reset: "resetPassword sha bcrypt token p now later w1 = (Inr True, w2)"
    using f1 f2 up company c
    by (simp add: resetPassword_def Let_def andthen_def gets_def modify_def return_def w2_def)
  have e: "u_email (?n (?g u)) = email" "u_password (?n (?g u)) = Some (bcrypt p)"
    "u_companyId (?n (?g u)) = u_companyId u"
    using uu(2) by (simp_all add: with_new_password_def clear_reset_def request_reset_def)
  have "\<forall>x \<in> set us. u_email x \<noteq> email"
    using u ok(1) s(1) by (auto simp: find_append find_None_iff split: option.splits dest!: find_SomeD)
  then have "find (\<lambda>u. u_email u = email) (users w2) = Some (?n (?g u))"
    using e(1) by (simp add: w2_def find_append_split)
  then have "signIn compare sign email p w2 = (Inr (sign (payload_of (?n (?g u)))), w2)"
    using signIn_Inr [of email w2 "?n (?g u)" "bcrypt p" compare p c sign] e hash company
      usable_active [OF ok(2) c] by simp
  then show ?thesis using reset by blast
qed

section \<open>The owner's operations\<close>

lemma deleteOne_split:
  "find q xs = Some x \<Longrightarrow> \<exists>ys zs. xs = ys @ x # zs \<and> deleteOne q xs = ys @ zs"
proof (induction xs)
  case (Cons a xs)
  show ?case
  proof (cases "q a")
    case True
    then show ?thesis using Cons.prems by (intro exI [of _ "[]"] exI [of _ xs]) simp
  next
    case False
    with Cons obtain ys zs where "xs = ys @ x # zs" "deleteOne q xs = ys @ zs" by auto
    with False show ?thesis by (intro exI [of _ "a # ys"] exI [of _ zs]) simp
  qed
qed simp

lemma users_findOne_Inr:
  "users_findOne actor t w = (Inr u, w') \<longleftrightarrow> w' = w \<and> (a_role actor = COMPANY_OWNER \<or> a_id actor = t)
     \<and> find (\<lambda>u. u_id u = t \<and> u_companyId u = a_companyId actor) (users w) = Some u"
  by (auto simp: users_findOne_def requireSelfOrOwner_def action_simps split: option.splits)

lemma users_findOne_Inl: "users_findOne actor t w = (Inl e, w') \<Longrightarrow> w' = w"
  by (auto simp: users_findOne_def action_simps split: option.splits)

text \<open>Deleting under the lock, or without it when payments are off.\<close>

definition remove_user :: "bool \<Rightarrow> oid \<Rightarrow> (user \<Rightarrow> bool) \<Rightarrow> user option handler" where
  "remove_user e c q = (if e then transaction (andthen (acquireLock c) (\<lambda>_. take_user q)) else take_user q)"

lemma remove_user_Inr:
  assumes "remove_user e c q w = (Inr v, w')"
  shows "v = find q (users w) \<and> users w' = deleteOne q (users w) \<and> companies w' = companies w
    \<and> files w' = files w \<and> (\<not> e \<longrightarrow> subscriptions w' = subscriptions w)"
  using assms by (auto simp: remove_user_def take_user_def action_simps lock_simps split: if_splits)

lemma remove_user_Inl: "remove_user e c q w = (Inl d, w') \<Longrightarrow> w' = w"
  by (auto simp: remove_user_def take_user_def action_simps split: if_splits)

lemma deleteUser_unfold:
  "deleteUser e actor target = andthen (lift_result (requireOwner actor)) (\<lambda>_.
     andthen (users_findOne actor target) (\<lambda>t.
     if u_role t = COMPANY_OWNER then throw (http BadRequest ''The company owner cannot be deleted'')
     else andthen (remove_user e (a_companyId actor)
        (\<lambda>u. u_id u = target \<and> u_companyId u = a_companyId actor \<and> u_role u = COMPANY_MEMBER)) (\<lambda>user.
     case user of None \<Rightarrow> throw (http NotFound ''User not found'') | Some u \<Rightarrow> return u)))"
  unfolding deleteUser_def remove_user_def Let_def by (rule refl)

lemma deleteUser_Inl:
  assumes r: "deleteUser e actor target w = (Inl err, w')"
  shows "w' = w"
proof (cases "fst (users_findOne actor target w)")
  case (Inl d)
  then have "users_findOne actor target w = (Inl d, w)" by (metis prod.collapse users_findOne_Inl)
  then show ?thesis using r
    by (auto simp: deleteUser_unfold andthen_def lift_result_def split: sum.splits)
next
  case (Inr t)
  then have f: "users_findOne actor target w = (Inr t, w)" by (metis prod.collapse users_findOne_Inr)
  show ?thesis
  proof (cases "u_role t")
    case COMPANY_OWNER
    then show ?thesis using r f
      by (auto simp: deleteUser_unfold andthen_def lift_result_def throw_def split: sum.splits)
  next
    case COMPANY_MEMBER
    then have "find (\<lambda>u. u_id u = target \<and> u_companyId u = a_companyId actor \<and> u_role u = COMPANY_MEMBER)
        (users w) \<noteq> None"
      using f by (auto simp: users_findOne_Inr find_None_iff dest!: find_SomeD)
    then show ?thesis using r f COMPANY_MEMBER remove_user_Inl remove_user_Inr
      by (fastforce simp: deleteUser_unfold action_simps split: option.splits)
  qed
qed

text \<open>
  Deleting a user stays inside the company: only an owner deletes, only a member of the own
  company, never an owner; exactly that user disappears from the users, and a refused request
  changes nothing.
\<close>

theorem deleteUser_only_member:
  "(\<exists>err. deleteUser e actor target w = (Inl err, w))
   \<or> (\<exists>us u vs w'. deleteUser e actor target w = (Inr u, w')
        \<and> users w = us @ u # vs \<and> users w' = us @ vs
        \<and> u_id u = target \<and> u_companyId u = a_companyId actor \<and> u_role u = COMPANY_MEMBER
        \<and> a_role actor = COMPANY_OWNER \<and> companies w' = companies w \<and> files w' = files w)"
proof -
  obtain r w' where r: "deleteUser e actor target w = (r, w')" by fastforce
  let ?q = "\<lambda>u. u_id u = target \<and> u_companyId u = a_companyId actor \<and> u_role u = COMPANY_MEMBER"
  show ?thesis
  proof (cases r)
    case (Inr u)
    with r have v: "remove_user e (a_companyId actor) ?q w = (Inr (Some u), w')"
      and o: "a_role actor = COMPANY_OWNER"
      by (auto simp: deleteUser_unfold requireOwner_def action_simps users_findOne_Inr
          split: if_splits option.splits)
    note f = remove_user_Inr [OF v]
    then have u: "find ?q (users w) = Some u" by simp
    from deleteOne_split [OF u] obtain us vs where
      "users w = us @ u # vs" "deleteOne ?q (users w) = us @ vs" by blast
    moreover from this f have "users w' = us @ vs" by metis
    moreover have "u_id u = target" "u_companyId u = a_companyId actor" "u_role u = COMPANY_MEMBER"
      using find_SomeD [OF u] by auto
    ultimately show ?thesis using r Inr o f by auto
  qed (use r deleteUser_Inl in blast)
qed

section \<open>Sign-in codes\<close>

text \<open>
  A Google sign-in code signs one session in: a code that was exchanged was issued for that
  user and had not expired, and no sequence of account requests makes it work again.
\<close>

theorem google_code_once:
  assumes c: "consumeExchange sha code now w = (Inr u, w1)"
    and ok: "distinct (map ox_codeHash (oauthExchanges w))"
    and steps: "(account_step sha (sha code) i)\<^sup>*\<^sup>* w1 w2"
  shows "(\<exists>x \<in> set (oauthExchanges w). ox_codeHash x = sha code \<and> ox_purpose x = Google_Login_Exchange
      \<and> ox_userId x = Some u \<and> now < ox_expiresAt x)
    \<and> (\<exists>e w3. consumeExchange sha code now' w2 = (Inl e, w3))"
proof
  from consumeExchange_Inr [OF c] obtain x q where
    x: "find q (oauthExchanges w) = Some x" and p: "ox_codeHash x = sha code"
      "ox_purpose x = Google_Login_Exchange" "ox_userId x = Some u" "now < ox_expiresAt x" by blast
  have "x \<in> set (oauthExchanges w)" using find_SomeD [OF x] by simp
  with p show "\<exists>x \<in> set (oauthExchanges w). ox_codeHash x = sha code
      \<and> ox_purpose x = Google_Login_Exchange \<and> ox_userId x = Some u \<and> now < ox_expiresAt x" by blast
  have "spend_code sha (sha code) (code, now) w = (Inr u, w1)" using c by (simp add: spend_code_def)
  from google_code.spent_once [OF ok this steps, of "(code, now')"]
  show "\<exists>e w3. consumeExchange sha code now' w2 = (Inl e, w3)" by (simp add: spend_code_def)
qed

section \<open>Witnesses\<close>

definition example_env :: registration_env where
  "example_env = \<lparr>re_companyId = 7, re_ownerId = 1, re_subscriptionId = 2, re_token = ''v'', re_mailed = True\<rparr>"

definition example_sign_up :: sign_up where
  "example_sign_up = \<lparr>su_email = ''o@x.io'', su_fullName = None, su_password = ''pw'',
     su_companyName = ''Acme'', su_country = ''DE'', su_industry = ''IT''\<rparr>"

definition signed_up :: world where
  "signed_up = snd (signUp id id id example_env example_sign_up 1000000 empty_world)"

definition activated :: world where
  "activated = snd (verify id ''v'' 2000000 signed_up)"

definition asked :: world where
  "asked = snd (forgotPassword id ''r'' True True ''o@x.io'' 3000000 activated)"

definition example_sign :: "token_payload \<Rightarrow> string" where
  "example_sign p = ''jwt''"

definition example_verify_jwt :: "string \<Rightarrow> token_payload option" where
  "example_verify_jwt t = (if t = ''jwt''
     then Some \<lparr>tp_id = Valid_Id 1, tp_type = None, tp_version = Some 0\<rparr> else None)"

theorem registration_roundtrip_witness:
  "\<exists>w2. verify id ''v'' 2000000 signed_up = (Inr ''Account activated. You can now sign in.'', w2)
     \<and> signIn (=) example_sign ''o@x.io'' ''pw'' w2 = (Inr ''jwt'', w2)"
proof -
  let ?r = "signUp id id id example_env example_sign_up 1000000 empty_world"
  have "\<not> isl (fst ?r)" by code_simp
  from InrI [OF this] have r: "?r = (Inr (projr (fst ?r)), signed_up)" by (simp add: signed_up_def)
  show ?thesis
    using registration_roundtrip [OF r, of 2000000 "(=)"
        "\<lparr>tp_id = Valid_Id 1, tp_type = None, tp_version = Some 0\<rparr>" example_verify_jwt example_sign]
    by (simp add: empty_world_def VERIFICATION_TOKEN_TTL_MS_def example_env_def example_sign_up_def
        example_sign_def example_verify_jwt_def plain_token_def js_space_def) blast
qed

theorem signUp_all_or_nothing_witness:
  "signUp id id id example_env example_sign_up 1000001 signed_up
    = (Inl (http Conflict ''Company name is already in use''), signed_up)"
proof -
  have "list_ex (\<lambda>c. id (c_name c) = id (su_companyName example_sign_up)) (companies signed_up)" by code_simp
  then show ?thesis
    by (simp only: signUp_all_or_nothing [of id id id example_env example_sign_up 1000001 signed_up] if_True)
qed

theorem activation_once_witness:
  "verify id ''v'' 2000001 activated = (Inl invalidToken, activated)"
proof -
  let ?r = "verify id ''v'' 2000000 signed_up"
  have "\<not> isl (fst ?r)" by code_simp
  moreover have r: "?r = (fst ?r, activated)" by (simp add: activated_def)
  moreover have "distinct (map v_tokenHash (verifications signed_up))" by code_simp
  ultimately show ?thesis
    using activation_once [OF r _ rtranclp.rtrancl_refl] by (metis sum.disc(1))
qed

theorem recovery_roundtrip_witness:
  "\<exists>w2 jwt. resetPassword id id ''r'' ''new'' 3000001 3000002 asked = (Inr True, w2)
     \<and> signIn (=) example_sign ''o@x.io'' ''new'' w2 = (Inr jwt, w2)"
proof -
  let ?r = "forgotPassword id ''r'' True True ''o@x.io'' 3000000 activated"
  have r: "?r = (fst ?r, asked)" by (simp add: asked_def)
  have "distinct (map u_id (users activated))" "distinct (map c_id (companies activated))"
    "outbox asked \<noteq> outbox activated" by code_simp+
  moreover have "map u_passwordResetTokenHash (users activated) = [None]" by code_simp
  then have "''r'' \<notin> reset_hashes (users activated)"
    by (auto simp: reset_hashes_def map_eq_Cons_conv)
  ultimately show ?thesis
    using recovery_roundtrip [OF _ _ _ r, where now = 3000001 and later = 3000002 and p = "''new''"
        and compare = "(=)" and bcrypt = id and sign = example_sign] by (simp add: RESET_TTL_MS_def)
qed

definition asked_user :: user where
  "asked_user = hd (users asked)"

lemma asked_users: "users asked = [asked_user]" "users_ok (users asked)"
proof -
  have "map u_id (users asked) = [1]" by code_simp
  then show "users asked = [asked_user]" by (auto simp: asked_user_def)
  then show "users_ok (users asked)" by (simp add: users_ok_def)
qed

lemma asked_reset:
  "\<exists>b w1. resetPassword id id ''r'' ''new'' 3000001 3000002 asked = (Inr b, w1)"
proof -
  have "\<not> isl (fst (resetPassword id id ''r'' ''new'' 3000001 3000002 asked))" by code_simp
  from InrI [OF this] show ?thesis by blast
qed

theorem reset_ends_sessions_witness:
  "\<exists>w1 e. resetPassword id id ''r'' ''new'' 3000001 3000002 asked = (Inr True, w1)
     \<and> isAuth_canActivate example_verify_jwt (bearer ''jwt'') w1 = (Inl e, w1)"
proof -
  from asked_reset obtain b w1 where
    r: "resetPassword id id ''r'' ''new'' 3000001 3000002 asked = (Inr b, w1)" by blast
  then have b: "b" by (auto simp: resetPassword_def Let_def action_simps split: option.splits if_splits)
  let ?a = "isAuth_canActivate example_verify_jwt (bearer ''jwt'') asked"
  have n: "\<not> isl (fst ?a)" "a_id (projr (fst ?a)) = u_id asked_user" by code_simp+
  have a: "?a = (Inr (projr (fst ?a)), asked)" using InrI [OF n(1)] isAuth_state by (metis prod.collapse)
  have s: "resettable (id ''r'') 3000001 asked_user" by code_simp
  have u: "asked_user \<in> set (users asked)" by (simp add: asked_users)
  from reset_ends_sessions [OF asked_users(2) u s a n(2) r rtranclp.rtrancl_refl] r b show ?thesis by auto
qed

theorem reset_once_witness:
  "\<exists>w1 e. resetPassword id id ''r'' ''new'' 3000001 3000002 asked = (Inr True, w1)
     \<and> resetPassword id id ''r'' ''again'' 3000003 3000004 w1 = (Inl e, w1)"
proof -
  from asked_reset obtain b w1 where
    r: "resetPassword id id ''r'' ''new'' 3000001 3000002 asked = (Inr b, w1)" by blast
  then have b: "b" by (auto simp: resetPassword_def Let_def action_simps split: option.splits if_splits)
  from reset_once [OF asked_users(2) r rtranclp.rtrancl_refl] r b show ?thesis by auto
qed

definition example_code :: string where
  "example_code = replicate 43 CHR ''a''"

theorem google_code_once_witness:
  "\<exists>w1 e w3. consumeExchange id example_code 10 (snd (createExchange id example_code 1 5 empty_world)) = (Inr 1, w1)
     \<and> consumeExchange id example_code 11 w1 = (Inl e, w3)"
proof -
  let ?w = "snd (createExchange id example_code 1 5 empty_world)"
  let ?r = "consumeExchange id example_code 10 ?w"
  have n: "\<not> isl (fst ?r)" "projr (fst ?r) = 1" by code_simp+
  have r: "?r = (Inr 1, snd ?r)" using InrI [OF n(1)] n(2) by simp
  have d: "distinct (map ox_codeHash (oauthExchanges ?w))" by code_simp
  from google_code_once [OF r d rtranclp.rtrancl_refl] r show ?thesis by blast
qed

end
