(* ===== verification/Stripe.thy ===== *)
theory Stripe
  imports Subscriptions Calendar
begin

text \<open>
  Stripe, as the payment service sees it: the objects it reads (one record per resource, with the
  fields the code reads), the client (\<open>payments/stripe-client.service.ts\<close>) and the requests that
  change something at Stripe. The service itself is not under \<open>src/\<close>: it is the parameter
  \<open>'x stripe_api\<close>, one function per method the code calls, on a state \<open>'x\<close> of which nothing is
  assumed. The same state carries the clock and the source of random UUIDs.
\<close>

section \<open>Resources\<close>

record remote_item =
  it_id :: string
  it_price :: string
  it_quantity :: "int option"
  it_start :: "int option"
  it_end :: "int option"

record cycle_anchor =
  ba_day :: int
  ba_hour :: "int option"
  ba_minute :: "int option"
  ba_second :: "int option"

record remote_invoice =
  ri_id :: string
  ri_status :: "string option"
  ri_livemode :: bool
  ri_customer :: "string option"
  ri_subscription :: "string option"
  ri_autoAdvance :: bool
  ri_employees :: "string option"
  ri_currency :: string
  ri_amountDue :: int
  ri_amountPaid :: int
  ri_total :: int
  ri_hostedUrl :: "string option"
  ri_created :: int

text \<open>\<open>rs_latestInvoice\<close> is the expanded invoice; an unexpanded or missing one is \<open>None\<close>.\<close>

record remote_subscription =
  rs_id :: string
  rs_status :: string
  rs_livemode :: bool
  rs_customer :: "string option"
  rs_companyId :: "string option"
  rs_anchor :: "cycle_anchor option"
  rs_items :: "remote_item list"
  rs_schedule :: "string option"
  rs_latestInvoice :: "remote_invoice option"
  rs_paused :: bool
  rs_collectionMethod :: string
  rs_cancelAtPeriodEnd :: bool

record line_item =
  li_id :: string
  li_price :: "string option"
  li_quantity :: "int option"
  li_start :: int
  li_end :: int

record 'a page =
  pg_data :: "'a list"
  pg_hasMore :: bool

record checkout_session =
  co_id :: string
  co_status :: "string option"
  co_url :: "string option"
  co_livemode :: bool
  co_mode :: string
  co_customer :: "string option"
  co_operation :: "string option"
  co_setupIntent :: "string option"

record setup_intent =
  si_livemode :: bool
  si_status :: string
  si_customer :: "string option"
  si_paymentMethod :: "string option"

record remote_schedule =
  sc_id :: string
  sc_phase :: "(int \<times> int) option"

record recurring =
  rc_interval :: string
  rc_count :: int
  rc_usage :: string
  rc_meter :: "string option"

record remote_price =
  rp_livemode :: bool
  rp_active :: bool
  rp_currency :: string
  rp_unitAmount :: "int option"
  rp_scheme :: string
  rp_transform :: bool
  rp_recurring :: "recurring option"

record remote_meter =
  rm_id :: string
  rm_livemode :: bool
  rm_status :: string
  rm_eventName :: string
  rm_formula :: string
  rm_customerKey :: string
  rm_valueKey :: string

record portal_configuration =
  po_id :: string
  po_livemode :: bool
  po_active :: bool
  po_paymentMethodUpdate :: bool
  po_invoiceHistory :: bool
  po_subscriptionUpdate :: bool
  po_subscriptionCancel :: bool

record remote_customer =
  cr_id :: string
  cr_livemode :: bool

record meter_event =
  me_livemode :: bool
  me_identifier :: string

text \<open>An event of the webhook; every object has an identifier, invoices and subscriptions a customer.\<close>

record remote_event =
  ev_id :: string
  ev_type :: string
  ev_livemode :: bool
  ev_objectId :: string
  ev_customer :: "string option"
  ev_subscription :: "string option"

section \<open>Requests that change something at Stripe\<close>

text \<open>
  The arguments that vary, and the idempotency key. An item is its identifier, price and quantity;
  the flags of \<open>UpdateSubscription\<close> say whether \<open>billing_cycle_anchor: unchanged\<close> and
  \<open>cancel_at_period_end: false\<close> are sent. Proration is always \<open>none\<close>.
\<close>

type_synonym request_item = "string option \<times> string option \<times> int option"

datatype stripe_request =
    CreateCustomer string string string
  | CreateCheckout string string string plan_code string
  | CreatePortalSession string string
  | CreateSubscription string string "request_item list" "int list" string string
  | CancelSubscription string string
  | UpdateSubscription string "request_item list" bool bool string
  | ReleaseSchedule string string
  | CreateSchedule string string
  | UpdateSchedule string "int \<times> int \<times> request_item list" "int \<times> int \<times> request_item list" string
  | CreateMeterEvent string string int int
  | HoldInvoice string
  | SnapshotInvoice string string string
  | SetLineQuantity string string int string
  | AdvanceInvoice string

section \<open>The client\<close>

type_synonym ('x, 'a) remote = "'x \<Rightarrow> (error + 'a) \<times> 'x"

record 'x stripe_api =
  clock :: "'x \<Rightarrow> date"
  randomUUID :: "'x \<Rightarrow> string \<times> 'x"
  prices_retrieve :: "string \<Rightarrow> ('x, remote_price) remote"
  meters_retrieve :: "string \<Rightarrow> ('x, remote_meter) remote"
  customers_create :: "stripe_request \<Rightarrow> ('x, remote_customer) remote"
  sessions_retrieve :: "string \<Rightarrow> ('x, checkout_session) remote"
  sessions_create :: "stripe_request \<Rightarrow> ('x, checkout_session) remote"
  portal_retrieve :: "string \<Rightarrow> ('x, portal_configuration) remote"
  portal_create :: "stripe_request \<Rightarrow> ('x, string) remote"
  invoices_list :: "string option \<Rightarrow> string option \<Rightarrow> ('x, remote_invoice page) remote"
  subscriptions_retrieve :: "string \<Rightarrow> ('x, remote_subscription) remote"
  subscriptions_create :: "stripe_request \<Rightarrow> ('x, remote_subscription) remote"
  subscriptions_change :: "stripe_request \<Rightarrow> ('x, unit) remote"
  schedules_retrieve :: "string \<Rightarrow> ('x, remote_schedule) remote"
  schedules_create :: "stripe_request \<Rightarrow> ('x, remote_schedule) remote"
  schedules_change :: "stripe_request \<Rightarrow> ('x, unit) remote"
  meterEvents_create :: "stripe_request \<Rightarrow> ('x, meter_event) remote"
  invoices_change :: "stripe_request \<Rightarrow> ('x, unit) remote"
  listLineItems :: "string \<Rightarrow> ('x, line_item page) remote"
  listEventSummaries :: "string option \<Rightarrow> int \<Rightarrow> int \<Rightarrow> ('x, int list) remote"
  setupIntents_retrieve :: "string \<Rightarrow> ('x, setup_intent) remote"
  constructEvent :: "bytes \<Rightarrow> string \<Rightarrow> error + remote_event"

text \<open>The configuration the payment service reads.\<close>

record pay_config =
  STRIPE_ENABLED :: bool
  STRIPE_BASIC_PRICE_ID :: string
  STRIPE_PREMIUM_PRICE_ID :: string
  STRIPE_OVERAGE_PRICE_ID :: string
  STRIPE_OVERAGE_METER_ID :: string
  STRIPE_OVERAGE_EVENT_NAME :: string
  STRIPE_PORTAL_CONFIGURATION_ID :: string
  STRIPE_SYNC_INTERVAL_MS :: int

section \<open>The state of a payment operation\<close>

text \<open>
  \<open>pd\<close> is the subscription document the operation holds in memory (set when the lease is taken,
  updated along with the database); \<open>plog\<close> records the requests sent to Stripe.
\<close>

record 'x pay_state =
  pw :: world
  px :: 'x
  pd :: subscription
  plog :: "stripe_request list"

type_synonym ('x, 'a) pay = "('x pay_state, error, 'a) action"

definition db :: "'a handler \<Rightarrow> ('x, 'a) pay" where
  "db m s = (case m (pw s) of (r, w) \<Rightarrow> (r, s\<lparr>pw := w\<rparr>))"

definition call :: "('x, 'a) remote \<Rightarrow> ('x, 'a) pay" where
  "call f s = (case f (px s) of (r, x) \<Rightarrow> (r, s\<lparr>px := x\<rparr>))"

definition sending :: "stripe_request \<Rightarrow> (stripe_request \<Rightarrow> ('x, 'a) remote) \<Rightarrow> ('x, 'a) pay" where
  "sending q f s = call (f q) (s\<lparr>plog := plog s @ [q]\<rparr>)"

text \<open>\<open>STRIPE_SUBSCRIPTION_STATUSES.find\<close>.\<close>

definition stripe_status_of :: "string \<Rightarrow> stripe_status option" where
  "stripe_status_of text = map_of
     [(''incomplete'', Incomplete), (''incomplete_expired'', Incomplete_Expired),
      (''trialing'', Trialing), (''active'', Stripe_Active), (''past_due'', Past_Due),
      (''canceled'', Canceled), (''unpaid'', Unpaid), (''paused'', Paused)] text"

definition terminal_status :: "string \<Rightarrow> bool" where
  "terminal_status text \<longleftrightarrow> isTerminalStripeStatus (stripe_status_of text)"

definition now_of :: "'x stripe_api \<Rightarrow> 'x pay_state \<Rightarrow> date" where
  "now_of api s = clock api (px s)"

definition fresh_uuid :: "'x stripe_api \<Rightarrow> ('x, string) pay" where
  "fresh_uuid api s = (case randomUUID api (px s) of (u, x) \<Rightarrow> (Inr u, s\<lparr>px := x\<rparr>))"

text \<open>A database transaction rolls the database back; what was already done outside it, and the
  document in memory, stay.\<close>

definition pay_transaction :: "('x, 'a) pay \<Rightarrow> ('x, 'a) pay" where
  "pay_transaction m s = (case m s of (Inl e, t) \<Rightarrow> (Inl e, t\<lparr>pw := pw s\<rparr>) | (Inr x, t) \<Rightarrow> (Inr x, t))"

text \<open>\<open>try ... finally\<close>: the last step runs after a result and after an exception.\<close>

definition finally_do :: "('s, 'e, 'a) action \<Rightarrow> ('s, 'e, unit) action \<Rightarrow> ('s, 'e, 'a) action" where
  "finally_do m f s = (case m s of (r, t) \<Rightarrow> (case f t of (Inl e, u) \<Rightarrow> (Inl e, u) | (Inr _, u) \<Rightarrow> (r, u)))"

lemma db_iff [action_simps]:
  "db m s = (r, t) \<longleftrightarrow> (\<exists>w. m (pw s) = (r, w) \<and> t = s\<lparr>pw := w\<rparr>)"
  by (auto simp: db_def split: prod.splits)

lemma call_iff [action_simps]:
  "call f s = (r, t) \<longleftrightarrow> (\<exists>x. f (px s) = (r, x) \<and> t = s\<lparr>px := x\<rparr>)"
  by (auto simp: call_def split: prod.splits)

lemma sending_iff [action_simps]:
  "sending q f s = (r, t) \<longleftrightarrow> (\<exists>x. f q (px s) = (r, x) \<and> t = s\<lparr>plog := plog s @ [q], px := x\<rparr>)"
  by (auto simp: sending_def call_def split: prod.splits)

lemma fresh_uuid_iff [action_simps]:
  "fresh_uuid api s = (r, t) \<longleftrightarrow> (\<exists>u x. randomUUID api (px s) = (u, x) \<and> r = Inr u \<and> t = s\<lparr>px := x\<rparr>)"
  by (auto simp: fresh_uuid_def split: prod.splits)

lemma pay_transaction_Inr_iff [action_simps]:
  "pay_transaction m s = (Inr y, t) \<longleftrightarrow> m s = (Inr y, t)"
  by (auto simp: pay_transaction_def split: prod.splits sum.splits)

lemma pay_transaction_Inl_iff [action_simps]:
  "pay_transaction m s = (Inl e, t) \<longleftrightarrow> (\<exists>u. m s = (Inl e, u) \<and> t = u\<lparr>pw := pw s\<rparr>)"
  by (auto simp: pay_transaction_def split: prod.splits sum.splits)

end
