(* ===== verification/Payments.thy ===== *)
theory Payments
  imports Stripe
begin

text \<open>
  The payment integration (\<open>payments/payments.service.ts\<close>): the lease that makes one operation
  at a time synchronise a company, the updates fenced by its token, checkout, plan changes,
  delivery of metered usage, reconciliation of draft invoices, and the canonical state taken
  over from Stripe. The worker and the webhook are in \<open>PaymentSync\<close>.
\<close>

section \<open>The lease\<close>

definition lease_free :: "date \<Rightarrow> subscription \<Rightarrow> bool" where
  "lease_free now s = (case s_stripeLeaseUntil s of None \<Rightarrow> True | Some until \<Rightarrow> until \<le> now)"

definition take_lease :: "string \<Rightarrow> date \<Rightarrow> subscription \<Rightarrow> subscription" where
  "take_lease token now s = s\<lparr>s_stripeLeaseToken := Some token,
     s_stripeLeaseUntil := Some (now + STRIPE_LEASE_MS)\<rparr>"

definition acquire_lease :: "oid \<Rightarrow> string \<Rightarrow> date \<Rightarrow> subscription handler" where
  "acquire_lease companyId token now =
     (let q = (\<lambda>s. s_companyId s = companyId \<and> lease_free now s) in
      andthen (gets (\<lambda>w. find q (subscriptions w))) (\<lambda>found.
      case found of
        Some s \<Rightarrow>
          andthen (modify (\<lambda>w. w\<lparr>subscriptions := updateOne q (take_lease token now) (subscriptions w)\<rparr>))
            (\<lambda>_. return (take_lease token now s))
      | None \<Rightarrow>
          andthen (gets (\<lambda>w. subscription_of w companyId)) (\<lambda>existing.
          if existing = None then throw no_subscription
          else throw (http LeaseBusy ''Billing synchronization is in progress; retry shortly''))))"

definition holds_lease :: "oid \<Rightarrow> string \<Rightarrow> subscription \<Rightarrow> bool" where
  "holds_lease i token s \<longleftrightarrow> s_id s = i \<and> s_stripeLeaseToken s = Some token"

definition drop_lease :: "subscription \<Rightarrow> subscription" where
  "drop_lease s = s\<lparr>s_stripeLeaseToken := None, s_stripeLeaseUntil := None\<rparr>"

definition release_lease :: "oid \<Rightarrow> string \<Rightarrow> unit handler" where
  "release_lease i token =
     modify (\<lambda>w. w\<lparr>subscriptions := updateOne (holds_lease i token) drop_lease (subscriptions w)\<rparr>)"

definition extend_lease :: "date \<Rightarrow> subscription \<Rightarrow> subscription" where
  "extend_lease now s = s\<lparr>s_stripeLeaseUntil := Some (now + STRIPE_LEASE_MS)\<rparr>"

definition renewLease :: "oid \<Rightarrow> string \<Rightarrow> date \<Rightarrow> unit handler" where
  "renewLease i token now =
     andthen (gets (\<lambda>w. find (holds_lease i token) (subscriptions w))) (\<lambda>found.
     if found = None then throw (http LeaseBusy ''Billing lease expired; retry'')
     else modify (\<lambda>w. w\<lparr>subscriptions :=
       updateOne (holds_lease i token) (extend_lease now) (subscriptions w)\<rparr>))"

text \<open>The partial unique indexes of the subscriptions.\<close>

definition stripe_clash :: "subscription \<Rightarrow> subscription \<Rightarrow> bool" where
  "stripe_clash s t \<longleftrightarrow> s_id s \<noteq> s_id t
     \<and> ((s_stripeCheckoutSessionId s \<noteq> None \<and> s_stripeCheckoutSessionId s = s_stripeCheckoutSessionId t)
      \<or> (s_stripeCustomerId s \<noteq> None \<and> s_stripeCustomerId s = s_stripeCustomerId t)
      \<or> (s_stripeSubscriptionId s \<noteq> None \<and> s_stripeSubscriptionId s = s_stripeSubscriptionId t))"

text \<open>An update of the fields \<open>g\<close> by the holder of the lease; it counts as a revision.\<close>

definition fenced_update :: "oid \<Rightarrow> string \<Rightarrow> (subscription \<Rightarrow> subscription) \<Rightarrow> unit handler" where
  "fenced_update i token g =
     andthen (gets (\<lambda>w. find (holds_lease i token) (subscriptions w))) (\<lambda>found.
     case found of
       None \<Rightarrow> throw (http LeaseBusy ''Billing synchronization lease expired; retry'')
     | Some s \<Rightarrow>
         andthen (gets (\<lambda>w. list_ex (stripe_clash (g s)) (subscriptions w))) (\<lambda>clash.
         if clash then throw (DuplicateKey ''stripe'')
         else modify (\<lambda>w. w\<lparr>subscriptions :=
           updateOne (holds_lease i token) (\<lambda>s. bump_revision (g s)) (subscriptions w)\<rparr>)))"

definition update :: "string \<Rightarrow> (subscription \<Rightarrow> subscription) \<Rightarrow> ('x, unit) pay" where
  "update token g =
     andthen (gets (\<lambda>s. s_id (pd s))) (\<lambda>i.
     andthen (db (fenced_update i token g)) (\<lambda>_.
     modify (\<lambda>s. s\<lparr>pd := g (pd s)\<rparr>)))"

definition withLease ::
  "'x stripe_api \<Rightarrow> oid \<Rightarrow> (string \<Rightarrow> ('x, 'a) pay) \<Rightarrow> ('x, 'a) pay" where
  "withLease api companyId work =
     andthen (fresh_uuid api) (\<lambda>token.
     andthen (gets (now_of api)) (\<lambda>now.
     andthen (db (acquire_lease companyId token now)) (\<lambda>subscription.
     andthen (modify (\<lambda>s. s\<lparr>pd := subscription\<rparr>)) (\<lambda>_.
     finally_do (work token) (db (release_lease (s_id subscription) token))))))"

definition renew :: "'x stripe_api \<Rightarrow> string \<Rightarrow> ('x, unit) pay" where
  "renew api token =
     andthen (gets (now_of api)) (\<lambda>now.
     andthen (gets (\<lambda>s. s_id (pd s))) (\<lambda>i. db (renewLease i token now)))"

section \<open>Guards and policies\<close>

definition payments_owner :: "pay_config \<Rightarrow> actor \<Rightarrow> error + unit" where
  "payments_owner cfg actor =
     (if a_role actor \<noteq> COMPANY_OWNER then Inl (http Forbidden ''Company owner access is required'')
      else if \<not> STRIPE_ENABLED cfg
      then Inl (http ServiceUnavailable ''Test Mode payments are not configured'')
      else Inr ())"

text \<open>\<open>assertPlanFits\<close>: the number of employees, when members and pending invitations, and the
  stored files, fit the plan.\<close>

definition assertPlanFits :: "subscription \<Rightarrow> plan_code \<Rightarrow> date \<Rightarrow> int handler" where
  "assertPlanFits s code at =
     (let plan = plans_findOne code; companyId = s_companyId s in
      andthen (gets (\<lambda>w. employee_count w companyId)) (\<lambda>employees.
      andthen (gets (\<lambda>w. pending_invitations w companyId at)) (\<lambda>pending.
      andthen (lift_result (plan_employee_check plan code employees pending)) (\<lambda>_.
      andthen (gets (\<lambda>w. stored_files w companyId)) (\<lambda>fileCount.
      andthen (lift_result (plan_file_check plan code fileCount)) (\<lambda>_.
      return employees))))))"

definition price :: "pay_config \<Rightarrow> plan_code \<Rightarrow> string" where
  "price cfg code = (if code = BASIC then STRIPE_BASIC_PRICE_ID cfg else STRIPE_PREMIUM_PRICE_ID cfg)"

datatype attempt_field = CustomerAttempt | CheckoutAttempt | SubscriptionAttempt | PlanAttempt

fun attempt_at :: "attempt_field \<Rightarrow> subscription \<Rightarrow> date option" where
  "attempt_at CustomerAttempt s = s_stripeCustomerAttemptAt s"
| "attempt_at CheckoutAttempt s = s_stripeCheckoutAttemptAt s"
| "attempt_at SubscriptionAttempt s = s_stripeSubscriptionAttemptAt s"
| "attempt_at PlanAttempt s = s_stripePlanAttemptAt s"

fun set_attempt :: "attempt_field \<Rightarrow> date \<Rightarrow> subscription \<Rightarrow> subscription" where
  "set_attempt CustomerAttempt t s = s\<lparr>s_stripeCustomerAttemptAt := Some t\<rparr>"
| "set_attempt CheckoutAttempt t s = s\<lparr>s_stripeCheckoutAttemptAt := Some t\<rparr>"
| "set_attempt SubscriptionAttempt t s = s\<lparr>s_stripeSubscriptionAttemptAt := Some t\<rparr>"
| "set_attempt PlanAttempt t s = s\<lparr>s_stripePlanAttemptAt := Some t\<rparr>"

definition set_issue :: "payment_sync_issue \<Rightarrow> subscription \<Rightarrow> subscription" where
  "set_issue issue s = s\<lparr>s_paymentSyncIssue := issue\<rparr>"

text \<open>
  The first attempt of an operation is recorded before the request is sent; an operation whose
  first attempt is older than the window in which Stripe keeps idempotency keys is not repeated.
\<close>

definition attempt :: "'x stripe_api \<Rightarrow> string \<Rightarrow> attempt_field \<Rightarrow> ('x, unit) pay" where
  "attempt api token field =
     andthen (gets (now_of api)) (\<lambda>now.
     andthen (gets (\<lambda>s. attempt_at field (pd s))) (\<lambda>first.
     case first of
       Some at \<Rightarrow>
         if now - at > STRIPE_RETRY_WINDOW_MS
         then andthen (update token (set_issue RECONCILIATION_REQUIRED)) (\<lambda>_.
           throw (http Conflict ''Ambiguous Stripe operation requires reconciliation before retry''))
         else return ()
     | None \<Rightarrow> update token (set_attempt field now)))"

definition compatible :: "remote_price \<Rightarrow> int option \<Rightarrow> string \<Rightarrow> bool" where
  "compatible p cents usage \<longleftrightarrow> \<not> rp_livemode p \<and> rp_active p \<and> rp_currency p = ''usd''
     \<and> cents \<noteq> None \<and> rp_unitAmount p = cents \<and> rp_scheme p = ''per_unit'' \<and> \<not> rp_transform p
     \<and> (case rp_recurring p of None \<Rightarrow> False
        | Some r \<Rightarrow> rc_interval r = ''month'' \<and> rc_count r = 1 \<and> rc_usage r = usage)"

definition validateCatalog :: "pay_config \<Rightarrow> 'x stripe_api \<Rightarrow> ('x, unit) pay" where
  "validateCatalog cfg api =
     andthen (call (prices_retrieve api (price cfg BASIC))) (\<lambda>basic.
     andthen (call (prices_retrieve api (price cfg PREMIUM))) (\<lambda>premium.
     andthen (call (prices_retrieve api (STRIPE_OVERAGE_PRICE_ID cfg))) (\<lambda>overage.
     andthen (call (meters_retrieve api (STRIPE_OVERAGE_METER_ID cfg))) (\<lambda>meter.
     if \<not> compatible basic (Some (employeePriceCents (plans_findOne BASIC))) ''licensed''
        \<or> \<not> compatible premium (Some (basePriceCents (plans_findOne PREMIUM))) ''licensed''
        \<or> \<not> compatible overage (extraFilePriceCents (plans_findOne PREMIUM)) ''metered''
        \<or> Option.bind (rp_recurring overage) rc_meter \<noteq> Some (rm_id meter)
        \<or> rm_livemode meter \<or> rm_status meter \<noteq> ''active''
        \<or> rm_eventName meter \<noteq> STRIPE_OVERAGE_EVENT_NAME cfg
        \<or> rm_formula meter \<noteq> ''sum'' \<or> rm_customerKey meter \<noteq> ''stripe_customer_id''
        \<or> rm_valueKey meter \<noteq> ''value''
     then throw (http PaymentSyncValidation ''Stripe Test Mode catalog does not match DataVault plans'')
     else return ()))))"

definition customer :: "'x stripe_api \<Rightarrow> string \<Rightarrow> ('x, string) pay" where
  "customer api token =
     andthen (gets pd) (\<lambda>subscription.
     case s_stripeCustomerId subscription of
       Some c \<Rightarrow> return c
     | None \<Rightarrow>
     andthen (db (gets (\<lambda>w. find (\<lambda>u. u_companyId u = s_companyId subscription
                 \<and> u_role u = COMPANY_OWNER) (users w)))) (\<lambda>found.
     case found of
       None \<Rightarrow> throw (http NotFound ''Company owner not found'')
     | Some owner \<Rightarrow>
     let companyId = oid_to_string (s_companyId subscription) in
     andthen (attempt api token CustomerAttempt) (\<lambda>_.
     andthen (sending (CreateCustomer (u_email owner) companyId (''datavault-customer-'' @ companyId))
                (customers_create api)) (\<lambda>created.
     if cr_livemode created
     then throw (http PaymentSyncValidation ''Only Stripe Test Mode is supported'')
     else andthen (update token (\<lambda>s. s\<lparr>s_stripeCustomerId := Some (cr_id created)\<rparr>)) (\<lambda>_.
          return (cr_id created))))))"

section \<open>Reading Stripe's subscription\<close>

definition validation :: "string \<Rightarrow> error" where
  "validation m = http PaymentSyncValidation m"

text \<open>A billing period must be the company's own, to the second.\<close>

definition validate_item :: "date \<Rightarrow> remote_item \<Rightarrow> error + unit" where
  "validate_item activation item =
     (case (it_start item, it_end item) of
        (Some start, Some end') \<Rightarrow>
          if \<not> isSafeInteger start \<or> \<not> isSafeInteger end'
          then Inl (validation ''Stripe billing period is unavailable'')
          else result_bind (billingPeriod (Some activation) (Some (start * 1000 + 1000))) (\<lambda>period.
            require (end' = endsAt period div 1000)
              (validation ''Stripe billing period does not match DataVault''))
      | _ \<Rightarrow> Inl (validation ''Stripe billing period is unavailable''))"

fun validate_items :: "date \<Rightarrow> remote_item list \<Rightarrow> error + unit" where
  "validate_items activation [] = Inr ()"
| "validate_items activation (item # items) =
     result_bind (validate_item activation item) (\<lambda>_. validate_items activation items)"

definition anchor_matches :: "cycle_anchor option \<Rightarrow> date \<Rightarrow> bool" where
  "anchor_matches anchor activation = (case anchor of
     None \<Rightarrow> False
   | Some a \<Rightarrow> ba_day a = getUTCDate activation \<and> ba_hour a = Some (getUTCHours activation)
       \<and> ba_minute a = Some (getUTCMinutes activation) \<and> ba_second a = Some (getUTCSeconds activation))"

definition validateRemote :: "subscription \<Rightarrow> remote_subscription \<Rightarrow> error + stripe_status" where
  "validateRemote s remote =
     (case stripe_status_of (rs_status remote) of
        None \<Rightarrow> Inl (validation ''Unsupported Stripe subscription status'')
      | Some status \<Rightarrow>
          if rs_livemode remote \<or> rs_customer remote \<noteq> s_stripeCustomerId s
             \<or> rs_companyId remote \<noteq> Some (oid_to_string (s_companyId s))
          then Inl (validation ''Stripe tenant mapping is invalid'')
          else if \<not> anchor_matches (rs_anchor remote) (s_activatedAt s)
          then Inl (validation ''Stripe billing anniversary does not match DataVault'')
          else result_bind (validate_items (s_activatedAt s) (rs_items remote)) (\<lambda>_. Inr status))"

definition remotePlan :: "pay_config \<Rightarrow> remote_subscription \<Rightarrow> error + plan_code" where
  "remotePlan cfg remote =
     (let ids = map it_price (rs_items remote) in
      if length ids = 1 \<and> ids ! 0 = price cfg BASIC then Inr BASIC
      else if length ids = 2 \<and> price cfg PREMIUM \<in> set ids \<and> STRIPE_OVERAGE_PRICE_ID cfg \<in> set ids
      then Inr PREMIUM
      else Inl (validation ''Stripe subscription has unsupported prices''))"

section \<open>Taking over the canonical state\<close>

definition lockLocal :: "oid \<Rightarrow> unit handler" where
  "lockLocal i =
     andthen (gets (\<lambda>w. find (\<lambda>s. s_id s = i) (subscriptions w))) (\<lambda>found.
     if found = None then throw no_subscription
     else modify (\<lambda>w. w\<lparr>subscriptions :=
       updateOne (\<lambda>s. s_id s = i) bump_revision (subscriptions w)\<rparr>))"

definition canonical_access :: "remote_subscription \<Rightarrow> payment_access" where
  "canonical_access remote =
     (if rs_status remote = ''active'' \<and> \<not> rs_paused remote
         \<and> rs_collectionMethod remote = ''charge_automatically''
      then (case rs_latestInvoice remote of
              None \<Rightarrow> DEFERRED
            | Some invoice \<Rightarrow>
                if ri_status invoice = Some ''paid'' then ACTIVE
                else if ri_status invoice = Some ''draft'' then DEFERRED
                else SUSPENDED)
      else SUSPENDED)"

text \<open>The plan, access and issue to store, depending on whether the target plan fits.\<close>

definition settle :: "subscription \<Rightarrow> remote_subscription \<Rightarrow> plan_code \<Rightarrow> payment_sync_issue \<Rightarrow> date
    \<Rightarrow> (plan_code \<times> payment_access \<times> payment_sync_issue) handler" where
  "settle s remote remoteCode issue at =
     (let access = canonical_access remote in
      andthen
        (if terminal_status (rs_status remote)
         then catching (andthen (assertPlanFits s FREE at) (\<lambda>_. return (FREE, ACTIVE, issue)))
                (\<lambda>error. if \<not> instanceof error Conflict then throw error
                          else return (s_planCode s, access, PLAN_CONFLICT))
         else if access \<noteq> SUSPENDED
         then catching (andthen (assertPlanFits s remoteCode at) (\<lambda>_. return (remoteCode, access, issue)))
                (\<lambda>error. if \<not> instanceof error Conflict then throw error
                          else return (s_planCode s, SUSPENDED, PLAN_CONFLICT))
         else return (remoteCode, access, issue))
        (\<lambda>(planCode, access, issue).
         return (if access = SUSPENDED then s_planCode s else planCode, access, issue)))"

definition clear_pending :: "subscription \<Rightarrow> subscription" where
  "clear_pending s = s\<lparr>s_pendingPlanCode := None, s_pendingPlanAt := None,
     s_stripeChangeOperation := None, s_stripePlanAttemptAt := None, s_stripePlanConfirmed := False,
     s_stripePlanEmployees := None\<rparr>"

text \<open>\<open>old\<close> is the document in memory, whose fields decide; \<open>s\<close> the document written.\<close>

definition canonical_fields ::
  "pay_config \<Rightarrow> subscription \<Rightarrow> remote_subscription \<Rightarrow> stripe_status \<Rightarrow> plan_code \<Rightarrow> payment_access
     \<Rightarrow> payment_sync_issue \<Rightarrow> date \<Rightarrow> subscription \<Rightarrow> subscription" where
  "canonical_fields cfg old remote status planCode access issue now s =
     (let changed = planCode \<noteq> s_planCode old;
          overage = find (\<lambda>item. it_price item = STRIPE_OVERAGE_PRICE_ID cfg) (rs_items remote);
          t = s\<lparr>s_stripeManaged := True, s_stripeStatus := Some status,
                s_stripeCancelAtPeriodEnd := rs_cancelAtPeriodEnd remote,
                s_paymentAccess := access, s_paymentSyncIssue := issue,
                s_stripeSyncedAt := Some now, s_planCode := planCode\<rparr>;
          t = (if planCode = PREMIUM \<and> (s_stripeMeterStartedAt old = None \<or> changed)
               then t\<lparr>s_stripeMeterStartedAt :=
                 Some (option_default (now div 1000) (Option.bind overage it_start) * 1000)\<rparr> else t);
          t = (if changed then t\<lparr>s_planChangedAt := now\<rparr> else t)
      in if s_pendingPlanCode old = Some planCode then clear_pending t else t)"

definition create_event :: "stripe_event \<Rightarrow> unit handler" where
  "create_event e =
     andthen (gets (\<lambda>w. list_ex (\<lambda>d. e_eventId d = e_eventId e) (stripeEvents w))) (\<lambda>duplicate.
     if duplicate then throw (DuplicateKey ''eventId'')
     else modify (\<lambda>w. w\<lparr>stripeEvents := stripeEvents w @ [e]\<rparr>))"

definition stuck_usage :: "world \<Rightarrow> oid \<Rightarrow> bool" where
  "stuck_usage w companyId \<longleftrightarrow>
     list_ex (\<lambda>u. g_companyId u = companyId \<and> g_state u = USAGE_RECONCILIATION_REQUIRED) (stripeUsages w)"

definition applyCanonical :: "pay_config \<Rightarrow> 'x stripe_api \<Rightarrow> string \<Rightarrow> remote_subscription
    \<Rightarrow> remote_event option \<Rightarrow> bool \<Rightarrow> ('x, unit) pay" where
  "applyCanonical cfg api token remote event draftsHeld =
     andthen (gets pd) (\<lambda>s.
     andthen (lift_result (validateRemote s remote)) (\<lambda>status.
     pay_transaction
       (andthen (db (lockLocal (s_id s))) (\<lambda>_.
        andthen (lift_result (remotePlan cfg remote)) (\<lambda>remoteCode.
        andthen (db (gets (\<lambda>w. stuck_usage w (s_companyId s)))) (\<lambda>stuck.
        andthen (gets (now_of api)) (\<lambda>now.
        let issue = (if draftsHeld \<or> stuck then RECONCILIATION_REQUIRED else SYNC_NONE) in
        andthen (db (settle s remote remoteCode issue now)) (\<lambda>(planCode, access, issue).
        andthen (update token (canonical_fields cfg s remote status planCode access issue now)) (\<lambda>_.
        case event of
          None \<Rightarrow> return ()
        | Some e \<Rightarrow> db (create_event \<lparr>e_eventId = ev_id e, e_type = ev_type e,
                      e_companyId = Some (s_companyId s), e_processedAt = now\<rparr>))))))))))"

section \<open>Delivering metered usage\<close>

definition set_usage :: "string \<Rightarrow> (stripe_usage \<Rightarrow> stripe_usage) \<Rightarrow> unit handler" where
  "set_usage i g = modify (\<lambda>w. w\<lparr>stripeUsages := updateOne (\<lambda>u. g_identifier u = i) g (stripeUsages w)\<rparr>)"

definition pending_usage :: "oid \<Rightarrow> world \<Rightarrow> stripe_usage list" where
  "pending_usage companyId w = take 5 (sort_key g_timestamp
     (filter (\<lambda>u. g_companyId u = companyId \<and> g_state u = USAGE_PENDING) (stripeUsages w)))"

definition too_late :: "stripe_usage \<Rightarrow> date \<Rightarrow> bool" where
  "too_late u now \<longleftrightarrow>
     (case g_firstAttemptAt u of None \<Rightarrow> False | Some at \<Rightarrow> now - at > STRIPE_RETRY_WINDOW_MS)
     \<or> now - g_timestamp u * 1000 > 35 * 86400 * 1000"

definition submit_one :: "'x stripe_api \<Rightarrow> string \<Rightarrow> stripe_usage \<Rightarrow> ('x, unit) pay" where
  "submit_one api token u =
     andthen (gets (now_of api)) (\<lambda>now.
     if too_late u now
     then andthen (db (set_usage (g_identifier u) (\<lambda>v. v\<lparr>g_state := USAGE_RECONCILIATION_REQUIRED\<rparr>))) (\<lambda>_.
          update token (set_issue RECONCILIATION_REQUIRED))
     else
     andthen (if g_firstAttemptAt u = None
              then db (set_usage (g_identifier u) (\<lambda>v. v\<lparr>g_firstAttemptAt := Some now\<rparr>))
              else return ()) (\<lambda>_.
     andthen (renew api token) (\<lambda>_.
     andthen (sending (CreateMeterEvent (g_identifier u) (g_customerId u) (g_quantity u) (g_timestamp u))
                (meterEvents_create api)) (\<lambda>delivered.
     if me_livemode delivered \<or> me_identifier delivered \<noteq> g_identifier u
     then throw (validation ''Meter event confirmation is invalid'')
     else
     andthen (gets (now_of api)) (\<lambda>submitted.
     db (set_usage (g_identifier u)
          (\<lambda>v. v\<lparr>g_state := USAGE_SUBMITTED, g_submittedAt := Some submitted\<rparr>)))))))"

fun submit_all :: "'x stripe_api \<Rightarrow> string \<Rightarrow> stripe_usage list \<Rightarrow> ('x, unit) pay" where
  "submit_all api token [] = return ()"
| "submit_all api token (u # us) = andthen (submit_one api token u) (\<lambda>_. submit_all api token us)"

definition submitUsage :: "'x stripe_api \<Rightarrow> string \<Rightarrow> ('x, unit) pay" where
  "submitUsage api token =
     andthen (gets (\<lambda>s. pending_usage (s_companyId (pd s)) (pw s))) (submit_all api token)"

section \<open>Draft and final invoices\<close>

definition employeeSnapshot :: "('x, int) pay" where
  "employeeSnapshot =
     andthen (gets pd) (\<lambda>s.
     pay_transaction
       (andthen (db (lockLocal (s_id s))) (\<lambda>_.
        db (gets (\<lambda>w. employee_count w (s_companyId s))))))"

definition minute_up :: "int \<Rightarrow> int" where
  "minute_up t = ceil_div t 60 * 60"

text \<open>The local usage of a line's window: all delivered, with its total, or not.\<close>

definition usage_window :: "oid \<Rightarrow> line_item \<Rightarrow> world \<Rightarrow> stripe_usage list" where
  "usage_window companyId line w = filter (\<lambda>u. g_companyId u = companyId
     \<and> minute_up (li_start line) \<le> g_timestamp u \<and> g_timestamp u < minute_up (li_end line)) (stripeUsages w)"

definition all_submitted :: "stripe_usage list \<Rightarrow> bool" where
  "all_submitted us \<longleftrightarrow> \<not> list_ex (\<lambda>u. g_state u \<noteq> USAGE_SUBMITTED) us"

definition total_quantity :: "stripe_usage list \<Rightarrow> int" where
  "total_quantity us = sum_list (map g_quantity us)"

definition reconcile_seats :: "pay_config \<Rightarrow> 'x stripe_api \<Rightarrow> string \<Rightarrow> int \<Rightarrow> line_item \<Rightarrow> ('x, unit) pay" where
  "reconcile_seats cfg api invoiceId employees line =
     (if li_price line = Some (price cfg BASIC) \<and> li_quantity line \<noteq> Some employees
      then sending (SetLineQuantity invoiceId (li_id line) employees (''dv-invoice-quantity-'' @ invoiceId))
             (invoices_change api)
      else return ())"

definition reconcile_overage :: "pay_config \<Rightarrow> 'x stripe_api \<Rightarrow> string \<Rightarrow> line_item \<Rightarrow> ('x, bool) pay" where
  "reconcile_overage cfg api invoiceId line =
     (if li_price line \<noteq> Some (STRIPE_OVERAGE_PRICE_ID cfg) then return True
      else
      andthen (gets pd) (\<lambda>s.
      andthen (db (gets (usage_window (s_companyId s) line))) (\<lambda>local.
      if \<not> all_submitted local then return False
      else
      let expected = total_quantity local in
      andthen (call (listEventSummaries api (s_stripeCustomerId s) (minute_up (li_start line))
                 (minute_up (li_end line)))) (\<lambda>summaries.
      if \<not> isSafeInteger (sum_list summaries) \<or> sum_list summaries \<noteq> expected then return False
      else
      andthen (if li_quantity line \<noteq> Some expected
               then sending (SetLineQuantity invoiceId (li_id line) expected
                      (''dv-invoice-overage-'' @ invoiceId @ ''-'' @ show_int expected))
                      (invoices_change api)
               else return ()) (\<lambda>_. return True)))))"

fun reconcile_lines :: "pay_config \<Rightarrow> 'x stripe_api \<Rightarrow> string \<Rightarrow> int \<Rightarrow> line_item list \<Rightarrow> ('x, bool) pay" where
  "reconcile_lines cfg api invoiceId employees [] = return True"
| "reconcile_lines cfg api invoiceId employees (line # rest) =
     andthen (reconcile_seats cfg api invoiceId employees line) (\<lambda>_.
     andthen (reconcile_overage cfg api invoiceId line) (\<lambda>ok.
     if \<not> ok then return False else reconcile_lines cfg api invoiceId employees rest))"

definition digits :: "string \<Rightarrow> bool" where
  "digits text \<longleftrightarrow> text \<noteq> [] \<and> list_all (\<lambda>c. CHR ''0'' \<le> c \<and> c \<le> CHR ''9'') text"

text \<open>Whether a draft is one this company's subscription is reconciled by.\<close>

definition own_draft :: "subscription \<Rightarrow> remote_invoice \<Rightarrow> bool" where
  "own_draft s invoice \<longleftrightarrow> ri_status invoice = Some ''draft'' \<and> \<not> ri_livemode invoice
     \<and> ri_customer invoice = s_stripeCustomerId s \<and> ri_subscription invoice = s_stripeSubscriptionId s"

definition seat_snapshot :: "'x stripe_api \<Rightarrow> remote_invoice \<Rightarrow> ('x, string) pay" where
  "seat_snapshot api invoice =
     (case ri_employees invoice of
        Some text \<Rightarrow> return text
      | None \<Rightarrow>
          andthen employeeSnapshot (\<lambda>n.
          andthen (sending (SnapshotInvoice (ri_id invoice) (show_int n)
                     (''dv-invoice-seats-'' @ ri_id invoice)) (invoices_change api)) (\<lambda>_.
          return (show_int n))))"

definition reconcileDraft :: "pay_config \<Rightarrow> 'x stripe_api \<Rightarrow> remote_invoice \<Rightarrow> ('x, bool) pay" where
  "reconcileDraft cfg api invoice =
     andthen (gets pd) (\<lambda>s.
     if \<not> own_draft s invoice then return True
     else
     andthen (if ri_autoAdvance invoice then sending (HoldInvoice (ri_id invoice)) (invoices_change api)
              else return ()) (\<lambda>_.
     andthen (seat_snapshot api invoice) (\<lambda>employees.
     if \<not> digits employees \<or> \<not> isSafeInteger (int (parse_dec employees))
     then throw (validation ''Invoice seat snapshot is invalid'')
     else
     andthen (call (listLineItems api (ri_id invoice))) (\<lambda>lines.
     if pg_hasMore lines
     then throw (http ServiceUnavailable ''Invoice reconciliation requires manual review'')
     else
     andthen (reconcile_lines cfg api (ri_id invoice) (int (parse_dec employees)) (pg_data lines)) (\<lambda>ok.
     if \<not> ok then return False
     else andthen (sending (AdvanceInvoice (ri_id invoice)) (invoices_change api)) (\<lambda>_. return True))))))"

fun verify_lines :: "pay_config \<Rightarrow> oid \<Rightarrow> world \<Rightarrow> line_item list \<Rightarrow> bool" where
  "verify_lines cfg companyId w [] = True"
| "verify_lines cfg companyId w (line # rest) =
     (if li_price line \<noteq> Some (STRIPE_OVERAGE_PRICE_ID cfg) then verify_lines cfg companyId w rest
      else let us = usage_window companyId line w in
        if \<not> all_submitted us \<or> li_quantity line \<noteq> Some (total_quantity us) then False
        else verify_lines cfg companyId w rest)"

definition verifyFinalizedUsage :: "pay_config \<Rightarrow> 'x stripe_api \<Rightarrow> remote_invoice \<Rightarrow> ('x, bool) pay" where
  "verifyFinalizedUsage cfg api invoice =
     andthen (gets pd) (\<lambda>s.
     if ri_subscription invoice \<noteq> s_stripeSubscriptionId s \<or> ri_status invoice = Some ''void''
     then return True
     else
     andthen (call (listLineItems api (ri_id invoice))) (\<lambda>lines.
     if pg_hasMore lines then return False
     else gets (\<lambda>t. verify_lines cfg (s_companyId s) (pw t) (pg_data lines))))"

section \<open>Synchronising a company\<close>

fun reconcile_drafts :: "pay_config \<Rightarrow> 'x stripe_api \<Rightarrow> string \<Rightarrow> remote_invoice list \<Rightarrow> ('x, bool) pay" where
  "reconcile_drafts cfg api token [] = return False"
| "reconcile_drafts cfg api token (invoice # rest) =
     andthen (renew api token) (\<lambda>_.
     andthen (reconcileDraft cfg api invoice) (\<lambda>ok.
     andthen (reconcile_drafts cfg api token rest) (\<lambda>held. return (\<not> ok \<or> held))))"

text \<open>The quantity of seats of an active Basic subscription follows the number of members.\<close>

definition synchronize_seats ::
  "pay_config \<Rightarrow> 'x stripe_api \<Rightarrow> remote_subscription \<Rightarrow> ('x, remote_subscription) pay" where
  "synchronize_seats cfg api remote =
     (if rs_status remote \<noteq> ''active'' then return remote
      else
      andthen (lift_result (remotePlan cfg remote)) (\<lambda>plan.
      if plan \<noteq> BASIC then return remote
      else
      let item = rs_items remote ! 0 in
      andthen employeeSnapshot (\<lambda>quantity.
      if it_quantity item = Some quantity then return remote
      else
      andthen (gets pd) (\<lambda>s.
      andthen (sending (UpdateSubscription (rs_id remote) [(Some (it_id item), None, Some quantity)]
                 (rs_schedule remote = None) False
                 (''dv-seats-'' @ rs_id remote @ ''-'' @ show_int (s_revision s) @ ''-'' @ show_int quantity))
                 (subscriptions_change api)) (\<lambda>_.
      call (subscriptions_retrieve api (rs_id remote)))))))"

definition clear_schedule :: "subscription \<Rightarrow> subscription" where
  "clear_schedule s = s\<lparr>s_stripeScheduleId := None\<rparr>"

definition synchronize :: "pay_config \<Rightarrow> 'x stripe_api \<Rightarrow> string \<Rightarrow> remote_event option \<Rightarrow> ('x, unit) pay" where
  "synchronize cfg api token event =
     andthen (gets pd) (\<lambda>s0.
     case s_stripeSubscriptionId s0 of
       None \<Rightarrow> return ()
     | Some subscriptionId \<Rightarrow>
     andthen (submitUsage api token) (\<lambda>_.
     andthen (call (subscriptions_retrieve api subscriptionId)) (\<lambda>retrieved.
     andthen (gets pd) (\<lambda>s.
     andthen (lift_result (validateRemote s retrieved)) (\<lambda>_.
     andthen (if s_stripeScheduleId s \<noteq> None \<and> rs_schedule retrieved = None
              then update token clear_schedule else return ()) (\<lambda>_.
     andthen (synchronize_seats cfg api retrieved) (\<lambda>remote.
     andthen (call (invoices_list api (s_stripeCustomerId s) (Some ''draft''))) (\<lambda>drafts.
     andthen (reconcile_drafts cfg api token (pg_data drafts)) (\<lambda>held.
     andthen (renew api token) (\<lambda>_.
     andthen (case rs_latestInvoice remote of
                Some latest \<Rightarrow>
                  if ri_id latest \<noteq> [] \<and> ri_status latest \<noteq> Some ''draft''
                  then verifyFinalizedUsage cfg api latest else return True
              | None \<Rightarrow> return True) (\<lambda>verified.
     applyCanonical cfg api token remote event (held \<or> pg_hasMore drafts \<or> \<not> verified))))))))))))"

section \<open>Plan requests\<close>

definition plan_items :: "pay_config \<Rightarrow> plan_code \<Rightarrow> int \<Rightarrow> request_item list" where
  "plan_items cfg code employees =
     (if code = BASIC then [(None, Some (price cfg code), Some employees)]
      else [(None, Some (price cfg code), Some 1), (None, Some (STRIPE_OVERAGE_PRICE_ID cfg), None)])"

definition confirm_plan :: "string \<Rightarrow> ('x, unit) pay" where
  "confirm_plan token = update token (\<lambda>s. s\<lparr>s_stripePlanConfirmed := True\<rparr>)"

text \<open>The schedule of Stripe is taken over, or forgotten when Stripe has none.\<close>

definition adopt_schedule :: "string \<Rightarrow> remote_subscription \<Rightarrow> ('x, unit) pay" where
  "adopt_schedule token remote =
     andthen (gets pd) (\<lambda>s.
     case rs_schedule remote of
       Some active \<Rightarrow>
         if s_stripeScheduleId s \<noteq> Some active
         then update token (\<lambda>s. s\<lparr>s_stripeScheduleId := Some active\<rparr>) else return ()
     | None \<Rightarrow> if s_stripeScheduleId s \<noteq> None then update token clear_schedule else return ())"

definition release_schedule :: "'x stripe_api \<Rightarrow> string \<Rightarrow> ('x, unit) pay" where
  "release_schedule api key =
     andthen (gets pd) (\<lambda>s.
     case s_stripeScheduleId s of
       None \<Rightarrow> return ()
     | Some schedule \<Rightarrow> sending (ReleaseSchedule schedule (key @ ''-release'')) (schedules_change api))"

definition request_free :: "'x stripe_api \<Rightarrow> string \<Rightarrow> string \<Rightarrow> string \<Rightarrow> ('x, unit) pay" where
  "request_free api token key remoteId =
     andthen (release_schedule api key) (\<lambda>_.
     andthen (sending (CancelSubscription remoteId key) (subscriptions_change api)) (\<lambda>_.
     andthen (update token clear_schedule) (\<lambda>_.
     confirm_plan token)))"

text \<open>A downgrade from Premium to Basic: two phases, the second from the end of the first.\<close>

definition request_downgrade ::
  "pay_config \<Rightarrow> 'x stripe_api \<Rightarrow> string \<Rightarrow> string \<Rightarrow> string \<Rightarrow> int \<Rightarrow> ('x, unit) pay" where
  "request_downgrade cfg api token key remoteId employees =
     andthen (gets pd) (\<lambda>s.
     andthen
       (case s_stripeScheduleId s of
          Some i \<Rightarrow> call (schedules_retrieve api i)
        | None \<Rightarrow>
            andthen (sending (CreateSchedule remoteId (key @ ''-schedule'')) (schedules_create api)) (\<lambda>created.
            andthen (update token (\<lambda>s. s\<lparr>s_stripeScheduleId := Some (sc_id created)\<rparr>)) (\<lambda>_.
            return created))) (\<lambda>schedule.
     case sc_phase schedule of
       None \<Rightarrow> throw (http ServiceUnavailable ''Stripe schedule has no current phase'')
     | Some (start, end') \<Rightarrow>
         andthen (lift_result (billingPeriod (Some (s_activatedAt s)) (Some (end' * 1000 + 1000)))) (\<lambda>period.
         andthen (sending (UpdateSchedule (sc_id schedule)
                    (start, end', plan_items cfg PREMIUM employees)
                    (end', endsAt period div 1000, plan_items cfg BASIC employees)
                    (key @ ''-phases'')) (schedules_change api)) (\<lambda>_.
         confirm_plan token))))"

definition request_change ::
  "pay_config \<Rightarrow> 'x stripe_api \<Rightarrow> string \<Rightarrow> string \<Rightarrow> remote_subscription \<Rightarrow> plan_code \<Rightarrow> plan_code \<Rightarrow> int
     \<Rightarrow> ('x, unit) pay" where
  "request_change cfg api token key remote currentPlan target employees =
     (case find (\<lambda>item. it_price item = price cfg currentPlan) (rs_items remote) of
        None \<Rightarrow> throw (PlainError ''TypeError'')
      | Some licensed \<Rightarrow>
          andthen (sending (UpdateSubscription (rs_id remote)
                     ((Some (it_id licensed), Some (price cfg target),
                       Some (if target = BASIC then employees else 1))
                      # (if target = PREMIUM then [(None, Some (STRIPE_OVERAGE_PRICE_ID cfg), None)] else []))
                     True True key) (subscriptions_change api)) (\<lambda>_.
          confirm_plan token))"

text \<open>The number of members the request is made with is fixed at the first attempt.\<close>

definition fix_employees :: "string \<Rightarrow> ('x, int) pay" where
  "fix_employees token =
     andthen (gets pd) (\<lambda>s.
     case s_stripePlanEmployees s of
       Some n \<Rightarrow> return n
     | None \<Rightarrow>
         andthen (db (gets (\<lambda>w. employee_count w (s_companyId s)))) (\<lambda>n.
         andthen (update token (\<lambda>s. s\<lparr>s_stripePlanEmployees := Some n\<rparr>)) (\<lambda>_. return n)))"

definition request_paid ::
  "pay_config \<Rightarrow> 'x stripe_api \<Rightarrow> string \<Rightarrow> string \<Rightarrow> remote_subscription \<Rightarrow> plan_code \<Rightarrow> plan_code
     \<Rightarrow> ('x, unit) pay" where
  "request_paid cfg api token key remote currentPlan target =
     andthen (validateCatalog cfg api) (\<lambda>_.
     andthen (fix_employees token) (\<lambda>employees.
     andthen (gets pd) (\<lambda>s.
     andthen (if s_stripeScheduleId s \<noteq> None \<and> (target \<noteq> BASIC \<or> target = currentPlan)
              then andthen (release_schedule api key) (\<lambda>_. update token clear_schedule)
              else return ()) (\<lambda>_.
     if currentPlan = PREMIUM \<and> target = BASIC
     then request_downgrade cfg api token key (rs_id remote) employees
     else if currentPlan = target
     then andthen (sending (UpdateSubscription (rs_id remote) [] True True key)
                (subscriptions_change api)) (\<lambda>_. confirm_plan token)
     else request_change cfg api token key remote currentPlan target employees))))"

definition missed_anniversary :: error where
  "missed_anniversary = http Conflict ''Queued plan change missed its anniversary; choose the current plan to reset the request before retrying''"

definition performPlanRequest :: "pay_config \<Rightarrow> 'x stripe_api \<Rightarrow> string \<Rightarrow> ('x, unit) pay" where
  "performPlanRequest cfg api token =
     andthen (gets pd) (\<lambda>s.
     case (s_pendingPlanCode s, s_stripeSubscriptionId s) of
       (Some target, Some subscriptionId) \<Rightarrow>
         if s_stripePlanConfirmed s then return ()
         else
         andthen (call (subscriptions_retrieve api subscriptionId)) (\<lambda>remote.
         andthen (lift_result (validateRemote s remote)) (\<lambda>_.
         if terminal_status (rs_status remote) then return ()
         else
         andthen (lift_result (remotePlan cfg remote)) (\<lambda>currentPlan.
         andthen (adopt_schedule token remote) (\<lambda>_.
         andthen (gets (now_of api)) (\<lambda>now.
         if currentPlan = PREMIUM \<and> target = BASIC
            \<and> (case s_pendingPlanAt s of None \<Rightarrow> False | Some at \<Rightarrow> at \<le> now)
         then andthen (update token (set_issue RECONCILIATION_REQUIRED)) (\<lambda>_. throw missed_anniversary)
         else
         let key = ''datavault-plan-'' @ option_default ''undefined'' (s_stripeChangeOperation s) in
         andthen (attempt api token PlanAttempt) (\<lambda>_.
         if target = FREE then request_free api token key (rs_id remote)
         else request_paid cfg api token key remote currentPlan target))))))
     | _ \<Rightarrow> return ())"

section \<open>The handlers\<close>

definition safeApi :: "('x, 'a) pay \<Rightarrow> ('x, 'a) pay" where
  "safeApi work = catching work (\<lambda>error.
     if instanceof error BadRequest \<or> instanceof error Forbidden \<or> instanceof error Conflict
        \<or> instanceof error NotFound \<or> instanceof error ServiceUnavailable
     then throw error
     else throw (http ServiceUnavailable ''Stripe Test Mode request temporarily unavailable''))"

record plan_view =
  pv_planCode :: plan_code
  pv_pendingPlanCode :: "plan_code option"
  pv_effectiveAt :: "date option"

definition queue_plan :: "plan_code \<Rightarrow> date option \<Rightarrow> string \<Rightarrow> subscription \<Rightarrow> subscription" where
  "queue_plan code at operation s = s\<lparr>s_pendingPlanCode := Some code, s_pendingPlanAt := at,
     s_stripeChangeOperation := Some operation, s_stripePlanConfirmed := False,
     s_stripePlanAttemptAt := None, s_stripePlanEmployees := None\<rparr>"

text \<open>The local part of a plan change of a company that Stripe manages.\<close>

definition request_plan :: "'x stripe_api \<Rightarrow> string \<Rightarrow> plan_code \<Rightarrow> ('x, unit) pay" where
  "request_plan api token code =
     andthen (gets pd) (\<lambda>s.
     pay_transaction
       (andthen (db (lockLocal (s_id s))) (\<lambda>_.
        andthen (gets (now_of api)) (\<lambda>now.
        andthen (db (assertPlanFits s code now)) (\<lambda>_.
        if s_pendingPlanCode s \<noteq> None \<and> s_pendingPlanCode s \<noteq> Some code \<and> code \<noteq> s_planCode s \<and> code \<noteq> FREE
        then throw (http Conflict ''Resolve the queued plan change before requesting another target'')
        else if s_pendingPlanCode s \<noteq> Some code \<or> (code = FREE \<and> s_stripePlanConfirmed s)
        then
          andthen (if code = FREE then return now
                   else andthen (lift_result (billingPeriod (Some (s_activatedAt s)) (Some now)))
                     (\<lambda>period. return (endsAt period))) (\<lambda>at.
          andthen (fresh_uuid api) (\<lambda>operation.
          update token (queue_plan code (Some at) operation)))
        else return ())))))"

definition payments_changePlan ::
  "pay_config \<Rightarrow> 'x stripe_api \<Rightarrow> actor \<Rightarrow> plan_code \<Rightarrow> ('x, plan_view) pay" where
  "payments_changePlan cfg api actor code =
     andthen (lift_result (payments_owner cfg actor)) (\<lambda>_.
     safeApi (withLease api (a_companyId actor) (\<lambda>token.
       andthen (gets pd) (\<lambda>s.
       if s_stripeSubscriptionId s = None
       then
         if code \<noteq> FREE
         then throw (http Conflict ''Start hosted Checkout before choosing a paid plan'')
         else
         andthen (pay_transaction
           (andthen (db (lockLocal (s_id s))) (\<lambda>_.
            andthen (gets (now_of api)) (\<lambda>now.
            andthen (db (assertPlanFits s code now)) (\<lambda>_.
            update token (\<lambda>s. s\<lparr>s_planCode := code, s_paymentAccess := UNMANAGED\<rparr>)))))) (\<lambda>_.
         return \<lparr>pv_planCode = code, pv_pendingPlanCode = None, pv_effectiveAt = None\<rparr>)
       else
         andthen (request_plan api token code) (\<lambda>_.
         andthen (performPlanRequest cfg api token) (\<lambda>_.
         andthen (synchronize cfg api token None) (\<lambda>_.
         gets (\<lambda>t. \<lparr>pv_planCode = s_planCode (pd t), pv_pendingPlanCode = s_pendingPlanCode (pd t),
                    pv_effectiveAt = s_pendingPlanAt (pd t)\<rparr>))))))))"

section \<open>Checkout\<close>

definition invalid_checkout :: "checkout_session \<Rightarrow> subscription \<Rightarrow> bool" where
  "invalid_checkout c s \<longleftrightarrow> co_livemode c \<or> co_status c \<noteq> Some ''complete'' \<or> co_mode c \<noteq> ''setup''
     \<or> co_customer c \<noteq> s_stripeCustomerId s \<or> Some (co_id c) \<noteq> s_stripeCheckoutSessionId s
     \<or> co_operation c \<noteq> s_stripeCheckoutOperation s \<or> s_stripeCheckoutPlan s = None"

definition anchor_numbers :: "date \<Rightarrow> int list" where
  "anchor_numbers t = [getUTCDate t, getUTCHours t, getUTCMinutes t, getUTCSeconds t]"

definition created_subscription :: "string \<Rightarrow> subscription \<Rightarrow> subscription" where
  "created_subscription i s = s\<lparr>s_stripeSubscriptionId := Some i, s_stripeManaged := True,
     s_stripeMeterStartedAt := None\<rparr>"

definition fix_checkout_employees :: "string \<Rightarrow> int \<Rightarrow> ('x, int) pay" where
  "fix_checkout_employees token current =
     andthen (gets pd) (\<lambda>s.
     case s_stripeCheckoutEmployees s of
       Some n \<Rightarrow> return n
     | None \<Rightarrow> andthen (update token (\<lambda>s. s\<lparr>s_stripeCheckoutEmployees := Some current\<rparr>)) (\<lambda>_. return current))"

definition completeCheckout ::
  "pay_config \<Rightarrow> 'x stripe_api \<Rightarrow> string \<Rightarrow> checkout_session \<Rightarrow> ('x, unit) pay" where
  "completeCheckout cfg api token c =
     andthen (gets pd) (\<lambda>s.
     if invalid_checkout c s then throw (http BadRequest ''Checkout mapping is invalid'')
     else
     case (co_setupIntent c, s_stripeCheckoutPlan s) of
       (Some setupId, Some plan) \<Rightarrow>
         andthen (call (setupIntents_retrieve api setupId)) (\<lambda>setup.
         case si_paymentMethod setup of
           None \<Rightarrow> throw (http BadRequest ''Payment method setup is incomplete'')
         | Some method \<Rightarrow>
         if si_livemode setup \<or> si_status setup \<noteq> ''succeeded'' \<or> si_customer setup \<noteq> s_stripeCustomerId s
         then throw (http BadRequest ''Payment method setup is incomplete'')
         else
         andthen (validateCatalog cfg api) (\<lambda>_.
         andthen (gets (now_of api)) (\<lambda>now.
         andthen (db (assertPlanFits s plan now)) (\<lambda>current.
         andthen (fix_checkout_employees token current) (\<lambda>employees.
         andthen (attempt api token SubscriptionAttempt) (\<lambda>_.
         andthen (sending (CreateSubscription (option_default ''undefined'' (s_stripeCustomerId s)) method (plan_items cfg plan employees)
                    (anchor_numbers (s_activatedAt s)) (oid_to_string (s_companyId s))
                    (''dv-subscription-'' @ co_id c)) (subscriptions_create api)) (\<lambda>remote.
         andthen (update token (created_subscription (rs_id remote))) (\<lambda>_.
         applyCanonical cfg api token remote None False))))))))
     | _ \<Rightarrow> throw (http BadRequest ''Checkout setup is incomplete''))"

definition forget_subscription :: "subscription \<Rightarrow> subscription" where
  "forget_subscription s = s\<lparr>s_stripeSubscriptionId := None, s_stripeSubscriptionAttemptAt := None,
     s_stripeCheckoutSessionId := None, s_stripeCheckoutOperation := None, s_pendingPlanCode := None,
     s_pendingPlanAt := None, s_stripeChangeOperation := None, s_stripePlanAttemptAt := None,
     s_stripePlanConfirmed := False, s_stripePlanEmployees := None, s_stripeScheduleId := None,
     s_stripeCheckoutEmployees := None, s_stripeCheckoutAttemptAt := None\<rparr>"

text \<open>A company whose subscription has ended starts over; one that has not may not check out.\<close>

definition retire_subscription :: "'x stripe_api \<Rightarrow> string \<Rightarrow> ('x, unit) pay" where
  "retire_subscription api token =
     andthen (gets pd) (\<lambda>s.
     case s_stripeSubscriptionId s of
       None \<Rightarrow> return ()
     | Some i \<Rightarrow>
         if \<not> isTerminalStripeStatus (s_stripeStatus s)
         then throw (http Conflict ''Use the plan-change endpoint for an existing Stripe subscription'')
         else
         andthen (call (subscriptions_retrieve api i)) (\<lambda>previous.
         andthen (lift_result (validateRemote s previous)) (\<lambda>_.
         if \<not> terminal_status (rs_status previous)
         then throw (http Conflict ''Existing Stripe subscription is not canceled'')
         else
         let access = (if s_planCode s = FREE then s_paymentAccess s else SUSPENDED) in
         update token (\<lambda>s. (forget_subscription s)\<lparr>s_paymentAccess := access\<rparr>))))"

definition new_operation :: "string \<Rightarrow> plan_code \<Rightarrow> subscription \<Rightarrow> subscription" where
  "new_operation operation code s = s\<lparr>s_stripeCheckoutOperation := Some operation,
     s_stripeCheckoutPlan := Some code, s_stripeCheckoutSessionId := None,
     s_stripeCheckoutAttemptAt := None, s_stripeSubscriptionAttemptAt := None,
     s_stripeCheckoutEmployees := None\<rparr>"

definition create_session :: "'x stripe_api \<Rightarrow> string \<Rightarrow> actor \<Rightarrow> plan_code \<Rightarrow> string \<Rightarrow> ('x, string option) pay" where
  "create_session api token actor code customerId =
     andthen (gets pd) (\<lambda>s.
     andthen
       (if s_stripeCheckoutOperation s = None \<or> s_stripeCheckoutPlan s \<noteq> Some code
           \<or> s_stripeCheckoutSessionId s \<noteq> None
        then andthen (fresh_uuid api) (\<lambda>operation. update token (new_operation operation code))
        else return ()) (\<lambda>_.
     andthen (attempt api token CheckoutAttempt) (\<lambda>_.
     andthen (gets (\<lambda>t. option_default ''undefined'' (s_stripeCheckoutOperation (pd t)))) (\<lambda>operation.
     andthen (sending (CreateCheckout customerId (oid_to_string (a_companyId actor)) operation code
                (''datavault-checkout-'' @ operation)) (sessions_create api)) (\<lambda>created.
     andthen (update token (\<lambda>s. s\<lparr>s_stripeCheckoutSessionId := Some (co_id created)\<rparr>)) (\<lambda>_.
     return (co_url created)))))))"

definition checkout ::
  "pay_config \<Rightarrow> 'x stripe_api \<Rightarrow> actor \<Rightarrow> plan_code \<Rightarrow> ('x, string option) pay" where
  "checkout cfg api actor code =
     andthen (lift_result (payments_owner cfg actor)) (\<lambda>_.
     if code = FREE then throw (http BadRequest ''Free does not require Checkout'')
     else
     safeApi (withLease api (a_companyId actor) (\<lambda>token.
       andthen (validateCatalog cfg api) (\<lambda>_.
       andthen (retire_subscription api token) (\<lambda>_.
       andthen (gets pd) (\<lambda>s.
       andthen (gets (now_of api)) (\<lambda>now.
       andthen (db (assertPlanFits s code now)) (\<lambda>_.
       andthen (customer api token) (\<lambda>customerId.
       case s_stripeCheckoutSessionId s of
         None \<Rightarrow> create_session api token actor code customerId
       | Some i \<Rightarrow>
           andthen (call (sessions_retrieve api i)) (\<lambda>existing.
           if co_status existing = Some ''open''
           then if s_stripeCheckoutPlan s \<noteq> Some code
                then throw (http Conflict ''An existing Checkout session must finish or expire first'')
                else return (co_url existing)
           else if co_status existing = Some ''complete'' \<and> s_stripeSubscriptionId s = None
           then throw (http Conflict ''Checkout completion is being synchronized'')
           else create_session api token actor code customerId))))))))))"

definition portal_unsafe :: "portal_configuration \<Rightarrow> bool" where
  "portal_unsafe c \<longleftrightarrow> po_livemode c \<or> \<not> po_active c \<or> \<not> po_paymentMethodUpdate c
     \<or> \<not> po_invoiceHistory c \<or> po_subscriptionUpdate c \<or> po_subscriptionCancel c"

definition portal :: "pay_config \<Rightarrow> 'x stripe_api \<Rightarrow> actor \<Rightarrow> ('x, string) pay" where
  "portal cfg api actor =
     andthen (lift_result (payments_owner cfg actor)) (\<lambda>_.
     safeApi (withLease api (a_companyId actor) (\<lambda>token.
       andthen (call (portal_retrieve api (STRIPE_PORTAL_CONFIGURATION_ID cfg))) (\<lambda>configuration.
       if portal_unsafe configuration
       then throw (http ServiceUnavailable
         ''Portal must enable payment methods and invoices, and disable plan changes and cancellation'')
       else
       andthen (customer api token) (\<lambda>customerId.
       sending (CreatePortalSession customerId (po_id configuration)) (portal_create api))))))"

record payment_view =
  pm_planCode :: plan_code
  pm_paymentAccess :: payment_access
  pm_stripeStatus :: "stripe_status option"
  pm_cancelAtPeriodEnd :: bool
  pm_pendingPlanCode :: "plan_code option"
  pm_pendingPlanAt :: "date option"
  pm_billingPeriod :: period
  pm_issue :: payment_sync_issue
  pm_lastSyncedAt :: "date option"
  pm_pendingUsage :: int
  pm_invoices :: "remote_invoice list"

definition current :: "pay_config \<Rightarrow> 'x stripe_api \<Rightarrow> actor \<Rightarrow> ('x, payment_view) pay" where
  "current cfg api actor =
     andthen (lift_result (payments_owner cfg actor)) (\<lambda>_.
     safeApi
       (andthen (db (gets (\<lambda>w. subscription_of w (a_companyId actor)))) (\<lambda>found.
        case found of
          None \<Rightarrow> throw no_subscription
        | Some s \<Rightarrow>
        andthen (case s_stripeCustomerId s of
                   Some c \<Rightarrow> call (invoices_list api (Some c) None)
                 | None \<Rightarrow> return \<lparr>pg_data = [], pg_hasMore = False\<rparr>) (\<lambda>invoices.
        andthen (db (gets (\<lambda>w. countDocuments (\<lambda>u. g_companyId u = a_companyId actor
                   \<and> g_state u \<noteq> USAGE_SUBMITTED) (stripeUsages w)))) (\<lambda>pendingUsage.
        andthen (gets (now_of api)) (\<lambda>now.
        andthen (lift_result (billingPeriod (Some (s_activatedAt s)) (Some now))) (\<lambda>period.
        return \<lparr>pm_planCode = s_planCode s, pm_paymentAccess = s_paymentAccess s,
          pm_stripeStatus = s_stripeStatus s, pm_cancelAtPeriodEnd = s_stripeCancelAtPeriodEnd s,
          pm_pendingPlanCode = s_pendingPlanCode s, pm_pendingPlanAt = s_pendingPlanAt s,
          pm_billingPeriod = period, pm_issue = s_paymentSyncIssue s,
          pm_lastSyncedAt = s_stripeSyncedAt s, pm_pendingUsage = pendingUsage,
          pm_invoices = pg_data invoices\<rparr>)))))))"

definition reconcileCompany :: "pay_config \<Rightarrow> 'x stripe_api \<Rightarrow> oid \<Rightarrow> ('x, unit) pay" where
  "reconcileCompany cfg api companyId =
     (if \<not> STRIPE_ENABLED cfg then return ()
      else safeApi (withLease api companyId (\<lambda>token.
        andthen (gets pd) (\<lambda>s.
        andthen
          (case (s_stripeCheckoutSessionId s, s_stripeSubscriptionId s) of
             (Some i, None) \<Rightarrow>
               andthen (call (sessions_retrieve api i)) (\<lambda>c.
               if co_status c = Some ''complete'' then completeCheckout cfg api token c else return ())
           | _ \<Rightarrow> return ()) (\<lambda>_.
        andthen (gets pd) (\<lambda>s.
        andthen (if s_pendingPlanCode s \<noteq> None then performPlanRequest cfg api token else return ()) (\<lambda>_.
        synchronize cfg api token None)))))))"

definition reconcile :: "pay_config \<Rightarrow> 'x stripe_api \<Rightarrow> actor \<Rightarrow> ('x, payment_view) pay" where
  "reconcile cfg api actor =
     andthen (lift_result (payments_owner cfg actor)) (\<lambda>_.
     andthen (reconcileCompany cfg api (a_companyId actor)) (\<lambda>_.
     current cfg api actor))"

end
