(* ===== verification/PaymentSync.thy ===== *)
theory PaymentSync
  imports Payments
begin

text \<open>
  What drives the payment integration: the webhook of \<open>PaymentsService\<close>, the periodic worker
  (\<open>payments/payments.worker.ts\<close>) and the classification of failures for the logs
  (\<open>payments/payment-sync-failure.ts\<close>).
\<close>

section \<open>Failures\<close>

datatype sync_reason =
  CHECKOUT_MAPPING_PENDING | COMPANY_LEASE_BUSY | DATABASE_RETRY | STRIPE_SYNC_RETRY | VALIDATION_FAILED

datatype failure_kind = Expected_Retry | Validation_Failure | Unexpected_Failure

record classification =
  cl_reason :: sync_reason
  cl_failureKind :: failure_kind
  cl_retryable :: "bool option"

definition retry :: "sync_reason \<Rightarrow> classification" where
  "retry reason = \<lparr>cl_reason = reason, cl_failureKind = Expected_Retry, cl_retryable = Some True\<rparr>"

fun transient_database :: "error \<Rightarrow> bool" where
  "transient_database (MongoFailure MongoNetworkError) = True"
| "transient_database (MongoFailure (MongoLabelledError label)) =
     (label \<in> set [''TransientTransactionError'', ''UnknownTransactionCommitResult'', ''RetryableWriteError''])"
| "transient_database (MongoFailure (MongoServerError code)) = (code = 112)"
| "transient_database UnknownCommit = True"
| "transient_database _ = False"

fun transient_stripe :: "error \<Rightarrow> bool" where
  "transient_stripe (StripeFailure StripeConnectionError) = True"
| "transient_stripe (StripeFailure StripeRateLimitError) = True"
| "transient_stripe (StripeFailure (StripeAPIError status)) = (case status of None \<Rightarrow> False | Some n \<Rightarrow> n \<ge> 500)"
| "transient_stripe _ = False"

fun permanent_stripe :: "error \<Rightarrow> bool" where
  "permanent_stripe (StripeFailure f) = (f \<in> set [StripeInvalidRequestError, StripeAuthenticationError,
     StripePermissionError, StripeCardError, StripeIdempotencyError])"
| "permanent_stripe _ = False"

definition classifyPaymentSyncFailure :: "error \<Rightarrow> classification" where
  "classifyPaymentSyncFailure error =
     (if instanceof error CheckoutMappingPending then retry CHECKOUT_MAPPING_PENDING
      else if instanceof error LeaseBusy then retry COMPANY_LEASE_BUSY
      else if transient_database error then retry DATABASE_RETRY
      else if transient_stripe error then retry STRIPE_SYNC_RETRY
      else if instanceof error PaymentSyncValidation \<or> instanceof error BadRequest
        \<or> instanceof error Forbidden \<or> instanceof error NotFound \<or> instanceof error Conflict
        \<or> permanent_stripe error
      then \<lparr>cl_reason = VALIDATION_FAILED, cl_failureKind = Validation_Failure, cl_retryable = Some False\<rparr>
      else \<lparr>cl_reason = STRIPE_SYNC_RETRY, cl_failureKind = Unexpected_Failure, cl_retryable = None\<rparr>)"

text \<open>Identifiers reach the logs only in their expected shape.\<close>

definition id_char :: "char \<Rightarrow> bool" where
  "id_char c \<longleftrightarrow> (CHR ''A'' \<le> c \<and> c \<le> CHR ''Z'') \<or> (CHR ''a'' \<le> c \<and> c \<le> CHR ''z'')
     \<or> (CHR ''0'' \<le> c \<and> c \<le> CHR ''9'') \<or> c = CHR ''_''"

definition prefixed_id :: "string \<Rightarrow> string \<Rightarrow> bool" where
  "prefixed_id prefix text \<longleftrightarrow> take 4 text = prefix
     \<and> 1 \<le> length (drop 4 text) \<and> length (drop 4 text) \<le> 128 \<and> list_all id_char (drop 4 text)"

definition hex_char :: "char \<Rightarrow> bool" where
  "hex_char c \<longleftrightarrow> (CHR ''a'' \<le> c \<and> c \<le> CHR ''f'') \<or> (CHR ''A'' \<le> c \<and> c \<le> CHR ''F'')
     \<or> (CHR ''0'' \<le> c \<and> c \<le> CHR ''9'')"

definition object_id_text :: "string \<Rightarrow> bool" where
  "object_id_text text \<longleftrightarrow> length text = 24 \<and> list_all hex_char text"

record log_identifiers =
  lg_eventId :: "string option"
  lg_companyId :: "string option"
  lg_subscriptionId :: "string option"
  lg_stripeSubscriptionId :: "string option"

definition only_if :: "(string \<Rightarrow> bool) \<Rightarrow> string option \<Rightarrow> string option" where
  "only_if p text = (case text of None \<Rightarrow> None | Some t \<Rightarrow> if p t then Some t else None)"

definition safePaymentSyncIdentifiers :: "log_identifiers \<Rightarrow> log_identifiers" where
  "safePaymentSyncIdentifiers context =
     \<lparr>lg_eventId = only_if (prefixed_id ''evt_'') (lg_eventId context),
      lg_companyId = only_if object_id_text (lg_companyId context),
      lg_subscriptionId = only_if object_id_text (lg_subscriptionId context),
      lg_stripeSubscriptionId = only_if (prefixed_id ''sub_'') (lg_stripeSubscriptionId context)\<rparr>"

section \<open>The webhook\<close>

definition STRIPE_EVENTS :: "string list" where
  "STRIPE_EVENTS = [''checkout.session.completed'', ''checkout.session.expired'',
     ''customer.subscription.created'', ''customer.subscription.updated'',
     ''customer.subscription.deleted'', ''invoice.created'', ''invoice.finalized'', ''invoice.paid'',
     ''invoice.payment_failed'', ''invoice.payment_action_required'',
     ''invoice.marked_uncollectible'']"

datatype webhook_reply = Received | Received_Ignored | Received_Duplicate

definition starts_with :: "string \<Rightarrow> string \<Rightarrow> bool" where
  "starts_with prefix text \<longleftrightarrow> take (length prefix) text = prefix"

definition event_seen :: "world \<Rightarrow> remote_event \<Rightarrow> bool" where
  "event_seen w e \<longleftrightarrow> list_ex (\<lambda>d. e_eventId d = ev_id e) (stripeEvents w)"

text \<open>The subscription an event is about, by the kind of its object.\<close>

definition event_subscription :: "world \<Rightarrow> remote_event \<Rightarrow> subscription option" where
  "event_subscription w e =
     (if starts_with ''checkout.'' (ev_type e)
      then find (\<lambda>s. s_stripeCheckoutSessionId s = Some (ev_objectId e)) (subscriptions w)
      else if starts_with ''customer.subscription.'' (ev_type e)
      then find (\<lambda>s. s_stripeSubscriptionId s = Some (ev_objectId e)) (subscriptions w)
      else (case ev_subscription e of
              None \<Rightarrow> None
            | Some i \<Rightarrow> find (\<lambda>s. s_stripeSubscriptionId s = Some i) (subscriptions w)))"

text \<open>A subscription of the customer is being created, but its identifier is not stored yet.\<close>

definition mapping_pending :: "world \<Rightarrow> remote_event \<Rightarrow> bool" where
  "mapping_pending w e \<longleftrightarrow> \<not> starts_with ''checkout.'' (ev_type e)
     \<and> (case ev_customer e of
          None \<Rightarrow> False
        | Some c \<Rightarrow> (case find (\<lambda>s. s_stripeCustomerId s = Some c) (subscriptions w) of
              None \<Rightarrow> False
            | Some s \<Rightarrow> s_stripeCheckoutOperation s \<noteq> None \<and> s_stripeSubscriptionId s = None))"

definition record_event :: "'x stripe_api \<Rightarrow> remote_event \<Rightarrow> oid option \<Rightarrow> ('x, unit) pay" where
  "record_event api e companyId =
     andthen (gets (now_of api)) (\<lambda>now.
     db (create_event \<lparr>e_eventId = ev_id e, e_type = ev_type e, e_companyId = companyId, e_processedAt = now\<rparr>))"

definition handle_event :: "pay_config \<Rightarrow> 'x stripe_api \<Rightarrow> remote_event \<Rightarrow> string \<Rightarrow> ('x, unit) pay" where
  "handle_event cfg api e token =
     andthen (gets (\<lambda>t. event_seen (pw t) e)) (\<lambda>seen.
     if seen then return ()
     else
     andthen (gets pd) (\<lambda>s.
     andthen
       (if ev_type e = ''checkout.session.completed'' \<and> s_stripeSubscriptionId s = None
        then andthen (call (sessions_retrieve api (ev_objectId e))) (completeCheckout cfg api token)
        else return ()) (\<lambda>_.
     andthen (gets pd) (\<lambda>s.
     if s_stripeSubscriptionId s \<noteq> None then synchronize cfg api token (Some e)
     else record_event api e (Some (s_companyId s))))))"

definition process_event :: "pay_config \<Rightarrow> 'x stripe_api \<Rightarrow> remote_event \<Rightarrow> ('x, webhook_reply) pay" where
  "process_event cfg api e =
     andthen (gets (\<lambda>t. event_subscription (pw t) e)) (\<lambda>found.
     case found of
       None \<Rightarrow>
         andthen (gets (\<lambda>t. mapping_pending (pw t) e)) (\<lambda>pending.
         if pending then throw (http CheckoutMappingPending ''Checkout completion is being synchronized'')
         else andthen (record_event api e None) (\<lambda>_. return Received_Ignored))
     | Some s \<Rightarrow>
         andthen (withLease api (s_companyId s) (handle_event cfg api e)) (\<lambda>_. return Received))"

definition webhook ::
  "pay_config \<Rightarrow> 'x stripe_api \<Rightarrow> bytes option \<Rightarrow> string option \<Rightarrow> ('x, webhook_reply) pay" where
  "webhook cfg api body signature =
     (let invalid = http BadRequest ''Invalid Stripe signature'' in
      if \<not> STRIPE_ENABLED cfg
      then throw (http ServiceUnavailable ''Test Mode payments are not configured'')
      else
      case (body, signature) of
        (Some b, Some sig) \<Rightarrow>
          if sig = [] then throw invalid
          else
          (case constructEvent api b sig of
             Inl _ \<Rightarrow> throw invalid
           | Inr e \<Rightarrow>
               if ev_livemode e then throw (http BadRequest ''Only Stripe Test Mode events are accepted'')
               else if ev_type e \<notin> set STRIPE_EVENTS then return Received_Ignored
               else
               andthen (gets (\<lambda>t. event_seen (pw t) e)) (\<lambda>seen.
               if seen then return Received_Duplicate
               else
               catching (process_event cfg api e) (\<lambda>error.
                 andthen (gets (\<lambda>t. event_seen (pw t) e)) (\<lambda>processed.
                 if isDuplicateKeyError error \<and> processed then return Received_Duplicate
                 else throw (http ServiceUnavailable ''Stripe synchronization temporarily unavailable'')))))
      | _ \<Rightarrow> throw invalid)"

section \<open>The worker\<close>

definition sync_due :: "date \<Rightarrow> subscription \<Rightarrow> bool" where
  "sync_due now s \<longleftrightarrow> (case s_stripeNextSyncAt s of None \<Rightarrow> True | Some t \<Rightarrow> t \<le> now)"

definition sync_candidate :: "date \<Rightarrow> subscription \<Rightarrow> bool" where
  "sync_candidate now s \<longleftrightarrow> (s_stripeManaged s \<or> s_stripeCheckoutSessionId s \<noteq> None) \<and> sync_due now s"

text \<open>Missing dates sort before all dates.\<close>

definition oldest_first :: "subscription list \<Rightarrow> subscription list" where
  "oldest_first ss = filter (\<lambda>s. s_stripeNextSyncAt s = None) ss
     @ sort_key (\<lambda>s. option_default 0 (s_stripeNextSyncAt s)) (filter (\<lambda>s. s_stripeNextSyncAt s \<noteq> None) ss)"

definition due_tenants :: "date \<Rightarrow> world \<Rightarrow> subscription list" where
  "due_tenants now w = take 20 (oldest_first (filter (sync_candidate now) (subscriptions w)))"

definition claim_tenant :: "oid \<Rightarrow> date \<Rightarrow> date \<Rightarrow> bool handler" where
  "claim_tenant i now next' =
     (let q = (\<lambda>s. s_id s = i \<and> sync_due now s) in
      andthen (gets (\<lambda>w. find q (subscriptions w))) (\<lambda>found.
      andthen (modify (\<lambda>w. w\<lparr>subscriptions :=
         updateOne q (\<lambda>s. s\<lparr>s_stripeNextSyncAt := Some next'\<rparr>) (subscriptions w)\<rparr>)) (\<lambda>_.
      return (found \<noteq> None))))"

definition mark_retry :: "oid \<Rightarrow> unit handler" where
  "mark_retry i = modify (\<lambda>w. w\<lparr>subscriptions :=
     updateOne (\<lambda>s. s_id s = i \<and> s_paymentSyncIssue s \<noteq> RECONCILIATION_REQUIRED) (set_issue RETRY_REQUIRED)
       (subscriptions w)\<rparr>)"

definition sync_tenant :: "pay_config \<Rightarrow> 'x stripe_api \<Rightarrow> date \<Rightarrow> subscription \<Rightarrow> ('x, unit) pay" where
  "sync_tenant cfg api now tenant =
     andthen (gets (now_of api)) (\<lambda>t.
     andthen (db (claim_tenant (s_id tenant) now (t + STRIPE_SYNC_INTERVAL_MS cfg))) (\<lambda>claimed.
     if \<not> claimed then return ()
     else catching (reconcileCompany cfg api (s_companyId tenant)) (\<lambda>_. db (mark_retry (s_id tenant)))))"

fun sync_tenants :: "pay_config \<Rightarrow> 'x stripe_api \<Rightarrow> date \<Rightarrow> subscription list \<Rightarrow> ('x, unit) pay" where
  "sync_tenants cfg api now [] = return ()"
| "sync_tenants cfg api now (s # ss) = andthen (sync_tenant cfg api now s) (\<lambda>_. sync_tenants cfg api now ss)"

definition worker_run :: "pay_config \<Rightarrow> 'x stripe_api \<Rightarrow> ('x, unit) pay" where
  "worker_run cfg api = catching
     (andthen (gets (now_of api)) (\<lambda>now.
      andthen (gets (\<lambda>t. due_tenants now (pw t))) (sync_tenants cfg api now)))
     (\<lambda>_. return ())"

definition worker_tick :: "pay_config \<Rightarrow> 'x stripe_api \<Rightarrow> bool \<Rightarrow> ('x, unit) pay" where
  "worker_tick cfg api running =
     (if running \<or> \<not> STRIPE_ENABLED cfg then return () else worker_run cfg api)"

end
