(* ===== verification/PaymentSafety.thy ===== *)
theory PaymentSafety
  imports PaymentSync Interfaces
begin

text \<open>
  What the payment integration promises: one operation at a time holds a company's lease, and a
  stale one can no longer write; a company gets access to a plan only when it is paid for and
  fits; usage is marked as delivered only after it was sent; an event of Stripe is processed once;
  and an operation for one company leaves the others alone.
\<close>

section \<open>The lease\<close>

definition lease_held :: "world \<Rightarrow> oid \<Rightarrow> string \<Rightarrow> bool" where
  "lease_held w i token \<longleftrightarrow> list_ex (holds_lease i token) (subscriptions w)"

text \<open>
  The steps of everybody else: they take leases with other tokens, at times before \<open>limit\<close>, or
  act as the holders of other tokens; the rest of the program may change any field of a
  subscription but its identity and its lease.
\<close>

definition same_lease :: "subscription \<Rightarrow> subscription \<Rightarrow> bool" where
  "same_lease s t \<longleftrightarrow> s_id t = s_id s \<and> s_companyId t = s_companyId s
     \<and> s_stripeLeaseToken t = s_stripeLeaseToken s \<and> s_stripeLeaseUntil t = s_stripeLeaseUntil s"

inductive lease_step :: "string \<Rightarrow> date \<Rightarrow> world \<Rightarrow> world \<Rightarrow> bool" for token limit where
  step_acquire: "acquire_lease c t now w = (r, w') \<Longrightarrow> t \<noteq> token \<Longrightarrow> now < limit \<Longrightarrow> lease_step token limit w w'"
| step_renew: "renewLease i t now w = (r', w') \<Longrightarrow> t \<noteq> token \<Longrightarrow> lease_step token limit w w'"
| step_release: "release_lease i t w = (r', w') \<Longrightarrow> t \<noteq> token \<Longrightarrow> lease_step token limit w w'"
| step_update: "fenced_update i t g w = (r', w') \<Longrightarrow> t \<noteq> token \<Longrightarrow> (\<And>s. same_lease s (g s)) \<Longrightarrow>
    lease_step token limit w w'"
| step_other: "(\<And>s. same_lease s (g s)) \<Longrightarrow> lease_step token limit w (w\<lparr>subscriptions := map g (subscriptions w)\<rparr>)"
| step_world: "subscriptions w' = subscriptions w \<Longrightarrow> lease_step token limit w w'"

lemma set_updateOne_keep: "x \<in> set xs \<Longrightarrow> \<not> q x \<Longrightarrow> x \<in> set (updateOne q g xs)"
  by (induction xs) auto

lemma updateOne_in: "find q xs = Some x \<Longrightarrow> g x \<in> set (updateOne q g xs)"
  by (induction xs) (auto split: if_splits)

text \<open>The shape of the steps: documents that are not the step's own stay as they are.\<close>

lemma lease_step_shape:
  assumes "lease_step token limit w w'"
  shows "(\<exists>g. (\<forall>s. same_lease s (g s)) \<and> subscriptions w' = map g (subscriptions w))
    \<or> (\<exists>q g. subscriptions w' = updateOne q g (subscriptions w)
        \<and> (\<forall>s. q s \<longrightarrow> (\<exists>now < limit. lease_free now s) \<or> (\<exists>t \<noteq> token. s_stripeLeaseToken s = Some t))
        \<and> (\<forall>s. s_id (g s) = s_id s \<and> (s_stripeLeaseToken (g s) = Some token \<longrightarrow> s_stripeLeaseToken s = Some token)))"
  using assms
proof (cases rule: lease_step.cases)
  case (step_acquire c t now r)
  have "subscriptions w' = subscriptions w \<or> subscriptions w' =
      updateOne (\<lambda>s. s_companyId s = c \<and> lease_free now s) (take_lease t now) (subscriptions w)"
    using step_acquire(1) by (cases r) (auto simp: acquire_lease_def Let_def action_simps split: option.splits if_splits)
  then show ?thesis
  proof
    assume "subscriptions w' = subscriptions w"
    then show ?thesis by (intro disjI1 exI [of _ "\<lambda>s. s"]) (simp add: same_lease_def)
  next
    assume "subscriptions w' = updateOne (\<lambda>s. s_companyId s = c \<and> lease_free now s) (take_lease t now) (subscriptions w)"
    then show ?thesis using step_acquire(2,3)
      by (intro disjI2 exI [of _ "\<lambda>s. s_companyId s = c \<and> lease_free now s"] exI [of _ "take_lease t now"])
        (auto simp: take_lease_def)
  qed
next
  case (step_renew i t now r)
  have "subscriptions w' = updateOne (holds_lease i t) (extend_lease now) (subscriptions w)"
    using step_renew(1) by (cases r) (auto simp: renewLease_def action_simps updateOne_no_match split: if_splits)
  then show ?thesis using step_renew(2)
    by (intro disjI2 exI [of _ "holds_lease i t"] exI [of _ "extend_lease now"])
      (auto simp: extend_lease_def holds_lease_def)
next
  case (step_release i t r)
  then have "subscriptions w' = updateOne (holds_lease i t) drop_lease (subscriptions w)"
    by (auto simp: release_lease_def action_simps)
  then show ?thesis using step_release(2)
    by (intro disjI2 exI [of _ "holds_lease i t"] exI [of _ drop_lease])
      (auto simp: drop_lease_def holds_lease_def)
next
  case (step_update i t g r)
  have "subscriptions w' = subscriptions w \<or>
      subscriptions w' = updateOne (holds_lease i t) (\<lambda>s. bump_revision (g s)) (subscriptions w)"
    using step_update(1) by (cases r) (auto simp: fenced_update_def action_simps split: if_splits option.splits)
  then show ?thesis
  proof
    assume "subscriptions w' = subscriptions w"
    then show ?thesis by (intro disjI1 exI [of _ "\<lambda>s. s"]) (simp add: same_lease_def)
  next
    assume "subscriptions w' = updateOne (holds_lease i t) (\<lambda>s. bump_revision (g s)) (subscriptions w)"
    then show ?thesis using step_update(2,3)
      by (intro disjI2 exI [of _ "holds_lease i t"] exI [of _ "\<lambda>s. bump_revision (g s)"])
        (auto simp: holds_lease_def bump_revision_def same_lease_def)
  qed
next
  case (step_other g)
  then show ?thesis by auto
next
  case step_world
  then show ?thesis by (intro disjI1 exI [of _ "\<lambda>s. s"]) (simp add: same_lease_def)
qed

lemma lease_step_lost:
  assumes "lease_step token limit w w'" "\<not> lease_held w i token"
  shows "\<not> lease_held w' i token"
  using lease_step_shape [OF assms(1)]
proof (elim disjE exE conjE)
  fix g assume "\<forall>s. same_lease s (g s)" "subscriptions w' = map g (subscriptions w)"
  then show ?thesis using assms(2)
    by (auto simp: lease_held_def list_ex_iff holds_lease_def same_lease_def)
next
  fix q g assume u: "subscriptions w' = updateOne q g (subscriptions w)"
    and g: "\<forall>s. s_id (g s) = s_id s \<and> (s_stripeLeaseToken (g s) = Some token \<longrightarrow> s_stripeLeaseToken s = Some token)"
  show ?thesis using assms(2) g
    by (auto simp: lease_held_def list_ex_iff holds_lease_def u dest!: set_updateOneD)
qed

definition guarded_update :: "oid \<Rightarrow> string \<Rightarrow> (subscription \<Rightarrow> subscription) + date \<Rightarrow> unit handler" where
  "guarded_update i token op =
     (case op of Inl g \<Rightarrow> fenced_update i token g | Inr now \<Rightarrow> renewLease i token now)"

lemma guarded_refused:
  "\<not> lease_held w i token \<Longrightarrow> \<exists>m. guarded_update i token op w = (Inl (http LeaseBusy m), w)"
proof -
  assume "\<not> lease_held w i token"
  then have "find (holds_lease i token) (subscriptions w) = None"
    by (simp add: lease_held_def list_ex_iff find_None_iff)
  then show ?thesis
    by (auto simp: guarded_update_def fenced_update_def renewLease_def andthen_def gets_def throw_def
        split: sum.split)
qed

interpretation payment_lease: fenced_lease lease_held guarded_update "\<lambda>token. lease_step token limit"
  for limit
proof
  fix w i token op assume "\<not> lease_held w i token"
  from guarded_refused [OF this, of op] show "snd (guarded_update i token op w) = w" by auto
next
  fix token w w' i assume "lease_step token limit w w'" "\<not> lease_held w i token"
  then show "\<not> lease_held w' i token" by (rule lease_step_lost)
qed

text \<open>
  A lease excludes: while the lease taken at a time has not run out, no step of anybody else -
  acquisitions for any company, renewals, releases and updates with other tokens, and the rest of
  the program - takes it away or gives it to another token.
\<close>

theorem lease_exclusive:
  assumes a: "acquire_lease c token now w = (Inr s, w1)"
    and steps: "(lease_step token (now + STRIPE_LEASE_MS))\<^sup>*\<^sup>* w1 w2"
  shows "\<exists>x \<in> set (subscriptions w2). s_id x = s_id s \<and> s_companyId x = c
    \<and> s_stripeLeaseToken x = Some token \<and> s_stripeLeaseUntil x = Some (now + STRIPE_LEASE_MS)"
proof -
  let ?until = "now + STRIPE_LEASE_MS"
  let ?ok = "\<lambda>x. s_id x = s_id s \<and> s_companyId x = c \<and> s_stripeLeaseToken x = Some token
    \<and> s_stripeLeaseUntil x = Some ?until"
  let ?q = "\<lambda>s. s_companyId s = c \<and> lease_free now s"
  from a obtain s0 where s0: "find ?q (subscriptions w) = Some s0" "s = take_lease token now s0"
    and w1: "subscriptions w1 = updateOne ?q (take_lease token now) (subscriptions w)"
    by (auto simp: acquire_lease_def Let_def action_simps split: option.splits if_splits)
  from steps show ?thesis
  proof (induction rule: rtranclp_induct)
    case base
    from updateOne_in [OF s0(1)] have "s \<in> set (subscriptions w1)" by (simp add: w1 s0(2))
    moreover have "?ok s" using find_SomeD [OF s0(1)] by (simp add: s0(2) take_lease_def)
    ultimately show ?case by blast
  next
    case (step u v)
    then obtain x where x: "x \<in> set (subscriptions u)" "?ok x" by blast
    from lease_step_shape [OF step.hyps(2)] show ?case
    proof (elim disjE exE conjE)
      fix g assume "\<forall>s. same_lease s (g s)" "subscriptions v = map g (subscriptions u)"
      then show ?thesis using x by (intro bexI [of _ "g x"]) (auto simp: same_lease_def)
    next
      fix q g assume u: "subscriptions v = updateOne q g (subscriptions u)"
        and q: "\<forall>s. q s \<longrightarrow> (\<exists>now < ?until. lease_free now s) \<or> (\<exists>t \<noteq> token. s_stripeLeaseToken s = Some t)"
      have "\<not> q x" using q x(2) by (auto simp: lease_free_def)
      then show ?thesis using set_updateOne_keep [OF x(1)] x(2) u by auto
    qed
  qed
qed

text \<open>
  A stale operation is fenced off: once the lease does not carry its token any more, every
  update and every renewal with that token is refused with a conflict and writes nothing, whatever
  the other operations did in between.
\<close>

theorem stale_lease_fenced:
  assumes "\<not> lease_held w i token" "(lease_step token limit)\<^sup>*\<^sup>* w w'"
  shows "(\<exists>m. fenced_update i token g w' = (Inl (http LeaseBusy m), w'))
    \<and> (\<exists>m. renewLease i token now w' = (Inl (http LeaseBusy m), w'))"
proof -
  have "\<not> lease_held w' i token" using payment_lease.lost_forever [OF assms(2,1)] .
  from guarded_refused [OF this, of "Inl g"] guarded_refused [OF this, of "Inr now"]
  show ?thesis by (simp add: guarded_update_def)
qed

section \<open>Access is paid for and fits\<close>

definition plan_fits :: "world \<Rightarrow> oid \<Rightarrow> plan_code \<Rightarrow> date \<Rightarrow> bool" where
  "plan_fits w c code at \<longleftrightarrow>
     (case maxEmployees (plans_findOne code) of None \<Rightarrow> True
      | Some limit \<Rightarrow> employee_count w c + pending_invitations w c at \<le> limit)
   \<and> (extraFilePriceCents (plans_findOne code) = None \<longrightarrow>
        stored_files w c \<le> includedFilesPerMonth (plans_findOne code))"

lemma assertPlanFits_eq:
  "\<exists>b. assertPlanFits s code at w =
     ((if plan_fits w (s_companyId s) code at then Inr (employee_count w (s_companyId s))
       else Inl (HttpException Conflict b)), w)"
  by (auto simp: assertPlanFits_def Let_def plan_employee_check_def plan_file_check_def plan_fits_def
      andthen_def gets_def lift_result_def return_def split: option.splits)

lemma assertPlanFits_Inr:
  "assertPlanFits s code at w = (Inr n, w') \<longleftrightarrow>
     plan_fits w (s_companyId s) code at \<and> n = employee_count w (s_companyId s) \<and> w' = w"
  using assertPlanFits_eq [of s code at w] by (auto split: if_splits)

lemma assertPlanFits_Inl:
  "assertPlanFits s code at w = (Inl e, w') \<Longrightarrow> instanceof e Conflict \<and> w' = w"
  using assertPlanFits_eq [of s code at w] by (auto split: if_splits)

definition settled :: "subscription \<Rightarrow> remote_subscription \<Rightarrow> plan_code \<Rightarrow> payment_sync_issue \<Rightarrow> date \<Rightarrow> world
    \<Rightarrow> plan_code \<times> payment_access \<times> payment_sync_issue" where
  "settled s remote rc issue at w =
     (let access = canonical_access remote; fits = plan_fits w (s_companyId s) in
      if terminal_status (rs_status remote)
      then if fits FREE at then (FREE, ACTIVE, issue) else (s_planCode s, access, PLAN_CONFLICT)
      else if access = SUSPENDED then (s_planCode s, SUSPENDED, issue)
      else if fits rc at then (rc, access, issue) else (s_planCode s, SUSPENDED, PLAN_CONFLICT))"

lemma try_plan:
  "catching (andthen (assertPlanFits s code at) (\<lambda>_. return x))
     (\<lambda>error. if \<not> instanceof error Conflict then throw error else return y) w
   = (Inr (if plan_fits w (s_companyId s) code at then x else y), w)"
  using assertPlanFits_eq [of s code at w] by (auto simp: catching_def andthen_def return_def)

lemma settle_settled: "settle s remote rc issue at w = (Inr (settled s remote rc issue at w), w)"
  by (simp add: settle_def settled_def Let_def andthen_def try_plan return_def)

lemma find_lease: "distinct (map s_id xs) \<Longrightarrow> x \<in> set xs \<Longrightarrow> holds_lease i t x \<Longrightarrow>
   updateOne (holds_lease i t) g xs = map (\<lambda>y. if s_id y = i then g y else y) xs"
proof (induction xs)
  case (Cons a xs)
  have other: "map (\<lambda>y. if s_id y = i then g y else y) xs = xs" if "s_id a = i"
    using Cons.prems(1) that by (intro map_idI) (auto simp: image_iff)
  show ?case
  proof (cases "holds_lease i t a")
    case True
    then show ?thesis using other by (simp add: holds_lease_def)
  next
    case False
    then have "x \<in> set xs" using Cons.prems by auto
    moreover from this have "s_id a \<noteq> i" using Cons.prems by (auto simp: holds_lease_def)
    ultimately show ?thesis using Cons False by simp
  qed
qed simp

lemma fenced_update_Inr:
  assumes "fenced_update i token g w = (Inr u, w')"
  shows "\<exists>d. d \<in> set (subscriptions w) \<and> holds_lease i token d
    \<and> w' = w\<lparr>subscriptions := updateOne (holds_lease i token) (\<lambda>s. bump_revision (g s)) (subscriptions w)\<rparr>"
  using assms by (auto simp: fenced_update_def action_simps split: option.splits if_splits dest!: find_SomeD)

lemma update_Inr:
  "update token g s = (Inr u, s') \<longleftrightarrow> (\<exists>w. fenced_update (s_id (pd s)) token g (pw s) = (Inr (), w)
     \<and> s' = s\<lparr>pw := w, pd := g (pd s)\<rparr>)"
  by (auto simp: update_def action_simps)

lemma lockLocal_Inr:
  "lockLocal i w = (Inr u, w') \<Longrightarrow>
     w' = w\<lparr>subscriptions := updateOne (\<lambda>s. s_id s = i) bump_revision (subscriptions w)\<rparr>"
  by (auto simp: lockLocal_def action_simps split: if_splits)

lemma updateOne_id_map:
  "distinct (map s_id xs) \<Longrightarrow> updateOne (\<lambda>s. s_id s = i) g xs = map (\<lambda>y. if s_id y = i then g y else y) xs"
proof (induction xs)
  case (Cons a xs)
  show ?case
  proof (cases "s_id a = i")
    case True
    then have "map (\<lambda>y. if s_id y = i then g y else y) xs = xs" using Cons.prems by (intro map_idI) (auto simp: image_iff)
    then show ?thesis using True by simp
  qed (use Cons in simp)
qed simp

definition plan_world :: "world \<Rightarrow> world \<Rightarrow> bool" where
  "plan_world w w' \<longleftrightarrow> users w' = users w \<and> invitations w' = invitations w \<and> files w' = files w"

lemma plan_world_fits: "plan_world w w' \<Longrightarrow> plan_fits w' c code at = plan_fits w c code at"
proof -
  assume p: "plan_world w w'"
  have "employee_count w' = employee_count w" "pending_invitations w' = pending_invitations w"
    "stored_files w' = stored_files w"
    using p by (auto intro!: ext simp: plan_world_def employee_count_def pending_invitations_def stored_files_def)
  then show ?thesis unfolding plan_fits_def by (simp only:)
qed

lemma plan_world_refl [simp]: "plan_world w w"
  by (simp add: plan_world_def)

lemma plan_world_frame [simp]:
  "plan_world w (u\<lparr>subscriptions := a\<rparr>) = plan_world w u"
  "plan_world w (u\<lparr>stripeEvents := b\<rparr>) = plan_world w u"
  "plan_world w (u\<lparr>stripeUsages := c\<rparr>) = plan_world w u"
  by (simp_all add: plan_world_def)

lemma settled_frame: "plan_world w w' \<Longrightarrow> settled s remote rc issue at w' = settled s remote rc issue at w"
  by (simp add: settled_def Let_def plan_world_fits)

text \<open>The whole transaction: one document is replaced, the decision is taken on the state before.\<close>

lemma applyCanonical_Inr:
  assumes a: "applyCanonical cfg api token remote event held s = (Inr u, s')"
    and d: "distinct (map s_id (subscriptions (pw s)))"
  shows "\<exists>rc status p acc issue. remotePlan cfg remote = Inr rc
    \<and> validateRemote (pd s) remote = Inr status
    \<and> (p, acc, issue) = settled (pd s) remote rc
        (if held \<or> stuck_usage (pw s) (s_companyId (pd s)) then RECONCILIATION_REQUIRED else SYNC_NONE)
        (now_of api s) (pw s)
    \<and> subscriptions (pw s') = map (\<lambda>x. if s_id x = s_id (pd s)
        then bump_revision (canonical_fields cfg (pd s) remote status p acc issue (now_of api s) (bump_revision x))
        else x) (subscriptions (pw s))
    \<and> pd s' = canonical_fields cfg (pd s) remote status p acc issue (now_of api s) (pd s)
    \<and> lease_held (pw s) (s_id (pd s)) token
    \<and> (\<forall>e. event = Some e \<longrightarrow> event_seen (pw s') e)
    \<and> plan_world (pw s) (pw s') \<and> plog s' = plog s"
proof -
  let ?i = "s_id (pd s)" and ?now = "clock api (px s)"
  let ?issue = "if held \<or> stuck_usage (pw s) (s_companyId (pd s)) then RECONCILIATION_REQUIRED else SYNC_NONE"
  define w1 where "w1 = (pw s)\<lparr>subscriptions := updateOne (\<lambda>x. s_id x = ?i) bump_revision (subscriptions (pw s))\<rparr>"
  have stuck: "stuck_usage w1 c = stuck_usage (pw s) c" for c by (simp add: stuck_usage_def w1_def)
  have set1: "settled q r c j t w1 = settled q r c j t (pw s)" for q r c j t
    by (rule settled_frame) (simp add: w1_def)
  from a obtain status rc where v: "validateRemote (pd s) remote = Inr status"
    and rc: "remotePlan cfg remote = Inr rc"
    by (auto simp: applyCanonical_def action_simps)
  obtain p acc issue where p: "(p, acc, issue) = settled (pd s) remote rc ?issue ?now (pw s)"
    by (metis prod_cases3)
  from a v rc obtain s2 t0 where
    up: "update token (canonical_fields cfg (pd s) remote status p acc issue ?now) (s\<lparr>pw := w1\<rparr>) = (Inr (), s2)"
    and ev: "(case event of None \<Rightarrow> return () | Some e \<Rightarrow> db (create_event \<lparr>e_eventId = ev_id e,
        e_type = ev_type e, e_companyId = Some (s_companyId (pd s)), e_processedAt = t0\<rparr>)) s2 = (Inr u, s')"
    by (auto simp: applyCanonical_def action_simps settle_settled now_of_def stuck set1 Let_def p [symmetric]
        simp flip: w1_def dest!: lockLocal_Inr)
  let ?g = "canonical_fields cfg (pd s) remote status p acc issue ?now"
  from up obtain w2 where f: "fenced_update ?i token ?g w1 = (Inr (), w2)"
    and s2: "s2 = s\<lparr>pw := w2, pd := ?g (pd s)\<rparr>" by (auto simp: update_Inr)
  from fenced_update_Inr [OF f] obtain x where x: "x \<in> set (subscriptions w1)" "holds_lease ?i token x"
    and w2: "w2 = w1\<lparr>subscriptions := updateOne (holds_lease ?i token) (\<lambda>s. bump_revision (?g s)) (subscriptions w1)\<rparr>"
    by blast
  have d1: "distinct (map s_id (subscriptions w1))"
    using d by (simp add: w1_def map_updateOne_same bump_revision_def)
  have id: "s_id (bump_revision y) = s_id y" for y by (simp add: bump_revision_def)
  have subs: "subscriptions w2 = map (\<lambda>x. if s_id x = ?i then bump_revision (?g (bump_revision x)) else x)
      (subscriptions (pw s))"
    unfolding w2 using find_lease [OF d1 x, of "\<lambda>s. bump_revision (?g s)"] updateOne_id_map [OF d, of ?i bump_revision]
    by (auto simp: w1_def id)
  have held: "lease_held (pw s) ?i token"
  proof -
    from x(1) obtain y where "y \<in> set (subscriptions (pw s))" "x = y \<or> x = bump_revision y"
      by (auto simp: w1_def dest: set_updateOneD)
    then show ?thesis using x(2) by (auto simp: lease_held_def list_ex_iff holds_lease_def bump_revision_def)
  qed
  have "s' = s2 \<or> (\<exists>es. s' = s2\<lparr>pw := (pw s2)\<lparr>stripeEvents := es\<rparr>\<rparr>)"
    "\<forall>e. event = Some e \<longrightarrow> event_seen (pw s') e"
    using ev by (auto simp: action_simps create_event_def event_seen_def split: option.splits if_splits)
  then show ?thesis using v rc p subs held s2
    by (intro exI [of _ rc] exI [of _ status] exI [of _ p] exI [of _ acc] exI [of _ issue])
      (auto simp: w2 w1_def now_of_def)
qed

lemma canonical_fields_simps [simp]:
  "s_planCode (canonical_fields cfg old remote status p acc issue now s) = p"
  "s_paymentAccess (canonical_fields cfg old remote status p acc issue now s) = acc"
  "s_paymentSyncIssue (canonical_fields cfg old remote status p acc issue now s) = issue"
  "s_stripeManaged (canonical_fields cfg old remote status p acc issue now s)"
  "s_stripeSyncedAt (canonical_fields cfg old remote status p acc issue now s) = Some now"
  "s_id (canonical_fields cfg old remote status p acc issue now s) = s_id s"
  "s_companyId (canonical_fields cfg old remote status p acc issue now s) = s_companyId s"
  "s_activatedAt (canonical_fields cfg old remote status p acc issue now s) = s_activatedAt s"
  "s_stripeLeaseToken (canonical_fields cfg old remote status p acc issue now s) = s_stripeLeaseToken s"
  "s_stripeNextSyncAt (canonical_fields cfg old remote status p acc issue now s) = s_stripeNextSyncAt s"
  by (simp_all add: canonical_fields_def clear_pending_def Let_def)

lemma bump_revision_payment [simp]:
  "s_paymentAccess (bump_revision s) = s_paymentAccess s"
  "s_paymentSyncIssue (bump_revision s) = s_paymentSyncIssue s"
  "s_stripeNextSyncAt (bump_revision s) = s_stripeNextSyncAt s"
  "s_stripeSyncedAt (bump_revision s) = s_stripeSyncedAt s"
  by (simp_all add: bump_revision_def)

text \<open>What Stripe says of a company that may use the paid product.\<close>

definition in_good_standing :: "remote_subscription \<Rightarrow> bool" where
  "in_good_standing r \<longleftrightarrow> rs_status r = ''active'' \<and> \<not> rs_paused r
     \<and> rs_collectionMethod r = ''charge_automatically''
     \<and> (case rs_latestInvoice r of None \<Rightarrow> True
        | Some i \<Rightarrow> ri_status i = Some ''paid'' \<or> ri_status i = Some ''draft'')"

lemma canonical_access_cases:
  "canonical_access r \<noteq> SUSPENDED \<longleftrightarrow> in_good_standing r"
  "canonical_access r \<noteq> UNMANAGED"
  "canonical_access r = ACTIVE \<Longrightarrow> \<exists>i. rs_latestInvoice r = Some i \<and> ri_status i = Some ''paid''"
  by (auto simp: canonical_access_def in_good_standing_def split: option.splits if_splits)

lemma active_not_terminal: "in_good_standing r \<Longrightarrow> \<not> terminal_status (rs_status r)"
  by (simp add: in_good_standing_def terminal_status_def stripe_status_of_def)

lemma settled_good:
  assumes "(p, acc, i) = settled s r rc issue at w" "acc = ACTIVE \<or> acc = DEFERRED"
  shows "plan_fits w (s_companyId s) p at"
    "(terminal_status (rs_status r) \<and> p = FREE \<and> acc = ACTIVE) \<or> (in_good_standing r \<and> p = rc)"
  using assms canonical_access_cases(1) [of r] active_not_terminal [of r]
  by (auto simp: settled_def Let_def split: if_splits)

lemma settled_bad:
  assumes "(p, acc, i) = settled s r rc issue at w"
  shows "acc = SUSPENDED \<Longrightarrow> p = s_planCode s" "issue = RECONCILIATION_REQUIRED \<Longrightarrow> i \<noteq> SYNC_NONE"
    "acc \<noteq> UNMANAGED"
  using assms canonical_access_cases(1,2) [of r] active_not_terminal [of r]
  by (auto simp: settled_def Let_def split: if_splits)

text \<open>
  C1. Access follows payment: taking over Stripe's state replaces only the company's own
  subscription, under its lease. It grants access only to a company in good standing, with the
  plan Stripe bills, or to one whose subscription has ended, with the free plan - and only when
  members, pending invitations and stored files fit that plan; otherwise access is suspended and
  the plan stays as it was. Unreconciled usage or drafts never leave the company without an issue.
\<close>

theorem canonical_sound:
  assumes a: "applyCanonical cfg api token remote event held s = (Inr (), s')"
    and d: "distinct (map s_id (subscriptions (pw s)))"
  shows "\<exists>x y. x \<in> set (subscriptions (pw s)) \<and> holds_lease (s_id (pd s)) token x
    \<and> subscriptions (pw s') = map (\<lambda>z. if s_id z = s_id x then y else z) (subscriptions (pw s))
    \<and> s_id y = s_id x \<and> s_companyId y = s_companyId x \<and> s_stripeManaged y
    \<and> (s_paymentAccess y = SUSPENDED \<and> s_planCode y = s_planCode (pd s)
       \<or> s_paymentAccess y \<in> {ACTIVE, DEFERRED}
         \<and> plan_fits (pw s) (s_companyId (pd s)) (s_planCode y) (now_of api s)
         \<and> (in_good_standing remote \<and> remotePlan cfg remote = Inr (s_planCode y)
            \<or> terminal_status (rs_status remote) \<and> s_planCode y = FREE))
    \<and> (\<not> (held \<or> stuck_usage (pw s) (s_companyId (pd s))) \<or> s_paymentSyncIssue y \<noteq> SYNC_NONE)"
proof -
  from applyCanonical_Inr [OF a d] obtain rc status p acc issue where
    rc: "remotePlan cfg remote = Inr rc"
    and p: "(p, acc, issue) = settled (pd s) remote rc
        (if held \<or> stuck_usage (pw s) (s_companyId (pd s)) then RECONCILIATION_REQUIRED else SYNC_NONE)
        (now_of api s) (pw s)"
    and subs: "subscriptions (pw s') = map (\<lambda>x. if s_id x = s_id (pd s)
        then bump_revision (canonical_fields cfg (pd s) remote status p acc issue (now_of api s) (bump_revision x))
        else x) (subscriptions (pw s))"
    and held: "lease_held (pw s) (s_id (pd s)) token" by blast
  from held obtain x where x: "x \<in> set (subscriptions (pw s))" "holds_lease (s_id (pd s)) token x"
    by (auto simp: lease_held_def list_ex_iff)
  let ?y = "bump_revision (canonical_fields cfg (pd s) remote status p acc issue (now_of api s) (bump_revision x))"
  have id: "s_id x = s_id (pd s)" using x(2) by (simp add: holds_lease_def)
  have "z = x" if "z \<in> set (subscriptions (pw s))" "s_id z = s_id x" for z
    using d x(1) that by (metis distinct_map inj_onD)
  then have "subscriptions (pw s') = map (\<lambda>z. if s_id z = s_id x then ?y else z) (subscriptions (pw s))"
    unfolding subs id [symmetric] by (intro map_cong) auto
  moreover have "acc = SUSPENDED \<and> p = s_planCode (pd s) \<or> acc \<in> {ACTIVE, DEFERRED}
      \<and> plan_fits (pw s) (s_companyId (pd s)) p (now_of api s)
      \<and> (in_good_standing remote \<and> remotePlan cfg remote = Inr p \<or> terminal_status (rs_status remote) \<and> p = FREE)"
    using settled_good [OF p] settled_bad(1,3) [OF p] rc by (cases acc) auto
  moreover have "\<not> (held \<or> stuck_usage (pw s) (s_companyId (pd s))) \<or> issue \<noteq> SYNC_NONE"
    using settled_bad(2) [OF p] by auto
  ultimately show ?thesis using x by (intro exI [of _ x] exI [of _ ?y]) simp
qed

section \<open>An event is processed once\<close>

definition keeps_seen :: "remote_event \<Rightarrow> 'x pay_state \<Rightarrow> bool" where
  "keeps_seen e s \<longleftrightarrow> event_seen (pw s) e"

lemma release_seen: "release_lease i t w = (r, w') \<Longrightarrow> event_seen w' e = event_seen w e"
  by (auto simp: release_lease_def action_simps event_seen_def)

lemma record_event_seen: "record_event api e c s = (Inr u, s') \<Longrightarrow> event_seen (pw s') e"
  by (auto simp: record_event_def action_simps create_event_def event_seen_def split: if_splits)

lemma applyCanonical_seen:
  "applyCanonical cfg api token remote (Some e) held s = (Inr u, s') \<Longrightarrow> event_seen (pw s') e"
  by (auto simp: applyCanonical_def action_simps create_event_def event_seen_def Let_def
      split: if_splits prod.splits)

lemma synchronize_seen:
  "synchronize cfg api token (Some e) s = (Inr u, s') \<Longrightarrow> s_stripeSubscriptionId (pd s) \<noteq> None \<Longrightarrow>
     event_seen (pw s') e"
  by (auto simp: synchronize_def action_simps dest!: applyCanonical_seen)

lemma handle_event_seen:
  "handle_event cfg api e token s = (Inr u, s') \<Longrightarrow> event_seen (pw s') e"
  by (auto simp: handle_event_def action_simps split: if_splits dest!: synchronize_seen record_event_seen)

lemma finally_do_Inr_iff [action_simps]:
  "finally_do m f s = (Inr x, u) \<longleftrightarrow> (\<exists>t y. m s = (Inr x, t) \<and> f t = (Inr y, u))"
  by (auto simp: finally_do_def split: prod.splits sum.splits)

lemma finally_do_Inl_iff [action_simps]:
  "finally_do m f s = (Inl e, u) \<longleftrightarrow>
     (\<exists>t y. m s = (Inl e, t) \<and> f t = (Inr y, u)) \<or> (\<exists>r t. m s = (r, t) \<and> f t = (Inl e, u))"
  by (auto simp: finally_do_def split: prod.splits sum.splits)

lemma withLease_seen:
  assumes "withLease api c work s = (Inr u, s')" "\<And>t s u s'. work t s = (Inr u, s') \<Longrightarrow> event_seen (pw s') e"
  shows "event_seen (pw s') e"
  using assms by (auto simp: withLease_def action_simps dest!: release_seen)

lemma process_event_seen: "process_event cfg api e s = (Inr u, s') \<Longrightarrow> event_seen (pw s') e"
  by (auto simp: process_event_def action_simps split: option.splits if_splits
      dest!: record_event_seen withLease_seen [OF _ handle_event_seen])

text \<open>
  C10. An event of Stripe is processed once: a relevant, authentic event that the webhook
  acknowledged is recorded; from then on, in any later state that still has the record, its
  redelivery is answered as a duplicate and changes nothing. What the webhook refuses it refuses
  with 400 or, to be retried, 503.
\<close>

theorem webhook_once:
  assumes "constructEvent api b sig = Inr e" "ev_type e \<in> set STRIPE_EVENTS"
    and "webhook cfg api (Some b) (Some sig) s = (r, s1)"
  shows "(\<exists>m. r = Inl (http BadRequest m) \<or> r = Inl (http ServiceUnavailable m))
    \<or> (event_seen (pw s1) e
       \<and> (\<forall>s2. set (stripeEvents (pw s1)) \<subseteq> set (stripeEvents (pw s2)) \<longrightarrow>
            webhook cfg api (Some b) (Some sig) s2 = (Inr Received_Duplicate, s2)))"
proof (cases r)
  case (Inl err)
  then show ?thesis using assms
    by (auto simp: webhook_def Let_def action_simps split: if_splits)
next
  case (Inr reply)
  have g: "STRIPE_ENABLED cfg" "sig \<noteq> []" "\<not> ev_livemode e"
    using assms(1,3) Inr by (auto simp: webhook_def Let_def action_simps split: if_splits)
  have seen: "event_seen (pw s1) e"
    using assms Inr g by (auto simp: webhook_def Let_def action_simps split: if_splits dest!: process_event_seen)
  have "webhook cfg api (Some b) (Some sig) s2 = (Inr Received_Duplicate, s2)"
    if "set (stripeEvents (pw s1)) \<subseteq> set (stripeEvents (pw s2))" for s2
  proof -
    have "event_seen (pw s2) e" using seen that by (auto simp: event_seen_def list_ex_iff)
    then show ?thesis using assms(1,2) g
      by (simp add: webhook_def Let_def andthen_def gets_def return_def)
  qed
  then show ?thesis using seen by blast
qed


section \<open>Examples\<close>

text \<open>A Stripe that answers with fixed objects; its state is empty and its clock stands still.\<close>

definition example_invoice :: remote_invoice where
  "example_invoice = \<lparr>ri_id = ''in_1'', ri_status = Some ''paid'', ri_livemode = False,
     ri_customer = Some ''cus_1'', ri_subscription = Some ''sub_1'', ri_autoAdvance = True,
     ri_employees = None, ri_currency = ''usd'', ri_amountDue = 0, ri_amountPaid = 500,
     ri_total = 500, ri_hostedUrl = None, ri_created = 1\<rparr>"

definition example_remote :: remote_subscription where
  "example_remote = \<lparr>rs_id = ''sub_1'', rs_status = ''active'', rs_livemode = False,
     rs_customer = Some ''cus_1'', rs_companyId = Some (oid_to_string 7),
     rs_anchor = Some \<lparr>ba_day = 1, ba_hour = Some 0, ba_minute = Some 0, ba_second = Some 0\<rparr>,
     rs_items = [\<lparr>it_id = ''si_1'', it_price = ''price_basic'', it_quantity = Some 1,
       it_start = Some 0, it_end = Some 2678400\<rparr>],
     rs_schedule = None, rs_latestInvoice = Some example_invoice, rs_paused = False,
     rs_collectionMethod = ''charge_automatically'', rs_cancelAtPeriodEnd = False\<rparr>"

definition example_event :: remote_event where
  "example_event = \<lparr>ev_id = ''evt_1'', ev_type = ''invoice.paid'', ev_livemode = False,
     ev_objectId = ''in_1'', ev_customer = None, ev_subscription = None\<rparr>"

definition example_failure :: "('x, 'a) remote" where
  "example_failure x = (Inl (StripeFailure StripeConnectionError), x)"

definition example_api :: "unit stripe_api" where
  "example_api = \<lparr>clock = (\<lambda>_. 1000000), randomUUID = (\<lambda>x. (''u'', x)),
     prices_retrieve = (\<lambda>_. example_failure), meters_retrieve = (\<lambda>_. example_failure),
     customers_create = (\<lambda>_. example_failure), sessions_retrieve = (\<lambda>_. example_failure),
     sessions_create = (\<lambda>_. example_failure), portal_retrieve = (\<lambda>_. example_failure),
     portal_create = (\<lambda>_. example_failure), invoices_list = (\<lambda>_ _. example_failure),
     subscriptions_retrieve = (\<lambda>_ x. (Inr example_remote, x)), subscriptions_create = (\<lambda>_. example_failure),
     subscriptions_change = (\<lambda>_. example_failure), schedules_retrieve = (\<lambda>_. example_failure),
     schedules_create = (\<lambda>_. example_failure), schedules_change = (\<lambda>_. example_failure),
     meterEvents_create = (\<lambda>q x. (case q of
        CreateMeterEvent i _ _ _ \<Rightarrow> (Inr \<lparr>me_livemode = False, me_identifier = i\<rparr>, x)
      | _ \<Rightarrow> example_failure x)),
     invoices_change = (\<lambda>_. example_failure), listLineItems = (\<lambda>_. example_failure),
     listEventSummaries = (\<lambda>_ _ _. example_failure), setupIntents_retrieve = (\<lambda>_. example_failure),
     constructEvent = (\<lambda>_ _. Inr example_event)\<rparr>"

definition example_pay_config :: pay_config where
  "example_pay_config = \<lparr>STRIPE_ENABLED = True, STRIPE_BASIC_PRICE_ID = ''price_basic'',
     STRIPE_PREMIUM_PRICE_ID = ''price_premium'', STRIPE_OVERAGE_PRICE_ID = ''price_overage'',
     STRIPE_OVERAGE_METER_ID = ''mtr_1'', STRIPE_OVERAGE_EVENT_NAME = ''files'',
     STRIPE_PORTAL_CONFIGURATION_ID = ''bpc_1'', STRIPE_SYNC_INTERVAL_MS = 60000\<rparr>"

definition example_subscription :: subscription where
  "example_subscription = (subscription_document 1 7 FREE 0 0)
     \<lparr>s_stripeCustomerId := Some ''cus_1'', s_stripeSubscriptionId := Some ''sub_1'', s_stripeManaged := True\<rparr>"

definition unleased :: world where
  "unleased = empty_world\<lparr>subscriptions := [example_subscription]\<rparr>"

definition leased :: "unit pay_state" where
  "leased = \<lparr>pw = snd (acquire_lease 7 ''t'' 1000000 unleased), px = (),
     pd = take_lease ''t'' 1000000 example_subscription, plog = []\<rparr>"

theorem lease_exclusive_witness:
  "\<exists>x \<in> set (subscriptions (snd (release_lease 1 ''other'' (pw leased)))).
     s_id x = 1 \<and> s_companyId x = 7 \<and> s_stripeLeaseToken x = Some ''t''"
proof -
  let ?a = "acquire_lease 7 ''t'' 1000000 unleased"
  have "\<not> isl (fst ?a)" by code_simp
  from InrI [OF this] have a: "?a = (Inr (projr (fst ?a)), pw leased)" by (simp add: leased_def)
  have "release_lease 1 ''other'' (pw leased) = (Inr (), snd (release_lease 1 ''other'' (pw leased)))"
    by (simp add: release_lease_def modify_def)
  then have "lease_step ''t'' (1000000 + STRIPE_LEASE_MS) (pw leased) (snd (release_lease 1 ''other'' (pw leased)))"
    by (rule step_release) simp
  then have "(lease_step ''t'' (1000000 + STRIPE_LEASE_MS))\<^sup>*\<^sup>* (pw leased)
      (snd (release_lease 1 ''other'' (pw leased)))" by blast
  from lease_exclusive [OF a this] show ?thesis
    by (auto simp: acquire_lease_def Let_def andthen_def gets_def return_def modify_def unleased_def
        example_subscription_def subscription_document_def lease_free_def take_lease_def)
qed

theorem stale_lease_fenced_witness:
  "(\<exists>m. renewLease 1 ''old'' 5 (snd (release_lease 1 ''t'' (pw leased)))
     = (Inl (http LeaseBusy m), snd (release_lease 1 ''t'' (pw leased))))"
proof -
  have "release_lease 1 ''t'' (pw leased) = (Inr (), snd (release_lease 1 ''t'' (pw leased)))"
    by (simp add: release_lease_def modify_def)
  then have "lease_step ''old'' 0 (pw leased) (snd (release_lease 1 ''t'' (pw leased)))"
    by (rule step_release) simp
  moreover have "\<not> lease_held (pw leased) 1 ''old''" by code_simp
  ultimately show ?thesis using stale_lease_fenced [OF _ r_into_rtranclp] by blast
qed

theorem canonical_sound_witness:
  "\<exists>y. subscriptions (pw (snd (applyCanonical example_pay_config example_api ''t'' example_remote
       (Some example_event) False leased))) = [y] \<and> s_paymentAccess y = ACTIVE \<and> s_planCode y = BASIC
     \<and> plan_fits (pw leased) 7 BASIC 1000000"
proof -
  let ?a = "applyCanonical example_pay_config example_api ''t'' example_remote (Some example_event) False leased"
  have n: "\<not> isl (fst ?a)" by code_simp
  have a: "?a = (Inr (), snd ?a)" using InrI [OF n] by simp
  have d: "distinct (map s_id (subscriptions (pw leased)))" by code_simp
  have "map (\<lambda>y. (s_paymentAccess y, s_planCode y)) (subscriptions (pw (snd ?a))) = [(ACTIVE, BASIC)]"
    by code_simp
  then obtain y where y: "subscriptions (pw (snd ?a)) = [y]" "s_paymentAccess y = ACTIVE" "s_planCode y = BASIC"
    by (auto simp: map_eq_Cons_conv)
  from canonical_sound [OF a d] obtain x' y' where x': "x' \<in> set (subscriptions (pw leased))"
    and m: "subscriptions (pw (snd ?a)) = map (\<lambda>z. if s_id z = s_id x' then y' else z) (subscriptions (pw leased))"
    and p: "s_paymentAccess y' = SUSPENDED \<and> s_planCode y' = s_planCode (pd leased)
       \<or> s_paymentAccess y' \<in> {ACTIVE, DEFERRED}
         \<and> plan_fits (pw leased) (s_companyId (pd leased)) (s_planCode y') (now_of example_api leased)" by blast
  have "length (subscriptions (pw leased)) = 1" by code_simp
  then have "y' = y" using m x' y(1) by (auto simp: length_Suc_conv split: if_splits)
  moreover have "s_companyId (pd leased) = 7" "now_of example_api leased = 1000000" by code_simp+
  ultimately show ?thesis using p y by simp
qed

theorem webhook_once_witness:
  "event_seen (pw (snd (webhook example_pay_config example_api (Some []) (Some ''s'') leased))) example_event
   \<and> webhook example_pay_config example_api (Some []) (Some ''s'')
       (snd (webhook example_pay_config example_api (Some []) (Some ''s'') leased))
     = (Inr Received_Duplicate, snd (webhook example_pay_config example_api (Some []) (Some ''s'') leased))"
proof -
  let ?w = "webhook example_pay_config example_api (Some []) (Some ''s'') leased"
  have n: "\<not> isl (fst ?w)" by code_simp
  have c: "constructEvent example_api [] ''s'' = Inr example_event" "ev_type example_event \<in> set STRIPE_EVENTS"
    by (simp_all add: example_api_def example_event_def STRIPE_EVENTS_def)
  from webhook_once [OF c InrI [OF n]] show ?thesis by auto
qed

end
