(* ===== verification/UsageDelivery.thy ===== *)
theory UsageDelivery
  imports PaymentSafety
begin

text \<open>
  Usage-based billing, end to end of one run: a meter event is sent for pending usage of the
  company only, and usage counts as submitted only when its event was sent.
\<close>

section \<open>What a delivery may change\<close>

definition meter_request :: "stripe_usage \<Rightarrow> stripe_request" where
  "meter_request u = CreateMeterEvent (g_identifier u) (g_customerId u) (g_quantity u) (g_timestamp u)"

definition same_usage :: "stripe_usage \<Rightarrow> stripe_usage \<Rightarrow> bool" where
  "same_usage u v \<longleftrightarrow> g_identifier v = g_identifier u \<and> g_companyId v = g_companyId u
     \<and> g_customerId v = g_customerId u \<and> g_subscriptionId v = g_subscriptionId u
     \<and> g_quantity v = g_quantity u \<and> g_timestamp v = g_timestamp u
     \<and> g_periodStartsAt v = g_periodStartsAt u \<and> g_periodEndsAt v = g_periodEndsAt u"

definition delivered_as :: "stripe_usage list \<Rightarrow> stripe_request list \<Rightarrow> stripe_usage \<Rightarrow> stripe_usage \<Rightarrow> bool" where
  "delivered_as tried sent u v \<longleftrightarrow> same_usage u v
     \<and> (g_state v = g_state u
        \<or> u \<in> set tried \<and> (g_state v = USAGE_RECONCILIATION_REQUIRED
             \<or> g_state v = USAGE_SUBMITTED \<and> meter_request u \<in> set sent))"

text \<open>What trying to deliver one usage may change.\<close>

definition touched :: "stripe_usage \<Rightarrow> stripe_request list \<Rightarrow> stripe_usage \<Rightarrow> stripe_usage \<Rightarrow> bool" where
  "touched u sent v v' \<longleftrightarrow> same_usage v v'
     \<and> (g_state v' = g_state v \<or> g_identifier v = g_identifier u
         \<and> (g_state v' = USAGE_RECONCILIATION_REQUIRED \<or> g_state v' = USAGE_SUBMITTED \<and> sent \<noteq> []))"

lemma touched_refl [simp]: "touched u sent v v"
  by (simp add: touched_def same_usage_def)

lemma touched_trans: "touched u sent v v' \<Longrightarrow> touched u sent v' v'' \<Longrightarrow> touched u sent v v''"
  by (auto simp: touched_def same_usage_def)

lemma list_touched_refl [simp]: "list_all2 (touched u sent) vs vs"
  by (simp add: list.rel_refl)

lemma list_touched_trans:
  "list_all2 (touched u sent) vs vs' \<Longrightarrow> list_all2 (touched u sent) vs' vs'' \<Longrightarrow>
     list_all2 (touched u sent) vs vs''"
  using list_all2_trans [of "touched u sent" "touched u sent" "touched u sent"] touched_trans by blast

lemma touched_updateOne:
  "(\<And>v. g_identifier v = g_identifier u \<Longrightarrow> touched u sent v (g v)) \<Longrightarrow>
     list_all2 (touched u sent) vs (updateOne (\<lambda>v. g_identifier v = g_identifier u) g vs)"
  by (induction vs) auto

lemma fenced_update_usages: "fenced_update i token g w = (r, w') \<Longrightarrow> stripeUsages w' = stripeUsages w"
  by (cases r) (auto simp: fenced_update_def action_simps split: option.splits if_splits)

lemma update_usages:
  "update token g s = (r, s') \<Longrightarrow> stripeUsages (pw s') = stripeUsages (pw s) \<and> plog s' = plog s
     \<and> s_companyId (pd s') \<in> {s_companyId (pd s), s_companyId (g (pd s))}"
  by (cases r) (auto simp: update_def action_simps dest: fenced_update_usages)

lemma renew_usages:
  "renew api token s = (r, s') \<Longrightarrow> stripeUsages (pw s') = stripeUsages (pw s) \<and> plog s' = plog s"
  by (cases r) (auto simp: renew_def renewLease_def action_simps split: if_splits)

lemma set_usage_state:
  "db (set_usage i g) s = (r, s') \<longleftrightarrow> r = Inr () \<and> s' = s\<lparr>pw := (pw s)\<lparr>stripeUsages :=
     updateOne (\<lambda>u. g_identifier u = i) g (stripeUsages (pw s))\<rparr>\<rparr>"
  by (auto simp: set_usage_def action_simps)

lemma submit_one_touched:
  assumes "submit_one api token u s = (r, s')"
  shows "\<exists>sent. plog s' = plog s @ sent \<and> sent \<in> {[], [meter_request u]}
    \<and> list_all2 (touched u sent) (stripeUsages (pw s)) (stripeUsages (pw s'))"
proof (cases "too_late u (now_of api s)")
  case True
  then have "stripeUsages (pw s') = updateOne (\<lambda>v. g_identifier v = g_identifier u)
      (\<lambda>v. v\<lparr>g_state := USAGE_RECONCILIATION_REQUIRED\<rparr>) (stripeUsages (pw s))" "plog s' = plog s"
    using assms by (auto simp: submit_one_def andthen_def gets_def set_usage_def db_def modify_def
        dest: update_usages)
  then show ?thesis by (auto simp: touched_def same_usage_def intro!: touched_updateOne)
next
  case False
  let ?first = "if g_firstAttemptAt u = None
      then db (set_usage (g_identifier u) (\<lambda>v. v\<lparr>g_firstAttemptAt := Some (now_of api s)\<rparr>)) else return ()"
  obtain r1 s1 where f: "?first s = (r1, s1)" by fastforce
  have s1: "plog s1 = plog s" "list_all2 (touched u sent) (stripeUsages (pw s)) (stripeUsages (pw s1))" "r1 = Inr ()" for sent
    using f by (auto simp: set_usage_state return_def touched_def same_usage_def split: if_splits intro!: touched_updateOne)
  obtain r2 s2 where n: "renew api token s1 = (r2, s2)" by fastforce
  note s2 = renew_usages [OF n]
  show ?thesis
  proof (cases r2)
    case (Inl e)
    then have "s' = s2" using assms False f s1 n by (simp add: submit_one_def andthen_def gets_def)
    then show ?thesis using s1 s2 by auto
  next
    case (Inr x)
    obtain r3 s3 where q: "sending (meter_request u) (meterEvents_create api) s2 = (r3, s3)" by fastforce
    have s3: "plog s3 = plog s2 @ [meter_request u]" "pw s3 = pw s2" using q by (auto simp: action_simps)
    have "s' = s3 \<or> (\<exists>t. s' = s3\<lparr>pw := (pw s3)\<lparr>stripeUsages := updateOne (\<lambda>v. g_identifier v = g_identifier u)
        (\<lambda>v. v\<lparr>g_state := USAGE_SUBMITTED, g_submittedAt := Some t\<rparr>) (stripeUsages (pw s3))\<rparr>\<rparr>)"
      using assms False f s1 n Inr q
      by (auto simp: submit_one_def andthen_def gets_def throw_def set_usage_def db_def modify_def
          meter_request_def split: sum.splits if_splits)
    then have "plog s' = plog s @ [meter_request u]"
      "list_all2 (touched u [meter_request u]) (stripeUsages (pw s1)) (stripeUsages (pw s'))"
      using s1 s2 s3 by (auto simp: touched_def same_usage_def intro!: touched_updateOne)
    then show ?thesis using list_touched_trans [OF s1(2)] by blast
  qed
qed

lemma delivered_as_mono:
  "delivered_as tried sent u v \<Longrightarrow> set tried \<subseteq> set tried' \<Longrightarrow> set sent \<subseteq> set sent' \<Longrightarrow>
     delivered_as tried' sent' u v"
  by (auto simp: delivered_as_def)

lemma touched_delivered:
  assumes "delivered_as tried sent u0 v" "touched u sent' v v'" "sent' \<in> {[], [meter_request u]}"
    "g_identifier u0 = g_identifier u \<Longrightarrow> u0 = u"
  shows "delivered_as (tried @ [u]) (sent @ sent') u0 v'"
  using assms by (auto simp: delivered_as_def touched_def same_usage_def)

lemma submit_all_delivered:
  assumes "submit_all api token us s = (r, s')" "distinct (map g_identifier us0)" "set us \<subseteq> set us0"
    "list_all2 (delivered_as tried sent) us0 (stripeUsages (pw s))"
  shows "\<exists>sent'. plog s' = plog s @ sent' \<and> set sent' \<subseteq> meter_request ` set us \<and> length sent' \<le> length us
    \<and> list_all2 (delivered_as (tried @ us) (sent @ sent')) us0 (stripeUsages (pw s'))"
  using assms
proof (induction us arbitrary: s tried sent)
  case Nil
  then show ?case by (simp add: return_def)
next
  case (Cons u us)
  obtain r1 s1 where o: "submit_one api token u s = (r1, s1)" by fastforce
  from submit_one_touched [OF o] obtain sent1 where
    s1: "plog s1 = plog s @ sent1" "sent1 \<in> {[], [meter_request u]}"
    and t: "list_all2 (touched u sent1) (stripeUsages (pw s)) (stripeUsages (pw s1))" by blast
  have d1: "list_all2 (delivered_as (tried @ [u]) (sent @ sent1)) us0 (stripeUsages (pw s1))"
    unfolding list_all2_conv_all_nth
  proof (intro conjI allI impI)
    show "length us0 = length (stripeUsages (pw s1))"
      using Cons.prems(4) t by (simp add: list_all2_conv_all_nth)
    fix n assume n: "n < length us0"
    then have "delivered_as tried sent (us0 ! n) (stripeUsages (pw s) ! n)"
      "touched u sent1 (stripeUsages (pw s) ! n) (stripeUsages (pw s1) ! n)"
      using Cons.prems(4) t by (simp_all add: list_all2_conv_all_nth)
    moreover have "us0 ! n = u" if "g_identifier (us0 ! n) = g_identifier u"
      using Cons.prems(2,3) n that by (metis distinct_map inj_onD list.set_intros(1) nth_mem subsetD)
    ultimately show "delivered_as (tried @ [u]) (sent @ sent1) (us0 ! n) (stripeUsages (pw s1) ! n)"
      using touched_delivered s1(2) by blast
  qed
  show ?case
  proof (cases r1)
    case (Inl e)
    then have "s' = s1" using Cons.prems(1) o by (simp add: andthen_def)
    moreover have "list_all2 (delivered_as (tried @ u # us) (sent @ sent1)) us0 (stripeUsages (pw s1))"
      by (rule list.rel_mono_strong [OF d1]) (auto elim: delivered_as_mono)
    ultimately show ?thesis using s1 by auto
  next
    case (Inr x)
    then have "submit_all api token us s1 = (r, s')" using Cons.prems(1) o by (simp add: andthen_def)
    from Cons.IH [OF this Cons.prems(2) _ d1] Cons.prems(3) obtain sent2 where
      "plog s' = plog s1 @ sent2" "set sent2 \<subseteq> meter_request ` set us" "length sent2 \<le> length us"
      "list_all2 (delivered_as ((tried @ [u]) @ us) ((sent @ sent1) @ sent2)) us0 (stripeUsages (pw s'))"
      by auto
    then show ?thesis using s1 by (intro exI [of _ "sent1 @ sent2"]) auto
  qed
qed




definition example_usage :: stripe_usage where
  "example_usage = \<lparr>g_identifier = ''dv_1'', g_companyId = 7, g_customerId = ''cus_1'',
     g_subscriptionId = ''sub_1'', g_quantity = 3, g_timestamp = 900, g_periodStartsAt = 0,
     g_periodEndsAt = 2678400000, g_state = USAGE_PENDING, g_firstAttemptAt = None, g_submittedAt = None\<rparr>"

definition with_usage :: "unit pay_state" where
  "with_usage = leased\<lparr>pw := (pw leased)\<lparr>stripeUsages := [example_usage]\<rparr>\<rparr>"


end
