(* ===== verification/PaymentIsolation.thy ===== *)
theory PaymentIsolation
  imports PaymentSafety
begin

text \<open>
  One tenant at a time: whatever a payment operation for a company does, and however it fails, the
  subscriptions and the metered usage of the other companies, and everything that is not billing,
  stay as they were.
\<close>

section \<open>Worlds that differ in one company's billing\<close>

definition document_key :: "subscription \<Rightarrow> oid \<times> oid" where
  "document_key s = (s_id s, s_companyId s)"

definition usage_key :: "stripe_usage \<Rightarrow> string \<times> oid" where
  "usage_key u = (g_identifier u, g_companyId u)"

definition isolated :: "oid \<Rightarrow> world \<Rightarrow> world \<Rightarrow> bool" where
  "isolated c w0 w \<longleftrightarrow>
     map document_key (subscriptions w) = map document_key (subscriptions w0)
   \<and> filter (\<lambda>s. s_companyId s \<noteq> c) (subscriptions w) = filter (\<lambda>s. s_companyId s \<noteq> c) (subscriptions w0)
   \<and> map usage_key (stripeUsages w) = map usage_key (stripeUsages w0)
   \<and> filter (\<lambda>u. g_companyId u \<noteq> c) (stripeUsages w) = filter (\<lambda>u. g_companyId u \<noteq> c) (stripeUsages w0)
   \<and> w\<lparr>subscriptions := [], stripeUsages := [], stripeEvents := []\<rparr>
     = w0\<lparr>subscriptions := [], stripeUsages := [], stripeEvents := []\<rparr>"

text \<open>The document, or the usage record, is the company's.\<close>

definition owns :: "oid \<Rightarrow> world \<Rightarrow> oid \<Rightarrow> bool" where
  "owns c w0 i \<longleftrightarrow> (\<forall>s \<in> set (subscriptions w0). s_id s = i \<longrightarrow> s_companyId s = c)"

definition owns_usage :: "oid \<Rightarrow> world \<Rightarrow> string \<Rightarrow> bool" where
  "owns_usage c w0 i \<longleftrightarrow> (\<forall>u \<in> set (stripeUsages w0). g_identifier u = i \<longrightarrow> g_companyId u = c)"

definition tenant :: "oid \<Rightarrow> world \<Rightarrow> 'x pay_state \<Rightarrow> bool" where
  "tenant c w0 s \<longleftrightarrow> isolated c w0 (pw s) \<and> owns c w0 (s_id (pd s)) \<and> s_companyId (pd s) = c"

lemma isolated_refl: "isolated c w w"
  by (simp add: isolated_def)

lemma owns_now: "isolated c w0 w \<Longrightarrow> owns c w i = owns c w0 i"
proof -
  assume "isolated c w0 w"
  then have "document_key ` set (subscriptions w) = document_key ` set (subscriptions w0)"
    unfolding isolated_def by (metis list.set_map)
  moreover have "owns c v i \<longleftrightarrow> (\<forall>k \<in> document_key ` set (subscriptions v). fst k = i \<longrightarrow> snd k = c)" for v
    by (auto simp: owns_def document_key_def)
  ultimately show ?thesis by metis
qed

lemma owns_usage_now: "isolated c w0 w \<Longrightarrow> owns_usage c w i = owns_usage c w0 i"
proof -
  assume "isolated c w0 w"
  then have "usage_key ` set (stripeUsages w) = usage_key ` set (stripeUsages w0)"
    unfolding isolated_def by (metis list.set_map)
  moreover have "owns_usage c v i \<longleftrightarrow> (\<forall>k \<in> usage_key ` set (stripeUsages v). fst k = i \<longrightarrow> snd k = c)" for v
    by (auto simp: owns_usage_def usage_key_def)
  ultimately show ?thesis by metis
qed

lemma filter_updateOne_inside:
  "(\<And>x. x \<in> set xs \<Longrightarrow> p x \<Longrightarrow> \<not> q x \<and> \<not> q (g x)) \<Longrightarrow> filter q (updateOne p g xs) = filter q xs"
  by (induction xs) auto

lemma isolated_document:
  assumes "isolated c w0 w" "owns c w0 i" "\<And>s. p s \<Longrightarrow> s_id s = i"
    "\<And>s. s_id (g s) = s_id s \<and> s_companyId (g s) = s_companyId s"
  shows "isolated c w0 (w\<lparr>subscriptions := updateOne p g (subscriptions w)\<rparr>)"
proof -
  have "owns c w i" using assms(1,2) owns_now by blast
  then have "filter (\<lambda>s. s_companyId s \<noteq> c) (updateOne p g (subscriptions w))
      = filter (\<lambda>s. s_companyId s \<noteq> c) (subscriptions w)"
    using assms(3,4) by (intro filter_updateOne_inside) (auto simp: owns_def)
  moreover have "map document_key (updateOne p g (subscriptions w)) = map document_key (subscriptions w)"
    using assms(4) by (intro map_updateOne_same) (simp add: document_key_def)
  ultimately show ?thesis using assms(1) by (simp add: isolated_def)
qed

lemma isolated_usage:
  assumes "isolated c w0 w" "owns_usage c w0 i" "\<And>u. usage_key (g u) = usage_key u"
  shows "isolated c w0 (w\<lparr>stripeUsages := updateOne (\<lambda>u. g_identifier u = i) g (stripeUsages w)\<rparr>)"
proof -
  have "owns_usage c w i" using assms(1,2) owns_usage_now by blast
  then have "filter (\<lambda>u. g_companyId u \<noteq> c) (updateOne (\<lambda>u. g_identifier u = i) g (stripeUsages w))
      = filter (\<lambda>u. g_companyId u \<noteq> c) (stripeUsages w)"
    using assms(3) by (intro filter_updateOne_inside) (auto simp: owns_usage_def usage_key_def)
  moreover have "map usage_key (updateOne (\<lambda>u. g_identifier u = i) g (stripeUsages w)) = map usage_key (stripeUsages w)"
    using assms(3) by (intro map_updateOne_same) simp
  ultimately show ?thesis using assms(1) by (simp add: isolated_def)
qed

lemma isolated_event: "isolated c w0 w \<Longrightarrow> isolated c w0 (w\<lparr>stripeEvents := es\<rparr>)"
  by (simp add: isolated_def)

section \<open>The steps of an operation stay within its tenant\<close>

named_theorems tenant_intros \<open>a payment step stays within its tenant\<close>

lemmas [tenant_intros] = keeps_return keeps_throw keeps_gets keeps_lift_result keeps_if keeps_option keeps_catching

text \<open>Sequencing, with the result of the first step known.\<close>

lemma keeps_then [tenant_intros]:
  assumes "keeps I m" "\<And>s x t. I s \<Longrightarrow> m s = (Inr x, t) \<Longrightarrow> I t \<Longrightarrow> keeps I (f x)"
  shows "keeps I (andthen m f)"
proof (rule keepsI)
  fix s r t assume s: "I s" and run: "andthen m f s = (r, t)"
  obtain q u where m: "m s = (q, u)" by fastforce
  have u: "I u" using keepsD [OF assms(1) m s] .
  show "I t"
  proof (cases q)
    case (Inl e)
    then show ?thesis using run m u by (simp add: andthen_def)
  next
    case (Inr x)
    then have "f x u = (r, t)" "keeps I (f x)" using run m assms(2) s u by (simp_all add: andthen_def)
    then show ?thesis using u by (metis keepsD)
  qed
qed

lemma keeps_pair [tenant_intros]: "(\<And>a b. x = (a, b) \<Longrightarrow> keeps I (f a b)) \<Longrightarrow> keeps I (case x of (a, b) \<Rightarrow> f a b)"
  by (cases x) simp

lemma keeps_let [tenant_intros]: "keeps I (f x) \<Longrightarrow> keeps I (let y = x in f y)"
  by (simp add: Let_def)

lemma keeps_finally [tenant_intros]: "keeps I m \<Longrightarrow> keeps I f \<Longrightarrow> keeps I (finally_do m f)"
  by (auto simp: keeps_def finally_do_def split: prod.splits sum.splits)

lemma keeps_pay_transaction [tenant_intros]: "keeps (tenant c w0) m \<Longrightarrow> keeps (tenant c w0) (pay_transaction m)"
proof (rule keepsI)
  fix s r t
  assume k: "keeps (tenant c w0) m" and s: "tenant c w0 s" and run: "pay_transaction m s = (r, t)"
  obtain q u where m: "m s = (q, u)" by fastforce
  have "tenant c w0 u" using keepsD [OF k m s] .
  moreover have "t = u \<or> t = u\<lparr>pw := pw s\<rparr>"
    using run m by (simp add: pay_transaction_def split: sum.splits)
  ultimately show "tenant c w0 t" using s by (auto simp: tenant_def)
qed

lemma tenant_call [tenant_intros]: "keeps (tenant c w0) (call f)"
  by (auto simp: keeps_def tenant_def call_def split: prod.splits)

lemma tenant_sending [tenant_intros]: "keeps (tenant c w0) (sending q f)"
  by (auto simp: keeps_def tenant_def sending_def call_def split: prod.splits)

lemma tenant_uuid [tenant_intros]: "keeps (tenant c w0) (fresh_uuid api)"
  by (auto simp: keeps_def tenant_def fresh_uuid_def split: prod.splits)

lemma tenant_reads: "(\<And>w r t. m w = (r, t) \<Longrightarrow> t = w) \<Longrightarrow> keeps (tenant c w0) (db m)"
  by (auto simp: keeps_def tenant_def db_def split: prod.splits)

lemma tenant_gets [tenant_intros]: "keeps (tenant c w0) (db (gets g))"
  by (rule tenant_reads) (simp add: gets_def)

lemma tenant_fits [tenant_intros]: "keeps (tenant c w0) (db (assertPlanFits s code at))"
  by (rule tenant_reads) (metis assertPlanFits_eq prod.inject)

lemma tenant_settle [tenant_intros]: "keeps (tenant c w0) (db (settle s remote code issue at))"
  by (rule tenant_reads) (simp add: settle_settled)

definition keeps_identity :: "(subscription \<Rightarrow> subscription) \<Rightarrow> bool" where
  "keeps_identity g \<longleftrightarrow> (\<forall>s. s_id (g s) = s_id s \<and> s_companyId (g s) = s_companyId s)"

lemma tenant_update [tenant_intros]:
  assumes "keeps_identity g" shows "keeps (tenant c w0) (update token g)"
proof (rule keepsI)
  fix s r t
  assume s: "tenant c w0 s" and run: "update token g s = (r, t)"
  let ?w = "(pw s)\<lparr>subscriptions := updateOne (holds_lease (s_id (pd s)) token) (\<lambda>s. bump_revision (g s)) (subscriptions (pw s))\<rparr>"
  have "isolated c w0 ?w"
    using s assms by (intro isolated_document) (auto simp: tenant_def holds_lease_def keeps_identity_def bump_revision_def)
  moreover have "t = s \<or> t = s\<lparr>pw := ?w, pd := g (pd s)\<rparr>"
    using run by (cases r) (auto simp: update_def fenced_update_def action_simps split: option.splits if_splits)
  ultimately show "tenant c w0 t" using s assms by (auto simp: tenant_def keeps_identity_def)
qed

lemma tenant_lock [tenant_intros]: "owns c w0 i \<Longrightarrow> keeps (tenant c w0) (db (lockLocal i))"
  by (auto simp: keeps_def tenant_def db_def lockLocal_def andthen_def gets_def throw_def modify_def bump_revision_def
      intro!: isolated_document)

lemma tenant_renewLease [tenant_intros]: "owns c w0 i \<Longrightarrow> keeps (tenant c w0) (db (renewLease i token now))"
  by (auto simp: keeps_def tenant_def db_def renewLease_def andthen_def gets_def throw_def modify_def extend_lease_def
      holds_lease_def intro!: isolated_document)

lemma tenant_release [tenant_intros]: "owns c w0 i \<Longrightarrow> keeps (tenant c w0) (db (release_lease i token))"
  by (auto simp: keeps_def tenant_def db_def release_lease_def modify_def drop_lease_def
      holds_lease_def intro!: isolated_document)

lemma tenant_usage [tenant_intros]:
  "owns_usage c w0 i \<Longrightarrow> (\<And>u. usage_key (g u) = usage_key u) \<Longrightarrow> keeps (tenant c w0) (db (set_usage i g))"
  by (auto simp: keeps_def tenant_def db_def set_usage_def modify_def intro!: isolated_usage)

lemma tenant_create_event [tenant_intros]: "keeps (tenant c w0) (db (create_event e))"
  by (auto simp: keeps_def tenant_def db_def create_event_def andthen_def gets_def throw_def modify_def
      intro!: isolated_event)

lemma tenant_owns: "tenant c w0 s \<Longrightarrow> owns c w0 (s_id (pd s))"
  by (simp add: tenant_def)

lemma gets_result: "gets f s = (Inr x, t) \<Longrightarrow> x = f s"
  by (simp add: gets_iff)

lemma identities [tenant_intros]:
  "keeps_identity (set_attempt f t)" "keeps_identity (set_issue i)" "keeps_identity clear_schedule"
  "keeps_identity (queue_plan code at op)" "keeps_identity (created_subscription n)"
  "keeps_identity (new_operation op code)"
  "keeps_identity (canonical_fields cfg s remote status p acc issue now)"
  by (cases f; simp add: keeps_identity_def) (simp_all add: keeps_identity_def set_issue_def clear_schedule_def
      queue_plan_def created_subscription_def new_operation_def)


lemma tenant_renew [tenant_intros]: "keeps (tenant c w0) (renew api token)"
  unfolding renew_def by (intro tenant_intros) (auto dest!: gets_result simp: tenant_owns)

lemma tenant_attempt [tenant_intros]: "keeps (tenant c w0) (attempt api token field)"
  unfolding attempt_def by (intro tenant_intros)

lemma tenant_catalog [tenant_intros]: "keeps (tenant c w0) (validateCatalog cfg api)"
  unfolding validateCatalog_def by (intro tenant_intros)

lemma tenant_customer [tenant_intros]: "keeps (tenant c w0) (customer api token)"
  unfolding customer_def by (intro tenant_intros) (simp add: keeps_identity_def)

lemma tenant_canonical [tenant_intros]: "keeps (tenant c w0) (applyCanonical cfg api token remote event held)"
  unfolding applyCanonical_def by (intro tenant_intros) (auto dest!: gets_result simp: tenant_owns)

lemma tenant_employees [tenant_intros]: "keeps (tenant c w0) employeeSnapshot"
  unfolding employeeSnapshot_def by (intro tenant_intros) (auto dest!: gets_result simp: tenant_owns)

lemma tenant_seats [tenant_intros]: "keeps (tenant c w0) (reconcile_seats cfg api i n line)"
  unfolding reconcile_seats_def by (intro tenant_intros)

lemma tenant_overage [tenant_intros]: "keeps (tenant c w0) (reconcile_overage cfg api i line)"
  unfolding reconcile_overage_def by (intro tenant_intros)

lemma tenant_lines [tenant_intros]: "keeps (tenant c w0) (reconcile_lines cfg api i n lines)"
  by (induction lines) (simp_all, intro tenant_intros; simp)+

lemma tenant_draft [tenant_intros]: "keeps (tenant c w0) (reconcileDraft cfg api invoice)"
  unfolding reconcileDraft_def seat_snapshot_def by (intro tenant_intros)

lemma tenant_drafts [tenant_intros]: "keeps (tenant c w0) (reconcile_drafts cfg api token invoices)"
  by (induction invoices) (simp_all, intro tenant_intros; simp)+

lemma tenant_verify [tenant_intros]: "keeps (tenant c w0) (verifyFinalizedUsage cfg api invoice)"
  unfolding verifyFinalizedUsage_def by (intro tenant_intros)

lemma tenant_remote_seats [tenant_intros]: "keeps (tenant c w0) (synchronize_seats cfg api remote)"
  unfolding synchronize_seats_def by (intro tenant_intros)

lemma tenant_submit_one:
  "owns_usage c w0 (g_identifier u) \<Longrightarrow> keeps (tenant c w0) (submit_one api token u)"
  unfolding submit_one_def by (intro tenant_intros) (simp_all add: usage_key_def)

lemma tenant_submit_all:
  "\<forall>u \<in> set us. owns_usage c w0 (g_identifier u) \<Longrightarrow> keeps (tenant c w0) (submit_all api token us)"
proof (induction us)
  case (Cons u us)
  then show ?case by (auto intro: tenant_intros tenant_submit_one)
qed (simp add: keeps_return)


text \<open>The pending usage a delivery picks up is the company's own.\<close>

lemma pending_owned:
  assumes "tenant c w0 s" "distinct (map g_identifier (stripeUsages w0))"
    "u \<in> set (pending_usage (s_companyId (pd s)) (pw s))"
  shows "owns_usage c w0 (g_identifier u)"
proof -
  have u: "u \<in> set (stripeUsages (pw s))" "g_companyId u = c"
    using assms(1,3) by (auto simp: pending_usage_def tenant_def dest: in_set_takeD)
  have i: "isolated c w0 (pw s)" using assms(1) by (simp add: tenant_def)
  then have "map fst (map usage_key (stripeUsages (pw s))) = map fst (map usage_key (stripeUsages w0))"
    by (simp add: isolated_def)
  then have "map g_identifier (stripeUsages (pw s)) = map g_identifier (stripeUsages w0)"
    by (simp add: usage_key_def comp_def)
  then have "distinct (map g_identifier (stripeUsages (pw s)))" using assms(2) by simp
  then have "owns_usage c (pw s) (g_identifier u)"
    using u by (auto simp: owns_usage_def distinct_map dest: inj_onD)
  then show ?thesis using owns_usage_now [OF i] by simp
qed

lemma tenant_submit [tenant_intros]:
  "distinct (map g_identifier (stripeUsages w0)) \<Longrightarrow> keeps (tenant c w0) (submitUsage api token)"
  unfolding submitUsage_def
  by (intro keeps_then keeps_gets tenant_submit_all ballI) (auto dest!: gets_result dest: pending_owned)

lemma tenant_synchronize [tenant_intros]:
  "distinct (map g_identifier (stripeUsages w0)) \<Longrightarrow> keeps (tenant c w0) (synchronize cfg api token event)"
  unfolding synchronize_def by (intro tenant_intros)

lemma tenant_perform [tenant_intros]: "keeps (tenant c w0) (performPlanRequest cfg api token)"
  unfolding performPlanRequest_def adopt_schedule_def request_free_def request_paid_def request_downgrade_def
    request_change_def release_schedule_def fix_employees_def confirm_plan_def
  by (intro tenant_intros) (simp_all add: keeps_identity_def)

lemma tenant_safe [tenant_intros]: "keeps I m \<Longrightarrow> keeps I (safeApi m)"
  unfolding safeApi_def by (intro keeps_catching keeps_if keeps_throw)

lemma tenant_request [tenant_intros]: "keeps (tenant c w0) (request_plan api token code)"
  unfolding request_plan_def by (intro tenant_intros) (auto dest!: gets_result simp: tenant_owns)

lemma tenant_complete [tenant_intros]: "keeps (tenant c w0) (completeCheckout cfg api token session)"
  unfolding completeCheckout_def fix_checkout_employees_def
  by (intro tenant_intros) (simp_all add: keeps_identity_def)

lemma tenant_retire [tenant_intros]: "keeps (tenant c w0) (retire_subscription api token)"
  unfolding retire_subscription_def by (intro tenant_intros) (simp add: keeps_identity_def forget_subscription_def)

lemma tenant_session [tenant_intros]: "keeps (tenant c w0) (create_session api token actor code customerId)"
  unfolding create_session_def by (intro tenant_intros) (simp add: keeps_identity_def)


section \<open>Whole operations\<close>

definition unique_keys :: "world \<Rightarrow> bool" where
  "unique_keys w \<longleftrightarrow> distinct (map s_id (subscriptions w)) \<and> distinct (map g_identifier (stripeUsages w))"

text \<open>Before the lease is taken there is no document in memory yet.\<close>

definition confined :: "oid \<Rightarrow> world \<Rightarrow> 'x pay_state \<Rightarrow> bool" where
  "confined c w0 s \<longleftrightarrow> isolated c w0 (pw s)"

lemma unique_owner:
  "distinct (map s_id (subscriptions w)) \<Longrightarrow> s \<in> set (subscriptions w) \<Longrightarrow> owns (s_companyId s) w (s_id s)"
  by (auto simp: owns_def distinct_map dest: inj_onD)

lemma isolated_ids: "isolated c w0 w \<Longrightarrow> map s_id (subscriptions w) = map s_id (subscriptions w0)"
proof -
  assume "isolated c w0 w"
  then have "map fst (map document_key (subscriptions w)) = map fst (map document_key (subscriptions w0))"
    by (simp add: isolated_def)
  then show ?thesis by (simp add: document_key_def comp_def)
qed

lemma acquire_tenant:
  assumes "isolated c w0 w" "distinct (map s_id (subscriptions w0))" "acquire_lease c token now w = (Inr d, w')"
  shows "isolated c w0 w' \<and> owns c w0 (s_id d) \<and> s_companyId d = c"
proof -
  let ?q = "\<lambda>s. s_companyId s = c \<and> lease_free now s"
  from assms(3) obtain s where s: "find ?q (subscriptions w) = Some s" "d = take_lease token now s"
    and w': "w' = w\<lparr>subscriptions := updateOne ?q (take_lease token now) (subscriptions w)\<rparr>"
    by (auto simp: acquire_lease_def Let_def action_simps split: option.splits if_splits)
  have d: "s \<in> set (subscriptions w)" "s_companyId s = c" using find_SomeD [OF s(1)] by auto
  have u: "distinct (map s_id (subscriptions w))" using isolated_ids [OF assms(1)] assms(2) by simp
  have "owns c w0 (s_id s)" using unique_owner [OF u d(1)] owns_now [OF assms(1)] d(2) by simp
  moreover have "isolated c w0 w'"
  proof -
    have "filter (\<lambda>s. s_companyId s \<noteq> c) (updateOne ?q (take_lease token now) (subscriptions w))
        = filter (\<lambda>s. s_companyId s \<noteq> c) (subscriptions w)"
      by (intro filter_updateOne_frame) (auto simp: take_lease_def)
    moreover have "map document_key (updateOne ?q (take_lease token now) (subscriptions w)) = map document_key (subscriptions w)"
      by (intro map_updateOne_same) (simp add: document_key_def take_lease_def)
    ultimately show ?thesis using assms(1) unfolding w' by (simp add: isolated_def)
  qed
  ultimately show ?thesis using s(2) d(2) by (simp add: take_lease_def)
qed

lemma confined_withLease:
  assumes u: "unique_keys w0" and work: "\<And>token. keeps (tenant c w0) (work token)"
  shows "keeps (confined c w0) (withLease api c work)"
proof (rule keepsI)
  fix s r t assume s: "confined c w0 s" and run: "withLease api c work s = (r, t)"
  obtain token x where x: "randomUUID api (px s) = (token, x)" by fastforce
  obtain q w where a: "acquire_lease c token (clock api x) (pw s) = (q, w)" by fastforce
  show "confined c w0 t"
  proof (cases q)
    case (Inl e)
    then have "pw t = w" "w = pw s" using run x a
      by (auto simp: withLease_def andthen_def fresh_uuid_def gets_def db_def now_of_def
          acquire_lease_def Let_def throw_def modify_def return_def split: option.splits if_splits)
    then show ?thesis using s by (simp add: confined_def)
  next
    case (Inr d)
    let ?s = "s\<lparr>px := x, pw := w, pd := d\<rparr>"
    from a Inr acquire_tenant [of c w0 "pw s" token "clock api x" d w] s u
    have d: "isolated c w0 w" "owns c w0 (s_id d)" "s_companyId d = c" by (auto simp: confined_def unique_keys_def)
    have k: "keeps (tenant c w0) (finally_do (work token) (db (release_lease (s_id d) token)))"
      using work d(2) by (intro keeps_finally tenant_release)
    have "finally_do (work token) (db (release_lease (s_id d) token)) ?s = (r, t)"
      using run x a Inr
      by (simp add: withLease_def andthen_def fresh_uuid_def gets_def db_def now_of_def modify_def)
    from keepsD [OF k this] d show ?thesis by (simp add: tenant_def confined_def)
  qed
qed

lemma confined_db_gets: "keeps (confined c w0) (db (gets g))"
  by (simp add: keeps_def confined_def db_def gets_def)

lemma confined_call: "keeps (confined c w0) (call f)"
  by (auto simp: keeps_def confined_def call_def split: prod.splits)

lemma confined_record: "keeps (confined c w0) (record_event api e i)"
  by (auto simp: keeps_def confined_def record_event_def andthen_def gets_def db_def create_event_def throw_def
      modify_def intro: isolated_event)

lemmas confined_intros = keeps_return keeps_throw keeps_gets keeps_lift_result keeps_if keeps_option
  keeps_catching keeps_then keeps_pair keeps_let tenant_safe confined_withLease confined_db_gets
  confined_call confined_record

lemma confined_checkout:
  "unique_keys w0 \<Longrightarrow> keeps (confined (a_companyId actor) w0) (checkout cfg api actor code)"
  unfolding checkout_def by (intro confined_intros tenant_intros) simp_all

lemma confined_portal:
  "unique_keys w0 \<Longrightarrow> keeps (confined (a_companyId actor) w0) (portal cfg api actor)"
  unfolding portal_def by (intro confined_intros tenant_intros) simp_all

lemma confined_changePlan:
  "unique_keys w0 \<Longrightarrow> keeps (confined (a_companyId actor) w0) (payments_changePlan cfg api actor code)"
  unfolding payments_changePlan_def
  by (intro confined_intros tenant_intros)
    (auto simp: keeps_identity_def unique_keys_def tenant_owns dest!: gets_result)

lemma confined_current: "keeps (confined c w0) (current cfg api actor)"
  unfolding current_def by (intro confined_intros)

lemma confined_reconcileCompany:
  "unique_keys w0 \<Longrightarrow> keeps (confined c w0) (reconcileCompany cfg api c)"
  unfolding reconcileCompany_def by (intro confined_intros tenant_intros) (simp_all add: unique_keys_def)

lemma confined_reconcile:
  "unique_keys w0 \<Longrightarrow> keeps (confined (a_companyId actor) w0) (reconcile cfg api actor)"
  unfolding reconcile_def by (intro confined_intros confined_current confined_reconcileCompany)


text \<open>The company an event is about; an event about nobody's subscription is only recorded.\<close>

definition event_company :: "world \<Rightarrow> remote_event \<Rightarrow> oid" where
  "event_company w e = (case event_subscription w e of None \<Rightarrow> 0 | Some d \<Rightarrow> s_companyId d)"

lemma tenant_handle: "unique_keys w0 \<Longrightarrow> keeps (tenant c w0) (handle_event cfg api e token)"
  unfolding handle_event_def record_event_def by (intro tenant_intros) (simp_all add: unique_keys_def)

lemma confined_process:
  assumes "unique_keys (pw s)" "process_event cfg api e s = (r, t)"
  shows "isolated (event_company (pw s) e) (pw s) (pw t)"
proof -
  have c: "confined (event_company (pw s) e) (pw s) s" by (simp add: confined_def isolated_refl)
  show ?thesis
  proof (cases "event_subscription (pw s) e")
    case None
    have k: "keeps (confined c w0) (andthen (gets (\<lambda>t. mapping_pending (pw t) e)) (\<lambda>pending.
         if pending then throw (http CheckoutMappingPending ''Checkout completion is being synchronized'')
         else andthen (record_event api e None) (\<lambda>_. return Received_Ignored)))" for c w0
      by (intro confined_intros)
    show ?thesis using assms(2) None keepsD [OF k _ c]
      by (simp add: process_event_def andthen_def gets_def confined_def)
  next
    case (Some d)
    have k: "keeps (confined (s_companyId d) (pw s)) (andthen (withLease api (s_companyId d) (handle_event cfg api e))
        (\<lambda>_. return Received))"
      using assms(1) by (intro confined_intros tenant_handle)
    show ?thesis using assms(2) Some keepsD [OF k] c
      by (simp add: process_event_def andthen_def gets_def confined_def event_company_def)
  qed
qed

lemma webhook_cases:
  assumes "webhook cfg api body signature s = (r, t)"
  obtains "t = s" | b sig e r' where "body = Some b" "signature = Some sig" "constructEvent api b sig = Inr e"
    "process_event cfg api e s = (r', t)"
proof -
  have "t = s \<or> (\<exists>b sig e r'. body = Some b \<and> signature = Some sig \<and> constructEvent api b sig = Inr e
      \<and> process_event cfg api e s = (r', t))"
    using assms by (auto simp: webhook_def Let_def andthen_def gets_def throw_def return_def catching_def
        split: option.splits sum.splits if_splits prod.splits)
  then show thesis using that by blast
qed

lemma confined_run: "keeps (confined c (pw s)) m \<Longrightarrow> isolated c (pw s) (pw (snd (m s)))"
  by (simp add: keeps_def confined_def isolated_refl)

text \<open>
  C33. One tenant at a time: checkout, portal, plan change, overview and reconciliation of a
  company's owner, and a worker's reconciliation of a company, change no subscription and no
  metered usage of another company, and nothing at all besides subscriptions, usage and recorded
  events - whatever Stripe answers, and on every error. A webhook touches only the company whose
  subscription the event is about.
\<close>

theorem payments_isolated:
  assumes "unique_keys (pw s)" "a_companyId actor = c"
  shows "isolated c (pw s) (pw (snd (checkout cfg api actor code s)))
    \<and> isolated c (pw s) (pw (snd (portal cfg api actor s)))
    \<and> isolated c (pw s) (pw (snd (payments_changePlan cfg api actor code s)))
    \<and> isolated c (pw s) (pw (snd (current cfg api actor s)))
    \<and> isolated c (pw s) (pw (snd (reconcile cfg api actor s)))
    \<and> isolated c (pw s) (pw (snd (reconcileCompany cfg api c s)))
    \<and> (\<forall>b sig e. constructEvent api b sig = Inr e \<longrightarrow>
         isolated (event_company (pw s) e) (pw s) (pw (snd (webhook cfg api (Some b) (Some sig) s))))"
proof -
  have "isolated (event_company (pw s) e) (pw s) (pw (snd (webhook cfg api (Some b) (Some sig) s)))"
    if "constructEvent api b sig = Inr e" for b sig e
  proof -
    obtain r t where w: "webhook cfg api (Some b) (Some sig) s = (r, t)" by fastforce
    from w have "isolated (event_company (pw s) e) (pw s) (pw t)"
      by (cases rule: webhook_cases) (use that confined_process [OF assms(1)] in \<open>auto simp: isolated_refl\<close>)
    then show ?thesis using w by simp
  qed
  then show ?thesis
    using assms by (blast intro: confined_run confined_checkout confined_portal confined_changePlan
      confined_current confined_reconcile confined_reconcileCompany)
qed

definition two_tenants :: "unit pay_state" where
  "two_tenants = leased\<lparr>pw := unleased\<lparr>subscriptions := [example_subscription, subscription_document 2 8 BASIC 0 0]\<rparr>\<rparr>"

theorem payments_isolated_witness:
  "filter (\<lambda>s. s_companyId s \<noteq> 7)
     (subscriptions (pw (snd (reconcileCompany example_pay_config example_api 7 two_tenants))))
   = [subscription_document 2 8 BASIC 0 0]"
proof -
  have "unique_keys (pw two_tenants)" by code_simp
  from payments_isolated [OF this, of "\<lparr>a_id = 1, a_companyId = 7, a_role = COMPANY_OWNER\<rparr>" 7]
  have "isolated 7 (pw two_tenants) (pw (snd (reconcileCompany example_pay_config example_api 7 two_tenants)))"
    by simp
  then show ?thesis
    by (simp add: isolated_def two_tenants_def example_subscription_def subscription_document_def)
qed

end
