(* ===== verification/GuardJobs.thy ===== *)
theory GuardJobs
  imports Files
begin

text \<open>
  The jobs of the sensitive data guard: admission, reading and cancelling
  (\<open>sensitive-data-guard/guard.service.ts\<close>), the access check every step repeats
  (\<open>guard-access.service.ts\<close>), and the worker that claims, scans, publishes and recovers
  (\<open>guard.worker.ts\<close>). The scanner is a child process over third-party parsers: a parameter.
  A transaction takes its commit outcome, and every step the time it runs at.
\<close>

section \<open>Configuration and texts\<close>

record guard_config =
  isolationApproved :: bool
  sanitizationApproved :: bool
  compressedBytes :: int
  maxFindings :: int
  leaseMs :: int

fun category_text :: "category \<Rightarrow> string" where
  "category_text Cat_Email = ''email''"
| "category_text Cat_Iban = ''iban''"
| "category_text Cat_Ip = ''ip''"
| "category_text Cat_Payment_Card = ''payment_card''"
| "category_text Cat_Phone = ''phone''"

fun category_rank :: "category \<Rightarrow> nat" where
  "category_rank Cat_Email = 0"
| "category_rank Cat_Iban = 1"
| "category_rank Cat_Ip = 2"
| "category_rank Cat_Payment_Card = 3"
| "category_rank Cat_Phone = 4"

text \<open>The order of \<open>sort\<close> on the texts: alphabetical.\<close>

lemma category_rank_text: "category_rank a \<le> category_rank b \<longleftrightarrow> category_text a \<le> category_text b"
  by (cases a; cases b; simp)

lemma category_rank_inj: "category_rank a = category_rank b \<Longrightarrow> a = b"
  by (cases a; cases b) simp_all

instantiation category :: linorder
begin

definition less_eq_category :: "category \<Rightarrow> category \<Rightarrow> bool" where
  "less_eq_category a b \<longleftrightarrow> category_rank a \<le> category_rank b"

definition less_category :: "category \<Rightarrow> category \<Rightarrow> bool" where
  "less_category a b \<longleftrightarrow> category_rank a < category_rank b"

instance
  by standard (auto simp: less_eq_category_def less_category_def category_rank_inj)

end

definition lower_text :: "string \<Rightarrow> string" where
  "lower_text s = map (\<lambda>c. char_of (lower (of_char c))) s"

fun json_list :: "('a \<Rightarrow> string) \<Rightarrow> 'a list \<Rightarrow> string" where
  "json_list f [] = []"
| "json_list f [x] = f x"
| "json_list f (x # xs) = f x @ '','' @ json_list f xs"

definition json_categories :: "category list \<Rightarrow> string" where
  "json_categories cs = ''['' @ json_list (\<lambda>c. json_string (category_text c)) cs @ '']''"

definition scan_json :: "oid \<Rightarrow> category list \<Rightarrow> string option \<Rightarrow> string" where
  "scan_json fileId cs region =
     ''{'' @ json_field ''fileId'' @ json_id fileId @ '','' @
     json_field ''categories'' @ json_categories (sort cs) @ '','' @
     json_field ''phoneRegion'' @ (case region of None \<Rightarrow> ''null'' | Some r \<Rightarrow> json_string r) @ ''}''"

definition scan_not_found :: error where
  "scan_not_found = http NotFound ''Scan not found''"

fun is_http :: "error \<Rightarrow> bool" where
  "is_http (HttpException _ _) = True"
| "is_http _ = False"

section \<open>Access\<close>

text \<open>Inside a session the user, the company and the files read have their fences bumped.\<close>

definition fence_user :: "user \<Rightarrow> user" where
  "fence_user u = u\<lparr>u_guardScanFence := u_guardScanFence u + 1\<rparr>"

definition fence_company :: "company \<Rightarrow> company" where
  "fence_company c = c\<lparr>c_guardScanFence := c_guardScanFence c + 1\<rparr>"

definition live_user :: "oid \<Rightarrow> oid \<Rightarrow> user \<Rightarrow> bool" where
  "live_user userId companyId u \<longleftrightarrow> u_id u = userId \<and> u_companyId u = companyId"

definition live_company :: "oid \<Rightarrow> company \<Rightarrow> bool" where
  "live_company companyId c \<longleftrightarrow> c_id c = companyId \<and> c_activatedAt c \<noteq> None
     \<and> c_platformStatus c \<noteq> PLATFORM_SUSPENDED"

definition resolve :: "bool \<Rightarrow> oid \<Rightarrow> oid \<Rightarrow> oid \<Rightarrow> actor handler" where
  "resolve session userId companyId fileId =
     andthen (gets (\<lambda>w. find (live_user userId companyId) (users w))) (\<lambda>user.
     andthen (if session then modify (\<lambda>w. w\<lparr>users := updateOne (live_user userId companyId) fence_user (users w)\<rparr>)
              else return ()) (\<lambda>_.
     andthen (gets (\<lambda>w. find (live_company companyId) (companies w))) (\<lambda>company.
     andthen (if session then modify (\<lambda>w. w\<lparr>companies := updateOne (live_company companyId) fence_company (companies w)\<rparr>)
              else return ()) (\<lambda>_.
     case (user, company) of
       (Some u, Some _) \<Rightarrow>
         let actor = \<lparr>a_id = userId, a_companyId = companyId, a_role = u_role u\<rparr> in
         andthen (processingSource actor fileId session) (\<lambda>_. return actor)
     | _ \<Rightarrow> throw scan_not_found))))"

section \<open>Documents\<close>

definition guard_event_document :: "oid \<Rightarrow> oid \<Rightarrow> oid \<Rightarrow> string \<Rightarrow> date \<Rightarrow> guard_event" where
  "guard_event_document companyId jobId actorId action now =
     \<lparr>ge_companyId = companyId, ge_jobId = jobId, ge_actorId = actorId, ge_action = action, ge_createdAt = now\<rparr>"

definition add_event :: "guard_event \<Rightarrow> unit handler" where
  "add_event e = modify (\<lambda>w. w\<lparr>guardEvents := guardEvents w @ [e]\<rparr>)"

definition SCAN_VERSION :: string where
  "SCAN_VERSION = ''ooxml_scan_v1''"

text \<open>A new job: the fields given and the schema's defaults.\<close>

definition guard_job_document ::
  "oid \<Rightarrow> oid \<Rightarrow> oid \<Rightarrow> oid \<Rightarrow> string \<Rightarrow> string \<Rightarrow> category list \<Rightarrow> string option \<Rightarrow> date \<Rightarrow> guard_job" where
  "guard_job_document i companyId requestedBy sourceFileId requestKey fingerprint cs region now =
     \<lparr>j_id = i, j_kind = Scan, j_scanId = None, j_columns = [], j_resultFileId = None,
      j_outputStorageKey = None, j_outputDigest = None, j_cleanupPending = False, j_cleanupAfter = None,
      j_redactedCells = 0, j_companyId = companyId, j_requestedBy = requestedBy,
      j_sourceFileId = sourceFileId, j_requestKey = requestKey, j_fingerprint = fingerprint,
      j_categories = cs, j_phoneRegion = region, j_status = Queued, j_active = True,
      j_phase = Ph_Queued, j_attempts = 0, j_leaseToken = None, j_leaseExpiresAt = None,
      j_startedAt = None, j_finishedAt = None, j_errorCode = None, j_sourceDigest = None,
      j_processedCells = 0, j_findingCount = 0, j_sheets = 0, j_compatibilityFlags = [],
      j_coverage = None, j_engineVersion = SCAN_VERSION, j_createdAt = now\<rparr>"

text \<open>The unique indexes: the request key of a user, and one active job per company.\<close>

definition job_clash :: "guard_job \<Rightarrow> guard_job \<Rightarrow> bool" where
  "job_clash j k \<longleftrightarrow>
     (j_companyId j = j_companyId k \<and> j_requestedBy j = j_requestedBy k \<and> j_requestKey j = j_requestKey k)
     \<or> (j_companyId j = j_companyId k \<and> j_active j \<and> j_active k)"

definition create_job :: "guard_job \<Rightarrow> guard_job handler" where
  "create_job j =
     andthen (gets (\<lambda>w. list_ex (job_clash j) (guardJobs w))) (\<lambda>clash.
     if clash then throw (DuplicateKey ''guardJob'')
     else andthen (modify (\<lambda>w. w\<lparr>guardJobs := guardJobs w @ [j]\<rparr>)) (\<lambda>_. return j))"

text \<open>What a client sees of a job. The fields of a copy are \<open>None\<close> for a scan.\<close>

record copy_view =
  cv_scanId :: "oid option"
  cv_resultFileId :: "oid option"
  cv_redactedCells :: int

record public_job =
  pj_jobId :: oid
  pj_kind :: guard_kind
  pj_copy :: "copy_view option"
  pj_sourceFileId :: oid
  pj_requestKey :: string
  pj_status :: guard_state
  pj_phase :: guard_phase
  pj_createdAt :: date
  pj_startedAt :: "date option"
  pj_finishedAt :: "date option"
  pj_errorCode :: "guard_error option"
  pj_engineVersion :: string
  pj_processedCells :: int
  pj_totalCells :: "int option"
  pj_findingCount :: int
  pj_sheets :: int
  pj_coverage :: "coverage option"
  pj_compatibilityFlags :: "string list"

definition publicJob :: "guard_job \<Rightarrow> public_job" where
  "publicJob job =
     \<lparr>pj_jobId = j_id job, pj_kind = j_kind job,
      pj_copy = (if j_kind job = Sanitize
        then Some \<lparr>cv_scanId = j_scanId job,
          cv_resultFileId = (if j_status job = Completed then j_resultFileId job else None),
          cv_redactedCells = j_redactedCells job\<rparr>
        else None),
      pj_sourceFileId = j_sourceFileId job, pj_requestKey = j_requestKey job,
      pj_status = j_status job, pj_phase = j_phase job, pj_createdAt = j_createdAt job,
      pj_startedAt = j_startedAt job, pj_finishedAt = j_finishedAt job,
      pj_errorCode = j_errorCode job, pj_engineVersion = j_engineVersion job,
      pj_processedCells = j_processedCells job,
      pj_totalCells = (if j_status job = Completed then Some (j_processedCells job) else None),
      pj_findingCount = j_findingCount job, pj_sheets = j_sheets job,
      pj_coverage = j_coverage job, pj_compatibilityFlags = j_compatibilityFlags job\<rparr>"

section \<open>Admission\<close>

record scan_request =
  sq_requestKey :: string
  sq_categories :: "category list"
  sq_phoneRegion :: "string option"

definition same_request :: "actor \<Rightarrow> string \<Rightarrow> guard_job \<Rightarrow> bool" where
  "same_request actor requestKey j \<longleftrightarrow> j_companyId j = a_companyId actor
     \<and> j_requestedBy j = a_id actor \<and> j_requestKey j = requestKey"

definition recent_jobs :: "oid \<Rightarrow> date \<Rightarrow> world \<Rightarrow> int" where
  "recent_jobs companyId now w =
     countDocuments (\<lambda>j. j_companyId j = companyId \<and> j_createdAt j \<ge> now - 60000) (guardJobs w)"

definition replay :: "guard_job \<Rightarrow> string \<Rightarrow> error + public_job" where
  "replay job fingerprint =
     (if j_fingerprint job \<noteq> fingerprint then Inl (http Conflict ''guard_request_conflict'')
      else Inr (publicJob job))"

definition admit_scan :: "actor \<Rightarrow> oid \<Rightarrow> guard_job \<Rightarrow> date \<Rightarrow> guard_job handler" where
  "admit_scan actor fileId job now =
     andthen (resolve True (a_id actor) (a_companyId actor) fileId) (\<lambda>_.
     andthen (gets (recent_jobs (a_companyId actor) now)) (\<lambda>recent.
     if recent \<ge> 10 then throw (http TooManyRequests ''guard_rate_limited'')
     else
     andthen (create_job job) (\<lambda>created.
     andthen (add_event (guard_event_document (a_companyId actor) (j_id created) (a_id actor) ''queued'' now)) (\<lambda>_.
     return created))))"

text \<open>What a failed or unconfirmed admission is answered with, after reading what was stored.\<close>

definition unconfirmed :: "actor \<Rightarrow> string \<Rightarrow> string \<Rightarrow> error \<Rightarrow> public_job handler" where
  "unconfirmed actor requestKey fingerprint error =
     andthen (gets (\<lambda>w. find (same_request actor requestKey) (guardJobs w))) (\<lambda>committed.
     case committed of
       Some job \<Rightarrow> lift_result (replay job fingerprint)
     | None \<Rightarrow>
         if isDuplicateKeyError error then throw (http Conflict ''guard_active_scan_exists'')
         else if instanceof error NotFound \<or> is_http error then throw error
         else throw (http ServiceUnavailable ''guard_submission_unconfirmed''))"

definition guard_submit :: "guard_config \<Rightarrow> (string \<Rightarrow> string) \<Rightarrow> actor \<Rightarrow> oid \<Rightarrow> scan_request
    \<Rightarrow> oid \<Rightarrow> date \<Rightarrow> date \<Rightarrow> commit_outcome \<Rightarrow> public_job handler" where
  "guard_submit cfg sha256 actor fileId dto i now now' outcome =
     andthen (resolve False (a_id actor) (a_companyId actor) fileId) (\<lambda>_.
     andthen (processingSource actor fileId False) (\<lambda>source.
     if ps_fileType source \<noteq> XLSX then throw (http BadRequest ''guard_unsupported_format'')
     else if ps_size source > compressedBytes cfg then throw (http PayloadTooLarge ''guard_limit_exceeded'')
     else if \<not> isolationApproved cfg then throw (http ServiceUnavailable ''guard_runtime_not_approved'')
     else
     let fingerprint = sha256 (scan_json fileId (sq_categories dto) (sq_phoneRegion dto));
         requestKey = lower_text (sq_requestKey dto) in
     andthen (gets (\<lambda>w. find (same_request actor requestKey) (guardJobs w))) (\<lambda>existing.
     case existing of
       Some job \<Rightarrow> lift_result (replay job fingerprint)
     | None \<Rightarrow>
     andthen (gets (recent_jobs (a_companyId actor) now)) (\<lambda>recent.
     if recent \<ge> 10 then throw (http TooManyRequests ''guard_rate_limited'')
     else
     catching
       (andthen (committing outcome (admit_scan actor fileId
            (guard_job_document i (a_companyId actor) (a_id actor) fileId requestKey fingerprint
              (sort (sq_categories dto)) (sq_phoneRegion dto) now') now')) (\<lambda>job.
        return (publicJob job)))
       (unconfirmed actor requestKey fingerprint)))))"

section \<open>Reading and cancelling\<close>

definition authorized :: "actor \<Rightarrow> oid \<Rightarrow> guard_job handler" where
  "authorized actor i =
     andthen (gets (\<lambda>w. find (\<lambda>j. j_id j = i \<and> j_companyId j = a_companyId actor
                \<and> j_requestedBy j = a_id actor) (guardJobs w))) (\<lambda>found.
     case found of
       None \<Rightarrow> throw scan_not_found
     | Some job \<Rightarrow>
         andthen (catching (resolve False (a_id actor) (a_companyId actor) (j_sourceFileId job))
                    (\<lambda>_. throw scan_not_found)) (\<lambda>_.
         return job))"

definition guard_status :: "actor \<Rightarrow> oid \<Rightarrow> public_job handler" where
  "guard_status actor i = andthen (authorized actor i) (\<lambda>job. return (publicJob job))"

record job_page =
  jp_jobs :: "public_job list"
  jp_nextCursor :: "oid option"

text \<open>Newest first; one more than the page tells whether there is another.\<close>

definition job_list :: "actor \<Rightarrow> oid \<Rightarrow> int \<Rightarrow> oid option \<Rightarrow> string option \<Rightarrow> job_page handler" where
  "job_list actor fileId limit after requestKey =
     andthen (resolve False (a_id actor) (a_companyId actor) fileId) (\<lambda>_.
     andthen (gets (\<lambda>w. take (nat (limit + 1)) (sort_key (\<lambda>j. - int (j_id j))
        (filter (\<lambda>j. j_companyId j = a_companyId actor \<and> j_requestedBy j = a_id actor
           \<and> j_sourceFileId j = fileId
           \<and> (case after of None \<Rightarrow> True | Some a \<Rightarrow> j_id j < a)
           \<and> (case requestKey of None \<Rightarrow> True | Some k \<Rightarrow> j_requestKey j = lower_text k)) (guardJobs w))))) (\<lambda>jobs.
     return \<lparr>jp_jobs = map publicJob (take (nat limit) jobs),
       jp_nextCursor = (if int (length jobs) > limit then Some (j_id (jobs ! (nat limit - 1))) else None)\<rparr>))"

record finding_view =
  fv_ordinal :: int
  fv_sheetIndex :: int
  fv_row :: int
  fv_column :: int
  fv_category :: category
  fv_evidence :: evidence
  fv_hidden :: bool

definition public_finding :: "guard_finding \<Rightarrow> finding_view" where
  "public_finding f = \<lparr>fv_ordinal = n_ordinal f, fv_sheetIndex = n_sheetIndex f, fv_row = n_row f,
     fv_column = n_column f, fv_category = n_category f, fv_evidence = n_evidence f, fv_hidden = n_hidden f\<rparr>"

record finding_page =
  np_findings :: "finding_view list"
  np_nextCursor :: "int option"

definition listFindings :: "actor \<Rightarrow> oid \<Rightarrow> int \<Rightarrow> int option \<Rightarrow> finding_page handler" where
  "listFindings actor i limit after =
     andthen (authorized actor i) (\<lambda>job.
     if j_kind job = Sanitize \<or> j_status job \<noteq> Completed
     then throw (http Conflict ''guard_scan_not_completed'')
     else
     andthen (gets (\<lambda>w. take (nat (limit + 1)) (sort_key n_ordinal
        (filter (\<lambda>f. n_companyId f = a_companyId actor \<and> n_jobId f = i
           \<and> n_ordinal f > option_default (-1) after) (guardFindings w))))) (\<lambda>results.
     return \<lparr>np_findings = map public_finding (take (nat limit) results),
       np_nextCursor = (if int (length results) > limit then Some (n_ordinal (results ! (nat limit - 1))) else None)\<rparr>))"

definition drop_job_lease :: "guard_job \<Rightarrow> guard_job" where
  "drop_job_lease j = j\<lparr>j_leaseToken := None, j_leaseExpiresAt := None\<rparr>"

definition cancel_job :: "date \<Rightarrow> guard_job \<Rightarrow> guard_job" where
  "cancel_job now j = drop_job_lease (j\<lparr>j_status := Cancelled, j_phase := Ph_Cancelled, j_active := False,
     j_finishedAt := Some now\<rparr>)"

text \<open>An update of the first job that matches, and an event when there was one.\<close>

definition update_job :: "(guard_job \<Rightarrow> bool) \<Rightarrow> (guard_job \<Rightarrow> guard_job) \<Rightarrow> bool handler" where
  "update_job q g =
     andthen (gets (\<lambda>w. find q (guardJobs w))) (\<lambda>found.
     andthen (modify (\<lambda>w. w\<lparr>guardJobs := updateOne q g (guardJobs w)\<rparr>)) (\<lambda>_.
     return (found \<noteq> None)))"

definition cancel_transaction :: "actor \<Rightarrow> guard_job \<Rightarrow> oid \<Rightarrow> date \<Rightarrow> unit handler" where
  "cancel_transaction actor job i now =
     andthen (resolve True (a_id actor) (a_companyId actor) (j_sourceFileId job)) (\<lambda>_.
     andthen (update_job (\<lambda>j. j_id j = i \<and> j_companyId j = a_companyId actor
                \<and> j_requestedBy j = a_id actor \<and> j_active j) (cancel_job now)) (\<lambda>changed.
     if changed
     then add_event (guard_event_document (a_companyId actor) i (a_id actor) ''cancelled'' now)
     else return ()))"

definition guard_cancel :: "actor \<Rightarrow> oid \<Rightarrow> date \<Rightarrow> commit_outcome \<Rightarrow> public_job handler" where
  "guard_cancel actor i now outcome =
     andthen (authorized actor i) (\<lambda>job.
     andthen (committing outcome (cancel_transaction actor job i now)) (\<lambda>_.
     guard_status actor i))"

end
