(* ===== verification/GuardWorker.thy ===== *)
theory GuardWorker
  imports GuardJobs
begin

text \<open>
  The worker of the data guard (\<open>guard.worker.ts\<close>): recovery of expired leases, claiming the
  oldest queued job, reading its source, and the transactions that end it. Sanitising jobs are
  handed to \<open>GuardCopies\<close>. The scanner is a parameter; so is what interrupts a read.
\<close>

section \<open>Leases\<close>

definition claimable :: "guard_config \<Rightarrow> guard_job \<Rightarrow> bool" where
  "claimable cfg j \<longleftrightarrow> j_status j = Queued \<and> j_active j
     \<and> (sanitizationApproved cfg \<or> j_kind j \<noteq> Sanitize)"

definition start_job :: "string \<Rightarrow> int \<Rightarrow> date \<Rightarrow> guard_job \<Rightarrow> guard_job" where
  "start_job token lease now j = j\<lparr>j_status := Processing, j_phase := Ph_Fetching,
     j_leaseToken := Some token, j_leaseExpiresAt := Some (now + lease), j_startedAt := Some now,
     j_attempts := j_attempts j + 1\<rparr>"

text \<open>The oldest claimable job, started; among equally old ones, the one stored first.\<close>

definition claim_next :: "guard_config \<Rightarrow> string \<Rightarrow> date \<Rightarrow> guard_job option handler" where
  "claim_next cfg token now =
     andthen (gets (\<lambda>w. sort_key j_createdAt (filter (claimable cfg) (guardJobs w)))) (\<lambda>waiting.
     case waiting of
       [] \<Rightarrow> return None
     | job # _ \<Rightarrow>
         andthen (update_job (\<lambda>j. j_id j = j_id job \<and> claimable cfg j) (start_job token (leaseMs cfg) now)) (\<lambda>_.
         return (Some (start_job token (leaseMs cfg) now job))))"

text \<open>The query every write of the job's worker is under; without the expiry for the last one.\<close>

definition own_claim :: "guard_job \<Rightarrow> string \<Rightarrow> guard_job \<Rightarrow> bool" where
  "own_claim job token j \<longleftrightarrow> j_id j = j_id job \<and> j_companyId j = j_companyId job
     \<and> j_status j = Processing \<and> j_active j \<and> j_leaseToken j = Some token"

definition claim :: "guard_job \<Rightarrow> string \<Rightarrow> date \<Rightarrow> guard_job \<Rightarrow> bool" where
  "claim job token now j \<longleftrightarrow> own_claim job token j
     \<and> (case j_leaseExpiresAt j of None \<Rightarrow> False | Some t \<Rightarrow> t > now)"

definition resolve_job :: "bool \<Rightarrow> guard_job \<Rightarrow> actor handler" where
  "resolve_job session job = resolve session (j_requestedBy job) (j_companyId job) (j_sourceFileId job)"

definition check :: "guard_job \<Rightarrow> string \<Rightarrow> date \<Rightarrow> bool handler" where
  "check job token now =
     andthen (gets (\<lambda>w. list_ex (claim job token now) (guardJobs w))) (\<lambda>held.
     if \<not> held then return False else andthen (resolve_job False job) (\<lambda>_. return True))"

definition set_phase :: "guard_phase \<Rightarrow> guard_job \<Rightarrow> guard_job" where
  "set_phase phase j = j\<lparr>j_phase := phase\<rparr>"

definition advance :: "guard_job \<Rightarrow> string \<Rightarrow> guard_phase \<Rightarrow> date \<Rightarrow> unit handler" where
  "advance job token phase now =
     andthen (update_job (claim job token now) (set_phase phase)) (\<lambda>_. return ())"

section \<open>Reading the source\<close>

datatype read_event = Read_Undisturbed | Read_Timed_Out | Read_Aborted

definition read_source ::
  "guard_config \<Rightarrow> storage_env \<Rightarrow> int option \<Rightarrow> read_event \<Rightarrow> actor \<Rightarrow> oid \<Rightarrow> bytes handler" where
  "read_source cfg env contentLength disturbance actor fileId =
     (case disturbance of
        Read_Timed_Out \<Rightarrow> throw (ScanError Guard_Timeout)
      | _ \<Rightarrow>
        andthen (catching (download env actor fileId)
                   (\<lambda>_. throw (ScanError Guard_Storage_Unavailable))) (\<lambda>(file, body).
        if disturbance = Read_Aborted then throw (ScanError Guard_Access_Revoked)
        else if f_size file > compressedBytes cfg \<or> option_default 0 contentLength > compressedBytes cfg
        then throw (ScanError Guard_Limit_Exceeded)
        else if int (length body) > compressedBytes cfg then throw (ScanError Guard_Limit_Exceeded)
        else if int (length body) \<noteq> f_size file
          \<or> (contentLength \<noteq> None \<and> contentLength \<noteq> Some (int (length body)))
        then throw (ScanError Guard_Invalid_Workbook)
        else return body))"

section \<open>Ending a job\<close>

record scan_result =
  sr_findings :: "finding_view list"
  sr_processedCells :: int
  sr_sheets :: int
  sr_compatibilityFlags :: "string list"
  sr_coverage :: coverage

definition stored_finding :: "guard_job \<Rightarrow> finding_view \<Rightarrow> guard_finding" where
  "stored_finding job f =
     \<lparr>n_companyId = j_companyId job, n_jobId = j_id job, n_ordinal = fv_ordinal f,
      n_sheetIndex = fv_sheetIndex f, n_row = fv_row f, n_column = fv_column f,
      n_category = fv_category f, n_evidence = fv_evidence f, n_hidden = fv_hidden f\<rparr>"

definition complete_scan :: "scan_result \<Rightarrow> string \<Rightarrow> date \<Rightarrow> guard_job \<Rightarrow> guard_job" where
  "complete_scan result digest now j = drop_job_lease (j\<lparr>j_status := Completed, j_phase := Ph_Completed,
     j_active := False, j_finishedAt := Some now, j_processedCells := sr_processedCells result,
     j_findingCount := int (length (sr_findings result)), j_sheets := sr_sheets result,
     j_compatibilityFlags := sr_compatibilityFlags result, j_coverage := Some (sr_coverage result),
     j_sourceDigest := Some digest\<rparr>)"

text \<open>The findings are unique by job and ordinal.\<close>

definition insert_findings :: "guard_finding list \<Rightarrow> unit handler" where
  "insert_findings fs =
     andthen (gets guardFindings) (\<lambda>stored.
     let key = (\<lambda>f. (n_companyId f, n_jobId f, n_ordinal f)) in
     if \<not> distinct (map key fs) \<or> list_ex (\<lambda>f. key f \<in> set (map key stored)) fs
     then throw (DuplicateKey ''ordinal'')
     else modify (\<lambda>w. w\<lparr>guardFindings := guardFindings w @ fs\<rparr>))"

definition publish_transaction :: "guard_job \<Rightarrow> string \<Rightarrow> scan_result \<Rightarrow> string \<Rightarrow> date \<Rightarrow> unit handler" where
  "publish_transaction job token result digest now =
     andthen (update_job (claim job token now) (set_phase Ph_Completed)) (\<lambda>claimed.
     if \<not> claimed then return ()
     else
     andthen (resolve_job True job) (\<lambda>_.
     andthen (if sr_findings result \<noteq> [] then insert_findings (map (stored_finding job) (sr_findings result))
              else return ()) (\<lambda>_.
     andthen (update_job (own_claim job token) (complete_scan result digest now)) (\<lambda>_.
     add_event (guard_event_document (j_companyId job) (j_id job) (j_requestedBy job) ''completed'' now)))))"

definition publish ::
  "guard_job \<Rightarrow> string \<Rightarrow> scan_result \<Rightarrow> string \<Rightarrow> date \<Rightarrow> commit_outcome \<Rightarrow> unit handler" where
  "publish job token result digest now outcome =
     committing outcome (publish_transaction job token result digest now)"

definition fail_job :: "guard_error \<Rightarrow> date \<Rightarrow> guard_job \<Rightarrow> guard_job" where
  "fail_job code now j = drop_job_lease (j\<lparr>j_status := Failed, j_phase := Ph_Failed, j_active := False,
     j_errorCode := Some code, j_finishedAt := Some now\<rparr>)"

definition job_event :: "guard_job \<Rightarrow> string \<Rightarrow> date \<Rightarrow> unit handler" where
  "job_event job action now =
     add_event (guard_event_document (j_companyId job) (j_id job) (j_requestedBy job) action now)"

definition terminal :: "guard_job \<Rightarrow> string \<Rightarrow> guard_error \<Rightarrow> date \<Rightarrow> commit_outcome \<Rightarrow> unit handler" where
  "terminal job token code now outcome = committing outcome
     (andthen (update_job (claim job token now) (fail_job code now)) (\<lambda>changed.
      if changed then job_event job ''failed'' now else return ()))"

section \<open>Recovery\<close>

definition lease_expired :: "date \<Rightarrow> guard_job \<Rightarrow> bool" where
  "lease_expired now j \<longleftrightarrow> (case j_leaseExpiresAt j of None \<Rightarrow> False | Some t \<Rightarrow> t \<le> now)"

definition expired_jobs :: "guard_config \<Rightarrow> date \<Rightarrow> world \<Rightarrow> guard_job list" where
  "expired_jobs cfg now w = take 20 (filter (\<lambda>j. j_status j = Processing \<and> j_active j
     \<and> (sanitizationApproved cfg \<or> j_kind j \<noteq> Sanitize) \<and> lease_expired now j) (guardJobs w))"

definition requeue_job :: "guard_job \<Rightarrow> guard_job" where
  "requeue_job j = drop_job_lease (j\<lparr>j_status := Queued, j_phase := Ph_Queued\<rparr>)"

text \<open>A job whose worker vanished is tried again, three times in all.\<close>

definition recover_job :: "guard_job \<Rightarrow> date \<Rightarrow> commit_outcome \<Rightarrow> unit handler" where
  "recover_job job now outcome =
     (let failed = j_attempts job \<ge> 3 in
      committing outcome
        (andthen (update_job (\<lambda>j. j_id j = j_id job \<and> j_companyId j = j_companyId job
                    \<and> j_status j = Processing \<and> j_leaseToken j = j_leaseToken job \<and> lease_expired now j)
                    (if failed then fail_job Guard_Timeout now else requeue_job)) (\<lambda>changed.
         if changed then job_event job (if failed then ''failed'' else ''queued'') now else return ())))"

fun recover_jobs :: "date \<Rightarrow> (oid \<Rightarrow> commit_outcome) \<Rightarrow> guard_job list \<Rightarrow> unit handler" where
  "recover_jobs now outcome [] = return ()"
| "recover_jobs now outcome (job # rest) =
     andthen (recover_job job now (outcome (j_id job))) (\<lambda>_. recover_jobs now outcome rest)"

definition recover :: "guard_config \<Rightarrow> date \<Rightarrow> (oid \<Rightarrow> commit_outcome) \<Rightarrow> unit handler" where
  "recover cfg now outcome =
     andthen (gets (expired_jobs cfg now)) (recover_jobs now outcome)"

section \<open>One round\<close>

text \<open>
  What a round depends on besides the database: the times of its steps, the token drawn, the
  outcome of every commit, the storage, what happens to the read, the scanner, the digest, and the
  sanitiser of \<open>GuardCopies\<close> (its processing step and its clean-up).
\<close>

record worker_env =
  we_recoverAt :: date
  we_startAt :: date
  we_checkAt :: date
  we_recheckAt :: date
  we_phaseAt :: date
  we_endAt :: date
  we_token :: string
  we_recoverCommit :: "oid \<Rightarrow> commit_outcome"
  we_publishCommit :: commit_outcome
  we_terminalCommit :: commit_outcome
  we_storage :: storage_env
  we_contentLength :: "int option"
  we_read :: read_event
  we_scan :: "bytes \<Rightarrow> category list \<Rightarrow> string option \<Rightarrow> error + scan_result"
  we_digest :: "bytes \<Rightarrow> string"
  we_process :: "guard_job \<Rightarrow> string \<Rightarrow> bytes \<Rightarrow> unit handler"
  we_cleanup :: "unit handler"

definition failure_code :: "error \<Rightarrow> guard_error" where
  "failure_code error = (case error of
      ScanError code \<Rightarrow> code
    | _ \<Rightarrow> if instanceof error NotFound then Guard_Access_Revoked else Guard_Internal_Error)"

definition work :: "guard_config \<Rightarrow> worker_env \<Rightarrow> guard_job \<Rightarrow> bytes \<Rightarrow> unit handler" where
  "work cfg env job body =
     (let token = we_token env in
      if j_kind job = Sanitize
      then
        if \<not> sanitizationApproved cfg then throw (ScanError Guard_Worker_Unavailable)
        else
        andthen (advance job token Ph_Transforming (we_phaseAt env)) (\<lambda>_.
        we_process env job token body)
      else
        andthen (advance job token Ph_Scanning (we_phaseAt env)) (\<lambda>_.
        andthen (lift_result (we_scan env body (j_categories job) (j_phoneRegion job))) (\<lambda>result.
        publish job token result (we_digest env body) (we_endAt env) (we_publishCommit env))))"

definition perform :: "guard_config \<Rightarrow> worker_env \<Rightarrow> guard_job \<Rightarrow> unit handler" where
  "perform cfg env job =
     (let token = we_token env in
      andthen (check job token (we_checkAt env)) (\<lambda>ok.
      if \<not> ok then throw (ScanError Guard_Access_Revoked)
      else
      andthen (resolve_job False job) (\<lambda>actor.
      andthen (read_source cfg (we_storage env) (we_contentLength env) (we_read env) actor (j_sourceFileId job)) (\<lambda>body.
      andthen (check job token (we_recheckAt env)) (\<lambda>ok.
      if \<not> ok then throw (ScanError Guard_Access_Revoked)
      else work cfg env job body)))))"

definition guard_run :: "guard_config \<Rightarrow> worker_env \<Rightarrow> unit handler" where
  "guard_run cfg env =
     andthen (recover cfg (we_recoverAt env) (we_recoverCommit env)) (\<lambda>_.
     andthen (we_cleanup env) (\<lambda>_.
     andthen (claim_next cfg (we_token env) (we_startAt env)) (\<lambda>found.
     case found of
       None \<Rightarrow> return ()
     | Some job \<Rightarrow>
         catching (perform cfg env job) (\<lambda>error.
           terminal job (we_token env) (failure_code error) (we_endAt env) (we_terminalCommit env)))))"

definition guard_tick :: "guard_config \<Rightarrow> worker_env \<Rightarrow> bool \<Rightarrow> unit handler" where
  "guard_tick cfg env running =
     (if running \<or> \<not> isolationApproved cfg then return ()
      else catching (guard_run cfg env) (\<lambda>_. return ()))"

end
