(* ===== verification/GuardCopies.thy ===== *)
theory GuardCopies
  imports GuardWorker
begin

text \<open>
  Sanitised copies (\<open>guard-sanitization.service.ts\<close>): admission of a redaction of a completed
  scan, the worker's part - the output's object is written under a durable tombstone before the
  file is published - and the clean-up that removes objects whose file never was. The sanitiser
  itself is a child process: a parameter.
\<close>

section \<open>Admission\<close>

record redact_request =
  rq_requestKey :: string
  rq_categories :: "category list"
  rq_columns :: "redaction_column list"

definition approved :: "guard_config \<Rightarrow> error + unit" where
  "approved cfg = require (isolationApproved cfg \<and> sanitizationApproved cfg)
     (http ServiceUnavailable ''guard_runtime_not_approved'')"

definition json_bool :: "bool \<Rightarrow> string" where
  "json_bool b = (if b then ''true'' else ''false'')"

definition json_column :: "redaction_column \<Rightarrow> string" where
  "json_column c = ''{'' @ json_field ''sheetIndex'' @ show_int (k_sheetIndex c) @ '','' @
     json_field ''column'' @ show_int (k_column c) @ '','' @
     json_field ''includeHeader'' @ json_bool (k_includeHeader c) @ ''}''"

definition redaction_json :: "oid \<Rightarrow> category list \<Rightarrow> redaction_column list \<Rightarrow> string" where
  "redaction_json scanId cs columns =
     ''{'' @ json_field ''scanId'' @ json_id scanId @ '','' @
     json_field ''selection'' @ ''{'' @ json_field ''categories'' @ json_categories cs @ '','' @
     json_field ''columns'' @ ''['' @ json_list json_column columns @ '']'' @ ''}'' @ '','' @
     json_field ''version'' @ json_string SANITIZATION_VERSION @ ''}''"

definition sorted_columns :: "redaction_column list \<Rightarrow> redaction_column list" where
  "sorted_columns cs = sort_key (\<lambda>c. (k_sheetIndex c, k_column c)) cs"

definition invalid_selection :: "guard_job \<Rightarrow> category list \<Rightarrow> redaction_column list \<Rightarrow> bool" where
  "invalid_selection scan cs columns \<longleftrightarrow> (cs = [] \<and> columns = [])
     \<or> list_ex (\<lambda>c. c \<notin> set (j_categories scan)) cs
     \<or> list_ex (\<lambda>c. k_sheetIndex c \<ge> j_sheets scan) columns
     \<or> \<not> distinct (map (\<lambda>c. (k_sheetIndex c, k_column c)) columns)"

definition output_key :: "oid \<Rightarrow> oid \<Rightarrow> string" where
  "output_key companyId jobId =
     ''companies/'' @ oid_to_string companyId @ ''/files/guard-'' @ oid_to_string jobId @ ''.xlsx''"

definition copy_job_document ::
  "oid \<Rightarrow> oid \<Rightarrow> actor \<Rightarrow> guard_job \<Rightarrow> string \<Rightarrow> string \<Rightarrow> string \<Rightarrow> category list \<Rightarrow> redaction_column list
     \<Rightarrow> date \<Rightarrow> guard_job" where
  "copy_job_document i outputId actor scan requestKey fingerprint sourceDigest cs columns now =
     (guard_job_document i (a_companyId actor) (a_id actor) (j_sourceFileId scan) requestKey fingerprint cs None now)
       \<lparr>j_kind := Sanitize, j_scanId := Some (j_id scan), j_columns := columns,
        j_resultFileId := Some outputId, j_outputStorageKey := Some (output_key (a_companyId actor) i),
        j_sourceDigest := Some sourceDigest, j_engineVersion := SANITIZATION_VERSION\<rparr>"

definition admit_copy :: "actor \<Rightarrow> guard_job \<Rightarrow> (string \<Rightarrow> guard_job) \<Rightarrow> date \<Rightarrow> guard_job handler" where
  "admit_copy actor scan document now =
     andthen (resolve True (a_id actor) (a_companyId actor) (j_sourceFileId scan)) (\<lambda>_.
     andthen (gets (\<lambda>w. find (\<lambda>j. j_id j = j_id scan \<and> j_companyId j = a_companyId actor
                \<and> j_requestedBy j = a_id actor \<and> j_status j = Completed) (guardJobs w))) (\<lambda>current.
     case Option.bind current j_sourceDigest of
       None \<Rightarrow> throw (http Conflict ''guard_scan_not_eligible'')
     | Some digest \<Rightarrow>
         if digest = [] then throw (http Conflict ''guard_scan_not_eligible'')
         else
         andthen (gets (recent_jobs (a_companyId actor) now)) (\<lambda>recent.
         if recent \<ge> 10 then throw (http Conflict ''guard_rate_limited'')
         else
         andthen (create_job (document digest)) (\<lambda>created.
         andthen (add_event (guard_event_document (a_companyId actor) (j_id created) (a_id actor) ''queued'' now)) (\<lambda>_.
         return created)))))"

definition same_copy :: "string \<Rightarrow> guard_job \<Rightarrow> bool" where
  "same_copy fingerprint j \<longleftrightarrow> j_kind j = Sanitize \<and> j_fingerprint j = fingerprint"

definition uncertain_copy :: "actor \<Rightarrow> string \<Rightarrow> string \<Rightarrow> error \<Rightarrow> public_job handler" where
  "uncertain_copy actor requestKey fingerprint error =
     andthen (gets (\<lambda>w. find (same_request actor requestKey) (guardJobs w))) (\<lambda>committed.
     let other = (if instanceof error Conflict then throw error
                  else throw (http Conflict ''guard_admission_uncertain_or_busy'')) in
     case committed of
       Some job \<Rightarrow> if same_copy fingerprint job then return (publicJob job) else other
     | None \<Rightarrow> other)"

definition redact_submit :: "guard_config \<Rightarrow> (string \<Rightarrow> string) \<Rightarrow> actor \<Rightarrow> oid \<Rightarrow> redact_request
    \<Rightarrow> oid \<Rightarrow> oid \<Rightarrow> date \<Rightarrow> commit_outcome \<Rightarrow> public_job handler" where
  "redact_submit cfg sha256 actor scanId dto i outputId now outcome =
     andthen (authorized actor scanId) (\<lambda>scan.
     andthen (lift_result (approved cfg)) (\<lambda>_.
     if j_kind scan = Sanitize \<or> j_status scan \<noteq> Completed \<or> j_engineVersion scan \<noteq> SCAN_VERSION
     then throw (http Conflict ''guard_scan_not_eligible'')
     else
     andthen (processingSource actor (j_sourceFileId scan) False) (\<lambda>source.
     if ps_derived source \<or> ps_fileType source \<noteq> XLSX
     then throw (http Conflict ''guard_scan_not_eligible'')
     else
     let cs = sort (rq_categories dto); columns = sorted_columns (rq_columns dto) in
     if invalid_selection scan cs columns then throw (http Conflict ''guard_selection_invalid'')
     else
     let fingerprint = sha256 (redaction_json (j_id scan) cs columns);
         requestKey = lower_text (rq_requestKey dto) in
     andthen (gets (\<lambda>w. find (same_request actor requestKey) (guardJobs w))) (\<lambda>existing.
     case existing of
       Some job \<Rightarrow>
         if \<not> same_copy fingerprint job then throw (http Conflict ''guard_request_conflict'')
         else return (publicJob job)
     | None \<Rightarrow>
         catching
           (andthen (committing outcome (admit_copy actor scan
              (\<lambda>digest. copy_job_document i outputId actor scan requestKey fingerprint digest cs columns now) now)) (\<lambda>job.
            return (publicJob job)))
           (uncertain_copy actor requestKey fingerprint)))))"

section \<open>Processing\<close>

record sanitize_options =
  so_selectedCategories :: "category list"
  so_selectedColumns :: "redaction_column list"
  so_categories :: "category list"
  so_phoneRegion :: "string option"
  so_findingsDigest :: string

record sanitize_result =
  sz_bytes :: bytes
  sz_redactedCells :: int
  sz_outputDigest :: string

fun evidence_text :: "evidence \<Rightarrow> string" where
  "evidence_text Format_Valid = ''format_valid''"
| "evidence_text Checksum_Valid = ''checksum_valid''"

definition finding_json :: "guard_finding \<Rightarrow> string" where
  "finding_json f = ''{'' @ json_field ''ordinal'' @ show_int (n_ordinal f) @ '','' @
     json_field ''sheetIndex'' @ show_int (n_sheetIndex f) @ '','' @
     json_field ''row'' @ show_int (n_row f) @ '','' @
     json_field ''column'' @ show_int (n_column f) @ '','' @
     json_field ''category'' @ json_string (category_text (n_category f)) @ '','' @
     json_field ''evidence'' @ json_string (evidence_text (n_evidence f)) @ '','' @
     json_field ''hidden'' @ json_bool (n_hidden f) @ ''}''"

definition findings_json :: "guard_finding list \<Rightarrow> string" where
  "findings_json fs = ''['' @ json_list finding_json fs @ '']''"

text \<open>
  What processing depends on: the sanitiser, the two digests, the storage, whether the job was
  aborted before and after the upload, whether the upload timed out, and times and commits. A
  timed-out upload may still be performed.
\<close>

record copy_env =
  ce_sanitize :: "bytes \<Rightarrow> sanitize_options \<Rightarrow> error + sanitize_result"
  ce_digest :: "bytes \<Rightarrow> string"
  ce_textDigest :: "string \<Rightarrow> string"
  ce_storage :: storage_env
  ce_abortedFirst :: bool
  ce_abortedSecond :: bool
  ce_abortedThird :: bool
  ce_timedOut :: bool
  ce_announceAt :: date
  ce_publishAt :: date
  ce_announceCommit :: commit_outcome
  ce_publishCommit :: commit_outcome
  ce_maxSize :: int
  ce_paymentsEnabled :: bool

text \<open>The scan a copy is made from, its findings as they were, and the sanitiser's output.\<close>

definition scan_of :: "guard_job \<Rightarrow> world \<Rightarrow> guard_job option" where
  "scan_of job w = find (\<lambda>j. Some (j_id j) = j_scanId job \<and> j_companyId j = j_companyId job
     \<and> j_requestedBy j = j_requestedBy job \<and> j_status j = Completed) (guardJobs w)"

definition make_copy :: "guard_config \<Rightarrow> copy_env \<Rightarrow> guard_job \<Rightarrow> bytes \<Rightarrow> sanitize_result handler" where
  "make_copy cfg env job body =
     andthen (gets (scan_of job)) (\<lambda>found.
     case found of
       None \<Rightarrow> throw (ScanError Guard_Source_Changed)
     | Some scan \<Rightarrow>
     if j_kind scan = Sanitize \<or> j_sourceDigest scan = None \<or> j_sourceDigest scan = Some []
       \<or> j_sourceDigest scan \<noteq> Some (ce_digest env body)
     then throw (ScanError Guard_Source_Changed)
     else
     andthen (gets (\<lambda>w. take (nat (maxFindings cfg + 1)) (sort_key n_ordinal
        (filter (\<lambda>f. n_companyId f = j_companyId job \<and> n_jobId f = j_id scan) (guardFindings w))))) (\<lambda>fs.
     if int (length fs) \<noteq> j_findingCount scan \<or> int (length fs) > maxFindings cfg
     then throw (ScanError Guard_Source_Changed)
     else
     lift_result (ce_sanitize env body
       \<lparr>so_selectedCategories = j_categories job, so_selectedColumns = j_columns job,
        so_categories = j_categories scan, so_phoneRegion = j_phoneRegion scan,
        so_findingsDigest = ce_textDigest env (findings_json fs)\<rparr>)))"

definition announce_output :: "string \<Rightarrow> guard_job \<Rightarrow> guard_job" where
  "announce_output digest j = j\<lparr>j_phase := Ph_Publishing, j_cleanupPending := True, j_outputDigest := Some digest\<rparr>"

text \<open>Before anything is stored, the job is marked for clean-up, under its lease.\<close>

definition announce :: "copy_env \<Rightarrow> guard_job \<Rightarrow> string \<Rightarrow> sanitize_result \<Rightarrow> actor handler" where
  "announce env job token result = committing (ce_announceCommit env)
     (andthen (update_job (claim job token (ce_announceAt env)) (announce_output (sz_outputDigest result))) (\<lambda>claimed.
      if \<not> claimed then throw (ScanError Guard_Access_Revoked)
      else if j_outputDigest job \<noteq> None \<and> j_outputDigest job \<noteq> Some []
        \<and> j_outputDigest job \<noteq> Some (sz_outputDigest result)
      then throw (ScanError Guard_Output_Verification_Failed)
      else resolve_job True job))"

definition store_output :: "copy_env \<Rightarrow> string \<Rightarrow> bytes \<Rightarrow> unit handler" where
  "store_output env key body =
     (if ce_timedOut env
      then andthen (catching (putObject (ce_storage env) key body) (\<lambda>_. return ())) (\<lambda>_.
           throw (ScanError Guard_Timeout))
      else putObject (ce_storage env) key body)"

definition complete_copy :: "sanitize_result \<Rightarrow> oid \<Rightarrow> date \<Rightarrow> guard_job \<Rightarrow> guard_job" where
  "complete_copy result fileId now j = drop_job_lease (j\<lparr>j_status := Completed, j_phase := Ph_Completed,
     j_active := False, j_cleanupPending := False, j_finishedAt := Some now,
     j_redactedCells := sz_redactedCells result, j_coverage := Some Limited, j_resultFileId := Some fileId\<rparr>)"

definition publish_copy ::
  "copy_env \<Rightarrow> guard_job \<Rightarrow> string \<Rightarrow> actor \<Rightarrow> sanitize_result \<Rightarrow> oid \<Rightarrow> string \<Rightarrow> unit handler" where
  "publish_copy env job token actor result outputId key =
     (let now = ce_publishAt env in committing (ce_publishCommit env)
     (andthen (update_job (claim job token now) (set_phase Ph_Publishing)) (\<lambda>claimed.
      if \<not> claimed then throw (ScanError Guard_Access_Revoked)
      else
      andthen (resolve True (a_id actor) (a_companyId actor) (j_sourceFileId job)) (\<lambda>liveActor.
      andthen (publishGuardCopy (ce_maxSize env) (ce_paymentsEnabled env) liveActor (j_sourceFileId job)
         \<lparr>go_fileId = outputId, go_jobId = j_id job, go_storageKey = key,
          go_size = int (length (sz_bytes result))\<rparr> now) (\<lambda>fileId.
      andthen (update_job (claim job token now) (complete_copy result fileId now)) (\<lambda>completed.
      if \<not> completed then throw (ScanError Guard_Access_Revoked)
      else job_event job ''completed'' now))))))"

definition copy_failure :: "error \<Rightarrow> error" where
  "copy_failure error =
     (if instanceof error Forbidden then ScanError Guard_Quota_Exceeded
      else case error of
          ScanError code \<Rightarrow> error
        | _ \<Rightarrow> if instanceof error NotFound then error else ScanError Guard_Internal_Error)"

definition process_copy :: "guard_config \<Rightarrow> copy_env \<Rightarrow> guard_job \<Rightarrow> string \<Rightarrow> bytes \<Rightarrow> unit handler" where
  "process_copy cfg env job token body =
     andthen (lift_result (approved cfg)) (\<lambda>_.
     if j_engineVersion job \<noteq> SANITIZATION_VERSION then throw (ScanError Guard_Profile_Unsupported)
     else
     andthen (make_copy cfg env job body) (\<lambda>result.
     case (j_outputStorageKey job, j_resultFileId job) of
       (Some key, Some outputId) \<Rightarrow>
         if key = [] \<or> ce_abortedFirst env then throw (ScanError Guard_Access_Revoked)
         else
         andthen (announce env job token result) (\<lambda>actor.
         if ce_abortedSecond env then throw (ScanError Guard_Access_Revoked)
         else
         catching
           (andthen (store_output env key (sz_bytes result)) (\<lambda>_.
            if ce_abortedThird env then throw (ScanError Guard_Access_Revoked)
            else publish_copy env job token actor result outputId key))
           (\<lambda>error. throw (copy_failure error)))
     | _ \<Rightarrow> throw (ScanError Guard_Access_Revoked)))"

section \<open>Clean-up and history\<close>

definition cleanup_due :: "date \<Rightarrow> guard_job \<Rightarrow> bool" where
  "cleanup_due now j \<longleftrightarrow> j_kind j = Sanitize \<and> \<not> j_active j
     \<and> (j_cleanupPending j \<or> j_status j = Completed)
     \<and> (case j_cleanupAfter j of None \<Rightarrow> True | Some t \<Rightarrow> t \<le> now)"

text \<open>Missing dates sort before all dates.\<close>

definition cleanup_order :: "guard_job list \<Rightarrow> guard_job list" where
  "cleanup_order js = sort_key (\<lambda>j. (case j_cleanupAfter j of None \<Rightarrow> (0::int, 0) | Some t \<Rightarrow> (1, t), j_id j)) js"

definition cleanup_job :: "copy_env \<Rightarrow> date \<Rightarrow> guard_job \<Rightarrow> unit handler" where
  "cleanup_job env now job =
     catching
       (andthen (update_job (\<lambda>j. j_id j = j_id job \<and> \<not> j_active j) (\<lambda>j. j\<lparr>j_cleanupAfter := Some (now + 30000)\<rparr>)) (\<lambda>_.
        case (j_outputStorageKey job, j_resultFileId job) of
          (Some key, Some fileId) \<Rightarrow>
            if key = [] then return ()
            else
            andthen (guardCopyExists (j_companyId job) fileId) (\<lambda>copy.
            if copy \<noteq> None then return ()
            else if key \<noteq> output_key (j_companyId job) (j_id job) then return ()
            else deleteObject (ce_storage env) key)
        | _ \<Rightarrow> return ()))
       (\<lambda>_. return ())"

definition guard_cleanup :: "guard_config \<Rightarrow> copy_env \<Rightarrow> date \<Rightarrow> unit handler" where
  "guard_cleanup cfg env now =
     (if \<not> isolationApproved cfg \<or> \<not> sanitizationApproved cfg then return ()
      else
      andthen (gets (\<lambda>w. cleanup_order (filter (cleanup_due now) (guardJobs w)))) (\<lambda>pending.
      case pending of [] \<Rightarrow> return () | job # _ \<Rightarrow> cleanup_job env now job))"

record copy_entry =
  ck_jobId :: oid
  ck_fileId :: oid
  ck_strategyVersion :: string
  ck_createdAt :: "date option"

record copy_page =
  cg_copies :: "copy_entry list"
  cg_nextCursor :: "oid option"

fun existing_copies :: "world \<Rightarrow> oid \<Rightarrow> guard_job list \<Rightarrow> copy_entry list" where
  "existing_copies w companyId [] = []"
| "existing_copies w companyId (j # js) =
     (case j_resultFileId j of
        None \<Rightarrow> []
      | Some fileId \<Rightarrow>
          if find (\<lambda>f. f_id f = fileId \<and> f_companyId f = companyId) (files w) = None then []
          else [\<lparr>ck_jobId = j_id j, ck_fileId = fileId, ck_strategyVersion = j_engineVersion j,
                 ck_createdAt = j_finishedAt j\<rparr>])
     @ existing_copies w companyId js"

definition history :: "actor \<Rightarrow> oid \<Rightarrow> int \<Rightarrow> oid option \<Rightarrow> string option \<Rightarrow> copy_page handler" where
  "history actor sourceId limit after requestKey =
     andthen (resolve False (a_id actor) (a_companyId actor) sourceId) (\<lambda>_.
     andthen (gets (\<lambda>w. take (nat (limit + 1)) (sort_key (\<lambda>j. - int (j_id j))
        (filter (\<lambda>j. j_companyId j = a_companyId actor \<and> j_requestedBy j = a_id actor
           \<and> j_sourceFileId j = sourceId \<and> j_kind j = Sanitize \<and> j_status j = Completed
           \<and> (case after of None \<Rightarrow> True | Some a \<Rightarrow> j_id j < a)
           \<and> (case requestKey of None \<Rightarrow> True | Some k \<Rightarrow> j_requestKey j = lower_text k)) (guardJobs w))))) (\<lambda>jobs.
     andthen (gets (\<lambda>w. existing_copies w (a_companyId actor) (take (nat limit) jobs))) (\<lambda>copies.
     return \<lparr>cg_copies = copies,
       cg_nextCursor = (if int (length jobs) > limit then Some (j_id (jobs ! (nat limit - 1))) else None)\<rparr>)))"

end
