(* ===== verification/GuardSafety.thy ===== *)
theory GuardSafety
  imports GuardCopies Interfaces
begin

text \<open>
  What the job system of the data guard promises, for every interleaving of its atomic steps with
  each other and with the rest of the program: jobs follow their life cycle and end, workers that
  lost their lease have no effect, findings belong to completed scans, and clean-up never removes
  the object of a published file.
\<close>

section \<open>The life cycle\<close>

text \<open>
  The abstract machine: a job is waiting, running or over, and counts how often it was started.
  \<open>abs_job\<close> reads its state off a document.
\<close>

type_synonym life = "guard_state \<times> int"

inductive life_step :: "life \<Rightarrow> life \<Rightarrow> bool" where
  life_start: "life_step (Queued, n) (Processing, n + 1)"
| life_complete: "life_step (Processing, n) (Completed, n)"
| life_fail: "life_step (Processing, n) (Failed, n)"
| life_retry: "n < 3 \<Longrightarrow> life_step (Processing, n) (Queued, n)"
| life_cancel: "s \<in> {Queued, Processing} \<Longrightarrow> life_step (s, n) (Cancelled, n)"

inductive_simps life_step_simps: "life_step (s, n) y"

definition abs_job :: "guard_job \<Rightarrow> life" where
  "abs_job j = (j_status j, j_attempts j)"

fun running :: "guard_state \<Rightarrow> bool" where
  "running Queued = True" | "running Processing = True" | "running _ = False"

text \<open>A document is consistent: the fields that say the same thing agree.\<close>

definition job_ok :: "guard_job \<Rightarrow> bool" where
  "job_ok j \<longleftrightarrow> (j_active j \<longleftrightarrow> running (j_status j))
     \<and> (j_leaseToken j \<noteq> None \<longleftrightarrow> j_status j = Processing)
     \<and> (j_leaseExpiresAt j \<noteq> None \<longleftrightarrow> j_status j = Processing)
     \<and> (j_errorCode j \<noteq> None \<longleftrightarrow> j_status j = Failed)
     \<and> (j_finishedAt j \<noteq> None \<longleftrightarrow> \<not> running (j_status j))
     \<and> j_id j < 16 ^ 24
     \<and> 0 \<le> j_attempts j \<and> j_attempts j \<le> 3
     \<and> (j_status j = Queued \<longrightarrow> j_attempts j \<le> 2)
     \<and> (j_status j = Processing \<longrightarrow> 1 \<le> j_attempts j)
     \<and> (j_kind j = Sanitize \<longrightarrow> j_outputStorageKey j = Some (output_key (j_companyId j) (j_id j))
          \<and> j_resultFileId j \<noteq> None)"

section \<open>How a step may change a job\<close>

definition identity :: "guard_job \<Rightarrow> (oid \<times> guard_kind \<times> oid \<times> oid \<times> oid) \<times> string \<times> string \<times> string option \<times> oid option" where
  "identity j = ((j_id j, j_kind j, j_companyId j, j_requestedBy j, j_sourceFileId j), j_requestKey j,
     j_fingerprint j, j_outputStorageKey j, j_resultFileId j)"

definition core :: "guard_job \<Rightarrow> (guard_state \<times> bool \<times> int) \<times> string option \<times> date option \<times> guard_error option \<times> date option \<times> int" where
  "core j = ((j_status j, j_active j, j_attempts j), j_leaseToken j, j_leaseExpiresAt j, j_errorCode j,
     j_finishedAt j, j_findingCount j)"

definition ended_as :: "guard_state \<Rightarrow> guard_job \<Rightarrow> guard_job \<Rightarrow> bool" where
  "ended_as s j j' \<longleftrightarrow> j_status j' = s \<and> \<not> j_active j' \<and> j_attempts j' = j_attempts j
     \<and> j_leaseToken j' = None \<and> j_leaseExpiresAt j' = None \<and> j_finishedAt j' \<noteq> None
     \<and> (s = Failed \<longrightarrow> j_errorCode j' \<noteq> None) \<and> (s \<noteq> Failed \<longrightarrow> j_errorCode j' = j_errorCode j)"

text \<open>\<open>avoid\<close> is a lease token that the step does not hand out; \<open>p\<close> says whether scans may complete.\<close>

definition job_change :: "bool \<Rightarrow> string option \<Rightarrow> guard_job \<Rightarrow> guard_job \<Rightarrow> bool" where
  "job_change p avoid j j' \<longleftrightarrow> identity j' = identity j
     \<and> (core j' = core j
        \<or> (j_status j = Queued \<and> j_status j' = Processing \<and> j_active j' = j_active j
            \<and> j_attempts j' = j_attempts j + 1 \<and> j_leaseToken j' \<noteq> None \<and> j_leaseToken j' \<noteq> avoid
            \<and> j_leaseExpiresAt j' \<noteq> None \<and> j_errorCode j' = j_errorCode j
            \<and> j_finishedAt j' = j_finishedAt j \<and> j_findingCount j' = j_findingCount j)
        \<or> (j_status j = Processing \<and> j_attempts j < 3 \<and> j_status j' = Queued \<and> j_active j' = j_active j
            \<and> j_attempts j' = j_attempts j \<and> j_leaseToken j' = None \<and> j_leaseExpiresAt j' = None
            \<and> j_errorCode j' = j_errorCode j \<and> j_finishedAt j' = j_finishedAt j
            \<and> j_findingCount j' = j_findingCount j)
        \<or> (j_status j = Processing \<and> (ended_as Completed j j' \<and> (p \<or> j_kind j = Sanitize \<and> j_findingCount j' = j_findingCount j)
            \<or> ended_as Failed j j'))
        \<or> (j_active j \<and> ended_as Cancelled j j'))"

definition fresh_job :: "guard_job list \<Rightarrow> guard_job \<Rightarrow> bool" where
  "fresh_job js j \<longleftrightarrow> job_ok j \<and> abs_job j = (Queued, 0) \<and> j_leaseToken j = None
     \<and> \<not> list_ex (job_clash j) js \<and> j_id j \<notin> j_id ` set js"

definition jobs_move :: "bool \<Rightarrow> string option \<Rightarrow> guard_job list \<Rightarrow> guard_job list \<Rightarrow> bool" where
  "jobs_move p avoid js js' \<longleftrightarrow>
     (\<exists>q g. js' = updateOne q g js \<and> (\<forall>j \<in> set js. q j \<longrightarrow> job_change p avoid j (g j)))
     \<or> (\<exists>j. js' = js @ [j] \<and> fresh_job js j)"

lemma job_change_refl: "job_change p avoid j j"
  by (simp add: job_change_def)

lemma jobs_move_refl: "jobs_move p avoid js js"
proof -
  have "js = updateOne (\<lambda>_. False) id js" by (induction js) simp_all
  then show ?thesis unfolding jobs_move_def by (intro disjI1 exI [of _ "\<lambda>_. False"] exI [of _ id]) simp
qed

lemma jobs_move_update:
  "(\<And>j. j \<in> set js \<Longrightarrow> q j \<Longrightarrow> job_change p avoid j (g j)) \<Longrightarrow> jobs_move p avoid js (updateOne q g js)"
  unfolding jobs_move_def by blast

lemma job_change_ok:
  assumes "job_change p avoid j j'" "job_ok j" shows "job_ok j'"
proof -
  have i: "j_kind j' = j_kind j" "j_outputStorageKey j' = j_outputStorageKey j" "j_id j' = j_id j"
    "j_companyId j' = j_companyId j" "j_resultFileId j' = j_resultFileId j"
    using assms(1) by (auto simp: job_change_def identity_def)
  show ?thesis using assms
    unfolding job_change_def job_ok_def i core_def ended_as_def
    by (elim conjE disjE) (auto split: if_splits)
qed

lemma job_change_life:
  assumes "job_change p avoid j j'" "job_ok j"
  shows "abs_job j' = abs_job j \<or> life_step (abs_job j) (abs_job j')"
proof -
  have "running (j_status j)" if "j_active j" using assms(2) that by (simp add: job_ok_def)
  then show ?thesis using assms(1)
    by (cases "j_status j") (auto simp: job_change_def core_def ended_as_def abs_job_def life_step_simps)
qed


section \<open>What the steps leave alone\<close>

definition file_core :: "company_file \<Rightarrow> oid \<times> oid \<times> string" where
  "file_core f = (f_id f, f_companyId f, f_storageKey f)"

definition same_guard :: "world \<Rightarrow> world \<Rightarrow> bool" where
  "same_guard w0 w \<longleftrightarrow> guardJobs w = guardJobs w0 \<and> guardFindings w = guardFindings w0
     \<and> map file_core (files w) = map file_core (files w0)"

lemma same_guard_refl: "same_guard w w"
  by (simp add: same_guard_def)

lemma same_guard_frame [simp]:
  "same_guard w0 (w\<lparr>users := a\<rparr>) = same_guard w0 w"
  "same_guard w0 (w\<lparr>companies := b\<rparr>) = same_guard w0 w"
  "same_guard w0 (w\<lparr>subscriptions := c\<rparr>) = same_guard w0 w"
  "same_guard w0 (w\<lparr>periods := d\<rparr>) = same_guard w0 w"
  "same_guard w0 (w\<lparr>stripeUsages := e\<rparr>) = same_guard w0 w"
  "same_guard w0 (w\<lparr>guardEvents := f\<rparr>) = same_guard w0 w"
  "same_guard w0 (w\<lparr>objects := g\<rparr>) = same_guard w0 w"
  by (simp_all add: same_guard_def)

lemma same_guard_fence: "same_guard w0 w \<Longrightarrow> same_guard w0 (w\<lparr>files := updateOne q bump_fence (files w)\<rparr>)"
  by (simp add: same_guard_def map_updateOne_same file_core_def bump_fence_def)

lemma keeps_fenced [keeps_intros]: "keeps (same_guard w0) (find_fenced session q)"
  unfolding find_fenced_def by (intro keeps_intros keeps_modify same_guard_fence)

lemma keeps_lineage [keeps_intros]: "keeps (same_guard w0) (assertLineage actor f session)"
  unfolding assertLineage_def by (intro keeps_intros)

lemma keeps_resolve [keeps_intros]: "keeps (same_guard w0) (resolve session u c f)"
proof -
  have "keeps (same_guard w0) (processingSource actor fileId s)" for actor fileId s
    unfolding processingSource_def by (intro keeps_intros)
  then have "keeps (same_guard w0) (case (user, company) of (Some u, Some _) \<Rightarrow>
         let actor = \<lparr>a_id = i, a_companyId = c, a_role = u_role u\<rparr> in
         andthen (processingSource actor f session) (\<lambda>_. return actor) | _ \<Rightarrow> throw scan_not_found)"
    for user :: "user option" and company :: "company option" and i
    by (auto simp: Let_def split: option.split intro!: keeps_intros)
  then show ?thesis unfolding resolve_def by (intro keeps_intros keeps_modify) simp_all
qed

lemma resolve_frame: "resolve session u c f w = (r, w') \<Longrightarrow> same_guard w w'"
  using keepsD [OF keeps_resolve _ same_guard_refl] .

lemma keeps_event [keeps_intros]: "keeps (same_guard w0) (add_event e)"
  unfolding add_event_def by (intro keeps_modify) simp

lemma update_job_run:
  "update_job q g w = (r, w') \<longleftrightarrow>
     r = Inr (find q (guardJobs w) \<noteq> None) \<and> w' = w\<lparr>guardJobs := updateOne q g (guardJobs w)\<rparr>"
  by (auto simp: update_job_def andthen_def gets_def modify_def return_def)


lemma keeps_record [keeps_intros]: "keeps (same_guard w0) (recordFileUploads True e c n at)"
proof -
  have l: "keeps (same_guard w0) (acquireLock c)" unfolding acquireLock_def
    by (intro keeps_intros keeps_modify) simp
  have q: "keeps (same_guard w0) (enqueue_if_managed e s p k m at)" for s p k m
    unfolding enqueue_if_managed_def enqueueOverage_def create_usage_def
    by (intro keeps_intros keeps_modify) simp
  show ?thesis
    unfolding recordFileUploads_def recordFileUploadsInTransaction_def Let_def if_True
    by (intro keeps_intros keeps_modify l q) simp
qed

lemma publishGuardCopy_frame:
  assumes "publishGuardCopy m e actor src out now w = (r, w')"
  shows "guardJobs w' = guardJobs w \<and> guardFindings w' = guardFindings w
    \<and> (\<forall>f \<in> set (files w'). file_core f \<in> set (map file_core (files w))
         \<or> file_core f = (go_fileId out, a_companyId actor, go_storageKey out))"
proof -
  have k: "keeps (\<lambda>v. guardJobs v = guardJobs w \<and> guardFindings v = guardFindings w
      \<and> (\<forall>f \<in> set (files v). file_core f \<in> set (map file_core (files w))
         \<or> file_core f = (go_fileId out, a_companyId actor, go_storageKey out))) (publishGuardCopy m e actor src out now)"
    (is "keeps ?I _")
  proof -
    have rec: "keeps ?I (recordFileUploads True e c n at)" for c n at
    proof (rule keepsI)
      fix s r t assume s: "?I s" and run: "recordFileUploads True e c n at s = (r, t)"
      have g: "same_guard s t" using keepsD [OF keeps_record run same_guard_refl] .
      then have "file_core ` set (files t) = file_core ` set (files s)" unfolding same_guard_def by (metis list.set_map)
      moreover have "file_core f \<in> set (map file_core (files w))
         \<or> file_core f = (go_fileId out, a_companyId actor, go_storageKey out)" if "f \<in> set (files t)" for f
      proof -
        have "file_core f \<in> file_core ` set (files s)" using that calculation by blast
        then obtain f' where "f' \<in> set (files s)" "file_core f = file_core f'" by blast
        then show ?thesis using s by auto
      qed
      ultimately show "?I t" using s g by (auto simp: same_guard_def)
    qed
    show ?thesis unfolding publishGuardCopy_def create_file_def
      by (intro keeps_intros keeps_modify rec) (auto simp: file_core_def guard_copy_def)
  qed
  show ?thesis using keepsD [OF k assms] by simp
qed

section \<open>The steps\<close>

text \<open>
  A worker's copy of a job: the immutable fields are those of the document, and as long as the
  document carries the same lease it was started as often.
\<close>

definition snapshot_of :: "world \<Rightarrow> guard_job \<Rightarrow> bool" where
  "snapshot_of w job \<longleftrightarrow> (\<forall>j \<in> set (guardJobs w). j_id j = j_id job \<longrightarrow> identity j = identity job
     \<and> (j_leaseToken j = j_leaseToken job \<and> j_leaseToken j \<noteq> None \<longrightarrow> j_attempts j = j_attempts job))"

definition guard_key :: "string \<Rightarrow> bool" where
  "guard_key key \<longleftrightarrow> (\<exists>c i. key = output_key c i)"

text \<open>
  One atomic step: a transaction of an admission, a cancellation, the worker or its recovery, a
  storage request, the mark a file deletion leaves, or a step of the rest of the program - which
  writes no job and no finding, and stores no file under a key of the guard. New identifiers are
  new; no step hands out the lease token \<open>avoid\<close>.
\<close>

inductive guard_step :: "string option \<Rightarrow> world \<Rightarrow> world \<Rightarrow> bool" for avoid where
  step_admit_scan: "admit_scan actor fileId
      (guard_job_document i (a_companyId actor) (a_id actor) fileId key fp cs region t) now w = (Inr j, w') \<Longrightarrow>
      i \<notin> j_id ` set (guardJobs w) \<Longrightarrow> i < 16 ^ 24 \<Longrightarrow> guard_step avoid w w'"
| step_admit_copy: "admit_copy actor scan
      (\<lambda>d. copy_job_document i out actor scan key fp d cs columns t) now w = (Inr j, w') \<Longrightarrow>
      i \<notin> j_id ` set (guardJobs w) \<Longrightarrow> i < 16 ^ 24 \<Longrightarrow> guard_step avoid w w'"
| step_cancel: "cancel_transaction actor job i now w = (Inr u, w') \<Longrightarrow> guard_step avoid w w'"
| step_claim: "claim_next cfg token now w = (Inr found, w') \<Longrightarrow> avoid \<noteq> Some token \<Longrightarrow> guard_step avoid w w'"
| step_advance: "advance job token phase now w = (Inr u, w') \<Longrightarrow> guard_step avoid w w'"
| step_publish: "publish_transaction job token result digest now w = (Inr u, w') \<Longrightarrow>
      snapshot_of w job \<Longrightarrow> j_kind job = Scan \<Longrightarrow> guard_step avoid w w'"
| step_terminal: "terminal job token code now outcome w = (r, w') \<Longrightarrow> guard_step avoid w w'"
| step_recover: "recover_job job now outcome w = (r, w') \<Longrightarrow> snapshot_of w job \<Longrightarrow> guard_step avoid w w'"
| step_announce: "announce env job token result w = (r', w') \<Longrightarrow> guard_step avoid w w'"
| step_store: "store_output env key body w = (r, w') \<Longrightarrow> guard_step avoid w w'"
| step_publish_copy: "publish_copy env job token actor result outputId key w = (r, w') \<Longrightarrow>
      snapshot_of w job \<Longrightarrow> j_kind job = Sanitize \<Longrightarrow> a_companyId actor = j_companyId job \<Longrightarrow>
      j_outputStorageKey job = Some key \<Longrightarrow> j_resultFileId job = Some outputId \<Longrightarrow> guard_step avoid w w'"
| step_cleanup: "cleanup_job env now job w = (r, w') \<Longrightarrow> guard_step avoid w w'"
| step_tombstone: "w' = tombstone file now w \<Longrightarrow> guard_step avoid w w'"
| step_other: "guardJobs w' = guardJobs w \<Longrightarrow> guardFindings w' = guardFindings w \<Longrightarrow>
      (\<And>f. f \<in> set (files w') \<Longrightarrow> file_core f \<in> set (map file_core (files w)) \<or> \<not> guard_key (f_storageKey f)) \<Longrightarrow>
      guard_step avoid w w'"

section \<open>Consistent job collections\<close>

definition jobs_ok :: "guard_job list \<Rightarrow> bool" where
  "jobs_ok js \<longleftrightarrow> (\<forall>j \<in> set js. job_ok j) \<and> distinct (map j_id js)
     \<and> (\<forall>j \<in> set js. \<forall>k \<in> set js. j_id j \<noteq> j_id k \<longrightarrow> \<not> job_clash j k)"

lemma job_change_identity: "job_change p avoid j j' \<Longrightarrow> identity j' = identity j"
  by (simp add: job_change_def)

lemma identity_fields:
  "identity j' = identity j \<Longrightarrow> j_id j' = j_id j \<and> j_kind j' = j_kind j \<and> j_companyId j' = j_companyId j
     \<and> j_requestedBy j' = j_requestedBy j \<and> j_requestKey j' = j_requestKey j \<and> j_fingerprint j' = j_fingerprint j
     \<and> j_sourceFileId j' = j_sourceFileId j
     \<and> j_outputStorageKey j' = j_outputStorageKey j \<and> j_resultFileId j' = j_resultFileId j"
  by (simp add: identity_def)

lemma job_change_active: "job_change p avoid j j' \<Longrightarrow> j_active j' \<Longrightarrow> j_active j"
  by (auto simp: job_change_def core_def ended_as_def)

lemma job_clash_sym: "job_clash j k \<longleftrightarrow> job_clash k j"
  by (auto simp: job_clash_def)

text \<open>Every document after a move is new, or comes from one before it.\<close>

lemma moved_from:
  assumes "jobs_move p avoid js js'" "j' \<in> set js'"
  shows "(\<exists>j \<in> set js. job_change p avoid j j') \<or> fresh_job js j'"
  using assms(1) unfolding jobs_move_def
proof (elim disjE exE conjE)
  fix q g assume "js' = updateOne q g js" "\<forall>j \<in> set js. q j \<longrightarrow> job_change p avoid j (g j)"
  then show ?thesis using assms(2) job_change_refl [of p avoid] by (auto dest!: set_updateOneD)
qed (use assms(2) job_change_refl in auto)

lemma moved_to:
  assumes "jobs_move p avoid js js'" "j \<in> set js"
  shows "\<exists>j' \<in> set js'. job_change p avoid j j'"
  using assms(1) unfolding jobs_move_def
proof (elim disjE exE conjE)
  fix q g assume m: "js' = updateOne q g js" "\<forall>j \<in> set js. q j \<longrightarrow> job_change p avoid j (g j)"
  show ?thesis using assms(2) m(2) unfolding m(1)
    by (induction js) (auto intro: job_change_refl)
qed (use assms(2) job_change_refl in auto)

lemma moved_ids:
  assumes "jobs_move p avoid js js'" shows "map j_id js' = map j_id js \<or> (\<exists>i. map j_id js' = map j_id js @ [i]
    \<and> i \<notin> set (map j_id js))"
  using assms unfolding jobs_move_def
proof (elim disjE exE conjE)
  fix q g assume m: "js' = updateOne q g js" "\<forall>j \<in> set js. q j \<longrightarrow> job_change p avoid j (g j)"
  have "map j_id (updateOne q g js) = map j_id js" using m(2)
    by (induction js) (auto dest: job_change_identity identity_fields)
  then show ?thesis using m(1) by simp
qed (auto simp: fresh_job_def)

lemma jobs_move_ok:
  assumes m: "jobs_move p avoid js js'" and ok: "jobs_ok js"
  shows "jobs_ok js'"
  unfolding jobs_ok_def
proof (intro conjI ballI impI)
  fix j' assume "j' \<in> set js'"
  from moved_from [OF m this] show "job_ok j'"
    using ok job_change_ok by (auto simp: jobs_ok_def fresh_job_def)
next
  show "distinct (map j_id js')" using moved_ids [OF m] ok unfolding jobs_ok_def by auto
next
  fix j' k' assume j': "j' \<in> set js'" and k': "k' \<in> set js'" and ne: "j_id j' \<noteq> j_id k'"
  have from_old: "\<not> job_clash j' k'" if "j \<in> set js" "job_change p avoid j j'" "k \<in> set js" "job_change p avoid k k'" for j k
  proof -
    note i = identity_fields [OF job_change_identity [OF that(2)]] identity_fields [OF job_change_identity [OF that(4)]]
    have "\<not> job_clash j k" using ok that(1,3) ne i by (auto simp: jobs_ok_def)
    then show ?thesis using i job_change_active [OF that(2)] job_change_active [OF that(4)]
      by (auto simp: job_clash_def)
  qed
  show "\<not> job_clash j' k'"
    using m unfolding jobs_move_def
  proof (elim disjE exE conjE)
    fix q g assume u: "js' = updateOne q g js" "\<forall>j \<in> set js. q j \<longrightarrow> job_change p avoid j (g j)"
    have "\<exists>j \<in> set js. job_change p avoid j x" if "x \<in> set js'" for x
      using that u job_change_refl [of p avoid] by (auto dest!: set_updateOneD)
    then show ?thesis using from_old j' k' by blast
  next
    fix n assume n: "js' = js @ [n]" "fresh_job js n"
    have c: "\<not> job_clash n x" if "x \<in> set js" for x using n(2) that by (auto simp: fresh_job_def list_ex_iff)
    have old: "\<not> job_clash j' k'" if "j' \<in> set js" "k' \<in> set js"
      by (rule from_old [OF that(1) job_change_refl that(2) job_change_refl])
    show ?thesis using j' k' ne n(1) c old job_clash_sym [of j' k'] by auto
  qed
qed

lemma jobs_moves_ok: "(jobs_move p avoid)\<^sup>*\<^sup>* js js' \<Longrightarrow> jobs_ok js \<Longrightarrow> jobs_ok js'"
  by (induction rule: rtranclp_induct) (auto dest: jobs_move_ok)

section \<open>The steps move jobs\<close>

lemma committing_jobs:
  assumes "committing outcome m w = (r, w')" "\<And>x v. m w = (Inr x, v) \<Longrightarrow> P (guardJobs v)" "P (guardJobs w)"
  shows "P (guardJobs w')"
  using committing_effect [OF assms(1)] assms(2,3) by auto

lemma update_move:
  assumes "update_job q g w = (Inr b, w')" "\<And>j. j \<in> set (guardJobs w) \<Longrightarrow> q j \<Longrightarrow> job_change p avoid j (g j)"
  shows "jobs_move p avoid (guardJobs w) (guardJobs w')"
  using assms by (auto simp: update_job_run intro: jobs_move_update)

lemma changes [simp]:
  "job_change p avoid j (set_phase ph j)"
  "job_change p avoid j (announce_output d j)"
  "job_change p avoid j (j\<lparr>j_cleanupAfter := t\<rparr>)"
  "job_change p avoid j (j\<lparr>j_cleanupPending := b, j_cleanupAfter := t\<rparr>)"
  "j_status j = Queued \<Longrightarrow> avoid \<noteq> Some token \<Longrightarrow> job_change p avoid j (start_job token l now j)"
  "j_status j = Processing \<Longrightarrow> job_change True avoid j (complete_scan res dg now j)"
  "j_status j = Processing \<Longrightarrow> j_kind j = Sanitize \<Longrightarrow> j_resultFileId j = Some i \<Longrightarrow> job_change p avoid j (complete_copy out i now j)"
  "j_status j = Processing \<Longrightarrow> job_change p avoid j (fail_job code now j)"
  "j_status j = Processing \<Longrightarrow> j_attempts j < 3 \<Longrightarrow> job_change p avoid j (requeue_job j)"
  "j_active j \<Longrightarrow> job_change p avoid j (cancel_job now j)"
  by (auto simp: job_change_def identity_def core_def ended_as_def set_phase_def announce_output_def start_job_def
      complete_scan_def complete_copy_def fail_job_def requeue_job_def cancel_job_def drop_job_lease_def)


definition moved :: "bool \<Rightarrow> string option \<Rightarrow> world \<Rightarrow> world \<Rightarrow> bool" where
  "moved p avoid w w' \<longleftrightarrow> (jobs_move p avoid)\<^sup>*\<^sup>* (guardJobs w) (guardJobs w')"

lemma moved_same: "guardJobs w' = guardJobs w \<Longrightarrow> moved p avoid w w'"
  by (simp add: moved_def)

lemma moved_trans: "moved p avoid u v \<Longrightarrow> moved p avoid v w \<Longrightarrow> moved p avoid u w"
  unfolding moved_def by (rule rtranclp_trans)

lemma moved_update:
  assumes "update_job q g w = (Inr b, w')" "\<And>j. j \<in> set (guardJobs w) \<Longrightarrow> q j \<Longrightarrow> job_change p avoid j (g j)"
  shows "moved p avoid w w'"
  unfolding moved_def using update_move [OF assms] by blast

lemma moved_committing:
  "committing outcome m w = (r, w') \<Longrightarrow> (\<And>x v. m w = (Inr x, v) \<Longrightarrow> moved p avoid w v) \<Longrightarrow> moved p avoid w w'"
  using committing_effect moved_same by metis

lemma moved_event: "add_event e w = (r, w') \<Longrightarrow> moved p avoid w w'"
  by (auto simp: add_event_def modify_iff intro: moved_same)

lemma moved_resolve: "resolve s u c f w = (r, w') \<Longrightarrow> moved p avoid w w'"
  using resolve_frame by (auto simp: same_guard_def intro: moved_same)

lemma create_job_run:
  "create_job j w = (Inr k, w') \<longleftrightarrow> k = j \<and> \<not> list_ex (job_clash j) (guardJobs w)
     \<and> w' = w\<lparr>guardJobs := guardJobs w @ [j]\<rparr>"
  by (auto simp: create_job_def action_simps split: if_splits)

lemma moved_create:
  assumes "create_job j w = (Inr k, w')" "job_ok j" "abs_job j = (Queued, 0)" "j_leaseToken j = None"
    "j_id j \<notin> j_id ` set (guardJobs w)"
  shows "moved p avoid w w'"
  using assms unfolding moved_def
  by (intro r_into_rtranclp) (auto simp: create_job_run jobs_move_def fresh_job_def)

lemma new_jobs_ok [simp]:
  "i < 16 ^ 24 \<Longrightarrow> job_ok (guard_job_document i c u f key fp cs region t)"
  "abs_job (guard_job_document i c u f key fp cs region t) = (Queued, 0)"
  "i < 16 ^ 24 \<Longrightarrow> job_ok (copy_job_document i out actor scan key fp d cs columns t)"
  "abs_job (copy_job_document i out actor scan key fp d cs columns t) = (Queued, 0)"
  "j_leaseToken (guard_job_document i c u f key fp cs region t) = None"
  "j_leaseToken (copy_job_document i out actor scan key fp d cs columns t) = None"
  "j_id (guard_job_document i c u f key fp cs region t) = i"
  "j_id (copy_job_document i out actor scan key fp d cs columns t) = i"
  by (simp_all add: job_ok_def abs_job_def guard_job_document_def copy_job_document_def)

lemma andthen_InrE:
  "andthen m f s = (Inr y, t) \<Longrightarrow> (\<And>x u. m s = (Inr x, u) \<Longrightarrow> f x u = (Inr y, t) \<Longrightarrow> P) \<Longrightarrow> P"
  by (auto simp: andthen_Inr_iff)

lemma add_event_then: "andthen (add_event e) (\<lambda>_. return j) u = (Inr k, w') \<Longrightarrow>
   k = j \<and> w' = u\<lparr>guardEvents := guardEvents u @ [e]\<rparr>"
  by (simp add: andthen_def add_event_def modify_def return_def)

lemma admit_scan_Inr:
  assumes "admit_scan actor fileId job now w = (Inr j, w')"
  shows "\<exists>a v u. resolve True (a_id actor) (a_companyId actor) fileId w = (Inr a, v)
    \<and> recent_jobs (a_companyId actor) now v < 10 \<and> create_job job v = (Inr job, u) \<and> j = job
    \<and> (\<exists>e. w' = u\<lparr>guardEvents := guardEvents u @ [e]\<rparr>)"
proof -
  from assms [unfolded admit_scan_def] obtain a v where r: "resolve True (a_id actor) (a_companyId actor) fileId w = (Inr a, v)"
    and rest: "(if recent_jobs (a_companyId actor) now v \<ge> 10 then throw (http TooManyRequests ''guard_rate_limited'')
       else andthen (create_job job) (\<lambda>created.
         andthen (add_event (guard_event_document (a_companyId actor) (j_id created) (a_id actor) ''queued'' now)) (\<lambda>_.
         return created))) v = (Inr j, w')"
    by (elim andthen_InrE) (simp add: gets_iff)
  from rest have n: "recent_jobs (a_companyId actor) now v < 10" by (simp add: throw_iff split: if_splits)
  from rest n obtain c u where "create_job job v = (Inr c, u)"
    "andthen (add_event (guard_event_document (a_companyId actor) (j_id c) (a_id actor) ''queued'' now)) (\<lambda>_. return c) u = (Inr j, w')"
    by (auto elim: andthen_InrE)
  then show ?thesis using r n by (auto simp: create_job_run dest!: add_event_then)
qed

lemma admit_copy_Inr:
  assumes "admit_copy actor scan document now w = (Inr j, w')"
  shows "\<exists>a v u d. resolve True (a_id actor) (a_companyId actor) (j_sourceFileId scan) w = (Inr a, v)
    \<and> create_job (document d) v = (Inr (document d), u) \<and> j = document d
    \<and> (\<exists>e. w' = u\<lparr>guardEvents := guardEvents u @ [e]\<rparr>)"
  using assms unfolding admit_copy_def
  by (clarsimp simp: andthen_Inr_iff gets_iff throw_iff add_event_def modify_iff return_iff create_job_run
      split: option.splits if_splits) blast

lemma moved_admission:
  assumes "resolve s u c f w = (Inr a, v)" "create_job j v = (Inr k, x)" "w' = x\<lparr>guardEvents := es\<rparr>"
    "job_ok j" "abs_job j = (Queued, 0)" "j_leaseToken j = None" "j_id j \<notin> j_id ` set (guardJobs w)"
  shows "moved p avoid w w'"
proof -
  have "guardJobs v = guardJobs w" using resolve_frame [OF assms(1)] by (simp add: same_guard_def)
  then have "moved p avoid v x" using assms(7) by (intro moved_create [OF assms(2,4,5,6)]) simp
  then have "moved p avoid w x" by (rule moved_trans [OF moved_resolve [OF assms(1)]])
  then show ?thesis by (rule moved_trans) (simp add: moved_same assms(3))
qed

lemma cancel_Inr:
  assumes "cancel_transaction actor job i now w = (Inr u, w')"
  shows "\<exists>a v. resolve True (a_id actor) (a_companyId actor) (j_sourceFileId job) w = (Inr a, v)
    \<and> guardFindings w' = guardFindings v \<and> files w' = files v
    \<and> guardJobs w' = updateOne (\<lambda>j. j_id j = i \<and> j_companyId j = a_companyId actor
         \<and> j_requestedBy j = a_id actor \<and> j_active j) (cancel_job now) (guardJobs v)"
proof -
  from assms [unfolded cancel_transaction_def] obtain a v changed x where
    r: "resolve True (a_id actor) (a_companyId actor) (j_sourceFileId job) w = (Inr a, v)"
    and c: "update_job (\<lambda>j. j_id j = i \<and> j_companyId j = a_companyId actor
         \<and> j_requestedBy j = a_id actor \<and> j_active j) (cancel_job now) v = (Inr changed, x)"
    and e: "(if changed then add_event (guard_event_document (a_companyId actor) i (a_id actor) ''cancelled'' now)
      else return ()) x = (Inr u, w')" by (elim andthen_InrE)
  from e have "guardJobs w' = guardJobs x" "guardFindings w' = guardFindings x" "files w' = files x"
    by (auto simp: add_event_def modify_iff return_iff split: if_splits)
  then show ?thesis using r c by (intro exI conjI) (auto simp: update_job_run)
qed

lemma moved_cancel:
  assumes "cancel_transaction actor job i now w = (Inr u, w')" shows "moved p avoid w w'"
proof -
  from cancel_Inr [OF assms] obtain a v where r: "resolve True (a_id actor) (a_companyId actor) (j_sourceFileId job) w = (Inr a, v)"
    and g: "guardJobs w' = updateOne (\<lambda>j. j_id j = i \<and> j_companyId j = a_companyId actor
         \<and> j_requestedBy j = a_id actor \<and> j_active j) (cancel_job now) (guardJobs v)" by blast
  have "moved p avoid v w'" unfolding moved_def g by (intro r_into_rtranclp jobs_move_update) simp
  then show ?thesis using moved_trans [OF moved_resolve [OF r]] by blast
qed

lemma insert_Inr:
  "(if fs \<noteq> [] then insert_findings (map (stored_finding job) fs) else return ()) v = (Inr u, x) \<Longrightarrow>
     x = v\<lparr>guardFindings := guardFindings v @ map (stored_finding job) fs\<rparr>"
  by (auto simp: insert_findings_def Let_def andthen_Inr_iff gets_iff modify_iff return_iff throw_iff split: if_splits)

lemma publish_Inr:
  assumes "publish_transaction job token result digest now w = (Inr u, w')"
  shows "(find (claim job token now) (guardJobs w) = None \<and> w' = w)
    \<or> (\<exists>a v. find (claim job token now) (guardJobs w) \<noteq> None
        \<and> resolve_job True job (w\<lparr>guardJobs := updateOne (claim job token now) (set_phase Ph_Completed) (guardJobs w)\<rparr>) = (Inr a, v)
        \<and> guardJobs w' = updateOne (own_claim job token) (complete_scan result digest now) (guardJobs v)
        \<and> guardFindings w' = guardFindings v @ map (stored_finding job) (sr_findings result)
        \<and> files w' = files v)"
proof -
  from assms [unfolded publish_transaction_def] obtain b x where
    c: "update_job (claim job token now) (set_phase Ph_Completed) w = (Inr b, x)"
    and rest: "(if \<not> b then return ()
     else
     andthen (resolve_job True job) (\<lambda>_.
     andthen (if sr_findings result \<noteq> [] then insert_findings (map (stored_finding job) (sr_findings result))
              else return ()) (\<lambda>_.
     andthen (update_job (own_claim job token) (complete_scan result digest now)) (\<lambda>_.
     add_event (guard_event_document (j_companyId job) (j_id job) (j_requestedBy job) ''completed'' now))))) x = (Inr u, w')"
    by (rule andthen_InrE)
  have x: "x = w\<lparr>guardJobs := updateOne (claim job token now) (set_phase Ph_Completed) (guardJobs w)\<rparr>"
    and b: "b \<longleftrightarrow> find (claim job token now) (guardJobs w) \<noteq> None" using c by (simp_all add: update_job_run)
  show ?thesis
  proof (cases b)
    case False
    then have "w' = x" "find (claim job token now) (guardJobs w) = None" using rest b by (simp_all add: return_iff)
    then show ?thesis using x by (simp add: updateOne_no_match)
  next
    case True
    with rest have "andthen (resolve_job True job) (\<lambda>_.
     andthen (if sr_findings result \<noteq> [] then insert_findings (map (stored_finding job) (sr_findings result))
              else return ()) (\<lambda>_.
     andthen (update_job (own_claim job token) (complete_scan result digest now)) (\<lambda>_.
     add_event (guard_event_document (j_companyId job) (j_id job) (j_requestedBy job) ''completed'' now)))) x = (Inr u, w')"
      by simp
    then obtain a v y e z where r: "resolve_job True job x = (Inr a, v)"
      and i: "(if sr_findings result \<noteq> [] then insert_findings (map (stored_finding job) (sr_findings result))
        else return ()) v = (Inr (), y)"
      and p: "update_job (own_claim job token) (complete_scan result digest now) y = (Inr e, z)"
      and w': "add_event (guard_event_document (j_companyId job) (j_id job) (j_requestedBy job) ''completed'' now) z = (Inr u, w')"
      by (elim andthen_InrE) simp
    show ?thesis using True b r insert_Inr [OF i] p w' unfolding x
      by (intro disjI2 exI conjI) (auto simp: update_job_run add_event_def modify_iff)
  qed
qed

lemma moved_publish:
  assumes run: "publish_transaction job token result digest now w = (Inr u, w')"
  shows "moved True avoid w w'"
  using publish_Inr [OF run]
proof (elim disjE exE conjE)
  fix a v
  let ?js = "updateOne (claim job token now) (set_phase Ph_Completed) (guardJobs w)"
  assume r: "resolve_job True job (w\<lparr>guardJobs := ?js\<rparr>) = (Inr a, v)"
    and w': "guardJobs w' = updateOne (own_claim job token) (complete_scan result digest now) (guardJobs v)"
  have v: "guardJobs v = ?js" using resolve_frame r by (simp add: resolve_job_def same_guard_def)
  have "jobs_move True avoid (guardJobs w) ?js" by (rule jobs_move_update) simp
  moreover have "jobs_move True avoid ?js (guardJobs w')"
    unfolding w' v by (rule jobs_move_update) (simp add: own_claim_def)
  ultimately show ?thesis by (simp add: moved_def)
qed (simp add: moved_same)


text \<open>An update of a job followed by an event when there was a job.\<close>

lemma moved_update_event:
  assumes "committing outcome (andthen (update_job q g) (\<lambda>changed.
      if changed then job_event job action now else return ())) w = (r, w')"
    and "\<And>j. j \<in> set (guardJobs w) \<Longrightarrow> q j \<Longrightarrow> job_change p avoid j (g j)"
  shows "moved p avoid w w'" "guardFindings w' = guardFindings w" "files w' = files w"
proof -
  have "w' = w \<or> (\<exists>x. andthen (update_job q g) (\<lambda>changed.
      if changed then job_event job action now else return ()) w = (Inr x, w'))"
    using committing_effect [OF assms(1)] .
  then have e: "w' = w \<or> (guardJobs w' = updateOne q g (guardJobs w) \<and> guardFindings w' = guardFindings w \<and> files w' = files w)"
    by (auto simp: andthen_Inr_iff update_job_run job_event_def add_event_def modify_iff return_iff split: if_splits)
  then show "moved p avoid w w'"
  proof (elim disjE conjE)
    assume "guardJobs w' = updateOne q g (guardJobs w)"
    then show ?thesis using assms(2) unfolding moved_def
      by (auto intro!: r_into_rtranclp jobs_move_update)
  qed (simp add: moved_same)
  show "guardFindings w' = guardFindings w" "files w' = files w" using e by auto
qed

lemma terminal_effect:
  assumes "terminal job token code now outcome w = (r, w')"
  shows "moved p avoid w w' \<and> guardFindings w' = guardFindings w \<and> files w' = files w"
  using moved_update_event [OF assms [unfolded terminal_def], of p avoid] by (simp add: claim_def own_claim_def)

lemma recover_effect:
  assumes "recover_job job now outcome w = (r, w')" "snapshot_of w job" "jobs_ok (guardJobs w)"
  shows "moved p avoid w w' \<and> guardFindings w' = guardFindings w \<and> files w' = files w"
proof -
  have c: "job_change p avoid j ((if j_attempts job \<ge> 3 then fail_job Guard_Timeout now else requeue_job) j)"
    if "j \<in> set (guardJobs w)" "j_id j = j_id job \<and> j_companyId j = j_companyId job
      \<and> j_status j = Processing \<and> j_leaseToken j = j_leaseToken job \<and> lease_expired now j" for j
  proof -
    have "j_leaseToken j \<noteq> None" using assms(3) that by (auto simp: jobs_ok_def job_ok_def)
    then have "j_attempts j = j_attempts job" using assms(2) that by (auto simp: snapshot_of_def)
    then show ?thesis using that(2) by simp
  qed
  show ?thesis using moved_update_event [OF assms(1) [unfolded recover_job_def Let_def], of p avoid] c by blast
qed

lemma claim_next_effect:
  assumes "claim_next cfg token now w = (Inr found, w')" "avoid \<noteq> Some token"
  shows "moved p avoid w w' \<and> guardFindings w' = guardFindings w \<and> files w' = files w"
proof (cases "sort_key j_createdAt (filter (claimable cfg) (guardJobs w))")
  case Nil
  then show ?thesis using assms(1) by (simp add: claim_next_def andthen_def gets_def return_def moved_same)
next
  case (Cons job rest)
  then have "w' = w\<lparr>guardJobs := updateOne (\<lambda>j. j_id j = j_id job \<and> claimable cfg j)
      (start_job token (leaseMs cfg) now) (guardJobs w)\<rparr>"
    using assms(1) by (auto simp: claim_next_def andthen_Inr_iff gets_iff update_job_run return_iff)
  then show ?thesis using assms(2)
    by (auto simp: moved_def claimable_def intro!: r_into_rtranclp jobs_move_update)
qed

lemma advance_effect:
  assumes "advance job token phase now w = (Inr u, w')"
  shows "moved p avoid w w' \<and> guardFindings w' = guardFindings w \<and> files w' = files w"
proof -
  have "w' = w\<lparr>guardJobs := updateOne (claim job token now) (set_phase phase) (guardJobs w)\<rparr>"
    using assms by (auto simp: advance_def andthen_Inr_iff update_job_run return_iff)
  then show ?thesis by (auto simp: moved_def intro!: r_into_rtranclp jobs_move_update)
qed

lemma announce_Inr:
  assumes "andthen (update_job (claim job token now) (announce_output d)) (\<lambda>claimed.
      if \<not> claimed then throw (ScanError Guard_Access_Revoked)
      else if b then throw (ScanError Guard_Output_Verification_Failed)
      else resolve_job True job) w = (Inr a, w')"
  shows "find (claim job token now) (guardJobs w) \<noteq> None
    \<and> resolve_job True job (w\<lparr>guardJobs := updateOne (claim job token now) (announce_output d) (guardJobs w)\<rparr>) = (Inr a, w')"
  using assms by (auto simp: andthen_Inr_iff update_job_run throw_iff split: if_splits)

lemma announce_effect:
  assumes "announce env job token result w = (r, w')"
  shows "moved p avoid w w' \<and> guardFindings w' = guardFindings w
    \<and> file_core ` set (files w') = file_core ` set (files w)"
  using committing_effect [OF assms [unfolded announce_def]]
proof (elim disjE exE)
  fix a assume run: "andthen (update_job (claim job token (ce_announceAt env)) (announce_output (sz_outputDigest result)))
     (\<lambda>claimed. if \<not> claimed then throw (ScanError Guard_Access_Revoked)
      else if j_outputDigest job \<noteq> None \<and> j_outputDigest job \<noteq> Some []
        \<and> j_outputDigest job \<noteq> Some (sz_outputDigest result)
      then throw (ScanError Guard_Output_Verification_Failed)
      else resolve_job True job) w = (Inr a, w')"
  let ?w = "w\<lparr>guardJobs := updateOne (claim job token (ce_announceAt env)) (announce_output (sz_outputDigest result)) (guardJobs w)\<rparr>"
  have f: "same_guard ?w w'" using announce_Inr [OF run] resolve_frame by (auto simp: resolve_job_def)
  then have "map file_core (files w') = map file_core (files w)" by (simp add: same_guard_def)
  then have "file_core ` set (files w') = file_core ` set (files w)" by (metis list.set_map)
  moreover have "moved p avoid w ?w" by (auto simp: moved_def intro!: r_into_rtranclp jobs_move_update)
  ultimately show ?thesis using f moved_trans [of p avoid w ?w w'] by (simp add: same_guard_def moved_same)
qed (simp add: moved_same)

lemma store_effect:
  assumes "store_output env key body w = (r, w')"
  shows "w' = w \<or> w' = w\<lparr>objects := (objects w)(key \<mapsto> body)\<rparr>"
proof (cases "ce_timedOut env")
  case False
  then show ?thesis using assms putObject_frame by (simp add: store_output_def)
next
  case True
  obtain r0 w0 where p: "putObject (ce_storage env) key body w = (r0, w0)" by fastforce
  have "w' = w0" using assms True p by (cases r0) (auto simp: store_output_def andthen_def catching_def return_def throw_def)
  then show ?thesis using putObject_frame [OF p] by simp
qed

lemma tombstone_effect: "moved p avoid w (tombstone file now w)" "guardFindings (tombstone file now w) = guardFindings w"
  "files (tombstone file now w) = files w"
  by (auto simp: tombstone_def moved_def split: option.split intro!: r_into_rtranclp jobs_move_update)


lemma resolve_Inr:
  assumes "resolve session u c f w = (Inr a, w')"
  shows "a_id a = u \<and> a_companyId a = c"
  using assms unfolding resolve_def
  by (auto simp: andthen_Inr_iff gets_iff throw_iff return_iff Let_def split: option.splits)

lemma publishGuardCopy_id: "publishGuardCopy m e a src out now w = (Inr i, w') \<Longrightarrow> i = go_fileId out"
  using publishGuardCopy_Inr by blast

lemma publish_copy_Inr:
  assumes "andthen (update_job (claim job token now) (set_phase Ph_Publishing)) (\<lambda>claimed.
      if \<not> claimed then throw (ScanError Guard_Access_Revoked)
      else
      andthen (resolve True i c (j_sourceFileId job)) (\<lambda>liveActor.
      andthen (publishGuardCopy m e liveActor (j_sourceFileId job) out now) (\<lambda>fileId.
      andthen (update_job (claim job token now) (complete_copy result fileId now)) (\<lambda>completed.
      if \<not> completed then throw (ScanError Guard_Access_Revoked)
      else job_event job ''completed'' now)))) w = (Inr u, w')"
  shows "\<exists>a v x. find (claim job token now) (guardJobs w) \<noteq> None
    \<and> resolve True i c (j_sourceFileId job)
        (w\<lparr>guardJobs := updateOne (claim job token now) (set_phase Ph_Publishing) (guardJobs w)\<rparr>) = (Inr a, v)
    \<and> publishGuardCopy m e a (j_sourceFileId job) out now v = (Inr (go_fileId out), x)
    \<and> guardJobs w' = updateOne (claim job token now) (complete_copy result (go_fileId out) now) (guardJobs x)
    \<and> guardFindings w' = guardFindings x \<and> files w' = files x"
  using assms
  by (clarsimp simp: andthen_Inr_iff update_job_run throw_iff job_event_def add_event_def modify_iff
      split: if_splits) (frule publishGuardCopy_id, blast)


lemma publish_copy_effect:
  assumes run: "publish_copy env job token actor result outputId key w = (r, w')"
    and s: "snapshot_of w job" "j_kind job = Sanitize" "j_resultFileId job = Some outputId" "a_companyId actor = j_companyId job"
  shows "moved p avoid w w' \<and> guardFindings w' = guardFindings w
    \<and> (w' = w \<or> (find (claim job token (ce_publishAt env)) (guardJobs w) \<noteq> None
        \<and> (\<forall>f \<in> set (files w'). file_core f \<in> set (map file_core (files w))
             \<or> file_core f = (outputId, j_companyId job, key))))"
  using committing_effect [OF run [unfolded publish_copy_def Let_def]]
proof (elim disjE exE)
  fix u
  let ?q = "claim job token (ce_publishAt env)"
  let ?js = "updateOne ?q (set_phase Ph_Publishing) (guardJobs w)"
  assume "andthen (update_job ?q (set_phase Ph_Publishing)) (\<lambda>claimed.
      if \<not> claimed then throw (ScanError Guard_Access_Revoked)
      else
      andthen (resolve True (a_id actor) (a_companyId actor) (j_sourceFileId job)) (\<lambda>liveActor.
      andthen (publishGuardCopy (ce_maxSize env) (ce_paymentsEnabled env) liveActor (j_sourceFileId job)
         \<lparr>go_fileId = outputId, go_jobId = j_id job, go_storageKey = key,
          go_size = int (length (sz_bytes result))\<rparr> (ce_publishAt env)) (\<lambda>fileId.
      andthen (update_job ?q (complete_copy result fileId (ce_publishAt env))) (\<lambda>completed.
      if \<not> completed then throw (ScanError Guard_Access_Revoked)
      else job_event job ''completed'' (ce_publishAt env))))) w = (Inr u, w')"
  from publish_copy_Inr [OF this] obtain a v x where c: "find ?q (guardJobs w) \<noteq> None"
    and res: "resolve True (a_id actor) (a_companyId actor) (j_sourceFileId job) (w\<lparr>guardJobs := ?js\<rparr>) = (Inr a, v)"
    and p: "publishGuardCopy (ce_maxSize env) (ce_paymentsEnabled env) a (j_sourceFileId job)
         \<lparr>go_fileId = outputId, go_jobId = j_id job, go_storageKey = key,
          go_size = int (length (sz_bytes result))\<rparr> (ce_publishAt env) v = (Inr outputId, x)"
    and w': "guardJobs w' = updateOne ?q (complete_copy result outputId (ce_publishAt env)) (guardJobs x)"
      "guardFindings w' = guardFindings x" "files w' = files x" by auto
  have v: "guardJobs v = ?js" "guardFindings v = guardFindings w" "map file_core (files v) = map file_core (files w)"
    using resolve_frame [OF res] by (simp_all add: same_guard_def)
  note f = publishGuardCopy_frame [OF p]
  have k: "j_resultFileId j = Some outputId \<and> j_kind j = Sanitize" if "j \<in> set ?js" "j_id j = j_id job" for j
  proof -
    from that(1) obtain k where "k \<in> set (guardJobs w)" "j_resultFileId j = j_resultFileId k" "j_kind j = j_kind k" "j_id j = j_id k"
      by (auto simp: set_phase_def dest: set_updateOneD)
    then show ?thesis using s that(2) by (auto simp: snapshot_of_def identity_def)
  qed
  have "jobs_move p avoid (guardJobs w) ?js" by (rule jobs_move_update) simp
  moreover have "jobs_move p avoid ?js (guardJobs w')"
    unfolding w' using f v(1) by simp (rule jobs_move_update, auto simp: claim_def own_claim_def k)
  ultimately have "moved p avoid w w'" by (simp add: moved_def)
  moreover have "a_companyId a = j_companyId job" using resolve_Inr [OF res] s(4) by simp
  ultimately show ?thesis using f v w' c by simp
qed (simp add: moved_same)

lemma cleanup_effect:
  assumes "cleanup_job env now job w = (r, w')"
  shows "moved p avoid w w' \<and> guardFindings w' = guardFindings w \<and> files w' = files w"
proof -
  let ?g = "\<lambda>j. j\<lparr>j_cleanupAfter := Some (now + 30000)\<rparr>" and ?q = "\<lambda>j. j_id j = j_id job \<and> \<not> j_active j"
  have k: "keeps (\<lambda>v. guardJobs v = updateOne ?q ?g (guardJobs w) \<and> guardFindings v = guardFindings w \<and> files v = files w)
      (case (j_outputStorageKey job, j_resultFileId job) of
          (Some key, Some fileId) \<Rightarrow>
            if key = [] then return ()
            else
            andthen (guardCopyExists (j_companyId job) fileId) (\<lambda>copy.
            if copy \<noteq> None then return ()
            else if key \<noteq> output_key (j_companyId job) (j_id job) then return ()
            else deleteObject (ce_storage env) key)
        | _ \<Rightarrow> return ())" (is "keeps ?I ?m")
  proof -
    have d: "keeps ?I (deleteObject e key)" for e key
      by (rule keepsI) (auto dest: deleteObject_frame)
    show ?thesis unfolding guardCopyExists_def
      by (auto split: option.split intro!: keeps_intros d)
  qed
  obtain b v where u: "update_job ?q ?g w = (Inr b, v)" by (simp add: update_job_run)
  then have i: "?I v" by (simp add: update_job_run)
  obtain r' t where m: "?m v = (r', t)" by fastforce
  have "catching (andthen (update_job ?q ?g) (\<lambda>_. ?m)) (\<lambda>_. return ()) w = (r, w')"
    using assms by (simp only: cleanup_job_def)
  then have "w' = t" using u m by (cases r') (simp_all add: catching_def andthen_def return_def)
  then have "?I w'" using keepsD [OF k m i] by simp
  then show ?thesis by (auto simp: moved_def intro!: r_into_rtranclp jobs_move_update)
qed


section \<open>All steps\<close>

text \<open>Where a file of the next state comes from.\<close>

definition file_from :: "world \<Rightarrow> company_file \<Rightarrow> bool" where
  "file_from w f \<longleftrightarrow> file_core f \<in> file_core ` set (files w) \<or> \<not> guard_key (f_storageKey f)
     \<or> (\<exists>j \<in> set (guardJobs w). j_active j \<and> j_kind j = Sanitize
          \<and> j_outputStorageKey j = Some (f_storageKey f) \<and> j_resultFileId j = Some (f_id f)
          \<and> j_companyId j = f_companyId f)"

lemma file_from_core: "map file_core (files w') = map file_core (files w) \<Longrightarrow> f \<in> set (files w') \<Longrightarrow> file_from w f"
  unfolding file_from_def by (metis image_eqI list.set_map)

lemma file_from_image: "file_core ` set (files w') = file_core ` set (files w) \<Longrightarrow> f \<in> set (files w') \<Longrightarrow> file_from w f"
  unfolding file_from_def by blast

definition quiet :: "string option \<Rightarrow> world \<Rightarrow> world \<Rightarrow> bool" where
  "quiet avoid w w' \<longleftrightarrow> moved False avoid w w' \<and> guardFindings w' = guardFindings w
     \<and> (\<forall>f \<in> set (files w'). file_from w f)"

lemma quiet_files: "moved False avoid w w' \<Longrightarrow> guardFindings w' = guardFindings w \<Longrightarrow> files w' = files w \<Longrightarrow> quiet avoid w w'"
  by (simp add: quiet_def file_from_def)

lemma quiet_admission:
  assumes "resolve s u c f w = (Inr a, v)" "create_job j v = (Inr k, x)" "w' = x\<lparr>guardEvents := es\<rparr>"
    "job_ok j" "abs_job j = (Queued, 0)" "j_leaseToken j = None" "j_id j \<notin> j_id ` set (guardJobs w)"
  shows "quiet avoid w w'"
proof -
  have "guardFindings w' = guardFindings w" "map file_core (files w') = map file_core (files w)"
    using resolve_frame [OF assms(1)] assms(2,3) by (auto simp: same_guard_def create_job_run)
  then show ?thesis using moved_admission [OF assms] file_from_core by (auto simp: quiet_def)
qed

lemma quiet_cancel:
  assumes "cancel_transaction actor job i now w = (Inr u, w')" shows "quiet avoid w w'"
proof -
  from cancel_Inr [OF assms] obtain a v where r: "resolve True (a_id actor) (a_companyId actor) (j_sourceFileId job) w = (Inr a, v)"
    and f: "guardFindings w' = guardFindings v" "files w' = files v" by blast
  then have "guardFindings w' = guardFindings w" "map file_core (files w') = map file_core (files w)"
    using resolve_frame [OF r] by (simp_all add: same_guard_def)
  then show ?thesis using moved_cancel [OF assms] file_from_core by (auto simp: quiet_def)
qed

lemma quiet_publish_copy:
  assumes run: "publish_copy env job token actor result outputId key w = (r, w')"
    and s: "snapshot_of w job" "j_kind job = Sanitize" "j_resultFileId job = Some outputId"
      "a_companyId actor = j_companyId job" "j_outputStorageKey job = Some key"
  shows "quiet avoid w w'"
proof -
  note e = publish_copy_effect [OF run s(1-4), of False avoid]
  have "file_from w f" if f: "f \<in> set (files w')" for f
  proof (cases "w' = w")
    case True
    then show ?thesis using f by (simp add: file_from_def)
  next
    case False
    with e obtain j where j: "j \<in> set (guardJobs w)" "claim job token (ce_publishAt env) j"
      by (auto simp: find_None_iff)
    then have "identity j = identity job" "j_active j" using s(1) by (auto simp: snapshot_of_def claim_def own_claim_def)
    then show ?thesis using False e f j(1) s identity_fields [of j job] by (auto simp: file_from_def file_core_def)
  qed
  then show ?thesis using e by (simp add: quiet_def)
qed

lemma guard_step_effect:
  assumes "guard_step avoid w w'" "jobs_ok (guardJobs w)"
  shows "quiet avoid w w' \<or> (\<exists>job token result digest now u.
    publish_transaction job token result digest now w = (Inr u, w') \<and> snapshot_of w job \<and> j_kind job = Scan)"
  using assms(1)
proof (cases rule: guard_step.cases)
  case (step_admit_scan actor fileId i key fp cs region t now j)
  from admit_scan_Inr [OF step_admit_scan(1)] step_admit_scan(2,3) show ?thesis
    by (auto intro!: quiet_admission)
next
  case (step_admit_copy actor scan i out key fp columns t now j)
  from admit_copy_Inr [OF step_admit_copy(1)] step_admit_copy(2,3) show ?thesis
    by (auto intro!: quiet_admission)
next
  case step_cancel
  then show ?thesis using quiet_cancel by blast
next
  case step_claim
  then show ?thesis using claim_next_effect quiet_files by blast
next
  case step_advance
  then show ?thesis using advance_effect quiet_files by blast
next
  case step_publish
  then show ?thesis by blast
next
  case step_terminal
  then show ?thesis using terminal_effect quiet_files by blast
next
  case step_recover
  then show ?thesis using recover_effect quiet_files assms(2) by blast
next
  case step_announce
  then show ?thesis using announce_effect file_from_image by (metis quiet_def)
next
  case step_store
  then show ?thesis using store_effect by (auto intro!: quiet_files moved_same dest!: store_effect)
next
  case step_publish_copy
  then show ?thesis using quiet_publish_copy by blast
next
  case step_cleanup
  then show ?thesis using cleanup_effect quiet_files by blast
next
  case step_tombstone
  then show ?thesis using tombstone_effect quiet_files by blast
next
  case step_other
  then show ?thesis by (auto simp: quiet_def moved_same file_from_def)
qed

end
