(* ===== verification/GuardPromises.thy ===== *)
theory GuardPromises
  imports GuardSafety
begin

text \<open>
  The promises of the data guard, over runs of its atomic steps (\<open>GuardSafety\<close>) and over its
  handlers: consistency of the stored data, the life cycle and its end, fenced leases, admission
  that is idempotent, findings shown to those entitled only, and safe clean-up.
\<close>

section \<open>Consistency\<close>

definition scan_done :: "guard_job \<Rightarrow> bool" where
  "scan_done j \<longleftrightarrow> j_kind j = Scan \<and> j_status j = Completed"

definition findings_of :: "world \<Rightarrow> oid \<Rightarrow> guard_finding list" where
  "findings_of w i = filter (\<lambda>f. n_jobId f = i) (guardFindings w)"

text \<open>
  The invariant: jobs are consistent and respect the unique indexes; a job has findings only when
  it is a completed scan of the same company, and then as many as it says; and a file stored under
  a key of the guard is the result of the job of that key.
\<close>

definition guard_ok :: "world \<Rightarrow> bool" where
  "guard_ok w \<longleftrightarrow> jobs_ok (guardJobs w)
     \<and> (\<forall>f \<in> set (guardFindings w). \<exists>j \<in> set (guardJobs w). scan_done j
          \<and> j_id j = n_jobId f \<and> j_companyId j = n_companyId f)
     \<and> (\<forall>j \<in> set (guardJobs w). scan_done j \<longrightarrow> int (length (findings_of w (j_id j))) = j_findingCount j)
     \<and> (\<forall>f \<in> set (files w). guard_key (f_storageKey f) \<longrightarrow> (\<exists>j \<in> set (guardJobs w). j_kind j = Sanitize
          \<and> j_outputStorageKey j = Some (f_storageKey f) \<and> j_resultFileId j = Some (f_id f)
          \<and> j_companyId j = f_companyId f))"

lemma moves_to: "(jobs_move p avoid)\<^sup>*\<^sup>* js js' \<Longrightarrow> j \<in> set js \<Longrightarrow> \<exists>j' \<in> set js'. (job_change p avoid)\<^sup>*\<^sup>* j j'"
proof (induction rule: rtranclp_induct)
  case (step ks ls)
  then show ?case using moved_to rtranclp.rtrancl_into_rtrancl by metis
qed blast

lemma changes_identity: "(job_change p avoid)\<^sup>*\<^sup>* j j' \<Longrightarrow> identity j' = identity j"
  by (induction rule: rtranclp_induct) (auto dest: job_change_identity)

text \<open>Outside of publication, completed scans are the same before and after.\<close>

lemma change_done:
  "job_change False avoid j j' \<Longrightarrow> job_ok j \<Longrightarrow> scan_done j' = scan_done j \<and> (scan_done j \<longrightarrow> core j' = core j)"
proof -
  assume c: "job_change False avoid j j'" and ok: "job_ok j"
  have k: "j_kind j' = j_kind j" using identity_fields [OF job_change_identity [OF c]] by simp
  have a: "j_active j \<Longrightarrow> j_status j \<noteq> Completed" using ok by (auto simp: job_ok_def)
  from c show ?thesis unfolding job_change_def
    by (elim conjE disjE) (use a in \<open>simp_all add: scan_done_def ended_as_def core_def k\<close>)
qed

lemma fresh_not_done: "fresh_job js j \<Longrightarrow> \<not> scan_done j"
  by (simp add: fresh_job_def abs_job_def scan_done_def)

definition done_view :: "guard_job list \<Rightarrow> (oid \<times> oid \<times> int) set" where
  "done_view js = (\<lambda>j. (j_id j, j_companyId j, j_findingCount j)) ` {j \<in> set js. scan_done j}"

lemma done_view_move:
  assumes m: "jobs_move False avoid js js'" and ok: "jobs_ok js"
  shows "done_view js' = done_view js"
proof -
  have c: "(j_id j', j_companyId j', j_findingCount j') = (j_id j, j_companyId j, j_findingCount j) \<and> scan_done j = scan_done j'"
    if "job_change False avoid j j'" "j \<in> set js" "scan_done j \<or> scan_done j'" for j j'
  proof -
    have "job_ok j" using ok that(2) by (simp add: jobs_ok_def)
    from change_done [OF that(1) this] identity_fields [OF job_change_identity [OF that(1)]] that(3)
    show ?thesis by (auto simp: core_def)
  qed
  show ?thesis
  proof (intro set_eqI iffI)
    fix x assume "x \<in> done_view js'"
    then obtain j' where j': "j' \<in> set js'" "scan_done j'" "x = (j_id j', j_companyId j', j_findingCount j')"
      by (auto simp: done_view_def)
    with moved_from [OF m j'(1)] fresh_not_done obtain j where "j \<in> set js" "job_change False avoid j j'" by blast
    then show "x \<in> done_view js" using c [of j j'] j' unfolding done_view_def by (intro image_eqI [of _ _ j]) auto
  next
    fix x assume "x \<in> done_view js"
    then obtain j where j: "j \<in> set js" "scan_done j" "x = (j_id j, j_companyId j, j_findingCount j)"
      by (auto simp: done_view_def)
    with moved_to [OF m j(1)] obtain j' where "j' \<in> set js'" "job_change False avoid j j'" by blast
    then show "x \<in> done_view js'" using c [of j j'] j unfolding done_view_def by (intro image_eqI [of _ _ j']) auto
  qed
qed

lemma done_view_moves:
  "(jobs_move False avoid)\<^sup>*\<^sup>* js js' \<Longrightarrow> jobs_ok js \<Longrightarrow> done_view js' = done_view js"
proof (induction rule: rtranclp_induct)
  case (step ks ls)
  then show ?case using done_view_move jobs_moves_ok by metis
qed simp

text \<open>The two conditions on findings, over the completed scans.\<close>

lemma findings_iff:
  "(\<forall>f \<in> set fs. \<exists>j \<in> set js. scan_done j \<and> j_id j = n_jobId f \<and> j_companyId j = n_companyId f)
   \<longleftrightarrow> (\<forall>f \<in> set fs. \<exists>n. (n_jobId f, n_companyId f, n) \<in> done_view js)"
  "(\<forall>j \<in> set js. scan_done j \<longrightarrow> P (j_id j) (j_findingCount j))
   \<longleftrightarrow> (\<forall>(i, c, n) \<in> done_view js. P i n)"
proof -
  have m: "(\<exists>j \<in> set js. scan_done j \<and> j_id j = i \<and> j_companyId j = c) \<longleftrightarrow> (\<exists>n. (i, c, n) \<in> done_view js)" for i c
    by (auto simp: done_view_def image_iff)
  show "(\<forall>f \<in> set fs. \<exists>j \<in> set js. scan_done j \<and> j_id j = n_jobId f \<and> j_companyId j = n_companyId f)
   \<longleftrightarrow> (\<forall>f \<in> set fs. \<exists>n. (n_jobId f, n_companyId f, n) \<in> done_view js)" by (simp only: m)
  show "(\<forall>j \<in> set js. scan_done j \<longrightarrow> P (j_id j) (j_findingCount j)) \<longleftrightarrow> (\<forall>(i, c, n) \<in> done_view js. P i n)"
    by (auto simp: done_view_def)
qed


lemma quiet_ok:
  assumes q: "quiet avoid w w'" and ok: "guard_ok w"
  shows "guard_ok w'"
proof -
  have jo: "jobs_ok (guardJobs w)" using ok by (simp add: guard_ok_def)
  have m: "(jobs_move False avoid)\<^sup>*\<^sup>* (guardJobs w) (guardJobs w')" and f: "guardFindings w' = guardFindings w"
    and from_w: "\<And>f. f \<in> set (files w') \<Longrightarrow> file_from w f"
    using q by (auto simp: quiet_def moved_def)
  note d = done_view_moves [OF m jo]
  have key: "\<exists>j \<in> set (guardJobs w'). j_kind j = Sanitize
          \<and> j_outputStorageKey j = Some (f_storageKey f) \<and> j_resultFileId j = Some (f_id f)
          \<and> j_companyId j = f_companyId f" if f: "f \<in> set (files w')" "guard_key (f_storageKey f)" for f
  proof -
    have "\<exists>j \<in> set (guardJobs w). j_kind j = Sanitize
          \<and> j_outputStorageKey j = Some (f_storageKey f) \<and> j_resultFileId j = Some (f_id f)
          \<and> j_companyId j = f_companyId f"
      using from_w [OF f(1)] unfolding file_from_def
    proof (elim disjE)
      assume "file_core f \<in> file_core ` set (files w)"
      then obtain g where "g \<in> set (files w)" "file_core f = file_core g" by blast
      then show ?thesis using ok f(2) by (auto simp: guard_ok_def file_core_def)
    qed (use f(2) in auto)
    then obtain j where j: "j \<in> set (guardJobs w)" "j_kind j = Sanitize"
      "j_outputStorageKey j = Some (f_storageKey f)" "j_resultFileId j = Some (f_id f)" "j_companyId j = f_companyId f"
      by blast
    from moves_to [OF m j(1)] obtain j' where j': "j' \<in> set (guardJobs w')" "identity j' = identity j"
      using changes_identity by metis
    then show ?thesis using j identity_fields [OF j'(2)] by auto
  qed
  have o: "findings_of w' i = findings_of w i" for i by (simp add: findings_of_def f)
  have "(\<forall>f \<in> set (guardFindings w'). \<exists>j \<in> set (guardJobs w'). scan_done j
          \<and> j_id j = n_jobId f \<and> j_companyId j = n_companyId f)"
    using ok d f by (simp add: guard_ok_def findings_iff(1))
  moreover have "\<forall>j \<in> set (guardJobs w'). scan_done j \<longrightarrow> int (length (findings_of w' (j_id j))) = j_findingCount j"
    using ok findings_iff(2) [of "guardJobs w'" "\<lambda>i n. int (length (findings_of w i)) = n"]
      findings_iff(2) [of "guardJobs w" "\<lambda>i n. int (length (findings_of w i)) = n"] d o by (simp add: guard_ok_def)
  ultimately show ?thesis using jobs_moves_ok [OF m jo] key by (simp add: guard_ok_def)
qed

lemma updateOne_unique:
  "distinct (map j_id js) \<Longrightarrow> j0 \<in> set js \<Longrightarrow> q j0 \<Longrightarrow> (\<And>j. q j \<Longrightarrow> j_id j = j_id j0) \<Longrightarrow>
     updateOne q g js = map (\<lambda>j. if j_id j = j_id j0 then g j else j) js"
proof (induction js)
  case (Cons a js)
  have other: "map (\<lambda>j. if j_id j = j_id a then g j else j) js = js"
    using Cons.prems(1) by (intro map_idI) (auto simp: image_iff)
  show ?case
  proof (cases "q a")
    case True
    then have "j_id a = j_id j0" by (rule Cons.prems(4))
    then show ?thesis using True other by simp
  next
    case False
    then have j0: "j0 \<in> set js" using Cons.prems(2,3) by auto
    then have "j_id a \<noteq> j_id j0" using Cons.prems(1) by (auto simp: image_iff)
    moreover have "updateOne q g js = map (\<lambda>j. if j_id j = j_id j0 then g j else j) js"
      using Cons.prems(1) by (intro Cons.IH j0 Cons.prems(3,4)) simp_all
    ultimately show ?thesis using False by simp
  qed
next
  case Nil
  from Nil.prems(2) show ?case by simp
qed

lemma publish_ok:
  assumes run: "publish_transaction job token result digest now w = (Inr u, w')"
    and s: "snapshot_of w job" "j_kind job = Scan" and ok: "guard_ok w"
  shows "guard_ok w'"
  using publish_Inr [OF run]
proof (elim disjE exE conjE)
  fix a v
  let ?q = "claim job token now" and ?o = "own_claim job token"
  let ?js = "updateOne ?q (set_phase Ph_Completed) (guardJobs w)"
  let ?done = "\<lambda>j. complete_scan result digest now (set_phase Ph_Completed j)"
  assume c: "find ?q (guardJobs w) \<noteq> None"
    and r: "resolve_job True job (w\<lparr>guardJobs := ?js\<rparr>) = (Inr a, v)"
    and w': "guardJobs w' = updateOne ?o (complete_scan result digest now) (guardJobs v)"
      "guardFindings w' = guardFindings v @ map (stored_finding job) (sr_findings result)" "files w' = files v"
  have v: "guardJobs v = ?js" "guardFindings v = guardFindings w" "map file_core (files v) = map file_core (files w)"
    using resolve_frame r by (simp_all add: resolve_job_def same_guard_def)
  from c obtain j0 where j0: "j0 \<in> set (guardJobs w)" "?q j0" by (auto simp: find_None_iff)
  have jo: "jobs_ok (guardJobs w)" and u: "distinct (map j_id (guardJobs w))" using ok by (simp_all add: guard_ok_def jobs_ok_def)
  have id: "j_id j0 = j_id job" "j_companyId j0 = j_companyId job" "j_status j0 = Processing"
    using j0(2) by (simp_all add: claim_def own_claim_def)
  have kind: "j_kind j0 = Scan" using s j0(1) id(1) by (auto simp: snapshot_of_def identity_def)
  have js: "?js = map (\<lambda>j. if j_id j = j_id j0 then set_phase Ph_Completed j else j) (guardJobs w)"
    using u j0 id(1) by (intro updateOne_unique) (auto simp: claim_def own_claim_def)
  have u1: "distinct (map j_id ?js)" using u by (simp add: map_updateOne_same set_phase_def)
  have "set_phase Ph_Completed j0 \<in> set ?js" using js j0(1) by (auto simp: image_iff)
  moreover have "?o (set_phase Ph_Completed j0)" using j0(2) by (simp add: claim_def own_claim_def set_phase_def)
  ultimately have "updateOne ?o (complete_scan result digest now) ?js
      = map (\<lambda>j. if j_id j = j_id (set_phase Ph_Completed j0) then complete_scan result digest now j else j) ?js"
    using u1 id(1) by (intro updateOne_unique) (auto simp: own_claim_def set_phase_def)
  then have jobs: "guardJobs w' = map (\<lambda>j. if j_id j = j_id j0 then ?done j else j) (guardJobs w)"
    unfolding w'(1) v(1) js by (auto simp: set_phase_def comp_def)
  have one: "j = j0" if "j \<in> set (guardJobs w)" "j_id j = j_id j0" for j
    using u that j0(1) by (metis distinct_map inj_onD)
  have fields: "scan_done (?done j0)" "j_id (?done j) = j_id j" "j_companyId (?done j) = j_companyId j"
    "j_findingCount (?done j) = int (length (sr_findings result))" "j_kind (?done j) = j_kind j"
    "j_outputStorageKey (?done j) = j_outputStorageKey j" "j_resultFileId (?done j) = j_resultFileId j" for j
    by (simp_all add: scan_done_def complete_scan_def set_phase_def drop_job_lease_def kind)
  have members: "set (guardJobs w') = insert (?done j0) {j \<in> set (guardJobs w). j_id j \<noteq> j_id j0}"
    unfolding jobs using one j0(1) by auto
  have none: "findings_of w (j_id j0) = []"
  proof (rule ccontr)
    assume "findings_of w (j_id j0) \<noteq> []"
    then obtain f where "f \<in> set (guardFindings w)" "n_jobId f = j_id j0"
      by (auto simp: findings_of_def filter_empty_conv)
    then obtain j where "j \<in> set (guardJobs w)" "scan_done j" "j_id j = j_id j0" using ok by (auto simp: guard_ok_def)
    then show False using one [of j] id(3) by (simp add: scan_done_def)
  qed
  have news: "findings_of w' i = findings_of w i @ (if i = j_id j0 then map (stored_finding job) (sr_findings result) else [])" for i
    by (auto simp: findings_of_def w'(2) v(2) stored_finding_def id(1) filter_map comp_def)
  have m: "jobs_ok (guardJobs w')"
    using jobs_moves_ok [OF _ jo, of True None "guardJobs w'"] moved_publish [OF run] by (simp add: moved_def)
  moreover have "\<forall>f \<in> set (guardFindings w'). \<exists>j \<in> set (guardJobs w'). scan_done j
          \<and> j_id j = n_jobId f \<and> j_companyId j = n_companyId f"
  proof
    fix f assume "f \<in> set (guardFindings w')"
    then consider "f \<in> set (guardFindings w)" | "f \<in> stored_finding job ` set (sr_findings result)"
      by (auto simp: w'(2) v(2))
    then show "\<exists>j \<in> set (guardJobs w'). scan_done j \<and> j_id j = n_jobId f \<and> j_companyId j = n_companyId f"
    proof cases
      case 1
      then obtain j where j: "j \<in> set (guardJobs w)" "scan_done j" "j_id j = n_jobId f" "j_companyId j = n_companyId f"
        using ok by (auto simp: guard_ok_def)
      moreover have "j_id j \<noteq> j_id j0" using one [of j] j(1,2) id(3) by (auto simp: scan_done_def)
      ultimately show ?thesis unfolding members by blast
    next
      case 2
      then show ?thesis unfolding members using fields id by (auto simp: stored_finding_def)
    qed
  qed
  moreover have "\<forall>j \<in> set (guardJobs w'). scan_done j \<longrightarrow> int (length (findings_of w' (j_id j))) = j_findingCount j"
    unfolding members using ok fields none by (auto simp: news guard_ok_def)
  moreover have "\<forall>f \<in> set (files w'). guard_key (f_storageKey f) \<longrightarrow> (\<exists>j \<in> set (guardJobs w'). j_kind j = Sanitize
          \<and> j_outputStorageKey j = Some (f_storageKey f) \<and> j_resultFileId j = Some (f_id f)
          \<and> j_companyId j = f_companyId f)"
  proof (intro ballI impI)
    fix f assume f: "f \<in> set (files w')" "guard_key (f_storageKey f)"
    then have "file_core f \<in> file_core ` set (files w)" using v(3) w'(3) by (metis image_eqI list.set_map)
    then obtain g where "g \<in> set (files w)" "file_core f = file_core g" by blast
    then obtain j where j: "j \<in> set (guardJobs w)" "j_kind j = Sanitize"
      "j_outputStorageKey j = Some (f_storageKey f)" "j_resultFileId j = Some (f_id f)" "j_companyId j = f_companyId f"
      using ok f(2) by (auto simp: guard_ok_def file_core_def)
    moreover have "j_id j \<noteq> j_id j0" using one [of j] j(1,2) kind by auto
    ultimately show "\<exists>j \<in> set (guardJobs w'). j_kind j = Sanitize \<and> j_outputStorageKey j = Some (f_storageKey f)
        \<and> j_resultFileId j = Some (f_id f) \<and> j_companyId j = f_companyId f" unfolding members by blast
  qed
  ultimately show ?thesis by (simp add: guard_ok_def)
qed (use ok in simp)

lemma guard_ok_jobs: "guard_ok w \<Longrightarrow> jobs_ok (guardJobs w)"
  by (simp add: guard_ok_def)

lemma guard_step_ok:
  assumes "guard_step avoid w w'" "guard_ok w" shows "guard_ok w'"
  using guard_step_effect [OF assms(1) guard_ok_jobs [OF assms(2)]] quiet_ok publish_ok assms(2) by blast

lemma guard_steps_ok: "(guard_step avoid)\<^sup>*\<^sup>* w w' \<Longrightarrow> guard_ok w \<Longrightarrow> guard_ok w'"
  by (induction rule: rtranclp_induct) (auto intro: guard_step_ok)


text \<open>
  C2. The data guard stays consistent: whatever steps are interleaved - admissions, cancellations,
  workers, recovery, clean-up, file deletions and everything else the program does - every job's
  status, activity, lease, error and attempts agree, a company has at most one active job and a
  request key at most one, findings exist exactly for the completed scans and in the number they
  report, and files under the guard's storage keys are the results of their jobs.
\<close>

theorem guard_consistent:
  assumes "guard_ok w" "(guard_step avoid)\<^sup>*\<^sup>* w w'"
  shows "guard_ok w'"
  using guard_steps_ok [OF assms(2,1)] .

section \<open>The life cycle\<close>

lemma guard_step_moved:
  assumes "guard_step avoid w w'" "guard_ok w" shows "moved True avoid w w'"
proof -
  have weaken: "job_change False avoid j j' \<Longrightarrow> job_change True avoid j j'" for j j' by (auto simp: job_change_def)
  then have "jobs_move False avoid js js' \<Longrightarrow> jobs_move True avoid js js'" for js js'
    unfolding jobs_move_def by blast
  then have m: "moved False avoid w w' \<Longrightarrow> moved True avoid w w'"
    unfolding moved_def using rtranclp_mono [of "jobs_move False avoid" "jobs_move True avoid"] by blast
  from guard_step_effect [OF assms(1) guard_ok_jobs [OF assms(2)]] show ?thesis
    using m moved_publish by (auto simp: quiet_def)
qed

lemma guard_steps_moved:
  assumes "(guard_step avoid)\<^sup>*\<^sup>* w w'" "guard_ok w" shows "moved True avoid w w'"
  using assms
proof (induction rule: rtranclp_induct)
  case base
  show ?case by (simp add: moved_same)
next
  case (step u v)
  have "guard_ok u" using guard_steps_ok [OF step.hyps(1) step.prems] .
  then show ?case using step moved_trans guard_step_moved by blast
qed

lemma changes_ok: "(job_change p avoid)\<^sup>*\<^sup>* j j' \<Longrightarrow> job_ok j \<Longrightarrow> job_ok j'"
  by (induction rule: rtranclp_induct) (auto dest: job_change_ok)

lemma changes_life:
  assumes "(job_change p avoid)\<^sup>*\<^sup>* j j'" "job_ok j"
  shows "life_step\<^sup>*\<^sup>* (abs_job j) (abs_job j')"
  using assms
proof (induction rule: rtranclp_induct)
  case (step k l)
  from step.IH [OF step.prems] job_change_life [OF step.hyps(2) changes_ok [OF step.hyps(1) step.prems]]
  show ?case by (metis rtranclp.rtrancl_into_rtrancl)
qed simp

lemma ended_stays:
  assumes "(job_change p avoid)\<^sup>*\<^sup>* j j'" "job_ok j" "\<not> running (j_status j)"
  shows "core j' = core j"
  using assms
proof (induction rule: rtranclp_induct)
  case (step k l)
  from step.IH [OF step.prems] have k: "core k = core j" .
  have "\<not> j_active j" using step.prems by (simp add: job_ok_def)
  then show ?case using step.hyps(2) step.prems(2) k
    by (cases "j_status j") (auto simp: job_change_def core_def)
qed simp

text \<open>
  C3. Jobs refine the life cycle: over any run, a job keeps its identity - kind, company, requester,
  source, request and output - and its status and attempts move as the abstract machine allows: it
  waits, is started at most three times, may be retried or cancelled while it runs, and once it has
  completed, failed or been cancelled nothing about its outcome changes any more.
\<close>

theorem jobs_refine_life_cycle:
  assumes "guard_ok w" "(guard_step avoid)\<^sup>*\<^sup>* w w'" "j \<in> set (guardJobs w)"
  shows "\<exists>j' \<in> set (guardJobs w'). identity j' = identity j
    \<and> life_step\<^sup>*\<^sup>* (abs_job j) (abs_job j') \<and> j_attempts j' \<le> 3
    \<and> (\<not> running (j_status j) \<longrightarrow> core j' = core j)"
proof -
  have ok: "job_ok j" using assms(1,3) by (simp add: guard_ok_def jobs_ok_def)
  from moves_to [OF guard_steps_moved [OF assms(2,1), unfolded moved_def] assms(3)] obtain j' where
    j': "j' \<in> set (guardJobs w')" "(job_change True avoid)\<^sup>*\<^sup>* j j'" by blast
  have "job_ok j'" using changes_ok [OF j'(2) ok] .
  then have "j_attempts j' \<le> 3" by (simp add: job_ok_def)
  then show ?thesis using j' changes_identity [OF j'(2)] changes_life [OF j'(2) ok] ended_stays [OF j'(2) ok] by blast
qed

section \<open>Every job ends\<close>

text \<open>What is left of a job's life: each step of the machine uses some of it up.\<close>

fun life_left :: "life \<Rightarrow> nat" where
  "life_left (Queued, n) = nat (2 * (3 - n)) + 1"
| "life_left (Processing, n) = nat (2 * (3 - n)) + 2"
| "life_left (_, n) = 0"

lemma job_change_left:
  assumes "job_change p avoid j j'" "job_ok j"
  shows "abs_job j' = abs_job j \<or> life_left (abs_job j') < life_left (abs_job j)"
proof -
  have ok': "job_ok j'" using job_change_ok [OF assms] .
  from job_change_life [OF assms] show ?thesis
  proof
    assume "life_step (abs_job j) (abs_job j')"
    moreover have "j_status j = Queued \<Longrightarrow> j_attempts j \<le> 2" "j_attempts j \<le> 3"
      using assms(2) by (simp_all add: job_ok_def)
    ultimately have "life_left (abs_job j') < life_left (abs_job j)"
      by (cases rule: life_step.cases) (auto simp: abs_job_def)
    then show ?thesis ..
  qed simp
qed

lemma changes_left:
  assumes "(job_change p avoid)\<^sup>*\<^sup>* j j'" "job_ok j"
  shows "abs_job j' = abs_job j \<or> life_left (abs_job j') < life_left (abs_job j)"
  using assms
proof (induction rule: rtranclp_induct)
  case (step k l)
  from step.IH [OF step.prems] job_change_left [OF step.hyps(2) changes_ok [OF step.hyps(1) step.prems]]
  show ?case by auto
qed simp

definition life_of :: "oid \<Rightarrow> world \<Rightarrow> life option" where
  "life_of i w = map_option abs_job (find (\<lambda>j. j_id j = i) (guardJobs w))"

lemma life_of_step:
  assumes s: "guard_step avoid w w'" and ok: "guard_ok w" and l: "life_of i w = Some l"
  shows "\<exists>l'. life_of i w' = Some l' \<and> (l' = l \<or> life_left l' < life_left l)"
proof -
  from l obtain j where f: "find (\<lambda>j. j_id j = i) (guardJobs w) = Some j" "l = abs_job j" by (auto simp: life_of_def)
  then have j: "j \<in> set (guardJobs w)" "j_id j = i" by (auto dest: find_SomeD)
  have jok: "job_ok j" using ok j by (simp add: guard_ok_def jobs_ok_def)
  from moves_to [OF guard_step_moved [OF s ok, unfolded moved_def] j(1)] obtain j' where
    j': "j' \<in> set (guardJobs w')" "(job_change True avoid)\<^sup>*\<^sup>* j j'" by blast
  have i': "j_id j' = i" using identity_fields [OF changes_identity [OF j'(2)]] j(2) by simp
  have u: "distinct (map j_id (guardJobs w'))" using guard_step_ok [OF s ok] by (simp add: guard_ok_def jobs_ok_def)
  obtain k where k: "find (\<lambda>j. j_id j = i) (guardJobs w') = Some k" using j'(1) i'
    by (cases "find (\<lambda>j. j_id j = i) (guardJobs w')") (auto simp: find_None_iff)
  then have "k \<in> set (guardJobs w')" "j_id k = i" by (auto dest: find_SomeD)
  then have "k = j'" using u j'(1) i' by (metis distinct_map inj_onD)
  then show ?thesis using k f(2) changes_left [OF j'(2) jok] by (simp add: life_of_def)
qed

text \<open>
  Every job ends: in a run of any length, the status and attempts of a job that was there at
  its start change at most seven times - three starts, two retries, one more, and the end.
\<close>

theorem job_changes_bounded:
  assumes ok: "guard_ok (run 0)" and l: "life_of i (run 0) = Some l"
    and steps: "\<forall>k < n. guard_step avoid (run k) (run (Suc k))"
  shows "card {k. k < n \<and> life_of i (run (Suc k)) \<noteq> life_of i (run k)} \<le> 7"
proof -
  have inv: "guard_ok (run k) \<and> (\<exists>m. life_of i (run k) = Some m
      \<and> card {q. q < k \<and> life_of i (run (Suc q)) \<noteq> life_of i (run q)} + life_left m \<le> life_left l)" if "k \<le> n" for k
    using that
  proof (induction k)
    case 0
    then show ?case using ok l by simp
  next
    case (Suc k)
    let ?C = "\<lambda>k. {q. q < k \<and> life_of i (run (Suc q)) \<noteq> life_of i (run q)}"
    from Suc obtain m where m: "guard_ok (run k)" "life_of i (run k) = Some m" "card (?C k) + life_left m \<le> life_left l" by auto
    have s: "guard_step avoid (run k) (run (Suc k))" using steps Suc.prems by simp
    from life_of_step [OF s m(1,2)] obtain m' where m': "life_of i (run (Suc k)) = Some m'"
      "m' = m \<or> life_left m' < life_left m" by blast
    have c: "?C (Suc k) = (if m' \<noteq> m then insert k (?C k) else ?C k)"
      using m(2) m'(1) by (auto simp: less_Suc_eq)
    have "card (?C (Suc k)) \<le> card (?C k) + (if m' \<noteq> m then 1 else 0)"
      unfolding c by (auto simp: card_insert_if)
    then show ?case using m m' guard_step_ok [OF s m(1)] by (auto split: if_splits)
  qed
  have "life_left l \<le> 7"
  proof -
    from l obtain j where "find (\<lambda>j. j_id j = i) (guardJobs (run 0)) = Some j" "l = abs_job j" by (auto simp: life_of_def)
    then have "job_ok j" "l = abs_job j" using ok by (auto simp: guard_ok_def jobs_ok_def dest: find_SomeD)
    then show ?thesis by (cases "j_status j") (auto simp: abs_job_def job_ok_def)
  qed
  then show ?thesis using inv [of n] by auto
qed


section \<open>Stale workers\<close>

text \<open>
  The worker's writes on a job, all under the claim: its copy \<open>job\<close> and its token name the lease.
\<close>

datatype worker_write =
    Write_Phase guard_phase date
  | Write_Publish scan_result string date commit_outcome
  | Write_Terminal guard_error date commit_outcome
  | Write_Announce copy_env sanitize_result
  | Write_Copy copy_env actor sanitize_result oid string

fun worker_writes :: "guard_job \<Rightarrow> string \<Rightarrow> worker_write \<Rightarrow> world \<Rightarrow> (error + unit) \<times> world" where
  "worker_writes job token (Write_Phase phase now) w = advance job token phase now w"
| "worker_writes job token (Write_Publish result digest now outcome) w = publish job token result digest now outcome w"
| "worker_writes job token (Write_Terminal code now outcome) w = terminal job token code now outcome w"
| "worker_writes job token (Write_Announce env result) w = andthen (announce env job token result) (\<lambda>_. return ()) w"
| "worker_writes job token (Write_Copy env actor result i key) w = publish_copy env job token actor result i key w"

definition lease_alive :: "world \<Rightarrow> guard_job \<Rightarrow> string \<Rightarrow> bool" where
  "lease_alive w job token \<longleftrightarrow> list_ex (own_claim job token) (guardJobs w)"

lemma no_claim:
  assumes "\<not> lease_alive w job token"
  shows "find (claim job token now) (guardJobs w) = None" "updateOne (claim job token now) g (guardJobs w) = guardJobs w"
proof -
  show n: "find (claim job token now) (guardJobs w) = None"
    using assms by (auto simp: lease_alive_def list_ex_iff find_None_iff claim_def)
  then show "updateOne (claim job token now) g (guardJobs w) = guardJobs w" by (rule updateOne_no_match)
qed

lemma no_claim_update:
  "\<not> lease_alive w job token \<Longrightarrow> update_job (claim job token now) g w = (Inr False, w)"
  by (simp add: update_job_run no_claim)

lemma committing_still: "snd (m w) = w \<Longrightarrow> snd (committing outcome m w) = w"
  by (auto simp: committing_def split: prod.splits sum.splits commit_outcome.splits)

lemma stale_write:
  assumes "\<not> lease_alive w job token"
  shows "snd (worker_writes job token op w) = w"
proof -
  note n = no_claim_update [OF assms]
  show ?thesis
  proof (cases op)
    case (Write_Announce env result)
    have "snd (announce env job token result w) = w" unfolding announce_def
      by (rule committing_still) (simp add: andthen_def n throw_def)
    then show ?thesis unfolding Write_Announce by (auto simp: andthen_def return_def split: prod.splits sum.splits)
  qed (auto simp: advance_def publish_def terminal_def publish_copy_def publish_transaction_def andthen_def n
      throw_def return_def Let_def intro!: committing_still)
qed

lemma change_no_claim:
  "job_change p (Some token) j j' \<Longrightarrow> own_claim job token j' \<Longrightarrow> own_claim job token j"
  using identity_fields [of j' j]
  by (auto simp: job_change_def own_claim_def core_def ended_as_def)

lemma move_no_claim:
  assumes "jobs_move p (Some token) js js'" "\<not> list_ex (own_claim job token) js"
  shows "\<not> list_ex (own_claim job token) js'"
proof
  assume "list_ex (own_claim job token) js'"
  then obtain j' where j': "j' \<in> set js'" "own_claim job token j'" by (auto simp: list_ex_iff)
  from moved_from [OF assms(1) j'(1)] show False
  proof
    assume "fresh_job js j'"
    then show False using j'(2) by (simp add: fresh_job_def own_claim_def)
  qed (use assms(2) j'(2) change_no_claim in \<open>auto simp: list_ex_iff\<close>)
qed

lemma step_no_claim:
  assumes "guard_step (Some token) w w'" "guard_ok w" "\<not> lease_alive w job token"
  shows "\<not> lease_alive w' job token"
proof -
  have "(jobs_move True (Some token))\<^sup>*\<^sup>* (guardJobs w) (guardJobs w')"
    using guard_step_moved [OF assms(1,2)] by (simp add: moved_def)
  then show ?thesis using assms(3) unfolding lease_alive_def
    by (induction rule: rtranclp_induct) (auto dest: move_no_claim)
qed

definition other_step :: "string \<Rightarrow> world \<Rightarrow> world \<Rightarrow> bool" where
  "other_step token w w' \<longleftrightarrow> guard_ok w \<and> guard_step (Some token) w w'"

interpretation worker_lease: fenced_lease lease_alive worker_writes other_step
proof
  fix w job token op assume "\<not> lease_alive w job token"
  then show "snd (worker_writes job token op w) = w" by (rule stale_write)
next
  fix token w w' job assume "other_step token w w'" "\<not> lease_alive w job token"
  then show "\<not> lease_alive w' job token" using step_no_claim by (auto simp: other_step_def)
qed

lemma other_steps:
  "(guard_step (Some token))\<^sup>*\<^sup>* w w' \<Longrightarrow> guard_ok w \<Longrightarrow> (other_step token)\<^sup>*\<^sup>* w w'"
proof (induction rule: rtranclp_induct)
  case (step u v)
  then have "other_step token u v" using guard_steps_ok by (simp add: other_step_def)
  with step show ?case by (metis rtranclp.rtrancl_into_rtrancl)
qed simp



section \<open>Handlers are runs of steps\<close>

lemma reads_keeps: "(\<And>w0. keeps (\<lambda>v. v = w0) m) \<Longrightarrow> reads_only m"
  by (auto simp: reads_only_def keeps_def)

lemma still_processing: "keeps (\<lambda>v. v = w0) (processingSource actor fileId False)"
  unfolding processingSource_def assertLineage_def find_fenced_False by (intro keeps_intros)

lemma still_resolve: "keeps (\<lambda>v. v = w0) (resolve False u c f)"
proof -
  have "keeps (\<lambda>v. v = w0) (case (user, company) of (Some u, Some _) \<Rightarrow>
         let actor = \<lparr>a_id = i, a_companyId = c, a_role = u_role u\<rparr> in
         andthen (processingSource actor f False) (\<lambda>_. return actor) | _ \<Rightarrow> throw scan_not_found)"
    for user :: "user option" and company :: "company option" and i
    by (auto simp: Let_def split: option.split intro!: keeps_intros still_processing)
  then show ?thesis unfolding resolve_def by (intro keeps_intros) simp_all
qed

lemma still_authorized: "keeps (\<lambda>v. v = w0) (authorized actor i)"
  unfolding authorized_def by (intro keeps_intros still_resolve)

lemma reads_processing: "reads_only (processingSource actor fileId False)"
  and reads_resolve: "reads_only (resolve False u c f)"
  and reads_authorized: "reads_only (authorized actor i)"
  by (rule reads_keeps, rule still_processing, rule reads_keeps, rule still_resolve, rule reads_keeps, rule still_authorized)

lemma reads_status: "reads_only (guard_status actor i)"
  unfolding guard_status_def by (intro reads_keeps keeps_intros still_authorized)

lemma reads_unconfirmed: "reads_only (unconfirmed actor key fp e)"
  unfolding unconfirmed_def by (intro reads_keeps keeps_intros)

lemma reads_uncertain: "reads_only (uncertain_copy actor key fp e)"
  unfolding uncertain_copy_def Let_def by (intro reads_keeps keeps_intros)

lemma reads_check: "reads_only (check job token now)"
  unfolding check_def resolve_job_def by (intro reads_keeps keeps_intros still_resolve)

lemma reads_thenE:
  assumes "andthen m f w = (r, w')" "reads_only m"
  obtains "w' = w" "\<exists>e. r = Inl e" | x where "m w = (Inr x, w)" "f x w = (r, w')"
proof -
  obtain q v where m: "m w = (q, v)" by fastforce
  then have v: "v = w" using reads_onlyD [OF assms(2)] by simp
  show thesis
  proof (cases q)
    case (Inl e)
    then have "w' = w" "r = Inl e" using assms(1) m v by (simp_all add: andthen_def)
    then show ?thesis using that(1) by blast
  next
    case (Inr x)
    then show ?thesis using assms(1) m v that(2) by (simp add: andthen_def)
  qed
qed

lemma reads_gets: "reads_only (gets g)" and reads_lift: "reads_only (lift_result r)"
  by (simp_all add: reads_only_def gets_def lift_result_def)

text \<open>An admission either leaves the state alone or is its transaction, whatever it answers.\<close>

lemma admission_effect:
  assumes "catching (andthen (committing outcome m) (\<lambda>job. return (publicJob job))) h w = (r, w')" "\<And>e. reads_only (h e)"
  shows "w' = w \<or> (\<exists>j. m w = (Inr j, w'))"
proof -
  obtain q v where c: "committing outcome m w = (q, v)" by fastforce
  have "w' = v"
  proof (cases q)
    case (Inl e)
    then show ?thesis using assms(1) c reads_onlyD [OF assms(2)] by (auto simp: catching_def andthen_def)
  next
    case (Inr x)
    then show ?thesis using assms(1) c by (simp add: catching_def andthen_def return_def)
  qed
  then show ?thesis using committing_effect [OF c] by auto
qed

lemma guard_submit_effect:
  assumes "guard_submit cfg sha256 actor fileId dto i now now' outcome w = (r, w')"
  shows "w' = w \<or> (\<exists>j. admit_scan actor fileId (guard_job_document i (a_companyId actor) (a_id actor) fileId
      (lower_text (sq_requestKey dto)) (sha256 (scan_json fileId (sq_categories dto) (sq_phoneRegion dto)))
      (sort (sq_categories dto)) (sq_phoneRegion dto) now') now' w = (Inr j, w'))"
  using assms unfolding guard_submit_def Let_def
  by (auto elim!: reads_thenE [OF _ reads_resolve] reads_thenE [OF _ reads_processing] reads_thenE [OF _ reads_gets]
      simp: throw_iff lift_result_iff dest!: admission_effect [OF _ reads_unconfirmed] split: if_splits option.splits)


lemma redact_submit_effect:
  assumes "redact_submit cfg sha256 actor scanId dto i outputId now outcome w = (r, w')"
  shows "w' = w \<or> (\<exists>scan fp columns j. admit_copy actor scan (\<lambda>digest. copy_job_document i outputId actor scan
      (lower_text (rq_requestKey dto)) fp digest (sort (rq_categories dto)) columns now) now w = (Inr j, w'))"
  using assms unfolding redact_submit_def Let_def
  by (auto elim!: reads_thenE [OF _ reads_authorized] reads_thenE [OF _ reads_processing] reads_thenE [OF _ reads_gets]
      reads_thenE [OF _ reads_lift] simp: throw_iff return_iff
      dest!: admission_effect [OF _ reads_uncertain] split: if_splits option.splits)

lemma guard_cancel_effect:
  assumes "guard_cancel actor i now outcome w = (r, w')"
  shows "w' = w \<or> (\<exists>job u. cancel_transaction actor job i now w = (Inr u, w'))"
  using assms unfolding guard_cancel_def
proof (elim reads_thenE [OF _ reads_authorized])
  fix job assume "andthen (committing outcome (cancel_transaction actor job i now)) (\<lambda>_. guard_status actor i) w = (r, w')"
  moreover obtain q v where c: "committing outcome (cancel_transaction actor job i now) w = (q, v)" by fastforce
  ultimately have "w' = v" using reads_onlyD [OF reads_status] by (cases q) (auto simp: andthen_def)
  then show ?thesis using committing_effect [OF c] by auto
qed simp

lemma guard_cleanup_effect:
  "guard_cleanup cfg env now w = (r, w') \<Longrightarrow> w' = w \<or> (\<exists>job r. cleanup_job env now job w = (r, w'))"
  unfolding guard_cleanup_def
  by (auto elim!: reads_thenE [OF _ reads_gets] simp: return_iff split: if_splits list.splits)

abbreviation runs :: "world \<Rightarrow> world \<Rightarrow> bool" where
  "runs \<equiv> (guard_step None)\<^sup>*\<^sup>*"

definition held_copy :: "world \<Rightarrow> guard_job \<Rightarrow> bool" where
  "held_copy w job \<longleftrightarrow> snapshot_of w job \<and> j_id job \<in> j_id ` set (guardJobs w)"

lemma change_snapshot:
  assumes "job_change p (j_leaseToken job) j j'"
    "identity j = identity job" "j_leaseToken j = j_leaseToken job \<and> j_leaseToken j \<noteq> None \<longrightarrow> j_attempts j = j_attempts job"
  shows "j_leaseToken j' = j_leaseToken job \<and> j_leaseToken j' \<noteq> None \<longrightarrow> j_attempts j' = j_attempts job"
  using assms unfolding job_change_def by (elim conjE disjE) (auto simp: core_def ended_as_def)

lemma move_snapshot:
  assumes m: "jobs_move p (j_leaseToken job) (guardJobs w) (guardJobs w')" and h: "held_copy w job"
  shows "held_copy w' job"
proof -
  have "identity j' = identity job
     \<and> (j_leaseToken j' = j_leaseToken job \<and> j_leaseToken j' \<noteq> None \<longrightarrow> j_attempts j' = j_attempts job)"
    if j': "j' \<in> set (guardJobs w')" "j_id j' = j_id job" for j'
    using moved_from [OF m j'(1)]
  proof
    assume "\<exists>j \<in> set (guardJobs w). job_change p (j_leaseToken job) j j'"
    then obtain j where j: "j \<in> set (guardJobs w)" "job_change p (j_leaseToken job) j j'" by blast
    note i = job_change_identity [OF j(2)]
    have "j_id j = j_id job" using identity_fields [OF i] j'(2) by simp
    then have s: "identity j = identity job" "j_leaseToken j = j_leaseToken job \<and> j_leaseToken j \<noteq> None \<longrightarrow> j_attempts j = j_attempts job"
      using h j(1) by (auto simp: held_copy_def snapshot_of_def)
    show ?thesis using change_snapshot [OF j(2) s] i s(1) by simp
  next
    assume "fresh_job (guardJobs w) j'"
    then show ?thesis using h j'(2) by (auto simp: fresh_job_def held_copy_def)
  qed
  moreover have "j_id job \<in> j_id ` set (guardJobs w')"
  proof -
    from h obtain j where j: "j \<in> set (guardJobs w)" "j_id j = j_id job" by (auto simp: held_copy_def)
    from moved_to [OF m j(1)] obtain j' where "j' \<in> set (guardJobs w')" "job_change p (j_leaseToken job) j j'" by blast
    then show ?thesis using identity_fields [OF job_change_identity] j(2) by (metis image_eqI)
  qed
  ultimately show ?thesis by (auto simp: held_copy_def snapshot_of_def)
qed

lemma held_moved:
  assumes "moved p (j_leaseToken job) w w'" "held_copy w job"
  shows "held_copy w' job"
proof -
  have frame: "held_copy (u\<lparr>guardJobs := guardJobs v\<rparr>) job = held_copy v job" for u v
    by (simp add: held_copy_def snapshot_of_def)
  have "held_copy (w'\<lparr>guardJobs := js\<rparr>) job" if "(jobs_move p (j_leaseToken job))\<^sup>*\<^sup>* (guardJobs w) js" for js
    using that
  proof (induction rule: rtranclp_induct)
    case base
    then show ?case using assms(2) frame by simp
  next
    case (step ks ls)
    then show ?case using move_snapshot [of p job "w'\<lparr>guardJobs := ks\<rparr>" "w'\<lparr>guardJobs := ls\<rparr>"] by simp
  qed
  from this [of "guardJobs w'"] assms(1) frame show ?thesis by (simp add: moved_def)
qed

lemma stored_held: "jobs_ok (guardJobs w) \<Longrightarrow> job \<in> set (guardJobs w) \<Longrightarrow> held_copy w job"
  by (auto simp: jobs_ok_def held_copy_def snapshot_of_def distinct_map dest: inj_onD)

lemma recover_runs:
  assumes "recover_jobs now outcome jobs w = (r, w')" "guard_ok w" "\<forall>job \<in> set jobs. held_copy w job"
  shows "runs w w'"
  using assms
proof (induction jobs arbitrary: w)
  case Nil
  then show ?case by (simp add: return_def)
next
  case (Cons job jobs)
  obtain q v where j: "recover_job job now (outcome (j_id job)) w = (q, v)" by fastforce
  have s: "snapshot_of w job" using Cons.prems(3) by (simp add: held_copy_def)
  then have step: "guard_step None w v" using step_recover [OF j] by blast
  show ?case
  proof (cases q)
    case (Inl e)
    then have "w' = v" using Cons.prems(1) j by (simp add: andthen_def)
    then show ?thesis using step by blast
  next
    case (Inr x)
    then have "recover_jobs now outcome jobs v = (r, w')" using Cons.prems(1) j by (simp add: andthen_def)
    moreover have "held_copy v k" if "k \<in> set jobs" for k
      using held_moved [of True k w v] recover_effect [OF j s guard_ok_jobs [OF Cons.prems(2)]] Cons.prems(3) that by simp
    ultimately have "runs v w'" using Cons.IH guard_step_ok [OF step Cons.prems(2)] by blast
    then show ?thesis using step by (meson converse_rtranclp_into_rtranclp)
  qed
qed


lemma claim_next_held:
  assumes "claim_next cfg token now w = (Inr (Some job), w')" "guard_ok w"
  shows "held_copy w' job"
proof -
  from assms(1) obtain k rest where k: "sort_key j_createdAt (filter (claimable cfg) (guardJobs w)) = k # rest"
    and job: "job = start_job token (leaseMs cfg) now k"
    and w': "w' = w\<lparr>guardJobs := updateOne (\<lambda>j. j_id j = j_id k \<and> claimable cfg j) (start_job token (leaseMs cfg) now) (guardJobs w)\<rparr>"
    by (auto simp: claim_next_def andthen_Inr_iff gets_iff update_job_run return_iff split: list.splits)
  have "k \<in> set (sort_key j_createdAt (filter (claimable cfg) (guardJobs w)))" by (simp add: k)
  then have k': "k \<in> set (guardJobs w)" "claimable cfg k" by simp_all
  have u: "distinct (map j_id (guardJobs w))" using assms(2) by (simp add: guard_ok_def jobs_ok_def)
  have "guardJobs w' = map (\<lambda>j. if j_id j = j_id k then start_job token (leaseMs cfg) now j else j) (guardJobs w)"
    unfolding w' using u k' by simp (rule updateOne_unique, auto)
  then have "job \<in> set (guardJobs w')" using k'(1) unfolding job by (auto simp: image_iff)
  moreover have "guard_ok w'" using guard_step_ok [OF step_claim [OF assms(1)] assms(2), of None] by simp
  ultimately show ?thesis using stored_held guard_ok_jobs by blast
qed

lemma still_read: "keeps (\<lambda>v. v = w0) (read_source cfg env n d actor fileId)"
proof -
  have "keeps (\<lambda>v. v = w0) (download env actor fileId)"
    unfolding download_def findStoredFile_def assertLineage_def find_fenced_False
    by (intro keeps_intros) (use getObject_reads_only in \<open>auto simp: reads_only_def keeps_def\<close>)
  then have "keeps (\<lambda>v. v = w0) (andthen (catching (download env actor fileId)
                   (\<lambda>_. throw (ScanError Guard_Storage_Unavailable))) (\<lambda>(file, body).
        if d = Read_Aborted then throw (ScanError Guard_Access_Revoked)
        else if f_size file > compressedBytes cfg \<or> option_default 0 n > compressedBytes cfg
        then throw (ScanError Guard_Limit_Exceeded)
        else if int (length body) > compressedBytes cfg then throw (ScanError Guard_Limit_Exceeded)
        else if int (length body) \<noteq> f_size file
          \<or> (n \<noteq> None \<and> n \<noteq> Some (int (length body)))
        then throw (ScanError Guard_Invalid_Workbook)
        else return body))"
    by (intro keeps_intros) (auto split: prod.split intro!: keeps_intros)
  then show ?thesis unfolding read_source_def by (auto split: read_event.split intro: keeps_throw)
qed

lemma reads_read: "reads_only (read_source cfg env n d actor fileId)"
  by (rule reads_keeps, rule still_read)

lemma reads_make_copy: "reads_only (make_copy cfg env job body)"
  unfolding make_copy_def by (intro reads_keeps keeps_intros)

lemma announce_actor:
  assumes "announce env job token result w = (Inr a, w')" shows "a_companyId a = j_companyId job"
proof -
  from assms have "andthen (update_job (claim job token (ce_announceAt env)) (announce_output (sz_outputDigest result)))
     (\<lambda>claimed. if \<not> claimed then throw (ScanError Guard_Access_Revoked)
      else if j_outputDigest job \<noteq> None \<and> j_outputDigest job \<noteq> Some []
        \<and> j_outputDigest job \<noteq> Some (sz_outputDigest result)
      then throw (ScanError Guard_Output_Verification_Failed)
      else resolve_job True job) w = (Inr a, w')" by (simp add: announce_def committing_Inr)
  from announce_Inr [OF this] show ?thesis using resolve_Inr by (auto simp: resolve_job_def)
qed

lemma process_copy_runs:
  assumes run: "process_copy cfg env job token body w = (r, w')"
    and h: "held_copy w job" "j_kind job = Sanitize" and ok: "guard_ok w"
  shows "runs w w'"
  using run unfolding process_copy_def
proof (elim reads_thenE [OF _ reads_lift])
  fix u assume "(if j_engineVersion job \<noteq> SANITIZATION_VERSION then throw (ScanError Guard_Profile_Unsupported)
     else
     andthen (make_copy cfg env job body) (\<lambda>result.
     case (j_outputStorageKey job, j_resultFileId job) of
       (Some key, Some outputId) \<Rightarrow>
         if key = [] \<or> ce_abortedFirst env then throw (ScanError Guard_Access_Revoked)
         else
         andthen (announce env job token result) (\<lambda>actor.
         if ce_abortedSecond env then throw (ScanError Guard_Access_Revoked)
         else
         catching
           (andthen (store_output env key (sz_bytes result)) (\<lambda>_.
            if ce_abortedThird env then throw (ScanError Guard_Access_Revoked)
            else publish_copy env job token actor result outputId key))
           (\<lambda>error. throw (copy_failure error)))
     | _ \<Rightarrow> throw (ScanError Guard_Access_Revoked))) w = (r, w')"
  then have "w' = w \<or> (\<exists>result key outputId. j_outputStorageKey job = Some key \<and> j_resultFileId job = Some outputId
      \<and> andthen (announce env job token result) (\<lambda>actor.
         if ce_abortedSecond env then throw (ScanError Guard_Access_Revoked)
         else
         catching
           (andthen (store_output env key (sz_bytes result)) (\<lambda>_.
            if ce_abortedThird env then throw (ScanError Guard_Access_Revoked)
            else publish_copy env job token actor result outputId key))
           (\<lambda>error. throw (copy_failure error))) w = (r, w'))"
    by (auto elim!: reads_thenE [OF _ reads_make_copy] simp: throw_iff split: if_splits option.splits)
  then show ?thesis
  proof (elim disjE exE conjE)
    fix result key outputId
    assume key: "j_outputStorageKey job = Some key" "j_resultFileId job = Some outputId"
      and rest: "andthen (announce env job token result) (\<lambda>actor.
         if ce_abortedSecond env then throw (ScanError Guard_Access_Revoked)
         else
         catching
           (andthen (store_output env key (sz_bytes result)) (\<lambda>_.
            if ce_abortedThird env then throw (ScanError Guard_Access_Revoked)
            else publish_copy env job token actor result outputId key))
           (\<lambda>error. throw (copy_failure error))) w = (r, w')"
    obtain q v where a: "announce env job token result w = (q, v)" by fastforce
    have s1: "guard_step None w v" by (rule step_announce [OF a])
    have h1: "held_copy v job" using held_moved [OF _ h(1)] announce_effect [OF a] by blast
    show ?thesis
    proof (cases q)
      case (Inl e)
      then show ?thesis using rest a s1 by (auto simp: andthen_def)
    next
      case (Inr actor)
      have ca: "a_companyId actor = j_companyId job" using announce_actor a Inr by simp
      show ?thesis
      proof (cases "ce_abortedSecond env")
        case True
        then show ?thesis using rest a Inr s1 by (auto simp: andthen_def throw_def)
      next
        case False
        obtain q2 x where st: "store_output env key (sz_bytes result) v = (q2, x)" by fastforce
        have s2: "guard_step None v x" by (rule step_store [OF st])
        have "guardJobs x = guardJobs v" using store_effect [OF st] by auto
        then have "snapshot_of x job = snapshot_of v job" by (simp add: snapshot_of_def)
        then have h2: "snapshot_of x job" using h1 by (simp add: held_copy_def)
        have two: "runs w x" using s1 s2 by (meson r_into_rtranclp rtranclp.rtrancl_into_rtrancl)
        show ?thesis
        proof (cases "(\<exists>e. q2 = Inl e) \<or> ce_abortedThird env")
          case True
          then have "w' = x" using rest a Inr False st
            by (auto simp: andthen_def catching_def throw_def split: sum.splits)
          then show ?thesis using two by simp
        next
          case nt: False
          then obtain u2 where "q2 = Inr u2" by (cases q2) auto
          obtain q3 y where p: "publish_copy env job token actor result outputId key x = (q3, y)" by fastforce
          have s3: "guard_step None x y" by (rule step_publish_copy [OF p h2 h(2) ca key])
          have "w' = y" using rest a Inr False st nt p \<open>q2 = Inr u2\<close>
            by (cases q3) (auto simp: andthen_def catching_def throw_def)
          then show ?thesis using two s3 by (meson rtranclp.rtrancl_into_rtrancl)
        qed
      qed
    qed
  qed simp
qed simp


lemma advance_run: "\<exists>v. advance job token phase now w = (Inr (), v)"
  by (simp add: advance_def andthen_def update_job_def gets_def modify_def return_def)

lemma work_runs:
  assumes run: "work cfg env job body w = (r, w')" and h: "held_copy w job" and ok: "guard_ok w"
    and p: "we_process env = process_copy cfg cenv"
  shows "runs w w'"
proof (cases "j_kind job")
  case Sanitize
  obtain v where a: "advance job (we_token env) Ph_Transforming (we_phaseAt env) w = (Inr (), v)" using advance_run by blast
  have s: "guard_step None w v" by (rule step_advance [OF a])
  have h': "held_copy v job" using held_moved [OF _ h] advance_effect [OF a] by blast
  show ?thesis
  proof (cases "sanitizationApproved cfg")
    case True
    then have "process_copy cfg cenv job (we_token env) body v = (r, w')"
      using run Sanitize a p by (simp add: work_def andthen_def Let_def)
    from process_copy_runs [OF this h' Sanitize guard_step_ok [OF s ok]] show ?thesis
      using s by (rule converse_rtranclp_into_rtranclp [rotated])
  qed (use run Sanitize in \<open>simp add: work_def throw_def Let_def\<close>)
next
  case Scan
  obtain v where a: "advance job (we_token env) Ph_Scanning (we_phaseAt env) w = (Inr (), v)" using advance_run by blast
  have s: "guard_step None w v" by (rule step_advance [OF a])
  have h': "held_copy v job" using held_moved [OF _ h] advance_effect [OF a] by blast
  show ?thesis
  proof (cases "we_scan env body (j_categories job) (j_phoneRegion job)")
    case (Inl e)
    then have "w' = v" using run Scan a by (simp add: work_def andthen_def lift_result_def Let_def)
    then show ?thesis using s by blast
  next
    case (Inr result)
    then have "publish job (we_token env) result (we_digest env body) (we_endAt env) (we_publishCommit env) v = (r, w')"
      using run Scan a by (simp add: work_def andthen_def lift_result_def Let_def)
    then have "w' = v \<or> (\<exists>x. publish_transaction job (we_token env) result (we_digest env body) (we_endAt env) v = (Inr x, w'))"
      unfolding publish_def by (rule committing_effect)
    then have "w' = v \<or> guard_step None v w'" using step_publish h' Scan by (auto simp: held_copy_def)
    then show ?thesis using s by (auto intro: rtranclp.rtrancl_into_rtrancl)
  qed
qed

lemma perform_work:
  assumes "perform cfg env job w = (r, w')"
  shows "w' = w \<or> (\<exists>body. work cfg env job body w = (r, w'))"
proof -
  have r: "reads_only (resolve_job False job)" unfolding resolve_job_def by (rule reads_resolve)
  show ?thesis using assms unfolding perform_def Let_def
    by (auto elim!: reads_thenE [OF _ reads_check] reads_thenE [OF _ reads_read] reads_thenE [OF _ r]
        simp: throw_iff split: if_splits)
qed

lemma perform_runs:
  assumes "perform cfg env job w = (r, w')" "held_copy w job" "guard_ok w" "we_process env = process_copy cfg cenv"
  shows "runs w w'"
  using perform_work [OF assms(1)] work_runs assms(2-4) by blast

text \<open>A fresh identifier for a new job.\<close>

definition new_job_id :: "world \<Rightarrow> oid \<Rightarrow> bool" where
  "new_job_id w i \<longleftrightarrow> i \<notin> j_id ` set (guardJobs w) \<and> i < 16 ^ 24"

lemma andthen_step: "m s = (Inr x, t) \<Longrightarrow> andthen m f s = f x t"
  by (simp add: andthen_def)

lemma guard_run_runs:
  assumes run: "guard_run cfg env w = (r, w')" and ok: "guard_ok w"
    and p: "we_process env = process_copy cfg cenv" "we_cleanup env = guard_cleanup cfg cenv now"
  shows "runs w w'"
proof -
  obtain q1 w1 where s1: "recover cfg (we_recoverAt env) (we_recoverCommit env) w = (q1, w1)" by fastforce
  then have "recover_jobs (we_recoverAt env) (we_recoverCommit env) (expired_jobs cfg (we_recoverAt env) w) w = (q1, w1)"
    by (simp add: recover_def andthen_def gets_def)
  moreover have "held_copy w job" if "job \<in> set (expired_jobs cfg (we_recoverAt env) w)" for job
    using that stored_held [OF guard_ok_jobs [OF ok]] by (auto simp: expired_jobs_def dest: in_set_takeD)
  ultimately have r1: "runs w w1" using recover_runs ok by blast
  then have ok1: "guard_ok w1" using guard_steps_ok ok by blast
  obtain q2 w2 where s2: "guard_cleanup cfg cenv now w1 = (q2, w2)" by fastforce
  have r2: "runs w1 w2" using guard_cleanup_effect [OF s2] step_cleanup by (auto intro: r_into_rtranclp)
  have ok2: "guard_ok w2" using guard_steps_ok [OF r2 ok1] .
  obtain q3 w3 where s3: "claim_next cfg (we_token env) (we_startAt env) w2 = (q3, w3)" by fastforce
  show ?thesis
  proof (cases "isl q1 \<or> isl q2")
    case True
    then have "w' = w1 \<or> w' = w2" using run s1 s2 p(2) by (auto simp: guard_run_def andthen_def split: sum.splits)
    then show ?thesis using r1 r2 by (meson rtranclp_trans)
  next
    case False
    obtain found where q3: "q3 = Inr found" using s3
      by (auto simp: claim_next_def andthen_def gets_def update_job_def modify_def return_def split: list.splits)
    have c: "guard_step None w2 w3" using step_claim [OF s3 [unfolded q3], of None] by simp
    have ok3: "guard_ok w3" using guard_step_ok [OF c ok2] .
    have r3: "runs w w3" using r1 r2 c by (meson rtranclp_trans r_into_rtranclp)
    have rest: "(case found of None \<Rightarrow> return () | Some job \<Rightarrow>
         catching (perform cfg env job) (\<lambda>error.
           terminal job (we_token env) (failure_code error) (we_endAt env) (we_terminalCommit env))) w3 = (r, w')"
    proof -
      from False obtain u1 u2 where u: "q1 = Inr u1" "q2 = Inr u2" by (cases q1; cases q2) auto
      have c2: "we_cleanup env w1 = (Inr u2, w2)" using s2 u(2) p(2) by simp
      show ?thesis using run
        unfolding guard_run_def andthen_step [where s = w and m = "recover cfg (we_recoverAt env) (we_recoverCommit env)", OF s1 [unfolded u(1)]]
          andthen_step [where s = w1 and m = "we_cleanup env", OF c2]
          andthen_step [where s = w2 and m = "claim_next cfg (we_token env) (we_startAt env)", OF s3 [unfolded q3]] .
    qed
    show ?thesis
    proof (cases found)
      case None
      then show ?thesis using rest r3 by (simp add: return_def)
    next
      case (Some job)
      have h: "held_copy w3 job" using claim_next_held s3 q3 Some ok2 by blast
      obtain q4 w4 where s4: "perform cfg env job w3 = (q4, w4)" by fastforce
      have r4: "runs w w4" using r3 perform_runs [OF s4 h ok3 p(1)] by (rule rtranclp_trans)
      show ?thesis
      proof (cases q4)
        case (Inl e)
        then have "terminal job (we_token env) (failure_code e) (we_endAt env) (we_terminalCommit env) w4 = (r, w')"
          using rest Some s4 by (simp add: catching_def)
        from step_terminal [OF this] r4 show ?thesis by (meson rtranclp.rtrancl_into_rtrancl)
      next
        case (Inr x)
        then show ?thesis using rest Some s4 r4 by (simp add: catching_def)
      qed
    qed
  qed
qed

text \<open>
  C5. The handlers are runs of the atomic steps: submitting a scan or a redaction, cancelling, a
  clean-up and a whole round of the worker - recovery, clean-up, claiming, reading, scanning or
  sanitising, publishing or failing - change the state by a sequence of steps of the job system,
  whatever they answer. What holds of all steps therefore holds of the program's operations.
\<close>

theorem handlers_are_runs:
  assumes "guard_ok w" "new_job_id w i"
    and "we_process env = process_copy cfg cenv" "we_cleanup env = guard_cleanup cfg cenv cleanAt"
  shows "runs w (snd (guard_submit cfg sha256 actor fileId scan i now now' outcome w))
    \<and> runs w (snd (redact_submit cfg sha256 actor scanId dto i outputId now outcome w))
    \<and> runs w (snd (guard_cancel actor jobId now outcome w))
    \<and> runs w (snd (guard_cleanup cfg cenv now w))
    \<and> runs w (snd (guard_tick cfg env busy w))"
proof (intro conjI)
  show "runs w (snd (guard_submit cfg sha256 actor fileId scan i now now' outcome w))"
    using guard_submit_effect [OF surjective_pairing] step_admit_scan assms(2)
    by (metis new_job_id_def r_into_rtranclp rtranclp.rtrancl_refl)
  show "runs w (snd (redact_submit cfg sha256 actor scanId dto i outputId now outcome w))"
    using redact_submit_effect [OF surjective_pairing] step_admit_copy assms(2)
    by (metis new_job_id_def r_into_rtranclp rtranclp.rtrancl_refl)
  show "runs w (snd (guard_cancel actor jobId now outcome w))"
    using guard_cancel_effect [OF surjective_pairing] step_cancel by (metis r_into_rtranclp rtranclp.rtrancl_refl)
  show "runs w (snd (guard_cleanup cfg cenv now w))"
    using guard_cleanup_effect [OF surjective_pairing] step_cleanup by (metis r_into_rtranclp rtranclp.rtrancl_refl)
  show "runs w (snd (guard_tick cfg env busy w))"
  proof (cases "busy \<or> \<not> isolationApproved cfg")
    case True
    then show ?thesis by (simp add: guard_tick_def return_def)
  next
    case False
    obtain q v where g: "guard_run cfg env w = (q, v)" by fastforce
    then have "snd (guard_tick cfg env busy w) = v" using False
      by (cases q) (simp_all add: guard_tick_def catching_def return_def)
    then show ?thesis using guard_run_runs [OF g assms(1,3,4)] by simp
  qed
qed


section \<open>Clean-up spares published files\<close>

lemma output_key_inj: "output_key c i = output_key d j \<Longrightarrow> oid_to_string i = oid_to_string j"
proof -
  have "length (oid_to_string n) = 24" for n by (simp add: oid_to_string_def)
  then show "output_key c i = output_key d j \<Longrightarrow> oid_to_string i = oid_to_string j"
    by (auto simp: output_key_def append_eq_append_conv)
qed

lemma output_key_unique:
  assumes ok: "jobs_ok js" and j: "j \<in> set js" "k \<in> set js" "j_kind k = Sanitize"
    and key: "j_outputStorageKey k = Some (output_key (j_companyId j) (j_id j))"
  shows "k = j"
proof -
  have jk: "job_ok j" "job_ok k" using ok j by (simp_all add: jobs_ok_def)
  then have "output_key (j_companyId k) (j_id k) = output_key (j_companyId j) (j_id j)"
    using key j(3) by (simp add: job_ok_def)
  then have "oid_to_string (j_id k) = oid_to_string (j_id j)" by (rule output_key_inj)
  then have "j_id k = j_id j" using oid_to_string_inj jk by (simp add: job_ok_def)
  then show ?thesis using ok j(1,2) by (auto simp: jobs_ok_def distinct_map dest: inj_onD)
qed

definition unpublished :: "oid \<Rightarrow> oid \<Rightarrow> world \<Rightarrow> bool" where
  "unpublished c i w \<longleftrightarrow> (\<exists>j \<in> set (guardJobs w). j_companyId j = c \<and> j_id j = i \<and> \<not> j_active j)
     \<and> (\<forall>f \<in> set (files w). f_storageKey f \<noteq> output_key c i)"

lemma unpublished_step:
  assumes s: "guard_step avoid w w'" and ok: "guard_ok w" and u: "unpublished c i w"
  shows "unpublished c i w'"
proof -
  have jo: "jobs_ok (guardJobs w)" using ok by (rule guard_ok_jobs)
  from u obtain j where j: "j \<in> set (guardJobs w)" "j_companyId j = c" "j_id j = i" "\<not> j_active j"
    by (auto simp: unpublished_def)
  from moves_to [OF guard_step_moved [OF s ok, unfolded moved_def] j(1)] obtain j' where
    j': "j' \<in> set (guardJobs w')" "(job_change True avoid)\<^sup>*\<^sup>* j j'" by blast
  have "\<not> j_active j'" using j'(2) j(4) by (induction rule: rtranclp_induct) (auto dest: job_change_active)
  moreover have "f_storageKey f \<noteq> output_key c i" if f: "f \<in> set (files w')" for f
  proof
    assume key: "f_storageKey f = output_key c i"
    have "file_from w f" using guard_step_effect [OF s jo]
    proof
      assume "\<exists>job token result digest now u. publish_transaction job token result digest now w = (Inr u, w')
          \<and> snapshot_of w job \<and> j_kind job = Scan"
      then obtain job token result digest now v where p: "publish_transaction job token result digest now w = (Inr v, w')" by blast
      have "map file_core (files w') = map file_core (files w)" using publish_Inr [OF p]
      proof (elim disjE exE conjE)
        fix a x assume "resolve_job True job (w\<lparr>guardJobs := updateOne (claim job token now) (set_phase Ph_Completed) (guardJobs w)\<rparr>) = (Inr a, x)"
          "files w' = files x"
        then show ?thesis using resolve_frame by (simp add: resolve_job_def same_guard_def)
      qed simp
      then show ?thesis using f by (rule file_from_core)
    qed (use f in \<open>simp add: quiet_def\<close>)
    then show False unfolding file_from_def
    proof (elim disjE)
      assume "file_core f \<in> file_core ` set (files w)"
      then show False using u key by (auto simp: unpublished_def file_core_def)
    next
      assume "\<not> guard_key (f_storageKey f)"
      then show False using key by (auto simp: guard_key_def)
    next
      assume "\<exists>k \<in> set (guardJobs w). j_active k \<and> j_kind k = Sanitize \<and> j_outputStorageKey k = Some (f_storageKey f)
          \<and> j_resultFileId k = Some (f_id f) \<and> j_companyId k = f_companyId f"
      then show False using output_key_unique [OF jo j(1)] j key by auto
    qed
  qed
  ultimately show ?thesis using j' j identity_fields [OF changes_identity [OF j'(2)]]
    by (auto simp: unpublished_def)
qed

lemma unpublished_runs: "(guard_step avoid)\<^sup>*\<^sup>* w w' \<Longrightarrow> guard_ok w \<Longrightarrow> unpublished c i w \<Longrightarrow> unpublished c i w'"
proof (induction rule: rtranclp_induct)
  case (step u v)
  then show ?case using unpublished_step guard_steps_ok by blast
qed simp


section \<open>Admission is idempotent\<close>

lemma replay_Inr: "replay job fp = Inr v \<longleftrightarrow> j_fingerprint job = fp \<and> v = publicJob job"
  by (auto simp: replay_def)

definition admitted :: "actor \<Rightarrow> string \<Rightarrow> string \<Rightarrow> oid \<Rightarrow> world \<Rightarrow> bool" where
  "admitted actor key fp i w \<longleftrightarrow> (\<exists>job \<in> set (guardJobs w). same_request actor key job \<and> j_fingerprint job = fp \<and> j_id job = i)"

lemma unconfirmed_Inr:
  "unconfirmed actor key fp e w = (Inr v, w') \<Longrightarrow> w' = w \<and> admitted actor key fp (pj_jobId v) w"
  by (auto simp: unconfirmed_def andthen_Inr_iff gets_iff throw_iff lift_result_iff replay_Inr admitted_def publicJob_def
      split: option.splits if_splits dest!: find_SomeD)

lemma admit_Inr:
  assumes "catching (andthen (committing outcome (admit_scan actor fileId job now)) (\<lambda>job. return (publicJob job)))
      (unconfirmed actor key fp) w = (Inr v, w')"
    and "same_request actor key job" "j_fingerprint job = fp"
  shows "admitted actor key fp (pj_jobId v) w'"
proof -
  obtain q u where c: "committing outcome (admit_scan actor fileId job now) w = (q, u)" by fastforce
  show ?thesis
  proof (cases q)
    case (Inl e)
    then have "unconfirmed actor key fp e u = (Inr v, w')" using assms(1) c by (simp add: catching_def andthen_def)
    then show ?thesis using unconfirmed_Inr by blast
  next
    case (Inr j)
    then have "admit_scan actor fileId job now w = (Inr j, u)" using c by (simp add: committing_Inr)
    from admit_scan_Inr [OF this] have "j = job" "job \<in> set (guardJobs u)" by (auto simp: create_job_run)
    moreover have "v = publicJob j" "w' = u" using assms(1) c Inr by (simp_all add: catching_def andthen_def return_def)
    ultimately show ?thesis using assms(2,3) by (auto simp: admitted_def publicJob_def)
  qed
qed

lemma guard_submit_cases:
  assumes "guard_submit cfg sha256 actor fileId dto i now now' outcome w = (r, w')"
  defines "fp \<equiv> sha256 (scan_json fileId (sq_categories dto) (sq_phoneRegion dto))"
    and "key \<equiv> lower_text (sq_requestKey dto)"
  shows "((\<exists>e. r = Inl e) \<and> w' = w)
    \<or> (\<exists>job. find (same_request actor key) (guardJobs w) = Some job \<and> r = replay job fp \<and> w' = w)
    \<or> (find (same_request actor key) (guardJobs w) = None
        \<and> catching (andthen (committing outcome (admit_scan actor fileId
            (guard_job_document i (a_companyId actor) (a_id actor) fileId key fp
              (sort (sq_categories dto)) (sq_phoneRegion dto) now') now')) (\<lambda>job. return (publicJob job)))
          (unconfirmed actor key fp) w = (r, w'))"
  using assms(1) unfolding guard_submit_def Let_def fp_def [symmetric] key_def [symmetric]
  by (auto elim!: reads_thenE [OF _ reads_resolve] reads_thenE [OF _ reads_processing] reads_thenE [OF _ reads_gets]
      simp: throw_iff lift_result_iff gets_iff split: if_splits option.splits)

lemma admitted_replay:
  "find (same_request actor key) (guardJobs w) = Some job \<Longrightarrow> replay job fp = Inr v \<Longrightarrow> admitted actor key fp (pj_jobId v) w"
  by (auto simp: replay_Inr admitted_def publicJob_def dest!: find_SomeD)

lemma guard_submit_Inr:
  assumes "guard_submit cfg sha256 actor fileId dto i now now' outcome w = (Inr v, w')"
  shows "admitted actor (lower_text (sq_requestKey dto))
    (sha256 (scan_json fileId (sq_categories dto) (sq_phoneRegion dto))) (pj_jobId v) w'"
  using guard_submit_cases [OF assms]
proof (elim disjE conjE exE)
  assume "catching (andthen (committing outcome (admit_scan actor fileId
            (guard_job_document i (a_companyId actor) (a_id actor) fileId (lower_text (sq_requestKey dto))
              (sha256 (scan_json fileId (sq_categories dto) (sq_phoneRegion dto)))
              (sort (sq_categories dto)) (sq_phoneRegion dto) now') now')) (\<lambda>job. return (publicJob job)))
          (unconfirmed actor (lower_text (sq_requestKey dto)) (sha256 (scan_json fileId (sq_categories dto) (sq_phoneRegion dto))))
          w = (Inr v, w')"
  then show ?thesis by (rule admit_Inr) (simp_all add: same_request_def guard_job_document_def)
qed (auto intro: admitted_replay)

lemma admitted_runs:
  assumes "admitted actor key fp i w" "runs w w'" "guard_ok w"
  shows "admitted actor key fp i w'"
proof -
  from assms(1) obtain j where j: "j \<in> set (guardJobs w)" "same_request actor key j" "j_fingerprint j = fp" "j_id j = i"
    by (auto simp: admitted_def)
  from moves_to [OF guard_steps_moved [OF assms(2,3), unfolded moved_def] j(1)] obtain j' where
    j': "j' \<in> set (guardJobs w')" "(job_change True None)\<^sup>*\<^sup>* j j'" by blast
  then show ?thesis using j identity_fields [OF changes_identity [OF j'(2)]]
    by (auto simp: admitted_def same_request_def)
qed

text \<open>
  Submitting a scan again is harmless: once a request was answered with a job, then in any later
  state - also when the first answer was lost, or another replica asks - the same request key of the
  same user creates nothing: it is answered with the same job if the file, the categories and the
  region are the same, and otherwise with an error, before anything is written.
\<close>

theorem submit_idempotent:
  assumes first: "guard_submit cfg sha256 actor fileId dto i now now' outcome w = (Inr v, w1)"
    and ok: "guard_ok w" "new_job_id w i" and later: "(guard_step None)\<^sup>*\<^sup>* w1 w2"
    and again: "guard_submit cfg' sha256 actor fileId' dto' i' at at' outcome' w2 = (r, w3)"
    and key: "lower_text (sq_requestKey dto') = lower_text (sq_requestKey dto)"
  shows "w3 = w2 \<and> ((\<exists>e. r = Inl e) \<or> (\<exists>v'. r = Inr v' \<and> pj_jobId v' = pj_jobId v
    \<and> sha256 (scan_json fileId' (sq_categories dto') (sq_phoneRegion dto'))
      = sha256 (scan_json fileId (sq_categories dto) (sq_phoneRegion dto))))"
proof -
  let ?key = "lower_text (sq_requestKey dto)" and ?fp = "sha256 (scan_json fileId (sq_categories dto) (sq_phoneRegion dto))"
  have "runs w w1" using guard_submit_effect [OF first] step_admit_scan ok(2)
    by (metis new_job_id_def r_into_rtranclp rtranclp.rtrancl_refl)
  then have ok1: "guard_ok w1" using guard_steps_ok ok(1) by blast
  have ok2: "guard_ok w2" using guard_steps_ok [OF later ok1] .
  from admitted_runs [OF guard_submit_Inr [OF first] later ok1] obtain j where
    j: "j \<in> set (guardJobs w2)" "same_request actor ?key j" "j_fingerprint j = ?fp" "j_id j = pj_jobId v"
    by (auto simp: admitted_def)
  have only: "j_id k = j_id j \<and> k = j" if k: "k \<in> set (guardJobs w2)" "same_request actor ?key k" for k
  proof -
    have "job_clash j k" using j(2) k(2) by (auto simp: same_request_def job_clash_def)
    then have "j_id k = j_id j" using guard_ok_jobs [OF ok2] j(1) k(1) unfolding jobs_ok_def by metis
    then show ?thesis using ok2 j(1) k(1) by (auto simp: guard_ok_def jobs_ok_def distinct_map dest: inj_onD)
  qed
  have some: "find (same_request actor ?key) (guardJobs w2) \<noteq> None" using j(1,2) by (auto simp: find_None_iff)
  from guard_submit_cases [OF again] show ?thesis
  proof (elim disjE conjE exE)
    fix job assume f: "find (same_request actor (lower_text (sq_requestKey dto'))) (guardJobs w2) = Some job"
      and r: "r = replay job (sha256 (scan_json fileId' (sq_categories dto') (sq_phoneRegion dto')))" and w3: "w3 = w2"
    have "job = j" using find_SomeD [OF f] only key by simp
    then show ?thesis using r w3 j by (auto simp: replay_def publicJob_def)
  qed (use some key in auto)
qed


section \<open>Who sees findings\<close>

text \<open>Access as the guard checks it: a live user of an active company who may read the source.\<close>

definition guard_access :: "world \<Rightarrow> oid \<Rightarrow> oid \<Rightarrow> oid \<Rightarrow> bool" where
  "guard_access w userId companyId fileId \<longleftrightarrow>
     (\<exists>u \<in> set (users w). live_user userId companyId u
        \<and> (\<exists>c \<in> set (companies w). live_company companyId c)
        \<and> (\<exists>f \<in> set (files w). f_id f = fileId
             \<and> may_read w \<lparr>a_id = userId, a_companyId = companyId, a_role = u_role u\<rparr> f))"

lemma processing_read:
  assumes "processingSource actor fileId False w = (Inr p, w')"
  shows "\<exists>f \<in> set (files w). f_id f = fileId \<and> may_read w actor f"
proof -
  from assms obtain f where f: "find (\<lambda>f. f_id f = fileId \<and> accessFilter actor f) (files w) = Some f"
    and l: "assertLineage actor f False w = (Inr (), w)"
    unfolding processingSource_def find_fenced_False
    by (auto elim!: reads_thenE [OF _ reads_gets] simp: gets_iff throw_iff andthen_Inr_iff assertLineage_False return_iff
        split: option.splits)
  then show ?thesis by (auto simp: may_read_def assertLineage_False dest!: find_SomeD)
qed

lemma resolve_access:
  assumes "resolve False u c f w = (Inr a, w')"
  shows "guard_access w u c f"
proof -
  obtain user company where run: "(case (user, company) of (Some v, Some _) \<Rightarrow>
         let actor = \<lparr>a_id = u, a_companyId = c, a_role = u_role v\<rparr> in
         andthen (processingSource actor f False) (\<lambda>_. return actor) | _ \<Rightarrow> throw scan_not_found) w = (Inr a, w')"
    and q: "user = find (live_user u c) (users w)" "company = find (live_company c) (companies w)"
    using assms unfolding resolve_def by (simp add: andthen_Inr_iff gets_iff return_iff)
  then obtain v d where vd: "user = Some v" "company = Some d" by (auto simp: throw_iff split: option.splits)
  with run obtain p where "processingSource \<lparr>a_id = u, a_companyId = c, a_role = u_role v\<rparr> f False w = (Inr p, w')"
    by (auto simp: Let_def andthen_Inr_iff return_iff)
  from processing_read [OF this] show ?thesis using q vd
    by (auto simp: guard_access_def dest!: sym [of "Some _"] find_SomeD)
qed

text \<open>
  Findings are shown to those entitled only: whoever is given a page of findings asked for the
  scan, in a company that is active, and may still read the scanned file at that moment; the scan is
  completed; the page holds findings of that scan only, in order, after the cursor and within the
  limit; and nothing is written.
\<close>

theorem findings_authorised:
  assumes "listFindings actor i limit after w = (Inr page, w')"
  shows "w' = w
    \<and> (\<exists>job \<in> set (guardJobs w). j_id job = i \<and> scan_done job \<and> j_companyId job = a_companyId actor
         \<and> j_requestedBy job = a_id actor \<and> guard_access w (a_id actor) (a_companyId actor) (j_sourceFileId job))
    \<and> (\<exists>fs. np_findings page = map public_finding fs \<and> sorted (map n_ordinal fs) \<and> length fs \<le> nat limit
         \<and> (\<forall>f \<in> set fs. f \<in> set (guardFindings w) \<and> n_jobId f = i \<and> n_companyId f = a_companyId actor
              \<and> n_ordinal f > option_default (-1) after))"
proof -
  let ?all = "sort_key n_ordinal (filter (\<lambda>f. n_companyId f = a_companyId actor \<and> n_jobId f = i
           \<and> n_ordinal f > option_default (-1) after) (guardFindings w))"
  let ?fs = "take (nat limit) (take (nat (limit + 1)) ?all)"
  from assms obtain job where a: "authorized actor i w = (Inr job, w)" and w': "w' = w"
    and k: "j_kind job \<noteq> Sanitize" "j_status job = Completed" and page: "np_findings page = map public_finding ?fs"
    unfolding listFindings_def
    by (auto elim!: reads_thenE [OF _ reads_authorized] reads_thenE [OF _ reads_gets] simp: throw_iff gets_iff return_iff
        split: if_splits)
  from a obtain x v where "job \<in> set (guardJobs w)" "j_id job = i" "j_companyId job = a_companyId actor" "j_requestedBy job = a_id actor"
    and r: "resolve False (a_id actor) (a_companyId actor) (j_sourceFileId job) w = (Inr x, v)"
    unfolding authorized_def
    by (auto simp: andthen_Inr_iff gets_iff throw_iff catching_Inr_iff return_iff split: option.splits dest!: find_SomeD)
  then have job: "\<exists>job \<in> set (guardJobs w). j_id job = i \<and> scan_done job \<and> j_companyId job = a_companyId actor
         \<and> j_requestedBy job = a_id actor \<and> guard_access w (a_id actor) (a_companyId actor) (j_sourceFileId job)"
    using k resolve_access [OF r] by (cases "j_kind job") (auto simp: scan_done_def)
  have s: "sorted (map n_ordinal ?fs)" by (simp only: take_map [symmetric]) (intro sorted_wrt_take sorted_sort_key)
  have m: "\<forall>f \<in> set ?fs. f \<in> set (guardFindings w) \<and> n_jobId f = i \<and> n_companyId f = a_companyId actor
              \<and> n_ordinal f > option_default (-1) after"
    by (auto dest!: in_set_takeD)
  have "length ?fs \<le> nat limit" by simp
  with page s m have "\<exists>fs. np_findings page = map public_finding fs \<and> sorted (map n_ordinal fs) \<and> length fs \<le> nat limit
         \<and> (\<forall>f \<in> set fs. f \<in> set (guardFindings w) \<and> n_jobId f = i \<and> n_companyId f = a_companyId actor
              \<and> n_ordinal f > option_default (-1) after)"
    by (intro exI [of _ ?fs] conjI)
  with w' job show ?thesis by (intro conjI)
qed

end
