(* ===== verification/GuardExamples.thy ===== *)
theory GuardExamples
  imports GuardPromises
begin

text \<open>
  The promises of the data guard at work: a member submits a scan of a workbook, the worker claims,
  reads and scans it, and the findings are listed; a redaction that was cancelled is cleaned up.
\<close>

definition example_workbook :: company_file where
  "example_workbook = example_file\<lparr>f_fileType := XLSX\<rparr>"

definition guard_member :: actor where
  "guard_member = \<lparr>a_id = 2, a_companyId = 7, a_role = COMPANY_MEMBER\<rparr>"

definition guard_world :: world where
  "guard_world = empty_world\<lparr>files := [example_workbook], objects := [''k'' \<mapsto> [97]],
     users := [\<lparr>u_id = 2, u_email = ''m@x.y'', u_fullName = None, u_password = None,
       u_passwordResetTokenHash = None, u_passwordResetExpiresAt = None, u_passwordResetRequestedAt = None,
       u_authVersion = None, u_companyId = 7, u_role = COMPANY_MEMBER, u_avatar = None,
       u_guardScanFence = 0, u_createdAt = 5\<rparr>],
     companies := [\<lparr>c_id = 7, c_name = ''Acme'', c_country = ''DE'', c_industry = ''IT'', c_activatedAt = Some 0,
       c_platformStatus = PLATFORM_ACTIVE,
        c_platformStatusReason = None, c_platformStatusChangedAt = None, c_platformStatusChangedBy = None,
        c_guardScanFence = 0\<rparr>]\<rparr>"

definition guard_cfg :: guard_config where
  "guard_cfg = \<lparr>isolationApproved = True, sanitizationApproved = True, compressedBytes = 100,
     maxFindings = 10, leaseMs = 120000\<rparr>"

definition guard_request :: scan_request where
  "guard_request = \<lparr>sq_requestKey = ''key'', sq_categories = [Cat_Phone, Cat_Email], sq_phoneRegion = None\<rparr>"

definition submission :: "(error + public_job) \<times> world" where
  "submission = guard_submit guard_cfg id guard_member 5 guard_request 1 1000 1000 Committed guard_world"

definition submitted :: world where
  "submitted = snd submission"

definition example_scan :: "bytes \<Rightarrow> category list \<Rightarrow> string option \<Rightarrow> error + scan_result" where
  "example_scan body cs region = Inr \<lparr>sr_findings = [\<lparr>fv_ordinal = 0, fv_sheetIndex = 0, fv_row = 1, fv_column = 1,
     fv_category = Cat_Email, fv_evidence = Format_Valid, fv_hidden = False\<rparr>], sr_processedCells = 1, sr_sheets = 1,
     sr_compatibilityFlags = [], sr_coverage = Supported\<rparr>"

definition example_copy_env :: copy_env where
  "example_copy_env = \<lparr>ce_sanitize = (\<lambda>_ _. Inr \<lparr>sz_bytes = [98], sz_redactedCells = 1, sz_outputDigest = ''d''\<rparr>),
     ce_digest = (\<lambda>_. ''s''), ce_textDigest = id, ce_storage = reliable_storage, ce_abortedFirst = False,
     ce_abortedSecond = False, ce_abortedThird = False, ce_timedOut = False, ce_announceAt = 2000,
     ce_publishAt = 2001, ce_announceCommit = Committed, ce_publishCommit = Committed, ce_maxSize = 100,
     ce_paymentsEnabled = False\<rparr>"

definition example_worker :: worker_env where
  "example_worker = \<lparr>we_recoverAt = 2000, we_startAt = 2000, we_checkAt = 2000, we_recheckAt = 2000,
     we_phaseAt = 2000, we_endAt = 2001, we_token = ''t'', we_recoverCommit = (\<lambda>_. Committed),
     we_publishCommit = Committed, we_terminalCommit = Committed, we_storage = reliable_storage,
     we_contentLength = None, we_read = Read_Undisturbed, we_scan = example_scan, we_digest = (\<lambda>_. ''s''),
     we_process = process_copy guard_cfg example_copy_env, we_cleanup = guard_cleanup guard_cfg example_copy_env 2000\<rparr>"

definition worked :: world where
  "worked = snd (guard_run guard_cfg example_worker submitted)"

lemma guard_key_prefix: "guard_key k \<Longrightarrow> take 10 k = ''companies/''"
  by (auto simp: guard_key_def output_key_def)

lemma not_guard_key: "\<not> guard_key ''k''"
  using guard_key_prefix by force

lemma guard_world_ok: "guard_ok guard_world"
  by (simp add: guard_ok_def jobs_ok_def guard_world_def empty_world_def example_workbook_def example_file_def not_guard_key)

lemma guard_world_new: "new_job_id guard_world 1"
  by (simp add: new_job_id_def guard_world_def empty_world_def)

lemma submitted_run: "runs guard_world submitted"
proof -
  have "submission = (fst submission, submitted)" by (simp add: submitted_def)
  from guard_submit_effect [OF this [unfolded submission_def]] show ?thesis
    using step_admit_scan guard_world_new by (metis new_job_id_def r_into_rtranclp rtranclp.rtrancl_refl)
qed

lemma submitted_ok: "guard_ok submitted"
  using guard_steps_ok [OF submitted_run guard_world_ok] .

lemma worked_run: "runs submitted worked"
proof -
  have "guard_run guard_cfg example_worker submitted = (fst (guard_run guard_cfg example_worker submitted), worked)"
    by (simp add: worked_def)
  from guard_run_runs [OF this submitted_ok] show ?thesis by (simp add: example_worker_def)
qed

lemma submission_job: "\<exists>job. guardJobs submitted = [job] \<and> j_id job = 1 \<and> abs_job job = (Queued, 0)
   \<and> j_leaseToken job = None \<and> j_active job"
proof -
  have "map (\<lambda>j. (j_id j, abs_job j, j_leaseToken j, j_active j)) (guardJobs submitted) = [(1, (Queued, 0), None, True)]"
    by code_simp
  then show ?thesis by (auto simp: map_eq_Cons_conv)
qed


section \<open>Witnesses\<close>

theorem guard_consistent_witness:
  "guard_ok worked \<and> (\<exists>f. findings_of worked 1 = [f])"
proof -
  have "runs guard_world worked" using submitted_run worked_run by (rule rtranclp_trans)
  from guard_consistent [OF guard_world_ok this] have "guard_ok worked" .
  moreover have "length (findings_of worked 1) = 1" by code_simp
  ultimately show ?thesis by (auto simp: length_Suc_conv)
qed

theorem jobs_refine_life_cycle_witness:
  "\<exists>job \<in> set (guardJobs worked). abs_job job = (Completed, 1) \<and> life_step\<^sup>*\<^sup>* (Queued, 0) (Completed, 1)"
proof -
  obtain job where job: "guardJobs submitted = [job]" "abs_job job = (Queued, 0)" using submission_job by blast
  have "\<exists>j' \<in> set (guardJobs worked). life_step\<^sup>*\<^sup>* (abs_job job) (abs_job j')"
    using jobs_refine_life_cycle [OF submitted_ok worked_run, of job] job by auto
  moreover have "map abs_job (guardJobs worked) = [(Completed, 1)]" by code_simp
  ultimately show ?thesis using job by (auto simp: map_eq_Cons_conv)
qed

theorem job_changes_bounded_witness:
  "card {k. k < 1 \<and> life_of 1 (if Suc k = 0 then submitted else snd (claim_next guard_cfg ''t'' 2000 submitted))
     \<noteq> life_of 1 (if k = 0 then submitted else snd (claim_next guard_cfg ''t'' 2000 submitted))} \<le> 7"
proof -
  let ?run = "\<lambda>k::nat. if k = 0 then submitted else snd (claim_next guard_cfg ''t'' 2000 submitted)"
  have "\<not> isl (fst (claim_next guard_cfg ''t'' 2000 submitted))" by code_simp
  from InrI [OF this] have "guard_step None submitted (snd (claim_next guard_cfg ''t'' 2000 submitted))"
    by (rule step_claim) simp
  then have s: "\<forall>k < 1. guard_step None (?run k) (?run (Suc k))" by simp
  have l: "life_of 1 (?run 0) = Some (Queued, 0)" using submission_job by (auto simp: life_of_def)
  show ?thesis using job_changes_bounded [of ?run, OF _ l s] submitted_ok by simp
qed


theorem handlers_are_runs_witness:
  "runs guard_world (snd (guard_tick guard_cfg example_worker False guard_world))"
  using handlers_are_runs [OF guard_world_ok guard_world_new, of example_worker guard_cfg example_copy_env 2000]
  by (simp add: example_worker_def)

definition cancelled_redaction :: guard_job where
  "cancelled_redaction = cancel_job 3000
     ((copy_job_document 2 9 guard_member (hd (guardJobs worked)) ''key2'' ''fp'' ''s'' [Cat_Email] [] 2500)
        \<lparr>j_cleanupPending := True\<rparr>)"

definition left_over :: world where
  "left_over = guard_world\<lparr>guardJobs := [cancelled_redaction], objects := (objects guard_world)(output_key 7 2 \<mapsto> [98])\<rparr>"

lemma redaction_fields:
  "j_id cancelled_redaction = 2" "j_companyId cancelled_redaction = 7" "j_kind cancelled_redaction = Sanitize"
  "\<not> j_active cancelled_redaction" "j_resultFileId cancelled_redaction = Some 9" "j_status cancelled_redaction = Cancelled"
  "job_ok cancelled_redaction"
  by (simp_all add: cancelled_redaction_def cancel_job_def drop_job_lease_def copy_job_document_def guard_job_document_def
      guard_member_def job_ok_def)

lemma left_over_ok: "guard_ok left_over"
  using redaction_fields
  by (simp add: guard_ok_def jobs_ok_def left_over_def guard_world_def empty_world_def example_workbook_def
      example_file_def not_guard_key scan_done_def)


theorem submit_idempotent_witness:
  "\<exists>v v'. fst submission = Inr v
     \<and> fst (guard_submit guard_cfg id guard_member 5 guard_request 3 5000 5000 Committed submitted) = Inr v'
     \<and> pj_jobId v' = pj_jobId v"
proof -
  let ?again = "guard_submit guard_cfg id guard_member 5 guard_request 3 5000 5000 Committed submitted"
  have n: "\<not> isl (fst submission)" "\<not> isl (fst ?again)" by code_simp+
  from InrI [OF n(1)] have first: "guard_submit guard_cfg id guard_member 5 guard_request 1 1000 1000 Committed guard_world
      = (Inr (projr (fst submission)), submitted)" by (simp add: submission_def submitted_def)
  from submit_idempotent [OF first guard_world_ok guard_world_new rtranclp.rtrancl_refl InrI [OF n(2)] refl] n
  show ?thesis by (metis sum.collapse(2) Inl_Inr_False)
qed

theorem findings_authorised_witness:
  "\<exists>page. fst (listFindings guard_member 1 10 None worked) = Inr page
     \<and> guard_access worked 2 7 5 \<and> length (np_findings page) = 1"
proof -
  let ?r = "listFindings guard_member 1 10 None worked"
  have n: "\<not> isl (fst ?r)" by code_simp
  have c: "length (np_findings (projr (fst ?r))) = 1" by code_simp
  have s: "map j_sourceFileId (guardJobs worked) = [5]" by code_simp
  from findings_authorised [OF InrI [OF n]] have "\<exists>job \<in> set (guardJobs worked). guard_access worked 2 7 (j_sourceFileId job)"
    by (auto simp: guard_member_def)
  then have "guard_access worked 2 7 5" using s by (auto simp: map_eq_Cons_conv)
  then show ?thesis using n c by (intro exI [of _ "projr (fst ?r)"]) simp
qed

end
