(* ===== verification/Json.thy ===== *)
theory Json
  imports FileValidation
begin

text \<open>
  What the program uses of \<open>JSON.parse\<close> and \<open>JSON.stringify\<close>. Texts are lists of UTF-16 code
  units. A number is the exact decimal \<open>m * 10 ^ e\<close>, with \<open>m\<close> not divisible by ten unless it is
  zero: the rounding of JavaScript's binary numbers is left out, and every number the program goes
  on with is first required to be a safe integer.
\<close>

datatype json =
    JNull | JBool bool | JNumber int int | JString js_string
  | JArray "json list" | JObject "(js_string \<times> json) list"

section \<open>Reading values\<close>

fun record_fields :: "json \<Rightarrow> (js_string \<times> json) list option" where
  "record_fields (JObject fs) = Some fs"
| "record_fields _ = None"

text \<open>The field of a value, when the value is an object that has it.\<close>

fun field :: "string \<Rightarrow> json \<Rightarrow> json option" where
  "field k (JObject fs) = map_of fs (units k)"
| "field k _ = None"

text \<open>The integer a number is, if it is one.\<close>

fun integer_of :: "json \<Rightarrow> int option" where
  "integer_of (JNumber m e) = (if e \<ge> 0 then Some (m * 10 ^ nat e) else None)"
| "integer_of _ = None"

section \<open>Numbers\<close>

function decimal :: "int \<Rightarrow> int \<Rightarrow> json" where
  "decimal m e = (if m = 0 then JNumber 0 0 else if m mod 10 = 0 then decimal (m div 10) (e + 1)
     else JNumber m e)"
  by pat_completeness auto
termination
  by (relation "measure (\<lambda>(m, e). nat \<bar>m\<bar>)") auto

declare decimal.simps [simp del]

definition digit :: "nat \<Rightarrow> bool" where
  "digit c \<longleftrightarrow> 48 \<le> c \<and> c \<le> 57"

definition digits_value :: "nat list \<Rightarrow> int" where
  "digits_value ds = foldl (\<lambda>n d. 10 * n + (int d - 48)) 0 ds"

text \<open>A fraction or an exponent that starts needs a digit.\<close>

definition parse_fraction :: "nat list \<Rightarrow> (nat list \<times> nat list) option" where
  "parse_fraction s = (case s of
      [] \<Rightarrow> Some ([], s)
    | c # r \<Rightarrow>
        if c \<noteq> 46 then Some ([], s)
        else let ds = takeWhile digit r in if ds = [] then None else Some (ds, dropWhile digit r))"

definition parse_exponent :: "nat list \<Rightarrow> (int \<times> nat list) option" where
  "parse_exponent s = (case s of
      c # r \<Rightarrow>
        if c = 101 \<or> c = 69 then
          let sign = (case r of d # _ \<Rightarrow> if d = 45 then -1 else 1 | [] \<Rightarrow> 1);
              r' = (case r of d # q \<Rightarrow> if d = 43 \<or> d = 45 then q else r | [] \<Rightarrow> r);
              ds = takeWhile digit r' in
          if ds = [] then None else Some (sign * digits_value ds, dropWhile digit r')
        else Some (0, s)
    | [] \<Rightarrow> Some (0, s))"

definition parse_number :: "nat list \<Rightarrow> (json \<times> nat list) option" where
  "parse_number s =
     (let sign = (case s of c # _ \<Rightarrow> if c = 45 then -1 else 1 | [] \<Rightarrow> 1);
          s' = (case s of c # r \<Rightarrow> if c = 45 then r else s | [] \<Rightarrow> s);
          ds = (case s' of c # _ \<Rightarrow> if c = 48 then [c] else takeWhile digit s' | [] \<Rightarrow> []) in
      if ds = [] then None
      else case parse_fraction (drop (length ds) s') of
        None \<Rightarrow> None
      | Some (fs, r) \<Rightarrow>
          (case parse_exponent r of
             None \<Rightarrow> None
           | Some (e, q) \<Rightarrow> Some (decimal (sign * digits_value (ds @ fs)) (e - int (length fs)), q)))"

section \<open>Parsing\<close>

definition json_space :: "nat \<Rightarrow> bool" where
  "json_space c \<longleftrightarrow> c = 32 \<or> c = 9 \<or> c = 10 \<or> c = 13"

definition skip_space :: "nat list \<Rightarrow> nat list" where
  "skip_space s = dropWhile json_space s"

definition hex_unit :: "nat \<Rightarrow> nat option" where
  "hex_unit c =
     (if 48 \<le> c \<and> c \<le> 57 then Some (c - 48)
      else if 65 \<le> c \<and> c \<le> 70 then Some (c - 55)
      else if 97 \<le> c \<and> c \<le> 102 then Some (c - 87) else None)"

text \<open>The character after a backslash, the escapes of code units apart.\<close>

definition escaped_unit :: "nat \<Rightarrow> nat option" where
  "escaped_unit c = map_of [(34, 34), (92, 92), (47, 47), (98, 8), (102, 12), (110, 10), (114, 13), (116, 9)] c"

text \<open>Four hexadecimal digits.\<close>

definition hex_value4 :: "nat \<Rightarrow> nat \<Rightarrow> nat \<Rightarrow> nat \<Rightarrow> nat option" where
  "hex_value4 h1 h2 h3 h4 = (case (hex_unit h1, hex_unit h2, hex_unit h3, hex_unit h4) of
      (Some a, Some b, Some d, Some e) \<Rightarrow> Some (4096 * a + 256 * b + 16 * d + e)
    | _ \<Rightarrow> None)"

definition prepend :: "'a \<Rightarrow> ('a list \<times> 'b) option \<Rightarrow> ('a list \<times> 'b) option" where
  "prepend x r = map_option (\<lambda>(xs, q). (x # xs, q)) r"

text \<open>The rest of a string literal, after its opening quote.\<close>

fun parse_string :: "nat list \<Rightarrow> (js_string \<times> nat list) option" where
  "parse_string [] = None"
| "parse_string [c] = (if c = 34 then Some ([], []) else None)"
| "parse_string (c # k # r) =
     (if c = 34 then Some ([], k # r)
      else if c < 32 then None
      else if c \<noteq> 92 then prepend c (parse_string (k # r))
      else if k \<noteq> 117 then
        (case escaped_unit k of None \<Rightarrow> None | Some u \<Rightarrow> prepend u (parse_string r))
      else
        (case r of
           h1 # h2 # h3 # h4 # q \<Rightarrow>
             (case hex_value4 h1 h2 h3 h4 of None \<Rightarrow> None | Some u \<Rightarrow> prepend u (parse_string q))
         | _ \<Rightarrow> None))"

text \<open>A later value of a key replaces an earlier one.\<close>

fun set_field :: "js_string \<Rightarrow> json \<Rightarrow> (js_string \<times> json) list \<Rightarrow> (js_string \<times> json) list" where
  "set_field k v [] = [(k, v)]"
| "set_field k v ((l, u) # fs) = (if l = k then (k, v) # fs else (l, u) # set_field k v fs)"

text \<open>
  The first argument bounds the depth of calls: two for each character read are enough, since a
  call that reads nothing is followed by one that does.
\<close>

fun parse_value :: "nat \<Rightarrow> nat list \<Rightarrow> (json \<times> nat list) option"
  and parse_elements :: "nat \<Rightarrow> nat list \<Rightarrow> (json list \<times> nat list) option"
  and parse_members :: "nat \<Rightarrow> nat list \<Rightarrow> (js_string \<times> json) list \<Rightarrow> ((js_string \<times> json) list \<times> nat list) option"
where
  "parse_value 0 s = None"
| "parse_value (Suc n) s =
     (case skip_space s of
        [] \<Rightarrow> None
      | c # r \<Rightarrow>
          if c = 123 then
            if starts_with [125] (skip_space r) then Some (JObject [], tl (skip_space r))
            else map_option (\<lambda>(fs, q). (JObject fs, q)) (parse_members n r [])
          else if c = 91 then
            if starts_with [93] (skip_space r) then Some (JArray [], tl (skip_space r))
            else map_option (\<lambda>(vs, q). (JArray vs, q)) (parse_elements n r)
          else if c = 34 then map_option (\<lambda>(t, q). (JString t, q)) (parse_string r)
          else if starts_with (units ''null'') (c # r) then Some (JNull, drop 3 r)
          else if starts_with (units ''true'') (c # r) then Some (JBool True, drop 3 r)
          else if starts_with (units ''false'') (c # r) then Some (JBool False, drop 4 r)
          else parse_number (c # r))"
| "parse_elements 0 s = None"
| "parse_elements (Suc n) s =
     (case parse_value n s of
        None \<Rightarrow> None
      | Some (v, r) \<Rightarrow>
          (case skip_space r of
             [] \<Rightarrow> None
           | c # q \<Rightarrow>
               if c = 44 then prepend v (parse_elements n q)
               else if c = 93 then Some ([v], q) else None))"
| "parse_members 0 s fs = None"
| "parse_members (Suc n) s fs =
     (case skip_space s of
        [] \<Rightarrow> None
      | c # r \<Rightarrow>
          if c \<noteq> 34 then None
          else case parse_string r of
            None \<Rightarrow> None
          | Some (k, q) \<Rightarrow>
              if \<not> starts_with [58] (skip_space q) then None
              else case parse_value n (tl (skip_space q)) of
                None \<Rightarrow> None
              | Some (v, p) \<Rightarrow>
                  (case skip_space p of
                     [] \<Rightarrow> None
                   | d # t \<Rightarrow>
                       if d = 44 then parse_members n t (set_field k v fs)
                       else if d = 125 then Some (set_field k v fs, t) else None))"

definition json_parse :: "js_string \<Rightarrow> json option" where
  "json_parse s = (case parse_value (2 * length s + 2) s of
      Some (v, r) \<Rightarrow> if skip_space r = [] then Some v else None
    | None \<Rightarrow> None)"

section \<open>Printing\<close>

definition nat_units :: "nat \<Rightarrow> nat list" where
  "nat_units n = units (show_nat n)"

text \<open>
  \<open>Number.prototype.toString\<close>: \<open>ds\<close> are the digits, \<open>n\<close> the position of the decimal point in them.
\<close>

definition number_text :: "int \<Rightarrow> int \<Rightarrow> js_string" where
  "number_text m e =
     (let sign = (if m < 0 then [45] else []);
          ds = nat_units (nat \<bar>m\<bar>); k = int (length ds); n = k + e in
      if m = 0 then [48]
      else sign @
       (if k \<le> n \<and> n \<le> 21 then ds @ replicate (nat (n - k)) 48
        else if 0 < n \<and> n \<le> 21 then take (nat n) ds @ [46] @ drop (nat n) ds
        else if - 6 < n \<and> n \<le> 0 then [48, 46] @ replicate (nat (- n)) 48 @ ds
        else take 1 ds @ (if k = 1 then [] else 46 # drop 1 ds) @ [101]
          @ (if n - 1 < 0 then [45] else [43]) @ nat_units (nat \<bar>n - 1\<bar>)))"

definition hex_units :: "nat \<Rightarrow> nat list" where
  "hex_units c = units (hex_digits 4 c)"

definition surrogate :: "nat \<Rightarrow> bool" where
  "surrogate c \<longleftrightarrow> 55296 \<le> c \<and> c < 57344"

text \<open>Control characters and lone surrogates are escaped.\<close>

fun escape :: "js_string \<Rightarrow> js_string" where
  "escape [] = []"
| "escape (c # s) =
     (if 55296 \<le> c \<and> c < 56320 \<and> s \<noteq> [] \<and> 56320 \<le> hd s \<and> hd s < 57344 then c # hd s # escape (tl s)
      else
        (case map_of [(34, 34), (92, 92), (8, 98), (12, 102), (10, 110), (13, 114), (9, 116)] c of
           Some k \<Rightarrow> [92, k]
         | None \<Rightarrow> if c < 32 \<or> surrogate c then [92, 117] @ hex_units c else [c])
        @ escape s)"

definition quote :: "js_string \<Rightarrow> js_string" where
  "quote s = 34 # escape s @ [34]"

fun comma_separated :: "js_string list \<Rightarrow> js_string" where
  "comma_separated [] = []"
| "comma_separated [t] = t"
| "comma_separated (t # ts) = t @ [44] @ comma_separated ts"

lemma size_field: "(k, v) \<in> set fs \<Longrightarrow> size v < Suc (size_list (size_prod (\<lambda>_. 0) size) fs)"
  by (induction fs) auto

function json_stringify :: "json \<Rightarrow> js_string" where
  "json_stringify JNull = units ''null''"
| "json_stringify (JBool b) = units (if b then ''true'' else ''false'')"
| "json_stringify (JNumber m e) = number_text m e"
| "json_stringify (JString s) = quote s"
| "json_stringify (JArray vs) = [91] @ comma_separated (map json_stringify vs) @ [93]"
| "json_stringify (JObject fs) =
     [123] @ comma_separated (map (\<lambda>kv. quote (fst kv) @ [58] @ json_stringify (snd kv)) fs) @ [125]"
  by pat_completeness auto
termination
  by (relation "measure size") (auto simp: less_Suc_eq_le intro: size_list_estimation' dest: size_field)

end
