(* ===== verification/Providers.thy ===== *)
theory Providers
  imports Json
begin

text \<open>
  The model providers of the assistant (\<open>ai/ai-model-client.ts\<close>, \<open>chat-completion-response.ts\<close>,
  \<open>openrouter-client.service.ts\<close>, \<open>gemini-client.service.ts\<close>, \<open>ai-provider-router.service.ts\<close>):
  validation of a provider's answer, classification of its failures, the request each provider is
  sent, and the routing between the two. The SDK that talks to a provider is a parameter: it
  answers a request with a JSON value or a failure and may keep a state of its own.
\<close>

section \<open>Messages, completions and failures\<close>

datatype provider = Openrouter | Gemini

text \<open>
  A call of a tool. Of a provider's further fields only the opaque \<open>extra_content\<close> is kept; the
  program looks at no other.
\<close>

record tool_call =
  tc_id :: js_string
  tc_name :: js_string
  tc_arguments :: js_string
  tc_extra :: "json option"

text \<open>
  The messages of an exchange. An assistant's message carries the role Gemini gave it (\<open>model\<close>
  or not), which the client remembers by the message. The content of a tool's message is the
  JSON text of its result; the result itself stands for it.
\<close>

datatype 'r chat_message =
    System_Message js_string
  | User_Message js_string
  | Assistant_Message bool "js_string option" "tool_call list"
  | Tool_Message js_string 'r

record completion =
  cm_modelRole :: bool
  cm_content :: "js_string option"
  cm_calls :: "tool_call list"
  cm_model :: js_string
  cm_promptTokens :: int
  cm_completionTokens :: int
  cm_totalTokens :: int
  cm_cost :: "int option"
  cm_provider :: provider

definition completion_message :: "completion \<Rightarrow> 'r chat_message" where
  "completion_message c = Assistant_Message (cm_modelRole c) (cm_content c) (cm_calls c)"

datatype failure_reason =
    Authentication | Credits | Rate_Limit | Timeout | Unavailable | Invalid_Response

datatype validation_code =
    Invalid_Envelope | Missing_Choices | Missing_Message | Invalid_Message_Role | Invalid_Content
  | Missing_Visible_Output | Malformed_Tool_Call | Invalid_Tool_Arguments | Missing_Model
  | Invalid_Usage | Response_Too_Large | Tool_Iteration_Limit

datatype finish_reason = Fin_Stop | Fin_Length | Fin_Tool_Calls | Fin_Other | Fin_Missing

datatype content_type =
    Ct_Missing | Ct_Null | Ct_String | Ct_Array | Ct_Object | Ct_Number | Ct_Boolean

record diagnostic =
  dg_code :: validation_code
  dg_finishReason :: "finish_reason option"
  dg_contentType :: "content_type option"
  dg_toolCallCount :: "nat option"

datatype request_category =
    Invalid_Argument | Missing_Thought_Signature | Unsupported_Message_Field
  | Invalid_Tool_Response | Other_Bad_Request

datatype provider_code = Pc_Invalid_Argument | Pc_Failed_Precondition | Pc_Other

record request_diagnostic =
  rd_toolContinuation :: bool
  rd_category :: request_category
  rd_providerCode :: provider_code
  rd_toolCallCount :: nat
  rd_toolResultCount :: nat
  rd_allToolCallStepsSigned :: "bool option"

record provider_failure =
  pf_reason :: failure_reason
  pf_status :: "int option"
  pf_diagnostic :: "diagnostic option"
  pf_request :: "request_diagnostic option"

definition failure :: "failure_reason \<Rightarrow> int option \<Rightarrow> provider_failure" where
  "failure reason status = \<lparr>pf_reason = reason, pf_status = status, pf_diagnostic = None, pf_request = None\<rparr>"

text \<open>What a client throws: a classified failure, or any other exception as it is.\<close>

datatype client_error = Provider_Failure provider_failure | Local_Error error

section \<open>Validation of an answer\<close>

definition safeInteger :: "json option \<Rightarrow> int" where
  "safeInteger v = (case Option.bind v integer_of of
      Some n \<Rightarrow> if isSafeInteger n \<and> n \<ge> 0 then n else 0
    | None \<Rightarrow> 0)"

text \<open>\<open>Number\<close> of a text: blank is zero, digits in a radix, or a decimal; \<open>None\<close> is not finite.\<close>

definition radix_digit :: "nat \<Rightarrow> nat \<Rightarrow> nat option" where
  "radix_digit radix c = (case hex_unit c of
      Some d \<Rightarrow> if d < radix then Some d else None
    | None \<Rightarrow> None)"

definition radix_value :: "nat \<Rightarrow> js_string \<Rightarrow> (int \<times> int) option" where
  "radix_value radix ds =
     (if ds = [] \<or> list_ex (\<lambda>c. radix_digit radix c = None) ds then None
      else Some (foldl (\<lambda>n c. int radix * n + int (the (radix_digit radix c))) 0 ds, 0))"

definition decimal_value :: "js_string \<Rightarrow> (int \<times> int) option" where
  "decimal_value s =
     (let sign = (case s of c # _ \<Rightarrow> if c = 45 then -1 else 1 | [] \<Rightarrow> 1);
          s' = (case s of c # r \<Rightarrow> if c = 45 \<or> c = 43 then r else s | [] \<Rightarrow> s);
          ds = takeWhile digit s'; r = dropWhile digit s';
          fs = (case r of c # q \<Rightarrow> if c = 46 then takeWhile digit q else [] | [] \<Rightarrow> []);
          r' = (case r of c # q \<Rightarrow> if c = 46 then dropWhile digit q else r | [] \<Rightarrow> []) in
      if ds = [] \<and> fs = [] then None
      else case parse_exponent r' of
        Some (e, []) \<Rightarrow> Some (sign * digits_value (ds @ fs), e - int (length fs))
      | _ \<Rightarrow> None)"

definition number_of_text :: "js_string \<Rightarrow> (int \<times> int) option" where
  "number_of_text text =
     (let s = js_trim text; prefix = map lower (take 2 s) in
      if s = [] then Some (0, 0)
      else if prefix = units ''0x'' then radix_value 16 (drop 2 s)
      else if prefix = units ''0o'' then radix_value 8 (drop 2 s)
      else if prefix = units ''0b'' then radix_value 2 (drop 2 s)
      else decimal_value s)"

text \<open>\<open>Math.round\<close> of a decimal scaled by a million: half a unit is rounded up.\<close>

definition round_micros :: "int \<Rightarrow> int \<Rightarrow> int" where
  "round_micros m e = (let k = e + 6 in
     if k \<ge> 0 then m * 10 ^ nat k else (2 * m + 10 ^ nat (- k)) div (2 * 10 ^ nat (- k)))"

definition costMicros :: "json option \<Rightarrow> int option" where
  "costMicros v =
     (case (case v of
              Some (JString s) \<Rightarrow> number_of_text s
            | Some (JNumber m e) \<Rightarrow> Some (m, e)
            | _ \<Rightarrow> None) of
        None \<Rightarrow> None
      | Some (m, e) \<Rightarrow>
          if m < 0 then None
          else let micros = round_micros m e in
               if isSafeInteger micros then Some micros else None)"

text \<open>Only OpenRouter reports a cost.\<close>

definition usage_cost :: "provider \<Rightarrow> json option \<Rightarrow> int option" where
  "usage_cost p usage = (if p = Openrouter then costMicros (Option.bind usage (field ''cost'')) else None)"

fun content_type_of :: "json option \<Rightarrow> content_type" where
  "content_type_of None = Ct_Missing"
| "content_type_of (Some JNull) = Ct_Null"
| "content_type_of (Some (JArray _)) = Ct_Array"
| "content_type_of (Some (JString _)) = Ct_String"
| "content_type_of (Some (JNumber _ _)) = Ct_Number"
| "content_type_of (Some (JBool _)) = Ct_Boolean"
| "content_type_of (Some (JObject _)) = Ct_Object"

definition finish_reason_of :: "json option \<Rightarrow> finish_reason" where
  "finish_reason_of v = (case v of
      None \<Rightarrow> Fin_Missing
    | Some r \<Rightarrow>
        if r = JString (units ''stop'') then Fin_Stop
        else if r = JString (units ''length'') then Fin_Length
        else if r = JString (units ''tool_calls'') then Fin_Tool_Calls
        else if r = JNull then Fin_Missing else Fin_Other)"

definition diagnose :: "validation_code \<Rightarrow> json option \<Rightarrow> json option \<Rightarrow> client_error" where
  "diagnose code choice message = Provider_Failure
     \<lparr>pf_reason = Invalid_Response, pf_status = None,
      pf_diagnostic = Some \<lparr>dg_code = code,
        dg_finishReason = Some (finish_reason_of (Option.bind choice (field ''finish_reason''))),
        dg_contentType = Some (content_type_of (Option.bind message (field ''content''))),
        dg_toolCallCount = Some (case Option.bind message (field ''tool_calls'') of
            Some (JArray calls) \<Rightarrow> min (length calls) 100 | _ \<Rightarrow> 0)\<rparr>,
      pf_request = None\<rparr>"

fun is_record :: "json option \<Rightarrow> bool" where
  "is_record (Some (JObject _)) = True"
| "is_record _ = False"

definition name_unit :: "nat \<Rightarrow> bool" where
  "name_unit c \<longleftrightarrow> (65 \<le> c \<and> c \<le> 90) \<or> (97 \<le> c \<and> c \<le> 122) \<or> digit c \<or> c = 95 \<or> c = 45"

definition tool_name :: "js_string \<Rightarrow> bool" where
  "tool_name s \<longleftrightarrow> s \<noteq> [] \<and> length s \<le> 128 \<and> list_all name_unit s"

text \<open>One call of the answer: its identifier and name first, then its arguments.\<close>

definition normalize_call :: "json option \<Rightarrow> json option \<Rightarrow> json \<Rightarrow> client_error + tool_call" where
  "normalize_call choice message call =
     (let function = field ''function'' call in
      case (field ''id'' call, Option.bind function (field ''name'')) of
        (Some (JString i), Some (JString name)) \<Rightarrow>
          if field ''type'' call \<noteq> Some (JString (units ''function'')) \<or> i = [] \<or> length i > 256
            \<or> \<not> tool_name name
          then Inl (diagnose Malformed_Tool_Call choice message)
          else (case Option.bind function (field ''arguments'') of
              Some (JString arguments) \<Rightarrow>
                Inr \<lparr>tc_id = i, tc_name = name, tc_arguments = arguments,
                     tc_extra = field ''extra_content'' call\<rparr>
            | _ \<Rightarrow> Inl (diagnose Invalid_Tool_Arguments choice message))
      | _ \<Rightarrow> Inl (diagnose Malformed_Tool_Call choice message))"

fun normalize_calls :: "json option \<Rightarrow> json option \<Rightarrow> json list \<Rightarrow> client_error + tool_call list" where
  "normalize_calls choice message [] = Inr []"
| "normalize_calls choice message (call # calls) =
     result_bind (normalize_call choice message call) (\<lambda>c.
     result_bind (normalize_calls choice message calls) (\<lambda>cs. Inr (c # cs)))"

definition raw_calls :: "json option \<Rightarrow> json option \<Rightarrow> client_error + tool_call list" where
  "raw_calls choice message = (case Option.bind message (field ''tool_calls'') of
      None \<Rightarrow> Inr []
    | Some (JArray calls) \<Rightarrow> normalize_calls choice message calls
    | Some _ \<Rightarrow> Inl (diagnose Malformed_Tool_Call choice message))"

text \<open>Gemini names the role \<open>model\<close> on messages with calls, and may omit their content.\<close>

definition message_role :: "provider \<Rightarrow> json option \<Rightarrow> json option" where
  "message_role p message =
     (let role = Option.bind message (field ''role'') in
      if p = Gemini \<and> role = Some (JString (units ''model''))
        \<and> (case Option.bind message (field ''tool_calls'') of Some (JArray (_ # _)) \<Rightarrow> True | _ \<Rightarrow> False)
      then Some (JString (units ''assistant'')) else role)"

definition message_content ::
  "provider \<Rightarrow> bool \<Rightarrow> json option \<Rightarrow> json option \<Rightarrow> client_error + js_string option" where
  "message_content p hasCalls choice message =
     (case Option.bind message (field ''content'') of
        None \<Rightarrow> if p = Gemini \<and> hasCalls then Inr None
                else Inl (diagnose Missing_Visible_Output choice message)
      | Some JNull \<Rightarrow> Inr None
      | Some (JString s) \<Rightarrow> Inr (Some s)
      | Some _ \<Rightarrow> Inl (diagnose Invalid_Content choice message))"

definition blank :: "js_string option \<Rightarrow> bool" where
  "blank s = (case s of None \<Rightarrow> True | Some t \<Rightarrow> js_trim t = [])"

text \<open>The rest of the answer, once its message is known to be usable.\<close>

definition completed :: "json \<Rightarrow> provider \<Rightarrow> json option \<Rightarrow> json option \<Rightarrow> tool_call list \<Rightarrow> js_string option
    \<Rightarrow> client_error + completion" where
  "completed response p choice message calls content =
     (case field ''model'' response of
        Some (JString model) \<Rightarrow>
          if js_trim model = [] \<or> length model > 200 then Inl (diagnose Missing_Model choice message)
          else
          let usage = field ''usage'' response in
          Inr \<lparr>cm_modelRole = False, cm_content = content, cm_calls = calls, cm_model = model,
            cm_promptTokens = safeInteger (Option.bind usage (field ''prompt_tokens'')),
            cm_completionTokens = safeInteger (Option.bind usage (field ''completion_tokens'')),
            cm_totalTokens = safeInteger (Option.bind usage (field ''total_tokens'')),
            cm_cost = usage_cost p usage, cm_provider = p\<rparr>
      | _ \<Rightarrow> Inl (diagnose Missing_Model choice message))"

definition normalize_choice :: "json \<Rightarrow> provider \<Rightarrow> json \<Rightarrow> client_error + completion" where
  "normalize_choice response p c =
     (let choice = Some c; message = field ''message'' c in
      if \<not> is_record message then Inl (diagnose Missing_Message choice message)
      else if message_role p message \<noteq> Some (JString (units ''assistant''))
      then Inl (diagnose Invalid_Message_Role choice message)
      else
      result_bind (raw_calls choice message) (\<lambda>calls.
      result_bind (message_content p (calls \<noteq> []) choice message) (\<lambda>content.
      if calls = [] \<and> blank content then Inl (diagnose Missing_Visible_Output choice message)
      else completed response p choice message calls content)))"

definition normalizeChatCompletion :: "json \<Rightarrow> provider \<Rightarrow> client_error + completion" where
  "normalizeChatCompletion response p =
     (if \<not> is_record (Some response) then Inl (diagnose Invalid_Envelope None None)
      else case field ''choices'' response of
        Some (JArray (c # _)) \<Rightarrow> normalize_choice response p c
      | _ \<Rightarrow> Inl (diagnose Missing_Choices None None))"

section \<open>The clients\<close>

text \<open>How the SDK fails, and what it is asked for.\<close>

datatype sdk_failure =
    Sdk_Timeout | Sdk_Aborted | Sdk_Api "int option" js_string "json option"
  | Sdk_Connection | Sdk_Other error

record ai_config =
  ac_openrouterEnabled :: bool
  ac_openrouterModel :: js_string
  ac_fallbackModels :: "js_string list"
  ac_openrouterMaxTokens :: int
  ac_requireZdr :: bool
  ac_geminiEnabled :: bool
  ac_geminiModel :: js_string
  ac_geminiMaxTokens :: int

record 'r openrouter_body =
  oq_model :: js_string
  oq_models :: "js_string list"
  oq_messages :: "'r chat_message list"
  oq_maxTokens :: int
  oq_zdr :: bool

datatype 'r gemini_message =
    Plain_Message "'r chat_message"
  | Calls_Message bool "js_string option" "tool_call list"
  | Named_Tool_Message js_string js_string 'r

record 'r gemini_request =
  gq_model :: js_string
  gq_messages :: "'r gemini_message list"
  gq_maxTokens :: int

record ('x, 'r) ai_sdk =
  openrouter_create :: "'r openrouter_body \<Rightarrow> 'x \<Rightarrow> (sdk_failure + json) \<times> 'x"
  gemini_create :: "'r gemini_request \<Rightarrow> 'x \<Rightarrow> (sdk_failure + json) \<times> 'x"
  signal_aborted :: "'x \<Rightarrow> bool"

definition openrouter_request :: "ai_config \<Rightarrow> 'r chat_message list \<Rightarrow> 'r openrouter_body" where
  "openrouter_request cfg messages =
     \<lparr>oq_model = ac_openrouterModel cfg,
      oq_models = (if ac_fallbackModels cfg \<noteq> [] then ac_openrouterModel cfg # ac_fallbackModels cfg else []),
      oq_messages = messages, oq_maxTokens = ac_openrouterMaxTokens cfg, oq_zdr = ac_requireZdr cfg\<rparr>"

text \<open>The reason of an API error, by its status; both clients agree on it.\<close>

definition status_reason :: "int option \<Rightarrow> failure_reason" where
  "status_reason status =
     (if status = Some 401 \<or> status = Some 403 then Authentication
      else if status = Some 402 then Credits
      else if status = Some 429 then Rate_Limit else Unavailable)"

definition openrouter_failure :: "sdk_failure \<Rightarrow> client_error" where
  "openrouter_failure e = (case e of
      Sdk_Timeout \<Rightarrow> Provider_Failure (failure Timeout None)
    | Sdk_Aborted \<Rightarrow> Provider_Failure (failure Timeout None)
    | Sdk_Api status _ _ \<Rightarrow> Provider_Failure (failure (status_reason status) status)
    | Sdk_Connection \<Rightarrow> Provider_Failure (failure Unavailable None)
    | Sdk_Other error \<Rightarrow> Local_Error error)"

definition openrouter_complete ::
  "ai_config \<Rightarrow> ('x, 'r) ai_sdk \<Rightarrow> 'r chat_message list \<Rightarrow> ('x, client_error, completion) action" where
  "openrouter_complete cfg sdk messages x =
     (if \<not> ac_openrouterEnabled cfg then (Inl (Provider_Failure (failure Unavailable None)), x)
      else case openrouter_create sdk (openrouter_request cfg messages) x of
        (Inl e, y) \<Rightarrow> (Inl (openrouter_failure e), y)
      | (Inr response, y) \<Rightarrow> (normalizeChatCompletion response Openrouter, y))"

text \<open>Gemini wants the name of the tool with its result, and the calls without further fields.\<close>

definition invalid_response :: client_error where
  "invalid_response = Provider_Failure (failure Invalid_Response None)"

definition non_empty :: "js_string option \<Rightarrow> js_string option" where
  "non_empty s = (case s of Some [] \<Rightarrow> None | _ \<Rightarrow> s)"

fun withToolNames ::
  "(js_string \<times> js_string) list \<Rightarrow> 'r chat_message list \<Rightarrow> client_error + 'r gemini_message list" where
  "withToolNames names [] = Inr []"
| "withToolNames names (Assistant_Message role content calls # ms) =
     (let names' = rev (map (\<lambda>c. (tc_id c, tc_name c)) calls) @ names in
      result_bind
        (if calls = [] then Inr (Plain_Message (Assistant_Message role content calls))
         else if list_ex (\<lambda>c. tc_extra c \<noteq> None \<and> \<not> is_record (tc_extra c)) calls then Inl invalid_response
         else Inr (Calls_Message role (non_empty content) calls)) (\<lambda>m.
      result_bind (withToolNames names' ms) (\<lambda>rest. Inr (m # rest))))"
| "withToolNames names (Tool_Message i content # ms) =
     (case map_of names i of
        None \<Rightarrow> Inl invalid_response
      | Some name \<Rightarrow>
          if name = [] then Inl invalid_response
          else result_bind (withToolNames names ms) (\<lambda>rest. Inr (Named_Tool_Message name i content # rest)))"
| "withToolNames names (m # ms) =
     result_bind (withToolNames names ms) (\<lambda>rest. Inr (Plain_Message m # rest))"

text \<open>The diagnosis of a rejected request: fixed categories, by texts in the provider's message.\<close>

definition mentions :: "string \<Rightarrow> js_string \<Rightarrow> bool" where
  "mentions t detail \<longleftrightarrow> buffer_includes (units t) (map lower detail)"

definition line_end :: "nat \<Rightarrow> bool" where
  "line_end c \<longleftrightarrow> c = 10 \<or> c = 13 \<or> c = 8232 \<or> c = 8233"

text \<open>\<open>/invalid.argument/i\<close>: any one character but a line end in the middle.\<close>

fun invalid_argument_text :: "js_string \<Rightarrow> bool" where
  "invalid_argument_text [] = False"
| "invalid_argument_text (c # s) \<longleftrightarrow>
     (starts_with (units ''invalid'') (c # s) \<and> length s \<ge> 7 \<and> \<not> line_end (s ! 6)
       \<and> starts_with (units ''argument'') (drop 7 s))
     \<or> invalid_argument_text s"

definition request_category_of :: "js_string \<Rightarrow> request_category" where
  "request_category_of detail =
     (if mentions ''missing thought_signature'' detail \<or> mentions ''missing a thought_signature'' detail
      then Missing_Thought_Signature
      else if mentions ''unknown name'' detail \<or> mentions ''unknown field'' detail
      then Unsupported_Message_Field
      else if mentions ''functionresponse'' detail \<or> mentions ''tool_call_id'' detail
        \<or> mentions ''function response'' detail
      then Invalid_Tool_Response
      else if invalid_argument_text (map lower detail) then Invalid_Argument
      else Other_Bad_Request)"

fun gemini_calls :: "'r gemini_message \<Rightarrow> tool_call list" where
  "gemini_calls (Plain_Message (Assistant_Message _ _ calls)) = calls"
| "gemini_calls (Calls_Message _ _ calls) = calls"
| "gemini_calls _ = []"

fun is_tool_result :: "'r gemini_message \<Rightarrow> bool" where
  "is_tool_result (Plain_Message (Tool_Message _ _)) = True"
| "is_tool_result (Named_Tool_Message _ _ _) = True"
| "is_tool_result _ = False"

definition signed_call :: "tool_call \<Rightarrow> bool" where
  "signed_call c \<longleftrightarrow> (case Option.bind (Option.bind (tc_extra c) (field ''google'')) (field ''thought_signature'') of
      Some (JString s) \<Rightarrow> s \<noteq> [] | _ \<Rightarrow> False)"

definition badRequestDiagnostic :: "js_string \<Rightarrow> json option \<Rightarrow> 'r gemini_message list \<Rightarrow> request_diagnostic" where
  "badRequestDiagnostic detail body messages =
     (let steps = filter (\<lambda>calls. calls \<noteq> []) (map gemini_calls messages);
          results = length (filter is_tool_result messages);
          code = Option.bind body (field ''status'') in
      \<lparr>rd_toolContinuation = (results \<noteq> 0), rd_category = request_category_of detail,
       rd_providerCode = (if code = Some (JString (units ''INVALID_ARGUMENT'')) then Pc_Invalid_Argument
         else if code = Some (JString (units ''FAILED_PRECONDITION'')) then Pc_Failed_Precondition
         else Pc_Other),
       rd_toolCallCount = min (length (concat steps)) 100, rd_toolResultCount = min results 100,
       rd_allToolCallStepsSigned = (if steps = [] then None
         else Some (list_all (\<lambda>calls. signed_call (hd calls)) steps))\<rparr>)"

definition gemini_failure :: "'r gemini_message list \<Rightarrow> sdk_failure \<Rightarrow> client_error" where
  "gemini_failure sent e = (case e of
      Sdk_Api status detail body \<Rightarrow>
        if status = Some 400
        then Provider_Failure \<lparr>pf_reason = Unavailable, pf_status = status, pf_diagnostic = None,
               pf_request = Some (badRequestDiagnostic detail body sent)\<rparr>
        else openrouter_failure e
    | _ \<Rightarrow> openrouter_failure e)"

definition original_role :: "json \<Rightarrow> bool" where
  "original_role response = (case field ''choices'' response of
      Some (JArray (c # _)) \<Rightarrow>
        Option.bind (field ''message'' c) (field ''role'') = Some (JString (units ''model''))
    | _ \<Rightarrow> False)"

definition gemini_complete ::
  "ai_config \<Rightarrow> ('x, 'r) ai_sdk \<Rightarrow> 'r chat_message list \<Rightarrow> ('x, client_error, completion) action" where
  "gemini_complete cfg sdk messages x =
     (if \<not> ac_geminiEnabled cfg then (Inl (Provider_Failure (failure Unavailable None)), x)
      else case withToolNames [] messages of
        Inl e \<Rightarrow> (Inl e, x)
      | Inr sent \<Rightarrow>
          (case gemini_create sdk \<lparr>gq_model = ac_geminiModel cfg, gq_messages = sent,
                  gq_maxTokens = ac_geminiMaxTokens cfg\<rparr> x of
             (Inl e, y) \<Rightarrow> (Inl (gemini_failure sent e), y)
           | (Inr response, y) \<Rightarrow>
               (case normalizeChatCompletion response Gemini of
                  Inl e \<Rightarrow> (Inl e, y)
                | Inr c \<Rightarrow> (Inr (if cm_calls c = [] then c
                     else c\<lparr>cm_modelRole := original_role response\<rparr>), y))))"

section \<open>Routing\<close>

text \<open>The provider an exchange is pinned to is the second component of the state.\<close>

definition eligible :: "client_error \<Rightarrow> bool" where
  "eligible e = (case e of
      Local_Error _ \<Rightarrow> False
    | Provider_Failure f \<Rightarrow> pf_reason f = Rate_Limit \<or> pf_reason f = Timeout
        \<or> (pf_reason f = Unavailable \<and> (case pf_status f of None \<Rightarrow> True | Some s \<Rightarrow> s \<ge> 500)))"

definition client :: "provider \<Rightarrow> ai_config \<Rightarrow> ('x, 'r) ai_sdk \<Rightarrow> 'r chat_message list
    \<Rightarrow> ('x, client_error, completion) action" where
  "client p = (case p of Openrouter \<Rightarrow> openrouter_complete | Gemini \<Rightarrow> gemini_complete)"

definition router_enabled :: "ai_config \<Rightarrow> bool" where
  "router_enabled cfg \<longleftrightarrow> ac_openrouterEnabled cfg \<or> ac_geminiEnabled cfg"

text \<open>A call through a client; a success pins the exchange.\<close>

definition through :: "provider \<Rightarrow> ai_config \<Rightarrow> ('x, 'r) ai_sdk \<Rightarrow> 'r chat_message list
    \<Rightarrow> ('x \<times> provider option, client_error, completion) action" where
  "through p cfg sdk messages s = (case client p cfg sdk messages (fst s) of
      (Inl e, x) \<Rightarrow> (Inl e, (x, snd s))
    | (Inr c, x) \<Rightarrow> (Inr c, (x, Some p)))"

definition fall_back :: "ai_config \<Rightarrow> ('x, 'r) ai_sdk \<Rightarrow> 'r chat_message list
    \<Rightarrow> ('x \<times> provider option, client_error, completion) action" where
  "fall_back cfg sdk messages =
     (if \<not> ac_geminiEnabled cfg then throw (Provider_Failure (failure Unavailable None))
      else through Gemini cfg sdk messages)"

definition router_complete :: "ai_config \<Rightarrow> ('x, 'r) ai_sdk \<Rightarrow> 'r chat_message list
    \<Rightarrow> ('x \<times> provider option, client_error, completion) action" where
  "router_complete cfg sdk messages s =
     (case snd s of
        Some p \<Rightarrow> through p cfg sdk messages s
      | None \<Rightarrow>
          if ac_openrouterEnabled cfg then
            catching (through Openrouter cfg sdk messages)
              (\<lambda>e. andthen (gets (\<lambda>t. signal_aborted sdk (fst t))) (\<lambda>aborted.
                if \<not> ac_geminiEnabled cfg \<or> \<not> eligible e \<or> aborted then throw e
                else fall_back cfg sdk messages)) s
          else fall_back cfg sdk messages s)"

end
