(* ===== verification/Statistics.thy ===== *)
theory Statistics
  imports Subscriptions
begin

text \<open>
  The statistics of a company's dashboard (\<open>statistics/statistics.service.ts\<close>): the current view of
  its subscription, and counts of its invitations and files. The five queries run side by side and
  only read; they are modelled one after the other.
\<close>

record stats_subscription =
  ss_planCode :: plan_code
  ss_planName :: string
  ss_activatedAt :: date
  ss_planChangedAt :: date

record stats_employees =
  se_accepted :: int
  se_pendingInvitations :: int
  se_limit :: "int option"
  se_unlimited :: bool
  se_remainingSlots :: "int option"

record stats_files =
  sf_total :: int
  sf_companyWide :: int
  sf_restricted :: int
  sf_startsAt :: date
  sf_endsAt :: date
  sf_successfulUploads :: int
  sf_includedAllowance :: int
  sf_unlimited :: bool
  sf_remainingIncludedUploads :: int
  sf_remainingUploads :: "int option"
  sf_premiumOverageUploads :: int

record stats_billing =
  sb_calculationBasis :: calculation_basis
  sb_currency :: billing_currency
  sb_baseAmountCents :: int
  sb_employeeChargeCents :: int
  sb_overageChargeCents :: int
  sb_totalAmountCents :: int

record statistics =
  st_companyId :: oid
  st_subscription :: stats_subscription
  st_employees :: stats_employees
  st_files :: stats_files
  st_billing :: stats_billing

definition company_wide_files :: "world \<Rightarrow> oid \<Rightarrow> int" where
  "company_wide_files w companyId =
     countDocuments (\<lambda>f. f_companyId f = companyId
       \<and> (f_visibility f = Some COMPANY_WIDE \<or> f_visibility f = None)) (files w)"

definition restricted_files :: "world \<Rightarrow> oid \<Rightarrow> int" where
  "restricted_files w companyId =
     countDocuments (\<lambda>f. f_companyId f = companyId \<and> f_visibility f = Some RESTRICTED) (files w)"

definition employee_stats :: "current_view \<Rightarrow> int \<Rightarrow> stats_employees" where
  "employee_stats current pendingInvitations =
     \<lparr>se_accepted = cu_employeeCount current, se_pendingInvitations = pendingInvitations,
      se_limit = maxEmployees (cu_plan current), se_unlimited = (maxEmployees (cu_plan current) = None),
      se_remainingSlots = map_option (\<lambda>limit. max 0 (limit - cu_employeeCount current - pendingInvitations))
        (maxEmployees (cu_plan current))\<rparr>"

definition file_stats :: "current_view \<Rightarrow> int \<Rightarrow> int \<Rightarrow> int \<Rightarrow> stats_files" where
  "file_stats current storedFiles companyWide restricted =
     (let billing = cu_billingSummary current;
          unlimited = extraFilePriceCents (cu_plan current) \<noteq> None;
          remaining = max 0 (b_includedUploadAllowance billing - storedFiles) in
      \<lparr>sf_total = storedFiles, sf_companyWide = companyWide, sf_restricted = restricted,
       sf_startsAt = startsAt (b_billingPeriod billing), sf_endsAt = endsAt (b_billingPeriod billing),
       sf_successfulUploads = b_successfulUploads billing,
       sf_includedAllowance = b_includedUploadAllowance billing, sf_unlimited = unlimited,
       sf_remainingIncludedUploads = remaining,
       sf_remainingUploads = (if unlimited then None else Some remaining),
       sf_premiumOverageUploads = b_billableOverageUploads billing\<rparr>)"

definition billing_stats :: "billing_summary \<Rightarrow> stats_billing" where
  "billing_stats billing =
     \<lparr>sb_calculationBasis = b_calculationBasis billing, sb_currency = b_currency billing,
      sb_baseAmountCents = b_baseAmountCents billing,
      sb_employeeChargeCents = b_employeeChargeCents billing,
      sb_overageChargeCents = b_overageChargeCents billing,
      sb_totalAmountCents = b_totalAmountCents billing\<rparr>"

definition statistics_getCurrent :: "oid \<Rightarrow> date \<Rightarrow> statistics handler" where
  "statistics_getCurrent companyId now =
     andthen (getCurrent companyId now) (\<lambda>current.
     andthen (gets (\<lambda>w. pending_invitations w companyId now)) (\<lambda>pendingInvitations.
     andthen (gets (\<lambda>w. stored_files w companyId)) (\<lambda>storedFiles.
     andthen (gets (\<lambda>w. company_wide_files w companyId)) (\<lambda>companyWide.
     andthen (gets (\<lambda>w. restricted_files w companyId)) (\<lambda>restricted.
     return
       \<lparr>st_companyId = cu_companyId current,
        st_subscription = \<lparr>ss_planCode = pl_code (cu_plan current), ss_planName = pl_name (cu_plan current),
          ss_activatedAt = cu_activatedAt current, ss_planChangedAt = cu_planChangedAt current\<rparr>,
        st_employees = employee_stats current pendingInvitations,
        st_files = file_stats current storedFiles companyWide restricted,
        st_billing = billing_stats (cu_billingSummary current)\<rparr>)))))"

text \<open>Every stored file is either company-wide or restricted.\<close>

lemma files_partition:
  "stored_files w c = company_wide_files w c + restricted_files w c"
proof -
  have "countDocuments (\<lambda>f. f_companyId f = c) fs =
      countDocuments (\<lambda>f. f_companyId f = c \<and> (f_visibility f = Some COMPANY_WIDE \<or> f_visibility f = None)) fs
      + countDocuments (\<lambda>f. f_companyId f = c \<and> f_visibility f = Some RESTRICTED) fs" for fs
  proof (induction fs)
    case (Cons f fs)
    have "f_visibility f = None \<or> f_visibility f = Some COMPANY_WIDE \<or> f_visibility f = Some RESTRICTED"
      by (metis file_visibility.exhaust option.exhaust)
    with Cons show ?case by (auto simp: collection_simps)
  qed (simp add: collection_simps)
  then show ?thesis by (simp add: stored_files_def company_wide_files_def restricted_files_def)
qed

lemma getCurrent_state: "getCurrent c now w = (r, w') \<Longrightarrow> w' = w"
  using getCurrent_reads_only by (rule reads_onlyD)

lemma statistics_state: "statistics_getCurrent c now w = (r, w') \<Longrightarrow> w' = w"
  by (cases r) (auto simp: statistics_getCurrent_def action_simps dest: getCurrent_state)

end
