(* ===== verification/Conversations.thy ===== *)
theory Conversations
  imports Assistant
begin

text \<open>
  Requests to the assistant (\<open>ai/ai.service.ts\<close>, continued): storing an exchange, recovering one
  whose commit was not acknowledged, the whole of a chat request, and reading and deleting
  conversations.
\<close>

section \<open>Views\<close>

record conversation_view =
  vw_id :: oid
  vw_title :: js_string
  vw_messageCount :: int
  vw_createdAt :: date
  vw_updatedAt :: date

definition publicConversation :: "conversation \<Rightarrow> conversation_view" where
  "publicConversation c = \<lparr>vw_id = cn_id c, vw_title = cn_title c, vw_messageCount = cn_messageCount c,
     vw_createdAt = cn_createdAt c, vw_updatedAt = cn_updatedAt c\<rparr>"

text \<open>The messages of a fresh exchange are answered without their time.\<close>

record message_view =
  mv_id :: oid
  mv_role :: ai_role
  mv_content :: js_string
  mv_createdAt :: "date option"

definition publicMessage :: "ai_message \<Rightarrow> message_view" where
  "publicMessage m = \<lparr>mv_id = am_id m, mv_role = am_role m, mv_content = am_content m,
     mv_createdAt = Some (am_createdAt m)\<rparr>"

record usage_view =
  uv_model :: "js_string option"
  uv_promptTokens :: int
  uv_completionTokens :: int
  uv_totalTokens :: int
  uv_cost :: "int option"
  uv_durationMs :: int
  uv_toolCallCount :: nat

definition last_model :: "usage_totals \<Rightarrow> js_string option" where
  "last_model u = (if ut_modelsUsed u = [] then None else Some (last (ut_modelsUsed u)))"

definition publicUsage :: "usage_totals \<Rightarrow> nat \<Rightarrow> int \<Rightarrow> usage_view" where
  "publicUsage u toolCallCount durationMs =
     \<lparr>uv_model = last_model u, uv_promptTokens = ut_promptTokens u,
      uv_completionTokens = ut_completionTokens u, uv_totalTokens = ut_totalTokens u,
      uv_cost = ut_cost u, uv_durationMs = durationMs, uv_toolCallCount = toolCallCount\<rparr>"

record exchange =
  ex_requestId :: string
  ex_conversation :: conversation_view
  ex_messages :: "message_view list"
  ex_usage :: usage_view

section \<open>Storing an exchange\<close>

text \<open>
  The inputs of a request besides the message: identifiers drawn, the times of its steps, the
  outcome of its commit, and whether the final release of the lease reaches the database.
\<close>

record chat_env =
  ch_requestId :: string
  ch_conversationId :: oid
  ch_userMessageId :: oid
  ch_assistantMessageId :: oid
  ch_startedAt :: date
  ch_acquireAt :: date
  ch_toolTimes :: "nat \<Rightarrow> date"
  ch_finishedAt :: date
  ch_storeAt :: date
  ch_commit :: commit_outcome
  ch_released :: bool

definition create_messages :: "ai_message list \<Rightarrow> unit ai_handler" where
  "create_messages ms =
     andthen (gets aiMessages) (\<lambda>stored.
     if list_ex (\<lambda>m. am_id m \<in> set (map am_id stored)) ms \<or> \<not> distinct (map am_id ms) then throw (Ai_Thrown (DuplicateKey ''_id''))
     else modify (\<lambda>w. w\<lparr>aiMessages := aiMessages w @ ms\<rparr>))"

text \<open>Usage is unique by request, and its tool calls are bounded by the schema.\<close>

definition create_usage_row :: "ai_usage \<Rightarrow> unit ai_handler" where
  "create_usage_row u =
     (if au_toolCallCount u > 25 then throw (Ai_Thrown (PlainError ''ValidationError''))
      else
      andthen (gets aiUsages) (\<lambda>stored.
      if list_ex (\<lambda>v. au_requestId v = au_requestId u) stored then throw (Ai_Thrown (DuplicateKey ''requestId''))
      else modify (\<lambda>w. w\<lparr>aiUsages := aiUsages w @ [u]\<rparr>)))"

definition exchange_message ::
  "oid \<Rightarrow> actor \<Rightarrow> oid \<Rightarrow> ai_role \<Rightarrow> js_string \<Rightarrow> date \<Rightarrow> ai_message" where
  "exchange_message i actor conversationId role content createdAt =
     \<lparr>am_id = i, am_conversationId = conversationId, am_companyId = a_companyId actor,
      am_userId = a_id actor, am_role = role, am_content = content, am_createdAt = createdAt\<rparr>"

definition usage_row :: "chat_env \<Rightarrow> actor \<Rightarrow> oid \<Rightarrow> agent_result \<Rightarrow> int \<Rightarrow> ai_usage" where
  "usage_row env actor conversationId result durationMs =
     (let u = gr_usage result in
      \<lparr>au_requestId = ch_requestId env, au_companyId = a_companyId actor, au_userId = a_id actor,
       au_conversationId = conversationId, au_assistantMessageId = ch_assistantMessageId env,
       au_modelId = option_default [] (last_model u), au_provider = option_default Openrouter (ut_provider u),
       au_modelsUsed = ut_modelsUsed u, au_promptTokens = ut_promptTokens u,
       au_completionTokens = ut_completionTokens u, au_totalTokens = ut_totalTokens u,
       au_cost = ut_cost u, au_durationMs = durationMs, au_toolCallCount = gr_toolCallCount result\<rparr>)"

definition leased :: "actor \<Rightarrow> oid \<Rightarrow> string \<Rightarrow> conversation \<Rightarrow> bool" where
  "leased actor i requestId c \<longleftrightarrow> owned actor i c \<and> cn_activeRequestId c = Some requestId"

definition release :: "date \<Rightarrow> conversation \<Rightarrow> conversation" where
  "release now c = c\<lparr>cn_activeRequestId := None, cn_activeRequestExpiresAt := None, cn_updatedAt := now\<rparr>"

definition count_exchange :: "date \<Rightarrow> conversation \<Rightarrow> conversation" where
  "count_exchange now c = (release now c)\<lparr>cn_messageCount := cn_messageCount c + 2\<rparr>"

definition changed_during :: ai_error where
  "changed_during = Ai_Thrown (http Conflict ''Conversation changed during the request'')"

definition store_exchange ::
  "ai_limits \<Rightarrow> chat_env \<Rightarrow> actor \<Rightarrow> oid \<Rightarrow> js_string \<Rightarrow> agent_result \<Rightarrow> int \<Rightarrow> unit ai_handler" where
  "store_exchange limits env actor i userContent result durationMs =
     (let requestId = ch_requestId env; now = ch_storeAt env in
      andthen (gets (\<lambda>w. find (\<lambda>c. leased actor i requestId c
          \<and> cn_messageCount c \<le> al_maxConversationMessages limits - 2) (conversations w))) (\<lambda>current.
      if current = None then throw changed_during
      else
      andthen (create_messages
        [exchange_message (ch_userMessageId env) actor i Ai_User userContent now,
         exchange_message (ch_assistantMessageId env) actor i Ai_Assistant (gr_content result) (now + 1)]) (\<lambda>_.
      andthen (create_usage_row (usage_row env actor i result durationMs)) (\<lambda>_.
      andthen (gets (\<lambda>w. find (leased actor i requestId) (conversations w))) (\<lambda>updated.
      if updated = None then throw changed_during
      else modify (\<lambda>w. w\<lparr>conversations :=
        updateOne (leased actor i requestId) (count_exchange now) (conversations w)\<rparr>))))))"

text \<open>The commit of a transaction, as the server answers it (see \<open>committing\<close>).\<close>

definition ai_committing :: "commit_outcome \<Rightarrow> 'a ai_handler \<Rightarrow> 'a ai_handler" where
  "ai_committing outcome body w =
     (case body w of
        (Inl e, _) \<Rightarrow> (Inl e, w)
      | (Inr x, t) \<Rightarrow>
          (case outcome of
             Committed \<Rightarrow> (Inr x, t)
           | Aborted \<Rightarrow> (Inl (Ai_Thrown (PlainError ''TransactionAborted'')), w)
           | Unknown_Applied \<Rightarrow> (Inl (Ai_Thrown UnknownCommit), t)
           | Unknown_Lost \<Rightarrow> (Inl (Ai_Thrown UnknownCommit), w)))"

fun is_http_error :: "ai_error \<Rightarrow> bool" where
  "is_http_error (Ai_Thrown (HttpException _ _)) = True"
| "is_http_error _ = False"

definition ownedConversation :: "actor \<Rightarrow> oid \<Rightarrow> conversation ai_handler" where
  "ownedConversation actor i =
     andthen (gets (\<lambda>w. find (\<lambda>c. owned actor i c \<and> cn_messageCount c > 0) (conversations w))) (\<lambda>found.
     case found of
       None \<Rightarrow> throw (Ai_Thrown (http NotFound ''Conversation not found''))
     | Some c \<Rightarrow> return c)"

definition persistExchange ::
  "ai_limits \<Rightarrow> chat_env \<Rightarrow> actor \<Rightarrow> oid \<Rightarrow> js_string \<Rightarrow> agent_result \<Rightarrow> int \<Rightarrow> exchange ai_handler" where
  "persistExchange limits env actor i userContent result durationMs =
     andthen (catching
       (ai_committing (ch_commit env) (store_exchange limits env actor i userContent result durationMs))
       (\<lambda>e. if is_http_error e then throw e else throw (asInternalFailure Persistence_Transaction e))) (\<lambda>_.
     andthen (catching (ownedConversation actor i)
       (\<lambda>e. throw (asInternalFailure Post_Commit_Read e))) (\<lambda>updated.
     return \<lparr>ex_requestId = ch_requestId env, ex_conversation = publicConversation updated,
       ex_messages =
         [\<lparr>mv_id = ch_userMessageId env, mv_role = Ai_User, mv_content = userContent, mv_createdAt = None\<rparr>,
          \<lparr>mv_id = ch_assistantMessageId env, mv_role = Ai_Assistant, mv_content = gr_content result,
           mv_createdAt = None\<rparr>],
       ex_usage = publicUsage (gr_usage result) (gr_toolCallCount result) durationMs\<rparr>))"

text \<open>What was stored for a request although its commit was not acknowledged.\<close>

definition recoverCommitted :: "actor \<Rightarrow> string \<Rightarrow> exchange option ai_handler" where
  "recoverCommitted actor requestId =
     catching
       (andthen (gets (\<lambda>w. find (\<lambda>u. au_requestId u = requestId \<and> au_companyId u = a_companyId actor
            \<and> au_userId u = a_id actor) (aiUsages w))) (\<lambda>found.
        case found of
          None \<Rightarrow> return None
        | Some u \<Rightarrow>
            andthen (ownedConversation actor (au_conversationId u)) (\<lambda>c.
            andthen (gets (\<lambda>w. find (\<lambda>m. am_id m = au_assistantMessageId u
                \<and> message_of actor (au_conversationId u) m \<and> am_role m = Ai_Assistant) (aiMessages w))) (\<lambda>assistant.
            case assistant of
              None \<Rightarrow> return None
            | Some m \<Rightarrow> return (Some
                \<lparr>ex_requestId = requestId, ex_conversation = publicConversation c,
                 ex_messages = [publicMessage m],
                 ex_usage = \<lparr>uv_model = Some (au_modelId u), uv_promptTokens = au_promptTokens u,
                   uv_completionTokens = au_completionTokens u, uv_totalTokens = au_totalTokens u,
                   uv_cost = au_cost u, uv_durationMs = au_durationMs u,
                   uv_toolCallCount = au_toolCallCount u\<rparr>\<rparr>)))))
       (\<lambda>_. return None)"

section \<open>A chat request\<close>

record chat_request =
  cq_conversationId :: "oid option"
  cq_message :: js_string

definition open_conversation :: "ai_config \<Rightarrow> ai_limits \<Rightarrow> chat_env \<Rightarrow> actor \<Rightarrow> chat_request
    \<Rightarrow> conversation ai_handler" where
  "open_conversation cfg limits env actor dto =
     (let expiresAt = ch_startedAt env + timeoutMs cfg limits + 30000 in
      case cq_conversationId dto of
        None \<Rightarrow> createConversation limits actor (cq_message dto) (ch_requestId env) expiresAt
          (ch_conversationId env) (ch_acquireAt env)
      | Some i \<Rightarrow> acquireConversation limits actor i (ch_requestId env) expiresAt (ch_acquireAt env))"

text \<open>The lease is given back; a conversation created for a request that stored nothing is removed.\<close>

definition close_conversation :: "chat_env \<Rightarrow> actor \<Rightarrow> chat_request \<Rightarrow> oid \<Rightarrow> ai_world \<Rightarrow> ai_world" where
  "close_conversation env actor dto i w =
     (if \<not> ch_released env then w
      else if cq_conversationId dto = None
      then w\<lparr>conversations := deleteOne (\<lambda>c. leased actor i (ch_requestId env) c \<and> cn_messageCount c = 0)
               (conversations w)\<rparr>
      else w\<lparr>conversations := updateOne (leased actor i (ch_requestId env)) (release (ch_finishedAt env))
               (conversations w)\<rparr>)"

definition answer :: "ai_config \<Rightarrow> ('x, tool_result) ai_sdk \<Rightarrow> (js_string \<Rightarrow> js_string) \<Rightarrow> ai_limits
    \<Rightarrow> chat_env \<Rightarrow> actor \<Rightarrow> js_string \<Rightarrow> oid \<Rightarrow> ('x, agent_result) ai_action" where
  "answer cfg sdk collation limits env actor message i =
     andthen (ai_db (contextHistory limits actor i)) (\<lambda>history.
     runAgent cfg sdk collation limits actor (ch_toolTimes env) history message)"

definition persist_or_recover ::
  "ai_limits \<Rightarrow> chat_env \<Rightarrow> actor \<Rightarrow> oid \<Rightarrow> js_string \<Rightarrow> agent_result \<Rightarrow> exchange ai_handler" where
  "persist_or_recover limits env actor i message result =
     catching (persistExchange limits env actor i message result (ch_finishedAt env - ch_startedAt env))
       (\<lambda>e. andthen (recoverCommitted actor (ch_requestId env)) (\<lambda>recovered.
            case recovered of Some x \<Rightarrow> return x | None \<Rightarrow> throw e))"

definition chat :: "ai_config \<Rightarrow> ('x, tool_result) ai_sdk \<Rightarrow> (js_string \<Rightarrow> js_string) \<Rightarrow> ai_limits
    \<Rightarrow> chat_env \<Rightarrow> actor \<Rightarrow> chat_request \<Rightarrow> ('x ai_state, error, exchange) action" where
  "chat cfg sdk collation limits env actor dto =
     (if \<not> router_enabled cfg
      then throw (HttpException ServiceUnavailable (Coded ''AI assistant is not configured'' ''ai_disabled''))
      else if length (cq_message dto) > al_maxMessageChars limits
      then throw (HttpException BadRequest (Coded
        (''Message exceeds the '' @ show_int (int (al_maxMessageChars limits)) @ ''-character limit'') ''ai_message_too_long''))
      else
      handling
        (andthen (ai_db (open_conversation cfg limits env actor dto)) (\<lambda>c.
         at_last
           (andthen (answer cfg sdk collation limits env actor (cq_message dto) (cn_id c)) (\<lambda>result.
            ai_db (persist_or_recover limits env actor (cn_id c) (cq_message dto) result)))
           (\<lambda>s. s\<lparr>ad := close_conversation env actor dto (cn_id c) (ad s)\<rparr>)))
        (\<lambda>e. throw (chat_error (ch_requestId env) e)))"

section \<open>Reading and deleting\<close>

record conversation_page =
  pg_conversations :: "conversation_view list"
  pg_total :: int
  pg_page :: nat
  pg_limit :: nat

definition list_conversations :: "actor \<Rightarrow> nat \<Rightarrow> nat \<Rightarrow> conversation_page ai_handler" where
  "list_conversations actor page limit =
     (let q = (\<lambda>c. cn_companyId c = a_companyId actor \<and> cn_userId c = a_id actor \<and> cn_messageCount c > 0) in
      andthen (gets (\<lambda>w. limit_rows limit (drop ((page - 1) * limit)
        (sort_key (\<lambda>c. (- cn_updatedAt c, - int (cn_id c))) (filter q (conversations w)))))) (\<lambda>rows.
      andthen (gets (\<lambda>w. countDocuments q (conversations w))) (\<lambda>total.
      return \<lparr>pg_conversations = map publicConversation rows, pg_total = total, pg_page = page, pg_limit = limit\<rparr>)))"

definition get_conversation :: "actor \<Rightarrow> oid \<Rightarrow> (conversation_view \<times> message_view list) ai_handler" where
  "get_conversation actor i =
     andthen (ownedConversation actor i) (\<lambda>c.
     andthen (gets (\<lambda>w. sort_key (\<lambda>m. (am_createdAt m, am_id m)) (filter (message_of actor i) (aiMessages w)))) (\<lambda>ms.
     return (publicConversation c, map publicMessage ms)))"

definition delete_transaction :: "actor \<Rightarrow> oid \<Rightarrow> date \<Rightarrow> unit ai_handler" where
  "delete_transaction actor i now =
     (let q = (\<lambda>c. owned actor i c \<and> idle now c) in
      andthen (gets (\<lambda>w. find q (conversations w))) (\<lambda>deleted.
      if deleted = None
      then andthen (gets (\<lambda>w. list_ex (owned actor i) (conversations w))) (\<lambda>exists.
        if exists then throw (Ai_Thrown (http Conflict ''Conversation is processing a request''))
        else throw (Ai_Thrown (http NotFound ''Conversation not found'')))
      else modify (\<lambda>w. w\<lparr>conversations := deleteOne q (conversations w),
        aiMessages := deleteMany (message_of actor i) (aiMessages w)\<rparr>)))"

definition delete_conversation :: "actor \<Rightarrow> oid \<Rightarrow> date \<Rightarrow> commit_outcome \<Rightarrow> string ai_handler" where
  "delete_conversation actor i now outcome =
     andthen (ai_committing outcome (delete_transaction actor i now)) (\<lambda>_. return ''Conversation deleted'')"

end
