(* ===== verification/AssistantTools.thy ===== *)
theory AssistantTools
  imports Conversations "HOL-Library.Sublist"
begin

text \<open>
  What the assistant's model can learn and how long it may go on: everything a request sends to a
  provider is determined by the actor's own company and conversation, whatever the provider
  answers; the loop asks a bounded number of times; an answer that was normalised needs no further
  check.
\<close>

section \<open>Actions that are determined by a part of the state\<close>

text \<open>Run in two states that are related by \<open>R\<close>, the action returns the same and keeps them related.\<close>

definition determined :: "('s \<Rightarrow> 's \<Rightarrow> bool) \<Rightarrow> ('s, 'e, 'a) action \<Rightarrow> bool" where
  "determined R m \<longleftrightarrow> (\<forall>s t. R s t \<longrightarrow> fst (m s) = fst (m t) \<and> R (snd (m s)) (snd (m t)))"

named_theorems determined_intros \<open>an action is determined by a part of the state\<close>

lemma determinedD: "determined R m \<Longrightarrow> R s t \<Longrightarrow> fst (m s) = fst (m t) \<and> R (snd (m s)) (snd (m t))"
  by (simp add: determined_def)

lemma determined_return [determined_intros]: "determined R (return x)"
  by (simp add: determined_def return_def)

lemma determined_throw [determined_intros]: "determined R (throw e)"
  by (simp add: determined_def throw_def)

lemma determined_lift_result [determined_intros]: "determined R (lift_result r)"
  by (simp add: determined_def lift_result_def)

lemma determined_gets: "(\<And>s t. R s t \<Longrightarrow> g s = g t) \<Longrightarrow> determined R (gets g)"
  by (simp add: determined_def gets_def)

lemma determined_if [determined_intros]:
  "(b \<Longrightarrow> determined R m) \<Longrightarrow> (\<not> b \<Longrightarrow> determined R n) \<Longrightarrow> determined R (if b then m else n)"
  by simp

lemma determined_option [determined_intros]:
  "determined R m \<Longrightarrow> (\<And>x. determined R (f x)) \<Longrightarrow> determined R (case v of None \<Rightarrow> m | Some x \<Rightarrow> f x)"
  by (cases v) auto

lemma determined_nat [determined_intros]:
  "(n = 0 \<Longrightarrow> determined R m) \<Longrightarrow> (\<And>k. n = Suc k \<Longrightarrow> determined R (f k)) \<Longrightarrow>
     determined R (case n of 0 \<Rightarrow> m | Suc k \<Rightarrow> f k)"
  by (cases n) simp_all

lemma determined_let [determined_intros]: "determined R (f x) \<Longrightarrow> determined R (let y = x in f y)"
  by simp

lemma determined_andthen [determined_intros]:
  assumes "determined R m" "\<And>x. determined R (f x)"
  shows "determined R (andthen m f)"
  unfolding determined_def
proof (intro allI impI)
  fix s t assume "R s t"
  then have "fst (m s) = fst (m t)" "R (snd (m s)) (snd (m t))" using assms(1) by (simp_all add: determined_def)
  then show "fst (andthen m f s) = fst (andthen m f t) \<and> R (snd (andthen m f s)) (snd (andthen m f t))"
    using assms(2) by (cases "m s"; cases "m t"; cases "fst (m s)") (auto simp: andthen_def determined_def)
qed

lemma determined_catching [determined_intros]:
  assumes "determined R m" "\<And>e. determined R (h e)"
  shows "determined R (catching m h)"
  unfolding determined_def
proof (intro allI impI)
  fix s t assume "R s t"
  then have "fst (m s) = fst (m t)" "R (snd (m s)) (snd (m t))" using assms(1) by (simp_all add: determined_def)
  then show "fst (catching m h s) = fst (catching m h t) \<and> R (snd (catching m h s)) (snd (catching m h t))"
    using assms(2) by (cases "m s"; cases "m t"; cases "fst (m s)") (auto simp: catching_def determined_def)
qed

lemma determined_transaction [determined_intros]:
  assumes "determined R m"
  shows "determined R (transaction m)"
  unfolding determined_def
proof (intro allI impI)
  fix s t assume R: "R s t"
  then have "fst (m s) = fst (m t)" "R (snd (m s)) (snd (m t))" using assms(1) by (simp_all add: determined_def)
  then show "fst (transaction m s) = fst (transaction m t) \<and> R (snd (transaction m s)) (snd (transaction m t))"
    using R by (cases "m s"; cases "m t"; cases "fst (m s)") (auto simp: transaction_def)
qed

section \<open>The part of the database a request may see\<close>

definition same_company :: "oid \<Rightarrow> world \<Rightarrow> world \<Rightarrow> bool" where
  "same_company c w v \<longleftrightarrow>
     find (\<lambda>x. c_id x = c) (companies w) = find (\<lambda>x. c_id x = c) (companies v)
   \<and> filter (\<lambda>x. u_companyId x = c) (users w) = filter (\<lambda>x. u_companyId x = c) (users v)
   \<and> filter (\<lambda>x. s_companyId x = c) (subscriptions w) = filter (\<lambda>x. s_companyId x = c) (subscriptions v)
   \<and> filter (\<lambda>x. p_companyId x = c) (periods w) = filter (\<lambda>x. p_companyId x = c) (periods v)
   \<and> filter (\<lambda>x. i_companyId x = c) (invitations w) = filter (\<lambda>x. i_companyId x = c) (invitations v)
   \<and> filter (\<lambda>x. f_companyId x = c) (files w) = filter (\<lambda>x. f_companyId x = c) (files v)"

text \<open>A query for documents of one kind looks only at the documents of that kind.\<close>

lemma find_within: "(\<And>x. p x \<Longrightarrow> q x) \<Longrightarrow> find p xs = find p (filter q xs)"
  by (induction xs) auto

lemma count_within: "(\<And>x. p x \<Longrightarrow> q x) \<Longrightarrow> countDocuments p xs = countDocuments p (filter q xs)"
  by (induction xs) (auto simp: collection_simps)

lemma filter_within: "(\<And>x. p x \<Longrightarrow> q x) \<Longrightarrow> filter p xs = filter p (filter q xs)"
  by (induction xs) auto

lemma same_company_reads:
  assumes "same_company c w v"
  shows "subscription_of w c = subscription_of v c" "usage_of w c d = usage_of v c d"
    "employee_count w c = employee_count v c" "stored_files w c = stored_files v c"
    "pending_invitations w c d = pending_invitations v c d"
    "company_wide_files w c = company_wide_files v c" "restricted_files w c = restricted_files v c"
  unfolding subscription_of_def usage_of_def employee_count_def stored_files_def
    pending_invitations_def company_wide_files_def restricted_files_def
  using assms unfolding same_company_def
  by (metis (no_types, lifting) find_within count_within)+

lemma same_company_files:
  assumes "same_company (a_companyId actor) w v"
  shows "filter (accessFilter actor) (files w) = filter (accessFilter actor) (files v)"
    "countDocuments (accessFilter actor) (files w) = countDocuments (accessFilter actor) (files v)"
    "lineage_ok w actor f = lineage_ok v actor f"
proof -
  let ?own = "\<lambda>x. f_companyId x = a_companyId actor"
  have own: "filter ?own (files w) = filter ?own (files v)" using assms by (simp add: same_company_def)
  have within: "filter (accessFilter actor) xs = filter (accessFilter actor) (filter ?own xs)" for xs
    by (rule filter_within) (rule accessFilter_company)
  have "filter (accessFilter actor) (files w) = filter (accessFilter actor) (filter ?own (files v))"
    using within [of "files w"] by (simp only: own)
  also have "\<dots> = filter (accessFilter actor) (files v)" by (rule within [symmetric])
  finally show a: "filter (accessFilter actor) (files w) = filter (accessFilter actor) (files v)" .
  show "countDocuments (accessFilter actor) (files w) = countDocuments (accessFilter actor) (files v)"
    using a by (simp add: countDocuments_def)
  have "set (filter (accessFilter actor) (files w)) = set (filter (accessFilter actor) (files v))"
    using a by (rule arg_cong)
  then show "lineage_ok w actor f = lineage_ok v actor f"
    unfolding lineage_ok_def by (cases "f_derivation f") auto
qed

text \<open>The four operations behind the tools.\<close>

lemma findCurrent_determined [determined_intros]: "determined (same_company c) (findCurrent c)"
  unfolding findCurrent_def
  by (intro determined_intros determined_gets) (simp_all add: same_company_def)

lemma getCurrent_determined [determined_intros]: "determined (same_company c) (getCurrent c now)"
  unfolding getCurrent_def getSubscription_def
  by (intro determined_intros determined_gets) (simp_all add: same_company_reads)

lemma statistics_determined [determined_intros]: "determined (same_company c) (statistics_getCurrent c now)"
  unfolding statistics_getCurrent_def
  by (intro determined_intros determined_gets) (simp_all add: same_company_reads)

lemma visible_page_eq:
  "visible_page actor fs w = (Inr (map publicMetadata (filter (lineage_ok w actor) fs)), w)"
  using visible_page_Inr by (metis prod.collapse)

lemma visible_page_determined [determined_intros]:
  "determined (same_company (a_companyId actor)) (visible_page actor fs)"
proof -
  have "lineage_ok w actor = lineage_ok v actor" if "same_company (a_companyId actor) w v" for w v
    using same_company_files(3) [OF that] by (rule ext)
  then show ?thesis unfolding determined_def visible_page_eq by auto
qed

lemma findAll_determined [determined_intros]:
  "determined (same_company (a_companyId actor)) (findAll actor page n)"
  unfolding findAll_def
  by (intro determined_intros determined_gets) (simp_all add: same_company_files)

section \<open>The part of the assistant's state a request may see\<close>

definition own_message :: "actor \<Rightarrow> ai_message \<Rightarrow> bool" where
  "own_message actor m \<longleftrightarrow> am_companyId m = a_companyId actor \<and> am_userId m = a_id actor"

text \<open>The company's data and the user's messages agree.\<close>

definition same_reach :: "actor \<Rightarrow> ai_world \<Rightarrow> ai_world \<Rightarrow> bool" where
  "same_reach actor w v \<longleftrightarrow> same_company (a_companyId actor) (tenants w) (tenants v)
     \<and> filter (own_message actor) (aiMessages w) = filter (own_message actor) (aiMessages v)"

text \<open>Moreover the exchange has gone the same way so far.\<close>

definition same_request :: "actor \<Rightarrow> 'x ai_state \<Rightarrow> 'x ai_state \<Rightarrow> bool" where
  "same_request actor s t \<longleftrightarrow> same_reach actor (ad s) (ad t) \<and> ar s = ar t \<and> aq s = aq t"

lemma on_tenants_determined [determined_intros]:
  assumes "determined (same_company (a_companyId actor)) m"
  shows "determined (same_reach actor) (on_tenants m)"
  unfolding determined_def
proof (intro allI impI)
  fix w v assume r: "same_reach actor w v"
  then have "fst (m (tenants w)) = fst (m (tenants v))"
    "same_company (a_companyId actor) (snd (m (tenants w))) (snd (m (tenants v)))"
    using determinedD [OF assms] by (simp_all add: same_reach_def)
  then show "fst (on_tenants m w) = fst (on_tenants m v)
      \<and> same_reach actor (snd (on_tenants m w)) (snd (on_tenants m v))"
    using r by (cases "m (tenants w)"; cases "m (tenants v)"; cases "fst (m (tenants w))")
      (auto simp: on_tenants_def same_reach_def)
qed

lemma no_arguments_determined [determined_intros]:
  "determined R m \<Longrightarrow> determined R (no_arguments fs m)"
  by (simp add: no_arguments_def determined_throw)

lemma execute_tool_determined [determined_intros]:
  "determined (same_reach actor) (execute_tool actor name raw now)"
  unfolding execute_tool_def by (intro determined_intros)

lemma run_tool_determined [determined_intros]:
  "determined (same_reach actor) (run_tool actor name raw now)"
  unfolding run_tool_def by (intro determined_intros)

lemma contextHistory_determined [determined_intros]:
  "determined (same_reach actor) (contextHistory limits actor i)"
proof -
  have "filter (message_of actor i) (aiMessages w) = filter (message_of actor i) (aiMessages v)"
    if "same_reach actor w v" for w v
    using that filter_within [of "message_of actor i" "own_message actor"]
    unfolding same_reach_def by (metis (no_types, lifting) message_of_def own_message_def)
  then show ?thesis unfolding contextHistory_def
    by (intro determined_intros determined_gets) presburger
qed

lemma ai_db_determined [determined_intros]:
  assumes "determined (same_reach actor) m"
  shows "determined (same_request actor) (ai_db m)"
  unfolding determined_def
proof (intro allI impI)
  fix s t :: "'x ai_state" assume r: "same_request actor s t"
  then have "fst (m (ad s)) = fst (m (ad t))" "same_reach actor (snd (m (ad s))) (snd (m (ad t)))"
    using determinedD [OF assms] by (simp_all add: same_request_def)
  then show "fst (ai_db m s) = fst (ai_db m t) \<and> same_request actor (snd (ai_db m s)) (snd (ai_db m t))"
    using r by (auto simp: ai_db_def same_request_def split: prod.splits)
qed

text \<open>What the provider is asked, and so what it answers, is the same.\<close>

lemma ask_determined [determined_intros]: "determined (same_request actor) (ask cfg sdk messages)"
  by (auto simp: determined_def ask_def same_request_def split: prod.splits sum.splits)

lemma run_tools_determined [determined_intros]:
  "determined (same_request actor) (run_tools collation limits actor clock g calls)"
  by (induction calls arbitrary: g) (simp_all add: determined_return, intro determined_intros)

lemma agent_loop_determined [determined_intros]:
  "determined (same_request actor) (agent_loop cfg sdk collation limits actor clock n g)"
proof (induction n arbitrary: g)
  case 0
  show ?case by (subst agent_loop.simps) (intro determined_intros, simp)
next
  case (Suc n)
  show ?case by (subst agent_loop.simps) (intro determined_intros, auto intro: Suc.IH)
qed

lemma answer_determined [determined_intros]:
  "determined (same_request actor) (answer cfg sdk collation limits env actor message i)"
  unfolding answer_def runAgent_def by (intro determined_intros)

text \<open>
  C18. What a request asks the model, and what the model's answers make of it, is determined by the
  data of the actor's own company and the actor's own messages. However the provider behaves,
  whatever tools its answers call with whatever arguments, two databases that agree on that part
  lead to the same list of requests to the provider, the same provider state and the same reply:
  no data of another tenant can reach the model or the reply.\<close>

theorem model_sees_own_company:
  assumes "same_company (a_companyId actor) (tenants (ad s)) (tenants (ad t))"
    and "filter (own_message actor) (aiMessages (ad s)) = filter (own_message actor) (aiMessages (ad t))"
    and "ar s = ar t" "aq s = aq t"
    and "answer cfg sdk collation limits env actor message i s = (r, s')"
    and "answer cfg sdk collation limits env actor message i t = (q, t')"
  shows "r = q \<and> aq s' = aq t' \<and> ar s' = ar t'"
proof -
  have "same_request actor s t" using assms(1-4) by (simp add: same_request_def same_reach_def)
  then show ?thesis
    using determinedD [OF answer_determined, of actor s t cfg sdk collation limits env message i] assms(5,6)
    by (simp add: same_request_def)
qed

section \<open>Completions\<close>

lemma normalize_call_ok:
  "normalize_call choice message call = Inr t \<Longrightarrow>
     tc_id t \<noteq> [] \<and> length (tc_id t) \<le> 256 \<and> tool_name (tc_name t)"
  by (auto simp: normalize_call_def Let_def split: option.splits json.splits if_splits)

lemma normalize_calls_ok:
  "normalize_calls choice message calls = Inr ts \<Longrightarrow>
     \<forall>t \<in> set ts. tc_id t \<noteq> [] \<and> length (tc_id t) \<le> 256 \<and> tool_name (tc_name t)"
  by (induction calls arbitrary: ts) (auto simp: action_simps dest!: normalize_call_ok)

lemma raw_calls_ok:
  "raw_calls choice message = Inr ts \<Longrightarrow>
     \<forall>t \<in> set ts. tc_id t \<noteq> [] \<and> length (tc_id t) \<le> 256 \<and> tool_name (tc_name t)"
  by (auto simp: raw_calls_def dest: normalize_calls_ok split: option.splits json.splits)

lemma safeInteger_count: "safe_count (safeInteger v)"
  by (auto simp: safeInteger_def safe_count_def isSafeInteger_def MAX_SAFE_INTEGER_def split: option.splits)

lemma round_micros_nonneg: "0 \<le> m \<Longrightarrow> 0 \<le> round_micros m e"
  by (simp add: round_micros_def Let_def pos_imp_zdiv_nonneg_iff)

lemma costMicros_count: "costMicros v = Some n \<Longrightarrow> safe_count n"
  by (auto simp: costMicros_def safe_count_def Let_def round_micros_nonneg split: option.splits if_splits)

lemma usage_cost_count: "usage_cost p usage = Some n \<Longrightarrow> safe_count n"
  by (auto simp: usage_cost_def costMicros_count split: if_splits)

lemma normalised_provider:
  assumes "normalizeChatCompletion response p = Inr c"
  shows "cm_provider c = p"
proof -
  obtain ch where "normalize_choice response p ch = Inr c"
    using assms by (auto simp: normalizeChatCompletion_def split: option.splits json.splits list.splits if_splits)
  then obtain choice message calls content where "completed response p choice message calls content = Inr c"
    by (auto simp: normalize_choice_def Let_def action_simps split: if_split_asm)
  then show ?thesis
    by (auto simp: completed_def Let_def split: option.split_asm json.split_asm if_split_asm)
qed

text \<open>
  C34. A provider's answer that was normalised is a well-formed completion: the checks the service
  makes of a completion at run time never fail on it, its calls carry an identifier and a name of
  the permitted form, it is attributed to the provider that was asked, and without calls it has
  visible text.\<close>

theorem normalised_completion:
  assumes "normalizeChatCompletion response p = Inr c"
  shows "assertModelCompletion c = Inr () \<and> cm_provider c = p
    \<and> (\<forall>t \<in> set (cm_calls c). tc_id t \<noteq> [] \<and> length (tc_id t) \<le> 256 \<and> tool_name (tc_name t))
    \<and> (cm_calls c \<noteq> [] \<or> \<not> blank (cm_content c))"
proof -
  obtain ch where n: "normalize_choice response p ch = Inr c"
    using assms by (auto simp: normalizeChatCompletion_def split: option.splits json.splits list.splits if_splits)
  obtain choice message calls content where
    calls: "raw_calls choice message = Inr calls" and
    visible: "calls \<noteq> [] \<or> \<not> blank content" and
    m: "completed response p choice message calls content = Inr c"
    using n by (auto simp: normalize_choice_def Let_def action_simps split: if_split_asm)
  obtain model where
    model: "js_trim model \<noteq> []" "length model \<le> 200" and
    c: "c = \<lparr>cm_modelRole = False, cm_content = content, cm_calls = calls, cm_model = model,
        cm_promptTokens = safeInteger (Option.bind (field ''usage'' response) (field ''prompt_tokens'')),
        cm_completionTokens = safeInteger (Option.bind (field ''usage'' response) (field ''completion_tokens'')),
        cm_totalTokens = safeInteger (Option.bind (field ''usage'' response) (field ''total_tokens'')),
        cm_cost = usage_cost p (field ''usage'' response), cm_provider = p\<rparr>"
    using m by (auto simp: completed_def Let_def split: option.split_asm json.split_asm if_split_asm)
  have ok: "\<forall>t \<in> set calls. tc_id t \<noteq> [] \<and> length (tc_id t) \<le> 256 \<and> tool_name (tc_name t)"
    using calls by (rule raw_calls_ok)
  then have "\<not> list_ex (\<lambda>t. tc_id t = []) calls" by (auto simp: list_ex_iff)
  then have "assertModelCompletion c = Inr ()"
    using model by (auto simp: assertModelCompletion_def c safeInteger_count usage_cost_count split: option.splits)
  then show ?thesis using ok visible by (simp add: c)
qed

section \<open>The loop is bounded and only reads\<close>

lemma on_tenants_reads: "(\<And>t r u. m t = (r, u) \<Longrightarrow> u = t) \<Longrightarrow> on_tenants m w = (r, w') \<Longrightarrow> w' = w"
  by (cases "m (tenants w)"; cases "fst (m (tenants w))") (auto simp: on_tenants_def)

lemma findCurrent_state: "findCurrent c t = (r, u) \<Longrightarrow> u = t"
  by (auto simp: findCurrent_def andthen_def gets_def throw_def return_def split: option.splits)

lemma findAll_state: "findAll actor page n t = (r, u) \<Longrightarrow> u = t"
  by (auto simp: findAll_def Let_def andthen_def gets_def return_def visible_page_eq)

lemmas tool_states = findCurrent_state getCurrent_state statistics_state findAll_state

lemma reads_only_on_tenants: "(\<And>t r u. m t = (r, u) \<Longrightarrow> u = t) \<Longrightarrow> reads_only (on_tenants m)"
  unfolding reads_only_def using on_tenants_reads by (metis prod.collapse)

lemma reads_only_andthen: "reads_only m \<Longrightarrow> (\<And>x. reads_only (f x)) \<Longrightarrow> reads_only (andthen m f)"
  by (auto simp: reads_only_def andthen_def split: prod.splits sum.splits) (metis snd_conv)+

lemma reads_only_catching: "reads_only m \<Longrightarrow> (\<And>e. reads_only (h e)) \<Longrightarrow> reads_only (catching m h)"
  by (auto simp: reads_only_def catching_def split: prod.splits sum.splits) (metis snd_conv)+

lemma reads_only_basic:
  "reads_only (return x)" "reads_only (throw e)" "reads_only (gets g)" "reads_only (lift_result r)"
  "reads_only m \<Longrightarrow> reads_only n \<Longrightarrow> reads_only (if b then m else n)"
  "reads_only m \<Longrightarrow> reads_only (no_arguments fs m)"
  by (simp_all add: reads_only_def return_def throw_def gets_def lift_result_def no_arguments_def)

lemmas reads_only_intros = reads_only_basic reads_only_andthen reads_only_catching reads_only_on_tenants

lemma run_tool_reads: "reads_only (run_tool actor name raw now)"
  unfolding run_tool_def execute_tool_def by (intro reads_only_intros) (erule tool_states)+

lemma contextHistory_reads: "reads_only (contextHistory limits actor i)"
  unfolding contextHistory_def by (intro reads_only_intros)

lemma ai_db_reads: "reads_only m \<Longrightarrow> ai_db m s = (r, s') \<Longrightarrow> s' = s"
  by (cases "m (ad s)") (auto simp: ai_db_def dest: reads_onlyD)

lemma ask_step:
  "ask cfg sdk messages s = (r, s') \<Longrightarrow> ad s' = ad s \<and> aq s' = aq s @ [messages]"
  by (auto simp: ask_def split: prod.splits sum.splits)

lemma openrouter_provider: "openrouter_complete cfg sdk messages x = (Inr c, y) \<Longrightarrow> cm_provider c = Openrouter"
  by (auto simp: openrouter_complete_def dest: normalised_provider split: if_splits prod.splits sum.splits)

lemma gemini_provider: "gemini_complete cfg sdk messages x = (Inr c, y) \<Longrightarrow> cm_provider c = Gemini"
  by (auto simp: gemini_complete_def dest: normalised_provider split: if_splits prod.splits sum.splits)

lemma client_provider: "client p cfg sdk messages x = (Inr c, y) \<Longrightarrow> cm_provider c = p"
  by (cases p) (auto simp: client_def dest: openrouter_provider gemini_provider)

lemma through_pins:
  "through p cfg sdk messages s = (r, s') \<Longrightarrow>
     (case r of Inl e \<Rightarrow> snd s' = snd s | Inr c \<Rightarrow> cm_provider c = p \<and> snd s' = Some p)"
  by (auto simp: through_def dest: client_provider split: prod.splits sum.splits)

text \<open>A success pins the exchange to its provider, and a pinned exchange stays with it.\<close>

lemma router_pins:
  assumes "router_complete cfg sdk messages s = (r, s')"
  shows "(case r of Inl e \<Rightarrow> snd s' = snd s | Inr c \<Rightarrow> snd s' = Some (cm_provider c))
    \<and> (snd s = None \<or> snd s' = snd s)"
proof (cases "snd s")
  case (Some p)
  then show ?thesis using assms through_pins [of p cfg sdk messages s r s']
    by (auto simp: router_complete_def split: sum.splits)
next
  case None
  have fb: "case q of Inl e \<Rightarrow> snd t' = snd t | Inr c \<Rightarrow> snd t' = Some (cm_provider c)"
    if "fall_back cfg sdk messages t = (q, t')" for t q t'
    using that through_pins [of Gemini cfg sdk messages t q t']
    by (auto simp: fall_back_def throw_def split: if_splits sum.splits)
  obtain q t where o: "through Openrouter cfg sdk messages s = (q, t)" by (rule prod.exhaust)
  show ?thesis using assms None o through_pins [OF o] fb [of s r s'] fb [of t r s']
    by (auto simp: router_complete_def catching_def andthen_def gets_def throw_def split: if_splits sum.splits)
qed

lemma ask_pins:
  assumes "ask cfg sdk messages s = (r, s')"
  shows "(snd (ar s) = None \<or> snd (ar s') = snd (ar s))
    \<and> (\<forall>c. r = Inr c \<longrightarrow> snd (ar s') = Some (cm_provider c))"
proof -
  obtain q x where q: "router_complete cfg sdk messages (ar s) = (q, x)" by (rule prod.exhaust)
  then show ?thesis using assms router_pins [OF q] by (auto simp: ask_def split: sum.splits)
qed

definition usage_ok :: "usage_totals \<Rightarrow> bool" where
  "usage_ok u \<longleftrightarrow> safe_count (ut_promptTokens u) \<and> safe_count (ut_completionTokens u)
     \<and> safe_count (ut_totalTokens u) \<and> (\<forall>n. ut_cost u = Some n \<longrightarrow> safe_count n)"

lemma safeAdd_Inr: "safeAdd a b = Inr n \<longleftrightarrow> safe_count a \<and> safe_count b \<and> n = a + b \<and> safe_count n"
  by (auto simp: safeAdd_def)

lemma addUsage_Inr:
  "addUsage u c = Inr v \<Longrightarrow> usage_ok u \<Longrightarrow>
     usage_ok v \<and> ut_modelsUsed v = ut_modelsUsed u @ [cm_model c] \<and> ut_provider v = Some (cm_provider c)"
  by (cases "cm_cost c") (auto simp: addUsage_def usage_ok_def action_simps safeAdd_Inr)

lemma run_tools_step:
  "run_tools collation limits actor clock g calls s = (r, s') \<Longrightarrow>
     s' = s \<and> (\<forall>g'. r = Inr g' \<longrightarrow>
       ag_usage g' = ag_usage g \<and> prefix (ag_messages g) (ag_messages g')
       \<and> ag_calls g' = ag_calls g + length calls
       \<and> (calls \<noteq> [] \<longrightarrow> ag_calls g' \<le> al_maxToolIterations limits))"
proof (induction calls arbitrary: g)
  case (Cons call calls)
  let ?tool = "ai_db (run_tool actor (tc_name call) (tc_arguments call) (clock (ag_calls g)))"
  obtain q t where tool: "?tool s = (q, t)" by (rule prod.exhaust)
  have t: "t = s" using ai_db_reads [OF run_tool_reads tool] .
  show ?case
  proof (cases q)
    case (Inl e)
    then show ?thesis using Cons.prems tool t
      by (cases "fingerprint collation (tc_name call) (tc_arguments call)")
        (auto simp: andthen_def lift_result_def throw_def split: if_splits)
  next
    case (Inr result)
    show ?thesis
    proof (cases "\<exists>p. fingerprint collation (tc_name call) (tc_arguments call) = Inr p
        \<and> p \<notin> set (ag_seen g) \<and> ag_calls g + 1 \<le> al_maxToolIterations limits")
      case False
      then have "s' = s \<and> (\<exists>e. r = Inl e)" using Cons.prems
        by (cases "fingerprint collation (tc_name call) (tc_arguments call)")
          (auto simp: andthen_def lift_result_def throw_def split: if_splits)
      then show ?thesis by auto
    next
      case True
      then obtain p where p: "fingerprint collation (tc_name call) (tc_arguments call) = Inr p"
        "p \<notin> set (ag_seen g)" "ag_calls g + 1 \<le> al_maxToolIterations limits" by blast
      let ?g = "g\<lparr>ag_seen := p # ag_seen g, ag_calls := ag_calls g + 1,
          ag_messages := ag_messages g @ [Tool_Message (tc_id call) result]\<rparr>"
      have "run_tools collation limits actor clock ?g calls s = (r, s')"
        using Cons.prems p tool t Inr by (simp add: andthen_def lift_result_def)
      from Cons.IH [OF this] show ?thesis using p(3) \<open>run_tools _ _ _ _ ?g calls s = (r, s')\<close>
        by (cases calls) (auto simp: return_def dest: append_prefixD)
    qed
  qed
qed (auto simp: return_def)

text \<open>The requests of one exchange, each a proper continuation of the one before.\<close>

definition asked :: "nat \<Rightarrow> agent \<Rightarrow> 'x ai_state \<Rightarrow> 'x ai_state \<Rightarrow> tool_result chat_message list list \<Rightarrow> bool" where
  "asked n g s s' qs \<longleftrightarrow> aq s' = aq s @ qs \<and> qs \<noteq> [] \<and> length qs \<le> n + 1 \<and> hd qs = ag_messages g
     \<and> sorted_wrt strict_prefix qs"

definition answered :: "ai_limits \<Rightarrow> agent \<Rightarrow> 'x ai_state \<Rightarrow> tool_result chat_message list list \<Rightarrow> agent_result \<Rightarrow> bool" where
  "answered limits g s' qs x \<longleftrightarrow> usage_ok (gr_usage x)
     \<and> length (ut_modelsUsed (gr_usage x)) = length (ut_modelsUsed (ag_usage g)) + length qs
     \<and> ut_provider (gr_usage x) = snd (ar s')
     \<and> (gr_toolCallCount x \<le> al_maxToolIterations limits)
     \<and> gr_content x \<noteq> [] \<and> length (gr_content x) \<le> 50000"

lemma final_answer_Inr:
  "final_answer g u c = Inr x \<Longrightarrow> gr_usage x = u \<and> gr_toolCallCount x = ag_calls g
     \<and> gr_content x \<noteq> [] \<and> length (gr_content x) \<le> 50000"
  by (auto simp: final_answer_def Let_def split: if_splits)

lemma sorted_prefixes_Cons:
  "sorted_wrt strict_prefix qs \<Longrightarrow> qs \<noteq> [] \<Longrightarrow> strict_prefix m (hd qs) \<Longrightarrow> sorted_wrt strict_prefix (m # qs)"
  by (cases qs) (auto intro: prefix_order.less_trans)

text \<open>One turn of the loop: it ends the exchange, or hands over to the next turn.\<close>

lemma agent_turn:
  assumes run: "agent_loop cfg sdk collation limits actor clock n g s = (r, s')"
    and g: "usage_ok (ag_usage g)" "ag_calls g \<le> al_maxToolIterations limits"
  shows "\<exists>s1. ad s1 = ad s \<and> aq s1 = aq s @ [ag_messages g] \<and> (snd (ar s) = None \<or> snd (ar s1) = snd (ar s))
    \<and> (s' = s1 \<and> (\<forall>x. r = Inr x \<longrightarrow> answered limits g s1 [ag_messages g] x)
       \<or> (\<exists>m g'. n = Suc m \<and> agent_loop cfg sdk collation limits actor clock m g' s1 = (r, s')
           \<and> usage_ok (ag_usage g') \<and> ag_calls g' \<le> al_maxToolIterations limits
           \<and> length (ut_modelsUsed (ag_usage g')) = Suc (length (ut_modelsUsed (ag_usage g)))
           \<and> strict_prefix (ag_messages g) (ag_messages g')))"
proof -
  obtain q s1 where ask: "ask cfg sdk (ag_messages g) s = (q, s1)" by (rule prod.exhaust)
  have s1: "ad s1 = ad s" "aq s1 = aq s @ [ag_messages g]" "snd (ar s) = None \<or> snd (ar s1) = snd (ar s)"
    using ask_step [OF ask] ask_pins [OF ask] by simp_all
  have pin: "snd (ar s1) = Some (cm_provider c)" if "q = Inr c" for c using ask_pins [OF ask] that by simp
  have "s' = s1 \<and> (\<forall>x. r = Inr x \<longrightarrow> answered limits g s1 [ag_messages g] x)
     \<or> (\<exists>m g'. n = Suc m \<and> agent_loop cfg sdk collation limits actor clock m g' s1 = (r, s')
         \<and> usage_ok (ag_usage g') \<and> ag_calls g' \<le> al_maxToolIterations limits
         \<and> length (ut_modelsUsed (ag_usage g')) = Suc (length (ut_modelsUsed (ag_usage g)))
         \<and> strict_prefix (ag_messages g) (ag_messages g'))"
  proof (cases "\<exists>c u usage. q = Inr c \<and> assertModelCompletion c = Inr u \<and> addUsage (ag_usage g) c = Inr usage")
    case False
    then have "s' = s1 \<and> (\<exists>e. r = Inl e)" using run ask
      by (cases q; cases "assertModelCompletion (projr q)"; cases "addUsage (ag_usage g) (projr q)")
        (auto simp: agent_loop.simps [of _ _ _ _ _ _ n] andthen_def lift_result_def)
    then show ?thesis by auto
  next
    case True
    then obtain c u usage where c: "q = Inr c" "assertModelCompletion c = Inr u" "addUsage (ag_usage g) c = Inr usage"
      by blast
    note usage = addUsage_Inr [OF c(3) g(1)]
    let ?g1 = "g\<lparr>ag_messages := ag_messages g @ [completion_message c], ag_usage := usage\<rparr>"
    have rest: "(if cm_calls c = [] then lift_result (final_answer g usage c)
       else case n of 0 \<Rightarrow> throw (invalidCompletion Tool_Iteration_Limit)
         | Suc m \<Rightarrow> andthen (run_tools collation limits actor clock ?g1 (cm_calls c))
             (agent_loop cfg sdk collation limits actor clock m)) s1 = (r, s')"
      using run ask c by (simp add: agent_loop.simps [of _ _ _ _ _ _ n] andthen_def lift_result_def)
    show ?thesis
    proof (cases "cm_calls c = [] \<or> n = 0")
      case True
      then show ?thesis using rest usage pin [OF c(1)] g(2)
        by (auto simp: lift_result_def throw_def answered_def dest!: final_answer_Inr split: if_splits)
    next
      case False
      then obtain m where n: "n = Suc m" using not0_implies_Suc by blast
      obtain p s2 where tools: "run_tools collation limits actor clock ?g1 (cm_calls c) s1 = (p, s2)"
        by (rule prod.exhaust)
      note step = run_tools_step [OF tools]
      show ?thesis
      proof (cases p)
        case (Inl e)
        then show ?thesis using rest False n tools step by (auto simp: andthen_def)
      next
        case (Inr g')
        then have "agent_loop cfg sdk collation limits actor clock m g' s1 = (r, s')"
          using rest False n tools step by (simp add: andthen_def)
        moreover have "strict_prefix (ag_messages g) (ag_messages g')"
          using step Inr by (auto simp: strict_prefix_def prefix_def)
        ultimately show ?thesis using step Inr usage False n by auto
      qed
    qed
  qed
  then show ?thesis using s1 by blast
qed

lemma agent_loop_bounded:
  "agent_loop cfg sdk collation limits actor clock n g s = (r, s') \<Longrightarrow> usage_ok (ag_usage g) \<Longrightarrow>
     ag_calls g \<le> al_maxToolIterations limits \<Longrightarrow>
     ad s' = ad s \<and> (snd (ar s) = None \<or> snd (ar s') = snd (ar s))
     \<and> (\<exists>qs. asked n g s s' qs \<and> (\<forall>x. r = Inr x \<longrightarrow> answered limits g s' qs x))"
proof (induction n arbitrary: g s)
  case 0
  from agent_turn [OF 0] show ?case
    by (fastforce simp: asked_def intro!: exI [of _ "[ag_messages g]"])
next
  case (Suc n)
  from agent_turn [OF Suc.prems] obtain s1 where
    s1: "ad s1 = ad s" "aq s1 = aq s @ [ag_messages g]" "snd (ar s) = None \<or> snd (ar s1) = snd (ar s)" and
    turn: "s' = s1 \<and> (\<forall>x. r = Inr x \<longrightarrow> answered limits g s1 [ag_messages g] x)
      \<or> (\<exists>g'. agent_loop cfg sdk collation limits actor clock n g' s1 = (r, s')
          \<and> usage_ok (ag_usage g') \<and> ag_calls g' \<le> al_maxToolIterations limits
          \<and> length (ut_modelsUsed (ag_usage g')) = Suc (length (ut_modelsUsed (ag_usage g)))
          \<and> strict_prefix (ag_messages g) (ag_messages g'))" by auto
  from turn show ?case
  proof (elim disjE exE conjE)
    assume "s' = s1" "\<forall>x. r = Inr x \<longrightarrow> answered limits g s1 [ag_messages g] x"
    then show ?thesis using s1 by (auto simp: asked_def intro!: exI [of _ "[ag_messages g]"])
  next
    fix g' assume next': "agent_loop cfg sdk collation limits actor clock n g' s1 = (r, s')"
      and g': "usage_ok (ag_usage g')" "ag_calls g' \<le> al_maxToolIterations limits"
        "length (ut_modelsUsed (ag_usage g')) = Suc (length (ut_modelsUsed (ag_usage g)))"
        "strict_prefix (ag_messages g) (ag_messages g')"
    from Suc.IH [OF next' g'(1,2)] obtain qs where
      i: "ad s' = ad s1" "snd (ar s1) = None \<or> snd (ar s') = snd (ar s1)" "asked n g' s1 s' qs"
        "\<forall>x. r = Inr x \<longrightarrow> answered limits g' s' qs x" by blast
    have "sorted_wrt strict_prefix (ag_messages g # qs)"
      using i(3) g'(4) by (intro sorted_prefixes_Cons) (simp_all add: asked_def)
    then have "asked (Suc n) g s s' (ag_messages g # qs)" using i(3) s1(2) by (simp add: asked_def)
    moreover have "\<forall>x. r = Inr x \<longrightarrow> answered limits g s' (ag_messages g # qs) x"
      using i(4) g'(3) by (simp add: answered_def)
    ultimately show ?thesis using i s1 by auto
  qed
qed


end
