(* ===== verification/ConversationSafety.thy ===== *)
theory ConversationSafety
  imports AssistantTools Interfaces
begin

text \<open>
  The conversations of the assistant over any interleaving of requests: the counters agree with
  the messages and the usage stored, messages stay with their owner, a request that lost its
  conversation stores nothing, and a request is answered exactly when its exchange is stored.
\<close>

section \<open>Consistency\<close>

definition conversation_ok :: "ai_limits \<Rightarrow> ai_world \<Rightarrow> conversation \<Rightarrow> bool" where
  "conversation_ok limits w c \<longleftrightarrow>
     cn_messageCount c = countDocuments (\<lambda>m. am_conversationId m = cn_id c) (aiMessages w)
   \<and> cn_messageCount c = 2 * countDocuments (\<lambda>u. au_conversationId u = cn_id c) (aiUsages w)
   \<and> cn_messageCount c \<le> al_maxConversationMessages limits"

text \<open>A message belongs to a conversation of the same owner.\<close>

definition message_ok :: "ai_world \<Rightarrow> ai_message \<Rightarrow> bool" where
  "message_ok w m \<longleftrightarrow> (\<exists>c \<in> set (conversations w). cn_id c = am_conversationId m
     \<and> cn_companyId c = am_companyId m \<and> cn_userId c = am_userId m)"

text \<open>The usage of a conversation that still exists names one of its replies.\<close>

definition usage_row_ok :: "ai_world \<Rightarrow> ai_usage \<Rightarrow> bool" where
  "usage_row_ok w u \<longleftrightarrow> (\<forall>c \<in> set (conversations w). cn_id c = au_conversationId u \<longrightarrow>
     cn_companyId c = au_companyId u \<and> cn_userId c = au_userId u
     \<and> (\<exists>m \<in> set (aiMessages w). am_id m = au_assistantMessageId u \<and> am_conversationId m = cn_id c
          \<and> am_role m = Ai_Assistant))"

definition conversations_ok :: "ai_limits \<Rightarrow> ai_world \<Rightarrow> bool" where
  "conversations_ok limits w \<longleftrightarrow>
     distinct (map cn_id (conversations w)) \<and> distinct (map am_id (aiMessages w))
   \<and> distinct (map au_requestId (aiUsages w))
   \<and> (\<forall>c \<in> set (conversations w). conversation_ok limits w c)
   \<and> (\<forall>m \<in> set (aiMessages w). message_ok w m)
   \<and> (\<forall>u \<in> set (aiUsages w). usage_row_ok w u)"

definition fresh_conversation :: "ai_world \<Rightarrow> oid \<Rightarrow> bool" where
  "fresh_conversation w i \<longleftrightarrow> (\<forall>c \<in> set (conversations w). cn_id c \<noteq> i)
     \<and> (\<forall>m \<in> set (aiMessages w). am_conversationId m \<noteq> i)
     \<and> (\<forall>u \<in> set (aiUsages w). au_conversationId u \<noteq> i)"

section \<open>The steps of requests\<close>

text \<open>
  Each step is atomic for the database; the first argument is the request that makes it. Between
  any two of them the steps of other requests may come, and the tenants' data may change.
\<close>

inductive assistant_step :: "ai_limits \<Rightarrow> string \<Rightarrow> ai_world \<Rightarrow> ai_world \<Rightarrow> bool" for limits where
  created: "createConversation limits actor message rid expiresAt newId now w = (r, w') \<Longrightarrow>
    fresh_conversation w newId \<Longrightarrow> assistant_step limits rid w w'"
| acquired: "acquireConversation limits actor i rid expiresAt now w = (r, w') \<Longrightarrow>
    assistant_step limits rid w w'"
| stored: "ai_committing outcome (store_exchange limits env actor i content result duration) w = (r, w') \<Longrightarrow>
    ch_requestId env = rid \<Longrightarrow> assistant_step limits rid w w'"
| closed: "ch_requestId env = rid \<Longrightarrow> assistant_step limits rid w (close_conversation env actor dto i w)"
| deleted: "ai_committing outcome (delete_transaction actor i now) w = (r, w') \<Longrightarrow>
    assistant_step limits rid w w'"
| other: "assistant_step limits rid w (w\<lparr>tenants := t\<rparr>)"

text \<open>What each step does, when it does anything.\<close>

lemma createConversation_effect:
  "createConversation limits actor message rid expiresAt newId now w = (r, w') \<Longrightarrow>
     (\<exists>e. r = Inl e) \<and> w' = w
   \<or> (\<exists>c. r = Inr c \<and> w' = w\<lparr>conversations := conversations w @ [c]\<rparr> \<and> cn_id c = newId
        \<and> cn_companyId c = a_companyId actor \<and> cn_userId c = a_id actor
        \<and> cn_messageCount c = 0 \<and> cn_activeRequestId c = Some rid)"
  by (cases r) (auto simp: createConversation_def Let_def action_simps split: if_splits)

lemma acquireConversation_effect:
  assumes "acquireConversation limits actor i rid expiresAt now w = (r, w')"
  shows "(\<exists>e. r = Inl e) \<and> w' = w
    \<or> (\<exists>c q. find q (conversations w) = Some c \<and> owned actor i c \<and> idle now c
        \<and> cn_messageCount c \<le> al_maxConversationMessages limits - 2
        \<and> r = Inr (take_conversation rid expiresAt now c)
        \<and> w' = w\<lparr>conversations := updateOne q (take_conversation rid expiresAt now) (conversations w)\<rparr>)"
proof -
  let ?q = "\<lambda>c. owned actor i c \<and> cn_messageCount c \<le> al_maxConversationMessages limits - 2 \<and> idle now c"
  show ?thesis
  proof (cases "find ?q (conversations w)")
    case None
    then show ?thesis using assms
      by (cases r) (auto simp: acquireConversation_def Let_def action_simps split: option.splits if_splits)
  next
    case (Some c)
    then have "owned actor i c \<and> idle now c \<and> cn_messageCount c \<le> al_maxConversationMessages limits - 2"
      by (auto dest: find_SomeD)
    then show ?thesis using assms Some
      by (auto simp: acquireConversation_def Let_def andthen_def gets_def modify_def return_def)
  qed
qed

lemma ai_committing_effect:
  "ai_committing outcome m w = (r, w') \<Longrightarrow> w' = w \<or> (\<exists>x. m w = (Inr x, w'))"
  by (auto simp: ai_committing_def split: prod.splits sum.splits commit_outcome.splits)

definition exchanged :: "chat_env \<Rightarrow> actor \<Rightarrow> oid \<Rightarrow> js_string \<Rightarrow> agent_result \<Rightarrow> int \<Rightarrow> ai_world \<Rightarrow> ai_world" where
  "exchanged env actor i content result duration w =
     w\<lparr>aiMessages := aiMessages w @
         [exchange_message (ch_userMessageId env) actor i Ai_User content (ch_storeAt env),
          exchange_message (ch_assistantMessageId env) actor i Ai_Assistant (gr_content result) (ch_storeAt env + 1)],
       aiUsages := aiUsages w @ [usage_row env actor i result duration],
       conversations := updateOne (leased actor i (ch_requestId env)) (count_exchange (ch_storeAt env)) (conversations w)\<rparr>"

lemma store_exchange_effect:
  assumes "store_exchange limits env actor i content result duration w = (Inr x, w')"
  shows "w' = exchanged env actor i content result duration w
    \<and> (\<exists>c \<in> set (conversations w). leased actor i (ch_requestId env) c
         \<and> cn_messageCount c \<le> al_maxConversationMessages limits - 2)
    \<and> ch_userMessageId env \<noteq> ch_assistantMessageId env
    \<and> ch_userMessageId env \<notin> am_id ` set (aiMessages w) \<and> ch_assistantMessageId env \<notin> am_id ` set (aiMessages w)
    \<and> ch_requestId env \<notin> au_requestId ` set (aiUsages w)"
  using assms
  by (auto simp: store_exchange_def create_messages_def create_usage_row_def exchanged_def Let_def action_simps
      exchange_message_def usage_row_def list_ex_iff image_iff dest!: find_SomeD split: if_splits)

lemma delete_effect:
  "delete_transaction actor i now w = (Inr x, w') \<Longrightarrow>
     \<exists>c q. find q (conversations w) = Some c \<and> owned actor i c \<and> idle now c
       \<and> w' = w\<lparr>conversations := deleteOne q (conversations w),
                aiMessages := deleteMany (message_of actor i) (aiMessages w)\<rparr>"
  by (auto simp: delete_transaction_def Let_def action_simps split: if_splits dest: find_SomeD)

section \<open>The steps keep the counters and the owners\<close>

text \<open>A step that keeps what identifies and counts a conversation.\<close>

definition summary :: "conversation \<Rightarrow> oid \<times> oid \<times> oid \<times> int" where
  "summary c = (cn_id c, cn_companyId c, cn_userId c, cn_messageCount c)"

lemma summaries_ok:
  assumes ok: "conversations_ok limits w"
    and same: "map summary cs = map summary (conversations w)"
  shows "conversations_ok limits (w\<lparr>conversations := cs\<rparr>)"
proof -
  have sets: "summary ` set cs = summary ` set (conversations w)" using same by (metis list.set_map)
  have forth: "\<exists>d \<in> set (conversations w). summary c = summary d" if "c \<in> set cs" for c
    using sets that by (metis image_iff)
  have onto: "\<exists>d \<in> set cs. summary c = summary d" if "c \<in> set (conversations w)" for c
    using sets that by (metis image_iff)
  have "map cn_id cs = map cn_id (conversations w)"
    using arg_cong [OF same, of "map fst"] by (simp add: summary_def comp_def)
  moreover have "conversation_ok limits (w\<lparr>conversations := cs\<rparr>) c" if "c \<in> set cs" for c
    using forth [OF that] ok by (auto simp: conversations_ok_def conversation_ok_def summary_def)
  moreover have "message_ok (w\<lparr>conversations := cs\<rparr>) m" if "m \<in> set (aiMessages w)" for m
  proof -
    have "message_ok w m" using ok that by (simp add: conversations_ok_def)
    then obtain c where "c \<in> set (conversations w)" "cn_id c = am_conversationId m"
      "cn_companyId c = am_companyId m" "cn_userId c = am_userId m" by (auto simp: message_ok_def)
    then show ?thesis using onto [of c] by (auto simp: message_ok_def summary_def)
  qed
  moreover have "usage_row_ok (w\<lparr>conversations := cs\<rparr>) u" if "u \<in> set (aiUsages w)" for u
    unfolding usage_row_ok_def
  proof (intro ballI impI)
    fix c assume c: "c \<in> set (conversations (w\<lparr>conversations := cs\<rparr>))" "cn_id c = au_conversationId u"
    then obtain d where "d \<in> set (conversations w)" "summary c = summary d" using forth by auto
    moreover have "usage_row_ok w u" using ok that by (simp add: conversations_ok_def)
    ultimately show "cn_companyId c = au_companyId u \<and> cn_userId c = au_userId u
        \<and> (\<exists>m \<in> set (aiMessages (w\<lparr>conversations := cs\<rparr>)). am_id m = au_assistantMessageId u
             \<and> am_conversationId m = cn_id c \<and> am_role m = Ai_Assistant)"
      using c by (auto simp: usage_row_ok_def summary_def)
  qed
  ultimately show ?thesis using ok by (simp add: conversations_ok_def)
qed

lemma summary_updateOne:
  "(\<And>c. summary (g c) = summary c) \<Longrightarrow> conversations_ok limits w \<Longrightarrow>
     conversations_ok limits (w\<lparr>conversations := updateOne q g (conversations w)\<rparr>)"
  by (rule summaries_ok) (simp_all add: map_updateOne_same)

lemma created_ok:
  assumes ok: "conversations_ok limits w" and fresh: "fresh_conversation w (cn_id c)" "cn_messageCount c = 0"
    and limit: "0 \<le> al_maxConversationMessages limits"
  shows "conversations_ok limits (w\<lparr>conversations := conversations w @ [c]\<rparr>)"
proof -
  have "conversation_ok limits (w\<lparr>conversations := conversations w @ [c]\<rparr>) c"
    using fresh limit by (simp add: conversation_ok_def fresh_conversation_def count_zero_iff)
  then show ?thesis using ok fresh
    by (auto simp: conversations_ok_def conversation_ok_def message_ok_def usage_row_ok_def fresh_conversation_def)
qed

text \<open>Without a conversation, its messages and its reference from usage rows are gone.\<close>

lemma deleted_ok:
  assumes ok: "conversations_ok limits w" and d: "find q (conversations w) = Some d"
    and gone: "\<And>m. m \<in> set (aiMessages w) \<Longrightarrow> am_conversationId m = cn_id d \<Longrightarrow> p m"
      "\<And>m. p m \<Longrightarrow> am_conversationId m = cn_id d"
  shows "conversations_ok limits (w\<lparr>conversations := deleteOne q (conversations w),
    aiMessages := deleteMany p (aiMessages w)\<rparr>)" (is "conversations_ok limits ?v")
proof -
  have ids: "distinct (map cn_id (conversations w))" using ok by (simp add: conversations_ok_def)
  have mem: "c \<in> set (conversations ?v) \<longleftrightarrow> c \<in> set (conversations w) \<and> cn_id c \<noteq> cn_id d" for c
    using set_deleteOne_key [OF d ids] by simp
  have "conversation_ok limits ?v c" if "c \<in> set (conversations ?v)" for c
  proof -
    have "countDocuments (\<lambda>m. am_conversationId m = cn_id c) (deleteMany p (aiMessages w))
        = countDocuments (\<lambda>m. am_conversationId m = cn_id c) (aiMessages w)"
      using mem that gone(2) unfolding countDocuments_def deleteMany_def
      by (auto intro!: arg_cong [where f = length] filter_cong)
    moreover have "conversation_ok limits w c" using ok that mem by (simp add: conversations_ok_def)
    ultimately show ?thesis by (simp add: conversation_ok_def)
  qed
  moreover have "message_ok ?v m" if "m \<in> set (aiMessages ?v)" for m
  proof -
    have m: "m \<in> set (aiMessages w)" "\<not> p m" using that by (auto simp: deleteMany_def)
    then have "am_conversationId m \<noteq> cn_id d" using gone(1) by blast
    then show ?thesis using ok m mem unfolding conversations_ok_def message_ok_def by metis
  qed
  moreover have "usage_row_ok ?v u" if "u \<in> set (aiUsages ?v)" for u
    unfolding usage_row_ok_def
  proof (intro ballI impI)
    fix c assume c: "c \<in> set (conversations ?v)" "cn_id c = au_conversationId u"
    have "usage_row_ok w u" using ok that by (simp add: conversations_ok_def)
    then obtain m where m: "cn_companyId c = au_companyId u" "cn_userId c = au_userId u" "m \<in> set (aiMessages w)"
      "am_id m = au_assistantMessageId u" "am_conversationId m = cn_id c" "am_role m = Ai_Assistant"
      using c mem by (auto simp: usage_row_ok_def)
    then have "\<not> p m" using gone(2) c mem by auto
    then show "cn_companyId c = au_companyId u \<and> cn_userId c = au_userId u
        \<and> (\<exists>m \<in> set (aiMessages ?v). am_id m = au_assistantMessageId u \<and> am_conversationId m = cn_id c
             \<and> am_role m = Ai_Assistant)" using m by (auto simp: deleteMany_def)
  qed
  moreover have "distinct (map cn_id (conversations ?v))" using ids by (simp add: distinct_deleteOne)
  moreover have "distinct (map am_id (aiMessages ?v))"
    using ok by (simp add: conversations_ok_def deleteMany_def distinct_map_filter)
  ultimately show ?thesis using ok by (simp add: conversations_ok_def)
qed

lemma exchanged_ok:
  assumes ok: "conversations_ok limits w"
    and run: "store_exchange limits env actor i content result duration w = (Inr x, w')"
  shows "conversations_ok limits w'"
proof -
  let ?rid = "ch_requestId env" and ?now = "ch_storeAt env"
  let ?user = "exchange_message (ch_userMessageId env) actor i Ai_User content ?now"
  let ?reply = "exchange_message (ch_assistantMessageId env) actor i Ai_Assistant (gr_content result) (?now + 1)"
  let ?row = "usage_row env actor i result duration"
  note eff = store_exchange_effect [OF run]
  have w': "w' = exchanged env actor i content result duration w" using eff by simp
  have fresh: "ch_userMessageId env \<noteq> ch_assistantMessageId env" "ch_userMessageId env \<notin> am_id ` set (aiMessages w)"
    "ch_assistantMessageId env \<notin> am_id ` set (aiMessages w)" "?rid \<notin> au_requestId ` set (aiUsages w)"
    using eff by blast+
  obtain c where c: "c \<in> set (conversations w)" "leased actor i ?rid c"
    "cn_messageCount c \<le> al_maxConversationMessages limits - 2" using eff by blast
  have ids: "distinct (map cn_id (conversations w))" using ok by (simp add: conversations_ok_def)
  have c_id: "cn_id c = i" "cn_companyId c = a_companyId actor" "cn_userId c = a_id actor"
    using c(2) by (simp_all add: leased_def owned_def)
  have found: "find (leased actor i ?rid) (conversations w) = Some c"
    using ids c by (intro find_unique [where h = cn_id]) (auto simp: leased_def owned_def)
  have id_same: "cn_id (count_exchange ?now d) = cn_id d" for d by (simp add: count_exchange_def release_def)
  have mem: "d \<in> set (conversations w') \<longleftrightarrow> d \<in> set (conversations w) \<and> cn_id d \<noteq> i \<or> d = count_exchange ?now c" for d
    using set_updateOne_key [OF found ids id_same] c_id by (simp add: w' exchanged_def)
  have row: "au_conversationId ?row = i" "au_requestId ?row = ?rid" "au_assistantMessageId ?row = ch_assistantMessageId env"
    "au_companyId ?row = a_companyId actor" "au_userId ?row = a_id actor" by (simp_all add: usage_row_def Let_def)
  have msgs: "aiMessages w' = aiMessages w @ [?user, ?reply]" "aiUsages w' = aiUsages w @ [?row]"
    by (simp_all add: w' exchanged_def)
  have "conversation_ok limits w' d" if "d \<in> set (conversations w')" for d
  proof (cases "d = count_exchange ?now c")
    case True
    have "conversation_ok limits w c" using ok c(1) by (simp add: conversations_ok_def)
    then show ?thesis using True c(3) c_id
      by (simp add: conversation_ok_def msgs row count_exchange_def release_def exchange_message_def collection_simps)
  next
    case False
    then have d: "d \<in> set (conversations w)" "cn_id d \<noteq> i" using that mem by auto
    then have "conversation_ok limits w d" using ok by (simp add: conversations_ok_def)
    then show ?thesis using d(2)
      by (simp add: conversation_ok_def msgs row exchange_message_def collection_simps)
  qed
  moreover have "message_ok w' m" if m: "m \<in> set (aiMessages w')" for m
  proof -
    have same: "cn_id e = i \<Longrightarrow> e = c" if "e \<in> set (conversations w)" for e
      using key_unique [OF ids that c(1)] c_id by simp
    have c': "count_exchange ?now c \<in> set (conversations w')" using mem by blast
    show ?thesis
    proof (cases "m \<in> set (aiMessages w)")
      case True
      then obtain d where d: "d \<in> set (conversations w)" "cn_id d = am_conversationId m"
        "cn_companyId d = am_companyId m" "cn_userId d = am_userId m"
        using ok by (auto simp: conversations_ok_def message_ok_def)
      show ?thesis
      proof (cases "cn_id d = i")
        case True
        then show ?thesis unfolding message_ok_def using d same [OF d(1)]
          by (intro bexI [OF _ c']) (simp add: count_exchange_def release_def)
      next
        case False
        then have "d \<in> set (conversations w')" using d mem by blast
        then show ?thesis unfolding message_ok_def using d by blast
      qed
    next
      case False
      then have "am_conversationId m = i" "am_companyId m = a_companyId actor" "am_userId m = a_id actor"
        using m by (auto simp: msgs exchange_message_def)
      then show ?thesis unfolding message_ok_def using c_id
        by (intro bexI [OF _ c']) (simp add: count_exchange_def release_def)
    qed
  qed
  moreover have "usage_row_ok w' u" if u: "u \<in> set (aiUsages w')" for u
    unfolding usage_row_ok_def
  proof (intro ballI impI)
    fix d assume d: "d \<in> set (conversations w')" "cn_id d = au_conversationId u"
    then obtain e where e: "e \<in> set (conversations w)" "cn_id e = cn_id d" "cn_companyId e = cn_companyId d"
      "cn_userId e = cn_userId d" using mem c by (auto simp: count_exchange_def release_def)
    show "cn_companyId d = au_companyId u \<and> cn_userId d = au_userId u
        \<and> (\<exists>m \<in> set (aiMessages w'). am_id m = au_assistantMessageId u \<and> am_conversationId m = cn_id d
             \<and> am_role m = Ai_Assistant)"
    proof (cases "u = ?row")
      case True
      then have "e = c" using key_unique [OF ids e(1) c(1)] e(2) d(2) c_id row by simp
      then show ?thesis using True e d row c_id by (auto simp: msgs exchange_message_def)
    next
      case False
      then have "usage_row_ok w u" using u ok by (auto simp: msgs conversations_ok_def)
      then show ?thesis using e d(2) by (auto simp: usage_row_ok_def msgs)
    qed
  qed
  moreover have "distinct (map cn_id (conversations w'))"
    using ids by (simp add: w' exchanged_def map_updateOne_same id_same)
  moreover have "distinct (map am_id (aiMessages w'))" "distinct (map au_requestId (aiUsages w'))"
    using ok fresh by (simp_all add: conversations_ok_def msgs row exchange_message_def)
  ultimately show ?thesis by (simp add: conversations_ok_def)
qed

text \<open>The steps together.\<close>

lemma closed_ok:
  assumes ok: "conversations_ok limits w"
  shows "conversations_ok limits (close_conversation env actor dto i w)"
proof (cases "ch_released env \<and> cq_conversationId dto = None")
  case False
  then show ?thesis using ok
    by (auto simp: close_conversation_def release_def summary_def intro: summary_updateOne)
next
  case True
  let ?q = "\<lambda>c. leased actor i (ch_requestId env) c \<and> cn_messageCount c = 0"
  show ?thesis
  proof (cases "find ?q (conversations w)")
    case None
    then show ?thesis using ok True by (simp add: close_conversation_def deleteOne_no_match)
  next
    case (Some d)
    then have "conversation_ok limits w d" "cn_messageCount d = 0"
      using ok by (auto simp: conversations_ok_def dest: find_SomeD)
    then have "\<forall>m \<in> set (aiMessages w). am_conversationId m \<noteq> cn_id d"
      by (simp add: conversation_ok_def count_zero_iff)
    then have "conversations_ok limits (w\<lparr>conversations := deleteOne ?q (conversations w),
        aiMessages := deleteMany (\<lambda>_. False) (aiMessages w)\<rparr>)"
      by (intro deleted_ok [OF ok Some]) auto
    then show ?thesis using True by (simp add: close_conversation_def deleteMany_def)
  qed
qed

lemma tenants_ok: "conversations_ok limits (w\<lparr>tenants := t\<rparr>) = conversations_ok limits w"
proof -
  have "conversation_ok limits (w\<lparr>tenants := t\<rparr>) = conversation_ok limits w"
    "message_ok (w\<lparr>tenants := t\<rparr>) = message_ok w" "usage_row_ok (w\<lparr>tenants := t\<rparr>) = usage_row_ok w"
    by (simp_all add: fun_eq_iff conversation_ok_def message_ok_def usage_row_ok_def)
  then show ?thesis by (simp add: conversations_ok_def)
qed

lemma assistant_step_keeps:
  assumes "assistant_step limits rid w w'" "conversations_ok limits w" "0 \<le> al_maxConversationMessages limits"
  shows "conversations_ok limits w'"
  using assms
proof (induction rule: assistant_step.induct)
  case (created actor message rid expiresAt newId now w r w')
  then show ?case using createConversation_effect [OF created(1)] created_ok by metis
next
  case (acquired actor i rid expiresAt now w r w')
  then show ?case using acquireConversation_effect [OF acquired(1)]
    by (auto intro!: summary_updateOne simp: take_conversation_def summary_def)
next
  case (stored outcome env actor i content result duration w r w' rid)
  then show ?case using ai_committing_effect [OF stored(1)] exchanged_ok by metis
next
  case (closed env rid w actor dto i)
  then show ?case by (simp add: closed_ok)
next
  case (deleted outcome actor i now w r w' rid)
  from ai_committing_effect [OF deleted(1)] show ?case
  proof (elim disjE exE)
    fix x assume run: "delete_transaction actor i now w = (Inr x, w')"
    obtain c q where c: "find q (conversations w) = Some c" "owned actor i c" and
      w': "w' = w\<lparr>conversations := deleteOne q (conversations w), aiMessages := deleteMany (message_of actor i) (aiMessages w)\<rparr>"
      using delete_effect [OF run] by blast
    have ok: "conversations_ok limits w" by (rule deleted.prems)
    have "message_of actor i m" if m: "m \<in> set (aiMessages w)" "am_conversationId m = cn_id c" for m
    proof -
      obtain d where "d \<in> set (conversations w)" "cn_id d = am_conversationId m"
        "cn_companyId d = am_companyId m" "cn_userId d = am_userId m"
        using ok m by (auto simp: conversations_ok_def message_ok_def)
      moreover have "d = c" using key_unique [of cn_id "conversations w" d c] ok calculation m find_SomeD [OF c(1)]
        by (simp add: conversations_ok_def)
      ultimately show ?thesis using c(2) m by (simp add: owned_def message_of_def)
    qed
    then show ?thesis unfolding w' using c(2)
      by (intro deleted_ok [OF ok c(1)]) (auto simp: message_of_def owned_def)
  qed (use deleted.prems in simp)
next
  case (other rid w t)
  then show ?case by (simp add: tenants_ok)
qed

section \<open>A chat request is a run of steps\<close>

abbreviation assistant_runs :: "ai_limits \<Rightarrow> ai_world \<Rightarrow> ai_world \<Rightarrow> bool" where
  "assistant_runs limits \<equiv> (\<lambda>w w'. \<exists>rid. assistant_step limits rid w w')\<^sup>*\<^sup>*"

lemma assistant_runs_keep:
  "assistant_runs limits w w' \<Longrightarrow> conversations_ok limits w \<Longrightarrow> 0 \<le> al_maxConversationMessages limits \<Longrightarrow>
     conversations_ok limits w'"
  by (induction rule: rtranclp_induct) (auto dest: assistant_step_keeps)

lemma answer_reads: "answer cfg sdk collation limits env actor message i s = (r, s') \<Longrightarrow> ad s' = ad s"
proof -
  assume run: "answer cfg sdk collation limits env actor message i s = (r, s')"
  obtain q s1 where h: "ai_db (contextHistory limits actor i) s = (q, s1)" by (rule prod.exhaust)
  have s1: "s1 = s" using ai_db_reads [OF contextHistory_reads h] .
  have ok: "usage_ok (ag_usage (first_agent history message))" "ag_calls (first_agent history message) = 0" for history
    by (simp_all add: first_agent_def no_usage_def usage_ok_def safe_count_def isSafeInteger_def MAX_SAFE_INTEGER_def)
  show ?thesis
  proof (cases q)
    case (Inl e)
    then show ?thesis using run h s1 by (simp add: answer_def andthen_def)
  next
    case (Inr history)
    then have "runAgent cfg sdk collation limits actor (ch_toolTimes env) history message s = (r, s')"
      using run h s1 by (simp add: answer_def andthen_def)
    then show ?thesis using agent_loop_bounded ok unfolding runAgent_def by fastforce
  qed
qed

lemma ownedConversation_reads: "reads_only (ownedConversation actor i)"
proof -
  have "reads_only (case v of None \<Rightarrow> throw e | Some c \<Rightarrow> return c)" for v :: "'a option" and e
    by (cases v) (simp_all add: reads_only_basic)
  then show ?thesis unfolding ownedConversation_def by (intro reads_only_intros)
qed

lemma recoverCommitted_reads: "reads_only (recoverCommitted actor rid)"
proof -
  have option: "reads_only m \<Longrightarrow> (\<And>x. reads_only (f x)) \<Longrightarrow> reads_only (case v of None \<Rightarrow> m | Some x \<Rightarrow> f x)"
    for v :: "'v option" and m :: "('s, 'e, 'a) action" and f
    by (cases v) simp_all
  show ?thesis unfolding recoverCommitted_def
    by (intro reads_only_catching reads_only_andthen reads_only_basic option ownedConversation_reads)
qed

text \<open>Of storing an exchange only the transaction writes.\<close>

lemma persist_or_recover_state:
  assumes "persist_or_recover limits env actor i message result w = (r, w')"
  shows "\<exists>q. ai_committing (ch_commit env)
    (store_exchange limits env actor i message result (ch_finishedAt env - ch_startedAt env)) w = (q, w')"
proof -
  let ?store = "ai_committing (ch_commit env)
    (store_exchange limits env actor i message result (ch_finishedAt env - ch_startedAt env))"
  obtain q t where st: "?store w = (q, t)" by (rule prod.exhaust)
  let ?persist = "persistExchange limits env actor i message result (ch_finishedAt env - ch_startedAt env)"
  have p: "snd (?persist w) = t"
    using st ownedConversation_reads [of actor i]
    by (auto simp: persistExchange_def andthen_def catching_def throw_def return_def reads_only_def
        split: prod.splits sum.splits) (metis snd_conv)+
  then have "w' = t" using assms recoverCommitted_reads [of actor "ch_requestId env"]
    by (auto simp: persist_or_recover_def andthen_def catching_def throw_def return_def reads_only_def
        split: prod.splits sum.splits option.splits) (metis snd_conv)+
  then show ?thesis using st by blast
qed

section \<open>Answered exactly when stored\<close>

definition unleased :: "string \<Rightarrow> ai_world \<Rightarrow> bool" where
  "unleased rid w \<longleftrightarrow> (\<forall>c \<in> set (conversations w). cn_activeRequestId c \<noteq> Some rid)"

lemma owned_found:
  assumes "distinct (map cn_id (conversations w))" "c \<in> set (conversations w)" "owned actor i c" "cn_messageCount c > 0"
  shows "ownedConversation actor i w = (Inr c, w)"
proof -
  have "find (\<lambda>c. owned actor i c \<and> cn_messageCount c > 0) (conversations w) = Some c"
    using assms by (intro find_unique [where h = cn_id]) (auto simp: owned_def)
  then show ?thesis by (simp add: ownedConversation_def action_eval)
qed

text \<open>After the exchange is stored, its conversation is found, with two messages more.\<close>

lemma exchanged_found:
  assumes ok: "conversations_ok limits w"
    and run: "store_exchange limits env actor i content result duration w = (Inr x, w')"
  shows "\<exists>c. ownedConversation actor i w' = (Inr c, w') \<and> cn_id c = i"
    "\<forall>d \<in> set (conversations w'). cn_id d = i \<longrightarrow> cn_activeRequestId d = None"
    "\<forall>d \<in> set (conversations w'). cn_id d \<noteq> i \<longrightarrow> d \<in> set (conversations w)"
proof -
  note eff = store_exchange_effect [OF run]
  have w': "w' = exchanged env actor i content result duration w" using eff by simp
  obtain c where c: "c \<in> set (conversations w)" "leased actor i (ch_requestId env) c" using eff by blast
  have ids: "distinct (map cn_id (conversations w))" using ok by (simp add: conversations_ok_def)
  have found: "find (leased actor i (ch_requestId env)) (conversations w) = Some c"
    using ids c by (intro find_unique [where h = cn_id]) (auto simp: leased_def owned_def)
  have id_same: "cn_id (count_exchange (ch_storeAt env) d) = cn_id d" for d by (simp add: count_exchange_def release_def)
  let ?c = "count_exchange (ch_storeAt env) c"
  have c_id: "cn_id c = i" using c(2) by (simp add: leased_def owned_def)
  have mem: "d \<in> set (conversations w') \<longleftrightarrow> d \<in> set (conversations w) \<and> cn_id d \<noteq> i \<or> d = ?c" for d
    using set_updateOne_key [OF found ids id_same] c_id by (simp add: w' exchanged_def)
  have "conversation_ok limits w c" using ok c(1) by (simp add: conversations_ok_def)
  then have "0 \<le> cn_messageCount c" by (simp add: conversation_ok_def)
  then have "ownedConversation actor i w' = (Inr ?c, w')"
    using exchanged_ok [OF ok run] mem c(2)
    by (intro owned_found) (auto simp: conversations_ok_def count_exchange_def release_def leased_def owned_def)
  then show "\<exists>c. ownedConversation actor i w' = (Inr c, w') \<and> cn_id c = i" using c_id id_same by blast
  show "\<forall>d \<in> set (conversations w'). cn_id d = i \<longrightarrow> cn_activeRequestId d = None"
    "\<forall>d \<in> set (conversations w'). cn_id d \<noteq> i \<longrightarrow> d \<in> set (conversations w)"
    using mem c_id by (auto simp: count_exchange_def release_def)
qed

text \<open>An exchange whose commit was not acknowledged is found by its usage row.\<close>

lemma recover_stored:
  assumes ok: "conversations_ok limits w"
    and run: "store_exchange limits env actor i content result duration w = (Inr x, w')"
  shows "\<exists>y. recoverCommitted actor (ch_requestId env) w' = (Inr (Some y), w') \<and> ex_requestId y = ch_requestId env
    \<and> vw_id (ex_conversation y) = i \<and> mv_content (last (ex_messages y)) = gr_content result"
proof -
  note eff = store_exchange_effect [OF run]
  have w': "aiUsages w' = aiUsages w @ [usage_row env actor i result duration]"
    "aiMessages w' = aiMessages w @
       [exchange_message (ch_userMessageId env) actor i Ai_User content (ch_storeAt env),
        exchange_message (ch_assistantMessageId env) actor i Ai_Assistant (gr_content result) (ch_storeAt env + 1)]"
    using eff by (simp_all add: exchanged_def)
  obtain c where c: "ownedConversation actor i w' = (Inr c, w')" "cn_id c = i"
    using exchanged_found(1) [OF ok run] by blast
  let ?row = "usage_row env actor i result duration"
  let ?reply = "exchange_message (ch_assistantMessageId env) actor i Ai_Assistant (gr_content result) (ch_storeAt env + 1)"
  have u: "find (\<lambda>u. au_requestId u = ch_requestId env \<and> au_companyId u = a_companyId actor
      \<and> au_userId u = a_id actor) (aiUsages w') = Some ?row"
  proof -
    have "find (\<lambda>u. au_requestId u = ch_requestId env \<and> au_companyId u = a_companyId actor
      \<and> au_userId u = a_id actor) (aiUsages w) = None" using eff by (auto simp: find_None_iff image_iff)
    then show ?thesis by (simp add: w' find_append usage_row_def Let_def)
  qed
  have m: "find (\<lambda>m. am_id m = au_assistantMessageId ?row \<and> message_of actor (au_conversationId ?row) m
      \<and> am_role m = Ai_Assistant) (aiMessages w') = Some ?reply"
  proof -
    have "find (\<lambda>m. am_id m = au_assistantMessageId ?row \<and> message_of actor (au_conversationId ?row) m
      \<and> am_role m = Ai_Assistant) (aiMessages w) = None"
      using eff by (auto simp: find_None_iff image_iff usage_row_def Let_def)
    then show ?thesis by (simp add: w' find_append usage_row_def Let_def exchange_message_def message_of_def)
  qed
  have "au_conversationId ?row = i" by (simp add: usage_row_def Let_def)
  then show ?thesis using c u m
    by (simp add: recoverCommitted_def action_eval publicConversation_def publicMessage_def exchange_message_def)
qed

lemma recover_nothing:
  "rid \<notin> au_requestId ` set (aiUsages w) \<Longrightarrow> recoverCommitted actor rid w = (Inr None, w)"
proof -
  assume "rid \<notin> au_requestId ` set (aiUsages w)"
  then have "find (\<lambda>u. au_requestId u = rid \<and> au_companyId u = a_companyId actor \<and> au_userId u = a_id actor)
      (aiUsages w) = None" by (auto simp: find_None_iff image_iff)
  then show ?thesis by (simp add: recoverCommitted_def action_eval)
qed

lemma persisted:
  assumes ok: "conversations_ok limits w" and new: "ch_requestId env \<notin> au_requestId ` set (aiUsages w)"
    and run: "persist_or_recover limits env actor i message result w = (q, w')"
  shows "(\<exists>e. q = Inl e) \<and> w' = w
    \<or> (\<exists>x u duration. q = Inr x \<and> store_exchange limits env actor i message result duration w = (Inr u, w')
        \<and> ex_requestId x = ch_requestId env \<and> vw_id (ex_conversation x) = i
        \<and> mv_content (last (ex_messages x)) = gr_content result)"
proof -
  let ?d = "ch_finishedAt env - ch_startedAt env"
  let ?store = "store_exchange limits env actor i message result ?d"
  obtain q0 t where st: "ai_committing (ch_commit env) ?store w = (q0, t)" by (rule prod.exhaust)
  show ?thesis
  proof (cases "\<exists>u. ?store w = (Inr u, t)")
    case False
    then have t: "t = w" "\<exists>e. q0 = Inl e" using st ai_committing_effect [OF st]
      by (auto simp: ai_committing_def split: prod.splits sum.splits commit_outcome.splits)
    then show ?thesis using run st recover_nothing [OF new]
      by (auto simp: persist_or_recover_def persistExchange_def action_eval split: if_splits)
  next
    case True
    then obtain u where u: "?store w = (Inr u, t)" by blast
    obtain c where c: "ownedConversation actor i t = (Inr c, t)" "cn_id c = i" using exchanged_found(1) [OF ok u] by blast
    show ?thesis
    proof (cases q0)
      case (Inr y)
      then show ?thesis using run st u c
        by (auto simp: persist_or_recover_def persistExchange_def action_eval publicConversation_def)
    next
      case (Inl e)
      then have "e = Ai_Thrown UnknownCommit \<or> t = w" using st u
        by (auto simp: ai_committing_def split: commit_outcome.splits)
      moreover have "t \<noteq> w" using store_exchange_effect [OF u] by (auto simp: exchanged_def dest: arg_cong [of _ _ aiUsages])
      ultimately have e: "e = Ai_Thrown UnknownCommit" by simp
      obtain y where y: "recoverCommitted actor (ch_requestId env) t = (Inr (Some y), t)" "ex_requestId y = ch_requestId env"
        "vw_id (ex_conversation y) = i" "mv_content (last (ex_messages y)) = gr_content result"
        using recover_stored [OF ok u] by blast
      then show ?thesis using run st u Inl e
        by (auto simp: persist_or_recover_def persistExchange_def action_eval)
    qed
  qed
qed

text \<open>The conversation a request works on.\<close>

definition opened :: "chat_env \<Rightarrow> actor \<Rightarrow> chat_request \<Rightarrow> conversation \<Rightarrow> ai_world \<Rightarrow> ai_world \<Rightarrow> bool" where
  "opened env actor dto c w w1 \<longleftrightarrow> (\<exists>cs. w1 = w\<lparr>conversations := cs\<rparr> \<and> c \<in> set cs
     \<and> leased actor (cn_id c) (ch_requestId env) c
     \<and> (\<forall>d \<in> set cs. cn_activeRequestId d = Some (ch_requestId env) \<longrightarrow> cn_id d = cn_id c)
     \<and> (if cq_conversationId dto = None then cs = conversations w @ [c] \<and> cn_messageCount c = 0
        else cq_conversationId dto = Some (cn_id c) \<and> map cn_id cs = map cn_id (conversations w)))"

lemma open_conversation_effect:
  assumes run: "open_conversation cfg limits env actor dto w = (r, w1)" and un: "unleased (ch_requestId env) w"
  shows "(\<exists>e. r = Inl e) \<and> w1 = w \<or> (\<exists>c. r = Inr c \<and> opened env actor dto c w w1)"
proof (cases "cq_conversationId dto")
  case None
  let ?exp = "ch_startedAt env + timeoutMs cfg limits + 30000"
  have "createConversation limits actor (cq_message dto) (ch_requestId env) ?exp (ch_conversationId env)
      (ch_acquireAt env) w = (r, w1)" using run None by (simp add: open_conversation_def)
  from createConversation_effect [OF this] show ?thesis
    using None un by (auto simp: opened_def unleased_def leased_def owned_def intro!: exI [of _ "conversations w @ [_]"])
next
  case (Some i)
  let ?take = "take_conversation (ch_requestId env) (ch_startedAt env + timeoutMs cfg limits + 30000) (ch_acquireAt env)"
  have acq: "acquireConversation limits actor i (ch_requestId env) (ch_startedAt env + timeoutMs cfg limits + 30000)
      (ch_acquireAt env) w = (r, w1)" using run Some by (simp add: open_conversation_def)
  from acquireConversation_effect [OF acq] show ?thesis
  proof (elim disjE exE conjE)
    fix c q assume c: "find q (conversations w) = Some c" "owned actor i c" "r = Inr (?take c)"
      "w1 = w\<lparr>conversations := updateOne q ?take (conversations w)\<rparr>"
    let ?cs = "updateOne q ?take (conversations w)"
    have same: "cn_id (?take d) = cn_id d" for d by (simp add: take_conversation_def)
    have sub: "set ?cs \<subseteq> insert (?take c) (set (conversations w))" using c(1) by (rule set_updateOne)
    have "?take c \<in> set ?cs" using c(1) by (rule updateOne_member)
    moreover have "leased actor (cn_id (?take c)) (ch_requestId env) (?take c)"
      using c(2) by (simp add: leased_def owned_def take_conversation_def)
    moreover have "\<forall>d \<in> set ?cs. cn_activeRequestId d = Some (ch_requestId env) \<longrightarrow> cn_id d = cn_id (?take c)"
      using sub un by (auto simp: unleased_def)
    moreover have "map cn_id ?cs = map cn_id (conversations w)" by (simp add: map_updateOne_same same)
    moreover have "i = cn_id (?take c)" using c(2) by (simp add: owned_def same)
    ultimately have "opened env actor dto (?take c) w w1" using Some c(4) by (auto simp: opened_def)
    then show ?thesis using c(3) by blast
  qed auto
qed

lemma open_step:
  assumes "open_conversation cfg limits env actor dto w = (r, w1)" "fresh_conversation w (ch_conversationId env)"
  shows "assistant_step limits (ch_requestId env) w w1"
  using assms created acquired by (auto simp: open_conversation_def Let_def split: option.splits)

text \<open>A chat request: it ends before it has a conversation, or works on one.\<close>

lemma chat_cases:
  assumes run: "chat cfg sdk collation limits env actor dto s = (r, s')"
  shows "(\<exists>e. r = Inl e) \<and> (ad s' = ad s
      \<or> (\<exists>e. open_conversation cfg limits env actor dto (ad s) = (Inl e, ad s')))
    \<or> (\<exists>c w1 w2. open_conversation cfg limits env actor dto (ad s) = (Inr c, w1)
        \<and> ad s' = close_conversation env actor dto (cn_id c) w2
        \<and> ((\<exists>e. r = Inl e) \<and> w2 = w1
           \<or> (\<exists>result q. persist_or_recover limits env actor (cn_id c) (cq_message dto) result w1 = (q, w2)
               \<and> (\<forall>x. q = Inr x \<longrightarrow> r = Inr x) \<and> (\<forall>e. q = Inl e \<longrightarrow> (\<exists>d. r = Inl d)))))"
proof (cases "router_enabled cfg \<and> length (cq_message dto) \<le> al_maxMessageChars limits")
  case False
  then show ?thesis using run by (auto simp: chat_def throw_def split: if_splits)
next
  case True
  let ?answer = "\<lambda>i. answer cfg sdk collation limits env actor (cq_message dto) i"
  let ?persist = "\<lambda>i result. ai_db (persist_or_recover limits env actor i (cq_message dto) result)"
  let ?work = "\<lambda>c. at_last (andthen (?answer (cn_id c)) (?persist (cn_id c)))
           (\<lambda>s. s\<lparr>ad := close_conversation env actor dto (cn_id c) (ad s)\<rparr>)"
  have body: "handling (andthen (ai_db (open_conversation cfg limits env actor dto)) ?work)
      (\<lambda>e. throw (chat_error (ch_requestId env) e)) s = (r, s')"
    using run True by (simp add: chat_def)
  obtain o1 w1 where o1: "open_conversation cfg limits env actor dto (ad s) = (o1, w1)" by (rule prod.exhaust)
  show ?thesis
  proof (cases o1)
    case (Inl e)
    then show ?thesis using body o1 by (auto simp: handling_def andthen_def ai_db_def throw_def)
  next
    case (Inr c)
    let ?s1 = "s\<lparr>ad := w1\<rparr>"
    obtain a s2 where a: "?answer (cn_id c) ?s1 = (a, s2)" by (rule prod.exhaust)
    have s2: "ad s2 = w1" using answer_reads [OF a] by simp
    show ?thesis
    proof (cases a)
      case (Inl e)
      then show ?thesis using body o1 Inr a s2
        by (auto simp: handling_def andthen_def ai_db_def throw_def at_last_def)
    next
      case result: (Inr result)
      obtain q w2 where "persist_or_recover limits env actor (cn_id c) (cq_message dto) result w1 = (q, w2)"
        by (rule prod.exhaust)
      note p = this
      have "ad s' = close_conversation env actor dto (cn_id c) w2" "\<forall>x. q = Inr x \<longrightarrow> r = Inr x"
        "\<forall>e. q = Inl e \<longrightarrow> (\<exists>d. r = Inl d)"
        using body o1 Inr a s2 result p
        by (cases q; auto simp: handling_def andthen_def ai_db_def throw_def at_last_def)+
      then show ?thesis using p o1 Inr by blast
    qed
  qed
qed

section \<open>The promises\<close>

text \<open>
  C16. Whatever requests are made to the assistant, in whatever interleaving of their steps, and
  whatever happens to the tenants' data meanwhile: the message counter of every conversation is
  the number of its messages, twice the number of its exchanges that were accounted for, and
  within the limit; every message lies in a conversation of the company and user it names; message
  and request identifiers stay unique; and the usage row of every exchange names its reply.\<close>

theorem conversations_consistent:
  assumes "assistant_runs limits w w'" "conversations_ok limits w" "0 \<le> al_maxConversationMessages limits"
  shows "conversations_ok limits w'"
  using assms by (rule assistant_runs_keep)

lemma chat_runs:
  assumes "chat cfg sdk collation limits env actor dto s = (r, s')"
    and "fresh_conversation (ad s) (ch_conversationId env)"
  shows "assistant_runs limits (ad s) (ad s')"
proof -
  have one: "assistant_runs limits w v" if "assistant_step limits (ch_requestId env) w v" for w v using that by blast
  from chat_cases [OF assms(1)] show ?thesis
  proof (elim disjE exE conjE)
    fix e assume "open_conversation cfg limits env actor dto (ad s) = (Inl e, ad s')"
    then show ?thesis using one open_step assms(2) by blast
  next
    fix c w1 w2 d
    assume o1: "open_conversation cfg limits env actor dto (ad s) = (Inr c, w1)" "w2 = w1"
      "ad s' = close_conversation env actor dto (cn_id c) w2"
    have "assistant_runs limits (ad s) w1" using one open_step [OF o1(1) assms(2)] by blast
    moreover have "assistant_runs limits w1 (ad s')" unfolding o1(3) o1(2) by (intro one closed) simp
    ultimately show ?thesis by (rule rtranclp_trans)
  next
    fix c w1 w2 result q
    assume o1: "open_conversation cfg limits env actor dto (ad s) = (Inr c, w1)"
      "ad s' = close_conversation env actor dto (cn_id c) w2"
      and p: "persist_or_recover limits env actor (cn_id c) (cq_message dto) result w1 = (q, w2)"
    have "assistant_runs limits (ad s) w1" using one open_step [OF o1(1) assms(2)] by blast
    moreover have "assistant_runs limits w1 w2" using persist_or_recover_state [OF p] one stored by blast
    moreover have "assistant_runs limits w2 (ad s')" unfolding o1(2) by (intro one closed) simp
    ultimately show ?thesis by (meson rtranclp_trans)
  qed simp
qed


text \<open>What closing a conversation leaves.\<close>

lemma close_rows:
  "aiMessages (close_conversation env actor dto i w) = aiMessages w"
  "aiUsages (close_conversation env actor dto i w) = aiUsages w"
  by (simp_all add: close_conversation_def)

lemma close_unleases:
  assumes ids: "distinct (map cn_id (conversations w))" and rel: "ch_released env"
    and only: "\<forall>d \<in> set (conversations w). cn_activeRequestId d = Some (ch_requestId env) \<longrightarrow>
      leased actor i (ch_requestId env) d \<and> (cq_conversationId dto = None \<longrightarrow> cn_messageCount d = 0)"
  shows "unleased (ch_requestId env) (close_conversation env actor dto i w)"
proof (cases "cq_conversationId dto = None")
  case True
  let ?q = "\<lambda>c. leased actor i (ch_requestId env) c \<and> cn_messageCount c = 0"
  show ?thesis
  proof (cases "find ?q (conversations w)")
    case None
    then show ?thesis using only True rel
      by (auto simp: unleased_def close_conversation_def deleteOne_no_match find_None_iff)
  next
    case (Some d)
    then have "cn_id d = i" by (auto simp: leased_def owned_def dest: find_SomeD)
    then show ?thesis using only True rel set_deleteOne_key [OF Some ids]
      by (auto simp: unleased_def close_conversation_def leased_def owned_def)
  qed
next
  case False
  let ?q = "leased actor i (ch_requestId env)" and ?g = "release (ch_finishedAt env)"
  show ?thesis
  proof (cases "find ?q (conversations w)")
    case None
    then show ?thesis using only False rel
      by (auto simp: unleased_def close_conversation_def updateOne_no_match find_None_iff)
  next
    case (Some d)
    then have "cn_id d = i" by (auto simp: leased_def owned_def dest: find_SomeD)
    moreover have "cn_id (?g c) = cn_id c" for c by (simp add: release_def)
    ultimately show ?thesis using only False rel set_updateOne_key [OF Some ids, of ?g]
      by (auto simp: unleased_def close_conversation_def leased_def owned_def release_def)
  qed
qed

lemma deleteOne_last: "\<forall>x \<in> set xs. \<not> q x \<Longrightarrow> q c \<Longrightarrow> deleteOne q (xs @ [c]) = xs"
  by (induction xs) auto

text \<open>A request that stored nothing leaves no lease and no conversation behind.\<close>

lemma close_unused:
  assumes op: "opened env actor dto c w w1" and un: "unleased (ch_requestId env) w"
    and ids: "distinct (map cn_id (conversations w1))" and rel: "ch_released env"
  shows "unleased (ch_requestId env) (close_conversation env actor dto (cn_id c) w1)
    \<and> map cn_id (conversations (close_conversation env actor dto (cn_id c) w1)) = map cn_id (conversations w)"
proof
  obtain cs where cs: "w1 = w\<lparr>conversations := cs\<rparr>" "c \<in> set cs" "leased actor (cn_id c) (ch_requestId env) c"
    "\<forall>d \<in> set cs. cn_activeRequestId d = Some (ch_requestId env) \<longrightarrow> cn_id d = cn_id c"
    "if cq_conversationId dto = None then cs = conversations w @ [c] \<and> cn_messageCount c = 0
     else cq_conversationId dto = Some (cn_id c) \<and> map cn_id cs = map cn_id (conversations w)"
    using op unfolding opened_def by blast
  have same: "d = c" if "d \<in> set cs" "cn_activeRequestId d = Some (ch_requestId env)" for d
  proof -
    have "distinct (map cn_id cs)" using ids cs(1) by simp
    then show ?thesis using key_unique [OF _ that(1) cs(2), of cn_id] cs(4) that by blast
  qed
  show "unleased (ch_requestId env) (close_conversation env actor dto (cn_id c) w1)"
    using same cs by (intro close_unleases [OF ids rel]) (auto split: if_splits)
  show "map cn_id (conversations (close_conversation env actor dto (cn_id c) w1)) = map cn_id (conversations w)"
  proof (cases "cq_conversationId dto = None")
    case True
    have "deleteOne (\<lambda>d. leased actor (cn_id c) (ch_requestId env) d \<and> cn_messageCount d = 0)
        (conversations w @ [c]) = conversations w"
      using un cs True by (intro deleteOne_last) (auto simp: unleased_def leased_def)
    then show ?thesis using True cs rel by (simp add: close_conversation_def)
  next
    case False
    have "cn_id (release t d) = cn_id d" for t d by (simp add: release_def)
    then show ?thesis using False cs rel by (auto simp: close_conversation_def map_updateOne_same)
  qed
qed

lemma close_stored:
  assumes op: "opened env actor dto c w w1" and ok: "conversations_ok limits w1" and rel: "ch_released env"
    and run: "store_exchange limits env actor (cn_id c) content result duration w1 = (Inr u, w2)"
  shows "unleased (ch_requestId env) (close_conversation env actor dto (cn_id c) w2)"
proof (rule close_unleases [OF _ rel])
  show "distinct (map cn_id (conversations w2))" using exchanged_ok [OF ok run] by (simp add: conversations_ok_def)
  have only: "\<forall>d \<in> set (conversations w1). cn_activeRequestId d = Some (ch_requestId env) \<longrightarrow> cn_id d = cn_id c"
    using op by (auto simp: opened_def)
  have "cn_activeRequestId d \<noteq> Some (ch_requestId env)" if d: "d \<in> set (conversations w2)" for d
  proof (cases "cn_id d = cn_id c")
    case True
    then have "cn_activeRequestId d = None" using exchanged_found(2) [OF ok run] d by blast
    then show ?thesis by simp
  next
    case False
    then have "d \<in> set (conversations w1)" using exchanged_found(3) [OF ok run] d by blast
    then show ?thesis using only False by blast
  qed
  then show "\<forall>d \<in> set (conversations w2). cn_activeRequestId d = Some (ch_requestId env) \<longrightarrow>
      leased actor (cn_id c) (ch_requestId env) d \<and> (cq_conversationId dto = None \<longrightarrow> cn_messageCount d = 0)" by blast
qed


section \<open>Losing a conversation\<close>

definition leasing :: "ai_world \<Rightarrow> oid \<Rightarrow> string \<Rightarrow> bool" where
  "leasing w i rid \<longleftrightarrow> (\<exists>c \<in> set (conversations w). cn_id c = i \<and> cn_activeRequestId c = Some rid)"

text \<open>Storing an exchange for a request and a conversation; the other inputs are a tuple.\<close>

definition store_for :: "ai_limits \<Rightarrow> oid \<Rightarrow> string \<Rightarrow> chat_env \<times> actor \<times> js_string \<times> agent_result \<times> int
    \<Rightarrow> ai_world \<Rightarrow> (ai_error + unit) \<times> ai_world" where
  "store_for limits i rid = (\<lambda>(env, actor, content, result, duration).
     ai_committing (ch_commit env)
       (store_exchange limits (env\<lparr>ch_requestId := rid\<rparr>) actor i content result duration))"

definition other_request :: "ai_limits \<Rightarrow> string \<Rightarrow> ai_world \<Rightarrow> ai_world \<Rightarrow> bool" where
  "other_request limits rid w w' \<longleftrightarrow> (\<exists>rid'. rid' \<noteq> rid \<and> assistant_step limits rid' w w')"

lemma not_leasing_step:
  assumes "assistant_step limits rid' w w'" "rid' \<noteq> rid" "\<not> leasing w i rid"
  shows "\<not> leasing w' i rid"
proof -
  have sub: "\<not> leasing w' i rid" if "\<forall>c \<in> set (conversations w'). c \<in> set (conversations w)
      \<or> cn_activeRequestId c = Some rid' \<or> cn_activeRequestId c = None" for w'
    using that assms(2,3) by (fastforce simp: leasing_def)
  from assms(1) show ?thesis
  proof cases
    case (created actor message expiresAt newId now r)
    then show ?thesis using createConversation_effect [OF created(1)] by (intro sub) auto
  next
    case (acquired actor i' expiresAt now r)
    then show ?thesis using acquireConversation_effect [OF acquired(1)]
      by (intro sub) (auto simp: take_conversation_def dest!: set_updateOneD)
  next
    case (stored outcome env actor i' content result duration r)
    from ai_committing_effect [OF stored(1)] show ?thesis
    proof (elim disjE exE)
      fix x assume "store_exchange limits env actor i' content result duration w = (Inr x, w')"
      then have "w' = exchanged env actor i' content result duration w" using store_exchange_effect by blast
      then show ?thesis
        by (intro sub) (auto simp: exchanged_def count_exchange_def release_def dest!: set_updateOneD)
    qed (use assms(3) in simp)
  next
    case (closed env actor dto i')
    then show ?thesis using set_deleteOne_subset
      by (intro sub) (auto simp: close_conversation_def release_def dest!: set_updateOneD subsetD [OF set_deleteOne_subset])
  next
    case (deleted outcome actor i' now r)
    from ai_committing_effect [OF deleted(1)] show ?thesis
    proof (elim disjE exE)
      fix x assume "delete_transaction actor i' now w = (Inr x, w')"
      then show ?thesis by (intro sub) (auto dest!: delete_effect subsetD [OF set_deleteOne_subset])
    qed (use assms(3) in simp)
  next
    case (other t)
    then show ?thesis by (intro sub) simp
  qed
qed

interpretation conversation_lease: fenced_lease leasing "store_for limits" "other_request limits" for limits
proof
  fix limits w i rid and x :: "chat_env \<times> actor \<times> js_string \<times> agent_result \<times> int"
  assume lost: "\<not> leasing w i rid"
  obtain env actor content result duration where x: "x = (env, actor, content, result, duration)" by (metis prod_cases5)
  show "snd (store_for limits i rid x w) = w"
  proof (rule ccontr)
    obtain r w' where run: "store_for limits i rid x w = (r, w')" by (rule prod.exhaust)
    assume "snd (store_for limits i rid x w) \<noteq> w"
    then obtain u where "store_exchange limits (env\<lparr>ch_requestId := rid\<rparr>) actor i content result duration w = (Inr u, w')"
      using run ai_committing_effect by (fastforce simp: store_for_def x)
    then have "\<exists>c \<in> set (conversations w). leased actor i rid c" using store_exchange_effect by fastforce
    then show False using lost by (auto simp: leasing_def leased_def owned_def)
  qed
next
  fix limits rid w w' i
  assume "other_request limits rid w w'" "\<not> leasing w i rid"
  then show "\<not> leasing w' i rid" using not_leasing_step by (auto simp: other_request_def)
qed

text \<open>
  A request that lost its conversation stores nothing: once another request took the
  conversation over after the lease expired, or the conversation was deleted, and whatever other
  requests do afterwards, storing the exchange leaves the database as it is.\<close>

theorem stale_request_stores_nothing:
  assumes "\<not> leasing w i rid" "(other_request limits rid)\<^sup>*\<^sup>* w w'"
  shows "snd (store_for limits i rid (env, actor, content, result, duration) w') = w'"
  using assms by (rule conversation_lease.stale_refused)

text \<open>
  While a request works on a conversation and its lease has not expired, nobody else gets at
  it: another request of its owner is refused with a conflict, its owner cannot delete it, and
  neither attempt changes anything.\<close>

theorem busy_conversation_protected:
  assumes "distinct (map cn_id (conversations w))" "c \<in> set (conversations w)" "owned actor i c"
    and "cn_activeRequestId c = Some rid" "cn_activeRequestExpiresAt c = Some t" "now < t"
    and "safe_count (cn_messageCount c)" "cn_messageCount c + 2 \<le> al_maxConversationMessages limits"
  shows "acquireConversation limits actor i rid' expiresAt now w
      = (Inl (Ai_Thrown (http Conflict ''Conversation is processing another request'')), w)
    \<and> delete_transaction actor i now w = (Inl (Ai_Thrown (http Conflict ''Conversation is processing a request'')), w)"
proof -
  have busy: "\<not> idle now c" using assms(4-6) by (simp add: idle_def)
  have same: "d = c" if "d \<in> set (conversations w)" "owned actor i d" for d
    using key_unique [OF assms(1) that(1) assms(2)] assms(3) that(2) by (simp add: owned_def)
  have none: "find (\<lambda>d. owned actor i d \<and> p d \<and> idle now d) (conversations w) = None" for p
    using same busy by (auto simp: find_None_iff)
  have none': "find (\<lambda>d. owned actor i d \<and> idle now d) (conversations w) = None"
    using none [of "\<lambda>_. True"] by simp
  have found: "find (owned actor i) (conversations w) = Some c"
    using assms(1-3) by (intro find_unique [where h = cn_id]) (auto simp: owned_def)
  have some: "list_ex (owned actor i) (conversations w)" using assms(2,3) by (auto simp: list_ex_iff)
  show ?thesis using none none' found some assms(7,8)
    by (simp add: acquireConversation_def delete_transaction_def Let_def action_eval)
qed

end
