(* ===== verification/AssistantExamples.thy ===== *)
theory AssistantExamples
  imports ConversationSafety
begin

text \<open>
  The promises of the assistant at work: a member asks, the model reads the company's profile
  through a tool and then answers, and the exchange is stored; a provider's answer is normalised;
  a request finds its conversation taken over.
\<close>

section \<open>A request\<close>

definition reply_json :: json where
  "reply_json = JObject [(units ''model'', JString (units ''m'')),
     (units ''choices'', JArray [JObject [(units ''message'', JObject
       [(units ''role'', JString (units ''assistant'')), (units ''content'', JString (units ''Hi''))])]])]"

definition call_json :: json where
  "call_json = JObject [(units ''model'', JString (units ''m'')),
     (units ''choices'', JArray [JObject [(units ''message'', JObject
       [(units ''role'', JString (units ''assistant'')), (units ''content'', JNull),
        (units ''tool_calls'', JArray [JObject [(units ''id'', JString (units ''1'')),
           (units ''type'', JString (units ''function'')),
           (units ''function'', JObject [(units ''name'', JString (units ''get_company_profile'')),
              (units ''arguments'', JString (units ''{}''))])]])])]])]"

text \<open>The first answer calls a tool, the next ones are text.\<close>

definition example_sdk :: "(nat, tool_result) ai_sdk" where
  "example_sdk = \<lparr>openrouter_create = (\<lambda>_ n. (Inr (if n = 0 then call_json else reply_json), n + 1)),
     gemini_create = (\<lambda>_ n. (Inl Sdk_Connection, n)), signal_aborted = (\<lambda>_. False)\<rparr>"

definition example_ai_config :: ai_config where
  "example_ai_config = \<lparr>ac_openrouterEnabled = True, ac_openrouterModel = units ''m'', ac_fallbackModels = [],
     ac_openrouterMaxTokens = 100, ac_requireZdr = True, ac_geminiEnabled = False, ac_geminiModel = [],
     ac_geminiMaxTokens = 100\<rparr>"

definition example_limits :: ai_limits where
  "example_limits = \<lparr>al_maxMessageChars = 100, al_maxHistoryMessages = 10, al_maxContextChars = 1000,
     al_maxConversationMessages = 10, al_maxConversations = 5, al_maxToolIterations = 3,
     al_openrouterTimeout = 1000, al_geminiTimeout = 1000\<rparr>"

definition asking_member :: actor where
  "asking_member = \<lparr>a_id = 2, a_companyId = 7, a_role = COMPANY_MEMBER\<rparr>"

definition asking_company :: company where
  "asking_company = \<lparr>c_id = 7, c_name = ''Acme'', c_country = ''DE'', c_industry = ''IT'', c_activatedAt = Some 0,
     c_platformStatus = PLATFORM_ACTIVE, c_platformStatusReason = None, c_platformStatusChangedAt = None,
     c_platformStatusChangedBy = None, c_guardScanFence = 0\<rparr>"

definition example_ai_world :: ai_world where
  "example_ai_world = \<lparr>tenants = empty_world\<lparr>companies := [asking_company]\<rparr>, conversations = [],
     aiMessages = [], aiUsages = []\<rparr>"

definition example_ai_state :: "nat ai_state" where
  "example_ai_state = \<lparr>ad = example_ai_world, ar = (0, None), aq = []\<rparr>"

definition example_chat_env :: chat_env where
  "example_chat_env = \<lparr>ch_requestId = ''r'', ch_conversationId = 1, ch_userMessageId = 2, ch_assistantMessageId = 3,
     ch_startedAt = 0, ch_acquireAt = 1, ch_toolTimes = (\<lambda>_. 2), ch_finishedAt = 3, ch_storeAt = 4,
     ch_commit = Unknown_Applied, ch_released = True\<rparr>"

definition example_question :: chat_request where
  "example_question = \<lparr>cq_conversationId = None, cq_message = units ''Q''\<rparr>"

definition example_agent_run :: "(ai_error + agent_result) \<times> nat ai_state" where
  "example_agent_run = runAgent example_ai_config example_sdk id example_limits asking_member (\<lambda>_. 2) [] (units ''Q'')
     example_ai_state"

definition example_chat :: "(error + exchange) \<times> nat ai_state" where
  "example_chat = chat example_ai_config example_sdk id example_limits example_chat_env asking_member example_question
     example_ai_state"

lemma example_ai_world_ok: "conversations_ok example_limits example_ai_world"
  by (simp add: conversations_ok_def example_ai_world_def)

lemma reply_normalised: "\<not> isl (normalizeChatCompletion reply_json Openrouter)"
  by code_simp

lemma example_agent_answers: "\<not> isl (fst example_agent_run)"
  by code_simp

lemma example_chat_answers: "\<not> isl (fst example_chat)"
  by code_simp

section \<open>The promises at this request\<close>

text \<open>Another company, its user's conversation and messages beside the member's.\<close>

definition crowded_state :: "nat ai_state" where
  "crowded_state = example_ai_state\<lparr>ad := example_ai_world
     \<lparr>tenants := empty_world\<lparr>companies := [asking_company\<lparr>c_id := 9, c_name := ''Rival''\<rparr>, asking_company]\<rparr>,
      aiMessages := [\<lparr>am_id = 8, am_conversationId = 6, am_companyId = 9, am_userId = 4, am_role = Ai_User,
        am_content = units ''secret'', am_createdAt = 0\<rparr>]\<rparr>\<rparr>"

definition example_reply :: "nat ai_state \<Rightarrow> (ai_error + agent_result) \<times> nat ai_state" where
  "example_reply = answer example_ai_config example_sdk id example_limits example_chat_env asking_member (units ''Q'') 1"

theorem model_sees_own_company_witness:
  "fst (example_reply example_ai_state) = fst (example_reply crowded_state)
    \<and> aq (snd (example_reply example_ai_state)) = aq (snd (example_reply crowded_state))"
proof -
  have same: "same_company (a_companyId asking_member) (tenants (ad example_ai_state)) (tenants (ad crowded_state))"
    by (simp add: same_company_def example_ai_state_def crowded_state_def example_ai_world_def empty_world_def
        asking_member_def asking_company_def)
  have own: "filter (own_message asking_member) (aiMessages (ad example_ai_state))
      = filter (own_message asking_member) (aiMessages (ad crowded_state))"
    by (simp add: own_message_def example_ai_state_def crowded_state_def example_ai_world_def asking_member_def)
  have "ar example_ai_state = ar crowded_state" "aq example_ai_state = aq crowded_state"
    by (simp_all add: example_ai_state_def crowded_state_def)
  from model_sees_own_company [OF same own this surjective_pairing surjective_pairing]
  show ?thesis by (simp add: example_reply_def)
qed

theorem normalised_completion_witness:
  "assertModelCompletion (projr (normalizeChatCompletion reply_json Openrouter)) = Inr ()"
proof -
  have "normalizeChatCompletion reply_json Openrouter = Inr (projr (normalizeChatCompletion reply_json Openrouter))"
    using reply_normalised by (cases "normalizeChatCompletion reply_json Openrouter") simp_all
  from normalised_completion [OF this] show ?thesis by simp
qed


lemma example_chat_runs: "assistant_runs example_limits example_ai_world (ad (snd example_chat))"
  using chat_runs [of example_ai_config example_sdk id example_limits example_chat_env asking_member example_question
    example_ai_state "fst example_chat" "snd example_chat"]
  by (simp add: example_chat_def example_ai_state_def fresh_conversation_def example_ai_world_def)

theorem conversations_consistent_witness: "conversations_ok example_limits (ad (snd example_chat))"
  by (rule conversations_consistent [OF example_chat_runs example_ai_world_ok]) (simp add: example_limits_def)



text \<open>The conversation was taken over by request \<open>s\<close>.\<close>

definition taken_conversation :: conversation where
  "taken_conversation = \<lparr>cn_id = 1, cn_companyId = 7, cn_userId = 2, cn_title = [], cn_messageCount = 0,
     cn_activeRequestId = Some ''s'', cn_activeRequestExpiresAt = Some 100, cn_createdAt = 0, cn_updatedAt = 0\<rparr>"

definition taken_world :: ai_world where
  "taken_world = example_ai_world\<lparr>conversations := [taken_conversation]\<rparr>"

definition example_result :: agent_result where
  "example_result = \<lparr>gr_content = units ''Hi'', gr_usage = no_usage, gr_toolCallCount = 0\<rparr>"

theorem stale_request_stores_nothing_witness:
  "snd (store_for example_limits 1 ''r'' (example_chat_env, asking_member, [], example_result, 0) taken_world) = taken_world"
  by (rule stale_request_stores_nothing [OF _ rtranclp.rtrancl_refl])
    (simp add: leasing_def taken_world_def taken_conversation_def)

theorem busy_conversation_protected_witness:
  "acquireConversation example_limits asking_member 1 ''r'' 200 50 taken_world
      = (Inl (Ai_Thrown (http Conflict ''Conversation is processing another request'')), taken_world)
    \<and> delete_transaction asking_member 1 50 taken_world
      = (Inl (Ai_Thrown (http Conflict ''Conversation is processing a request'')), taken_world)"
  by (rule busy_conversation_protected [of _ taken_conversation _ _ "''s''" 100])
    (simp_all add: taken_world_def taken_conversation_def owned_def asking_member_def safe_count_def
      isSafeInteger_def MAX_SAFE_INTEGER_def example_limits_def)

end
