(* ===== verification/Administration.thy ===== *)
theory Administration
  imports Accounts Statistics
begin

text \<open>
  The platform's administrators (\<open>admin/\<close>): how an account comes to be (the bootstrap command, or a
  request that is verified, approved and set up), signing in and recovery, the guard of the
  administrators' routes, the status of companies, the listings and the audit log. Texts of
  administrators are UTF-16 texts. Hashing, signing, random tokens, the clock, the delivery of mail
  and the outcome of commits are parameters.
\<close>

section \<open>Documents\<close>

record platform_admin =
  pa_id :: oid
  pa_email :: js_string
  pa_fullName :: js_string
  pa_password :: string
  pa_isActive :: bool
  pa_authVersion :: int
  pa_passwordResetTokenHash :: "string option"
  pa_passwordResetExpiresAt :: "date option"
  pa_passwordResetRequestedAt :: "date option"
  pa_createdAt :: date

datatype request_status =
    Awaiting_Verification | Pending_Review | Approved | Rejected | Activated | Expired

record access_request =
  rq_id :: oid
  rq_email :: js_string
  rq_fullName :: js_string
  rq_reason :: "js_string option"
  rq_status :: request_status
  rq_verificationTokenHash :: "string option"
  rq_verificationExpiresAt :: "date option"
  rq_setupTokenHash :: "string option"
  rq_setupExpiresAt :: "date option"
  rq_reviewedBy :: "oid option"
  rq_reviewedAt :: "date option"
  rq_verifiedAt :: "date option"
  rq_activatedAt :: "date option"
  rq_createdAt :: date

datatype audit_action =
    BOOTSTRAP_CREATED | PASSWORD_RESET | LOGIN_SUCCEEDED | LOGIN_FAILED | COMPANY_SUSPENDED
  | COMPANY_REACTIVATED | ACCESS_REQUESTED | ACCESS_VERIFIED | ACCESS_APPROVED | ACCESS_REJECTED
  | ACCESS_ACTIVATED

datatype audit_target = Target_Admin | Target_Company | Target_Request

datatype audit_reason = Platform_Reason platform_reason | INVALID_CREDENTIALS

record audit =
  at_action :: audit_action
  at_actorId :: "oid option"
  at_targetId :: "oid option"
  at_targetType :: "audit_target option"
  at_reason :: "audit_reason option"
  at_previousStatus :: "platform_status option"
  at_nextStatus :: "platform_status option"
  at_createdAt :: date

text \<open>The mail sent, by purpose, with its addressee and the link in it.\<close>

datatype admin_mail =
    Admin_Reset_Mail js_string string
  | Verify_Request_Mail js_string string
  | Review_Mail js_string string
  | Approved_Mail js_string string
  | Rejected_Mail js_string
  | Setup_Mail js_string string

record platform =
  tenant_data :: world
  admins :: "platform_admin list"
  accessRequests :: "access_request list"
  audits :: "audit list"
  adminOutbox :: "admin_mail list"

type_synonym 'a admin_handler = "(platform, error, 'a) action"

definition audit_row :: "audit_action \<Rightarrow> oid option \<Rightarrow> oid option \<Rightarrow> audit_target option \<Rightarrow> date \<Rightarrow> audit" where
  "audit_row action actorId targetId targetType now =
     \<lparr>at_action = action, at_actorId = actorId, at_targetId = targetId, at_targetType = targetType,
      at_reason = None, at_previousStatus = None, at_nextStatus = None, at_createdAt = now\<rparr>"

definition record_audit :: "audit \<Rightarrow> unit admin_handler" where
  "record_audit a = modify (\<lambda>p. p\<lparr>audits := audits p @ [a]\<rparr>)"

definition send_admin_mail :: "admin_mail \<Rightarrow> unit admin_handler" where
  "send_admin_mail m = modify (\<lambda>p. p\<lparr>adminOutbox := adminOutbox p @ [m]\<rparr>)"

text \<open>A failure of a transaction that is not one of the code's own becomes a temporary one.\<close>

definition or_unavailable :: "exception_class \<Rightarrow> string \<Rightarrow> 'a admin_handler \<Rightarrow> 'a admin_handler" where
  "or_unavailable own message m =
     catching m (\<lambda>e. if instanceof e own then throw e else throw (http ServiceUnavailable message))"

text \<open>A handler of the tenants' database, as one of the platform's.\<close>

definition in_tenants :: "'a handler \<Rightarrow> 'a admin_handler" where
  "in_tenants m p = (case m (tenant_data p) of (r, w) \<Rightarrow> (r, p\<lparr>tenant_data := w\<rparr>))"

definition admin_link :: "string \<Rightarrow> string \<Rightarrow> string \<Rightarrow> string" where
  "admin_link page fragment token = page @ ''#'' @ fragment @ ''='' @ token"

section \<open>Signing in\<close>

definition PLATFORM_ADMIN_TOKEN_TYPE :: string where "PLATFORM_ADMIN_TOKEN_TYPE = ''platform_admin''"

record admin_payload =
  ap_sub :: id_text
  ap_type :: string
  ap_version :: "int option"

definition active_admin :: "platform_admin option \<Rightarrow> bool" where
  "active_admin admin = (case admin of None \<Rightarrow> False | Some a \<Rightarrow> pa_isActive a)"

definition login_audit :: "platform_admin option \<Rightarrow> bool \<Rightarrow> date \<Rightarrow> audit" where
  "login_audit admin ok now =
     \<lparr>at_action = (if ok then LOGIN_SUCCEEDED else LOGIN_FAILED), at_actorId = map_option pa_id admin,
      at_targetId = map_option pa_id admin, at_targetType = (if admin = None then None else Some Target_Admin),
      at_reason = (if ok then None else Some INVALID_CREDENTIALS), at_previousStatus = None,
      at_nextStatus = None, at_createdAt = now\<rparr>"

definition admin_payload_of :: "platform_admin \<Rightarrow> admin_payload" where
  "admin_payload_of a = \<lparr>ap_sub = Valid_Id (pa_id a), ap_type = PLATFORM_ADMIN_TOKEN_TYPE,
     ap_version = Some (pa_authVersion a)\<rparr>"

text \<open>\<open>dummy\<close> is the hash an unknown address is compared with; \<open>recorded\<close>, whether the audit is stored.\<close>

definition admin_login :: "(js_string \<Rightarrow> string \<Rightarrow> bool) \<Rightarrow> string \<Rightarrow> (admin_payload \<Rightarrow> string) \<Rightarrow> bool
    \<Rightarrow> js_string \<Rightarrow> js_string \<Rightarrow> date \<Rightarrow> string admin_handler" where
  "admin_login compare dummy sign recorded email password now =
     andthen (gets (\<lambda>p. find (\<lambda>a. pa_email a = email) (admins p))) (\<lambda>admin.
     let valid = compare password (case admin of None \<Rightarrow> dummy | Some a \<Rightarrow> pa_password a);
         ok = (valid \<and> active_admin admin) in
     andthen (if recorded then record_audit (login_audit admin ok now)
              else throw (http ServiceUnavailable ''Platform authentication temporarily unavailable'')) (\<lambda>_.
     case admin of
       None \<Rightarrow> throw (http Unauthorized ''Invalid credentials'')
     | Some a \<Rightarrow>
         if \<not> ok then throw (http Unauthorized ''Invalid credentials'')
         else return (sign (admin_payload_of a))))"

definition platform_canActivate ::
  "(string \<Rightarrow> admin_payload option) \<Rightarrow> string option \<Rightarrow> oid admin_handler" where
  "platform_canActivate verify_jwt authorization =
     (let invalid = http Unauthorized ''Invalid or expired platform administrator token'' in
      case bearer_token authorization of
        None \<Rightarrow> throw (http Unauthorized ''Platform administrator authentication required'')
      | Some t \<Rightarrow>
      (case verify_jwt t of
         None \<Rightarrow> throw invalid
       | Some payload \<Rightarrow>
       if ap_type payload \<noteq> PLATFORM_ADMIN_TOKEN_TYPE \<or> \<not> is_valid_id (ap_sub payload) then throw invalid
       else
       andthen (gets (\<lambda>p. find (\<lambda>a. pa_id a = id_value (ap_sub payload)) (admins p))) (\<lambda>found.
       case found of
         None \<Rightarrow> throw invalid
       | Some a \<Rightarrow>
           if \<not> pa_isActive a \<or> option_default 0 (ap_version payload) \<noteq> pa_authVersion a then throw invalid
           else return (pa_id a))))"

section \<open>Recovery\<close>

definition reset_requestable :: "js_string \<Rightarrow> date \<Rightarrow> platform_admin \<Rightarrow> bool" where
  "reset_requestable email now a \<longleftrightarrow> pa_email a = email \<and> pa_isActive a
     \<and> (case pa_passwordResetRequestedAt a of None \<Rightarrow> True | Some t \<Rightarrow> t \<le> now - 60000)"

definition with_reset_token :: "string \<Rightarrow> date \<Rightarrow> platform_admin \<Rightarrow> platform_admin" where
  "with_reset_token tokenHash now a = a\<lparr>pa_passwordResetTokenHash := Some tokenHash,
     pa_passwordResetExpiresAt := Some (now + 30 * 60000), pa_passwordResetRequestedAt := Some now\<rparr>"

definition without_reset_token :: "platform_admin \<Rightarrow> platform_admin" where
  "without_reset_token a = a\<lparr>pa_passwordResetTokenHash := None, pa_passwordResetExpiresAt := None,
     pa_passwordResetRequestedAt := None\<rparr>"

definition ADMIN_RECOVERY_MESSAGE :: string where
  "ADMIN_RECOVERY_MESSAGE = ''If this is an active platform admin email, a reset link will arrive shortly.''"

text \<open>\<open>mailed\<close> and \<open>cleaned\<close>: whether the mail, or else the removal of the token, succeeds.\<close>

definition admin_forgotPassword :: "(string \<Rightarrow> string) \<Rightarrow> string \<Rightarrow> string \<Rightarrow> bool \<Rightarrow> bool
    \<Rightarrow> js_string \<Rightarrow> date \<Rightarrow> string admin_handler" where
  "admin_forgotPassword sha256 admin_page token mailed cleaned email now =
     (let tokenHash = sha256 token; q = reset_requestable email now in
      andthen (gets (\<lambda>p. find q (admins p))) (\<lambda>found.
      case found of
        None \<Rightarrow> return ADMIN_RECOVERY_MESSAGE
      | Some a \<Rightarrow>
      andthen (modify (\<lambda>p. p\<lparr>admins := updateOne q (with_reset_token tokenHash now) (admins p)\<rparr>)) (\<lambda>_.
      andthen
        (if mailed then send_admin_mail (Admin_Reset_Mail (pa_email a) (admin_link admin_page ''reset'' token))
         else if cleaned
         then modify (\<lambda>p. p\<lparr>admins := updateOne
                (\<lambda>b. pa_id b = pa_id a \<and> pa_passwordResetTokenHash b = Some tokenHash) without_reset_token (admins p)\<rparr>)
         else return ()) (\<lambda>_.
      return ADMIN_RECOVERY_MESSAGE))))"

definition admin_resettable :: "string \<Rightarrow> date \<Rightarrow> platform_admin \<Rightarrow> bool" where
  "admin_resettable tokenHash now a \<longleftrightarrow> pa_passwordResetTokenHash a = Some tokenHash
     \<and> (case pa_passwordResetExpiresAt a of None \<Rightarrow> False | Some t \<Rightarrow> t > now) \<and> pa_isActive a"

definition with_admin_password :: "string \<Rightarrow> platform_admin \<Rightarrow> platform_admin" where
  "with_admin_password password a =
     (without_reset_token a)\<lparr>pa_password := password, pa_authVersion := pa_authVersion a + 1\<rparr>"

definition admin_resetPassword :: "(string \<Rightarrow> string) \<Rightarrow> (js_string \<Rightarrow> string) \<Rightarrow> string \<Rightarrow> js_string \<Rightarrow> date
    \<Rightarrow> commit_outcome \<Rightarrow> bool admin_handler" where
  "admin_resetPassword sha256 bcrypt token newPassword now outcome =
     (let tokenHash = sha256 token; q = admin_resettable tokenHash now in
      or_unavailable Unauthorized ''Platform password reset temporarily unavailable''
        (committing outcome
          (andthen (gets (\<lambda>p. find q (admins p))) (\<lambda>found.
           case found of
             None \<Rightarrow> throw (http Unauthorized ''Invalid or expired reset link'')
           | Some a \<Rightarrow>
           andthen (modify (\<lambda>p. p\<lparr>admins := updateOne q (with_admin_password (bcrypt newPassword)) (admins p)\<rparr>)) (\<lambda>_.
           andthen (record_audit (audit_row PASSWORD_RESET (Some (pa_id a)) (Some (pa_id a)) (Some Target_Admin) now)) (\<lambda>_.
           return True))))))"

section \<open>Requests for access\<close>

definition LINK_LIFETIME_MS :: int where "LINK_LIFETIME_MS = 24 * 60 * 60 * 1000"

definition REQUEST_MESSAGE :: string where
  "REQUEST_MESSAGE = ''If the email can receive a request, a verification link will arrive shortly.''"

text \<open>The unique index lets an address have one open request.\<close>

definition open_request :: "js_string \<Rightarrow> access_request \<Rightarrow> bool" where
  "open_request email r \<longleftrightarrow> rq_email r = email
     \<and> rq_status r \<in> {Awaiting_Verification, Pending_Review, Approved}"

definition stale_request :: "js_string \<Rightarrow> date \<Rightarrow> access_request \<Rightarrow> bool" where
  "stale_request email now r \<longleftrightarrow> rq_email r = email \<and> rq_status r = Awaiting_Verification
     \<and> (case rq_verificationExpiresAt r of None \<Rightarrow> False | Some t \<Rightarrow> t \<le> now)"

definition expire_request :: "access_request \<Rightarrow> access_request" where
  "expire_request r = r\<lparr>rq_status := Expired, rq_verificationTokenHash := None, rq_verificationExpiresAt := None\<rparr>"

definition new_request :: "oid \<Rightarrow> js_string \<Rightarrow> js_string \<Rightarrow> js_string option \<Rightarrow> string \<Rightarrow> date \<Rightarrow> access_request" where
  "new_request i email fullName reason tokenHash now =
     \<lparr>rq_id = i, rq_email = email, rq_fullName = js_trim fullName, rq_reason = map_option js_trim reason,
      rq_status = Awaiting_Verification, rq_verificationTokenHash = Some tokenHash,
      rq_verificationExpiresAt = Some (now + LINK_LIFETIME_MS), rq_setupTokenHash = None,
      rq_setupExpiresAt = None, rq_reviewedBy = None, rq_reviewedAt = None, rq_verifiedAt = None,
      rq_activatedAt = None, rq_createdAt = now\<rparr>"

definition create_request :: "access_request \<Rightarrow> unit admin_handler" where
  "create_request r =
     andthen (gets accessRequests) (\<lambda>stored.
     if list_ex (open_request (rq_email r)) stored then throw (DuplicateKey ''email'')
     else modify (\<lambda>p. p\<lparr>accessRequests := accessRequests p @ [r]\<rparr>))"

definition request_access :: "(string \<Rightarrow> string) \<Rightarrow> string \<Rightarrow> string \<Rightarrow> bool \<Rightarrow> bool \<Rightarrow> oid
    \<Rightarrow> js_string \<Rightarrow> js_string \<Rightarrow> js_string option \<Rightarrow> date \<Rightarrow> commit_outcome \<Rightarrow> string admin_handler" where
  "request_access sha256 admin_page token mailed cleaned newId email fullName reason now outcome =
     andthen (modify (\<lambda>p. p\<lparr>accessRequests :=
        updateMany (stale_request email now) expire_request (accessRequests p)\<rparr>)) (\<lambda>_.
     andthen (gets (\<lambda>p. list_ex (\<lambda>a. pa_email a = email) (admins p))) (\<lambda>isAdmin.
     if isAdmin then return REQUEST_MESSAGE
     else
     andthen (gets (\<lambda>p. list_ex (open_request email) (accessRequests p))) (\<lambda>isOpen.
     if isOpen then return REQUEST_MESSAGE
     else
     andthen (catching
        (andthen (committing outcome
           (andthen (create_request (new_request newId email fullName reason (sha256 token) now)) (\<lambda>_.
            record_audit (audit_row ACCESS_REQUESTED None (Some newId) (Some Target_Request) now)))) (\<lambda>_.
         return True))
        (\<lambda>e. if isDuplicateKeyError e then return False
             else throw (http ServiceUnavailable ''Access request temporarily unavailable''))) (\<lambda>created.
     if \<not> created then return REQUEST_MESSAGE
     else
     andthen
       (if mailed then send_admin_mail (Verify_Request_Mail email (admin_link admin_page ''verify_admin_request'' token))
        else if cleaned
        then modify (\<lambda>p. p\<lparr>accessRequests := updateOne
               (\<lambda>r. rq_id r = newId \<and> rq_status r = Awaiting_Verification) expire_request (accessRequests p)\<rparr>)
        else return ()) (\<lambda>_.
     return REQUEST_MESSAGE)))))"

definition verifiable :: "string \<Rightarrow> date \<Rightarrow> access_request \<Rightarrow> bool" where
  "verifiable tokenHash now r \<longleftrightarrow> rq_status r = Awaiting_Verification
     \<and> rq_verificationTokenHash r = Some tokenHash
     \<and> (case rq_verificationExpiresAt r of None \<Rightarrow> False | Some t \<Rightarrow> t > now)"

definition verified_request :: "date \<Rightarrow> access_request \<Rightarrow> access_request" where
  "verified_request now r = r\<lparr>rq_status := Pending_Review, rq_verifiedAt := Some now,
     rq_verificationTokenHash := None, rq_verificationExpiresAt := None\<rparr>"

definition VERIFIED_MESSAGE :: string where
  "VERIFIED_MESSAGE = ''Request sent. Please wait for a decision.''"

text \<open>The active administrators are told; \<open>mailed\<close> says whose mail is delivered, if any can be.\<close>

definition review_mails :: "string \<Rightarrow> (js_string \<Rightarrow> bool) \<Rightarrow> platform \<Rightarrow> admin_mail list" where
  "review_mails admin_page mailed p = map (\<lambda>a. Review_Mail (pa_email a) admin_page)
     (filter (\<lambda>a. pa_isActive a \<and> mailed (pa_email a)) (admins p))"

definition verify_request :: "(string \<Rightarrow> string) \<Rightarrow> string \<Rightarrow> (js_string \<Rightarrow> bool) \<Rightarrow> bool \<Rightarrow> string \<Rightarrow> date
    \<Rightarrow> commit_outcome \<Rightarrow> string admin_handler" where
  "verify_request sha256 admin_page mailed prepared token now outcome =
     (let q = verifiable (sha256 token) now in
      andthen (or_unavailable BadRequest ''Verification temporarily unavailable''
        (committing outcome
          (andthen (gets (\<lambda>p. find q (accessRequests p))) (\<lambda>found.
           case found of
             None \<Rightarrow> throw (http BadRequest ''This verification link is invalid or expired.'')
           | Some r \<Rightarrow>
           andthen (modify (\<lambda>p. p\<lparr>accessRequests := updateOne q (verified_request now) (accessRequests p)\<rparr>)) (\<lambda>_.
           record_audit (audit_row ACCESS_VERIFIED None (Some (rq_id r)) (Some Target_Request) now)))))) (\<lambda>_.
      andthen (if prepared
        then modify (\<lambda>p. p\<lparr>adminOutbox := adminOutbox p @ review_mails admin_page mailed p\<rparr>)
        else return ()) (\<lambda>_.
      return VERIFIED_MESSAGE)))"

record request_item =
  rv_id :: oid
  rv_fullName :: js_string
  rv_email :: js_string
  rv_reason :: "js_string option"
  rv_status :: request_status
  rv_createdAt :: date
  rv_verifiedAt :: "date option"
  rv_reviewedAt :: "date option"
  rv_activatedAt :: "date option"

definition request_view :: "access_request \<Rightarrow> request_item" where
  "request_view r = \<lparr>rv_id = rq_id r, rv_fullName = rq_fullName r, rv_email = rq_email r,
     rv_reason = rq_reason r, rv_status = rq_status r, rv_createdAt = rq_createdAt r,
     rv_verifiedAt = rq_verifiedAt r, rv_reviewedAt = rq_reviewedAt r, rv_activatedAt = rq_activatedAt r\<rparr>"

definition reviewable :: "access_request \<Rightarrow> bool" where
  "reviewable r \<longleftrightarrow> rq_status r \<in> {Pending_Review, Approved, Rejected, Activated}"

definition list_requests :: "nat \<Rightarrow> nat \<Rightarrow> (request_item list \<times> int) admin_handler" where
  "list_requests page limit =
     andthen (gets (\<lambda>p. take limit (drop ((page - 1) * limit)
        (sort_key (\<lambda>r. - rq_createdAt r) (filter reviewable (accessRequests p)))))) (\<lambda>items.
     andthen (gets (\<lambda>p. countDocuments reviewable (accessRequests p))) (\<lambda>total.
     return (map request_view items, total)))"

text \<open>The decision on a request: approval draws the token of the setup link.\<close>

definition pending :: "oid \<Rightarrow> access_request \<Rightarrow> bool" where
  "pending i r \<longleftrightarrow> rq_id r = i \<and> rq_status r = Pending_Review"

definition decided :: "oid \<Rightarrow> bool \<Rightarrow> string \<Rightarrow> date \<Rightarrow> access_request \<Rightarrow> access_request" where
  "decided actorId approving tokenHash now r =
     (let d = r\<lparr>rq_status := (if approving then Approved else Rejected), rq_reviewedBy := Some actorId,
                rq_reviewedAt := Some now\<rparr> in
      if approving then d\<lparr>rq_setupTokenHash := Some tokenHash, rq_setupExpiresAt := Some (now + LINK_LIFETIME_MS)\<rparr>
      else d)"

definition decide :: "(string \<Rightarrow> string) \<Rightarrow> string \<Rightarrow> string \<Rightarrow> bool \<Rightarrow> oid \<Rightarrow> oid \<Rightarrow> bool \<Rightarrow> date
    \<Rightarrow> commit_outcome \<Rightarrow> (request_status \<times> bool) admin_handler" where
  "decide sha256 admin_page token mailed actorId i approving now outcome =
     andthen (or_unavailable Conflict ''Decision temporarily unavailable''
       (committing outcome
         (andthen (gets (\<lambda>p. find (pending i) (accessRequests p))) (\<lambda>found.
          case found of
            None \<Rightarrow> throw (http Conflict ''This request has already been reviewed.'')
          | Some r \<Rightarrow>
          andthen (modify (\<lambda>p. p\<lparr>accessRequests :=
             updateOne (pending i) (decided actorId approving (sha256 token) now) (accessRequests p)\<rparr>)) (\<lambda>_.
          andthen (record_audit (audit_row (if approving then ACCESS_APPROVED else ACCESS_REJECTED)
             (Some actorId) (Some (rq_id r)) (Some Target_Request) now)) (\<lambda>_.
          return (decided actorId approving (sha256 token) now r))))))) (\<lambda>r.
     andthen (if mailed then send_admin_mail
         (if approving then Approved_Mail (rq_email r) (admin_link admin_page ''setup_admin'' token)
          else Rejected_Mail (rq_email r))
       else return ()) (\<lambda>_.
     return (rq_status r, mailed)))"

definition awaiting_setup :: "oid \<Rightarrow> access_request \<Rightarrow> bool" where
  "awaiting_setup i r \<longleftrightarrow> rq_id r = i \<and> rq_status r = Approved"

definition with_setup_token :: "string \<Rightarrow> date \<Rightarrow> access_request \<Rightarrow> access_request" where
  "with_setup_token tokenHash now r = r\<lparr>rq_setupTokenHash := Some tokenHash,
     rq_setupExpiresAt := Some (now + LINK_LIFETIME_MS)\<rparr>"

definition resendSetup :: "(string \<Rightarrow> string) \<Rightarrow> string \<Rightarrow> string \<Rightarrow> bool \<Rightarrow> oid \<Rightarrow> date \<Rightarrow> bool admin_handler" where
  "resendSetup sha256 admin_page token mailed i now =
     andthen (gets (\<lambda>p. find (awaiting_setup i) (accessRequests p))) (\<lambda>found.
     case found of
       None \<Rightarrow> throw (http Conflict ''This request is not awaiting account setup.'')
     | Some r \<Rightarrow>
     andthen (modify (\<lambda>p. p\<lparr>accessRequests :=
        updateOne (awaiting_setup i) (with_setup_token (sha256 token) now) (accessRequests p)\<rparr>)) (\<lambda>_.
     if mailed
     then andthen (send_admin_mail (Setup_Mail (rq_email r) (admin_link admin_page ''setup_admin'' token))) (\<lambda>_.
       return True)
     else throw (http ServiceUnavailable ''Setup email could not be sent. Please try again.'')))"

definition resendRejection :: "bool \<Rightarrow> oid \<Rightarrow> bool admin_handler" where
  "resendRejection mailed i =
     andthen (gets (\<lambda>p. find (\<lambda>r. rq_id r = i \<and> rq_status r = Rejected) (accessRequests p))) (\<lambda>found.
     case found of
       None \<Rightarrow> throw (http Conflict ''This request has not been rejected.'')
     | Some r \<Rightarrow>
         if mailed then andthen (send_admin_mail (Rejected_Mail (rq_email r))) (\<lambda>_. return True)
         else throw (http ServiceUnavailable ''Decision email could not be sent. Please try again.''))"

section \<open>Accounts\<close>

definition new_admin :: "oid \<Rightarrow> js_string \<Rightarrow> js_string \<Rightarrow> string \<Rightarrow> date \<Rightarrow> platform_admin" where
  "new_admin i email fullName password now =
     \<lparr>pa_id = i, pa_email = email, pa_fullName = fullName, pa_password = password, pa_isActive = True,
      pa_authVersion = 0, pa_passwordResetTokenHash = None, pa_passwordResetExpiresAt = None,
      pa_passwordResetRequestedAt = None, pa_createdAt = now\<rparr>"

text \<open>Addresses of administrators are unique.\<close>

definition create_admin :: "platform_admin \<Rightarrow> unit admin_handler" where
  "create_admin a =
     andthen (gets admins) (\<lambda>stored.
     if list_ex (\<lambda>b. pa_email b = pa_email a) stored then throw (DuplicateKey ''email'')
     else modify (\<lambda>p. p\<lparr>admins := admins p @ [a]\<rparr>))"

definition settable :: "string \<Rightarrow> date \<Rightarrow> access_request \<Rightarrow> bool" where
  "settable tokenHash now r \<longleftrightarrow> rq_status r = Approved \<and> rq_setupTokenHash r = Some tokenHash
     \<and> (case rq_setupExpiresAt r of None \<Rightarrow> False | Some t \<Rightarrow> t > now)"

definition activated_request :: "date \<Rightarrow> access_request \<Rightarrow> access_request" where
  "activated_request now r = r\<lparr>rq_status := Activated, rq_activatedAt := Some now,
     rq_setupTokenHash := None, rq_setupExpiresAt := None\<rparr>"

definition setup_error :: "error \<Rightarrow> error" where
  "setup_error e =
     (if instanceof e BadRequest then e
      else if isDuplicateKeyError e then http BadRequest ''This setup link can no longer be used.''
      else http ServiceUnavailable ''Account setup temporarily unavailable'')"

definition setup_admin :: "(string \<Rightarrow> string) \<Rightarrow> (js_string \<Rightarrow> string) \<Rightarrow> oid \<Rightarrow> string \<Rightarrow> js_string \<Rightarrow> date
    \<Rightarrow> commit_outcome \<Rightarrow> bool admin_handler" where
  "setup_admin sha256 bcrypt newId token newPassword now outcome =
     (let q = settable (sha256 token) now in
      catching
        (committing outcome
          (andthen (gets (\<lambda>p. find q (accessRequests p))) (\<lambda>found.
           case found of
             None \<Rightarrow> throw (http BadRequest ''This setup link is invalid or expired.'')
           | Some r \<Rightarrow>
           andthen (modify (\<lambda>p. p\<lparr>accessRequests := updateOne q (activated_request now) (accessRequests p)\<rparr>)) (\<lambda>_.
           andthen (create_admin (new_admin newId (rq_email r) (rq_fullName r) (bcrypt newPassword) now)) (\<lambda>_.
           andthen (record_audit (audit_row ACCESS_ACTIVATED (Some newId) (Some (rq_id r)) (Some Target_Request) now)) (\<lambda>_.
           return True))))))
        (\<lambda>e. throw (setup_error e)))"

section \<open>Commands\<close>

text \<open>A command fails with a fixed category.\<close>

datatype cli_failure =
    INVALID_BOOTSTRAP_CONFIGURATION | INVALID_CLEANUP_ARGUMENTS | INVALID_SMOKE_CONFIGURATION
  | INVALID_ADMIN_PASSWORD_RESET_CONFIGURATION | PLATFORM_ADMIN_NOT_FOUND | PLATFORM_ADMIN_INACTIVE
  | PLATFORM_ADMIN_PASSWORD_HASH | MONGO_CONNECTION | MONGO_INDEX | MONGO_QUERY | MONGO_TRANSACTION
  | CLEANUP_REFUSED | CLEANUP_COUNTS | INVALID_STRIPE_RESET_ARGUMENTS | STRIPE_RESET_REFUSED
  | STRIPE_RESET_COUNT_MISMATCH | CLOSE_FAILED | OPERATOR_CANCELLED | SMOKE_HTTP | SMOKE_ASSERTION
  | SMOKE_RECOVERY | CLI_UNKNOWN

type_synonym 'a command = "(platform, cli_failure, 'a) action"

record bootstrap_config =
  bc_email :: "js_string option"
  bc_password :: "js_string option"
  bc_fullName :: "js_string option"

definition bootstrapCredentials :: "(js_string \<Rightarrow> js_string) \<Rightarrow> (js_string \<Rightarrow> bool) \<Rightarrow> bootstrap_config
    \<Rightarrow> cli_failure + (js_string \<times> js_string \<times> js_string)" where
  "bootstrapCredentials lower_case isEmail config =
     (case (map_option (\<lambda>e. lower_case (js_trim e)) (bc_email config), bc_password config,
            map_option js_trim (bc_fullName config)) of
        (Some email, Some password, Some fullName) \<Rightarrow>
          if email = [] \<or> length email > 254 \<or> \<not> isEmail email \<or> fullName = [] \<or> length fullName < 2
            \<or> length fullName > 100 \<or> \<not> validNewPassword (Some password)
          then Inl INVALID_BOOTSTRAP_CONFIGURATION else Inr (email, password, fullName)
      | _ \<Rightarrow> Inl INVALID_BOOTSTRAP_CONFIGURATION)"

text \<open>Which of the database's answers arrive: the indexes, the first query, the second one.\<close>

record command_env =
  ce_indexed :: bool
  ce_queried :: bool
  ce_requeried :: bool
  ce_hashed :: bool
  ce_commit :: commit_outcome
  ce_newId :: oid
  ce_now :: date

definition need :: "bool \<Rightarrow> 'e \<Rightarrow> ('s, 'e, unit) action" where
  "need b e = (if b then return () else throw e)"

definition create_bootstrap :: "(js_string \<Rightarrow> string) \<Rightarrow> command_env \<Rightarrow> js_string \<Rightarrow> js_string \<Rightarrow> js_string
    \<Rightarrow> unit admin_handler" where
  "create_bootstrap bcrypt env email password fullName =
     andthen (create_admin (new_admin (ce_newId env) email fullName (bcrypt password) (ce_now env))) (\<lambda>_.
     record_audit (audit_row BOOTSTRAP_CREATED (Some (ce_newId env)) (Some (ce_newId env)) (Some Target_Admin) (ce_now env)))"

definition bootstrap_run :: "(js_string \<Rightarrow> js_string) \<Rightarrow> (js_string \<Rightarrow> bool) \<Rightarrow> (js_string \<Rightarrow> string)
    \<Rightarrow> command_env \<Rightarrow> bootstrap_config \<Rightarrow> bool command" where
  "bootstrap_run lower_case isEmail bcrypt env config =
     andthen (lift_result (bootstrapCredentials lower_case isEmail config)) (\<lambda>(email, password, fullName).
     andthen (need (ce_indexed env) MONGO_INDEX) (\<lambda>_.
     andthen (need (ce_queried env) MONGO_QUERY) (\<lambda>_.
     andthen (gets (\<lambda>p. list_ex (\<lambda>a. pa_email a = email) (admins p))) (\<lambda>exists.
     if exists then return False
     else handling
       (andthen (committing (ce_commit env) (create_bootstrap bcrypt env email password fullName)) (\<lambda>_. return True))
       (\<lambda>e. if isDuplicateKeyError e
            then andthen (need (ce_requeried env) MONGO_QUERY) (\<lambda>_.
                 andthen (gets (\<lambda>p. list_ex (\<lambda>a. pa_email a = email) (admins p))) (\<lambda>now.
                 if now then return False else throw MONGO_TRANSACTION))
            else throw MONGO_TRANSACTION)))))"

definition passwordResetArguments :: "string list \<Rightarrow> cli_failure + unit" where
  "passwordResetArguments args =
     require (args = [''--confirm-platform-admin-password-reset'']) INVALID_ADMIN_PASSWORD_RESET_CONFIGURATION"

definition passwordResetInput :: "(js_string \<Rightarrow> js_string) \<Rightarrow> (js_string \<Rightarrow> bool)
    \<Rightarrow> js_string \<Rightarrow> js_string \<Rightarrow> js_string \<Rightarrow> js_string \<Rightarrow> cli_failure + (js_string \<times> js_string)" where
  "passwordResetInput lower_case isEmail emailValue password repeated confirmation =
     (let email = lower_case (js_trim emailValue) in
      if email = [] \<or> length email > 254 \<or> \<not> isEmail email \<or> email \<noteq> lower_case (js_trim confirmation)
        \<or> password \<noteq> repeated \<or> \<not> validNewPassword (Some password)
      then Inl INVALID_ADMIN_PASSWORD_RESET_CONFIGURATION else Inr (email, password))"

text \<open>The command's transaction, with the failures it names itself; any other is a failed transaction.\<close>

definition command_transaction :: "commit_outcome \<Rightarrow> 'a command \<Rightarrow> 'a command" where
  "command_transaction outcome body p =
     (case body p of
        (Inl e, _) \<Rightarrow> (Inl e, p)
      | (Inr x, t) \<Rightarrow>
          (case outcome of
             Committed \<Rightarrow> (Inr x, t)
           | Unknown_Applied \<Rightarrow> (Inl MONGO_TRANSACTION, t)
           | _ \<Rightarrow> (Inl MONGO_TRANSACTION, p)))"

definition admin_reset_run :: "(js_string \<Rightarrow> string) \<Rightarrow> command_env \<Rightarrow> js_string \<Rightarrow> js_string \<Rightarrow> bool command" where
  "admin_reset_run bcrypt env email password =
     (let lookup = gets (\<lambda>p. find (\<lambda>a. pa_email a = email) (admins p));
          usable = (\<lambda>found. case found of
             None \<Rightarrow> throw PLATFORM_ADMIN_NOT_FOUND
           | Some a \<Rightarrow> if pa_isActive a then return a else throw PLATFORM_ADMIN_INACTIVE) in
      andthen (need (ce_indexed env) MONGO_INDEX) (\<lambda>_.
      andthen (need (ce_queried env) MONGO_QUERY) (\<lambda>_.
      andthen lookup (\<lambda>existing.
      andthen (usable existing) (\<lambda>_.
      andthen (need (ce_hashed env) PLATFORM_ADMIN_PASSWORD_HASH) (\<lambda>_.
      command_transaction (ce_commit env)
        (andthen lookup (\<lambda>found.
         andthen (usable found) (\<lambda>a.
         andthen (modify (\<lambda>p. p\<lparr>admins := updateOne
            (\<lambda>b. pa_id b = pa_id a \<and> pa_email b = email \<and> pa_isActive b)
            (with_admin_password (bcrypt password)) (admins p)\<rparr>)) (\<lambda>_.
         andthen (modify (\<lambda>p. p\<lparr>audits := audits p @
            [audit_row PASSWORD_RESET (Some (pa_id a)) (Some (pa_id a)) (Some Target_Admin) (ce_now env)]\<rparr>)) (\<lambda>_.
         return True)))))))))))"

section \<open>The status of a company\<close>

definition status_audit :: "oid \<Rightarrow> oid \<Rightarrow> platform_status \<Rightarrow> platform_status \<Rightarrow> platform_reason \<Rightarrow> date \<Rightarrow> audit" where
  "status_audit actorId companyId previousStatus nextStatus reason now =
     \<lparr>at_action = (if nextStatus = PLATFORM_SUSPENDED then COMPANY_SUSPENDED else COMPANY_REACTIVATED),
      at_actorId = Some actorId, at_targetId = Some companyId, at_targetType = Some Target_Company,
      at_reason = Some (Platform_Reason reason), at_previousStatus = Some previousStatus,
      at_nextStatus = Some nextStatus, at_createdAt = now\<rparr>"

definition with_status :: "oid \<Rightarrow> platform_status \<Rightarrow> platform_reason \<Rightarrow> date \<Rightarrow> company \<Rightarrow> company" where
  "with_status actorId nextStatus reason now c = c\<lparr>c_platformStatus := nextStatus,
     c_platformStatusReason := Some reason, c_platformStatusChangedAt := Some now,
     c_platformStatusChangedBy := Some actorId\<rparr>"

definition changeCompanyStatus :: "oid \<Rightarrow> oid \<Rightarrow> platform_status \<Rightarrow> platform_reason \<Rightarrow> date \<Rightarrow> commit_outcome
    \<Rightarrow> (oid \<times> platform_status) admin_handler" where
  "changeCompanyStatus actorId companyId nextStatus reason now outcome =
     andthen (committing outcome
       (andthen (gets (\<lambda>p. find (\<lambda>c. c_id c = companyId) (companies (tenant_data p)))) (\<lambda>found.
        case found of
          None \<Rightarrow> throw (http NotFound ''Company not found'')
        | Some c \<Rightarrow>
        if c_platformStatus c = nextStatus
        then throw (http Conflict ''Company already has the requested platform status'')
        else
        let q = (\<lambda>d. c_id d = companyId \<and> c_platformStatus d \<noteq> nextStatus) in
        andthen (gets (\<lambda>p. find q (companies (tenant_data p)))) (\<lambda>changed.
        if changed = None then throw (http Conflict ''Company platform status changed concurrently'')
        else
        andthen (modify (\<lambda>p. p\<lparr>tenant_data := (tenant_data p)\<lparr>companies :=
           updateOne q (with_status actorId nextStatus reason now) (companies (tenant_data p))\<rparr>\<rparr>)) (\<lambda>_.
        record_audit (status_audit actorId companyId (c_platformStatus c) nextStatus reason now)))))) (\<lambda>_.
     return (companyId, nextStatus))"

text \<open>The routes: a suspension names one of three reasons, a reactivation is a completed review.\<close>

definition suspension_reason :: "platform_reason \<Rightarrow> bool" where
  "suspension_reason r \<longleftrightarrow> r \<in> {SECURITY_REVIEW, POLICY_REVIEW, OPERATIONAL_HOLD}"

definition suspend :: "oid \<Rightarrow> oid \<Rightarrow> platform_reason \<Rightarrow> date \<Rightarrow> commit_outcome \<Rightarrow> (oid \<times> platform_status) admin_handler" where
  "suspend actorId companyId = changeCompanyStatus actorId companyId PLATFORM_SUSPENDED"

definition reactivate :: "oid \<Rightarrow> oid \<Rightarrow> date \<Rightarrow> commit_outcome \<Rightarrow> (oid \<times> platform_status) admin_handler" where
  "reactivate actorId companyId = changeCompanyStatus actorId companyId PLATFORM_ACTIVE REVIEW_COMPLETED"

end
