(* ===== verification/AdminSafety.thy ===== *)
theory AdminSafety
  imports Administration AccountSafety "HOL-Library.Sublist"
begin

text \<open>
  What the administrators' part promises over any sequence of its operations: nobody becomes an
  administrator but by the bootstrap command or by a verified request another administrator
  approved; the links work once; the audit log only grows and tells the status of every company; a
  reset ends the sessions of an administrator; a suspension locks a company out.
\<close>

section \<open>Where accounts come from\<close>

definition audited :: "platform \<Rightarrow> audit_action \<Rightarrow> oid option \<Rightarrow> oid \<Rightarrow> bool" where
  "audited p action actorId targetId \<longleftrightarrow> (\<exists>t \<in> set (audits p).
     at_action t = action \<and> at_actorId t = actorId \<and> at_targetId t = Some targetId)"

definition granted :: "access_request \<Rightarrow> bool" where
  "granted r \<longleftrightarrow> rq_status r \<in> {Approved, Activated}"

text \<open>A reviewed request was verified; an approved one was approved by an administrator.\<close>

definition request_ok :: "platform \<Rightarrow> access_request \<Rightarrow> bool" where
  "request_ok p r \<longleftrightarrow>
     (reviewable r \<longrightarrow>
        rq_verifiedAt r \<noteq> None \<and> audited p ACCESS_VERIFIED None (rq_id r))
   \<and> (granted r \<longrightarrow>
        (\<exists>b \<in> pa_id ` set (admins p). rq_reviewedBy r = Some b \<and> audited p ACCESS_APPROVED (Some b) (rq_id r)))"

definition admin_ok :: "platform \<Rightarrow> platform_admin \<Rightarrow> bool" where
  "admin_ok p a \<longleftrightarrow> audited p BOOTSTRAP_CREATED (Some (pa_id a)) (pa_id a)
     \<or> (\<exists>r \<in> set (accessRequests p). rq_status r = Activated \<and> rq_email r = pa_email a
          \<and> rq_reviewedBy r \<noteq> Some (pa_id a) \<and> audited p ACCESS_ACTIVATED (Some (pa_id a)) (rq_id r))"

definition platform_ok :: "platform \<Rightarrow> bool" where
  "platform_ok p \<longleftrightarrow> distinct (map pa_id (admins p)) \<and> distinct (map pa_email (admins p))
     \<and> distinct (map rq_id (accessRequests p))
     \<and> (\<forall>r \<in> set (accessRequests p). request_ok p r) \<and> (\<forall>a \<in> set (admins p). admin_ok p a)"

definition account :: "platform_admin \<Rightarrow> oid \<times> js_string" where
  "account a = (pa_id a, pa_email a)"

lemma accounts_same:
  assumes "map account xs = map account ys @ map account zs"
  shows "map pa_id xs = map pa_id ys @ map pa_id zs" "map pa_email xs = map pa_email ys @ map pa_email zs"
  using arg_cong [OF assms, of "map fst"] arg_cong [OF assms, of "map snd"]
  by (simp_all add: account_def comp_def)

lemma audited_grow: "audits p' = audits p @ as \<Longrightarrow> audited p a b c \<Longrightarrow> audited p' a b c"
  by (auto simp: audited_def)

lemma request_ok_grow:
  assumes r: "request_ok p r" and log: "audits p' = audits p @ as"
    and ids: "pa_id ` set (admins p) \<subseteq> pa_id ` set (admins p')"
  shows "request_ok p' r"
proof -
  have "reviewable r \<longrightarrow> rq_verifiedAt r \<noteq> None \<and> audited p' ACCESS_VERIFIED None (rq_id r)"
    using r audited_grow [OF log] unfolding request_ok_def by blast
  moreover have "granted r \<longrightarrow> (\<exists>b \<in> pa_id ` set (admins p'). rq_reviewedBy r = Some b
      \<and> audited p' ACCESS_APPROVED (Some b) (rq_id r))"
    using r audited_grow [OF log] ids unfolding request_ok_def by blast
  ultimately show ?thesis unfolding request_ok_def by blast
qed

text \<open>What a step may do without harm.\<close>

lemma platform_ok_change:
  assumes ok: "platform_ok p"
    and log: "audits p' = audits p @ as"
    and acc: "map account (admins p') = map account (admins p) @ map account new"
    and new: "\<forall>a \<in> set new. admin_ok p' a" "distinct (map pa_id (admins p) @ map pa_id new)"
      "distinct (map pa_email (admins p) @ map pa_email new)"
    and req: "distinct (map rq_id (accessRequests p'))"
      "\<forall>r \<in> set (accessRequests p'). r \<in> set (accessRequests p) \<or> request_ok p' r"
      "\<forall>r \<in> set (accessRequests p). rq_status r = Activated \<longrightarrow> r \<in> set (accessRequests p')"
  shows "platform_ok p'"
proof -
  note maps = accounts_same [OF acc]
  have grow: "audited p a b c \<Longrightarrow> audited p' a b c" for a b c using log by (auto simp: audited_def)
  have ids: "pa_id ` set (admins p) \<subseteq> pa_id ` set (admins p')"
    using arg_cong [OF maps(1), of set] by (auto simp: image_iff)
  have "request_ok p' r" if "request_ok p r" for r using request_ok_grow [OF that log ids] .
  then have "request_ok p' r" if "r \<in> set (accessRequests p')" for r
    using req(2) that ok unfolding platform_ok_def by blast
  moreover have "admin_ok p' a" if a: "a \<in> set (admins p')" for a
  proof -
    have "account a \<in> set (map account (admins p) @ map account new)" using a acc by (metis image_eqI list.set_map)
    then obtain b where b: "account a = account b" "b \<in> set (admins p) \<or> b \<in> set new" by auto
    then have same: "pa_id a = pa_id b" "pa_email a = pa_email b" by (simp_all add: account_def)
    from b(2) have "admin_ok p' b"
    proof
      assume "b \<in> set (admins p)"
      then have "admin_ok p b" using ok by (simp add: platform_ok_def)
      then show ?thesis using grow req(3) by (auto simp: admin_ok_def)
    qed (use new(1) in simp)
    then show ?thesis using same by (simp add: admin_ok_def)
  qed
  ultimately show ?thesis using maps new(2,3) req(1) by (simp add: platform_ok_def)
qed

section \<open>The steps\<close>

text \<open>
  \<open>k\<close> is a token's hash no step issues (see \<open>one_time_token\<close>). Decisions and changes of a company's
  status are made by an administrator the guard has let through. The tenants' data may change
  between the steps, as long as the platform's status of the companies is kept.
\<close>

definition status_kept :: "platform \<Rightarrow> world \<Rightarrow> bool" where
  "status_kept p w \<longleftrightarrow> distinct (map c_id (companies w)) \<and> (\<forall>c \<in> set (companies w).
     (\<exists>d \<in> set (companies (tenant_data p)). c_id d = c_id c \<and> c_platformStatus d = c_platformStatus c)
   \<or> (c_platformStatus c = PLATFORM_ACTIVE \<and> (\<forall>t \<in> set (audits p). at_targetType t = Some Target_Company \<longrightarrow>
        at_targetId t \<noteq> Some (c_id c))))"

inductive admin_step :: "(string \<Rightarrow> string) \<Rightarrow> string \<Rightarrow> platform \<Rightarrow> platform \<Rightarrow> bool" for sha k where
  signed_in: "admin_login compare dummy sign recorded email password now p = (r1, p') \<Longrightarrow> admin_step sha k p p'"
| recovery: "admin_forgotPassword sha page token mailed cleaned email now p = (r2, p') \<Longrightarrow> sha token \<noteq> k \<Longrightarrow>
    admin_step sha k p p'"
| password_reset: "admin_resetPassword sha bcrypt token new now outcome p = (r3, p') \<Longrightarrow> admin_step sha k p p'"
| requested: "request_access sha page token mailed cleaned i email name reason now outcome p = (r4, p') \<Longrightarrow>
    sha token \<noteq> k \<Longrightarrow> i \<notin> rq_id ` set (accessRequests p) \<Longrightarrow> admin_step sha k p p'"
| verified: "verify_request sha page mails prepared token now outcome p = (r5, p') \<Longrightarrow> admin_step sha k p p'"
| reviewed: "decide sha page token mailed b i approving now outcome p = (r6, p') \<Longrightarrow>
    platform_canActivate verify_jwt h p = (Inr b, p) \<Longrightarrow> sha token \<noteq> k \<Longrightarrow> admin_step sha k p p'"
| setup_resent: "resendSetup sha page token mailed i now p = (r7, p') \<Longrightarrow> sha token \<noteq> k \<Longrightarrow> admin_step sha k p p'"
| rejection_resent: "resendRejection mailed i p = (r8, p') \<Longrightarrow> admin_step sha k p p'"
| set_up: "setup_admin sha bcrypt i token new now outcome p = (r9, p') \<Longrightarrow> i \<notin> pa_id ` set (admins p) \<Longrightarrow>
    admin_step sha k p p'"
| bootstrapped: "bootstrap_run lower_case isEmail bcrypt env config p = (r10, p') \<Longrightarrow> ce_newId env \<notin> pa_id ` set (admins p) \<Longrightarrow>
    admin_step sha k p p'"
| command_reset: "admin_reset_run bcrypt env email new p = (r11, p') \<Longrightarrow> admin_step sha k p p'"
| status_changed: "changeCompanyStatus b c next reason now outcome p = (r12, p') \<Longrightarrow>
    platform_canActivate verify_jwt h p = (Inr b, p) \<Longrightarrow> admin_step sha k p p'"
| tenants_step: "status_kept p w \<Longrightarrow> admin_step sha k p (p\<lparr>tenant_data := w\<rparr>)"

section \<open>What the steps do\<close>

lemma or_unavailable_state: "or_unavailable c msg m p = (r, p') \<Longrightarrow> \<exists>q. m p = (q, p')"
  by (auto simp: or_unavailable_def catching_def throw_def split: prod.splits sum.splits if_splits)

lemma catching_throw_state: "catching m (\<lambda>e. throw (f e)) p = (r, p') \<Longrightarrow> \<exists>q. m p = (q, p')"
  by (auto simp: catching_def throw_def split: prod.splits sum.splits)

lemma login_effect:
  assumes "admin_login compare dummy sign recorded email password now p = (r, p')"
  shows "\<exists>as. p' = p\<lparr>audits := audits p @ as\<rparr> \<and> (\<forall>t \<in> set as. at_targetType t \<noteq> Some Target_Company)"
proof -
  have "p' = p \<or> (\<exists>ok admin. p' = p\<lparr>audits := audits p @ [login_audit admin ok now]\<rparr>)"
    using assms
    by (cases recorded) (auto simp: admin_login_def Let_def andthen_def gets_def record_audit_def modify_def
        throw_def return_def split: option.splits if_splits)
  then show ?thesis
  proof (elim disjE exE)
    assume "p' = p"
    then show ?thesis by (intro exI [of _ "[]"]) simp
  next
    fix ok admin assume "p' = p\<lparr>audits := audits p @ [login_audit admin ok now]\<rparr>"
    then show ?thesis by (intro exI [of _ "[login_audit admin ok now]"]) (simp add: login_audit_def)
  qed
qed

text \<open>A step of recovery or reset changes accounts, but not whose they are.\<close>

definition same_but_accounts :: "platform \<Rightarrow> platform \<Rightarrow> bool" where
  "same_but_accounts p p' \<longleftrightarrow> tenant_data p' = tenant_data p \<and> accessRequests p' = accessRequests p
     \<and> map account (admins p') = map account (admins p)"

lemma account_same:
  "account (with_reset_token h now a) = account a" "account (without_reset_token a) = account a"
  "account (with_admin_password h a) = account a"
  "pa_authVersion (with_reset_token h now a) = pa_authVersion a"
  "pa_authVersion (without_reset_token a) = pa_authVersion a"
  by (simp_all add: account_def with_reset_token_def without_reset_token_def with_admin_password_def)

lemma token_fields:
  "pa_passwordResetTokenHash (with_reset_token h now a) = Some h"
  "pa_passwordResetTokenHash (without_reset_token a) = None"
  "pa_passwordResetTokenHash (with_admin_password h a) = None"
  by (simp_all add: with_reset_token_def without_reset_token_def with_admin_password_def)

lemma forgot_effect:
  assumes "admin_forgotPassword sha page token mailed cleaned email now p = (r, p')"
  shows "same_but_accounts p p' \<and> audits p' = audits p
    \<and> map pa_authVersion (admins p') = map pa_authVersion (admins p)
    \<and> (\<forall>a \<in> set (admins p'). pa_passwordResetTokenHash a \<in> {None, Some (sha token)} \<or> a \<in> set (admins p))"
proof -
  let ?as = "updateOne (reset_requestable email now) (with_reset_token (sha token) now) (admins p)"
  have "tenant_data p' = tenant_data p \<and> accessRequests p' = accessRequests p \<and> audits p' = audits p
    \<and> (admins p' = admins p \<or> admins p' = ?as \<or> (\<exists>u. admins p' = updateOne u without_reset_token ?as))"
    using assms unfolding admin_forgotPassword_def Let_def
    by (cases r; cases mailed; cases cleaned)
      (auto simp: action_simps send_admin_mail_def split: option.splits if_splits)
  then show ?thesis
    by (auto simp: same_but_accounts_def map_updateOne_same account_same token_fields dest!: set_updateOneD)
qed

text \<open>The log grows, by entries that are not about companies.\<close>

definition logs :: "platform \<Rightarrow> platform \<Rightarrow> bool" where
  "logs p p' \<longleftrightarrow> (\<exists>as. audits p' = audits p @ as \<and> (\<forall>t \<in> set as. at_targetType t \<noteq> Some Target_Company))"

lemma logs_refl: "audits p' = audits p \<Longrightarrow> logs p p'"
  by (simp add: logs_def)

lemma logs_row: "audits p' = audits p @ [audit_row action a b c now] \<Longrightarrow> c \<noteq> Some Target_Company \<Longrightarrow> logs p p'"
  by (simp add: logs_def audit_row_def)

lemma reset_effect:
  assumes "admin_resetPassword sha bcrypt token new now outcome p = (r, p')"
  shows "(\<exists>e. r = Inl e) \<and> p' = p
    \<or> (\<exists>a. find (admin_resettable (sha token) now) (admins p) = Some a
        \<and> tenant_data p' = tenant_data p \<and> accessRequests p' = accessRequests p
        \<and> admins p' = updateOne (admin_resettable (sha token) now) (with_admin_password (bcrypt new)) (admins p)
        \<and> audits p' = audits p @ [audit_row PASSWORD_RESET (Some (pa_id a)) (Some (pa_id a)) (Some Target_Admin) now])"
proof -
  obtain q where "committing outcome
      (andthen (gets (\<lambda>p. find (admin_resettable (sha token) now) (admins p))) (\<lambda>found.
       case found of
         None \<Rightarrow> throw (http Unauthorized ''Invalid or expired reset link'')
       | Some a \<Rightarrow>
       andthen (modify (\<lambda>p. p\<lparr>admins := updateOne (admin_resettable (sha token) now)
         (with_admin_password (bcrypt new)) (admins p)\<rparr>)) (\<lambda>_.
       andthen (record_audit (audit_row PASSWORD_RESET (Some (pa_id a)) (Some (pa_id a)) (Some Target_Admin) now)) (\<lambda>_.
       return True)))) p = (q, p')" (is "committing _ ?body p = _")
    and err: "isl q \<longrightarrow> (\<exists>e. r = Inl e)"
    using assms by (auto simp: admin_resetPassword_def Let_def or_unavailable_def catching_def throw_def
        split: prod.splits sum.splits if_splits)
  note c = this(1)
  from committing_effect [OF c] show ?thesis
  proof (elim disjE exE)
    fix x assume "?body p = (Inr x, p')"
    then show ?thesis by (auto simp: action_simps record_audit_def split: option.splits)
  next
    assume "p' = p"
    moreover have "\<not> isl q \<longrightarrow> ?body p = (q, p')"
      using c by (cases q) (auto simp: action_simps)
    moreover have "?body p \<noteq> (Inr x, p)" for x
      by (auto simp: action_simps record_audit_def split: option.splits dest: arg_cong [of _ _ audits])
    ultimately show ?thesis using err by (cases q) auto
  qed
qed

lemma create_request_Inr:
  "create_request r p = (Inr x, p') \<longleftrightarrow>
     p' = p\<lparr>accessRequests := accessRequests p @ [r]\<rparr> \<and> \<not> list_ex (open_request (rq_email r)) (accessRequests p)"
  by (auto simp: create_request_def action_simps split: if_splits)

lemma create_admin_Inr:
  "create_admin a p = (Inr x, p') \<longleftrightarrow>
     p' = p\<lparr>admins := admins p @ [a]\<rparr> \<and> pa_email a \<notin> pa_email ` set (admins p)"
proof -
  have "list_ex (\<lambda>b. pa_email b = pa_email a) (admins p) \<longleftrightarrow> pa_email a \<in> pa_email ` set (admins p)"
    by (auto simp: list_ex_iff) (metis imageI)
  then show ?thesis by (auto simp: create_admin_def action_simps split: if_splits)
qed

text \<open>A request for access: stale requests expire; then a new one may be stored, and may expire.\<close>

definition requested_into :: "oid \<Rightarrow> access_request \<Rightarrow> access_request list \<Rightarrow> access_request list \<Rightarrow> bool" where
  "requested_into i new rs rs' \<longleftrightarrow> rs' = rs @ [new]
     \<or> rs' = updateOne (\<lambda>r. rq_id r = i \<and> rq_status r = Awaiting_Verification) expire_request (rs @ [new])"

lemma request_effect:
  assumes "request_access sha page token mailed cleaned i email name reason now outcome p = (r, p')"
  shows "tenant_data p' = tenant_data p \<and> admins p' = admins p
    \<and> (let rs = updateMany (stale_request email now) expire_request (accessRequests p) in
       audits p' = audits p \<and> accessRequests p' = rs
       \<or> audits p' = audits p @ [audit_row ACCESS_REQUESTED None (Some i) (Some Target_Request) now]
         \<and> requested_into i (new_request i email name reason (sha token) now) rs (accessRequests p'))"
proof -
  let ?rs = "updateMany (stale_request email now) expire_request (accessRequests p)"
  let ?p1 = "p\<lparr>accessRequests := ?rs\<rparr>"
  let ?body = "andthen (create_request (new_request i email name reason (sha token) now)) (\<lambda>_.
            record_audit (audit_row ACCESS_REQUESTED None (Some i) (Some Target_Request) now))"
  let ?stored = "tenant_data p' = tenant_data p \<and> admins p' = admins p
      \<and> audits p' = audits p @ [audit_row ACCESS_REQUESTED None (Some i) (Some Target_Request) now]
      \<and> requested_into i (new_request i email name reason (sha token) now) ?rs (accessRequests p')"
  obtain q p2 where c: "committing outcome ?body ?p1 = (q, p2)" by (rule prod.exhaust)
  have body: "p2 = ?p1 \<or> p2 = ?p1\<lparr>accessRequests := ?rs @ [new_request i email name reason (sha token) now],
      audits := audits p @ [audit_row ACCESS_REQUESTED None (Some i) (Some Target_Request) now]\<rparr>"
    using committing_effect [OF c] by (auto simp: action_simps create_request_Inr record_audit_def)
  have new: "p2 \<noteq> ?p1" if "q = Inr u" for u
    using c that by (auto simp: action_simps create_request_Inr record_audit_def dest: arg_cong [of _ _ audits])
  show ?thesis
  proof (cases "list_ex (\<lambda>a. pa_email a = email) (admins p) \<or> list_ex (open_request email) ?rs")
    case True
    then show ?thesis using assms
      by (auto simp: request_access_def andthen_def modify_def gets_def return_def Let_def split: if_splits)
  next
    case False
    have run: "andthen (catching (andthen (committing outcome ?body) (\<lambda>_. return True))
        (\<lambda>e. if isDuplicateKeyError e then return False
             else throw (http ServiceUnavailable ''Access request temporarily unavailable'')))
        (\<lambda>created. if \<not> created then return REQUEST_MESSAGE else
          andthen (if mailed then send_admin_mail (Verify_Request_Mail email (admin_link page ''verify_admin_request'' token))
            else if cleaned then modify (\<lambda>p. p\<lparr>accessRequests := updateOne
               (\<lambda>r. rq_id r = i \<and> rq_status r = Awaiting_Verification) expire_request (accessRequests p)\<rparr>)
            else return ()) (\<lambda>_. return REQUEST_MESSAGE)) ?p1 = (r, p')"
      using assms False by (simp add: request_access_def andthen_def modify_def gets_def)
    have "p' = p2 \<or> (\<exists>u. q = Inr u) \<and> tenant_data p' = tenant_data p2 \<and> admins p' = admins p2 \<and> audits p' = audits p2
        \<and> (accessRequests p' = accessRequests p2 \<or> accessRequests p' = updateOne
               (\<lambda>r. rq_id r = i \<and> rq_status r = Awaiting_Verification) expire_request (accessRequests p2))"
      using run c by (cases q) (auto simp: andthen_def catching_def return_def throw_def send_admin_mail_def modify_def
        split: if_splits)
    then show ?thesis using body new by (auto simp: requested_into_def Let_def)
  qed
qed

lemma verify_effect:
  assumes "verify_request sha page mails prepared token now outcome p = (r, p')"
  shows "tenant_data p' = tenant_data p \<and> admins p' = admins p
    \<and> (accessRequests p' = accessRequests p \<and> audits p' = audits p
       \<or> (\<exists>r. find (verifiable (sha token) now) (accessRequests p) = Some r
            \<and> accessRequests p' = updateOne (verifiable (sha token) now) (verified_request now) (accessRequests p)
            \<and> audits p' = audits p @ [audit_row ACCESS_VERIFIED None (Some (rq_id r)) (Some Target_Request) now]))"
proof -
  let ?q = "verifiable (sha token) now"
  let ?body = "andthen (gets (\<lambda>p. find ?q (accessRequests p))) (\<lambda>found.
           case found of
             None \<Rightarrow> throw (http BadRequest ''This verification link is invalid or expired.'')
           | Some r \<Rightarrow>
           andthen (modify (\<lambda>p. p\<lparr>accessRequests := updateOne ?q (verified_request now) (accessRequests p)\<rparr>)) (\<lambda>_.
           record_audit (audit_row ACCESS_VERIFIED None (Some (rq_id r)) (Some Target_Request) now)))"
  obtain q p1 where c: "or_unavailable BadRequest ''Verification temporarily unavailable'' (committing outcome ?body) p = (q, p1)"
    by (rule prod.exhaust)
  have rest: "tenant_data p' = tenant_data p1 \<and> admins p' = admins p1 \<and> accessRequests p' = accessRequests p1 \<and> audits p' = audits p1"
    using assms c by (cases q) (auto simp: verify_request_def Let_def andthen_def modify_def return_def split: if_splits)
  obtain q' where "committing outcome ?body p = (q', p1)" using or_unavailable_state [OF c] by blast
  from committing_effect [OF this] rest show ?thesis
    by (auto simp: action_simps record_audit_def split: option.splits)
qed

lemma decide_effect:
  assumes "decide sha page token mailed b i approving now outcome p = (r, p')"
  shows "tenant_data p' = tenant_data p \<and> admins p' = admins p
    \<and> (accessRequests p' = accessRequests p \<and> audits p' = audits p
       \<or> (\<exists>r. find (pending i) (accessRequests p) = Some r
            \<and> accessRequests p' = updateOne (pending i) (decided b approving (sha token) now) (accessRequests p)
            \<and> audits p' = audits p @ [audit_row (if approving then ACCESS_APPROVED else ACCESS_REJECTED) (Some b)
                (Some (rq_id r)) (Some Target_Request) now]))"
proof -
  let ?g = "decided b approving (sha token) now"
  let ?body = "andthen (gets (\<lambda>p. find (pending i) (accessRequests p))) (\<lambda>found.
          case found of
            None \<Rightarrow> throw (http Conflict ''This request has already been reviewed.'')
          | Some r \<Rightarrow>
          andthen (modify (\<lambda>p. p\<lparr>accessRequests := updateOne (pending i) ?g (accessRequests p)\<rparr>)) (\<lambda>_.
          andthen (record_audit (audit_row (if approving then ACCESS_APPROVED else ACCESS_REJECTED)
             (Some b) (Some (rq_id r)) (Some Target_Request) now)) (\<lambda>_. return (?g r))))"
  obtain q p1 where c: "or_unavailable Conflict ''Decision temporarily unavailable'' (committing outcome ?body) p = (q, p1)"
    by (rule prod.exhaust)
  have rest: "tenant_data p' = tenant_data p1 \<and> admins p' = admins p1 \<and> accessRequests p' = accessRequests p1 \<and> audits p' = audits p1"
    using assms c by (cases q) (auto simp: decide_def andthen_def modify_def send_admin_mail_def return_def split: if_splits)
  obtain q' where "committing outcome ?body p = (q', p1)" using or_unavailable_state [OF c] by blast
  from committing_effect [OF this] rest show ?thesis
    by (auto simp: action_simps record_audit_def split: option.splits)
qed

lemma resend_effect:
  "resendSetup sha page token mailed i now p = (r, p') \<Longrightarrow>
     tenant_data p' = tenant_data p \<and> admins p' = admins p \<and> audits p' = audits p
     \<and> (accessRequests p' = accessRequests p
        \<or> accessRequests p' = updateOne (awaiting_setup i) (with_setup_token (sha token) now) (accessRequests p))"
  by (cases r) (auto simp: resendSetup_def action_simps send_admin_mail_def split: option.splits if_splits)

lemma resendRejection_effect:
  "resendRejection mailed i p = (r, p') \<Longrightarrow>
     tenant_data p' = tenant_data p \<and> admins p' = admins p \<and> audits p' = audits p \<and> accessRequests p' = accessRequests p"
  by (cases r) (auto simp: resendRejection_def action_simps send_admin_mail_def split: option.splits if_splits)

lemma setup_effect:
  assumes "setup_admin sha bcrypt i token new now outcome p = (r, p')"
  shows "(\<exists>e. r = Inl e) \<and> p' = p
    \<or> (\<exists>rq. find (settable (sha token) now) (accessRequests p) = Some rq
        \<and> tenant_data p' = tenant_data p \<and> rq_email rq \<notin> pa_email ` set (admins p)
        \<and> accessRequests p' = updateOne (settable (sha token) now) (activated_request now) (accessRequests p)
        \<and> admins p' = admins p @ [new_admin i (rq_email rq) (rq_fullName rq) (bcrypt new) now]
        \<and> audits p' = audits p @ [audit_row ACCESS_ACTIVATED (Some i) (Some (rq_id rq)) (Some Target_Request) now])"
proof -
  let ?q = "settable (sha token) now"
  let ?body = "andthen (gets (\<lambda>p. find ?q (accessRequests p))) (\<lambda>found.
           case found of
             None \<Rightarrow> throw (http BadRequest ''This setup link is invalid or expired.'')
           | Some r \<Rightarrow>
           andthen (modify (\<lambda>p. p\<lparr>accessRequests := updateOne ?q (activated_request now) (accessRequests p)\<rparr>)) (\<lambda>_.
           andthen (create_admin (new_admin i (rq_email r) (rq_fullName r) (bcrypt new) now)) (\<lambda>_.
           andthen (record_audit (audit_row ACCESS_ACTIVATED (Some i) (Some (rq_id r)) (Some Target_Request) now)) (\<lambda>_.
           return True))))"
  obtain q where c: "committing outcome ?body p = (q, p')" and err: "isl q \<longrightarrow> (\<exists>e. r = Inl e)"
    using assms by (auto simp: setup_admin_def Let_def catching_def throw_def split: prod.splits sum.splits)
  from committing_effect [OF c] show ?thesis
  proof (elim disjE exE)
    fix x assume "?body p = (Inr x, p')"
    then show ?thesis
      by (auto simp: action_simps create_admin_Inr record_audit_def new_admin_def split: option.splits)
  next
    assume "p' = p"
    moreover have "?body p \<noteq> (Inr x, p)" for x
      by (auto simp: action_simps create_admin_Inr record_audit_def split: option.splits dest: arg_cong [of _ _ audits])
    moreover have "\<not> isl q \<longrightarrow> ?body p = (q, p')" using c by (cases q) (auto simp: action_simps)
    ultimately show ?thesis using err by (cases q) auto
  qed
qed

lemma bootstrap_effect:
  assumes "bootstrap_run lower_case isEmail bcrypt env config p = (r, p')"
  shows "p' = p \<or> (\<exists>a. pa_id a = ce_newId env \<and> pa_email a \<notin> pa_email ` set (admins p)
    \<and> tenant_data p' = tenant_data p \<and> accessRequests p' = accessRequests p \<and> admins p' = admins p @ [a]
    \<and> audits p' = audits p @ [audit_row BOOTSTRAP_CREATED (Some (pa_id a)) (Some (pa_id a)) (Some Target_Admin) (ce_now env)])"
proof -
  let ?made = "\<lambda>p'. \<exists>a. pa_id a = ce_newId env \<and> pa_email a \<notin> pa_email ` set (admins p)
    \<and> tenant_data p' = tenant_data p \<and> accessRequests p' = accessRequests p \<and> admins p' = admins p @ [a]
    \<and> audits p' = audits p @ [audit_row BOOTSTRAP_CREATED (Some (pa_id a)) (Some (pa_id a)) (Some Target_Admin) (ce_now env)]"
  have created: "p1 = p \<or> ?made p1"
    if "committing (ce_commit env) (create_bootstrap bcrypt env email password fullName) p = (q, p1)" for q p1 email password fullName
    using committing_effect [OF that]
    by (auto simp: create_bootstrap_def action_simps create_admin_Inr record_audit_def new_admin_def)
  show ?thesis
  proof (cases "bootstrapCredentials lower_case isEmail config")
    case (Inl e)
    then show ?thesis using assms by (simp add: bootstrap_run_def andthen_def lift_result_def)
  next
    case (Inr c)
    obtain email password fullName where c: "c = (email, password, fullName)" by (cases c)
    obtain q p1 where com: "committing (ce_commit env) (create_bootstrap bcrypt env email password fullName) p = (q, p1)"
      by (rule prod.exhaust)
    have "p' = p \<or> p' = p1" using assms Inr c com
      by (cases q) (auto simp: bootstrap_run_def andthen_def lift_result_def need_def gets_def return_def throw_def
          handling_def split: if_splits)
    then show ?thesis using created [OF com] by blast
  qed
qed

lemma command_transaction_effect: "command_transaction outcome m p = (r, p') \<Longrightarrow> p' = p \<or> (\<exists>x. m p = (Inr x, p'))"
  by (auto simp: command_transaction_def split: prod.splits sum.splits commit_outcome.splits)

lemma command_reset_effect:
  assumes "admin_reset_run bcrypt env email new p = (r, p')"
  shows "p' = p \<or> (\<exists>a. find (\<lambda>a. pa_email a = email) (admins p) = Some a
    \<and> tenant_data p' = tenant_data p \<and> accessRequests p' = accessRequests p
    \<and> admins p' = updateOne (\<lambda>b. pa_id b = pa_id a \<and> pa_email b = email \<and> pa_isActive b)
        (with_admin_password (bcrypt new)) (admins p)
    \<and> audits p' = audits p @ [audit_row PASSWORD_RESET (Some (pa_id a)) (Some (pa_id a)) (Some Target_Admin) (ce_now env)])"
proof -
  let ?usable = "\<lambda>found. case found of
             None \<Rightarrow> throw PLATFORM_ADMIN_NOT_FOUND
           | Some a \<Rightarrow> if pa_isActive a then return a else throw PLATFORM_ADMIN_INACTIVE"
  let ?body = "andthen (gets (\<lambda>p. find (\<lambda>a. pa_email a = email) (admins p))) (\<lambda>found.
         andthen (?usable found) (\<lambda>a.
         andthen (modify (\<lambda>p. p\<lparr>admins := updateOne
            (\<lambda>b. pa_id b = pa_id a \<and> pa_email b = email \<and> pa_isActive b)
            (with_admin_password (bcrypt new)) (admins p)\<rparr>)) (\<lambda>_.
         andthen (modify (\<lambda>p. p\<lparr>audits := audits p @
            [audit_row PASSWORD_RESET (Some (pa_id a)) (Some (pa_id a)) (Some Target_Admin) (ce_now env)]\<rparr>)) (\<lambda>_.
         return True))))"
  obtain q p1 where c: "command_transaction (ce_commit env) ?body p = (q, p1)" by (rule prod.exhaust)
  have "p' = p \<or> p' = p1" using assms c
    by (auto simp: admin_reset_run_def Let_def andthen_def need_def gets_def return_def throw_def
        split: if_splits option.splits)
  then show ?thesis using command_transaction_effect [OF c]
    by (auto simp: action_simps split: option.splits if_splits)
qed

lemma andthen_eval: "m s = (q, t) \<Longrightarrow> andthen m f s = (case q of Inl e \<Rightarrow> (Inl e, t) | Inr x \<Rightarrow> f x t)"
  by (simp add: andthen_def)

lemma status_effect:
  assumes "changeCompanyStatus b i next reason now outcome p = (r, p')"
  shows "(\<exists>e. r = Inl e) \<and> p' = p
    \<or> (\<exists>c. find (\<lambda>c. c_id c = i) (companies (tenant_data p)) = Some c \<and> c_platformStatus c \<noteq> next
        \<and> (\<exists>q. find q (companies (tenant_data p)) \<noteq> None \<and> q = (\<lambda>d. c_id d = i \<and> c_platformStatus d \<noteq> next)
            \<and> p' = p\<lparr>tenant_data := (tenant_data p)\<lparr>companies := updateOne q (with_status b next reason now)
                 (companies (tenant_data p))\<rparr>, audits := audits p @ [status_audit b i (c_platformStatus c) next reason now]\<rparr>))"
proof -
  let ?q = "\<lambda>d. c_id d = i \<and> c_platformStatus d \<noteq> next"
  let ?body = "andthen (gets (\<lambda>p. find (\<lambda>c. c_id c = i) (companies (tenant_data p)))) (\<lambda>found.
        case found of
          None \<Rightarrow> throw (http NotFound ''Company not found'')
        | Some c \<Rightarrow>
        if c_platformStatus c = next
        then throw (http Conflict ''Company already has the requested platform status'')
        else
        andthen (gets (\<lambda>p. find ?q (companies (tenant_data p)))) (\<lambda>changed.
        if changed = None then throw (http Conflict ''Company platform status changed concurrently'')
        else
        andthen (modify (\<lambda>p. p\<lparr>tenant_data := (tenant_data p)\<lparr>companies :=
           updateOne ?q (with_status b next reason now) (companies (tenant_data p))\<rparr>\<rparr>)) (\<lambda>_.
        record_audit (status_audit b i (c_platformStatus c) next reason now))))"
  obtain q p1 where c: "committing outcome ?body p = (q, p1)" by (rule prod.exhaust)
  have "andthen (committing outcome ?body) (\<lambda>_. return (i, next)) p = (r, p')"
    using assms unfolding changeCompanyStatus_def Let_def .
  then have r: "p' = p1 \<and> (isl q \<longrightarrow> (\<exists>e. r = Inl e))" unfolding andthen_eval [where m = "committing outcome ?body" and s = p, OF c]
    by (cases q) (auto simp: return_def)
  from committing_effect [OF c] show ?thesis
  proof (elim disjE exE)
    fix x assume "?body p = (Inr x, p1)"
    then show ?thesis using r by (auto simp: action_simps record_audit_def split: option.splits if_splits)
  next
    assume "p1 = p"
    moreover have "?body p \<noteq> (Inr x, p)" for x
      by (auto simp: action_simps record_audit_def split: option.splits if_splits dest: arg_cong [of _ _ audits])
    moreover have "\<not> isl q \<longrightarrow> ?body p = (q, p1)" using c by (cases q) (auto simp: action_simps)
    ultimately show ?thesis using r by (cases q) auto
  qed
qed

section \<open>The steps keep the accounts accountable\<close>

text \<open>An update of one request that was not set up yet.\<close>

lemma request_updated:
  assumes "distinct (map rq_id rs)" "\<And>r. rq_id (g r) = rq_id r" "\<And>r. q r \<Longrightarrow> rq_status r \<noteq> Activated"
    "\<And>r. find q rs = Some r \<Longrightarrow> r \<in> set rs \<Longrightarrow> q r \<Longrightarrow> ok (g r)"
  shows "distinct (map rq_id (updateOne q g rs))" "\<forall>r \<in> set (updateOne q g rs). r \<in> set rs \<or> ok r"
    "\<forall>r \<in> set rs. rq_status r = Activated \<longrightarrow> r \<in> set (updateOne q g rs)"
proof -
  show "distinct (map rq_id (updateOne q g rs))" using assms(1,2) by (rule distinct_updateOne)
  show "\<forall>r \<in> set (updateOne q g rs). r \<in> set rs \<or> ok r"
  proof (cases "find q rs")
    case None
    then show ?thesis by (simp add: updateOne_no_match)
  next
    case (Some d)
    then have "ok (g d)" using assms(4) find_SomeD by metis
    then show ?thesis using set_updateOne [OF Some, of g] by auto
  qed
  have "x \<in> set (updateOne q g rs)" if "x \<in> set rs" "\<not> q x" for x
    using that by (induction rs) auto
  then show "\<forall>r \<in> set rs. rq_status r = Activated \<longrightarrow> r \<in> set (updateOne q g rs)" using assms(3) by blast
qed

lemma no_review_ok: "rq_status r \<in> {Awaiting_Verification, Expired} \<Longrightarrow> request_ok p r"
  by (auto simp: request_ok_def reviewable_def granted_def)

lemma request_kept_ok:
  "request_ok p r \<Longrightarrow> rq_status r' = rq_status r \<Longrightarrow> rq_verifiedAt r' = rq_verifiedAt r \<Longrightarrow> rq_id r' = rq_id r \<Longrightarrow>
     rq_reviewedBy r' = rq_reviewedBy r \<Longrightarrow> request_ok p r'"
  unfolding request_ok_def reviewable_def granted_def by presburger

text \<open>A step that leaves the requests, and whose accounts they are, alone.\<close>

lemma accounts_step:
  assumes "platform_ok p" "audits p' = audits p @ as" "map account (admins p') = map account (admins p)"
    "accessRequests p' = accessRequests p"
  shows "platform_ok p'"
  by (rule platform_ok_change [OF assms(1,2), of "[]"]) (use assms in \<open>simp_all add: platform_ok_def\<close>)

text \<open>A step that updates one request.\<close>

lemma requests_step:
  assumes ok: "platform_ok p" and log: "audits p' = audits p @ as" and acc: "admins p' = admins p"
    and req: "accessRequests p' = updateOne q g (accessRequests p)"
    and g: "\<And>r. rq_id (g r) = rq_id r" "\<And>r. q r \<Longrightarrow> rq_status r \<noteq> Activated"
      "\<And>r. find q (accessRequests p) = Some r \<Longrightarrow> r \<in> set (accessRequests p) \<Longrightarrow> q r \<Longrightarrow> request_ok p' r \<Longrightarrow> request_ok p' (g r)"
  shows "platform_ok p'"
proof -
  have ids: "distinct (map rq_id (accessRequests p))" using ok by (simp add: platform_ok_def)
  have "request_ok p' (g r)" if "find q (accessRequests p) = Some r" "r \<in> set (accessRequests p)" "q r" for r
  proof -
    have "request_ok p r" using ok that(2) by (simp add: platform_ok_def)
    then show ?thesis using g(3) [OF that] request_ok_grow [OF _ log] acc by simp
  qed
  note upd = request_updated [where rs = "accessRequests p" and q = q and g = g and ok = "request_ok p'",
    OF ids g(1,2) this]
  show ?thesis
    by (rule platform_ok_change [OF ok log, of "[]"])
      (use ok acc upd in \<open>simp_all add: req platform_ok_def\<close>)
qed

lemma requested_ok:
  assumes ok: "platform_ok p" and new: "i \<notin> rq_id ` set (accessRequests p)"
    and run: "request_access sha page token mailed cleaned i email name reason now outcome p = (r, p')"
  shows "platform_ok p'"
proof -
  let ?rs = "updateMany (stale_request email now) expire_request (accessRequests p)"
  let ?new = "new_request i email name reason (sha token) now"
  let ?u = "\<lambda>r. rq_id r = i \<and> rq_status r = Awaiting_Verification"
  note eff = request_effect [OF run, unfolded Let_def]
  have id_same: "rq_id (expire_request r) = rq_id r" "rq_status (expire_request r) = Expired" for r
    by (simp_all add: expire_request_def)
  have ids: "map rq_id ?rs = map rq_id (accessRequests p)" by (simp add: updateMany_def id_same comp_def if_distrib)
  have d: "distinct (map rq_id (?rs @ [?new]))"
  proof -
    have "set (map rq_id ?rs) = rq_id ` set (accessRequests p)" unfolding ids by simp
    then show ?thesis using ok new ids by (simp add: platform_ok_def new_request_def)
  qed
  have stale: "\<forall>r \<in> set ?rs. r \<in> set (accessRequests p) \<or> request_ok p' r"
    by (auto simp: set_updateMany id_same intro!: no_review_ok)
  have keep: "\<forall>r \<in> set (accessRequests p). rq_status r = Activated \<longrightarrow> r \<in> set ?rs"
    by (auto simp: set_updateMany stale_request_def image_iff intro!: bexI)
  have newok: "request_ok p' ?new" by (intro no_review_ok) (simp add: new_request_def)
  obtain as where log: "audits p' = audits p @ as" using eff by auto
  have cases: "accessRequests p' = ?rs \<or> accessRequests p' = ?rs @ [?new] \<or>
      accessRequests p' = updateOne ?u expire_request (?rs @ [?new])"
    using eff by (auto simp: requested_into_def)
  have "request_ok p' (expire_request r)" for r by (intro no_review_ok) (simp add: id_same)
  then have upd: "distinct (map rq_id (updateOne ?u expire_request (?rs @ [?new])))"
    "\<forall>r \<in> set (updateOne ?u expire_request (?rs @ [?new])). r \<in> set (?rs @ [?new]) \<or> request_ok p' r"
    "\<forall>r \<in> set (?rs @ [?new]). rq_status r = Activated \<longrightarrow> r \<in> set (updateOne ?u expire_request (?rs @ [?new]))"
    using request_updated [where rs = "?rs @ [?new]" and g = expire_request and q = ?u and ok = "request_ok p'",
      OF d id_same(1)] by (simp_all del: updateOne.simps)
  have "distinct (map rq_id (accessRequests p')) \<and> (\<forall>r \<in> set (accessRequests p'). r \<in> set (accessRequests p) \<or> request_ok p' r)
      \<and> (\<forall>r \<in> set (accessRequests p). rq_status r = Activated \<longrightarrow> r \<in> set (accessRequests p'))"
    using cases
  proof (elim disjE)
    assume "accessRequests p' = ?rs"
    then show ?thesis using ids stale keep ok by (simp add: platform_ok_def)
  next
    assume "accessRequests p' = ?rs @ [?new]"
    then show ?thesis using d stale keep newok by simp
  next
    assume "accessRequests p' = updateOne ?u expire_request (?rs @ [?new])"
    then show ?thesis using upd stale keep newok by (metis (no_types, lifting) Un_iff set_append set_ConsD empty_iff empty_set)
  qed
  then show ?thesis using eff
    by (intro platform_ok_change [OF ok log, of "[]"]) (use ok in \<open>auto simp: platform_ok_def\<close>)
qed

lemma set_up_ok:
  assumes ok: "platform_ok p" and new: "i \<notin> pa_id ` set (admins p)"
    and run: "setup_admin sha bcrypt i token pw now outcome p = (r, p')"
  shows "platform_ok p'"
  using setup_effect [OF run]
proof (elim disjE conjE exE)
  fix rq :: access_request
  let ?q = "settable (sha token) now"
  let ?a = "new_admin i (rq_email rq) (rq_fullName rq) (bcrypt pw) now"
  assume f: "find ?q (accessRequests p) = Some rq" and email: "rq_email rq \<notin> pa_email ` set (admins p)"
    and req: "accessRequests p' = updateOne ?q (activated_request now) (accessRequests p)"
    and acc: "admins p' = admins p @ [?a]"
    and log: "audits p' = audits p @ [audit_row ACCESS_ACTIVATED (Some i) (Some (rq_id rq)) (Some Target_Request) now]"
  have ids: "distinct (map rq_id (accessRequests p))" using ok by (simp add: platform_ok_def)
  have rq: "rq \<in> set (accessRequests p)" "rq_status rq = Approved" using find_SomeD [OF f] by (auto simp: settable_def)
  then have "request_ok p rq" using ok by (simp add: platform_ok_def)
  then have rq': "request_ok p' rq" using request_ok_grow [OF _ log] acc by auto
  have done': "request_ok p' (activated_request now rq)"
    using rq' rq(2) by (simp add: request_ok_def reviewable_def granted_def activated_request_def)
  have "\<exists>b \<in> pa_id ` set (admins p). rq_reviewedBy rq = Some b"
    using \<open>request_ok p rq\<close> rq(2) by (auto simp: request_ok_def granted_def)
  then have by': "rq_reviewedBy rq \<noteq> Some i" using new by auto
  note upd = request_updated [where rs = "accessRequests p" and g = "activated_request now" and q = ?q
    and ok = "request_ok p'", OF ids]
  have upd': "distinct (map rq_id (accessRequests p'))"
    "\<forall>r \<in> set (accessRequests p'). r \<in> set (accessRequests p) \<or> request_ok p' r"
    "\<forall>r \<in> set (accessRequests p). rq_status r = Activated \<longrightarrow> r \<in> set (accessRequests p')"
    unfolding req using upd f done' by (auto simp: activated_request_def settable_def)
  have "activated_request now rq \<in> set (accessRequests p')" unfolding req using f by (rule updateOne_member)
  then have "admin_ok p' ?a" using log by'
    by (auto simp: admin_ok_def activated_request_def new_admin_def audited_def audit_row_def
        intro!: bexI [of _ "activated_request now rq"])
  then show ?thesis using ok new email acc upd'
    by (intro platform_ok_change [OF ok log, of "[?a]"]) (auto simp: platform_ok_def new_admin_def)
qed (use ok in simp)

lemma canActivate_admin:
  "platform_canActivate verify_jwt h p = (Inr b, p') \<Longrightarrow> b \<in> pa_id ` set (admins p)"
  by (auto simp: platform_canActivate_def Let_def action_simps split: option.splits if_splits dest!: find_SomeD)

lemma admin_step_ok:
  assumes "admin_step sha k p p'" "platform_ok p"
  shows "platform_ok p'"
  using assms(1)
proof cases
  case signed_in
  then obtain as where "p' = p\<lparr>audits := audits p @ as\<rparr>" using login_effect by blast
  then show ?thesis by (intro accounts_step [OF assms(2)]) simp_all
next
  case recovery
  then show ?thesis using forgot_effect
    by (intro accounts_step [OF assms(2), of _ "[]"]) (auto simp: same_but_accounts_def)
next
  case (password_reset bcrypt token new now outcome r)
  from reset_effect [OF password_reset] show ?thesis
  proof (elim disjE conjE exE)
    fix a
    assume "audits p' = audits p @ [audit_row PASSWORD_RESET (Some (pa_id a)) (Some (pa_id a)) (Some Target_Admin) now]"
      "admins p' = updateOne (admin_resettable (sha token) now) (with_admin_password (bcrypt new)) (admins p)"
      "accessRequests p' = accessRequests p"
    then show ?thesis by (intro accounts_step [OF assms(2)]) (simp_all add: map_updateOne_same account_same)
  qed (use assms(2) in simp)
next
  case requested
  then show ?thesis using requested_ok assms(2) by blast
next
  case (verified page mails prepared token now outcome r)
  from verify_effect [OF verified(1)] show ?thesis
  proof (elim conjE disjE exE)
    assume "admins p' = admins p" "accessRequests p' = accessRequests p" "audits p' = audits p"
    then show ?thesis by (intro accounts_step [OF assms(2), of _ "[]"]) simp_all
  next
    fix rq :: access_request
    assume a: "admins p' = admins p" "find (verifiable (sha token) now) (accessRequests p) = Some rq"
      "accessRequests p' = updateOne (verifiable (sha token) now) (verified_request now) (accessRequests p)"
      "audits p' = audits p @ [audit_row ACCESS_VERIFIED None (Some (rq_id rq)) (Some Target_Request) now]"
    then have "audited p' ACCESS_VERIFIED None (rq_id rq)" by (simp add: audited_def audit_row_def)
    then show ?thesis using a
      by (intro requests_step [OF assms(2) a(4,1,3)])
        (auto simp: verified_request_def verifiable_def request_ok_def granted_def)
  qed
next
  case (reviewed page token mailed b i approving now outcome r verify_jwt h)
  note admin = canActivate_admin [OF reviewed(2)]
  from decide_effect [OF reviewed(1)] show ?thesis
  proof (elim conjE disjE exE)
    assume "admins p' = admins p" "accessRequests p' = accessRequests p" "audits p' = audits p"
    then show ?thesis by (intro accounts_step [OF assms(2), of _ "[]"]) simp_all
  next
    fix rq :: access_request
    assume a: "admins p' = admins p" "find (pending i) (accessRequests p) = Some rq"
      "accessRequests p' = updateOne (pending i) (decided b approving (sha token) now) (accessRequests p)"
      "audits p' = audits p @ [audit_row (if approving then ACCESS_APPROVED else ACCESS_REJECTED) (Some b)
         (Some (rq_id rq)) (Some Target_Request) now]"
    then have "approving \<Longrightarrow> audited p' ACCESS_APPROVED (Some b) (rq_id rq)" by (simp add: audited_def audit_row_def)
    then show ?thesis using a admin
      by (intro requests_step [OF assms(2) a(4,1,3)])
        (auto simp: decided_def pending_def request_ok_def granted_def reviewable_def Let_def)
  qed
next
  case (setup_resent page token mailed i now r)
  note eff = resend_effect [OF setup_resent(1)]
  then consider "accessRequests p' = accessRequests p"
    | "accessRequests p' = updateOne (awaiting_setup i) (with_setup_token (sha token) now) (accessRequests p)" by blast
  then show ?thesis
  proof cases
    case 1
    then show ?thesis using eff by (intro accounts_step [OF assms(2), of _ "[]"]) simp_all
  next
    case 2
    have "audits p' = audits p @ []" "admins p' = admins p" using eff by simp_all
    then show ?thesis
      by (intro requests_step [OF assms(2) _ _ 2])
        (auto simp: with_setup_token_def awaiting_setup_def intro: request_kept_ok)
  qed
next
  case rejection_resent
  then show ?thesis using resendRejection_effect by (intro accounts_step [OF assms(2), of _ "[]"]) fastforce+
next
  case set_up
  then show ?thesis using set_up_ok assms(2) by blast
next
  case (bootstrapped lower_case isEmail bcrypt env config r)
  from bootstrap_effect [OF bootstrapped(1)] show ?thesis
  proof (elim disjE exE conjE)
    fix a :: platform_admin
    assume a: "pa_id a = ce_newId env" "pa_email a \<notin> pa_email ` set (admins p)" "accessRequests p' = accessRequests p"
      "admins p' = admins p @ [a]"
      "audits p' = audits p @ [audit_row BOOTSTRAP_CREATED (Some (pa_id a)) (Some (pa_id a)) (Some Target_Admin) (ce_now env)]"
    then have "admin_ok p' a" by (simp add: admin_ok_def audited_def audit_row_def)
    then show ?thesis using assms(2) a bootstrapped(2)
      by (intro platform_ok_change [OF assms(2) a(5), of "[a]"]) (auto simp: platform_ok_def)
  qed (use assms(2) in simp)
next
  case (command_reset bcrypt env email new r)
  from command_reset_effect [OF command_reset] show ?thesis
  proof (elim disjE conjE exE)
    fix a :: platform_admin
    assume "audits p' = audits p @ [audit_row PASSWORD_RESET (Some (pa_id a)) (Some (pa_id a)) (Some Target_Admin) (ce_now env)]"
      "admins p' = updateOne (\<lambda>b. pa_id b = pa_id a \<and> pa_email b = email \<and> pa_isActive b)
        (with_admin_password (bcrypt new)) (admins p)"
      "accessRequests p' = accessRequests p"
    then show ?thesis by (intro accounts_step [OF assms(2)]) (simp_all add: map_updateOne_same account_same)
  qed (use assms(2) in simp)
next
  case (status_changed b c status reason now outcome r verify_jwt h)
  from status_effect [OF status_changed(1)] show ?thesis
    by (elim disjE conjE exE) (use assms(2) in \<open>auto intro: accounts_step [OF assms(2)]\<close>)
next
  case (tenants_step w)
  then show ?thesis by (intro accounts_step [OF assms(2), of _ "[]"]) simp_all
qed

text \<open>
  C26. Nobody becomes a platform administrator on their own. Over any sequence of operations of the
  administrators' part, interleaved with anything the tenants do, every administrator was created
  by the bootstrap command, or by setting up an access request that was verified by its address,
  approved by another administrator, and has that address, each step of it in the audit log; and
  accounts and requests keep distinct identifiers, accounts distinct addresses.\<close>

theorem administrators_accounted_for:
  assumes "(\<lambda>p p'. \<exists>k. admin_step sha k p p')\<^sup>*\<^sup>* p p'" "platform_ok p"
  shows "platform_ok p' \<and> (\<forall>a \<in> set (admins p').
    audited p' BOOTSTRAP_CREATED (Some (pa_id a)) (pa_id a)
    \<or> (\<exists>r \<in> set (accessRequests p'). \<exists>b \<in> pa_id ` set (admins p').
         rq_email r = pa_email a \<and> rq_verifiedAt r \<noteq> None \<and> b \<noteq> pa_id a
         \<and> audited p' ACCESS_VERIFIED None (rq_id r) \<and> audited p' ACCESS_APPROVED (Some b) (rq_id r)
         \<and> audited p' ACCESS_ACTIVATED (Some (pa_id a)) (rq_id r)))"
proof
  show ok: "platform_ok p'" using assms by (induction rule: rtranclp_induct) (auto dest: admin_step_ok)
  have ev: "\<exists>b \<in> pa_id ` set (admins p'). rq_verifiedAt r \<noteq> None \<and> b \<noteq> pa_id a
         \<and> audited p' ACCESS_VERIFIED None (rq_id r) \<and> audited p' ACCESS_APPROVED (Some b) (rq_id r)"
    if r: "r \<in> set (accessRequests p')" "rq_status r = Activated" "rq_reviewedBy r \<noteq> Some (pa_id a)" for r a
  proof -
    have "request_ok p' r" "reviewable r" "granted r" using ok r by (simp_all add: platform_ok_def reviewable_def granted_def)
    then show ?thesis using r(3) unfolding request_ok_def by auto
  qed
  show "\<forall>a \<in> set (admins p'). audited p' BOOTSTRAP_CREATED (Some (pa_id a)) (pa_id a)
    \<or> (\<exists>r \<in> set (accessRequests p'). \<exists>b \<in> pa_id ` set (admins p').
         rq_email r = pa_email a \<and> rq_verifiedAt r \<noteq> None \<and> b \<noteq> pa_id a
         \<and> audited p' ACCESS_VERIFIED None (rq_id r) \<and> audited p' ACCESS_APPROVED (Some b) (rq_id r)
         \<and> audited p' ACCESS_ACTIVATED (Some (pa_id a)) (rq_id r))"
  proof
    fix a assume "a \<in> set (admins p')"
    then have "admin_ok p' a" using ok by (simp add: platform_ok_def)
    then show "audited p' BOOTSTRAP_CREATED (Some (pa_id a)) (pa_id a)
      \<or> (\<exists>r \<in> set (accessRequests p'). \<exists>b \<in> pa_id ` set (admins p').
         rq_email r = pa_email a \<and> rq_verifiedAt r \<noteq> None \<and> b \<noteq> pa_id a
         \<and> audited p' ACCESS_VERIFIED None (rq_id r) \<and> audited p' ACCESS_APPROVED (Some b) (rq_id r)
         \<and> audited p' ACCESS_ACTIVATED (Some (pa_id a)) (rq_id r))"
      unfolding admin_ok_def
    proof (elim disjE bexE conjE)
      fix r assume r: "r \<in> set (accessRequests p')" "rq_status r = Activated" "rq_email r = pa_email a"
        "rq_reviewedBy r \<noteq> Some (pa_id a)" "audited p' ACCESS_ACTIVATED (Some (pa_id a)) (rq_id r)"
      obtain b where "b \<in> pa_id ` set (admins p')" "rq_verifiedAt r \<noteq> None" "b \<noteq> pa_id a"
        "audited p' ACCESS_VERIFIED None (rq_id r)" "audited p' ACCESS_APPROVED (Some b) (rq_id r)"
        using ev [OF r(1,2,4)] by blast
      then show ?thesis using r(1,3,5) by blast
    qed simp
  qed
qed

section \<open>The audit log tells the status of every company\<close>

definition applies :: "oid \<Rightarrow> audit \<Rightarrow> platform_status \<Rightarrow> platform_status" where
  "applies c t s = (if at_targetType t = Some Target_Company \<and> at_targetId t = Some c
     then option_default s (at_nextStatus t) else s)"

text \<open>The status of a company, replayed from the log.\<close>

definition logged_status :: "audit list \<Rightarrow> oid \<Rightarrow> platform_status" where
  "logged_status log c = fold (applies c) log PLATFORM_ACTIVE"

definition status_ok :: "platform \<Rightarrow> bool" where
  "status_ok p \<longleftrightarrow> distinct (map c_id (companies (tenant_data p)))
     \<and> (\<forall>c \<in> set (companies (tenant_data p)). c_platformStatus c = logged_status (audits p) (c_id c))"

lemma logged_append: "logged_status (log @ as) c = fold (applies c) as (logged_status log c)"
  by (simp add: logged_status_def)

lemma applies_none:
  "(\<forall>t \<in> set as. at_targetType t \<noteq> Some Target_Company \<or> at_targetId t \<noteq> Some c) \<Longrightarrow> fold (applies c) as s = s"
  by (induction as arbitrary: s) (auto simp: applies_def)

lemma logs_status: "logs p p' \<Longrightarrow> tenant_data p' = tenant_data p \<Longrightarrow> status_ok p \<Longrightarrow> status_ok p'"
  by (auto simp: logs_def status_ok_def logged_append applies_none)

lemma admin_step_log:
  assumes "admin_step sha k p p'"
  shows "tenant_data p' = tenant_data p \<and> logs p p'
    \<or> (\<exists>b c status reason now outcome r. changeCompanyStatus b c status reason now outcome p = (r, p'))
    \<or> (\<exists>w. status_kept p w \<and> p' = p\<lparr>tenant_data := w\<rparr>)"
  using assms
proof cases
  case signed_in
  then show ?thesis using login_effect by (fastforce simp: logs_def)
next
  case recovery
  then show ?thesis using forgot_effect by (auto simp: same_but_accounts_def intro: logs_refl)
next
  case password_reset
  then show ?thesis by (auto dest!: reset_effect intro: logs_refl logs_row)
next
  case requested
  then show ?thesis by (auto dest!: request_effect simp: Let_def intro: logs_refl logs_row)
next
  case verified
  then show ?thesis by (auto dest!: verify_effect intro: logs_refl logs_row)
next
  case reviewed
  then show ?thesis by (auto dest!: decide_effect(1) intro: logs_refl logs_row)
next
  case setup_resent
  then show ?thesis by (auto dest!: resend_effect intro: logs_refl)
next
  case rejection_resent
  then show ?thesis by (auto dest!: resendRejection_effect intro: logs_refl)
next
  case set_up
  then show ?thesis by (auto dest!: setup_effect intro: logs_refl logs_row)
next
  case bootstrapped
  then show ?thesis by (auto dest!: bootstrap_effect intro: logs_refl logs_row)
next
  case command_reset
  then show ?thesis by (auto dest!: command_reset_effect intro: logs_refl logs_row)
next
  case status_changed
  then show ?thesis by blast
next
  case tenants_step
  then show ?thesis by blast
qed

text \<open>What a change of status does to the companies.\<close>

lemma status_changes_one:
  assumes d: "distinct (map c_id (companies (tenant_data p)))"
    and run: "changeCompanyStatus b i status reason now outcome p = (Inr x, p') \<or>
      (changeCompanyStatus b i status reason now outcome p = (r, p') \<and> p' \<noteq> p)"
  shows "\<exists>c. c \<in> set (companies (tenant_data p)) \<and> c_id c = i \<and> c_platformStatus c \<noteq> status
    \<and> (\<forall>e. e \<in> set (companies (tenant_data p')) \<longleftrightarrow>
         (e \<in> set (companies (tenant_data p)) \<and> c_id e \<noteq> i) \<or> e = with_status b status reason now c)
    \<and> map c_id (companies (tenant_data p')) = map c_id (companies (tenant_data p))
    \<and> (\<exists>cs. tenant_data p' = (tenant_data p)\<lparr>companies := cs\<rparr>)
    \<and> audits p' = audits p @ [status_audit b i (c_platformStatus c) status reason now]"
proof -
  let ?cs = "companies (tenant_data p)" and ?q = "\<lambda>d. c_id d = i \<and> c_platformStatus d \<noteq> status"
  let ?g = "with_status b status reason now"
  obtain q where q: "changeCompanyStatus b i status reason now outcome p = (q, p')" "\<not> ((\<exists>e. q = Inl e) \<and> p' = p)"
    using run by auto
  obtain c where c: "find (\<lambda>c. c_id c = i) ?cs = Some c" "c_platformStatus c \<noteq> status"
    and p': "p' = p\<lparr>tenant_data := (tenant_data p)\<lparr>companies := updateOne ?q ?g ?cs\<rparr>,
       audits := audits p @ [status_audit b i (c_platformStatus c) status reason now]\<rparr>"
    using status_effect [OF q(1)] q(2) by blast
  have c': "c \<in> set ?cs" "c_id c = i" using find_SomeD [OF c(1)] by simp_all
  have f: "find ?q ?cs = Some c"
    using d c' c(2) by (intro find_unique [where h = c_id]) auto
  have same: "c_id (?g e) = c_id e" for e by (simp add: with_status_def)
  show ?thesis
    using c' c(2) set_updateOne_key [OF f d same] by (auto simp: p' map_updateOne_same same)
qed

lemma status_step:
  assumes ok: "status_ok p" and run: "changeCompanyStatus b i status reason now outcome p = (r, p')"
  shows "status_ok p'"
proof (cases "p' = p")
  case False
  have d: "distinct (map c_id (companies (tenant_data p)))" using ok by (simp add: status_ok_def)
  obtain c where c: "c_id c = i" "c_platformStatus c \<noteq> status"
    and mem: "\<forall>e. e \<in> set (companies (tenant_data p')) \<longleftrightarrow>
         (e \<in> set (companies (tenant_data p)) \<and> c_id e \<noteq> i) \<or> e = with_status b status reason now c"
    and ids: "map c_id (companies (tenant_data p')) = map c_id (companies (tenant_data p))"
    and log: "audits p' = audits p @ [status_audit b i (c_platformStatus c) status reason now]"
    using status_changes_one [OF d disjI2 [OF conjI [OF run False]]] by blast
  have "c_platformStatus e = logged_status (audits p') (c_id e)" if e: "e \<in> set (companies (tenant_data p'))" for e
  proof (cases "e = with_status b status reason now c")
    case True
    then show ?thesis using c(1) by (simp add: log logged_append applies_def status_audit_def with_status_def)
  next
    case False
    then have "e \<in> set (companies (tenant_data p))" "c_id e \<noteq> i" using e mem by auto
    then show ?thesis using ok by (simp add: log logged_append applies_def status_audit_def status_ok_def)
  qed
  then show ?thesis using d ids by (simp add: status_ok_def)
qed (use ok in simp)

lemma admin_step_status:
  assumes "admin_step sha k p p'" "status_ok p"
  shows "status_ok p' \<and> prefix (audits p) (audits p')"
  using admin_step_log [OF assms(1)]
proof (elim disjE conjE exE)
  assume "tenant_data p' = tenant_data p" "logs p p'"
  then show ?thesis using logs_status assms(2) by (auto simp: logs_def)
next
  fix b c status reason now outcome r
  assume run: "changeCompanyStatus b c status reason now outcome p = (r, p')"
  have "prefix (audits p) (audits p')" using status_effect [OF run] by auto
  then show ?thesis using status_step [OF assms(2) run] by simp
next
  fix w assume k: "status_kept p w" "p' = p\<lparr>tenant_data := w\<rparr>"
  have "c_platformStatus c = logged_status (audits p) (c_id c)" if "c \<in> set (companies w)" for c
  proof -
    from k(1) that have "(\<exists>d \<in> set (companies (tenant_data p)). c_id d = c_id c \<and> c_platformStatus d = c_platformStatus c)
      \<or> (c_platformStatus c = PLATFORM_ACTIVE \<and> (\<forall>t \<in> set (audits p). at_targetType t = Some Target_Company \<longrightarrow>
           at_targetId t \<noteq> Some (c_id c)))" unfolding status_kept_def by blast
    then show ?thesis
    proof
      assume "\<exists>d \<in> set (companies (tenant_data p)). c_id d = c_id c \<and> c_platformStatus d = c_platformStatus c"
      then show ?thesis using assms(2) unfolding status_ok_def by metis
    next
      assume n: "c_platformStatus c = PLATFORM_ACTIVE \<and> (\<forall>t \<in> set (audits p). at_targetType t = Some Target_Company \<longrightarrow>
           at_targetId t \<noteq> Some (c_id c))"
      then have "fold (applies (c_id c)) (audits p) PLATFORM_ACTIVE = PLATFORM_ACTIVE"
        by (intro applies_none) blast
      then show ?thesis using n by (simp add: logged_status_def)
    qed
  qed
  then show ?thesis using k by (simp add: status_ok_def status_kept_def)
qed


section \<open>The setup link works once\<close>

definition live_setup :: "platform \<Rightarrow> string \<Rightarrow> bool" where
  "live_setup p k \<longleftrightarrow> (\<exists>r \<in> set (accessRequests p). rq_status r = Approved \<and> rq_setupTokenHash r = Some k)"

text \<open>No two requests share a setup token: tokens are random.\<close>

definition setup_unique :: "platform \<Rightarrow> bool" where
  "setup_unique p \<longleftrightarrow> distinct (map rq_id (accessRequests p))
     \<and> (\<forall>r \<in> set (accessRequests p). \<forall>s \<in> set (accessRequests p).
          rq_setupTokenHash r \<noteq> None \<and> rq_setupTokenHash r = rq_setupTokenHash s \<longrightarrow> r = s)"

definition spend_setup :: "(string \<Rightarrow> string) \<Rightarrow> (js_string \<Rightarrow> string) \<Rightarrow> string
    \<Rightarrow> oid \<times> string \<times> js_string \<times> date \<times> commit_outcome \<Rightarrow> bool admin_handler" where
  "spend_setup sha bcrypt k attempt = (case attempt of (i, token, pw, now, outcome) \<Rightarrow>
     if sha token = k then setup_admin sha bcrypt i token pw now outcome
     else throw (PlainError ''another token''))"

lemma setup_kills:
  assumes good: "setup_unique p" and run: "setup_admin sha bcrypt i token pw now outcome p = (Inr x, p')"
  shows "live_setup p (sha token)" "\<not> live_setup p' (sha token)"
proof -
  let ?q = "settable (sha token) now"
  obtain rq where f: "find ?q (accessRequests p) = Some rq"
    and req: "accessRequests p' = updateOne ?q (activated_request now) (accessRequests p)"
    using setup_effect [OF run] by blast
  note rq = find_SomeD [OF f]
  show "live_setup p (sha token)" using rq by (auto simp: live_setup_def settable_def)
  have same: "rq_id (activated_request now r) = rq_id r" for r by (simp add: activated_request_def)
  have d: "distinct (map rq_id (accessRequests p))" using good by (simp add: setup_unique_def)
  have only: "r = rq" if "r \<in> set (accessRequests p)" "rq_setupTokenHash r = Some (sha token)" for r
    using good that rq by (auto simp: setup_unique_def settable_def)
  show "\<not> live_setup p' (sha token)"
  proof
    assume "live_setup p' (sha token)"
    then obtain r where r: "r \<in> set (accessRequests p')" "rq_status r = Approved" "rq_setupTokenHash r = Some (sha token)"
      by (auto simp: live_setup_def)
    then have "r \<in> set (accessRequests p) \<and> rq_id r \<noteq> rq_id rq \<or> r = activated_request now rq"
      using set_updateOne_key [OF f d same] by (simp add: req)
    then show False using only [of r] r(2,3) by (auto simp: activated_request_def)
  qed
qed

text \<open>A request that is live afterwards was live before, or the step issued its token.\<close>

lemma dead_setup_step:
  assumes step: "admin_step sha k p p'" and dead: "\<not> live_setup p k"
  shows "\<not> live_setup p' k"
proof -
  have sub: "\<not> live_setup p' k" if "\<forall>r \<in> set (accessRequests p'). r \<in> set (accessRequests p)
      \<or> rq_status r \<noteq> Approved \<or> (rq_setupTokenHash r \<noteq> Some k)"
    using that dead unfolding live_setup_def by blast
  have one: "\<forall>r \<in> set (updateOne q g (accessRequests p)). r \<in> set (accessRequests p)
      \<or> rq_status r \<noteq> Approved \<or> rq_setupTokenHash r \<noteq> Some k"
    if "\<And>r. rq_status (g r) \<noteq> Approved \<or> rq_setupTokenHash (g r) \<noteq> Some k" for q g
    using that by (auto dest!: set_updateOneD)
  from step show ?thesis
  proof cases
    case signed_in
    then show ?thesis using login_effect by (intro sub) fastforce
  next
    case recovery
    then show ?thesis using forgot_effect by (intro sub) (auto simp: same_but_accounts_def)
  next
    case password_reset
    then show ?thesis by (intro sub) (auto dest!: reset_effect)
  next
    case (requested page token mailed cleaned i email name reason now outcome r)
    then have "\<forall>r \<in> set (accessRequests p'). r \<in> set (accessRequests p) \<or> rq_status r \<noteq> Approved"
      by (auto dest!: request_effect simp: Let_def requested_into_def set_updateMany expire_request_def new_request_def
          dest!: set_updateOneD)
    then show ?thesis by (intro sub) blast
  next
    case (verified page mails prepared token now outcome r)
    then show ?thesis by (intro sub) (auto dest!: verify_effect simp: verified_request_def dest!: set_updateOneD)
  next
    case (reviewed page token mailed b i approving now outcome r verify_jwt h)
    have "rq_status (decided b approving (sha token) now r) \<noteq> Approved
        \<or> rq_setupTokenHash (decided b approving (sha token) now r) \<noteq> Some k" for r
      using reviewed(3) by (simp add: decided_def Let_def)
    then have "\<forall>r \<in> set (updateOne (pending i) (decided b approving (sha token) now) (accessRequests p)).
        r \<in> set (accessRequests p) \<or> rq_status r \<noteq> Approved \<or> rq_setupTokenHash r \<noteq> Some k" by (intro one) blast
    then show ?thesis using decide_effect [OF reviewed(1)] by (intro sub) auto
  next
    case (setup_resent page token mailed i now r)
    have "rq_setupTokenHash (with_setup_token (sha token) now r) \<noteq> Some k" for r
      using setup_resent(2) by (simp add: with_setup_token_def)
    then have "\<forall>r \<in> set (updateOne (awaiting_setup i) (with_setup_token (sha token) now) (accessRequests p)).
        r \<in> set (accessRequests p) \<or> rq_status r \<noteq> Approved \<or> rq_setupTokenHash r \<noteq> Some k" by (intro one) blast
    then show ?thesis using resend_effect [OF setup_resent(1)] by (intro sub) auto
  next
    case rejection_resent
    then show ?thesis using resendRejection_effect by (intro sub) fastforce
  next
    case set_up
    then show ?thesis by (intro sub) (auto dest!: setup_effect simp: activated_request_def dest!: set_updateOneD)
  next
    case bootstrapped
    then show ?thesis by (intro sub) (auto dest!: bootstrap_effect)
  next
    case command_reset
    then show ?thesis by (intro sub) (auto dest!: command_reset_effect)
  next
    case status_changed
    then show ?thesis by (intro sub) (auto dest!: status_effect)
  next
    case tenants_step
    then show ?thesis by (intro sub) simp
  qed
qed

interpretation setup_token: one_time_token live_setup setup_unique "spend_setup sha bcrypt" "admin_step sha" for sha bcrypt
proof
  fix k a p x p' assume s: "spend_setup sha bcrypt k a p = (Inr x, p')"
  obtain i token pw now outcome where a: "a = (i, token, pw, now, outcome)" by (metis prod_cases5)
  have c: "setup_admin sha bcrypt i token pw now outcome p = (Inr x, p')" "sha token = k"
    using s by (auto simp: spend_setup_def a action_simps split: if_splits)
  have "\<exists>r. find (settable (sha token) now) (accessRequests p) = Some r" using setup_effect [OF c(1)] by blast
  then show "live_setup p k" using c(2) by (auto simp: live_setup_def settable_def dest!: find_SomeD)
  show "\<not> live_setup p' k" if "setup_unique p" using setup_kills [OF that c(1)] c(2) by simp
next
  fix k p p' assume "admin_step sha k p p'" "\<not> live_setup p k"
  then show "\<not> live_setup p' k" by (rule dead_setup_step)
qed

text \<open>
  C28. The link that sets up an administrator's account works once: after it was used, no sequence of
  operations makes another use of it succeed, whoever tries and with whatever password, and the
  attempt changes nothing.\<close>

theorem setup_link_once:
  assumes "setup_unique p" "setup_admin sha bcrypt i token pw now outcome p = (Inr b, p1)"
    and "(admin_step sha (sha token))\<^sup>*\<^sup>* p1 p2"
  shows "\<exists>e. setup_admin sha bcrypt j token pw' now' outcome' p2 = (Inl e, p2)"
proof -
  have "spend_setup sha bcrypt (sha token) (i, token, pw, now, outcome) p = (Inr b, p1)"
    using assms(2) by (simp add: spend_setup_def)
  from setup_token.spent_once [OF assms(1) this assms(3), of "(j, token, pw', now', outcome')"]
  obtain e v where e: "setup_admin sha bcrypt j token pw' now' outcome' p2 = (Inl e, v)"
    by (auto simp: spend_setup_def)
  have "\<not> live_setup p2 (sha token)"
    using setup_token.dead_forever [OF assms(3)] setup_kills(2) [OF assms(1,2)] .
  then have "find (settable (sha token) now') (accessRequests p2) = None"
    by (auto simp: find_None_iff live_setup_def settable_def)
  then have "v = p2" using setup_effect [OF e] by simp
  then show ?thesis using e by blast
qed

section \<open>Sessions of administrators\<close>

lemma platform_canActivate_Inr:
  "platform_canActivate vj h p = (Inr b, p') \<longleftrightarrow> p' = p \<and> (\<exists>t q a. bearer_token h = Some t \<and> vj t = Some q
     \<and> ap_type q = PLATFORM_ADMIN_TOKEN_TYPE \<and> is_valid_id (ap_sub q)
     \<and> find (\<lambda>a. pa_id a = id_value (ap_sub q)) (admins p) = Some a
     \<and> pa_isActive a \<and> option_default 0 (ap_version q) = pa_authVersion a \<and> b = pa_id a)"
  by (auto simp: platform_canActivate_def Let_def action_simps split: option.split)

lemma platform_canActivate_state: "platform_canActivate vj h p = (r, p') \<Longrightarrow> p' = p"
  by (cases r) (auto simp: platform_canActivate_def Let_def action_simps split: option.splits if_splits)

text \<open>Versions only grow, and a new account has a new identifier.\<close>

definition outdated :: "oid \<Rightarrow> int \<Rightarrow> platform \<Rightarrow> bool" where
  "outdated i v p \<longleftrightarrow> i \<in> pa_id ` set (admins p) \<and> (\<forall>a \<in> set (admins p). pa_id a = i \<longrightarrow> pa_authVersion a > v)"

lemma outdated_update:
  assumes "outdated i v p" "admins p' = updateOne q (with_admin_password h) (admins p)"
  shows "outdated i v p'"
proof -
  have "map pa_id (admins p') = map pa_id (admins p)"
    by (simp add: assms(2) map_updateOne_same with_admin_password_def without_reset_token_def)
  then have "i \<in> pa_id ` set (admins p')" using assms(1) by (metis list.set_map outdated_def)
  then show ?thesis using assms
    by (auto simp: outdated_def with_admin_password_def without_reset_token_def dest!: set_updateOneD)
qed

lemma outdated_same: "outdated i v p \<Longrightarrow> admins p' = admins p \<Longrightarrow> outdated i v p'"
  by (simp add: outdated_def)

lemma outdated_new: "outdated i v p \<Longrightarrow> admins p' = admins p @ [a] \<Longrightarrow> pa_id a \<notin> pa_id ` set (admins p) \<Longrightarrow> outdated i v p'"
  by (auto simp: outdated_def)

lemma outdated_step:
  assumes "admin_step sha k p p'" "outdated i v p"
  shows "outdated i v p'"
  using assms(1)
proof cases
  case signed_in
  then show ?thesis using login_effect outdated_same [OF assms(2)] by fastforce
next
  case (recovery page token mailed cleaned email now r)
  note eff = forgot_effect [OF recovery(1)]
  have "map (\<lambda>a. (pa_id a, pa_authVersion a)) (admins p') = zip (map pa_id (admins p')) (map pa_authVersion (admins p'))"
    by (simp add: zip_map_map zip_same_conv_map comp_def)
  also have "\<dots> = zip (map pa_id (admins p)) (map pa_authVersion (admins p))"
    using eff accounts_same(1) [of "admins p'" "admins p" "[]"] by (simp add: same_but_accounts_def)
  also have "\<dots> = map (\<lambda>a. (pa_id a, pa_authVersion a)) (admins p)"
    by (simp add: zip_map_map zip_same_conv_map comp_def)
  finally have s: "(\<lambda>a. (pa_id a, pa_authVersion a)) ` set (admins p') = (\<lambda>a. (pa_id a, pa_authVersion a)) ` set (admins p)"
    by (metis list.set_map)
  have form: "outdated i v w \<longleftrightarrow> i \<in> fst ` (\<lambda>a. (pa_id a, pa_authVersion a)) ` set (admins w)
      \<and> (\<forall>x \<in> (\<lambda>a. (pa_id a, pa_authVersion a)) ` set (admins w). fst x = i \<longrightarrow> snd x > v)" for w
    by (simp add: outdated_def image_image)
  show ?thesis using assms(2) unfolding form s .
next
  case (password_reset bcrypt token new now outcome r)
  from reset_effect [OF password_reset] show ?thesis
    by (elim disjE exE conjE) (use assms(2) in \<open>auto intro: outdated_update\<close>)
next
  case requested
  then show ?thesis using request_effect outdated_same [OF assms(2)] by blast
next
  case verified
  then show ?thesis using verify_effect outdated_same [OF assms(2)] by blast
next
  case reviewed
  then show ?thesis using decide_effect outdated_same [OF assms(2)] by blast
next
  case setup_resent
  then show ?thesis using resend_effect outdated_same [OF assms(2)] by blast
next
  case rejection_resent
  then show ?thesis using resendRejection_effect outdated_same [OF assms(2)] by blast
next
  case (set_up bcrypt j token new now outcome r)
  from setup_effect [OF set_up(1)] show ?thesis
    by (elim disjE exE conjE) (use assms(2) set_up(2) in \<open>auto intro: outdated_new simp: new_admin_def\<close>)
next
  case bootstrapped
  then show ?thesis using bootstrap_effect outdated_new [OF assms(2)] assms(2) by metis
next
  case (command_reset bcrypt env email new r)
  from command_reset_effect [OF command_reset] show ?thesis
    by (elim disjE exE conjE) (use assms(2) in \<open>auto intro: outdated_update\<close>)
next
  case (status_changed b c status reason now outcome r verify_jwt h)
  from status_effect [OF status_changed(1)] show ?thesis
    by (elim disjE exE conjE) (use assms(2) in \<open>auto intro: outdated_same\<close>)
next
  case tenants_step
  then show ?thesis using outdated_same [OF assms(2)] by simp
qed

text \<open>
  A password reset ends an administrator's sessions: any token the platform's guard accepted for
  the administrator before the reset is refused after it, and stays refused whatever the
  administrators' part does next.\<close>

theorem admin_reset_ends_sessions:
  assumes "distinct (map pa_id (admins p))" "a \<in> set (admins p)"
    and "\<forall>b \<in> set (admins p). pa_passwordResetTokenHash b = Some (sha token) \<longrightarrow> b = a"
    and "platform_canActivate verify_jwt h p = (Inr (pa_id a), p)"
    and "admin_resetPassword sha bcrypt token new now outcome p = (Inr x, p1)"
    and "(\<lambda>p p'. \<exists>k. admin_step sha k p p')\<^sup>*\<^sup>* p1 p2"
  shows "\<exists>e. platform_canActivate verify_jwt h p2 = (Inl e, p2)"
proof -
  obtain b where f: "find (admin_resettable (sha token) now) (admins p) = Some b"
    and p1: "admins p1 = updateOne (admin_resettable (sha token) now) (with_admin_password (bcrypt new)) (admins p)"
    using reset_effect [OF assms(5)] by blast
  have "b = a" using find_SomeD [OF f] assms(3) by (simp add: admin_resettable_def)
  let ?g = "with_admin_password (bcrypt new)"
  have same: "pa_id (?g b) = pa_id b" for b by (simp add: with_admin_password_def without_reset_token_def)
  have mem: "c \<in> set (admins p1) \<longleftrightarrow> (c \<in> set (admins p) \<and> pa_id c \<noteq> pa_id a) \<or> c = with_admin_password (bcrypt new) a" for c
    unfolding p1 using set_updateOne_key [where g = ?g and h = pa_id and x = c, OF f assms(1) same] \<open>b = a\<close> by simp
  obtain t q a' where t: "bearer_token h = Some t" "verify_jwt t = Some q"
    "find (\<lambda>a. pa_id a = id_value (ap_sub q)) (admins p) = Some a'"
    "option_default 0 (ap_version q) = pa_authVersion a'" "pa_id a = pa_id a'"
    using assms(4) by (auto simp: platform_canActivate_Inr)
  have "a' = a" using key_unique [OF assms(1) _ assms(2)] find_SomeD [OF t(3)] t(5) by simp
  then have q: "id_value (ap_sub q) = pa_id a" "option_default 0 (ap_version q) = pa_authVersion a"
    using find_SomeD [OF t(3)] t(4) by simp_all
  have "?g a \<in> set (admins p1)" using mem by blast
  then have "pa_id a \<in> pa_id ` set (admins p1)" using same [of a] by (metis imageI)
  moreover have "pa_authVersion c > pa_authVersion a" if "c \<in> set (admins p1)" "pa_id c = pa_id a" for c
  proof -
    have "c = ?g a" using mem that by blast
    then show ?thesis by (simp add: with_admin_password_def)
  qed
  ultimately have "outdated (pa_id a) (pa_authVersion a) p1" by (simp add: outdated_def)
  with assms(6) have "outdated (pa_id a) (pa_authVersion a) p2"
    by (induction rule: rtranclp_induct) (auto dest: outdated_step)
  then have no: "platform_canActivate verify_jwt h p2 \<noteq> (Inr c, p3)" for c p3
    using t(1,2) q by (auto simp: platform_canActivate_Inr outdated_def dest!: find_SomeD)
  then show ?thesis using platform_canActivate_state [of verify_jwt h p2]
    by (cases "platform_canActivate verify_jwt h p2"; cases "fst (platform_canActivate verify_jwt h p2)") auto
qed

section \<open>Suspension of a company\<close>

text \<open>The companies whose users may sign in, under distinct identifiers.\<close>

definition admitted :: "world \<Rightarrow> oid \<Rightarrow> bool" where
  "admitted w i \<longleftrightarrow> (\<exists>c \<in> set (companies w). c_id c = i \<and> c_activatedAt c \<noteq> None
     \<and> c_platformStatus c \<noteq> PLATFORM_SUSPENDED)"

lemma admitted_iff:
  assumes "distinct (map c_id (companies w))"
  shows "admitted w i \<longleftrightarrow> (\<exists>c. activated_company w i = Some c \<and> c_platformStatus c \<noteq> PLATFORM_SUSPENDED)"
proof
  assume "admitted w i"
  then obtain c where c: "c \<in> set (companies w)" "c_id c = i" "c_activatedAt c \<noteq> None"
    "c_platformStatus c \<noteq> PLATFORM_SUSPENDED" by (auto simp: admitted_def)
  then have "activated_company w i = Some c" unfolding activated_company_def
    using assms by (intro find_unique [where h = c_id]) auto
  then show "\<exists>c. activated_company w i = Some c \<and> c_platformStatus c \<noteq> PLATFORM_SUSPENDED" using c(4) by blast
next
  assume "\<exists>c. activated_company w i = Some c \<and> c_platformStatus c \<noteq> PLATFORM_SUSPENDED"
  then show "admitted w i" by (auto simp: admitted_def activated_company_def dest!: find_SomeD)
qed

lemma isAuth_admitted:
  assumes "distinct (map c_id (companies w))"
  shows "isAuth_canActivate vj h w = (Inr a, w') \<longleftrightarrow> w' = w \<and>
     (\<exists>t p u. bearer_token h = Some t \<and> vj t = Some p \<and> is_valid_id (tp_id p) \<and> tp_type p = None
       \<and> find (\<lambda>u. u_id u = id_value (tp_id p)) (users w) = Some u
       \<and> option_default 0 (tp_version p) = version_of u \<and> admitted w (u_companyId u)
       \<and> a = \<lparr>a_id = u_id u, a_companyId = u_companyId u, a_role = u_role u\<rparr>)"
  unfolding isAuth_Inr using admitted_iff [OF assms] by blast

lemma signIn_admitted:
  assumes "distinct (map c_id (companies w))" "signIn compare sign email pw w = (Inr t, w')"
  shows "\<exists>u. find (\<lambda>u. u_email u = email) (users w) = Some u \<and> admitted w (u_companyId u)"
proof -
  obtain u where u: "find (\<lambda>u. u_email u = email) (users w) = Some u" and s: "signToken sign u w = (Inr t, w')"
    using assms(2) by (auto simp: signIn_def Let_def action_simps split: option.splits if_splits)
  have "\<exists>c. activated_company w (u_companyId u) = Some c \<and> c_platformStatus c \<noteq> PLATFORM_SUSPENDED"
    using s by (auto simp: signToken_def assertTenantAccess_def action_simps split: option.splits if_splits)
  then show ?thesis using u admitted_iff [OF assms(1)] by blast
qed

text \<open>What a change of status means for who is admitted.\<close>

lemma status_admits:
  assumes d: "distinct (map c_id (companies (tenant_data p)))"
    and run: "changeCompanyStatus b i status reason now outcome p = (Inr x, p')"
  shows "distinct (map c_id (companies (tenant_data p')))" "users (tenant_data p') = users (tenant_data p)"
    "j \<noteq> i \<Longrightarrow> admitted (tenant_data p') j = admitted (tenant_data p) j"
    "admitted (tenant_data p') i \<longleftrightarrow> status \<noteq> PLATFORM_SUSPENDED
       \<and> (\<exists>c \<in> set (companies (tenant_data p)). c_id c = i \<and> c_activatedAt c \<noteq> None)"
    "\<exists>c \<in> set (companies (tenant_data p)). c_id c = i \<and> c_platformStatus c \<noteq> status"
    "(\<exists>c \<in> set (companies (tenant_data p')). c_id c = i \<and> c_activatedAt c \<noteq> None) \<longleftrightarrow>
       (\<exists>c \<in> set (companies (tenant_data p)). c_id c = i \<and> c_activatedAt c \<noteq> None)"
proof -
  obtain c cs where c: "c \<in> set (companies (tenant_data p))" "c_id c = i" "c_platformStatus c \<noteq> status"
    and mem: "\<And>e. e \<in> set (companies (tenant_data p')) \<longleftrightarrow>
         (e \<in> set (companies (tenant_data p)) \<and> c_id e \<noteq> i) \<or> e = with_status b status reason now c"
    and ids: "map c_id (companies (tenant_data p')) = map c_id (companies (tenant_data p))"
    and w: "tenant_data p' = (tenant_data p)\<lparr>companies := cs\<rparr>"
    using status_changes_one [OF d disjI1 [OF run]] by blast
  have only: "e = c" if "e \<in> set (companies (tenant_data p))" "c_id e = i" for e
    using key_unique [OF d that(1) c(1)] that(2) c(2) by simp
  have new: "c_id (with_status b status reason now c) = i" "c_activatedAt (with_status b status reason now c) = c_activatedAt c"
    "c_platformStatus (with_status b status reason now c) = status" using c(2) by (simp_all add: with_status_def)
  show "distinct (map c_id (companies (tenant_data p')))" using d ids by simp
  show "users (tenant_data p') = users (tenant_data p)" by (simp add: w)
  show "j \<noteq> i \<Longrightarrow> admitted (tenant_data p') j = admitted (tenant_data p) j"
    using mem new unfolding admitted_def by metis
  show "admitted (tenant_data p') i \<longleftrightarrow> status \<noteq> PLATFORM_SUSPENDED
       \<and> (\<exists>c \<in> set (companies (tenant_data p)). c_id c = i \<and> c_activatedAt c \<noteq> None)"
    using mem new c only unfolding admitted_def by metis
  show "\<exists>c \<in> set (companies (tenant_data p)). c_id c = i \<and> c_platformStatus c \<noteq> status" using c by blast
  show "(\<exists>c \<in> set (companies (tenant_data p')). c_id c = i \<and> c_activatedAt c \<noteq> None) \<longleftrightarrow>
       (\<exists>c \<in> set (companies (tenant_data p)). c_id c = i \<and> c_activatedAt c \<noteq> None)"
    using mem new c only by metis
qed

text \<open>Whom the tenants' guard lets through with a header.\<close>

definition passes :: "(string \<Rightarrow> token_payload option) \<Rightarrow> string option \<Rightarrow> world \<Rightarrow> actor \<Rightarrow> bool" where
  "passes verify_jwt h w a \<longleftrightarrow> fst (isAuth_canActivate verify_jwt h w) = Inr a"

definition identified :: "(string \<Rightarrow> token_payload option) \<Rightarrow> string option \<Rightarrow> user list \<Rightarrow> actor \<Rightarrow> bool" where
  "identified verify_jwt h us a \<longleftrightarrow> (\<exists>t p u. bearer_token h = Some t \<and> verify_jwt t = Some p \<and> is_valid_id (tp_id p)
     \<and> tp_type p = None \<and> find (\<lambda>u. u_id u = id_value (tp_id p)) us = Some u
     \<and> option_default 0 (tp_version p) = version_of u
     \<and> a = \<lparr>a_id = u_id u, a_companyId = u_companyId u, a_role = u_role u\<rparr>)"

lemma passes_iff:
  assumes "distinct (map c_id (companies w))"
  shows "passes verify_jwt h w a \<longleftrightarrow> identified verify_jwt h (users w) a \<and> admitted w (a_companyId a)"
proof -
  have "passes verify_jwt h w a \<longleftrightarrow> (\<exists>w'. isAuth_canActivate verify_jwt h w = (Inr a, w'))"
    unfolding passes_def by (metis fst_conv prod.collapse)
  also have "\<dots> \<longleftrightarrow> (\<exists>t p u. bearer_token h = Some t \<and> verify_jwt t = Some p \<and> is_valid_id (tp_id p) \<and> tp_type p = None
       \<and> find (\<lambda>u. u_id u = id_value (tp_id p)) (users w) = Some u
       \<and> option_default 0 (tp_version p) = version_of u \<and> admitted w (u_companyId u)
       \<and> a = \<lparr>a_id = u_id u, a_companyId = u_companyId u, a_role = u_role u\<rparr>)"
    unfolding isAuth_admitted [OF assms] by blast
  also have "\<dots> \<longleftrightarrow> identified verify_jwt h (users w) a \<and> admitted w (a_companyId a)"
  proof
    assume "identified verify_jwt h (users w) a \<and> admitted w (a_companyId a)"
    then obtain t p u where "bearer_token h = Some t" "verify_jwt t = Some p" "is_valid_id (tp_id p)" "tp_type p = None"
      "find (\<lambda>u. u_id u = id_value (tp_id p)) (users w) = Some u" "option_default 0 (tp_version p) = version_of u"
      "a = \<lparr>a_id = u_id u, a_companyId = u_companyId u, a_role = u_role u\<rparr>" "admitted w (a_companyId a)"
      unfolding identified_def by blast
    then show "\<exists>t p u. bearer_token h = Some t \<and> verify_jwt t = Some p \<and> is_valid_id (tp_id p) \<and> tp_type p = None
       \<and> find (\<lambda>u. u_id u = id_value (tp_id p)) (users w) = Some u
       \<and> option_default 0 (tp_version p) = version_of u \<and> admitted w (u_companyId u)
       \<and> a = \<lparr>a_id = u_id u, a_companyId = u_companyId u, a_role = u_role u\<rparr>" by simp
  next
    assume "\<exists>t p u. bearer_token h = Some t \<and> verify_jwt t = Some p \<and> is_valid_id (tp_id p) \<and> tp_type p = None
       \<and> find (\<lambda>u. u_id u = id_value (tp_id p)) (users w) = Some u
       \<and> option_default 0 (tp_version p) = version_of u \<and> admitted w (u_companyId u)
       \<and> a = \<lparr>a_id = u_id u, a_companyId = u_companyId u, a_role = u_role u\<rparr>"
    then show "identified verify_jwt h (users w) a \<and> admitted w (a_companyId a)"
      unfolding identified_def by (elim exE conjE) simp
  qed
  finally show ?thesis .
qed


section \<open>Signing in\<close>

text \<open>
  An administrator signs in with the right password only, every attempt is in the audit log
  before its answer is given, and the token of a sign-in passes the platform's guard. The answer
  for a wrong address, a wrong password and an inactive account is the same.\<close>

theorem admin_login_roundtrip:
  assumes "distinct (map pa_id (admins p))"
    and "\<forall>a \<in> set (admins p). verify_jwt (sign (admin_payload_of a)) = Some (admin_payload_of a)
       \<and> bearer_token (Some (''Bearer '' @ sign (admin_payload_of a))) = Some (sign (admin_payload_of a))"
    and "admin_login compare dummy sign recorded email password now p = (r, p')"
  shows "(case r of
      Inr t \<Rightarrow> (\<exists>a \<in> set (admins p). pa_email a = email \<and> compare password (pa_password a) \<and> pa_isActive a
        \<and> audits p' = audits p @ [audit_row LOGIN_SUCCEEDED (Some (pa_id a)) (Some (pa_id a)) (Some Target_Admin) now]
        \<and> platform_canActivate verify_jwt (Some (''Bearer '' @ t)) p' = (Inr (pa_id a), p'))
    | Inl e \<Rightarrow> (recorded \<and> e = http Unauthorized ''Invalid credentials''
          \<and> (\<exists>t. audits p' = audits p @ [t] \<and> at_action t = LOGIN_FAILED)
          \<and> (\<forall>a. find (\<lambda>a. pa_email a = email) (admins p) = Some a \<longrightarrow> \<not> (compare password (pa_password a) \<and> pa_isActive a)))
        \<or> (\<not> recorded \<and> p' = p \<and> e = http ServiceUnavailable ''Platform authentication temporarily unavailable''))
    \<and> admins p' = admins p"
proof (cases "recorded \<and> (\<exists>a. find (\<lambda>a. pa_email a = email) (admins p) = Some a
    \<and> compare password (pa_password a) \<and> pa_isActive a)")
  case False
  then show ?thesis using assms(3)
    by (auto simp: admin_login_def Let_def andthen_def gets_def record_audit_def modify_def throw_def login_audit_def
        active_admin_def split: option.splits if_splits)
next
  case True
  then obtain a where a: "find (\<lambda>a. pa_email a = email) (admins p) = Some a" "compare password (pa_password a)"
    "pa_isActive a" by blast
  note m = find_SomeD [OF a(1)]
  have id: "find (\<lambda>b. pa_id b = pa_id a) (admins p) = Some a"
    using assms(1) m by (intro find_unique [where h = pa_id]) auto
  have run: "r = Inr (sign (admin_payload_of a))"
    "p' = p\<lparr>audits := audits p @ [audit_row LOGIN_SUCCEEDED (Some (pa_id a)) (Some (pa_id a)) (Some Target_Admin) now]\<rparr>"
    using assms(3) True a
    by (auto simp: admin_login_def Let_def andthen_def gets_def record_audit_def modify_def return_def login_audit_def
        active_admin_def audit_row_def)
  have guard: "platform_canActivate verify_jwt (Some (''Bearer '' @ sign (admin_payload_of a))) p' = (Inr (pa_id a), p')"
    unfolding platform_canActivate_Inr using assms(2) m(1) a(3) id by (simp add: run(2) admin_payload_of_def)
  show ?thesis unfolding run(1) using m a guard by (auto simp: run(2) intro!: bexI [of _ a])
qed

end
