(* ===== verification/AdminViews.thy ===== *)
theory AdminViews
  imports Administration "HOL-Library.Option_ord" "HOL-Library.Sublist" "HOL-Library.Multiset"
begin

text \<open>
  What administrators see (\<open>admin/admin.service.ts\<close>): the dashboard's counts, a company in detail,
  and the listings of companies, users, files and audit entries with their filters, search, order and
  pages. The lowering of letters a search applies, the order of file names in the database and the
  timestamps of company documents are parameters.
\<close>

section \<open>The dashboard\<close>

record dashboard_view =
  db_generatedAt :: date
  db_total :: int
  db_activated :: int
  db_pendingActivation :: int
  db_suspended :: int
  db_byPlan :: "plan_code \<Rightarrow> int"
  db_missingSubscriptions :: int
  db_users :: int
  db_owners :: int
  db_members :: int
  db_pendingInvitations :: int
  db_files :: int
  db_companyWide :: int
  db_restricted :: int
  db_successfulUploads :: int
  db_recordedOverageCents :: int
  db_trackedCompanyPeriods :: int
  db_stripe :: "(int \<times> int) option"

text \<open>A payment needs attention when it is suspended, inconsistent, or not synchronised for a day.\<close>

definition payment_attention :: "date \<Rightarrow> subscription \<Rightarrow> bool" where
  "payment_attention now s \<longleftrightarrow> s_stripeManaged s \<and> (s_paymentAccess s = SUSPENDED
     \<or> s_paymentSyncIssue s \<noteq> SYNC_NONE \<or> option_default 0 (s_stripeSyncedAt s) < now - 86400000)"

definition with_subscription :: "world \<Rightarrow> (subscription \<Rightarrow> bool) \<Rightarrow> company \<Rightarrow> bool" where
  "with_subscription w q c = (case subscription_of w (c_id c) of None \<Rightarrow> False | Some s \<Rightarrow> q s)"

definition current_periods :: "world \<Rightarrow> date \<Rightarrow> subscription_period list" where
  "current_periods w now = filter (\<lambda>p. p_startsAt p \<le> now \<and> p_endsAt p > now) (periods w)"

definition dashboard_of :: "bool \<Rightarrow> date \<Rightarrow> world \<Rightarrow> dashboard_view" where
  "dashboard_of stripeEnabled now w =
     (let total = countDocuments (\<lambda>_. True) (companies w);
          activated = countDocuments (\<lambda>c. c_activatedAt c \<noteq> None) (companies w) in
      \<lparr>db_generatedAt = now, db_total = total, db_activated = activated,
       db_pendingActivation = total - activated,
       db_suspended = countDocuments (\<lambda>c. c_platformStatus c = PLATFORM_SUSPENDED) (companies w),
       db_byPlan = (\<lambda>code. countDocuments (with_subscription w (\<lambda>s. s_planCode s = code)) (companies w)),
       db_missingSubscriptions = countDocuments (\<lambda>c. subscription_of w (c_id c) = None) (companies w),
       db_users = countDocuments (\<lambda>_. True) (users w),
       db_owners = countDocuments (\<lambda>u. u_role u = COMPANY_OWNER) (users w),
       db_members = countDocuments (\<lambda>u. u_role u = COMPANY_MEMBER) (users w),
       db_pendingInvitations = countDocuments (\<lambda>i. i_status i = INV_PENDING \<and> i_expiresAt i > now) (invitations w),
       db_files = countDocuments (\<lambda>_. True) (files w),
       db_companyWide = countDocuments (\<lambda>f. option_default COMPANY_WIDE (f_visibility f) = COMPANY_WIDE) (files w),
       db_restricted = countDocuments (\<lambda>f. option_default COMPANY_WIDE (f_visibility f) = RESTRICTED) (files w),
       db_successfulUploads = sum_list (map p_uploadedFiles (current_periods w now)),
       db_recordedOverageCents = sum_list (map p_fileOverageCents (current_periods w now)),
       db_trackedCompanyPeriods = int (length (current_periods w now)),
       db_stripe = (if stripeEnabled
         then Some (countDocuments (with_subscription w s_stripeManaged) (companies w),
                    countDocuments (with_subscription w (payment_attention now)) (companies w))
         else None)\<rparr>)"

definition dashboard :: "bool \<Rightarrow> date \<Rightarrow> dashboard_view admin_handler" where
  "dashboard stripeEnabled now = gets (\<lambda>p. dashboard_of stripeEnabled now (tenant_data p))"

section \<open>A company in detail\<close>

record company_detail =
  cd_company :: company
  cd_owner :: "(oid \<times> string \<times> string option \<times> date) option"
  cd_accepted :: int
  cd_pendingInvitations :: int
  cd_files :: int
  cd_companyWide :: int
  cd_restricted :: int
  cd_subscription :: "(plan_code \<times> date \<times> date \<times> plan_code option \<times> date option) option"
  cd_billingEstimate :: "billing_summary option"
  cd_stripe :: "subscription option"
  cd_integrityWarnings :: "string list"

definition owner_of :: "world \<Rightarrow> oid \<Rightarrow> user option" where
  "owner_of w companyId = find (\<lambda>u. u_companyId u = companyId \<and> u_role u = COMPANY_OWNER) (users w)"

definition detail_of :: "world \<Rightarrow> date \<Rightarrow> company \<Rightarrow> billing_summary option \<Rightarrow> company_detail" where
  "detail_of w now c estimate =
     (let i = c_id c; owner = owner_of w i; subscription = subscription_of w i in
      \<lparr>cd_company = c,
       cd_owner = map_option (\<lambda>u. (u_id u, u_email u, u_fullName u, u_createdAt u)) owner,
       cd_accepted = employee_count w i, cd_pendingInvitations = pending_invitations w i now,
       cd_files = stored_files w i, cd_companyWide = company_wide_files w i, cd_restricted = restricted_files w i,
       cd_subscription = map_option (\<lambda>s. (s_planCode s, s_activatedAt s, s_planChangedAt s, s_pendingPlanCode s,
         s_pendingPlanAt s)) subscription,
       cd_billingEstimate = estimate,
       cd_stripe = (case subscription of None \<Rightarrow> None | Some s \<Rightarrow> if s_stripeManaged s then Some s else None),
       cd_integrityWarnings = (if owner = None then [''missing_owner''] else [])
         @ (if subscription = None then [''missing_subscription''] else [])\<rparr>)"

definition companyDetail :: "oid \<Rightarrow> date \<Rightarrow> company_detail admin_handler" where
  "companyDetail i now =
     andthen (gets tenant_data) (\<lambda>w.
     case find (\<lambda>c. c_id c = i) (companies w) of
       None \<Rightarrow> throw (http NotFound ''Company not found'')
     | Some c \<Rightarrow>
     andthen (if subscription_of w i = None then return None
       else andthen (in_tenants (getCurrent i now)) (\<lambda>current. return (Some (cu_billingSummary current)))) (\<lambda>estimate.
     return (detail_of w now c estimate)))"

section \<open>Listings\<close>

record admin_query =
  aq_page :: int
  aq_limit :: int
  aq_ascending :: bool
  aq_search :: "string option"

text \<open>Documents in the order of a key, then of their identifiers.\<close>

definition in_order :: "bool \<Rightarrow> ('a \<Rightarrow> 'k::linorder) \<Rightarrow> ('a \<Rightarrow> oid) \<Rightarrow> 'a list \<Rightarrow> 'a list" where
  "in_order ascending key i xs =
     (let ys = sort_key key (sort_key i xs) in if ascending then ys else rev ys)"

definition paged :: "admin_query \<Rightarrow> 'a list \<Rightarrow> error + ('a list \<times> int)" where
  "paged q rows =
     (if aq_page q < 1 \<or> aq_page q > 1000 \<or> aq_limit q < 1 \<or> aq_limit q > 100
      then Inl (http BadRequest ''Invalid admin pagination or sorting'')
      else Inr (take (nat (aq_limit q)) (drop (nat ((aq_page q - 1) * aq_limit q)) rows), int (length rows)))"

text \<open>A search finds the documents with a text in it, up to the case of letters; an empty one is none.\<close>

definition search_text :: "string option \<Rightarrow> error + string option" where
  "search_text s = (case s of
      None \<Rightarrow> Inr None
    | Some t \<Rightarrow> if t = [] then Inr None
        else if length t > 80 then Inl (http BadRequest ''Invalid search'') else Inr (Some t))"

definition found_in :: "(string \<Rightarrow> string) \<Rightarrow> string option \<Rightarrow> string \<Rightarrow> bool" where
  "found_in lowered s text = (case s of None \<Rightarrow> True | Some t \<Rightarrow> sublist (lowered t) (lowered text))"

definition asked_for :: "'a option \<Rightarrow> 'a \<Rightarrow> bool" where
  "asked_for wanted x = (case wanted of None \<Rightarrow> True | Some y \<Rightarrow> x = y)"

datatype company_sort = Company_CreatedAt | Company_Name | Company_UpdatedAt

record company_filter =
  fc_activated :: "bool option"
  fc_status :: "platform_status option"
  fc_plan :: "plan_code option"
  fc_paymentAccess :: "payment_access option"
  fc_stripeManaged :: "bool option"

definition company_matches :: "company_filter \<Rightarrow> company \<Rightarrow> subscription option \<Rightarrow> bool" where
  "company_matches f c s \<longleftrightarrow>
     asked_for (fc_activated f) (c_activatedAt c \<noteq> None) \<and> asked_for (fc_status f) (c_platformStatus c)
     \<and> (case fc_plan f of None \<Rightarrow> True | Some plan \<Rightarrow> map_option s_planCode s = Some plan)
     \<and> asked_for (fc_paymentAccess f) (case s of None \<Rightarrow> UNMANAGED | Some t \<Rightarrow> s_paymentAccess t)
     \<and> asked_for (fc_stripeManaged f) (case s of None \<Rightarrow> False | Some t \<Rightarrow> s_stripeManaged t)"

definition listCompanies :: "(string \<Rightarrow> string) \<Rightarrow> (oid \<Rightarrow> date) \<Rightarrow> (oid \<Rightarrow> date) \<Rightarrow> admin_query \<Rightarrow> company_sort
    \<Rightarrow> company_filter \<Rightarrow> ((company \<times> subscription option) list \<times> int) admin_handler" where
  "listCompanies lowered createdAt updatedAt q sortBy f =
     andthen (lift_result (search_text (aq_search q))) (\<lambda>s.
     andthen (gets (\<lambda>p. map (\<lambda>c. (c, subscription_of (tenant_data p) (c_id c)))
        (filter (\<lambda>c. found_in lowered s (c_name c)) (companies (tenant_data p))))) (\<lambda>joined.
     let rows = filter (\<lambda>(c, t). company_matches f c t) joined; i = (\<lambda>(c, t). c_id c) in
     lift_result (paged q (case sortBy of
         Company_CreatedAt \<Rightarrow> in_order (aq_ascending q) (\<lambda>(c, t). createdAt (c_id c)) i rows
       | Company_Name \<Rightarrow> in_order (aq_ascending q) (\<lambda>(c, t). c_name c) i rows
       | Company_UpdatedAt \<Rightarrow> in_order (aq_ascending q) (\<lambda>(c, t). updatedAt (c_id c)) i rows))))"

datatype user_sort = User_CreatedAt | User_Email | User_FullName

record user_item =
  ur_id :: oid
  ur_companyId :: oid
  ur_fullName :: "string option"
  ur_email :: string
  ur_role :: role
  ur_createdAt :: date

definition user_row :: "user \<Rightarrow> user_item" where
  "user_row u = \<lparr>ur_id = u_id u, ur_companyId = u_companyId u, ur_fullName = u_fullName u, ur_email = u_email u,
     ur_role = u_role u, ur_createdAt = u_createdAt u\<rparr>"

definition found_user :: "(string \<Rightarrow> string) \<Rightarrow> string option \<Rightarrow> user \<Rightarrow> bool" where
  "found_user lowered s u \<longleftrightarrow> found_in lowered s (u_email u)
     \<or> (case u_fullName u of None \<Rightarrow> False | Some n \<Rightarrow> found_in lowered s n)"

definition listUsers :: "(string \<Rightarrow> string) \<Rightarrow> admin_query \<Rightarrow> user_sort \<Rightarrow> oid option \<Rightarrow> role option
    \<Rightarrow> (user_item list \<times> int) admin_handler" where
  "listUsers lowered q sortBy companyId role =
     andthen (lift_result (search_text (aq_search q))) (\<lambda>s.
     andthen (gets (\<lambda>p. filter (\<lambda>u. asked_for companyId (u_companyId u) \<and> asked_for role (u_role u)
        \<and> found_user lowered s u) (users (tenant_data p)))) (\<lambda>rows.
     andthen (lift_result (paged q (case sortBy of
         User_CreatedAt \<Rightarrow> in_order (aq_ascending q) u_createdAt u_id rows
       | User_Email \<Rightarrow> in_order (aq_ascending q) u_email u_id rows
       | User_FullName \<Rightarrow> in_order (aq_ascending q) u_fullName u_id rows))) (\<lambda>(items, total).
     return (map user_row items, total))))"

datatype file_sort = File_CreatedAt | File_Name | File_Size

record file_item =
  fr_id :: oid
  fr_companyId :: oid
  fr_uploaderId :: oid
  fr_originalFilename :: js_string
  fr_fileType :: file_type
  fr_mimeType :: string
  fr_size :: int
  fr_createdAt :: date
  fr_visibility :: file_visibility
  fr_restrictedUserIds :: "oid list"
  fr_uploader :: "(oid \<times> string option \<times> string) option"
  fr_company :: "(oid \<times> string) option"

text \<open>A reference to a user of another company does not disclose who it is.\<close>

definition uploader_of :: "world \<Rightarrow> company_file \<Rightarrow> user option" where
  "uploader_of w f = (case find (\<lambda>u. u_id u = f_uploaderId f) (users w) of
      None \<Rightarrow> None
    | Some u \<Rightarrow> if u_companyId u = f_companyId f then Some u else None)"

definition file_row :: "world \<Rightarrow> company_file \<Rightarrow> file_item" where
  "file_row w f = \<lparr>fr_id = f_id f, fr_companyId = f_companyId f, fr_uploaderId = f_uploaderId f,
     fr_originalFilename = f_originalFilename f, fr_fileType = f_fileType f, fr_mimeType = f_mimeType f,
     fr_size = f_size f, fr_createdAt = f_createdAt f,
     fr_visibility = option_default COMPANY_WIDE (f_visibility f), fr_restrictedUserIds = f_restrictedUserIds f,
     fr_uploader = map_option (\<lambda>u. (u_id u, u_fullName u, u_email u)) (uploader_of w f),
     fr_company = map_option (\<lambda>c. (c_id c, c_name c)) (find (\<lambda>c. c_id c = f_companyId f) (companies w))\<rparr>"

record file_filter =
  ff_companyId :: "oid option"
  ff_userId :: "oid option"
  ff_fileType :: "file_type option"
  ff_visibility :: "file_visibility option"
  ff_uploaderSearch :: "string option"

definition file_matches :: "(string \<Rightarrow> string) \<Rightarrow> (js_string \<Rightarrow> string) \<Rightarrow> string option \<Rightarrow> string option \<Rightarrow> file_filter
    \<Rightarrow> world \<Rightarrow> company_file \<Rightarrow> bool" where
  "file_matches lowered encode s uploader f w x \<longleftrightarrow>
     asked_for (ff_companyId f) (f_companyId x) \<and> asked_for (ff_userId f) (f_uploaderId x)
     \<and> found_in lowered s (encode (f_originalFilename x)) \<and> asked_for (ff_fileType f) (f_fileType x)
     \<and> asked_for (ff_visibility f) (option_default COMPANY_WIDE (f_visibility x))
     \<and> (uploader = None \<or> (case uploader_of w x of None \<Rightarrow> False | Some u \<Rightarrow> found_user lowered uploader u))"

definition file_order :: "(js_string \<Rightarrow> string) \<Rightarrow> bool \<Rightarrow> file_sort \<Rightarrow> company_file list \<Rightarrow> company_file list" where
  "file_order encode ascending sortBy rows = (case sortBy of
       File_CreatedAt \<Rightarrow> in_order ascending f_createdAt f_id rows
     | File_Name \<Rightarrow> in_order ascending (\<lambda>x. encode (f_originalFilename x)) f_id rows
     | File_Size \<Rightarrow> in_order ascending f_size f_id rows)"

definition listFiles :: "(string \<Rightarrow> string) \<Rightarrow> (js_string \<Rightarrow> string) \<Rightarrow> admin_query \<Rightarrow> file_sort \<Rightarrow> file_filter
    \<Rightarrow> (file_item list \<times> int) admin_handler" where
  "listFiles lowered encode q sortBy f =
     andthen (lift_result (search_text (aq_search q))) (\<lambda>s.
     andthen (lift_result (search_text (ff_uploaderSearch f))) (\<lambda>uploader.
     andthen (gets (\<lambda>p. filter (file_matches lowered encode s uploader f (tenant_data p)) (files (tenant_data p)))) (\<lambda>rows.
     andthen (lift_result (paged q (file_order encode (aq_ascending q) sortBy rows))) (\<lambda>(items, total).
     gets (\<lambda>p. (map (file_row (tenant_data p)) items, total))))))"

text \<open>The entries of the log are ordered by time; of one time, by their place in the log.\<close>

definition listAudit :: "admin_query \<Rightarrow> audit_action option \<Rightarrow> oid option \<Rightarrow> oid option \<Rightarrow> (audit list \<times> int) admin_handler" where
  "listAudit q action actorId targetId =
     andthen (gets (\<lambda>p. filter (\<lambda>t. asked_for action (at_action t)
        \<and> (actorId = None \<or> at_actorId t = actorId) \<and> (targetId = None \<or> at_targetId t = targetId)) (audits p))) (\<lambda>rows.
     let ys = sort_key at_createdAt rows in
     lift_result (paged q (if aq_ascending q then ys else rev ys)))"

section \<open>What the listings promise\<close>

lemma in_order_mset [simp]: "mset (in_order ascending key i xs) = mset xs"
  by (simp add: in_order_def Let_def)

lemma in_order_length [simp]: "length (in_order ascending key i xs) = length xs"
  by (metis in_order_mset size_mset)

lemma pages_take: "concat (map (\<lambda>k. take m (drop (k * m) xs)) [0..<n]) = take (n * m) xs"
proof (induction n)
  case (Suc n)
  then show ?case by (simp add: take_add add.commute [of m])
qed simp

lemma file_order_mset [simp]: "mset (file_order encode ascending sortBy rows) = mset rows"
  by (cases sortBy) (simp_all add: file_order_def)

lemma file_order_length [simp]: "length (file_order encode ascending sortBy rows) = length rows"
  by (cases sortBy) (simp_all add: file_order_def)

lemma listFiles_result:
  "fst (listFiles lowered encode q sortBy f p) = result_bind (search_text (aq_search q)) (\<lambda>s.
     result_bind (search_text (ff_uploaderSearch f)) (\<lambda>u.
     result_bind (paged q (file_order encode (aq_ascending q) sortBy
       (filter (file_matches lowered encode s u f (tenant_data p)) (files (tenant_data p))))) (\<lambda>(items, n).
     Inr (map (file_row (tenant_data p)) items, n))))"
  by (auto simp: listFiles_def action_eval split: sum.splits)

lemma paged_page:
  assumes "1 \<le> aq_page q" "aq_page q \<le> 1000" "1 \<le> aq_limit q" "aq_limit q \<le> 100"
  shows "paged q rows = Inr (take (nat (aq_limit q)) (drop (nat ((aq_page q - 1) * aq_limit q)) rows), int (length rows))"
  using assms by (simp add: paged_def)

lemma paged_subset:
  assumes "paged q rows = Inr (items, n)"
  shows "set items \<subseteq> set rows"
  using assms by (auto simp: paged_def split: if_splits dest!: in_set_takeD in_set_dropD)

text \<open>
  Walking through the pages of the administrators' file listing shows every file the filter
  selects exactly once, whatever the order asked for.
\<close>
theorem file_pages_complete:
  assumes q: "search_text (aq_search q) = Inr s" "search_text (ff_uploaderSearch f) = Inr u"
    and limit: "1 \<le> aq_limit q" "aq_limit q \<le> 100" and n: "n \<le> 1000"
    and rows: "rows = filter (file_matches lowered encode s u f (tenant_data p)) (files (tenant_data p))"
    and enough: "length rows \<le> n * nat (aq_limit q)"
  shows "mset (concat (map (\<lambda>k. fst (projr (fst
      (listFiles lowered encode (q\<lparr>aq_page := int k + 1\<rparr>) sortBy f p)))) [0..<n])) = mset (map (file_row (tenant_data p)) rows)"
proof -
  let ?m = "nat (aq_limit q)" and ?o = "file_order encode (aq_ascending q) sortBy rows"
  let ?row = "file_row (tenant_data p)"
  have page: "fst (projr (fst (listFiles lowered encode (q\<lparr>aq_page := int k + 1\<rparr>) sortBy f p))) =
      map ?row (take ?m (drop (k * ?m) ?o))" if "k < n" for k
  proof -
    have "nat (int k * aq_limit q) = k * ?m" using limit by (simp add: nat_mult_distrib)
    then show ?thesis using that q limit n rows by (simp add: listFiles_result paged_page)
  qed
  have "concat (map (\<lambda>k. fst (projr (fst (listFiles lowered encode (q\<lparr>aq_page := int k + 1\<rparr>) sortBy f p)))) [0..<n]) =
      concat (map (\<lambda>k. map ?row (take ?m (drop (k * ?m) ?o))) [0..<n])"
    by (intro arg_cong [where f = concat] map_cong) (simp_all add: page)
  also have "\<dots> = map ?row (concat (map (\<lambda>k. take ?m (drop (k * ?m) ?o)) [0..<n]))"
    by (simp add: map_concat comp_def)
  also have "\<dots> = map ?row ?o" using enough by (simp add: pages_take)
  finally show ?thesis by (simp)
qed

text \<open>Two databases alike in what belongs to one company.\<close>

definition same_for_company :: "oid \<Rightarrow> world \<Rightarrow> world \<Rightarrow> bool" where
  "same_for_company c w v \<longleftrightarrow> filter (\<lambda>f. f_companyId f = c) (files w) = filter (\<lambda>f. f_companyId f = c) (files v)
     \<and> filter (\<lambda>u. u_companyId u = c) (users w) = filter (\<lambda>u. u_companyId u = c) (users v)
     \<and> find (\<lambda>x. c_id x = c) (companies w) = find (\<lambda>x. c_id x = c) (companies v)"

lemma uploader_of_filter:
  assumes "distinct (map u_id (users w))"
  shows "uploader_of w f = find (\<lambda>u. u_id u = f_uploaderId f) (filter (\<lambda>u. u_companyId u = f_companyId f) (users w))"
  unfolding uploader_of_def using assms
proof (induction "users w" arbitrary: w)
  case (Cons a us)
  have "users w = a # us" using Cons.hyps(2) by simp
  moreover have "uploader_of (w\<lparr>users := us\<rparr>) f =
      find (\<lambda>u. u_id u = f_uploaderId f) (filter (\<lambda>u. u_companyId u = f_companyId f) us)"
    using Cons.hyps(1) [of "w\<lparr>users := us\<rparr>"] Cons.prems Cons.hyps(2) [symmetric] by (simp add: uploader_of_def)
  moreover have "find (\<lambda>u. u_id u = f_uploaderId f) (filter (\<lambda>u. u_companyId u = f_companyId f) us) = None"
    if "u_id a = f_uploaderId f"
    using that Cons.prems Cons.hyps(2) [symmetric] by (auto simp: find_None_iff image_iff)
  ultimately show ?case by (simp add: uploader_of_def)
qed simp

lemma same_uploader:
  assumes "same_for_company (f_companyId f) w v" "distinct (map u_id (users w))" "distinct (map u_id (users v))"
  shows "uploader_of w f = uploader_of v f"
  using assms by (simp add: uploader_of_filter same_for_company_def)

text \<open>
  The file listing of one company depends on that company's own files and users only: whatever
  identities other companies' users have, and whatever files those companies keep, neither the rows
  (with the uploaders they name) nor the search by uploader reveals them, not even for a file whose
  stored uploader belongs to another company.
\<close>
theorem file_listing_isolated:
  assumes same: "same_for_company c (tenant_data p) (tenant_data r)"
    and ids: "distinct (map u_id (users (tenant_data p)))" "distinct (map u_id (users (tenant_data r)))"
    and one: "ff_companyId f = Some c"
  shows "fst (listFiles lowered encode q sortBy f p) = fst (listFiles lowered encode q sortBy f r)"
proof -
  let ?w = "tenant_data p" and ?v = "tenant_data r"
  let ?own = "\<lambda>x. f_companyId x = c"
  have own: "uploader_of ?w x = uploader_of ?v x" "file_row ?w x = file_row ?v x" if "?own x" for x
    using same_uploader [of x ?w ?v] that same ids by (simp_all add: file_row_def same_for_company_def)
  have rows: "filter (file_matches lowered encode s u f ?w) (files ?w) = filter (file_matches lowered encode s u f ?v) (files ?v)"
    (is "filter ?a _ = filter ?b _") for s u
  proof -
    have "filter ?a (files ?w) = filter ?a (filter ?own (files ?w))"
      by (auto simp: file_matches_def asked_for_def one intro: filter_cong)
    also have "\<dots> = filter ?b (filter ?own (files ?v))"
      using same by (auto simp: same_for_company_def file_matches_def own intro: filter_cong)
    also have "\<dots> = filter ?b (files ?v)"
      by (auto simp: file_matches_def asked_for_def one intro: filter_cong)
    finally show ?thesis .
  qed
  have shown: "map (file_row ?w) items = map (file_row ?v) items"
    if "paged q (file_order encode (aq_ascending q) sortBy (filter (file_matches lowered encode s u f ?v) (files ?v))) =
      Inr (items, n)" for s u items n
    using paged_subset [OF that] own(2)
    by (auto simp: mset_eq_setD [OF file_order_mset] file_matches_def asked_for_def one subset_iff)
  show ?thesis unfolding listFiles_result rows
    by (auto simp: result_bind_def shown split: sum.splits)
qed

end
