(* ===== verification/AdminExamples.thy ===== *)
theory AdminExamples
  imports AdminSafety AdminViews Files
begin

text \<open>
  The promises of the administrators' part at work: the bootstrap command makes the first
  administrator, who approves a request; its link makes the second; a company is suspended and
  reactivated; a password is reset. Hashes are the texts themselves.
\<close>

section \<open>From the bootstrap to a second administrator\<close>

definition operations_company :: company where
  "operations_company = \<lparr>c_id = 7, c_name = ''Acme'', c_country = ''DE'', c_industry = ''IT'', c_activatedAt = Some 0,
     c_platformStatus = PLATFORM_ACTIVE, c_platformStatusReason = None, c_platformStatusChangedAt = None,
     c_platformStatusChangedBy = None, c_guardScanFence = 0\<rparr>"

definition new_platform :: platform where
  "new_platform = \<lparr>tenant_data = empty_world\<lparr>companies := [operations_company]\<rparr>, admins = [], accessRequests = [],
     audits = [], adminOutbox = []\<rparr>"

definition first_config :: bootstrap_config where
  "first_config = \<lparr>bc_email = Some (units ''a@b.c''), bc_password = Some (units ''Passw0rd!Passw''),
     bc_fullName = Some (units ''Ada'')\<rparr>"

definition first_env :: command_env where
  "first_env = \<lparr>ce_indexed = True, ce_queried = True, ce_requeried = True, ce_hashed = True, ce_commit = Committed,
     ce_newId = 1, ce_now = 0\<rparr>"

definition stored_password :: "js_string \<Rightarrow> string" where
  "stored_password p = map char_of p"

definition booted :: platform where
  "booted = snd (bootstrap_run id (\<lambda>_. True) stored_password first_env first_config new_platform)"

definition asked_platform :: platform where
  "asked_platform = snd (request_access id ''P'' ''v'' True True 10 (units ''d@b.c'') (units ''Dan'') None 100 Committed booted)"

definition verified_platform :: platform where
  "verified_platform = snd (verify_request id ''P'' (\<lambda>_. True) True ''v'' 200 Committed asked_platform)"

definition approved_platform :: platform where
  "approved_platform = snd (decide id ''P'' ''s'' True 1 10 True 300 Committed verified_platform)"

definition grown_platform :: platform where
  "grown_platform = snd (setup_admin id stored_password 2 ''s'' (units ''Another0ne!x'') 400 Committed approved_platform)"

definition admin_jwt :: "string \<Rightarrow> admin_payload option" where
  "admin_jwt t = (if t = ''jwt'' then Some \<lparr>ap_sub = Valid_Id 1, ap_type = PLATFORM_ADMIN_TOKEN_TYPE, ap_version = Some 0\<rparr>
     else None)"

lemma new_platform_ok: "platform_ok new_platform" "status_ok new_platform"
  by (simp_all add: platform_ok_def status_ok_def new_platform_def operations_company_def logged_status_def)

lemma first_guard: "platform_canActivate admin_jwt (bearer ''jwt'') verified_platform = (Inr 1, verified_platform)"
proof -
  have "fst (platform_canActivate admin_jwt (bearer ''jwt'') verified_platform) = Inr 1" by code_simp
  then show ?thesis using platform_canActivate_state by (metis prod.collapse)
qed

lemma grown_run: "(\<lambda>p p'. \<exists>k. admin_step id k p p')\<^sup>*\<^sup>* new_platform grown_platform"
proof -
  have other: "\<exists>k. (t::string) \<noteq> k" for t by (metis neq_Nil_conv)
  have one: "\<exists>k. admin_step id k new_platform booted"
    using bootstrapped [of id "\<lambda>_. True" stored_password first_env first_config new_platform _ booted]
    unfolding booted_def by (metis first_env_def new_platform_def empty_iff empty_set image_empty platform.select_convs(2) prod.collapse)
  have "10 \<notin> rq_id ` set (accessRequests booted)" by code_simp
  then have two: "\<exists>k. admin_step id k booted asked_platform"
    using requested [of id "''P''" "''v''"] other [of "id ''v''"] unfolding asked_platform_def by (metis prod.collapse)
  have three: "\<exists>k. admin_step id k asked_platform verified_platform"
    using verified unfolding verified_platform_def by (metis prod.collapse)
  have four: "\<exists>k. admin_step id k verified_platform approved_platform"
    using reviewed [OF _ first_guard] other [of "id ''s''"] unfolding approved_platform_def by (metis prod.collapse)
  have "2 \<notin> pa_id ` set (admins approved_platform)" by code_simp
  then have five: "\<exists>k. admin_step id k approved_platform grown_platform"
    using set_up unfolding grown_platform_def by (metis prod.collapse)
  note then' = converse_rtranclp_into_rtranclp [where r = "\<lambda>p p'. \<exists>k. admin_step id k p p'"]
  show ?thesis by (rule then' [OF one then' [OF two then' [OF three then' [OF four then' [OF five rtranclp.rtrancl_refl]]]]])
qed

theorem administrators_accounted_for_witness:
  "platform_ok grown_platform \<and> map pa_id (admins grown_platform) = [1, 2]"
proof -
  have "map pa_id (admins grown_platform) = [1, 2]" by code_simp
  then show ?thesis using administrators_accounted_for [OF grown_run new_platform_ok(1)] by simp
qed


lemma approved_unique: "setup_unique approved_platform"
proof -
  have "map rq_id (accessRequests approved_platform) = [10]" by code_simp
  then obtain r where "accessRequests approved_platform = [r]" by auto
  then show ?thesis by (simp add: setup_unique_def)
qed

theorem setup_link_once_witness:
  "\<exists>e. setup_admin id stored_password 3 ''s'' (units ''Yet4nother!xx'') 401 Committed grown_platform = (Inl e, grown_platform)"
proof -
  have "\<not> isl (fst (setup_admin id stored_password 2 ''s'' (units ''Another0ne!x'') 400 Committed approved_platform))"
    by code_simp
  from InrI [OF this, folded grown_platform_def]
  show ?thesis using setup_link_once [OF approved_unique] by (metis id_apply rtranclp.rtrancl_refl)
qed

section \<open>Sessions\<close>

definition example_attempt :: "(error + string) \<times> platform" where
  "example_attempt = admin_login (\<lambda>pw h. stored_password pw = h) [] (\<lambda>_. ''jwt'') True
     (units ''a@b.c'') (units ''Passw0rd!Passw'') 5 booted"

theorem admin_login_roundtrip_witness:
  "\<exists>t p'. example_attempt = (Inr t, p') \<and> platform_canActivate admin_jwt (Some (''Bearer '' @ t)) p' = (Inr 1, p')"
proof -
  have ids: "map pa_id (admins booted) = [1]" by code_simp
  then obtain a where a: "admins booted = [a]" "pa_id a = 1" by auto
  have "map pa_authVersion (admins booted) = [0]" by code_simp
  then have v: "admin_jwt ''jwt'' = Some (admin_payload_of a)" using a by (simp add: admin_jwt_def admin_payload_of_def)
  have b: "bearer_token (Some (''Bearer '' @ ''jwt'')) = Some ''jwt''" by code_simp
  have "\<not> isl (fst example_attempt)" by code_simp
  then obtain t p' where r: "example_attempt = (Inr t, p')" using InrI by blast
  have "distinct (map pa_id (admins booted))" using ids by simp
  moreover have "\<forall>a \<in> set (admins booted). admin_jwt ''jwt'' = Some (admin_payload_of a)
      \<and> bearer_token (Some (''Bearer '' @ ''jwt'')) = Some ''jwt''" using a v b by simp
  ultimately show ?thesis
    using admin_login_roundtrip [of booted admin_jwt "\<lambda>_. ''jwt''", OF _ _ r [unfolded example_attempt_def]] a r
    by auto
qed

definition recovering_platform :: platform where
  "recovering_platform = snd (admin_forgotPassword id ''P'' ''r'' True True (units ''a@b.c'') 100000 booted)"

definition example_reset :: "(error + bool) \<times> platform" where
  "example_reset = admin_resetPassword id stored_password ''r'' (units ''N3w!Passwordx'') 100001 Committed recovering_platform"

theorem admin_reset_ends_sessions_witness:
  "\<exists>e p1. example_reset = (Inr True, p1) \<and> platform_canActivate admin_jwt (bearer ''jwt'') p1 = (Inl e, p1)"
proof -
  have "map pa_id (admins recovering_platform) = [1]" by code_simp
  then obtain a where a: "admins recovering_platform = [a]" "pa_id a = 1" by auto
  have "fst (platform_canActivate admin_jwt (bearer ''jwt'') recovering_platform) = Inr 1" by code_simp
  then have g: "platform_canActivate admin_jwt (bearer ''jwt'') recovering_platform = (Inr (pa_id a), recovering_platform)"
    using platform_canActivate_state a(2) by (metis prod.collapse)
  have "fst example_reset = Inr True" by code_simp
  then obtain p1 where r: "example_reset = (Inr True, p1)" by (metis prod.collapse)
  have "\<exists>e. platform_canActivate admin_jwt (bearer ''jwt'') p1 = (Inl e, p1)"
    by (rule admin_reset_ends_sessions [OF _ _ _ g r [unfolded example_reset_def] rtranclp.rtrancl_refl])
      (simp_all add: a)
  then show ?thesis using r by blast
qed

section \<open>A suspension\<close>

definition staffed_platform :: platform where
  "staffed_platform = new_platform\<lparr>tenant_data := (tenant_data new_platform)\<lparr>users :=
     [\<lparr>u_id = 2, u_email = ''m@x.y'', u_fullName = None, u_password = None,
       u_passwordResetTokenHash = None, u_passwordResetExpiresAt = None, u_passwordResetRequestedAt = None,
       u_authVersion = None, u_companyId = 7, u_role = COMPANY_MEMBER, u_avatar = None,
       u_guardScanFence = 0, u_createdAt = 5\<rparr>]\<rparr>\<rparr>"

definition member_jwt :: "string \<Rightarrow> token_payload option" where
  "member_jwt t = (if t = ''jwt'' then Some \<lparr>tp_id = Valid_Id 2, tp_type = None, tp_version = Some 0\<rparr> else None)"

definition staff_member :: actor where
  "staff_member = \<lparr>a_id = 2, a_companyId = 7, a_role = COMPANY_MEMBER\<rparr>"

definition suspended_platform :: platform where
  "suspended_platform = snd (suspend 1 7 SECURITY_REVIEW 10 Committed staffed_platform)"

definition reactivated_platform :: platform where
  "reactivated_platform = snd (reactivate 1 7 20 Committed suspended_platform)"


section \<open>Listings\<close>

text \<open>A file of company 7 whose stored uploader belongs to company 8, and one of its own.\<close>

definition listed_user :: "oid \<Rightarrow> string \<Rightarrow> user" where
  "listed_user companyId email = \<lparr>u_id = 2, u_email = email, u_fullName = None, u_password = None,
     u_passwordResetTokenHash = None, u_passwordResetExpiresAt = None, u_passwordResetRequestedAt = None,
     u_authVersion = None, u_companyId = companyId, u_role = COMPANY_MEMBER, u_avatar = None, u_guardScanFence = 0,
     u_createdAt = 0\<rparr>"

definition listed_platform :: "oid \<Rightarrow> string \<Rightarrow> platform" where
  "listed_platform companyId email = new_platform\<lparr>tenant_data := empty_world\<lparr>
     files := [example_file, example_file\<lparr>f_id := 6, f_createdAt := 4\<rparr>], users := [listed_user companyId email]\<rparr>\<rparr>"

definition small_pages :: admin_query where
  "small_pages = \<lparr>aq_page = 1, aq_limit = 1, aq_ascending = True, aq_search = None\<rparr>"

definition by_uploader :: "oid option \<Rightarrow> string option \<Rightarrow> file_filter" where
  "by_uploader companyId uploader = \<lparr>ff_companyId = companyId, ff_userId = None, ff_fileType = None, ff_visibility = None,
     ff_uploaderSearch = uploader\<rparr>"

theorem file_pages_complete_witness:
  "mset (concat (map (\<lambda>k. fst (projr (fst (listFiles id (map char_of) (small_pages\<lparr>aq_page := int k + 1\<rparr>) File_CreatedAt
      (by_uploader None None) (listed_platform 7 ''m'')))) ) [0..<2])) =
   mset (map (file_row (tenant_data (listed_platform 7 ''m''))) (files (tenant_data (listed_platform 7 ''m''))))"
proof -
  let ?p = "listed_platform 7 ''m''"
  have rows: "files (tenant_data ?p) =
      filter (file_matches id (map char_of) None None (by_uploader None None) (tenant_data ?p)) (files (tenant_data ?p))"
    by (simp add: file_matches_def asked_for_def by_uploader_def found_in_def)
  show ?thesis
    by (rule file_pages_complete [OF _ _ _ _ _ rows])
      (simp_all add: small_pages_def by_uploader_def search_text_def listed_platform_def)
qed

theorem file_listing_isolated_witness:
  "fst (listFiles id (map char_of) small_pages File_Name (by_uploader (Some 7) (Some ''m'')) (listed_platform 8 ''m'')) =
   fst (listFiles id (map char_of) small_pages File_Name (by_uploader (Some 7) (Some ''m'')) (listed_platform 9 ''secret''))"
  by (rule file_listing_isolated)
    (simp_all add: same_for_company_def listed_platform_def listed_user_def by_uploader_def)

end
