(* ===== verification/Patterns.thy ===== *)
theory Patterns
  imports FileValidation
begin

text \<open>
  The regular expressions of the language, as far as the program uses them: a backtracking matcher
  that yields the ways to match at a position, the preferred one first. A position is the text
  before it, reversed, and the text after it. Characters are the elements of the list - UTF-16 code
  units, or code points where an expression has the flag \<open>u\<close>.
\<close>

type_synonym position = "nat list \<times> nat list"

datatype pattern =
    P_Empty
  | P_Class "nat \<Rightarrow> bool"
  | P_Then pattern pattern
  | P_Or pattern pattern
  | P_Repeat nat "nat option" pattern
  | P_Start | P_End | P_Boundary
  | P_Not_Ahead pattern

section \<open>Matching\<close>

text \<open>A greedy repetition. Beyond the required number, a repetition that reads nothing is not tried.\<close>

primrec repeated :: "(position \<Rightarrow> position list) \<Rightarrow> nat \<Rightarrow> nat \<Rightarrow> position \<Rightarrow> position list" where
  "repeated f m 0 s = (if m = 0 then [s] else [])"
| "repeated f m (Suc n) s =
     concat (map (repeated f (m - 1) n)
       (filter (\<lambda>t. m > 0 \<or> length (snd t) < length (snd s)) (f s))) @ (if m = 0 then [s] else [])"

definition word_char :: "nat \<Rightarrow> bool" where
  "word_char c \<longleftrightarrow> (48 \<le> c \<and> c \<le> 57) \<or> (65 \<le> c \<and> c \<le> 90) \<or> (97 \<le> c \<and> c \<le> 122) \<or> c = 95"

definition starts_word :: "nat list \<Rightarrow> bool" where
  "starts_word s = (case s of [] \<Rightarrow> False | c # _ \<Rightarrow> word_char c)"

primrec matches :: "pattern \<Rightarrow> position \<Rightarrow> position list" where
  "matches P_Empty = (\<lambda>s. [s])"
| "matches (P_Class f) = (\<lambda>s. case snd s of [] \<Rightarrow> [] | c # r \<Rightarrow> if f c then [(c # fst s, r)] else [])"
| "matches (P_Then p q) = (\<lambda>s. concat (map (matches q) (matches p s)))"
| "matches (P_Or p q) = (\<lambda>s. matches p s @ matches q s)"
| "matches (P_Repeat m n p) = (\<lambda>s. repeated (matches p) m
     (case n of None \<Rightarrow> m + length (snd s) | Some k \<Rightarrow> k) s)"
| "matches P_Start = (\<lambda>s. if fst s = [] then [s] else [])"
| "matches P_End = (\<lambda>s. if snd s = [] then [s] else [])"
| "matches P_Boundary = (\<lambda>s. if starts_word (fst s) \<noteq> starts_word (snd s) then [s] else [])"
| "matches (P_Not_Ahead p) = (\<lambda>s. if matches p s = [] then [s] else [])"

text \<open>\<open>test\<close>: the expression matches somewhere.\<close>

fun test_from :: "pattern \<Rightarrow> nat list \<Rightarrow> nat list \<Rightarrow> bool" where
  "test_from p before [] \<longleftrightarrow> matches p (before, []) \<noteq> []"
| "test_from p before (c # r) \<longleftrightarrow> matches p (before, c # r) \<noteq> [] \<or> test_from p (c # before) r"

definition test :: "pattern \<Rightarrow> nat list \<Rightarrow> bool" where
  "test p s = test_from p [] s"

text \<open>\<open>match\<close> with the flag \<open>g\<close>: the texts matched, from left to right.\<close>

function all_matches :: "pattern \<Rightarrow> position \<Rightarrow> nat list list" where
  "all_matches p s =
     (case matches p s of
        t # _ \<Rightarrow>
          if length (snd t) < length (snd s)
          then take (length (snd s) - length (snd t)) (snd s) # all_matches p t
          else [] # (case snd s of [] \<Rightarrow> [] | c # r \<Rightarrow> all_matches p (c # fst s, r))
      | [] \<Rightarrow> (case snd s of [] \<Rightarrow> [] | c # r \<Rightarrow> all_matches p (c # fst s, r)))"
  by pat_completeness auto

termination
  by (relation "measure (\<lambda>(p, s). length (snd s))") auto

declare all_matches.simps [simp del]

section \<open>Writing expressions\<close>

definition p_char :: "nat \<Rightarrow> pattern" where
  "p_char c = P_Class (\<lambda>d. d = c)"

fun p_seq :: "pattern list \<Rightarrow> pattern" where
  "p_seq [] = P_Empty"
| "p_seq [p] = p"
| "p_seq (p # ps) = P_Then p (p_seq ps)"

fun p_any :: "pattern list \<Rightarrow> pattern" where
  "p_any [] = P_Class (\<lambda>_. False)"
| "p_any [p] = p"
| "p_any (p # ps) = P_Or p (p_any ps)"

definition p_text :: "string \<Rightarrow> pattern" where
  "p_text s = p_seq (map p_char (units s))"

definition p_set :: "string \<Rightarrow> pattern" where
  "p_set s = P_Class (\<lambda>c. c \<in> set (units s))"

definition p_optional :: "pattern \<Rightarrow> pattern" where
  "p_optional = P_Repeat 0 (Some 1)"

definition p_star :: "pattern \<Rightarrow> pattern" where
  "p_star = P_Repeat 0 None"

definition p_plus :: "pattern \<Rightarrow> pattern" where
  "p_plus = P_Repeat 1 None"

definition p_times :: "nat \<Rightarrow> pattern \<Rightarrow> pattern" where
  "p_times n = P_Repeat n (Some n)"

text \<open>An expression between \<open>^\<close> and \<open>$\<close>.\<close>

definition p_whole :: "pattern list \<Rightarrow> pattern" where
  "p_whole ps = p_seq (P_Start # ps @ [P_End])"

definition is_digit :: "nat \<Rightarrow> bool" where
  "is_digit c \<longleftrightarrow> 48 \<le> c \<and> c \<le> 57"

definition digits_number :: "nat list \<Rightarrow> int" where
  "digits_number ds = foldl (\<lambda>n d. 10 * n + (int d - 48)) 0 ds"

definition is_upper :: "nat \<Rightarrow> bool" where
  "is_upper c \<longleftrightarrow> 65 \<le> c \<and> c \<le> 90"

definition is_lower :: "nat \<Rightarrow> bool" where
  "is_lower c \<longleftrightarrow> 97 \<le> c \<and> c \<le> 122"

definition alnum :: "nat \<Rightarrow> bool" where
  "alnum c \<longleftrightarrow> is_digit c \<or> is_upper c \<or> is_lower c"

definition alnum_or :: "string \<Rightarrow> pattern" where
  "alnum_or s = P_Class (\<lambda>c. alnum c \<or> c \<in> set (units s))"

abbreviation p_digit :: pattern where "p_digit \<equiv> P_Class is_digit"
abbreviation p_alnum :: pattern where "p_alnum \<equiv> P_Class alnum"

text \<open>The flag \<open>i\<close>, for texts of ASCII letters.\<close>

definition p_text_i :: "string \<Rightarrow> pattern" where
  "p_text_i s = p_seq (map (\<lambda>c. P_Class (\<lambda>d. lower d = lower c)) (units s))"

text \<open>Hexadecimal identifiers, as the database prints them, and version 4 UUIDs.\<close>

definition is_hex :: "nat \<Rightarrow> bool" where
  "is_hex c \<longleftrightarrow> is_digit c \<or> (97 \<le> lower c \<and> lower c \<le> 102)"

definition p_object_id :: pattern where
  "p_object_id = p_whole [p_times 24 (P_Class is_hex)]"

definition p_uuid4 :: pattern where
  "p_uuid4 = p_seq [p_times 8 (P_Class is_hex), p_char 45, p_times 4 (P_Class is_hex), p_char 45,
     p_char 52, p_times 3 (P_Class is_hex), p_char 45, P_Class (\<lambda>c. lower c \<in> set (units ''89ab'')),
     p_times 3 (P_Class is_hex), p_char 45, p_times 12 (P_Class is_hex)]"

section \<open>What the matcher yields\<close>

text \<open>A match reads a prefix of the text after its position.\<close>

definition reads :: "position \<Rightarrow> position \<Rightarrow> bool" where
  "reads s t \<longleftrightarrow> (\<exists>x. snd s = x @ snd t \<and> fst t = rev x @ fst s)"

lemma reads_refl [simp]: "reads s s"
  by (simp add: reads_def)

lemma reads_trans: "reads s t \<Longrightarrow> reads t u \<Longrightarrow> reads s u"
  unfolding reads_def by (metis append_assoc rev_append)

lemma repeated_reads:
  assumes f: "\<And>s t. t \<in> set (f s) \<Longrightarrow> reads s t" and "t \<in> set (repeated f m n s)"
  shows "reads s t"
  using assms(2)
proof (induction n arbitrary: m s)
  case (Suc n)
  show ?case
  proof (cases "t = s")
    case False
    then obtain u where "u \<in> set (f s)" "t \<in> set (repeated f (m - 1) n u)"
      using Suc.prems by (auto split: if_splits)
    then show ?thesis using Suc.IH f reads_trans by blast
  qed simp
qed (auto split: if_splits)

lemma matches_reads: "t \<in> set (matches p s) \<Longrightarrow> reads s t"
proof (induction p arbitrary: s t)
  case (P_Class f)
  then show ?case by (auto simp: reads_def split: list.splits if_splits)
next
  case (P_Then p q)
  then obtain u where "u \<in> set (matches p s)" "t \<in> set (matches q u)" by auto
  then show ?case using P_Then.IH reads_trans by blast
next
  case (P_Repeat m n p)
  then show ?case by (auto intro: repeated_reads [of "matches p"])
next
  case (P_Or p q)
  from P_Or.prems have "t \<in> set (matches p s) \<or> t \<in> set (matches q s)" by simp
  then show ?case using P_Or.IH by blast
qed (auto split: if_splits)

text \<open>Repetitions of a class of characters, and whole matches of them.\<close>

lemma repeated_class:
  "repeated (matches (P_Class f)) m n (b, s) =
     map (\<lambda>k. (rev (take k s) @ b, drop k s))
       (rev [m..<Suc (min n (length (takeWhile f s)))])"
proof (induction n arbitrary: m b s)
  case (Suc n)
  show ?case
  proof (cases s)
    case (Cons c r)
    have step: "matches (P_Class f) (b, c # r) = (if f c then [(c # b, r)] else [])" by simp
    have suc: "map (\<lambda>k. (rev (take k (c # r)) @ b, drop k (c # r))) (rev [Suc i..<Suc j]) =
        map (\<lambda>k. (rev (take k r) @ c # b, drop k r)) (rev [i..<j])" for i j
      unfolding map_Suc_upt [symmetric] rev_map by (simp add: comp_def)
    show ?thesis
    proof (cases "f c")
      case True
      show ?thesis
      proof (cases m)
        case 0
        have "[0..<Suc (Suc (min n (length (takeWhile f r))))] = 0 # [Suc 0..<Suc (Suc (min n (length (takeWhile f r))))]"
          by (simp add: upt_conv_Cons del: upt_Suc)
        then show ?thesis
          using 0 True Cons suc [of 0 "Suc (min n (length (takeWhile f r)))"] by (simp add: Suc.IH step del: upt_Suc matches.simps)
      next
        case (Suc k)
        then show ?thesis using True Cons suc [of k "Suc (min n (length (takeWhile f r)))"] by (simp add: Suc.IH step del: upt_Suc matches.simps)
      qed
    qed (use Cons in \<open>auto simp: Suc.IH\<close>)
  qed auto
qed auto

end
