(* ===== verification/Detectors.thy ===== *)
theory Detectors
  imports Patterns GuardJobs
begin

text \<open>
  The detectors of personal data (\<open>sensitive-data-guard/detectors.ts\<close>): the checksum of payment
  cards and the scan of one text. The validators of the packages \<open>validator\<close> and
  \<open>libphonenumber-js\<close>, \<open>isIP\<close> of Node and the class of letters of Unicode are parameters.
\<close>

section \<open>Payment cards\<close>

text \<open>The loop of \<open>luhn\<close>, over the digits from the last to the first.\<close>

fun luhn_loop :: "js_string \<Rightarrow> bool \<Rightarrow> nat \<Rightarrow> nat" where
  "luhn_loop [] double s = s"
| "luhn_loop (c # cs) double s =
     (let d = c - 48; digit = (if double then d * 2 else d) in
      luhn_loop cs (\<not> double) (s + (if digit > 9 then digit - 9 else digit)))"

definition luhn :: "js_string \<Rightarrow> bool" where
  "luhn s \<longleftrightarrow> 13 \<le> length s \<and> length s \<le> 19 \<and> list_all is_digit s \<and> \<not> list_all (\<lambda>c. c = hd s) s
     \<and> luhn_loop (rev s) False 0 mod 10 = 0"

section \<open>The parameters\<close>

record recognisers =
  re_isEmail :: "js_string \<Rightarrow> bool"
  re_isIP :: "js_string \<Rightarrow> bool"
  re_isIBAN :: "js_string \<Rightarrow> bool"
  re_isPhone :: "js_string \<Rightarrow> js_string option \<Rightarrow> bool"
  re_letter :: "nat \<Rightarrow> bool"

text \<open>The code points of a text, as an expression with the flag \<open>u\<close> reads it, and the way back.\<close>

fun text_points :: "js_string \<Rightarrow> nat list" where
  "text_points [] = []"
| "text_points (c # cs) =
     (if 55296 \<le> c \<and> c < 56320 then
        (case cs of
           d # ds \<Rightarrow> if 56320 \<le> d \<and> d < 57344
             then (65536 + (c - 55296) * 1024 + (d - 56320)) # text_points ds
             else c # text_points cs
         | [] \<Rightarrow> [c])
      else c # text_points cs)"

definition code_units :: "nat list \<Rightarrow> js_string" where
  "code_units s = concat (map (\<lambda>c. if c < 65536 then [c]
     else [55296 + (c - 65536) div 1024, 56320 + (c - 65536) mod 1024]) s)"

section \<open>Tokens\<close>

definition separator :: "nat \<Rightarrow> bool" where
  "separator c \<longleftrightarrow> js_space c \<or> c \<in> {44, 59, 60, 62, 34, 39, 40, 41}"

text \<open>\<open>split\<close> at runs of separators.\<close>

function split_tokens :: "js_string \<Rightarrow> js_string list" where
  "split_tokens s = takeWhile (\<lambda>c. \<not> separator c) s #
     (case dropWhile (\<lambda>c. \<not> separator c) s of
        [] \<Rightarrow> [] | _ # r \<Rightarrow> split_tokens (dropWhile separator r))"
  by pat_completeness auto

termination
proof (relation "measure length")
  fix s c r
  assume "dropWhile (\<lambda>c. \<not> separator c) s = c # r"
  then have "length r < length s"
    using length_dropWhile_le [of "\<lambda>c. \<not> separator c" s] by simp
  then show "(dropWhile separator r, s) \<in> measure length"
    using length_dropWhile_le [of separator r] by simp
qed simp

declare split_tokens.simps [simp del]

definition clean_token :: "js_string \<Rightarrow> js_string" where
  "clean_token s = rev (dropWhile (\<lambda>c. c \<in> set (units '']}.!?''))
     (rev (dropWhile (\<lambda>c. c \<in> set (units ''[{'')) s)))"

definition token_categories :: "recognisers \<Rightarrow> category list \<Rightarrow> js_string \<Rightarrow> category list" where
  "token_categories R enabled token =
     (if length token > 254 then []
      else let clean = clean_token token in
        (if Cat_Email \<in> set enabled \<and> re_isEmail R clean then [Cat_Email] else [])
        @ (if Cat_Ip \<in> set enabled \<and> re_isIP R clean then [Cat_Ip] else []))"

section \<open>Account numbers\<close>

definition iban_pattern :: pattern where
  "iban_pattern = p_seq [P_Boundary, p_times 2 (P_Class (\<lambda>c. is_upper c \<or> is_lower c)),
     p_times 2 p_digit, P_Repeat 11 (Some 30) (p_seq [p_optional (p_char 32), p_alnum]), P_Boundary]"

definition iban_candidate :: "recognisers \<Rightarrow> js_string \<Rightarrow> bool" where
  "iban_candidate R candidate \<longleftrightarrow>
     list_ex (\<lambda>k. (k = length candidate \<or> candidate ! k = 32) \<and> re_isIBAN R (take k candidate))
       [15..<Suc (length candidate)]"

definition iban_categories :: "recognisers \<Rightarrow> category list \<Rightarrow> js_string \<Rightarrow> category list" where
  "iban_categories R enabled txt =
     (if Cat_Iban \<in> set enabled
         \<and> list_ex (iban_candidate R) (take 100 (all_matches iban_pattern ([], txt)))
      then [Cat_Iban] else [])"

section \<open>Numbers of cards and telephones\<close>

definition number_pattern :: "recognisers \<Rightarrow> pattern" where
  "number_pattern R =
     p_seq [P_Or P_Start (P_Class (\<lambda>c. \<not> re_letter R c \<and> \<not> is_digit c)), p_optional (p_char 43), p_digit,
       P_Repeat 4 (Some 32) (P_Class (\<lambda>c. is_digit c \<or> c \<in> {32, 40, 41, 45})), p_digit,
       P_Not_Ahead (P_Class (\<lambda>c. re_letter R c \<or> is_digit c))]"

definition number_categories ::
  "recognisers \<Rightarrow> category list \<Rightarrow> js_string option \<Rightarrow> nat list \<Rightarrow> category list" where
  "number_categories R enabled region raw =
     (let candidate = dropWhile (\<lambda>c. c \<noteq> 43 \<and> \<not> is_digit c) (js_trim (code_units raw));
          digits = filter is_digit candidate;
          international = (case candidate of [] \<Rightarrow> False | c # _ \<Rightarrow> c = 43) in
      (if Cat_Payment_Card \<in> set enabled \<and> \<not> international \<and> luhn digits then [Cat_Payment_Card] else [])
      @ (if Cat_Phone \<in> set enabled \<and> (international \<or> region \<notin> {None, Some []})
            \<and> 7 \<le> length digits \<and> length digits \<le> 15 \<and> re_isPhone R candidate region
         then [Cat_Phone] else []))"

section \<open>The scan of a text\<close>

definition detect ::
  "recognisers \<Rightarrow> js_string \<Rightarrow> category list \<Rightarrow> js_string option \<Rightarrow> category list" where
  "detect R txt enabled region =
     (let tokens = take 2048 (split_tokens txt);
          numbers = (if Cat_Payment_Card \<in> set enabled \<or> Cat_Phone \<in> set enabled
            then take 100 (all_matches (number_pattern R) ([], text_points txt)) else []) in
      sort (remdups (concat (map (token_categories R enabled) tokens)
        @ iban_categories R enabled txt
        @ concat (map (number_categories R enabled region) numbers))))"

text \<open>Categories come out once each, in order, and only those asked for.\<close>

lemma detect_enabled: "set (detect R txt enabled region) \<subseteq> set enabled"
  by (auto simp: detect_def token_categories_def iban_categories_def number_categories_def Let_def
      split: if_splits)

lemma detect_ordered: "sorted (detect R txt enabled region)" "distinct (detect R txt enabled region)"
  by (simp_all add: detect_def Let_def)

lemma detect_length: "length (detect R txt enabled region) \<le> 5"
proof -
  have "set (detect R txt enabled region) \<subseteq> {Cat_Email, Cat_Iban, Cat_Ip, Cat_Payment_Card, Cat_Phone}"
    using category.exhaust by auto
  from card_mono [OF _ this] show ?thesis
    by (simp add: distinct_card [OF detect_ordered(2), symmetric])
qed

section \<open>What the checksum promises\<close>

text \<open>What a digit adds at an even or odd distance from the end.\<close>

definition luhn_weight :: "bool \<Rightarrow> nat \<Rightarrow> nat" where
  "luhn_weight double c = (let d = c - 48 in if double then (2 * d) div 10 + (2 * d) mod 10 else d)"

lemma luhn_loop_shift: "luhn_loop cs b (s + t) = s + luhn_loop cs b t"
  by (induction cs b t arbitrary: s rule: luhn_loop.induct) (simp_all add: Let_def add.assoc del: add_diff_assoc)

lemma luhn_loop_add: "luhn_loop cs b s = s + luhn_loop cs b 0"
  using luhn_loop_shift [of cs b s 0] by simp

lemma digit_codes: "{48..<58} = {48, 49, 50, 51, 52, 53, 54, 55, 56, 57::nat}"
  by (intro set_eqI) (simp, presburger)

lemma luhn_weights:
  "luhn_weight False c = c - 48"
  "luhn_weight True 48 = 0" "luhn_weight True 49 = 2" "luhn_weight True 50 = 4"
  "luhn_weight True 51 = 6" "luhn_weight True 52 = 8" "luhn_weight True 53 = 1"
  "luhn_weight True 54 = 3" "luhn_weight True 55 = 5" "luhn_weight True 56 = 7"
  "luhn_weight True 57 = 9"
  by (simp_all add: luhn_weight_def)

lemma digit_interval: "is_digit c \<longleftrightarrow> c \<in> {48..<58}"
  by (auto simp: is_digit_def)

lemma luhn_weight_loop:
  assumes "is_digit c"
  shows "(let d = c - 48; digit = (if b then d * 2 else d) in if digit > 9 then digit - 9 else digit)
    = luhn_weight b c"
proof -
  have "\<forall>c\<in>{48..<58}. \<forall>b. (let d = c - 48; digit = (if b then d * 2 else d) in
      if digit > 9 then digit - 9 else digit) = luhn_weight b c"
    unfolding digit_codes all_bool_eq by (simp add: luhn_weights)
  then show ?thesis using assms unfolding digit_interval by blast
qed

lemma luhn_loop_step:
  assumes "is_digit c"
  shows "luhn_loop (c # cs) b s = s + luhn_weight b c + luhn_loop cs (\<not> b) 0"
  using luhn_weight_loop [OF assms, of b] luhn_loop_add [of cs "\<not> b" "s + luhn_weight b c"]
  by (simp add: Let_def)

lemma luhn_loop_append:
  "list_all is_digit (xs @ ys) \<Longrightarrow>
     luhn_loop (xs @ ys) b 0 = luhn_loop xs b 0 + luhn_loop ys (if even (length xs) then b else \<not> b) 0"
proof (induction xs arbitrary: b)
  case (Cons c xs)
  then show ?case by (simp add: luhn_loop_step del: luhn_loop.simps(2))
qed simp

lemma luhn_weight_inj:
  assumes "is_digit c" "is_digit d" "luhn_weight b c mod 10 = luhn_weight b d mod 10"
  shows "c = d"
proof -
  have "\<forall>c\<in>{48..<58}. \<forall>d\<in>{48..<58}. \<forall>b. luhn_weight b c mod 10 = luhn_weight b d mod 10 \<longrightarrow> c = d"
    unfolding digit_codes all_bool_eq by (simp add: luhn_weights)
  moreover have "c \<in> {48..<58}" "d \<in> {48..<58}" using assms by (auto simp: is_digit_def)
  ultimately show ?thesis using assms(3) by blast
qed

lemma luhn_weight_swap:
  assumes "is_digit c" "is_digit d"
    "(luhn_weight b c + luhn_weight (\<not> b) d) mod 10 = (luhn_weight b d + luhn_weight (\<not> b) c) mod 10"
  shows "c = d \<or> {c, d} = {48, 57}"
proof -
  have "\<forall>c\<in>{48..<58}. \<forall>d\<in>{48..<58}. \<forall>b.
      (luhn_weight b c + luhn_weight (\<not> b) d) mod 10 = (luhn_weight b d + luhn_weight (\<not> b) c) mod 10
      \<longrightarrow> c = d \<or> c = 48 \<and> d = 57 \<or> c = 57 \<and> d = 48"
    unfolding digit_codes all_bool_eq by (simp add: luhn_weights)
  moreover have "c \<in> {48..<58}" "d \<in> {48..<58}" using assms by (auto simp: is_digit_def)
  ultimately show ?thesis using assms(3) by blast
qed

lemma mod_cancel:
  fixes k b d :: nat
  assumes "(k + b) mod 10 = 0" "(k + d) mod 10 = 0"
  shows "b mod 10 = d mod 10"
proof -
  have "int ((k + b) mod 10) = int ((k + d) mod 10)" using assms by simp
  then have "int (k + b) mod 10 = int (k + d) mod 10" by (simp only: of_nat_mod of_nat_numeral)
  then have "(int k + int b - int k) mod 10 = (int k + int d - int k) mod 10"
    by (metis mod_diff_cong of_nat_add)
  then have "int (b mod 10) = int (d mod 10)" by (simp add: of_nat_mod)
  then show ?thesis by (rule of_nat_eq_iff [THEN iffD1])
qed

text \<open>Two card numbers that agree outside a part of the same length.\<close>

lemma luhn_parts:
  assumes "luhn s" "luhn t" "rev s = xs @ u @ ys" "rev t = xs @ v @ ys" "length u = length v"
  defines "b \<equiv> odd (length xs)"
  shows "list_all is_digit u" "list_all is_digit v"
    "luhn_loop u b 0 mod 10 = luhn_loop v b 0 mod 10"
proof -
  have "list_all is_digit (rev s)" "list_all is_digit (rev t)"
    using assms(1,2) by (simp_all add: luhn_def)
  then have d: "list_all is_digit (xs @ u @ ys)" "list_all is_digit (xs @ v @ ys)"
    using assms(3,4) by simp_all
  then show u: "list_all is_digit u" "list_all is_digit v" by simp_all
  define r where "r = luhn_loop xs False 0 + luhn_loop ys (if even (length u) then b else \<not> b) 0"
  have "luhn_loop (rev s) False 0 = r + luhn_loop u b 0" "luhn_loop (rev t) False 0 = r + luhn_loop v b 0"
    using d assms(5) unfolding assms(3,4) r_def b_def
    by (subst luhn_loop_append, simp, subst luhn_loop_append, simp, simp)+
  then show "luhn_loop u b 0 mod 10 = luhn_loop v b 0 mod 10"
    using assms(1,2) mod_cancel unfolding luhn_def by metis
qed

lemma luhn_slips:
  assumes "luhn s"
  shows "i < length s \<Longrightarrow> d \<noteq> s ! i \<Longrightarrow> \<not> luhn (s[i := d])"
    and "Suc i < length s \<Longrightarrow> s ! i \<noteq> s ! Suc i \<Longrightarrow> {s ! i, s ! Suc i} \<noteq> {48, 57} \<Longrightarrow>
      \<not> luhn (s[i := s ! Suc i, Suc i := s ! i])"
proof -
  assume i: "i < length s" and d: "d \<noteq> s ! i"
  show "\<not> luhn (s[i := d])"
  proof
    assume l: "luhn (s[i := d])"
    have "rev s = rev (drop (Suc i) s) @ [s ! i] @ rev (take i s)"
      using arg_cong [OF id_take_nth_drop [OF i], of rev] by simp
    moreover have "rev (s[i := d]) = rev (drop (Suc i) s) @ [d] @ rev (take i s)"
      using i by (simp add: upd_conv_take_nth_drop)
    ultimately have "is_digit (s ! i)" "is_digit d"
      "\<exists>b. luhn_loop [s ! i] b 0 mod 10 = luhn_loop [d] b 0 mod 10"
      using luhn_parts [OF assms l, of _ "[s ! i]" _ "[d]"] by simp_all blast
    then show False using luhn_weight_inj d by (auto simp: luhn_loop_step simp del: luhn_loop.simps(2))
  qed
next
  assume i: "Suc i < length s" and n: "s ! i \<noteq> s ! Suc i" and z: "{s ! i, s ! Suc i} \<noteq> {48, 57}"
  show "\<not> luhn (s[i := s ! Suc i, Suc i := s ! i])"
  proof
    assume l: "luhn (s[i := s ! Suc i, Suc i := s ! i])"
    have s: "s = take i s @ [s ! i, s ! Suc i] @ drop (Suc (Suc i)) s"
      using i by (metis Cons_eq_appendI Cons_nth_drop_Suc Suc_lessD append_Nil append_take_drop_id)
    have r1: "rev s = rev (drop (Suc (Suc i)) s) @ [s ! Suc i, s ! i] @ rev (take i s)"
      using arg_cong [OF s, of rev] by simp
    have "s[i := s ! Suc i, Suc i := s ! i] = take i s @ [s ! Suc i, s ! i] @ drop (Suc (Suc i)) s"
      using i by (simp add: upd_conv_take_nth_drop take_Suc_conv_app_nth nth_append min_def)
    then have r2: "rev (s[i := s ! Suc i, Suc i := s ! i]) =
        rev (drop (Suc (Suc i)) s) @ [s ! i, s ! Suc i] @ rev (take i s)" by simp
    have p: "list_all is_digit [s ! Suc i, s ! i]"
      "\<exists>b. luhn_loop [s ! Suc i, s ! i] b 0 mod 10 = luhn_loop [s ! i, s ! Suc i] b 0 mod 10"
      using luhn_parts(1) [OF assms l r1 r2] apply simp
      by (rule exI, rule luhn_parts(3) [OF assms l r1 r2], simp)
    show False using p n z luhn_weight_swap [of "s ! Suc i" "s ! i"]
      by (auto simp: luhn_loop_step insert_commute simp del: luhn_loop.simps(2))
  qed
qed

text \<open>
  The checksum detects every single altered digit and every exchange of two neighbours other
  than 0 and 9, the two errors of copying it is meant for.
\<close>

theorem luhn_detects_slips:
  assumes "luhn s"
  shows "(\<forall>i d. i < length s \<and> d \<noteq> s ! i \<longrightarrow> \<not> luhn (s[i := d]))
    \<and> (\<forall>i. Suc i < length s \<and> s ! i \<noteq> s ! Suc i \<and> {s ! i, s ! Suc i} \<noteq> {48, 57} \<longrightarrow>
         \<not> luhn (s[i := s ! Suc i, Suc i := s ! i]))"
  using luhn_slips [OF assms] by blast

theorem luhn_detects_slips_witness:
  "\<not> luhn (units ''4111111111111112'') \<and> \<not> luhn (units ''1411111111111111'')"
proof -
  have "luhn (units ''4111111111111111'')" by code_simp
  note slips = luhn_detects_slips [OF this]
  from slips [THEN conjunct1, rule_format, of 15 50] slips [THEN conjunct2, rule_format, of 0]
  show ?thesis by (simp add: units_def numeral_eq_Suc doubleton_eq_iff)
qed

section \<open>Card numbers are found\<close>

lemma text_points_bmp: "list_all (\<lambda>c. c < 55296) s \<Longrightarrow> text_points s = s"
  by (induction s rule: text_points.induct) auto

lemma code_units_bmp: "list_all (\<lambda>c. c < 65536) s \<Longrightarrow> code_units s = s"
  unfolding code_units_def by (induction s) auto

text \<open>The preferred match of a repetition of characters followed by more.\<close>

lemma matches_repeat_then:
  assumes "k \<le> n" "m \<le> k" "k \<le> length (takeWhile f s)"
    and "matches q (rev (take k s) @ b, drop k s) = u # us"
    and "\<And>j. k < j \<Longrightarrow> j \<le> min n (length (takeWhile f s)) \<Longrightarrow> matches q (rev (take j s) @ b, drop j s) = []"
  shows "\<exists>vs. matches (P_Then (P_Repeat m (Some n) (P_Class f)) q) (b, s) = u # vs"
proof -
  define l where "l = min n (length (takeWhile f s))"
  have "k \<le> l" using assms(1,3) by (simp add: l_def)
  then have r: "rev [m..<Suc l] = rev [Suc k..<Suc l] @ k # rev [m..<k]"
    using assms(2) by (metis Suc_leI append_assoc append_Cons append_Nil le_SucI le_imp_less_Suc
        rev.simps(2) rev_append rev_rev_ident upt_add_eq_append upt_conv_Cons upt_Suc_append
        le_add_diff_inverse)
  have none: "concat (map (\<lambda>j. matches q (rev (take j s) @ b, drop j s)) (rev [Suc k..<Suc l])) = []"
    using assms(5) by (auto simp: l_def)
  have "matches (P_Then (P_Repeat m (Some n) (P_Class f)) q) (b, s) =
      concat (map (\<lambda>j. matches q (rev (take j s) @ b, drop j s)) (rev [m..<Suc l]))"
    by (simp add: repeated_class [unfolded matches.simps] l_def comp_def del: upt_Suc)
  then show ?thesis
    unfolding r map_append concat_append none using assms(4) by simp
qed



end
