(* ===== verification/Packages.thy ===== *)
theory Packages
  imports FileValidation "HOL-Library.Word"
begin

text \<open>
  Workbook packages: the checks made on an archive before anything of it is read
  (\<open>workbook/xlsx-preflight.ts\<close>) and the writer of canonical archives
  (\<open>workbook/write-xlsx.ts\<close>). The package \<open>yauzl\<close> is the parameter that yields the entries of an
  archive and their streams.
\<close>

unbundle bit_operations_syntax

section \<open>The limits\<close>

record guard_limits =
  lim_compressedBytes :: nat
  lim_expandedBytes :: nat
  lim_entryBytes :: nat
  lim_entries :: nat
  lim_ratio :: nat
  lim_sheets :: nat
  lim_rows :: nat
  lim_columns :: nat
  lim_cells :: nat
  lim_textBytes :: nat
  lim_findings :: nat
  lim_durationMs :: nat
  lim_ioMs :: nat
  lim_leaseMs :: nat

definition DEFAULT_LIMITS :: guard_limits where
  "DEFAULT_LIMITS = \<lparr>lim_compressedBytes = 10 * 1024 * 1024, lim_expandedBytes = 32 * 1024 * 1024,
     lim_entryBytes = 8 * 1024 * 1024, lim_entries = 500, lim_ratio = 100, lim_sheets = 20,
     lim_rows = 100000, lim_columns = 512, lim_cells = 100000, lim_textBytes = 8192,
     lim_findings = 5000, lim_durationMs = 30000, lim_ioMs = 15000, lim_leaseMs = 120000\<rparr>"

section \<open>The checksum of archives\<close>

text \<open>\<open>crc32(data, value)\<close> of Node: the checksum of \<open>data\<close>, continued from \<open>value\<close>.\<close>

primrec crc_bits :: "nat \<Rightarrow> 32 word \<Rightarrow> 32 word" where
  "crc_bits 0 c = c"
| "crc_bits (Suc n) c =
     crc_bits n (if bit c 0 then drop_bit 1 c XOR 0xEDB88320 else drop_bit 1 c)"

fun crc_bytes :: "bytes \<Rightarrow> 32 word \<Rightarrow> 32 word" where
  "crc_bytes [] c = c"
| "crc_bytes (b # bs) c = crc_bytes bs (crc_bits 8 (c XOR word_of_nat b))"

definition crc32 :: "bytes \<Rightarrow> 32 word \<Rightarrow> 32 word" where
  "crc32 data c = NOT (crc_bytes data (NOT c))"

section \<open>Entries and streams\<close>

record zip_entry =
  ze_fileName :: js_string
  ze_compressedSize :: nat
  ze_uncompressedSize :: nat
  ze_flags :: nat
  ze_method :: nat
  ze_extraIds :: "nat list"
  ze_externalAttributes :: nat
  ze_offset :: nat
  ze_crc32 :: nat

text \<open>
  What \<open>openReadStream\<close> gives: an error, or the chunks of a stream and whether it breaks off. An
  archive is refused, or yields entries until it ends or reports an error.
\<close>

datatype zip_stream = Stream_Refused | Stream_Of "bytes list" bool

type_synonym archive_reader = "bytes \<Rightarrow> ((zip_entry \<times> zip_stream) list \<times> bool) option"

section \<open>Preflight\<close>

definition invalid_workbook :: error where
  "invalid_workbook = ScanError Guard_Invalid_Workbook"

definition limit_exceeded :: error where
  "limit_exceeded = ScanError Guard_Limit_Exceeded"

definition end_signature :: bytes where
  "end_signature = [0x50, 0x4b, 0x05, 0x06]"

text \<open>The position of a sound end record.\<close>

definition end_record :: "bytes \<Rightarrow> error + nat" where
  "end_record input =
     (case lastIndexOf input end_signature of
        None \<Rightarrow> Inl invalid_workbook
      | Some i \<Rightarrow>
          if i + 22 > length input then Inl invalid_workbook
          else
          result_bind (readUInt16LE input (i + 4)) (\<lambda>disk.
          result_bind (readUInt16LE input (i + 6)) (\<lambda>directoryDisk.
          result_bind (readUInt16LE input (i + 8)) (\<lambda>here.
          result_bind (readUInt16LE input (i + 10)) (\<lambda>count.
          result_bind (readUInt16LE input (i + 20)) (\<lambda>comment.
          if disk \<noteq> 0 \<or> directoryDisk \<noteq> 0 \<or> here \<noteq> count \<or> i + 22 + comment \<noteq> length input
             \<or> count = 0xffff
          then Inl invalid_workbook else Inr i))))))"

record preflight_state =
  pf_expanded :: nat
  pf_count :: nat
  pf_intervals :: "(nat \<times> nat) list"
  pf_parts :: "(js_string \<times> bytes) list"

fun segments :: "js_string \<Rightarrow> js_string \<Rightarrow> js_string list" where
  "segments acc [] = [acc]"
| "segments acc (c # cs) = (if c = 47 then acc # segments [] cs else segments (acc @ [c]) cs)"

definition part_character :: "nat \<Rightarrow> bool" where
  "part_character c \<longleftrightarrow> (65 \<le> c \<and> c \<le> 90) \<or> (97 \<le> c \<and> c \<le> 122) \<or> (48 \<le> c \<and> c \<le> 57)
     \<or> c \<in> set (units ''_-./[]'')"

definition part_name :: "js_string \<Rightarrow> bool" where
  "part_name name \<longleftrightarrow> name \<noteq> [] \<and> list_all part_character name
     \<and> list_all (\<lambda>p. p \<noteq> units ''.'' \<and> p \<noteq> units ''..'' \<and> p \<noteq> []) (segments [] name)"

definition has_part :: "js_string \<Rightarrow> (js_string \<times> bytes) list \<Rightarrow> bool" where
  "has_part name parts \<longleftrightarrow> map_of parts name \<noteq> None"

text \<open>The stream of an entry, chunk by chunk.\<close>

fun read_chunks ::
  "guard_limits \<Rightarrow> zip_entry \<Rightarrow> bytes list \<Rightarrow> bool \<Rightarrow> nat \<Rightarrow> nat \<Rightarrow> 32 word \<Rightarrow> bytes
    \<Rightarrow> error + nat \<times> nat \<times> 32 word \<times> bytes" where
  "read_chunks L e [] broken n expanded crc acc =
     (if broken then Inl invalid_workbook else Inr (n, expanded, crc, acc))"
| "read_chunks L e (value # rest) broken n expanded crc acc =
     (let n' = n + length value; expanded' = expanded + length value in
      if n' > lim_entryBytes L \<or> expanded' > lim_expandedBytes L
         \<or> n' > max (ze_compressedSize e) 1 * lim_ratio L
      then Inl limit_exceeded
      else read_chunks L e rest broken n' expanded' (crc32 value crc) (acc @ value))"

text \<open>One entry: its declared sizes, its name and flags, its local header, then its bytes.\<close>

definition preflight_entry ::
  "guard_limits \<Rightarrow> bytes \<Rightarrow> nat \<Rightarrow> zip_entry \<Rightarrow> zip_stream \<Rightarrow> preflight_state
    \<Rightarrow> error + preflight_state" where
  "preflight_entry L input i e stream s =
     (let name = ze_fileName e; offset = ze_offset e; count = pf_count s + 1 in
      if count > lim_entries L \<or> ze_uncompressedSize e > lim_entryBytes L
         \<or> pf_expanded s + ze_uncompressedSize e > lim_expandedBytes L
         \<or> ze_uncompressedSize e > max (ze_compressedSize e) 1 * lim_ratio L
      then Inl limit_exceeded
      else if \<not> part_name name \<or> has_part (map lower name) (pf_parts s) \<or> ze_flags e AND 0x41 \<noteq> 0
         \<or> ze_method e \<notin> {0, 8} \<or> 1 \<in> set (ze_extraIds e)
         \<or> drop_bit 16 (ze_externalAttributes e) AND 0xf000 = 0xa000
      then Inl invalid_workbook
      else if offset + 30 > length input then Inl invalid_workbook
      else
      result_bind (readUInt32LE input offset) (\<lambda>signature.
      result_bind (readUInt16LE input (offset + 6)) (\<lambda>flags.
      result_bind (readUInt16LE input (offset + 8)) (\<lambda>compression.
      if signature \<noteq> 0x04034b50 \<or> flags \<noteq> ze_flags e \<or> compression \<noteq> ze_method e
      then Inl invalid_workbook
      else
      result_bind (readUInt16LE input (offset + 26)) (\<lambda>nameLength.
      result_bind (readUInt16LE input (offset + 28)) (\<lambda>extraLength.
      result_bind (readUInt32LE input (i + 16)) (\<lambda>directory.
      let dataEnd = offset + 30 + nameLength + extraLength + ze_compressedSize e in
      if FileValidation.slice input (offset + 30) (offset + 30 + nameLength) \<noteq> name \<or> dataEnd > directory
         \<or> list_ex (\<lambda>(a, b). offset < b \<and> dataEnd > a) (pf_intervals s)
      then Inl invalid_workbook
      else
      result_bind (readUInt32LE input (offset + 14)) (\<lambda>crc.
      result_bind (readUInt32LE input (offset + 18)) (\<lambda>compressed.
      result_bind (readUInt32LE input (offset + 22)) (\<lambda>uncompressed.
      if ze_flags e AND 8 = 0
         \<and> (crc \<noteq> ze_crc32 e \<or> compressed \<noteq> ze_compressedSize e \<or> uncompressed \<noteq> ze_uncompressedSize e)
      then Inl invalid_workbook
      else case stream of
        Stream_Refused \<Rightarrow> Inl invalid_workbook
      | Stream_Of chunks broken \<Rightarrow>
      result_bind (read_chunks L e chunks broken 0 (pf_expanded s) 0 []) (\<lambda>(n, expanded, crc, body).
      if n \<noteq> ze_uncompressedSize e \<or> unat crc \<noteq> ze_crc32 e then Inl invalid_workbook
      else Inr \<lparr>pf_expanded = expanded, pf_count = count,
                pf_intervals = pf_intervals s @ [(offset, dataEnd)],
                pf_parts = pf_parts s @ [(map lower name, body)]\<rparr>)))))))))))"

fun preflight_entries ::
  "guard_limits \<Rightarrow> bytes \<Rightarrow> nat \<Rightarrow> (zip_entry \<times> zip_stream) list \<Rightarrow> preflight_state
    \<Rightarrow> error + preflight_state" where
  "preflight_entries L input i [] s = Inr s"
| "preflight_entries L input i ((e, stream) # rest) s =
     result_bind (preflight_entry L input i e stream s) (preflight_entries L input i rest)"

text \<open>What is thrown in the \<open>try\<close> block and is no scan error becomes one.\<close>

definition as_scan_error :: "error \<Rightarrow> error \<Rightarrow> error" where
  "as_scan_error other e = (case e of ScanError g \<Rightarrow> e | _ \<Rightarrow> other)"

definition wrapped :: "error \<Rightarrow> error + 'a \<Rightarrow> error + 'a" where
  "wrapped other r = (case r of Inl e \<Rightarrow> Inl (as_scan_error other e) | Inr x \<Rightarrow> Inr x)"

definition types_part :: js_string where "types_part = units ''[content_types].xml''"
definition book_part :: js_string where "book_part = units ''xl/workbook.xml''"
definition links_part :: js_string where "links_part = units ''xl/_rels/workbook.xml.rels''"

definition preflight ::
  "archive_reader \<Rightarrow> guard_limits \<Rightarrow> bytes \<Rightarrow> error + (js_string \<times> bytes) list" where
  "preflight archive L input =
     (if length input > lim_compressedBytes L then Inl limit_exceeded
      else
      result_bind (end_record input) (\<lambda>i.
      case archive input of
        None \<Rightarrow> Inl invalid_workbook
      | Some (items, broken) \<Rightarrow>
      result_bind (wrapped invalid_workbook (preflight_entries L input i items
          \<lparr>pf_expanded = 0, pf_count = 0, pf_intervals = [], pf_parts = []\<rparr>)) (\<lambda>s.
      if broken \<or> \<not> has_part types_part (pf_parts s) \<or> \<not> has_part book_part (pf_parts s)
         \<or> \<not> has_part links_part (pf_parts s)
      then Inl invalid_workbook
      else Inr (pf_parts s))))"

section \<open>Writing an archive\<close>

text \<open>\<open>Buffer.from\<close> of a text: UTF-8, a lone surrogate written as the replacement character.\<close>

fun utf8_bytes :: "js_string \<Rightarrow> bytes" where
  "utf8_bytes [] = []"
| "utf8_bytes (c # cs) =
     (if 55296 \<le> c \<and> c < 56320 then
        (case cs of
           d # ds \<Rightarrow> if 56320 \<le> d \<and> d < 57344
             then utf8_encode1 (65536 + (c - 55296) * 1024 + (d - 56320)) @ utf8_bytes ds
             else [239, 191, 189] @ utf8_bytes cs
         | [] \<Rightarrow> [239, 191, 189])
      else if 56320 \<le> c \<and> c < 57344 then [239, 191, 189] @ utf8_bytes cs
      else utf8_encode1 c @ utf8_bytes cs)"

text \<open>\<open>writeUInt16LE\<close> and \<open>writeUInt32LE\<close>, which throw when the value does not fit.\<close>

definition uint16 :: "nat \<Rightarrow> error + bytes" where
  "uint16 n = (if n < 65536 then Inr [n mod 256, n div 256] else Inl out_of_range)"

definition uint32 :: "nat \<Rightarrow> error + bytes" where
  "uint32 n = (if n < 4294967296
     then Inr [n mod 256, n div 256 mod 256, n div 65536 mod 256, n div 16777216]
     else Inl out_of_range)"

definition zeros :: "nat \<Rightarrow> bytes" where
  "zeros n = replicate n 0"

text \<open>The two headers of a stored part.\<close>

definition local_header :: "bytes \<Rightarrow> bytes \<Rightarrow> error + bytes" where
  "local_header filename body =
     result_bind (uint32 (unat (crc32 body 0))) (\<lambda>crc.
     result_bind (uint32 (length body)) (\<lambda>n.
     result_bind (uint16 (length filename)) (\<lambda>name.
     Inr ([0x50, 0x4b, 0x03, 0x04, 20, 0] @ zeros 8 @ crc @ n @ n @ name @ zeros 2))))"

definition directory_header :: "nat \<Rightarrow> bytes \<Rightarrow> bytes \<Rightarrow> error + bytes" where
  "directory_header offset filename body =
     result_bind (uint32 (unat (crc32 body 0))) (\<lambda>crc.
     result_bind (uint32 (length body)) (\<lambda>n.
     result_bind (uint16 (length filename)) (\<lambda>name.
     result_bind (uint32 offset) (\<lambda>at.
     Inr ([0x50, 0x4b, 0x01, 0x02, 20, 0, 20, 0] @ zeros 8 @ crc @ n @ n @ name @ zeros 12 @ at)))))"

text \<open>The loop: the local part, the directory and the offset reached.\<close>

fun write_parts ::
  "nat \<Rightarrow> (js_string \<times> js_string) list \<Rightarrow> bytes \<Rightarrow> bytes \<Rightarrow> nat \<Rightarrow> error + bytes \<times> bytes \<times> nat" where
  "write_parts maxBytes [] locals central offset = Inr (locals, central, offset)"
| "write_parts maxBytes ((name, value) # rest) locals central offset =
     (let filename = utf8_bytes name; body = utf8_bytes value in
      if offset + length filename + length body + 30 > maxBytes then Inl limit_exceeded
      else
      result_bind (local_header filename body) (\<lambda>loc.
      result_bind (directory_header offset filename body) (\<lambda>dir.
      write_parts maxBytes rest (locals @ loc @ filename @ body) (central @ dir @ filename)
        (offset + length loc + length filename + length body))))"

definition writeXlsx :: "(js_string \<times> js_string) list \<Rightarrow> nat \<Rightarrow> error + bytes" where
  "writeXlsx parts maxBytes =
     result_bind (write_parts maxBytes parts [] [] 0) (\<lambda>(locals, directory, offset).
     result_bind (uint16 (length parts)) (\<lambda>count.
     result_bind (uint32 (length directory)) (\<lambda>size32.
     result_bind (uint32 offset) (\<lambda>start.
     let end_bytes = [0x50, 0x4b, 0x05, 0x06] @ zeros 4 @ count @ count @ size32 @ start @ zeros 2 in
     if offset + length directory + length end_bytes > maxBytes then Inl limit_exceeded
     else Inr (locals @ directory @ end_bytes)))))"

end
