(* ===== verification/PackageRoundtrip.thy ===== *)
theory PackageRoundtrip
  imports Packages
begin

text \<open>
  What \<open>writeXlsx\<close> writes passes \<open>preflight\<close> and comes back part for part, for every reader of
  archives that lists the central directory and yields the stored bytes; and it passes the check of
  an uploaded file.
\<close>

section \<open>Numbers in bytes\<close>

definition le16 :: "nat \<Rightarrow> bytes" where
  "le16 n = [n mod 256, n div 256]"

definition le32 :: "nat \<Rightarrow> bytes" where
  "le32 n = [n mod 256, n div 256 mod 256, n div 65536 mod 256, n div 16777216]"

lemma uint16_iff: "uint16 n = Inr b \<longleftrightarrow> n < 65536 \<and> b = le16 n"
  by (auto simp: uint16_def le16_def)

lemma uint32_iff: "uint32 n = Inr b \<longleftrightarrow> n < 4294967296 \<and> b = le32 n"
  by (auto simp: uint32_def le32_def)

lemma le_length [simp]: "length (le16 n) = 2" "length (le32 n) = 4"
  by (simp_all add: le16_def le32_def)

lemma le32_value:
  "n mod 256 + 256 * (n div 256 mod 256) + 65536 * (n div 65536 mod 256) + 16777216 * (n div 16777216) = (n::nat)"
proof -
  define a b c where "a = n div 256" and "b = a div 256" and "c = b div 256"
  have d: "n div 65536 = b" "n div 16777216 = c"
    by (simp_all add: a_def b_def c_def div_mult2_eq [symmetric])
  have "n mod 256 + 256 * (a mod 256) + 65536 * (b mod 256) + 16777216 * c =
      n mod 256 + 256 * (a mod 256 + 256 * (b mod 256 + 256 * c))"
    by simp
  also have "\<dots> = n" unfolding c_def mod_mult_div_eq unfolding b_def mod_mult_div_eq
    unfolding a_def mod_mult_div_eq ..
  finally show ?thesis by (simp add: d a_def)
qed

lemma read_suffix:
  "readUInt16LE (p @ s) (length p + i) = readUInt16LE s i"
  "readUInt32LE (p @ s) (length p + i) = readUInt32LE s i"
  by (auto simp: readUInt16LE_def readUInt32LE_def nth_append add.assoc [symmetric])

lemma read_here:
  "readUInt16LE (le16 n @ s) 0 = Inr n" "readUInt32LE (le32 n @ s) 0 = Inr n"
  using le32_value [of n] by (simp_all add: readUInt16LE_def readUInt32LE_def le16_def le32_def)

lemma read_at:
  "i = length p \<Longrightarrow> readUInt16LE (p @ le16 n @ s) i = Inr n"
  "i = length p \<Longrightarrow> readUInt32LE (p @ le32 n @ s) i = Inr n"
  using read_suffix [of p _ 0] read_here by simp_all

section \<open>The headers as bytes\<close>

lemma zeros_list:
  "zeros 2 = [0, 0]" "zeros 4 = [0, 0, 0, 0]" "zeros 8 = [0, 0, 0, 0, 0, 0, 0, 0]"
  "zeros 12 = [0, 0, 0, 0, 0, 0, 0, 0, 0, 0, 0, 0]"
  by (simp_all add: zeros_def numeral_eq_Suc)

definition crc_of :: "bytes \<Rightarrow> nat" where
  "crc_of body = unat (crc32 body 0)"

lemma crc_of_bound: "crc_of body < 4294967296"
  using unsigned_less [of "crc32 body 0"] by (simp add: crc_of_def)

text \<open>A part with the encodings of its name and its text.\<close>

definition encoded :: "js_string \<times> js_string \<Rightarrow> bytes \<times> bytes" where
  "encoded p = (utf8_bytes (fst p), utf8_bytes (snd p))"

definition local_bytes :: "bytes \<times> bytes \<Rightarrow> bytes" where
  "local_bytes p = [0x50, 0x4b, 0x03, 0x04, 20, 0] @ zeros 8 @ le32 (crc_of (snd p))
     @ le32 (length (snd p)) @ le32 (length (snd p)) @ le16 (length (fst p)) @ zeros 2 @ fst p @ snd p"

definition central_bytes :: "nat \<Rightarrow> bytes \<times> bytes \<Rightarrow> bytes" where
  "central_bytes offset p = [0x50, 0x4b, 0x01, 0x02, 20, 0, 20, 0] @ zeros 8 @ le32 (crc_of (snd p))
     @ le32 (length (snd p)) @ le32 (length (snd p)) @ le16 (length (fst p)) @ zeros 12 @ le32 offset @ fst p"

lemma length_headers [simp]:
  "length (local_bytes p) = 30 + length (fst p) + length (snd p)"
  "length (central_bytes offset p) = 46 + length (fst p)"
  by (simp_all add: local_bytes_def central_bytes_def zeros_def)

fun local_part :: "(bytes \<times> bytes) list \<Rightarrow> bytes" where
  "local_part [] = []"
| "local_part (p # ps) = local_bytes p @ local_part ps"

fun central_part :: "nat \<Rightarrow> (bytes \<times> bytes) list \<Rightarrow> bytes" where
  "central_part offset [] = []"
| "central_part offset (p # ps) = central_bytes offset p @ central_part (offset + length (local_bytes p)) ps"

text \<open>Parts whose lengths fit their fields.\<close>

fun fit :: "nat \<Rightarrow> (bytes \<times> bytes) list \<Rightarrow> bool" where
  "fit offset [] = True"
| "fit offset (p # ps) \<longleftrightarrow> length (fst p) < 65536 \<and> length (snd p) < 4294967296 \<and> offset < 4294967296
     \<and> fit (offset + length (local_bytes p)) ps"

lemma write_parts_bytes:
  assumes "write_parts maxBytes parts ls cs offset = Inr (ls', cs', offset')"
  shows "ls' = ls @ local_part (map encoded parts) \<and> cs' = cs @ central_part offset (map encoded parts)
    \<and> offset' = offset + length (local_part (map encoded parts)) \<and> fit offset (map encoded parts)"
  using assms
proof (induction parts arbitrary: ls cs offset)
  case (Cons part rest)
  obtain name v where part: "part = (name, v)" by fastforce
  define e where "e = encoded (name, v)"
  have e: "fst e = utf8_bytes name" "snd e = utf8_bytes v" by (simp_all add: e_def encoded_def)
  from Cons.prems obtain l d where l: "local_header (fst e) (snd e) = Inr l"
    and d: "directory_header offset (fst e) (snd e) = Inr d"
    and w: "write_parts maxBytes rest (ls @ l @ fst e @ snd e) (cs @ d @ fst e)
      (offset + length l + length (fst e) + length (snd e)) = Inr (ls', cs', offset')"
    by (auto simp: part e Let_def result_bind_Inr_iff split: if_splits)
  have lb: "l @ fst e @ snd e = local_bytes e" "length l = 30" "d @ fst e = central_bytes offset e"
    "length (fst e) < 65536" "length (snd e) < 4294967296" "offset < 4294967296"
    using l d by (auto simp: local_header_def directory_header_def result_bind_Inr_iff uint16_iff uint32_iff
        local_bytes_def central_bytes_def crc_of_def zeros_def)
  have w': "write_parts maxBytes rest (ls @ local_bytes e) (cs @ central_bytes offset e)
      (offset + length (local_bytes e)) = Inr (ls', cs', offset')"
    using w lb by (simp add: add.assoc)
  show ?case using Cons.IH [OF w'] lb(4-6) by (simp add: part e_def [symmetric] add.assoc)
qed simp

section \<open>The end record\<close>

definition end_bytes :: "nat \<Rightarrow> nat \<Rightarrow> nat \<Rightarrow> bytes" where
  "end_bytes n d s = end_signature @ zeros 4 @ le16 n @ le16 n @ le32 d @ le32 s @ zeros 2"

definition archive_bytes :: "(bytes \<times> bytes) list \<Rightarrow> bytes" where
  "archive_bytes ps = local_part ps @ central_part 0 ps
     @ end_bytes (length ps) (length (central_part 0 ps)) (length (local_part ps))"

lemma length_end_bytes [simp]: "length (end_bytes n d s) = 22"
  by (simp add: end_bytes_def end_signature_def zeros_def)

lemma writeXlsx_bytes:
  assumes "writeXlsx parts maxBytes = Inr out"
  shows "out = archive_bytes (map encoded parts)" "fit 0 (map encoded parts)" "length parts < 65536"
    "length out \<le> maxBytes"
proof -
  from assms obtain ls cs offset where w: "write_parts maxBytes parts [] [] 0 = Inr (ls, cs, offset)"
    by (auto simp: writeXlsx_def result_bind_Inr_iff)
  show "out = archive_bytes (map encoded parts)" "fit 0 (map encoded parts)" "length parts < 65536"
    "length out \<le> maxBytes"
    using assms write_parts_bytes [OF w] w
    by (auto simp: writeXlsx_def result_bind_Inr_iff uint16_iff uint32_iff archive_bytes_def end_bytes_def
        end_signature_def Let_def zeros_def split: if_splits)
qed

lemma last_end_signature:
  assumes "c1 < 64"
  shows "lastIndexOf [0x50, 0x4b, 5, 6, 0, 0, 0, 0, c0, c1, c0, c1, d0, d1, d2, 0, s0, s1, s2, 0, 0, 0]
    end_signature = Some 0"
  using assms
  by (simp add: lastIndexOf_def starts_with_def end_signature_def upt_rec [of _ "Suc _"] numeral_eq_Suc)

text \<open>Archives below 16 MB of fewer than 16384 parts have the signature of the end record only there.\<close>

lemma end_record_written:
  assumes "length ps < 16384" "length (archive_bytes ps) < 16777216"
  defines "i \<equiv> length (local_part ps) + length (central_part 0 ps)"
  shows "lastIndexOf (archive_bytes ps) end_signature = Some i" "end_record (archive_bytes ps) = Inr i"
    "readUInt16LE (archive_bytes ps) (i + 10) = Inr (length ps)"
    "readUInt32LE (archive_bytes ps) (i + 12) = Inr (length (central_part 0 ps))"
    "readUInt32LE (archive_bytes ps) (i + 16) = Inr (length (local_part ps))"
proof -
  define n d s where "n = length ps" and "d = length (central_part 0 ps)" and "s = length (local_part ps)"
  define p where "p = local_part ps @ central_part 0 ps"
  have a: "archive_bytes ps = p @ end_bytes n d s" "i = length p"
    by (simp_all add: archive_bytes_def p_def i_def n_def d_def s_def)
  have b: "n < 16384" "d < 16777216" "s < 16777216"
    using assms(1,2) by (simp_all add: archive_bytes_def n_def d_def s_def)
  have "lastIndexOf (end_bytes n d s) end_signature = Some 0"
  proof -
    have "n div 256 < 64" "d div 16777216 = 0" "s div 16777216 = 0" using b by simp_all
    then show ?thesis
      using last_end_signature [of "n div 256" "n mod 256" "d mod 256" "d div 256 mod 256" "d div 65536 mod 256"
          "s mod 256" "s div 256 mod 256" "s div 65536 mod 256"]
      by (simp add: end_bytes_def le16_def le32_def zeros_list end_signature_def)
  qed
  then show last: "lastIndexOf (archive_bytes ps) end_signature = Some i"
    unfolding a by (simp add: lastIndexOf_append)
  have r: "readUInt16LE (archive_bytes ps) (i + 4) = Inr 0" "readUInt16LE (archive_bytes ps) (i + 6) = Inr 0"
    "readUInt16LE (archive_bytes ps) (i + 8) = Inr n" "readUInt16LE (archive_bytes ps) (i + 20) = Inr 0"
    "readUInt16LE (archive_bytes ps) (i + 10) = Inr n" "readUInt32LE (archive_bytes ps) (i + 12) = Inr d"
    "readUInt32LE (archive_bytes ps) (i + 16) = Inr s"
  proof -
    have l: "length end_signature = 4" "length (zeros k) = k" for k by (simp_all add: end_signature_def zeros_def)
    have e: "end_bytes n d s = (end_signature @ zeros 4) @ le16 n @ le16 n @ le32 d @ le32 s @ zeros 2"
      "end_bytes n d s = (end_signature @ zeros 4 @ le16 n) @ le16 n @ le32 d @ le32 s @ zeros 2"
      "end_bytes n d s = (end_signature @ zeros 4 @ le16 n @ le16 n) @ le32 d @ le32 s @ zeros 2"
      "end_bytes n d s = (end_signature @ zeros 4 @ le16 n @ le16 n @ le32 d) @ le32 s @ zeros 2"
      by (simp_all add: end_bytes_def)
    have z: "zeros 2 = le16 0" "zeros 4 = le16 0 @ le16 0" by (simp_all add: le16_def zeros_list)
    have f: "end_bytes n d s = end_signature @ le16 0 @ le16 0 @ le16 n @ le16 n @ le32 d @ le32 s @ zeros 2"
      "end_bytes n d s = (end_signature @ le16 0) @ le16 0 @ le16 n @ le16 n @ le32 d @ le32 s @ zeros 2"
      "end_bytes n d s = (end_signature @ zeros 4 @ le16 n @ le16 n @ le32 d @ le32 s) @ le16 0 @ []"
      by (simp_all add: end_bytes_def z)
    show "readUInt16LE (archive_bytes ps) (i + 4) = Inr 0" unfolding a read_suffix
      by (subst f(1), rule read_at) (simp add: l)
    show "readUInt16LE (archive_bytes ps) (i + 6) = Inr 0" unfolding a read_suffix
      by (subst f(2), rule read_at) (simp add: l)
    show "readUInt16LE (archive_bytes ps) (i + 20) = Inr 0" unfolding a read_suffix
      by (subst f(3), rule read_at) (simp add: l)
    show "readUInt16LE (archive_bytes ps) (i + 8) = Inr n" unfolding a read_suffix
      by (subst e(1), rule read_at) (simp add: l)
    show "readUInt16LE (archive_bytes ps) (i + 10) = Inr n" unfolding a read_suffix
      by (subst e(2), rule read_at) (simp add: l)
    show "readUInt32LE (archive_bytes ps) (i + 12) = Inr d" unfolding a read_suffix
      by (subst e(3), rule read_at) (simp add: l)
    show "readUInt32LE (archive_bytes ps) (i + 16) = Inr s" unfolding a read_suffix
      by (subst e(4), rule read_at) (simp add: l)
  qed
  show "end_record (archive_bytes ps) = Inr i"
    using last r b by (simp add: end_record_def a)
  show "readUInt16LE (archive_bytes ps) (i + 10) = Inr (length ps)"
    "readUInt32LE (archive_bytes ps) (i + 12) = Inr (length (central_part 0 ps))"
    "readUInt32LE (archive_bytes ps) (i + 16) = Inr (length (local_part ps))"
    using r by (simp_all add: n_def d_def s_def)
qed

section \<open>A reader of stored archives\<close>

definition u16 :: "bytes \<Rightarrow> nat \<Rightarrow> nat" where
  "u16 b i = (case readUInt16LE b i of Inl _ \<Rightarrow> 0 | Inr n \<Rightarrow> n)"

definition u32 :: "bytes \<Rightarrow> nat \<Rightarrow> nat" where
  "u32 b i = (case readUInt32LE b i of Inl _ \<Rightarrow> 0 | Inr n \<Rightarrow> n)"

fun extra_ids :: "bytes \<Rightarrow> nat list" where
  "extra_ids (a # b # c # d # r) = (a + 256 * b) # extra_ids (drop (c + 256 * d) r)"
| "extra_ids _ = []"

text \<open>The records of the central directory, as the format lays them out.\<close>

definition directory_entry :: "bytes \<Rightarrow> nat \<Rightarrow> zip_entry" where
  "directory_entry b i =
     (let name_end = i + 46 + u16 b (i + 28) in
      \<lparr>ze_fileName = FileValidation.slice b (i + 46) name_end, ze_compressedSize = u32 b (i + 20),
       ze_uncompressedSize = u32 b (i + 24), ze_flags = u16 b (i + 8), ze_method = u16 b (i + 10),
       ze_extraIds = extra_ids (FileValidation.slice b name_end (name_end + u16 b (i + 30))),
       ze_externalAttributes = u32 b (i + 38), ze_offset = u32 b (i + 42), ze_crc32 = u32 b (i + 16)\<rparr>)"

fun directory :: "bytes \<Rightarrow> nat \<Rightarrow> nat \<Rightarrow> zip_entry list" where
  "directory b i 0 = []"
| "directory b i (Suc n) =
     directory_entry b i # directory b (i + 46 + u16 b (i + 28) + u16 b (i + 30) + u16 b (i + 32)) n"

definition directory_of :: "bytes \<Rightarrow> zip_entry list" where
  "directory_of input =
     (case end_record input of Inl _ \<Rightarrow> [] | Inr i \<Rightarrow> directory input (u32 input (i + 16)) (u16 input (i + 10)))"

definition stored_body :: "bytes \<Rightarrow> zip_entry \<Rightarrow> bytes" where
  "stored_body input e =
     (let start = ze_offset e + 30 + u16 input (ze_offset e + 26) + u16 input (ze_offset e + 28) in
      FileValidation.slice input start (start + ze_compressedSize e))"

text \<open>
  The reader lists the directory of an input, and the stream of every entry yields its stored
  bytes, in chunks of its choosing.
\<close>

definition reads_stored :: "archive_reader \<Rightarrow> bytes \<Rightarrow> bool" where
  "reads_stored archive input \<longleftrightarrow>
     (\<exists>items. archive input = Some (items, False) \<and> map fst items = directory_of input
        \<and> (\<forall>(e, s)\<in>set items. \<exists>chunks. s = Stream_Of chunks False \<and> concat chunks = stored_body input e))"

definition stored_reader :: archive_reader where
  "stored_reader input = Some (map (\<lambda>e. (e, Stream_Of [stored_body input e] False)) (directory_of input), False)"

lemma stored_reader_reads: "reads_stored stored_reader input"
  by (auto simp: reads_stored_def stored_reader_def comp_def)

section \<open>What the reader finds in a written archive\<close>

lemma read_skip:
  "length p \<le> i \<Longrightarrow> readUInt16LE (p @ s) i = readUInt16LE s (i - length p)"
  "length p \<le> i \<Longrightarrow> readUInt32LE (p @ s) i = readUInt32LE s (i - length p)"
  using read_suffix [of p s "i - length p"] by simp_all

lemma slice_skip: "length p \<le> i \<Longrightarrow> FileValidation.slice (p @ s) i j = FileValidation.slice s (i - length p) (j - length p)"
  by (simp add: FileValidation.slice_def)

lemma slice_here: "j = length p \<Longrightarrow> FileValidation.slice (p @ s) 0 j = p"
  by (simp add: FileValidation.slice_def)

lemma le_constants:
  "le16 0 = [0, 0]" "le16 20 = [20, 0]" "le32 0 = [0, 0, 0, 0]"
  "le32 0x04034b50 = [0x50, 0x4b, 3, 4]" "le32 0x02014b50 = [0x50, 0x4b, 1, 2]"
  by (simp_all add: le16_def le32_def)

lemma local_fields:
  "local_bytes p = le32 0x04034b50 @ le16 20 @ le16 0 @ le16 0 @ le32 0 @ le32 (crc_of (snd p))
     @ le32 (length (snd p)) @ le32 (length (snd p)) @ le16 (length (fst p)) @ le16 0 @ fst p @ snd p"
  by (simp add: local_bytes_def le_constants zeros_list)

lemma central_fields:
  "central_bytes offset p = le32 0x02014b50 @ le16 20 @ le16 20 @ le16 0 @ le16 0 @ le32 0
     @ le32 (crc_of (snd p)) @ le32 (length (snd p)) @ le32 (length (snd p)) @ le16 (length (fst p))
     @ le16 0 @ le16 0 @ le16 0 @ le16 0 @ le32 0 @ le32 offset @ fst p"
  by (simp add: central_bytes_def le_constants zeros_list)

definition written_entry :: "nat \<Rightarrow> bytes \<times> bytes \<Rightarrow> zip_entry" where
  "written_entry offset p =
     \<lparr>ze_fileName = fst p, ze_compressedSize = length (snd p), ze_uncompressedSize = length (snd p),
      ze_flags = 0, ze_method = 0, ze_extraIds = [], ze_externalAttributes = 0, ze_offset = offset,
      ze_crc32 = crc_of (snd p)\<rparr>"

fun written_entries :: "nat \<Rightarrow> (bytes \<times> bytes) list \<Rightarrow> zip_entry list" where
  "written_entries offset [] = []"
| "written_entries offset (p # ps) = written_entry offset p # written_entries (offset + length (local_bytes p)) ps"

lemma directory_written:
  "directory (a @ central_part offset ps @ z) (length a) (length ps) = written_entries offset ps"
proof (induction ps arbitrary: a offset)
  case (Cons p ps)
  let ?b = "a @ central_part offset (p # ps) @ z"
  have b: "?b = (a @ central_bytes offset p) @ central_part (offset + length (local_bytes p)) ps @ z"
    by simp
  have f: "u16 ?b (length a + 28) = length (fst p)" "u16 ?b (length a + 30) = 0" "u16 ?b (length a + 32) = 0"
    "u16 ?b (length a + 8) = 0" "u16 ?b (length a + 10) = 0"
    "u32 ?b (length a + 20) = length (snd p)" "u32 ?b (length a + 24) = length (snd p)"
    "u32 ?b (length a + 38) = 0" "u32 ?b (length a + 42) = offset" "u32 ?b (length a + 16) = crc_of (snd p)"
    by (simp_all add: u16_def u32_def read_suffix central_fields read_skip read_here)
  have n: "FileValidation.slice ?b (length a + 46) (length a + 46 + length (fst p)) = fst p"
    by (simp add: central_fields slice_skip slice_here)
  have "directory_entry ?b (length a) = written_entry offset p"
    unfolding directory_entry_def f Let_def n written_entry_def
    by (simp add: FileValidation.slice_def)
  moreover have "directory ?b (length a + 46 + length (fst p)) (length ps) =
      written_entries (offset + length (local_bytes p)) ps"
    using Cons.IH [of "a @ central_bytes offset p" "offset + length (local_bytes p)"] unfolding b by (simp add: add.assoc)
  ultimately show ?case
    unfolding list.size(4) add_Suc_right add_0_right directory.simps f written_entries.simps by simp
qed simp

section \<open>Preflight of a written archive\<close>

lemma crc_bytes_append: "crc_bytes (a @ b) c = crc_bytes b (crc_bytes a c)"
  by (induction a arbitrary: c) simp_all

lemma crc32_append: "crc32 (a @ b) c = crc32 b (crc32 a c)"
  by (simp add: crc32_def crc_bytes_append)

lemma read_chunks_all:
  assumes "n + length (concat chunks) \<le> lim_entryBytes L" "expanded + length (concat chunks) \<le> lim_expandedBytes L"
    "n + length (concat chunks) \<le> max (ze_compressedSize e) 1 * lim_ratio L"
  shows "read_chunks L e chunks False n expanded crc acc =
    Inr (n + length (concat chunks), expanded + length (concat chunks), crc32 (concat chunks) crc, acc @ concat chunks)"
  using assms
proof (induction chunks arbitrary: n expanded crc acc)
  case Nil
  then show ?case by (simp add: crc32_def)
next
  case (Cons c cs)
  then show ?case by (simp add: crc32_append Let_def add.assoc)
qed

lemma local_reads:
  fixes a z :: bytes and p :: "bytes \<times> bytes"
  defines "b \<equiv> a @ local_bytes p @ z"
  shows "readUInt32LE b (length a) = Inr 0x04034b50" "readUInt16LE b (length a + 6) = Inr 0"
    "readUInt16LE b (length a + 8) = Inr 0" "readUInt32LE b (length a + 14) = Inr (crc_of (snd p))"
    "readUInt32LE b (length a + 18) = Inr (length (snd p))" "readUInt32LE b (length a + 22) = Inr (length (snd p))"
    "readUInt16LE b (length a + 26) = Inr (length (fst p))" "readUInt16LE b (length a + 28) = Inr 0"
    "FileValidation.slice b (length a + 30) (length a + 30 + length (fst p)) = fst p"
    "FileValidation.slice b (length a + 30 + length (fst p)) (length a + 30 + length (fst p) + length (snd p)) = snd p"
  unfolding b_def using read_suffix(2) [of a _ 0]
  by (simp_all add: read_suffix local_fields read_skip read_here slice_skip slice_here)

text \<open>The conditions on what is left to read, for the state reached.\<close>

fun readable :: "guard_limits \<Rightarrow> (bytes \<times> bytes) list \<Rightarrow> bytes list \<Rightarrow> nat \<Rightarrow> nat \<Rightarrow> bool" where
  "readable L [] names count expanded = True"
| "readable L (p # ps) names count expanded \<longleftrightarrow>
     part_name (fst p) \<and> map lower (fst p) \<notin> set names
     \<and> count + 1 \<le> lim_entries L \<and> length (snd p) \<le> lim_entryBytes L
     \<and> expanded + length (snd p) \<le> lim_expandedBytes L \<and> 1 \<le> lim_ratio L
     \<and> readable L ps (map lower (fst p) # names) (count + 1) (expanded + length (snd p))"

definition state_readable :: "guard_limits \<Rightarrow> (bytes \<times> bytes) list \<Rightarrow> preflight_state \<Rightarrow> bool" where
  "state_readable L ps s \<longleftrightarrow> (\<exists>names. set names = fst ` set (pf_parts s)
     \<and> readable L ps names (pf_count s) (pf_expanded s))"

lemma has_part_iff: "has_part n parts \<longleftrightarrow> n \<in> fst ` set parts"
  by (auto simp: has_part_def map_of_eq_None_iff)

lemma ratio_enough: "1 \<le> r \<Longrightarrow> n \<le> max n 1 * (r::nat)"
  by (cases "n = 0") (auto simp: max_def)

lemma preflight_entry_written:
  assumes "state_readable L (p # ps) s" and "input = a @ local_bytes p @ z"
    and "concat chunks = stored_body input (written_entry (length a) p)"
    and "readUInt32LE input (i + 16) = Inr d" "length (a @ local_bytes p) \<le> d"
    and "\<forall>(x, y)\<in>set (pf_intervals s). y \<le> length a"
  shows "preflight_entry L input i (written_entry (length a) p) (Stream_Of chunks False) s =
    Inr \<lparr>pf_expanded = pf_expanded s + length (snd p), pf_count = pf_count s + 1,
         pf_intervals = pf_intervals s @ [(length a, length (a @ local_bytes p))],
         pf_parts = pf_parts s @ [(map lower (fst p), snd p)]\<rparr>"
proof -
  note r = local_reads [of a p z, folded assms(2)]
  have ok: "part_name (fst p)" "\<not> has_part (map lower (fst p)) (pf_parts s)" "pf_count s + 1 \<le> lim_entries L"
    "length (snd p) \<le> lim_entryBytes L" "pf_expanded s + length (snd p) \<le> lim_expandedBytes L" "1 \<le> lim_ratio L"
    using assms(1) by (auto simp: state_readable_def has_part_iff)
  have body: "concat chunks = snd p"
    using assms(3) r by (simp add: stored_body_def written_entry_def u16_def Let_def)
  have lim: "length (snd p) \<le> max (length (snd p)) 1 * lim_ratio L"
    using ok ratio_enough by simp
  have chunks: "read_chunks L (written_entry (length a) p) chunks False 0 (pf_expanded s) 0 [] =
      Inr (length (snd p), pf_expanded s + length (snd p), crc32 (snd p) 0, snd p)"
    using read_chunks_all [of 0 chunks L "pf_expanded s" "written_entry (length a) p" 0 "[]"] ok lim
    by (simp add: body written_entry_def)
  have apart: "\<not> list_ex (\<lambda>(x, y). length a < y \<and> k > x) (pf_intervals s)" for k
    using assms(6) by (auto simp: list_ex_iff)
  have len: "length a + 30 \<le> length input" using assms(2) by simp
  have dir: "\<not> length a + 30 + length (fst p) + 0 + length (snd p) > d" using assms(5) by simp
  have e: "ze_fileName (written_entry (length a) p) = fst p" "ze_offset (written_entry (length a) p) = length a"
    "ze_compressedSize (written_entry (length a) p) = length (snd p)"
    "ze_uncompressedSize (written_entry (length a) p) = length (snd p)"
    "ze_flags (written_entry (length a) p) = 0" "ze_method (written_entry (length a) p) = 0"
    "ze_extraIds (written_entry (length a) p) = []" "ze_externalAttributes (written_entry (length a) p) = 0"
    "ze_crc32 (written_entry (length a) p) = crc_of (snd p)"
    by (simp_all add: written_entry_def)
  show ?thesis
    unfolding preflight_entry_def Let_def e r assms(4) zip_stream.case chunks
    using ok lim apart len dir by (simp add: r assms(4) chunks crc_of_def)
qed

lemma state_readable_step:
  assumes "state_readable L (p # ps) s"
  shows "state_readable L ps \<lparr>pf_expanded = pf_expanded s + length (snd p), pf_count = pf_count s + 1,
    pf_intervals = y, pf_parts = pf_parts s @ [(map lower (fst p), snd p)]\<rparr>"
proof -
  obtain names where "set names = fst ` set (pf_parts s)" "readable L (p # ps) names (pf_count s) (pf_expanded s)"
    using assms by (auto simp: state_readable_def)
  then show ?thesis unfolding state_readable_def
    by (intro exI [of _ "map lower (fst p) # names"]) auto
qed

lemma preflight_entries_written:
  assumes "state_readable L ps s" and "input = a @ local_part ps @ z"
    and "map fst items = written_entries (length a) ps"
    and "\<forall>(e, t)\<in>set items. \<exists>chunks. t = Stream_Of chunks False \<and> concat chunks = stored_body input e"
    and "readUInt32LE input (i + 16) = Inr d" "length (a @ local_part ps) \<le> d"
    and "\<forall>(x, y)\<in>set (pf_intervals s). y \<le> length a"
  shows "\<exists>t. preflight_entries L input i items s = Inr t
    \<and> pf_parts t = pf_parts s @ map (\<lambda>p. (map lower (fst p), snd p)) ps"
  using assms
proof (induction ps arbitrary: s a items)
  case (Cons p ps)
  obtain stream rest where items: "items = (written_entry (length a) p, stream) # rest"
    "map fst rest = written_entries (length a + length (local_bytes p)) ps"
    using Cons.prems(3) by (cases items) auto
  then obtain chunks where c: "stream = Stream_Of chunks False"
    "concat chunks = stored_body input (written_entry (length a) p)"
    using Cons.prems(4) by auto
  define s' where "s' = \<lparr>pf_expanded = pf_expanded s + length (snd p), pf_count = pf_count s + 1,
    pf_intervals = pf_intervals s @ [(length a, length (a @ local_bytes p))],
    pf_parts = pf_parts s @ [(map lower (fst p), snd p)]\<rparr>"
  have "preflight_entry L input i (written_entry (length a) p) stream s = Inr s'"
    unfolding c s'_def
    using preflight_entry_written [OF Cons.prems(1), of input a "local_part ps @ z" chunks i d] Cons.prems c
    by simp
  moreover have "\<exists>t. preflight_entries L input i rest s' = Inr t
      \<and> pf_parts t = pf_parts s' @ map (\<lambda>p. (map lower (fst p), snd p)) ps"
  proof (rule Cons.IH [of s' "a @ local_bytes p"])
    show "state_readable L ps s'" unfolding s'_def by (rule state_readable_step [OF Cons.prems(1)])
    show "\<forall>(x, y)\<in>set (pf_intervals s'). y \<le> length (a @ local_bytes p)"
      using Cons.prems(7) by (auto simp: s'_def)
  qed (use Cons.prems items in auto)
  ultimately show ?case using items(1) by (auto simp: s'_def)
qed auto

lemma part_name_ascii: "part_name name \<Longrightarrow> utf8_bytes name = name"
proof -
  have "list_all part_character n \<Longrightarrow> utf8_bytes n = n" for n
    by (induction n rule: utf8_bytes.induct)
       (auto simp: part_character_def units_def utf8_encode1_def)
  then show "part_name name \<Longrightarrow> utf8_bytes name = name" by (simp add: part_name_def)
qed

text \<open>The parts of a package that pass the limits.\<close>

definition package_fits :: "guard_limits \<Rightarrow> (js_string \<times> js_string) list \<Rightarrow> bool" where
  "package_fits L parts \<longleftrightarrow> list_all part_name (map fst parts) \<and> distinct (map (map lower \<circ> fst) parts)
     \<and> length parts \<le> lim_entries L \<and> 1 \<le> lim_ratio L
     \<and> (\<forall>p\<in>set parts. length (utf8_bytes (snd p)) \<le> lim_entryBytes L)
     \<and> sum_list (map (length \<circ> utf8_bytes \<circ> snd) parts) \<le> lim_expandedBytes L"

lemma readable_package:
  assumes "list_all part_name (map fst parts)" "distinct (map (map lower \<circ> fst) parts)"
    "set names \<inter> (map lower \<circ> fst) ` set parts = {}" "count + length parts \<le> lim_entries L" "1 \<le> lim_ratio L"
    "\<forall>p\<in>set parts. length (utf8_bytes (snd p)) \<le> lim_entryBytes L"
    "expanded + sum_list (map (length \<circ> utf8_bytes \<circ> snd) parts) \<le> lim_expandedBytes L"
  shows "readable L (map encoded parts) names count expanded"
  using assms
  by (induction parts arbitrary: names count expanded) (auto simp: encoded_def part_name_ascii)

lemma preflight_written:
  assumes "writeXlsx parts maxBytes = Inr out" and "package_fits L parts"
    and "maxBytes \<le> lim_compressedBytes L" "maxBytes < 16777216" "length parts < 16384"
    and "{types_part, book_part, links_part} \<subseteq> (map lower \<circ> fst) ` set parts"
    and "reads_stored archive out"
  shows "preflight archive L out = Inr (map (\<lambda>(name, v). (map lower name, utf8_bytes v)) parts)"
proof -
  define ps where "ps = map encoded parts"
  note w = writeXlsx_bytes [OF assms(1), folded ps_def]
  have small: "length ps < 16384" "length (archive_bytes ps) < 16777216"
    using assms(4,5) w(1,4) by (simp_all add: ps_def)
  note e = end_record_written [OF small, folded w(1)]
  have out: "out = [] @ local_part ps @ (central_part 0 ps @ end_bytes (length ps) (length (central_part 0 ps))
      (length (local_part ps)))"
    by (simp add: w(1) archive_bytes_def)
  have dir: "directory_of out = written_entries 0 ps"
    using directory_written [of "local_part ps" 0 ps "end_bytes (length ps) (length (central_part 0 ps)) (length (local_part ps))"]
      e(2-5) by (simp add: directory_of_def u16_def u32_def w(1) archive_bytes_def)
  obtain items where items: "archive out = Some (items, False)" "map fst items = directory_of out"
    "\<forall>(e, s)\<in>set items. \<exists>chunks. s = Stream_Of chunks False \<and> concat chunks = stored_body out e"
    using assms(7) by (auto simp: reads_stored_def)
  define s0 where "s0 = \<lparr>pf_expanded = 0, pf_count = 0, pf_intervals = [], pf_parts = []\<rparr>"
  have ready: "state_readable L ps s0"
    using readable_package [of parts "[]" 0 L 0] assms(2) unfolding state_readable_def s0_def ps_def
    by (intro exI [of _ "[]"]) (simp add: package_fits_def)
  obtain t where t: "preflight_entries L out (length (local_part ps) + length (central_part 0 ps)) items s0 = Inr t"
    "pf_parts t = map (\<lambda>p. (map lower (fst p), snd p)) ps"
    using preflight_entries_written [OF ready out, of items _ "length (local_part ps)"] items dir e(5)
    by (auto simp: s0_def)
  have names: "map (\<lambda>p. (map lower (fst p), snd p)) ps = map (\<lambda>(name, v). (map lower name, utf8_bytes v)) parts"
    using assms(2) by (auto simp: ps_def encoded_def package_fits_def part_name_ascii list_all_iff)
  have "has_part n (pf_parts t)" if "n \<in> {types_part, book_part, links_part}" for n
    using assms(6) that unfolding t(2) names has_part_iff by force
  then show ?thesis
    using w(4) assms(3) e(2) items(1) t names
    by (simp add: preflight_def wrapped_def flip: s0_def)
qed


lemma headers_written:
  assumes "length filename < 65536" "length body < 4294967296" "offset < 4294967296"
  shows "\<exists>l. local_header filename body = Inr l \<and> length l = 30"
    "\<exists>d. directory_header offset filename body = Inr d \<and> length d = 46"
  using assms crc_of_bound [of body]
  by (auto simp: local_header_def directory_header_def result_bind_Inr_iff uint16_iff uint32_iff
      crc_of_def zeros_def)

text \<open>Writing fails only at the limit.\<close>

definition written_size :: "(js_string \<times> js_string) list \<Rightarrow> nat" where
  "written_size parts = length (archive_bytes (map encoded parts))"

lemma written_size_sum:
  "written_size parts =
     22 + sum_list (map (\<lambda>p. 76 + 2 * length (utf8_bytes (fst p)) + length (utf8_bytes (snd p))) parts)"
proof -
  have "length (local_part ps) + length (central_part offset ps) =
      sum_list (map (\<lambda>p. 76 + 2 * length (fst p) + length (snd p)) ps)" for offset ps
    by (induction ps arbitrary: offset) auto
  then show ?thesis
    by (simp add: written_size_def archive_bytes_def comp_def encoded_def case_prod_beta)
qed

lemma write_parts_total:
  assumes "offset + length (local_part (map encoded parts)) \<le> maxBytes" "maxBytes < 16777216"
    "\<forall>p\<in>set parts. length (utf8_bytes (fst p)) < 65536"
  shows "\<exists>ls' cs' offset'. write_parts maxBytes parts ls cs offset = Inr (ls', cs', offset')"
  using assms
proof (induction parts arbitrary: ls cs offset)
  case (Cons part rest)
  obtain name v where part: "part = (name, v)" by fastforce
  define f b where "f = utf8_bytes name" and "b = utf8_bytes v"
  have room: "offset + length f + length b + 30 \<le> maxBytes" "length f < 65536"
    using Cons.prems by (simp_all add: part encoded_def f_def b_def)
  then obtain l d where l: "local_header f b = Inr l" "length l = 30"
    and d: "directory_header offset f b = Inr d"
    using headers_written [of f b offset] Cons.prems(2) by auto
  have "\<exists>ls' cs' offset'. write_parts maxBytes rest (ls @ l @ f @ b) (cs @ d @ f)
      (offset + length l + length f + length b) = Inr (ls', cs', offset')"
    by (rule Cons.IH) (use Cons.prems l in \<open>auto simp: part encoded_def f_def b_def\<close>)
  then show ?case using room l d by (simp add: part Let_def f_def b_def)
qed simp

lemma writeXlsx_total:
  assumes "written_size parts \<le> maxBytes" "maxBytes < 16777216" "length parts < 65536"
    "\<forall>p\<in>set parts. length (utf8_bytes (fst p)) < 65536"
  shows "\<exists>out. writeXlsx parts maxBytes = Inr out"
proof -
  have size: "length (local_part (map encoded parts)) + length (central_part 0 (map encoded parts)) + 22 \<le> maxBytes"
    using assms(1) by (simp add: written_size_def archive_bytes_def)
  obtain ls cs offset where w: "write_parts maxBytes parts [] [] 0 = Inr (ls, cs, offset)"
    using write_parts_total [of 0 parts maxBytes "[]" "[]"] size assms by auto
  then show ?thesis using write_parts_bytes [OF w] size assms
    by (auto simp: writeXlsx_def uint16_def uint32_def Let_def zeros_def)
qed

definition small_package :: "(js_string \<times> js_string) list" where
  "small_package = [(units ''[Content_Types].xml'', units ''<Types/>''), (units ''xl/workbook.xml'', units ''<workbook/>''),
     (units ''xl/_rels/workbook.xml.rels'', [])]"


section \<open>A written package is a valid upload\<close>

lemma read_entries_written:
  "read_entries (a @ central_part offset ps @ z) (length (a @ central_part offset ps)) (length ps) (length a) names
    = Inr (length (a @ central_part offset ps), rev (map fst ps) @ names)"
proof (induction ps arbitrary: a offset names)
  case (Cons p ps)
  let ?b = "a @ central_part offset (p # ps) @ z"
  have b: "?b = (a @ central_bytes offset p) @ central_part (offset + length (local_bytes p)) ps @ z" by simp
  have f: "readUInt32LE ?b (length a) = Inr 0x02014b50" "readUInt16LE ?b (length a + 28) = Inr (length (fst p))"
    "readUInt16LE ?b (length a + 30) = Inr 0" "readUInt16LE ?b (length a + 32) = Inr 0"
    "FileValidation.slice ?b (length a + 46) (length a + 46 + length (fst p)) = fst p"
    using read_suffix(2) [of a _ 0]
    by (simp_all add: read_suffix central_fields read_skip read_here slice_skip slice_here)
  have "read_entries ?b (length (a @ central_part offset (p # ps))) (length ps) (length a + 46 + length (fst p)) (fst p # names)
      = Inr (length (a @ central_part offset (p # ps)), rev (map fst ps) @ fst p # names)"
    using Cons.IH [of "a @ central_bytes offset p" "offset + length (local_bytes p)" "fst p # names"]
    unfolding b by (simp add: add.assoc)
  then show ?case
    unfolding list.size(4) add_Suc_right add_0_right read_entries.simps f result_bind_simps Let_def by simp
qed simp

text \<open>
  What \<open>writeXlsx\<close> writes also passes the structural check of uploaded workbooks, so a redacted
  copy can be stored as a file.
\<close>

lemma validates_written:
  assumes "writeXlsx parts maxBytes = Inr out" "maxBytes < 16777216" "2 \<le> length parts" "length parts < 16384"
    and "units ''[Content_Types].xml'' \<in> fst ` set parts" "units ''xl/workbook.xml'' \<in> fst ` set parts"
  shows "validateXlsx out = Inr ()"
proof -
  define ps where "ps = map encoded parts"
  note w = writeXlsx_bytes [OF assms(1), folded ps_def]
  have small: "length ps < 16384" "length (archive_bytes ps) < 16777216"
    using assms(2,4) w(1,4) by (simp_all add: ps_def)
  note e = end_record_written [OF small, folded w(1)]
  define i where "i = length (local_part ps) + length (central_part 0 ps)"
  have out: "out = local_part ps @ central_part 0 ps @ end_bytes (length ps) (length (central_part 0 ps)) (length (local_part ps))"
    by (simp add: w(1) archive_bytes_def)
  have r: "read_entries out i (length ps) (length (local_part ps)) [] = Inr (i, rev (map fst ps))"
    using read_entries_written [of "local_part ps" 0 ps "end_bytes (length ps) (length (central_part 0 ps))
      (length (local_part ps))" "[]"] by (simp add: out i_def)
  have "length (local_part ps) \<noteq> 0" using assms(3) by (cases ps) (auto simp: ps_def)
  then have start: "starts_with [0x50, 0x4b, 3, 4] out" "length out = i + 22" "22 \<le> length out"
    using assms(3) unfolding out ps_def i_def
    by (cases parts; simp add: starts_with_def local_bytes_def)+
  have "utf8_bytes n \<in> set (rev (map fst ps))" if "n \<in> fst ` set parts" for n
    using that by (force simp: ps_def encoded_def)
  from this [OF assms(5)] this [OF assms(6)]
  have "content_types \<in> set (rev (map fst ps))" "workbook_part \<in> set (rev (map fst ps))"
    by (simp_all add: content_types_def workbook_part_def units_def utf8_encode1_def)
  moreover have "\<not> length ps < 2" using assms(3) by (simp add: ps_def)
  ultimately show ?thesis
    using start e(1,3,4,5) r \<open>length (local_part ps) \<noteq> 0\<close>
    unfolding validateXlsx_def end_signature_def i_def [symmetric] by (simp add: Let_def i_def)
qed

lemma small_package_validates:
  "\<exists>out. writeXlsx small_package 1000 = Inr out \<and> validateXlsx out = Inr ()"
proof -
  obtain out where out: "writeXlsx small_package 1000 = Inr out"
    using writeXlsx_total [of small_package 1000]
    by (auto simp: small_package_def written_size_def archive_bytes_def encoded_def units_def utf8_encode1_def)
  from validates_written [OF out] show ?thesis using out by (simp add: small_package_def)
qed

end
