(* ===== verification/Workbook.thy ===== *)
theory Workbook
  imports Packages Detectors GuardWorker
begin

text \<open>
  The scan of a workbook (\<open>workbook/scan-workbook.ts\<close>): its parts are read as events of an XML
  parser, its relationships, sheets and shared strings resolved, and the text of every cell given
  to the detectors. The package \<open>saxes\<close> is a parameter: a state machine that is fed text and gives
  events.
\<close>

section \<open>The parser\<close>

record xml_attribute =
  xa_local :: js_string
  xa_uri :: js_string
  xa_value :: js_string

record xml_tag =
  xt_local :: js_string
  xt_uri :: js_string
  xt_attributes :: "(js_string \<times> xml_attribute) list"

datatype xml_event =
    X_Error | X_Doctype | X_Instruction | X_Open xml_tag | X_Text js_string | X_Close xml_tag

record 'p sax =
  sx_init :: 'p
  sx_write :: "'p \<Rightarrow> js_string \<Rightarrow> 'p \<times> xml_event list"
  sx_close :: "'p \<Rightarrow> xml_event list"

definition MAIN :: js_string where
  "MAIN = units ''http://schemas.openxmlformats.org/spreadsheetml/2006/main''"

definition REL :: js_string where
  "REL = units ''http://schemas.openxmlformats.org/package/2006/relationships''"

definition OFFICE_REL :: js_string where
  "OFFICE_REL = units ''http://schemas.openxmlformats.org/officeDocument/2006/relationships''"

definition attr :: "xml_tag \<Rightarrow> string \<Rightarrow> js_string option" where
  "attr tag name = map_option xa_value (map_of (xt_attributes tag) (units name))"

definition attr_is :: "xml_tag \<Rightarrow> string \<Rightarrow> js_string \<Rightarrow> bool" where
  "attr_is tag name v \<longleftrightarrow> attr tag name = Some v"

text \<open>\<open>['1', 'true'].includes(attr(tag, name) ?? '')\<close>.\<close>

definition attr_true :: "xml_tag \<Rightarrow> string \<Rightarrow> bool" where
  "attr_true tag name \<longleftrightarrow> attr_is tag name (units ''1'') \<or> attr_is tag name (units ''true'')"

definition is_tag :: "string \<Rightarrow> xml_tag \<Rightarrow> bool" where
  "is_tag name tag \<longleftrightarrow> xt_local tag = units name"

text \<open>A number in decimal digits within bounds.\<close>

definition integer :: "js_string option \<Rightarrow> int \<Rightarrow> int \<Rightarrow> error + int" where
  "integer v lo hi =
     (case v of
        None \<Rightarrow> Inl invalid_workbook
      | Some s \<Rightarrow>
          if s = [] \<or> \<not> list_all is_digit s then Inl invalid_workbook
          else let n = digits_number s in
            if n > 9007199254740991 \<or> n < lo \<or> n > hi then Inl limit_exceeded else Inr n)"

text \<open>
  \<open>TextDecoder\<close> in its streaming, fatal mode: bytes of an unfinished character wait for the next
  chunk, and the byte order mark is dropped from the start.
\<close>

definition unfinished :: "bytes \<Rightarrow> bool" where
  "unfinished s \<longleftrightarrow>
     (case s of
        [a] \<Rightarrow> 194 \<le> a \<and> a < 245
      | [a, b] \<Rightarrow> 224 \<le> a \<and> a < 245 \<and> continuation b \<and> (a = 224 \<longrightarrow> 160 \<le> b) \<and> (a = 237 \<longrightarrow> b < 160)
          \<and> (a = 240 \<longrightarrow> 144 \<le> b) \<and> (a = 244 \<longrightarrow> b < 144)
      | [a, b, c] \<Rightarrow> 240 \<le> a \<and> a < 245 \<and> continuation b \<and> continuation c
          \<and> (a = 240 \<longrightarrow> 144 \<le> b) \<and> (a = 244 \<longrightarrow> b < 144)
      | _ \<Rightarrow> False)"

definition decode_chunk :: "bytes \<Rightarrow> (nat list \<times> bytes) option" where
  "decode_chunk s =
     (case find (\<lambda>k. k \<le> length s \<and> utf8_decode (take (length s - k) s) \<noteq> None
          \<and> (k = 0 \<or> unfinished (drop (length s - k) s))) [0, 1, 2, 3] of
        None \<Rightarrow> None
      | Some k \<Rightarrow> Some (the (utf8_decode (take (length s - k) s)), drop (length s - k) s))"

definition without_mark :: "bool \<Rightarrow> nat list \<Rightarrow> nat list" where
  "without_mark started cs = (case cs of c # r \<Rightarrow> if \<not> started \<and> c = 65279 then r else cs | [] \<Rightarrow> [])"

text \<open>The events of a part: fed to the parser 4096 bytes at a time, then closed.\<close>

function feed :: "'p sax \<Rightarrow> 'p \<Rightarrow> bool \<Rightarrow> bytes \<Rightarrow> bytes \<Rightarrow> xml_event list" where
  "feed X p started pending buffer =
     (if buffer = [] then
        (if pending \<noteq> [] then [X_Error] else snd (sx_write X p []) @ sx_close X (fst (sx_write X p [])))
      else
        case decode_chunk (pending @ take 4096 buffer) of
          None \<Rightarrow> [X_Error]
        | Some (cs, pending') \<Rightarrow>
            (let r = sx_write X p (code_units (without_mark started cs)) in
             snd r @ feed X (fst r) (started \<or> cs \<noteq> []) pending' (drop 4096 buffer)))"
  by pat_completeness auto

termination
  by (relation "measure (\<lambda>(X, p, started, pending, buffer). length buffer)") auto

declare feed.simps [simp del]

text \<open>
  The handlers of a reader, with the state they share. Every failure of the decoder or the parser
  ends as an invalid workbook.
\<close>

type_synonym 's opener = "xml_tag \<Rightarrow> 's \<Rightarrow> error + 's"
type_synonym 's texter = "js_string \<Rightarrow> 's \<Rightarrow> error + 's"

fun handle_events ::
  "guard_limits \<Rightarrow> 's opener \<Rightarrow> 's texter \<Rightarrow> 's opener \<Rightarrow> xml_event list \<Rightarrow> int \<Rightarrow> nat \<Rightarrow> 's \<Rightarrow> error + 's" where
  "handle_events L op tx cl [] depth nodes s = Inr s"
| "handle_events L op tx cl (X_Open tag # es) depth nodes s =
     (if depth + 1 > 64 \<or> nodes + 1 > 1000000 \<or> length (xt_attributes tag) > 64
         \<or> list_ex (\<lambda>(_, a). utf8_byteLength (xa_value a) > lim_textBytes L) (xt_attributes tag)
      then Inl limit_exceeded
      else result_bind (op tag s) (handle_events L op tx cl es (depth + 1) (nodes + 1)))"
| "handle_events L op tx cl (X_Text t # es) depth nodes s =
     result_bind (tx t s) (handle_events L op tx cl es depth nodes)"
| "handle_events L op tx cl (X_Close tag # es) depth nodes s =
     result_bind (cl tag s) (handle_events L op tx cl es (depth - 1) nodes)"
| "handle_events L op tx cl (_ # es) depth nodes s = Inl invalid_workbook"

definition xml ::
  "'p sax \<Rightarrow> guard_limits \<Rightarrow> 's opener \<Rightarrow> 's texter \<Rightarrow> 's opener \<Rightarrow> bytes \<Rightarrow> 's \<Rightarrow> error + 's" where
  "xml X L op tx cl buffer s = handle_events L op tx cl (feed X (sx_init X) False [] buffer) 0 0 s"

definition ignore :: "'a \<Rightarrow> 's \<Rightarrow> error + 's" where
  "ignore _ s = Inr s"

section \<open>Types, parts and relationships\<close>

definition check_type :: "bool opener" where
  "check_type tag found = Inr
     (if is_tag ''Override'' tag \<and> attr_is tag ''PartName'' (units ''/xl/workbook.xml'')
      then attr_is tag ''ContentType''
        (units ''application/vnd.openxmlformats-officedocument.spreadsheetml.sheet.main+xml'')
      else found)"

definition p_contains :: "js_string \<Rightarrow> js_string \<Rightarrow> bool" where
  "p_contains pat s \<longleftrightarrow> buffer_includes pat s"

definition ends_with :: "string \<Rightarrow> js_string \<Rightarrow> bool" where
  "ends_with suffix s \<longleftrightarrow> drop (length s - length suffix) s = units suffix"

text \<open>The names refused, the sheets, and the names the scan knows.\<close>

definition forbidden_part :: "js_string \<Rightarrow> bool" where
  "forbidden_part name \<longleftrightarrow>
     list_ex (\<lambda>t. p_contains (units t) (map lower name)) [''vbaproject'', ''embeddings/'', ''activex/'', ''externallinks/'']
     \<or> \<not> (ends_with ''.xml'' name \<or> ends_with ''.rels'' name)"

definition sheet_pattern :: pattern where
  "sheet_pattern = p_whole [p_text ''xl/worksheets/sheet'', p_plus p_digit, p_text ''.xml'']"

definition known_parts :: pattern where
  "known_parts = p_any
     [p_whole [p_text ''[content_types].xml''], p_whole [p_text ''_rels/.rels''],
      p_whole [p_text ''docprops/'', p_any (map p_text [''core'', ''app'', ''custom'']), p_text ''.xml''],
      p_whole [p_text ''xl/'', p_any [p_text ''workbook.xml'', p_text ''_rels/workbook.xml.rels'',
        p_text ''sharedstrings.xml'', p_text ''styles.xml'',
        p_seq [p_text ''theme/theme'', p_plus p_digit, p_text ''.xml''],
        p_seq [p_text ''worksheets/sheet'', p_plus p_digit, p_text ''.xml''],
        p_seq [p_text ''worksheets/_rels/sheet'', p_plus p_digit, p_text ''.xml.rels'']]]]"

definition add_flag :: "string \<Rightarrow> string list \<Rightarrow> string list" where
  "add_flag f flags = (if f \<in> set flags then flags else flags @ [f])"

definition suspicious_target :: "js_string \<Rightarrow> bool" where
  "suspicious_target t \<longleftrightarrow> list_ex (\<lambda>c. c \<in> set (units [CHR 0x5C] @ units '':#?%'')) t"

definition check_relationship :: "string list opener" where
  "check_relationship tag flags =
     (if xt_uri tag = REL \<and> is_tag ''Relationship'' tag then
        (case attr tag ''Target'' of
           None \<Rightarrow> Inl invalid_workbook
         | Some target \<Rightarrow>
             if target = [] \<or> attr_is tag ''TargetMode'' (units ''External'') \<or> suspicious_target target
             then Inl invalid_workbook
             else Inr (if attr_is tag ''Type'' (OFFICE_REL @ units ''/hyperlink'')
                       then add_flag ''hyperlinks'' flags else flags))
      else Inr flags)"

fun scan_parts ::
  "'p sax \<Rightarrow> guard_limits \<Rightarrow> (js_string \<times> bytes) list \<Rightarrow> string list \<Rightarrow> error + string list" where
  "scan_parts X L [] flags = Inr flags"
| "scan_parts X L ((name, body) # rest) flags =
     (if forbidden_part name then Inl invalid_workbook
      else result_bind (xml X L check_relationship ignore ignore body
          (if test known_parts name then flags else add_flag ''unsupported_parts'' flags))
        (scan_parts X L rest))"

text \<open>\<open>posix.normalize\<close>: the segments kept, the last first.\<close>

fun normal_segments :: "bool \<Rightarrow> js_string list \<Rightarrow> js_string list \<Rightarrow> js_string list" where
  "normal_segments up [] acc = rev acc"
| "normal_segments up (p # ps) acc =
     (if p = [] \<or> p = units ''.'' then normal_segments up ps acc
      else if p = units ''..'' then
        (case acc of
           q # qs \<Rightarrow> if q \<noteq> units ''..'' then normal_segments up ps qs
             else if up then normal_segments up ps (p # acc) else normal_segments up ps acc
         | [] \<Rightarrow> if up then normal_segments up ps [p] else normal_segments up ps [])
      else normal_segments up ps (p # acc))"

fun join_path :: "js_string list \<Rightarrow> js_string" where
  "join_path [] = []"
| "join_path [p] = p"
| "join_path (p # ps) = p @ 47 # join_path ps"

definition normalize :: "js_string \<Rightarrow> js_string" where
  "normalize path =
     (if path = [] then units ''.''
      else let absolute = hd path = 47; trailing = last path = 47;
             body = join_path (normal_segments (\<not> absolute) (segments [] path) []) in
        if body = [] then (if absolute then [47] else if trailing then units ''./'' else units ''.'')
        else (if absolute then [47] else []) @ body @ (if trailing then [47] else []))"

text \<open>
  Lower case, for comparison with texts of lower-case ASCII: the Kelvin sign is the one other
  character whose lower case is an ASCII letter.
\<close>

definition to_lower :: "nat \<Rightarrow> nat" where
  "to_lower c = (if c = 8490 then 107 else lower c)"

definition resolve_target :: "js_string \<Rightarrow> js_string" where
  "resolve_target target = map to_lower (normalize
     (case target of c # r \<Rightarrow> if c = 47 then r else units ''xl/'' @ target | [] \<Rightarrow> units ''xl/''))"

type_synonym links = "(js_string \<times> js_string) list"

definition add_relationship :: "(js_string \<times> bytes) list \<Rightarrow> links opener" where
  "add_relationship parts tag links =
     (if xt_uri tag \<noteq> REL \<or> \<not> is_tag ''Relationship'' tag then Inr links
      else case (attr tag ''Id'', attr tag ''Target'') of
        (Some i, Some target) \<Rightarrow>
          if i = [] \<or> target = [] \<or> map_of links i \<noteq> None then Inl invalid_workbook
          else if attr_is tag ''Type'' (OFFICE_REL @ units ''/worksheet'') then
            (let resolved = resolve_target target in
             if \<not> test sheet_pattern resolved \<or> \<not> has_part resolved parts then Inl invalid_workbook
             else Inr (links @ [(i, resolved)]))
          else Inr links
      | _ \<Rightarrow> Inl invalid_workbook)"

section \<open>Sheets and shared strings\<close>

text \<open>The part of a name; without it the code fails, and the failure is an invalid workbook.\<close>

definition part :: "js_string \<Rightarrow> (js_string \<times> bytes) list \<Rightarrow> error + bytes" where
  "part name parts = (case map_of parts name of None \<Rightarrow> Inl invalid_workbook | Some b \<Rightarrow> Inr b)"

record sheet_entry =
  she_path :: js_string
  she_hidden :: bool

record book_state =
  bk_root :: bool
  bk_sheets :: "sheet_entry list"
  bk_flags :: "string list"

definition relation_id :: "xml_tag \<Rightarrow> js_string option" where
  "relation_id tag = map_option (\<lambda>(_, a). xa_value a)
     (find (\<lambda>(_, a). xa_local a = units ''id'' \<and> xa_uri a = OFFICE_REL) (xt_attributes tag))"

definition open_book :: "guard_limits \<Rightarrow> links \<Rightarrow> book_state opener" where
  "open_book L links tag b =
     (let root = is_tag ''workbook'' tag in
      if root \<and> (xt_uri tag \<noteq> MAIN \<or> bk_root b) then Inl invalid_workbook
      else
      let b = b\<lparr>bk_root := bk_root b \<or> root,
                bk_flags := (if is_tag ''definedName'' tag then add_flag ''defined_names'' (bk_flags b)
                             else bk_flags b)\<rparr> in
      if is_tag ''workbookProtection'' tag then Inl invalid_workbook
      else if xt_uri tag = MAIN \<and> is_tag ''sheet'' tag then
        (case relation_id tag of
           None \<Rightarrow> Inl invalid_workbook
         | Some r \<Rightarrow>
        (case map_of links r of
           None \<Rightarrow> Inl invalid_workbook
         | Some path \<Rightarrow>
             if path \<in> she_path ` set (bk_sheets b) then Inl invalid_workbook
             else let sheets = bk_sheets b @ [\<lparr>she_path = path,
                    she_hidden = attr_is tag ''state'' (units ''hidden'')
                      \<or> attr_is tag ''state'' (units ''veryHidden'')\<rparr>] in
               if length sheets > lim_sheets L then Inl limit_exceeded
               else Inr (b\<lparr>bk_sheets := sheets\<rparr>)))
      else Inr b)"

record strings_state =
  ss_strings :: "js_string list"
  ss_value :: js_string
  ss_inside :: bool
  ss_inText :: bool

definition open_string :: "strings_state opener" where
  "open_string tag s =
     (if xt_uri tag \<noteq> MAIN then Inl invalid_workbook
      else let s = (if is_tag ''si'' tag then s\<lparr>ss_inside := True, ss_value := []\<rparr> else s) in
        Inr (if is_tag ''t'' tag \<and> ss_inside s then s\<lparr>ss_inText := True\<rparr> else s))"

definition text_string :: "guard_limits \<Rightarrow> strings_state texter" where
  "text_string L chunk s =
     (if ss_inText s then
        let v = ss_value s @ chunk in
        if utf8_byteLength v > lim_textBytes L then Inl limit_exceeded else Inr (s\<lparr>ss_value := v\<rparr>)
      else Inr s)"

definition close_string :: "guard_limits \<Rightarrow> strings_state opener" where
  "close_string L tag s =
     (let s = (if is_tag ''t'' tag then s\<lparr>ss_inText := False\<rparr> else s) in
      if is_tag ''si'' tag then
        let strings = ss_strings s @ [ss_value s] in
        if length strings > lim_cells L then Inl limit_exceeded
        else Inr (s\<lparr>ss_strings := strings, ss_inside := False\<rparr>)
      else Inr s)"

definition shared_strings ::
  "'p sax \<Rightarrow> guard_limits \<Rightarrow> (js_string \<times> bytes) list \<Rightarrow> error + js_string list" where
  "shared_strings X L parts =
     (case map_of parts (units ''xl/sharedstrings.xml'') of
        None \<Rightarrow> Inr []
      | Some body \<Rightarrow>
          result_bind (xml X L open_string (text_string L) (close_string L) body
             \<lparr>ss_strings = [], ss_value = [], ss_inside = False, ss_inText = False\<rparr>)
           (\<lambda>s. Inr (ss_strings s)))"

section \<open>Cells\<close>

record scanned_cell =
  cl_row :: int
  cl_column :: int
  cl_type :: js_string
  cl_value :: js_string
  cl_formula :: bool

text \<open>What outlives a sheet: flags, shared strings referenced, findings and the count of cells.\<close>

record scan_state =
  sc_flags :: "string list"
  sc_referenced :: "int list"
  sc_findings :: "finding_view list"
  sc_cells :: nat
  sc_root :: bool
  sc_dataOpen :: bool
  sc_rowOpen :: bool
  sc_row :: int
  sc_hiddenRow :: bool
  sc_hiddenColumns :: "int list"
  sc_addresses :: "js_string list"
  sc_cell :: "scanned_cell option"
  sc_capture :: bool

text \<open>\<open>/^([A-Z]{1,3})([1-9]\d{0,6})$/\<close>: the letters and digits of an address.\<close>

definition parse_address :: "js_string \<Rightarrow> (js_string \<times> js_string) option" where
  "parse_address s =
     (let letters = takeWhile is_upper s; ds = dropWhile is_upper s in
      if 1 \<le> length letters \<and> length letters \<le> 3 \<and> 1 \<le> length ds \<and> length ds \<le> 7
         \<and> list_all is_digit ds \<and> hd ds \<noteq> 48
      then Some (letters, ds) else None)"

definition column_of :: "js_string \<Rightarrow> int" where
  "column_of letters = foldl (\<lambda>n c. n * 26 + int c - 64) 0 letters"

definition unsupported_elements :: "string list" where
  "unsupported_elements = [''hyperlink'', ''dataValidation'', ''conditionalFormatting'', ''tablePart'',
     ''drawing'', ''legacyDrawing'', ''ext'', ''headerFooter'']"

definition cell_types :: "string list" where
  "cell_types = [''n'', ''b'', ''e'', ''d'', ''s'', ''str'', ''inlineStr'']"

text \<open>The steps of the handler of opening tags, in the code's order.\<close>

definition open_worksheet :: "scan_state opener" where
  "open_worksheet tag s =
     (if is_tag ''worksheet'' tag \<and> (xt_uri tag \<noteq> MAIN \<or> sc_root s) then Inl invalid_workbook
      else if xt_uri tag \<noteq> MAIN \<or> is_tag ''sheetProtection'' tag then Inl invalid_workbook
      else
      let flags = (if list_ex (\<lambda>n. is_tag n tag) unsupported_elements
                   then add_flag ''unsupported_elements'' (sc_flags s) else sc_flags s);
          flags = (if is_tag ''mergeCell'' tag then add_flag ''merged_cells'' flags else flags) in
      Inr (s\<lparr>sc_root := sc_root s \<or> is_tag ''worksheet'' tag, sc_flags := flags\<rparr>))"

definition open_column :: "guard_limits \<Rightarrow> scan_state opener" where
  "open_column L tag s =
     (if \<not> is_tag ''col'' tag then Inr s
      else
      result_bind (integer (attr tag ''min'') 1 (int (lim_columns L))) (\<lambda>lo.
      result_bind (integer (attr tag ''max'') lo (int (lim_columns L))) (\<lambda>hi.
      Inr (if attr_true tag ''hidden'' then s\<lparr>sc_hiddenColumns := sc_hiddenColumns s @ [lo..hi]\<rparr> else s))))"

definition open_row :: "guard_limits \<Rightarrow> scan_state opener" where
  "open_row L tag s =
     (if is_tag ''sheetData'' tag then
        (if sc_dataOpen s then Inl invalid_workbook else Inr (s\<lparr>sc_dataOpen := True\<rparr>))
      else if is_tag ''row'' tag then
        (if \<not> sc_dataOpen s \<or> sc_rowOpen s then Inl invalid_workbook
         else
         result_bind (integer (attr tag ''r'') 1 (int (lim_rows L))) (\<lambda>n.
         if n \<le> sc_row s then Inl invalid_workbook
         else Inr (s\<lparr>sc_rowOpen := True, sc_row := n, sc_hiddenRow := attr_true tag ''hidden''\<rparr>)))
      else Inr s)"

definition open_cell :: "guard_limits \<Rightarrow> scan_state opener" where
  "open_cell L tag s =
     (if \<not> is_tag ''c'' tag then Inr s
      else if \<not> sc_rowOpen s then Inl invalid_workbook
      else if sc_cell s \<noteq> None \<or> sc_cells s + 1 > lim_cells L then Inl limit_exceeded
      else
      let address = (case attr tag ''r'' of None \<Rightarrow> [] | Some a \<Rightarrow> a) in
      (case parse_address address of
         None \<Rightarrow> Inl invalid_workbook
       | Some (letters, ds) \<Rightarrow>
           if address \<in> set (sc_addresses s) \<or> digits_number ds \<noteq> sc_row s then Inl invalid_workbook
           else if column_of letters > int (lim_columns L) then Inl limit_exceeded
           else
           let t = (case attr tag ''t'' of None \<Rightarrow> units ''n'' | Some v \<Rightarrow> v) in
           if t \<notin> units ` set cell_types then Inl invalid_workbook
           else Inr (s\<lparr>sc_cells := sc_cells s + 1, sc_addresses := sc_addresses s @ [address],
                  sc_cell := Some \<lparr>cl_row = sc_row s, cl_column = column_of letters, cl_type = t,
                    cl_value = [], cl_formula = False\<rparr>\<rparr>)))"

definition open_content :: "scan_state opener" where
  "open_content tag s =
     (let s = (if is_tag ''f'' tag
               then s\<lparr>sc_flags := add_flag ''formulas'' (sc_flags s),
                      sc_cell := map_option (\<lambda>c. c\<lparr>cl_formula := True\<rparr>) (sc_cell s)\<rparr>
               else s) in
      Inr (if sc_cell s \<noteq> None \<and> (is_tag ''v'' tag \<or> is_tag ''t'' tag) then s\<lparr>sc_capture := True\<rparr> else s))"

definition open_sheet :: "guard_limits \<Rightarrow> scan_state opener" where
  "open_sheet L tag s =
     result_bind (open_worksheet tag s) (\<lambda>s.
     result_bind (open_column L tag s) (\<lambda>s.
     result_bind (open_row L tag s) (\<lambda>s.
     result_bind (open_cell L tag s) (open_content tag))))"

definition text_sheet :: "guard_limits \<Rightarrow> scan_state texter" where
  "text_sheet L chunk s =
     (case sc_cell s of
        Some c \<Rightarrow>
          if sc_capture s then
            let v = cl_value c @ chunk in
            if utf8_byteLength v > lim_textBytes L then Inl limit_exceeded
            else Inr (s\<lparr>sc_cell := Some (c\<lparr>cl_value := v\<rparr>)\<rparr>)
          else Inr s
      | None \<Rightarrow> Inr s)"

fun record_findings ::
  "guard_limits \<Rightarrow> int \<Rightarrow> scanned_cell \<Rightarrow> bool \<Rightarrow> category list \<Rightarrow> finding_view list
    \<Rightarrow> error + finding_view list" where
  "record_findings L sheetIndex c hidden [] findings = Inr findings"
| "record_findings L sheetIndex c hidden (k # ks) findings =
     (if length findings \<ge> lim_findings L then Inl limit_exceeded
      else record_findings L sheetIndex c hidden ks (findings @
        [\<lparr>fv_ordinal = int (length findings), fv_sheetIndex = sheetIndex, fv_row = cl_row c,
          fv_column = cl_column c, fv_category = k,
          fv_evidence = (if k = Cat_Payment_Card \<or> k = Cat_Iban then Checksum_Valid else Format_Valid),
          fv_hidden = hidden\<rparr>]))"

text \<open>The text of a cell, and the shared string it refers to.\<close>

definition cell_text ::
  "js_string list \<Rightarrow> scanned_cell \<Rightarrow> error + js_string option \<times> int option" where
  "cell_text strings c =
     (if \<not> cl_formula c \<and> cl_type c = units ''s'' then
        result_bind (integer (Some (cl_value c)) 0 (int (length strings) - 1)) (\<lambda>i.
        Inr (Some (strings ! nat i), Some i))
      else if \<not> cl_formula c \<and> cl_type c \<in> {units ''str'', units ''inlineStr''}
      then Inr (Some (cl_value c), None)
      else Inr (None, None))"

definition close_marks :: "xml_tag \<Rightarrow> scan_state \<Rightarrow> scan_state" where
  "close_marks tag s =
     (let s = (if is_tag ''row'' tag then s\<lparr>sc_rowOpen := False\<rparr> else s);
          s = (if is_tag ''sheetData'' tag then s\<lparr>sc_dataOpen := False\<rparr> else s) in
      if is_tag ''v'' tag \<or> is_tag ''t'' tag then s\<lparr>sc_capture := False\<rparr> else s)"

definition close_sheet ::
  "recognisers \<Rightarrow> guard_limits \<Rightarrow> category list \<Rightarrow> js_string option \<Rightarrow> js_string list \<Rightarrow> int \<Rightarrow> bool
    \<Rightarrow> scan_state opener" where
  "close_sheet R L categories region strings sheetIndex hiddenSheet tag s =
     (let s = close_marks tag s in
      case sc_cell s of
        None \<Rightarrow> Inr s
      | Some c \<Rightarrow>
      if \<not> is_tag ''c'' tag then Inr s
      else
      result_bind (cell_text strings c) (\<lambda>(txt, index).
      result_bind
        (case txt of
           None \<Rightarrow> Inr (sc_findings s)
         | Some t \<Rightarrow> record_findings L sheetIndex c
             (hiddenSheet \<or> sc_hiddenRow s \<or> cl_column c \<in> set (sc_hiddenColumns s))
             (detect R t categories region) (sc_findings s))
        (\<lambda>findings.
      Inr (s\<lparr>sc_findings := findings, sc_cell := None,
             sc_referenced := (case index of Some i \<Rightarrow> if i \<in> set (sc_referenced s)
                then sc_referenced s else sc_referenced s @ [i] | None \<Rightarrow> sc_referenced s)\<rparr>))))"

section \<open>The scan\<close>

definition fresh_sheet :: "scan_state \<Rightarrow> scan_state" where
  "fresh_sheet s = s\<lparr>sc_root := False, sc_dataOpen := False, sc_rowOpen := False, sc_row := 0,
     sc_hiddenRow := False, sc_hiddenColumns := [], sc_addresses := [], sc_cell := None,
     sc_capture := False\<rparr>"

fun scan_sheets ::
  "'p sax \<Rightarrow> recognisers \<Rightarrow> guard_limits \<Rightarrow> category list \<Rightarrow> js_string option \<Rightarrow> (js_string \<times> bytes) list
    \<Rightarrow> js_string list \<Rightarrow> int \<Rightarrow> sheet_entry list \<Rightarrow> scan_state \<Rightarrow> error + scan_state" where
  "scan_sheets X R L categories region parts strings i [] s = Inr s"
| "scan_sheets X R L categories region parts strings i (sheet # rest) s =
     result_bind (part (she_path sheet) parts) (\<lambda>body.
     result_bind (xml X L (open_sheet L) (text_sheet L)
         (close_sheet R L categories region strings i (she_hidden sheet)) body (fresh_sheet s)) (\<lambda>s.
     if \<not> sc_root s then Inl invalid_workbook
     else scan_sheets X R L categories region parts strings (i + 1) rest s))"

definition reported_flags :: "js_string list \<Rightarrow> scan_state \<Rightarrow> string list" where
  "reported_flags strings s = sort (if length strings > length (sc_referenced s)
     then add_flag ''unreferenced_shared_strings'' (sc_flags s) else sc_flags s)"

definition scan_contents ::
  "'p sax \<Rightarrow> recognisers \<Rightarrow> category list \<Rightarrow> js_string option \<Rightarrow> guard_limits
    \<Rightarrow> (js_string \<times> bytes) list \<Rightarrow> error + scan_result" where
  "scan_contents X R categories region L parts =
     result_bind (part types_part parts) (\<lambda>types.
     result_bind (xml X L check_type ignore ignore types False) (\<lambda>workbookType.
     if \<not> workbookType then Inl invalid_workbook
     else
     result_bind (scan_parts X L parts [''cell_text_only'', ''metadata_not_scanned'']) (\<lambda>flags.
     result_bind (part links_part parts) (\<lambda>linksBody.
     result_bind (xml X L (add_relationship parts) ignore ignore linksBody []) (\<lambda>links.
     result_bind (part book_part parts) (\<lambda>book.
     result_bind (xml X L (open_book L links) ignore ignore book
         \<lparr>bk_root = False, bk_sheets = [], bk_flags = flags\<rparr>) (\<lambda>b.
     if \<not> bk_root b \<or> bk_sheets b = []
        \<or> list_ex (\<lambda>(p, _). test sheet_pattern p \<and> p \<notin> she_path ` set (bk_sheets b)) parts
     then Inl invalid_workbook
     else
     result_bind (shared_strings X L parts) (\<lambda>strings.
     result_bind (scan_sheets X R L categories region parts strings 0 (bk_sheets b)
         \<lparr>sc_flags = bk_flags b, sc_referenced = [], sc_findings = [], sc_cells = 0, sc_root = False,
          sc_dataOpen = False, sc_rowOpen = False, sc_row = 0, sc_hiddenRow = False,
          sc_hiddenColumns = [], sc_addresses = [], sc_cell = None, sc_capture = False\<rparr>) (\<lambda>s.
     Inr \<lparr>sr_findings = sc_findings s, sr_processedCells = int (sc_cells s),
          sr_sheets = int (length (bk_sheets b)),
          sr_compatibilityFlags = reported_flags strings s,
          sr_coverage = Limited\<rparr>)))))))))"

definition scan_package ::
  "archive_reader \<Rightarrow> 'p sax \<Rightarrow> recognisers \<Rightarrow> bytes \<Rightarrow> category list \<Rightarrow> js_string option \<Rightarrow> guard_limits
    \<Rightarrow> error + scan_result" where
  "scan_package archive X R input categories region L =
     result_bind (preflight archive L input) (scan_contents X R categories region L)"

definition scanWorkbook ::
  "archive_reader \<Rightarrow> 'p sax \<Rightarrow> recognisers \<Rightarrow> bytes \<Rightarrow> category list \<Rightarrow> js_string option \<Rightarrow> guard_limits
    \<Rightarrow> error + scan_result" where
  "scanWorkbook archive X R input categories region L =
     wrapped invalid_workbook (scan_package archive X R input categories region L)"

end
