(* ===== verification/Redaction.thy ===== *)
theory Redaction
  imports Workbook Json GuardCopies
begin

text \<open>
  Redaction of a workbook (\<open>workbook/sanitize-workbook.ts\<close>): the profile of workbooks that are
  rewritten, the canonical package written from one, and the whole operation, which reads its
  output back before it returns it.
\<close>

section \<open>The profile\<close>

definition profile_unsupported :: error where
  "profile_unsupported = ScanError Guard_Profile_Unsupported"

text \<open>The table of elements: the children and the attributes each may have.\<close>

definition allowed :: "(string \<times> string list \<times> string list) list" where
  "allowed =
     [(''workbook'', [''sheets'', ''bookViews'', ''workbookPr''], []),
      (''workbookPr'', [], [''date1904'']),
      (''bookViews'', [''workbookView''], []),
      (''workbookView'', [], [''activeTab'', ''firstSheet'', ''visibility'', ''showHorizontalScroll'',
         ''showVerticalScroll'', ''showSheetTabs'', ''xWindow'', ''yWindow'', ''windowWidth'',
         ''windowHeight'', ''tabRatio'']),
      (''sheets'', [''sheet''], []),
      (''sheet'', [], [''name'', ''sheetId'', ''state'', ''r:id'']),
      (''worksheet'', [''sheetData'', ''cols'', ''dimension''], []),
      (''dimension'', [], [''ref'']),
      (''cols'', [''col''], []),
      (''col'', [], [''min'', ''max'', ''hidden'', ''width'', ''customWidth'']),
      (''sheetData'', [''row''], []),
      (''row'', [''c''], [''r'', ''hidden'', ''ht'', ''customHeight'', ''spans'']),
      (''c'', [''v'', ''is''], [''r'', ''t'']),
      (''is'', [''t''], []),
      (''t'', [], [''xml:space'']),
      (''v'', [], []),
      (''sst'', [''si''], [''count'', ''uniqueCount'']),
      (''si'', [''t''], [])]"

definition rule_of :: "js_string \<Rightarrow> (string list \<times> string list) option" where
  "rule_of name = map_option snd (find (\<lambda>(n, _). units n = name) allowed)"

text \<open>
  A name that is no key of the table but a property every object inherits finds a value without
  children or attributes, and reading those fails.
\<close>

definition inherited :: "js_string \<Rightarrow> bool" where
  "inherited name \<longleftrightarrow> name \<in> units ` set [''constructor'', ''hasOwnProperty'', ''isPrototypeOf'',
     ''propertyIsEnumerable'', ''toLocaleString'', ''toString'', ''valueOf'', ''__defineGetter__'',
     ''__defineSetter__'', ''__lookupGetter__'', ''__lookupSetter__'']"

definition type_error :: error where
  "type_error = PlainError ''TypeError''"

datatype element =
  Element (el_name: js_string) (el_attrs: "(js_string \<times> js_string) list") (el_text: js_string)
    (el_children: "element list")

text \<open>The open elements, innermost first, and the root once it is closed.\<close>

record tree_state =
  tr_stack :: "element list"
  tr_root :: "element option"

fun add_child :: "element \<Rightarrow> element \<Rightarrow> element" where
  "add_child e (Element n a t cs) = Element n a t (cs @ [e])"

fun add_text :: "js_string \<Rightarrow> element \<Rightarrow> element" where
  "add_text s (Element n a t cs) = Element n a (t @ s) cs"

definition namespace_attribute :: "js_string \<Rightarrow> js_string \<Rightarrow> bool" where
  "namespace_attribute name v \<longleftrightarrow>
     name = units ''xmlns'' \<and> v = MAIN \<or> name = units ''xmlns:r'' \<and> v = OFFICE_REL"

fun keep_attributes ::
  "string list option \<Rightarrow> (js_string \<times> xml_attribute) list \<Rightarrow> error + (js_string \<times> js_string) list" where
  "keep_attributes names [] = Inr []"
| "keep_attributes names ((name, a) # rest) =
     (if namespace_attribute name (xa_value a) then keep_attributes names rest
      else case names of
        None \<Rightarrow> Inl type_error
      | Some ns \<Rightarrow>
          if name \<notin> units ` set ns then Inl profile_unsupported
          else result_bind (keep_attributes names rest) (\<lambda>as. Inr ((name, xa_value a) # as)))"

definition open_element :: "tree_state opener" where
  "open_element tag s =
     (let rule = rule_of (xt_local tag) in
      if xt_uri tag \<noteq> MAIN \<or> rule = None \<and> \<not> inherited (xt_local tag) then Inl profile_unsupported
      else
      result_bind
        (case tr_stack s of
           [] \<Rightarrow> Inr ()
         | e # _ \<Rightarrow>
             (case rule_of (el_name e) of
                None \<Rightarrow> Inl type_error
              | Some (children, _) \<Rightarrow> require (xt_local tag \<in> units ` set children) profile_unsupported))
        (\<lambda>_.
      result_bind (keep_attributes (map_option snd rule) (xt_attributes tag)) (\<lambda>as.
      if tr_stack s = [] \<and> tr_root s \<noteq> None then Inl profile_unsupported
      else Inr (s\<lparr>tr_stack := Element (xt_local tag) as [] [] # tr_stack s\<rparr>))))"

definition text_element :: "guard_limits \<Rightarrow> tree_state texter" where
  "text_element L txt s =
     (case tr_stack s of
        [] \<Rightarrow> if js_trim txt \<noteq> [] then Inl profile_unsupported else Inr s
      | e # rest \<Rightarrow>
          if el_name e \<notin> {units ''t'', units ''v''} \<and> js_trim txt \<noteq> [] then Inl profile_unsupported
          else let e' = add_text txt e in
            if utf8_byteLength (el_text e') > lim_textBytes L then Inl limit_exceeded
            else Inr (s\<lparr>tr_stack := e' # rest\<rparr>))"

definition close_element :: "tree_state opener" where
  "close_element tag s = Inr
     (case tr_stack s of
        [] \<Rightarrow> s
      | [e] \<Rightarrow> s\<lparr>tr_stack := [], tr_root := Some e\<rparr>
      | e # p # rest \<Rightarrow> s\<lparr>tr_stack := add_child e p # rest\<rparr>)"

text \<open>Elements still open at the end are complete as far as they were read.\<close>

fun collapse :: "element list \<Rightarrow> element option \<Rightarrow> element option" where
  "collapse [] root = root"
| "collapse [e] root = Some e"
| "collapse (e # p # rest) root = collapse (add_child e p # rest) root"

definition tree :: "'p sax \<Rightarrow> guard_limits \<Rightarrow> bytes \<Rightarrow> error + element" where
  "tree X L body =
     result_bind (xml X L open_element (text_element L) close_element body
        \<lparr>tr_stack = [], tr_root = None\<rparr>) (\<lambda>s.
     case collapse (tr_stack s) (tr_root s) of
       None \<Rightarrow> Inl profile_unsupported
     | Some e \<Rightarrow> Inr e)"

text \<open>The only child of a name, if there is one.\<close>

definition one :: "element \<Rightarrow> string \<Rightarrow> error + element option" where
  "one e name =
     (case filter (\<lambda>c. el_name c = units name) (el_children e) of
        [] \<Rightarrow> Inr None
      | [c] \<Rightarrow> Inr (Some c)
      | _ \<Rightarrow> Inl profile_unsupported)"

definition attribute :: "(js_string \<times> js_string) list \<Rightarrow> string \<Rightarrow> js_string option" where
  "attribute as name = map_of as (units name)"

section \<open>A supported workbook\<close>

record red_cell =
  rc_address :: js_string
  rc_row :: int
  rc_column :: int
  rc_type :: js_string
  rc_value :: js_string

record red_row =
  rw_attrs :: "(js_string \<times> js_string) list"
  rw_cells :: "red_cell list"

record red_sheet =
  rs_state :: js_string
  rs_rows :: "red_row list"
  rs_columns :: "(js_string \<times> js_string) list list"

definition rewritable_parts :: pattern where
  "rewritable_parts = p_any
     [p_whole [p_text ''[content_types].xml''], p_whole [p_text ''_rels/.rels''],
      p_whole [p_text ''docprops/'', p_any (map p_text [''core'', ''app'', ''custom'']), p_text ''.xml''],
      p_whole [p_text ''xl/'', p_any [p_text ''workbook.xml'', p_text ''_rels/workbook.xml.rels'',
        p_text ''sharedstrings.xml'', p_seq [p_text ''worksheets/sheet'', p_plus p_digit, p_text ''.xml'']]]]"

definition sheet_links :: "(js_string \<times> bytes) list \<Rightarrow> links opener" where
  "sheet_links parts tag links =
     (if \<not> is_tag ''Relationship'' tag
         \<or> attr_is tag ''Type'' (OFFICE_REL @ units ''/sharedStrings'')
           \<and> has_part (units ''xl/sharedstrings.xml'') parts
      then Inr links
      else case (attr tag ''Id'', attr tag ''Target'') of
        (Some i, Some target) \<Rightarrow>
          if i = [] \<or> target = [] \<or> \<not> attr_is tag ''Type'' (OFFICE_REL @ units ''/worksheet'')
             \<or> map_of links i \<noteq> None
          then Inl profile_unsupported
          else Inr (links @ [(i, resolve_target target)])
      | _ \<Rightarrow> Inl profile_unsupported)"

fun traverse :: "('a \<Rightarrow> error + 'b) \<Rightarrow> 'a list \<Rightarrow> error + 'b list" where
  "traverse f [] = Inr []"
| "traverse f (x # xs) = result_bind (f x) (\<lambda>y. result_bind (traverse f xs) (\<lambda>ys. Inr (y # ys)))"

definition shared_string :: "element \<Rightarrow> error + js_string" where
  "shared_string si = result_bind (one si ''t'') (\<lambda>t.
     case t of
       None \<Rightarrow> Inl profile_unsupported
     | Some e \<Rightarrow> if el_name si \<noteq> units ''si'' then Inl profile_unsupported else Inr (el_text e))"

definition number_text_pattern :: pattern where
  "number_text_pattern = p_whole
     [p_optional (p_set ''+-''),
      P_Or (p_seq [p_plus p_digit, p_optional (P_Then (p_char 46) (p_star p_digit))])
           (P_Then (p_char 46) (p_plus p_digit)),
      p_optional (p_seq [p_set ''eE'', p_optional (p_set ''+-''), p_plus p_digit])]"

text \<open>
  The size of a number in decimal notation, as mantissa and exponent of ten, and whether the
  nearest double is finite.
\<close>

definition decimal_parts :: "js_string \<Rightarrow> int \<times> int" where
  "decimal_parts s =
     (let s = (case s of c # r \<Rightarrow> if c = 43 \<or> c = 45 then r else s | [] \<Rightarrow> s);
          whole = takeWhile is_digit s; r = dropWhile is_digit s;
          frac = (case r of c # q \<Rightarrow> if c = 46 then takeWhile is_digit q else [] | [] \<Rightarrow> []);
          ex = (case dropWhile (\<lambda>c. is_digit c \<or> c = 46) s of [] \<Rightarrow> [] | _ # q \<Rightarrow> q);
          e = (case ex of
                 c # q \<Rightarrow> if c = 45 then - digits_number q else if c = 43 then digits_number q
                   else digits_number ex
               | [] \<Rightarrow> 0) in
      (digits_number (whole @ frac), e - int (length frac)))"

definition at_most_decimal :: "int \<Rightarrow> int \<Rightarrow> int \<Rightarrow> int \<Rightarrow> bool" where
  "at_most_decimal m e n d \<longleftrightarrow>
     (if e \<ge> 0 then m * 10 ^ nat e * d \<le> n else m * d \<le> n * 10 ^ nat (- e))"

definition finite_number :: "js_string \<Rightarrow> bool" where
  "finite_number s \<longleftrightarrow> (case decimal_parts s of (m, e) \<Rightarrow>
     m = 0 \<or> (if e \<ge> 0 then m * 10 ^ nat e < 2 ^ 1024 - 2 ^ 970
              else m < (2 ^ 1024 - 2 ^ 970) * 10 ^ nat (- e)))"

text \<open>\<open>Number(s) > 4096\<close>: doubles above 4096 are at least a 2^40th apart.\<close>

definition size_pattern :: pattern where
  "size_pattern = p_whole [p_plus p_digit, p_optional (P_Then (p_char 46) (p_plus p_digit))]"

definition size_within :: "js_string \<Rightarrow> bool" where
  "size_within s \<longleftrightarrow> (case decimal_parts s of (m, e) \<Rightarrow> at_most_decimal m e (4096 * 2 ^ 41 + 1) (2 ^ 41))"

text \<open>The value of a cell by its type.\<close>

definition cell_value :: "js_string list \<Rightarrow> element \<Rightarrow> js_string \<Rightarrow> error + js_string" where
  "cell_value strings cell t =
     (if t = units ''inlineStr'' then
        result_bind (one cell ''v'') (\<lambda>v.
        if v \<noteq> None then Inl profile_unsupported
        else
        result_bind (one cell ''is'') (\<lambda>inline.
        case inline of
          None \<Rightarrow> Inl profile_unsupported
        | Some e \<Rightarrow>
            result_bind (one e ''t'') (\<lambda>text.
            case text of None \<Rightarrow> Inl profile_unsupported | Some x \<Rightarrow> Inr (el_text x))))
      else
        result_bind (one cell ''is'') (\<lambda>inline.
        if inline \<noteq> None then Inl profile_unsupported
        else
        result_bind (one cell ''v'') (\<lambda>v.
        let s = (case v of None \<Rightarrow> [] | Some e \<Rightarrow> el_text e) in
        if t = units ''s'' then
          (if s = [] \<or> \<not> list_all is_digit s \<or> digits_number s \<ge> int (length strings)
           then Inl profile_unsupported else Inr (strings ! nat (digits_number s)))
        else if t = units ''n'' then
          (if s \<noteq> [] \<and> (\<not> test number_text_pattern s \<or> \<not> finite_number s)
           then Inl profile_unsupported else Inr s)
        else if t = units ''b'' then
          (if s \<notin> {units ''0'', units ''1''} then Inl profile_unsupported else Inr s)
        else if t = units ''str'' then Inr s
        else Inl profile_unsupported)))"

text \<open>A cell. Rows and columns are exact: the scan has bounded them before.\<close>

definition read_cell :: "js_string list \<Rightarrow> element \<Rightarrow> error + red_cell" where
  "read_cell strings cell =
     (case attribute (el_attrs cell) ''r'' of
        None \<Rightarrow> Inl profile_unsupported
      | Some address \<Rightarrow>
      let letters = takeWhile is_upper address; ds = dropWhile is_upper address in
      if letters = [] \<or> ds = [] \<or> \<not> list_all is_digit ds then Inl profile_unsupported
      else
      let t = (case attribute (el_attrs cell) ''t'' of None \<Rightarrow> units ''n'' | Some v \<Rightarrow> v) in
      result_bind (cell_value strings cell t) (\<lambda>v.
      Inr \<lparr>rc_address = address, rc_row = digits_number ds, rc_column = column_of letters,
           rc_type = (if t \<in> {units ''s'', units ''str''} then units ''inlineStr'' else t),
           rc_value = v\<rparr>))"

definition read_row :: "js_string list \<Rightarrow> element \<Rightarrow> error + red_row" where
  "read_row strings row =
     result_bind (traverse (read_cell strings) (el_children row)) (\<lambda>cells.
     Inr \<lparr>rw_attrs = filter (\<lambda>(k, _). k \<noteq> units ''spans'') (el_attrs row), rw_cells = cells\<rparr>)"

definition sound_attributes :: "(js_string \<times> js_string) list \<Rightarrow> bool" where
  "sound_attributes as \<longleftrightarrow>
     list_all (\<lambda>n. case attribute as n of
         None \<Rightarrow> True
       | Some v \<Rightarrow> v = [] \<or> v \<in> units ` set [''0'', ''1'', ''true'', ''false''])
       [''hidden'', ''customWidth'', ''customHeight'']
     \<and> list_all (\<lambda>n. case attribute as n of
         None \<Rightarrow> True
       | Some v \<Rightarrow> v = [] \<or> test size_pattern v \<and> size_within v)
       [''width'', ''ht'']"

text \<open>
  The columns follow one another. The scan has made sure that the bounds of a column are digits;
  anything else would be no number and compare as false.
\<close>

definition column_number :: "js_string option \<Rightarrow> int option" where
  "column_number v = (case v of
     Some s \<Rightarrow> if s \<noteq> [] \<and> list_all is_digit s then Some (digits_number s) else None | None \<Rightarrow> None)"

fun columns_ordered :: "int option \<Rightarrow> (js_string \<times> js_string) list list \<Rightarrow> bool" where
  "columns_ordered previous [] = True"
| "columns_ordered previous (c # cs) =
     ((case (column_number (attribute c ''min''), previous) of
         (Some n, Some p) \<Rightarrow> p < n | _ \<Rightarrow> True)
      \<and> columns_ordered (column_number (attribute c ''max'')) cs)"

definition sheet_path :: "links \<Rightarrow> element \<Rightarrow> js_string option" where
  "sheet_path links sheet =
     (case attribute (el_attrs sheet) ''r:id'' of None \<Rightarrow> None | Some i \<Rightarrow> map_of links i)"

definition sheet_visibility :: "element \<Rightarrow> js_string" where
  "sheet_visibility sheet =
     (case attribute (el_attrs sheet) ''state'' of None \<Rightarrow> units ''visible'' | Some v \<Rightarrow> v)"

definition column_attrs :: "element option \<Rightarrow> (js_string \<times> js_string) list list" where
  "column_attrs cols = (case cols of None \<Rightarrow> [] | Some c \<Rightarrow> map el_attrs (el_children c))"

definition read_sheet ::
  "'p sax \<Rightarrow> guard_limits \<Rightarrow> (js_string \<times> bytes) list \<Rightarrow> links \<Rightarrow> js_string list \<Rightarrow> element \<Rightarrow> error + red_sheet" where
  "read_sheet X L parts links strings sheet =
     (case sheet_path links sheet of
        None \<Rightarrow> Inl profile_unsupported
      | Some path \<Rightarrow>
     (case map_of parts path of
        None \<Rightarrow> Inl profile_unsupported
      | Some body \<Rightarrow>
     result_bind (tree X L body) (\<lambda>root.
     if el_name root \<noteq> units ''worksheet'' then Inl profile_unsupported
     else
     result_bind (one root ''sheetData'') (\<lambda>data.
     case data of
       None \<Rightarrow> Inl profile_unsupported
     | Some d \<Rightarrow>
     let state = sheet_visibility sheet in
     if state \<notin> units ` set [''visible'', ''hidden'', ''veryHidden''] then Inl profile_unsupported
     else
     result_bind (traverse (read_row strings) (el_children d)) (\<lambda>rows.
     result_bind (one root ''cols'') (\<lambda>cols.
     let columns = column_attrs cols in
     if \<not> list_all sound_attributes (map rw_attrs rows @ columns) \<or> \<not> columns_ordered (Some 0) columns
     then Inl profile_unsupported
     else Inr \<lparr>rs_state = state, rs_rows = rows, rs_columns = columns\<rparr>))))))"

definition dated_1904 :: "element option \<Rightarrow> bool" where
  "dated_1904 pr \<longleftrightarrow> (case pr of None \<Rightarrow> False
     | Some e \<Rightarrow> attribute (el_attrs e) ''date1904'' \<in> {Some (units ''1''), Some (units ''true'')})"

definition shared_texts :: "'p sax \<Rightarrow> guard_limits \<Rightarrow> (js_string \<times> bytes) list \<Rightarrow> error + js_string list" where
  "shared_texts X L parts =
     (case map_of parts (units ''xl/sharedstrings.xml'') of
        None \<Rightarrow> Inr []
      | Some b \<Rightarrow> result_bind (tree X L b) (\<lambda>root. traverse shared_string (el_children root)))"

definition supported_contents ::
  "'p sax \<Rightarrow> guard_limits \<Rightarrow> (js_string \<times> bytes) list \<Rightarrow> error + red_sheet list" where
  "supported_contents X L parts =
     (if \<not> list_all (\<lambda>(p, _). test rewritable_parts p) parts then Inl profile_unsupported
     else
     result_bind (part book_part parts) (\<lambda>body.
     result_bind (tree X L body) (\<lambda>book.
     if el_name book \<noteq> units ''workbook'' then Inl profile_unsupported
     else
     result_bind (one book ''workbookPr'') (\<lambda>pr.
     if dated_1904 pr then Inl profile_unsupported
     else
     result_bind (part links_part parts) (\<lambda>linksBody.
     result_bind (xml X L (sheet_links parts) ignore ignore linksBody []) (\<lambda>links.
     result_bind (shared_texts X L parts) (\<lambda>strings.
     result_bind (one book ''sheets'') (\<lambda>inventory.
     case inventory of
       None \<Rightarrow> Inl profile_unsupported
     | Some sheetList \<Rightarrow>
     if el_children sheetList = [] then Inl profile_unsupported
     else
     result_bind (traverse (read_sheet X L parts links strings) (el_children sheetList)) (\<lambda>sheets.
     if \<not> list_ex (\<lambda>s. rs_state s = units ''visible'') sheets then Inl profile_unsupported
     else Inr sheets)))))))))"

definition supported ::
  "archive_reader \<Rightarrow> 'p sax \<Rightarrow> bytes \<Rightarrow> guard_limits \<Rightarrow> error + red_sheet list" where
  "supported archive X input L = result_bind (preflight archive L input) (supported_contents X L)"

section \<open>The canonical package\<close>

fun replace_all :: "nat \<Rightarrow> string \<Rightarrow> js_string \<Rightarrow> js_string" where
  "replace_all c by [] = []"
| "replace_all c by (d # ds) = (if d = c then units by else [d]) @ replace_all c by ds"

definition xml_escape :: "js_string \<Rightarrow> js_string" where
  "xml_escape v = replace_all 13 ''&#13;'' (replace_all 34 ''&quot;''
     (replace_all 62 ''&gt;'' (replace_all 60 ''&lt;'' (replace_all 38 ''&amp;'' v))))"

definition quoted :: "js_string \<Rightarrow> js_string" where
  "quoted s = [34] @ s @ [34]"

definition attrs_text :: "(js_string \<times> js_string) list \<Rightarrow> js_string" where
  "attrs_text as = concat (map (\<lambda>(k, v). [32] @ k @ [61] @ quoted (xml_escape v)) as)"

text \<open>An attribute with a fixed name.\<close>

definition with_attribute :: "string \<Rightarrow> js_string \<Rightarrow> js_string" where
  "with_attribute k v = [32] @ units k @ [61] @ quoted v"

definition types_text :: "nat \<Rightarrow> js_string" where
  "types_text n =
     units ''<Types'' @ with_attribute ''xmlns'' (units ''http://schemas.openxmlformats.org/package/2006/content-types'')
     @ units ''><Default'' @ with_attribute ''Extension'' (units ''rels'')
     @ with_attribute ''ContentType'' (units ''application/vnd.openxmlformats-package.relationships+xml'')
     @ units ''/><Default'' @ with_attribute ''Extension'' (units ''xml'')
     @ with_attribute ''ContentType'' (units ''application/xml'')
     @ units ''/><Override'' @ with_attribute ''PartName'' (units ''/xl/workbook.xml'')
     @ with_attribute ''ContentType''
         (units ''application/vnd.openxmlformats-officedocument.spreadsheetml.sheet.main+xml'')
     @ units ''/>''
     @ concat (map (\<lambda>i. units ''<Override''
         @ with_attribute ''PartName'' (units ''/xl/worksheets/sheet'' @ nat_units (i + 1) @ units ''.xml'')
         @ with_attribute ''ContentType''
             (units ''application/vnd.openxmlformats-officedocument.spreadsheetml.worksheet+xml'')
         @ units ''/>'') [0..<n])
     @ units ''</Types>''"

definition root_links_text :: js_string where
  "root_links_text =
     units ''<Relationships'' @ with_attribute ''xmlns'' REL @ units ''><Relationship''
     @ with_attribute ''Id'' (units ''rId1'') @ with_attribute ''Type'' (OFFICE_REL @ units ''/officeDocument'')
     @ with_attribute ''Target'' (units ''xl/workbook.xml'') @ units ''/></Relationships>''"

definition book_text :: "red_sheet list \<Rightarrow> js_string" where
  "book_text sheets =
     units ''<workbook'' @ with_attribute ''xmlns'' MAIN @ with_attribute ''xmlns:r'' OFFICE_REL
     @ units ''><sheets>''
     @ concat (map (\<lambda>(i, s). units ''<sheet'' @ with_attribute ''name'' (units ''Sheet '' @ nat_units (i + 1))
         @ with_attribute ''sheetId'' (nat_units (i + 1)) @ with_attribute ''state'' (rs_state s)
         @ with_attribute ''r:id'' (units ''rId'' @ nat_units (i + 1)) @ units ''/>'')
         (enumerate 0 sheets))
     @ units ''</sheets></workbook>''"

definition book_links_text :: "nat \<Rightarrow> js_string" where
  "book_links_text n =
     units ''<Relationships'' @ with_attribute ''xmlns'' REL @ units ''>''
     @ concat (map (\<lambda>i. units ''<Relationship'' @ with_attribute ''Id'' (units ''rId'' @ nat_units (i + 1))
         @ with_attribute ''Type'' (OFFICE_REL @ units ''/worksheet'')
         @ with_attribute ''Target'' (units ''worksheets/sheet'' @ nat_units (i + 1) @ units ''.xml'')
         @ units ''/>'') [0..<n])
     @ units ''</Relationships>''"

definition cell_xml :: "red_cell \<Rightarrow> js_string" where
  "cell_xml c =
     (if rc_type c = units ''inlineStr'' then
        units ''<c'' @ with_attribute ''r'' (rc_address c) @ with_attribute ''t'' (units ''inlineStr'')
        @ units ''><is><t'' @ with_attribute ''xml:space'' (units ''preserve'') @ units ''>''
        @ xml_escape (rc_value c) @ units ''</t></is></c>''
      else
        units ''<c'' @ with_attribute ''r'' (rc_address c) @ with_attribute ''t'' (rc_type c) @ units ''>''
        @ (if rc_value c = [] then [] else units ''<v>'' @ xml_escape (rc_value c) @ units ''</v>'')
        @ units ''</c>'')"

definition row_xml :: "red_row \<Rightarrow> js_string" where
  "row_xml r = units ''<row'' @ attrs_text (rw_attrs r) @ units ''>'' @ concat (map cell_xml (rw_cells r))
     @ units ''</row>''"

definition sheet_xml :: "red_sheet \<Rightarrow> js_string" where
  "sheet_xml s =
     units ''<worksheet'' @ with_attribute ''xmlns'' MAIN @ units ''>''
     @ (if rs_columns s = [] then []
        else units ''<cols>'' @ concat (map (\<lambda>c. units ''<col'' @ attrs_text c @ units ''/>'') (rs_columns s))
          @ units ''</cols>'')
     @ units ''<sheetData>'' @ concat (map row_xml (rs_rows s)) @ units ''</sheetData></worksheet>''"

definition package_parts :: "red_sheet list \<Rightarrow> (js_string \<times> js_string) list" where
  "package_parts sheets =
     [(units ''[Content_Types].xml'', types_text (length sheets)),
      (units ''_rels/.rels'', root_links_text),
      (units ''xl/workbook.xml'', book_text sheets),
      (units ''xl/_rels/workbook.xml.rels'', book_links_text (length sheets))]
     @ map (\<lambda>(i, s). (units ''xl/worksheets/sheet'' @ nat_units (i + 1) @ units ''.xml'', sheet_xml s))
         (enumerate 0 sheets)"

definition generate :: "red_sheet list \<Rightarrow> guard_limits \<Rightarrow> error + bytes" where
  "generate sheets L = writeXlsx (package_parts sheets) (lim_compressedBytes L)"

section \<open>Redaction\<close>

definition REDACTION_MARKER :: js_string where
  "REDACTION_MARKER = units ''[REDACTED]''"

type_synonym position3 = "int \<times> int \<times> int"

text \<open>The findings as the stored scan writes them for its digest.\<close>

definition view_json :: "finding_view \<Rightarrow> string" where
  "view_json f = ''{'' @ json_field ''ordinal'' @ show_int (fv_ordinal f) @ '','' @
     json_field ''sheetIndex'' @ show_int (fv_sheetIndex f) @ '','' @
     json_field ''row'' @ show_int (fv_row f) @ '','' @
     json_field ''column'' @ show_int (fv_column f) @ '','' @
     json_field ''category'' @ json_string (category_text (fv_category f)) @ '','' @
     json_field ''evidence'' @ json_string (evidence_text (fv_evidence f)) @ '','' @
     json_field ''hidden'' @ json_bool (fv_hidden f) @ ''}''"

definition views_json :: "finding_view list \<Rightarrow> string" where
  "views_json fs = ''['' @ json_list view_json fs @ '']''"

definition finding_position :: "finding_view \<Rightarrow> position3" where
  "finding_position f = (fv_sheetIndex f, fv_row f, fv_column f)"

definition insert_once :: "'a \<Rightarrow> 'a list \<Rightarrow> 'a list" where
  "insert_once x xs = (if x \<in> set xs then xs else xs @ [x])"

definition sheet_cells :: "red_sheet \<Rightarrow> red_cell list" where
  "sheet_cells s = concat (map rw_cells (rs_rows s))"

definition column_positions :: "redaction_column \<Rightarrow> red_sheet \<Rightarrow> position3 list" where
  "column_positions k s =
     map (\<lambda>c. (k_sheetIndex k, rc_row c, rc_column c))
       (filter (\<lambda>c. rc_column c = k_column k \<and> (k_includeHeader k \<or> rc_row c \<noteq> 1)) (sheet_cells s))"

fun select_columns ::
  "red_sheet list \<Rightarrow> redaction_column list \<Rightarrow> position3 list \<Rightarrow> error + position3 list" where
  "select_columns sheets [] chosen = Inr chosen"
| "select_columns sheets (k # ks) chosen =
     (if k_sheetIndex k < 0 \<or> k_sheetIndex k \<ge> int (length sheets) then Inl (ScanError Guard_Selection_Invalid)
      else let s = sheets ! nat (k_sheetIndex k) in
        if \<not> list_ex (\<lambda>c. rc_column c = k_column k) (sheet_cells s)
        then Inl (ScanError Guard_Selection_Invalid)
        else select_columns sheets ks (fold insert_once (column_positions k s) chosen))"

text \<open>The cells chosen are overwritten; the count is of the cells met.\<close>

definition redact_cell :: "position3 list \<Rightarrow> int \<Rightarrow> red_cell \<Rightarrow> red_cell" where
  "redact_cell chosen i c =
     (if (i, rc_row c, rc_column c) \<in> set chosen
      then c\<lparr>rc_value := REDACTION_MARKER, rc_type := units ''inlineStr''\<rparr> else c)"

definition redact_sheet :: "position3 list \<Rightarrow> int \<Rightarrow> red_sheet \<Rightarrow> red_sheet" where
  "redact_sheet chosen i s =
     s\<lparr>rs_rows := map (\<lambda>r. r\<lparr>rw_cells := map (redact_cell chosen i) (rw_cells r)\<rparr>) (rs_rows s)\<rparr>"

definition redact_sheets :: "position3 list \<Rightarrow> red_sheet list \<Rightarrow> red_sheet list" where
  "redact_sheets chosen sheets = map (\<lambda>(i, s). redact_sheet chosen (int i) s) (enumerate 0 sheets)"

definition redacted_count :: "position3 list \<Rightarrow> red_sheet list \<Rightarrow> nat" where
  "redacted_count chosen sheets =
     sum_list (map (\<lambda>(i, s). length (filter (\<lambda>c. (int i, rc_row c, rc_column c) \<in> set chosen) (sheet_cells s)))
       (enumerate 0 sheets))"

text \<open>The workbook as JSON, for the comparison with what is read back.\<close>

definition attrs_json :: "(js_string \<times> js_string) list \<Rightarrow> json" where
  "attrs_json as = JObject (map (\<lambda>(k, v). (k, JString v)) as)"

definition cell_json :: "red_cell \<Rightarrow> json" where
  "cell_json c = JObject [(units ''address'', JString (rc_address c)), (units ''row'', decimal (rc_row c) 0),
     (units ''column'', decimal (rc_column c) 0), (units ''type'', JString (rc_type c)),
     (units ''value'', JString (rc_value c))]"

definition row_json :: "red_row \<Rightarrow> json" where
  "row_json r = JObject [(units ''attrs'', attrs_json (rw_attrs r)),
     (units ''cells'', JArray (map cell_json (rw_cells r)))]"

definition sheet_json :: "red_sheet \<Rightarrow> json" where
  "sheet_json s = JObject [(units ''state'', JString (rs_state s)),
     (units ''rows'', JArray (map row_json (rs_rows s))),
     (units ''columns'', JArray (map attrs_json (rs_columns s)))]"

definition sheets_json :: "red_sheet list \<Rightarrow> js_string" where
  "sheets_json sheets = json_stringify (JArray (map sheet_json sheets))"

text \<open>The parameters of the guard's child process.\<close>

record 'p guard_tools =
  gt_archive :: archive_reader
  gt_sax :: "'p sax"
  gt_recognisers :: recognisers
  gt_digest :: "bytes \<Rightarrow> string"
  gt_textDigest :: "string \<Rightarrow> string"

definition region_units :: "string option \<Rightarrow> js_string option" where
  "region_units r = map_option units r"

definition sanitize ::
  "'p guard_tools \<Rightarrow> bytes \<Rightarrow> sanitize_options \<Rightarrow> guard_limits \<Rightarrow> error + sanitize_result" where
  "sanitize T input options L =
     (let rescan = (\<lambda>body. scanWorkbook (gt_archive T) (gt_sax T) (gt_recognisers T) body
            (so_categories options) (region_units (so_phoneRegion options)) L);
          read = (\<lambda>body. supported (gt_archive T) (gt_sax T) body L) in
     result_bind (rescan input) (\<lambda>scan.
     if gt_textDigest T (views_json (sr_findings scan)) \<noteq> so_findingsDigest options
     then Inl (ScanError Guard_Source_Changed)
     else
     result_bind (read input) (\<lambda>sheets.
     result_bind (select_columns sheets (so_selectedColumns options)
        (fold insert_once (map finding_position
           (filter (\<lambda>f. fv_category f \<in> set (so_selectedCategories options)) (sr_findings scan))) []))
      (\<lambda>chosen.
     if chosen = [] \<or> length chosen > lim_cells L then Inl (ScanError Guard_Selection_Invalid)
     else
     let redacted = redact_sheets chosen sheets in
     if redacted_count chosen sheets \<noteq> length chosen
     then Inl (ScanError Guard_Output_Verification_Failed)
     else
     result_bind (generate redacted L) (\<lambda>output.
     result_bind (rescan output) (\<lambda>_.
     result_bind (read output) (\<lambda>reopened.
     if sheets_json reopened \<noteq> sheets_json redacted
     then Inl (ScanError Guard_Output_Verification_Failed)
     else Inr \<lparr>sz_bytes = output, sz_redactedCells = int (redacted_count chosen sheets),
               sz_outputDigest = gt_digest T output\<rparr>)))))))"

definition sanitizeWorkbook ::
  "'p guard_tools \<Rightarrow> bytes \<Rightarrow> sanitize_options \<Rightarrow> guard_limits \<Rightarrow> error + sanitize_result" where
  "sanitizeWorkbook T input options L = wrapped profile_unsupported (sanitize T input options L)"

end
