(* ===== verification/GuardChild.thy ===== *)
theory GuardChild
  imports Redaction
begin

text \<open>
  The process boundary of the guard: the child that reads a request from its input, scans or
  redacts, and prints one JSON value (\<open>scan-child.ts\<close>), and the runner that feeds the child, bounds
  and checks what it prints (\<open>guard.runner.ts\<close>).
\<close>

section \<open>Texts and base 64\<close>

text \<open>\<open>toString('utf8')\<close>: every malformed sequence becomes one replacement character.\<close>

definition leading_character :: "bytes \<Rightarrow> (nat \<times> nat) option" where
  "leading_character s =
     (case find (\<lambda>k. k \<le> length s \<and> (\<exists>c\<in>set_option (utf8_decode (take k s)). length c = 1)) [1, 2, 3, 4] of
        None \<Rightarrow> None
      | Some k \<Rightarrow> Some (hd (the (utf8_decode (take k s))), k))"

definition malformed_length :: "bytes \<Rightarrow> nat" where
  "malformed_length s =
     (case find (\<lambda>k. unfinished (take k s) \<and> k \<le> length s) [3, 2] of None \<Rightarrow> 1 | Some k \<Rightarrow> k)"

function utf8_text :: "bytes \<Rightarrow> nat list" where
  "utf8_text s =
     (if s = [] then []
      else case leading_character s of
        Some (c, k) \<Rightarrow> c # utf8_text (drop (max 1 k) s)
      | None \<Rightarrow> 65533 # utf8_text (drop (max 1 (malformed_length s)) s))"
  by pat_completeness auto
termination
  by (relation "measure length") auto

declare utf8_text.simps [simp del]

definition to_text :: "bytes \<Rightarrow> js_string" where
  "to_text s = code_units (utf8_text s)"

definition base64_digit :: "nat \<Rightarrow> nat" where
  "base64_digit n = (if n < 26 then 65 + n else if n < 52 then 71 + n else if n < 62 then n - 4
     else if n = 62 then 43 else 47)"

definition base64_value :: "nat \<Rightarrow> nat" where
  "base64_value c = (if is_upper c then c - 65 else if is_lower c then c - 71 else if is_digit c then c + 4
     else if c = 43 then 62 else 63)"

fun base64_encode :: "bytes \<Rightarrow> js_string" where
  "base64_encode (a # b # c # r) =
     map base64_digit [a div 4, a mod 4 * 16 + b div 16, b mod 16 * 4 + c div 64, c mod 64] @ base64_encode r"
| "base64_encode [a, b] = map base64_digit [a div 4, a mod 4 * 16 + b div 16, b mod 16 * 4] @ [61]"
| "base64_encode [a] = map base64_digit [a div 4, a mod 4 * 16] @ [61, 61]"
| "base64_encode [] = []"

text \<open>Decoding stops at the padding; a rest of one digit is dropped.\<close>

fun base64_values :: "nat list \<Rightarrow> bytes" where
  "base64_values (p # q # r # s # rest) =
     [p * 4 + q div 16, q mod 16 * 16 + r div 4, r mod 4 * 64 + s] @ base64_values rest"
| "base64_values [p, q, r] = [p * 4 + q div 16, q mod 16 * 16 + r div 4]"
| "base64_values [p, q] = [p * 4 + q div 16]"
| "base64_values _ = []"

definition base64_decode :: "js_string \<Rightarrow> bytes" where
  "base64_decode s = base64_values (map base64_value (takeWhile (\<lambda>c. c \<noteq> 61) s))"

definition base64_pattern :: pattern where
  "base64_pattern = p_whole [p_star (alnum_or ''+/''), P_Repeat 0 (Some 2) (p_char 61)]"

section \<open>Codes\<close>

fun error_text :: "guard_error \<Rightarrow> string" where
  "error_text Guard_Invalid_Workbook = ''guard_invalid_workbook''"
| "error_text Guard_Limit_Exceeded = ''guard_limit_exceeded''"
| "error_text Guard_Timeout = ''guard_timeout''"
| "error_text Guard_Access_Revoked = ''guard_access_revoked''"
| "error_text Guard_Storage_Unavailable = ''guard_storage_unavailable''"
| "error_text Guard_Worker_Unavailable = ''guard_worker_unavailable''"
| "error_text Guard_Internal_Error = ''guard_internal_error''"
| "error_text Guard_Profile_Unsupported = ''guard_profile_unsupported''"
| "error_text Guard_Selection_Invalid = ''guard_selection_invalid''"
| "error_text Guard_Source_Changed = ''guard_source_changed''"
| "error_text Guard_Output_Verification_Failed = ''guard_output_verification_failed''"
| "error_text Guard_Quota_Exceeded = ''guard_quota_exceeded''"

definition SAFE_ERRORS :: "guard_error list" where
  "SAFE_ERRORS = [Guard_Invalid_Workbook, Guard_Limit_Exceeded, Guard_Timeout, Guard_Access_Revoked,
     Guard_Storage_Unavailable, Guard_Worker_Unavailable, Guard_Internal_Error, Guard_Profile_Unsupported,
     Guard_Selection_Invalid, Guard_Source_Changed, Guard_Output_Verification_Failed, Guard_Quota_Exceeded]"

definition COMPATIBILITY_FLAGS :: "string list" where
  "COMPATIBILITY_FLAGS = [''cell_text_only'', ''metadata_not_scanned'', ''unsupported_parts'', ''hyperlinks'',
     ''defined_names'', ''formulas'', ''unsupported_elements'', ''merged_cells'', ''unreferenced_shared_strings'']"

definition CATEGORIES :: "category list" where
  "CATEGORIES = [Cat_Email, Cat_Phone, Cat_Payment_Card, Cat_Iban, Cat_Ip]"

definition category_of :: "json \<Rightarrow> category option" where
  "category_of v = (case v of JString s \<Rightarrow> find (\<lambda>c. units (category_text c) = s) CATEGORIES | _ \<Rightarrow> None)"

definition json_int :: "int \<Rightarrow> json" where
  "json_int n = decimal n 0"

definition json_text :: "string \<Rightarrow> json" where
  "json_text s = JString (units s)"

fun collect :: "('a \<Rightarrow> 'b option) \<Rightarrow> 'a list \<Rightarrow> 'b list option" where
  "collect f [] = Some []"
| "collect f (x # xs) = (case (f x, collect f xs) of (Some y, Some ys) \<Rightarrow> Some (y # ys) | _ \<Rightarrow> None)"

definition elements_of :: "json option \<Rightarrow> json list option" where
  "elements_of v = (case v of Some (JArray vs) \<Rightarrow> Some vs | _ \<Rightarrow> None)"

text \<open>Texts of the characters a \<open>string\<close> has.\<close>

definition text_of :: "json option \<Rightarrow> string option" where
  "text_of v = (case v of Some (JString s) \<Rightarrow> if list_all (\<lambda>c. c < 256) s then Some (map char_of s) else None
     | _ \<Rightarrow> None)"

definition categories_of :: "json option \<Rightarrow> category list option" where
  "categories_of v = (case elements_of v of None \<Rightarrow> None | Some vs \<Rightarrow> collect category_of vs)"

definition int_field :: "string \<Rightarrow> json \<Rightarrow> int option" where
  "int_field k v = (case field k v of None \<Rightarrow> None | Some n \<Rightarrow> integer_of n)"

definition bool_field :: "string \<Rightarrow> json \<Rightarrow> bool option" where
  "bool_field k v = (case field k v of Some (JBool b) \<Rightarrow> Some b | _ \<Rightarrow> None)"

section \<open>The request\<close>

definition limit_fields :: "guard_limits \<Rightarrow> (string \<times> nat) list" where
  "limit_fields L = [(''compressedBytes'', lim_compressedBytes L), (''expandedBytes'', lim_expandedBytes L),
     (''entryBytes'', lim_entryBytes L), (''entries'', lim_entries L), (''ratio'', lim_ratio L),
     (''sheets'', lim_sheets L), (''rows'', lim_rows L), (''columns'', lim_columns L),
     (''cells'', lim_cells L), (''textBytes'', lim_textBytes L), (''findings'', lim_findings L),
     (''durationMs'', lim_durationMs L), (''ioMs'', lim_ioMs L), (''leaseMs'', lim_leaseMs L)]"

definition column_json :: "redaction_column \<Rightarrow> json" where
  "column_json k = JObject [(units ''sheetIndex'', json_int (k_sheetIndex k)),
     (units ''column'', json_int (k_column k)), (units ''includeHeader'', JBool (k_includeHeader k))]"

definition region_json :: "string option \<Rightarrow> (js_string \<times> json) list" where
  "region_json r = (case r of None \<Rightarrow> [] | Some t \<Rightarrow> [(units ''phoneRegion'', json_text t)])"

definition categories_json :: "category list \<Rightarrow> json" where
  "categories_json cs = JArray (map (\<lambda>c. json_text (category_text c)) cs)"

definition options_json :: "sanitize_options \<Rightarrow> json" where
  "options_json so = JObject ([(units ''categories'', categories_json (so_categories so))]
     @ region_json (so_phoneRegion so)
     @ [(units ''findingsDigest'', json_text (so_findingsDigest so)),
        (units ''selection'',
         JObject [(units ''categories'', categories_json (so_selectedCategories so)),
                  (units ''columns'', JArray (map column_json (so_selectedColumns so)))])])"

definition request_json ::
  "category list \<Rightarrow> string option \<Rightarrow> guard_limits \<Rightarrow> sanitize_options option \<Rightarrow> json" where
  "request_json categories region L sanitization =
     JObject ([(units ''categories'', categories_json categories)] @ region_json region
       @ [(units ''limits'', JObject (map (\<lambda>(k, n). (units k, json_int (int n))) (limit_fields L)))]
       @ (case sanitization of None \<Rightarrow> [] | Some so \<Rightarrow> [(units ''sanitization'', options_json so)]))"

text \<open>The bytes written to the child's input.\<close>

definition child_input ::
  "bytes \<Rightarrow> category list \<Rightarrow> string option \<Rightarrow> guard_limits \<Rightarrow> sanitize_options option \<Rightarrow> bytes" where
  "child_input body categories region L sanitization =
     utf8_bytes (json_stringify (request_json categories region L sanitization) @ [10]) @ body"

section \<open>The child\<close>

text \<open>The limits of a request, each between one and its default.\<close>

definition limit_of :: "json \<Rightarrow> string \<times> nat \<Rightarrow> nat option" where
  "limit_of v = (\<lambda>(k, most). case int_field k v of
      None \<Rightarrow> None
    | Some n \<Rightarrow> if n < 1 \<or> n > int most then None else Some (nat n))"

definition limits_of :: "json \<Rightarrow> error + guard_limits" where
  "limits_of v =
     (case collect (limit_of v) (limit_fields DEFAULT_LIMITS) of
        Some [a, b, c, d, e, f, g, h, i, j, k, l, m, n] \<Rightarrow>
          Inr \<lparr>lim_compressedBytes = a, lim_expandedBytes = b, lim_entryBytes = c, lim_entries = d,
            lim_ratio = e, lim_sheets = f, lim_rows = g, lim_columns = h, lim_cells = i,
            lim_textBytes = j, lim_findings = k, lim_durationMs = l, lim_ioMs = m, lim_leaseMs = n\<rparr>
      | _ \<Rightarrow> Inl limit_exceeded)"

text \<open>A selected column within the limits.\<close>

definition column_of_json :: "guard_limits \<Rightarrow> json \<Rightarrow> redaction_column option" where
  "column_of_json L v =
     (case (int_field ''sheetIndex'' v, int_field ''column'' v, bool_field ''includeHeader'' v) of
        (Some i, Some c, Some h) \<Rightarrow>
          if i < 0 \<or> i \<ge> int (lim_sheets L) \<or> c < 1 \<or> c > int (lim_columns L) then None
          else Some \<lparr>k_sheetIndex = i, k_column = c, k_includeHeader = h\<rparr>
      | _ \<Rightarrow> None)"

definition selection_of ::
  "category list \<Rightarrow> guard_limits \<Rightarrow> json option \<Rightarrow> (category list \<times> redaction_column list) option" where
  "selection_of categories L v =
     (case v of
        None \<Rightarrow> None
      | Some selection \<Rightarrow>
     (case (categories_of (field ''categories'' selection), elements_of (field ''columns'' selection)) of
        (Some cs, Some ks) \<Rightarrow>
          if \<not> set cs \<subseteq> set categories \<or> length ks > 100 then None
          else map_option (\<lambda>columns. (cs, columns)) (collect (column_of_json L) ks)
      | _ \<Rightarrow> None))"

definition coverage_text :: "coverage \<Rightarrow> string" where
  "coverage_text c = (case c of Supported \<Rightarrow> ''supported'' | Limited \<Rightarrow> ''limited'')"

definition result_json :: "scan_result \<Rightarrow> json" where
  "result_json r = JObject
     [(units ''findings'', JArray (map (\<lambda>f. JObject
         [(units ''ordinal'', json_int (fv_ordinal f)), (units ''sheetIndex'', json_int (fv_sheetIndex f)),
          (units ''row'', json_int (fv_row f)), (units ''column'', json_int (fv_column f)),
          (units ''category'', json_text (category_text (fv_category f))),
          (units ''evidence'', json_text (evidence_text (fv_evidence f))),
          (units ''hidden'', JBool (fv_hidden f))]) (sr_findings r))),
      (units ''processedCells'', json_int (sr_processedCells r)),
      (units ''sheets'', json_int (sr_sheets r)),
      (units ''compatibilityFlags'', JArray (map json_text (sr_compatibilityFlags r))),
      (units ''coverage'', json_text (coverage_text (sr_coverage r)))]"

definition sanitized_json :: "sanitize_result \<Rightarrow> json" where
  "sanitized_json r = JObject
     [(units ''outputBase64'', JString (base64_encode (sz_bytes r))),
      (units ''redactedCells'', json_int (sz_redactedCells r)),
      (units ''outputDigest'', json_text (sz_outputDigest r))]"

text \<open>
  The whole child on one input: the text it prints. The fields of the sanitisation the code does
  not check are those the runner writes; without them the child fails.
\<close>

definition child_result ::
  "'p guard_tools \<Rightarrow> category list \<Rightarrow> guard_limits \<Rightarrow> json \<Rightarrow> bytes \<Rightarrow> error + json" where
  "child_result T categories L request body =
     (case field ''sanitization'' request of
        None \<Rightarrow>
          result_bind (scanWorkbook (gt_archive T) (gt_sax T) (gt_recognisers T) body categories
              (region_units (text_of (field ''phoneRegion'' request))) L)
            (\<lambda>r. Inr (JObject [(units ''result'', result_json r)]))
      | Some sanitization \<Rightarrow>
     (case (selection_of categories L (field ''selection'' sanitization)) of
        None \<Rightarrow> Inl (ScanError Guard_Selection_Invalid)
      | Some (cs, ks) \<Rightarrow>
     (case (categories_of (field ''categories'' sanitization), text_of (field ''findingsDigest'' sanitization)) of
        (Some all, Some digest) \<Rightarrow>
          result_bind (sanitizeWorkbook T body
              \<lparr>so_selectedCategories = cs, so_selectedColumns = ks, so_categories = all,
               so_phoneRegion = text_of (field ''phoneRegion'' sanitization), so_findingsDigest = digest\<rparr> L)
            (\<lambda>r. Inr (JObject [(units ''sanitization'', sanitized_json r)]))
      | _ \<Rightarrow> Inl profile_unsupported)))"

definition child_main :: "'p guard_tools \<Rightarrow> bytes \<Rightarrow> error + json" where
  "child_main T payload =
     (if length payload > lim_compressedBytes DEFAULT_LIMITS + 16384 then Inl limit_exceeded
      else let split = length (takeWhile (\<lambda>b. b \<noteq> 10) payload) in
        if split = length payload \<or> split > 16384 then Inl invalid_workbook
        else
        case json_parse (to_text (take split payload)) of
          None \<Rightarrow> Inl invalid_workbook
        | Some request \<Rightarrow>
        (case (categories_of (field ''categories'' request), field ''limits'' request) of
          (Some categories, Some limits) \<Rightarrow>
            result_bind (limits_of limits) (\<lambda>L.
            child_result T categories L request (drop (split + 1) payload))
        | _ \<Rightarrow> Inl invalid_workbook))"

definition child_output :: "'p guard_tools \<Rightarrow> bytes \<Rightarrow> js_string" where
  "child_output T payload = json_stringify
     (case child_main T payload of
        Inr v \<Rightarrow> v
      | Inl e \<Rightarrow> JObject [(units ''errorCode'',
          json_text (error_text (case e of ScanError code \<Rightarrow> code | _ \<Rightarrow> Guard_Invalid_Workbook)))])"

section \<open>The runner\<close>

datatype child_outcome = Scanned scan_result | Sanitized sanitize_result

text \<open>The checks of the printed value; every failure of one is an invalid workbook.\<close>

definition within :: "int option \<Rightarrow> int \<Rightarrow> int \<Rightarrow> int option" where
  "within v lo hi = (case v of None \<Rightarrow> None | Some n \<Rightarrow> if lo \<le> n \<and> n \<le> hi then Some n else None)"

definition evidence_of :: "json option \<Rightarrow> evidence option" where
  "evidence_of v = (case text_of v of None \<Rightarrow> None
     | Some t \<Rightarrow> find (\<lambda>e. evidence_text e = t) [Format_Valid, Checksum_Valid])"

definition checked_finding ::
  "guard_limits \<Rightarrow> category list \<Rightarrow> int \<Rightarrow> nat \<times> json \<Rightarrow> finding_view option" where
  "checked_finding L categories sheets = (\<lambda>(index, f).
     case (int_field ''ordinal'' f, within (int_field ''sheetIndex'' f) 0 (sheets - 1),
           within (int_field ''row'' f) 1 (int (lim_rows L)),
           within (int_field ''column'' f) 1 (int (lim_columns L))) of
       (Some ordinal, Some sheetIndex, Some row, Some column) \<Rightarrow>
         (case (Option.bind (field ''category'' f) category_of, evidence_of (field ''evidence'' f),
                bool_field ''hidden'' f) of
            (Some category, Some evidence, Some hidden) \<Rightarrow>
              if ordinal \<noteq> int index \<or> category \<notin> set categories then None
              else Some \<lparr>fv_ordinal = ordinal, fv_sheetIndex = sheetIndex, fv_row = row, fv_column = column,
                fv_category = category, fv_evidence = evidence, fv_hidden = hidden\<rparr>
          | _ \<Rightarrow> None)
     | _ \<Rightarrow> None)"

definition checked_flag :: "json \<Rightarrow> string option" where
  "checked_flag v = (case text_of (Some v) of None \<Rightarrow> None
     | Some t \<Rightarrow> if t \<in> set COMPATIBILITY_FLAGS then Some t else None)"

definition checked_result :: "guard_limits \<Rightarrow> category list \<Rightarrow> json \<Rightarrow> scan_result option" where
  "checked_result L categories r =
     (case (elements_of (field ''findings'' r), within (int_field ''processedCells'' r) 0 (int (lim_cells L)),
            within (int_field ''sheets'' r) 1 (int (lim_sheets L)),
            elements_of (field ''compatibilityFlags'' r)) of
        (Some fs, Some processedCells, Some sheets, Some flags) \<Rightarrow>
          if length fs > lim_findings L \<or> text_of (field ''coverage'' r) \<noteq> Some ''limited''
             \<or> length flags > length COMPATIBILITY_FLAGS
          then None
          else
            (case (collect checked_flag flags, collect (checked_finding L categories sheets) (enumerate 0 fs)) of
               (Some compatibilityFlags, Some findings) \<Rightarrow>
                 Some \<lparr>sr_findings = findings, sr_processedCells = processedCells, sr_sheets = sheets,
                   sr_compatibilityFlags = compatibilityFlags, sr_coverage = Limited\<rparr>
             | _ \<Rightarrow> None)
      | _ \<Rightarrow> None)"

definition checked_sanitized :: "guard_limits \<Rightarrow> (bytes \<Rightarrow> string) \<Rightarrow> json \<Rightarrow> sanitize_result option" where
  "checked_sanitized L sha256 g =
     (case (field ''outputBase64'' g, int_field ''redactedCells'' g, text_of (field ''outputDigest'' g)) of
        (Some (JString encoded), Some n, Some digest) \<Rightarrow>
          let output = base64_decode encoded in
          if \<not> test base64_pattern encoded \<or> output = [] \<or> length output > lim_compressedBytes L
             \<or> n < 1 \<or> n > int (lim_cells L) \<or> sha256 output \<noteq> digest
          then None
          else Some \<lparr>sz_bytes = output, sz_redactedCells = n, sz_outputDigest = digest\<rparr>
      | _ \<Rightarrow> None)"

text \<open>Whether a value is true in a condition.\<close>

definition truthy :: "json option \<Rightarrow> bool" where
  "truthy v = (case v of None \<Rightarrow> False | Some JNull \<Rightarrow> False | Some (JBool b) \<Rightarrow> b
     | Some (JNumber m e) \<Rightarrow> m \<noteq> 0 | Some (JString s) \<Rightarrow> s \<noteq> [] | Some _ \<Rightarrow> True)"

definition safe_error :: "json option \<Rightarrow> guard_error" where
  "safe_error v = (case text_of v of
      None \<Rightarrow> Guard_Invalid_Workbook
    | Some t \<Rightarrow> (case find (\<lambda>e. error_text e = t) SAFE_ERRORS of None \<Rightarrow> Guard_Invalid_Workbook | Some e \<Rightarrow> e))"

definition checked_response ::
  "guard_limits \<Rightarrow> (bytes \<Rightarrow> string) \<Rightarrow> category list \<Rightarrow> bool \<Rightarrow> bytes \<Rightarrow> error + child_outcome" where
  "checked_response L sha256 categories sanitizing printed =
     (case json_parse (to_text printed) of
        None \<Rightarrow> Inl invalid_workbook
      | Some response \<Rightarrow>
          if truthy (field ''errorCode'' response)
          then Inl (ScanError (safe_error (field ''errorCode'' response)))
          else if sanitizing then
            (case Option.bind (field ''sanitization'' response) (checked_sanitized L sha256) of
               None \<Rightarrow> Inl invalid_workbook | Some r \<Rightarrow> Inr (Sanitized r))
          else
            (case Option.bind (field ''result'' response) (checked_result L categories) of
               None \<Rightarrow> Inl invalid_workbook | Some r \<Rightarrow> Inr (Scanned r)))"

text \<open>What the runner hears of, until it settles.\<close>

datatype child_event =
    Child_Data bytes | Child_Closed "int option" | Child_Failed | Input_Failed | Timer_Fired | Job_Aborted

definition output_limit :: "guard_limits \<Rightarrow> bool \<Rightarrow> nat" where
  "output_limit L sanitizing =
     (if sanitizing then (lim_compressedBytes L * 4 + 2) div 3 + 4096 else 2 * 1024 * 1024)"

fun child_settle ::
  "guard_limits \<Rightarrow> (bytes \<Rightarrow> string) \<Rightarrow> category list \<Rightarrow> bool \<Rightarrow> bytes \<Rightarrow> child_event list
    \<Rightarrow> (error + child_outcome) option" where
  "child_settle L sha256 categories sanitizing printed [] = None"
| "child_settle L sha256 categories sanitizing printed (e # es) =
     (case e of
        Child_Data chunk \<Rightarrow>
          if length printed + length chunk > output_limit L sanitizing then Some (Inl limit_exceeded)
          else child_settle L sha256 categories sanitizing (printed @ chunk) es
      | Child_Closed code \<Rightarrow>
          Some (if code \<noteq> Some 0 then Inl (ScanError Guard_Worker_Unavailable)
                else checked_response L sha256 categories sanitizing printed)
      | Child_Failed \<Rightarrow> Some (Inl (ScanError Guard_Worker_Unavailable))
      | Input_Failed \<Rightarrow> Some (Inl (ScanError Guard_Worker_Unavailable))
      | Timer_Fired \<Rightarrow> Some (Inl (ScanError Guard_Timeout))
      | Job_Aborted \<Rightarrow> Some (Inl (ScanError Guard_Access_Revoked)))"

text \<open>The runner: the child is built, the runtime recent, the job not aborted yet.\<close>

record runner_env =
  ru_available :: bool
  ru_aborted :: bool
  ru_events :: "bytes \<Rightarrow> child_event list"
  ru_digest :: "bytes \<Rightarrow> string"

definition execute ::
  "runner_env \<Rightarrow> guard_limits \<Rightarrow> bytes \<Rightarrow> category list \<Rightarrow> string option \<Rightarrow> sanitize_options option
    \<Rightarrow> (error + child_outcome) option" where
  "execute env L body categories region sanitization =
     (if \<not> ru_available env then Some (Inl (ScanError Guard_Worker_Unavailable))
      else if ru_aborted env then Some (Inl (ScanError Guard_Access_Revoked))
      else child_settle L (ru_digest env) categories (sanitization \<noteq> None) []
        (ru_events env (child_input body categories region L sanitization)))"

definition run :: "runner_env \<Rightarrow> guard_limits \<Rightarrow> bytes \<Rightarrow> category list \<Rightarrow> string option
    \<Rightarrow> (error + scan_result) option" where
  "run env L body categories region =
     map_option (\<lambda>r. result_bind r (\<lambda>v. case v of Scanned x \<Rightarrow> Inr x | _ \<Rightarrow> Inl invalid_workbook))
       (execute env L body categories region None)"

definition runner_sanitize :: "runner_env \<Rightarrow> guard_limits \<Rightarrow> bytes \<Rightarrow> sanitize_options
    \<Rightarrow> (error + sanitize_result) option" where
  "runner_sanitize env L body options =
     map_option (\<lambda>r. result_bind r (\<lambda>v. case v of
         Sanitized x \<Rightarrow> Inr x | _ \<Rightarrow> Inl (ScanError Guard_Output_Verification_Failed)))
       (execute env L body (so_categories options) (so_phoneRegion options) (Some options))"

end
