(* ===== verification/JsonRoundtrip.thy ===== *)
theory JsonRoundtrip
  imports Json
begin

text \<open>
  JSON texts round trip: what \<open>JSON.stringify\<close> prints, \<open>JSON.parse\<close> reads back, for values whose
  strings are code units, whose numbers are in normal form and whose objects have distinct keys.
  In particular the printed text determines the value.
\<close>

section \<open>Strings\<close>

lemma hex_digit_units:
  assumes "n < 16"
  shows "hex_unit (of_char (hex_digit n)) = Some n"
  using assms by (auto simp: hex_digit_def hex_unit_def)

lemma hex_units_value:
  assumes "c < 65536"
  shows "\<exists>a b d e. hex_units c = [a, b, d, e] \<and> hex_value4 a b d e = Some c"
proof -
  have four: "hex_digits 4 c = [hex_digit (c div 16 div 16 div 16 mod 16), hex_digit (c div 16 div 16 mod 16),
      hex_digit (c div 16 mod 16), hex_digit (c mod 16)]"
  proof -
    have s4: "(4::nat) = Suc (Suc (Suc (Suc 0)))" by simp
    show ?thesis unfolding s4 by simp
  qed
  have "c mod 16 < 16" "c div 16 mod 16 < 16" "c div 16 div 16 mod 16 < 16" "c div 16 div 16 div 16 mod 16 < 16" by simp_all
  moreover have "4096 * (c div 16 div 16 div 16 mod 16) + 256 * (c div 16 div 16 mod 16) + 16 * (c div 16 mod 16) + c mod 16 = c"
  proof -
    define x y z where "x = c div 16" and "y = x div 16" and "z = y div 16"
    have "z mod 16 = z" using assms by (simp add: x_def y_def z_def div_mult2_eq [symmetric])
    then have "4096 * (z mod 16) + 256 * (y mod 16) + 16 * (x mod 16) + c mod 16 =
        c mod 16 + 16 * (x mod 16 + 16 * (y mod 16 + 16 * z))" by simp
    also have "\<dots> = c" unfolding z_def mod_mult_div_eq unfolding y_def mod_mult_div_eq
      unfolding x_def mod_mult_div_eq ..
    finally show ?thesis by (simp add: x_def y_def z_def)
  qed
  ultimately show ?thesis
    unfolding hex_units_def units_def four by (simp add: hex_value4_def hex_digit_units)
qed

lemma parse_string_plain:
  assumes "32 \<le> c" "c \<noteq> 34" "c \<noteq> 92" "q \<noteq> []"
  shows "parse_string (c # q) = prepend c (parse_string q)"
  using assms by (cases q) auto

lemma escape_nonempty: "escape s @ 34 # r \<noteq> []" by simp

lemma parse_string_unicode:
  assumes "c < 65536"
  shows "parse_string ([92, 117] @ hex_units c @ q) = prepend c (parse_string q)"
proof -
  obtain a b d e where "hex_units c = [a, b, d, e]" "hex_value4 a b d e = Some c"
    using hex_units_value [OF assms] by blast
  then show ?thesis by simp
qed

lemma parse_string_escape:
  assumes "list_all (\<lambda>c. c < 65536) s"
  shows "parse_string (escape s @ 34 # r) = Some (s, r)"
  using assms
proof (induction s rule: escape.induct)
  case 1
  then show ?case by (cases r) auto
next
  case (2 c s)
  show ?case
  proof (cases "55296 \<le> c \<and> c < 56320 \<and> s \<noteq> [] \<and> 56320 \<le> hd s \<and> hd s < 57344")
    case True
    then obtain d s' where s: "s = d # s'" "56320 \<le> d" "d < 57344" by (cases s) auto
    have "parse_string (escape s' @ 34 # r) = Some (s', r)" using 2 True s by simp
    then show ?thesis using True s by (simp add: parse_string_plain prepend_def)
  next
    case False
    have IH: "parse_string (escape s @ 34 # r) = Some (s, r)" using 2 False by simp
    show ?thesis
    proof (cases "map_of [(34::nat, 34::nat), (92, 92), (8, 98), (12, 102), (10, 110), (13, 114), (9, 116)] c")
      case (Some k)
      then have "escaped_unit k = Some c" "k \<noteq> 117"
        by (auto simp: escaped_unit_def split: if_splits)
      then have "parse_string ([92, k] @ escape s @ 34 # r) = prepend c (parse_string (escape s @ 34 # r))"
        by simp
      moreover have "escape (c # s) = [92, k] @ escape s" using False Some by simp
      ultimately show ?thesis using IH by (simp add: prepend_def)
    next
      case None
      have c: "c < 65536" using 2 by simp
      show ?thesis
      proof (cases "c < 32 \<or> surrogate c")
        case True
        then have "escape (c # s) = [92, 117] @ hex_units c @ escape s" using False None by auto
        then show ?thesis using parse_string_unicode [OF c, of "escape s @ 34 # r"] IH by (simp add: prepend_def)
      next
        case u: False
        then have "escape (c # s) = c # escape s" using False None by auto
        moreover have "c \<noteq> 34" "c \<noteq> 92" "32 \<le> c" using None u by (auto split: if_splits)
        ultimately show ?thesis using IH by (simp add: parse_string_plain prepend_def)
      qed
    qed
  qed
qed

section \<open>Numbers\<close>

text \<open>Numbers in normal form.\<close>

definition normal_number :: "int \<Rightarrow> int \<Rightarrow> bool" where
  "normal_number m e \<longleftrightarrow> m = 0 \<and> e = 0 \<or> m mod 10 \<noteq> 0"

lemma decimal_normal: "m mod 10 \<noteq> 0 \<Longrightarrow> decimal m e = JNumber m e"
  by (subst decimal.simps) auto

lemma decimal_shift:
  assumes "m mod 10 \<noteq> 0"
  shows "decimal (m * 10 ^ k) e = JNumber m (e + int k)"
proof (induction k arbitrary: e)
  case 0
  then show ?case using assms by (simp add: decimal_normal)
next
  case (Suc k)
  have "m * 10 ^ Suc k \<noteq> 0" using assms by auto
  moreover have "m * 10 ^ Suc k mod 10 = 0" "m * 10 ^ Suc k div 10 = m * 10 ^ k" by simp_all
  ultimately show ?case using Suc.IH [of "e + 1"] by (subst decimal.simps) simp
qed

lemma decimal_minus: "decimal (- m) e = (case decimal m e of JNumber a b \<Rightarrow> JNumber (- a) b | v \<Rightarrow> v)"
proof (induction m e rule: decimal.induct)
  case (1 m e)
  show ?case
  proof (cases "m \<noteq> 0 \<and> m mod 10 = 0")
    case True
    then have "(- m) mod 10 = 0" "(- m) div 10 = - (m div 10)" by auto
    then show ?thesis using 1 True by (subst decimal.simps, subst (2) decimal.simps) simp
  next
    case False
    then show ?thesis
      by (cases "m = 0") (auto simp: decimal_normal decimal.simps [of 0] mod_eq_0_iff_dvd)
  qed
qed

lemma show_nat_digit_codes: "list_all digit (nat_units n)"
proof (induction n rule: show_nat.induct)
  case (1 n)
  show ?case
  proof (cases "n < 10")
    case True
    then show ?thesis by (subst nat_units_def, subst show_nat.simps) (simp add: units_def digit_def)
  next
    case False
    then have "nat_units n = nat_units (n div 10) @ [48 + n mod 10]"
      unfolding nat_units_def by (subst show_nat.simps) (simp add: units_def)
    then show ?thesis using 1 False by (simp add: digit_def)
  qed
qed

lemma digits_value_append: "digits_value (xs @ [d]) = 10 * digits_value xs + (int d - 48)"
  by (simp add: digits_value_def)

lemma digits_value_show: "digits_value (nat_units n) = int n"
proof (induction n rule: show_nat.induct)
  case (1 n)
  show ?case
  proof (cases "n < 10")
    case True
    then show ?thesis by (subst nat_units_def, subst show_nat.simps) (simp add: units_def digits_value_def)
  next
    case False
    then have "nat_units n = nat_units (n div 10) @ [48 + n mod 10]"
      unfolding nat_units_def by (subst show_nat.simps) (simp add: units_def)
    moreover have "int n = 10 * int (n div 10) + int (n mod 10)"
      by (metis mult_div_mod_eq of_nat_add of_nat_mult of_nat_numeral)
    ultimately show ?thesis using 1 False by (simp add: digits_value_append)
  qed
qed

lemma digits_value_zeros: "digits_value (xs @ replicate k 48) = digits_value xs * 10 ^ k"
proof (induction k)
  case (Suc k)
  have "xs @ replicate (Suc k) 48 = (xs @ replicate k 48) @ [48]"
    by (simp add: replicate_append_same)
  then show ?case by (simp only: digits_value_append Suc.IH) simp
qed simp

lemma nat_units_first: "0 < n \<Longrightarrow> \<exists>c q. nat_units n = c # q \<and> c \<noteq> 48"
proof (induction n rule: show_nat.induct)
  case (1 n)
  show ?case
  proof (cases "n < 10")
    case True
    then show ?thesis using 1(2) by (subst nat_units_def, subst show_nat.simps) (simp add: units_def)
  next
    case False
    then have "nat_units n = nat_units (n div 10) @ [48 + n mod 10]"
      unfolding nat_units_def by (subst show_nat.simps) (simp add: units_def)
    moreover have "0 < n div 10" using False by (simp add: div_greater_zero_iff)
    ultimately show ?thesis using 1 False by auto
  qed
qed

text \<open>What may follow a value.\<close>

definition ends_value :: "nat list \<Rightarrow> bool" where
  "ends_value r \<longleftrightarrow> (case r of [] \<Rightarrow> True | c # _ \<Rightarrow> c = 44 \<or> c = 93 \<or> c = 125)"

text \<open>The parts of a number: whole digits, fraction, exponent.\<close>

definition exponent_text :: "nat list \<Rightarrow> int \<Rightarrow> bool" where
  "exponent_text ex x \<longleftrightarrow> ex = [] \<and> x = 0
     \<or> (\<exists>xs. xs \<noteq> [] \<and> list_all digit xs
        \<and> (ex = 101 # 43 # xs \<and> x = digits_value xs \<or> ex = 101 # 45 # xs \<and> x = - digits_value xs))"

lemma take_digits: "list_all digit xs \<Longrightarrow> (r \<noteq> [] \<Longrightarrow> \<not> digit (hd r)) \<Longrightarrow>
    takeWhile digit (xs @ r) = xs \<and> dropWhile digit (xs @ r) = r"
  by (induction xs) (cases r; auto)+

lemma parse_exponent_text:
  assumes "exponent_text ex x" "ends_value r"
  shows "parse_exponent (ex @ r) = Some (x, r)" "ex @ r \<noteq> [] \<Longrightarrow> \<not> digit (hd (ex @ r)) \<and> hd (ex @ r) \<noteq> 46"
proof -
  have r: "r \<noteq> [] \<Longrightarrow> \<not> digit (hd r)" using assms(2) by (cases r) (auto simp: ends_value_def digit_def)
  show "parse_exponent (ex @ r) = Some (x, r)"
  proof -
    consider "ex = []" "x = 0" | xs where "xs \<noteq> []" "list_all digit xs"
      "ex = 101 # 43 # xs \<and> x = digits_value xs \<or> ex = 101 # 45 # xs \<and> x = - digits_value xs"
      using assms(1) by (auto simp: exponent_text_def)
    then show ?thesis
    proof cases
      case 1
      then show ?thesis using assms(2) by (auto simp: parse_exponent_def ends_value_def split: list.splits)
    next
      case 2
      then show ?thesis using take_digits [OF 2(2) r] by (auto simp: parse_exponent_def Let_def)
    qed
  qed
  show "ex @ r \<noteq> [] \<Longrightarrow> \<not> digit (hd (ex @ r)) \<and> hd (ex @ r) \<noteq> 46"
    using assms by (cases r) (auto simp: exponent_text_def ends_value_def digit_def)
qed

lemma parse_digits:
  assumes "ds \<noteq> []" "list_all digit ds" "hd ds = 48 \<longrightarrow> ds = [48]" "list_all digit fs"
    "exponent_text ex x" "ends_value r"
  defines "s \<equiv> ds @ (if fs = [] then [] else 46 # fs) @ ex @ r"
  shows "parse_number s = Some (decimal (digits_value (ds @ fs)) (x - int (length fs)), r)"
    "parse_number (45 # s) = Some (decimal (- digits_value (ds @ fs)) (x - int (length fs)), r)"
proof -
  obtain c q where ds: "ds = c # q" using assms(1) by (cases ds) auto
  have c: "c \<noteq> 45" "digit c" using assms(2) ds by (auto simp: digit_def)
  note ex = parse_exponent_text [OF assms(5,6)]
  define t where "t = (if fs = [] then [] else 46 # fs) @ ex @ r"
  have t: "t \<noteq> [] \<Longrightarrow> \<not> digit (hd t)" using ex(2) by (auto simp: t_def digit_def)
  have w: "takeWhile digit (c # q @ t) = ds" using take_digits [OF assms(2) t] ds by simp
  have w': "(if c = 48 then [c] else takeWhile digit (c # q @ t)) = ds"
    using assms(3) ds w by auto
  have f: "parse_fraction t = Some (fs, ex @ r)"
  proof (cases "fs = []")
    case True
    then show ?thesis using ex(2) by (cases "ex @ r") (simp_all add: t_def parse_fraction_def)
  next
    case False
    then show ?thesis using take_digits [OF assms(4), of "ex @ r"] ex(2)
      by (auto simp: t_def parse_fraction_def Let_def)
  qed
  have s: "s = c # q @ t" "drop (length ds) s = t" by (simp_all add: s_def t_def ds)
  show "parse_number s = Some (decimal (digits_value (ds @ fs)) (x - int (length fs)), r)"
    using c w' f ex(1) s(2) unfolding s(1) by (simp add: parse_number_def ds Let_def)
  show "parse_number (45 # s) = Some (decimal (- digits_value (ds @ fs)) (x - int (length fs)), r)"
    using c w' f ex(1) s(2) unfolding s(1) by (simp add: parse_number_def ds Let_def)
qed

text \<open>The forms in which a number is printed.\<close>

definition number_parts :: "int \<Rightarrow> int \<Rightarrow> nat list \<Rightarrow> nat list \<Rightarrow> nat list \<Rightarrow> int \<Rightarrow> bool" where
  "number_parts m e ds fs ex x \<longleftrightarrow>
     number_text m e = (if m < 0 then [45] else []) @ ds @ (if fs = [] then [] else 46 # fs) @ ex
     \<and> ds \<noteq> [] \<and> list_all digit ds \<and> (hd ds = 48 \<longrightarrow> ds = [48]) \<and> list_all digit fs \<and> exponent_text ex x
     \<and> decimal (digits_value (ds @ fs)) (x - int (length fs)) = decimal \<bar>m\<bar> e"

lemma digits_value_leading: "digits_value (replicate k 48 @ xs) = digits_value xs"
  by (induction k) (auto simp: digits_value_def)

lemma number_parts_exist:
  assumes "m mod 10 \<noteq> 0"
  shows "\<exists>ds fs ex x. number_parts m e ds fs ex x"
proof -
  have m0: "m \<noteq> 0" using assms by auto
  define N where "N = nat_units (nat \<bar>m\<bar>)"
  define k n where "k = int (length N)" and "n = k + e"
  obtain c q where cq: "N = c # q" "c \<noteq> 48" using nat_units_first [of "nat \<bar>m\<bar>"] m0 by (auto simp: N_def)
  have N: "list_all digit N" "digits_value N = \<bar>m\<bar>"
    by (simp_all add: N_def show_nat_digit_codes digits_value_show)
  have shown: "number_text m e = (if m < 0 then [45] else []) @
       (if k \<le> n \<and> n \<le> 21 then N @ replicate (nat (n - k)) 48
        else if 0 < n \<and> n \<le> 21 then take (nat n) N @ [46] @ drop (nat n) N
        else if - 6 < n \<and> n \<le> 0 then [48, 46] @ replicate (nat (- n)) 48 @ N
        else take 1 N @ (if k = 1 then [] else 46 # drop 1 N) @ [101]
          @ (if n - 1 < 0 then [45] else [43]) @ nat_units (nat \<bar>n - 1\<bar>))"
    using m0 by (simp add: number_text_def Let_def N_def k_def n_def)
  have am: "\<bar>m\<bar> mod 10 \<noteq> 0" using assms by (simp add: mod_eq_0_iff_dvd)
  consider "k \<le> n \<and> n \<le> 21" | "\<not> (k \<le> n \<and> n \<le> 21)" "0 < n \<and> n \<le> 21"
    | "\<not> (0 < n \<and> n \<le> 21)" "\<not> (k \<le> n \<and> n \<le> 21)" "- 6 < n \<and> n \<le> 0"
    | "\<not> (k \<le> n \<and> n \<le> 21)" "\<not> (0 < n \<and> n \<le> 21)" "\<not> (- 6 < n \<and> n \<le> 0)" by blast
  then show ?thesis
  proof cases
    case 1
    have "decimal (digits_value (N @ replicate (nat (n - k)) 48)) 0 = decimal \<bar>m\<bar> e"
      using decimal_shift [OF am, of "nat (n - k)" 0] decimal_normal [OF am] 1 N(2)
      by (simp add: digits_value_zeros n_def)
    then have "number_parts m e (N @ replicate (nat (n - k)) 48) [] [] 0"
      using 1 shown N cq by (auto simp: number_parts_def exponent_text_def list_all_iff digit_def)
    then show ?thesis by blast
  next
    case 2
    have l: "0 < nat n" "nat n < length N" using 2 by (auto simp: k_def)
    have d: "drop (nat n) N \<noteq> []" "take (nat n) N \<noteq> []" "hd (take (nat n) N) \<noteq> 48"
      using l cq by (auto simp: hd_take)
    have ds: "list_all digit (take (nat n) N)" "list_all digit (drop (nat n) N)"
      using N(1) by (auto simp: list_all_iff dest: in_set_takeD in_set_dropD)
    have x: "0 - int (length (drop (nat n) N)) = e" using l 2 by (simp add: n_def k_def)
    have "number_text m e = (if m < 0 then [45] else []) @ take (nat n) N @ [46] @ drop (nat n) N"
      unfolding shown using 2 by simp
    then have "number_parts m e (take (nat n) N) (drop (nat n) N) [] 0"
      unfolding number_parts_def x append_take_drop_id N(2) using d ds by (simp add: exponent_text_def)
    then show ?thesis by blast
  next
    case 3
    have "number_parts m e [48] (replicate (nat (- n)) 48 @ N) [] 0"
      using 3 shown N cq digits_value_leading [of "Suc (nat (- n))" N]
      by (auto simp: number_parts_def exponent_text_def list_all_iff digit_def n_def k_def)
    then show ?thesis by blast
  next
    case 4
    define xs where "xs = nat_units (nat \<bar>n - 1\<bar>)"
    have xs: "xs \<noteq> []" "list_all digit xs" "digits_value xs = \<bar>n - 1\<bar>"
      using digits_value_show [of "nat \<bar>n - 1\<bar>"] show_nat_digit_codes [of "nat \<bar>n - 1\<bar>"]
      by (auto simp: xs_def nat_units_def units_def) (subst (asm) show_nat.simps, simp split: if_splits)
    have sh: "number_text m e = (if m < 0 then [45] else []) @ [c] @ (if q = [] then [] else 46 # q)
        @ [101] @ (if n - 1 < 0 then [45] else [43]) @ xs"
      using 4 cq unfolding shown xs_def [symmetric] by (auto simp: k_def)
    have ex: "exponent_text ([101] @ (if n - 1 < 0 then [45] else [43]) @ xs) (n - 1)"
      using xs by (auto simp: exponent_text_def)
    have x: "n - 1 - int (length q) = e" using cq by (simp add: n_def k_def)
    have "number_parts m e [c] q ([101] @ (if n - 1 < 0 then [45] else [43]) @ xs) (n - 1)"
      using N cq ex unfolding number_parts_def sh x by simp
    then show ?thesis by blast
  qed
qed

lemma parse_number_text:
  assumes "normal_number m e" "ends_value r"
  shows "parse_number (number_text m e @ r) = Some (JNumber m e, r)"
proof (cases "m = 0")
  case True
  then have "e = 0" "number_text m e = [48]" using assms(1) by (auto simp: normal_number_def number_text_def Let_def)
  then show ?thesis using parse_digits(1) [of "[48]" "[]" "[]" 0 r] assms(2) True
    by (simp add: digit_def digits_value_def decimal.simps exponent_text_def)
next
  case False
  then have m: "m mod 10 \<noteq> 0" using assms(1) by (simp add: normal_number_def)
  obtain ds fs ex x where p: "number_parts m e ds fs ex x" using number_parts_exist [OF m] by blast
  have am: "\<bar>m\<bar> mod 10 \<noteq> 0" using m by (simp add: mod_eq_0_iff_dvd)
  have v: "digits_value (ds @ fs) \<noteq> 0 \<and> decimal (digits_value (ds @ fs)) (x - int (length fs)) = JNumber \<bar>m\<bar> e"
    using p decimal_normal [OF am, of e] am by (auto simp: number_parts_def decimal.simps)
  have neg: "decimal (- digits_value (ds @ fs)) (x - int (length fs)) = JNumber (- \<bar>m\<bar>) e"
    using v decimal_minus [of "digits_value (ds @ fs)" "x - int (length fs)"] by simp
  show ?thesis
    using parse_digits [of ds fs ex x r] p assms(2) v neg
    by (cases "m < 0") (auto simp: number_parts_def)
qed

section \<open>Values\<close>

definition code_units_text :: "js_string \<Rightarrow> bool" where
  "code_units_text s \<longleftrightarrow> list_all (\<lambda>c. c < 65536) s"

function printable :: "json \<Rightarrow> bool" where
  "printable JNull = True"
| "printable (JBool b) = True"
| "printable (JNumber m e) = normal_number m e"
| "printable (JString s) = code_units_text s"
| "printable (JArray vs) = (\<forall>v\<in>set vs. printable v)"
| "printable (JObject fs) = (distinct (map fst fs) \<and> (\<forall>kv\<in>set fs. code_units_text (fst kv) \<and> printable (snd kv)))"
  by pat_completeness auto
termination
  by (relation "measure size") (auto simp: less_Suc_eq_le intro: size_list_estimation' dest: size_field)

text \<open>The first character of a printed value decides the branch of the parser.\<close>

lemma number_text_first:
  assumes "normal_number m e"
  shows "\<exists>c q. number_text m e = c # q \<and> (digit c \<or> c = 45)"
proof (cases "m = 0")
  case True
  then show ?thesis by (simp add: number_text_def digit_def)
next
  case False
  then obtain ds fs ex x where "number_parts m e ds fs ex x"
    using number_parts_exist [of m e] assms by (auto simp: normal_number_def)
  then show ?thesis by (cases ds) (auto simp: number_parts_def)
qed

lemma printed_first:
  assumes "printable v"
  shows "\<exists>c q. json_stringify v = c # q \<and> \<not> json_space c \<and> c \<noteq> 93 \<and> c \<noteq> 125"
proof (cases v)
  case (JNumber m e)
  then show ?thesis using number_text_first [of m e] assms by (auto simp: json_space_def digit_def)
qed (auto simp: units_def json_space_def quote_def)

lemma skip_printed: "printable v \<Longrightarrow> skip_space (json_stringify v @ r) = json_stringify v @ r"
  using printed_first [of v] by (auto simp: skip_space_def)

lemma skip_ends: "ends_value r \<Longrightarrow> skip_space r = r"
  by (auto simp: ends_value_def skip_space_def json_space_def split: list.splits)

definition reads_back :: "json \<Rightarrow> bool" where
  "reads_back v \<longleftrightarrow> (\<forall>n r. 2 * length (json_stringify v) \<le> n \<longrightarrow> ends_value r \<longrightarrow>
     parse_value n (json_stringify v @ r) = Some (v, r))"

lemma reads_backD:
  "reads_back v \<Longrightarrow> 2 * length (json_stringify v) \<le> n \<Longrightarrow> ends_value r \<Longrightarrow>
     parse_value n (json_stringify v @ r) = Some (v, r)"
  by (simp add: reads_back_def)

lemma ends_value_simps [simp]: "ends_value []" "ends_value (c # r) \<longleftrightarrow> c = 44 \<or> c = 93 \<or> c = 125"
  by (simp_all add: ends_value_def)

lemma parse_elements_printed:
  assumes "vs \<noteq> []" "\<forall>v\<in>set vs. printable v \<and> reads_back v"
    "2 * length (comma_separated (map json_stringify vs)) + 1 \<le> n"
  shows "parse_elements n (comma_separated (map json_stringify vs) @ 93 # r) = Some (vs, r)"
  using assms
proof (induction vs arbitrary: n)
  case (Cons v vs)
  obtain k where n: "n = Suc k" using Cons.prems(3) by (cases n) auto
  show ?case
  proof (cases vs)
    case Nil
    then have "parse_value k (json_stringify v @ 93 # r) = Some (v, 93 # r)"
      using Cons.prems n by (simp add: reads_back_def ends_value_def)
    then show ?thesis using Nil n by (simp add: skip_space_def json_space_def)
  next
    case c: (Cons w ws)
    define rest where "rest = comma_separated (map json_stringify vs)"
    have e: "comma_separated (map json_stringify (v # vs)) = json_stringify v @ 44 # rest"
      using c by (simp add: rest_def)
    have "parse_value k (json_stringify v @ 44 # rest @ 93 # r) = Some (v, 44 # rest @ 93 # r)"
      using Cons.prems n e by (simp add: reads_back_def ends_value_def)
    moreover have "parse_elements k (rest @ 93 # r) = Some (vs, r)"
      unfolding rest_def by (rule Cons.IH) (use Cons.prems n e c in \<open>auto simp: rest_def\<close>)
    ultimately show ?thesis unfolding n e by (simp add: skip_space_def json_space_def prepend_def)
  qed
qed simp

lemma set_field_new: "k \<notin> fst ` set fs \<Longrightarrow> set_field k v fs = fs @ [(k, v)]"
  by (induction k v fs rule: set_field.induct) auto

definition field_text :: "js_string \<times> json \<Rightarrow> js_string" where
  "field_text kv = quote (fst kv) @ [58] @ json_stringify (snd kv)"

lemma parse_members_printed:
  assumes "fs \<noteq> []" "\<forall>kv\<in>set fs. code_units_text (fst kv) \<and> printable (snd kv) \<and> reads_back (snd kv)"
    "2 * length (comma_separated (map field_text fs)) + 1 \<le> n"
    "distinct (map fst (acc @ fs))"
  shows "parse_members n (comma_separated (map field_text fs) @ 125 # r) acc = Some (acc @ fs, r)"
  using assms
proof (induction fs arbitrary: n acc)
  case (Cons kv fs)
  obtain j where n: "n = Suc j" using Cons.prems(3) by (cases n) auto
  obtain k v where kv: "kv = (k, v)" by fastforce
  have key: "parse_string (escape k @ 34 # q) = Some (k, q)" for q
    using Cons.prems(2) kv by (simp add: parse_string_escape code_units_text_def)
  have new: "set_field k v acc = acc @ [kv]" using Cons.prems(4) kv by (intro set_field_new [THEN trans]) auto
  have sk: "skip_space (34 # q) = 34 # q" "skip_space (58 # q) = 58 # q" for q
    by (simp_all add: skip_space_def json_space_def)
  show ?case
  proof (cases fs)
    case Nil
    have "parse_value j (json_stringify v @ 125 # r) = Some (v, 125 # r)"
      using Cons.prems n kv Nil by (simp add: reads_back_def ends_value_def field_text_def)
    then show ?thesis using Nil n kv new
      by (simp add: field_text_def quote_def sk key starts_with_def skip_ends ends_value_def)
  next
    case c: (Cons w ws)
    define rest where "rest = comma_separated (map field_text fs)"
    have e: "comma_separated (map field_text (kv # fs)) = field_text kv @ 44 # rest"
      using c by (simp add: rest_def)
    have l: "2 * (length (field_text kv) + 1 + length rest) + 1 \<le> Suc j"
      using Cons.prems(3) unfolding e n by simp
    have "parse_value j (json_stringify v @ 44 # rest @ 125 # r) = Some (v, 44 # rest @ 125 # r)"
      by (rule reads_backD) (use Cons.prems(2) kv l in \<open>auto simp: field_text_def\<close>)
    moreover have "parse_members j (rest @ 125 # r) (acc @ [kv]) = Some ((acc @ [kv]) @ fs, r)"
      unfolding rest_def by (rule Cons.IH) (use Cons.prems(1,2,4) l c in \<open>auto simp: rest_def\<close>)
    ultimately show ?thesis unfolding n e using new
      by (simp add: kv field_text_def quote_def sk key starts_with_def skip_ends ends_value_def)
  qed
qed simp

lemma printed_reads_back: "printable v \<Longrightarrow> reads_back v"
proof (induction v rule: json_stringify.induct)
  case 1
  then show ?case unfolding reads_back_def
    by (auto simp: units_def skip_space_def json_space_def starts_with_def numeral_eq_Suc elim!: Suc_le_D [elim_format])
next
  case (2 b)
  then show ?case unfolding reads_back_def
    by (cases b) (auto simp: units_def skip_space_def json_space_def starts_with_def numeral_eq_Suc elim!: Suc_le_D [elim_format])
next
  case (3 m e)
  show ?case unfolding reads_back_def
  proof (intro allI impI)
    fix n r assume n: "2 * length (json_stringify (JNumber m e)) \<le> n" and r: "ends_value r"
    obtain c q where c: "number_text m e = c # q" "digit c \<or> c = 45" using number_text_first [of m e] 3 by auto
    then obtain k where k: "n = Suc k" using n by (cases n) auto
    have p: "parse_number (c # q @ r) = Some (JNumber m e, r)"
      using parse_number_text [of m e r] 3 r c by simp
    have s: "skip_space (c # q @ r) = c # q @ r" using c by (auto simp: skip_space_def json_space_def digit_def)
    have d: "c \<noteq> 123" "c \<noteq> 91" "c \<noteq> 34" "c \<noteq> 110" "c \<noteq> 116" "c \<noteq> 102" using c by (auto simp: digit_def)
    show "parse_value n (json_stringify (JNumber m e) @ r) = Some (JNumber m e, r)"
      using c(1) s d p unfolding k by (simp add: units_def starts_with_def)
  qed
next
  case (4 s)
  show ?case unfolding reads_back_def
  proof (intro allI impI)
    fix n r assume "2 * length (json_stringify (JString s)) \<le> n"
    then obtain k where k: "n = Suc k" by (cases n) (auto simp: quote_def)
    show "parse_value n (json_stringify (JString s) @ r) = Some (JString s, r)"
      using 4 parse_string_escape [of s r] unfolding k code_units_text_def
      by (simp add: quote_def skip_space_def json_space_def code_units_text_def)
  qed
next
  case (5 vs)
  show ?case unfolding reads_back_def
  proof (intro allI impI)
    fix n r assume n: "2 * length (json_stringify (JArray vs)) \<le> n"
    then obtain k where k: "n = Suc k" by (cases n) auto
    show "parse_value n (json_stringify (JArray vs) @ r) = Some (JArray vs, r)"
    proof (cases "vs = []")
      case True
      then show ?thesis unfolding k by (simp add: skip_space_def json_space_def starts_with_def)
    next
      case False
      have e: "parse_elements k (comma_separated (map json_stringify vs) @ 93 # r) = Some (vs, r)"
        by (rule parse_elements_printed) (use 5 False n k in auto)
      obtain w ws where vs: "vs = w # ws" using False by (cases vs) auto
      obtain c q where c: "comma_separated (map json_stringify vs) = c # q" "\<not> json_space c" "c \<noteq> 93"
        using printed_first [of w] 5(2) vs by (cases ws) auto
      then have "skip_space (comma_separated (map json_stringify vs) @ 93 # r)
          = comma_separated (map json_stringify vs) @ 93 # r"
        by (simp add: skip_space_def)
      then show ?thesis using e c unfolding k by (simp add: skip_space_def json_space_def starts_with_def)
    qed
  qed
next
  case (6 fs)
  have "field_text = (\<lambda>kv. quote (fst kv) @ [58] @ json_stringify (snd kv))"
    by (simp add: field_text_def fun_eq_iff)
  then have js: "json_stringify (JObject fs) = [123] @ comma_separated (map field_text fs) @ [125]"
    by simp
  show ?case unfolding reads_back_def
  proof (intro allI impI)
    fix n r assume n: "2 * length (json_stringify (JObject fs)) \<le> n"
    then obtain k where k: "n = Suc k" by (cases n) auto
    show "parse_value n (json_stringify (JObject fs) @ r) = Some (JObject fs, r)"
    proof (cases "fs = []")
      case True
      then show ?thesis unfolding k by (simp add: skip_space_def json_space_def starts_with_def)
    next
      case False
      have e: "parse_members k (comma_separated (map field_text fs) @ 125 # r) [] = Some ([] @ fs, r)"
        by (rule parse_members_printed) (use 6 False n [unfolded js] k in auto)
      obtain w ws where fs: "fs = w # ws" using False by (cases fs) auto
      obtain q where c: "comma_separated (map field_text fs) = 34 # q"
        using fs by (cases ws) (auto simp: field_text_def quote_def)
      then have "skip_space (comma_separated (map field_text fs) @ 125 # r)
          = comma_separated (map field_text fs) @ 125 # r"
        by (simp add: skip_space_def json_space_def)
      then show ?thesis using e c unfolding k js by (simp add: skip_space_def json_space_def starts_with_def)
    qed
  qed
qed

text \<open>
  Every printable value survives printing and parsing: \<open>JSON.parse (JSON.stringify v) = v\<close>.
  In particular the parser never runs out of its bound on printed texts.
\<close>

theorem json_roundtrip:
  assumes "printable v"
  shows "json_parse (json_stringify v) = Some v"
proof -
  have "parse_value (2 * length (json_stringify v) + 2) (json_stringify v @ []) = Some (v, [])"
    by (rule reads_backD [OF printed_reads_back [OF assms]]) simp_all
  then show ?thesis by (simp add: json_parse_def skip_space_def)
qed

theorem json_roundtrip_witness:
  "json_parse (json_stringify (JObject [(units ''a'', JArray [JNumber 12 0, JNull]), (units ''b'', JString [34, 55296, 10])]))
     = Some (JObject [(units ''a'', JArray [JNumber 12 0, JNull]), (units ''b'', JString [34, 55296, 10])])"
  by (rule json_roundtrip) (simp add: units_def code_units_text_def normal_number_def show_nat.simps)

text \<open>The printed text determines the value.\<close>

lemma json_stringify_inj:
  assumes "json_stringify v = json_stringify w" "printable v" "printable w"
  shows "v = w"
proof -
  have "parse_value (2 * length (json_stringify u) + 2) (json_stringify u @ []) = Some (u, [])" if "printable u" for u
    by (rule reads_backD [OF printed_reads_back [OF that]]) simp_all
  from this [OF assms(2)] this [OF assms(3)] show ?thesis using assms(1) by simp
qed

end
