(* ===== verification/WorkbookSafety.thy ===== *)
theory WorkbookSafety
  imports GuardChild
begin

text \<open>
  What the scan of a workbook promises: its result stays within the limits, which is what the
  runner checks of it.
\<close>

section \<open>Invariants of a reader\<close>

lemma handle_events_invariant:
  assumes "\<And>tag s t. I s \<Longrightarrow> op tag s = Inr t \<Longrightarrow> I t"
    and "\<And>chunk s t. I s \<Longrightarrow> tx chunk s = Inr t \<Longrightarrow> I t"
    and "\<And>tag s t. I s \<Longrightarrow> cl tag s = Inr t \<Longrightarrow> I t"
    and "handle_events L op tx cl es depth nodes s = Inr t" "I s"
  shows "I t"
  using assms(4,5)
proof (induction es arbitrary: depth nodes s)
  case (Cons e es)
  show ?case
  proof (cases e)
    case (X_Open tag)
    with Cons.prems obtain u where "op tag s = Inr u"
      "handle_events L op tx cl es (depth + 1) (nodes + 1) u = Inr t"
      by (auto simp: result_bind_Inr_iff split: if_splits)
    then show ?thesis using Cons.IH Cons.prems(2) assms(1) by blast
  next
    case (X_Text c)
    with Cons.prems obtain u where "tx c s = Inr u" "handle_events L op tx cl es depth nodes u = Inr t"
      by (auto simp: result_bind_Inr_iff)
    then show ?thesis using Cons.IH Cons.prems(2) assms(2) by blast
  next
    case (X_Close tag)
    with Cons.prems obtain u where "cl tag s = Inr u" "handle_events L op tx cl es (depth - 1) nodes u = Inr t"
      by (auto simp: result_bind_Inr_iff)
    then show ?thesis using Cons.IH Cons.prems(2) assms(3) by blast
  qed (use Cons.prems in auto)
qed simp

lemma xml_invariant:
  assumes "xml X L op tx cl body s = Inr t" and "I s"
    and "\<And>tag s t. I s \<Longrightarrow> op tag s = Inr t \<Longrightarrow> I t"
    and "\<And>chunk s t. I s \<Longrightarrow> tx chunk s = Inr t \<Longrightarrow> I t"
    and "\<And>tag s t. I s \<Longrightarrow> cl tag s = Inr t \<Longrightarrow> I t"
  shows "I t"
  by (rule handle_events_invariant [of I op tx cl, OF assms(3-5) assms(1) [unfolded xml_def] assms(2)])

lemma ignored [simp]: "ignore x s = Inr t \<longleftrightarrow> t = s"
  by (auto simp: ignore_def)

section \<open>Flags\<close>

definition sound_flags :: "string list \<Rightarrow> bool" where
  "sound_flags flags \<longleftrightarrow> distinct flags \<and> set flags \<subseteq> set COMPATIBILITY_FLAGS"

lemma sound_flags_add: "sound_flags flags \<Longrightarrow> f \<in> set COMPATIBILITY_FLAGS \<Longrightarrow> sound_flags (add_flag f flags)"
  by (auto simp: sound_flags_def add_flag_def)

lemma flag_names:
  "''hyperlinks'' \<in> set COMPATIBILITY_FLAGS" "''unsupported_parts'' \<in> set COMPATIBILITY_FLAGS"
  "''defined_names'' \<in> set COMPATIBILITY_FLAGS" "''formulas'' \<in> set COMPATIBILITY_FLAGS"
  "''unsupported_elements'' \<in> set COMPATIBILITY_FLAGS" "''merged_cells'' \<in> set COMPATIBILITY_FLAGS"
  "''unreferenced_shared_strings'' \<in> set COMPATIBILITY_FLAGS"
  "''cell_text_only'' \<in> set COMPATIBILITY_FLAGS" "''metadata_not_scanned'' \<in> set COMPATIBILITY_FLAGS"
  by (simp_all add: COMPATIBILITY_FLAGS_def)

lemmas sound_flags_known [simp] = flag_names [THEN [2] sound_flags_add]

lemma sound_flags_length: "sound_flags flags \<Longrightarrow> length flags \<le> length COMPATIBILITY_FLAGS"
  unfolding sound_flags_def by (metis card_length card_mono distinct_card finite_set le_trans)

lemma scan_parts_flags:
  "scan_parts X L parts flags = Inr flags' \<Longrightarrow> sound_flags flags \<Longrightarrow> sound_flags flags'"
proof (induction X L parts flags rule: scan_parts.induct)
  case (2 X L name body rest flags)
  define f0 where "f0 = (if test known_parts name then flags else add_flag ''unsupported_parts'' flags)"
  have f0: "sound_flags f0" using "2.prems"(2) by (auto simp: f0_def)
  obtain f1 where f1: "xml X L check_relationship ignore ignore body f0 = Inr f1"
    "scan_parts X L rest f1 = Inr flags'" and nf: "\<not> forbidden_part name"
    using "2.prems"(1) by (auto simp: f0_def [symmetric] result_bind_Inr_iff split: if_splits)
  have "sound_flags f1"
    by (rule xml_invariant [OF f1(1), where I = sound_flags])
       (use f0 in \<open>auto simp: check_relationship_def split: if_splits option.splits\<close>)
  then show ?case using "2.IH" nf f1(2) by blast
qed simp

section \<open>Sheets\<close>

definition sound_book :: "guard_limits \<Rightarrow> book_state \<Rightarrow> bool" where
  "sound_book L b \<longleftrightarrow> sound_flags (bk_flags b) \<and> length (bk_sheets b) \<le> lim_sheets L"

lemma open_book_sound: "sound_book L b \<Longrightarrow> open_book L links tag b = Inr c \<Longrightarrow> sound_book L c"
  unfolding sound_book_def open_book_def Let_def
  by (auto split: if_splits option.splits)

definition sound_finding :: "guard_limits \<Rightarrow> category list \<Rightarrow> nat \<Rightarrow> finding_view \<Rightarrow> bool" where
  "sound_finding L categories sheets f \<longleftrightarrow> 0 \<le> fv_sheetIndex f \<and> fv_sheetIndex f < int sheets
     \<and> 1 \<le> fv_row f \<and> fv_row f \<le> int (lim_rows L) \<and> 1 \<le> fv_column f \<and> fv_column f \<le> int (lim_columns L)
     \<and> fv_category f \<in> set categories"

definition sound_findings :: "guard_limits \<Rightarrow> category list \<Rightarrow> nat \<Rightarrow> finding_view list \<Rightarrow> bool" where
  "sound_findings L categories sheets fs \<longleftrightarrow> length fs \<le> lim_findings L
     \<and> map fv_ordinal fs = map int [0..<length fs] \<and> list_all (sound_finding L categories sheets) fs"

definition sound_cell :: "guard_limits \<Rightarrow> scanned_cell \<Rightarrow> bool" where
  "sound_cell L c \<longleftrightarrow> 1 \<le> cl_row c \<and> cl_row c \<le> int (lim_rows L) \<and> 1 \<le> cl_column c \<and> cl_column c \<le> int (lim_columns L)"

definition sound_scan :: "guard_limits \<Rightarrow> category list \<Rightarrow> nat \<Rightarrow> scan_state \<Rightarrow> bool" where
  "sound_scan L categories sheets s \<longleftrightarrow> sound_findings L categories sheets (sc_findings s)
     \<and> sound_flags (sc_flags s) \<and> sc_cells s \<le> lim_cells L
     \<and> (sc_rowOpen s \<longrightarrow> 1 \<le> sc_row s \<and> sc_row s \<le> int (lim_rows L))
     \<and> (\<forall>c. sc_cell s = Some c \<longrightarrow> sound_cell L c)"

lemma integer_Inr: "integer v lo hi = Inr n \<Longrightarrow> lo \<le> n \<and> n \<le> hi"
  by (auto simp: integer_def Let_def split: option.splits if_splits)

lemma column_of_positive:
  assumes "parse_address a = Some (letters, ds)"
  shows "1 \<le> column_of letters"
proof -
  have up: "list_all is_upper letters" "letters \<noteq> []"
    using assms by (auto simp: parse_address_def Let_def list_all_iff dest: set_takeWhileD split: if_splits)
  have pos: "1 \<le> foldl (\<lambda>n c. n * 26 + int c - 64) n ls" if "list_all is_upper ls" "1 \<le> n" for n ls
    using that by (induction ls arbitrary: n) (auto simp: is_upper_def)
  show ?thesis using up pos by (cases letters) (auto simp: column_of_def is_upper_def)
qed

lemma open_cell_cases:
  assumes "open_cell L tag w = Inr x"
  shows "x = w \<or> (\<exists>c as. x = w\<lparr>sc_cells := sc_cells w + 1, sc_addresses := as, sc_cell := Some c\<rparr>
     \<and> sc_rowOpen w \<and> sc_cells w + 1 \<le> lim_cells L \<and> cl_row c = sc_row w
     \<and> 1 \<le> cl_column c \<and> cl_column c \<le> int (lim_columns L))"
proof (cases "is_tag ''c'' tag")
  case True
  define address where "address = (case attr tag ''r'' of None \<Rightarrow> [] | Some a \<Rightarrow> a)"
  obtain letters ds where p: "parse_address address = Some (letters, ds)"
    using assms True by (auto simp: open_cell_def Let_def address_def [symmetric] split: if_splits option.splits)
  from column_of_positive [OF p] show ?thesis
    using assms True p unfolding open_cell_def Let_def address_def [symmetric]
    by (auto split: if_splits)
qed (use assms in \<open>simp add: open_cell_def\<close>)

lemma open_sheet_sound:
  assumes "sound_scan L categories sheets s" "open_sheet L tag s = Inr t"
  shows "sound_scan L categories sheets t"
proof -
  let ?I = "sound_scan L categories sheets"
  obtain u v w where st: "open_worksheet tag s = Inr u" "open_column L tag u = Inr v" "open_row L tag v = Inr w"
    and x: "\<exists>x. open_cell L tag w = Inr x \<and> open_content tag x = Inr t"
    using assms(2) by (auto simp: open_sheet_def result_bind_Inr_iff)
  have "?I u" using assms(1) st(1)
    by (auto simp: open_worksheet_def Let_def sound_scan_def split: if_splits)
  then have "?I v" using st(2)
    by (auto simp: open_column_def result_bind_Inr_iff sound_scan_def split: if_splits)
  then have "?I w" using st(3)
    by (auto simp: open_row_def result_bind_Inr_iff sound_scan_def dest: integer_Inr split: if_splits)
  moreover obtain x where c: "open_cell L tag w = Inr x" "open_content tag x = Inr t" using x by blast
  ultimately have "?I x"
    using open_cell_cases [OF c(1)] by (auto simp: sound_scan_def sound_cell_def)
  then show ?thesis using c(2)
    by (auto simp: open_content_def Let_def sound_scan_def sound_cell_def 
        split: if_splits)
qed

lemma text_sheet_sound:
  "sound_scan L categories sheets s \<Longrightarrow> text_sheet L chunk s = Inr t \<Longrightarrow> sound_scan L categories sheets t"
  by (auto simp: text_sheet_def Let_def sound_scan_def sound_cell_def split: if_splits option.splits)

lemma record_findings_sound:
  assumes "record_findings L i c hidden ks fs = Inr fs'" "sound_findings L categories sheets fs"
    "sound_cell L c" "0 \<le> i" "i < int sheets" "set ks \<subseteq> set categories"
  shows "sound_findings L categories sheets fs'"
  using assms
proof (induction L i c hidden ks fs rule: record_findings.induct)
  case (2 L i c hidden k ks fs)
  show ?case
    by (rule "2.IH") (use "2.prems" in \<open>auto simp: sound_findings_def sound_finding_def sound_cell_def split: if_splits\<close>)
qed simp

lemma close_sheet_sound:
  assumes "sound_scan L categories sheets s" "0 \<le> i" "i < int sheets"
    "close_sheet R L categories region strings i hidden tag s = Inr t"
  shows "sound_scan L categories sheets t"
proof -
  define s3 where "s3 = close_marks tag s"
  have s3: "sound_scan L categories sheets s3"
    using assms(1) by (auto simp: s3_def close_marks_def Let_def sound_scan_def)
  show ?thesis
  proof (cases "sc_cell s3 = None \<or> \<not> is_tag ''c'' tag")
    case True
    then have "t = s3" using assms(4)
      by (auto simp: close_sheet_def s3_def [symmetric] Let_def split: option.splits)
    then show ?thesis using s3 by simp
  next
    case False
    then obtain c where c: "sc_cell s3 = Some c" "is_tag ''c'' tag" by auto
    obtain x0 index fs where r: "cell_text strings c = Inr (x0, index)"
      "(case x0 of None \<Rightarrow> Inr (sc_findings s3)
         | Some x \<Rightarrow> record_findings L i c (hidden \<or> sc_hiddenRow s3 \<or> cl_column c \<in> set (sc_hiddenColumns s3))
             (detect R x categories region) (sc_findings s3)) = Inr fs"
      "sc_findings t = fs" "sc_flags t = sc_flags s3" "sc_cells t = sc_cells s3" "sc_cell t = None"
      "sc_row t = sc_row s3" "sc_rowOpen t = sc_rowOpen s3"
      using assms(4) c
      unfolding close_sheet_def s3_def [symmetric] Let_def
      by (auto simp: result_bind_Inr_iff)
    have "sound_findings L categories sheets fs"
    proof (cases x0)
      case None
      then show ?thesis using r(2) s3 by (simp add: sound_scan_def)
    next
      case (Some x)
      show ?thesis
        by (rule record_findings_sound [OF r(2) [unfolded Some option.case]])
           (use s3 c assms(2,3) detect_enabled in \<open>auto simp: sound_scan_def\<close>)
    qed
    then show ?thesis using s3 r(3-) by (auto simp: sound_scan_def)
  qed
qed

lemma scan_sheets_sound:
  assumes "scan_sheets X R L categories region parts strings i entries s = Inr t"
    "sound_scan L categories sheets s" "0 \<le> i" "i + int (length entries) \<le> int sheets"
  shows "sound_scan L categories sheets t"
  using assms
proof (induction X R L categories region parts strings i entries s rule: scan_sheets.induct)
  case (2 X R L categories region parts strings i sheet rest s)
  obtain body u where u: "part (she_path sheet) parts = Inr body"
    "xml X L (open_sheet L) (text_sheet L) (close_sheet R L categories region strings i (she_hidden sheet)) body (fresh_sheet s) = Inr u"
    "sc_root u" "scan_sheets X R L categories region parts strings (i + 1) rest u = Inr t"
    using "2.prems"(1) by (auto simp: result_bind_Inr_iff split: if_splits)
  have fresh: "sound_scan L categories sheets (fresh_sheet s)"
    using "2.prems"(2) by (auto simp: sound_scan_def fresh_sheet_def)
  have "i < int sheets" using "2.prems"(4) by simp
  have "sound_scan L categories sheets u"
  proof (rule xml_invariant [OF u(2), where I = "sound_scan L categories sheets"])
    show "sound_scan L categories sheets t"
      if "sound_scan L categories sheets v" "close_sheet R L categories region strings i (she_hidden sheet) tag v = Inr t"
      for tag v t
      using close_sheet_sound [OF that(1) "2.prems"(3) \<open>i < int sheets\<close> that(2)] .
  qed (fact fresh open_sheet_sound text_sheet_sound)+
  then show ?case using "2.IH" u "2.prems"(3,4) by simp
qed simp

section \<open>The result\<close>

definition sound_result :: "guard_limits \<Rightarrow> category list \<Rightarrow> scan_result \<Rightarrow> bool" where
  "sound_result L categories r \<longleftrightarrow>
     (\<exists>sheets. sr_sheets r = int sheets \<and> 1 \<le> sheets \<and> sheets \<le> lim_sheets L
        \<and> sound_findings L categories sheets (sr_findings r))
     \<and> 0 \<le> sr_processedCells r \<and> sr_processedCells r \<le> int (lim_cells L)
     \<and> sound_flags (sr_compatibilityFlags r) \<and> sr_coverage r = Limited"

lemma reported_flags_sound: "sound_flags (sc_flags s) \<Longrightarrow> sound_flags (reported_flags strings s)"
  using sound_flags_add [OF _ flag_names(7), of "sc_flags s"]
  by (auto simp: reported_flags_def sound_flags_def)

lemma scan_contents_sound:
  assumes "scan_contents X R categories region L parts = Inr r"
  shows "sound_result L categories r"
proof -
  from assms obtain flags links book b strings s where
    p: "scan_parts X L parts [''cell_text_only'', ''metadata_not_scanned''] = Inr flags"
    and bk: "xml X L (open_book L links) ignore ignore book \<lparr>bk_root = False, bk_sheets = [], bk_flags = flags\<rparr> = Inr b"
    and b: "bk_sheets b \<noteq> []"
    and s: "scan_sheets X R L categories region parts strings 0 (bk_sheets b)
         \<lparr>sc_flags = bk_flags b, sc_referenced = [], sc_findings = [], sc_cells = 0, sc_root = False,
          sc_dataOpen = False, sc_rowOpen = False, sc_row = 0, sc_hiddenRow = False,
          sc_hiddenColumns = [], sc_addresses = [], sc_cell = None, sc_capture = False\<rparr> = Inr s"
    and r: "sr_findings r = sc_findings s" "sr_processedCells r = int (sc_cells s)"
      "sr_sheets r = int (length (bk_sheets b))" "sr_compatibilityFlags r = reported_flags strings s"
      "sr_coverage r = Limited"
    by (auto simp: scan_contents_def result_bind_Inr_iff split: sum.splits if_splits)
  have "sound_flags flags"
    by (rule scan_parts_flags [OF p]) (simp add: sound_flags_def flag_names)
  then have start: "sound_book L \<lparr>bk_root = False, bk_sheets = [], bk_flags = flags\<rparr>"
    by (simp add: sound_book_def)
  have book: "sound_book L b"
    by (rule xml_invariant [OF bk, where I = "sound_book L"])
       (use start in \<open>auto intro: open_book_sound\<close>)
  have "sound_scan L categories (length (bk_sheets b)) s"
    by (rule scan_sheets_sound [OF s])
       (use book in \<open>simp_all add: sound_scan_def sound_findings_def sound_book_def\<close>)
  then show ?thesis
    using book b reported_flags_sound unfolding sound_result_def r
    by (auto simp: sound_scan_def sound_book_def Suc_le_eq intro!: exI [of _ "length (bk_sheets b)"])
qed

text \<open>
  C23. A scan that returns stays within the limits it was given: every finding names a sheet of the
  workbook, a row and a column within the limits and a category that was asked for, findings are
  numbered from zero in order and are no more than allowed, and so are cells and sheets. It
  reports only flags of the published list, each once.
\<close>

theorem scan_within_limits:
  assumes "scanWorkbook archive X R input categories region L = Inr r"
  shows "sound_result L categories r"
proof -
  obtain parts where "preflight archive L input = Inr parts" "scan_contents X R categories region L parts = Inr r"
    using assms by (auto simp: scanWorkbook_def wrapped_def scan_package_def result_bind_Inr_iff split: sum.splits)
  then show ?thesis by (intro scan_contents_sound)
qed

end
