(* ===== verification/RedactionSafety.thy ===== *)
theory RedactionSafety
  imports WorkbookSafety JsonRoundtrip PackageRoundtrip
begin

text \<open>
  What redaction promises: the workbook it returns reads back as the source with exactly the chosen
  cells overwritten, every finding of a chosen category is among them, and nothing of the
  overwritten texts reaches the output.
\<close>

section \<open>Texts of code units\<close>

text \<open>The parser hands over JavaScript strings, and the attributes of a tag have distinct names.\<close>

definition sound_tag :: "xml_tag \<Rightarrow> bool" where
  "sound_tag tag \<longleftrightarrow> distinct (map fst (xt_attributes tag)) \<and> code_units_text (xt_local tag)
     \<and> (\<forall>(k, a)\<in>set (xt_attributes tag). code_units_text k \<and> code_units_text (xa_value a))"

fun sound_event :: "xml_event \<Rightarrow> bool" where
  "sound_event (X_Open tag) = sound_tag tag"
| "sound_event (X_Text t) = code_units_text t"
| "sound_event _ = True"

definition sound_sax :: "'p sax \<Rightarrow> bool" where
  "sound_sax X \<longleftrightarrow> (\<forall>p s. list_all sound_event (snd (sx_write X p s))) \<and> (\<forall>p. list_all sound_event (sx_close X p))"

lemma feed_sound:
  assumes "sound_sax X"
  shows "list_all sound_event (feed X p started pending body)"
  using assms
proof (induction X p started pending body rule: feed.induct)
  case (1 X p started pending body)
  then show ?case
    by (subst feed.simps) (auto simp: sound_sax_def Let_def split: option.splits)
qed

lemma handle_events_invariant_on:
  assumes "\<And>tag s t. sound_tag tag \<Longrightarrow> I s \<Longrightarrow> op tag s = Inr t \<Longrightarrow> I t"
    and "\<And>chunk s t. code_units_text chunk \<Longrightarrow> I s \<Longrightarrow> tx chunk s = Inr t \<Longrightarrow> I t"
    and "\<And>tag s t. I s \<Longrightarrow> cl tag s = Inr t \<Longrightarrow> I t"
    and "handle_events L op tx cl es depth nodes s = Inr t" "I s" "list_all sound_event es"
  shows "I t"
  using assms(4-6)
proof (induction es arbitrary: depth nodes s)
  case (Cons e es)
  show ?case
  proof (cases e)
    case (X_Open tag)
    with Cons.prems obtain u where "op tag s = Inr u" "sound_tag tag"
      "handle_events L op tx cl es (depth + 1) (nodes + 1) u = Inr t"
      by (auto simp: result_bind_Inr_iff split: if_splits)
    then show ?thesis using Cons.IH [of "depth + 1" "nodes + 1" u] Cons.prems(2,3) assms(1) X_Open by auto
  next
    case (X_Text c)
    with Cons.prems obtain u where "tx c s = Inr u" "code_units_text c" "handle_events L op tx cl es depth nodes u = Inr t"
      by (auto simp: result_bind_Inr_iff)
    then show ?thesis using Cons.IH [of depth nodes u] Cons.prems(2,3) assms(2) X_Text by auto
  next
    case (X_Close tag)
    with Cons.prems obtain u where "cl tag s = Inr u" "handle_events L op tx cl es (depth - 1) nodes u = Inr t"
      by (auto simp: result_bind_Inr_iff)
    then show ?thesis using Cons.IH [of "depth - 1" nodes u] Cons.prems(2,3) assms(3) X_Close by auto
  qed (use Cons.prems in auto)
qed simp

definition sound_attrs :: "(js_string \<times> js_string) list \<Rightarrow> bool" where
  "sound_attrs as \<longleftrightarrow> distinct (map fst as) \<and> (\<forall>(k, v)\<in>set as. code_units_text k \<and> code_units_text v)"

primrec sound_element :: "element \<Rightarrow> bool" where
  "sound_element (Element n a t cs) \<longleftrightarrow> sound_attrs a \<and> code_units_text t \<and> list_all (\<lambda>b. b) (map sound_element cs)"

lemma sound_element_iff:
  "sound_element e \<longleftrightarrow> sound_attrs (el_attrs e) \<and> code_units_text (el_text e) \<and> (\<forall>c\<in>set (el_children e). sound_element c)"
  by (cases e) (auto simp: list_all_iff)

lemma sound_elementD:
  "sound_element e \<Longrightarrow> sound_attrs (el_attrs e)" "sound_element e \<Longrightarrow> code_units_text (el_text e)"
  "sound_element e \<Longrightarrow> c \<in> set (el_children e) \<Longrightarrow> sound_element c"
  using sound_element_iff [of e] by blast+

lemma units_append [simp]: "code_units_text (s @ t) \<longleftrightarrow> code_units_text s \<and> code_units_text t" "code_units_text []"
  by (simp_all add: code_units_text_def)

lemma units_sound [simp]: "code_units_text (units s)"
proof -
  have "(of_char c :: nat) < 65536" for c :: char
    using mod_less_divisor [of 256 "of_char c :: nat", unfolded of_char_mod_256] by linarith
  then show ?thesis by (simp add: code_units_text_def units_def list_all_iff)
qed

lemma keep_attributes_sound:
  "keep_attributes names as = Inr bs \<Longrightarrow>
     set (map fst bs) \<subseteq> set (map fst as) \<and> (\<forall>(k, v)\<in>set bs. \<exists>a. (k, a) \<in> set as \<and> v = xa_value a)
     \<and> (distinct (map fst as) \<longrightarrow> distinct (map fst bs))"
proof (induction as arbitrary: bs)
  case (Cons a as)
  obtain k v where a: "a = (k, v)" by fastforce
  show ?case
  proof (cases "namespace_attribute k (xa_value v)")
    case True
    then have "keep_attributes names as = Inr bs" using Cons.prems a by simp
    from Cons.IH [OF this] show ?thesis by (auto simp: a)
  next
    case False
    then obtain cs where c: "bs = (k, xa_value v) # cs" "keep_attributes names as = Inr cs"
      using Cons.prems a by (auto simp: result_bind_Inr_iff split: option.splits if_splits)
    show ?thesis using Cons.IH [OF c(2)] by (auto simp: a c(1))
  qed
qed simp

definition sound_tree :: "tree_state \<Rightarrow> bool" where
  "sound_tree s \<longleftrightarrow> list_all sound_element (tr_stack s) \<and> (\<forall>e. tr_root s = Some e \<longrightarrow> sound_element e)"

lemma add_child_sound: "sound_element e \<Longrightarrow> sound_element p \<Longrightarrow> sound_element (add_child e p)"
  by (cases p) simp

lemma collapse_sound:
  "list_all sound_element st \<Longrightarrow> (\<forall>e. r = Some e \<longrightarrow> sound_element e) \<Longrightarrow> collapse st r = Some e \<Longrightarrow> sound_element e"
  by (induction st r rule: collapse.induct) (auto simp: add_child_sound)

lemma tree_sound:
  assumes "sound_sax X" "tree X L body = Inr e"
  shows "sound_element e"
proof -
  obtain s where s: "xml X L open_element (text_element L) close_element body \<lparr>tr_stack = [], tr_root = None\<rparr> = Inr s"
    "collapse (tr_stack s) (tr_root s) = Some e"
    using assms(2) by (auto simp: tree_def result_bind_Inr_iff split: option.splits)
  have "sound_tree s"
  proof (rule handle_events_invariant_on [where I = sound_tree])
    show "handle_events L open_element (text_element L) close_element (feed X (sx_init X) False [] body) 0 0
        \<lparr>tr_stack = [], tr_root = None\<rparr> = Inr s"
      using s(1) by (simp add: xml_def)
    show "list_all sound_event (feed X (sx_init X) False [] body)" by (rule feed_sound [OF assms(1)])
    show "sound_tree t" if o: "sound_tag tag" "sound_tree s" "open_element tag s = Inr t" for tag s t
    proof -
      obtain as where as: "keep_attributes (map_option snd (rule_of (xt_local tag))) (xt_attributes tag) = Inr as"
        "t = s\<lparr>tr_stack := Element (xt_local tag) as [] [] # tr_stack s\<rparr>"
        using o(3) by (auto simp: open_element_def Let_def result_bind_Inr_iff split: if_splits)
      have "sound_attrs as" using keep_attributes_sound [OF as(1)] o(1)
        by (fastforce simp: sound_attrs_def sound_tag_def)
      then show ?thesis using o(2) as(2) by (simp add: sound_tree_def)
    qed
    show "sound_tree t" if "code_units_text c" "sound_tree s" "text_element L c s = Inr t" for c s t
    proof (cases "tr_stack s")
      case (Cons e rest)
      then obtain n a x cs where e: "e = Element n a x cs" by (cases e)
      show ?thesis using that Cons unfolding e by (auto simp: text_element_def sound_tree_def Let_def split: if_splits)
    qed (use that in \<open>auto simp: text_element_def split: if_splits\<close>)
    show "sound_tree t" if "sound_tree s" "close_element tag s = Inr t" for tag s t
      using that by (auto simp: close_element_def sound_tree_def add_child_sound split: list.splits)
  qed (simp add: sound_tree_def)
  then show ?thesis using collapse_sound s(2) by (auto simp: sound_tree_def)
qed

section \<open>Supported sheets are printable\<close>

definition sound_sheet :: "red_sheet \<Rightarrow> bool" where
  "sound_sheet s \<longleftrightarrow> code_units_text (rs_state s) \<and> list_all sound_attrs (rs_columns s)
     \<and> (\<forall>r\<in>set (rs_rows s). sound_attrs (rw_attrs r)
        \<and> (\<forall>c\<in>set (rw_cells r). code_units_text (rc_address c) \<and> code_units_text (rc_type c) \<and> code_units_text (rc_value c)))"

lemma traverse_set: "traverse f xs = Inr ys \<Longrightarrow> y \<in> set ys \<Longrightarrow> \<exists>x\<in>set xs. f x = Inr y"
  by (induction xs arbitrary: ys) (auto simp: result_bind_Inr_iff)

lemma one_member: "one e n = Inr (Some c) \<Longrightarrow> c \<in> set (el_children e)"
proof -
  assume "one e n = Inr (Some c)"
  then have "filter (\<lambda>c. el_name c = units n) (el_children e) = [c]"
    by (auto simp: one_def split: list.splits)
  then show "c \<in> set (el_children e)" by (metis filter_is_subset list.set_intros(1) subsetD)
qed

lemma sound_child: "sound_element e \<Longrightarrow> one e n = Inr (Some c) \<Longrightarrow> sound_element c"
  using one_member sound_element_iff by blast

lemma attribute_sound: "sound_attrs as \<Longrightarrow> attribute as n = Some v \<Longrightarrow> code_units_text v"
  unfolding attribute_def sound_attrs_def by (metis (no_types, lifting) case_prodD map_of_SomeD)

lemma cell_value_sound:
  assumes "sound_element cell" "list_all code_units_text strings" "cell_value strings cell t = Inr v"
  shows "code_units_text v"
proof -
  have tx: "code_units_text (el_text e)" if "sound_element e" for e
    using that sound_element_iff by blast
  have member: "code_units_text (strings ! nat n)" if "n < int (length strings)" "0 \<le> n" for n
    using assms(2) that by (simp add: list_all_length)
  have nonneg: "0 \<le> digits_number s" if "list_all is_digit s" for s
  proof -
    have "0 \<le> foldl (\<lambda>n d. 10 * n + (int d - 48)) n s" if "0 \<le> n" for n
      using that \<open>list_all is_digit s\<close> by (induction s arbitrary: n) (auto simp: is_digit_def)
    then show ?thesis by (simp add: digits_number_def)
  qed
  have grand: "code_units_text (el_text e)"
    if "one cell n = Inr (Some c)" "one c k = Inr (Some e)" for c e n k
    using tx sound_child [OF sound_child [OF assms(1) that(1)] that(2)] .
  show ?thesis
  proof (cases "t = units ''inlineStr''")
    case True
    then show ?thesis using assms(3) grand unfolding cell_value_def
      by (auto simp: result_bind_Inr_iff split: if_splits option.splits)
  next
    case False
    obtain w where w: "one cell ''v'' = Inr w" "v = (case w of None \<Rightarrow> [] | Some e \<Rightarrow> el_text e)
        \<or> v \<in> set strings"
      using assms(3) False nonneg unfolding cell_value_def
      by (auto simp: result_bind_Inr_iff Let_def split: if_splits) (metis nat_less_iff nth_mem not_le)+
    show ?thesis using w tx sound_child [OF assms(1)] assms(2)
      by (auto simp: list_all_iff split: option.splits)
  qed
qed

lemma read_cell_sound:
  assumes "sound_element cell" "list_all code_units_text strings" "read_cell strings cell = Inr c"
  shows "code_units_text (rc_address c) \<and> code_units_text (rc_type c) \<and> code_units_text (rc_value c)"
proof -
  have a: "sound_attrs (el_attrs cell)" using assms(1) sound_element_iff by blast
  obtain address t v where c: "attribute (el_attrs cell) ''r'' = Some address"
    "t = (case attribute (el_attrs cell) ''t'' of None \<Rightarrow> units ''n'' | Some v \<Rightarrow> v)"
    "cell_value strings cell t = Inr v" "rc_address c = address" "rc_value c = v"
    "rc_type c = (if t \<in> {units ''s'', units ''str''} then units ''inlineStr'' else t)"
    using assms(3) by (auto simp: read_cell_def Let_def result_bind_Inr_iff split: option.splits if_splits)
  have "code_units_text t" using attribute_sound [OF a] c(2) by (cases "attribute (el_attrs cell) ''t''") auto
  then show ?thesis using attribute_sound [OF a c(1)] cell_value_sound [OF assms(1,2) c(3)] c by simp
qed

lemma sound_attrs_filter: "sound_attrs as \<Longrightarrow> sound_attrs (filter f as)"
  unfolding sound_attrs_def by (auto simp: distinct_map_filter)

lemma read_sheet_sound:
  assumes "sound_sax X" "sound_element sheet" "list_all code_units_text strings"
    "read_sheet X L parts links strings sheet = Inr s"
  shows "sound_sheet s"
proof -
  obtain body root d rows cols where r: "tree X L body = Inr root" "one root ''sheetData'' = Inr (Some d)"
    "traverse (read_row strings) (el_children d) = Inr rows" "one root ''cols'' = Inr cols"
    "s = \<lparr>rs_state = sheet_visibility sheet, rs_rows = rows, rs_columns = column_attrs cols\<rparr>"
    using assms(4) by (auto simp: read_sheet_def Let_def result_bind_Inr_iff split: option.splits if_splits)
  have root: "sound_element root" by (rule tree_sound [OF assms(1) r(1)])
  then have d: "sound_element d" using r(2) sound_child by blast
  have "code_units_text (rs_state s)"
    using attribute_sound [of "el_attrs sheet"] assms(2) sound_element_iff [of sheet]
    by (auto simp: r(5) sheet_visibility_def split: option.splits)
  moreover have "list_all sound_attrs (rs_columns s)"
  proof (cases cols)
    case (Some c)
    then have "sound_element c" using root r(4) sound_child by blast
    then have "\<forall>x\<in>set (el_children c). sound_attrs (el_attrs x)" using sound_elementD by blast
    then show ?thesis using Some by (simp add: r(5) column_attrs_def list_all_iff)
  qed (simp add: r(5) column_attrs_def)
  moreover have "sound_attrs (rw_attrs q) \<and> (\<forall>c\<in>set (rw_cells q). code_units_text (rc_address c)
      \<and> code_units_text (rc_type c) \<and> code_units_text (rc_value c))" if q: "q \<in> set rows" for q
  proof -
    obtain e where e: "e \<in> set (el_children d)" "read_row strings e = Inr q"
      using traverse_set [OF r(3) q] by blast
    have se: "sound_element e" using d e(1) sound_element_iff by blast
    obtain cells where c: "traverse (read_cell strings) (el_children e) = Inr cells"
      "rw_attrs q = filter (\<lambda>(k, _). k \<noteq> units ''spans'') (el_attrs e)" "rw_cells q = cells"
      using e(2) by (auto simp: read_row_def result_bind_Inr_iff)
    have "code_units_text (rc_address c) \<and> code_units_text (rc_type c) \<and> code_units_text (rc_value c)"
      if "c \<in> set cells" for c
      using traverse_set [OF c(1) that] read_cell_sound [OF _ assms(3)] se sound_element_iff by blast
    then show ?thesis using c se by (auto simp: sound_attrs_filter sound_elementD)
  qed
  ultimately show ?thesis by (simp add: sound_sheet_def r(5))
qed

lemma supported_sound:
  assumes "sound_sax X" "supported archive X input L = Inr sheets" "s \<in> set sheets"
  shows "sound_sheet s"
proof -
  obtain parts body book links strings inventory where r: "tree X L body = Inr book"
    "shared_texts X L parts = Inr strings"
    "one book ''sheets'' = Inr (Some inventory)"
    "traverse (read_sheet X L parts links strings) (el_children inventory) = Inr sheets"
    using assms(2) by (auto simp: supported_def supported_contents_def result_bind_Inr_iff split: option.splits if_splits)
  have book: "sound_element book" by (rule tree_sound [OF assms(1) r(1)])
  then have inv: "sound_element inventory" using r(3) sound_child by blast
  have strings: "list_all code_units_text strings"
  proof (cases "map_of parts (units ''xl/sharedstrings.xml'')")
    case (Some b)
    then obtain root where root: "tree X L b = Inr root" "traverse shared_string (el_children root) = Inr strings"
      using r(2) by (auto simp: shared_texts_def result_bind_Inr_iff)
    have sr: "sound_element root" by (rule tree_sound [OF assms(1) root(1)])
    have "code_units_text y" if y: "y \<in> set strings" for y
    proof -
      obtain si where si: "si \<in> set (el_children root)" "shared_string si = Inr y"
        using traverse_set [OF root(2) y] by blast
      then obtain t where t: "one si ''t'' = Inr (Some t)" "y = el_text t"
        by (auto simp: shared_string_def result_bind_Inr_iff split: option.splits if_splits)
      have "sound_element si" using sr si(1) sound_element_iff by blast
      then show ?thesis using sound_child t sound_element_iff by blast
    qed
    then show ?thesis by (simp add: list_all_iff)
  qed (use r(2) in \<open>auto simp: shared_texts_def\<close>)
  obtain e where "e \<in> set (el_children inventory)" "read_sheet X L parts links strings e = Inr s"
    using traverse_set [OF r(4) assms(3)] by blast
  then show ?thesis using read_sheet_sound [OF assms(1) _ strings] inv sound_element_iff by blast
qed

lemma normal_decimal: "\<exists>m e. decimal n k = JNumber m e \<and> (m = 0 \<and> e = 0 \<or> m mod 10 \<noteq> 0)"
  by (induction n k rule: decimal.induct) (subst decimal.simps, auto)

lemma printable_int [simp]: "printable (decimal n 0)"
  using normal_decimal [of n 0] by (auto simp: normal_number_def)

lemma printable_attrs: "sound_attrs as \<Longrightarrow> printable (attrs_json as)"
  by (auto simp: sound_attrs_def attrs_json_def comp_def case_prod_unfold)

lemma units_inj: "units s = units t \<Longrightarrow> s = t"
  unfolding units_def by (metis inj_map_eq_map inj_of_char)

lemma printable_sheets:
  assumes "\<forall>s\<in>set sheets. sound_sheet s"
  shows "printable (JArray (map sheet_json sheets))"
proof -
  have c: "printable (cell_json c)" if "code_units_text (rc_address c)" "code_units_text (rc_type c)"
    "code_units_text (rc_value c)" for c
    using that by (auto simp: cell_json_def dest: units_inj)
  have r: "printable (row_json r)" if "sound_attrs (rw_attrs r)"
    "\<forall>c\<in>set (rw_cells r). code_units_text (rc_address c) \<and> code_units_text (rc_type c) \<and> code_units_text (rc_value c)" for r
    using that printable_attrs c by (auto simp: row_json_def dest: units_inj)
  have "printable (sheet_json s)" if "sound_sheet s" for s
    using that printable_attrs r by (auto simp: sheet_json_def sound_sheet_def list_all_iff dest: units_inj)
  then show ?thesis using assms by auto
qed

text \<open>The JSON text of sheets determines them.\<close>

lemma decimal_inj: "decimal m 0 = decimal n 0 \<Longrightarrow> m = n"
proof -
  have v: "decimal n k = JNumber a b \<Longrightarrow> k \<le> b \<and> n = a * 10 ^ nat (b - k) \<or> n = 0 \<and> a = 0" for n k a b
  proof (induction n k rule: decimal.induct)
    case (1 n k)
    show ?case
    proof (cases "n \<noteq> 0 \<and> n mod 10 = 0")
      case True
      then have "decimal (n div 10) (k + 1) = JNumber a b" using "1.prems" by (subst (asm) decimal.simps) simp
      then have i: "k + 1 \<le> b \<and> n div 10 = a * 10 ^ nat (b - (k + 1)) \<or> n div 10 = 0 \<and> a = 0"
        using "1.IH" True by blast
      have "n = 10 * (n div 10)" "n div 10 \<noteq> 0" using True by auto
      moreover have "(10::int) ^ nat (b - k) = 10 * 10 ^ nat (b - (k + 1))" if "k + 1 \<le> b"
        using that by (simp flip: power_Suc add: Suc_nat_eq_nat_zadd1)
      ultimately show ?thesis using i by auto
    next
      case False
      then show ?thesis using "1.prems" by (subst (asm) decimal.simps) (auto split: if_splits)
    qed
  qed
  assume e: "decimal m 0 = decimal n 0"
  obtain a b where ab: "decimal m 0 = JNumber a b" using normal_decimal [of m 0] by blast
  show "m = n" using v [OF ab] v [OF ab [unfolded e]] by auto
qed

lemma sheets_json_inj:
  assumes "sheets_json xs = sheets_json ys" "\<forall>s\<in>set xs. sound_sheet s" "\<forall>s\<in>set ys. sound_sheet s"
  shows "xs = ys"
proof -
  have "map sheet_json xs = map sheet_json ys"
    using json_stringify_inj [OF assms(1) [unfolded sheets_json_def]] printable_sheets assms(2,3) by blast
  moreover have attrs: "attrs_json a = attrs_json b \<Longrightarrow> a = b" for a b
    by (auto simp: attrs_json_def inj_on_def intro: map_injective elim!: inj_map_eq_map [THEN iffD1, rotated])
  moreover have cell: "cell_json a = cell_json b \<Longrightarrow> a = b" for a b :: red_cell
    by (cases a; cases b) (auto simp: cell_json_def dest: decimal_inj)
  moreover have row: "row_json a = row_json b \<Longrightarrow> a = b" for a b :: red_row
    by (cases a; cases b) (auto simp: row_json_def dest: attrs map_injective intro: injI cell)
  moreover have "sheet_json a = sheet_json b \<Longrightarrow> a = b" for a b :: red_sheet
    by (cases a; cases b) (auto simp: sheet_json_def dest!: map_injective intro!: injI attrs row)
  ultimately show ?thesis by (metis injI map_injective)
qed

section \<open>The cells chosen\<close>

text \<open>The cells a request asks for: the findings of its categories and the cells of its columns.\<close>

definition requested :: "sanitize_options \<Rightarrow> scan_result \<Rightarrow> red_sheet list \<Rightarrow> position3 set" where
  "requested options scan sheets =
     finding_position ` {f \<in> set (sr_findings scan). fv_category f \<in> set (so_selectedCategories options)}
     \<union> (\<Union>k\<in>set (so_selectedColumns options). set (column_positions k (sheets ! nat (k_sheetIndex k))))"

lemma fold_insert_once: "set (fold insert_once xs ys) = set xs \<union> set ys"
  by (induction xs arbitrary: ys) (auto simp: insert_once_def)

lemma select_columns_set:
  "select_columns sheets ks chosen = Inr chosen' \<Longrightarrow>
     set chosen' = set chosen \<union> (\<Union>k\<in>set ks. set (column_positions k (sheets ! nat (k_sheetIndex k))))"
proof (induction sheets ks chosen rule: select_columns.induct)
  case (2 sheets k ks chosen)
  then show ?case by (auto simp: Let_def fold_insert_once split: if_splits)
qed simp

lemma redact_cell_cong: "set p = set q \<Longrightarrow> redact_cell p = redact_cell q"
  by (simp add: redact_cell_def fun_eq_iff)

lemma redact_sheets_cong: "set p = set q \<Longrightarrow> redact_sheets p sheets = redact_sheets q sheets"
  by (simp add: redact_sheets_def redact_sheet_def redact_cell_cong [of p q])

lemma redact_sheets_sound:
  assumes "\<forall>s\<in>set sheets. sound_sheet s"
  shows "\<forall>s\<in>set (redact_sheets chosen sheets). sound_sheet s"
proof
  fix s assume "s \<in> set (redact_sheets chosen sheets)"
  then obtain i u where u: "u \<in> set sheets" "s = redact_sheet chosen (int i) u"
    by (force simp: redact_sheets_def in_set_enumerate_eq)
  then have "sound_sheet u" using assms by blast
  then show "sound_sheet s"
    by (auto simp: u(2) redact_sheet_def sound_sheet_def redact_cell_def REDACTION_MARKER_def)
qed

text \<open>The steps of a redaction that returns.\<close>

lemma sanitizeWorkbook_steps:
  assumes "sanitizeWorkbook T input options L = Inr r"
  obtains scan sheets chosen reopened where
    "scanWorkbook (gt_archive T) (gt_sax T) (gt_recognisers T) input (so_categories options)
       (region_units (so_phoneRegion options)) L = Inr scan"
    "gt_textDigest T (views_json (sr_findings scan)) = so_findingsDigest options"
    "supported (gt_archive T) (gt_sax T) input L = Inr sheets"
    "set chosen = requested options scan sheets" "chosen \<noteq> []"
    "redacted_count chosen sheets = length chosen"
    "generate (redact_sheets chosen sheets) L = Inr (sz_bytes r)"
    "supported (gt_archive T) (gt_sax T) (sz_bytes r) L = Inr reopened"
    "sheets_json reopened = sheets_json (redact_sheets chosen sheets)"
    "sz_redactedCells r = int (length chosen)" "sz_outputDigest r = gt_digest T (sz_bytes r)"
proof -
  obtain scan sheets chosen written reopened where s:
    "scanWorkbook (gt_archive T) (gt_sax T) (gt_recognisers T) input (so_categories options)
       (region_units (so_phoneRegion options)) L = Inr scan"
    "gt_textDigest T (views_json (sr_findings scan)) = so_findingsDigest options"
    "supported (gt_archive T) (gt_sax T) input L = Inr sheets"
    "select_columns sheets (so_selectedColumns options)
        (fold insert_once (map finding_position
           (filter (\<lambda>f. fv_category f \<in> set (so_selectedCategories options)) (sr_findings scan))) []) = Inr chosen"
    "chosen \<noteq> []" "redacted_count chosen sheets = length chosen"
    "generate (redact_sheets chosen sheets) L = Inr written"
    "supported (gt_archive T) (gt_sax T) written L = Inr reopened"
    "sheets_json reopened = sheets_json (redact_sheets chosen sheets)"
    "sz_bytes r = written" "sz_redactedCells r = int (redacted_count chosen sheets)"
    "sz_outputDigest r = gt_digest T written"
    using assms by (auto simp: sanitizeWorkbook_def wrapped_def sanitize_def Let_def result_bind_Inr_iff
        split: sum.splits if_splits)
  have "set chosen = requested options scan sheets"
    using select_columns_set [OF s(4)] by (simp add: fold_insert_once requested_def)
  then show thesis using that s by simp
qed


section \<open>Nothing leaks\<close>

text \<open>Two workbooks that differ at most in the type and the text of certain cells.\<close>

definition same_cell :: "position3 set \<Rightarrow> int \<Rightarrow> red_cell \<Rightarrow> red_cell \<Rightarrow> bool" where
  "same_cell hidden i a b \<longleftrightarrow> rc_address a = rc_address b \<and> rc_row a = rc_row b \<and> rc_column a = rc_column b
     \<and> ((i, rc_row a, rc_column a) \<in> hidden \<or> rc_type a = rc_type b \<and> rc_value a = rc_value b)"

definition same_sheet :: "position3 set \<Rightarrow> int \<Rightarrow> red_sheet \<Rightarrow> red_sheet \<Rightarrow> bool" where
  "same_sheet hidden i s t \<longleftrightarrow> rs_state s = rs_state t \<and> rs_columns s = rs_columns t
     \<and> list_all2 (\<lambda>p q. rw_attrs p = rw_attrs q \<and> list_all2 (same_cell hidden i) (rw_cells p) (rw_cells q))
         (rs_rows s) (rs_rows t)"

definition same_outside :: "position3 set \<Rightarrow> red_sheet list \<Rightarrow> red_sheet list \<Rightarrow> bool" where
  "same_outside hidden xs ys \<longleftrightarrow>
     length xs = length ys \<and> (\<forall>i < length xs. same_sheet hidden (int i) (xs ! i) (ys ! i))"

lemma redact_cell_same: "same_cell (set chosen) i a b \<Longrightarrow> redact_cell chosen i a = redact_cell chosen i b"
  by (cases a; cases b) (auto simp: same_cell_def redact_cell_def)

lemma redact_sheet_same:
  assumes "same_sheet (set chosen) i s t"
  shows "redact_sheet chosen i s = redact_sheet chosen i t"
proof -
  have cells: "map (redact_cell chosen i) xs = map (redact_cell chosen i) ys"
    if "list_all2 (same_cell (set chosen) i) xs ys" for xs ys
    using that by (induction rule: list_all2_induct) (auto simp: redact_cell_same)
  have "map (\<lambda>r. r\<lparr>rw_cells := map (redact_cell chosen i) (rw_cells r)\<rparr>) ps =
      map (\<lambda>r. r\<lparr>rw_cells := map (redact_cell chosen i) (rw_cells r)\<rparr>) qs"
    if "list_all2 (\<lambda>p q. rw_attrs p = rw_attrs q \<and> list_all2 (same_cell (set chosen) i) (rw_cells p) (rw_cells q)) ps qs"
    for ps qs :: "red_row list"
    using that by (induction rule: list_all2_induct) (auto simp: cells intro!: red_row.equality)
  then show ?thesis using assms by (cases s; cases t) (auto simp: same_sheet_def redact_sheet_def)
qed

lemma redact_sheets_same: "same_outside (set chosen) xs ys \<Longrightarrow> redact_sheets chosen xs = redact_sheets chosen ys"
  by (auto simp: same_outside_def redact_sheets_def redact_sheet_same intro!: nth_equalityI simp: nth_enumerate_eq)

text \<open>
  C14. The redacted cells leave no trace: two workbooks that differ only in what stands in the
  requested cells yield the same bytes, whatever the packages, comments, metadata or formatting of
  the originals were.
\<close>

theorem redaction_reveals_nothing:
  assumes "sanitizeWorkbook T input options L = Inr r" "sanitizeWorkbook T input' options' L = Inr r'"
    and "scanWorkbook (gt_archive T) (gt_sax T) (gt_recognisers T) input (so_categories options)
      (region_units (so_phoneRegion options)) L = Inr scan"
    and "scanWorkbook (gt_archive T) (gt_sax T) (gt_recognisers T) input' (so_categories options')
      (region_units (so_phoneRegion options')) L = Inr scan'"
    and "supported (gt_archive T) (gt_sax T) input L = Inr sheets"
    and "supported (gt_archive T) (gt_sax T) input' L = Inr sheets'"
    and "requested options scan sheets = requested options' scan' sheets'"
    and "same_outside (requested options scan sheets) sheets sheets'"
  shows "sz_bytes r = sz_bytes r'"
proof -
  obtain chosen where c: "set chosen = requested options scan sheets"
    "generate (redact_sheets chosen sheets) L = Inr (sz_bytes r)"
    using sanitizeWorkbook_steps [OF assms(1)] assms(3,5) by (metis sum.inject(2))
  obtain chosen' where c': "set chosen' = requested options' scan' sheets'"
    "generate (redact_sheets chosen' sheets') L = Inr (sz_bytes r')"
    using sanitizeWorkbook_steps [OF assms(2)] assms(4,6) by (metis sum.inject(2))
  have "redact_sheets chosen sheets = redact_sheets chosen' sheets'"
    using redact_sheets_same [of chosen sheets sheets'] redact_sheets_cong [of chosen chosen' sheets']
      c(1) c'(1) assms(7,8) by simp
  then show ?thesis using c(2) c'(2) by simp
qed

section \<open>The output is a package\<close>

text \<open>
  C39. A redacted copy is a workbook the upload accepts: it passes the structural check of stored
  files, for archives below 16 MB of up to 16,000 sheets (the limits are 10 MB and 20).
\<close>

theorem redacted_copy_uploads:
  assumes "sanitizeWorkbook T input options L = Inr r" and "lim_compressedBytes L < 16777216"
    and "supported (gt_archive T) (gt_sax T) input L = Inr sheets" "length sheets \<le> 16000"
  shows "validateXlsx (sz_bytes r) = Inr ()"
proof -
  obtain chosen where g: "generate (redact_sheets chosen sheets) L = Inr (sz_bytes r)"
    using sanitizeWorkbook_steps [OF assms(1)] assms(3) by (metis sum.inject(2))
  have l: "length (package_parts (redact_sheets chosen sheets)) = 4 + length sheets"
    by (simp add: package_parts_def redact_sheets_def)
  show ?thesis
    by (rule validates_written [OF g [unfolded generate_def] assms(2)])
       (use l assms(4) in \<open>simp_all add: package_parts_def\<close>)
qed

end
