(* ===== verification/GuardBoundary.thy ===== *)
theory GuardBoundary
  imports RedactionSafety
begin

text \<open>
  The process boundary is transparent: what the runner hands to its caller is what scanning the
  workbook in place would have given, result or error, because requests and results survive printing,
  encoding, decoding, parsing and all the checks on both sides.
\<close>

section \<open>Plain texts\<close>

definition plain :: "nat list \<Rightarrow> bool" where
  "plain s \<longleftrightarrow> (\<forall>c\<in>set s. 32 \<le> c \<and> c < 128)"

lemma plain_simps [simp]:
  "plain []" "plain (c # s) \<longleftrightarrow> 32 \<le> c \<and> c < 128 \<and> plain s" "plain (s @ t) \<longleftrightarrow> plain s \<and> plain t"
  by (auto simp: plain_def)

lemma utf8_bytes_ascii: "\<forall>c\<in>set s. c < 128 \<Longrightarrow> utf8_bytes s = s"
  by (induction s) (auto simp: utf8_encode1_def)

lemma utf8_bytes_plain: "plain s \<Longrightarrow> utf8_bytes s = s"
  by (rule utf8_bytes_ascii) (simp add: plain_def)

lemma utf8_text_plain: "plain s \<Longrightarrow> utf8_text s = s"
proof (induction s)
  case (Cons c s)
  have "leading_character (c # s) = Some (c, 1)" using Cons.prems by (simp add: leading_character_def)
  then show ?case using Cons by (subst utf8_text.simps) simp
qed (simp add: utf8_text.simps)

lemma to_text_plain: "plain s \<Longrightarrow> to_text s = s"
  unfolding to_text_def by (subst utf8_text_plain, assumption, rule code_units_bmp) (auto simp: plain_def list_all_iff)

lemma hex_units_plain: "plain (hex_units c)"
proof -
  have d: "32 \<le> (of_char (hex_digit n) :: nat) \<and> (of_char (hex_digit n) :: nat) < 128" if "n < 16" for n
    using that by (auto simp: hex_digit_def)
  have "\<forall>c\<in>set (hex_digits k n). \<exists>m<16. c = hex_digit m" for k n
  proof (induction k arbitrary: n)
    case (Suc k)
    have "\<exists>m<16. hex_digit (n mod 16) = hex_digit m" by (intro exI [of _ "n mod 16"]) simp
    then show ?case using Suc.IH [of "n div 16"] by simp
  qed simp
  then show ?thesis using d unfolding hex_units_def units_def plain_def by fastforce
qed

lemma escape_plain: "\<forall>c\<in>set s. c < 128 \<Longrightarrow> plain (escape s)"
proof (induction s rule: escape.induct)
  case (2 c s)
  show ?case using 2 hex_units_plain [of c] by (auto simp: surrogate_def)
qed simp

lemma nat_units_plain: "plain (nat_units n)"
  using show_nat_digit_codes [of n] by (auto simp: plain_def list_all_iff digit_def)

lemma plain_sub: "plain s \<Longrightarrow> set t \<subseteq> set s \<Longrightarrow> plain t"
  by (auto simp: plain_def)

lemma number_text_plain: "plain (number_text m e)"
proof -
  have t: "plain (take n ds)" "plain (drop n ds)" if "plain ds" for n and ds :: "nat list"
    using that set_take_subset set_drop_subset by (metis plain_sub)+
  have r: "plain (replicate n 48)" for n by (auto simp: plain_def)
  show ?thesis unfolding number_text_def Let_def using t [OF nat_units_plain] r nat_units_plain by simp
qed

lemma comma_separated_plain: "\<forall>t\<in>set ts. plain t \<Longrightarrow> plain (comma_separated ts)"
  by (induction ts rule: comma_separated.induct) auto

definition plain_json :: "json \<Rightarrow> bool" where
  "plain_json v \<longleftrightarrow> plain (json_stringify v)"

lemma units_ascii: "\<forall>c\<in>set s. (of_char c :: nat) < 128 \<Longrightarrow> \<forall>c\<in>set (units s). c < 128"
  by (auto simp: units_def)

lemma quote_plain: "\<forall>c\<in>set s. c < 128 \<Longrightarrow> plain (quote s)"
  by (simp add: quote_def escape_plain)

lemma plain_json_simps:
  "plain_json (JBool b)" "plain_json (JNumber m e)" "\<forall>c\<in>set s. c < 128 \<Longrightarrow> plain_json (JString s)"
  by (auto simp: plain_json_def units_def number_text_plain quote_plain)

lemma plain_array: "\<forall>v\<in>set vs. plain_json v \<Longrightarrow> plain_json (JArray vs)"
  using comma_separated_plain [of "map json_stringify vs"] by (simp add: plain_json_def)

lemma plain_object:
  assumes "\<And>k v. (k, v) \<in> set fs \<Longrightarrow> (\<forall>c\<in>set k. c < 128) \<and> plain_json v"
  shows "plain_json (JObject fs)"
proof -
  have "plain (quote (fst kv) @ 58 # json_stringify (snd kv))" if "kv \<in> set fs" for kv
    using assms [of "fst kv" "snd kv"] that quote_plain [of "fst kv"] by (simp add: plain_json_def)
  then have "\<forall>t\<in>set (map (\<lambda>kv. quote (fst kv) @ 58 # json_stringify (snd kv)) fs). plain t" by auto
  from comma_separated_plain [OF this] show ?thesis by (simp add: plain_json_def)
qed

lemma plain_json_int: "plain_json (json_int n)"
  using normal_decimal [of n 0] by (auto simp: json_int_def plain_json_simps)

text \<open>What is printed on one side is read on the other.\<close>

lemma transported:
  assumes "printable v" "plain_json v"
  shows "json_parse (to_text (utf8_bytes (json_stringify v))) = Some v"
  using assms by (simp add: plain_json_def utf8_bytes_plain to_text_plain json_roundtrip)

section \<open>Fields\<close>

lemma units_eq [simp]: "units s = units t \<longleftrightarrow> s = t"
  using units_inj by blast

lemma integer_of_decimal: "0 \<le> e \<Longrightarrow> integer_of (decimal m e) = Some (m * 10 ^ nat e)"
proof (induction m e rule: decimal.induct)
  case (1 m e)
  show ?case
  proof (cases "m \<noteq> 0 \<and> m mod 10 = 0")
    case True
    then obtain n where n: "m = 10 * n" by auto
    have "nat (e + 1) = Suc (nat e)" using 1(2) by simp
    then show ?thesis using 1 True by (subst decimal.simps) (simp add: n)
  qed (use 1(2) in \<open>subst decimal.simps, auto\<close>)
qed

lemma integer_of_int [simp]: "integer_of (json_int n) = Some n"
  by (simp add: json_int_def integer_of_decimal)

lemma text_of_text [simp]: "text_of (Some (json_text s)) = Some s"
proof -
  have "list_all (\<lambda>c. c < 256) (units s)" using nat_of_char_less_256 by (auto simp: units_def list_all_iff)
  moreover have "map char_of (units s) = s" by (simp add: units_def comp_def)
  ultimately show ?thesis by (simp add: text_of_def json_text_def)
qed

lemma category_of_text [simp]: "category_of (json_text (category_text c)) = Some c"
  by (cases c) (simp_all add: category_of_def json_text_def CATEGORIES_def)

lemma evidence_of_text [simp]: "evidence_of (Some (json_text (evidence_text e))) = Some e"
  by (cases e) (simp_all add: evidence_of_def)

lemma collect_map: "\<forall>x\<in>set xs. f (g x) = Some x \<Longrightarrow> collect f (map g xs) = Some xs"
  by (induction xs) auto

lemma collect_enumerate:
  "\<forall>i<length xs. f (n + i, g (xs ! i)) = Some (xs ! i) \<Longrightarrow> collect f (enumerate n (map g xs)) = Some xs"
proof (induction xs arbitrary: n)
  case (Cons x xs)
  have "f (n, g x) = Some x" using Cons.prems [rule_format, of 0] by simp
  moreover have "collect f (enumerate (Suc n) (map g xs)) = Some xs"
    by (rule Cons.IH) (use Cons.prems [rule_format, of "Suc _"] in simp)
  ultimately show ?case by simp
qed simp

lemma categories_of_json [simp]: "categories_of (Some (categories_json cs)) = Some cs"
  unfolding categories_of_def elements_of_def categories_json_def by (simp add: collect_map)

section \<open>The request\<close>

definition valid_limits :: "guard_limits \<Rightarrow> bool" where
  "valid_limits L \<longleftrightarrow> list_all2 (\<lambda>(_, n) (_, most). 1 \<le> n \<and> n \<le> most) (limit_fields L) (limit_fields DEFAULT_LIMITS)"

definition ascii_text :: "string option \<Rightarrow> bool" where
  "ascii_text r \<longleftrightarrow> (\<forall>c\<in>set (case r of Some t \<Rightarrow> t | None \<Rightarrow> []). (of_char c :: nat) < 128)"

lemma limits_of_json:
  assumes "valid_limits L"
  shows "limits_of (JObject (map (\<lambda>(k, n). (units k, json_int (int n))) (limit_fields L))) = Inr L"
  using assms
  by (simp add: limits_of_def limit_of_def int_field_def limit_fields_def valid_limits_def)

lemma request_fields:
  "field ''categories'' (request_json categories region L None) = Some (categories_json categories)"
  "field ''limits'' (request_json categories region L None)
     = Some (JObject (map (\<lambda>(k, n). (units k, json_int (int n))) (limit_fields L)))"
  "field ''sanitization'' (request_json categories region L None) = None"
  "text_of (field ''phoneRegion'' (request_json categories region L None)) = region"
proof -
  have "text_of None = None" by (simp add: text_of_def)
  then show "text_of (field ''phoneRegion'' (request_json categories region L None)) = region"
    by (cases region) (simp_all add: request_json_def region_json_def)
qed (cases region; simp add: request_json_def region_json_def)+

lemma printable_json_text [simp]: "printable (json_text s)"
  by (simp add: json_text_def)

lemma printable_json_int [simp]: "printable (json_int n)"
  by (simp add: json_int_def)

lemma plain_json_text: "\<forall>c\<in>set s. (of_char c :: nat) < 128 \<Longrightarrow> plain_json (json_text s)"
  by (simp add: json_text_def plain_json_simps units_ascii)

lemma plain_names [simp]:
  "plain_json (json_text (category_text c))" "plain_json (json_text (evidence_text e))"
  by (rule plain_json_text; cases c; simp; fail)+
     (rule plain_json_text; cases e; simp)+

lemma request_transported:
  assumes "ascii_text region"
  shows "printable (request_json categories region L None)" "plain_json (request_json categories region L None)"
proof -
  have limits: "printable (JObject (map (\<lambda>(k, n). (units k, json_int (int n))) (limit_fields L)))"
    by (simp add: limit_fields_def)
  have limits': "plain_json (JObject (map (\<lambda>(k, n). (units k, json_int (int n))) (limit_fields L)))"
    by (rule plain_object) (auto simp: limit_fields_def plain_json_int units_def)
  have cats: "printable (categories_json categories)" "plain_json (categories_json categories)"
    by (auto simp: categories_json_def intro!: plain_array)
  have reg: "plain_json (json_text t)" if "region = Some t" for t
    using assms that by (simp add: ascii_text_def plain_json_text)
  show "printable (request_json categories region L None)"
    using limits cats by (simp add: request_json_def region_json_def split: option.splits)
  show "plain_json (request_json categories region L None)"
    unfolding request_json_def
    by (rule plain_object) (use limits' cats reg in \<open>auto simp: region_json_def units_def split: option.splits\<close>)
qed

section \<open>The result\<close>

definition view_object :: "finding_view \<Rightarrow> json" where
  "view_object f = JObject
     [(units ''ordinal'', json_int (fv_ordinal f)), (units ''sheetIndex'', json_int (fv_sheetIndex f)),
      (units ''row'', json_int (fv_row f)), (units ''column'', json_int (fv_column f)),
      (units ''category'', json_text (category_text (fv_category f))),
      (units ''evidence'', json_text (evidence_text (fv_evidence f))), (units ''hidden'', JBool (fv_hidden f))]"

lemma result_json_findings: "result_json r = JObject
     [(units ''findings'', JArray (map view_object (sr_findings r))),
      (units ''processedCells'', json_int (sr_processedCells r)), (units ''sheets'', json_int (sr_sheets r)),
      (units ''compatibilityFlags'', JArray (map json_text (sr_compatibilityFlags r))),
      (units ''coverage'', json_text (coverage_text (sr_coverage r)))]"
  unfolding result_json_def view_object_def ..

lemma finding_transported: "printable (view_object f)" "plain_json (view_object f)"
proof -
  show "printable (view_object f)" by (simp add: view_object_def)
  show "plain_json (view_object f)" unfolding view_object_def
    by (rule plain_object) (auto simp: plain_json_int plain_json_simps units_def)
qed

lemma flag_ascii: "t \<in> set COMPATIBILITY_FLAGS \<Longrightarrow> plain_json (json_text t)"
  by (rule plain_json_text) (auto simp: COMPATIBILITY_FLAGS_def)

lemma coverage_plain: "plain_json (json_text (coverage_text c))"
  by (rule plain_json_text) (cases c; simp add: coverage_text_def)

lemma result_transported:
  assumes "sound_result L categories r"
  shows "printable (JObject [(units ''result'', result_json r)])" "plain_json (JObject [(units ''result'', result_json r)])"
proof -
  have flags: "set (sr_compatibilityFlags r) \<subseteq> set COMPATIBILITY_FLAGS"
    using assms by (simp add: sound_result_def sound_flags_def)
  have parts: "plain_json (JArray (map view_object (sr_findings r)))"
    "plain_json (JArray (map json_text (sr_compatibilityFlags r)))"
    by (rule plain_array; use flags in \<open>auto simp: finding_transported intro: flag_ascii\<close>)+
  have "plain_json (result_json r)"
    unfolding result_json_findings
    by (rule plain_object) (use parts in \<open>auto simp: plain_json_int coverage_plain units_def\<close>)
  then show "plain_json (JObject [(units ''result'', result_json r)])"
    by (intro plain_object) (auto simp: units_def)
  show "printable (JObject [(units ''result'', result_json r)])"
    by (simp add: result_json_findings finding_transported)
qed

lemma checked_view_object:
  assumes "sound_findings L categories sheets fs" "i < length fs"
  shows "checked_finding L categories (int sheets) (i, view_object (fs ! i)) = Some (fs ! i)"
proof -
  have "fv_ordinal (fs ! i) = map fv_ordinal fs ! i" using assms(2) by simp
  also have "\<dots> = int i" using assms by (simp add: sound_findings_def del: nth_map) simp
  finally have "fv_ordinal (fs ! i) = int i" .
  then show ?thesis using assms
    by (auto simp: sound_findings_def sound_finding_def checked_finding_def view_object_def int_field_def
        bool_field_def within_def list_all_length)
qed

lemma checked_flag_text: "t \<in> set COMPATIBILITY_FLAGS \<Longrightarrow> checked_flag (json_text t) = Some t"
  by (simp add: checked_flag_def)

lemma checked_result_json:
  assumes "sound_result L categories r"
  shows "checked_result L categories (result_json r) = Some r"
proof -
  obtain sheets where s: "sr_sheets r = int sheets" "1 \<le> sheets" "sheets \<le> lim_sheets L"
    "sound_findings L categories sheets (sr_findings r)"
    and c: "0 \<le> sr_processedCells r" "sr_processedCells r \<le> int (lim_cells L)"
    and f: "sound_flags (sr_compatibilityFlags r)" "sr_coverage r = Limited"
    using assms by (auto simp: sound_result_def)
  have findings: "collect (checked_finding L categories (int sheets)) (enumerate 0 (map view_object (sr_findings r)))
      = Some (sr_findings r)"
    by (rule collect_enumerate) (use checked_view_object [OF s(4)] in simp)
  have flags: "collect checked_flag (map json_text (sr_compatibilityFlags r)) = Some (sr_compatibilityFlags r)"
    by (rule collect_map) (use f(1) in \<open>auto simp: sound_flags_def checked_flag_text\<close>)
  have "length (sr_findings r) \<le> lim_findings L" using s(4) by (simp add: sound_findings_def)
  then show ?thesis using s c f findings flags sound_flags_length [OF f(1)]
    by (simp add: checked_result_def result_json_findings elements_of_def int_field_def within_def coverage_text_def)
qed

lemma safe_error_text: "safe_error (Some (json_text (error_text e))) = e"
  by (cases e) (simp_all add: safe_error_def SAFE_ERRORS_def)

lemma error_plain: "plain_json (json_text (error_text e))"
  by (rule plain_json_text) (cases e; simp)

section \<open>Both ends\<close>

lemma child_settle_chunks:
  "length printed \<le> output_limit L sanitizing \<Longrightarrow>
     child_settle L sha256 categories sanitizing printed (map Child_Data chunks @ es) =
       (if length printed + length (concat chunks) > output_limit L sanitizing then Some (Inl limit_exceeded)
        else child_settle L sha256 categories sanitizing (printed @ concat chunks) es)"
proof (induction chunks arbitrary: printed)
  case (Cons c chunks)
  show ?case
  proof (cases "length printed + length c > output_limit L sanitizing")
    case False
    then show ?thesis using Cons.IH [of "printed @ c"] by (simp add: add.assoc)
  qed simp
qed simp

lemma child_main_request:
  assumes "valid_limits L" "ascii_text region" "length body \<le> lim_compressedBytes DEFAULT_LIMITS"
    and "length (json_stringify (request_json categories region L None)) < 16384"
  shows "child_main T (child_input body categories region L None) =
    result_bind (scanWorkbook (gt_archive T) (gt_sax T) (gt_recognisers T) body categories (region_units region) L)
      (\<lambda>r. Inr (JObject [(units ''result'', result_json r)]))"
proof -
  define line where "line = json_stringify (request_json categories region L None)"
  note t = request_transported [OF assms(2), of categories L]
  have pl: "plain line" using t(2) by (simp add: line_def plain_json_def)
  have input: "child_input body categories region L None = line @ 10 # body"
    using pl utf8_bytes_ascii [of "line @ [10]"] by (auto simp: child_input_def plain_def simp flip: line_def)
  have "takeWhile (\<lambda>b. b \<noteq> 10) (line @ 10 # body) = line"
    using pl by (subst takeWhile_append2) (auto simp: plain_def)
  moreover have "json_parse (to_text line) = Some (request_json categories region L None)"
    using transported [OF t] utf8_bytes_plain [OF pl] by (simp add: line_def)
  ultimately show ?thesis
    using assms(3,4) limits_of_json [OF assms(1)] unfolding input
    by (simp add: child_main_def child_result_def request_fields Let_def flip: line_def)
qed

lemma scan_fails_safely:
  "scanWorkbook archive X R input categories region L = Inl e \<Longrightarrow> \<exists>code. e = ScanError code"
  by (auto simp: scanWorkbook_def wrapped_def as_scan_error_def invalid_workbook_def split: sum.splits error.splits)

lemma response_read:
  assumes "printable v" "plain_json v"
  shows "checked_response L sha256 categories sanitizing (utf8_bytes (json_stringify v)) =
     (if truthy (field ''errorCode'' v) then Inl (ScanError (safe_error (field ''errorCode'' v)))
      else if sanitizing then
        (case Option.bind (field ''sanitization'' v) (checked_sanitized L sha256) of
           None \<Rightarrow> Inl invalid_workbook | Some r \<Rightarrow> Inr (Sanitized r))
      else
        (case Option.bind (field ''result'' v) (checked_result L categories) of
           None \<Rightarrow> Inl invalid_workbook | Some r \<Rightarrow> Inr (Scanned r)))"
  by (simp add: checked_response_def transported [OF assms])

lemma error_response:
  "checked_response L sha256 categories sanitizing
     (utf8_bytes (json_stringify (JObject [(units ''errorCode'', json_text (error_text e))]))) = Inl (ScanError e)"
proof -
  have "plain_json (JObject [(units ''errorCode'', json_text (error_text e))])"
    by (rule plain_object) (auto simp: units_def error_plain)
  moreover have "truthy (Some (json_text (error_text e)))"
    by (cases e) (simp_all add: truthy_def json_text_def units_def)
  ultimately show ?thesis by (subst response_read) (simp_all add: safe_error_text)
qed

text \<open>
  C24. The process boundary is transparent. When the child runs to its end and its output fits, then
  whatever the chunks it is delivered in, \<open>GuardRunner.run\<close> yields what scanning the workbook in place
  yields - every finding, count and flag, or the code of the failure - for requests the child accepts.
\<close>

theorem child_boundary_transparent:
  assumes "ru_available env" "\<not> ru_aborted env"
    and "ru_events env (child_input body categories region L None) = map Child_Data chunks @ Child_Closed (Some 0) # rest"
    and "concat chunks = utf8_bytes (child_output T (child_input body categories region L None))"
    and "length (concat chunks) \<le> output_limit L False"
    and "valid_limits L" "ascii_text region" "length body \<le> lim_compressedBytes DEFAULT_LIMITS"
    and "length (json_stringify (request_json categories region L None)) < 16384"
  shows "run env L body categories region =
    Some (scanWorkbook (gt_archive T) (gt_sax T) (gt_recognisers T) body categories (region_units region) L)"
proof -
  let ?scan = "scanWorkbook (gt_archive T) (gt_sax T) (gt_recognisers T) body categories (region_units region) L"
  have executed: "execute env L body categories region None =
      Some (checked_response L (ru_digest env) categories False (concat chunks))"
    using assms(1,2,5) by (simp add: execute_def assms(3) child_settle_chunks)
  note main = child_main_request [OF assms(6-9), of T]
  show ?thesis
  proof (cases ?scan)
    case (Inl e)
    obtain code where e: "e = ScanError code" using scan_fails_safely [OF Inl] by blast
    have "child_output T (child_input body categories region L None)
        = json_stringify (JObject [(units ''errorCode'', json_text (error_text code))])"
      using main Inl e by (simp add: child_output_def)
    then show ?thesis using executed Inl e unfolding assms(4)
      by (simp add: run_def error_response del: json_stringify.simps)
  next
    case (Inr r)
    have sound: "sound_result L categories r"
      using Inr scan_contents_sound
      by (auto simp: scanWorkbook_def wrapped_def scan_package_def result_bind_Inr_iff split: sum.splits)
    have "child_output T (child_input body categories region L None) = json_stringify (JObject [(units ''result'', result_json r)])"
      using main Inr by (simp add: child_output_def)
    then show ?thesis using executed Inr unfolding assms(4)
      by (simp add: run_def response_read [OF result_transported [OF sound]] checked_result_json [OF sound] truthy_def
          del: json_stringify.simps)
  qed
qed

end
