(* ===== verification/RedactionExamples.thy ===== *)
theory RedactionExamples
  imports RedactionSafety GuardBoundary
begin

text \<open>
  A workbook of one sheet with one cell, written by \<open>writeXlsx\<close> and read by the reader of stored
  archives; the XML parser is instantiated by a recorder that knows the documents involved.
\<close>

section \<open>A parser that knows its documents\<close>

definition recorder :: "(js_string \<Rightarrow> xml_event list) \<Rightarrow> js_string sax" where
  "recorder docs = \<lparr>sx_init = [], sx_write = (\<lambda>p s. (p @ s, [])), sx_close = docs\<rparr>"

definition xtag :: "js_string \<Rightarrow> string \<Rightarrow> (string \<times> string \<times> js_string \<times> js_string) list \<Rightarrow> xml_tag" where
  "xtag uri name as = \<lparr>xt_local = units name, xt_uri = uri,
     xt_attributes = map (\<lambda>(k, l, u, v). (units k, \<lparr>xa_local = units l, xa_uri = u, xa_value = v\<rparr>)) as\<rparr>"

definition simple :: "string \<Rightarrow> string \<Rightarrow> string \<times> string \<times> js_string \<times> js_string" where
  "simple k v = (k, k, [], units v)"

definition types_events :: "xml_event list" where
  "types_events = [X_Open (xtag [] ''Override'' [simple ''PartName'' ''/xl/workbook.xml'',
     simple ''ContentType'' ''application/vnd.openxmlformats-officedocument.spreadsheetml.sheet.main+xml''])]"

definition links_events :: "xml_event list" where
  "links_events = [X_Open (xtag REL ''Relationship'' [simple ''Id'' ''rId1'',
     (''Type'', ''Type'', [], OFFICE_REL @ units ''/worksheet''), simple ''Target'' ''worksheets/sheet1.xml''])]"

definition book_events :: "xml_event list" where
  "book_events =
     (let sheet = xtag MAIN ''sheet'' [simple ''name'' ''Sheet 1'', simple ''sheetId'' ''1'',
            (''r:id'', ''id'', OFFICE_REL, units ''rId1'')];
          book = xtag MAIN ''workbook'' []; sheets = xtag MAIN ''sheets'' [] in
      [X_Open book, X_Open sheets, X_Open sheet, X_Close sheet, X_Close sheets, X_Close book])"

definition sheet_events :: "js_string \<Rightarrow> xml_event list" where
  "sheet_events v =
     (let sheet = xtag MAIN ''worksheet'' []; data = xtag MAIN ''sheetData'' [];
          row = xtag MAIN ''row'' [simple ''r'' ''1''];
          c = xtag MAIN ''c'' [simple ''r'' ''A1'', simple ''t'' ''inlineStr'']; is = xtag MAIN ''is'' [];
          t = xtag MAIN ''t'' [] in
      [X_Open sheet, X_Open data, X_Open row, X_Open c, X_Open is, X_Open t, X_Text v,
       X_Close t, X_Close is, X_Close c, X_Close row, X_Close data, X_Close sheet])"

definition documents :: "js_string \<Rightarrow> xml_event list" where
  "documents s =
     (if starts_with (units ''T'') s \<or> starts_with (units ''<T'') s then types_events
      else if starts_with (units ''L'') s \<or> starts_with (units ''<R'') s then links_events
      else if starts_with (units ''B'') s \<or> starts_with (units ''<workb'') s then book_events
      else if starts_with (units ''S'') s then sheet_events (units ''a@b.c'')
      else if starts_with (units ''Z'') s then sheet_events (units ''x@y.z'')
      else sheet_events REDACTION_MARKER)"

definition example_recognisers :: recognisers where
  "example_recognisers = \<lparr>re_isEmail = (\<lambda>s. s \<in> {units ''a@b.c'', units ''x@y.z''}), re_isIP = (\<lambda>_. False),
     re_isIBAN = (\<lambda>_. False), re_isPhone = (\<lambda>_ _. False), re_letter = (\<lambda>c. is_upper c \<or> is_lower c)\<rparr>"

definition example_tools :: "js_string guard_tools" where
  "example_tools = \<lparr>gt_archive = stored_reader, gt_sax = recorder documents,
     gt_recognisers = example_recognisers, gt_digest = (\<lambda>_. ''digest''), gt_textDigest = (\<lambda>_. ''findings'')\<rparr>"

definition example_source :: "string \<Rightarrow> (js_string \<times> js_string) list" where
  "example_source s = [(units ''[Content_Types].xml'', units ''T''), (units ''xl/workbook.xml'', units ''B''),
     (units ''xl/_rels/workbook.xml.rels'', units ''L''), (units ''xl/worksheets/sheet1.xml'', units s)]"

definition example_options :: sanitize_options where
  "example_options = \<lparr>so_selectedCategories = [Cat_Email], so_selectedColumns = [], so_categories = [Cat_Email],
     so_phoneRegion = None, so_findingsDigest = ''findings''\<rparr>"

definition example_sheets :: "js_string \<Rightarrow> red_sheet list" where
  "example_sheets v = [\<lparr>rs_state = units ''visible'', rs_rows = [\<lparr>rw_attrs = [(units ''r'', units ''1'')],
     rw_cells = [\<lparr>rc_address = units ''A1'', rc_row = 1, rc_column = 1, rc_type = units ''inlineStr'', rc_value = v\<rparr>]\<rparr>],
     rs_columns = []\<rparr>]"

definition redaction_scan :: "finding_view list \<Rightarrow> scan_result" where
  "redaction_scan fs = \<lparr>sr_findings = fs, sr_processedCells = 1, sr_sheets = 1,
     sr_compatibilityFlags = [''cell_text_only'', ''metadata_not_scanned''], sr_coverage = Limited\<rparr>"

definition example_finding :: finding_view where
  "example_finding = \<lparr>fv_ordinal = 0, fv_sheetIndex = 0, fv_row = 1, fv_column = 1, fv_category = Cat_Email,
     fv_evidence = Format_Valid, fv_hidden = False\<rparr>"

definition stored_parts :: "(js_string \<times> js_string) list \<Rightarrow> (js_string \<times> bytes) list" where
  "stored_parts parts = map (\<lambda>(name, v). (map lower name, utf8_bytes v)) parts"

text \<open>Evaluation reads a short ASCII part in one step.\<close>

lemma decode_ascii: "list_all (\<lambda>c. c < 128) s \<Longrightarrow> utf8_decode s = Some s"
  by (induction s) auto

lemma feed_ascii:
  assumes "list_all (\<lambda>c. c < 128) s" "length s \<le> 4096" "s \<noteq> []"
  shows "feed X p started [] s = (let r = sx_write X p s; q = sx_write X (fst r) [] in snd r @ snd q @ sx_close X (fst q))"
proof -
  have chunk: "decode_chunk s = Some (s, [])"
    using decode_ascii [OF assms(1)] by (simp add: decode_chunk_def)
  have wide: "list_all (\<lambda>c. c < 65536) s" using assms(1) by (auto simp: list_all_iff)
  have mark: "without_mark started s = s"
    using assms(1) by (auto simp: without_mark_def split: list.splits)
  have "take 4096 s = s" "drop 4096 s = []" using assms(2) by simp_all
  then show ?thesis
    using assms(3) chunk mark code_units_bmp [OF wide] by (simp add: feed.simps Let_def)
qed

lemma feed_code [code]:
  "feed X p started pending s =
     (if pending = [] \<and> s \<noteq> [] \<and> list_all (\<lambda>c. c < 128) s \<and> length s \<le> 4096
      then (let r = sx_write X p s; q = sx_write X (fst r) [] in snd r @ snd q @ sx_close X (fst q))
      else if s = [] then
        (if pending \<noteq> [] then [X_Error] else snd (sx_write X p []) @ sx_close X (fst (sx_write X p [])))
      else
        case decode_chunk (pending @ take 4096 s) of
          None \<Rightarrow> [X_Error]
        | Some (cs, pending') \<Rightarrow>
            (let r = sx_write X p (code_units (without_mark started cs)) in
             snd r @ feed X (fst r) (started \<or> cs \<noteq> []) pending' (drop 4096 s)))"
proof (cases "pending = [] \<and> s \<noteq> [] \<and> list_all (\<lambda>c. c < 128) s \<and> length s \<le> 4096")
  case True
  then show ?thesis using feed_ascii [of s] by simp
next
  case False
  show ?thesis unfolding if_not_P [OF False] by (rule feed.simps)
qed

lemma example_source_scan:
  "scan_contents (recorder documents) example_recognisers [Cat_Email] None DEFAULT_LIMITS
     (stored_parts (example_source ''S'')) = Inr (redaction_scan [example_finding])"
  by code_simp

lemma other_source_scan:
  "scan_contents (recorder documents) example_recognisers [Cat_Email] None DEFAULT_LIMITS
     (stored_parts (example_source ''Z'')) = Inr (redaction_scan [example_finding])"
  by code_simp

lemma example_source_supported:
  "supported_contents (recorder documents) DEFAULT_LIMITS (stored_parts (example_source ''S''))
     = Inr (example_sheets (units ''a@b.c''))"
  by code_simp

lemma other_source_supported:
  "supported_contents (recorder documents) DEFAULT_LIMITS (stored_parts (example_source ''Z''))
     = Inr (example_sheets (units ''x@y.z''))"
  by code_simp

lemma example_copy_scan:
  "scan_contents (recorder documents) example_recognisers [Cat_Email] None DEFAULT_LIMITS
     (stored_parts (package_parts (example_sheets REDACTION_MARKER))) = Inr (redaction_scan [])"
  by code_simp

lemma example_copy_supported:
  "supported_contents (recorder documents) DEFAULT_LIMITS (stored_parts (package_parts (example_sheets REDACTION_MARKER)))
     = Inr (example_sheets REDACTION_MARKER)"
  by code_simp

lemma example_packages_fit:
  "package_fits DEFAULT_LIMITS (example_source ''S'')" "package_fits DEFAULT_LIMITS (example_source ''Z'')"
  "package_fits DEFAULT_LIMITS (package_parts (example_sheets REDACTION_MARKER))"
  by code_simp+

section \<open>From package to result\<close>

lemma example_parts:
  "{types_part, book_part, links_part} \<subseteq> (map lower \<circ> fst) ` set (example_source s)"
  "{types_part, book_part, links_part} \<subseteq> (map lower \<circ> fst) ` set (package_parts (example_sheets v))"
  by (simp_all add: example_source_def example_sheets_def package_parts_def types_part_def book_part_def links_part_def
      units_def lower_def)

lemma example_preflight:
  assumes "writeXlsx parts (lim_compressedBytes DEFAULT_LIMITS) = Inr out" "package_fits DEFAULT_LIMITS parts"
    "length parts < 16384" "{types_part, book_part, links_part} \<subseteq> (map lower \<circ> fst) ` set parts"
  shows "preflight stored_reader DEFAULT_LIMITS out = Inr (stored_parts parts)"
  unfolding stored_parts_def
  by (rule preflight_written [OF assms(1,2) _ _ assms(3,4) stored_reader_reads]) (simp_all add: DEFAULT_LIMITS_def)

lemma example_generated:
  "\<exists>out. generate (example_sheets REDACTION_MARKER) DEFAULT_LIMITS = Inr out"
proof -
  let ?parts = "package_parts (example_sheets REDACTION_MARKER)"
  have "written_size ?parts \<le> lim_compressedBytes DEFAULT_LIMITS" unfolding written_size_sum by code_simp
  moreover have "\<forall>p\<in>set ?parts. length (utf8_bytes (fst p)) < 65536" by code_simp
  ultimately show ?thesis unfolding generate_def
    by (intro writeXlsx_total) (simp_all add: DEFAULT_LIMITS_def package_parts_def example_sheets_def)
qed

lemma example_written:
  assumes "s \<in> {''S'', ''Z''}"
  shows "\<exists>out. writeXlsx (example_source s) (lim_compressedBytes DEFAULT_LIMITS) = Inr out"
  by (rule writeXlsx_total) (use assms in \<open>auto simp: DEFAULT_LIMITS_def example_source_def written_size_def
      archive_bytes_def encoded_def units_def utf8_encode1_def\<close>)

lemma example_read:
  assumes "s \<in> {''S'', ''Z''}" "writeXlsx (example_source s) (lim_compressedBytes DEFAULT_LIMITS) = Inr out"
  shows "scanWorkbook stored_reader (recorder documents) example_recognisers out [Cat_Email] None DEFAULT_LIMITS
           = Inr (redaction_scan [example_finding])"
    and "supported stored_reader (recorder documents) out DEFAULT_LIMITS
           = Inr (example_sheets (if s = ''S'' then units ''a@b.c'' else units ''x@y.z''))"
proof -
  have "package_fits DEFAULT_LIMITS (example_source s)" using assms(1) example_packages_fit by auto
  then have p: "preflight stored_reader DEFAULT_LIMITS out = Inr (stored_parts (example_source s))"
    by (rule example_preflight [OF assms(2) _ _ example_parts(1)]) (simp add: example_source_def)
  show "scanWorkbook stored_reader (recorder documents) example_recognisers out [Cat_Email] None DEFAULT_LIMITS
      = Inr (redaction_scan [example_finding])"
    using assms(1) p example_source_scan other_source_scan by (auto simp: scanWorkbook_def wrapped_def scan_package_def)
  show "supported stored_reader (recorder documents) out DEFAULT_LIMITS
      = Inr (example_sheets (if s = ''S'' then units ''a@b.c'' else units ''x@y.z''))"
    using assms(1) p example_source_supported other_source_supported by (auto simp: supported_def)
qed

lemma example_copy_read:
  assumes "generate (example_sheets REDACTION_MARKER) DEFAULT_LIMITS = Inr out"
  shows "scanWorkbook stored_reader (recorder documents) example_recognisers out [Cat_Email] None DEFAULT_LIMITS
           = Inr (redaction_scan [])"
    and "supported stored_reader (recorder documents) out DEFAULT_LIMITS = Inr (example_sheets REDACTION_MARKER)"
proof -
  have p: "preflight stored_reader DEFAULT_LIMITS out = Inr (stored_parts (package_parts (example_sheets REDACTION_MARKER)))"
    by (rule example_preflight [OF assms [unfolded generate_def] example_packages_fit(3) _ example_parts(2)])
       (simp add: package_parts_def example_sheets_def)
  then show "scanWorkbook stored_reader (recorder documents) example_recognisers out [Cat_Email] None DEFAULT_LIMITS
      = Inr (redaction_scan [])"
    "supported stored_reader (recorder documents) out DEFAULT_LIMITS = Inr (example_sheets REDACTION_MARKER)"
    using example_copy_scan example_copy_supported
    by (simp_all add: scanWorkbook_def wrapped_def scan_package_def supported_def)
qed

lemma example_redacted: "redact_sheets [(0, 1, 1)] (example_sheets v) = example_sheets REDACTION_MARKER"
  by (simp add: redact_sheets_def redact_sheet_def redact_cell_def example_sheets_def)

lemma example_count: "redacted_count [(0, 1, 1)] (example_sheets v) = 1"
  by (simp add: redacted_count_def example_sheets_def sheet_cells_def)

definition redaction_result :: "bytes \<Rightarrow> sanitize_result" where
  "redaction_result out = \<lparr>sz_bytes = out, sz_redactedCells = 1, sz_outputDigest = ''digest''\<rparr>"

lemma example_sanitized:
  assumes "s \<in> {''S'', ''Z''}" "writeXlsx (example_source s) (lim_compressedBytes DEFAULT_LIMITS) = Inr input"
    "generate (example_sheets REDACTION_MARKER) DEFAULT_LIMITS = Inr out"
  shows "sanitizeWorkbook example_tools input example_options DEFAULT_LIMITS = Inr (redaction_result out)"
proof -
  have cells: "1 \<le> lim_cells DEFAULT_LIMITS" by (simp add: DEFAULT_LIMITS_def)
  show ?thesis
    using example_read [OF assms(1,2)] example_copy_read [OF assms(3)] assms(3) cells
    by (simp add: sanitizeWorkbook_def wrapped_def sanitize_def example_tools_def example_options_def region_units_def
        redaction_scan_def example_finding_def finding_position_def insert_once_def
        example_redacted example_count redaction_result_def Let_def)
qed

lemma example_sound: "sound_sax (recorder documents)"
proof -
  have "list_all sound_event (documents s)" for s
    unfolding documents_def types_events_def links_events_def book_events_def sheet_events_def
    by (simp add: sound_tag_def xtag_def simple_def Let_def units_def code_units_text_def REDACTION_MARKER_def
        MAIN_def REL_def OFFICE_REL_def)
  then show ?thesis by (simp add: sound_sax_def recorder_def)
qed

section \<open>The promises on the example\<close>


theorem redaction_reveals_nothing_witness:
  "\<exists>input input' r r'. input \<noteq> input' \<and> sanitizeWorkbook example_tools input example_options DEFAULT_LIMITS = Inr r
     \<and> sanitizeWorkbook example_tools input' example_options DEFAULT_LIMITS = Inr r' \<and> sz_bytes r = sz_bytes r'"
proof -
  obtain input input' where i: "writeXlsx (example_source ''S'') (lim_compressedBytes DEFAULT_LIMITS) = Inr input"
    and i': "writeXlsx (example_source ''Z'') (lim_compressedBytes DEFAULT_LIMITS) = Inr input'"
    using example_written [of "''S''"] example_written [of "''Z''"] by blast
  obtain out where o: "generate (example_sheets REDACTION_MARKER) DEFAULT_LIMITS = Inr out"
    using example_generated by blast
  note s = example_sanitized [OF _ i o] example_sanitized [OF _ i' o]
  note r = example_read [OF _ i] example_read [OF _ i']
  have "input \<noteq> input'" using r(2,4) by (auto simp: example_sheets_def units_def)
  moreover have "sz_bytes (redaction_result out) = sz_bytes (redaction_result out)"
  proof (rule redaction_reveals_nothing [OF s])
    have "(0, 1, 1) \<in> requested example_options (redaction_scan [example_finding]) (example_sheets (units ''a@b.c''))"
      by (simp add: requested_def example_options_def redaction_scan_def example_finding_def finding_position_def image_iff)
    then show "same_outside (requested example_options (redaction_scan [example_finding]) (example_sheets (units ''a@b.c'')))
        (example_sheets (units ''a@b.c'')) (example_sheets (units ''x@y.z''))"
      by (simp add: same_outside_def same_sheet_def same_cell_def example_sheets_def)
  qed (use r in \<open>simp_all add: example_tools_def example_options_def region_units_def requested_def\<close>)
  ultimately show ?thesis using s by blast
qed

theorem redacted_copy_uploads_witness:
  "\<exists>input r. sanitizeWorkbook example_tools input example_options DEFAULT_LIMITS = Inr r \<and> validateXlsx (sz_bytes r) = Inr ()"
proof -
  obtain input where i: "writeXlsx (example_source ''S'') (lim_compressedBytes DEFAULT_LIMITS) = Inr input"
    using example_written [of "''S''"] by blast
  obtain out where o: "generate (example_sheets REDACTION_MARKER) DEFAULT_LIMITS = Inr out"
    using example_generated by blast
  have s: "sanitizeWorkbook example_tools input example_options DEFAULT_LIMITS = Inr (redaction_result out)"
    by (rule example_sanitized [OF _ i o]) simp
  have "validateXlsx (sz_bytes (redaction_result out)) = Inr ()"
    by (rule redacted_copy_uploads [OF s, of "example_sheets (units ''a@b.c'')"])
       (use example_read(2) [OF _ i] in \<open>simp_all add: DEFAULT_LIMITS_def example_tools_def example_sheets_def\<close>)
  then show ?thesis using s by blast
qed

theorem scan_within_limits_witness:
  "\<exists>input. scanWorkbook stored_reader (recorder documents) example_recognisers input [Cat_Email] None DEFAULT_LIMITS
       = Inr (redaction_scan [example_finding])
     \<and> sound_result DEFAULT_LIMITS [Cat_Email] (redaction_scan [example_finding])"
proof -
  obtain input where i: "writeXlsx (example_source ''S'') (lim_compressedBytes DEFAULT_LIMITS) = Inr input"
    using example_written [of "''S''"] by blast
  have s: "scanWorkbook stored_reader (recorder documents) example_recognisers input [Cat_Email] None DEFAULT_LIMITS
       = Inr (redaction_scan [example_finding])" by (rule example_read(1) [OF _ i]) simp
  show ?thesis using s scan_within_limits [OF s] by blast
qed

section \<open>Through the child process\<close>

definition boundary_env :: runner_env where
  "boundary_env = \<lparr>ru_available = True, ru_aborted = False,
     ru_events = (\<lambda>p. [Child_Data (utf8_bytes (child_output example_tools p)), Child_Closed (Some 0)]),
     ru_digest = (\<lambda>_. ''digest'')\<rparr>"

lemma example_request_short:
  "length (json_stringify (request_json [Cat_Email] None DEFAULT_LIMITS None)) < 16384"
  by code_simp

lemma example_output_short:
  "length (utf8_bytes (json_stringify (JObject [(units ''result'', result_json (redaction_scan [example_finding]))])))
     \<le> output_limit DEFAULT_LIMITS False"
  by code_simp

lemma default_limits_valid: "valid_limits DEFAULT_LIMITS"
  by code_simp

theorem child_boundary_transparent_witness:
  "\<exists>input. run boundary_env DEFAULT_LIMITS input [Cat_Email] None = Some (Inr (redaction_scan [example_finding]))"
proof -
  obtain input where i: "writeXlsx (example_source ''S'') (lim_compressedBytes DEFAULT_LIMITS) = Inr input"
    using example_written [of "''S''"] by blast
  have small: "length input \<le> lim_compressedBytes DEFAULT_LIMITS" by (rule writeXlsx_bytes(4) [OF i])
  have s: "scanWorkbook (gt_archive example_tools) (gt_sax example_tools) (gt_recognisers example_tools) input
       [Cat_Email] (region_units None) DEFAULT_LIMITS = Inr (redaction_scan [example_finding])"
    using example_read(1) [OF _ i] by (simp add: example_tools_def region_units_def)
  have ascii: "ascii_text None" by (simp add: ascii_text_def)
  have printed: "child_output example_tools (child_input input [Cat_Email] None DEFAULT_LIMITS None)
      = json_stringify (JObject [(units ''result'', result_json (redaction_scan [example_finding]))])"
    unfolding child_output_def child_main_request [OF default_limits_valid ascii small example_request_short] s by simp
  have "run boundary_env DEFAULT_LIMITS input [Cat_Email] None
      = Some (scanWorkbook (gt_archive example_tools) (gt_sax example_tools) (gt_recognisers example_tools) input
          [Cat_Email] (region_units None) DEFAULT_LIMITS)"
    by (rule child_boundary_transparent [where rest = "[]" and chunks =
          "[utf8_bytes (child_output example_tools (child_input input [Cat_Email] None DEFAULT_LIMITS None))]"])
       (use small ascii default_limits_valid example_request_short example_output_short printed
         in \<open>simp_all add: boundary_env_def del: json_stringify.simps\<close>)
  then show ?thesis unfolding s by blast
qed

end
