(* ===== verification/Environment.thy ===== *)
theory Environment
  imports Patterns
begin

text \<open>
  The validation of the configuration (\<open>config/environment.ts\<close>): a map from names to values in, the
  same map with the recognised settings parsed out, or the first complaint. The URL parser and
  \<open>isEmail\<close> are parameters.
\<close>

section \<open>Settings\<close>

datatype setting =
    E_Text js_string | E_Number int | E_Bool bool | E_Texts "js_string list" | E_Other

type_synonym settings = "string \<Rightarrow> setting option"

text \<open>What the code reads of a parsed URL.\<close>

record parsed_url =
  url_protocol :: js_string
  url_username :: js_string
  url_password :: js_string
  url_origin :: js_string
  url_hostname :: js_string
  url_pathname :: js_string
  url_search :: js_string
  url_hash :: js_string

record env_tools =
  et_url :: "js_string \<Rightarrow> parsed_url option"
  et_isEmail :: "js_string \<Rightarrow> bool"

definition complaint :: "string \<Rightarrow> error" where
  "complaint m = PlainError m"

definition setting_text :: "settings \<Rightarrow> string \<Rightarrow> js_string" where
  "setting_text config key = (case config key of Some (E_Text t) \<Rightarrow> t | _ \<Rightarrow> [])"

definition required :: "settings \<Rightarrow> string \<Rightarrow> error + unit" where
  "required config key = require (js_trim (setting_text config key) \<noteq> []) (complaint (key @ '' is required''))"

fun all_required :: "settings \<Rightarrow> string list \<Rightarrow> error + unit" where
  "all_required config [] = Inr ()"
| "all_required config (k # ks) = result_bind (required config k) (\<lambda>_. all_required config ks)"

definition text_or :: "js_string \<Rightarrow> js_string \<Rightarrow> js_string" where
  "text_or s d = (if s = [] then d else s)"

definition http_protocol :: "js_string \<Rightarrow> bool" where
  "http_protocol p \<longleftrightarrow> p = units ''http:'' \<or> p = units ''https:''"

definition httpUrl :: "env_tools \<Rightarrow> settings \<Rightarrow> string \<Rightarrow> bool \<Rightarrow> error + unit" where
  "httpUrl T config key originOnly =
     require (case et_url T (setting_text config key) of
         None \<Rightarrow> False
       | Some u \<Rightarrow> http_protocol (url_protocol u) \<and> url_username u = [] \<and> url_password u = []
           \<and> (\<not> originOnly \<or> url_origin u = setting_text config key))
       (complaint (key @ '' must be a valid HTTP(S) '' @ (if originOnly then ''origin'' else ''URL'')))"

definition isLocalhost :: "js_string \<Rightarrow> bool" where
  "isLocalhost h \<longleftrightarrow> h \<in> {units ''localhost'', units ''127.0.0.1'', units ''[::1]''}"

text \<open>A text that is no URL makes the constructor throw; it has been checked before.\<close>

definition requireHttpsOutsideLocalhost :: "env_tools \<Rightarrow> settings \<Rightarrow> string \<Rightarrow> error + unit" where
  "requireHttpsOutsideLocalhost T config key =
     (case et_url T (setting_text config key) of
        None \<Rightarrow> Inl (complaint ''Invalid URL'')
      | Some u \<Rightarrow> require (url_protocol u = units ''https:'' \<or> isLocalhost (url_hostname u))
          (complaint (key @ '' must use HTTPS outside localhost'')))"

definition validateOrigin :: "env_tools \<Rightarrow> js_string \<Rightarrow> error + parsed_url" where
  "validateOrigin T origin =
     (let bad = Inl (complaint ''CORS_ORIGIN must contain comma-separated HTTP(S) origins'') in
      case et_url T origin of
        None \<Rightarrow> bad
      | Some u \<Rightarrow> if http_protocol (url_protocol u) \<and> url_origin u = origin \<and> url_username u = [] \<and> url_password u = []
          then Inr u else bad)"

definition env_boolean :: "settings \<Rightarrow> string \<Rightarrow> bool \<Rightarrow> error + bool" where
  "env_boolean config key defaultValue =
     (let v = map lower (js_trim (setting_text config key)) in
      if v = [] then Inr defaultValue
      else if v = units ''true'' then Inr True
      else if v = units ''false'' then Inr False
      else Inl (complaint (key @ '' must be true or false'')))"

text \<open>Decimal digits within bounds, with the message of a failure given.\<close>

definition bounded_number :: "js_string \<Rightarrow> int \<Rightarrow> int \<Rightarrow> error \<Rightarrow> error + int" where
  "bounded_number v lo hi e =
     (if v = [] \<or> \<not> list_all is_digit v \<or> digits_number v < lo \<or> digits_number v > hi then Inl e
      else Inr (digits_number v))"

definition env_integer :: "settings \<Rightarrow> string \<Rightarrow> int \<Rightarrow> int \<Rightarrow> int \<Rightarrow> error + int" where
  "env_integer config key defaultValue minimum maximum =
     bounded_number (text_or (setting_text config key) (units (show_int defaultValue))) minimum maximum
       (complaint (key @ '' must be an integer between '' @ show_int minimum @ '' and '' @ show_int maximum))"

text \<open>A sequence of integer settings, each assigned in turn.\<close>

type_synonym integer_setting = "string \<times> int \<times> int \<times> int"

fun assign_integers :: "settings \<Rightarrow> integer_setting list \<Rightarrow> settings \<Rightarrow> error + settings" where
  "assign_integers config [] env = Inr env"
| "assign_integers config ((key, d, lo, hi) # rest) env =
     result_bind (env_integer config key d lo hi) (\<lambda>n.
     assign_integers config rest (env(key \<mapsto> E_Number n)))"

section \<open>Database, secret, port and files\<close>

definition mongo_uri :: pattern where
  "mongo_uri = p_seq [P_Start, p_text ''mongodb'', p_optional (p_text ''+srv''), p_text ''://'']"

definition mongo_integers :: "integer_setting list" where
  "mongo_integers = [(''MONGO_SERVER_SELECTION_TIMEOUT_MS'', 10000, 1000, 120000),
     (''MONGO_MAX_POOL_SIZE'', 20, 1, 200), (''MONGO_RETRY_ATTEMPTS'', 5, 1, 20),
     (''MONGO_RETRY_DELAY_MS'', 3000, 100, 30000)]"

definition node_env :: "settings \<Rightarrow> js_string" where
  "node_env config = text_or (setting_text config ''NODE_ENV'') (units ''development'')"

definition validate_database :: "settings \<Rightarrow> settings \<Rightarrow> error + settings" where
  "validate_database config env =
     result_bind (required config ''MONGO_URI'') (\<lambda>_.
     if \<not> test mongo_uri (setting_text config ''MONGO_URI'')
     then Inl (complaint ''MONGO_URI must be a MongoDB connection URI'')
     else
     if node_env config \<notin> units ` set [''development'', ''test'', ''production'']
     then Inl (complaint ''NODE_ENV must be development, test, or production'')
     else assign_integers config mongo_integers (env(''NODE_ENV'' \<mapsto> E_Text (node_env config))))"

definition validate_server :: "env_tools \<Rightarrow> settings \<Rightarrow> settings \<Rightarrow> error + settings" where
  "validate_server T config env =
     result_bind (required config ''JWT_SECRET'') (\<lambda>_.
     if length (setting_text config ''JWT_SECRET'') < 32
     then Inl (complaint ''JWT_SECRET must contain at least 32 characters'')
     else
     result_bind (bounded_number (text_or (setting_text config ''PORT'') (units ''3000'')) 1 65535
        (complaint ''PORT must be an integer between 1 and 65535'')) (\<lambda>port.
     result_bind (assign_integers config [(''TRUST_PROXY_HOPS'', 0, 0, 10)] (env(''PORT'' \<mapsto> E_Number port))) (\<lambda>env.
     result_bind (bounded_number (text_or (setting_text config ''FILE_MAX_SIZE_BYTES'') (units ''10485760'')) 1 104857600
        (complaint ''FILE_MAX_SIZE_BYTES must be an integer between 1 and 104857600'')) (\<lambda>n.
     result_bind (required config ''ACCOUNT_ACTIVATION_URL'') (\<lambda>_.
     result_bind (httpUrl T config ''ACCOUNT_ACTIVATION_URL'' False) (\<lambda>_.
     result_bind (requireHttpsOutsideLocalhost T config ''ACCOUNT_ACTIVATION_URL'') (\<lambda>_.
     result_bind (required config ''EMPLOYEE_INVITATION_URL'') (\<lambda>_.
     result_bind (httpUrl T config ''EMPLOYEE_INVITATION_URL'' False) (\<lambda>_.
     result_bind (requireHttpsOutsideLocalhost T config ''EMPLOYEE_INVITATION_URL'') (\<lambda>_.
     Inr (env(''FILE_MAX_SIZE_BYTES'' \<mapsto> E_Number n))))))))))))"

section \<open>Email\<close>

definition smtp_host :: pattern where
  "smtp_host = p_whole [p_plus (alnum_or ''.:[]_-'')]"

definition resend_key :: pattern where
  "resend_key = p_whole [p_text ''re_'', P_Repeat 8 None (alnum_or ''_-'')]"

definition validate_smtp :: "env_tools \<Rightarrow> settings \<Rightarrow> settings \<Rightarrow> error + settings" where
  "validate_smtp T config env =
     result_bind (required config ''SMTP_HOST'') (\<lambda>_.
     if \<not> test smtp_host (setting_text config ''SMTP_HOST'')
     then Inl (complaint ''SMTP_HOST must be a valid hostname or IP address'')
     else
     result_bind (required config ''SMTP_FROM'') (\<lambda>_.
     if \<not> et_isEmail T (setting_text config ''SMTP_FROM'')
     then Inl (complaint ''SMTP_FROM must be a valid email address'')
     else
     result_bind (env_boolean config ''SMTP_SECURE'' False) (\<lambda>secure.
     result_bind (env_boolean config ''SMTP_REQUIRE_TLS'' True) (\<lambda>requireTls.
     result_bind (bounded_number (text_or (setting_text config ''SMTP_PORT'') (units (if secure then ''465'' else ''587'')))
        1 65535 (complaint ''SMTP_PORT must be an integer between 1 and 65535'')) (\<lambda>port.
     let env = env(''SMTP_PORT'' \<mapsto> E_Number port, ''SMTP_SECURE'' \<mapsto> E_Bool secure,
                   ''SMTP_REQUIRE_TLS'' \<mapsto> E_Bool requireTls) in
     if setting_text config ''SMTP_USER'' \<noteq> [] \<or> setting_text config ''SMTP_PASSWORD'' \<noteq> []
     then result_bind (all_required config [''SMTP_USER'', ''SMTP_PASSWORD'']) (\<lambda>_. Inr env)
     else Inr env)))))"

definition validate_email :: "env_tools \<Rightarrow> settings \<Rightarrow> settings \<Rightarrow> error + settings" where
  "validate_email T config env =
     result_bind (required config ''EMAIL_PROVIDER'') (\<lambda>_.
     let provider = setting_text config ''EMAIL_PROVIDER'' in
     if provider \<noteq> units ''smtp'' \<and> provider \<noteq> units ''resend''
     then Inl (complaint ''EMAIL_PROVIDER must be smtp or resend'')
     else if provider = units ''smtp'' then validate_smtp T config env
     else
     result_bind (required config ''RESEND_API_KEY'') (\<lambda>_.
     if \<not> test resend_key (setting_text config ''RESEND_API_KEY'')
     then Inl (complaint ''RESEND_API_KEY must be a Resend API key'')
     else
     result_bind (required config ''RESEND_FROM'') (\<lambda>_.
     if \<not> et_isEmail T (setting_text config ''RESEND_FROM'')
     then Inl (complaint ''RESEND_FROM must be a valid email address'')
     else Inr env)))"

section \<open>Origins and Google\<close>

fun split_commas :: "js_string \<Rightarrow> js_string \<Rightarrow> js_string list" where
  "split_commas acc [] = [acc]"
| "split_commas acc (c # cs) = (if c = 44 then acc # split_commas [] cs else split_commas (acc @ [c]) cs)"

fun validate_origins :: "env_tools \<Rightarrow> js_string list \<Rightarrow> error + unit" where
  "validate_origins T [] = Inr ()"
| "validate_origins T (origin # rest) =
     result_bind (validateOrigin T origin) (\<lambda>u.
     if url_protocol u \<noteq> units ''https:'' \<and> \<not> isLocalhost (url_hostname u)
     then Inl (complaint ''CORS_ORIGIN must use HTTPS outside localhost'')
     else validate_origins T rest)"

definition validate_cors :: "env_tools \<Rightarrow> settings \<Rightarrow> error + unit" where
  "validate_cors T config =
     (if setting_text config ''CORS_ORIGIN'' = [] then Inr ()
      else validate_origins T (map js_trim (split_commas [] (setting_text config ''CORS_ORIGIN''))))"

definition google_keys :: "string list" where
  "google_keys = [''GOOGLE_CLIENT_ID'', ''GOOGLE_CLIENT_SECRET'', ''GOOGLE_CALLBACK_URL'', ''FRONT_URI'']"

definition validate_google :: "env_tools \<Rightarrow> settings \<Rightarrow> error + unit" where
  "validate_google T config =
     (if \<not> list_ex (\<lambda>k. setting_text config k \<noteq> []) google_keys then Inr ()
      else
      result_bind (all_required config google_keys) (\<lambda>_.
      result_bind (httpUrl T config ''GOOGLE_CALLBACK_URL'' False) (\<lambda>_.
      result_bind (httpUrl T config ''FRONT_URI'' True) (\<lambda>_.
      result_bind (requireHttpsOutsideLocalhost T config ''GOOGLE_CALLBACK_URL'') (\<lambda>_.
      result_bind (requireHttpsOutsideLocalhost T config ''FRONT_URI'') (\<lambda>_.
      case et_url T (setting_text config ''GOOGLE_CALLBACK_URL'') of
        None \<Rightarrow> Inl (complaint ''Invalid URL'')
      | Some u \<Rightarrow> require (url_pathname u = units ''/auth/google/callback'' \<and> url_search u = [] \<and> url_hash u = [])
          (complaint ''GOOGLE_CALLBACK_URL must point to /auth/google/callback without query or fragment'')))))))"

section \<open>Stripe\<close>

definition stripe_keys :: "string list" where
  "stripe_keys = [''STRIPE_SECRET_KEY'', ''STRIPE_WEBHOOK_SECRET'', ''STRIPE_BASIC_PRICE_ID'',
     ''STRIPE_PREMIUM_PRICE_ID'', ''STRIPE_OVERAGE_PRICE_ID'', ''STRIPE_OVERAGE_METER_ID'',
     ''STRIPE_OVERAGE_EVENT_NAME'', ''STRIPE_PORTAL_CONFIGURATION_ID'', ''STRIPE_CHECKOUT_SUCCESS_URL'',
     ''STRIPE_CHECKOUT_CANCEL_URL'', ''STRIPE_PORTAL_RETURN_URL'']"

definition price_keys :: "string list" where
  "price_keys = [''STRIPE_BASIC_PRICE_ID'', ''STRIPE_PREMIUM_PRICE_ID'', ''STRIPE_OVERAGE_PRICE_ID'']"

definition tagged :: "string \<Rightarrow> pattern" where
  "tagged prefix = p_whole [p_text prefix, p_plus p_alnum]"

fun check_prices :: "settings \<Rightarrow> string list \<Rightarrow> error + unit" where
  "check_prices config [] = Inr ()"
| "check_prices config (k # ks) =
     (if \<not> test (tagged ''price_'') (setting_text config k)
      then Inl (complaint (k @ '' must be a Stripe Price ID'')) else check_prices config ks)"

fun check_stripe_urls :: "env_tools \<Rightarrow> settings \<Rightarrow> string list \<Rightarrow> error + unit" where
  "check_stripe_urls T config [] = Inr ()"
| "check_stripe_urls T config (k # ks) =
     result_bind (httpUrl T config k False) (\<lambda>_.
     result_bind (requireHttpsOutsideLocalhost T config k) (\<lambda>_.
     case et_url T (setting_text config k) of
       None \<Rightarrow> Inl (complaint ''Invalid URL'')
     | Some u \<Rightarrow>
         if node_env config = units ''production'' \<and> url_protocol u \<noteq> units ''https:''
         then Inl (complaint (k @ '' must use HTTPS in production''))
         else check_stripe_urls T config ks))"

definition validate_stripe_keys :: "env_tools \<Rightarrow> settings \<Rightarrow> error + unit" where
  "validate_stripe_keys T config =
     result_bind (all_required config stripe_keys) (\<lambda>_.
     if \<not> test (tagged ''sk_test_'') (setting_text config ''STRIPE_SECRET_KEY'')
     then Inl (complaint ''STRIPE_SECRET_KEY must be a Test Mode secret key'')
     else if \<not> test (tagged ''whsec_'') (setting_text config ''STRIPE_WEBHOOK_SECRET'')
     then Inl (complaint ''STRIPE_WEBHOOK_SECRET must be a webhook signing secret'')
     else
     result_bind (check_prices config price_keys) (\<lambda>_.
     if \<not> distinct (map (setting_text config) price_keys)
     then Inl (complaint ''Stripe plan Price IDs must be distinct'')
     else if \<not> test (p_whole [p_text ''mtr_'', p_optional (p_text ''test_''), p_plus p_alnum])
          (setting_text config ''STRIPE_OVERAGE_METER_ID'')
     then Inl (complaint ''STRIPE_OVERAGE_METER_ID must be a Stripe meter ID'')
     else if \<not> test (p_whole [p_plus (alnum_or ''_'')]) (setting_text config ''STRIPE_OVERAGE_EVENT_NAME'')
     then Inl (complaint ''STRIPE_OVERAGE_EVENT_NAME must contain only letters, digits and underscores'')
     else if \<not> test (tagged ''bpc_'') (setting_text config ''STRIPE_PORTAL_CONFIGURATION_ID'')
     then Inl (complaint ''STRIPE_PORTAL_CONFIGURATION_ID must be a Stripe Portal configuration ID'')
     else check_stripe_urls T config
       [''STRIPE_CHECKOUT_SUCCESS_URL'', ''STRIPE_CHECKOUT_CANCEL_URL'', ''STRIPE_PORTAL_RETURN_URL'']))"

definition validate_stripe :: "env_tools \<Rightarrow> settings \<Rightarrow> settings \<Rightarrow> error + settings" where
  "validate_stripe T config env =
     result_bind (env_boolean config ''STRIPE_ENABLED'' False) (\<lambda>enabled.
     result_bind (assign_integers config [(''STRIPE_SYNC_INTERVAL_MS'', 30000, 10000, 300000)]
        (env(''STRIPE_ENABLED'' \<mapsto> E_Bool enabled))) (\<lambda>env.
     if \<not> enabled then Inr env
     else result_bind (validate_stripe_keys T config) (\<lambda>_. Inr env)))"

section \<open>The assistant's providers\<close>

definition openrouter_integers :: "integer_setting list" where
  "openrouter_integers = [(''OPENROUTER_TIMEOUT_MS'', 30000, 5000, 120000),
     (''OPENROUTER_MAX_OUTPUT_TOKENS'', 1000, 64, 8192), (''OPENROUTER_MAX_TOOL_ITERATIONS'', 3, 1, 5)]"

definition assistant_integers :: "integer_setting list" where
  "assistant_integers = [(''AI_MAX_MESSAGE_CHARS'', 8000, 100, 50000), (''AI_MAX_HISTORY_MESSAGES'', 20, 2, 50),
     (''AI_MAX_CONTEXT_CHARS'', 40000, 1000, 200000), (''AI_MAX_CONVERSATION_MESSAGES'', 100, 2, 200),
     (''AI_MAX_CONVERSATIONS_PER_USER'', 100, 1, 1000), (''AI_RATE_LIMIT_PER_MINUTE'', 10, 1, 120)]"

definition number_of :: "settings \<Rightarrow> string \<Rightarrow> int" where
  "number_of env key = (case env key of Some (E_Number n) \<Rightarrow> n | _ \<Rightarrow> 0)"

definition replace_me :: pattern where
  "replace_me = p_text_i ''REPLACE_ME''"

definition placeholder :: pattern where
  "placeholder = P_Or replace_me (p_text_i ''PLACEHOLDER'')"

definition openrouter_key :: pattern where
  "openrouter_key = p_whole [p_text ''sk-or-v1-'', P_Repeat 32 None (alnum_or ''_-'')]"

definition model_pattern :: pattern where
  "model_pattern = p_whole [p_optional (p_char 126), p_alnum, p_star (alnum_or ''._-''), p_char 47,
     p_alnum, p_star (alnum_or ''._:-'')]"

definition sound_model :: "js_string \<Rightarrow> bool" where
  "sound_model m \<longleftrightarrow> test model_pattern m \<and> \<not> test replace_me m"

definition fallback_models :: "settings \<Rightarrow> js_string list" where
  "fallback_models config =
     filter (\<lambda>m. m \<noteq> []) (map js_trim (split_commas [] (setting_text config ''OPENROUTER_FALLBACK_MODELS'')))"

definition validate_models :: "settings \<Rightarrow> settings \<Rightarrow> error + settings" where
  "validate_models config env =
     result_bind (all_required config [''OPENROUTER_API_KEY'', ''OPENROUTER_MODEL'']) (\<lambda>_.
     let key = setting_text config ''OPENROUTER_API_KEY'';
         primary = js_trim (setting_text config ''OPENROUTER_MODEL'');
         fallbacks = fallback_models config in
     if \<not> test openrouter_key key \<or> test replace_me key
     then Inl (complaint ''OPENROUTER_API_KEY must be an OpenRouter API key'')
     else if \<not> sound_model primary
     then Inl (complaint ''OPENROUTER_MODEL must be a valid OpenRouter model ID'')
     else if length fallbacks > 3 \<or> \<not> list_all sound_model fallbacks \<or> \<not> distinct (primary # fallbacks)
     then Inl (complaint ''OPENROUTER_FALLBACK_MODELS must contain up to three distinct OpenRouter model IDs'')
     else Inr (env(''OPENROUTER_MODEL'' \<mapsto> E_Text primary, ''OPENROUTER_FALLBACK_MODELS'' \<mapsto> E_Texts fallbacks)))"

definition validate_openrouter :: "settings \<Rightarrow> settings \<Rightarrow> error + settings" where
  "validate_openrouter config env =
     result_bind (env_boolean config ''OPENROUTER_ENABLED'' False) (\<lambda>enabled.
     result_bind (assign_integers config openrouter_integers (env(''OPENROUTER_ENABLED'' \<mapsto> E_Bool enabled))) (\<lambda>env.
     result_bind (env_boolean config ''OPENROUTER_REQUIRE_ZDR'' False) (\<lambda>zdr.
     result_bind (assign_integers config assistant_integers (env(''OPENROUTER_REQUIRE_ZDR'' \<mapsto> E_Bool zdr))) (\<lambda>env.
     if number_of env ''AI_MAX_HISTORY_MESSAGES'' > number_of env ''AI_MAX_CONVERSATION_MESSAGES''
     then Inl (complaint ''AI_MAX_HISTORY_MESSAGES cannot exceed AI_MAX_CONVERSATION_MESSAGES'')
     else if number_of env ''AI_MAX_CONTEXT_CHARS'' < number_of env ''AI_MAX_MESSAGE_CHARS''
     then Inl (complaint ''AI_MAX_CONTEXT_CHARS cannot be less than AI_MAX_MESSAGE_CHARS'')
     else if enabled then validate_models config env
     else Inr (env(''OPENROUTER_FALLBACK_MODELS'' \<mapsto> E_Texts []))))))"

definition gemini_integers :: "integer_setting list" where
  "gemini_integers = [(''GEMINI_TIMEOUT_MS'', 30000, 5000, 120000), (''GEMINI_MAX_OUTPUT_TOKENS'', 2048, 64, 8192)]"

definition gemini_model :: pattern where
  "gemini_model = p_whole [p_text ''gemini-'', p_alnum, P_Repeat 1 (Some 99) (alnum_or ''._-'')]"

definition validate_gemini :: "settings \<Rightarrow> settings \<Rightarrow> error + settings" where
  "validate_gemini config env =
     result_bind (env_boolean config ''GEMINI_ENABLED'' False) (\<lambda>enabled.
     result_bind (assign_integers config gemini_integers (env(''GEMINI_ENABLED'' \<mapsto> E_Bool enabled))) (\<lambda>env.
     if \<not> enabled then Inr env
     else
     result_bind (all_required config [''GEMINI_API_KEY'', ''GEMINI_MODEL'']) (\<lambda>_.
     let key = setting_text config ''GEMINI_API_KEY''; model = js_trim (setting_text config ''GEMINI_MODEL'') in
     if length key < 20 \<or> length key > 256 \<or> list_ex js_space key \<or> test placeholder key
     then Inl (complaint ''GEMINI_API_KEY must be a valid backend API key'')
     else if \<not> test gemini_model model \<or> test placeholder model
     then Inl (complaint ''GEMINI_MODEL must be a valid Gemini model ID'')
     else Inr (env(''GEMINI_MODEL'' \<mapsto> E_Text model)))))"

section \<open>Storage, and the whole\<close>

definition aws_keys :: "string list" where
  "aws_keys = [''AWS_BUCKET_NAME'', ''AWS_REGION'', ''AWS_ACCESS_KEY_ID'', ''AWS_SECRET_ACCESS_KEY'', ''AWS_SESSION_TOKEN'']"

definition validate_aws :: "settings \<Rightarrow> error + unit" where
  "validate_aws config =
     (let present = (\<lambda>k. setting_text config k \<noteq> []);
          credentials = [''AWS_ACCESS_KEY_ID'', ''AWS_SECRET_ACCESS_KEY''] in
      if \<not> list_ex present aws_keys then Inr ()
      else
      result_bind (all_required config [''AWS_BUCKET_NAME'', ''AWS_REGION'']) (\<lambda>_.
      result_bind (if list_ex present credentials then all_required config credentials else Inr ()) (\<lambda>_.
      if present ''AWS_SESSION_TOKEN'' then all_required config credentials else Inr ())))"

definition validateEnvironment :: "env_tools \<Rightarrow> settings \<Rightarrow> error + settings" where
  "validateEnvironment T config =
     result_bind (validate_database config config) (\<lambda>env.
     result_bind (validate_server T config env) (\<lambda>env.
     result_bind (validate_email T config env) (\<lambda>env.
     result_bind (validate_cors T config) (\<lambda>_.
     result_bind (validate_google T config) (\<lambda>_.
     result_bind (validate_stripe T config env) (\<lambda>env.
     result_bind (validate_openrouter config env) (\<lambda>env.
     result_bind (validate_gemini config env) (\<lambda>env.
     result_bind (validate_aws config) (\<lambda>_. Inr env)))))))))"

end
