(* ===== verification/EnvironmentSafety.thy ===== *)
theory EnvironmentSafety
  imports Environment
begin

text \<open>
  What an accepted configuration promises the rest of the program: every number within its range,
  the limits of the assistant in order, a secret long enough, payments in test mode only, and
  nothing else of the input changed.
\<close>

section \<open>Stages\<close>

definition bounded_settings :: "integer_setting list \<Rightarrow> settings \<Rightarrow> bool" where
  "bounded_settings ints env \<longleftrightarrow> list_all (\<lambda>(k, d, lo, hi). \<exists>n. env k = Some (E_Number n) \<and> lo \<le> n \<and> n \<le> hi) ints"

definition same_except :: "string list \<Rightarrow> settings \<Rightarrow> settings \<Rightarrow> bool" where
  "same_except keys env env' \<longleftrightarrow> (\<forall>k. k \<notin> set keys \<longrightarrow> env' k = env k)"

lemma same_except_refl [simp]: "same_except keys env env"
  by (simp add: same_except_def)

lemma same_except_trans:
  "same_except ks e f \<Longrightarrow> same_except ls f g \<Longrightarrow> same_except (ks @ ls) e g"
  by (auto simp: same_except_def)

lemma same_exceptD: "same_except keys env env' \<Longrightarrow> k \<notin> set keys \<Longrightarrow> env' k = env k"
  by (simp add: same_except_def)

lemma bounded_settings_kept:
  assumes "bounded_settings ints env" "same_except keys env env'" "set (map fst ints) \<inter> set keys = {}"
  shows "bounded_settings ints env'"
proof -
  have "env' k = env k" if "(k, d, lo, hi) \<in> set ints" for k d lo hi
    using assms(2,3) that by (force intro: same_exceptD)
  then show ?thesis using assms(1) unfolding bounded_settings_def list_all_iff by fastforce
qed

lemma bounded_number_range: "bounded_number v lo hi e = Inr n \<Longrightarrow> lo \<le> n \<and> n \<le> hi"
  by (auto simp: bounded_number_def split: if_splits)

lemma assign_integers_bounded:
  "assign_integers config ints env = Inr env' \<Longrightarrow> distinct (map fst ints) \<Longrightarrow>
     bounded_settings ints env' \<and> same_except (map fst ints) env env'"
proof (induction config ints env rule: assign_integers.induct)
  case (2 config key d lo hi rest env)
  obtain n where n: "env_integer config key d lo hi = Inr n"
    and r: "assign_integers config rest (env(key \<mapsto> E_Number n)) = Inr env'"
    using "2.prems" by (auto simp: result_bind_Inr_iff)
  have d: "distinct (map fst rest)" using "2.prems"(2) by simp
  note i = conjunct1 [OF "2.IH" [OF r d]] conjunct2 [OF "2.IH" [OF r d]]
  have "env' key = Some (E_Number n)" using same_exceptD [OF i(2), of key] "2.prems"(2) by simp
  then show ?case using i n by (auto simp: bounded_settings_def same_except_def env_integer_def dest: bounded_number_range)
qed (simp add: bounded_settings_def)

definition server_integers :: "integer_setting list" where
  "server_integers = [(''PORT'', 3000, 1, 65535), (''TRUST_PROXY_HOPS'', 0, 0, 10),
     (''FILE_MAX_SIZE_BYTES'', 10485760, 1, 104857600)]"

definition stripe_integers :: "integer_setting list" where
  "stripe_integers = [(''STRIPE_SYNC_INTERVAL_MS'', 30000, 10000, 300000)]"

lemma database_stage:
  assumes "validate_database config env = Inr env'"
  shows "bounded_settings mongo_integers env'" "same_except (''NODE_ENV'' # map fst mongo_integers) env env'"
proof -
  have a: "assign_integers config mongo_integers (env(''NODE_ENV'' \<mapsto> E_Text (node_env config))) = Inr env'"
    using assms by (auto simp: validate_database_def result_bind_Inr_iff split: if_splits)
  have d: "distinct (map fst mongo_integers)" by (simp add: mongo_integers_def)
  from assign_integers_bounded [OF a d]
  show "bounded_settings mongo_integers env'" "same_except (''NODE_ENV'' # map fst mongo_integers) env env'"
    by (auto simp: same_except_def)
qed

lemma server_stage:
  assumes "validate_server T config env = Inr env'"
  shows "bounded_settings server_integers env'" "same_except (map fst server_integers) env env'"
    "32 \<le> length (setting_text config ''JWT_SECRET'')"
proof -
  obtain port mid n where p: "1 \<le> port" "port \<le> 65535"
    and a: "assign_integers config [(''TRUST_PROXY_HOPS'', 0, 0, 10)] (env(''PORT'' \<mapsto> E_Number port)) = Inr mid"
    and n: "1 \<le> n" "n \<le> 104857600" and e: "env' = mid(''FILE_MAX_SIZE_BYTES'' \<mapsto> E_Number n)"
    and j: "\<not> length (setting_text config ''JWT_SECRET'') < 32"
    using assms by (auto simp: validate_server_def result_bind_Inr_iff split: if_splits dest!: bounded_number_range)
  note m = assign_integers_bounded [OF a, simplified]
  have "mid ''PORT'' = Some (E_Number port)" using m by (auto simp: same_except_def)
  then show "bounded_settings server_integers env'" "same_except (map fst server_integers) env env'"
    "32 \<le> length (setting_text config ''JWT_SECRET'')"
    using m p n j by (auto simp: e server_integers_def bounded_settings_def same_except_def)
qed

definition smtp_keys :: "string list" where
  "smtp_keys = [''SMTP_PORT'', ''SMTP_SECURE'', ''SMTP_REQUIRE_TLS'']"

definition smtp_integers :: "integer_setting list" where
  "smtp_integers = [(''SMTP_PORT'', 587, 1, 65535)]"

lemma smtp_stage:
  assumes "validate_smtp T config env = Inr env'"
  shows "same_except smtp_keys env env'" "bounded_settings smtp_integers env'"
proof -
  obtain v m secure tls port where p: "bounded_number v 1 65535 m = Inr port"
    and e: "env' = env(''SMTP_PORT'' \<mapsto> E_Number port, ''SMTP_SECURE'' \<mapsto> E_Bool secure, ''SMTP_REQUIRE_TLS'' \<mapsto> E_Bool tls)"
    using assms unfolding validate_smtp_def Let_def
    by (simp only: result_bind_Inr_iff if_split_asm split: if_splits) auto
  show "same_except smtp_keys env env'" "bounded_settings smtp_integers env'"
    using bounded_number_range [OF p] by (simp_all add: e same_except_def smtp_keys_def smtp_integers_def bounded_settings_def)
qed

lemma email_stage:
  assumes "validate_email T config env = Inr env'"
  shows "same_except smtp_keys env env'"
    "setting_text config ''EMAIL_PROVIDER'' = units ''smtp'' \<Longrightarrow> bounded_settings smtp_integers env'"
proof -
  have s: "validate_smtp T config env = Inr env'" if "setting_text config ''EMAIL_PROVIDER'' = units ''smtp''"
    using assms that by (simp add: validate_email_def Let_def result_bind_Inr_iff)
  show "bounded_settings smtp_integers env'" if "setting_text config ''EMAIL_PROVIDER'' = units ''smtp''"
    by (rule smtp_stage(2) [OF s [OF that]])
  show "same_except smtp_keys env env'"
  proof (cases "setting_text config ''EMAIL_PROVIDER'' = units ''smtp''")
    case True
    then show ?thesis by (rule smtp_stage(1) [OF s])
  next
    case False
    then have "env' = env" using assms unfolding validate_email_def Let_def
      by (simp only: result_bind_Inr_iff if_False simp_thms split: if_splits) auto
    then show ?thesis by simp
  qed
qed

lemma stripe_stage:
  assumes "validate_stripe T config env = Inr env'"
  shows "bounded_settings stripe_integers env'" "same_except (''STRIPE_ENABLED'' # map fst stripe_integers) env env'"
    "env' ''STRIPE_ENABLED'' = Some (E_Bool True) \<Longrightarrow>
       test (tagged ''sk_test_'') (setting_text config ''STRIPE_SECRET_KEY'')"
proof -
  obtain enabled where a: "assign_integers config stripe_integers (env(''STRIPE_ENABLED'' \<mapsto> E_Bool enabled)) = Inr env'"
    and k: "enabled \<longrightarrow> validate_stripe_keys T config = Inr ()"
    using assms by (auto simp: validate_stripe_def stripe_integers_def result_bind_Inr_iff split: if_splits)
  have d: "distinct (map fst stripe_integers)" by (simp add: stripe_integers_def)
  note b = assign_integers_bounded [OF a d]
  have "env' ''STRIPE_ENABLED'' = Some (E_Bool enabled)" using b by (auto simp: same_except_def stripe_integers_def)
  then show "bounded_settings stripe_integers env'" "same_except (''STRIPE_ENABLED'' # map fst stripe_integers) env env'"
    "env' ''STRIPE_ENABLED'' = Some (E_Bool True) \<Longrightarrow>
       test (tagged ''sk_test_'') (setting_text config ''STRIPE_SECRET_KEY'')"
    using b k by (auto simp: same_except_def validate_stripe_keys_def result_bind_Inr_iff split: if_splits)
qed

definition assistant_keys :: "string list" where
  "assistant_keys = [''OPENROUTER_ENABLED'', ''OPENROUTER_REQUIRE_ZDR'', ''OPENROUTER_MODEL'', ''OPENROUTER_FALLBACK_MODELS'']
     @ map fst (openrouter_integers @ assistant_integers)"

lemma openrouter_stage:
  assumes "validate_openrouter config env = Inr env'"
  shows "bounded_settings (openrouter_integers @ assistant_integers) env'" "same_except assistant_keys env env'"
    "number_of env' ''AI_MAX_HISTORY_MESSAGES'' \<le> number_of env' ''AI_MAX_CONVERSATION_MESSAGES''"
    "number_of env' ''AI_MAX_MESSAGE_CHARS'' \<le> number_of env' ''AI_MAX_CONTEXT_CHARS''"
proof -
  obtain enabled zdr mid last where
    a: "assign_integers config openrouter_integers (env(''OPENROUTER_ENABLED'' \<mapsto> E_Bool enabled)) = Inr mid"
    and b: "assign_integers config assistant_integers (mid(''OPENROUTER_REQUIRE_ZDR'' \<mapsto> E_Bool zdr)) = Inr last"
    and c: "\<not> number_of last ''AI_MAX_HISTORY_MESSAGES'' > number_of last ''AI_MAX_CONVERSATION_MESSAGES''"
      "\<not> number_of last ''AI_MAX_CONTEXT_CHARS'' < number_of last ''AI_MAX_MESSAGE_CHARS''"
    and e: "(if enabled then validate_models config last
             else Inr (last(''OPENROUTER_FALLBACK_MODELS'' \<mapsto> E_Texts []))) = Inr env'"
    using assms by (auto simp: validate_openrouter_def result_bind_Inr_iff split: if_splits)
  have d: "distinct (map fst openrouter_integers)" "distinct (map fst assistant_integers)"
    by (simp_all add: openrouter_integers_def assistant_integers_def)
  note i = assign_integers_bounded [OF a d(1)] and j = assign_integers_bounded [OF b d(2)]
  have models: "same_except [''OPENROUTER_MODEL'', ''OPENROUTER_FALLBACK_MODELS''] last env'"
    using e by (auto simp: validate_models_def Let_def result_bind_Inr_iff same_except_def split: if_splits)
  have step: "same_except (''OPENROUTER_REQUIRE_ZDR'' # map fst assistant_integers) mid last"
    using j by (auto simp: same_except_def)
  have "bounded_settings openrouter_integers last"
    by (rule bounded_settings_kept [OF _ step]) (use i in \<open>simp_all add: openrouter_integers_def assistant_integers_def\<close>)
  then have "bounded_settings (openrouter_integers @ assistant_integers) last" using j by (simp add: bounded_settings_def)
  then show "bounded_settings (openrouter_integers @ assistant_integers) env'"
    by (rule bounded_settings_kept [OF _ models]) (simp add: openrouter_integers_def assistant_integers_def)
  show "same_except assistant_keys env env'"
    using i step models by (auto simp: same_except_def assistant_keys_def)
  have "number_of env' k = number_of last k" if "k \<notin> {''OPENROUTER_MODEL'', ''OPENROUTER_FALLBACK_MODELS''}" for k
    using same_exceptD [OF models, of k] that by (simp add: number_of_def)
  then show "number_of env' ''AI_MAX_HISTORY_MESSAGES'' \<le> number_of env' ''AI_MAX_CONVERSATION_MESSAGES''"
    "number_of env' ''AI_MAX_MESSAGE_CHARS'' \<le> number_of env' ''AI_MAX_CONTEXT_CHARS''"
    using c by simp_all
qed

lemma gemini_stage:
  assumes "validate_gemini config env = Inr env'"
  shows "bounded_settings gemini_integers env'"
    "same_except ([''GEMINI_ENABLED'', ''GEMINI_MODEL''] @ map fst gemini_integers) env env'"
proof -
  obtain enabled mid where
    a: "assign_integers config gemini_integers (env(''GEMINI_ENABLED'' \<mapsto> E_Bool enabled)) = Inr mid"
    and e: "same_except [''GEMINI_MODEL''] mid env'"
    using assms by (auto simp: validate_gemini_def Let_def result_bind_Inr_iff same_except_def split: if_splits)
  have d: "distinct (map fst gemini_integers)" by (simp add: gemini_integers_def)
  note i = assign_integers_bounded [OF a d]
  show "bounded_settings gemini_integers env'"
    by (rule bounded_settings_kept [OF _ e]) (use i in \<open>simp_all add: gemini_integers_def\<close>)
  show "same_except ([''GEMINI_ENABLED'', ''GEMINI_MODEL''] @ map fst gemini_integers) env env'"
    using i e by (auto simp: same_except_def)
qed

section \<open>The whole\<close>

definition all_integers :: "integer_setting list" where
  "all_integers = mongo_integers @ server_integers @ stripe_integers @ openrouter_integers @ assistant_integers @ gemini_integers"

definition parsed_keys :: "string list" where
  "parsed_keys = [''NODE_ENV'', ''STRIPE_ENABLED'', ''GEMINI_ENABLED'', ''GEMINI_MODEL''] @ smtp_keys @ assistant_keys
     @ map fst all_integers"

lemmas setting_lists = mongo_integers_def server_integers_def stripe_integers_def openrouter_integers_def
  assistant_integers_def gemini_integers_def smtp_integers_def smtp_keys_def assistant_keys_def

lemma validateEnvironment_stages:
  assumes "validateEnvironment T config = Inr env"
  obtains a b c d e where "validate_database config config = Inr a" "validate_server T config a = Inr b"
    "validate_email T config b = Inr c" "validate_stripe T config c = Inr d" "validate_openrouter config d = Inr e"
    "validate_gemini config e = Inr env"
  using assms by (auto simp: validateEnvironment_def result_bind_Inr_iff)

text \<open>
  C38. A configuration that is accepted is safe to run with: every numeric setting is a number within
  its range, the history sent to a model fits in a conversation and a message in a context, the
  signing secret has at least 32 characters, payments are on only with a test-mode key, the port
  of an SMTP server is one, and every setting the validation does not parse is passed on unchanged.
\<close>

theorem environment_bounds:
  assumes "validateEnvironment T config = Inr env"
  shows "bounded_settings all_integers env
    \<and> number_of env ''AI_MAX_HISTORY_MESSAGES'' \<le> number_of env ''AI_MAX_CONVERSATION_MESSAGES''
    \<and> number_of env ''AI_MAX_MESSAGE_CHARS'' \<le> number_of env ''AI_MAX_CONTEXT_CHARS''
    \<and> 32 \<le> length (setting_text config ''JWT_SECRET'')
    \<and> (env ''STRIPE_ENABLED'' = Some (E_Bool True) \<longrightarrow>
         test (tagged ''sk_test_'') (setting_text config ''STRIPE_SECRET_KEY''))
    \<and> (setting_text config ''EMAIL_PROVIDER'' = units ''smtp'' \<longrightarrow> bounded_settings smtp_integers env)
    \<and> (\<forall>k. k \<notin> set parsed_keys \<longrightarrow> env k = config k)"
proof -
  obtain a b c d e where s: "validate_database config config = Inr a" "validate_server T config a = Inr b"
    "validate_email T config b = Inr c" "validate_stripe T config c = Inr d" "validate_openrouter config d = Inr e"
    "validate_gemini config e = Inr env"
    using assms by (rule validateEnvironment_stages)
  note db = database_stage [OF s(1)] and sv = server_stage [OF s(2)] and em = email_stage [OF s(3)]
    and st = stripe_stage [OF s(4)] and ai = openrouter_stage [OF s(5)] and ge = gemini_stage [OF s(6)]
  note from_ai = ge(2)
  note from_st = same_except_trans [OF ai(2) from_ai]
  note from_em = same_except_trans [OF st(2) from_st]
  note from_sv = same_except_trans [OF em(1) from_em]
  note from_db = same_except_trans [OF sv(2) from_sv]
  have "bounded_settings (openrouter_integers @ assistant_integers) env"
    by (rule bounded_settings_kept [OF ai(1) from_ai]) (simp add: setting_lists)
  moreover have "bounded_settings stripe_integers env"
    by (rule bounded_settings_kept [OF st(1) from_st]) (simp add: setting_lists)
  moreover have "bounded_settings server_integers env"
    by (rule bounded_settings_kept [OF sv(1) from_sv]) (simp add: setting_lists)
  moreover have "bounded_settings mongo_integers env"
    by (rule bounded_settings_kept [OF db(1) from_db]) (simp add: setting_lists)
  ultimately have bounds: "bounded_settings all_integers env"
    using ge(1) by (simp add: all_integers_def bounded_settings_def)
  have "number_of env k = number_of e k" if "k \<in> set (map fst assistant_integers)" for k
    using same_exceptD [OF from_ai, of k] that by (auto simp: number_of_def setting_lists)
  then have order: "number_of env ''AI_MAX_HISTORY_MESSAGES'' \<le> number_of env ''AI_MAX_CONVERSATION_MESSAGES''"
    "number_of env ''AI_MAX_MESSAGE_CHARS'' \<le> number_of env ''AI_MAX_CONTEXT_CHARS''"
    using ai(3,4) by (simp_all add: setting_lists)
  have stripe: "env ''STRIPE_ENABLED'' = d ''STRIPE_ENABLED''"
    by (rule same_exceptD [OF from_st]) (simp add: setting_lists)
  have smtp: "setting_text config ''EMAIL_PROVIDER'' = units ''smtp'' \<Longrightarrow> bounded_settings smtp_integers env"
    by (rule bounded_settings_kept [OF em(2) from_em]) (simp_all add: setting_lists)
  have rest: "env k = config k" if "k \<notin> set parsed_keys" for k
    by (rule same_exceptD [OF same_except_trans [OF db(2) from_db]])
       (use that in \<open>simp add: parsed_keys_def all_integers_def setting_lists\<close>)
  show ?thesis using bounds order sv(3) st(3) stripe smtp rest by auto
qed

end
