(* ===== verification/Maintenance.thy ===== *)
theory Maintenance
  imports Administration BillingPeriod Patterns
begin

text \<open>
  The maintenance commands that change the database: the removal of a company that never went past
  sign-up (\<open>maintenance/cleanup-disposable-company.service.ts\<close>) and the reset of Stripe test state
  (\<open>maintenance/reset-stripe-test.service.ts\<close>). They work on the stored documents themselves, not on
  the records of the application: a document is a list of fields with the values the database holds,
  whatever their types, so that malformed references are seen as the commands see them.
\<close>

section \<open>Documents\<close>

text \<open>
  Integers are numbers as the driver returns them; every other number, and every type the commands do
  not look at, is \<open>B_Other\<close>. A date outside the range of the language is an invalid \<open>Date\<close>.
\<close>

datatype bson =
    B_Null | B_Id nat | B_Date date | B_Int int | B_Text js_string | B_Bool bool | B_Array "bson list" | B_Other

type_synonym document = "(string \<times> bson) list"

definition doc_field :: "document \<Rightarrow> string \<Rightarrow> bson option" where
  "doc_field d k = map_of d k"

definition text_value :: "string \<Rightarrow> bson" where
  "text_value s = B_Text (units s)"

definition has_field :: "document \<Rightarrow> string \<Rightarrow> bool" where
  "has_field d k \<longleftrightarrow> doc_field d k \<noteq> None"

definition field_is :: "document \<Rightarrow> string \<Rightarrow> bson \<Rightarrow> bool" where
  "field_is d k v \<longleftrightarrow> doc_field d k = Some v"

definition absent_or :: "document \<Rightarrow> string \<Rightarrow> bson \<Rightarrow> bool" where
  "absent_or d k v \<longleftrightarrow> \<not> has_field d k \<or> field_is d k v"

definition finite_date :: "date \<Rightarrow> bool" where
  "finite_date t \<longleftrightarrow> abs t \<le> 8640000000000000"

definition date_field :: "document \<Rightarrow> string \<Rightarrow> date option" where
  "date_field d k = (case doc_field d k of Some (B_Date t) \<Rightarrow> Some t | _ \<Rightarrow> None)"

definition text_field :: "document \<Rightarrow> string \<Rightarrow> js_string option" where
  "text_field d k = (case doc_field d k of Some (B_Text t) \<Rightarrow> Some t | _ \<Rightarrow> None)"

text \<open>\<open>Number.isSafeInteger(value) && value >= 0\<close>.\<close>

definition counter_field :: "document \<Rightarrow> string \<Rightarrow> int option" where
  "counter_field d k = (case doc_field d k of
     Some (B_Int n) \<Rightarrow> if 0 \<le> n \<and> n \<le> 9007199254740991 then Some n else None | _ \<Rightarrow> None)"

section \<open>Queries\<close>

text \<open>
  A predicate on a field holds of its value or, when that is an array, of one of its elements.
\<close>

definition on_field :: "(bson \<Rightarrow> bool) \<Rightarrow> string \<Rightarrow> document \<Rightarrow> bool" where
  "on_field p k d = (case doc_field d k of
     Some (B_Array vs) \<Rightarrow> p (B_Array vs) \<or> list_ex p vs | Some v \<Rightarrow> p v | None \<Rightarrow> False)"

definition stores :: "string \<Rightarrow> bson \<Rightarrow> document \<Rightarrow> bool" where
  "stores k v = on_field (\<lambda>w. w = v) k"

definition hex_digit_value :: "nat \<Rightarrow> nat" where
  "hex_digit_value c = (if is_digit c then c - 48 else lower c - 87)"

definition object_id_of :: "js_string \<Rightarrow> nat" where
  "object_id_of s = foldl (\<lambda>n c. 16 * n + hex_digit_value c) 0 s"

text \<open>
  The expression \<open>^<hex of the id>$\<close> without regard to case, as the database matches it: a final
  line feed may follow.
\<close>

definition spells_id :: "nat \<Rightarrow> js_string \<Rightarrow> bool" where
  "spells_id i s =
     (let t = (if s \<noteq> [] \<and> last s = 10 then butlast s else s) in
      length t = 24 \<and> list_all is_hex t \<and> object_id_of t = i)"

fun refers_to :: "nat \<Rightarrow> bson \<Rightarrow> bool" where
  "refers_to i (B_Id j) = (j = i)"
| "refers_to i (B_Text s) = spells_id i s"
| "refers_to i _ = False"

text \<open>\<open>{ [field]: { $in: [id, expression] } }\<close>.\<close>

definition references :: "string \<Rightarrow> nat \<Rightarrow> document \<Rightarrow> bool" where
  "references k i = on_field (refers_to i) k"

abbreviation of_tenant :: "nat \<Rightarrow> document \<Rightarrow> bool" where
  "of_tenant \<equiv> references ''companyId''"

record database =
  db_companies :: "document list"
  db_users :: "document list"
  db_subscriptions :: "document list"
  db_verifications :: "document list"
  db_files :: "document list"
  db_invitations :: "document list"
  db_periods :: "document list"
  db_stripeEvents :: "document list"
  db_stripeUsage :: "document list"
  db_aiConversations :: "document list"
  db_aiMessages :: "document list"
  db_aiUsage :: "document list"
  db_audits :: "document list"

section \<open>Failures\<close>

datatype cleanup_reason =
    C_ProductionEnvironment | C_MaintenanceNotConfirmed | C_CompanyNotFound | C_Activated | C_History
  | C_PlatformHistory | C_Users | C_Subscription | C_Files | C_Invitations | C_Periods | C_Stripe
  | C_AiHistory | C_Verification

datatype reset_reason =
    R_Production | R_Confirmation | R_Company | R_Subscription | R_PaidOrManaged | R_InFlight | R_History
  | R_UnknownState | R_NoMapping | R_Revision | R_BasicRecoveryState | R_FreeCapacity | R_Account | R_Period

datatype maintenance_failure =
    Cli_Failed cli_failure | Cleanup_Refused cleanup_reason | Reset_Refused reset_reason

type_synonym 'a maintenance = "(database, maintenance_failure, 'a) action"

text \<open>
  A transaction: the database may not answer at all, the body may fail, and the commit may fail or
  stay unknown. Whatever is no failure of the command's own is reported as one of the transaction.
\<close>

definition maintenance_transaction :: "bool \<Rightarrow> commit_outcome \<Rightarrow> 'a maintenance \<Rightarrow> 'a maintenance" where
  "maintenance_transaction answers outcome body s =
     (if \<not> answers then (Inl (Cli_Failed MONGO_TRANSACTION), s)
      else case body s of
        (Inl e, _) \<Rightarrow> (Inl e, s)
      | (Inr x, t) \<Rightarrow>
          (case outcome of
             Committed \<Rightarrow> (Inr x, t)
           | Unknown_Applied \<Rightarrow> (Inl (Cli_Failed MONGO_TRANSACTION), t)
           | _ \<Rightarrow> (Inl (Cli_Failed MONGO_TRANSACTION), s)))"

definition refuse_cleanup :: "cleanup_reason \<Rightarrow> maintenance_failure + 'a" where
  "refuse_cleanup r = Inl (Cleanup_Refused r)"

definition refuse_reset :: "reset_reason \<Rightarrow> maintenance_failure + 'a" where
  "refuse_reset r = Inl (Reset_Refused r)"

definition test_environment :: "js_string option \<Rightarrow> bool" where
  "test_environment e \<longleftrightarrow> e \<in> {Some (units ''development''), Some (units ''test'')}"

section \<open>Clean-up: options\<close>

record cleanup_options =
  co_companyId :: js_string
  co_environment :: "js_string option"
  co_confirmDisposable :: bool
  co_confirmApplicationStopped :: bool

definition validateCleanupOptions :: "cleanup_options \<Rightarrow> maintenance_failure + unit" where
  "validateCleanupOptions opts =
     (if \<not> test_environment (co_environment opts) then refuse_cleanup C_ProductionEnvironment
      else if \<not> test p_object_id (co_companyId opts) then Inl (Cli_Failed INVALID_CLEANUP_ARGUMENTS)
      else if co_confirmDisposable opts \<and> \<not> co_confirmApplicationStopped opts
      then refuse_cleanup C_MaintenanceNotConfirmed
      else Inr ())"

fun cleanup_loop ::
  "js_string list \<Rightarrow> js_string option \<Rightarrow> js_string list \<Rightarrow> maintenance_failure + js_string option \<times> js_string list" where
  "cleanup_loop [] companyId flags = Inr (companyId, flags)"
| "cleanup_loop (arg # rest) companyId flags =
     (if arg \<in> set flags then Inl (Cli_Failed INVALID_CLEANUP_ARGUMENTS)
      else if arg = units ''--company-id'' then
        (case rest of
           [] \<Rightarrow> Inr (None, arg # flags)
         | v # rest' \<Rightarrow> cleanup_loop rest' (Some v) (arg # flags))
      else if arg \<notin> {units ''--confirm-disposable'', units ''--confirm-app-stopped''}
      then Inl (Cli_Failed INVALID_CLEANUP_ARGUMENTS)
      else cleanup_loop rest companyId (arg # flags))"

definition cleanupArguments :: "js_string list \<Rightarrow> js_string option \<Rightarrow> maintenance_failure + cleanup_options" where
  "cleanupArguments args environment =
     result_bind (cleanup_loop args None []) (\<lambda>(companyId, flags).
     let disposable = units ''--confirm-disposable'' \<in> set flags;
         stopped = units ''--confirm-app-stopped'' \<in> set flags;
         bad = Inl (Cli_Failed INVALID_CLEANUP_ARGUMENTS) in
     case companyId of
       None \<Rightarrow> bad
     | Some i \<Rightarrow>
         if i = [] \<or> \<not> test p_object_id i \<or> stopped \<and> \<not> disposable then bad
         else Inr \<lparr>co_companyId = i, co_environment = environment, co_confirmDisposable = disposable,
                   co_confirmApplicationStopped = stopped\<rparr>)"

section \<open>Clean-up: what is pristine\<close>

definition metadata :: "string list" where
  "metadata = [''_id'', ''__v'', ''createdAt'', ''updatedAt'']"

definition knownFields :: "document \<Rightarrow> string list \<Rightarrow> bool" where
  "knownFields d names \<longleftrightarrow>
     list_all (\<lambda>(k, _). k \<in> set (metadata @ names)) d \<and> absent_or d ''__v'' (B_Int 0)"

definition same_times :: "document \<Rightarrow> string \<Rightarrow> string \<Rightarrow> bool" where
  "same_times d k l =
     (case (date_field d k, date_field d l) of
        (Some t, Some u) \<Rightarrow> finite_date t \<and> t = u | _ \<Rightarrow> False)"

definition pristineTimestamps :: "document \<Rightarrow> bool" where
  "pristineTimestamps d = same_times d ''createdAt'' ''updatedAt''"

definition sameId :: "document \<Rightarrow> string \<Rightarrow> nat \<Rightarrow> bool" where
  "sameId d k i = field_is d k (B_Id i)"

definition id_of :: "document \<Rightarrow> nat option" where
  "id_of d = (case doc_field d ''_id'' of Some (B_Id i) \<Rightarrow> Some i | _ \<Rightarrow> None)"

text \<open>A projection that leaves one field out.\<close>

definition without_field :: "string \<Rightarrow> document \<Rightarrow> document" where
  "without_field k d = filter (\<lambda>(l, _). l \<noteq> k) d"

definition check_company :: "document option \<Rightarrow> maintenance_failure + unit" where
  "check_company company =
     (case company of
        None \<Rightarrow> refuse_cleanup C_CompanyNotFound
      | Some d \<Rightarrow>
          if \<not> field_is d ''activatedAt'' B_Null then refuse_cleanup C_Activated
          else if \<not> absent_or d ''platformStatus'' (text_value ''active'') \<or> has_field d ''platformStatusReason''
             \<or> has_field d ''platformStatusChangedAt'' \<or> has_field d ''platformStatusChangedBy''
          then refuse_cleanup C_PlatformHistory
          else if \<not> pristineTimestamps d
             \<or> \<not> knownFields d [''name'', ''country'', ''industry'', ''activatedAt'', ''platformStatus'']
          then refuse_cleanup C_History
          else Inr ())"

definition pristine_owner :: "nat \<Rightarrow> document \<Rightarrow> bool" where
  "pristine_owner companyId d \<longleftrightarrow> field_is d ''role'' (text_value ''company_owner'') \<and> sameId d ''companyId'' companyId
     \<and> pristineTimestamps d \<and> knownFields d [''companyId'', ''role'', ''fullName'', ''email'']"

definition pristine_subscription :: "nat \<Rightarrow> document \<Rightarrow> bool" where
  "pristine_subscription companyId d \<longleftrightarrow>
     id_of d \<noteq> None \<and> sameId d ''companyId'' companyId \<and> field_is d ''planCode'' (text_value ''free'')
     \<and> field_is d ''revision'' (B_Int 0) \<and> absent_or d ''stripeManaged'' (B_Bool False)
     \<and> absent_or d ''paymentAccess'' (text_value ''unmanaged'') \<and> absent_or d ''paymentSyncIssue'' (text_value ''none'')
     \<and> absent_or d ''stripeCancelAtPeriodEnd'' (B_Bool False) \<and> absent_or d ''stripePlanConfirmed'' (B_Bool False)
     \<and> same_times d ''activatedAt'' ''planChangedAt'' \<and> pristineTimestamps d
     \<and> knownFields d [''companyId'', ''planCode'', ''activatedAt'', ''planChangedAt'', ''revision'', ''stripeManaged'',
          ''paymentAccess'', ''paymentSyncIssue'', ''stripeCancelAtPeriodEnd'', ''stripePlanConfirmed'']"

definition consistent_verification :: "nat \<Rightarrow> nat \<Rightarrow> document \<Rightarrow> bool" where
  "consistent_verification companyId owner d \<longleftrightarrow>
     id_of d \<noteq> None \<and> sameId d ''companyId'' companyId \<and> sameId d ''ownerId'' owner
     \<and> knownFields d [''companyId'', ''ownerId'', ''expiresAt'', ''lastSentAt'']"

text \<open>What the inspection returns, or the first reason to refuse.\<close>

record cleanup_checked =
  cc_owner :: nat
  cc_subscription :: nat
  cc_verifications :: "document list"

definition no_dependents :: "database \<Rightarrow> nat \<Rightarrow> nat \<Rightarrow> maintenance_failure + unit" where
  "no_dependents db companyId owner =
     (let unused = (\<lambda>ds k. \<not> list_ex (\<lambda>d. of_tenant companyId d \<or> references k owner d) ds);
          tenantless = (\<lambda>ds. \<not> list_ex (of_tenant companyId) ds) in
      if \<not> unused (db_files db) ''uploaderId'' then refuse_cleanup C_Files
      else if \<not> unused (db_invitations db) ''invitedBy'' then refuse_cleanup C_Invitations
      else if \<not> tenantless (db_periods db) then refuse_cleanup C_Periods
      else if \<not> tenantless (db_stripeEvents db) \<or> \<not> tenantless (db_stripeUsage db) then refuse_cleanup C_Stripe
      else if \<not> unused (db_aiConversations db) ''userId'' \<or> \<not> unused (db_aiMessages db) ''userId''
         \<or> \<not> unused (db_aiUsage db) ''userId'' then refuse_cleanup C_AiHistory
      else if list_ex (\<lambda>d. references ''targetId'' companyId d \<or> references ''targetId'' owner d
             \<or> references ''actorId'' owner d) (db_audits db) then refuse_cleanup C_PlatformHistory
      else Inr ())"

definition inspect_cleanup :: "database \<Rightarrow> nat \<Rightarrow> maintenance_failure + cleanup_checked" where
  "inspect_cleanup db companyId =
     result_bind (check_company (find (stores ''_id'' (B_Id companyId)) (db_companies db))) (\<lambda>_.
     case map (without_field ''password'') (filter (of_tenant companyId) (db_users db)) of
       [u] \<Rightarrow>
         if \<not> pristine_owner companyId u then refuse_cleanup C_Users
         else (case id_of u of
           None \<Rightarrow> refuse_cleanup C_Users
         | Some owner \<Rightarrow>
             (case filter (of_tenant companyId) (db_subscriptions db) of
               [subscription] \<Rightarrow>
                 if \<not> pristine_subscription companyId subscription then refuse_cleanup C_Subscription
                 else
                 result_bind (no_dependents db companyId owner) (\<lambda>_.
                 let vs = map (without_field ''tokenHash'')
                       (filter (\<lambda>d. of_tenant companyId d \<or> references ''ownerId'' owner d) (db_verifications db)) in
                 if length vs > 1 \<or> \<not> list_all (consistent_verification companyId owner) vs
                 then refuse_cleanup C_Verification
                 else Inr \<lparr>cc_owner = owner, cc_subscription = the (id_of subscription), cc_verifications = vs\<rparr>)
             | _ \<Rightarrow> refuse_cleanup C_Subscription))
     | _ \<Rightarrow> refuse_cleanup C_Users)"

section \<open>Clean-up: the command\<close>

record cleanup_counts =
  cn_companies :: nat
  cn_ownerUsers :: nat
  cn_freeSubscriptions :: nat
  cn_verificationRecords :: nat

text \<open>The mode is \<open>deleted\<close> when counts of what was deleted are there, else \<open>dry_run\<close>.\<close>

record cleanup_report =
  cr_companyId :: nat
  cr_matched :: cleanup_counts
  cr_deleted :: "cleanup_counts option"

definition verification_filter :: "nat \<Rightarrow> cleanup_checked \<Rightarrow> document \<Rightarrow> bool" where
  "verification_filter companyId checked d \<longleftrightarrow>
     list_ex (\<lambda>i. stores ''_id'' (B_Id i) d) (map (the \<circ> id_of) (cc_verifications checked))
     \<and> stores ''companyId'' (B_Id companyId) d \<and> stores ''ownerId'' (B_Id (cc_owner checked)) d"

definition owner_filter :: "nat \<Rightarrow> cleanup_checked \<Rightarrow> document \<Rightarrow> bool" where
  "owner_filter companyId checked d \<longleftrightarrow> stores ''_id'' (B_Id (cc_owner checked)) d
     \<and> stores ''companyId'' (B_Id companyId) d \<and> stores ''role'' (text_value ''company_owner'') d"

definition subscription_filter :: "nat \<Rightarrow> cleanup_checked \<Rightarrow> document \<Rightarrow> bool" where
  "subscription_filter companyId checked d \<longleftrightarrow> stores ''_id'' (B_Id (cc_subscription checked)) d
     \<and> stores ''companyId'' (B_Id companyId) d \<and> stores ''planCode'' (text_value ''free'') d
     \<and> stores ''revision'' (B_Int 0) d"

definition company_filter_unactivated :: "nat \<Rightarrow> document \<Rightarrow> bool" where
  "company_filter_unactivated companyId d \<longleftrightarrow>
     stores ''_id'' (B_Id companyId) d \<and> stores ''activatedAt'' B_Null d"

definition delete_checked :: "nat \<Rightarrow> cleanup_checked \<Rightarrow> database \<Rightarrow> database" where
  "delete_checked companyId checked db = db
     \<lparr>db_verifications := (if cc_verifications checked = [] then db_verifications db
          else deleteMany (verification_filter companyId checked) (db_verifications db)),
      db_users := deleteOne (owner_filter companyId checked) (db_users db),
      db_subscriptions := deleteOne (subscription_filter companyId checked) (db_subscriptions db),
      db_companies := deleteOne (company_filter_unactivated companyId) (db_companies db)\<rparr>"

definition deleted_counts :: "nat \<Rightarrow> cleanup_checked \<Rightarrow> database \<Rightarrow> cleanup_counts" where
  "deleted_counts companyId checked db =
     (let one_of = (\<lambda>q ds. if list_ex q ds then 1 else 0 :: nat) in
      \<lparr>cn_companies = one_of (company_filter_unactivated companyId) (db_companies db),
       cn_ownerUsers = one_of (owner_filter companyId checked) (db_users db),
       cn_freeSubscriptions = one_of (subscription_filter companyId checked) (db_subscriptions db),
       cn_verificationRecords = (if cc_verifications checked = [] then 0
         else length (filter (verification_filter companyId checked) (db_verifications db)))\<rparr>)"

definition cleanup_body :: "cleanup_options \<Rightarrow> nat \<Rightarrow> cleanup_report maintenance" where
  "cleanup_body opts companyId db =
     (case inspect_cleanup db companyId of
        Inl e \<Rightarrow> (Inl e, db)
      | Inr checked \<Rightarrow>
          let counts = \<lparr>cn_companies = 1, cn_ownerUsers = 1, cn_freeSubscriptions = 1,
                cn_verificationRecords = length (cc_verifications checked)\<rparr> in
          if \<not> co_confirmDisposable opts
          then (Inr \<lparr>cr_companyId = companyId, cr_matched = counts, cr_deleted = None\<rparr>, db)
          else if deleted_counts companyId checked db \<noteq> counts
          then (Inl (Cli_Failed CLEANUP_COUNTS), delete_checked companyId checked db)
          else (Inr \<lparr>cr_companyId = companyId, cr_matched = counts, cr_deleted = Some counts\<rparr>,
                delete_checked companyId checked db))"

definition cleanup_run :: "bool \<Rightarrow> commit_outcome \<Rightarrow> cleanup_options \<Rightarrow> cleanup_report maintenance" where
  "cleanup_run answers outcome opts db =
     (case validateCleanupOptions opts of
        Inl e \<Rightarrow> (Inl e, db)
      | Inr _ \<Rightarrow> maintenance_transaction answers outcome (cleanup_body opts (object_id_of (co_companyId opts))) db)"

section \<open>Stripe reset: options\<close>

record reset_options =
  ro_companyId :: js_string
  ro_environment :: "js_string option"
  ro_execute :: bool
  ro_expectedRevision :: "int option"
  ro_confirmReset :: bool
  ro_confirmAppStopped :: bool
  ro_confirmOldStripeQuiescent :: bool
  ro_recoverUnmanagedBasic :: bool
  ro_confirmTransitionToFree :: bool

definition resetFields :: "string list" where
  "resetFields = [''stripeCustomerId'', ''stripeSubscriptionId'', ''stripeStatus'', ''pendingPlanCode'', ''pendingPlanAt'',
     ''stripeScheduleId'', ''stripeChangeOperation'', ''stripeCheckoutAttemptAt'', ''stripeCustomerAttemptAt'',
     ''stripeSubscriptionAttemptAt'', ''stripePlanAttemptAt'', ''stripePlanEmployees'', ''stripeCheckoutEmployees'',
     ''stripeCheckoutOperation'', ''stripeCheckoutSessionId'', ''stripeCheckoutPlan'', ''stripeSyncedAt'',
     ''stripeMeterStartedAt'', ''stripeNextSyncAt'', ''stripeLeaseToken'', ''stripeLeaseUntil'']"

definition subscriptionFields :: "string list" where
  "subscriptionFields = [''_id'', ''__v'', ''companyId'', ''planCode'', ''activatedAt'', ''planChangedAt'', ''revision'',
     ''createdAt'', ''updatedAt'', ''stripeManaged'', ''paymentAccess'', ''paymentSyncIssue'', ''stripeCancelAtPeriodEnd'',
     ''stripePlanConfirmed''] @ resetFields"

definition invalid_reset :: "maintenance_failure + 'a" where
  "invalid_reset = Inl (Cli_Failed INVALID_STRIPE_RESET_ARGUMENTS)"

definition validateStripeResetOptions :: "reset_options \<Rightarrow> maintenance_failure + unit" where
  "validateStripeResetOptions opts =
     (if \<not> test_environment (ro_environment opts) then refuse_reset R_Production
      else if \<not> test p_object_id (ro_companyId opts) then invalid_reset
      else if (case ro_expectedRevision opts of Some n \<Rightarrow> n < 0 \<or> n > 9007199254740991 | None \<Rightarrow> False) then invalid_reset
      else if ro_execute opts
         \<and> (ro_expectedRevision opts = None \<or> \<not> ro_confirmReset opts \<or> \<not> ro_confirmAppStopped opts
            \<or> \<not> ro_confirmOldStripeQuiescent opts \<or> ro_recoverUnmanagedBasic opts \<and> \<not> ro_confirmTransitionToFree opts)
      then refuse_reset R_Confirmation
      else if \<not> ro_execute opts
         \<and> (ro_expectedRevision opts \<noteq> None \<or> ro_confirmReset opts \<or> ro_confirmAppStopped opts
            \<or> ro_confirmOldStripeQuiescent opts \<or> ro_confirmTransitionToFree opts)
      then invalid_reset
      else if \<not> ro_recoverUnmanagedBasic opts \<and> ro_confirmTransitionToFree opts then invalid_reset
      else Inr ())"

definition assertStripeTestKeyForExecution :: "js_string option \<Rightarrow> maintenance_failure + unit" where
  "assertStripeTestKeyForExecution key =
     (case key of
        Some k \<Rightarrow> if test (p_whole [p_text ''sk_test_'', p_plus p_alnum]) k then Inr () else invalid_reset
      | None \<Rightarrow> invalid_reset)"

definition reset_flags :: "string list" where
  "reset_flags = [''--execute'', ''--confirm-reset'', ''--confirm-app-stopped'', ''--confirm-old-stripe-quiescent'',
     ''--recover-unmanaged-basic'', ''--confirm-transition-to-free'']"

text \<open>An option takes the argument after it, whatever that is, or nothing at the end.\<close>

fun reset_loop ::
  "js_string list \<Rightarrow> js_string option \<Rightarrow> js_string option \<Rightarrow> js_string list
    \<Rightarrow> maintenance_failure + js_string option \<times> js_string option \<times> js_string list" where
  "reset_loop [] companyId revision flags = Inr (companyId, revision, flags)"
| "reset_loop (arg # rest) companyId revision flags =
     (if arg \<in> set flags then invalid_reset
      else if arg = units ''--company-id'' then
        (case rest of [] \<Rightarrow> Inr (None, revision, arg # flags)
         | v # rest' \<Rightarrow> reset_loop rest' (Some v) revision (arg # flags))
      else if arg = units ''--expected-revision'' then
        (case rest of [] \<Rightarrow> Inr (companyId, None, arg # flags)
         | v # rest' \<Rightarrow> reset_loop rest' companyId (Some v) (arg # flags))
      else if arg \<notin> units ` set reset_flags then invalid_reset
      else reset_loop rest companyId revision (arg # flags))"

definition revision_pattern :: pattern where
  "revision_pattern = p_whole [P_Or (p_char 48) (p_seq [P_Class (\<lambda>c. 49 \<le> c \<and> c \<le> 57), p_star p_digit])]"

definition stripeResetArguments :: "js_string list \<Rightarrow> js_string option \<Rightarrow> maintenance_failure + reset_options" where
  "stripeResetArguments args environment =
     result_bind (reset_loop args None None []) (\<lambda>(companyId, revision, flags).
     let has = (\<lambda>s. units s \<in> set flags);
         expected = (case revision of Some r \<Rightarrow> if test revision_pattern r then Some (digits_number r) else None
                     | None \<Rightarrow> None);
         opts = \<lparr>ro_companyId = (case companyId of Some i \<Rightarrow> i | None \<Rightarrow> []), ro_environment = environment,
           ro_execute = has ''--execute'', ro_expectedRevision = expected, ro_confirmReset = has ''--confirm-reset'',
           ro_confirmAppStopped = has ''--confirm-app-stopped'',
           ro_confirmOldStripeQuiescent = has ''--confirm-old-stripe-quiescent'',
           ro_recoverUnmanagedBasic = has ''--recover-unmanaged-basic'',
           ro_confirmTransitionToFree = has ''--confirm-transition-to-free''\<rparr> in
     if ro_companyId opts = [] then invalid_reset
     else if has ''--expected-revision'' \<and> expected = None then invalid_reset
     else result_bind (validateStripeResetOptions opts) (\<lambda>_. Inr opts))"

section \<open>Stripe reset: inspection\<close>

definition customer_pattern :: pattern where
  "customer_pattern = p_whole [p_text ''cus_'', p_plus p_alnum]"

definition text_matches :: "pattern \<Rightarrow> document \<Rightarrow> string \<Rightarrow> bool" where
  "text_matches p d k = (case text_field d k of Some t \<Rightarrow> test p t | None \<Rightarrow> False)"

definition any_field :: "document \<Rightarrow> string list \<Rightarrow> bool" where
  "any_field d ks = list_ex (has_field d) ks"

text \<open>The company's only subscription, with the shape both commands require.\<close>

definition only_subscription :: "database \<Rightarrow> nat \<Rightarrow> maintenance_failure + document" where
  "only_subscription db companyId =
     (if \<not> list_ex (stores ''_id'' (B_Id companyId)) (db_companies db) then refuse_reset R_Company
      else case filter (of_tenant companyId) (db_subscriptions db) of
        [d] \<Rightarrow> Inr d
      | _ \<Rightarrow> refuse_reset R_Subscription)"

definition known_subscription :: "nat \<Rightarrow> document \<Rightarrow> bool" where
  "known_subscription companyId d \<longleftrightarrow>
     id_of d \<noteq> None \<and> sameId d ''companyId'' companyId \<and> list_all (\<lambda>(k, _). k \<in> set subscriptionFields) d
     \<and> counter_field d ''revision'' \<noteq> None \<and> date_field d ''activatedAt'' \<noteq> None \<and> date_field d ''planChangedAt'' \<noteq> None"

definition no_stripe_history :: "database \<Rightarrow> nat \<Rightarrow> bool" where
  "no_stripe_history db companyId \<longleftrightarrow>
     \<not> list_ex (of_tenant companyId) (db_stripeEvents db) \<and> \<not> list_ex (of_tenant companyId) (db_stripeUsage db)"

definition inspect_reset :: "database \<Rightarrow> nat \<Rightarrow> maintenance_failure + document" where
  "inspect_reset db companyId =
     result_bind (only_subscription db companyId) (\<lambda>d.
     if \<not> known_subscription companyId d then refuse_reset R_UnknownState
     else if \<not> field_is d ''planCode'' (text_value ''free'') \<or> \<not> field_is d ''stripeManaged'' (B_Bool False)
        \<or> any_field d [''stripeSubscriptionId'', ''stripeStatus'']
        \<or> \<not> absent_or d ''paymentAccess'' (text_value ''unmanaged'')
     then refuse_reset R_PaidOrManaged
     else if any_field d [''stripeCheckoutSessionId'', ''stripeCheckoutAttemptAt'', ''stripeSubscriptionAttemptAt'',
           ''stripeCheckoutEmployees'', ''stripeSyncedAt'', ''stripeMeterStartedAt'', ''stripeNextSyncAt'',
           ''stripeLeaseToken'', ''stripeLeaseUntil'', ''pendingPlanCode'', ''pendingPlanAt'', ''stripeScheduleId'',
           ''stripeChangeOperation'', ''stripePlanAttemptAt'', ''stripePlanEmployees'']
        \<or> \<not> absent_or d ''stripePlanConfirmed'' (B_Bool False)
        \<or> \<not> absent_or d ''stripeCancelAtPeriodEnd'' (B_Bool False)
        \<or> field_is d ''paymentSyncIssue'' (text_value ''reconciliation_required'')
        \<or> field_is d ''paymentSyncIssue'' (text_value ''plan_conflict'')
     then refuse_reset R_InFlight
     else if \<not> text_matches customer_pattern d ''stripeCustomerId'' then refuse_reset R_NoMapping
     else if has_field d ''stripeCheckoutOperation''
        \<and> (text_field d ''stripeCheckoutOperation'' = None
           \<or> \<not> (field_is d ''stripeCheckoutPlan'' (text_value ''basic'')
               \<or> field_is d ''stripeCheckoutPlan'' (text_value ''premium'')))
     then refuse_reset R_UnknownState
     else if has_field d ''stripeCheckoutPlan'' \<and> \<not> has_field d ''stripeCheckoutOperation'' then refuse_reset R_UnknownState
     else if has_field d ''stripeCustomerAttemptAt'' \<and> date_field d ''stripeCustomerAttemptAt'' = None
     then refuse_reset R_UnknownState
     else if \<not> absent_or d ''paymentSyncIssue'' (text_value ''none'')
        \<and> \<not> field_is d ''paymentSyncIssue'' (text_value ''retry_required'')
     then refuse_reset R_UnknownState
     else if \<not> no_stripe_history db companyId then refuse_reset R_History
     else Inr d)"

text \<open>The checks of the recovery of an unmanaged Basic plan, at the time \<open>at\<close>.\<close>

definition finite_past :: "date \<Rightarrow> document \<Rightarrow> string \<Rightarrow> bool" where
  "finite_past at d k = (case date_field d k of Some t \<Rightarrow> finite_date t \<and> t \<le> at | None \<Rightarrow> False)"

definition finite_field :: "document \<Rightarrow> string \<Rightarrow> bool" where
  "finite_field d k = (case date_field d k of Some t \<Rightarrow> finite_date t | None \<Rightarrow> False)"

definition session_pattern :: pattern where
  "session_pattern = p_whole [p_text ''cs_test_'', p_plus p_alnum]"

definition exact_basic_state :: "document \<Rightarrow> bool" where
  "exact_basic_state d \<longleftrightarrow>
     field_is d ''planCode'' (text_value ''basic'') \<and> field_is d ''stripeManaged'' (B_Bool False)
     \<and> field_is d ''paymentAccess'' (text_value ''unmanaged'') \<and> field_is d ''paymentSyncIssue'' (text_value ''retry_required'')
     \<and> field_is d ''stripeCancelAtPeriodEnd'' (B_Bool False) \<and> field_is d ''stripePlanConfirmed'' (B_Bool False)
     \<and> text_matches customer_pattern d ''stripeCustomerId'' \<and> text_matches session_pattern d ''stripeCheckoutSessionId''
     \<and> field_is d ''stripeCheckoutPlan'' (text_value ''premium'') \<and> text_matches (p_whole [p_uuid4]) d ''stripeCheckoutOperation''
     \<and> finite_field d ''stripeCustomerAttemptAt'' \<and> finite_field d ''stripeCheckoutAttemptAt'' \<and> finite_field d ''stripeNextSyncAt''
     \<and> \<not> any_field d [''stripeSubscriptionId'', ''stripeSubscriptionAttemptAt'', ''stripeStatus'', ''stripeCheckoutEmployees'',
          ''stripeSyncedAt'', ''stripeMeterStartedAt'', ''stripeLeaseToken'', ''stripeLeaseUntil'', ''pendingPlanCode'',
          ''pendingPlanAt'', ''stripeScheduleId'', ''stripeChangeOperation'', ''stripePlanAttemptAt'', ''stripePlanEmployees'']"

record recovery_checked =
  rc_subscription :: document
  rc_startsAt :: date
  rc_endsAt :: date
  rc_uploadedFiles :: int

text \<open>
  The usage of the current period: the number of uploads, nothing when there is no record, refused
  when the record does not fit the period.
\<close>

definition period_uploads :: "database \<Rightarrow> nat \<Rightarrow> date \<Rightarrow> date \<Rightarrow> maintenance_failure + int" where
  "period_uploads db companyId from_date until_date =
     (case filter (\<lambda>d. of_tenant companyId d \<and> stores ''startsAt'' (B_Date from_date) d) (db_periods db) of
        [] \<Rightarrow> Inr 0
      | [u] \<Rightarrow>
          (case (date_field u ''endsAt'', counter_field u ''uploadedFiles'') of
             (Some e, Some n) \<Rightarrow>
               if e = until_date \<and> field_is u ''fileOverageCents'' (B_Int 0) then Inr n else refuse_reset R_Period
           | _ \<Rightarrow> refuse_reset R_Period)
      | _ \<Rightarrow> refuse_reset R_Period)"

definition expires_after :: "date \<Rightarrow> document \<Rightarrow> bool" where
  "expires_after at = on_field (\<lambda>v. case v of B_Date t \<Rightarrow> at < t | _ \<Rightarrow> False) ''expiresAt''"

definition inspect_recovery :: "database \<Rightarrow> nat \<Rightarrow> date \<Rightarrow> maintenance_failure + recovery_checked" where
  "inspect_recovery db companyId at =
     result_bind (only_subscription db companyId) (\<lambda>d.
     if \<not> known_subscription companyId d \<or> \<not> finite_past at d ''activatedAt'' \<or> \<not> finite_past at d ''planChangedAt''
     then refuse_reset R_UnknownState
     else if \<not> exact_basic_state d then refuse_reset R_BasicRecoveryState
     else if \<not> no_stripe_history db companyId then refuse_reset R_History
     else if length (filter (of_tenant companyId) (db_users db)) \<noteq> 1
        \<or> length (filter (\<lambda>u. of_tenant companyId u \<and> stores ''role'' (text_value ''company_owner'') u) (db_users db)) \<noteq> 1
     then refuse_reset R_Account
     else if list_ex (\<lambda>v. of_tenant companyId v \<and> stores ''status'' (text_value ''pending'') v \<and> expires_after at v) (db_invitations db)
     then refuse_reset R_FreeCapacity
     else case billingPeriod (date_field d ''activatedAt'') (Some at) of
       Inl _ \<Rightarrow> Inl (Cli_Failed MONGO_TRANSACTION)
     | Inr p \<Rightarrow>
         result_bind (period_uploads db companyId (startsAt p) (endsAt p)) (\<lambda>n.
         if n > includedFilesPerMonth (PLAN_CATALOG FREE) then refuse_reset R_FreeCapacity
         else Inr \<lparr>rc_subscription = d, rc_startsAt = startsAt p, rc_endsAt = endsAt p, rc_uploadedFiles = n\<rparr>))"

section \<open>Stripe reset: the command\<close>

definition set_doc_field :: "string \<times> bson \<Rightarrow> document \<Rightarrow> document" where
  "set_doc_field kv d = (if has_field d (fst kv) then map (\<lambda>(k, v). (k, if k = fst kv then snd kv else v)) d else d @ [kv])"

definition set_all :: "(string \<times> bson) list \<Rightarrow> document \<Rightarrow> document" where
  "set_all values d = fold set_doc_field values d"

definition unset_all :: "string list \<Rightarrow> document \<Rightarrow> document" where
  "unset_all ks d = filter (\<lambda>(k, _). k \<notin> set ks) d"

definition cleared_values :: "int \<Rightarrow> date \<Rightarrow> (string \<times> bson) list" where
  "cleared_values revision now = [(''stripeManaged'', B_Bool False), (''paymentAccess'', text_value ''unmanaged''),
     (''paymentSyncIssue'', text_value ''none''), (''stripeCancelAtPeriodEnd'', B_Bool False),
     (''stripePlanConfirmed'', B_Bool False), (''revision'', B_Int (revision + 1)), (''updatedAt'', B_Date now)]"

definition reset_update :: "int \<Rightarrow> date \<Rightarrow> document \<Rightarrow> document" where
  "reset_update revision now d = set_all (cleared_values revision now) (unset_all resetFields d)"

definition recovery_update :: "int \<Rightarrow> date \<Rightarrow> document \<Rightarrow> document" where
  "recovery_update revision at d =
     set_all ([(''planCode'', text_value ''free''), (''planChangedAt'', B_Date at)] @ cleared_values revision at)
       (unset_all resetFields d)"

text \<open>A filter on the value a field of the inspected document had.\<close>

definition stores_same :: "document \<Rightarrow> string \<Rightarrow> document \<Rightarrow> bool" where
  "stores_same d k e = (case doc_field d k of Some v \<Rightarrow> stores k v e | None \<Rightarrow> False)"

definition reset_filter :: "nat \<Rightarrow> int \<Rightarrow> document \<Rightarrow> document \<Rightarrow> bool" where
  "reset_filter companyId revision d e \<longleftrightarrow> stores_same d ''_id'' e \<and> stores ''companyId'' (B_Id companyId) e
     \<and> stores ''revision'' (B_Int revision) e \<and> stores ''planCode'' (text_value ''free'') e
     \<and> stores_same d ''stripeCustomerId'' e \<and> stores ''stripeManaged'' (B_Bool False) e"

definition recovery_filter :: "nat \<Rightarrow> int \<Rightarrow> document \<Rightarrow> document \<Rightarrow> bool" where
  "recovery_filter companyId revision d e \<longleftrightarrow> stores_same d ''_id'' e \<and> stores ''companyId'' (B_Id companyId) e
     \<and> stores ''revision'' (B_Int revision) e \<and> stores ''planCode'' (text_value ''basic'') e
     \<and> stores ''stripeManaged'' (B_Bool False) e \<and> stores ''paymentAccess'' (text_value ''unmanaged'') e
     \<and> stores ''paymentSyncIssue'' (text_value ''retry_required'') e \<and> stores_same d ''stripeCustomerId'' e
     \<and> stores_same d ''stripeCheckoutSessionId'' e \<and> stores_same d ''stripeCheckoutOperation'' e
     \<and> stores ''stripeCheckoutPlan'' (text_value ''premium'') e \<and> \<not> has_field e ''stripeSubscriptionId''
     \<and> \<not> has_field e ''stripeSubscriptionAttemptAt''"

text \<open>\<open>updateOne\<close> with the check that one document was matched and modified.\<close>

definition update_subscription ::
  "(document \<Rightarrow> bool) \<Rightarrow> (document \<Rightarrow> document) \<Rightarrow> 'a \<Rightarrow> 'a maintenance" where
  "update_subscription q g report db =
     (let db' = db\<lparr>db_subscriptions := updateOne q g (db_subscriptions db)\<rparr> in
      case find q (db_subscriptions db) of
        None \<Rightarrow> (Inl (Cli_Failed STRIPE_RESET_COUNT_MISMATCH), db)
      | Some d \<Rightarrow> if g d = d then (Inl (Cli_Failed STRIPE_RESET_COUNT_MISMATCH), db') else (Inr report, db'))"

record basic_recovery =
  br_companyId :: nat
  br_previousRevision :: int
  br_previousPlanChangedAt :: "date option"
  br_startsAt :: date
  br_endsAt :: date
  br_successfulUploads :: int
  br_fieldsToClear :: "string list"

datatype reset_report =
    Reset_Dry_Run nat int "string list" | Reset_Done nat int int "string list"
  | Recovery_Dry_Run basic_recovery int | Recovery_Done basic_recovery int date

definition fields_present :: "document \<Rightarrow> string list" where
  "fields_present d = filter (has_field d) resetFields"

definition reset_body :: "reset_options \<Rightarrow> nat \<Rightarrow> date \<Rightarrow> reset_report maintenance" where
  "reset_body opts companyId now db =
     (case inspect_reset db companyId of
        Inl e \<Rightarrow> (Inl e, db)
      | Inr d \<Rightarrow>
          let revision = the (counter_field d ''revision''); present = fields_present d in
          if ro_execute opts \<and> ro_expectedRevision opts \<noteq> Some revision then (refuse_reset R_Revision, db)
          else if \<not> ro_execute opts then (Inr (Reset_Dry_Run companyId revision present), db)
          else update_subscription (reset_filter companyId revision d) (reset_update revision now)
            (Reset_Done companyId revision (revision + 1) present) db)"

definition recovery_body :: "reset_options \<Rightarrow> nat \<Rightarrow> date \<Rightarrow> reset_report maintenance" where
  "recovery_body opts companyId at db =
     (case inspect_recovery db companyId at of
        Inl e \<Rightarrow> (Inl e, db)
      | Inr checked \<Rightarrow>
          let d = rc_subscription checked; revision = the (counter_field d ''revision'');
              report = \<lparr>br_companyId = companyId, br_previousRevision = revision,
                br_previousPlanChangedAt = date_field d ''planChangedAt'', br_startsAt = rc_startsAt checked,
                br_endsAt = rc_endsAt checked, br_successfulUploads = rc_uploadedFiles checked,
                br_fieldsToClear = fields_present d\<rparr> in
          if ro_execute opts \<and> ro_expectedRevision opts \<noteq> Some revision then (refuse_reset R_Revision, db)
          else if \<not> ro_execute opts then (Inr (Recovery_Dry_Run report revision), db)
          else update_subscription (recovery_filter companyId revision d) (recovery_update revision at)
            (Recovery_Done report (revision + 1) at) db)"

definition reset_run :: "bool \<Rightarrow> commit_outcome \<Rightarrow> date \<Rightarrow> reset_options \<Rightarrow> reset_report maintenance" where
  "reset_run answers outcome now opts db =
     (case validateStripeResetOptions opts of
        Inl e \<Rightarrow> (Inl e, db)
      | Inr _ \<Rightarrow>
          let companyId = object_id_of (ro_companyId opts) in
          maintenance_transaction answers outcome
            (if ro_recoverUnmanagedBasic opts then recovery_body opts companyId now else reset_body opts companyId now) db)"

end
