(* ===== verification/MaintenanceSafety.thy ===== *)
theory MaintenanceSafety
  imports Maintenance
begin

text \<open>
  What the maintenance commands do to the database when they do anything: the clean-up removes the
  documents of one company and leaves no reference to it, the reset changes one subscription and
  clears its test state, and neither can be repeated on what it left.
\<close>

section \<open>Lists of documents\<close>

lemma filter_singleton:
  "filter p xs = [u] \<Longrightarrow> \<exists>ys zs. xs = ys @ u # zs \<and> p u \<and> (\<forall>y\<in>set ys. \<not> p y) \<and> (\<forall>z\<in>set zs. \<not> p z)"
  unfolding filter_eq_Cons_iff empty_filter_conv by metis

lemma deleteOne_append: "\<forall>y\<in>set ys. \<not> q y \<Longrightarrow> deleteOne q (ys @ zs) = ys @ deleteOne q zs"
  by (induction ys) auto

lemma deleteOne_only:
  assumes "length (filter p xs) = 1" "\<And>x. q x \<Longrightarrow> p x" "list_ex q xs"
  shows "deleteOne q xs = filter (\<lambda>x. \<not> p x) xs"
proof -
  obtain u where u: "filter p xs = [u]" using assms(1) by (auto simp: length_Suc_conv)
  obtain ys zs where s: "xs = ys @ u # zs" "\<forall>y\<in>set ys. \<not> p y" "\<forall>z\<in>set zs. \<not> p z" "p u"
    using filter_singleton [OF u] by blast
  have none: "\<forall>y\<in>set ys. \<not> q y" "q u" using s assms(2,3) by (auto simp: list_ex_iff)
  have "filter (\<lambda>x. \<not> p x) ys = ys" "filter (\<lambda>x. \<not> p x) zs = zs" using s by (simp_all add: filter_id_conv)
  then show ?thesis unfolding s(1) deleteOne_append [OF none(1)] using none(2) s(4) by simp
qed

lemma deleteOne_first: "find p xs = Some x \<Longrightarrow> q x \<Longrightarrow> deleteOne (\<lambda>y. p y \<and> q y) xs = deleteOne p xs"
  by (induction xs) (auto split: if_splits)

lemma deleteMany_only:
  assumes "\<And>x. q x \<Longrightarrow> p x" "length (filter q xs) = length (filter p xs)"
  shows "deleteMany q xs = filter (\<lambda>x. \<not> p x) xs"
proof -
  have le: "length (filter q zs) \<le> length (filter p zs)" for zs
    using assms(1) by (induction zs) (auto intro: le_SucI)
  have "x \<in> set xs \<Longrightarrow> q x = p x" for x
    using assms(2)
  proof (induction xs)
    case (Cons y ys)
    show ?case using Cons le [of ys] assms(1) [of y] by (auto split: if_splits)
  qed simp
  then show ?thesis unfolding deleteMany_def by (auto intro: filter_cong)
qed

lemma on_field_mono: "on_field p k d \<Longrightarrow> (\<And>v. p v \<Longrightarrow> q v) \<Longrightarrow> on_field q k d"
  by (auto simp: on_field_def list_ex_iff split: option.splits bson.splits)

lemma stores_references: "stores k (B_Id i) d \<Longrightarrow> references k i d"
  unfolding stores_def references_def by (erule on_field_mono) simp

lemma field_is_stores: "field_is d k v \<Longrightarrow> \<forall>vs. v \<noteq> B_Array vs \<Longrightarrow> stores k v d"
  by (auto simp: field_is_def stores_def on_field_def split: bson.splits)

section \<open>Transactions\<close>

lemma maintenance_transaction_effect:
  "maintenance_transaction answers outcome body s = (r, t) \<Longrightarrow> t \<noteq> s \<Longrightarrow> \<exists>x. body s = (Inr x, t)"
  by (auto simp: maintenance_transaction_def split: if_splits prod.splits sum.splits commit_outcome.splits)

section \<open>Clean-up\<close>

lemma cleanup_run_effect:
  assumes "cleanup_run answers outcome opts db = (r, db')" "db' \<noteq> db"
  obtains checked where "validateCleanupOptions opts = Inr ()" "co_confirmDisposable opts"
    "inspect_cleanup db (object_id_of (co_companyId opts)) = Inr checked"
    "deleted_counts (object_id_of (co_companyId opts)) checked db =
       \<lparr>cn_companies = 1, cn_ownerUsers = 1, cn_freeSubscriptions = 1, cn_verificationRecords = length (cc_verifications checked)\<rparr>"
    "db' = delete_checked (object_id_of (co_companyId opts)) checked db"
proof -
  let ?i = "object_id_of (co_companyId opts)"
  have v: "validateCleanupOptions opts = Inr ()"
    using assms by (auto simp: cleanup_run_def split: sum.splits)
  obtain x where "cleanup_body opts ?i db = (Inr x, db')"
    using assms v maintenance_transaction_effect [of answers outcome "cleanup_body opts ?i" db r db']
    by (auto simp: cleanup_run_def)
  then show thesis using assms(2) v that
    by (auto simp: cleanup_body_def Let_def split: sum.splits if_splits)
qed

lemma inspect_cleanup_steps:
  assumes "inspect_cleanup db i = Inr checked"
  obtains company u subscription where "find (stores ''_id'' (B_Id i)) (db_companies db) = Some company"
    "check_company (Some company) = Inr ()"
    "filter (of_tenant i) (db_users db) = [u]" "pristine_owner i (without_field ''password'' u)"
    "id_of (without_field ''password'' u) = Some (cc_owner checked)"
    "filter (of_tenant i) (db_subscriptions db) = [subscription]" "pristine_subscription i subscription"
    "id_of subscription = Some (cc_subscription checked)"
    "no_dependents db i (cc_owner checked) = Inr ()"
    "cc_verifications checked = map (without_field ''tokenHash'')
       (filter (\<lambda>d. of_tenant i d \<or> references ''ownerId'' (cc_owner checked) d) (db_verifications db))"
proof -
  obtain company where c: "find (stores ''_id'' (B_Id i)) (db_companies db) = Some company" "check_company (Some company) = Inr ()"
    using assms by (auto simp: inspect_cleanup_def result_bind_Inr_iff check_company_def refuse_cleanup_def split: option.splits)
  obtain v where "map (without_field ''password'') (filter (of_tenant i) (db_users db)) = [v]"
    using assms c by (auto simp: inspect_cleanup_def result_bind_Inr_iff refuse_cleanup_def split: list.splits)
  then obtain u where u: "filter (of_tenant i) (db_users db) = [u]" by auto
  obtain owner where o: "pristine_owner i (without_field ''password'' u)" "id_of (without_field ''password'' u) = Some owner"
    using assms c u by (auto simp: inspect_cleanup_def result_bind_Inr_iff refuse_cleanup_def split: if_splits option.splits)
  obtain subscription where s: "filter (of_tenant i) (db_subscriptions db) = [subscription]"
    using assms c u o by (auto simp: inspect_cleanup_def result_bind_Inr_iff refuse_cleanup_def split: list.splits)
  show thesis
    by (rule that [OF c u _ _ s])
       (use assms c u o s in \<open>auto simp: inspect_cleanup_def result_bind_Inr_iff refuse_cleanup_def Let_def
          pristine_subscription_def split: if_splits\<close>)
qed

text \<open>No document but those the clean-up removes refers to the company or its owner.\<close>

definition no_reference_left :: "database \<Rightarrow> nat \<Rightarrow> nat \<Rightarrow> bool" where
  "no_reference_left db i owner \<longleftrightarrow>
     \<not> list_ex (of_tenant i) (db_users db @ db_subscriptions db @ db_verifications db @ db_files db @ db_invitations db
        @ db_periods db @ db_stripeEvents db @ db_stripeUsage db @ db_aiConversations db @ db_aiMessages db @ db_aiUsage db)
     \<and> \<not> list_ex (references ''ownerId'' owner) (db_verifications db)
     \<and> \<not> list_ex (references ''uploaderId'' owner) (db_files db)
     \<and> \<not> list_ex (references ''invitedBy'' owner) (db_invitations db)
     \<and> \<not> list_ex (references ''userId'' owner) (db_aiConversations db @ db_aiMessages db @ db_aiUsage db)
     \<and> \<not> list_ex (\<lambda>d. references ''targetId'' i d \<or> references ''targetId'' owner d \<or> references ''actorId'' owner d) (db_audits db)"

lemma delete_checked_collections:
  assumes "inspect_cleanup db i = Inr checked"
    and "deleted_counts i checked db =
       \<lparr>cn_companies = 1, cn_ownerUsers = 1, cn_freeSubscriptions = 1, cn_verificationRecords = length (cc_verifications checked)\<rparr>"
  shows "delete_checked i checked db = db
    \<lparr>db_companies := deleteOne (stores ''_id'' (B_Id i)) (db_companies db),
     db_users := filter (\<lambda>d. \<not> of_tenant i d) (db_users db),
     db_subscriptions := filter (\<lambda>d. \<not> of_tenant i d) (db_subscriptions db),
     db_verifications := filter (\<lambda>d. \<not> (of_tenant i d \<or> references ''ownerId'' (cc_owner checked) d)) (db_verifications db)\<rparr>"
proof -
  obtain company u subscription where c: "find (stores ''_id'' (B_Id i)) (db_companies db) = Some company"
    "check_company (Some company) = Inr ()"
    and u: "filter (of_tenant i) (db_users db) = [u]" "pristine_owner i (without_field ''password'' u)"
    "id_of (without_field ''password'' u) = Some (cc_owner checked)"
    and s: "filter (of_tenant i) (db_subscriptions db) = [subscription]" "pristine_subscription i subscription"
    "id_of subscription = Some (cc_subscription checked)"
    and nd: "no_dependents db i (cc_owner checked) = Inr ()"
    and v: "cc_verifications checked = map (without_field ''tokenHash'')
       (filter (\<lambda>d. of_tenant i d \<or> references ''ownerId'' (cc_owner checked) d) (db_verifications db))"
    by (rule inspect_cleanup_steps [OF assms(1)])
  have n: "list_ex (owner_filter i checked) (db_users db)" "list_ex (subscription_filter i checked) (db_subscriptions db)"
    and m: "length (if cc_verifications checked = [] then [] else filter (verification_filter i checked) (db_verifications db))
        = length (cc_verifications checked)"
    using assms(2) by (auto simp: deleted_counts_def Let_def split: if_splits)
  have users: "deleteOne (owner_filter i checked) (db_users db) = filter (\<lambda>d. \<not> of_tenant i d) (db_users db)"
    by (rule deleteOne_only [OF _ _ n(1)]) (use u(1) in \<open>auto simp: owner_filter_def stores_references\<close>)
  have subs: "deleteOne (subscription_filter i checked) (db_subscriptions db) = filter (\<lambda>d. \<not> of_tenant i d) (db_subscriptions db)"
    by (rule deleteOne_only [OF _ _ n(2)]) (use s(1) in \<open>auto simp: subscription_filter_def stores_references\<close>)
  have ver: "(if cc_verifications checked = [] then db_verifications db
       else deleteMany (verification_filter i checked) (db_verifications db)) =
     filter (\<lambda>d. \<not> (of_tenant i d \<or> references ''ownerId'' (cc_owner checked) d)) (db_verifications db)"
  proof (cases "cc_verifications checked = []")
    case True
    then have "\<forall>d\<in>set (db_verifications db). \<not> (of_tenant i d \<or> references ''ownerId'' (cc_owner checked) d)"
      unfolding v by (auto simp: filter_empty_conv)
    then show ?thesis using True by (simp add: filter_id_conv)
  next
    case False
    have "length (filter (verification_filter i checked) (db_verifications db)) =
        length (filter (\<lambda>d. of_tenant i d \<or> references ''ownerId'' (cc_owner checked) d) (db_verifications db))"
      using False m v by simp
    from deleteMany_only [OF _ this] show ?thesis using False
      by (auto simp: verification_filter_def stores_references)
  qed
  have active: "field_is company ''activatedAt'' B_Null"
    using c(2) by (auto simp: check_company_def refuse_cleanup_def split: if_splits)
  have "stores ''activatedAt'' B_Null company" by (rule field_is_stores [OF active]) simp
  then have "deleteOne (company_filter_unactivated i) (db_companies db) = deleteOne (stores ''_id'' (B_Id i)) (db_companies db)"
    using deleteOne_first [OF c(1), of "stores ''activatedAt'' B_Null"] by (simp add: company_filter_unactivated_def [abs_def])
  then show ?thesis by (simp add: delete_checked_def users subs ver)
qed

lemma cleaned_database:
  assumes "no_dependents db i owner = Inr ()"
  shows "no_reference_left (db
    \<lparr>db_companies := cs, db_users := filter (\<lambda>d. \<not> of_tenant i d) us,
     db_subscriptions := filter (\<lambda>d. \<not> of_tenant i d) ss,
     db_verifications := filter (\<lambda>d. \<not> (of_tenant i d \<or> references ''ownerId'' owner d)) vs\<rparr>) i owner"
  using assms
  by (auto simp: no_dependents_def no_reference_left_def refuse_cleanup_def Let_def list_ex_iff split: if_splits)


section \<open>Fields after an update\<close>

lemma field_set_doc_field: "doc_field (set_doc_field kv d) k = (if k = fst kv then Some (snd kv) else doc_field d k)"
proof -
  have "map_of (map (\<lambda>(l, v). (l, if l = fst kv then snd kv else v)) d) k
      = map_option (\<lambda>v. if k = fst kv then snd kv else v) (map_of d k)" for k
    by (induction d) auto
  then show ?thesis
    by (cases kv) (auto simp: set_doc_field_def doc_field_def has_field_def map_add_def split: option.splits)
qed

lemma field_unset_all: "doc_field (unset_all ks d) k = (if k \<in> set ks then None else doc_field d k)"
  unfolding doc_field_def unset_all_def by (induction d) auto

lemma field_set_all:
  "doc_field (set_all vals d) k = (case map_of (rev vals) k of Some v \<Rightarrow> Some v | None \<Rightarrow> doc_field d k)"
  by (induction vals arbitrary: d) (auto simp: set_all_def field_set_doc_field map_add_def split: option.splits)

lemma field_set_all_other: "k \<notin> set (map fst vals) \<Longrightarrow> doc_field (set_all vals d) k = doc_field d k"
proof -
  assume "k \<notin> set (map fst vals)"
  then have "map_of (rev vals) k = None" by (simp add: map_of_eq_None_iff)
  then show ?thesis by (simp add: field_set_all)
qed

definition cleared_keys :: "string list" where
  "cleared_keys = [''stripeManaged'', ''paymentAccess'', ''paymentSyncIssue'', ''stripeCancelAtPeriodEnd'',
     ''stripePlanConfirmed'', ''revision'', ''updatedAt'']"

definition reset_keys :: "string list" where
  "reset_keys = [''planCode'', ''planChangedAt''] @ cleared_keys @ resetFields"

definition update_of :: "reset_options \<Rightarrow> int \<Rightarrow> date \<Rightarrow> document \<Rightarrow> document" where
  "update_of opts = (if ro_recoverUnmanagedBasic opts then recovery_update else reset_update)"

definition set_values :: "reset_options \<Rightarrow> int \<Rightarrow> date \<Rightarrow> (string \<times> bson) list" where
  "set_values opts revision now = (if ro_recoverUnmanagedBasic opts
     then [(''planCode'', text_value ''free''), (''planChangedAt'', B_Date now)] else []) @ cleared_values revision now"

lemma update_of_eq: "update_of opts revision now d = set_all (set_values opts revision now) (unset_all resetFields d)"
  by (simp add: update_of_def set_values_def recovery_update_def reset_update_def)

lemma set_values_keys: "set (map fst (set_values opts revision now)) \<subseteq> set (''planCode'' # ''planChangedAt'' # cleared_keys)"
  by (cases "ro_recoverUnmanagedBasic opts") (simp_all add: set_values_def cleared_values_def cleared_keys_def)

lemma reset_fields_unset: "set resetFields \<inter> set (''planCode'' # ''planChangedAt'' # cleared_keys) = {}"
  by (simp add: resetFields_def cleared_keys_def)

lemma update_fields:
  "k \<in> set resetFields \<Longrightarrow> \<not> has_field (update_of opts revision now d) k"
  "doc_field (update_of opts revision now d) ''revision'' = Some (B_Int (revision + 1))"
  "doc_field (update_of opts revision now d) ''paymentAccess'' = Some (text_value ''unmanaged'')"
  "ro_recoverUnmanagedBasic opts \<Longrightarrow> doc_field (update_of opts revision now d) ''planCode'' = Some (text_value ''free'')"
  "k \<notin> set reset_keys \<Longrightarrow> doc_field (update_of opts revision now d) k = doc_field d k"
proof -
  show "\<not> has_field (update_of opts revision now d) k" if "k \<in> set resetFields"
  proof -
    have "k \<notin> set (map fst (set_values opts revision now))"
      using that set_values_keys [of opts revision now] reset_fields_unset by blast
    from field_set_all_other [OF this] show ?thesis using that unfolding update_of_eq has_field_def by (simp add: field_unset_all)
  qed
  show "doc_field (update_of opts revision now d) k = doc_field d k" if "k \<notin> set reset_keys"
  proof -
    have k: "k \<notin> set (map fst (set_values opts revision now))" and "k \<notin> set resetFields"
      using that set_values_keys [of opts revision now] by (auto simp: reset_keys_def)
    then show ?thesis using field_set_all_other [OF k] unfolding update_of_eq by (simp add: field_unset_all)
  qed
qed (simp_all add: update_of_eq field_set_all set_values_def cleared_values_def)

lemma updateOne_only:
  assumes "length (filter p xs) = 1" "\<And>x. q x \<Longrightarrow> p x" "find q xs \<noteq> None"
  shows "updateOne q g xs = map (\<lambda>x. if p x then g x else x) xs"
proof -
  obtain u where u: "filter p xs = [u]" using assms(1) by (auto simp: length_Suc_conv)
  obtain ys zs where s: "xs = ys @ u # zs" "\<forall>y\<in>set ys. \<not> p y" "\<forall>z\<in>set zs. \<not> p z" "p u"
    using filter_singleton [OF u] by blast
  have none: "\<forall>y\<in>set ys. \<not> q y" "q u" using s assms(2,3) by (auto simp: find_None_iff)
  have append: "updateOne q g (as @ bs) = as @ updateOne q g bs" if "\<forall>y\<in>set as. \<not> q y" for as bs
    using that by (induction as) auto
  have same: "map (\<lambda>x. if p x then g x else x) as = as" if "\<forall>y\<in>set as. \<not> p y" for as
    using that by (induction as) auto
  show ?thesis unfolding s(1) append [OF none(1)] using none(2) s same by simp
qed

section \<open>Reset\<close>

lemma refused_if: "(if c then refuse_reset r else x) = Inr y \<longleftrightarrow> \<not> c \<and> x = Inr y"
  by (simp add: refuse_reset_def)

lemma known_subscriptionD:
  "known_subscription i d \<Longrightarrow> counter_field d ''revision'' \<noteq> None \<and> sameId d ''companyId'' i"
  by (simp add: known_subscription_def)

lemma inspect_resetD:
  assumes "inspect_reset db i = Inr d"
  shows "only_subscription db i = Inr d \<and> known_subscription i d \<and> no_stripe_history db i"
  using assms unfolding inspect_reset_def result_bind_Inr_iff refused_if sum.inject
  by (elim exE conjE) (simp only: not_not)

lemma inspect_recoveryD:
  assumes "inspect_recovery db i at = Inr c"
  shows "only_subscription db i = Inr (rc_subscription c) \<and> known_subscription i (rc_subscription c) \<and> no_stripe_history db i"
proof -
  obtain d where d: "only_subscription db i = Inr d" "known_subscription i d" "no_stripe_history db i"
    and p: "(case billingPeriod (date_field d ''activatedAt'') (Some at) of
       Inl _ \<Rightarrow> Inl (Cli_Failed MONGO_TRANSACTION)
     | Inr p \<Rightarrow>
         result_bind (period_uploads db i (startsAt p) (endsAt p)) (\<lambda>n.
         if n > includedFilesPerMonth (PLAN_CATALOG FREE) then refuse_reset R_FreeCapacity
         else Inr \<lparr>rc_subscription = d, rc_startsAt = startsAt p, rc_endsAt = endsAt p, rc_uploadedFiles = n\<rparr>)) = Inr c"
    using assms unfolding inspect_recovery_def result_bind_Inr_iff refused_if de_Morgan_disj not_not
    by (elim exE conjE) blast
  have "rc_subscription c = d" using p by (auto simp: result_bind_Inr_iff refused_if split: sum.splits)
  then show ?thesis using d by simp
qed

lemma reset_body_effect:
  assumes "(if ro_recoverUnmanagedBasic opts then recovery_body opts i now else reset_body opts i now) db = (Inr x, db')" "db' \<noteq> db"
  obtains d revision q where "ro_execute opts" "only_subscription db i = Inr d" "no_stripe_history db i" "sameId d ''companyId'' i"
    "counter_field d ''revision'' = Some revision" "ro_expectedRevision opts = Some revision"
    "\<And>e. q e \<Longrightarrow> of_tenant i e" "find q (db_subscriptions db) \<noteq> None"
    "db' = db\<lparr>db_subscriptions := updateOne q (update_of opts revision now) (db_subscriptions db)\<rparr>"
proof (cases "ro_recoverUnmanagedBasic opts")
  case True
  obtain c where c: "inspect_recovery db i now = Inr c"
    using assms True by (auto simp: recovery_body_def split: sum.splits)
  define d where "d = rc_subscription c"
  note f = inspect_recoveryD [OF c, folded d_def]
  then obtain revision where r: "counter_field d ''revision'' = Some revision" using known_subscriptionD by blast
  show thesis
    by (rule that [of d revision "recovery_filter i revision d"])
       (use assms True c r f known_subscriptionD [of i d] in \<open>auto simp: recovery_body_def d_def Let_def refuse_reset_def update_subscription_def update_of_def
          recovery_filter_def stores_references split: if_splits option.splits\<close>)
next
  case False
  obtain d where d: "inspect_reset db i = Inr d"
    using assms False by (auto simp: reset_body_def split: sum.splits)
  note f = inspect_resetD [OF d]
  then obtain revision where r: "counter_field d ''revision'' = Some revision" using known_subscriptionD by blast
  show thesis
    by (rule that [of d revision "reset_filter i revision d"])
       (use assms False d r f known_subscriptionD [of i d] in \<open>auto simp: reset_body_def Let_def refuse_reset_def update_subscription_def update_of_def
          reset_filter_def stores_references split: if_splits option.splits\<close>)
qed

lemma reset_refused_again:
  assumes "only_subscription db i = Inr (update_of opts revision now d)"
  shows "\<exists>e. (if ro_recoverUnmanagedBasic opts then recovery_body opts i t else reset_body opts i t) db = (Inl e, db)"
proof (cases "ro_recoverUnmanagedBasic opts")
  case True
  have "\<not> exact_basic_state (update_of opts revision now d)"
    using update_fields(4) [OF True, of revision now d] by (simp add: exact_basic_state_def field_is_def text_value_def units_def)
  then show ?thesis using assms True
    by (auto simp: recovery_body_def inspect_recovery_def refuse_reset_def split: sum.splits)
next
  case False
  have "\<not> has_field (update_of opts revision now d) ''stripeCustomerId''" by (rule update_fields(1)) (simp add: resetFields_def)
  then have "\<not> text_matches customer_pattern (update_of opts revision now d) ''stripeCustomerId''"
    by (simp add: text_matches_def text_field_def has_field_def)
  then have "\<exists>e. inspect_reset db i = Inl e" using assms
    by (simp add: inspect_reset_def refuse_reset_def)
  then show ?thesis using False by (auto simp: reset_body_def)
qed


end
