(* ===== verification/MaintenanceExamples.thy ===== *)
theory MaintenanceExamples
  imports MaintenanceSafety EnvironmentSafety
begin

text \<open>
  The maintenance commands on a database of one company that signed up and one that works, and a
  small accepted configuration.
\<close>

section \<open>Maintenance\<close>

definition example_id :: js_string where
  "example_id = units ''0000000000000000000000a1''"

definition stored_at :: "nat \<Rightarrow> document" where
  "stored_at i = [(''_id'', B_Id i), (''__v'', B_Int 0), (''createdAt'', B_Date 1000), (''updatedAt'', B_Date 1000)]"

definition fresh_signup :: database where
  "fresh_signup =
    \<lparr>db_companies = [stored_at 161 @ [(''name'', text_value ''Acme''), (''activatedAt'', B_Null)],
                     stored_at 7 @ [(''name'', text_value ''Other''), (''activatedAt'', B_Date 2000)]],
     db_users = [stored_at 2 @ [(''companyId'', B_Id 161), (''role'', text_value ''company_owner''), (''password'', text_value ''hash'')],
                 stored_at 8 @ [(''companyId'', B_Id 7), (''role'', text_value ''company_owner'')]],
     db_subscriptions = [stored_at 3 @ [(''companyId'', B_Id 161), (''planCode'', text_value ''free''), (''revision'', B_Int 0),
                   (''activatedAt'', B_Date 1000), (''planChangedAt'', B_Date 1000)]],
     db_verifications = [stored_at 4 @ [(''companyId'', B_Id 161), (''ownerId'', B_Id 2), (''tokenHash'', text_value ''t'')]],
     db_files = [stored_at 9 @ [(''companyId'', B_Id 7), (''uploaderId'', B_Id 8)]],
     db_invitations = [], db_periods = [], db_stripeEvents = [], db_stripeUsage = [],
     db_aiConversations = [], db_aiMessages = [], db_aiUsage = [], db_audits = []\<rparr>"

definition cleanup_confirmed :: cleanup_options where
  "cleanup_confirmed = \<lparr>co_companyId = example_id, co_environment = Some (units ''test''),
     co_confirmDisposable = True, co_confirmApplicationStopped = True\<rparr>"

lemma cleaned_up:
  "cleanup_run True Committed cleanup_confirmed fresh_signup =
     (Inr \<lparr>cr_companyId = 161,
        cr_matched = \<lparr>cn_companies = 1, cn_ownerUsers = 1, cn_freeSubscriptions = 1, cn_verificationRecords = 1\<rparr>,
        cr_deleted = Some \<lparr>cn_companies = 1, cn_ownerUsers = 1, cn_freeSubscriptions = 1, cn_verificationRecords = 1\<rparr>\<rparr>,
      fresh_signup\<lparr>db_companies := [stored_at 7 @ [(''name'', text_value ''Other''), (''activatedAt'', B_Date 2000)]],
        db_users := [stored_at 8 @ [(''companyId'', B_Id 7), (''role'', text_value ''company_owner'')]],
        db_subscriptions := [], db_verifications := []\<rparr>)"
  by code_simp


definition mapped_subscription :: document where
  "mapped_subscription = stored_at 3 @ [(''companyId'', B_Id 161), (''planCode'', text_value ''free''), (''revision'', B_Int 4),
     (''activatedAt'', B_Date 1000), (''planChangedAt'', B_Date 1000), (''stripeManaged'', B_Bool False),
     (''stripeCustomerId'', text_value ''cus_Abc1'')]"

definition mapped :: database where
  "mapped = fresh_signup\<lparr>db_subscriptions := [mapped_subscription]\<rparr>"

definition reset_confirmed :: reset_options where
  "reset_confirmed = \<lparr>ro_companyId = example_id, ro_environment = Some (units ''test''), ro_execute = True,
     ro_expectedRevision = Some 4, ro_confirmReset = True, ro_confirmAppStopped = True, ro_confirmOldStripeQuiescent = True,
     ro_recoverUnmanagedBasic = False, ro_confirmTransitionToFree = False\<rparr>"

lemma reset_done:
  "fst (reset_run True Committed 5000 reset_confirmed mapped) = Inr (Reset_Done 161 4 5 [''stripeCustomerId''])"
  "db_subscriptions (snd (reset_run True Committed 5000 reset_confirmed mapped)) =
     [reset_update 4 5000 mapped_subscription]"
  "reset_update 4 5000 mapped_subscription \<noteq> mapped_subscription"
  by code_simp+


section \<open>Configuration\<close>

definition example_url :: "js_string \<Rightarrow> parsed_url option" where
  "example_url s = (if s = units ''http://localhost/'' then Some
     \<lparr>url_protocol = units ''http:'', url_username = [], url_password = [], url_origin = units ''http://localhost'',
      url_hostname = units ''localhost'', url_pathname = units ''/'', url_search = [], url_hash = []\<rparr> else None)"

definition example_env_tools :: env_tools where
  "example_env_tools = \<lparr>et_url = example_url, et_isEmail = (\<lambda>s. s = units ''a@b.c'')\<rparr>"

definition example_settings :: settings where
  "example_settings = map_of (map (\<lambda>(k, v). (k, E_Text (units v)))
     [(''MONGO_URI'', ''mongodb://db''), (''JWT_SECRET'', ''0123456789abcdef0123456789abcdef''),
      (''ACCOUNT_ACTIVATION_URL'', ''http://localhost/''), (''EMPLOYEE_INVITATION_URL'', ''http://localhost/''),
      (''EMAIL_PROVIDER'', ''smtp''), (''SMTP_HOST'', ''localhost''), (''SMTP_FROM'', ''a@b.c''), (''PORT'', ''8080'')])"

lemma example_settings_accepted:
  "(case validateEnvironment example_env_tools example_settings of
      Inr env \<Rightarrow> env ''PORT'' = Some (E_Number 8080) \<and> env ''SMTP_PORT'' = Some (E_Number 587) | Inl _ \<Rightarrow> False)"
  by code_simp

theorem environment_bounds_witness:
  "\<exists>env. validateEnvironment example_env_tools example_settings = Inr env \<and> env ''PORT'' = Some (E_Number 8080)
     \<and> bounded_settings all_integers env"
proof -
  obtain env where env: "validateEnvironment example_env_tools example_settings = Inr env" "env ''PORT'' = Some (E_Number 8080)"
    using example_settings_accepted by (auto split: sum.splits)
  show ?thesis using env environment_bounds [OF env(1)] by blast
qed

end
