(* ===== verification/HiddenPrompt.thy ===== *)
theory HiddenPrompt
  imports Administration Detectors
begin

text \<open>
  The prompt for a secret on a terminal (\<open>maintenance/hidden-prompt.ts\<close>): a state machine over the
  characters typed, with the terminal it switches to raw mode and back. Characters are the code
  points the decoder yields for a chunk of input. Whatever is typed, nothing of it is written, the
  terminal is left as it was found, and an answer has no control characters.
\<close>

section \<open>Characters\<close>

record prompt_state =
  ps_answer :: "nat list"
  ps_sequence :: "nat list"
  ps_pasting :: bool
  ps_brokenPaste :: bool

definition paste_start :: "nat list" where "paste_start = [27, 91, 50, 48, 48, 126]"
definition paste_end :: "nat list" where "paste_end = [27, 91, 50, 48, 49, 126]"

text \<open>What a character leads to: the next state, or the end with a failure or the answer.\<close>

datatype prompt_next = Waiting prompt_state | Answered "cli_failure + nat list"

definition sequence_char :: "cli_failure \<Rightarrow> nat \<Rightarrow> prompt_state \<Rightarrow> prompt_next" where
  "sequence_char invalid c s =
     (let t = ps_sequence s @ [c]; expected = (if ps_pasting s then paste_end else paste_start) in
      if t = expected then
        (let s' = s\<lparr>ps_sequence := [], ps_pasting := \<not> ps_pasting s\<rparr> in
         if \<not> ps_pasting s' \<and> ps_brokenPaste s' then Answered (Inl invalid) else Waiting s')
      else Waiting (s\<lparr>ps_sequence := (if starts_with t expected then t else [])\<rparr>))"

definition prompt_char :: "cli_failure \<Rightarrow> nat \<Rightarrow> prompt_state \<Rightarrow> prompt_next" where
  "prompt_char invalid c s =
     (if ps_sequence s \<noteq> [] then sequence_char invalid c s
      else if c = 27 then Waiting (s\<lparr>ps_sequence := [c]\<rparr>)
      else if c = 3 \<or> c = 4 then Answered (Inl OPERATOR_CANCELLED)
      else if c = 13 \<or> c = 10 then
        (if ps_pasting s then Waiting (s\<lparr>ps_brokenPaste := True\<rparr>) else Answered (Inr (ps_answer s)))
      else if c = 127 \<or> c = 8 then Waiting (s\<lparr>ps_answer := butlast (ps_answer s)\<rparr>)
      else
        (let s' = (if 32 \<le> c then s\<lparr>ps_answer := ps_answer s @ [c]\<rparr> else s) in
         if length (code_units (ps_answer s')) > 4096 then Answered (Inl OPERATOR_CANCELLED) else Waiting s'))"

fun receive :: "cli_failure \<Rightarrow> nat list \<Rightarrow> prompt_state \<Rightarrow> prompt_next" where
  "receive invalid [] s = Waiting s"
| "receive invalid (c # cs) s =
     (case prompt_char invalid c s of Waiting s' \<Rightarrow> receive invalid cs s' | Answered r \<Rightarrow> Answered r)"

section \<open>The terminal\<close>

record tty =
  tm_inputTTY :: bool
  tm_outputTTY :: bool
  tm_raw :: bool
  tm_flowing :: bool
  tm_listening :: bool
  tm_written :: "nat list"

datatype prompt_event = Typed "nat list" | Input_Ended | Input_Error

definition finish_prompt :: "bool \<Rightarrow> tty \<Rightarrow> tty" where
  "finish_prompt wasRaw t = t\<lparr>tm_listening := False, tm_raw := wasRaw, tm_flowing := False, tm_written := tm_written t @ [10]\<rparr>"

text \<open>The promise: pending after the events there were, or settled; later events find no listener.\<close>

fun prompt_loop ::
  "cli_failure \<Rightarrow> bool \<Rightarrow> prompt_event list \<Rightarrow> prompt_state \<Rightarrow> tty \<Rightarrow> (cli_failure + nat list) option \<times> tty" where
  "prompt_loop invalid wasRaw [] s t = (None, t)"
| "prompt_loop invalid wasRaw (e # es) s t =
     (case e of
        Typed cs \<Rightarrow>
          (case receive invalid cs s of
             Waiting s' \<Rightarrow> prompt_loop invalid wasRaw es s' t
           | Answered r \<Rightarrow> (Some r, finish_prompt wasRaw t))
      | _ \<Rightarrow> (Some (Inl OPERATOR_CANCELLED), finish_prompt wasRaw t))"

definition hiddenPrompt ::
  "nat list \<Rightarrow> cli_failure \<Rightarrow> prompt_event list \<Rightarrow> tty \<Rightarrow> (cli_failure + nat list) option \<times> tty" where
  "hiddenPrompt prompt invalid events t =
     (if \<not> tm_inputTTY t \<or> \<not> tm_outputTTY t then (Some (Inl invalid), t)
      else prompt_loop invalid (tm_raw t) events
        \<lparr>ps_answer = [], ps_sequence = [], ps_pasting = False, ps_brokenPaste = False\<rparr>
        (t\<lparr>tm_written := tm_written t @ prompt, tm_raw := True, tm_flowing := True, tm_listening := True\<rparr>))"

section \<open>What is typed stays hidden\<close>

definition sound_answer :: "nat list \<Rightarrow> bool" where
  "sound_answer a \<longleftrightarrow> list_all (\<lambda>c. 32 \<le> c \<and> c \<noteq> 127) a \<and> length (code_units a) \<le> 4096"

lemma code_units_butlast: "length (code_units (butlast a)) \<le> length (code_units a)"
  by (cases a rule: rev_cases) (simp_all add: code_units_def)

lemma sound_butlast: "sound_answer a \<Longrightarrow> sound_answer (butlast a)"
  using code_units_butlast [of a] by (auto simp: sound_answer_def list_all_iff dest: in_set_butlastD)

lemma sound_typed:
  "sound_answer a \<Longrightarrow> 32 \<le> c \<Longrightarrow> c \<noteq> 127 \<Longrightarrow> length (code_units (a @ [c])) \<le> 4096 \<Longrightarrow> sound_answer (a @ [c])"
  by (simp add: sound_answer_def)

lemma sequence_char_answer:
  "(case sequence_char invalid c s of
      Waiting s' \<Rightarrow> ps_answer s' = ps_answer s | Answered r \<Rightarrow> r = Inl invalid)"
  by (simp add: sequence_char_def Let_def)

text \<open>What the states and the end of a prompt keep.\<close>

definition sound_next :: "cli_failure \<Rightarrow> prompt_next \<Rightarrow> bool" where
  "sound_next invalid n \<longleftrightarrow> (case n of
      Waiting s \<Rightarrow> sound_answer (ps_answer s)
    | Answered (Inr a) \<Rightarrow> sound_answer a
    | Answered (Inl e) \<Rightarrow> e \<in> {invalid, OPERATOR_CANCELLED})"

lemma sound_next_simps [simp]:
  "sound_next invalid (Waiting s) \<longleftrightarrow> sound_answer (ps_answer s)"
  "sound_next invalid (Answered (Inr a)) \<longleftrightarrow> sound_answer a"
  "sound_next invalid (Answered (Inl e)) \<longleftrightarrow> e \<in> {invalid, OPERATOR_CANCELLED}"
  by (simp_all add: sound_next_def)

lemma prompt_char_sound:
  assumes "sound_answer (ps_answer s)"
  shows "sound_next invalid (prompt_char invalid c s)"
proof (cases "ps_sequence s = []")
  case False
  then show ?thesis using assms sequence_char_answer [where invalid = invalid and c = c and s = s]
    by (cases "sequence_char invalid c s") (simp_all add: prompt_char_def)
next
  case True
  then show ?thesis using assms by (simp add: prompt_char_def Let_def sound_butlast sound_typed)
qed

lemma receive_sound: "sound_answer (ps_answer s) \<Longrightarrow> sound_next invalid (receive invalid cs s)"
proof (induction cs arbitrary: s)
  case (Cons c cs)
  show ?case using prompt_char_sound [OF Cons.prems, of invalid c] Cons.IH
    by (cases "prompt_char invalid c s") simp_all
qed simp

lemma prompt_loop_sound:
  assumes "sound_answer (ps_answer s)" "prompt_loop invalid wasRaw es s t = (r, t')"
  shows "(r = None \<and> t' = t) \<or> (\<exists>x. r = Some x \<and> t' = finish_prompt wasRaw t
    \<and> (case x of Inr a \<Rightarrow> sound_answer a | Inl e \<Rightarrow> e \<in> {invalid, OPERATOR_CANCELLED}))"
  using assms
proof (induction es arbitrary: s)
  case (Cons e es)
  show ?case
  proof (cases e)
    case (Typed cs)
    show ?thesis
    proof (cases "receive invalid cs s")
      case (Waiting s')
      then show ?thesis using Cons.IH [of s'] Cons.prems receive_sound [OF Cons.prems(1), of invalid cs] Typed by simp
    next
      case (Answered x)
      then show ?thesis using Cons.prems receive_sound [OF Cons.prems(1), of invalid cs] Typed
        by (auto split: sum.splits)
    qed
  qed (use Cons.prems in auto)
qed simp

text \<open>
  C0. Asking for a secret reveals nothing of it: whatever is typed or pasted, all that is ever written
  is the prompt and, at the end, a line feed; when the promise settles, the terminal is out of raw
  mode if it was before and nothing listens to it; an answer is at most 4096 code units without
  control characters; and a terminal that is none is refused before anything is read.
\<close>

theorem hidden_prompt_safe:
  "case hiddenPrompt prompt invalid events t of
     (None, t') \<Rightarrow> tm_written t' = tm_written t @ prompt
   | (Some r, t') \<Rightarrow> tm_raw t' = tm_raw t
       \<and> (if tm_inputTTY t \<and> tm_outputTTY t
          then tm_written t' = tm_written t @ prompt @ [10] \<and> \<not> tm_listening t' \<and> \<not> tm_flowing t'
            \<and> (case r of Inr a \<Rightarrow> sound_answer a | Inl e \<Rightarrow> e \<in> {invalid, OPERATOR_CANCELLED})
          else t' = t \<and> r = Inl invalid)"
proof (cases "tm_inputTTY t \<and> tm_outputTTY t")
  case True
  obtain r t' where run: "hiddenPrompt prompt invalid events t = (r, t')" by fastforce
  have "prompt_loop invalid (tm_raw t) events
        \<lparr>ps_answer = [], ps_sequence = [], ps_pasting = False, ps_brokenPaste = False\<rparr>
        (t\<lparr>tm_written := tm_written t @ prompt, tm_raw := True, tm_flowing := True, tm_listening := True\<rparr>) = (r, t')"
    using run True by (simp add: hiddenPrompt_def)
  from prompt_loop_sound [OF _ this] show ?thesis unfolding run using True
    by (auto simp: sound_answer_def code_units_def finish_prompt_def)
qed (auto simp: hiddenPrompt_def)

end
