(* ===== verification/SmokeTest.thy ===== *)
theory SmokeTest
  imports Administration Environment GuardChild
begin

text \<open>
  The smoke test of platform administration (\<open>maintenance/admin-smoke-test.service.ts\<close>): a client of a
  running server that suspends and reactivates one fixture of its own. The server is an argument,
  a function from a request and a state to an answer - or none, when the answer is lost - and a state;
  what was sent and answered is kept in a log. Whatever the server answers, requests that change
  something concern the fixture only, and a suspended fixture is reactivated or reported.
\<close>

section \<open>Requests, stages and failures\<close>

datatype smoke_method = Http_Get | Http_Post

record smoke_request =
  hq_method :: smoke_method
  hq_path :: js_string
  hq_token :: "js_string option"
  hq_body :: "json option"

record smoke_response =
  hp_status :: int
  hp_body :: "json option"

type_synonym 's smoke_transport = "smoke_request \<Rightarrow> 's \<Rightarrow> smoke_response option \<times> 's"

datatype smoke_stage =
    Stage_Admin_Authentication | Stage_Supplied_Jwt_Rejected | Stage_Credentials_Rejected
  | Stage_Login_Request_Rejected | Stage_Issued_Admin_Jwt_Rejected | Stage_Endpoint_Unreachable
  | Stage_Endpoint_Misconfigured | Stage_Endpoint_Unavailable | Stage_Activation
  | Stage_Activation_Complete | Stage_Resume_Lookup | Stage_Resume_Safety | Stage_Registration
  | Stage_Tenant_Login | Stage_Tenant_Endpoint | Stage_Tenant_Admin_Denied | Stage_Fixture_Safety
  | Stage_Suspend | Stage_Issued_Jwt_Rejected | Stage_Fresh_Login_Rejected | Stage_State_Preserved
  | Stage_Admin_Functional | Stage_Reactivate | Stage_Original_Jwt_Restored | Stage_Audit_Events
  | Stage_Recovery

text \<open>A failure of the test names its stage and, if there was one, the status; the flag is for a failed recovery.\<close>

datatype smoke_error = Cli_Error cli_failure | Smoke_Failure smoke_stage "int option" bool | Other_Error

fun smoke_category :: "smoke_error \<Rightarrow> cli_failure" where
  "smoke_category (Cli_Error c) = c"
| "smoke_category (Smoke_Failure stage status failed) = (if failed then SMOKE_RECOVERY else SMOKE_ASSERTION)"
| "smoke_category Other_Error = CLI_UNKNOWN"

text \<open>The run of a test: the server, the log, the stages reported and the variables of the test.\<close>

record 's smoke_run =
  sm_server :: 's
  sm_log :: "(smoke_request \<times> smoke_response option) list"
  sm_progress :: "smoke_stage list"
  sm_registering :: bool
  sm_companyId :: "js_string option"
  sm_suspensionAttempted :: bool

type_synonym ('s, 'a) smoke_action = "('s smoke_run, smoke_error, 'a) action"

definition smoke_send ::
  "'s smoke_transport \<Rightarrow> smoke_method \<Rightarrow> js_string \<Rightarrow> js_string option \<Rightarrow> json option
    \<Rightarrow> ('s, smoke_response option) smoke_action" where
  "smoke_send api m path token body s =
     (let rq = \<lparr>hq_method = m, hq_path = path, hq_token = token, hq_body = body\<rparr>; (r, t) = api rq (sm_server s) in
      (Inr r, s\<lparr>sm_server := t, sm_log := sm_log s @ [(rq, r)]\<rparr>))"

definition smoke_progress :: "smoke_stage \<Rightarrow> ('s, unit) smoke_action" where
  "smoke_progress stage = modify (\<lambda>s. s\<lparr>sm_progress := sm_progress s @ [stage]\<rparr>)"

definition smoke_call ::
  "'s smoke_transport \<Rightarrow> smoke_stage \<Rightarrow> smoke_method \<Rightarrow> js_string \<Rightarrow> int \<Rightarrow> js_string option \<Rightarrow> json option
    \<Rightarrow> ('s, json option) smoke_action" where
  "smoke_call api stage m path status token body =
     andthen (smoke_send api m path token body) (\<lambda>r.
     case r of
       None \<Rightarrow> throw (Smoke_Failure stage None False)
     | Some p \<Rightarrow>
         if hp_status p \<noteq> status then throw (Smoke_Failure stage (Some (hp_status p)) False)
         else andthen (smoke_progress stage) (\<lambda>_. return (hp_body p)))"

section \<open>Arguments\<close>

text \<open>The URL parser, and the entries of a URL's query.\<close>

record smoke_tools =
  ot_url :: "js_string \<Rightarrow> parsed_url option"
  ot_searchParams :: "parsed_url \<Rightarrow> (js_string \<times> js_string) list"
  ot_isEmail :: "js_string \<Rightarrow> bool"

abbreviation invalid_smoke :: smoke_error where "invalid_smoke \<equiv> Cli_Error INVALID_SMOKE_CONFIGURATION"

definition loopback :: "js_string \<Rightarrow> bool" where
  "loopback host \<longleftrightarrow> host \<in> {units ''localhost'', units ''127.0.0.1'', units ''[::1]''}"

definition smokeBaseUrl :: "smoke_tools \<Rightarrow> js_string \<Rightarrow> smoke_error + js_string" where
  "smokeBaseUrl T v =
     (case ot_url T v of
        None \<Rightarrow> Inl invalid_smoke
      | Some u \<Rightarrow>
          if url_protocol u \<notin> {units ''http:'', units ''https:''} \<or> \<not> loopback (url_hostname u)
            \<or> url_username u \<noteq> [] \<or> url_password u \<noteq> [] \<or> url_search u \<noteq> [] \<or> url_hash u \<noteq> []
            \<or> url_pathname u \<noteq> units ''/''
          then Inl invalid_smoke else Inr (url_origin u))"

text \<open>The name of a fixture, with a random UUID; the expression does not look at case.\<close>

definition fixture_pattern :: pattern where
  "fixture_pattern =
     (let hex = P_Class is_hex; dash = p_char 45 in
      p_whole [p_text ''datavault admin smoke '', p_times 8 hex, dash, p_times 4 hex, dash, p_char 52, p_times 3 hex,
        dash, p_set ''89ab'', p_times 3 hex, dash, p_times 12 hex])"

datatype smoke_command = Smoke_Register js_string | Smoke_Resume js_string js_string

definition smokeCommand :: "smoke_tools \<Rightarrow> js_string list \<Rightarrow> smoke_error + smoke_command" where
  "smokeCommand T args =
     (case args of
        [a, url, confirm] \<Rightarrow>
          if a = units ''--base-url'' \<and> confirm = units ''--confirm-test-tenant''
          then result_bind (smokeBaseUrl T url) (\<lambda>origin. Inr (Smoke_Register origin))
          else Inl invalid_smoke
      | [a, url, b, name, confirm] \<Rightarrow>
          if a = units ''--base-url'' \<and> b = units ''--resume-fixture'' \<and> test fixture_pattern (map lower name)
            \<and> confirm = units ''--confirm-test-tenant''
          then result_bind (smokeBaseUrl T url) (\<lambda>origin. Inr (Smoke_Resume origin name))
          else Inl invalid_smoke
      | _ \<Rightarrow> Inl invalid_smoke)"

definition activation_token :: "js_string \<Rightarrow> bool" where
  "activation_token t \<longleftrightarrow> length t = 43 \<and> list_all (\<lambda>c. alnum c \<or> c = 95 \<or> c = 45) t"

definition smokeActivationToken :: "smoke_tools \<Rightarrow> js_string \<Rightarrow> smoke_error + js_string" where
  "smokeActivationToken T v =
     (let candidate = js_trim v in
      if activation_token candidate then Inr candidate
      else if candidate = [] \<or> length candidate > 2048 then Inl invalid_smoke
      else case ot_url T candidate of
        None \<Rightarrow> Inl invalid_smoke
      | Some u \<Rightarrow>
          (case ot_searchParams T u of
             [(k, token)] \<Rightarrow>
               if url_protocol u \<notin> {units ''http:'', units ''https:''}
                 \<or> (url_protocol u \<noteq> units ''https:'' \<and> \<not> loopback (url_hostname u))
                 \<or> url_username u \<noteq> [] \<or> url_password u \<noteq> [] \<or> url_hash u \<noteq> []
                 \<or> k \<noteq> units ''token'' \<or> \<not> activation_token token
               then Inl invalid_smoke else Inr token
           | _ \<Rightarrow> Inl invalid_smoke))"

definition activateSmokeCompany :: "smoke_tools \<Rightarrow> 's smoke_transport \<Rightarrow> js_string \<Rightarrow> ('s, unit) smoke_action" where
  "activateSmokeCompany T api activation =
     andthen (lift_result (smokeActivationToken T activation)) (\<lambda>token.
     andthen (smoke_send api Http_Post (units ''/auth/verify-account'') None
         (Some (JObject [(units ''token'', JString token)]))) (\<lambda>r.
     case r of
       None \<Rightarrow> throw (Smoke_Failure Stage_Activation None False)
     | Some p \<Rightarrow>
         if hp_status p \<noteq> 200 then throw (Smoke_Failure Stage_Activation (Some (hp_status p)) False)
         else return ()))"

text \<open>How the command activates: it asks for the link first, which the operator may cancel.\<close>

definition activateNormally ::
  "smoke_tools \<Rightarrow> 's smoke_transport \<Rightarrow> cli_failure + js_string \<Rightarrow> ('s, unit) smoke_action" where
  "activateNormally T api answered =
     (case answered of Inl e \<Rightarrow> throw (Cli_Error e) | Inr activation \<Rightarrow> activateSmokeCompany T api activation)"

section \<open>The administrator\<close>

datatype smoke_authentication = Supplied_Token js_string | Admin_Credentials js_string js_string

definition authenticationFailure :: "int \<Rightarrow> smoke_stage \<Rightarrow> smoke_error" where
  "authenticationFailure status rejected =
     (if status = 401 \<or> status = 403 then Smoke_Failure rejected (Some status) False
      else if status = 404 \<or> status = 405 then Smoke_Failure Stage_Endpoint_Misconfigured (Some status) False
      else if status \<ge> 500 then Smoke_Failure Stage_Endpoint_Unavailable (Some status) False
      else Smoke_Failure Stage_Login_Request_Rejected (Some status) False)"

definition body_field :: "string \<Rightarrow> json option \<Rightarrow> json option" where
  "body_field k body = Option.bind body (field k)"

definition dashboard_path :: js_string where "dashboard_path = units ''/admin/dashboard''"
definition sign_in_path :: js_string where "sign_in_path = units ''/auth/sign-in''"
definition current_user_path :: js_string where "current_user_path = units ''/auth/current-user''"

definition admin_token ::
  "'s smoke_transport \<Rightarrow> smoke_authentication \<Rightarrow> ('s, js_string) smoke_action" where
  "admin_token api authentication =
     (case authentication of
        Supplied_Token supplied \<Rightarrow>
          if js_trim supplied = [] then throw invalid_smoke else return (js_trim supplied)
      | Admin_Credentials email password \<Rightarrow>
          andthen (smoke_send api Http_Post (units ''/admin/auth/login'') None
              (Some (JObject [(units ''email'', JString email), (units ''password'', JString password)]))) (\<lambda>r.
          case r of
            None \<Rightarrow> throw (Smoke_Failure Stage_Endpoint_Unreachable None False)
          | Some p \<Rightarrow>
              if hp_status p \<noteq> 200 then throw (authenticationFailure (hp_status p) Stage_Credentials_Rejected)
              else
                (case body_field ''accessToken'' (hp_body p) of
                   Some (JString token) \<Rightarrow>
                     if token = [] then throw (Smoke_Failure Stage_Endpoint_Misconfigured (Some (hp_status p)) False)
                     else return token
                 | _ \<Rightarrow> throw (Smoke_Failure Stage_Endpoint_Misconfigured (Some (hp_status p)) False))))"

definition authenticateSmokeAdmin ::
  "'s smoke_transport \<Rightarrow> smoke_authentication \<Rightarrow> ('s, js_string) smoke_action" where
  "authenticateSmokeAdmin api authentication =
     andthen (admin_token api authentication) (\<lambda>token.
     andthen (smoke_send api Http_Get dashboard_path (Some token) None) (\<lambda>r.
     case r of
       None \<Rightarrow> throw (Smoke_Failure Stage_Endpoint_Unreachable None False)
     | Some p \<Rightarrow>
         if hp_status p = 200 then return token
         else if hp_status p = 401 \<or> hp_status p = 403 then
           throw (Smoke_Failure (case authentication of
               Supplied_Token _ \<Rightarrow> Stage_Supplied_Jwt_Rejected
             | Admin_Credentials _ _ \<Rightarrow> Stage_Issued_Admin_Jwt_Rejected) (Some (hp_status p)) False)
         else if hp_status p \<ge> 500 then throw (Smoke_Failure Stage_Endpoint_Unavailable (Some (hp_status p)) False)
         else throw (Smoke_Failure Stage_Endpoint_Misconfigured (Some (hp_status p)) False)))"

section \<open>The fixture\<close>

text \<open>A value that has to be an object, and one that may be.\<close>

definition record_of :: "json option \<Rightarrow> smoke_error + json" where
  "record_of v = (case v of Some (JObject fs) \<Rightarrow> Inr (JObject fs) | _ \<Rightarrow> Inl (Smoke_Failure Stage_Fixture_Safety None False))"

definition optional_record :: "json option \<Rightarrow> json option" where
  "optional_record v = (case v of Some (JObject fs) \<Rightarrow> Some (JObject fs) | _ \<Rightarrow> None)"

text \<open>\<open>===\<close> on values of which objects are never the same, and \<open>== null\<close>.\<close>

fun strictly_equal :: "json option \<Rightarrow> json option \<Rightarrow> bool" where
  "strictly_equal (Some (JObject fs)) w = False"
| "strictly_equal (Some (JArray vs)) w = False"
| "strictly_equal v w = (v = w)"

definition nullish :: "json option \<Rightarrow> bool" where
  "nullish v \<longleftrightarrow> v = None \<or> v = Some JNull"

definition is_text :: "js_string \<Rightarrow> json option \<Rightarrow> bool" where
  "is_text t v \<longleftrightarrow> v = Some (JString t)"

definition is_zero :: "json option \<Rightarrow> bool" where
  "is_zero v \<longleftrightarrow> v = Some (JNumber 0 0)"

text \<open>\<open>isDeepStrictEqual\<close> on parsed values: the order of fields does not matter.\<close>

fun deep_equal :: "json \<Rightarrow> json \<Rightarrow> bool"
  and deep_equal_elements :: "json list \<Rightarrow> json list \<Rightarrow> bool"
  and deep_equal_fields :: "(js_string \<times> json) list \<Rightarrow> (js_string \<times> json) list \<Rightarrow> bool" where
  "deep_equal (JArray vs) w = (case w of JArray ws \<Rightarrow> deep_equal_elements vs ws | _ \<Rightarrow> False)"
| "deep_equal (JObject fs) w =
     (case w of JObject gs \<Rightarrow> length fs = length gs \<and> deep_equal_fields fs gs | _ \<Rightarrow> False)"
| "deep_equal v w = (v = w)"
| "deep_equal_elements [] ws = (ws = [])"
| "deep_equal_elements (v # vs) ws = (case ws of [] \<Rightarrow> False | w # ws' \<Rightarrow> deep_equal v w \<and> deep_equal_elements vs ws')"
| "deep_equal_fields [] gs = True"
| "deep_equal_fields ((k, v) # fs) gs =
     ((case map_of gs k of None \<Rightarrow> False | Some w \<Rightarrow> deep_equal v w) \<and> deep_equal_fields fs gs)"

definition deep_equal_option :: "json option \<Rightarrow> json option \<Rightarrow> bool" where
  "deep_equal_option v w = (case (v, w) of (Some a, Some b) \<Rightarrow> deep_equal a b | (None, None) \<Rightarrow> True | _ \<Rightarrow> False)"

text \<open>What a test must leave as it was: values that may be absent.\<close>

definition fixture_state :: "json \<Rightarrow> smoke_error + json option list" where
  "fixture_state detail =
     result_bind (record_of (field ''company'' detail)) (\<lambda>company.
     Inr [field ''id'' company, field ''name'' company, field ''country'' company, field ''industry'' company,
       field ''activatedAt'' company, field ''createdAt'' company, field ''owner'' detail, field ''employees'' detail,
       field ''currentlyStoredFiles'' detail, field ''subscription'' detail, field ''billingEstimate'' detail,
       field ''stripe'' detail, field ''integrityWarnings'' detail])"

definition same_state :: "json option list \<Rightarrow> json option list \<Rightarrow> bool" where
  "same_state = list_all2 deep_equal_option"

definition pristineFixture :: "json \<Rightarrow> js_string \<Rightarrow> js_string \<Rightarrow> js_string \<Rightarrow> bool \<Rightarrow> bool" where
  "pristineFixture detail fixtureName companyId ownerEmail activated =
     (case (optional_record (field ''company'' detail), optional_record (field ''owner'' detail),
            optional_record (field ''subscription'' detail), optional_record (field ''employees'' detail),
            optional_record (field ''currentlyStoredFiles'' detail), optional_record (field ''billingEstimate'' detail)) of
        (Some company, Some owner, Some subscription, Some employees, Some stored, Some billing) \<Rightarrow>
          is_text companyId (field ''id'' company) \<and> is_text fixtureName (field ''name'' company)
          \<and> truthy (field ''activatedAt'' company) = activated
          \<and> is_text (units ''active'') (field ''platformStatus'' company)
          \<and> nullish (field ''platformStatusReason'' company) \<and> nullish (field ''platformStatusChangedAt'' company)
          \<and> is_text ownerEmail (field ''email'' owner)
          \<and> is_text (units ''free'') (field ''planCode'' subscription)
          \<and> nullish (field ''pendingPlanCode'' subscription) \<and> nullish (field ''pendingPlanAt'' subscription)
          \<and> strictly_equal (field ''planChangedAt'' subscription) (field ''activatedAt'' subscription)
          \<and> is_zero (field ''accepted'' employees) \<and> is_zero (field ''pendingInvitations'' employees)
          \<and> is_zero (field ''total'' stored)
          \<and> is_zero (field ''successfulUploads'' billing) \<and> is_zero (field ''overageChargeCents'' billing)
          \<and> is_zero (field ''totalAmountCents'' billing)
          \<and> field ''stripe'' detail = Some JNull \<and> field ''integrityWarnings'' detail = Some (JArray [])
      | _ \<Rightarrow> False)"

definition company_id_text :: "js_string \<Rightarrow> bool" where
  "company_id_text t \<longleftrightarrow> length t = 24 \<and> list_all is_hex t"

definition company_path :: "js_string \<Rightarrow> js_string \<Rightarrow> js_string" where
  "company_path companyId rest = units ''/admin/companies/'' @ companyId @ rest"

definition encodeURIComponent :: "js_string \<Rightarrow> js_string option" where
  "encodeURIComponent t =
     map_option (\<lambda>cs. concat (map (\<lambda>b. if b \<in> {39, 40, 41} then [b] else percent_encode1 b) (utf8_encode cs)))
       (code_points t)"

section \<open>The test\<close>

record smoke_credentials =
  oc_email :: js_string
  oc_password :: js_string
  oc_adminToken :: js_string

datatype smoke_start = Start_Register js_string js_string js_string | Start_Resume

text \<open>Registering a fixture: full name, country and industry of its owner.\<close>

definition register_fixture ::
  "'s smoke_transport \<Rightarrow> smoke_credentials \<Rightarrow> ('s, unit) smoke_action \<Rightarrow> js_string
    \<Rightarrow> js_string \<Rightarrow> js_string \<Rightarrow> js_string \<Rightarrow> ('s, unit) smoke_action" where
  "register_fixture api operator activating fixtureName fullName country industry =
     andthen (modify (\<lambda>s. s\<lparr>sm_registering := True\<rparr>)) (\<lambda>_.
     andthen (smoke_call api Stage_Registration Http_Post (units ''/auth/sign-up'') 202 None
         (Some (JObject [(units ''email'', JString (oc_email operator)), (units ''password'', JString (oc_password operator)),
            (units ''fullName'', JString fullName), (units ''companyName'', JString fixtureName),
            (units ''country'', JString country), (units ''industry'', JString industry)]))) (\<lambda>_.
     andthen activating (\<lambda>_. smoke_progress Stage_Activation)))"

text \<open>The only company of the listing with that very name.\<close>

definition listed_fixture :: "js_string \<Rightarrow> json option \<Rightarrow> smoke_error + js_string" where
  "listed_fixture fixtureName body =
     (case body_field ''items'' (optional_record body) of
        Some (JArray items) \<Rightarrow>
          (case filter (\<lambda>item. is_text fixtureName (field ''name'' item)) items of
             [item] \<Rightarrow>
               (case field ''id'' item of
                  Some (JString i) \<Rightarrow>
                    if company_id_text i then Inr i else Inl (Smoke_Failure Stage_Resume_Lookup None False)
                | _ \<Rightarrow> Inl (Smoke_Failure Stage_Resume_Lookup None False))
           | _ \<Rightarrow> Inl (Smoke_Failure Stage_Resume_Lookup None False))
      | _ \<Rightarrow> Inl (Smoke_Failure Stage_Resume_Lookup None False))"

definition find_fixture ::
  "'s smoke_transport \<Rightarrow> smoke_credentials \<Rightarrow> js_string \<Rightarrow> ('s, js_string) smoke_action" where
  "find_fixture api operator fixtureName =
     (case encodeURIComponent fixtureName of
        None \<Rightarrow> throw Other_Error
      | Some name \<Rightarrow>
          andthen (smoke_call api Stage_Resume_Lookup Http_Get
              (units ''/admin/companies?search='' @ name @ units ''&limit=100&sortBy=createdAt&order=desc'') 200
              (Some (oc_adminToken operator)) None) (\<lambda>body.
          andthen (lift_result (listed_fixture fixtureName body)) (\<lambda>i.
          andthen (modify (\<lambda>s. s\<lparr>sm_companyId := Some i\<rparr>)) (\<lambda>_. return i))))"

definition resume_fixture ::
  "'s smoke_transport \<Rightarrow> smoke_credentials \<Rightarrow> ('s, unit) smoke_action \<Rightarrow> js_string \<Rightarrow> ('s, unit) smoke_action" where
  "resume_fixture api operator activating fixtureName =
     andthen (find_fixture api operator fixtureName) (\<lambda>i.
     andthen (smoke_call api Stage_Resume_Safety Http_Get (company_path i []) 200 (Some (oc_adminToken operator)) None) (\<lambda>body.
     case (optional_record body, optional_record (body_field ''company'' (optional_record body))) of
       (Some preliminary, Some company) \<Rightarrow>
         (let activated = truthy (field ''activatedAt'' company) in
          if \<not> pristineFixture preliminary fixtureName i (oc_email operator) activated
          then throw (Smoke_Failure Stage_Resume_Safety None False)
          else if activated then smoke_progress Stage_Activation_Complete
          else andthen activating (\<lambda>_. smoke_progress Stage_Activation))
     | _ \<Rightarrow> throw (Smoke_Failure Stage_Resume_Safety None False)))"

text \<open>Signing in as the owner, and the company the session is of.\<close>

definition sign_in_body :: "smoke_credentials \<Rightarrow> json" where
  "sign_in_body operator =
     JObject [(units ''email'', JString (oc_email operator)), (units ''password'', JString (oc_password operator))]"

definition session_token :: "json \<Rightarrow> smoke_error + js_string" where
  "session_token login = (case field ''accessToken'' login of
     Some (JString t) \<Rightarrow> Inr t | _ \<Rightarrow> Inl (Smoke_Failure Stage_Tenant_Login None False))"

definition owned_company :: "smoke_credentials \<Rightarrow> js_string option \<Rightarrow> json \<Rightarrow> smoke_error + js_string" where
  "owned_company operator expected user = (case field ''companyId'' user of
     Some (JString i) \<Rightarrow>
       if \<not> company_id_text i \<or> \<not> is_text (units ''company_owner'') (field ''role'' user)
         \<or> \<not> is_text (oc_email operator) (field ''email'' user) \<or> (expected \<noteq> None \<and> expected \<noteq> Some i)
       then Inl (Smoke_Failure Stage_Fixture_Safety None False) else Inr i
   | _ \<Rightarrow> Inl (Smoke_Failure Stage_Fixture_Safety None False))"

definition identify_tenant ::
  "'s smoke_transport \<Rightarrow> smoke_credentials \<Rightarrow> ('s, js_string \<times> js_string) smoke_action" where
  "identify_tenant api operator =
     andthen (smoke_call api Stage_Tenant_Login Http_Post sign_in_path 201 None (Some (sign_in_body operator))) (\<lambda>body.
     andthen (lift_result (result_bind (record_of body) session_token)) (\<lambda>token.
     andthen (smoke_call api Stage_Tenant_Endpoint Http_Get current_user_path 200 (Some token) None) (\<lambda>body.
     andthen (gets sm_companyId) (\<lambda>expected.
     andthen (lift_result (result_bind (record_of body) (owned_company operator expected))) (\<lambda>i.
     andthen (modify (\<lambda>s. s\<lparr>sm_companyId := Some i\<rparr>)) (\<lambda>_. return (i, token)))))))"

definition check_fixture ::
  "'s smoke_transport \<Rightarrow> smoke_credentials \<Rightarrow> js_string \<Rightarrow> js_string \<Rightarrow> js_string
    \<Rightarrow> ('s, json option list) smoke_action" where
  "check_fixture api operator fixtureName i token =
     andthen (smoke_call api Stage_Tenant_Admin_Denied Http_Get dashboard_path 401 (Some token) None) (\<lambda>_.
     andthen (smoke_call api Stage_Fixture_Safety Http_Get (company_path i []) 200 (Some (oc_adminToken operator)) None) (\<lambda>body.
     andthen (lift_result (record_of body)) (\<lambda>detail.
     if \<not> pristineFixture detail fixtureName i (oc_email operator) True
     then throw (Smoke_Failure Stage_Fixture_Safety None False)
     else lift_result (fixture_state detail))))"

text \<open>From the suspension to the audit log.\<close>

definition preserved ::
  "'s smoke_transport \<Rightarrow> smoke_credentials \<Rightarrow> js_string \<Rightarrow> string \<Rightarrow> json option list \<Rightarrow> ('s, unit) smoke_action" where
  "preserved api operator i status baseline =
     andthen (smoke_call api Stage_State_Preserved Http_Get (company_path i []) 200 (Some (oc_adminToken operator)) None) (\<lambda>body.
     andthen (lift_result (record_of body)) (\<lambda>detail.
     andthen (lift_result (record_of (field ''company'' detail))) (\<lambda>company.
     andthen (lift_result (fixture_state detail)) (\<lambda>now.
     lift_result (require (is_text (units status) (field ''platformStatus'' company) \<and> same_state now baseline)
       (Smoke_Failure Stage_State_Preserved None False))))))"

definition matching_event :: "js_string \<Rightarrow> string \<Rightarrow> string \<Rightarrow> string \<Rightarrow> string \<Rightarrow> json \<Rightarrow> bool" where
  "matching_event i action reason previous after event \<longleftrightarrow>
     is_text i (field ''targetId'' event) \<and> is_text (units ''company'') (field ''targetType'' event)
     \<and> is_text (units action) (field ''action'' event) \<and> is_text (units reason) (field ''reason'' event)
     \<and> is_text (units previous) (field ''previousStatus'' event) \<and> is_text (units after) (field ''nextStatus'' event)"

definition audit_complete :: "js_string \<Rightarrow> json option \<Rightarrow> bool" where
  "audit_complete i body =
     (case body_field ''items'' (optional_record body) of
        Some (JArray items) \<Rightarrow>
          length (filter (matching_event i ''company_suspended'' ''operational_hold'' ''active'' ''suspended'') items) = 1
          \<and> length (filter (matching_event i ''company_reactivated'' ''review_completed'' ''suspended'' ''active'') items) = 1
      | _ \<Rightarrow> False)"

definition suspend_path :: "js_string \<Rightarrow> js_string" where
  "suspend_path i = company_path i (units ''/suspend'')"

definition reactivate_path :: "js_string \<Rightarrow> js_string" where
  "reactivate_path i = company_path i (units ''/reactivate'')"

definition suspended_checks ::
  "'s smoke_transport \<Rightarrow> smoke_credentials \<Rightarrow> js_string \<Rightarrow> js_string \<Rightarrow> json option list \<Rightarrow> ('s, unit) smoke_action" where
  "suspended_checks api operator i token baseline =
     andthen (smoke_call api Stage_Issued_Jwt_Rejected Http_Get current_user_path 401 (Some token) None) (\<lambda>_.
     andthen (smoke_call api Stage_Fresh_Login_Rejected Http_Post sign_in_path 401 None (Some (sign_in_body operator))) (\<lambda>_.
     andthen (preserved api operator i ''suspended'' baseline) (\<lambda>_.
     andthen (smoke_call api Stage_Admin_Functional Http_Get dashboard_path 200 (Some (oc_adminToken operator)) None) (\<lambda>_.
     return ()))))"

definition reactivated_checks ::
  "'s smoke_transport \<Rightarrow> smoke_credentials \<Rightarrow> js_string \<Rightarrow> js_string \<Rightarrow> json option list \<Rightarrow> ('s, unit) smoke_action" where
  "reactivated_checks api operator i token baseline =
     andthen (smoke_call api Stage_Original_Jwt_Restored Http_Get current_user_path 200 (Some token) None) (\<lambda>_.
     andthen (preserved api operator i ''active'' baseline) (\<lambda>_.
     andthen (smoke_call api Stage_Audit_Events Http_Get
         (units ''/admin/audit-logs?targetId='' @ i @ units ''&limit=100&order=desc'') 200
         (Some (oc_adminToken operator)) None) (\<lambda>body.
     lift_result (require (audit_complete i body) (Smoke_Failure Stage_Audit_Events None False)))))"

definition exercise ::
  "'s smoke_transport \<Rightarrow> smoke_credentials \<Rightarrow> js_string \<Rightarrow> js_string \<Rightarrow> json option list \<Rightarrow> ('s, unit) smoke_action" where
  "exercise api operator i token baseline =
     andthen (smoke_call api Stage_Suspend Http_Post (suspend_path i) 200 (Some (oc_adminToken operator))
         (Some (JObject [(units ''reason'', JString (units ''operational_hold''))]))) (\<lambda>_.
     andthen (suspended_checks api operator i token baseline) (\<lambda>_.
     andthen (smoke_call api Stage_Reactivate Http_Post (reactivate_path i) 200 (Some (oc_adminToken operator))
         (Some (JObject []))) (\<lambda>_.
     reactivated_checks api operator i token baseline)))"

definition start_fixture ::
  "'s smoke_transport \<Rightarrow> smoke_credentials \<Rightarrow> ('s, unit) smoke_action \<Rightarrow> js_string \<Rightarrow> smoke_start \<Rightarrow> ('s, unit) smoke_action" where
  "start_fixture api operator activating fixtureName start =
     andthen (smoke_call api Stage_Admin_Authentication Http_Get dashboard_path 200 (Some (oc_adminToken operator)) None) (\<lambda>_.
     case start of
       Start_Register fullName country industry \<Rightarrow>
         register_fixture api operator activating fixtureName fullName country industry
     | Start_Resume \<Rightarrow> resume_fixture api operator activating fixtureName)"

definition smoke_body ::
  "'s smoke_transport \<Rightarrow> smoke_credentials \<Rightarrow> ('s, unit) smoke_action \<Rightarrow> js_string \<Rightarrow> smoke_start \<Rightarrow> ('s, js_string) smoke_action" where
  "smoke_body api operator activating fixtureName start =
     andthen (start_fixture api operator activating fixtureName start) (\<lambda>_.
     andthen (identify_tenant api operator) (\<lambda>(i, token).
     andthen (check_fixture api operator fixtureName i token) (\<lambda>baseline.
     andthen (modify (\<lambda>s. s\<lparr>sm_suspensionAttempted := True\<rparr>)) (\<lambda>_.
     andthen (exercise api operator i token baseline) (\<lambda>_. return i)))))"

text \<open>After a failure: the fixture is read again, and reactivated if the test left it suspended.\<close>

definition recover_fixture ::
  "'s smoke_transport \<Rightarrow> smoke_credentials \<Rightarrow> js_string \<Rightarrow> js_string \<Rightarrow> ('s, unit) smoke_action" where
  "recover_fixture api operator fixtureName i =
     andthen (smoke_send api Http_Get (company_path i []) (Some (oc_adminToken operator)) None) (\<lambda>r.
     case r of
       None \<Rightarrow> throw Other_Error
     | Some latest \<Rightarrow>
     andthen (lift_result (result_bind (record_of (hp_body latest)) (\<lambda>detail. record_of (field ''company'' detail)))) (\<lambda>company.
     if hp_status latest \<noteq> 200 \<or> \<not> is_text fixtureName (field ''name'' company) then throw Other_Error
     else if is_text (units ''suspended'') (field ''platformStatus'' company)
         \<and> is_text (units ''operational_hold'') (field ''platformStatusReason'' company)
     then
       andthen (smoke_send api Http_Post (reactivate_path i) (Some (oc_adminToken operator)) (Some (JObject []))) (\<lambda>r.
       case r of
         None \<Rightarrow> throw Other_Error
       | Some p \<Rightarrow> if hp_status p \<noteq> 200 then throw Other_Error else smoke_progress Stage_Recovery)
     else if \<not> is_text (units ''active'') (field ''platformStatus'' company) then throw Other_Error
     else smoke_progress Stage_Recovery))"

definition known_failure :: "smoke_error \<Rightarrow> smoke_error" where
  "known_failure e = (case e of Other_Error \<Rightarrow> Cli_Error CLI_UNKNOWN | _ \<Rightarrow> e)"

definition runPlatformAdminSmokeTest ::
  "smoke_tools \<Rightarrow> 's smoke_transport \<Rightarrow> smoke_credentials \<Rightarrow> ('s, unit) smoke_action \<Rightarrow> js_string \<Rightarrow> smoke_start
    \<Rightarrow> ('s, js_string) smoke_action" where
  "runPlatformAdminSmokeTest T api operator activating fixtureName start s =
     (if \<not> ot_isEmail T (oc_email operator)
       \<or> (case start of
            Start_Register _ _ _ \<Rightarrow> \<not> validNewPassword (Some (oc_password operator))
          | Start_Resume \<Rightarrow> oc_password operator = [] \<or> length (oc_password operator) > 72)
       \<or> oc_adminToken operator = [] \<or> \<not> starts_with (units ''DataVault admin smoke '') fixtureName
      then (Inl invalid_smoke, s)
      else
        case smoke_body api operator activating fixtureName start
            (s\<lparr>sm_companyId := None, sm_suspensionAttempted := False\<rparr>) of
          (Inr companyId, t) \<Rightarrow> (Inr companyId, t)
        | (Inl e, t) \<Rightarrow>
            (case sm_companyId t of
               Some i \<Rightarrow>
                 if sm_suspensionAttempted t then
                   (case recover_fixture api operator fixtureName i t of
                      (Inl _, u) \<Rightarrow> (Inl (Smoke_Failure Stage_Recovery None True), u)
                    | (Inr _, u) \<Rightarrow> (Inl (known_failure e), u))
                 else (Inl (known_failure e), t)
             | None \<Rightarrow> (Inl (known_failure e), t)))"

text \<open>As the command runs it.\<close>

definition platformAdminSmokeTest ::
  "smoke_tools \<Rightarrow> 's smoke_transport \<Rightarrow> smoke_credentials \<Rightarrow> cli_failure + js_string \<Rightarrow> js_string
    \<Rightarrow> js_string \<Rightarrow> js_string \<Rightarrow> js_string \<Rightarrow> ('s, js_string) smoke_action" where
  "platformAdminSmokeTest T api operator answered fixtureName fullName country industry =
     runPlatformAdminSmokeTest T api operator (activateNormally T api answered) fixtureName
       (Start_Register fullName country industry)"

definition resumePlatformAdminSmokeTest ::
  "smoke_tools \<Rightarrow> 's smoke_transport \<Rightarrow> smoke_credentials \<Rightarrow> cli_failure + js_string \<Rightarrow> js_string
    \<Rightarrow> ('s, js_string) smoke_action" where
  "resumePlatformAdminSmokeTest T api operator answered fixtureName =
     runPlatformAdminSmokeTest T api operator (activateNormally T api answered) fixtureName Start_Resume"

end
