(* ===== verification/SmokeSafety.thy ===== *)
theory SmokeSafety
  imports SmokeTest
begin

text \<open>
  What a smoke test may send, for every server: requests that change something are the sign-up, the
  activation and the sign-in of the fixture, and then its suspension and reactivation.
\<close>

section \<open>Requests and answers\<close>

definition harmless :: "smoke_request \<Rightarrow> bool" where
  "harmless rq \<longleftrightarrow> hq_method rq = Http_Get
     \<or> hq_path rq \<in> {units ''/auth/sign-up'', units ''/auth/verify-account'', sign_in_path}"

definition suspension :: "smoke_credentials \<Rightarrow> js_string \<Rightarrow> smoke_request" where
  "suspension operator i = \<lparr>hq_method = Http_Post, hq_path = suspend_path i, hq_token = Some (oc_adminToken operator),
     hq_body = Some (JObject [(units ''reason'', JString (units ''operational_hold''))])\<rparr>"

definition reactivation :: "smoke_credentials \<Rightarrow> js_string \<Rightarrow> smoke_request" where
  "reactivation operator i = \<lparr>hq_method = Http_Post, hq_path = reactivate_path i,
     hq_token = Some (oc_adminToken operator), hq_body = Some (JObject [])\<rparr>"

definition company_request :: "smoke_credentials \<Rightarrow> js_string \<Rightarrow> smoke_request" where
  "company_request operator i = \<lparr>hq_method = Http_Get, hq_path = company_path i [],
     hq_token = Some (oc_adminToken operator), hq_body = None\<rparr>"

type_synonym smoke_exchange = "smoke_request \<times> smoke_response option"

text \<open>An answer that shows the fixture as nobody ever used it.\<close>

definition shows_pristine :: "smoke_credentials \<Rightarrow> js_string \<Rightarrow> js_string \<Rightarrow> smoke_exchange \<Rightarrow> bool" where
  "shows_pristine operator fixtureName i e \<longleftrightarrow> fst e = company_request operator i
     \<and> (case snd e of None \<Rightarrow> False
        | Some p \<Rightarrow> hp_status p = 200
            \<and> (case hp_body p of None \<Rightarrow> False | Some d \<Rightarrow> pristineFixture d fixtureName i (oc_email operator) True))"

text \<open>An answer by which the fixture is active: a reactivation that succeeded, or its status as read.\<close>

definition shows_active :: "js_string \<Rightarrow> smoke_response \<Rightarrow> bool" where
  "shows_active fixtureName p \<longleftrightarrow> (case body_field ''company'' (hp_body p) of None \<Rightarrow> False
     | Some c \<Rightarrow> is_text fixtureName (field ''name'' c) \<and> is_text (units ''active'') (field ''platformStatus'' c))"

definition restored :: "smoke_credentials \<Rightarrow> js_string \<Rightarrow> js_string \<Rightarrow> smoke_exchange \<Rightarrow> bool" where
  "restored operator fixtureName i e \<longleftrightarrow>
     (case snd e of None \<Rightarrow> False
      | Some p \<Rightarrow> hp_status p = 200
          \<and> (fst e = reactivation operator i \<or> fst e = company_request operator i \<and> shows_active fixtureName p))"

section \<open>What an action sends\<close>

text \<open>The flag says whether the company the test is about stays the same.\<close>

named_theorems emits_intros \<open>an action sends only such requests\<close>

definition emits :: "bool \<Rightarrow> (smoke_request \<Rightarrow> bool) \<Rightarrow> ('s, 'a) smoke_action \<Rightarrow> bool" where
  "emits fixed P m \<longleftrightarrow> (\<forall>s r t. m s = (r, t) \<longrightarrow> sm_suspensionAttempted t = sm_suspensionAttempted s
     \<and> (fixed \<longrightarrow> sm_companyId t = sm_companyId s) \<and> (\<exists>more. sm_log t = sm_log s @ more \<and> list_all (P \<circ> fst) more))"

lemma emitsD:
  assumes "emits fixed P m" "m s = (r, t)"
  obtains more where "sm_suspensionAttempted t = sm_suspensionAttempted s"
    "fixed \<longrightarrow> sm_companyId t = sm_companyId s" "sm_log t = sm_log s @ more" "list_all (P \<circ> fst) more"
  using assms unfolding emits_def by metis

lemma emits_pure [emits_intros]:
  "emits fixed P (return x)" "emits fixed P (throw e)" "emits fixed P (gets g)" "emits fixed P (lift_result q)" "emits fixed P (smoke_progress stage)"
  "emits False P (modify (\<lambda>s. s\<lparr>sm_companyId := c\<rparr>))" "emits fixed P (modify (\<lambda>s. s\<lparr>sm_registering := b\<rparr>))"
  by (auto simp: emits_def smoke_progress_def action_simps)

lemma emits_andthen [emits_intros]:
  assumes "emits fixed P m" "\<And>x. emits fixed P (f x)"
  shows "emits fixed P (andthen m f)"
  unfolding emits_def
proof (intro allI impI)
  fix s r t assume "andthen m f s = (r, t)"
  then consider e where "m s = (Inl e, t)" | x u where "m s = (Inr x, u)" "f x u = (r, t)"
    by (cases r) (auto simp: andthen_Inl_iff andthen_Inr_iff)
  then show "sm_suspensionAttempted t = sm_suspensionAttempted s
     \<and> (fixed \<longrightarrow> sm_companyId t = sm_companyId s) \<and> (\<exists>more. sm_log t = sm_log s @ more \<and> list_all (P \<circ> fst) more)"
  proof cases
    case 1
    then show ?thesis using assms(1) unfolding emits_def by blast
  next
    case 2
    obtain more where "sm_suspensionAttempted u = sm_suspensionAttempted s" "fixed \<longrightarrow> sm_companyId u = sm_companyId s"
      "sm_log u = sm_log s @ more" "list_all (P \<circ> fst) more" using emitsD [OF assms(1) 2(1)] .
    moreover obtain rest where "sm_suspensionAttempted t = sm_suspensionAttempted u"
      "fixed \<longrightarrow> sm_companyId t = sm_companyId u" "sm_log t = sm_log u @ rest" "list_all (P \<circ> fst) rest"
      using emitsD [OF assms(2) 2(2)] .
    ultimately show ?thesis by (intro conjI exI [of _ "more @ rest"]) simp_all
  qed
qed

lemma emits_if [emits_intros]: "(b \<Longrightarrow> emits fixed P m) \<Longrightarrow> (\<not> b \<Longrightarrow> emits fixed P m') \<Longrightarrow> emits fixed P (if b then m else m')"
  by simp

lemma emits_option [emits_intros]:
  "emits fixed P m \<Longrightarrow> (\<And>x. emits fixed P (f x)) \<Longrightarrow> emits fixed P (case v of None \<Rightarrow> m | Some x \<Rightarrow> f x)"
  by (cases v) simp_all

lemma emits_send:
  "P \<lparr>hq_method = m, hq_path = path, hq_token = token, hq_body = body\<rparr> \<Longrightarrow> emits fixed P (smoke_send api m path token body)"
  by (auto simp: emits_def smoke_send_def Let_def split: prod.splits)

lemma emits_call:
  "P \<lparr>hq_method = m, hq_path = path, hq_token = token, hq_body = body\<rparr> \<Longrightarrow>
     emits fixed P (smoke_call api stage m path status token body)"
  unfolding smoke_call_def by (intro emits_intros emits_send)

lemma harmless_requests [simp]:
  "harmless \<lparr>hq_method = Http_Get, hq_path = path, hq_token = token, hq_body = body\<rparr>"
  "harmless \<lparr>hq_method = m, hq_path = sign_in_path, hq_token = token, hq_body = body\<rparr>"
  "harmless \<lparr>hq_method = m, hq_path = units ''/auth/sign-up'', hq_token = token, hq_body = body\<rparr>"
  "harmless \<lparr>hq_method = m, hq_path = units ''/auth/verify-account'', hq_token = token, hq_body = body\<rparr>"
  by (simp_all add: harmless_def)

lemma emits_mono: "emits fixed P m \<Longrightarrow> (\<And>rq. P rq \<Longrightarrow> Q rq) \<Longrightarrow> emits fixed Q m"
  unfolding emits_def by (metis (mono_tags, lifting) comp_apply list.pred_mono_strong)

lemma smoke_send_log:
  obtains answer u where "smoke_send api m path token body s = (Inr answer, u)"
    "sm_log u = sm_log s @ [(\<lparr>hq_method = m, hq_path = path, hq_token = token, hq_body = body\<rparr>, answer)]"
    "sm_suspensionAttempted u = sm_suspensionAttempted s" "sm_companyId u = sm_companyId s"
  by (cases "api \<lparr>hq_method = m, hq_path = path, hq_token = token, hq_body = body\<rparr> (sm_server s)")
     (simp add: smoke_send_def)

text \<open>The one smoke_exchange of a call, and its answer when the call returns.\<close>

lemma smoke_call_log:
  assumes "smoke_call api stage m path status token body s = (r, t)"
  shows "\<exists>answer. sm_log t = sm_log s @ [(\<lparr>hq_method = m, hq_path = path, hq_token = token, hq_body = body\<rparr>, answer)]
     \<and> sm_suspensionAttempted t = sm_suspensionAttempted s \<and> sm_companyId t = sm_companyId s
     \<and> (case r of Inl e \<Rightarrow> True | Inr b \<Rightarrow> answer = Some \<lparr>hp_status = status, hp_body = b\<rparr>)"
proof -
  obtain answer u where sent: "smoke_send api m path token body s = (Inr answer, u)"
    "sm_log u = sm_log s @ [(\<lparr>hq_method = m, hq_path = path, hq_token = token, hq_body = body\<rparr>, answer)]"
    "sm_suspensionAttempted u = sm_suspensionAttempted s" "sm_companyId u = sm_companyId s"
    by (rule smoke_send_log)
  show ?thesis
    using assms sent
    by (cases answer)
       (auto simp: smoke_call_def andthen_def throw_def return_def smoke_progress_def modify_def split: if_splits)
qed

section \<open>The parts of a test\<close>

lemma activation_harmless: "emits fixed harmless (activateNormally T api answered)"
  unfolding activateNormally_def activateSmokeCompany_def
  by (cases answered) (simp_all, (intro emits_intros emits_send; simp)+)

lemma start_harmless:
  assumes "emits False harmless activating"
  shows "emits False harmless (start_fixture api operator activating fixtureName start)"
proof -
  have "emits False harmless (resume_fixture api operator activating fixtureName)"
    unfolding resume_fixture_def find_fixture_def
    by (auto intro!: emits_intros emits_call assms simp: Let_def split: option.splits)
  moreover have "emits False harmless (register_fixture api operator activating fixtureName a b c)" for a b c
    unfolding register_fixture_def by (intro emits_intros emits_call assms) simp
  ultimately show ?thesis unfolding start_fixture_def
    by (intro emits_intros emits_call) (auto split: smoke_start.splits)
qed

lemma identify_harmless: "emits False harmless (identify_tenant api operator)"
  unfolding identify_tenant_def by (intro emits_intros emits_call) simp_all

lemma identify_company:
  "identify_tenant api operator s = (Inr (i, token), t) \<Longrightarrow> sm_companyId t = Some i"
  by (auto simp: identify_tenant_def action_simps)

lemma check_harmless: "emits fixed harmless (check_fixture api operator fixtureName i token)"
  unfolding check_fixture_def by (intro emits_intros emits_call) simp_all

lemma record_of_Inr: "record_of v = Inr x \<longleftrightarrow> v = Some x \<and> (\<exists>fs. x = JObject fs)"
  by (auto simp: record_of_def split: option.splits json.splits)

lemma check_pristine:
  assumes "check_fixture api operator fixtureName i token s = (Inr baseline, t)"
  shows "\<exists>more. sm_log t = sm_log s @ more \<and> list_ex (shows_pristine operator fixtureName i) more
    \<and> list_all (harmless \<circ> fst) more" "sm_companyId t = sm_companyId s"
proof -
  obtain x u body v where calls:
    "smoke_call api Stage_Tenant_Admin_Denied Http_Get dashboard_path 401 (Some token) None s = (Inr x, u)"
    "smoke_call api Stage_Fixture_Safety Http_Get (company_path i []) 200 (Some (oc_adminToken operator)) None u
       = (Inr body, v)"
    and rest: "v = t" "\<exists>detail. body = Some detail \<and> pristineFixture detail fixtureName i (oc_email operator) True"
    using assms by (auto simp: check_fixture_def action_simps record_of_Inr split: if_splits)
  from smoke_call_log [OF calls(1)] smoke_call_log [OF calls(2)] rest
  show "sm_companyId t = sm_companyId s"
    "\<exists>more. sm_log t = sm_log s @ more \<and> list_ex (shows_pristine operator fixtureName i) more
      \<and> list_all (harmless \<circ> fst) more"
    by (auto simp: shows_pristine_def company_request_def)
qed

definition after_suspension :: "smoke_credentials \<Rightarrow> js_string \<Rightarrow> smoke_request \<Rightarrow> bool" where
  "after_suspension operator i rq \<longleftrightarrow> harmless rq \<or> rq = reactivation operator i"

lemma suspended_checks_harmless: "emits fixed harmless (suspended_checks api operator i token baseline)"
  unfolding suspended_checks_def preserved_def by (intro emits_intros emits_call) simp_all

lemma reactivated_checks_harmless: "emits fixed harmless (reactivated_checks api operator i token baseline)"
  unfolding reactivated_checks_def preserved_def by (intro emits_intros emits_call) simp_all

text \<open>The exercise sends the suspension, then harmless requests and the reactivation.\<close>

lemma exercise_log:
  assumes "exercise api operator i token baseline s = (r, t)"
  shows "\<exists>answer more. sm_log t = sm_log s @ (suspension operator i, answer) # more
     \<and> list_all (after_suspension operator i \<circ> fst) more \<and> sm_suspensionAttempted t = sm_suspensionAttempted s
     \<and> sm_companyId t = sm_companyId s \<and> (case r of Inl e \<Rightarrow> True | Inr _ \<Rightarrow> list_ex (restored operator fixtureName i) more)"
proof -
  let ?suspend = "smoke_call api Stage_Suspend Http_Post (suspend_path i) 200 (Some (oc_adminToken operator))
         (Some (JObject [(units ''reason'', JString (units ''operational_hold''))]))"
  let ?reactivate = "smoke_call api Stage_Reactivate Http_Post (reactivate_path i) 200 (Some (oc_adminToken operator))
         (Some (JObject []))"
  let ?rest = "andthen (suspended_checks api operator i token baseline) (\<lambda>_. andthen ?reactivate (\<lambda>_.
     reactivated_checks api operator i token baseline))"
  have weaker: "emits True (after_suspension operator i) m" if "emits True harmless m" for m :: "('a, 'b) smoke_action"
    using that by (rule emits_mono) (simp add: after_suspension_def)
  have rest: "emits True (after_suspension operator i) ?rest"
    by (intro emits_andthen emits_call weaker suspended_checks_harmless reactivated_checks_harmless)
       (simp add: after_suspension_def reactivation_def)
  obtain q u where q: "?suspend s = (q, u)" by fastforce
  obtain answer where u: "sm_log u = sm_log s @ [(suspension operator i, answer)]"
    "sm_suspensionAttempted u = sm_suspensionAttempted s" "sm_companyId u = sm_companyId s"
    using smoke_call_log [OF q] by (auto simp: suspension_def)
  show ?thesis
  proof (cases q)
    case (Inl e)
    then have "r = Inl e" "t = u" using assms q by (auto simp: exercise_def andthen_def)
    then show ?thesis using u by (intro exI [of _ answer] exI [of _ "[]"]) simp
  next
    case (Inr b)
    then have run: "?rest u = (r, t)" using assms q by (simp add: exercise_def andthen_def)
    obtain more where more: "sm_suspensionAttempted t = sm_suspensionAttempted u" "sm_log t = sm_log u @ more"
      "sm_companyId t = sm_companyId u" "list_all (after_suspension operator i \<circ> fst) more"
      using emitsD [OF rest run] by metis
    moreover have "list_ex (restored operator fixtureName i) more" if returned: "r = Inr y" for y
    proof -
      obtain x v z w where parts: "suspended_checks api operator i token baseline u = (Inr x, v)"
        "?reactivate v = (Inr z, w)" "reactivated_checks api operator i token baseline w = (Inr y, t)"
        using run returned by (auto simp: andthen_Inr_iff)
      obtain m1 where "sm_log v = sm_log u @ m1" using emitsD [OF suspended_checks_harmless [of False] parts(1)] .
      moreover obtain m2 where "sm_log t = sm_log w @ m2" using emitsD [OF reactivated_checks_harmless [of False] parts(3)] .
      ultimately have "more = m1 @ (reactivation operator i, Some \<lparr>hp_status = 200, hp_body = z\<rparr>) # m2"
        using smoke_call_log [OF parts(2)] more(2) by (auto simp: reactivation_def)
      then show ?thesis by (simp add: restored_def)
    qed
    ultimately show ?thesis using u by (intro exI [of _ answer] exI [of _ more]) (auto split: sum.splits)
  qed
qed

lemma recover_emits: "emits True (after_suspension operator i) (recover_fixture api operator fixtureName i)"
  unfolding recover_fixture_def
  by (intro emits_intros emits_send) (simp_all add: after_suspension_def reactivation_def)

lemma recover_restores:
  assumes "recover_fixture api operator fixtureName i s = (Inr (), t)"
  shows "\<exists>more. sm_log t = sm_log s @ more \<and> list_ex (restored operator fixtureName i) more"
proof -
  obtain r u where sent: "smoke_send api Http_Get (company_path i []) (Some (oc_adminToken operator)) None s = (Inr r, u)"
    and u: "sm_log u = sm_log s @ [(company_request operator i, r)]"
    unfolding company_request_def by (rule smoke_send_log)
  obtain q v where again: "smoke_send api Http_Post (reactivate_path i) (Some (oc_adminToken operator)) (Some (JObject [])) u
      = (Inr q, v)" and v: "sm_log v = sm_log u @ [(reactivation operator i, q)]"
    unfolding reactivation_def by (rule smoke_send_log)
  show ?thesis
    using assms sent again u v
    by (auto simp: recover_fixture_def andthen_def lift_result_def result_bind_def record_of_def throw_def
        smoke_progress_def modify_def restored_def shows_active_def body_field_def
        split: option.splits sum.splits json.splits if_splits)
qed

section \<open>The promise\<close>

definition only_harmless :: "smoke_exchange list \<Rightarrow> bool" where
  "only_harmless = list_all (harmless \<circ> fst)"

text \<open>A suspension of a fixture that had just been seen pristine, and nothing after it but the reactivation.\<close>

definition careful_suspension ::
  "smoke_credentials \<Rightarrow> js_string \<Rightarrow> js_string \<Rightarrow> smoke_exchange list \<Rightarrow> smoke_exchange list \<Rightarrow> bool" where
  "careful_suspension operator fixtureName i before after \<longleftrightarrow>
     only_harmless before \<and> list_ex (shows_pristine operator fixtureName i) before
     \<and> list_all (after_suspension operator i \<circ> fst) after"

lemma smoke_body_log:
  assumes activating: "emits False harmless activating"
    and run: "smoke_body api operator activating fixtureName start s = (r, t)"
    and fresh: "\<not> sm_suspensionAttempted s"
  shows "(isl r \<and> \<not> sm_suspensionAttempted t \<and> (\<exists>more. sm_log t = sm_log s @ more \<and> only_harmless more))
    \<or> (\<exists>i before answer after. sm_log t = sm_log s @ before @ (suspension operator i, answer) # after
        \<and> careful_suspension operator fixtureName i before after
        \<and> sm_suspensionAttempted t \<and> sm_companyId t = Some i
        \<and> (isl r \<or> r = Inr i \<and> list_ex (restored operator fixtureName i) after))"
proof -
  define prepare where "prepare = andthen (start_fixture api operator activating fixtureName start)
     (\<lambda>_. identify_tenant api operator)"
  have prepares: "emits False harmless prepare"
    unfolding prepare_def by (intro emits_andthen start_harmless activating identify_harmless)
  have body: "smoke_body api operator activating fixtureName start = andthen prepare (\<lambda>(i, token).
       andthen (check_fixture api operator fixtureName i token) (\<lambda>baseline.
       andthen (modify (\<lambda>s. s\<lparr>sm_suspensionAttempted := True\<rparr>)) (\<lambda>_.
       andthen (exercise api operator i token baseline) (\<lambda>_. return i))))"
    by (rule ext) (simp add: smoke_body_def prepare_def andthen_def split: prod.splits sum.splits)
  obtain q u where q: "prepare s = (q, u)" by fastforce
  obtain m1 where m1: "sm_suspensionAttempted u = sm_suspensionAttempted s" "sm_log u = sm_log s @ m1"
    "list_all (harmless \<circ> fst) m1" using emitsD [OF prepares q] .
  show ?thesis
  proof (cases q)
    case (Inl e)
    then have "r = Inl e" "t = u" using run q unfolding body by (simp_all add: andthen_def)
    then show ?thesis using m1 fresh by (auto simp: only_harmless_def)
  next
    case (Inr it)
    obtain i token where it: "it = (i, token)" by fastforce
    have company: "sm_companyId u = Some i"
      using q Inr it by (auto simp: prepare_def andthen_Inr_iff dest: identify_company)
    obtain c v where c: "check_fixture api operator fixtureName i token u = (c, v)" by fastforce
    obtain m2 where m2: "sm_suspensionAttempted v = sm_suspensionAttempted u" "sm_log v = sm_log u @ m2"
      "list_all (harmless \<circ> fst) m2" using emitsD [OF check_harmless [of False] c] .
    show ?thesis
    proof (cases c)
      case (Inl e)
      then have "r = Inl e" "t = v" using run q c \<open>q = Inr it\<close> it unfolding body by (simp_all add: andthen_def)
      then show ?thesis using m1 m2 fresh by (auto simp: only_harmless_def)
    next
      case (Inr baseline)
      have seen: "list_ex (shows_pristine operator fixtureName i) m2" "sm_companyId v = sm_companyId u"
        using check_pristine [OF c [unfolded Inr]] m2(2) by auto
      let ?v = "v\<lparr>sm_suspensionAttempted := True\<rparr>"
      obtain x w where x: "exercise api operator i token baseline ?v = (x, w)" by fastforce
      have ends: "t = w" "r = (case x of Inl e \<Rightarrow> Inl e | Inr _ \<Rightarrow> Inr i)"
        using run q c x \<open>q = Inr it\<close> it Inr unfolding body
        by (auto simp: andthen_def modify_def return_def split: sum.splits)
      obtain answer more where more: "sm_log w = sm_log v @ (suspension operator i, answer) # more"
        "list_all (after_suspension operator i \<circ> fst) more" "sm_suspensionAttempted w" "sm_companyId w = sm_companyId v"
        "case x of Inl e \<Rightarrow> True | Inr _ \<Rightarrow> list_ex (restored operator fixtureName i) more"
        using exercise_log [OF x, of fixtureName] by auto
      have "sm_log t = sm_log s @ (m1 @ m2) @ (suspension operator i, answer) # more"
        using more(1) m1(2) m2(2) ends(1) by simp
      moreover have "careful_suspension operator fixtureName i (m1 @ m2) more"
        using m1(3) m2(3) seen more(2) by (simp add: careful_suspension_def only_harmless_def)
      moreover have "sm_suspensionAttempted t" "sm_companyId t = Some i" using more ends seen company by simp_all
      moreover have "isl r \<or> r = Inr i \<and> list_ex (restored operator fixtureName i) more"
        using more(5) ends(2) by (cases x) simp_all
      ultimately show ?thesis by blast
    qed
  qed
qed

text \<open>
  C25. A smoke test cleans up after itself, whatever the server answers and whichever answers are lost.
  Either all it sends are reads, the sign-up, the activation and the sign-in of its own tenant; or it
  sends one suspension, of a company it has just read as its unused fixture, followed by nothing but
  harmless requests and the reactivation of that company - and then the company was reactivated or
  read as active again, or the test reports that it must be reactivated by hand.
\<close>

theorem smoke_test_restores:
  "case runPlatformAdminSmokeTest T api operator (activateNormally T api answered) fixtureName start s of (r, t) \<Rightarrow>
     (\<exists>more. sm_log t = sm_log s @ more \<and> only_harmless more \<and> isl r)
     \<or> (\<exists>i before answer after. sm_log t = sm_log s @ before @ (suspension operator i, answer) # after
         \<and> careful_suspension operator fixtureName i before after
         \<and> (r = Inl (Smoke_Failure Stage_Recovery None True) \<or> list_ex (restored operator fixtureName i) after))"
proof -
  let ?activating = "activateNormally T api answered"
  let ?s = "s\<lparr>sm_companyId := None, sm_suspensionAttempted := False\<rparr>"
  obtain r t where run: "runPlatformAdminSmokeTest T api operator ?activating fixtureName start s = (r, t)" by fastforce
  obtain q u where q: "smoke_body api operator ?activating fixtureName start ?s = (q, u)" by fastforce
  note body = smoke_body_log [OF activation_harmless q]
  show ?thesis
  proof (cases "r = Inl invalid_smoke \<and> t = s")
    case True
    then show ?thesis unfolding run by (simp add: only_harmless_def)
  next
    case False
    then have ends: "(case q of Inr j \<Rightarrow> (Inr j, u) | Inl e \<Rightarrow>
            (case sm_companyId u of
               Some i \<Rightarrow>
                 if sm_suspensionAttempted u then
                   (case recover_fixture api operator fixtureName i u of
                      (Inl _, w) \<Rightarrow> (Inl (Smoke_Failure Stage_Recovery None True), w)
                    | (Inr _, w) \<Rightarrow> (Inl (known_failure e), w))
                 else (Inl (known_failure e), u)
             | None \<Rightarrow> (Inl (known_failure e), u))) = (r, t)"
      using run q unfolding runPlatformAdminSmokeTest_def by (auto split: if_splits sum.splits)
    from body consider (harmless) more where "isl q" "\<not> sm_suspensionAttempted u" "sm_log u = sm_log s @ more" "only_harmless more"
      | (suspended) i before answer after where "sm_log u = sm_log s @ before @ (suspension operator i, answer) # after"
        "careful_suspension operator fixtureName i before after" "sm_suspensionAttempted u" "sm_companyId u = Some i"
        "isl q \<or> q = Inr i \<and> list_ex (restored operator fixtureName i) after"
      by auto
    then show ?thesis
    proof cases
      case harmless
      then have "t = u \<and> isl r" using ends by (cases q; cases "sm_companyId u") auto
      then show ?thesis unfolding run using harmless by auto
    next
      case suspended
      show ?thesis
      proof (cases q)
        case (Inr j)
        then show ?thesis unfolding run using suspended ends by auto
      next
        case (Inl e)
        obtain x w where x: "recover_fixture api operator fixtureName i u = (x, w)" by fastforce
        obtain more where more: "sm_log w = sm_log u @ more" "list_all (after_suspension operator i \<circ> fst) more"
          using emitsD [OF recover_emits x] .
        have rt: "t = w" "r = (case x of Inl _ \<Rightarrow> Inl (Smoke_Failure Stage_Recovery None True) | Inr _ \<Rightarrow> Inl (known_failure e))"
          using ends Inl suspended(3,4) x by (auto split: sum.splits)
        have "sm_log t = sm_log s @ before @ (suspension operator i, answer) # (after @ more)"
          using suspended(1) more(1) rt(1) by simp
        moreover have "careful_suspension operator fixtureName i before (after @ more)"
          using suspended(2) more(2) by (simp add: careful_suspension_def)
        moreover have "r = Inl (Smoke_Failure Stage_Recovery None True) \<or> list_ex (restored operator fixtureName i) (after @ more)"
        proof (cases x)
          case (Inr y)
          then show ?thesis using recover_restores [of api operator fixtureName i u w] x more(1) by auto
        qed (use rt in simp)
        ultimately show ?thesis unfolding run prod.case by blast
      qed
    qed
  qed
qed

end
