(* ===== verification/Spec2Isabelle.thy ===== *)
theory Spec2Isabelle
  imports Plans Downgrade FileValidation Files Invitations AccountSafety UsageDelivery PaymentIsolation
    GuardExamples AssistantExamples AdminExamples Patterns Detectors Packages PackageRoundtrip Workbook Redaction
    GuardChild JsonRoundtrip WorkbookSafety RedactionSafety RedactionExamples Environment EnvironmentSafety
    Maintenance MaintenanceSafety MaintenanceExamples GuardBoundary HiddenPrompt
    SmokeTest SmokeSafety
begin

text \<open>
  \<^bold>\<open>DataVault back end.\<close> A multi-tenant file vault: companies register and activate, owners
  invite employees, everybody uploads spreadsheets within a plan's quota, paid plans are managed by
  Stripe, and a data guard scans and redacts stored workbooks. The server (\<open>src/src\<close>, TypeScript on
  NestJS and MongoDB) is modelled here as functions on one shared state.

  \<^bold>\<open>How the model reads.\<close> The state is the record \<open>world\<close> of \<open>Domain\<close>: one list of documents per
  collection, the objects of the private bucket and the mails sent. A handler is a function from a
  state to a result - a value or an \<open>error\<close> - and a state (\<open>Prelude\<close>); sequencing stops at the first
  error. An operation inside a database transaction keeps the old state when it fails, and where the
  code looks at an uncertain commit the outcome of the commit is an argument (\<open>commit_outcome\<close>).
  Identifiers are natural numbers, dates are milliseconds as integers, texts are character lists.
  What a handler draws from outside - the time, fresh identifiers and tokens, whether a mail or an
  upload went through - is an argument. SHA-256, bcrypt, JWT, Unicode normalisation, the S3 client,
  Stripe, the ZIP and XML libraries, the URL parser and the recognisers of e-mail addresses, phone
  numbers and the like are not in the repository: they are arguments too, with what is needed of
  them stated as a hypothesis where a theorem needs it.

  \<^bold>\<open>The theories.\<close>
  \<^item> \<open>Prelude\<close>: the handler combinators and their rules, lists updated like collections
    (\<open>updateOne\<close>, \<open>countDocuments\<close>), and facts on lists, options and words used throughout.
  \<^item> \<open>Domain\<close>: enumerations, records of the documents, the errors with their HTTP classes, the
    state, identifiers and the JSON texts that are hashed.
  \<^item> \<open>Interfaces\<close>: the contracts components rely on, as locales - a quota that admits work before it
    is done, a token that can be spent once, and a lease that only its holder can write under. Each is
    interpreted on the model's operations where these are defined: seats and stored files; the tokens
    of invitations, resets, activation, Google sign-in and administrators' setup; the leases of
    payments, of guard jobs and of conversations.
  \<^item> \<open>Plans\<close>: \<open>plans/plan.constants.ts\<close>, \<open>plans/plans.service.ts\<close>.
  \<^item> \<open>Calendar\<close>, \<open>BillingPeriod\<close>: UTC dates of the language and \<open>subscriptions/billing-period.ts\<close>;
    periods of an anchor contain their date and tile time.
  \<^item> \<open>Billing\<close>: \<open>subscriptions/billing.service.ts\<close>; totals add up, and overage does not depend on how
    uploads are split.
  \<^item> \<open>PaymentPolicy\<close>: \<open>payments/payment-policy.ts\<close>, the constants, and the metered usage an upload
    enqueues.
  \<^item> \<open>Subscriptions\<close>: \<open>subscriptions/subscriptions.service.ts\<close>, plan changes without Stripe.
  \<^item> \<open>Entitlements\<close>: \<open>subscriptions/entitlements.service.ts\<close>; the quote agrees with what is recorded,
    the ledger of a period stays consistent.
  \<^item> \<open>Downgrade\<close>: \<open>subscriptions/downgrade-cleanup.service.ts\<close>; what was previewed is what is removed.
  \<^item> \<open>Storage\<close>, \<open>FileValidation\<close>, \<open>Files\<close>: \<open>aws-s3/aws-s3.service.ts\<close>, \<open>files/file-validation.ts\<close>,
    \<open>files/files.service.ts\<close>; validation, access, quota and the objects that uploads leave.
  \<^item> \<open>Invitations\<close>: \<open>invitations/invitations.service.ts\<close>; seats and single use.
  \<^item> \<open>Tokens\<close>, \<open>Accounts\<close>: \<open>auth/\<close>, \<open>users/\<close>, \<open>companies/\<close>, \<open>guards/is-auth.guard.ts\<close>,
    \<open>common/guards/roles.guard.ts\<close>; \<open>AccountSafety\<close>: round trips of registration and recovery, one-time
    tokens, sessions ended by a reset, over any sequence of account requests (\<open>account_step\<close>).
  \<^item> \<open>Stripe\<close>, \<open>Payments\<close>, \<open>PaymentSync\<close>: the requests made to Stripe and its answers (an argument,
    \<open>stripe_api\<close>, that may keep a state of its own), \<open>payments/payments.service.ts\<close>,
    \<open>payments/payment-sync-failure.ts\<close> and \<open>payments/payments.worker.ts\<close>. \<open>PaymentSafety\<close>,
    \<open>UsageDelivery\<close>, \<open>PaymentIsolation\<close>: leases exclude, stale operations write nothing, access follows
    payment, events are processed once, usage is marked only when it was sent, tenants are isolated.
  \<^item> \<open>GuardJobs\<close>, \<open>GuardWorker\<close>, \<open>GuardCopies\<close>: \<open>sensitive-data-guard/guard.service.ts\<close>,
    \<open>guard-access.service.ts\<close>, \<open>guard.worker.ts\<close> and \<open>guard-sanitization.service.ts\<close>. \<open>GuardSafety\<close>
    holds the specification - an abstract life cycle of a job, the invariant \<open>guard_ok\<close>, and the step
    relation \<open>guard_step\<close> in which all replicas interleave at the granularity of database writes -
    and the effect of each step; \<open>GuardPromises\<close> the theorems, among them that the invariant is kept,
    that jobs refine the life cycle, that every handler is a run of such steps, and that a worker
    whose lease was lost changes nothing; \<open>GuardExamples\<close> applies them to a concrete state.
  \<^item> \<open>Patterns\<close>: the regular expressions of the language, as a backtracking matcher. \<open>Detectors\<close>:
    \<open>sensitive-data-guard/detectors.ts\<close>; a payment card number typed into a cell is found, and the
    checksum notices every slip of one digit and all but one exchange of neighbours.
  \<^item> \<open>Packages\<close>: \<open>workbook/xlsx-preflight.ts\<close> and \<open>workbook/write-xlsx.ts\<close>, the reader of a ZIP library
    being an argument (\<open>archive_reader\<close>). \<open>PackageRoundtrip\<close>: what is written reads back part for part
    and is accepted as an upload.
  \<^item> \<open>Workbook\<close>: \<open>workbook/scan-workbook.ts\<close>, the handlers of the streaming parser as state machines
    over its events; the parser itself is an argument (\<open>sax\<close>). \<open>WorkbookSafety\<close>: a scan stays within
    its limits.
  \<^item> \<open>Redaction\<close>: \<open>workbook/sanitize-workbook.ts\<close>. \<open>RedactionSafety\<close>: the output reads back as the source
    with exactly the requested cells overwritten, and does not depend on what stood in them.
    \<open>RedactionExamples\<close> applies the theorems to a workbook of one cell.
  \<^item> \<open>GuardChild\<close>: \<open>guard.runner.ts\<close> and \<open>scan-child.ts\<close>, the two ends of the pipe to the process that
    parses; its output is what the scanner and the sanitiser of \<open>GuardWorker\<close> and \<open>GuardCopies\<close> yield.
    \<open>GuardBoundary\<close>: the boundary is transparent - through printing, parsing and the checks on both sides
    the caller gets what scanning in place would give.
  \<^item> \<open>Environment\<close>: \<open>config/environment.ts\<close>. \<open>EnvironmentSafety\<close>: ranges of an accepted configuration.
  \<^item> \<open>Maintenance\<close>: the clean-up of a company that never went past sign-up and the reset of Stripe test
    state (\<open>maintenance/\<close>), over the documents as stored. \<open>MaintenanceSafety\<close>: any change is exactly the
    intended one, under every confirmation, and leaves nothing to repeat. \<open>MaintenanceExamples\<close> applies
    the theorems of these two.
    \<open>HiddenPrompt\<close>: \<open>maintenance/hidden-prompt.ts\<close>, a state machine over typed characters that shows
    nothing of a secret.
    \<open>SmokeTest\<close>, \<open>SmokeSafety\<close>: \<open>maintenance/admin-smoke-test.service.ts\<close>, a client of a running server
    that may answer anything; a company it suspends is its own unused fixture and is active again in
    the end, or the failure says otherwise.
  \<^item> \<open>Statistics\<close>: \<open>statistics/statistics.service.ts\<close>, the figures of a company's dashboard.
  \<^item> \<open>Json\<close>, \<open>JsonRoundtrip\<close>, \<open>Providers\<close>: JSON texts as the language reads and writes them, and that
    what is printed is read back; the clients of the two model providers, the validation of their
    answers and the routing between them
    (\<open>ai/openrouter-client.service.ts\<close>, \<open>ai/gemini-client.service.ts\<close>, \<open>ai/chat-completion-response.ts\<close>,
    \<open>ai/ai-provider-router.service.ts\<close>). The provider is an argument that may answer anything.
  \<^item> \<open>Assistant\<close>, \<open>Conversations\<close>: \<open>ai/ai-tools.service.ts\<close> and \<open>ai/ai.service.ts\<close> - tools, the loop
    with the model, the lease of a conversation, storing and recovering an exchange. \<open>AssistantTools\<close>:
    a normalised completion is well formed, the loop and its requests are bounded, and what the model
    sees and answers is determined by the data of the actor's own company (a relational argument,
    \<open>determined\<close>). \<open>ConversationSafety\<close>: the invariant of conversations, messages and usage over
    all interleavings of database steps (\<open>assistant_step\<close>); a request is a run of such steps; it is
    answered exactly when its exchange is stored, also when the commit was not acknowledged.
    \<open>AssistantExamples\<close> applies the theorems.
  \<^item> \<open>Administration\<close>: the platform's administrators (\<open>admin/\<close>) - access requests, setup, signing
    in, recovery, the bootstrap and reset commands, the status of companies, the audit log - over the
    record \<open>platform\<close>, which holds the tenants' state. \<open>AdminSafety\<close>: every administrator comes from the
    bootstrap or an approved request, the log tells the status of every company, setup links work once,
    a reset ends sessions, a suspension locks a company out of the tenants' guard. \<open>AdminViews\<close>:
    dashboard, company detail and listings; pages show everything once, and the listing of a company's
    files depends on that company only. \<open>AdminExamples\<close> applies the theorems.

  \<^bold>\<open>How the parts meet.\<close> Uploads, copies and deletions (\<open>Files\<close>, \<open>GuardCopies\<close>) record usage through
  \<open>Entitlements\<close>, which reads the period of \<open>BillingPeriod\<close>, the price of \<open>Billing\<close> and the policy of
  \<open>PaymentPolicy\<close>, and enqueues usage that \<open>Payments\<close> delivers. Invitations and plan changes take seats
  through \<open>Entitlements\<close>. The guard's jobs read files through \<open>Files\<close> and repeat its access check at
  every step. The assistant's tools are the handlers of \<open>Accounts\<close>, \<open>Subscriptions\<close>, \<open>Statistics\<close> and
  \<open>Files\<close>, run for the actor; administrators change the status that the tenants' guard reads.

  \<^bold>\<open>Bounds and termination.\<close> All recursion is on lists or numbers; the XML reader, which feeds
  4096 bytes at a time, recurses on the length of the rest. The JSON parser alone takes fuel, two calls
  for each character of the text and two more, which is enough because every second call consumes a
  character. The loop with the model counts down the iterations the configuration allows. Where the
  code reads one page of Stripe results and looks at \<open>has_more\<close>, so does the model. JavaScript numbers are
  integers with the code's own checks for safe integers written out; the bytes of files are
  natural numbers, read as unsigned 8-, 16- and 32-bit fields the way the validator does.

  \<^bold>\<open>Not modelled.\<close> The entry points of the maintenance commands; e-mail delivery, health checks and the HTTP
  routing (glue over third-party frameworks); and the React front end. Starting the process that
  parses, its timer and its signals appear as the events its runner receives. The rounding of
  JavaScript's binary numbers is left out where JSON numbers, cell addresses and decimal settings are read: every number used is compared with
  bounds far below the first inexact one. The time of the
  last change is kept for conversations only. Counting and creating a conversation is one step.
  Timers, log output, HTTP rate limits and the isolation of database reads
  outside transactions are abstracted: a handler outside \<open>guard_step\<close>, \<open>account_step\<close> and \<open>assistant_step\<close> runs without
  interleaving, which the leases and transactions of the code are there to justify.
\<close>

end
